(* ===== verification/Prelude.thy ===== *)
theory Prelude
  imports Main "HOL-Library.Word"
begin

unbundle bit_operations_syntax

text \<open>
  Shared vocabulary of the development: the machine types of the C code, the results of
  operations that may abort or access memory out of bounds, bounds-checked reads and writes
  of a block of memory, and the generic lemmas on lists and words that the components use.

  A block of memory is a list. A read or write that leaves the block is undefined behaviour
  in C; here it is the value \<^theory_text>\<open>Inl OutOfBounds\<close>, so that memory safety is a
  provable property of a function: it never returns that value.
\<close>

section \<open>Machine types\<close>

type_synonym u8 = "8 word"
type_synonym u16 = "16 word"
type_synonym u32 = "32 word"
type_synonym u64 = "64 word"
type_synonym bytes = "u8 list"

section \<open>Results\<close>

text \<open>
  \<open>AssertFail\<close> is a failed \<^verbatim>\<open>assert\<close> or a call of \<^verbatim>\<open>abort\<close>, \<open>OutOfBounds\<close> an access
  outside of the object a pointer points into, \<open>NullDeref\<close> an access through a null pointer,
  \<open>UseAfterFree\<close> an access to an object that was released, \<open>Diverges\<close> a loop that does not end.
\<close>

datatype fault = AssertFail | OutOfBounds | NullDeref | UseAfterFree | Diverges

definition bindE :: "'e + 'a \<Rightarrow> ('a \<Rightarrow> 'e + 'b) \<Rightarrow> 'e + 'b" where
  "bindE m f = (case m of Inl e \<Rightarrow> Inl e | Inr x \<Rightarrow> f x)"

definition assertE :: "bool \<Rightarrow> fault + unit" where
  "assertE b = (if b then Inr () else Inl AssertFail)"

named_theorems res_simps \<open>rewriting of results: bind, assertions, bounds checks\<close>

lemma bindE_Inl [simp, res_simps]: "bindE (Inl e) f = Inl e"
  by (simp add: bindE_def)

lemma bindE_Inr [simp, res_simps]: "bindE (Inr x) f = f x"
  by (simp add: bindE_def)

lemma bindE_eq_Inr [res_simps]: "bindE m f = Inr y \<longleftrightarrow> (\<exists>x. m = Inr x \<and> f x = Inr y)"
  by (cases m) auto

lemma bindE_eq_Inl [res_simps]:
  "bindE m f = Inl e \<longleftrightarrow> m = Inl e \<or> (\<exists>x. m = Inr x \<and> f x = Inl e)"
  by (cases m) auto

lemma bindE_assoc: "bindE (bindE m f) g = bindE m (\<lambda>x. bindE (f x) g)"
  by (cases m) auto

lemma bindE_cong [fundef_cong]:
  "m = m' \<Longrightarrow> (\<And>x. m' = Inr x \<Longrightarrow> f x = g x) \<Longrightarrow> bindE m f = bindE m' g"
  by (cases m') auto

lemma assertE_True [simp, res_simps]: "b \<Longrightarrow> assertE b = Inr ()"
  by (simp add: assertE_def)

lemma assertE_False [simp, res_simps]: "\<not> b \<Longrightarrow> assertE b = Inl AssertFail"
  by (simp add: assertE_def)

lemma assertE_eq_Inr [res_simps]: "assertE b = Inr u \<longleftrightarrow> b"
  by (cases b) (auto simp: assertE_def)

lemma assertE_eq_Inl [res_simps]: "assertE b = Inl e \<longleftrightarrow> \<not> b \<and> e = AssertFail"
  by (auto simp: assertE_def)

section \<open>Blocks of memory\<close>

definition overlay :: "'a list \<Rightarrow> nat \<Rightarrow> 'a list \<Rightarrow> 'a list" where
  "overlay m off xs = take off m @ xs @ drop (off + length xs) m"

definition mem_read :: "'a list \<Rightarrow> nat \<Rightarrow> nat \<Rightarrow> fault + 'a list" where
  "mem_read m off n = (if off + n \<le> length m then Inr (take n (drop off m)) else Inl OutOfBounds)"

definition mem_write :: "'a list \<Rightarrow> nat \<Rightarrow> 'a list \<Rightarrow> fault + 'a list" where
  "mem_write m off xs =
     (if off + length xs \<le> length m then Inr (overlay m off xs) else Inl OutOfBounds)"

lemma mem_read_Inr [simp, res_simps]:
  "off + n \<le> length m \<Longrightarrow> mem_read m off n = Inr (take n (drop off m))"
  by (simp add: mem_read_def)

lemma mem_read_eq_Inr [res_simps]:
  "mem_read m off n = Inr xs \<longleftrightarrow> off + n \<le> length m \<and> xs = take n (drop off m)"
  by (auto simp: mem_read_def)

lemma mem_write_Inr [simp, res_simps]:
  "off + length xs \<le> length m \<Longrightarrow> mem_write m off xs = Inr (overlay m off xs)"
  by (simp add: mem_write_def)

lemma mem_write_eq_Inr [res_simps]:
  "mem_write m off xs = Inr m' \<longleftrightarrow> off + length xs \<le> length m \<and> m' = overlay m off xs"
  by (auto simp: mem_write_def)

lemma length_overlay [simp]: "off + length xs \<le> length m \<Longrightarrow> length (overlay m off xs) = length m"
  by (simp add: overlay_def)

lemma take_overlay_prefix [simp]:
  "n \<le> off \<Longrightarrow> off \<le> length m \<Longrightarrow> take n (overlay m off xs) = take n m"
  by (simp add: overlay_def)

lemma take_overlay_all [simp]:
  "off \<le> length m \<Longrightarrow> take (off + length xs) (overlay m off xs) = take off m @ xs"
  by (simp add: overlay_def)

lemma take_overlay_mid:
  "off \<le> n \<Longrightarrow> n \<le> off + length xs \<Longrightarrow> off \<le> length m \<Longrightarrow>
   take n (overlay m off xs) = take off m @ take (n - off) xs"
  by (cases "off = n") (auto simp: overlay_def min_def)

lemma drop_overlay [simp]:
  "off \<le> length m \<Longrightarrow> off + length xs \<le> n \<Longrightarrow> drop n (overlay m off xs) = drop n m"
  by (simp add: overlay_def min_def drop_Cons')

lemma overlay_Nil [simp]: "overlay m off [] = m"
  by (simp add: overlay_def)

lemma overlay_append:
  "off + length xs + length ys \<le> length m \<Longrightarrow>
   overlay (overlay m off xs) (off + length xs) ys = overlay m off (xs @ ys)"
  by (simp add: overlay_def add.assoc add.left_commute [of off] add.commute [of "length ys"])

lemma list_update_overlay: "i < length m \<Longrightarrow> m[i := x] = overlay m i [x]"
  by (simp add: overlay_def upd_conv_take_nth_drop)

lemma overlay_Cons:
  "i + length xs < length m \<Longrightarrow> overlay (m[i := x]) (Suc i) xs = overlay m i (x # xs)"
  using overlay_append [of i "[x]" xs m] by (simp add: list_update_overlay)

lemma overlay_snoc:
  "i + length xs < length m \<Longrightarrow> (overlay m i xs)[i + length xs := x] = overlay m i (xs @ [x])"
  using overlay_append [of i xs "[x]" m] by (simp add: list_update_overlay)

lemma overlay_exact: "length xs = length m \<Longrightarrow> overlay m 0 xs = xs"
  by (simp add: overlay_def)

text \<open>One element: an array read and an array store.\<close>

definition idx :: "'a list \<Rightarrow> nat \<Rightarrow> fault + 'a" where
  "idx xs i = (if i < length xs then Inr (xs ! i) else Inl OutOfBounds)"

definition upd :: "'a list \<Rightarrow> nat \<Rightarrow> 'a \<Rightarrow> fault + 'a list" where
  "upd xs i x = (if i < length xs then Inr (xs[i := x]) else Inl OutOfBounds)"

lemma idx_Inr [simp, res_simps]: "i < length xs \<Longrightarrow> idx xs i = Inr (xs ! i)"
  by (simp add: idx_def)

lemma idx_eq_Inr [res_simps]: "idx xs i = Inr x \<longleftrightarrow> i < length xs \<and> x = xs ! i"
  by (auto simp: idx_def)

lemma idx_out [simp]: "length xs \<le> i \<Longrightarrow> idx xs i = Inl OutOfBounds"
  by (simp add: idx_def)

lemma upd_Inr [simp, res_simps]: "i < length xs \<Longrightarrow> upd xs i x = Inr (xs[i := x])"
  by (simp add: upd_def)

lemma upd_eq_Inr [res_simps]: "upd xs i x = Inr ys \<longleftrightarrow> i < length xs \<and> ys = xs[i := x]"
  by (auto simp: upd_def)

text \<open>The sign of the C function \<^verbatim>\<open>memcmp\<close>: the first different bytes decide.\<close>

fun memcmp :: "bytes \<Rightarrow> bytes \<Rightarrow> int" where
  "memcmp (a # as) (b # bs) = (if a = b then memcmp as bs else if a < b then - 1 else 1)"
| "memcmp _ _ = 0"

lemma memcmp_eq_0: "length as = length bs \<Longrightarrow> memcmp as bs = 0 \<longleftrightarrow> as = bs"
  by (induction as bs rule: memcmp.induct) auto

lemma memcmp_swap: "length as = length bs \<Longrightarrow> memcmp bs as = - memcmp as bs"
  by (induction as bs rule: memcmp.induct) auto

section \<open>Lists\<close>

lemma take_drop_append:
  "take n (drop k xs) @ drop (k + n) xs = drop k xs"
  by (metis add.commute append_take_drop_id drop_drop)

lemma take_1_drop: "n < length xs \<Longrightarrow> take (Suc 0) (drop n xs) = [xs ! n]"
  by (simp add: take_Suc_conv_app_nth)

lemma last_take: "0 < n \<Longrightarrow> n \<le> length xs \<Longrightarrow> last (take n xs) = xs ! (n - 1)"
  by (subst last_conv_nth) (auto simp: min_def)

lemma take_eq_if_le: "i \<le> n \<Longrightarrow> n \<le> i \<Longrightarrow> take n xs = take i xs"
  by simp

text \<open>The bytes of a string of the source.\<close>

definition str :: "string \<Rightarrow> bytes" where
  "str s = map of_char s"

end
