(* ===== verification/Msg_Format.thy ===== *)
theory Msg_Format
  imports Prelude
begin

text \<open>
  Message formats: the field types of \<^verbatim>\<open>code/client/packets.h\<close>, the size functions of
  \<^verbatim>\<open>code/client/network.c\<close>, and what it means for a format to be well formed. A message has
  two representations: the packed bytes on the wire, and the unpacked C structure that the
  handlers of the client read.
\<close>

datatype msg_type =
    TYPE_MSG_HEADER | TYPE_AGENT_ID | TYPE_FLOAT | TYPE_VECT2 | TYPE_VECT3
  | TYPE_BYTE | TYPE_WORD | TYPE_DWORD | TYPE_BLOB | TYPE_STRING_16
  | TYPE_ARRAY_8 | TYPE_ARRAY_16 | TYPE_ARRAY_32 | TYPE_NESTED_STRUCT

text \<open>The member \<^verbatim>\<open>name\<close> of a field is only for debugging and is left out.\<close>

record msg_field =
  fd_type :: msg_type
  fd_param :: nat
  fd_size :: nat

record msg_format =
  mf_header :: nat
  mf_count :: nat
  mf_fields :: "msg_field list"
  mf_unpack_size :: nat

text \<open>
  A field as the tables write it, \<^verbatim>\<open>{TYPE_DWORD, 0}\<close>: C sets the members that the
  initialiser leaves out to zero, \<^verbatim>\<open>size\<close> among them.
\<close>

definition fld :: "msg_type \<Rightarrow> nat \<Rightarrow> msg_field" where
  "fld t p = \<lparr>fd_type = t, fd_param = p, fd_size = 0\<rparr>"

definition fmt :: "nat \<Rightarrow> nat \<Rightarrow> msg_field list \<Rightarrow> nat \<Rightarrow> msg_format" where
  "fmt h n fs s = \<lparr>mf_header = h, mf_count = n, mf_fields = fs, mf_unpack_size = s\<rparr>"

lemma fld_sel [simp]:
  "fd_type (fld t p) = t" "fd_param (fld t p) = p" "fd_size (fld t p) = 0"
  by (simp_all add: fld_def)

lemma fmt_sel [simp]:
  "mf_header (fmt h n fs s) = h" "mf_count (fmt h n fs s) = n"
  "mf_fields (fmt h n fs s) = fs" "mf_unpack_size (fmt h n fs s) = s"
  by (simp_all add: fmt_def)

section \<open>Sizes\<close>

fun get_element_size :: "msg_field \<Rightarrow> nat" where
  "get_element_size f = (case fd_type f of
     TYPE_MSG_HEADER \<Rightarrow> 2 | TYPE_AGENT_ID \<Rightarrow> 4 | TYPE_FLOAT \<Rightarrow> 4 | TYPE_VECT2 \<Rightarrow> 8 | TYPE_VECT3 \<Rightarrow> 12
   | TYPE_BYTE \<Rightarrow> 1 | TYPE_WORD \<Rightarrow> 2 | TYPE_DWORD \<Rightarrow> 4 | TYPE_BLOB \<Rightarrow> fd_param f
   | TYPE_STRING_16 \<Rightarrow> 2 | TYPE_ARRAY_8 \<Rightarrow> 1 | TYPE_ARRAY_16 \<Rightarrow> 2 | TYPE_ARRAY_32 \<Rightarrow> 4
   | TYPE_NESTED_STRUCT \<Rightarrow> 0)"

declare get_element_size.simps [simp del]

fun get_prefix_size :: "msg_type \<Rightarrow> nat" where
  "get_prefix_size TYPE_STRING_16 = 2"
| "get_prefix_size TYPE_ARRAY_8 = 2"
| "get_prefix_size TYPE_ARRAY_16 = 2"
| "get_prefix_size TYPE_ARRAY_32 = 2"
| "get_prefix_size TYPE_NESTED_STRUCT = 1"
| "get_prefix_size _ = 0"

text \<open>
  \<^verbatim>\<open>get_static_size\<close> is unused in the program. It counts a \<^verbatim>\<open>size_t\<close> (8 bytes) in front of
  strings and arrays, where \<open>unpack\<close> writes nothing or 4 bytes.
\<close>

fun get_static_size :: "msg_field \<Rightarrow> nat" where
  "get_static_size f = (case fd_type f of
     TYPE_MSG_HEADER \<Rightarrow> 2 | TYPE_AGENT_ID \<Rightarrow> 4 | TYPE_FLOAT \<Rightarrow> 4 | TYPE_VECT2 \<Rightarrow> 8 | TYPE_VECT3 \<Rightarrow> 12
   | TYPE_BYTE \<Rightarrow> 1 | TYPE_WORD \<Rightarrow> 2 | TYPE_DWORD \<Rightarrow> 4 | TYPE_BLOB \<Rightarrow> fd_param f
   | TYPE_STRING_16 \<Rightarrow> 2 * fd_param f + 8 | TYPE_ARRAY_8 \<Rightarrow> 1 * fd_param f + 8
   | TYPE_ARRAY_16 \<Rightarrow> 2 * fd_param f + 8 | TYPE_ARRAY_32 \<Rightarrow> 4 * fd_param f + 8
   | TYPE_NESTED_STRUCT \<Rightarrow> 0)"

text \<open>
  The size of the unpacked structure: a string is its characters, an array a 4-byte length and
  its elements, a nested array of structures a 4-byte length and the structures, whose members
  are all the fields after it. \<open>max_wire\<close> bounds the packed bytes, and \<open>unpack_bound\<close> the
  part of the buffer that \<open>unpack\<close> may write (it advances by the packed size of a nested row,
  which can exceed the size of the row's structure).
\<close>

fun is_nested :: "msg_field \<Rightarrow> bool" where
  "is_nested f \<longleftrightarrow> fd_type f = TYPE_NESTED_STRUCT"

fun is_array :: "msg_field \<Rightarrow> bool" where
  "is_array f \<longleftrightarrow> fd_type f \<in> {TYPE_ARRAY_8, TYPE_ARRAY_16, TYPE_ARRAY_32}"

definition static_count :: "msg_field \<Rightarrow> nat" where
  "static_count f = (if get_prefix_size (fd_type f) = 0 then 1 else fd_param f)"

definition flat_size :: "msg_field \<Rightarrow> nat" where
  "flat_size f = (if is_array f then 4 else 0) + static_count f * get_element_size f"

definition flat_wire :: "msg_field \<Rightarrow> nat" where
  "flat_wire f = get_prefix_size (fd_type f) + static_count f * get_element_size f"

fun struct_size :: "msg_field list \<Rightarrow> nat" where
  "struct_size [] = 0"
| "struct_size (f # fs) =
     (if is_nested f then 4 + fd_param f * struct_size fs else flat_size f + struct_size fs)"

fun max_wire :: "msg_field list \<Rightarrow> nat" where
  "max_wire [] = 0"
| "max_wire (f # fs) =
     (if is_nested f then 1 + fd_param f * max_wire fs else flat_wire f + max_wire fs)"

fun unpack_bound :: "msg_field list \<Rightarrow> nat" where
  "unpack_bound [] = 0"
| "unpack_bound (f # fs) =
     (if is_nested f then 4 + fd_param f * max (max_wire fs) (unpack_bound fs)
      else flat_size f + unpack_bound fs)"

text \<open>
  A well-formed list of fields: a parameter of a counted field fits its prefix, strings have
  room for a terminator, a nested structure is followed by at least one field, and structures do
  not nest twice.
\<close>

fun fields_ok :: "msg_field list \<Rightarrow> bool" where
  "fields_ok [] \<longleftrightarrow> True"
| "fields_ok (f # fs) \<longleftrightarrow>
     (if is_nested f then 0 < fd_param f \<and> fd_param f \<le> 255 \<and> fs \<noteq> [] \<and> \<not> list_ex is_nested fs \<and> fields_ok fs
      else fd_param f \<le> 65535 \<and> (fd_type f = TYPE_STRING_16 \<longrightarrow> 0 < fd_param f) \<and> fields_ok fs)"

text \<open>The rows of a nested structure of fixed-size members occupy as much packed as unpacked.\<close>

fun fixed_field :: "msg_field \<Rightarrow> bool" where
  "fixed_field f \<longleftrightarrow> get_prefix_size (fd_type f) = 0"

fun rows_fixed :: "msg_field list \<Rightarrow> bool" where
  "rows_fixed [] \<longleftrightarrow> True"
| "rows_fixed (f # fs) \<longleftrightarrow> (if is_nested f then list_all fixed_field fs else rows_fixed fs)"

text \<open>
  A format is consistent when its header is its index in the table, its first field is that
  header, its count is the number of fields and its unpack size is the size of the structure.
\<close>

definition format_ok :: "nat \<Rightarrow> msg_format \<Rightarrow> bool" where
  "format_ok i m \<longleftrightarrow> mf_header m = i \<and> mf_count m = length (mf_fields m) \<and>
     (case mf_fields m of [] \<Rightarrow> False | f # _ \<Rightarrow> fd_type f = TYPE_MSG_HEADER \<and> fd_param f = i) \<and>
     fields_ok (mf_fields m) \<and> struct_size (mf_fields m) = mf_unpack_size m"

fun table_ok :: "nat \<Rightarrow> msg_format list \<Rightarrow> bool" where
  "table_ok i [] \<longleftrightarrow> True"
| "table_ok i (m # ms) \<longleftrightarrow> format_ok i m \<and> table_ok (Suc i) ms"

lemma table_ok_nth: "table_ok i ms \<Longrightarrow> j < length ms \<Longrightarrow> format_ok (i + j) (ms ! j)"
proof (induction i ms arbitrary: j rule: table_ok.induct)
  case (2 i m ms)
  then show ?case by (cases j) fastforce+
qed simp

lemma table_ok_append:
  "table_ok i (ms @ ns) \<longleftrightarrow> table_ok i ms \<and> table_ok (i + length ms) ns"
  by (induction i ms rule: table_ok.induct) auto

lemma flat_size_fixed: "fixed_field f \<Longrightarrow> flat_size f = get_element_size f"
  by (cases "fd_type f") (auto simp: flat_size_def static_count_def)

lemma flat_wire_fixed: "fixed_field f \<Longrightarrow> flat_wire f = get_element_size f"
  by (simp add: flat_wire_def static_count_def)

lemma not_nested_prefix: "get_prefix_size (fd_type f) = 0 \<Longrightarrow> \<not> is_nested f"
  by auto

named_theorems packet_defs \<open>the field arrays of the format tables\<close>

lemmas bound_simps = flat_size_def flat_wire_def static_count_def get_element_size.simps

lemmas table_ok_simps = format_ok_def bound_simps

end
