(* ===== verification/Endian.thy ===== *)
theory Endian
  imports Prelude
begin

unbundle bit_operations_syntax

text \<open>
  Byte order: the decoders and encoders of \<^verbatim>\<open>code/common/endian.h\<close>. A decoder takes the
  memory from its pointer on and faults where it would read past the end of the object; an
  encoder returns the bytes it stores at its pointer. Each pair is shown to be inverse in
  both directions.
\<close>

fun be16dec :: "bytes \<Rightarrow> fault + u16" where
  "be16dec (p0 # p1 # _) = Inr (ucast (push_bit 8 (ucast p0 :: u32) OR ucast p1))"
| "be16dec _ = Inl OutOfBounds"

fun be32dec :: "bytes \<Rightarrow> fault + u32" where
  "be32dec (p0 # p1 # p2 # p3 # _) =
     Inr (push_bit 24 (ucast p0) OR push_bit 16 (ucast p1) OR push_bit 8 (ucast p2) OR ucast p3)"
| "be32dec _ = Inl OutOfBounds"

definition be64dec :: "bytes \<Rightarrow> fault + u64" where
  "be64dec p = bindE (be32dec p) (\<lambda>hi. bindE (be32dec (drop 4 p)) (\<lambda>lo.
     Inr (push_bit 32 (ucast hi) OR ucast lo)))"

fun le16dec :: "bytes \<Rightarrow> fault + u16" where
  "le16dec (p0 # p1 # _) = Inr (ucast (push_bit 8 (ucast p1 :: u32) OR ucast p0))"
| "le16dec _ = Inl OutOfBounds"

fun le32dec :: "bytes \<Rightarrow> fault + u32" where
  "le32dec (p0 # p1 # p2 # p3 # _) =
     Inr (push_bit 24 (ucast p3) OR push_bit 16 (ucast p2) OR push_bit 8 (ucast p1) OR ucast p0)"
| "le32dec _ = Inl OutOfBounds"

definition le64dec :: "bytes \<Rightarrow> fault + u64" where
  "le64dec p = bindE (le32dec (drop 4 p)) (\<lambda>hi. bindE (le32dec p) (\<lambda>lo.
     Inr (push_bit 32 (ucast hi) OR ucast lo)))"

definition be16enc :: "u16 \<Rightarrow> bytes" where
  "be16enc u = [ucast (drop_bit 8 u AND 0xff), ucast (u AND 0xff)]"

definition be32enc :: "u32 \<Rightarrow> bytes" where
  "be32enc u = [ucast (drop_bit 24 u AND 0xff), ucast (drop_bit 16 u AND 0xff),
                ucast (drop_bit 8 u AND 0xff), ucast (u AND 0xff)]"

definition be64enc :: "u64 \<Rightarrow> bytes" where
  "be64enc u = be32enc (ucast (drop_bit 32 u)) @ be32enc (ucast (u AND 0xffffffff))"

definition le16enc :: "u16 \<Rightarrow> bytes" where
  "le16enc u = [ucast (u AND 0xff), ucast (drop_bit 8 u AND 0xff)]"

definition le32enc :: "u32 \<Rightarrow> bytes" where
  "le32enc u = [ucast (u AND 0xff), ucast (drop_bit 8 u AND 0xff),
                ucast (drop_bit 16 u AND 0xff), ucast (drop_bit 24 u AND 0xff)]"

definition le64enc :: "u64 \<Rightarrow> bytes" where
  "le64enc u = le32enc (ucast (u AND 0xffffffff)) @ le32enc (ucast (drop_bit 32 u))"

section \<open>Lengths\<close>

lemma length_be16enc [simp]: "length (be16enc u) = 2" by (simp add: be16enc_def)
lemma length_be32enc [simp]: "length (be32enc u) = 4" by (simp add: be32enc_def)
lemma length_be64enc [simp]: "length (be64enc u) = 8" by (simp add: be64enc_def)
lemma length_le16enc [simp]: "length (le16enc u) = 2" by (simp add: le16enc_def)
lemma length_le32enc [simp]: "length (le32enc u) = 4" by (simp add: le32enc_def)
lemma length_le64enc [simp]: "length (le64enc u) = 8" by (simp add: le64enc_def)

section \<open>Round trips\<close>

lemma low_byte_masks:
  "(0xff :: u16) = mask 8" "(0xff :: u32) = mask 8" "(0xffffffff :: u64) = mask 32"
  by (simp_all add: mask_eq_exp_minus_1)

lemma no_bit_u8: "8 \<le> n \<Longrightarrow> bit (w :: u8) n \<longleftrightarrow> False"
  using bit_imp_le_length [of w n] by auto

lemma no_bit_u16: "16 \<le> n \<Longrightarrow> bit (w :: u16) n \<longleftrightarrow> False"
  using bit_imp_le_length [of w n] by auto

lemma no_bit_u32: "32 \<le> n \<Longrightarrow> bit (w :: u32) n \<longleftrightarrow> False"
  using bit_imp_le_length [of w n] by auto

lemma u32_eqI_bytes:
  assumes "\<And>n. n < 8 \<Longrightarrow> bit (a :: u32) n = bit b n"
    and "\<And>n. n < 8 \<Longrightarrow> bit a (8 + n) = bit b (8 + n)"
    and "\<And>n. n < 8 \<Longrightarrow> bit a (16 + n) = bit b (16 + n)"
    and "\<And>n. n < 8 \<Longrightarrow> bit a (24 + n) = bit b (24 + n)"
  shows "a = b"
proof (rule bit_word_eqI)
  fix n
  assume "n < LENGTH(32)"
  then consider "n < 8" | "8 \<le> n" "n < 16" | "16 \<le> n" "n < 24" | "24 \<le> n" "n < 32"
    by fastforce
  then show "bit a n = bit b n"
    using assms [of n] assms [of "n - 8"] assms [of "n - 16"] assms [of "n - 24"] by cases auto
qed

lemma u64_eqI_halves:
  assumes "\<And>n. n < 32 \<Longrightarrow> bit (a :: u64) n = bit b n"
    and "\<And>n. n < 32 \<Longrightarrow> bit a (32 + n) = bit b (32 + n)"
  shows "a = b"
proof (rule bit_word_eqI)
  fix n
  assume "n < LENGTH(64)"
  then consider "n < 32" | "32 \<le> n" "n < 64" by fastforce
  then show "bit a n = bit b n"
    using assms [of n] assms [of "n - 32"] by cases auto
qed

lemmas byte_bits = bit_eq_iff bit_simps low_byte_masks

lemma be16dec_be16enc [simp]: "be16dec (be16enc u @ r) = Inr u"
  unfolding be16enc_def low_byte_masks
  by (auto simp: bit_simps intro!: bit_word_eqI)

lemma le16dec_le16enc [simp]: "le16dec (le16enc u @ r) = Inr u"
  unfolding le16enc_def low_byte_masks
  by (auto simp: bit_simps intro!: bit_word_eqI)

lemma be32dec_be32enc [simp]: "be32dec (be32enc u @ r) = Inr u"
  unfolding be32enc_def low_byte_masks
  by (auto simp: bit_simps no_bit_u8 intro!: u32_eqI_bytes)

lemma le32dec_le32enc [simp]: "le32dec (le32enc u @ r) = Inr u"
  unfolding le32enc_def low_byte_masks
  by (auto simp: bit_simps no_bit_u8 intro!: u32_eqI_bytes)

lemma be64dec_be64enc [simp]: "be64dec (be64enc u @ r) = Inr u"
  by (auto simp: be64enc_def be64dec_def low_byte_masks bit_simps no_bit_u32 intro!: u64_eqI_halves)

lemma le64dec_le64enc [simp]: "le64dec (le64enc u @ r) = Inr u"
  by (auto simp: le64enc_def le64dec_def low_byte_masks bit_simps no_bit_u32 intro!: u64_eqI_halves)

lemma be16enc_be16dec: "be16dec [a, b] = Inr u \<Longrightarrow> be16enc u = [a, b]"
  unfolding be16enc_def low_byte_masks
  by (auto simp: bit_simps no_bit_u8 intro!: bit_word_eqI)

lemma le16enc_le16dec: "le16dec [a, b] = Inr u \<Longrightarrow> le16enc u = [a, b]"
  unfolding le16enc_def low_byte_masks
  by (auto simp: bit_simps no_bit_u8 intro!: bit_word_eqI)

lemma be32enc_be32dec: "be32dec [a, b, c, d] = Inr u \<Longrightarrow> be32enc u = [a, b, c, d]"
  unfolding be32enc_def low_byte_masks
  by (auto simp: bit_simps no_bit_u8 intro!: bit_word_eqI)

lemma le32enc_le32dec: "le32dec [a, b, c, d] = Inr u \<Longrightarrow> le32enc u = [a, b, c, d]"
  unfolding le32enc_def low_byte_masks
  by (auto simp: bit_simps no_bit_u8 intro!: bit_word_eqI)

text \<open>The number that bytes stand for, most significant byte first, as mbedtls reads and writes big numbers.\<close>

definition be_value :: "bytes \<Rightarrow> nat" where
  "be_value bs = foldl (\<lambda>v b. 256 * v + unat b) 0 bs"

lemma be_value_snoc [simp]: "be_value (bs @ [b]) = 256 * be_value bs + unat b"
  by (simp add: be_value_def)

lemma be_value_Nil [simp]: "be_value [] = 0"
  by (simp add: be_value_def)

fun be_bytes :: "nat \<Rightarrow> nat \<Rightarrow> bytes" where
  "be_bytes 0 v = []"
| "be_bytes (Suc n) v = be_bytes n (v div 256) @ [of_nat (v mod 256)]"

lemma length_be_bytes [simp]: "length (be_bytes n v) = n"
  by (induction n arbitrary: v) simp_all

lemma be_value_be_bytes: "v < 256 ^ n \<Longrightarrow> be_value (be_bytes n v) = v"
proof (induction n arbitrary: v)
  case (Suc n)
  have "v div 256 < 256 ^ n" using Suc.prems by (simp add: less_mult_imp_div_less mult.commute)
  moreover have "unat (of_nat (v mod 256) :: u8) = v mod 256" by (simp add: unat_of_nat take_bit_eq_mod)
  ultimately show ?case using Suc.IH by simp
qed simp

lemma be_value_less: "be_value bs < 256 ^ length bs"
proof (induction bs rule: rev_induct)
  case (snoc b bs)
  have "unat b < 256" using unsigned_less [where 'a = nat, of b] by simp
  moreover have "256 * Suc (be_value bs) \<le> 256 * 256 ^ length bs" using snoc by (intro mult_le_mono) auto
  ultimately show ?case by simp
qed simp

end
