(* ===== verification/Msg_Codec.thy ===== *)
theory Msg_Codec
  imports Msg_Format Endian
begin

text \<open>
  The codec of \<^verbatim>\<open>code/client/network.c\<close>: \<^verbatim>\<open>pack\<close> writes the bytes of a message from its
  structure, \<^verbatim>\<open>unpack\<close> fills the structure from the bytes. A pointer is the part of its block
  from the address on, so \<^verbatim>\<open>data + readed\<close> is \<^theory_text>\<open>drop readed data\<close>. Both functions
  return a number of bytes (\<open>Some n\<close>), or \<open>None\<close> for their return value \<open>-1\<close>, with the
  buffer as it then is; a failed assertion or an access outside of a block is a fault. The
  differences \<^verbatim>\<open>buff_size - written\<close> and \<^verbatim>\<open>data_size - readed\<close> never become negative where
  the code takes them, so they are differences of naturals here.
\<close>

section \<open>Definitions\<close>

text \<open>\<^verbatim>\<open>unicode16_len\<close>: the characters up to a null character, at most \<open>n\<close>.\<close>

fun unicode16_len :: "bytes \<Rightarrow> nat \<Rightarrow> fault + nat" where
  "unicode16_len s 0 = Inr 0"
| "unicode16_len s (Suc n) = bindE (le16dec s) (\<lambda>c.
     if c = 0 then Inr 0 else bindE (unicode16_len (drop 2 s) n) (\<lambda>k. Inr (Suc k)))"

subsection \<open>pack\<close>

text \<open>
  The prefix of a counted field: the count is the length of the string, or the 4-byte length in
  front of the array. The result is the packed and the static element count, the read and the
  write offset and the buffer, or \<open>None\<close> when the prefix does not fit.
\<close>

definition pack_prefix ::
    "msg_field \<Rightarrow> bytes \<Rightarrow> bytes \<Rightarrow> nat \<Rightarrow> nat \<Rightarrow> nat \<Rightarrow> fault + (nat \<times> nat \<times> nat \<times> nat \<times> bytes) option" where
  "pack_prefix f data buf buff_size readed written =
     (let prefix_size = get_prefix_size (fd_type f) in
      if prefix_size = 0 then Inr (Some (1, 1, readed, written, buf))
      else if buff_size - written < prefix_size then Inr None
      else
        bindE (if fd_type f = TYPE_STRING_16
               then bindE (unicode16_len (drop readed data) (fd_param f)) (\<lambda>n. Inr (n, readed))
               else bindE (le32dec (drop readed data)) (\<lambda>n. Inr (unat n, readed + 4)))
          (\<lambda>(packed, readed').
        bindE (assertE (packed \<le> fd_param f)) (\<lambda>_.
        bindE (if prefix_size = 1
               then bindE (assertE (packed \<le> 255)) (\<lambda>_. mem_write buf written [of_nat packed])
               else bindE (assertE (packed \<le> 0xffff)) (\<lambda>_. mem_write buf written (le16enc (of_nat packed))))
          (\<lambda>buf'. Inr (Some (packed, fd_param f, readed', written + prefix_size, buf'))))))"

definition pack_elems ::
    "msg_field \<Rightarrow> nat \<Rightarrow> nat \<Rightarrow> bytes \<Rightarrow> bytes \<Rightarrow> nat \<Rightarrow> nat \<Rightarrow> nat \<Rightarrow> fault + (nat \<times> nat \<times> bytes) option" where
  "pack_elems f packed static data buf buff_size readed written =
     (let elem_size = get_element_size f; bytes_to_write = elem_size * packed in
      if buff_size - written < bytes_to_write then Inr None
      else bindE (mem_read (drop readed data) 0 bytes_to_write) (\<lambda>bs.
           bindE (mem_write buf written bs) (\<lambda>buf'.
             Inr (Some (readed + static * elem_size, written + bytes_to_write, buf')))))"

text \<open>
  The loop over the fields. A nested structure ends it: \<open>pack_rows\<close> runs \<^verbatim>\<open>pack\<close> with the
  remaining fields once per element, and moves on by the member \<^verbatim>\<open>size\<close> of the field.
\<close>

function (sequential) pack_fields ::
    "bytes \<Rightarrow> nat \<Rightarrow> bytes \<Rightarrow> nat \<Rightarrow> nat \<Rightarrow> nat \<Rightarrow> msg_field list \<Rightarrow> fault + nat option \<times> bytes"
  and pack_rows ::
    "bytes \<Rightarrow> nat \<Rightarrow> bytes \<Rightarrow> nat \<Rightarrow> nat \<Rightarrow> nat \<Rightarrow> nat \<Rightarrow> nat \<Rightarrow> msg_field list \<Rightarrow> fault + nat option \<times> bytes"
where
  "pack_fields data data_size buf buff_size readed written [] = Inr (Some written, buf)"
| "pack_fields data data_size buf buff_size readed written (f # fs) =
     bindE (pack_prefix f data buf buff_size readed written) (\<lambda>r. case r of
       None \<Rightarrow> Inr (None, buf)
     | Some (packed, static, readed1, written1, buf1) \<Rightarrow>
         if fd_type f \<noteq> TYPE_NESTED_STRUCT then
           bindE (pack_elems f packed static data buf1 buff_size readed1 written1) (\<lambda>r. case r of
             None \<Rightarrow> Inr (None, buf1)
           | Some (readed2, written2, buf2) \<Rightarrow>
               pack_fields data data_size buf2 buff_size readed2 written2 fs)
         else bindE (assertE (fs \<noteq> [])) (\<lambda>_.
           pack_rows data data_size buf1 buff_size readed1 written1 packed (fd_size f) fs))"
| "pack_rows data data_size buf buff_size readed written 0 row_size fs = Inr (Some written, buf)"
| "pack_rows data data_size buf buff_size readed written (Suc n) row_size fs =
     bindE (pack_fields (drop readed data) (data_size - readed)
              (drop written buf) (buff_size - written) 0 0 fs) (\<lambda>(r, b).
       let buf' = take written buf @ b in
       case r of None \<Rightarrow> Inr (None, buf')
       | Some tmp \<Rightarrow> pack_rows data data_size buf' buff_size (readed + row_size) (written + tmp)
                       n row_size fs)"
  by pat_completeness auto
termination
  by (relation "measures [\<lambda>x. case x of Inl (_, _, _, _, _, _, fs) \<Rightarrow> length fs
                                      | Inr (_, _, _, _, _, _, n, _, fs) \<Rightarrow> length fs,
                          \<lambda>x. case x of Inl _ \<Rightarrow> 0 | Inr (_, _, _, _, _, _, n, _, fs) \<Rightarrow> Suc n]") auto

definition pack ::
    "bytes \<Rightarrow> nat \<Rightarrow> bytes \<Rightarrow> nat \<Rightarrow> msg_field list \<Rightarrow> nat \<Rightarrow> fault + nat option \<times> bytes" where
  "pack data data_size buf buff_size flds count =
     bindE (mem_read flds 0 count) (\<lambda>fs. pack_fields data data_size buf buff_size 0 0 fs)"

definition NetMsg_Pack ::
    "bytes \<Rightarrow> nat \<Rightarrow> bytes \<Rightarrow> nat \<Rightarrow> msg_format \<Rightarrow> fault + nat \<times> bytes" where
  "NetMsg_Pack packet pack_size buf buff_size m =
     bindE (pack packet pack_size buf buff_size (mf_fields m) (mf_count m)) (\<lambda>(r, buf').
       case r of None \<Rightarrow> Inr (0, buf') | Some n \<Rightarrow> Inr (n, buf'))"

subsection \<open>unpack\<close>

definition unpack_prefix ::
    "msg_field \<Rightarrow> bytes \<Rightarrow> nat \<Rightarrow> bytes \<Rightarrow> nat \<Rightarrow> nat \<Rightarrow> fault + (nat \<times> nat \<times> nat \<times> nat \<times> bytes) option" where
  "unpack_prefix f data data_size buf readed written =
     (let prefix_size = get_prefix_size (fd_type f) in
      if prefix_size = 0 then Inr (Some (1, 1, readed, written, buf))
      else if data_size - readed < prefix_size then Inr None
      else
        bindE (if prefix_size = 1
               then bindE (mem_read (drop readed data) 0 1) (\<lambda>p. Inr (unat (hd p)))
               else bindE (le16dec (drop readed data)) (\<lambda>n. Inr (unat n))) (\<lambda>packed.
        bindE (assertE (packed \<le> fd_param f)) (\<lambda>_.
        bindE (if fd_type f = TYPE_STRING_16
               then let param1 = (if fd_param f = 0 then 2 ^ 32 - 1 else fd_param f - 1);
                        end_pos = (if packed > param1 then param1 else packed)
                    in bindE (mem_write buf (written + 2 * end_pos) [0, 0]) (\<lambda>buf'. Inr (written, buf'))
               else bindE (mem_write buf written (le32enc (of_nat packed)))
                      (\<lambda>buf'. Inr (written + 4, buf')))
          (\<lambda>(written', buf'). Inr (Some (packed, fd_param f, readed + prefix_size, written', buf'))))))"

definition unpack_elems ::
    "msg_field \<Rightarrow> nat \<Rightarrow> nat \<Rightarrow> bytes \<Rightarrow> nat \<Rightarrow> bytes \<Rightarrow> nat \<Rightarrow> nat \<Rightarrow> fault + (nat \<times> nat \<times> bytes) option" where
  "unpack_elems f packed static data data_size buf readed written =
     (let elem_size = get_element_size f; bytes_to_read = elem_size * packed in
      if data_size - readed < bytes_to_read then Inr None
      else bindE (mem_read (drop readed data) 0 bytes_to_read) (\<lambda>bs.
           bindE (mem_write buf written bs) (\<lambda>buf'.
             Inr (Some (readed + bytes_to_read, written + static * elem_size, buf')))))"

function (sequential) unpack_fields ::
    "bytes \<Rightarrow> nat \<Rightarrow> bytes \<Rightarrow> nat \<Rightarrow> nat \<Rightarrow> nat \<Rightarrow> msg_field list \<Rightarrow> fault + nat option \<times> bytes"
  and unpack_rows ::
    "bytes \<Rightarrow> nat \<Rightarrow> bytes \<Rightarrow> nat \<Rightarrow> nat \<Rightarrow> nat \<Rightarrow> nat \<Rightarrow> msg_field list \<Rightarrow> fault + nat option \<times> bytes"
where
  "unpack_fields data data_size buf buff_size readed written [] =
     bindE (assertE (readed \<le> data_size)) (\<lambda>_. Inr (Some readed, buf))"
| "unpack_fields data data_size buf buff_size readed written (f # fs) =
     bindE (unpack_prefix f data data_size buf readed written) (\<lambda>r. case r of
       None \<Rightarrow> Inr (None, buf)
     | Some (packed, static, readed1, written1, buf1) \<Rightarrow>
         if fd_type f \<noteq> TYPE_NESTED_STRUCT then
           bindE (unpack_elems f packed static data data_size buf1 readed1 written1) (\<lambda>r. case r of
             None \<Rightarrow> Inr (None, buf1)
           | Some (readed2, written2, buf2) \<Rightarrow>
               unpack_fields data data_size buf2 buff_size readed2 written2 fs)
         else bindE (assertE (fs \<noteq> [])) (\<lambda>_.
           unpack_rows data data_size buf1 buff_size readed1 written1 packed fs))"
| "unpack_rows data data_size buf buff_size readed written 0 fs = Inr (Some readed, buf)"
| "unpack_rows data data_size buf buff_size readed written (Suc n) fs =
     bindE (unpack_fields (drop readed data) (data_size - readed)
              (drop written buf) (buff_size - written) 0 0 fs) (\<lambda>(r, b).
       let buf' = take written buf @ b in
       case r of None \<Rightarrow> Inr (None, buf')
       | Some tmp \<Rightarrow> unpack_rows data data_size buf' buff_size (readed + tmp) (written + tmp) n fs)"
  by pat_completeness auto
termination
  by (relation "measures [\<lambda>x. case x of Inl (_, _, _, _, _, _, fs) \<Rightarrow> length fs
                                      | Inr (_, _, _, _, _, _, n, fs) \<Rightarrow> length fs,
                          \<lambda>x. case x of Inl _ \<Rightarrow> 0 | Inr (_, _, _, _, _, _, n, fs) \<Rightarrow> Suc n]") auto

definition unpack ::
    "bytes \<Rightarrow> nat \<Rightarrow> bytes \<Rightarrow> nat \<Rightarrow> msg_field list \<Rightarrow> nat \<Rightarrow> fault + nat option \<times> bytes" where
  "unpack data data_size buf buff_size flds count =
     bindE (mem_read flds 0 count) (\<lambda>fs. unpack_fields data data_size buf buff_size 0 0 fs)"

definition NetMsg_Unpack ::
    "bytes \<Rightarrow> nat \<Rightarrow> bytes \<Rightarrow> nat \<Rightarrow> msg_format \<Rightarrow> fault + nat \<times> bytes" where
  "NetMsg_Unpack data data_size packet pack_size m =
     bindE (unpack data data_size packet pack_size (mf_fields m) (mf_count m)) (\<lambda>(r, buf').
       case r of None \<Rightarrow> Inr (0, buf') | Some n \<Rightarrow> Inr (n, buf'))"

end
