(* ===== verification/Dyn_Array.thy ===== *)
theory Dyn_Array
  imports Prelude
begin

text \<open>
  The growable array of \<^verbatim>\<open>code/common/array.c\<close> and \<^verbatim>\<open>array.h\<close>, the container behind every
  buffer of the program. An array is its capacity, its size and the allocated block, a list of
  \<open>capacity\<close> elements of which the first \<open>size\<close> are the contents. \<open>size_t\<close> values are
  naturals below \<open>2 ^ 64\<close> with the wrap-around of the arithmetic written out.

  Parameters of the operations: \<open>alloc n\<close> says whether the allocator grants a block of \<open>n\<close>
  bytes, \<open>z\<close> is the element whose bytes are all zero, \<open>esz\<close> the size of an element.
  An operation that returns an \<^verbatim>\<open>int\<close> flag returns it as a \<^typ>\<open>bool\<close>.
\<close>

section \<open>The type size_t\<close>

definition SZ :: nat where
  "SZ = 2 ^ 64"

definition sz_add :: "nat \<Rightarrow> nat \<Rightarrow> nat" where
  "sz_add a b = (a + b) mod SZ"

definition sz_sub :: "nat \<Rightarrow> nat \<Rightarrow> nat" where
  "sz_sub a b = (if b \<le> a then a - b else a + SZ - b)"

definition sz_mul :: "nat \<Rightarrow> nat \<Rightarrow> nat" where
  "sz_mul a b = (a * b) mod SZ"

lemma sz_add_exact [simp]: "a + b < SZ \<Longrightarrow> sz_add a b = a + b"
  by (simp add: sz_add_def)

lemma sz_sub_exact [simp]: "b \<le> a \<Longrightarrow> sz_sub a b = a - b"
  by (simp add: sz_sub_def)

lemma sz_mul_exact [simp]: "a * b < SZ \<Longrightarrow> sz_mul a b = a * b"
  by (simp add: sz_mul_def)

lemma sz_mul_overflow:
  assumes "0 < b" and "sz_mul a b div b = a"
  shows "sz_mul a b = a * b"
proof (rule ccontr)
  assume "sz_mul a b \<noteq> a * b"
  then have "sz_mul a b < a * b"
    unfolding sz_mul_def by (metis mod_less_eq_dividend le_neq_implies_less)
  then have "sz_mul a b div b < a"
    using assms(1) by (simp add: less_mult_imp_div_less)
  with assms(2) show False by simp
qed

section \<open>Arrays\<close>

record 'a carray =
  arr_capacity :: nat
  arr_size :: nat
  arr_data :: "'a list"

definition ARRAY_MIN_CAPACITY :: nat where
  "ARRAY_MIN_CAPACITY = 8"

definition array_init :: "'a carray" where
  "array_init = \<lparr>arr_capacity = 0, arr_size = 0, arr_data = []\<rparr>"

definition array_reset :: "'a carray \<Rightarrow> 'a carray" where
  "array_reset a = a\<lparr>arr_size := 0, arr_capacity := 0, arr_data := []\<rparr>"

definition array_grow_to ::
    "(nat \<Rightarrow> bool) \<Rightarrow> 'a \<Rightarrow> nat \<Rightarrow> 'a carray \<Rightarrow> nat \<Rightarrow> fault + bool \<times> 'a carray" where
  "array_grow_to alloc z esz a cap0 =
     bindE (assertE (0 < esz)) (\<lambda>_.
       let new_capacity = max cap0 ARRAY_MIN_CAPACITY;
           new_size = sz_mul new_capacity esz
       in bindE (assertE (new_size div esz = new_capacity)) (\<lambda>_.
         if \<not> alloc new_size then Inr (False, a)
         else
           let data = (if arr_capacity a \<le> new_capacity
                       then arr_data a @ replicate (new_capacity - arr_capacity a) z
                       else take new_capacity (arr_data a))
           in Inr (True, a\<lparr>arr_data := data,
                          arr_size := (if new_capacity < arr_size a then new_capacity
                                       else arr_size a),
                          arr_capacity := new_capacity\<rparr>)))"

definition array_reserve ::
    "(nat \<Rightarrow> bool) \<Rightarrow> 'a \<Rightarrow> nat \<Rightarrow> 'a carray \<Rightarrow> nat \<Rightarrow> fault + bool \<times> 'a carray" where
  "array_reserve alloc z esz a count =
     bindE (assertE (0 < esz)) (\<lambda>_.
       if sz_sub (arr_capacity a) (arr_size a) < count then
         let new_capacity = sz_mul (arr_capacity a) 2;
             new_capacity' = (if new_capacity < sz_add (arr_size a) count
                              then sz_add (arr_size a) count else new_capacity)
         in array_grow_to alloc z esz a new_capacity'
       else Inr (True, a))"

definition array_resize ::
    "(nat \<Rightarrow> bool) \<Rightarrow> 'a \<Rightarrow> nat \<Rightarrow> 'a carray \<Rightarrow> nat \<Rightarrow> fault + bool \<times> 'a carray" where
  "array_resize alloc z esz a n =
     bindE (assertE (0 < esz)) (\<lambda>_.
       if arr_capacity a < n then
         bindE (array_reserve alloc z esz a n) (\<lambda>(ok, a').
           if ok then Inr (True, a'\<lparr>arr_size := n\<rparr>) else Inr (False, a'))
       else Inr (True, a\<lparr>arr_size := n\<rparr>))"

definition array_remove :: "nat \<Rightarrow> 'a carray \<Rightarrow> nat \<Rightarrow> fault + 'a carray" where
  "array_remove esz a index =
     bindE (assertE (0 < esz)) (\<lambda>_.
       if arr_size a \<le> index then Inr a
       else
         let new_size = arr_size a - 1
         in if index < new_size then
              bindE (mem_read (arr_data a) new_size 1) (\<lambda>src.
              bindE (mem_write (arr_data a) index src) (\<lambda>data.
                Inr (a\<lparr>arr_data := data, arr_size := new_size\<rparr>)))
            else Inr (a\<lparr>arr_size := new_size\<rparr>))"

definition array_insert ::
    "(nat \<Rightarrow> bool) \<Rightarrow> 'a \<Rightarrow> nat \<Rightarrow> 'a carray \<Rightarrow> 'a list \<Rightarrow> fault + bool \<times> 'a carray" where
  "array_insert alloc z esz a xs =
     bindE (assertE (0 < esz)) (\<lambda>_.
       let count = length xs in
       if count = 0 then Inr (True, a)
       else bindE (array_reserve alloc z esz a count) (\<lambda>(ok, a').
         if \<not> ok then Inr (False, a')
         else bindE (assertE (sz_add (arr_size a') count \<le> arr_capacity a')) (\<lambda>_.
           bindE (mem_write (arr_data a') (arr_size a') xs) (\<lambda>data.
             Inr (True, a'\<lparr>arr_data := data, arr_size := sz_add (arr_size a') count\<rparr>)))))"

definition array_clear :: "'a carray \<Rightarrow> 'a carray" where
  "array_clear a = a\<lparr>arr_size := 0\<rparr>"

definition array_copy ::
    "(nat \<Rightarrow> bool) \<Rightarrow> 'a \<Rightarrow> nat \<Rightarrow> 'a carray \<Rightarrow> 'a carray \<Rightarrow> fault + bool \<times> 'a carray" where
  "array_copy alloc z esz dest src =
     bindE (mem_read (arr_data src) 0 (arr_size src)) (\<lambda>xs.
       array_insert alloc z esz (array_clear dest) xs)"

text \<open>\<open>array_push\<close> returns the index of the first of the \<open>n\<close> pushed elements (the pointer).\<close>

definition array_push ::
    "(nat \<Rightarrow> bool) \<Rightarrow> 'a \<Rightarrow> nat \<Rightarrow> 'a carray \<Rightarrow> nat \<Rightarrow> fault + nat option \<times> 'a carray" where
  "array_push alloc z esz a n =
     bindE (array_reserve alloc z esz a n) (\<lambda>(ok, a').
       if \<not> ok then Inr (None, a')
       else
         let size' = sz_add (arr_size a') n
         in bindE (assertE (size' \<le> arr_capacity a')) (\<lambda>_.
              Inr (Some (arr_size a'), a'\<lparr>arr_size := size'\<rparr>)))"

definition array_remove_ordered :: "nat \<Rightarrow> 'a carray \<Rightarrow> nat \<Rightarrow> fault + 'a carray" where
  "array_remove_ordered esz a i =
     bindE (assertE (0 < esz)) (\<lambda>_.
       if arr_size a \<le> i then Inr a
       else
         let rem = arr_size a - i
         in if rem \<noteq> 0 then
              bindE (mem_read (arr_data a) (i + 1) rem) (\<lambda>src.
              bindE (mem_write (arr_data a) i src) (\<lambda>data.
                Inr (a\<lparr>arr_data := data, arr_size := arr_size a - 1\<rparr>)))
            else Inr (a\<lparr>arr_size := arr_size a - 1\<rparr>))"

definition array_remove_range_ordered ::
    "nat \<Rightarrow> 'a carray \<Rightarrow> nat \<Rightarrow> nat \<Rightarrow> fault + 'a carray" where
  "array_remove_range_ordered esz a index count0 =
     bindE (assertE (0 < esz)) (\<lambda>_.
       if arr_size a \<le> index then Inr a
       else
         let count = (if arr_size a < sz_add index count0 then arr_size a - index else count0);
             rem = sz_sub (arr_size a) count
         in if rem \<noteq> 0 then
              bindE (mem_read (arr_data a) (index + count) rem) (\<lambda>src.
              bindE (mem_write (arr_data a) index src) (\<lambda>data.
                Inr (a\<lparr>arr_data := data, arr_size := sz_sub (arr_size a) count\<rparr>)))
            else Inr (a\<lparr>arr_size := sz_sub (arr_size a) count\<rparr>))"

text \<open>The element macros of \<^verbatim>\<open>array.h\<close>.\<close>

definition array_inside :: "'a carray \<Rightarrow> nat \<Rightarrow> bool" where
  "array_inside a i \<longleftrightarrow> i < arr_size a"

definition array_at :: "'a carray \<Rightarrow> nat \<Rightarrow> fault + 'a" where
  "array_at a i = (if i < length (arr_data a) then Inr (arr_data a ! i) else Inl OutOfBounds)"

definition array_add ::
    "(nat \<Rightarrow> bool) \<Rightarrow> 'a \<Rightarrow> nat \<Rightarrow> 'a carray \<Rightarrow> 'a \<Rightarrow> fault + bool \<times> 'a carray" where
  "array_add alloc z esz a e =
     bindE (array_reserve alloc z esz a 1) (\<lambda>(ok, a').
       if \<not> ok then Inr (False, a')
       else bindE (mem_write (arr_data a') (arr_size a') [e]) (\<lambda>data.
         Inr (True, a'\<lparr>arr_data := data, arr_size := sz_add (arr_size a') 1\<rparr>)))"

definition array_set :: "'a carray \<Rightarrow> nat \<Rightarrow> 'a \<Rightarrow> fault + bool \<times> 'a carray" where
  "array_set a i e =
     (if array_inside a i then
        bindE (mem_write (arr_data a) i [e]) (\<lambda>data. Inr (True, a\<lparr>arr_data := data\<rparr>))
      else Inr (False, a))"

definition array_pop :: "'a carray \<Rightarrow> fault + 'a \<times> 'a carray" where
  "array_pop a =
     (let i = (if arr_size a \<noteq> 0 then arr_size a - 1 else 0);
          a' = (if arr_size a \<noteq> 0 then a\<lparr>arr_size := arr_size a - 1\<rparr> else a)
      in bindE (array_at a' i) (\<lambda>e. Inr (e, a')))"

section \<open>Invariant and contents\<close>

definition arr_ok :: "'a carray \<Rightarrow> bool" where
  "arr_ok a \<longleftrightarrow> arr_size a \<le> arr_capacity a \<and> length (arr_data a) = arr_capacity a \<and> arr_capacity a < SZ"

definition contents :: "'a carray \<Rightarrow> 'a list" where
  "contents a = take (arr_size a) (arr_data a)"

named_theorems array_defs \<open>definitions of the array operations\<close>

lemmas [array_defs] = array_init_def array_reset_def array_grow_to_def array_reserve_def
  array_resize_def array_remove_def array_insert_def array_clear_def array_copy_def
  array_push_def array_remove_ordered_def array_remove_range_ordered_def array_inside_def
  array_at_def array_add_def array_set_def array_pop_def

lemma arr_okD:
  assumes "arr_ok a"
  shows "arr_size a \<le> arr_capacity a" "length (arr_data a) = arr_capacity a" "arr_capacity a < SZ"
  using assms by (auto simp: arr_ok_def)

lemma arr_ok_init [simp]: "arr_ok array_init"
  by (simp add: arr_ok_def array_init_def SZ_def)

lemma contents_init [simp]: "contents array_init = []"
  by (simp add: contents_def array_init_def)

lemma arr_ok_reset [simp]: "arr_ok (array_reset a)"
  by (simp add: arr_ok_def array_reset_def SZ_def)

lemma contents_reset [simp]: "contents (array_reset a) = []"
  by (simp add: contents_def array_reset_def)

lemma arr_ok_clear [simp]: "arr_ok a \<Longrightarrow> arr_ok (array_clear a)"
  by (simp add: arr_ok_def array_clear_def)

lemma contents_clear [simp]: "contents (array_clear a) = []"
  by (simp add: contents_def array_clear_def)

lemma length_contents [simp]: "arr_ok a \<Longrightarrow> length (contents a) = arr_size a"
  by (simp add: contents_def arr_ok_def)

lemma nth_contents [simp]: "i < arr_size a \<Longrightarrow> contents a ! i = arr_data a ! i"
  by (simp add: contents_def)

lemma array_at_contents [simp]:
  "arr_ok a \<Longrightarrow> i < arr_size a \<Longrightarrow> array_at a i = Inr (contents a ! i)"
  by (auto simp: array_at_def arr_ok_def)

section \<open>Growth\<close>

text \<open>
  Growing: on success the array is well formed, has room for the elements asked for, and its
  contents are as before; when the allocator refuses, the array is unchanged.
\<close>

lemma array_grow_to_cases:
  assumes "arr_ok a" and "0 < esz" and "arr_size a \<le> n" and "max n ARRAY_MIN_CAPACITY * esz < SZ"
  shows "array_grow_to alloc z esz a n =
    (if alloc (max n ARRAY_MIN_CAPACITY * esz)
     then Inr (True, a\<lparr>arr_data := (if arr_capacity a \<le> max n ARRAY_MIN_CAPACITY
                       then arr_data a @ replicate (max n ARRAY_MIN_CAPACITY - arr_capacity a) z
                       else take (max n ARRAY_MIN_CAPACITY) (arr_data a)),
                      arr_capacity := max n ARRAY_MIN_CAPACITY\<rparr>)
     else Inr (False, a))"
  using assms by (simp add: array_grow_to_def Let_def)

lemma grown_ok:
  assumes "arr_ok a" and "arr_size a \<le> m" and "m < SZ"
    and "a' = a\<lparr>arr_data := (if arr_capacity a \<le> m then arr_data a @ replicate (m - arr_capacity a) z
                            else take m (arr_data a)), arr_capacity := m\<rparr>"
  shows "arr_ok a'" and "contents a' = contents a"
  using assms by (auto simp: arr_ok_def contents_def min_def)

lemma array_reserve_grows:
  assumes ok: "arr_ok a" and esz: "0 < esz"
    and small: "2 * (arr_size a + count) * esz + ARRAY_MIN_CAPACITY * esz < SZ"
    and mem: "\<forall>n. alloc n" and full: "arr_capacity a - arr_size a < count"
  obtains k where "array_reserve alloc z esz a count =
      Inr (True, a\<lparr>arr_data := arr_data a @ replicate k z, arr_capacity := arr_capacity a + k\<rparr>)"
    "arr_size a + count \<le> arr_capacity a + k" "arr_capacity a + k \<le> 2 * (arr_size a + count) + ARRAY_MIN_CAPACITY"
    "arr_capacity a + k < SZ"
proof -
  define n where "n = (if arr_capacity a * 2 < arr_size a + count then arr_size a + count
                       else arr_capacity a * 2)"
  define m where "m = max n ARRAY_MIN_CAPACITY"
  from ok have size: "arr_size a \<le> arr_capacity a" by (rule arr_okD)
  have cap: "arr_capacity a < arr_size a + count" using full size by arith
  have n: "n \<le> 2 * (arr_size a + count)" "arr_size a + count \<le> n" "arr_capacity a * 2 \<le> n" "n \<le> m"
    using cap by (auto simp: n_def m_def)
  have le: "m \<le> 2 * (arr_size a + count) + ARRAY_MIN_CAPACITY" using n by (auto simp: m_def)
  then have "m * esz \<le> (2 * (arr_size a + count) + ARRAY_MIN_CAPACITY) * esz"
    by (intro mult_right_mono) auto
  then have bound: "m * esz < SZ" using small by (simp add: algebra_simps)
  have "m \<le> m * esz" using esz by simp
  then have small': "n < SZ" "arr_capacity a * 2 < SZ" "arr_size a + count < SZ" "m < SZ"
    using bound n by linarith+
  have "array_reserve alloc z esz a count = array_grow_to alloc z esz a n"
    using full esz size small' by (simp add: array_reserve_def Let_def n_def)
  also have "\<dots> = Inr (True, a\<lparr>arr_data := arr_data a @ replicate (m - arr_capacity a) z,
                              arr_capacity := m\<rparr>)"
    using esz size n bound mem array_grow_to_cases [OF ok esz, of n alloc z]
    by (simp add: m_def [symmetric])
  finally have eq: "array_reserve alloc z esz a count =
    Inr (True, a\<lparr>arr_data := arr_data a @ replicate (m - arr_capacity a) z, arr_capacity := m\<rparr>)" .
  show ?thesis using that [of "m - arr_capacity a"] eq n le small' by simp
qed

lemma array_reserve_ok:
  assumes ok: "arr_ok a" and esz: "0 < esz"
    and small: "2 * (arr_size a + count) * esz + ARRAY_MIN_CAPACITY * esz < SZ"
    and mem: "\<forall>n. alloc n"
  shows "\<exists>a'. array_reserve alloc z esz a count = Inr (True, a') \<and> arr_ok a' \<and>
    contents a' = contents a \<and> arr_size a' = arr_size a \<and>
    arr_size a + count \<le> arr_capacity a' \<and> arr_capacity a \<le> arr_capacity a'"
proof (cases "arr_capacity a - arr_size a < count")
  case False
  with ok esz show ?thesis by (auto simp: array_reserve_def arr_ok_def)
next
  case True
  obtain k where k: "array_reserve alloc z esz a count =
      Inr (True, a\<lparr>arr_data := arr_data a @ replicate k z, arr_capacity := arr_capacity a + k\<rparr>)"
    "arr_size a + count \<le> arr_capacity a + k" "arr_capacity a + k < SZ"
    using array_reserve_grows [OF ok esz small mem True, of z] by metis
  then show ?thesis using ok by (auto simp: arr_ok_def contents_def)
qed

text \<open>Growing an array that is full, and making everything it can hold its contents.\<close>

lemma array_resize_full:
  assumes ok: "arr_ok a" "arr_capacity a = arr_size a" and esz: "0 < esz" and n: "arr_size a < n"
    and small: "2 * (arr_size a + n) * esz + ARRAY_MIN_CAPACITY * esz < SZ" and mem: "\<forall>n. alloc n"
  obtains a' k where "array_resize alloc z esz a n = Inr (True, a')" "n \<le> arr_capacity a'"
    "arr_capacity a' \<le> 2 * (arr_size a + n) + ARRAY_MIN_CAPACITY"
    "arr_ok (a'\<lparr>arr_size := arr_capacity a'\<rparr>)"
    "contents (a'\<lparr>arr_size := arr_capacity a'\<rparr>) = contents a @ replicate k z"
proof -
  obtain k where k: "array_reserve alloc z esz a n =
      Inr (True, a\<lparr>arr_data := arr_data a @ replicate k z, arr_capacity := arr_capacity a + k\<rparr>)"
    "arr_size a + n \<le> arr_capacity a + k" "arr_capacity a + k \<le> 2 * (arr_size a + n) + ARRAY_MIN_CAPACITY"
    "arr_capacity a + k < SZ"
    using array_reserve_grows [OF ok(1) esz small mem, of z] ok(2) n by auto
  let ?a = "a\<lparr>arr_data := arr_data a @ replicate k z, arr_capacity := arr_capacity a + k, arr_size := n\<rparr>"
  have "array_resize alloc z esz a n = Inr (True, ?a)"
    using ok n esz k(1) by (simp add: array_resize_def)
  then show ?thesis using that [of ?a k] ok k n by (auto simp: arr_ok_def contents_def)
qed

section \<open>Appending\<close>

text \<open>Writing at the end of the contents of an array that has the room.\<close>

lemma append_at_end:
  assumes "arr_ok a" and "arr_size a + length xs \<le> arr_capacity a"
  shows "mem_write (arr_data a) (arr_size a) xs = Inr (overlay (arr_data a) (arr_size a) xs)"
    and "arr_ok (a\<lparr>arr_data := overlay (arr_data a) (arr_size a) xs, arr_size := arr_size a + length xs\<rparr>)"
    and "contents (a\<lparr>arr_data := overlay (arr_data a) (arr_size a) xs,
                    arr_size := arr_size a + length xs\<rparr>) = contents a @ xs"
  using assms by (auto simp: arr_ok_def contents_def)

lemma array_insert_ok:
  assumes ok: "arr_ok a" and esz: "0 < esz"
    and small: "2 * (arr_size a + length xs) * esz + ARRAY_MIN_CAPACITY * esz < SZ"
    and mem: "\<forall>n. alloc n"
  shows "\<exists>a'. array_insert alloc z esz a xs = Inr (True, a') \<and> arr_ok a' \<and>
    contents a' = contents a @ xs"
proof (cases "xs = []")
  case True
  with ok esz show ?thesis by (simp add: array_insert_def)
next
  case False
  obtain b where b: "array_reserve alloc z esz a (length xs) = Inr (True, b)" "arr_ok b"
    "contents b = contents a" "arr_size b = arr_size a" "arr_size a + length xs \<le> arr_capacity b"
    using array_reserve_ok [OF ok esz small mem, of z] by blast
  have "arr_size b + length xs < SZ" using b arr_okD(3) [OF b(2)] by linarith
  with b esz False append_at_end [OF b(2), of xs] show ?thesis
    by (simp add: array_insert_def Let_def)
qed

lemma array_add_eq_insert:
  "arr_ok a \<Longrightarrow> 0 < esz \<Longrightarrow> 2 * (arr_size a + 1) * esz + ARRAY_MIN_CAPACITY * esz < SZ \<Longrightarrow>
   \<forall>n. alloc n \<Longrightarrow> array_add alloc z esz a e = array_insert alloc z esz a [e]"
  using array_reserve_ok [of a esz 1 alloc z] arr_okD(3)
  by (fastforce simp: array_add_def array_insert_def Let_def)

lemma array_push_ok:
  assumes ok: "arr_ok a" and esz: "0 < esz"
    and small: "2 * (arr_size a + n) * esz + ARRAY_MIN_CAPACITY * esz < SZ"
    and mem: "\<forall>n. alloc n"
  shows "\<exists>a'. array_push alloc z esz a n = Inr (Some (arr_size a), a') \<and> arr_ok a' \<and>
    arr_size a' = arr_size a + n \<and> take (arr_size a) (contents a') = contents a"
proof -
  obtain b where b: "array_reserve alloc z esz a n = Inr (True, b)" "arr_ok b"
    "contents b = contents a" "arr_size b = arr_size a" "arr_size a + n \<le> arr_capacity b"
    using array_reserve_ok [OF ok esz small mem, of z] by blast
  have "arr_size b + n < SZ" using b arr_okD(3) [OF b(2)] by linarith
  with b show ?thesis
    by (auto simp: array_push_def Let_def arr_ok_def contents_def min_def)
qed

text \<open>An allocation failure leaves the array as it was, and is reported.\<close>

lemma array_insert_no_memory:
  assumes "arr_ok a" and "0 < esz" and "xs \<noteq> []" and "arr_capacity a - arr_size a < length xs"
    and "2 * (arr_size a + length xs) * esz + ARRAY_MIN_CAPACITY * esz < SZ"
    and "\<forall>n. \<not> alloc n"
  shows "array_insert alloc z esz a xs = Inr (False, a)"
proof -
  have size: "arr_size a \<le> arr_capacity a" using assms(1) by (rule arr_okD)
  define n where "n = max (arr_capacity a * 2) (arr_size a + length xs)"
  define m where "m = max n ARRAY_MIN_CAPACITY"
  have "m \<le> 2 * (arr_size a + length xs) + ARRAY_MIN_CAPACITY"
    using assms(4) size by (auto simp: n_def m_def)
  then have "m * esz \<le> (2 * (arr_size a + length xs) + ARRAY_MIN_CAPACITY) * esz"
    by (rule mult_right_mono) simp
  then have bound: "m * esz < SZ" using assms(5) by (simp add: algebra_simps)
  have "m \<le> m * esz" using assms(2) by simp
  then have small: "n < SZ" "arr_capacity a * 2 < SZ" "arr_size a + length xs < SZ"
    using bound by (auto simp: n_def m_def)
  have "array_reserve alloc z esz a (length xs) = array_grow_to alloc z esz a n"
    using assms(2,4) size small by (simp add: array_reserve_def Let_def n_def max_def)
  also have "\<dots> = Inr (False, a)"
  proof -
    have "arr_size a \<le> n" using size by (simp add: n_def)
    then show ?thesis
      using array_grow_to_cases [OF assms(1,2), of n alloc z] bound assms(6)
      by (simp add: m_def [symmetric])
  qed
  finally show ?thesis using assms(2,3) by (simp add: array_insert_def Let_def)
qed

section \<open>Removal\<close>

lemma array_remove_ok:
  assumes "arr_ok a" and "0 < esz"
  shows "\<exists>a'. array_remove esz a i = Inr a' \<and> arr_ok a' \<and>
    contents a' = (if i < arr_size a
                   then butlast ((contents a)[i := last (contents a)])
                   else contents a)"
proof (cases "i < arr_size a - 1")
  case True
  let ?n = "arr_size a - 1"
  let ?d = "(arr_data a)[i := arr_data a ! ?n]"
  have len: "?n < length (arr_data a)" "i < length (arr_data a)" and size: "0 < arr_size a"
    using assms(1) True by (auto simp: arr_ok_def)
  have src: "take 1 (drop ?n (arr_data a)) = [arr_data a ! ?n]"
    using len by (simp add: take_1_drop)
  have "overlay (arr_data a) i [arr_data a ! ?n] = ?d"
    using len by (simp add: overlay_def upd_conv_take_nth_drop)
  with len src have eq: "array_remove esz a i = Inr (a\<lparr>arr_data := ?d, arr_size := ?n\<rparr>)"
    using assms(2) True by (simp add: array_remove_def Let_def)
  have "last (contents a) = arr_data a ! ?n"
    using len size by (simp add: contents_def last_take)
  moreover have "butlast ((contents a)[i := x]) = take ?n ((arr_data a)[i := x])" for x
    using size arr_okD(1,2) [OF assms(1)]
    by (simp add: contents_def butlast_conv_take take_update_swap min_absorb1 min_absorb2)
  ultimately show ?thesis
    unfolding eq using assms(1) True by (auto simp: arr_ok_def contents_def)
next
  case False
  then show ?thesis
    using assms
    by (auto simp: array_remove_def Let_def contents_def arr_ok_def butlast_conv_take min_def
        not_less le_Suc_eq list_update_beyond nth_append
        last_conv_nth dest: less_imp_Suc_add)
qed

text \<open>
  \<open>array_remove_range_ordered\<close> moves \<open>size - count\<close> elements down to \<open>index\<close>, where only
  \<open>size - index - count\<close> lie behind the removed range. It stays inside the block exactly when
  \<open>index + size\<close> is at most the capacity (or nothing is left to move); then the contents are
  what the removal should leave.
\<close>

lemma remove_range_ordered_ok:
  assumes ok: "arr_ok a" and esz: "0 < esz" and idx: "i + n \<le> arr_size a"
    and room: "i + arr_size a \<le> arr_capacity a"
  shows "\<exists>a'. array_remove_range_ordered esz a i n = Inr a' \<and> arr_ok a' \<and>
    contents a' = take i (contents a) @ drop (i + n) (contents a)"
proof (cases "arr_size a \<le> i \<or> n = arr_size a")
  case True
  then have "i = arr_size a \<and> n = 0 \<or> i = 0 \<and> n = arr_size a \<and> i < arr_size a"
    using idx by auto
  with ok esz show ?thesis
    by (auto simp: array_remove_range_ordered_def arr_ok_def contents_def Let_def)
next
  case False
  let ?s = "arr_size a"
  let ?src = "take (?s - n) (drop (i + n) (arr_data a))"
  have len: "length (arr_data a) = arr_capacity a" "?s \<le> arr_capacity a" "arr_capacity a < SZ"
    using ok by (auto simp: arr_ok_def)
  have src: "length ?src = ?s - n" using len idx room by simp
  have eq: "array_remove_range_ordered esz a i n =
      Inr (a\<lparr>arr_data := overlay (arr_data a) i ?src, arr_size := ?s - n\<rparr>)"
    using False idx len room esz by (simp add: array_remove_range_ordered_def Let_def)
  have "take (?s - n) (overlay (arr_data a) i ?src) = take i (arr_data a) @ take (?s - n - i) ?src"
    using src len idx room by (subst take_overlay_mid) auto
  also have "\<dots> = take i (contents a) @ drop (i + n) (contents a)"
    using idx by (simp add: contents_def drop_take min_def add.commute)
  finally have "contents (a\<lparr>arr_data := overlay (arr_data a) i ?src, arr_size := ?s - n\<rparr>) =
      take i (contents a) @ drop (i + n) (contents a)"
    by (simp add: contents_def)
  with eq len idx room src show ?thesis by (auto simp: arr_ok_def)
qed

lemma remove_range_ordered_faults:
  assumes "arr_ok a" and "0 < esz" and "i + n \<le> arr_size a" and "i < arr_size a" and "n < arr_size a"
    and "arr_capacity a < i + arr_size a"
  shows "array_remove_range_ordered esz a i n = Inl OutOfBounds"
proof -
  have "arr_capacity a < SZ" using assms(1) by (rule arr_okD)
  with assms show ?thesis
    by (auto simp: array_remove_range_ordered_def Let_def mem_read_def arr_ok_def)
qed

lemma remove_range_front:
  assumes "arr_ok a" and "0 < esz" and "n \<le> arr_size a"
  shows "\<exists>a'. array_remove_range_ordered esz a 0 n = Inr a' \<and> arr_ok a' \<and>
    contents a' = drop n (contents a)"
  using remove_range_ordered_ok [OF assms(1,2), of 0 n] assms by (auto simp: arr_ok_def)

text \<open>
  \<open>array_remove_ordered\<close>, the function of that name in \<^verbatim>\<open>array.c\<close>, moves one element too
  many, so it leaves the block exactly when the array is full.
\<close>

lemma remove_ordered_iff:
  assumes "arr_ok a" and "0 < esz" and "i < arr_size a"
  shows "array_remove_ordered esz a i = Inl OutOfBounds \<longleftrightarrow> arr_size a = arr_capacity a"
    and "arr_size a < arr_capacity a \<Longrightarrow>
      \<exists>a'. array_remove_ordered esz a i = Inr a' \<and> arr_ok a' \<and>
        contents a' = take i (contents a) @ drop (Suc i) (contents a)"
proof -
  let ?s = "arr_size a"
  let ?src = "take (?s - i) (drop (Suc i) (arr_data a))"
  have len: "length (arr_data a) = arr_capacity a" "?s \<le> arr_capacity a" "arr_capacity a < SZ"
    using assms by (auto simp: arr_ok_def)
  show "array_remove_ordered esz a i = Inl OutOfBounds \<longleftrightarrow> ?s = arr_capacity a"
    using assms len by (auto simp: array_remove_ordered_def Let_def mem_read_def mem_write_def)
  assume room: "?s < arr_capacity a"
  have src: "length ?src = ?s - i" using len room assms(3) by simp
  have eq: "array_remove_ordered esz a i =
      Inr (a\<lparr>arr_data := overlay (arr_data a) i ?src, arr_size := ?s - 1\<rparr>)"
    using assms room len by (simp add: array_remove_ordered_def Let_def)
  have "take (?s - 1) (overlay (arr_data a) i ?src) = take i (arr_data a) @ take (?s - 1 - i) ?src"
    using src len room assms(3) by (subst take_overlay_mid) auto
  also have "\<dots> = take i (contents a) @ drop (Suc i) (contents a)"
    using assms(3) by (auto simp: contents_def drop_take min_def intro: take_eq_if_le)
  finally show "\<exists>a'. array_remove_ordered esz a i = Inr a' \<and> arr_ok a' \<and>
        contents a' = take i (contents a) @ drop (Suc i) (contents a)"
    using eq src len room assms(3) by (auto simp: arr_ok_def contents_def)
qed

section \<open>Single elements\<close>

lemma array_set_ok:
  assumes "arr_ok a" and "i < arr_size a"
  shows "\<exists>a'. array_set a i e = Inr (True, a') \<and> arr_ok a' \<and> contents a' = (contents a)[i := e]"
proof -
  have "i < length (arr_data a)" using assms by (auto simp: arr_ok_def)
  moreover then have "overlay (arr_data a) i [e] = (arr_data a)[i := e]"
    by (simp add: overlay_def upd_conv_take_nth_drop)
  ultimately show ?thesis
    using assms by (auto simp: array_set_def array_inside_def arr_ok_def contents_def take_update_swap)
qed

lemma array_set_outside: "arr_size a \<le> i \<Longrightarrow> array_set a i e = Inr (False, a)"
  by (simp add: array_set_def array_inside_def)

lemma array_pop_ok:
  assumes "arr_ok a" and "0 < arr_size a"
  shows "\<exists>a'. array_pop a = Inr (last (contents a), a') \<and> arr_ok a' \<and>
    contents a' = butlast (contents a)"
  using assms
  by (auto simp: array_pop_def Let_def array_at_def arr_ok_def contents_def last_take
      butlast_conv_take min_def)

lemma array_pop_after_init: "array_pop array_init = Inl OutOfBounds"
  by (simp add: array_pop_def array_at_def array_init_def)

section \<open>The interface of an append-only buffer\<close>

text \<open>
  The writers of requests and records only append to a buffer and read its contents. This is
  what they use of it; \<open>limit\<close> bounds the size up to which appending succeeds.
\<close>

locale growable =
  fixes ins :: "'q \<Rightarrow> 'a list \<Rightarrow> fault + bool \<times> 'q"
    and cts :: "'q \<Rightarrow> 'a list"
    and inv :: "'q \<Rightarrow> bool"
    and limit :: nat
  assumes ins_ok: "inv q \<Longrightarrow> length (cts q) + length xs \<le> limit \<Longrightarrow>
    \<exists>q'. ins q xs = Inr (True, q') \<and> inv q' \<and> cts q' = cts q @ xs"
begin

primrec ins_all :: "'q \<Rightarrow> 'a list list \<Rightarrow> fault + 'q" where
  "ins_all q [] = Inr q"
| "ins_all q (xs # xss) = bindE (ins q xs) (\<lambda>(_, q'). ins_all q' xss)"

lemma ins_all_ok:
  "inv q \<Longrightarrow> length (cts q) + length (concat xss) \<le> limit \<Longrightarrow>
   \<exists>q'. ins_all q xss = Inr q' \<and> inv q' \<and> cts q' = cts q @ concat xss"
proof (induction xss arbitrary: q)
  case Nil
  then show ?case by simp
next
  case (Cons xs xss)
  obtain q1 where q1: "ins q xs = Inr (True, q1)" "inv q1" "cts q1 = cts q @ xs"
    using ins_ok [OF Cons.prems(1), of xs] Cons.prems(2) by auto
  then show ?case using Cons.IH [OF q1(2)] Cons.prems(2) by auto
qed

end

abbreviation byte_insert :: "u8 carray \<Rightarrow> bytes \<Rightarrow> fault + bool \<times> u8 carray" where
  "byte_insert \<equiv> array_insert (\<lambda>_. True) 0 1"

interpretation byte_buf: growable byte_insert contents arr_ok "2 ^ 62"
proof unfold_locales
  fix q :: "u8 carray" and xs :: bytes
  assume "arr_ok q" and "length (contents q) + length xs \<le> 2 ^ 62"
  then show "\<exists>q'. byte_insert q xs = Inr (True, q') \<and> arr_ok q' \<and> contents q' = contents q @ xs"
    using array_insert_ok [of q 1 xs "\<lambda>_. True" 0] by (simp add: SZ_def ARRAY_MIN_CAPACITY_def)
qed

section \<open>The operations under any allocator\<close>

lemma array_reserve_alloc:
  "array_reserve alloc z esz a n = array_reserve (\<lambda>_. True) z esz a n \<or>
   array_reserve alloc z esz a n = array_reserve (\<lambda>_. False) z esz a n"
  by (simp add: array_reserve_def array_grow_to_def Let_def)

lemma array_insert_alloc:
  "array_insert alloc z esz a xs = array_insert (\<lambda>_. True) z esz a xs \<or>
   array_insert alloc z esz a xs = array_insert (\<lambda>_. False) z esz a xs"
  using array_reserve_alloc [of alloc z esz a "length xs"] by (auto simp: array_insert_def Let_def)

lemma array_insert_in_place:
  assumes "arr_ok a" "0 < esz" "length xs \<le> arr_capacity a - arr_size a"
  shows "\<exists>a'. array_insert alloc z esz a xs = Inr (True, a') \<and> arr_ok a' \<and> contents a' = contents a @ xs"
proof (cases "xs = []")
  case False
  have "arr_size a + length xs \<le> arr_capacity a" "arr_size a + length xs < SZ" "arr_size a \<le> arr_capacity a"
    using assms(3) arr_okD [OF assms(1)] False by (cases xs; linarith)+
  then show ?thesis
    using append_at_end [OF assms(1), of xs] assms(2,3) False
    by (simp add: array_insert_def array_reserve_def Let_def)
qed (use assms in \<open>simp add: array_insert_def\<close>)



text \<open>
  C21. Removing a range in order works when the array has as much spare room as the index of the
  range, and otherwise reads past the end of its block: the element count that is moved down is
  not reduced by the index.
\<close>

theorem remove_range_needs_room:
  assumes "arr_ok a" "0 < esz" "i + n \<le> arr_size a" "i < arr_size a" "n < arr_size a"
  shows "(if i + arr_size a \<le> arr_capacity a
     then \<exists>a'. array_remove_range_ordered esz a i n = Inr a' \<and> arr_ok a' \<and>
       contents a' = take i (contents a) @ drop (i + n) (contents a)
     else array_remove_range_ordered esz a i n = Inl OutOfBounds)"
  using remove_range_ordered_ok [OF assms(1-3)] remove_range_ordered_faults [OF assms]
  by (simp add: not_le)

theorem remove_range_needs_room_witness:
  "array_remove_range_ordered 4 \<lparr>arr_capacity = 8, arr_size = 8, arr_data = [0..<8]\<rparr> 1 2 = Inl OutOfBounds"
  using remove_range_needs_room [of "\<lparr>arr_capacity = 8, arr_size = 8, arr_data = [0..<8]\<rparr>" 4 1 2]
  by (simp add: arr_ok_def SZ_def)

end
