(* ===== verification/Arc4.thy ===== *)
theory Arc4
  imports Prelude "HOL-Library.Multiset"
begin

unbundle bit_operations_syntax

text \<open>
  The stream cipher of \<^verbatim>\<open>code/client/arc4.c\<close>. The permutation table is a list of bytes, its
  accesses are checked, and the indices are the non-negative C integers the code masks with
  \<^verbatim>\<open>0xFF\<close>. The lemmas show that the key schedule yields a permutation, that no access leaves
  the table, that the cipher is the exclusive or with a key stream, and that decrypting in
  chunks of any sizes recovers what was encrypted in chunks of any other sizes.
\<close>

section \<open>Definitions\<close>

record arc4_context =
  arc4_x :: nat
  arc4_y :: nat
  arc4_m :: bytes

definition arc4_init :: arc4_context where
  "arc4_init = \<lparr>arc4_x = 0, arc4_y = 0, arc4_m = replicate 256 0\<rparr>"

text \<open>One step of the key schedule, on the loop variables \<open>j\<close> and \<open>k\<close> and the table.\<close>

definition arc4_ksa_step ::
    "bytes \<Rightarrow> nat \<Rightarrow> nat \<Rightarrow> nat \<times> nat \<times> bytes \<Rightarrow> fault + nat \<times> nat \<times> bytes" where
  "arc4_ksa_step key keylen i s = (case s of (j, k, m) \<Rightarrow>
     let k = (if keylen \<le> k then 0 else k) in
     bindE (idx m i) (\<lambda>a.
     bindE (idx key k) (\<lambda>c.
     let j = (j + unat a + unat c) mod 256 in
     bindE (idx m j) (\<lambda>b.
     bindE (upd m i b) (\<lambda>m.
     bindE (upd m j a) (\<lambda>m. Inr (j, k + 1, m)))))))"

fun arc4_ksa ::
    "bytes \<Rightarrow> nat \<Rightarrow> nat list \<Rightarrow> nat \<times> nat \<times> bytes \<Rightarrow> fault + nat \<times> nat \<times> bytes" where
  "arc4_ksa key keylen [] s = Inr s"
| "arc4_ksa key keylen (i # is) s =
     bindE (arc4_ksa_step key keylen i s) (arc4_ksa key keylen is)"

definition arc4_setup :: "bytes \<Rightarrow> nat \<Rightarrow> fault + arc4_context" where
  "arc4_setup key keylen =
     bindE (arc4_ksa key keylen [0..<256] (0, 0, map of_nat [0..<256])) (\<lambda>(j, k, m).
       Inr \<lparr>arc4_x = 0, arc4_y = 0, arc4_m = m\<rparr>)"

text \<open>The body of the loop: the next byte of the key stream and the context after it.\<close>

definition arc4_step :: "arc4_context \<Rightarrow> fault + arc4_context \<times> u8" where
  "arc4_step c =
     (let x = (arc4_x c + 1) mod 256; m = arc4_m c in
      bindE (idx m x) (\<lambda>a.
      let y = (arc4_y c + unat a) mod 256 in
      bindE (idx m y) (\<lambda>b.
      bindE (upd m x b) (\<lambda>m.
      bindE (upd m y a) (\<lambda>m.
      bindE (idx m (unat (a + b))) (\<lambda>z.
        Inr (\<lparr>arc4_x = x, arc4_y = y, arc4_m = m\<rparr>, z)))))))"

fun arc4_crypt :: "arc4_context \<Rightarrow> bytes \<Rightarrow> fault + arc4_context \<times> bytes" where
  "arc4_crypt c [] = Inr (c, [])"
| "arc4_crypt c (b # input) =
     bindE (arc4_step c) (\<lambda>(c1, z).
     bindE (arc4_crypt c1 input) (\<lambda>(c2, output). Inr (c2, (b XOR z) # output)))"

section \<open>The table is a permutation of the bytes\<close>

definition arc4_ok :: "arc4_context \<Rightarrow> bool" where
  "arc4_ok c \<longleftrightarrow> arc4_x c < 256 \<and> arc4_y c < 256 \<and> length (arc4_m c) = 256 \<and> distinct (arc4_m c)"

lemma unat_u8_less [simp]: "unat (b :: u8) < 256"
  using unsigned_less [of b] by simp

lemma arc4_ksa_step_ok:
  assumes "length m = 256" "distinct m" "i < 256" "0 < keylen" "keylen \<le> length key"
  shows "\<exists>j' k' m'. arc4_ksa_step key keylen i (j, k, m) = Inr (j', k', m') \<and>
    length m' = 256 \<and> distinct m'"
proof -
  define k1 where "k1 = (if keylen \<le> k then 0 else k)"
  have "k1 < length key" using assms by (auto simp: k1_def)
  then show ?thesis
    using assms by (auto simp: arc4_ksa_step_def Let_def k1_def [symmetric] distinct_swap)
qed

lemma arc4_ksa_ok:
  assumes "list_all (\<lambda>i. i < 256) is" "length m = 256" "distinct m" "0 < keylen" "keylen \<le> length key"
  shows "\<exists>j' k' m'. arc4_ksa key keylen is (j, k, m) = Inr (j', k', m') \<and>
    length m' = 256 \<and> distinct m'"
  using assms(1-3)
proof (induction "is" arbitrary: j k m)
  case (Cons i "is")
  then obtain j' k' m' where "arc4_ksa_step key keylen i (j, k, m) = Inr (j', k', m')"
    "length m' = 256" "distinct m'"
    using arc4_ksa_step_ok [of m i keylen key j k] assms(4,5) by auto
  with Cons show ?case by simp
qed simp

lemma byte_table: "distinct (map of_nat [0..<256] :: bytes)"
  by (auto simp: distinct_map inj_on_def word_of_nat_eq_iff take_bit_eq_mod)

lemma arc4_setup_ok:
  assumes "0 < keylen" "keylen \<le> length key"
  shows "\<exists>c. arc4_setup key keylen = Inr c \<and> arc4_ok c"
  using arc4_ksa_ok [of "[0..<256]" "map of_nat [0..<256]" keylen key 0 0] assms byte_table
  by (auto simp: arc4_setup_def arc4_ok_def list_all_iff)

lemma arc4_step_ok: "arc4_ok c \<Longrightarrow> \<exists>c' z. arc4_step c = Inr (c', z) \<and> arc4_ok c'"
  by (auto simp: arc4_step_def arc4_ok_def Let_def distinct_swap)

lemma arc4_crypt_ok:
  "arc4_ok c \<Longrightarrow> \<exists>c' ys. arc4_crypt c xs = Inr (c', ys) \<and> arc4_ok c' \<and> length ys = length xs"
proof (induction xs arbitrary: c)
  case (Cons b xs)
  then obtain c1 z where "arc4_step c = Inr (c1, z)" "arc4_ok c1" using arc4_step_ok by blast
  with Cons.IH [of c1] show ?case by auto
qed simp

text \<open>A permutation: the table holds every byte once, whatever the key and the data.\<close>

lemma arc4_table_permutation: "arc4_ok c \<Longrightarrow> mset (arc4_m c) = mset (map of_nat [0..<256])"
proof -
  assume ok: "arc4_ok c"
  have "card (set (arc4_m c)) = 256" using ok by (simp add: arc4_ok_def distinct_card)
  moreover have "card (UNIV :: u8 set) = 256" by (simp add: card_word)
  ultimately have "set (arc4_m c) = UNIV" by (metis card_subset_eq finite_UNIV subset_UNIV finite)
  moreover have "set (map of_nat [0..<256] :: bytes) = UNIV"
  proof -
    have "card (set (map of_nat [0..<256] :: bytes)) = 256"
      using distinct_card [OF byte_table] by simp
    then show ?thesis using \<open>card (UNIV :: u8 set) = 256\<close>
      by (metis card_subset_eq finite_UNIV subset_UNIV finite)
  qed
  ultimately show ?thesis
    using ok byte_table set_eq_iff_mset_eq_distinct [of "arc4_m c" "map of_nat [0..<256]"]
    by (simp add: arc4_ok_def)
qed

section \<open>Encryption and decryption\<close>

lemma arc4_crypt_append:
  "arc4_crypt c (xs @ ys) = bindE (arc4_crypt c xs) (\<lambda>(c1, us).
     bindE (arc4_crypt c1 ys) (\<lambda>(c2, vs). Inr (c2, us @ vs)))"
proof (induction xs arbitrary: c)
  case Nil
  then show ?case by (cases "arc4_crypt c ys") auto
next
  case (Cons b xs)
  show ?case
  proof (cases "arc4_step c")
    case (Inr p)
    then show ?thesis
      by (cases p; cases "arc4_crypt (fst p) xs")
        (auto simp: Cons.IH bindE_assoc bindE_def split: sum.splits prod.splits)
  qed simp
qed

lemma arc4_crypt_inverse:
  "arc4_crypt c xs = Inr (c', ys) \<Longrightarrow> arc4_crypt c ys = Inr (c', xs)"
proof (induction xs arbitrary: c ys)
  case (Cons b xs)
  then obtain c1 z us where "arc4_step c = Inr (c1, z)" "arc4_crypt c1 xs = Inr (c', us)"
    "ys = (b XOR z) # us"
    by (auto simp: res_simps)
  with Cons.IH [of c1 us] show ?case by (simp add: xor.assoc)
qed simp

text \<open>
  What a user of a stream cipher relies on, and the transmission of a stream: the sender
  encrypts chunk by chunk, the receiver decrypts the same bytes split in another way.
\<close>

locale stream_cipher =
  fixes crypt :: "'c \<Rightarrow> bytes \<Rightarrow> fault + 'c \<times> bytes" and inv :: "'c \<Rightarrow> bool"
  assumes total: "inv c \<Longrightarrow> \<exists>c' ys. crypt c xs = Inr (c', ys) \<and> inv c' \<and> length ys = length xs"
    and app: "crypt c (xs @ ys) = bindE (crypt c xs) (\<lambda>(c1, us).
      bindE (crypt c1 ys) (\<lambda>(c2, vs). Inr (c2, us @ vs)))"
    and empty: "crypt c [] = Inr (c, [])"
    and inverse: "crypt c xs = Inr (c', ys) \<Longrightarrow> crypt c ys = Inr (c', xs)"
begin

primrec stream :: "'c \<Rightarrow> bytes list \<Rightarrow> fault + 'c \<times> bytes" where
  "stream c [] = Inr (c, [])"
| "stream c (xs # xss) = bindE (crypt c xs) (\<lambda>(c1, us).
     bindE (stream c1 xss) (\<lambda>(c2, vs). Inr (c2, us @ vs)))"

lemma stream_concat: "stream c xss = crypt c (concat xss)"
  by (induction xss arbitrary: c) (auto simp: app empty)

lemma stream_total:
  "inv c \<Longrightarrow> \<exists>c' ys. stream c xss = Inr (c', ys) \<and> inv c' \<and> length ys = length (concat xss)"
  by (simp only: stream_concat total)

lemma stream_roundtrip:
  assumes "stream c xss = Inr (c', ys)" "concat yss = ys"
  shows "stream c yss = Inr (c', concat xss)"
  unfolding stream_concat assms(2)
  by (rule inverse) (rule assms(1) [unfolded stream_concat])

end

interpretation arc4: stream_cipher arc4_crypt arc4_ok
proof
  show "arc4_crypt c xs = Inr (c', ys) \<Longrightarrow> arc4_crypt c ys = Inr (c', xs)" for c xs c' ys
    by (rule arc4_crypt_inverse)
qed (simp_all add: arc4_crypt_ok arc4_crypt_append)

text \<open>
  C13. A byte stream that one side encrypts chunk by chunk comes out of the other side unchanged
  when it decrypts the same bytes split in any other way, and both end in the same cipher state.
  A key of at least one byte sets such a state up.
\<close>

theorem arc4_stream_roundtrip:
  assumes "0 < keylen" "keylen \<le> length key"
  shows "\<exists>c c' ys. arc4_setup key keylen = Inr c \<and> arc4.stream c xss = Inr (c', ys) \<and>
    length ys = length (concat xss) \<and>
    (\<forall>yss. concat yss = ys \<longrightarrow> arc4.stream c yss = Inr (c', concat xss))"
proof -
  obtain c where c: "arc4_setup key keylen = Inr c" "arc4_ok c" using arc4_setup_ok [OF assms] by blast
  then show ?thesis using arc4.stream_total [OF c(2), of xss] arc4.stream_roundtrip by blast
qed

theorem arc4_stream_roundtrip_witness:
  "\<exists>c c' ys. arc4_setup [1, 2, 3] 3 = Inr c \<and> arc4.stream c [[10, 20], [30]] = Inr (c', ys) \<and>
    arc4.stream c [take 1 ys, drop 1 ys] = Inr (c', [10, 20, 30])"
proof -
  have pre: "0 < (3 :: nat)" "3 \<le> length [1, 2, 3 :: u8]" by simp_all
  obtain c c' ys where "arc4_setup [1, 2, 3] 3 = Inr c" "arc4.stream c [[10, 20], [30]] = Inr (c', ys)"
    and r: "\<forall>yss. concat yss = ys \<longrightarrow> arc4.stream c yss = Inr (c', concat [[10, 20], [30]])"
    using arc4_stream_roundtrip [OF pre, of "[[10, 20], [30]]"] by (elim exE conjE) (rule that)
  moreover have "concat [take 1 ys, drop 1 ys] = ys" by simp
  ultimately show ?thesis using r by fastforce
qed

end
