(* ===== verification/Connection.thy ===== *)
theory Connection
  imports Msg_Codec Dyn_Array Arc4
begin

unbundle bit_operations_syntax

text \<open>
  The connection of \<^verbatim>\<open>code/client/network.c\<close>: its state and every operation on it but the
  handshake (theory Handshake). The operating system and the rest of the client are parameters: \<open>send\<close> gives the
  result of the system call on the bytes it is passed, \<open>recv\<close> the result for a length, \<open>run\<close> the
  effect of a message handler, called with the size and the bytes of the packet, on the
  connection and on the rest of the client, of type \<open>'w\<close>.
  An operation that may send also returns the bytes that the system call accepted.

  The mutex is recursive and is modelled by the depth at which the running thread holds it;
  unlocking a mutex that is not held is an error that the code ignores. Log messages and the
  members \<^verbatim>\<open>data\<close> and \<^verbatim>\<open>name\<close>, which only the handlers and the log use, are left out.
\<close>

section \<open>State\<close>

definition NETCONN_PAUSE :: u32 where "NETCONN_PAUSE = 1"
definition NETCONN_SHUTDOWN :: u32 where "NETCONN_SHUTDOWN = 2"
definition NETCONN_REMOVE :: u32 where "NETCONN_REMOVE = 4"

definition SOCKET_ERROR :: int where "SOCKET_ERROR = - 1"
definition INVALID_SOCKET :: int where "INVALID_SOCKET = - 1"

datatype conn_type = ConnectionType_None | ConnectionType_Auth | ConnectionType_Game | ConnectionType_Portal

text \<open>A socket address: the member \<^verbatim>\<open>sa_family\<close> and the bytes after it.\<close>

type_synonym sockaddr = "u16 \<times> bytes"

record connection =
  conn_flags :: u32
  conn_proto :: conn_type
  conn_t0 :: u64
  conn_host :: sockaddr
  conn_fd :: int
  conn_ping :: u64
  conn_pong :: u64
  conn_latency :: u64
  conn_last_tick_time :: u64
  conn_mutex :: nat
  conn_in :: "u8 carray"
  conn_out :: "u8 carray"
  conn_secured :: bool
  conn_decrypt :: arc4_context
  conn_encrypt :: arc4_context
  conn_server_msg_format :: "msg_format list"
  conn_client_msg_format :: "msg_format list"
  conn_handlers :: "nat option carray"

definition lock :: "connection \<Rightarrow> connection" where
  "lock c = c\<lparr>conn_mutex := conn_mutex c + 1\<rparr>"

definition unlock :: "connection \<Rightarrow> connection" where
  "unlock c = c\<lparr>conn_mutex := conn_mutex c - 1\<rparr>"

section \<open>Opening and closing\<close>

definition init_connection :: "(nat \<Rightarrow> bool) \<Rightarrow> fault + connection" where
  "init_connection alloc =
     bindE (array_reserve alloc 0 1 array_init 5840) (\<lambda>(_, inb).
     bindE (array_reserve alloc 0 1 array_init 5840) (\<lambda>(_, outb).
       Inr \<lparr>conn_flags = 0, conn_proto = ConnectionType_None, conn_t0 = 0,
            conn_host = (0, replicate 14 0), conn_fd = 0, conn_ping = 0, conn_pong = 0, conn_latency = 0,
            conn_last_tick_time = 0, conn_mutex = 0, conn_in = inb, conn_out = outb,
            conn_secured = False, conn_decrypt = arc4_init, conn_encrypt = arc4_init,
            conn_server_msg_format = [], conn_client_msg_format = [],
            conn_handlers = array_init\<rparr>))"

definition NetConn_Reset :: "connection \<Rightarrow> connection" where
  "NetConn_Reset c = c\<lparr>
     conn_fd := (if conn_fd c \<noteq> 0 \<and> conn_fd c \<noteq> INVALID_SOCKET then INVALID_SOCKET else conn_fd c),
     conn_in := array_reset (conn_in c), conn_out := array_reset (conn_out c),
     conn_handlers := array_reset (conn_handlers c)\<rparr>"

definition NetConn_HardShutdown :: "connection \<Rightarrow> connection" where
  "NetConn_HardShutdown c = c\<lparr>conn_flags := conn_flags c OR NETCONN_SHUTDOWN\<rparr>"

definition NetConn_IsShutdown :: "connection \<Rightarrow> bool" where
  "NetConn_IsShutdown c = (if conn_fd c = 0 \<or> conn_fd c = INVALID_SOCKET then True else False)"

section \<open>Sending\<close>

definition NetConn_Send :: "(bytes \<Rightarrow> int) \<Rightarrow> connection \<Rightarrow> fault + connection \<times> bytes" where
  "NetConn_Send send c0 =
     bindE (assertE (conn_secured c0)) (\<lambda>_.
     let c = lock c0 in
     if conn_flags c AND NETCONN_REMOVE \<noteq> 0 then Inr (unlock c, [])
     else let out = conn_out c; size = arr_size out in
     if size = 0 then Inr (unlock c, [])
     else
       bindE (mem_read (arr_data out) 0 size) (\<lambda>buff.
       bindE (arc4_crypt (conn_encrypt c) buff) (\<lambda>(ctx, enc).
       bindE (mem_write (arr_data out) 0 enc) (\<lambda>data.
       let c = c\<lparr>conn_encrypt := ctx, conn_out := out\<lparr>arr_data := data\<rparr>\<rparr>;
           result = send enc
       in if result = SOCKET_ERROR then Inr (unlock (NetConn_HardShutdown c), [])
       else let new_size = sz_sub size (nat result) in
         bindE (if new_size \<noteq> 0
                then bindE (mem_read data (nat result) new_size) (mem_write data 0)
                else Inr data) (\<lambda>data'.
           Inr (unlock (c\<lparr>conn_out := out\<lparr>arr_data := data', arr_size := new_size\<rparr>\<rparr>),
                take (nat result) enc))))))"

definition NetConn_Shutdown :: "(bytes \<Rightarrow> int) \<Rightarrow> connection \<Rightarrow> fault + connection \<times> bytes" where
  "NetConn_Shutdown send c0 =
     bindE (NetConn_Send send c0) (\<lambda>(c, sent).
       Inr (c\<lparr>conn_in := array_reset (conn_in c), conn_out := array_reset (conn_out c),
              conn_flags := conn_flags c OR NETCONN_SHUTDOWN\<rparr>, sent))"

text \<open>\<open>p\<close> is the memory from the pointer to the packet on, \<open>psize\<close> the size its caller gives.\<close>

definition SendPacket :: "(bytes \<Rightarrow> int) \<Rightarrow> connection \<Rightarrow> nat \<Rightarrow> bytes \<Rightarrow> fault + connection \<times> bytes" where
  "SendPacket send c0 psize p =
     (let c = lock c0 in
      if conn_flags c AND NETCONN_REMOVE \<noteq> 0 then Inr (unlock c, [])
      else
        bindE (le16dec p) (\<lambda>h.
        let header = unat (h AND 0x7FFF) in
        bindE (assertE (header < length (conn_client_msg_format c))) (\<lambda>_.
        let format = conn_client_msg_format c ! header in
        bindE (assertE (header = mf_header format)) (\<lambda>_.
        bindE (assertE (psize = mf_unpack_size format)) (\<lambda>_.
        bindE (if sz_sub (arr_capacity (conn_out c)) (arr_size (conn_out c)) < 2
               then NetConn_Send send c else Inr (c, [])) (\<lambda>(c, sent).
        let out = conn_out c;
            available = sz_sub (arr_capacity out) (arr_size out)
        in bindE (assertE (2 \<le> available)) (\<lambda>_.
        bindE (NetMsg_Pack p psize (drop (arr_size out) (arr_data out)) available format)
          (\<lambda>(written, buf).
        let c = c\<lparr>conn_out := out\<lparr>arr_data := take (arr_size out) (arr_data out) @ buf\<rparr>\<rparr>
        in if written = 0 then Inr (unlock c, sent)
           else Inr (unlock (c\<lparr>conn_out := (conn_out c)\<lparr>arr_size := sz_add (arr_size out) written\<rparr>\<rparr>),
                     sent)))))))))"

section \<open>Receiving\<close>

text \<open>
  The loop over the messages in the buffer. The local variable \<^verbatim>\<open>data\<close> points into the block of
  \<^verbatim>\<open>conn->in\<close> and is the offset \<open>off\<close> into it; a handler that releases the block leaves nothing
  to read there. \<open>buffer\<close> is the \<^verbatim>\<open>PacketBuffer\<close> on the stack. The result tells
  whether the code returns in the loop (\<open>None\<close>) or leaves it with an offset and a size.
\<close>

function dispatch_loop ::
    "(nat \<Rightarrow> nat \<Rightarrow> bytes \<Rightarrow> 'w \<times> connection \<Rightarrow> fault + 'w \<times> connection) \<Rightarrow> bytes \<Rightarrow> nat \<Rightarrow> nat \<Rightarrow>
     'w \<times> connection \<Rightarrow> fault + (nat \<times> nat) option \<times> 'w \<times> connection" where
  "dispatch_loop run buffer off len (w, c) =
     (if len < 2 then Inr (Some (off, len), w, c)
      else
        bindE (le16dec (drop off (arr_data (conn_in c)))) (\<lambda>h.
        let header = unat h in
        bindE (assertE (header < length (conn_server_msg_format c))) (\<lambda>_.
        let format = conn_server_msg_format c ! header in
        bindE (assertE (mf_header format = header)) (\<lambda>_.
        bindE (mem_write buffer 0 (replicate (mf_unpack_size format) 0)) (\<lambda>buffer.
        bindE (NetMsg_Unpack (drop off (arr_data (conn_in c))) len buffer (mf_unpack_size format) format)
          (\<lambda>(readed, buffer).
        if readed = 0 then Inr (Some (off, len), w, c)
        else
          bindE (assertE (readed \<le> len)) (\<lambda>_.
          let off = off + readed; len = len - readed in
          if \<not> array_inside (conn_handlers c) header then Inr (None, w, NetConn_HardShutdown c)
          else
            bindE (array_at (conn_handlers c) header) (\<lambda>handler.
            bindE (case handler of None \<Rightarrow> Inr (w, c)
                   | Some h \<Rightarrow> run h (mf_unpack_size format) (take (mf_unpack_size format) buffer) (w, c)) (\<lambda>(w, c).
            if conn_flags c AND NETCONN_REMOVE \<noteq> 0
            then Inr (None, w, c\<lparr>conn_in := array_clear (conn_in c)\<rparr>)
            else dispatch_loop run buffer off len (w, c))))))))))"
  by pat_completeness auto
termination
  by (relation "measure (\<lambda>(_, _, _, len, _). len)") (auto simp: res_simps)

declare dispatch_loop.simps [simp del]

definition NetConn_DispatchPackets ::
    "(nat \<Rightarrow> nat \<Rightarrow> bytes \<Rightarrow> 'w \<times> connection \<Rightarrow> fault + 'w \<times> connection) \<Rightarrow> bytes \<Rightarrow>
     'w \<times> connection \<Rightarrow> fault + 'w \<times> connection" where
  "NetConn_DispatchPackets run buffer s =
     bindE (dispatch_loop run buffer 0 (arr_size (conn_in (snd s))) s) (\<lambda>(r, w, c).
       case r of None \<Rightarrow> Inr (w, c)
       | Some (off, len) \<Rightarrow>
           bindE (if 0 < len
                  then bindE (mem_read (arr_data (conn_in c)) off len) (mem_write (arr_data (conn_in c)) 0)
                  else Inr (arr_data (conn_in c))) (\<lambda>data.
             Inr (w, c\<lparr>conn_in := (conn_in c)\<lparr>arr_data := data, arr_size := len\<rparr>\<rparr>)))"

text \<open>The system call \<^verbatim>\<open>recv\<close>: bytes, or an error with the value of \<^verbatim>\<open>errno\<close> (Linux).\<close>

datatype recv_result = RecvError int | RecvBytes bytes

definition socket_would_block :: "int \<Rightarrow> bool" where
  "socket_would_block err \<longleftrightarrow> err = 11"

text \<open>\<open>leave_game\<close> is the effect of \<^verbatim>\<open>client->ingame = false\<close> on the rest of the client.\<close>

definition NetConn_Recv ::
    "(nat \<Rightarrow> recv_result) \<Rightarrow> (nat \<Rightarrow> nat \<Rightarrow> bytes \<Rightarrow> 'w \<times> connection \<Rightarrow> fault + 'w \<times> connection) \<Rightarrow>
     ('w \<Rightarrow> 'w) \<Rightarrow> bytes \<Rightarrow> 'w \<times> connection \<Rightarrow> fault + 'w \<times> connection" where
  "NetConn_Recv recv run leave_game buffer s =
     (case s of (w, c) \<Rightarrow>
      bindE (assertE (conn_secured c)) (\<lambda>_.
      let size = sz_sub (arr_capacity (conn_in c)) (arr_size (conn_in c)) in
      case recv size of
        RecvError err \<Rightarrow>
          if \<not> socket_would_block err then Inr (leave_game w, unlock (NetConn_HardShutdown c))
          else Inr (w, unlock c)
      | RecvBytes bs \<Rightarrow>
          bindE (mem_write (replicate 5840 0) 0 bs) (\<lambda>_.
          bindE (arc4_crypt (conn_decrypt c) bs) (\<lambda>(ctx, dec).
          bindE (mem_write (arr_data (conn_in c)) (arr_size (conn_in c)) dec) (\<lambda>data.
            NetConn_DispatchPackets run buffer (w, c\<lparr>conn_decrypt := ctx,
              conn_in := (conn_in c)\<lparr>arr_data := data,
                arr_size := sz_add (arr_size (conn_in c)) (length bs)\<rparr>\<rparr>))))))"

definition NetConn_Update ::
    "(bytes \<Rightarrow> int) \<Rightarrow> (nat \<Rightarrow> recv_result) \<Rightarrow>
     (nat \<Rightarrow> nat \<Rightarrow> bytes \<Rightarrow> 'w \<times> connection \<Rightarrow> fault + 'w \<times> connection) \<Rightarrow>
     ('w \<Rightarrow> 'w) \<Rightarrow> bytes \<Rightarrow> 'w \<times> connection \<Rightarrow> fault + ('w \<times> connection) \<times> bytes" where
  "NetConn_Update send recv run leave_game buffer s =
     (case s of (w, c) \<Rightarrow>
      if conn_fd c = 0 \<or> conn_fd c = INVALID_SOCKET then Inr ((w, c), [])
      else
        bindE (NetConn_Send send c) (\<lambda>(c, sent).
        bindE (NetConn_Recv recv run leave_game buffer (w, c)) (\<lambda>(w, c).
        if conn_flags c AND NETCONN_SHUTDOWN \<noteq> 0
        then Inr ((w, c\<lparr>conn_fd := INVALID_SOCKET, conn_flags := 0, conn_ping := 0, conn_pong := 0,
                        conn_latency := 0, conn_last_tick_time := 0,
                        conn_in := array_clear (conn_in c), conn_out := array_clear (conn_out c),
                        conn_secured := False\<rparr>), sent)
        else Inr ((w, c), sent))))"

end
