(* ===== verification/Codec_Safety.thy ===== *)
theory Codec_Safety
  imports Msg_Codec
begin

text \<open>
  Memory safety of the codec for every input: whatever bytes arrive, and whatever structure a
  caller passes, \<open>unpack\<close> and \<open>pack\<close> stay inside of their blocks and consume no more than
  they were given; the only fault they can end in is a failed assertion.
\<close>

lemma le16dec_total: "2 \<le> length p \<Longrightarrow> \<exists>x. le16dec p = Inr x"
  by (cases p rule: le16dec.cases) auto

lemma le32dec_total: "4 \<le> length p \<Longrightarrow> \<exists>x. le32dec p = Inr x"
  by (cases p rule: le32dec.cases) auto

lemma le16dec_not_assert: "le16dec p \<noteq> Inl AssertFail"
  by (cases p rule: le16dec.cases) auto

lemma prefix_size_cases:
  "get_prefix_size t = 0 \<or> (get_prefix_size t = 1 \<and> t = TYPE_NESTED_STRUCT) \<or>
   (get_prefix_size t = 2 \<and> t \<in> {TYPE_STRING_16, TYPE_ARRAY_8, TYPE_ARRAY_16, TYPE_ARRAY_32})"
  by (cases t) auto

section \<open>unpack\<close>

definition unpack_post :: "nat \<Rightarrow> nat \<Rightarrow> nat \<Rightarrow> nat \<Rightarrow> fault + nat option \<times> bytes \<Rightarrow> bool" where
  "unpack_post len lo hi w r \<longleftrightarrow> (case r of
     Inl e \<Rightarrow> e = AssertFail
   | Inr (None, b) \<Rightarrow> length b = len
   | Inr (Some n, b) \<Rightarrow> length b = len \<and> lo \<le> n \<and> n \<le> hi \<and> n \<le> lo + w)"

lemma unpack_postE:
  assumes "unpack_post len lo hi w r"
  obtains "r = Inl AssertFail"
  | b where "r = Inr (None, b)" "length b = len"
  | n b where "r = Inr (Some n, b)" "length b = len" "lo \<le> n" "n \<le> hi" "n \<le> lo + w"
  using assms by (auto simp: unpack_post_def split: sum.splits option.splits prod.splits)

lemma unpack_post_weaken:
  "unpack_post len lo hi w r \<Longrightarrow> lo' \<le> lo \<Longrightarrow> lo + w \<le> lo' + w' \<Longrightarrow> unpack_post len lo' hi w' r"
  by (auto simp: unpack_post_def split: sum.splits option.splits)

definition field_ok :: "msg_field \<Rightarrow> bool" where
  "field_ok f \<longleftrightarrow> (fd_type f = TYPE_STRING_16 \<longrightarrow> 0 < fd_param f)"

definition header_size :: "msg_field \<Rightarrow> nat" where
  "header_size f = (if is_array f \<or> is_nested f then 4 else 0)"

lemma unpack_prefix_safe:
  assumes "data_size \<le> length data" "readed \<le> data_size" "field_ok f"
    and "written + header_size f + (if is_nested f then 0 else static_count f * get_element_size f) \<le> length buf"
  shows "unpack_prefix f data data_size buf readed written \<in> {Inl AssertFail, Inr None} \<or>
    (\<exists>packed buf'. unpack_prefix f data data_size buf readed written =
        Inr (Some (packed, static_count f, readed + get_prefix_size (fd_type f),
                   written + header_size f, buf')) \<and>
      packed \<le> static_count f \<and> length buf' = length buf \<and>
      readed + get_prefix_size (fd_type f) \<le> data_size)"
proof -
  consider (none) "get_prefix_size (fd_type f) = 0"
    | (nested) "fd_type f = TYPE_NESTED_STRUCT"
    | (string) "fd_type f = TYPE_STRING_16"
    | (array) "fd_type f \<in> {TYPE_ARRAY_8, TYPE_ARRAY_16, TYPE_ARRAY_32}"
    using prefix_size_cases [of "fd_type f"] by auto
  then show ?thesis
  proof cases
    case none
    then have "\<not> is_array f" "\<not> is_nested f" by auto
    with none assms show ?thesis by (simp add: unpack_prefix_def static_count_def header_size_def)
  next
    case nested
    with assms show ?thesis
      by (auto simp: unpack_prefix_def Let_def static_count_def header_size_def assertE_def)
  next
    case string
    show ?thesis
    proof (cases "data_size - readed < 2")
      case True
      with string show ?thesis by (simp add: unpack_prefix_def)
    next
      case False
      then have "2 \<le> length (drop readed data)" using assms(1,2) by simp
      then obtain x where x: "le16dec (drop readed data) = Inr x" using le16dec_total by blast
      let ?e = "if unat x > fd_param f - 1 then fd_param f - 1 else unat x"
      have pos: "0 < fd_param f" using string assms(3) by (simp add: field_ok_def)
      have room: "written + 2 * fd_param f \<le> length buf"
        using string assms(4)
        by (simp add: static_count_def header_size_def get_element_size.simps mult.commute)
      have "written + 2 * ?e + 2 \<le> length buf" using pos room by auto
      then have "mem_write buf (written + 2 * ?e) [0, 0] = Inr (overlay buf (written + 2 * ?e) [0, 0])"
        by simp
      with string x pos False assms(1,2) \<open>written + 2 * ?e + 2 \<le> length buf\<close> show ?thesis
        by (simp add: unpack_prefix_def Let_def static_count_def header_size_def assertE_def) auto
    qed
  next
    case array
    show ?thesis
    proof (cases "data_size - readed < 2")
      case True
      with array show ?thesis by (auto simp: unpack_prefix_def)
    next
      case False
      then have "2 \<le> length (drop readed data)" using assms(1,2) by simp
      then obtain x where x: "le16dec (drop readed data) = Inr x" using le16dec_total by blast
      have p: "get_prefix_size (fd_type f) = 2" "header_size f = 4"
        using array by (auto simp: header_size_def)
      with array x False assms show ?thesis
        by (auto simp: unpack_prefix_def Let_def static_count_def assertE_def)
    qed
  qed
qed

lemma unpack_elems_safe:
  assumes "data_size \<le> length data" "readed \<le> data_size" "packed \<le> static"
    and "written + static * get_element_size f \<le> length buf"
  shows "unpack_elems f packed static data data_size buf readed written = Inr None \<or>
    (\<exists>buf'. unpack_elems f packed static data data_size buf readed written =
       Inr (Some (readed + get_element_size f * packed, written + static * get_element_size f, buf')) \<and>
     length buf' = length buf \<and> readed + get_element_size f * packed \<le> data_size)"
proof (cases "data_size - readed < get_element_size f * packed")
  case True
  then show ?thesis by (simp add: unpack_elems_def Let_def)
next
  case False
  define k where "k = get_element_size f * packed"
  have "k \<le> static * get_element_size f"
    using assms(3) by (simp add: k_def mult.commute)
  with False assms have "readed + k \<le> length data" "written + k \<le> length buf" "readed + k \<le> data_size"
    by (simp_all add: k_def [symmetric])
  with False show ?thesis by (simp add: unpack_elems_def Let_def k_def [symmetric])
qed

lemma unpack_safe_induct:
  "fields_ok fs \<Longrightarrow> data_size \<le> length data \<Longrightarrow> readed \<le> data_size \<Longrightarrow>
   written + unpack_bound fs \<le> length buf \<Longrightarrow>
   unpack_post (length buf) readed data_size (max_wire fs)
     (unpack_fields data data_size buf buff_size readed written fs)"
  "fields_ok fs \<Longrightarrow> data_size \<le> length data \<Longrightarrow> readed \<le> data_size \<Longrightarrow>
   written + n * max (max_wire fs) (unpack_bound fs) \<le> length buf \<Longrightarrow>
   unpack_post (length buf) readed data_size (n * max_wire fs)
     (unpack_rows data data_size buf buff_size readed written n fs)"
proof (induction data data_size buf buff_size readed written fs
    and data data_size buf buff_size readed written n fs
    rule: unpack_fields_unpack_rows.induct)
  case (1 data data_size buf buff_size readed written)
  then show ?case by (simp add: unpack_post_def)
next
  case (2 data data_size buf buff_size readed written f fs)
  let ?p = "get_prefix_size (fd_type f)" and ?e = "get_element_size f"
  note defs = unpack_post_def
  have fok: "field_ok f" "fields_ok fs"
    using "2.prems"(1) by (auto simp: field_ok_def split: if_splits)
  have room: "written + header_size f + (if is_nested f then 0 else static_count f * ?e) \<le> length buf"
    using "2.prems"(4) by (auto simp: header_size_def flat_size_def split: if_splits)
  from unpack_prefix_safe [OF "2.prems"(2,3) fok(1) room] show ?case
  proof (elim disjE exE conjE)
    assume "unpack_prefix f data data_size buf readed written \<in> {Inl AssertFail, Inr None}"
    then show ?thesis by (auto simp: defs)
  next
    fix packed buf'
    assume pre: "unpack_prefix f data data_size buf readed written =
        Inr (Some (packed, static_count f, readed + ?p, written + header_size f, buf'))"
      and packed: "packed \<le> static_count f" and len: "length buf' = length buf"
      and rd: "readed + ?p \<le> data_size"
    show ?thesis
    proof (cases "is_nested f")
      case True
      then have ne: "fs \<noteq> []" using "2.prems"(1) by auto
      let ?m = "max (max_wire fs) (unpack_bound fs)"
      have sc: "static_count f = fd_param f" using True by (simp add: static_count_def)
      have "packed * ?m \<le> fd_param f * ?m" using packed sc by (simp add: mult_right_mono)
      moreover have "unpack_bound (f # fs) = header_size f + fd_param f * ?m"
        using True by (simp add: header_size_def)
      ultimately have bnd: "written + header_size f + packed * ?m \<le> length buf'"
        using "2.prems"(4) len by linarith
      have "unpack_post (length buf') (readed + ?p) data_size (packed * max_wire fs)
          (unpack_rows data data_size buf' buff_size (readed + ?p) (written + header_size f) packed fs)"
        using "2.IH"(2) [OF pre refl refl refl refl refl] True ne fok(2) "2.prems"(2) rd bnd by simp
      moreover have "readed + ?p + packed * max_wire fs \<le> readed + max_wire (f # fs)"
        using True packed sc by (simp add: mult_right_mono)
      ultimately show ?thesis
        using True pre ne len by (simp add: unpack_post_weaken)
    next
      case False
      then have bnd: "written + header_size f + static_count f * ?e \<le> length buf'"
        using room len by simp
      from unpack_elems_safe [OF "2.prems"(2) rd packed bnd] show ?thesis
      proof (elim disjE exE conjE)
        assume "unpack_elems f packed (static_count f) data data_size buf' (readed + ?p)
            (written + header_size f) = Inr None"
        with pre False len show ?thesis by (simp add: defs)
      next
        fix buf2
        assume el: "unpack_elems f packed (static_count f) data data_size buf' (readed + ?p)
              (written + header_size f) =
            Inr (Some (readed + ?p + ?e * packed, written + header_size f + static_count f * ?e, buf2))"
          and len2: "length buf2 = length buf'" and rd2: "readed + ?p + ?e * packed \<le> data_size"
        have fs: "header_size f + static_count f * ?e = flat_size f"
          using False by (simp add: header_size_def flat_size_def)
        have w: "written + header_size f + static_count f * ?e + unpack_bound fs \<le> length buf2"
          using "2.prems"(4) False len len2 fs by simp
        have "unpack_post (length buf2) (readed + ?p + ?e * packed) data_size (max_wire fs)
           (unpack_fields data data_size buf2 buff_size (readed + ?p + ?e * packed)
             (written + header_size f + static_count f * ?e) fs)"
          using "2.IH"(1) [OF pre refl refl refl refl refl _ el refl refl refl] False fok(2) "2.prems"(2) rd2 w by simp
        moreover have "?e * packed \<le> static_count f * ?e"
          using packed by (simp add: mult.commute)
        then have "readed + ?p + ?e * packed + max_wire fs \<le> readed + max_wire (f # fs)"
          using False by (simp add: flat_wire_def)
        ultimately show ?thesis
          using False pre el len len2 by (simp add: unpack_post_weaken)
      qed
    qed
  qed
next
  case (3 data data_size buf buff_size readed written fs)
  then show ?case by (simp add: unpack_post_def)
next
  case (4 data data_size buf buff_size readed written n fs)
  let ?m = "max (max_wire fs) (unpack_bound fs)"
  have bnd: "written + ?m + n * ?m \<le> length buf" using "4.prems"(4) by simp
  have "unpack_post (length (drop written buf)) 0 (data_size - readed) (max_wire fs)
      (unpack_fields (drop readed data) (data_size - readed) (drop written buf)
        (buff_size - written) 0 0 fs)"
    using "4.IH"(1) "4.prems"(1,2) bnd by simp
  then show ?case
  proof (cases rule: unpack_postE)
    case (3 tmp b)
    have len: "length (take written buf @ b) = length buf" using 3(2) bnd by simp
    have "unpack_post (length buf) (readed + tmp) data_size (n * max_wire fs)
      (unpack_rows data data_size (take written buf @ b) buff_size (readed + tmp) (written + tmp) n fs)"
      using "4.IH"(2) [OF 3(1) refl refl refl] "4.prems"(1,2,3) 3(4,5) bnd len by simp
    moreover have "readed + tmp + n * max_wire fs \<le> readed + Suc n * max_wire fs"
      using 3(5) by simp
    ultimately show ?thesis using 3(1) by (simp add: unpack_post_weaken)
  qed (use bnd in \<open>auto simp: unpack_post_def\<close>)
qed

lemma unpack_safe:
  assumes "fields_ok flds" "count = length flds" "data_size \<le> length data"
    and "unpack_bound flds \<le> length buf"
  shows "unpack_post (length buf) 0 data_size (max_wire flds)
    (unpack data data_size buf buff_size flds count)"
  using unpack_safe_induct(1) [OF assms(1,3), of 0 0 buf buff_size] assms(2,4)
  by (simp add: unpack_def)

section \<open>pack\<close>

text \<open>
  \<open>pack\<close> also leaves what stands before its write position alone: \<^verbatim>\<open>SendPacket\<close> appends to the
  packets that already wait in the buffer. The member \<^verbatim>\<open>size\<close> of a nested field must not exceed
  the size of the structure it counts (in the tables of the program it is 0).
\<close>

fun sizes_ok :: "msg_field list \<Rightarrow> bool" where
  "sizes_ok [] \<longleftrightarrow> True"
| "sizes_ok (f # fs) \<longleftrightarrow> (is_nested f \<longrightarrow> fd_size f \<le> struct_size fs) \<and> sizes_ok fs"

definition pack_post :: "bytes \<Rightarrow> nat \<Rightarrow> nat \<Rightarrow> nat \<Rightarrow> fault + nat option \<times> bytes \<Rightarrow> bool" where
  "pack_post buf lo hi w r \<longleftrightarrow> (case r of
     Inl e \<Rightarrow> e = AssertFail
   | Inr (None, b) \<Rightarrow> length b = length buf \<and> take lo b = take lo buf
   | Inr (Some n, b) \<Rightarrow> length b = length buf \<and> take lo b = take lo buf \<and> lo \<le> n \<and> n \<le> hi \<and> n \<le> lo + w)"

lemma pack_postE:
  assumes "pack_post buf lo hi w r"
  obtains "r = Inl AssertFail"
  | b where "r = Inr (None, b)" "length b = length buf" "take lo b = take lo buf"
  | n b where "r = Inr (Some n, b)" "length b = length buf" "take lo b = take lo buf"
      "lo \<le> n" "n \<le> hi" "n \<le> lo + w"
  using assms by (auto simp: pack_post_def split: sum.splits option.splits prod.splits)

lemma pack_post_weaken:
  assumes "pack_post buf' lo hi w r" "lo' \<le> lo" "lo + w \<le> lo' + w'"
    and "length buf' = length buf" "take lo' buf' = take lo' buf"
  shows "pack_post buf lo' hi w' r"
proof -
  have "take lo' b = take lo' buf" if "take lo b = take lo buf'" for b
  proof -
    have "take lo' (take lo b) = take lo' (take lo buf')" using that by simp
    then show ?thesis using assms(2,5) by (simp add: min_absorb1)
  qed
  then show ?thesis using assms
    by (auto simp: pack_post_def split: sum.splits option.splits prod.splits)
qed

lemma unicode16_len_safe:
  "2 * n \<le> length s \<Longrightarrow> \<exists>k. unicode16_len s n = Inr k \<and> k \<le> n"
proof (induction s n rule: unicode16_len.induct)
  case (2 s n)
  then obtain c where c: "le16dec s = Inr c" using le16dec_total [of s] by auto
  then show ?case
    using 2 by (cases "c = 0") fastforce+
qed simp

lemma pack_prefix_safe:
  assumes "readed + header_size f + (if is_nested f then 0 else static_count f * get_element_size f) \<le> length data"
    and "written \<le> buff_size" "buff_size \<le> length buf"
  shows "pack_prefix f data buf buff_size readed written \<in> {Inl AssertFail, Inr None} \<or>
    (\<exists>packed buf'. pack_prefix f data buf buff_size readed written =
        Inr (Some (packed, static_count f, readed + header_size f,
                   written + get_prefix_size (fd_type f), buf')) \<and>
      packed \<le> static_count f \<and> length buf' = length buf \<and> take written buf' = take written buf \<and>
      written + get_prefix_size (fd_type f) \<le> buff_size)"
proof (cases "get_prefix_size (fd_type f) = 0")
  case True
  then have "\<not> is_array f" "\<not> is_nested f" by auto
  with True assms show ?thesis by (simp add: pack_prefix_def static_count_def header_size_def)
next
  case counted: False
  define p where "p = get_prefix_size (fd_type f)"
  define cnt where "cnt = (if fd_type f = TYPE_STRING_16
     then bindE (unicode16_len (drop readed data) (fd_param f)) (\<lambda>n. Inr (n, readed))
     else bindE (le32dec (drop readed data)) (\<lambda>n. Inr (unat n, readed + 4)))"
  have p: "0 < p" "p = 1 \<or> p = 2"
    using counted prefix_size_cases [of "fd_type f"] by (auto simp: p_def)
  have "\<exists>n. cnt = Inr (n, readed + header_size f)"
  proof (cases "fd_type f = TYPE_STRING_16")
    case True
    then have "2 * fd_param f \<le> length (drop readed data)"
      using assms(1) by (simp add: static_count_def header_size_def get_element_size.simps)
    with True show ?thesis
      using unicode16_len_safe by (fastforce simp: cnt_def header_size_def)
  next
    case False
    then have h: "header_size f = 4"
      using counted prefix_size_cases [of "fd_type f"] by (auto simp: header_size_def)
    then have "4 \<le> length (drop readed data)" using assms(1) by simp
    with False h show ?thesis
      using le32dec_total [of "drop readed data"] by (auto simp: cnt_def)
  qed
  then obtain n where n: "cnt = Inr (n, readed + header_size f)" by blast
  have eq: "pack_prefix f data buf buff_size readed written =
    (if buff_size - written < p then Inr None
     else bindE (assertE (n \<le> fd_param f)) (\<lambda>_.
       bindE (if p = 1 then bindE (assertE (n \<le> 255)) (\<lambda>_. mem_write buf written [of_nat n])
              else bindE (assertE (n \<le> 0xffff)) (\<lambda>_. mem_write buf written (le16enc (of_nat n))))
         (\<lambda>buf'. Inr (Some (n, fd_param f, readed + header_size f, written + p, buf')))))"
    unfolding pack_prefix_def Let_def p_def [symmetric] cnt_def [symmetric] n
    using p by simp
  show ?thesis
    unfolding eq p_def [symmetric] using p assms(2,3) counted
    by (auto simp: assertE_def static_count_def)
qed

lemma pack_elems_safe:
  assumes "readed + static * get_element_size f \<le> length data" "packed \<le> static"
    and "written \<le> buff_size" "buff_size \<le> length buf"
  shows "pack_elems f packed static data buf buff_size readed written = Inr None \<or>
    (\<exists>buf'. pack_elems f packed static data buf buff_size readed written =
       Inr (Some (readed + static * get_element_size f, written + get_element_size f * packed, buf')) \<and>
     length buf' = length buf \<and> take written buf' = take written buf \<and>
     written + get_element_size f * packed \<le> buff_size)"
proof (cases "buff_size - written < get_element_size f * packed")
  case True
  then show ?thesis by (simp add: pack_elems_def Let_def)
next
  case False
  define k where "k = get_element_size f * packed"
  have "k \<le> static * get_element_size f"
    using assms(2) by (simp add: k_def mult.commute)
  with False assms have "readed + k \<le> length data" "written + k \<le> length buf" "written + k \<le> buff_size"
    by (simp_all add: k_def [symmetric])
  with False show ?thesis by (simp add: pack_elems_def Let_def k_def [symmetric])
qed

lemma pack_safe_induct:
  "fields_ok fs \<Longrightarrow> sizes_ok fs \<Longrightarrow> readed + struct_size fs \<le> length data \<Longrightarrow>
   written \<le> buff_size \<Longrightarrow> buff_size \<le> length buf \<Longrightarrow>
   pack_post buf written buff_size (max_wire fs)
     (pack_fields data data_size buf buff_size readed written fs)"
  "fields_ok fs \<Longrightarrow> sizes_ok fs \<Longrightarrow> row_size \<le> struct_size fs \<Longrightarrow>
   readed + n * struct_size fs \<le> length data \<Longrightarrow> written \<le> buff_size \<Longrightarrow> buff_size \<le> length buf \<Longrightarrow>
   pack_post buf written buff_size (n * max_wire fs)
     (pack_rows data data_size buf buff_size readed written n row_size fs)"
proof (induction data data_size buf buff_size readed written fs
    and data data_size buf buff_size readed written n row_size fs
    rule: pack_fields_pack_rows.induct)
  case (1 data data_size buf buff_size readed written)
  then show ?case by (simp add: pack_post_def)
next
  case (2 data data_size buf buff_size readed written f fs)
  let ?p = "get_prefix_size (fd_type f)" and ?e = "get_element_size f"
  have fok: "fields_ok fs" "sizes_ok fs" using "2.prems"(1,2) by (auto split: if_splits)
  have room: "readed + header_size f + (if is_nested f then 0 else static_count f * ?e) \<le> length data"
    using "2.prems"(3) by (auto simp: header_size_def flat_size_def split: if_splits)
  from pack_prefix_safe [OF room "2.prems"(4,5)] show ?case
  proof (elim disjE exE conjE)
    assume "pack_prefix f data buf buff_size readed written \<in> {Inl AssertFail, Inr None}"
    then show ?thesis by (auto simp: pack_post_def)
  next
    fix packed buf'
    assume pre: "pack_prefix f data buf buff_size readed written =
        Inr (Some (packed, static_count f, readed + header_size f, written + ?p, buf'))"
      and packed: "packed \<le> static_count f" and len: "length buf' = length buf"
      and tk: "take written buf' = take written buf" and wr: "written + ?p \<le> buff_size"
    show ?thesis
    proof (cases "is_nested f")
      case True
      then have ne: "fs \<noteq> []" using "2.prems"(1) by auto
      have sc: "static_count f = fd_param f" using True by (simp add: static_count_def)
      have "packed * struct_size fs \<le> fd_param f * struct_size fs"
        using packed sc by (simp add: mult_right_mono)
      moreover have "struct_size (f # fs) = header_size f + fd_param f * struct_size fs"
        using True by (simp add: header_size_def)
      ultimately have bnd: "readed + header_size f + packed * struct_size fs \<le> length data"
        using "2.prems"(3) by linarith
      have "pack_post buf' (written + ?p) buff_size (packed * max_wire fs)
          (pack_rows data data_size buf' buff_size (readed + header_size f) (written + ?p) packed (fd_size f) fs)"
        using "2.IH"(2) [OF pre refl refl refl refl refl] True ne fok "2.prems"(2,5) wr bnd len by simp
      moreover have "written + ?p + packed * max_wire fs \<le> written + max_wire (f # fs)"
        using True packed sc by (simp add: mult_right_mono)
      ultimately show ?thesis
        using True pre ne len tk by (simp add: pack_post_weaken)
    next
      case False
      then have bnd: "readed + header_size f + static_count f * ?e \<le> length data"
        using room by simp
      have lenb: "buff_size \<le> length buf'" using len "2.prems"(5) by simp
      from pack_elems_safe [OF bnd packed wr lenb] show ?thesis
      proof (elim disjE exE conjE)
        assume "pack_elems f packed (static_count f) data buf' buff_size (readed + header_size f)
            (written + ?p) = Inr None"
        with pre False len tk show ?thesis by (simp add: pack_post_def)
      next
        fix buf2
        assume el: "pack_elems f packed (static_count f) data buf' buff_size (readed + header_size f)
              (written + ?p) =
            Inr (Some (readed + header_size f + static_count f * ?e, written + ?p + ?e * packed, buf2))"
          and len2: "length buf2 = length buf'" and tk2: "take (written + ?p) buf2 = take (written + ?p) buf'"
          and wr2: "written + ?p + ?e * packed \<le> buff_size"
        have fs: "header_size f + static_count f * ?e = flat_size f"
          using False by (simp add: header_size_def flat_size_def)
        have r: "readed + header_size f + static_count f * ?e + struct_size fs \<le> length data"
          using "2.prems"(3) False fs by simp
        have tkb: "take written buf2 = take written buf"
          using arg_cong [OF tk2, of "take written"] tk by (simp add: min_absorb1)
        have "pack_post buf2 (written + ?p + ?e * packed) buff_size (max_wire fs)
           (pack_fields data data_size buf2 buff_size (readed + header_size f + static_count f * ?e)
             (written + ?p + ?e * packed) fs)"
          using "2.IH"(1) [OF pre refl refl refl refl refl _ el refl refl refl] False fok "2.prems"(5)
            wr2 r len len2 by simp
        moreover have "?e * packed \<le> static_count f * ?e"
          using packed by (simp add: mult.commute)
        then have "written + ?p + ?e * packed + max_wire fs \<le> written + max_wire (f # fs)"
          using False by (simp add: flat_wire_def)
        ultimately show ?thesis
          using False pre el len len2 tkb by (simp add: pack_post_weaken)
      qed
    qed
  qed
next
  case (3 data data_size buf buff_size readed written row_size fs)
  then show ?case by (simp add: pack_post_def)
next
  case (4 data data_size buf buff_size readed written n row_size fs)
  have bnd: "readed + struct_size fs + n * struct_size fs \<le> length data" using "4.prems"(4) by simp
  have wl: "written \<le> length buf" using "4.prems"(5,6) by simp
  have "pack_post (drop written buf) 0 (buff_size - written) (max_wire fs)
      (pack_fields (drop readed data) (data_size - readed) (drop written buf)
        (buff_size - written) 0 0 fs)"
    using "4.IH"(1) "4.prems" bnd by simp
  then show ?case
  proof (cases rule: pack_postE)
    case (3 tmp b)
    let ?b = "take written buf @ b"
    have len: "length ?b = length buf" "take written ?b = take written buf"
      using 3(2) wl by auto
    have rs: "readed + row_size + n * struct_size fs \<le> length data"
      using bnd "4.prems"(3) by linarith
    have "pack_post ?b (written + tmp) buff_size (n * max_wire fs)
      (pack_rows data data_size ?b buff_size (readed + row_size) (written + tmp) n row_size fs)"
      using "4.IH"(2) [OF 3(1) refl refl refl] "4.prems" 3(4,5,6) rs len by simp
    moreover have "written + tmp + n * max_wire fs \<le> written + Suc n * max_wire fs"
      using 3(6) by simp
    ultimately show ?thesis using 3(1) len by (simp add: pack_post_weaken)
  qed (use wl in \<open>auto simp: pack_post_def\<close>)
qed

lemma pack_safe:
  assumes "fields_ok flds" "sizes_ok flds" "count = length flds" "struct_size flds \<le> length data"
    and "buff_size \<le> length buf"
  shows "pack_post buf 0 buff_size (max_wire flds) (pack data data_size buf buff_size flds count)"
  using pack_safe_induct(1) [OF assms(1,2), of 0 data 0 buff_size buf data_size] assms(3-5)
  by (simp add: pack_def)

end
