(* ===== verification/Codec_Spec.thy ===== *)
theory Codec_Spec
  imports Codec_Safety
begin

text \<open>
  What the codec computes. A message is abstractly a list of values; \<open>wire\<close> is its packed form
  and \<open>struct_image\<close> its C structure. \<open>unpack\<close> maps the packed form to the structure and \<open>pack\<close>
  maps it back, so each is the inverse of the other on well-formed messages.

  Nested structures are covered when their members are of fixed size: \<open>unpack\<close> advances the
  write position by the packed size of a row, which is only then the size of its structure.
\<close>

section \<open>Abstract messages\<close>

datatype mval = VFix bytes | VStr "u16 list" | VArr nat bytes | VRows "bytes list"

definition chars :: "u16 list \<Rightarrow> bytes" where
  "chars cs = concat (map le16enc cs)"

definition padded :: "nat \<Rightarrow> bytes \<Rightarrow> bytes" where
  "padded n bs = bs @ replicate (n - length bs) 0"

fun wire_val :: "mval \<Rightarrow> bytes" where
  "wire_val (VFix bs) = bs"
| "wire_val (VStr cs) = le16enc (of_nat (length cs)) @ chars cs"
| "wire_val (VArr n bs) = le16enc (of_nat n) @ bs"
| "wire_val (VRows rows) = of_nat (length rows) # concat rows"

definition wire :: "mval list \<Rightarrow> bytes" where
  "wire vs = concat (map wire_val vs)"

fun image_val :: "msg_field \<Rightarrow> msg_field list \<Rightarrow> mval \<Rightarrow> bytes" where
  "image_val f fs (VFix bs) = bs"
| "image_val f fs (VStr cs) = padded (2 * fd_param f) (chars cs)"
| "image_val f fs (VArr n bs) = le32enc (of_nat n) @ padded (fd_param f * get_element_size f) bs"
| "image_val f fs (VRows rows) =
     le32enc (of_nat (length rows)) @ padded (fd_param f * struct_size fs) (concat rows)"

fun struct_image :: "msg_field list \<Rightarrow> mval list \<Rightarrow> bytes" where
  "struct_image (f # fs) (v # vs) = image_val f fs v @ struct_image fs vs"
| "struct_image _ _ = []"

fun val_ok :: "msg_field \<Rightarrow> mval \<Rightarrow> bool" where
  "val_ok f (VFix bs) \<longleftrightarrow> fixed_field f \<and> length bs = get_element_size f"
| "val_ok f (VStr cs) \<longleftrightarrow> fd_type f = TYPE_STRING_16 \<and> length cs \<le> fd_param f \<and> 0 \<notin> set cs"
| "val_ok f (VArr n bs) \<longleftrightarrow> is_array f \<and> n \<le> fd_param f \<and> length bs = get_element_size f * n"
| "val_ok f (VRows rows) \<longleftrightarrow> False"

text \<open>A message: one value per field, or a nested array of rows of fixed-size members at the end.\<close>

fun msg_ok :: "msg_field list \<Rightarrow> mval list \<Rightarrow> bool" where
  "msg_ok [] [] \<longleftrightarrow> True"
| "msg_ok (f # fs) (VRows rows # vs) \<longleftrightarrow> is_nested f \<and> vs = [] \<and> list_all fixed_field fs \<and>
     length rows \<le> fd_param f \<and> list_all (\<lambda>r. length r = struct_size fs) rows"
| "msg_ok (f # fs) (v # vs) \<longleftrightarrow> val_ok f v \<and> msg_ok fs vs"
| "msg_ok _ _ \<longleftrightarrow> False"

lemma wire_Cons [simp]: "wire (v # vs) = wire_val v @ wire vs"
  by (simp add: wire_def)

lemma wire_Nil [simp]: "wire [] = []"
  by (simp add: wire_def)

lemma length_padded [simp]: "length bs \<le> n \<Longrightarrow> length (padded n bs) = n"
  by (simp add: padded_def)

lemma length_chars [simp]: "length (chars cs) = 2 * length cs"
  by (induction cs) (auto simp: chars_def)

lemma chars_Cons [simp]: "chars (c # cs) = le16enc c @ chars cs"
  by (simp add: chars_def)

lemma chars_Nil [simp]: "chars [] = []"
  by (simp add: chars_def)

lemma length_concat_rows:
  "list_all (\<lambda>r. length r = k) rows \<Longrightarrow> length (concat rows) = length rows * k"
  by (induction rows) auto

lemma val_ok_not_nested: "val_ok f v \<Longrightarrow> \<not> is_nested f"
  by (cases v) auto

lemma length_image_val:
  assumes "val_ok f v"
  shows "length (image_val f fs v) = flat_size f"
  using assms
proof (cases v)
  case (VFix bs)
  with assms show ?thesis by (simp add: flat_size_fixed)
next
  case (VStr cs)
  with assms show ?thesis
    by (simp add: flat_size_def static_count_def get_element_size.simps mult.commute)
next
  case (VArr n bs)
  then have "length bs \<le> fd_param f * get_element_size f" using assms by (simp add: mult.commute)
  moreover have "get_prefix_size (fd_type f) \<noteq> 0" using VArr assms by auto
  ultimately show ?thesis using VArr assms by (simp add: flat_size_def static_count_def)
qed simp

lemma msg_ok_flat:
  "(\<And>rows. v \<noteq> VRows rows) \<Longrightarrow> msg_ok (f # fs) (v # vs) \<longleftrightarrow> val_ok f v \<and> msg_ok fs vs"
  by (cases v) auto

lemma msg_ok_induct [consumes 1, case_names Nil Rows Flat]:
  assumes "msg_ok fs vs" and "P [] []"
    and "\<And>f fs rows. is_nested f \<Longrightarrow> list_all fixed_field fs \<Longrightarrow> length rows \<le> fd_param f \<Longrightarrow>
      list_all (\<lambda>r. length r = struct_size fs) rows \<Longrightarrow> P (f # fs) [VRows rows]"
    and "\<And>f fs v vs. val_ok f v \<Longrightarrow> msg_ok fs vs \<Longrightarrow> P fs vs \<Longrightarrow> P (f # fs) (v # vs)"
  shows "P fs vs"
  using assms(1)
proof (induction fs vs rule: msg_ok.induct)
  case 1
  then show ?case using assms(2) by simp
next
  case (2 f fs rows vs)
  then show ?case using assms(3) [of f fs rows] by simp
qed (use assms(4) in auto)

lemma length_image: "msg_ok fs vs \<Longrightarrow> length (struct_image fs vs) = struct_size fs"
proof (induction rule: msg_ok_induct)
  case (Rows f fs rows)
  then have "length (concat rows) = length rows * struct_size fs"
    using length_concat_rows by blast
  then have "length (concat rows) \<le> fd_param f * struct_size fs"
    using Rows by (simp add: mult_right_mono)
  with Rows show ?case by (cases fs) simp_all
next
  case (Flat f fs v vs)
  then show ?case using val_ok_not_nested [of f v] by (simp add: length_image_val del: is_nested.simps)
qed simp

section \<open>Blocks that are zero between two offsets\<close>

definition zero_from :: "bytes \<Rightarrow> nat \<Rightarrow> nat \<Rightarrow> bool" where
  "zero_from b w hi \<longleftrightarrow> hi \<le> length b \<and> (\<forall>i. w \<le> i \<and> i < hi \<longrightarrow> b ! i = 0)"

lemma nth_overlay:
  "off + length xs \<le> length m \<Longrightarrow> i < length m \<Longrightarrow>
   overlay m off xs ! i = (if i < off then m ! i else if i < off + length xs then xs ! (i - off) else m ! i)"
  by (auto simp: overlay_def nth_append min_def)

lemma zero_from_overlay [simp]:
  "zero_from b w hi \<Longrightarrow> w + length xs \<le> hi \<Longrightarrow> zero_from (overlay b w xs) (w + length xs) hi"
  by (auto simp: zero_from_def nth_overlay)

lemma zero_from_length: "zero_from b w hi \<Longrightarrow> hi \<le> length b"
  by (simp add: zero_from_def)

lemma zero_from_replicate [simp]: "hi \<le> n \<Longrightarrow> zero_from (replicate n 0) w hi"
  by (simp add: zero_from_def)

lemma overlay_zeros:
  "zero_from b w hi \<Longrightarrow> w \<le> v \<Longrightarrow> v + k \<le> hi \<Longrightarrow> overlay b v (replicate k 0) = b"
  by (intro nth_equalityI) (auto simp: zero_from_def nth_overlay)

lemma overlay_pad:
  assumes "zero_from b w hi" "w + length xs + k \<le> hi"
  shows "overlay b w (xs @ replicate k 0) = overlay b w xs"
proof -
  have "overlay b w (xs @ replicate k 0) =
      overlay (overlay b w xs) (w + length xs) (replicate k 0)"
    using assms(2) zero_from_length [OF assms(1)] by (simp add: overlay_append)
  also have "\<dots> = overlay b w xs"
    using assms by (intro overlay_zeros [of _ "w + length xs" hi]) auto
  finally show ?thesis .
qed

lemma overlay_padded:
  "zero_from b w hi \<Longrightarrow> length xs \<le> n \<Longrightarrow> w + n \<le> hi \<Longrightarrow> overlay b w (padded n xs) = overlay b w xs"
  by (simp add: padded_def overlay_pad)

section \<open>unpack computes the structure\<close>

lemma le16_word_exact: "n \<le> 65535 \<Longrightarrow> unat (of_nat n :: u16) = n"
  by (simp add: unat_of_nat)

lemma le32_word_exact: "n \<le> 65535 \<Longrightarrow> unat (of_nat n :: u32) = n"
  by (simp add: unat_of_nat)

lemma byte_word_exact: "n \<le> 255 \<Longrightarrow> unat (of_nat n :: u8) = n"
  by (simp add: unat_of_nat)

lemma unpack_fixed_field:
  assumes "fixed_field f" "drop readed data = bs @ rest" "length bs = get_element_size f"
    and "readed + length bs \<le> data_size" "written + length bs \<le> length buf"
  shows "unpack_fields data data_size buf buff_size readed written (f # fs) =
    unpack_fields data data_size (overlay buf written bs) buff_size
      (readed + length bs) (written + length bs) fs"
  using assms
  by (auto simp: unpack_prefix_def unpack_elems_def Let_def)

text \<open>A row of fixed-size members is copied as it is.\<close>

lemma unpack_fixed_row:
  assumes "list_all fixed_field fs" "drop readed data = r @ rest" "length r = struct_size fs"
    and "readed + length r \<le> data_size" "written + length r \<le> length buf"
  shows "unpack_fields data data_size buf buff_size readed written fs =
    Inr (Some (readed + length r), overlay buf written r)"
  using assms
proof (induction fs arbitrary: r readed written buf)
  case Nil
  then show ?case by simp
next
  case (Cons f fs)
  let ?e = "get_element_size f"
  have fx: "fixed_field f" "\<not> is_nested f" using Cons.prems(1) by auto
  then have len: "length r = ?e + struct_size fs"
    using Cons.prems(3) by (simp add: flat_size_fixed)
  define a b where "a = take ?e r" and "b = drop ?e r"
  have ab: "r = a @ b" "length a = ?e" "length b = struct_size fs"
    using len by (simp_all add: a_def b_def)
  have da: "drop readed data = a @ (b @ rest)" using Cons.prems(2) ab(1) by simp
  have db: "drop (readed + length a) data = b @ rest"
    using arg_cong [OF da, of "drop (length a)"] by (simp add: add.commute)
  have "unpack_fields data data_size buf buff_size readed written (f # fs) =
      unpack_fields data data_size (overlay buf written a) buff_size
        (readed + length a) (written + length a) fs"
    using Cons.prems(4,5) ab by (intro unpack_fixed_field [OF fx(1) da]) auto
  also have "\<dots> = Inr (Some (readed + length a + length b),
      overlay (overlay buf written a) (written + length a) b)"
    using Cons.prems ab by (intro Cons.IH [OF _ db]) auto
  also have "\<dots> = Inr (Some (readed + length r), overlay buf written r)"
    using ab Cons.prems(5) overlay_append [of written a b buf] by simp
  finally show ?case .
qed

lemma unpack_rows_copy:
  assumes "list_all fixed_field fs" "list_all (\<lambda>r. length r = struct_size fs) rows"
    and "drop readed data = concat rows @ rest"
    and "readed + length (concat rows) \<le> data_size" "written + length (concat rows) \<le> length buf"
  shows "unpack_rows data data_size buf buff_size readed written (length rows) fs =
    Inr (Some (readed + length (concat rows)), overlay buf written (concat rows))"
  using assms(2-)
proof (induction rows arbitrary: readed written buf)
  case Nil
  then show ?case by simp
next
  case (Cons r rows)
  have lr: "length r = struct_size fs" "drop readed data = r @ (concat rows @ rest)"
    using Cons.prems(1,2) by auto
  have "unpack_fields (drop readed data) (data_size - readed) (drop written buf)
      (buff_size - written) 0 0 fs = Inr (Some (0 + length r), overlay (drop written buf) 0 r)"
    using Cons.prems lr by (intro unpack_fixed_row [OF assms(1), of 0 _ r "concat rows @ rest"]) auto
  moreover have "take written buf @ overlay (drop written buf) 0 r = overlay buf written r"
    using Cons.prems(4) by (simp add: overlay_def add.commute)
  moreover have "drop (readed + length r) data = concat rows @ rest"
    using arg_cong [OF lr(2), of "drop (length r)"] by (simp add: add.commute)
  ultimately show ?case
    using Cons.IH [of "readed + length r" "written + length r" "overlay buf written r"]
      Cons.prems lr(1) overlay_append [of written r "concat rows" buf] by (simp add: add.assoc)
qed

text \<open>One field of a message that is not a nested structure.\<close>

lemma unpack_value:
  assumes v: "val_ok f v" and fok: "field_ok f" "fd_param f \<le> 65535"
    and data: "drop readed data = wire_val v @ rest"
    and ds: "readed + length (wire_val v) \<le> data_size"
    and hi: "written + flat_size f \<le> hi" and zero: "zero_from buf written hi"
  shows "unpack_fields data data_size buf buff_size readed written (f # fs) =
    unpack_fields data data_size (overlay buf written (image_val f fs v)) buff_size
      (readed + length (wire_val v)) (written + flat_size f) fs"
proof -
  note buf = le_trans [OF hi zero_from_length [OF zero]]
  show ?thesis
  proof (cases v)
  case (VFix bs)
  with v data ds buf show ?thesis
    using unpack_fixed_field [of f readed data bs rest data_size written buf buff_size fs]
    by (simp add: flat_size_fixed)
next
  case (VStr cs)
  let ?n = "length cs" and ?p = "fd_param f"
  have f: "fd_type f = TYPE_STRING_16" "?n \<le> ?p" and pos: "0 < ?p"
    using v fok VStr by (auto simp: field_ok_def)
  have fs: "flat_size f = 2 * ?p" "get_element_size f = 2" "static_count f = ?p"
    using f by (simp_all add: flat_size_def static_count_def get_element_size.simps)
  have n: "unat (of_nat ?n :: u16) = ?n" using f fok by (intro le16_word_exact) simp
  define e where "e = (if ?n > ?p - 1 then ?p - 1 else ?n)"
  have d: "drop readed data = le16enc (of_nat ?n) @ chars cs @ rest" using data VStr by simp
  have room: "written + 2 * e + 2 \<le> hi" "written + 2 * e + 2 \<le> length buf"
    using hi buf fs pos f(2) by (auto simp: e_def)
  have "overlay buf (written + 2 * e) [0, 0] = buf"
    using overlay_zeros [OF zero, of "written + 2 * e" 2] room by (simp add: numeral_2_eq_2)
  then have mw: "mem_write buf (written + 2 * e) [0, 0] = Inr buf"
    using room by simp
  have dsz: "\<not> data_size - readed < 2" using ds VStr by simp
  have "unpack_prefix f data data_size buf readed written =
      bindE (mem_write buf (written + 2 * e) [0, 0]) (\<lambda>b. Inr (Some (?n, ?p, readed + 2, written, b)))"
    using d dsz f pos n by (simp add: unpack_prefix_def Let_def e_def bindE_assoc)
  then have pre: "unpack_prefix f data data_size buf readed written =
      Inr (Some (?n, ?p, readed + 2, written, buf))" by (simp add: mw)
  have d2: "drop (readed + 2) data = chars cs @ rest"
    using arg_cong [OF d, of "drop 2"] by (simp add: add.commute)
  have w: "written + 2 * ?n \<le> length buf" using buf fs f(2) by simp
  have el: "unpack_elems f ?n ?p data data_size buf (readed + 2) written =
      Inr (Some (readed + 2 + 2 * ?n, written + 2 * ?p, overlay buf written (chars cs)))"
    using d2 ds VStr w fs arg_cong [OF d2, of length] by (simp add: unpack_elems_def Let_def mult.commute)
  have "overlay buf written (padded (2 * ?p) (chars cs)) = overlay buf written (chars cs)"
    using overlay_padded [OF zero, of "chars cs" "2 * ?p"] f(2) hi fs by simp
  with pre el f fs VStr show ?thesis by simp
next
  case (VArr n bs)
  let ?p = "fd_param f" and ?e = "get_element_size f"
  have f: "is_array f" "n \<le> ?p" "length bs = ?e * n" "\<not> is_nested f"
    using v VArr by auto
  have fs: "flat_size f = 4 + ?p * ?e" "get_prefix_size (fd_type f) = 2" "fd_type f \<noteq> TYPE_STRING_16"
    using f(1) by (auto simp: flat_size_def static_count_def)
  have n: "unat (of_nat n :: u16) = n" using f fok by (intro le16_word_exact) simp
  have d: "drop readed data = le16enc (of_nat n) @ bs @ rest" using data VArr by simp
  have lb: "length bs \<le> ?p * ?e" using f(2,3) by (simp add: mult.commute)
  have w: "written + 4 + ?p * ?e \<le> hi" "written + 4 + ?p * ?e \<le> length buf" using hi buf fs by simp_all
  let ?b1 = "overlay buf written (le32enc (of_nat n))"
  have pre: "unpack_prefix f data data_size buf readed written =
      Inr (Some (n, ?p, readed + 2, written + 4, ?b1))"
    using d ds VArr fs f(2) n w by (simp add: unpack_prefix_def Let_def)
  have d2: "drop (readed + 2) data = bs @ rest"
    using arg_cong [OF d, of "drop 2"] by (simp add: add.commute)
  have el: "unpack_elems f n ?p data data_size ?b1 (readed + 2) (written + 4) =
      Inr (Some (readed + 2 + length bs, written + 4 + ?p * ?e, overlay ?b1 (written + 4) bs))"
  proof -
    have "\<not> data_size - (readed + 2) < ?e * n" using ds VArr f(3) by simp
    moreover have "mem_read (drop (readed + 2) data) 0 (?e * n) = Inr bs" using d2 f(3) by simp
    moreover have "mem_write ?b1 (written + 4) bs = Inr (overlay ?b1 (written + 4) bs)"
      using w lb by (intro mem_write_Inr) simp
    ultimately show ?thesis by (simp add: unpack_elems_def Let_def f(3) del: mem_write_Inr)
  qed
  have z1: "zero_from ?b1 (written + 4) hi"
    using zero_from_overlay [OF zero, of "le32enc (of_nat n)"] w by simp
  have "overlay ?b1 (written + 4) bs = overlay ?b1 (written + 4) (padded (?p * ?e) bs)"
    using overlay_padded [OF z1 lb] w by simp
  also have "\<dots> = overlay buf written (image_val f fs v)"
    using VArr w lb overlay_append [of written "le32enc (of_nat n)" "padded (?p * ?e) bs" buf] by simp
  finally have "overlay ?b1 (written + 4) bs = overlay buf written (image_val f fs v)" .
  with pre el f fs VArr show ?thesis by (simp add: add.assoc)
qed (use v in simp)
qed

theorem unpack_image:
  assumes "msg_ok fs vs" "fields_ok fs" "drop readed data = wire vs @ rest"
    and "readed + length (wire vs) \<le> data_size"
    and "written + struct_size fs \<le> hi" "zero_from buf written hi"
  shows "unpack_fields data data_size buf buff_size readed written fs =
    Inr (Some (readed + length (wire vs)), overlay buf written (struct_image fs vs))"
  using assms
proof (induction arbitrary: readed written buf rule: msg_ok_induct)
  case Nil
  then show ?case by simp
next
  case (Rows f fs rows)
  let ?n = "length rows" and ?p = "fd_param f" and ?s = "struct_size fs"
  note m = Rows(1-4)
  have fok: "?p \<le> 255" "fs \<noteq> []" using Rows(5) m(1) by auto
  have n: "unat (of_nat ?n :: u8) = ?n" using m(3) fok by (intro byte_word_exact) simp
  have lc: "length (concat rows) = ?n * ?s" using m(4) by (rule length_concat_rows)
  have lb: "length (concat rows) \<le> ?p * ?s" using lc m(3) by (simp add: mult_right_mono)
  have w: "written + 4 + ?p * ?s \<le> hi" "written + 4 + ?p * ?s \<le> length buf"
    using Rows(8) m(1) zero_from_length [OF Rows(9)] by simp_all
  have d: "drop readed data = of_nat ?n # concat rows @ rest" using Rows(6) by simp
  have d1: "drop (readed + 1) data = concat rows @ rest"
    using arg_cong [OF d, of "drop 1"] by (simp add: add.commute)
  have ds: "readed + 1 + length (concat rows) \<le> data_size" using Rows(7) by simp
  let ?b1 = "overlay buf written (le32enc (of_nat ?n))"
  have pre: "unpack_prefix f data data_size buf readed written =
      Inr (Some (?n, ?p, readed + 1, written + 4, ?b1))"
    using d ds m(1,3) n w by (simp add: unpack_prefix_def Let_def)
  have z1: "zero_from ?b1 (written + 4) hi"
    using zero_from_overlay [OF Rows(9), of "le32enc (of_nat ?n)"] w by simp
  have lb1: "length ?b1 = length buf" using w by simp
  have "unpack_rows data data_size ?b1 buff_size (readed + 1) (written + 4) ?n fs =
      Inr (Some (readed + 1 + length (concat rows)), overlay ?b1 (written + 4) (concat rows))"
    using w lb lb1 by (intro unpack_rows_copy [OF m(2,4) d1 ds]) simp
  moreover have "overlay ?b1 (written + 4) (concat rows) =
      overlay ?b1 (written + 4) (padded (?p * ?s) (concat rows))"
    using overlay_padded [OF z1 lb] w lb1 by simp
  moreover have "\<dots> = overlay buf written (struct_image (f # fs) [VRows rows])"
    using w lb overlay_append [of written "le32enc (of_nat ?n)" "padded (?p * ?s) (concat rows)" buf]
    by (cases fs) simp_all
  ultimately show ?case using pre m(1) fok(2) by (simp add: add.assoc)
next
  case (Flat f fs v vs)
  have nn: "\<not> is_nested f" using Flat(1) by (rule val_ok_not_nested)
  have fo: "field_ok f" "fd_param f \<le> 65535" "fields_ok fs"
    using Flat(4) nn by (auto simp: field_ok_def simp del: is_nested.simps)
  have li: "length (image_val f fs v) = flat_size f" using Flat(1) by (rule length_image_val)
  note hl = zero_from_length [OF Flat(8)]
  have sz: "struct_size (f # fs) = flat_size f + struct_size fs" using nn by simp
  have d: "drop readed data = wire_val v @ (wire vs @ rest)" using Flat(5) by simp
  have d2: "drop (readed + length (wire_val v)) data = wire vs @ rest"
    using arg_cong [OF d, of "drop (length (wire_val v))"] by (simp add: add.commute)
  have "unpack_fields data data_size buf buff_size readed written (f # fs) =
      unpack_fields data data_size (overlay buf written (image_val f fs v)) buff_size
        (readed + length (wire_val v)) (written + flat_size f) fs"
    using Flat(6,7) sz by (intro unpack_value [OF Flat(1) fo(1,2) d _ _ Flat(8)]) auto
  also have "\<dots> = Inr (Some (readed + length (wire_val v) + length (wire vs)),
      overlay (overlay buf written (image_val f fs v)) (written + flat_size f) (struct_image fs vs))"
    using Flat(6,7) sz li zero_from_overlay [OF Flat(8), of "image_val f fs v"]
    by (intro Flat(3) [OF fo(3) d2]) auto
  also have "\<dots> = Inr (Some (readed + length (wire (v # vs))),
      overlay buf written (struct_image (f # fs) (v # vs)))"
    using Flat(7) hl sz li length_image [OF Flat(2)]
      overlay_append [of written "image_val f fs v" "struct_image fs vs" buf] by (simp add: add.assoc)
  finally show ?case .
qed

section \<open>pack computes the packed bytes\<close>

text \<open>
  \<open>pack\<close> moves from one nested row to the next by the member \<^verbatim>\<open>size\<close> of the field, so it packs
  the rows of a message only if there is at most one of them or \<^verbatim>\<open>size\<close> is the size of a row.
\<close>

fun rows_step_ok :: "msg_field list \<Rightarrow> mval list \<Rightarrow> bool" where
  "rows_step_ok (f # fs) (VRows rows # vs) \<longleftrightarrow> length rows \<le> 1 \<or> fd_size f = struct_size fs"
| "rows_step_ok (f # fs) (v # vs) \<longleftrightarrow> rows_step_ok fs vs"
| "rows_step_ok _ _ \<longleftrightarrow> True"

lemma rows_step_ok_flat:
  "val_ok f v \<Longrightarrow> rows_step_ok (f # fs) (v # vs) \<longleftrightarrow> rows_step_ok fs vs"
  by (cases v) auto

lemma padded_chars_Cons: "padded (2 * Suc n) (chars (c # cs)) = le16enc c @ padded (2 * n) (chars cs)"
  by (simp add: padded_def)

lemma unicode16_len_chars:
  "0 \<notin> set cs \<Longrightarrow> length cs \<le> n \<Longrightarrow> unicode16_len (padded (2 * n) (chars cs) @ rest) n = Inr (length cs)"
proof (induction cs arbitrary: n)
  case Nil
  then show ?case by (cases n) (auto simp: padded_def)
next
  case (Cons c cs)
  then obtain m where n: "n = Suc m" by (cases n) auto
  have "unicode16_len (padded (2 * m) (chars cs) @ rest) m = Inr (length cs)"
    using Cons n by (intro Cons.IH) auto
  with Cons.prems n show ?case by (simp only: n padded_chars_Cons) simp
qed

lemma pack_fixed_field:
  assumes "fixed_field f" "drop readed data = bs @ rest" "length bs = get_element_size f"
    and "written + length bs \<le> length buf" "length buf \<le> buff_size"
  shows "pack_fields data data_size buf buff_size readed written (f # fs) =
    pack_fields data data_size (overlay buf written bs) buff_size
      (readed + length bs) (written + length bs) fs"
  using assms by (auto simp: pack_prefix_def pack_elems_def Let_def)

lemma pack_fixed_row:
  assumes "list_all fixed_field fs" "drop readed data = r @ rest" "length r = struct_size fs"
    and "written + length r \<le> length buf" "length buf \<le> buff_size"
  shows "pack_fields data data_size buf buff_size readed written fs =
    Inr (Some (written + length r), overlay buf written r)"
  using assms
proof (induction fs arbitrary: r readed written buf)
  case Nil
  then show ?case by simp
next
  case (Cons f fs)
  let ?e = "get_element_size f"
  have fx: "fixed_field f" "\<not> is_nested f" using Cons.prems(1) by auto
  then have len: "length r = ?e + struct_size fs"
    using Cons.prems(3) by (simp add: flat_size_fixed)
  define a b where "a = take ?e r" and "b = drop ?e r"
  have ab: "r = a @ b" "length a = ?e" "length b = struct_size fs"
    using len by (simp_all add: a_def b_def)
  have da: "drop readed data = a @ (b @ rest)" using Cons.prems(2) ab(1) by simp
  have db: "drop (readed + length a) data = b @ rest"
    using arg_cong [OF da, of "drop (length a)"] by (simp add: add.commute)
  have "pack_fields data data_size buf buff_size readed written (f # fs) =
      pack_fields data data_size (overlay buf written a) buff_size
        (readed + length a) (written + length a) fs"
    using Cons.prems(4,5) ab by (intro pack_fixed_field [OF fx(1) da]) auto
  also have "\<dots> = Inr (Some (written + length a + length b),
      overlay (overlay buf written a) (written + length a) b)"
    using Cons.prems ab by (intro Cons.IH [OF _ db]) auto
  also have "\<dots> = Inr (Some (written + length r), overlay buf written r)"
    using ab Cons.prems(4) overlay_append [of written a b buf] by simp
  finally show ?case .
qed

lemma pack_rows_step:
  assumes "list_all fixed_field fs" "drop readed data = r @ rest" "length r = struct_size fs"
    and "written + length r \<le> length buf" "length buf \<le> buff_size"
  shows "pack_rows data data_size buf buff_size readed written (Suc n) row_size fs =
    pack_rows data data_size (overlay buf written r) buff_size (readed + row_size)
      (written + length r) n row_size fs"
proof -
  have "pack_fields (drop readed data) (data_size - readed) (drop written buf)
      (buff_size - written) 0 0 fs = Inr (Some (0 + length r), overlay (drop written buf) 0 r)"
    using assms by (intro pack_fixed_row [of _ 0 _ r rest]) auto
  moreover have "take written buf @ overlay (drop written buf) 0 r = overlay buf written r"
    using assms(4) by (simp add: overlay_def add.commute)
  ultimately show ?thesis by simp
qed

lemma pack_rows_copy:
  assumes "list_all fixed_field fs" "list_all (\<lambda>r. length r = struct_size fs) rows"
    and "drop readed data = concat rows @ rest" "length rows \<le> 1 \<or> row_size = struct_size fs"
    and "written + length (concat rows) \<le> length buf" "length buf \<le> buff_size"
  shows "pack_rows data data_size buf buff_size readed written (length rows) row_size fs =
    Inr (Some (written + length (concat rows)), overlay buf written (concat rows))"
  using assms(2-)
proof (induction rows arbitrary: readed written buf)
  case Nil
  then show ?case by simp
next
  case (Cons r rows)
  have lr: "length r = struct_size fs" "drop readed data = r @ (concat rows @ rest)"
    using Cons.prems(1,2) by auto
  have step: "pack_rows data data_size buf buff_size readed written (Suc (length rows)) row_size fs =
      pack_rows data data_size (overlay buf written r) buff_size (readed + row_size)
        (written + length r) (length rows) row_size fs"
    using Cons.prems lr by (intro pack_rows_step [OF assms(1) lr(2,1)]) auto
  show ?case
  proof (cases "rows = []")
    case True
    then show ?thesis using step by simp
  next
    case False
    then have rs: "row_size = length r" using Cons.prems(3) lr(1) by (cases rows) auto
    have "drop (readed + length r) data = concat rows @ rest"
      using arg_cong [OF lr(2), of "drop (length r)"] by (simp add: add.commute)
    then show ?thesis
      using step rs Cons.IH [of "readed + length r" "written + length r" "overlay buf written r"]
        Cons.prems lr(1) overlay_append [of written r "concat rows" buf] by (simp add: add.assoc)
  qed
qed

text \<open>With the \<^verbatim>\<open>size\<close> of the tables, which is 0, \<open>pack\<close> repeats the first row.\<close>

lemma pack_rows_repeat:
  assumes "list_all fixed_field fs" "drop readed data = r @ rest" "length r = struct_size fs"
    and "written + n * length r \<le> length buf" "length buf \<le> buff_size"
  shows "pack_rows data data_size buf buff_size readed written n 0 fs =
    Inr (Some (written + n * length r), overlay buf written (concat (replicate n r)))"
  using assms(4-)
proof (induction n arbitrary: written buf)
  case 0
  then show ?case by simp
next
  case (Suc n)
  have "length (concat (replicate n r)) = n * length r" by (induction n) auto
  then show ?case
    using pack_rows_step [OF assms(1-3), of written buf buff_size data_size n 0] Suc.prems
      Suc.IH [of "written + length r" "overlay buf written r"]
      overlay_append [of written r "concat (replicate n r)" buf] by (simp add: add.assoc)
qed

lemma pack_value:
  assumes v: "val_ok f v" and fok: "fd_param f \<le> 65535"
    and data: "drop readed data = image_val f fs v @ rest"
    and room: "written + length (wire_val v) \<le> length buf" "length buf \<le> buff_size"
  shows "pack_fields data data_size buf buff_size readed written (f # fs) =
    pack_fields data data_size (overlay buf written (wire_val v)) buff_size
      (readed + flat_size f) (written + length (wire_val v)) fs"
proof (cases v)
  case (VFix bs)
  with v data room show ?thesis
    using pack_fixed_field [of f readed data bs rest written buf buff_size data_size fs]
    by (simp add: flat_size_fixed)
next
  case (VStr cs)
  let ?n = "length cs" and ?p = "fd_param f"
  have f: "fd_type f = TYPE_STRING_16" "?n \<le> ?p" "0 \<notin> set cs" using v VStr by auto
  have fs: "flat_size f = ?p * 2" "get_element_size f = 2"
    using f by (simp_all add: flat_size_def static_count_def get_element_size.simps)
  have d: "drop readed data = padded (2 * ?p) (chars cs) @ rest" using data VStr by simp
  let ?b1 = "overlay buf written (le16enc (of_nat ?n))"
  have bs: "\<not> buff_size - written < 2" "\<not> buff_size - (written + 2) < 2 * ?n" using room VStr by auto
  have w1: "mem_write buf written (le16enc (of_nat ?n)) = Inr ?b1"
    using room VStr by (intro mem_write_Inr) simp
  have pre: "pack_prefix f data buf buff_size readed written =
      Inr (Some (?n, ?p, readed, written + 2, ?b1))"
    using f fok bs(1) w1 unicode16_len_chars [OF f(3,2), of rest]
    by (simp add: pack_prefix_def Let_def d)
  have rd: "mem_read (drop readed data) 0 (2 * ?n) = Inr (chars cs)"
    using f(2) by (simp add: d padded_def)
  have w2: "mem_write ?b1 (written + 2) (chars cs) = Inr (overlay ?b1 (written + 2) (chars cs))"
    using room VStr by (intro mem_write_Inr) simp
  have el: "pack_elems f ?n ?p data ?b1 buff_size readed (written + 2) =
      Inr (Some (readed + ?p * 2, written + 2 + 2 * ?n, overlay ?b1 (written + 2) (chars cs)))"
    using bs(2) rd w2 fs(2) by (simp add: pack_elems_def Let_def del: mem_write_Inr mem_read_Inr)
  have "overlay ?b1 (written + 2) (chars cs) = overlay buf written (wire_val v)"
    using room VStr overlay_append [of written "le16enc (of_nat ?n)" "chars cs" buf] by simp
  with pre el f fs VStr show ?thesis by (simp add: add.assoc)
next
  case (VArr n bs)
  let ?p = "fd_param f" and ?e = "get_element_size f"
  have f: "is_array f" "n \<le> ?p" "length bs = ?e * n" "\<not> is_nested f"
    using v VArr by auto
  have fs: "flat_size f = 4 + ?p * ?e" "get_prefix_size (fd_type f) = 2" "fd_type f \<noteq> TYPE_STRING_16"
    using f(1) by (auto simp: flat_size_def static_count_def)
  have n: "unat (of_nat n :: u32) = n" using f fok by (intro le32_word_exact) simp
  have d: "drop readed data = le32enc (of_nat n) @ padded (?p * ?e) bs @ rest" using data VArr by simp
  have d2: "drop (readed + 4) data = padded (?p * ?e) bs @ rest"
    using arg_cong [OF d, of "drop 4"] by (simp add: add.commute)
  have lb: "length bs \<le> ?p * ?e" using f(2,3) by (simp add: mult.commute)
  let ?b1 = "overlay buf written (le16enc (of_nat n))"
  have bs: "\<not> buff_size - written < 2" "\<not> buff_size - (written + 2) < ?e * n" using room VArr f(3) by auto
  have w1: "mem_write buf written (le16enc (of_nat n)) = Inr ?b1"
    using room VArr by (intro mem_write_Inr) simp
  have pre: "pack_prefix f data buf buff_size readed written =
      Inr (Some (n, ?p, readed + 4, written + 2, ?b1))"
    using f fok fs bs(1) w1 n by (simp add: pack_prefix_def Let_def d)
  have rd: "mem_read (drop (readed + 4) data) 0 (?e * n) = Inr bs"
    using f(3) by (simp add: d2 padded_def)
  have w2: "mem_write ?b1 (written + 2) bs = Inr (overlay ?b1 (written + 2) bs)"
    using room VArr by (intro mem_write_Inr) simp
  have el: "pack_elems f n ?p data ?b1 buff_size (readed + 4) (written + 2) =
      Inr (Some (readed + 4 + ?p * ?e, written + 2 + length bs, overlay ?b1 (written + 2) bs))"
    using bs(2) rd w2 f(3) by (simp add: pack_elems_def Let_def del: mem_write_Inr mem_read_Inr)
  have "overlay ?b1 (written + 2) bs = overlay buf written (wire_val v)"
    using room VArr overlay_append [of written "le16enc (of_nat n)" bs buf] by simp
  with pre el f fs VArr show ?thesis by (simp add: add.assoc)
qed (use v in simp)

theorem pack_image:
  assumes "msg_ok fs vs" "fields_ok fs" "rows_step_ok fs vs"
    and "drop readed data = struct_image fs vs @ rest"
    and "written + length (wire vs) \<le> length buf" "length buf \<le> buff_size"
  shows "pack_fields data data_size buf buff_size readed written fs =
    Inr (Some (written + length (wire vs)), overlay buf written (wire vs))"
  using assms
proof (induction arbitrary: readed written buf rule: msg_ok_induct)
  case Nil
  then show ?case by simp
next
  case (Rows f fs rows)
  let ?n = "length rows" and ?p = "fd_param f" and ?s = "struct_size fs"
  note m = Rows(1-4)
  have fok: "?p \<le> 255" "fs \<noteq> []" using Rows(5) m(1) by auto
  have n: "unat (of_nat ?n :: u32) = ?n" using m(3) fok by (intro le32_word_exact) simp
  have d: "drop readed data = le32enc (of_nat ?n) @ (padded (?p * ?s) (concat rows) @ rest)"
    using Rows(7) by (cases fs) simp_all
  have d1: "drop (readed + 4) data = concat rows @ (replicate (?p * ?s - length (concat rows)) 0 @ rest)"
    using arg_cong [OF d, of "drop 4"] by (simp add: add.commute padded_def)
  let ?b1 = "overlay buf written [of_nat ?n]"
  have w: "written + 1 + length (concat rows) \<le> length buf" using Rows(8) by simp
  have bs: "\<not> buff_size - written < 1" using w Rows(9) by simp
  have w1: "mem_write buf written [of_nat ?n] = Inr ?b1" using w by (intro mem_write_Inr) simp
  have pre: "pack_prefix f data buf buff_size readed written =
      Inr (Some (?n, ?p, readed + 4, written + 1, ?b1))"
    using m(1,3) fok(1) n bs w1 by (simp add: pack_prefix_def Let_def d)
  have "pack_rows data data_size ?b1 buff_size (readed + 4) (written + 1) ?n (fd_size f) fs =
      Inr (Some (written + 1 + length (concat rows)), overlay ?b1 (written + 1) (concat rows))"
    using w Rows(6,9) by (intro pack_rows_copy [OF m(2,4) d1]) auto
  moreover have "overlay ?b1 (written + 1) (concat rows) = overlay buf written (wire [VRows rows])"
    using w overlay_append [of written "[of_nat ?n]" "concat rows" buf] by simp
  ultimately show ?case using pre m(1) fok(2) by simp
next
  case (Flat f fs v vs)
  have nn: "\<not> is_nested f" using Flat(1) by (rule val_ok_not_nested)
  have fo: "fd_param f \<le> 65535" "fields_ok fs"
    using Flat(4) nn by (auto simp del: is_nested.simps)
  have rs: "rows_step_ok fs vs" using Flat(5) rows_step_ok_flat [OF Flat(1)] by simp
  have li: "length (image_val f fs v) = flat_size f" using Flat(1) by (rule length_image_val)
  have d: "drop readed data = image_val f fs v @ (struct_image fs vs @ rest)" using Flat(6) by simp
  have d2: "drop (readed + flat_size f) data = struct_image fs vs @ rest"
    using arg_cong [OF d, of "drop (flat_size f)"] li by (simp add: add.commute)
  have "pack_fields data data_size buf buff_size readed written (f # fs) =
      pack_fields data data_size (overlay buf written (wire_val v)) buff_size
        (readed + flat_size f) (written + length (wire_val v)) fs"
    using Flat(7) by (intro pack_value [OF Flat(1) fo(1) d _ Flat(8)]) simp
  also have "\<dots> = Inr (Some (written + length (wire_val v) + length (wire vs)),
      overlay (overlay buf written (wire_val v)) (written + length (wire_val v)) (wire vs))"
    using Flat(7,8) by (intro Flat(3) [OF fo(2) rs d2]) auto
  also have "\<dots> = Inr (Some (written + length (wire (v # vs))), overlay buf written (wire (v # vs)))"
    using Flat(7) overlay_append [of written "wire_val v" "wire vs" buf] by (simp add: add.assoc)
  finally show ?case .
qed

section \<open>The two directions are inverse\<close>

text \<open>The format of a message as the program passes it: the count is the length of the fields.\<close>

lemma NetMsg_Pack_wire:
  assumes "mf_count m = length (mf_fields m)" "fields_ok (mf_fields m)"
    and "msg_ok (mf_fields m) vs" "rows_step_ok (mf_fields m) vs"
    and "length (wire vs) \<le> length buf" "buff_size = length buf"
  shows "NetMsg_Pack (struct_image (mf_fields m) vs @ rest) pack_size buf buff_size m =
    Inr (length (wire vs), overlay buf 0 (wire vs))"
  using pack_image [OF assms(3,2,4), of 0 _ rest 0 buf buff_size] assms(1,5,6)
  by (simp add: NetMsg_Pack_def pack_def)

lemma NetMsg_Unpack_struct:
  assumes "mf_count m = length (mf_fields m)" "fields_ok (mf_fields m)"
    and "msg_ok (mf_fields m) vs" "data_size = length (wire vs @ rest)"
    and "struct_size (mf_fields m) \<le> n"
  shows "NetMsg_Unpack (wire vs @ rest) data_size (replicate n 0) pack_size m =
    Inr (length (wire vs), overlay (replicate n 0) 0 (struct_image (mf_fields m) vs))"
  using unpack_image [OF assms(3,2), of 0 "wire vs @ rest" rest data_size 0 n "replicate n 0" pack_size]
    assms(1,4,5)
  by (simp add: NetMsg_Unpack_def unpack_def)

end
