(* ===== verification/Codec_Stream.thy ===== *)
theory Codec_Stream
  imports Codec_Spec
begin

text \<open>
  Messages in a stream: what \<open>unpack\<close> does with a message that has only partly arrived. Once
  it reports a message, or a failed assertion, more bytes after the ones it was given do not
  change the result; so a strict prefix of a message is reported as incomplete, never as a
  shorter message and never as a failure.
\<close>

section \<open>More data does not change a result\<close>

definition complete :: "fault + nat option \<times> bytes \<Rightarrow> bool" where
  "complete r \<longleftrightarrow> (\<forall>b. r \<noteq> Inr (None, b))"

lemma le16dec_take: "2 \<le> n \<Longrightarrow> n \<le> length p \<Longrightarrow> le16dec (take n p) = le16dec p"
  by (cases p rule: le16dec.cases) (auto simp: take_Cons' split: if_splits)

lemma drop_take_eq: "take n d' = take n d \<Longrightarrow> take (n - k) (drop k d') = take (n - k) (drop k d)"
  by (metis drop_take)

lemma same_le16dec:
  "take n d' = take n d \<Longrightarrow> n \<le> length d \<Longrightarrow> n \<le> length d' \<Longrightarrow> 2 \<le> n - k \<Longrightarrow>
   le16dec (drop k d') = le16dec (drop k d)"
  using le16dec_take [of "n - k" "drop k d"] le16dec_take [of "n - k" "drop k d'"] drop_take_eq
  by (metis diff_le_mono length_drop)

lemma same_mem_read:
  "take n d' = take n d \<Longrightarrow> n \<le> length d \<Longrightarrow> n \<le> length d' \<Longrightarrow> m \<le> n - k \<Longrightarrow> 
   mem_read (drop k d') 0 m = mem_read (drop k d) 0 m"
proof -
  assume a: "take n d' = take n d" "n \<le> length d" "n \<le> length d'" "m \<le> n - k"
  have "take m (drop k d') = take m (take (n - k) (drop k d'))" using a(4) by (simp add: min_absorb1)
  also have "\<dots> = take m (take (n - k) (drop k d))" using drop_take_eq [OF a(1)] by simp
  finally have "take m (drop k d') = take m (drop k d)" using a(4) by (simp add: min_absorb1)
  with a show ?thesis by (auto simp: mem_read_def)
qed

lemma unpack_prefix_extend:
  assumes "ds \<le> length d" "ds \<le> length d'" "ds \<le> ds'" "take ds d' = take ds d"
    and "unpack_prefix f d ds buf readed written \<noteq> Inr None"
  shows "unpack_prefix f d' ds' buf readed written = unpack_prefix f d ds buf readed written"
proof (cases "get_prefix_size (fd_type f) = 0")
  case True
  then show ?thesis by (simp add: unpack_prefix_def)
next
  case False
  then have r: "\<not> ds - readed < get_prefix_size (fd_type f)" "\<not> ds' - readed < get_prefix_size (fd_type f)"
    using assms(3,5) by (auto simp: unpack_prefix_def Let_def split: if_splits)
  have "get_prefix_size (fd_type f) \<noteq> 1 \<Longrightarrow> get_prefix_size (fd_type f) = 2"
    using prefix_size_cases [of "fd_type f"] False by auto
  then have "get_prefix_size (fd_type f) \<noteq> 1 \<Longrightarrow> le16dec (drop readed d') = le16dec (drop readed d)"
    using same_le16dec [OF assms(4,1,2), of readed] r by simp
  moreover have "mem_read (drop readed d') 0 1 = mem_read (drop readed d) 0 1"
    using same_mem_read [OF assms(4,1,2), of 1 readed] r False by simp
  ultimately show ?thesis using r by (simp add: unpack_prefix_def Let_def del: mem_read_Inr)
qed

lemma unpack_elems_extend:
  assumes "ds \<le> length d" "ds \<le> length d'" "ds \<le> ds'" "take ds d' = take ds d"
    and "unpack_elems f packed static d ds buf readed written \<noteq> Inr None"
  shows "unpack_elems f packed static d' ds' buf readed written =
    unpack_elems f packed static d ds buf readed written"
proof -
  have r: "\<not> ds - readed < get_element_size f * packed" "\<not> ds' - readed < get_element_size f * packed"
    using assms(3,5) by (auto simp: unpack_elems_def Let_def split: if_splits)
  then show ?thesis using same_mem_read [OF assms(4,1,2), of "get_element_size f * packed" readed]
    by (simp add: unpack_elems_def Let_def del: mem_read_Inr)
qed

lemma unpack_prefix_readed:
  "unpack_prefix f d ds buf readed written = Inr (Some (p, s, readed1, w1, b1)) \<Longrightarrow> readed \<le> ds \<Longrightarrow> readed1 \<le> ds"
  by (auto simp: unpack_prefix_def Let_def res_simps split: if_splits prod.splits)

lemma unpack_elems_readed:
  "unpack_elems f p s d ds buf readed written = Inr (Some (readed1, w1, b1)) \<Longrightarrow> readed \<le> ds \<Longrightarrow> readed1 \<le> ds"
  by (auto simp: unpack_elems_def Let_def res_simps split: if_splits prod.splits)

lemma unpack_result_le:
  "unpack_fields d ds buf bs readed written fs = Inr (Some k, b) \<Longrightarrow> readed \<le> ds \<Longrightarrow> k \<le> ds"
  "unpack_rows d ds buf bs readed written n fs = Inr (Some k, b) \<Longrightarrow> readed \<le> ds \<Longrightarrow> k \<le> ds"
proof (induction d ds buf bs readed written fs and d ds buf bs readed written n fs
    arbitrary: k b and k b rule: unpack_fields_unpack_rows.induct)
  case (2 data data_size buf buff_size readed written f fs)
  from "2.prems"(1) obtain p s r1 w1 b1
    where r: "unpack_prefix f data data_size buf readed written = Inr (Some (p, s, r1, w1, b1))"
    by (auto simp: res_simps split: option.splits)
  have r1: "r1 \<le> data_size" using unpack_prefix_readed [OF r "2.prems"(2)] .
  show ?case
  proof (cases "fd_type f \<noteq> TYPE_NESTED_STRUCT")
    case True
    with "2.prems"(1) r obtain r2 w2 b2
      where q: "unpack_elems f p s data data_size b1 r1 w1 = Inr (Some (r2, w2, b2))"
      by (auto simp: res_simps split: option.splits)
    have "r2 \<le> data_size" using unpack_elems_readed [OF q r1] .
    then show ?thesis
      using "2.IH"(1) [OF r refl refl refl refl refl True q refl refl refl] "2.prems"(1) r q True by simp
  next
    case False
    then show ?thesis
      using "2.IH"(2) [OF r refl refl refl refl refl] "2.prems"(1) r r1
      by (auto simp: res_simps)
  qed
next
  case (4 data data_size buf buff_size readed written n fs)
  from "4.prems"(1) obtain t b1
    where t: "unpack_fields (drop readed data) (data_size - readed) (drop written buf)
      (buff_size - written) 0 0 fs = Inr (Some t, b1)"
    by (auto simp: res_simps Let_def split: option.splits)
  have "t \<le> data_size - readed" using "4.IH"(1) [OF t] by simp
  then show ?case using "4.IH"(2) [OF t refl refl refl, of k b] "4.prems" t by (simp add: Let_def)
qed (auto simp: res_simps)

lemma unpack_extend_induct:
  "ds \<le> length d \<Longrightarrow> ds \<le> length d' \<Longrightarrow> ds \<le> ds' \<Longrightarrow> take ds d' = take ds d \<Longrightarrow> readed \<le> ds \<Longrightarrow>
   complete (unpack_fields d ds buf bs readed written fs) \<Longrightarrow>
   unpack_fields d' ds' buf bs readed written fs = unpack_fields d ds buf bs readed written fs"
  "ds \<le> length d \<Longrightarrow> ds \<le> length d' \<Longrightarrow> ds \<le> ds' \<Longrightarrow> take ds d' = take ds d \<Longrightarrow> readed \<le> ds \<Longrightarrow>
   complete (unpack_rows d ds buf bs readed written n fs) \<Longrightarrow>
   unpack_rows d' ds' buf bs readed written n fs = unpack_rows d ds buf bs readed written n fs"
proof (induction d ds buf bs readed written fs and d ds buf bs readed written n fs
    arbitrary: d' ds' and d' ds' rule: unpack_fields_unpack_rows.induct)
  case (1 data data_size buf buff_size readed written)
  then show ?case by simp
next
  case (2 data data_size buf buff_size readed written f fs)
  note ext = "2.prems"(1-4)
  have np: "unpack_prefix f data data_size buf readed written \<noteq> Inr None"
    using "2.prems"(6) by (auto simp: complete_def)
  note pre = unpack_prefix_extend [OF ext np]
  show ?case
  proof (cases "unpack_prefix f data data_size buf readed written")
    case (Inl e)
    with pre show ?thesis by simp
  next
    case (Inr r)
    with np obtain p s r1 w1 b1 where r: "unpack_prefix f data data_size buf readed written = Inr (Some (p, s, r1, w1, b1))"
      by (cases r) auto
    have r1: "r1 \<le> data_size" using unpack_prefix_readed [OF r "2.prems"(5)] .
    show ?thesis
    proof (cases "fd_type f \<noteq> TYPE_NESTED_STRUCT")
      case True
      have ne: "unpack_elems f p s data data_size b1 r1 w1 \<noteq> Inr None"
        using "2.prems"(6) r True by (auto simp: complete_def)
      note el = unpack_elems_extend [OF ext ne]
      show ?thesis
      proof (cases "unpack_elems f p s data data_size b1 r1 w1")
        case (Inl e)
        with pre r el True show ?thesis by simp
      next
        case (Inr q)
        with ne obtain r2 w2 b2 where q: "unpack_elems f p s data data_size b1 r1 w1 = Inr (Some (r2, w2, b2))"
          by (cases q) auto
        have "r2 \<le> data_size" using unpack_elems_readed [OF q r1] .
        then show ?thesis
          using pre r el q True "2.prems" "2.IH"(1) [OF r refl refl refl refl refl True q refl refl refl ext]
          by simp
      qed
    next
      case False
      show ?thesis
      proof (cases "fs = []")
        case True
        with False pre r show ?thesis by simp
      next
        case ne: False
        then show ?thesis
          using pre r False "2.prems" r1 "2.IH"(2) [OF r refl refl refl refl refl _ _ ext r1]
          by simp
      qed
    qed
  qed
next
  case (3 data data_size buf buff_size readed written fs)
  then show ?case by simp
next
  case (4 data data_size buf buff_size readed written n fs)
  let ?in = "unpack_fields (drop readed data) (data_size - readed) (drop written buf)
      (buff_size - written) 0 0 fs"
  have c: "complete ?in"
    using "4.prems"(6) by (auto simp: complete_def Let_def)
  have "take (data_size - readed) (drop readed d') = take (data_size - readed) (drop readed data)"
    using "4.prems"(4) by (rule drop_take_eq)
  then have inner: "unpack_fields (drop readed d') (ds' - readed) (drop written buf)
      (buff_size - written) 0 0 fs = ?in"
    using "4.prems"(1-3) by (intro "4.IH"(1) c) auto
  show ?case
  proof (cases ?in)
    case (Inl e)
    with inner show ?thesis by simp
  next
    case (Inr q)
    with c obtain t b where t: "?in = Inr (Some t, b)" by (cases q; cases "fst q") (auto simp: complete_def)
    have "t \<le> data_size - readed" using unpack_result_le(1) [OF t] by simp
    then show ?thesis
      using inner t "4.prems" "4.IH"(2) [OF t refl refl refl, of d' ds'] by (simp add: Let_def)
  qed
qed

section \<open>A part of a message is incomplete\<close>

lemma unpack_part:
  assumes "msg_ok fs vs" "fields_ok fs" "wire vs = part @ missing" "missing \<noteq> []"
    and "take (length part) data = part" "length part \<le> length data"
    and "struct_size fs \<le> hi" "zero_from buf 0 hi"
  shows "\<exists>b. unpack_fields data (length part) buf bs 0 0 fs = Inr (None, b)"
proof (rule ccontr)
  let ?r = "unpack_fields data (length part) buf bs 0 0 fs"
  assume "\<not> ?thesis"
  then have "complete ?r" by (auto simp: complete_def)
  then have "unpack_fields (wire vs) (length (wire vs)) buf bs 0 0 fs = ?r"
    using assms(3,5,6) by (intro unpack_extend_induct(1)) auto
  moreover have "unpack_fields (wire vs) (length (wire vs)) buf bs 0 0 fs =
      Inr (Some (0 + length (wire vs)), overlay buf 0 (struct_image fs vs))"
    using assms(7,8) by (intro unpack_image [OF assms(1,2), of 0 _ "[]"]) auto
  ultimately have "?r = Inr (Some (length (wire vs)), overlay buf 0 (struct_image fs vs))" by simp
  then have "length (wire vs) \<le> length part" using unpack_result_le(1) by blast
  with assms(3,4) show False by simp
qed

lemma NetMsg_Unpack_part:
  assumes "mf_count m = length (mf_fields m)" "fields_ok (mf_fields m)" "msg_ok (mf_fields m) vs"
    and "wire vs = part @ missing" "missing \<noteq> []"
    and "take (length part) data = part" "length part \<le> length data"
    and "struct_size (mf_fields m) \<le> hi" "zero_from buf 0 hi"
  shows "\<exists>b. NetMsg_Unpack data (length part) buf pack_size m = Inr (0, b)"
  using unpack_part [OF assms(3,2,4-9), of pack_size] assms(1)
  by (auto simp: NetMsg_Unpack_def unpack_def)

section \<open>pack with too little room\<close>

text \<open>The outcome of packing without the buffer: the bytes written, or that they did not fit.\<close>

definition outcome :: "fault + nat option \<times> bytes \<Rightarrow> fault + nat option" where
  "outcome r = (case r of Inl e \<Rightarrow> Inl e | Inr (x, _) \<Rightarrow> Inr x)"

lemma outcome_simps [simp]: "outcome (Inl e) = Inl e" "outcome (Inr (x, b)) = Inr x"
  by (simp_all add: outcome_def)

lemma pack_prefix_room:
  assumes "bs \<le> length buf" "bs' \<le> length buf'" "bs \<le> bs'" "written \<le> bs"
    and "pack_prefix f d buf bs readed written \<noteq> Inr None"
  shows "(\<exists>e. pack_prefix f d buf bs readed written = Inl e \<and>
      pack_prefix f d buf' bs' readed written = Inl e) \<or>
    (\<exists>p s r w b b'. pack_prefix f d buf bs readed written = Inr (Some (p, s, r, w, b)) \<and>
      pack_prefix f d buf' bs' readed written = Inr (Some (p, s, r, w, b')) \<and>
      length b = length buf \<and> length b' = length buf' \<and> w \<le> bs)"
proof (cases "get_prefix_size (fd_type f) = 0")
  case True
  then show ?thesis using assms(4) by (simp add: pack_prefix_def)
next
  case False
  define r where "r = (if fd_type f = TYPE_STRING_16
    then bindE (unicode16_len (drop readed d) (fd_param f)) (\<lambda>n. Inr (n, readed))
    else bindE (le32dec (drop readed d)) (\<lambda>n. Inr (unat n, readed + 4)))"
  have w: "\<not> bs - written < get_prefix_size (fd_type f)" "\<not> bs' - written < get_prefix_size (fd_type f)"
    using assms(3,5) False by (auto simp: pack_prefix_def Let_def split: if_splits)
  have ps: "get_prefix_size (fd_type f) = 1 \<or> get_prefix_size (fd_type f) = 2"
    using prefix_size_cases [of "fd_type f"] False by auto
  show ?thesis
  proof (cases r)
    case (Inl e)
    then show ?thesis using w False by (simp add: pack_prefix_def Let_def r_def [symmetric])
  next
    case (Inr q)
    then show ?thesis
      using w False ps assms(1-4)
      by (cases q) (auto simp: pack_prefix_def Let_def r_def [symmetric] assertE_def)
  qed
qed

lemma pack_elems_room:
  assumes "bs \<le> length buf" "bs' \<le> length buf'" "bs \<le> bs'" "written \<le> bs"
    and "pack_elems f p s d buf bs readed written \<noteq> Inr None"
  shows "(\<exists>e. pack_elems f p s d buf bs readed written = Inl e \<and>
      pack_elems f p s d buf' bs' readed written = Inl e) \<or>
    (\<exists>r w b b'. pack_elems f p s d buf bs readed written = Inr (Some (r, w, b)) \<and>
      pack_elems f p s d buf' bs' readed written = Inr (Some (r, w, b')) \<and>
      length b = length buf \<and> length b' = length buf' \<and> w \<le> bs)"
proof -
  let ?n = "get_element_size f * p"
  have w: "\<not> bs - written < ?n" "\<not> bs' - written < ?n"
    using assms(3,5) by (auto simp: pack_elems_def Let_def split: if_splits)
  show ?thesis
  proof (cases "mem_read (drop readed d) 0 ?n")
    case (Inl e)
    then show ?thesis using w by (simp add: pack_elems_def Let_def)
  next
    case (Inr q)
    then have "length q = ?n" by (auto simp: res_simps)
    then show ?thesis using w assms(1-4) Inr
      by (simp add: pack_elems_def Let_def del: mem_read_Inr)
  qed
qed

lemma pack_room_induct:
  "bs \<le> length buf \<Longrightarrow> bs' \<le> length buf' \<Longrightarrow> bs \<le> bs' \<Longrightarrow> written \<le> bs \<Longrightarrow>
   outcome (pack_fields d ds buf bs readed written fs) \<noteq> Inr None \<Longrightarrow>
   outcome (pack_fields d ds buf' bs' readed written fs) = outcome (pack_fields d ds buf bs readed written fs) \<and>
   (\<forall>k. outcome (pack_fields d ds buf bs readed written fs) = Inr (Some k) \<longrightarrow> k \<le> bs) \<and>
   (\<forall>x b. pack_fields d ds buf' bs' readed written fs = Inr (x, b) \<longrightarrow> length b = length buf') \<and>
   (\<forall>x b. pack_fields d ds buf bs readed written fs = Inr (x, b) \<longrightarrow> length b = length buf)"
  "bs \<le> length buf \<Longrightarrow> bs' \<le> length buf' \<Longrightarrow> bs \<le> bs' \<Longrightarrow> written \<le> bs \<Longrightarrow>
   outcome (pack_rows d ds buf bs readed written n rs fs) \<noteq> Inr None \<Longrightarrow>
   outcome (pack_rows d ds buf' bs' readed written n rs fs) = outcome (pack_rows d ds buf bs readed written n rs fs) \<and>
   (\<forall>k. outcome (pack_rows d ds buf bs readed written n rs fs) = Inr (Some k) \<longrightarrow> k \<le> bs) \<and>
   (\<forall>x b. pack_rows d ds buf' bs' readed written n rs fs = Inr (x, b) \<longrightarrow> length b = length buf') \<and>
   (\<forall>x b. pack_rows d ds buf bs readed written n rs fs = Inr (x, b) \<longrightarrow> length b = length buf)"
proof (induction d ds buf bs readed written fs and d ds buf bs readed written n rs fs
    arbitrary: buf' bs' and buf' bs' rule: pack_fields_pack_rows.induct)
  case (2 data data_size buf buff_size readed written f fs)
  have np: "pack_prefix f data buf buff_size readed written \<noteq> Inr None"
    using "2.prems"(5) by auto
  consider (e) e where "pack_prefix f data buf buff_size readed written = Inl e"
      "pack_prefix f data buf' bs' readed written = Inl e"
    | (ok) p s r1 w1 b1 b1' where "pack_prefix f data buf buff_size readed written = Inr (Some (p, s, r1, w1, b1))"
      "pack_prefix f data buf' bs' readed written = Inr (Some (p, s, r1, w1, b1'))"
      "length b1 = length buf" "length b1' = length buf'" "w1 \<le> buff_size"
    using pack_prefix_room [OF "2.prems"(1-4) np] by blast
  then show ?case
  proof cases
    case e
    then show ?thesis by simp
  next
    case ok
    have bl: "buff_size \<le> length b1" "bs' \<le> length b1'" using ok "2.prems" by auto
    show ?thesis
    proof (cases "fd_type f = TYPE_NESTED_STRUCT")
      case True
      show ?thesis
      proof (cases "fs = []")
        case True
        then show ?thesis using ok \<open>fd_type f = _\<close> by simp
      next
        case False
        then show ?thesis
          using ok True "2.prems" "2.IH"(2) [OF ok(1) refl refl refl refl refl _ _ bl(1,2) "2.prems"(3) ok(5)]
          by simp
      qed
    next
      case False
      have ne: "pack_elems f p s data b1 buff_size r1 w1 \<noteq> Inr None"
        using "2.prems"(5) ok(1) False by auto
      consider (e) e where "pack_elems f p s data b1 buff_size r1 w1 = Inl e"
          "pack_elems f p s data b1' bs' r1 w1 = Inl e"
        | (el) r2 w2 b2 b2' where "pack_elems f p s data b1 buff_size r1 w1 = Inr (Some (r2, w2, b2))"
          "pack_elems f p s data b1' bs' r1 w1 = Inr (Some (r2, w2, b2'))"
          "length b2 = length b1" "length b2' = length b1'" "w2 \<le> buff_size"
        using pack_elems_room [OF bl "2.prems"(3) ok(5) ne] by blast
      then show ?thesis
      proof cases
        case e
        then show ?thesis using ok False by simp
      next
        case el
        have bl2: "buff_size \<le> length b2" "bs' \<le> length b2'" using bl el by auto
        show ?thesis
          using ok el False "2.prems"(5)
            "2.IH"(1) [OF ok(1) refl refl refl refl refl False el(1) refl refl refl bl2 "2.prems"(3) el(5)]
          by simp
      qed
    qed
  qed
next
  case (4 data data_size buf buff_size readed written n row_size fs)
  let ?in = "pack_fields (drop readed data) (data_size - readed) (drop written buf) (buff_size - written) 0 0 fs"
  let ?in' = "pack_fields (drop readed data) (data_size - readed) (drop written buf') (bs' - written) 0 0 fs"
  have c: "outcome ?in \<noteq> Inr None" using "4.prems"(5) by (auto simp: outcome_def Let_def split: sum.splits option.splits)
  have i: "outcome ?in' = outcome ?in" "\<forall>k. outcome ?in = Inr (Some k) \<longrightarrow> k \<le> buff_size - written"
    "\<forall>x b. ?in' = Inr (x, b) \<longrightarrow> length b = length (drop written buf')"
    "\<forall>x b. ?in = Inr (x, b) \<longrightarrow> length b = length (drop written buf)"
  proof -
    have "buff_size - written \<le> length (drop written buf)" "bs' - written \<le> length (drop written buf')"
      "buff_size - written \<le> bs' - written" "0 \<le> buff_size - written" using "4.prems"(1-4) by auto
    note h = "4.IH"(1) [OF this c]
    show "outcome ?in' = outcome ?in" "\<forall>k. outcome ?in = Inr (Some k) \<longrightarrow> k \<le> buff_size - written"
      "\<forall>x b. ?in' = Inr (x, b) \<longrightarrow> length b = length (drop written buf')"
      "\<forall>x b. ?in = Inr (x, b) \<longrightarrow> length b = length (drop written buf)"
      using h by blast+
  qed
  show ?case
  proof (cases ?in)
    case (Inl e)
    then show ?thesis using i(1) by (cases ?in') auto
  next
    case (Inr q)
    then obtain t b where t: "?in = Inr (Some t, b)"
      using c by (cases q; cases "fst q") auto
    then obtain b' where t': "?in' = Inr (Some t, b')" using i(1) by (cases ?in') auto
    have len: "length (take written buf @ b) = length buf" "length (take written buf' @ b') = length buf'"
      and le: "written + t \<le> buff_size"
      using i(4) [rule_format, OF t] i(3) [rule_format, OF t'] i(2) t "4.prems"(1-4) by simp_all
    have e: "pack_rows data data_size buf buff_size readed written (Suc n) row_size fs =
        pack_rows data data_size (take written buf @ b) buff_size (readed + row_size) (written + t) n row_size fs"
      by (simp add: t Let_def)
    have e': "pack_rows data data_size buf' bs' readed written (Suc n) row_size fs =
        pack_rows data data_size (take written buf' @ b') bs' (readed + row_size) (written + t) n row_size fs"
      by (simp add: t' Let_def)
    have room: "buff_size \<le> length (take written buf @ b)" "bs' \<le> length (take written buf' @ b')"
      using "4.prems"(1,2) len by (simp_all only:)
    show ?thesis
      using "4.IH"(2) [OF t refl refl refl room "4.prems"(3) le] "4.prems"(5) unfolding e e' len by blast
  qed
qed simp_all

text \<open>A message that does not fit is reported as such.\<close>

lemma pack_no_room:
  assumes "msg_ok fs vs" "fields_ok fs" "rows_step_ok fs vs"
    and "data = struct_image fs vs @ rest" "length buf = bs" "bs < length (wire vs)"
  shows "\<exists>b. pack_fields data ds buf bs 0 0 fs = Inr (None, b)"
proof (rule ccontr)
  let ?r = "pack_fields data ds buf bs 0 0 fs"
  let ?n = "length (wire vs)"
  assume "\<not> ?thesis"
  then have c: "outcome ?r \<noteq> Inr None" by (auto simp: outcome_def split: sum.splits)
  have "pack_fields data ds (replicate ?n 0) ?n 0 0 fs = Inr (Some (0 + ?n), overlay (replicate ?n 0) 0 (wire vs))"
    using assms(4) by (intro pack_image [OF assms(1-3), of _ _ rest]) auto
  moreover have "outcome (pack_fields data ds (replicate ?n 0) ?n 0 0 fs) = outcome ?r"
    "\<forall>k. outcome ?r = Inr (Some k) \<longrightarrow> k \<le> bs"
  proof -
    have "bs \<le> length buf" "?n \<le> length (replicate ?n (0 :: u8))" "bs \<le> ?n" "0 \<le> bs"
      using assms(5,6) by simp_all
    note h = pack_room_induct(1) [OF this c]
    show "outcome (pack_fields data ds (replicate ?n 0) ?n 0 0 fs) = outcome ?r"
      using h by (rule conjunct1)
    show "\<forall>k. outcome ?r = Inr (Some k) \<longrightarrow> k \<le> bs"
      using h by (elim conjE)
  qed
  ultimately have "?n \<le> bs" by simp
  with assms(6) show False by simp
qed

lemma NetMsg_Pack_no_room:
  assumes "mf_count m = length (mf_fields m)" "fields_ok (mf_fields m)"
    and "msg_ok (mf_fields m) vs" "rows_step_ok (mf_fields m) vs"
    and "length buf = buff_size" "buff_size < length (wire vs)"
  shows "\<exists>b. NetMsg_Pack (struct_image (mf_fields m) vs @ rest) pack_size buf buff_size m = Inr (0, b)"
  using pack_no_room [OF assms(3,2,4) refl assms(5,6), of rest pack_size] assms(1)
  by (auto simp: NetMsg_Pack_def pack_def)

end
