(* ===== verification/Dispatch.thy ===== *)
theory Dispatch
  imports Connection Codec_Stream
begin

unbundle bit_operations_syntax

text \<open>
  Receiving. The abstract view of the receiving side is a list of messages that are delivered to
  their handlers in order; the lemmas show that \<^verbatim>\<open>NetConn_DispatchPackets\<close> does that
  with the messages in the buffer and keeps the part of a message at its end, and that
  \<^verbatim>\<open>NetConn_Recv\<close> does so however the network splits the stream.
\<close>

section \<open>The abstract receiver\<close>

type_synonym 'w runner = "nat \<Rightarrow> nat \<Rightarrow> bytes \<Rightarrow> 'w \<times> connection \<Rightarrow> fault + 'w \<times> connection"
type_synonym message = "msg_format \<times> mval list"

definition wires :: "message list \<Rightarrow> bytes" where
  "wires ms = concat (map (\<lambda>(m, vs). wire vs) ms)"

fun deliver :: "'w runner \<Rightarrow> message list \<Rightarrow> 'w \<times> connection \<Rightarrow> fault + 'w \<times> connection" where
  "deliver run [] s = Inr s"
| "deliver run ((m, vs) # ms) s =
     bindE (case contents (conn_handlers (snd s)) ! mf_header m of
              None \<Rightarrow> Inr s
            | Some h \<Rightarrow> run h (mf_unpack_size m) (struct_image (mf_fields m) vs) s)
       (deliver run ms)"

text \<open>What a handler may not touch: the receive buffer, the cipher, the tables and the flags.\<close>

definition keeps :: "connection \<Rightarrow> connection \<Rightarrow> bool" where
  "keeps c c' \<longleftrightarrow> conn_in c' = conn_in c \<and> conn_decrypt c' = conn_decrypt c \<and>
     conn_secured c' = conn_secured c \<and> conn_server_msg_format c' = conn_server_msg_format c \<and>
     conn_handlers c' = conn_handlers c \<and> conn_flags c' = conn_flags c"

definition quiet :: "'w runner \<Rightarrow> bool" where
  "quiet run \<longleftrightarrow> (\<forall>h n p w c w' c'. run h n p (w, c) = Inr (w', c') \<longrightarrow> keeps c c')"

text \<open>A message the connection understands: its header is its index, and it has a handler slot.\<close>

definition known :: "connection \<Rightarrow> message \<Rightarrow> bool" where
  "known c mv \<longleftrightarrow> (case mv of (m, vs) \<Rightarrow>
     mf_header m < length (conn_server_msg_format c) \<and>
     conn_server_msg_format c ! mf_header m = m \<and> format_ok (mf_header m) m \<and>
     mf_unpack_size m \<le> 4096 \<and> mf_header m < arr_size (conn_handlers c) \<and>
     msg_ok (mf_fields m) vs \<and> hd vs = VFix (le16enc (of_nat (mf_header m))))"

text \<open>What is left in the buffer is a strict part of a message.\<close>

definition pending :: "connection \<Rightarrow> bytes \<Rightarrow> bool" where
  "pending c part \<longleftrightarrow> length part < 2 \<or>
     (\<exists>m vs missing. known c (m, vs) \<and> wire vs = part @ missing \<and> missing \<noteq> [])"

lemma keeps_refl [simp]: "keeps c c"
  by (simp add: keeps_def)

lemma keeps_trans: "keeps a b \<Longrightarrow> keeps b c \<Longrightarrow> keeps a c"
  by (simp add: keeps_def)

lemma keeps_known: "keeps c c' \<Longrightarrow> known c' mv = known c mv"
  by (simp add: keeps_def known_def)

lemma keeps_pending: "keeps c c' \<Longrightarrow> pending c' p = pending c p"
  by (simp add: pending_def keeps_known)

lemma deliver_keeps: "quiet run \<Longrightarrow> deliver run ms (w, c) = Inr (w', c') \<Longrightarrow> keeps c c'"
proof (induction ms arbitrary: w c)
  case (Cons mv ms)
  obtain m vs where mv: "mv = (m, vs)" by (cases mv)
  obtain w1 c1 where step: "(case contents (conn_handlers c) ! mf_header m of None \<Rightarrow> Inr (w, c)
      | Some h \<Rightarrow> run h (mf_unpack_size m) (struct_image (mf_fields m) vs) (w, c)) = Inr (w1, c1)"
    "deliver run ms (w1, c1) = Inr (w', c')"
    using Cons.prems(2) mv by (auto simp: res_simps)
  have "keeps c c1" using step(1) Cons.prems(1) by (auto simp: quiet_def split: option.splits)
  then show ?case using Cons.IH [OF Cons.prems(1) step(2)] keeps_trans by blast
qed simp

lemma deliver_append:
  "deliver run (ms @ ns) s = bindE (deliver run ms s) (deliver run ns)"
  by (induction run ms s rule: deliver.induct) (auto simp: bindE_assoc intro!: bindE_cong)

lemma wires_simps [simp]:
  "wires [] = []" "wires ((m, vs) # ms) = wire vs @ wires ms" "wires (ms @ ns) = wires ms @ wires ns"
  by (simp_all add: wires_def)

section \<open>One message\<close>

lemma known_facts:
  assumes "known c (m, vs)"
  shows "mf_count m = length (mf_fields m)" "fields_ok (mf_fields m)" "msg_ok (mf_fields m) vs"
    "struct_size (mf_fields m) = mf_unpack_size m" "mf_header m < 65536"
    "\<exists>rest. wire vs = le16enc (of_nat (mf_header m)) @ rest"
proof -
  obtain f fs where fs: "mf_fields m = f # fs" "fd_type f = TYPE_MSG_HEADER" "fd_param f = mf_header m"
    using assms by (auto simp: known_def format_ok_def split: list.splits)
  show ok: "mf_count m = length (mf_fields m)" "fields_ok (mf_fields m)" "msg_ok (mf_fields m) vs"
    "struct_size (mf_fields m) = mf_unpack_size m"
    using assms by (auto simp: known_def format_ok_def)
  show "mf_header m < 65536" using ok(2) fs by (auto split: if_splits)
  have "vs \<noteq> []" using ok(3) fs(1) by auto
  then obtain v vs' where "vs = v # vs'" by (cases vs) auto
  then show "\<exists>rest. wire vs = le16enc (of_nat (mf_header m)) @ rest"
    using assms by (auto simp: known_def)
qed

lemma header_word: "h < 65536 \<Longrightarrow> unat (of_nat h :: u16) = h"
  by (simp add: unat_of_nat)

lemma wire_length: "known c (m, vs) \<Longrightarrow> 2 \<le> length (wire vs)"
  using known_facts(6) [of c m vs] by auto

lemma zeroed:
  "n \<le> length buffer \<Longrightarrow> zero_from (overlay buffer 0 (replicate n 0)) 0 n"
  by (auto simp: zero_from_def nth_overlay)

lemma dispatch_header:
  assumes k: "known c (m, vs)" and buf: "length buffer = 4096"
    and len: "2 \<le> len" and dec: "le16dec (drop off (arr_data (conn_in c))) = Inr (of_nat (mf_header m))"
  shows "dispatch_loop run buffer off len (w, c) =
    bindE (NetMsg_Unpack (drop off (arr_data (conn_in c))) len
        (overlay buffer 0 (replicate (mf_unpack_size m) 0)) (mf_unpack_size m) m) (\<lambda>(readed, buffer).
      if readed = 0 then Inr (Some (off, len), w, c)
      else bindE (assertE (readed \<le> len)) (\<lambda>_.
        bindE (array_at (conn_handlers c) (mf_header m)) (\<lambda>handler.
        bindE (case handler of None \<Rightarrow> Inr (w, c)
               | Some h \<Rightarrow> run h (mf_unpack_size m) (take (mf_unpack_size m) buffer) (w, c)) (\<lambda>(w, c).
          if conn_flags c AND NETCONN_REMOVE \<noteq> 0
          then Inr (None, w, c\<lparr>conn_in := array_clear (conn_in c)\<rparr>)
          else dispatch_loop run buffer (off + readed) (len - readed) (w, c)))))"
  using k buf len dec known_facts(5) [OF k]
  by (subst dispatch_loop.simps) (simp add: known_def header_word array_inside_def Let_def cong: if_cong option.case_cong)

lemma dispatch_message:
  assumes k: "known c (m, vs)" and buf: "length buffer = 4096"
    and data: "drop off (arr_data (conn_in c)) = wire vs @ rest" "length (wire vs) \<le> len"
    and q: "quiet run" and ok: "arr_ok (conn_handlers c)" and fl: "conn_flags c AND NETCONN_REMOVE = 0"
  obtains buffer' where "length buffer' = 4096"
    "dispatch_loop run buffer off len (w, c) =
      bindE (case contents (conn_handlers c) ! mf_header m of None \<Rightarrow> Inr (w, c)
             | Some h \<Rightarrow> run h (mf_unpack_size m) (struct_image (mf_fields m) vs) (w, c))
        (dispatch_loop run buffer' (off + length (wire vs)) (len - length (wire vs)))"
proof -
  let ?n = "mf_unpack_size m" and ?img = "struct_image (mf_fields m) vs"
  note f = known_facts [OF k]
  have n: "?n \<le> 4096" using k by (simp add: known_def)
  define b1 where "b1 = overlay buffer 0 (replicate ?n (0 :: u8))"
  have b1: "length b1 = 4096" "zero_from b1 0 ?n" using n buf zeroed [of ?n buffer] by (simp_all add: b1_def)
  define b2 where "b2 = overlay b1 0 ?img"
  have limg: "length ?img = ?n" using length_image [OF f(3)] f(4) by simp
  have b2: "length b2 = 4096" "take ?n b2 = ?img"
    using b1 n limg take_overlay_all [of 0 b1 ?img] by (simp_all add: b2_def)
  have "NetMsg_Unpack (drop off (arr_data (conn_in c))) len b1 ?n m = Inr (length (wire vs), b2)"
    using unpack_image [OF f(3,2), of 0 "drop off (arr_data (conn_in c))" rest len 0 ?n b1 ?n] data f b1
    by (simp add: NetMsg_Unpack_def unpack_def b2_def)
  moreover have "le16dec (drop off (arr_data (conn_in c))) = Inr (of_nat (mf_header m))"
    using f(6) data(1) by auto
  moreover have at: "array_at (conn_handlers c) (mf_header m) = Inr (contents (conn_handlers c) ! mf_header m)"
    using k by (intro array_at_contents [OF ok]) (simp add: known_def)
  moreover have "2 \<le> len" "wire vs \<noteq> []" using wire_length [OF k] data(2) by auto
  ultimately have "dispatch_loop run buffer off len (w, c) =
      bindE (case contents (conn_handlers c) ! mf_header m of None \<Rightarrow> Inr (w, c)
             | Some h \<Rightarrow> run h ?n ?img (w, c)) (\<lambda>(w, c).
        if conn_flags c AND NETCONN_REMOVE \<noteq> 0
        then Inr (None, w, c\<lparr>conn_in := array_clear (conn_in c)\<rparr>)
        else dispatch_loop run b2 (off + length (wire vs)) (len - length (wire vs)) (w, c))"
    using dispatch_header [OF k buf, of len off run w] data(2) b2(2)
    by (simp add: b1_def cong: option.case_cong)
  also have "\<dots> = bindE (case contents (conn_handlers c) ! mf_header m of None \<Rightarrow> Inr (w, c)
      | Some h \<Rightarrow> run h ?n ?img (w, c))
      (dispatch_loop run b2 (off + length (wire vs)) (len - length (wire vs)))"
  proof (rule bindE_cong [OF refl])
    fix s assume s: "(case contents (conn_handlers c) ! mf_header m of None \<Rightarrow> Inr (w, c)
      | Some h \<Rightarrow> run h ?n ?img (w, c)) = Inr s"
    obtain w' c' where "s = (w', c')" by (cases s)
    moreover have "conn_flags c' AND NETCONN_REMOVE = 0"
      using s q fl \<open>s = (w', c')\<close> by (auto simp: quiet_def keeps_def split: option.splits)
    ultimately show "(case s of (w, c) \<Rightarrow>
        if conn_flags c AND NETCONN_REMOVE \<noteq> 0
        then Inr (None, w, c\<lparr>conn_in := array_clear (conn_in c)\<rparr>)
        else dispatch_loop run b2 (off + length (wire vs)) (len - length (wire vs)) (w, c)) =
      dispatch_loop run b2 (off + length (wire vs)) (len - length (wire vs)) s" by simp
  qed
  finally show ?thesis using that b2(1) by blast
qed

section \<open>All messages in the buffer\<close>

lemma le16dec_part:
  assumes "le16enc h @ rest = part @ missing" "2 \<le> length part"
  shows "le16dec (part @ more') = Inr h"
proof -
  have "take 2 part = take 2 (part @ missing)" using assms(2) by simp
  also have "\<dots> = le16enc h" by (simp flip: assms(1))
  finally have "part = le16enc h @ drop 2 part" by (metis append_take_drop_id)
  then show ?thesis by (metis append.assoc le16dec_le16enc)
qed

lemma dispatch_pending:
  assumes buf: "length buffer = 4096" and p: "pending c part"
    and data: "drop off (arr_data (conn_in c)) = part @ rest"
  shows "dispatch_loop run buffer off (length part) (w, c) = Inr (Some (off, length part), w, c)"
proof (cases "length part < 2")
  case True
  then show ?thesis by (simp add: dispatch_loop.simps)
next
  case False
  then obtain m vs missing where k: "known c (m, vs)" and m: "wire vs = part @ missing" "missing \<noteq> []"
    using p by (auto simp: pending_def)
  note f = known_facts [OF k]
  let ?n = "mf_unpack_size m"
  define b1 where "b1 = overlay buffer 0 (replicate ?n (0 :: u8))"
  have "?n \<le> 4096" using k by (simp add: known_def)
  then have z: "zero_from b1 0 ?n" using buf zeroed [of ?n buffer] by (simp add: b1_def)
  obtain b where u: "NetMsg_Unpack (drop off (arr_data (conn_in c))) (length part) b1 ?n m = Inr (0, b)"
    using NetMsg_Unpack_part [OF f(1-3) m, of "drop off (arr_data (conn_in c))" ?n b1 ?n] f(4) z data by auto
  obtain rest' where "le16enc (of_nat (mf_header m)) @ rest' = part @ missing" using f(6) m(1) by metis
  then have "le16dec (drop off (arr_data (conn_in c))) = Inr (of_nat (mf_header m))"
    using le16dec_part False data by fastforce
  then show ?thesis
    using dispatch_header [OF k buf, of "length part" off run w] False u by (simp add: b1_def)
qed

lemma dispatch_loop_deliver:
  assumes q: "quiet run" and buf: "length buffer = 4096" and ok: "arr_ok (conn_handlers c)"
    and fl: "conn_flags c AND NETCONN_REMOVE = 0" and kn: "list_all (known c) ms"
    and p: "pending c part" and data: "drop off (arr_data (conn_in c)) = wires ms @ part @ rest"
  shows "dispatch_loop run buffer off (length (wires ms) + length part) (w, c) =
    bindE (deliver run ms (w, c)) (\<lambda>s. Inr (Some (off + length (wires ms), length part), s))"
  using buf ok fl kn p data
proof (induction ms arbitrary: w c off buffer)
  case Nil
  then show ?case by (simp add: dispatch_pending)
next
  case (Cons mv ms)
  obtain m vs where mv: "mv = (m, vs)" by (cases mv)
  let ?len = "length (wires (mv # ms)) + length part"
  have k: "known c (m, vs)" using Cons.prems(4) mv by simp
  have d: "drop off (arr_data (conn_in c)) = wire vs @ (wires ms @ part @ rest)"
    using Cons.prems(6) mv by simp
  obtain buffer' where b': "length buffer' = 4096" and step:
    "dispatch_loop run buffer off ?len (w, c) =
      bindE (case contents (conn_handlers c) ! mf_header m of None \<Rightarrow> Inr (w, c)
             | Some h \<Rightarrow> run h (mf_unpack_size m) (struct_image (mf_fields m) vs) (w, c))
        (dispatch_loop run buffer' (off + length (wire vs)) (?len - length (wire vs)))"
    using dispatch_message [OF k Cons.prems(1) d _ q Cons.prems(2,3), of ?len w] mv by auto
  have d2: "drop (off + length (wire vs)) (arr_data (conn_in c)) = wires ms @ part @ rest"
    using arg_cong [OF d, of "drop (length (wire vs))"] by (simp add: add.commute)
  have "dispatch_loop run buffer' (off + length (wire vs)) (?len - length (wire vs)) s =
      bindE (deliver run ms s) (\<lambda>s. Inr (Some (off + length (wires (mv # ms)), length part), s))"
    if s: "(case contents (conn_handlers c) ! mf_header m of None \<Rightarrow> Inr (w, c)
      | Some h \<Rightarrow> run h (mf_unpack_size m) (struct_image (mf_fields m) vs) (w, c)) = Inr s" for s
  proof -
    obtain w' c' where s': "s = (w', c')" by (cases s)
    have kp: "keeps c c'" using s s' q by (auto simp: quiet_def split: option.splits)
    have "list_all (known c') ms" using Cons.prems(4) keeps_known [OF kp] by (simp add: list_all_iff)
    then have "dispatch_loop run buffer' (off + length (wire vs)) (length (wires ms) + length part) (w', c') =
      bindE (deliver run ms (w', c')) (\<lambda>s. Inr (Some (off + length (wire vs) + length (wires ms), length part), s))"
      using Cons.prems kp keeps_pending [OF kp] d2 by (intro Cons.IH [OF b']) (auto simp: keeps_def)
    then show ?thesis using mv s' by (simp add: add.assoc)
  qed
  then show ?case
    unfolding step using mv by (auto simp: bindE_assoc intro!: bindE_cong)
qed

lemma NetConn_DispatchPackets_deliver:
  assumes q: "quiet run" and buf: "length buffer = 4096" and ok: "arr_ok (conn_handlers c)" "arr_ok (conn_in c)"
    and fl: "conn_flags c AND NETCONN_REMOVE = 0" and kn: "list_all (known c) ms"
    and p: "pending c part" and data: "contents (conn_in c) = wires ms @ part"
  shows "\<exists>a. arr_ok a \<and> contents a = part \<and> arr_capacity a = arr_capacity (conn_in c) \<and>
    NetConn_DispatchPackets run buffer (w, c) =
      bindE (deliver run ms (w, c)) (\<lambda>(w, c). Inr (w, c\<lparr>conn_in := a\<rparr>))"
proof -
  let ?blk = "arr_data (conn_in c)" and ?n = "length (wires ms)"
  define a where "a = (conn_in c)\<lparr>arr_data := overlay ?blk 0 part, arr_size := length part\<rparr>"
  have sz: "arr_size (conn_in c) = ?n + length part"
    using length_contents [OF ok(2)] data by simp
  have len: "?n + length part \<le> length ?blk" using arr_okD [OF ok(2)] sz by simp
  have blk: "drop 0 ?blk = wires ms @ part @ drop (?n + length part) ?blk"
    using data sz append_take_drop_id [of "arr_size (conn_in c)" ?blk] by (simp add: contents_def)
  have tk: "mem_read ?blk ?n (length part) = Inr part"
    using blk len by (metis append_eq_conv_conj drop0 mem_read_Inr)
  have "arr_ok a" "contents a = part" "arr_capacity a = arr_capacity (conn_in c)"
    using ok(2) len take_overlay_all [of 0 ?blk part] by (auto simp: a_def arr_ok_def contents_def)
  moreover have "NetConn_DispatchPackets run buffer (w, c) =
      bindE (deliver run ms (w, c)) (\<lambda>(w, c). Inr (w, c\<lparr>conn_in := a\<rparr>))"
  proof -
    have "NetConn_DispatchPackets run buffer (w, c) =
        bindE (deliver run ms (w, c)) (\<lambda>(w, c).
          bindE (if 0 < length part
                 then bindE (mem_read (arr_data (conn_in c)) ?n (length part)) (mem_write (arr_data (conn_in c)) 0)
                 else Inr (arr_data (conn_in c))) (\<lambda>data.
            Inr (w, c\<lparr>conn_in := (conn_in c)\<lparr>arr_data := data, arr_size := length part\<rparr>\<rparr>)))"
      using dispatch_loop_deliver [OF q buf ok(1) fl kn p blk, of w] sz
      by (auto simp: NetConn_DispatchPackets_def bindE_assoc simp del: mem_read_Inr intro!: bindE_cong)
    also have "\<dots> = bindE (deliver run ms (w, c)) (\<lambda>(w, c). Inr (w, c\<lparr>conn_in := a\<rparr>))"
    proof (rule bindE_cong [OF refl])
      fix s assume s: "deliver run ms (w, c) = Inr s"
      obtain w' c' where s': "s = (w', c')" by (cases s)
      then have "conn_in c' = conn_in c" using deliver_keeps [OF q] s by (auto simp: keeps_def)
      then show "(case s of (w, c) \<Rightarrow>
          bindE (if 0 < length part
                 then bindE (mem_read (arr_data (conn_in c)) ?n (length part)) (mem_write (arr_data (conn_in c)) 0)
                 else Inr (arr_data (conn_in c))) (\<lambda>data.
            Inr (w, c\<lparr>conn_in := (conn_in c)\<lparr>arr_data := data, arr_size := length part\<rparr>\<rparr>))) =
        (case s of (w, c) \<Rightarrow> Inr (w, c\<lparr>conn_in := a\<rparr>))"
        using s' tk len by (simp add: a_def del: mem_read_Inr)
    qed
    finally show ?thesis .
  qed
  ultimately show ?thesis by blast
qed

section \<open>A stream of messages, received in chunks\<close>

text \<open>A handler is blind when it neither reads nor changes the receive side of the connection.\<close>

definition with_recv :: "u8 carray \<Rightarrow> arc4_context \<Rightarrow> 'w \<times> connection \<Rightarrow> 'w \<times> connection" where
  "with_recv a d s = (fst s, (snd s)\<lparr>conn_decrypt := d, conn_in := a\<rparr>)"

definition blind :: "'w runner \<Rightarrow> bool" where
  "blind run \<longleftrightarrow> (\<forall>h n p s a d.
     run h n p (with_recv a d s) = bindE (run h n p s) (\<lambda>s. Inr (with_recv a d s)))"

lemma with_recv_with_recv [simp]: "with_recv a d (with_recv a' d' s) = with_recv a d s"
  by (simp add: with_recv_def)

lemma deliver_with_recv:
  "blind run \<Longrightarrow> deliver run ms (with_recv a d s) = bindE (deliver run ms s) (\<lambda>s. Inr (with_recv a d s))"
proof (induction ms arbitrary: s)
  case (Cons mv ms)
  obtain m vs where mv: "mv = (m, vs)" by (cases mv)
  have "(case contents (conn_handlers (snd s)) ! mf_header m of None \<Rightarrow> Inr (with_recv a d s)
      | Some h \<Rightarrow> run h n p (with_recv a d s)) =
    bindE (case contents (conn_handlers (snd s)) ! mf_header m of None \<Rightarrow> Inr s
      | Some h \<Rightarrow> run h n p s) (\<lambda>s. Inr (with_recv a d s))" for n p
    using Cons.prems by (cases s) (auto simp: blind_def split: option.split)
  moreover have "conn_handlers (snd (with_recv a d s)) = conn_handlers (snd s)"
    by (simp add: with_recv_def)
  ultimately show ?case using Cons mv by (simp add: bindE_assoc)
qed simp

lemma known_with_recv [simp]: "known (snd (with_recv a d s)) = known (snd s)"
  by (simp add: with_recv_def known_def fun_eq_iff)

lemma pending_with_recv [simp]: "pending (snd (with_recv a d s)) = pending (snd s)"
  by (simp add: pending_def fun_eq_iff)

text \<open>The conditions on a connection that receives, which the handlers and the receiver keep.\<close>

definition receiving :: "connection \<Rightarrow> bool" where
  "receiving c \<longleftrightarrow> conn_secured c \<and> arr_ok (conn_handlers c) \<and> arr_ok (conn_in c) \<and>
     arr_capacity (conn_in c) \<le> 5840 \<and> conn_flags c AND NETCONN_REMOVE = 0"

lemma NetConn_Recv_deliver:
  assumes q: "quiet run" "blind run" and buf: "length buffer = 4096" and r: "receiving c"
    and kn: "list_all (known c) ms" and p: "pending c part"
    and len: "arr_size (conn_in c) + length bs \<le> arr_capacity (conn_in c)"
    and dec: "arc4_crypt (conn_decrypt c) bs = Inr (ctx, dec)" "length dec = length bs"
    and data: "contents (conn_in c) @ dec = wires ms @ part"
    and recv: "recv (arr_capacity (conn_in c) - arr_size (conn_in c)) = RecvBytes bs"
  shows "\<exists>a. arr_ok a \<and> contents a = part \<and> arr_capacity a = arr_capacity (conn_in c) \<and>
    NetConn_Recv recv run leave_game buffer (w, c) =
      bindE (deliver run ms (w, c)) (\<lambda>s. Inr (with_recv a ctx s))"
proof -
  have ok: "arr_ok (conn_handlers c)" "arr_ok (conn_in c)" "arr_capacity (conn_in c) \<le> 5840"
    "conn_secured c" "conn_flags c AND NETCONN_REMOVE = 0"
    using r by (auto simp: receiving_def)
  note a = arr_okD [OF ok(2)]
  define b where "b = (conn_in c)\<lparr>arr_data := overlay (arr_data (conn_in c)) (arr_size (conn_in c)) dec,
    arr_size := arr_size (conn_in c) + length bs\<rparr>"
  have b: "arr_ok b" "contents b = wires ms @ part" "arr_capacity b = arr_capacity (conn_in c)"
    using a len dec(2) data take_overlay_all [of "arr_size (conn_in c)" "arr_data (conn_in c)" dec]
    by (simp_all add: b_def arr_ok_def contents_def)
  define s where "s = with_recv b ctx (w, c)"
  have "sz_add (arr_size (conn_in c)) (length bs) = arr_size (conn_in c) + length bs"
    using len ok(3) by (simp add: SZ_def)
  then have "NetConn_Recv recv run leave_game buffer (w, c) = NetConn_DispatchPackets run buffer s"
    using ok a len dec recv by (simp add: NetConn_Recv_def s_def b_def with_recv_def)
  moreover have s: "list_all (known (snd s)) ms" "pending (snd s) part" "conn_in (snd s) = b"
    "conn_handlers (snd s) = conn_handlers c" "conn_flags (snd s) = conn_flags c"
    using kn p by (auto simp: s_def) (simp_all add: with_recv_def)
  moreover obtain d where "arr_ok d" "contents d = part" "arr_capacity d = arr_capacity b"
    "NetConn_DispatchPackets run buffer (fst s, snd s) =
      bindE (deliver run ms (fst s, snd s)) (\<lambda>(w, c). Inr (w, c\<lparr>conn_in := d\<rparr>))"
    using NetConn_DispatchPackets_deliver [OF q(1) buf, of "snd s" ms part "fst s"] ok b s by auto
  ultimately show ?thesis
    using b(3) deliver_with_recv [OF q(2), of ms b ctx "(w, c)"]
    by (intro exI [of _ d])
      (auto simp: s_def bindE_assoc with_recv_def split: prod.splits intro!: bindE_cong)
qed

lemma wires_split:
  assumes "p @ q = wires ms"
  shows "\<exists>ms1 ms2 part. ms = ms1 @ ms2 \<and> p = wires ms1 @ part \<and> part @ q = wires ms2 \<and>
    (part = [] \<or> (\<exists>m vs ms3 missing. ms2 = (m, vs) # ms3 \<and> wire vs = part @ missing \<and> missing \<noteq> []))"
  using assms
proof (induction ms arbitrary: p)
  case Nil
  then show ?case by simp
next
  case (Cons mv ms)
  obtain m vs where mv: "mv = (m, vs)" by (cases mv)
  have eq: "p @ q = wire vs @ wires ms" using Cons.prems mv by simp
  show ?case
  proof (cases "length (wire vs) \<le> length p")
    case True
    then have "take (length (wire vs)) p = wire vs"
      using arg_cong [OF eq, of "take (length (wire vs))"] by simp
    then obtain p' where p': "p = wire vs @ p'" by (metis append_take_drop_id)
    then have "p' @ q = wires ms" using eq by simp
    from Cons.IH [OF this] obtain ms1 ms2 part where s: "ms = ms1 @ ms2" "p' = wires ms1 @ part"
      "part @ q = wires ms2" "part = [] \<or> (\<exists>m vs ms3 missing. ms2 = (m, vs) # ms3 \<and>
        wire vs = part @ missing \<and> missing \<noteq> [])" by blast
    then show ?thesis using p' mv by (intro exI [of _ "mv # ms1"] exI [of _ ms2] exI [of _ part]) simp
  next
    case False
    then have "take (length p) (wire vs) = p"
      using arg_cong [OF eq, of "take (length p)"] by simp
    then obtain missing where m: "wire vs = p @ missing" by (metis append_take_drop_id)
    moreover have "missing \<noteq> []" using m False by auto
    ultimately show ?thesis using mv eq
      by (intro exI [of _ "[]"] exI [of _ "mv # ms"] exI [of _ p]) auto
  qed
qed

primrec receive ::
    "'w runner \<Rightarrow> ('w \<Rightarrow> 'w) \<Rightarrow> bytes \<Rightarrow> bytes list \<Rightarrow> 'w \<times> connection \<Rightarrow> fault + 'w \<times> connection" where
  "receive run leave_game buffer [] s = Inr s"
| "receive run leave_game buffer (bs # bss) s =
     bindE (NetConn_Recv (\<lambda>_. RecvBytes bs) run leave_game buffer s) (receive run leave_game buffer bss)"

text \<open>
  The receiver is in the middle of a message whose first part is in the buffer; the chunks to
  come hold the encrypted rest of the messages. \<open>B\<close> bounds the size of a message: a chunk never
  exceeds the free space, as \<^verbatim>\<open>recv\<close> is called with that space.
\<close>

lemma receive_stream:
  assumes q: "quiet run" "blind run" and buf: "length buffer = 4096"
    and "receiving c" "arc4_ok (conn_decrypt c)" "list_all (known c) ms"
    and "\<forall>(m, vs) \<in> set ms. length (wire vs) \<le> B"
    and "\<forall>bs \<in> set bss. length bs + B \<le> arr_capacity (conn_in c)"
    and "contents (conn_in c) = [] \<or> (\<exists>m vs ms' missing. ms = (m, vs) # ms' \<and>
      wire vs = contents (conn_in c) @ missing \<and> missing \<noteq> [])"
    and "arc4_crypt (conn_decrypt c) (concat bss) = Inr (ctx, dec)"
    and "contents (conn_in c) @ dec = wires ms"
  shows "\<exists>a. arr_ok a \<and> contents a = [] \<and> arr_capacity a = arr_capacity (conn_in c) \<and>
    receive run leave_game buffer bss (w, c) =
      bindE (deliver run ms (w, c)) (\<lambda>s. Inr (with_recv a ctx s))"
  using assms(4-)
proof (induction bss arbitrary: w c ms dec)
  case Nil
  note p = Nil.prems
  have dec: "dec = []" "ctx = conn_decrypt c" using p(7) by auto
  have "ms = []"
  proof (rule ccontr)
    assume "ms \<noteq> []"
    then obtain m vs ms' where ms: "ms = (m, vs) # ms'" by (cases ms) auto
    then have "contents (conn_in c) \<noteq> []" using p(3,8) dec wire_length [of c m vs] by auto
    with p(6) ms dec p(8) show False by (auto simp: wires_def)
  qed
  then show ?case using p dec
    by (intro exI [of _ "conn_in c"]) (auto simp: with_recv_def receiving_def)
next
  case (Cons bs bss)
  note p = Cons.prems
  let ?in = "conn_in c"
  obtain ctx1 dec1 where d1: "arc4_crypt (conn_decrypt c) bs = Inr (ctx1, dec1)" "arc4_ok ctx1"
    "length dec1 = length bs"
    using arc4_crypt_ok [OF p(2)] by blast
  then obtain dec2 where d2: "arc4_crypt ctx1 (concat bss) = Inr (ctx, dec2)" "dec = dec1 @ dec2"
    using p(7) by (auto simp: arc4_crypt_append res_simps)
  obtain ms1 ms2 part where s: "ms = ms1 @ ms2" "contents ?in @ dec1 = wires ms1 @ part"
    "part @ dec2 = wires ms2"
    "part = [] \<or> (\<exists>m vs ms3 missing. ms2 = (m, vs) # ms3 \<and> wire vs = part @ missing \<and> missing \<noteq> [])"
    using wires_split [of "contents ?in @ dec1" dec2 ms] p(8) d2(2) by auto
  have kn: "list_all (known c) ms1" "list_all (known c) ms2" using p(3) s(1) by auto
  then have pend: "pending c part" using s(4) by (auto simp: pending_def)
  have ok: "arr_ok ?in" "arr_capacity ?in \<le> 5840" using p(1) by (auto simp: receiving_def)
  have "length (contents ?in) \<le> B" using p(4,6) by fastforce
  then have room: "arr_size ?in + length bs \<le> arr_capacity ?in" using p(5) length_contents [OF ok(1)] by auto
  obtain a where a: "arr_ok a" "contents a = part" "arr_capacity a = arr_capacity ?in"
    "NetConn_Recv (\<lambda>_. RecvBytes bs) run leave_game buffer (w, c) =
      bindE (deliver run ms1 (w, c)) (\<lambda>s. Inr (with_recv a ctx1 s))"
    using NetConn_Recv_deliver [OF q buf p(1) kn(1) pend room d1(1,3) s(2), of "\<lambda>_. RecvBytes bs" leave_game w]
    by auto
  have "\<exists>a'. arr_ok a' \<and> contents a' = [] \<and> arr_capacity a' = arr_capacity ?in \<and>
      receive run leave_game buffer (bs # bss) (w, c) =
      bindE (deliver run ms1 (w, c)) (\<lambda>s. bindE (deliver run ms2 s) (\<lambda>s. Inr (with_recv a' ctx s)))"
  proof (cases "deliver run ms1 (w, c)")
    case (Inl e)
    then show ?thesis using a(4) ok(1)
      by (intro exI [of _ "array_clear ?in"]) (simp add: array_clear_def arr_ok_def contents_def)
  next
    case (Inr s1)
    obtain w1 c1 where s1: "s1 = (w1, c1)" by (cases s1)
    have kp: "keeps c c1" using deliver_keeps [OF q(1)] Inr s1 by auto
    define c2 where "c2 = snd (with_recv a ctx1 s1)"
    have c2: "conn_in c2 = a" "conn_decrypt c2 = ctx1" "known c2 = known c" "receiving c2"
      using kp a p(1) by (auto simp: c2_def s1 with_recv_def keeps_def receiving_def known_def fun_eq_iff)
    obtain a' where a': "arr_ok a'" "contents a' = []" "arr_capacity a' = arr_capacity ?in"
      "receive run leave_game buffer bss (w1, c2) =
        bindE (deliver run ms2 (w1, c2)) (\<lambda>s. Inr (with_recv a' ctx s))"
      using Cons.IH [of c2 ms2 dec2 w1] c2 kn(2) p(4,5) s a d1(2) d2(1) by auto
    have "with_recv a ctx1 s1 = (w1, c2)" by (simp add: c2_def with_recv_def s1)
    then show ?thesis
      using a(4) a' Inr deliver_with_recv [OF q(2), of ms2 a ctx1 s1]
      by (intro exI [of _ a']) (simp add: bindE_assoc)
  qed
  then show ?case using s(1) by (simp add: deliver_append bindE_assoc)
qed

section \<open>Arbitrary data\<close>

text \<open>
  Whatever bytes arrive, dispatching stays inside its buffers if no format of the table needs
  more than the 4096 bytes of the packet buffer: the only failures are assertions.
\<close>

definition safe_format :: "msg_format \<Rightarrow> bool" where
  "safe_format m \<longleftrightarrow> fields_ok (mf_fields m) \<and> mf_count m = length (mf_fields m) \<and>
     mf_unpack_size m \<le> 4096 \<and> unpack_bound (mf_fields m) \<le> 4096"

definition no_memory_fault :: "fault + 'a \<Rightarrow> bool" where
  "no_memory_fault r \<longleftrightarrow> (\<forall>e. r = Inl e \<longrightarrow> e = AssertFail)"

lemma no_memory_fault_simps [simp]:
  "no_memory_fault (Inr x)" "no_memory_fault (Inl e) \<longleftrightarrow> e = AssertFail" "no_memory_fault (assertE b)"
  by (auto simp: no_memory_fault_def assertE_def)

lemma no_memory_fault_bindE:
  "no_memory_fault m \<Longrightarrow> (\<And>x. m = Inr x \<Longrightarrow> no_memory_fault (f x)) \<Longrightarrow> no_memory_fault (bindE m f)"
  by (cases m) auto

lemma NetMsg_Unpack_safe:
  assumes "safe_format m" "len \<le> length data" "length buf = 4096"
  shows "no_memory_fault (NetMsg_Unpack data len buf n m)"
    "NetMsg_Unpack data len buf n m = Inr (k, b) \<Longrightarrow> length b = 4096 \<and> k \<le> len"
proof -
  have "unpack_post (length buf) 0 len (max_wire (mf_fields m))
      (unpack data len buf n (mf_fields m) (mf_count m))"
    using assms by (intro unpack_safe) (auto simp: safe_format_def)
  then show "no_memory_fault (NetMsg_Unpack data len buf n m)"
    "NetMsg_Unpack data len buf n m = Inr (k, b) \<Longrightarrow> length b = 4096 \<and> k \<le> len"
    using assms(3) by (auto elim!: unpack_postE simp: NetMsg_Unpack_def)
qed

definition dispatched :: "connection \<Rightarrow> nat \<Rightarrow> fault + (nat \<times> nat) option \<times> 'w \<times> connection \<Rightarrow> bool" where
  "dispatched c hi r \<longleftrightarrow> (case r of Inl e \<Rightarrow> e = AssertFail
     | Inr (Some (off, len), _, c') \<Rightarrow> off + len = hi \<and> conn_in c' = conn_in c
     | Inr (None, _, c') \<Rightarrow> arr_ok (conn_in c'))"

lemma dispatched_keeps: "keeps c c' \<Longrightarrow> dispatched c' hi r = dispatched c hi r"
  by (auto simp: dispatched_def keeps_def split: sum.split option.split)

lemma dispatched_bindE:
  "no_memory_fault m \<Longrightarrow> (\<And>x. m = Inr x \<Longrightarrow> dispatched c hi (f x)) \<Longrightarrow> dispatched c hi (bindE m f)"
  by (cases m) (auto simp: dispatched_def)

lemma dispatch_loop_safe:
  assumes "list_all safe_format (conn_server_msg_format c)" "quiet run" "\<And>h n p s. no_memory_fault (run h n p s)"
    and "length buffer = 4096" "arr_ok (conn_handlers c)" "arr_ok (conn_in c)"
    and "off + len \<le> length (arr_data (conn_in c))"
  shows "dispatched c (off + len) (dispatch_loop run buffer off len (w, c))"
  using assms
proof (induction len arbitrary: off buffer w c rule: less_induct)
  case (less len)
  note p = less.prems
  let ?data = "drop off (arr_data (conn_in c))"
  show ?case
  proof (cases "len < 2")
    case True
    then show ?thesis by (simp add: dispatch_loop.simps dispatched_def)
  next
    case False
    have "2 \<le> length ?data" using p(7) False by simp
    then obtain h where h: "le16dec ?data = Inr h" using le16dec_total by blast
    let ?h = "unat h"
    let ?m = "conn_server_msg_format c ! ?h"
    show ?thesis
    proof (cases "?h < length (conn_server_msg_format c) \<and> mf_header ?m = ?h")
      case False
      then show ?thesis using h \<open>\<not> len < 2\<close>
        by (auto simp: dispatch_loop.simps dispatched_def Let_def assertE_def)
    next
      case True
      then have sf: "safe_format ?m" using p(1) by (simp add: list_all_length)
      let ?b1 = "overlay buffer 0 (replicate (mf_unpack_size ?m) 0)"
      have b1: "length ?b1 = 4096" using sf p(4) by (simp add: safe_format_def)
      note u = NetMsg_Unpack_safe [OF sf _ b1, of len ?data "mf_unpack_size ?m"]
      have next_step: "dispatched c (off + len) (dispatch_loop run b (off + k) (len - k) s)"
        if "k \<le> len" "k \<noteq> 0" "length b = 4096" "keeps c (snd s)" for k b s
      proof -
        have "dispatched (snd s) (off + k + (len - k)) (dispatch_loop run b (off + k) (len - k) (fst s, snd s))"
          using that p by (intro less.IH) (auto simp: keeps_def)
        then show ?thesis using that by (simp add: dispatched_keeps [OF that(4)])
      qed
      let ?call = "\<lambda>handler b. case handler of None \<Rightarrow> Inr (w, c)
        | Some h \<Rightarrow> run h (mf_unpack_size ?m) (take (mf_unpack_size ?m) b) (w, c)"
      let ?after = "\<lambda>k b (w, c). if conn_flags c AND NETCONN_REMOVE \<noteq> 0
        then Inr (None, w, c\<lparr>conn_in := array_clear (conn_in c)\<rparr>)
        else dispatch_loop run b (off + k) (len - k) (w, c)"
      have loop: "dispatch_loop run buffer off len (w, c) =
        bindE (NetMsg_Unpack ?data len ?b1 (mf_unpack_size ?m) ?m) (\<lambda>(k, b).
          if k = 0 then Inr (Some (off, len), w, c)
          else bindE (assertE (k \<le> len)) (\<lambda>_.
            if \<not> array_inside (conn_handlers c) ?h then Inr (None, w, NetConn_HardShutdown c)
            else bindE (array_at (conn_handlers c) ?h) (\<lambda>handler. bindE (?call handler b) (?after k b))))"
        using h True \<open>\<not> len < 2\<close> sf p(4)
        by (subst dispatch_loop.simps) (simp add: safe_format_def Let_def cong: if_cong option.case_cong)
      have call: "dispatched c (off + len) (bindE (?call handler b) (?after k b))"
        if "k \<le> len" "k \<noteq> 0" "length b = 4096" for k b handler
      proof (rule dispatched_bindE)
        show "no_memory_fault (?call handler b)" using p(3) by (simp split: option.split)
        fix s assume s: "?call handler b = Inr s"
        have kp: "keeps c (snd s)" using s p(2) by (cases s) (auto simp: quiet_def split: option.splits)
        show "dispatched c (off + len) (?after k b s)"
        proof (cases "conn_flags (snd s) AND NETCONN_REMOVE = 0")
          case True
          then show ?thesis using next_step [OF that kp] by (simp add: case_prod_unfold)
        next
          case False
          then show ?thesis using kp p(6) by (simp add: case_prod_unfold dispatched_def keeps_def)
        qed
      qed
      have handle: "dispatched c (off + len) (if \<not> array_inside (conn_handlers c) ?h
          then Inr (None, w, NetConn_HardShutdown c)
          else bindE (array_at (conn_handlers c) ?h) (\<lambda>handler. bindE (?call handler b) (?after k b)))"
        if "k \<le> len" "k \<noteq> 0" "length b = 4096" for k b
      proof (cases "array_inside (conn_handlers c) ?h")
        case True
        then have "array_at (conn_handlers c) ?h = Inr (contents (conn_handlers c) ! ?h)"
          using p(5) by (simp add: array_inside_def)
        then show ?thesis using True call [OF that] by simp
      next
        case False
        then show ?thesis using p(6) by (simp add: dispatched_def NetConn_HardShutdown_def)
      qed
      show ?thesis unfolding loop
      proof (rule dispatched_bindE)
        show "no_memory_fault (NetMsg_Unpack ?data len ?b1 (mf_unpack_size ?m) ?m)"
          using p(7) by (intro u(1)) simp
        fix x assume x: "NetMsg_Unpack ?data len ?b1 (mf_unpack_size ?m) ?m = Inr x"
        obtain k b where kb: "x = (k, b)" by (cases x)
        have "length b = 4096 \<and> k \<le> len" using x kb p(7) by (intro u(2)) auto
        then show "dispatched c (off + len) (case x of (k, b) \<Rightarrow>
            if k = 0 then Inr (Some (off, len), w, c)
            else bindE (assertE (k \<le> len)) (\<lambda>_.
              if \<not> array_inside (conn_handlers c) ?h then Inr (None, w, NetConn_HardShutdown c)
              else bindE (array_at (conn_handlers c) ?h) (\<lambda>handler. bindE (?call handler b) (?after k b))))"
          using handle [of k b] kb by (cases "k = 0") (simp_all add: dispatched_def)
      qed
    qed
  qed
qed

lemma NetConn_DispatchPackets_safe:
  assumes "list_all safe_format (conn_server_msg_format c)" "quiet run" "\<And>h n p s. no_memory_fault (run h n p s)"
    and "length buffer = 4096" "arr_ok (conn_handlers c)" "arr_ok (conn_in c)"
  shows "no_memory_fault (NetConn_DispatchPackets run buffer (w, c))"
    "NetConn_DispatchPackets run buffer (w, c) = Inr (w', c') \<Longrightarrow> arr_ok (conn_in c')"
proof -
  let ?n = "arr_size (conn_in c)"
  note o = arr_okD [OF assms(6)]
  have d: "dispatched c ?n (dispatch_loop run buffer 0 ?n (w, c))"
    using dispatch_loop_safe [OF assms, of 0 ?n w] o by simp
  consider (fail) "dispatch_loop run buffer 0 ?n (w, c) = Inl AssertFail"
    | (stop) w1 c1 where "dispatch_loop run buffer 0 ?n (w, c) = Inr (None, w1, c1)" "arr_ok (conn_in c1)"
    | (go) off len w1 c1 where "dispatch_loop run buffer 0 ?n (w, c) = Inr (Some (off, len), w1, c1)"
        "off + len = ?n" "conn_in c1 = conn_in c"
    using d by (auto simp: dispatched_def split: sum.splits option.splits) (metis option.exhaust surj_pair)
  then show "no_memory_fault (NetConn_DispatchPackets run buffer (w, c))"
    "NetConn_DispatchPackets run buffer (w, c) = Inr (w', c') \<Longrightarrow> arr_ok (conn_in c')"
    using o by (cases; auto simp: NetConn_DispatchPackets_def arr_ok_def split: if_splits)+
qed

end
