(* ===== verification/Sending.thy ===== *)
theory Sending
  imports Dispatch
begin

unbundle bit_operations_syntax

text \<open>
  The sending side: \<^verbatim>\<open>SendPacket\<close> appends the wire form of a message to the output buffer or,
  when it does not fit, drops it; \<^verbatim>\<open>NetConn_Send\<close> encrypts the buffer and hands it to the
  system. When the system accepts all of it, the bytes sent over a session are the encryption
  of the messages; when it accepts a part, what stays in the buffer is already encrypted.
\<close>

section \<open>NetConn_Send\<close>

lemma lock_sel [simp]:
  "conn_flags (lock c) = conn_flags c" "conn_out (lock c) = conn_out c"
  "conn_encrypt (lock c) = conn_encrypt c" "conn_secured (lock c) = conn_secured c"
  "conn_client_msg_format (lock c) = conn_client_msg_format c"
  by (simp_all add: lock_def)

lemma unlock_lock [simp]: "unlock (lock c) = c"
  by (simp add: lock_def unlock_def)

lemma unlock_lock_update [simp]:
  "unlock ((lock c)\<lparr>conn_encrypt := e, conn_out := a\<rparr>) = c\<lparr>conn_encrypt := e, conn_out := a\<rparr>"
  "unlock ((lock c)\<lparr>conn_out := a\<rparr>) = c\<lparr>conn_out := a\<rparr>"
  by (simp_all add: lock_def unlock_def)

lemma NetConn_Send_step:
  assumes "conn_secured c" "conn_flags c AND NETCONN_REMOVE = 0" "arr_size (conn_out c) \<noteq> 0"
    "mem_read (arr_data (conn_out c)) 0 (arr_size (conn_out c)) = Inr buff"
    "arc4_crypt (conn_encrypt c) buff = Inr (ctx, enc)"
    "mem_write (arr_data (conn_out c)) 0 enc = Inr d1"
    "send enc \<noteq> SOCKET_ERROR" "sz_sub (arr_size (conn_out c)) (nat (send enc)) = left"
    "(if left \<noteq> 0 then bindE (mem_read d1 (nat (send enc)) left) (mem_write d1 0) else Inr d1) = Inr d2"
  shows "NetConn_Send send c = Inr (c\<lparr>conn_encrypt := ctx,
    conn_out := (conn_out c)\<lparr>arr_data := d2, arr_size := left\<rparr>\<rparr>, take (nat (send enc)) enc)"
  unfolding NetConn_Send_def Let_def lock_sel assertE_def
  by (simp only: assms lock_sel if_True if_False bindE_Inr prod.case simp_thms) (simp add: lock_def unlock_def)

lemma NetConn_Send_bytes:
  assumes sec: "conn_secured c" and fl: "conn_flags c AND NETCONN_REMOVE = 0" and ok: "arr_ok (conn_out c)"
    and enc: "arc4_crypt (conn_encrypt c) (contents (conn_out c)) = Inr (ctx, enc)"
      "length enc = length (contents (conn_out c))"
    and send: "enc \<noteq> [] \<longrightarrow> send enc = int n" "n \<le> length enc"
  shows "\<exists>a. arr_ok a \<and> contents a = drop n enc \<and> arr_capacity a = arr_capacity (conn_out c) \<and>
    NetConn_Send send c = Inr (c\<lparr>conn_encrypt := ctx, conn_out := a\<rparr>, take n enc)"
proof (cases "arr_size (conn_out c) = 0")
  case True
  then have "contents (conn_out c) = []" by (simp add: contents_def)
  then have "enc = []" "ctx = conn_encrypt c" using enc by auto
  then show ?thesis using True sec fl ok send
    by (intro exI [of _ "conn_out c"]) (simp add: NetConn_Send_def contents_def Let_def)
next
  case False
  let ?out = "conn_out c"
  let ?data = "arr_data ?out" and ?size = "arr_size ?out"
  note o = arr_okD [OF ok]
  have le: "length enc = ?size" using enc(2) ok by simp
  then have ne: "enc \<noteq> []" using False by auto
  have rd: "mem_read ?data 0 ?size = Inr (contents ?out)" using o by (simp add: contents_def)
  define d1 where "d1 = overlay ?data 0 enc"
  have d1: "mem_write ?data 0 enc = Inr d1" "length d1 = arr_capacity ?out" "take ?size d1 = enc"
    using o le take_overlay_all [of 0 ?data enc] by (simp_all add: d1_def)
  have nz: "send enc \<noteq> SOCKET_ERROR" "nat (send enc) = n" using send ne by (simp_all add: SOCKET_ERROR_def)
  define d2 where "d2 = (if ?size - n \<noteq> 0 then overlay d1 0 (take (?size - n) (drop n d1)) else d1)"
  have mv: "(if ?size - n \<noteq> 0 then bindE (mem_read d1 n (?size - n)) (mem_write d1 0) else Inr d1) = Inr d2"
    using d1(2) o le send(2) by (auto simp: d2_def)
  have "take (?size - n) (drop n d1) = drop n enc" by (metis d1(3) drop_take)
  then have d2: "take (?size - n) d2 = drop n enc" "length d2 = arr_capacity ?out"
    using d1 o le send(2) take_overlay_all [of 0 d1 "drop n enc"] by (auto simp: d2_def)
  define a where "a = ?out\<lparr>arr_data := d2, arr_size := ?size - n\<rparr>"
  have "arr_ok a" "contents a = drop n enc" "arr_capacity a = arr_capacity ?out"
    using d2 o by (auto simp: a_def arr_ok_def contents_def)
  moreover have "NetConn_Send send c = Inr (c\<lparr>conn_encrypt := ctx, conn_out := a\<rparr>, take n enc)"
    using NetConn_Send_step [of c _ ctx enc d1 send "?size - n" d2, OF sec fl False rd enc(1) d1(1) nz(1)] mv send(2) le
    unfolding nz(2) a_def by (simp only: sz_sub_def le if_True)
  ultimately show ?thesis by blast
qed

lemma NetConn_Send_error:
  assumes sec: "conn_secured c" and fl: "conn_flags c AND NETCONN_REMOVE = 0" and ok: "arr_ok (conn_out c)"
    and enc: "arc4_crypt (conn_encrypt c) (contents (conn_out c)) = Inr (ctx, enc)"
      "length enc = length (contents (conn_out c))" "enc \<noteq> []"
    and send: "send enc = SOCKET_ERROR"
  shows "\<exists>a. arr_ok a \<and> contents a = enc \<and>
    NetConn_Send send c = Inr (c\<lparr>conn_flags := conn_flags c OR NETCONN_SHUTDOWN,
      conn_encrypt := ctx, conn_out := a\<rparr>, [])"
proof -
  let ?out = "conn_out c"
  note o = arr_okD [OF ok]
  have le: "length enc = arr_size ?out" using enc(2) ok by simp
  then have ne: "arr_size ?out \<noteq> 0" using enc(3) by (cases enc) auto
  define a where "a = ?out\<lparr>arr_data := overlay (arr_data ?out) 0 enc\<rparr>"
  have "arr_ok a" "contents a = enc"
    using o le take_overlay_all [of 0 "arr_data ?out" enc] by (simp_all add: a_def arr_ok_def contents_def)
  moreover have "NetConn_Send send c = Inr (c\<lparr>conn_flags := conn_flags c OR NETCONN_SHUTDOWN,
      conn_encrypt := ctx, conn_out := a\<rparr>, [])"
    using sec fl o le ne enc(1) send
    by (simp add: NetConn_Send_def Let_def a_def contents_def NetConn_HardShutdown_def lock_def unlock_def)
  ultimately show ?thesis by blast
qed

section \<open>SendPacket\<close>

text \<open>
  A message of the connection's table. The two bytes of the header are sent as they are; the
  table is looked up without the highest bit, which the client sets in what it sends.
\<close>

definition sendable :: "connection \<Rightarrow> message \<Rightarrow> bool" where
  "sendable c mv \<longleftrightarrow> (case mv of (m, vs) \<Rightarrow>
     mf_header m < length (conn_client_msg_format c) \<and>
     conn_client_msg_format c ! mf_header m = m \<and> format_ok (mf_header m) m \<and>
     msg_ok (mf_fields m) vs \<and> rows_step_ok (mf_fields m) vs \<and>
     (case vs of VFix bs # _ \<Rightarrow> \<exists>h. bs = le16enc h \<and> unat (h AND 0x7FFF) = mf_header m | _ \<Rightarrow> False))"

lemma sendable_facts:
  assumes "sendable c (m, vs)"
  shows "mf_count m = length (mf_fields m)" "fields_ok (mf_fields m)" "msg_ok (mf_fields m) vs"
    "rows_step_ok (mf_fields m) vs"
    "\<exists>h rest. struct_image (mf_fields m) vs = le16enc h @ rest \<and> unat (h AND 0x7FFF) = mf_header m"
    "2 \<le> length (wire vs)"
proof -
  obtain f fs where fs: "mf_fields m = f # fs"
    using assms by (auto simp: sendable_def format_ok_def split: list.splits)
  obtain h vs' where vs: "vs = VFix (le16enc h) # vs'" "unat (h AND 0x7FFF) = mf_header m"
    using assms by (auto simp: sendable_def split: list.splits mval.splits)
  show "mf_count m = length (mf_fields m)" "fields_ok (mf_fields m)" "msg_ok (mf_fields m) vs"
    "rows_step_ok (mf_fields m) vs"
    using assms by (auto simp: sendable_def format_ok_def)
  show "\<exists>h rest. struct_image (mf_fields m) vs = le16enc h @ rest \<and> unat (h AND 0x7FFF) = mf_header m"
    "2 \<le> length (wire vs)"
    using fs vs by auto
qed

lemma header_mask: "h < 2 ^ 15 \<Longrightarrow> unat ((of_nat h :: u16) AND 0x7FFF) = h"
proof -
  assume h: "h < 2 ^ 15"
  have "(0x7FFF :: u16) = mask 15" by (simp add: mask_eq_exp_minus_1)
  then have "unat ((of_nat h :: u16) AND 0x7FFF) = unat (take_bit 15 (of_nat h :: u16))"
    by (simp add: take_bit_eq_mask)
  also have "\<dots> = h" using h by (simp add: unsigned_take_bit_eq unat_of_nat take_bit_nat_eq_self)
  finally show ?thesis .
qed

lemma SendPacket_unfold:
  assumes s: "sendable c (m, vs)" and fl: "conn_flags c AND NETCONN_REMOVE = 0" and ok: "arr_ok (conn_out c)"
    and room: "arr_size (conn_out c) + 2 \<le> arr_capacity (conn_out c)"
    and p: "p = struct_image (mf_fields m) vs @ rest"
    and pk: "NetMsg_Pack p (mf_unpack_size m) (drop (arr_size (conn_out c)) (arr_data (conn_out c)))
      (arr_capacity (conn_out c) - arr_size (conn_out c)) m = Inr (written, buf)"
  shows "SendPacket send c (mf_unpack_size m) p = Inr (c\<lparr>conn_out := (conn_out c)\<lparr>
    arr_data := take (arr_size (conn_out c)) (arr_data (conn_out c)) @ buf,
    arr_size := (if written = 0 then arr_size (conn_out c) else sz_add (arr_size (conn_out c)) written)\<rparr>\<rparr>, [])"
proof -
  obtain h rest' where h: "p = le16enc h @ rest'" "unat (h AND 0x7FFF) = mf_header m"
    using sendable_facts(5) [OF s] p by fastforce
  then have "le16dec p = Inr h" by simp
  moreover have "mf_header m < length (conn_client_msg_format c)"
    "conn_client_msg_format c ! mf_header m = m"
    using s by (auto simp: sendable_def)
  moreover have "\<not> arr_capacity (conn_out c) - arr_size (conn_out c) < 2"
    "2 \<le> arr_capacity (conn_out c) - arr_size (conn_out c)" using room by auto
  ultimately show ?thesis
    using fl pk arr_okD [OF ok] h(2)
    by (simp add: SendPacket_def Let_def)
qed

lemma SendPacket_append:
  assumes s: "sendable c (m, vs)" and fl: "conn_flags c AND NETCONN_REMOVE = 0" and ok: "arr_ok (conn_out c)"
    and room: "arr_size (conn_out c) + length (wire vs) \<le> arr_capacity (conn_out c)"
  shows "\<exists>a. arr_ok a \<and> contents a = contents (conn_out c) @ wire vs \<and>
    arr_capacity a = arr_capacity (conn_out c) \<and>
    SendPacket send c (mf_unpack_size m) (struct_image (mf_fields m) vs @ rest) = Inr (c\<lparr>conn_out := a\<rparr>, [])"
proof -
  let ?out = "conn_out c"
  let ?buf = "drop (arr_size ?out) (arr_data ?out)" and ?w = "wire vs"
  note f = sendable_facts [OF s] and o = arr_okD [OF ok]
  have pk: "NetMsg_Pack (struct_image (mf_fields m) vs @ rest) (mf_unpack_size m) ?buf
      (arr_capacity ?out - arr_size ?out) m = Inr (length ?w, overlay ?buf 0 ?w)"
    using room o by (intro NetMsg_Pack_wire f) auto
  define a where "a = ?out\<lparr>arr_data := take (arr_size ?out) (arr_data ?out) @ overlay ?buf 0 ?w,
    arr_size := arr_size ?out + length ?w\<rparr>"
  have "arr_ok a" "contents a = contents ?out @ ?w" "arr_capacity a = arr_capacity ?out"
    using o room by (simp_all add: a_def arr_ok_def contents_def overlay_def)
  moreover have "sz_add (arr_size ?out) (length ?w) = arr_size ?out + length ?w" using o room by simp
  then have "SendPacket send c (mf_unpack_size m) (struct_image (mf_fields m) vs @ rest) = Inr (c\<lparr>conn_out := a\<rparr>, [])"
    using SendPacket_unfold [OF s fl ok _ refl pk, of send] f(6) room by (auto simp: a_def)
  ultimately show ?thesis by blast
qed

lemma SendPacket_drop:
  assumes s: "sendable c (m, vs)" and fl: "conn_flags c AND NETCONN_REMOVE = 0" and ok: "arr_ok (conn_out c)"
    and room: "arr_size (conn_out c) + 2 \<le> arr_capacity (conn_out c)"
      "arr_capacity (conn_out c) < arr_size (conn_out c) + length (wire vs)"
  shows "\<exists>a. contents a = contents (conn_out c) \<and> arr_size a = arr_size (conn_out c) \<and>
    SendPacket send c (mf_unpack_size m) (struct_image (mf_fields m) vs @ rest) = Inr (c\<lparr>conn_out := a\<rparr>, [])"
proof -
  let ?out = "conn_out c"
  note f = sendable_facts [OF s] and o = arr_okD [OF ok]
  have "length (drop (arr_size ?out) (arr_data ?out)) = arr_capacity ?out - arr_size ?out"
    "arr_capacity ?out - arr_size ?out < length (wire vs)" using room o by auto
  then obtain b where pk: "NetMsg_Pack (struct_image (mf_fields m) vs @ rest) (mf_unpack_size m)
      (drop (arr_size ?out) (arr_data ?out)) (arr_capacity ?out - arr_size ?out) m = Inr (0, b)"
    using NetMsg_Pack_no_room [OF f(1-4), of "drop (arr_size ?out) (arr_data ?out)"
        "arr_capacity ?out - arr_size ?out" rest "mf_unpack_size m"] by blast
  show ?thesis
    using SendPacket_unfold [OF s fl ok room(1) refl pk, of send] o
    by (intro exI [of _ "?out\<lparr>arr_data := take (arr_size ?out) (arr_data ?out) @ b\<rparr>"])
      (auto simp: contents_def)
qed

section \<open>A session\<close>

text \<open>
  The client sends batches of messages: it queues the messages of a batch with
  \<^verbatim>\<open>SendPacket\<close> and flushes them with \<^verbatim>\<open>NetConn_Send\<close>, as \<^verbatim>\<open>NetConn_Update\<close> does once per
  iteration of the main loop. The result is the bytes that the system accepted.
\<close>

fun send_all :: "(bytes \<Rightarrow> int) \<Rightarrow> message list \<Rightarrow> connection \<Rightarrow> fault + connection \<times> bytes" where
  "send_all send [] c = Inr (c, [])"
| "send_all send ((m, vs) # ms) c =
     bindE (SendPacket send c (mf_unpack_size m) (struct_image (mf_fields m) vs)) (\<lambda>(c, s1).
     bindE (send_all send ms c) (\<lambda>(c, s2). Inr (c, s1 @ s2)))"

fun session :: "(bytes \<Rightarrow> int) \<Rightarrow> message list list \<Rightarrow> connection \<Rightarrow> fault + connection \<times> bytes" where
  "session send [] c = Inr (c, [])"
| "session send (ms # mss) c =
     bindE (send_all send ms c) (\<lambda>(c, s1).
     bindE (NetConn_Send send c) (\<lambda>(c, s2).
     bindE (session send mss c) (\<lambda>(c, s3). Inr (c, s1 @ s2 @ s3))))"

lemma sendable_update [simp]:
  "sendable (c\<lparr>conn_out := a\<rparr>) = sendable c"
  "sendable (c\<lparr>conn_encrypt := e\<rparr>) = sendable c"
  by (simp_all add: sendable_def fun_eq_iff)

lemma send_all_append:
  assumes "list_all (sendable c) ms" "conn_flags c AND NETCONN_REMOVE = 0" "arr_ok (conn_out c)"
    and "arr_size (conn_out c) + length (wires ms) \<le> arr_capacity (conn_out c)"
  shows "\<exists>a. arr_ok a \<and> contents a = contents (conn_out c) @ wires ms \<and>
    arr_capacity a = arr_capacity (conn_out c) \<and> send_all send ms c = Inr (c\<lparr>conn_out := a\<rparr>, [])"
  using assms
proof (induction ms arbitrary: c)
  case Nil
  then show ?case by (intro exI [of _ "conn_out c"]) simp
next
  case (Cons mv ms)
  obtain m vs where mv: "mv = (m, vs)" by (cases mv)
  have s: "sendable c (m, vs)" "list_all (sendable c) ms" using Cons.prems(1) mv by simp_all
  have "arr_size (conn_out c) + length (wire vs) \<le> arr_capacity (conn_out c)" using Cons.prems(4) mv by simp
  from SendPacket_append [OF s(1) Cons.prems(2,3) this, of send "[]"]
  obtain a where a: "arr_ok a" "contents a = contents (conn_out c) @ wire vs"
    "arr_capacity a = arr_capacity (conn_out c)"
    "SendPacket send c (mf_unpack_size m) (struct_image (mf_fields m) vs) = Inr (c\<lparr>conn_out := a\<rparr>, [])"
    by auto
  have "arr_size a = arr_size (conn_out c) + length (wire vs)"
    using length_contents [OF a(1)] length_contents [OF Cons.prems(3)] a(2) by simp
  then obtain b where "arr_ok b" "contents b = contents a @ wires ms" "arr_capacity b = arr_capacity a"
    "send_all send ms (c\<lparr>conn_out := a\<rparr>) = Inr (c\<lparr>conn_out := b\<rparr>, [])"
    using Cons.IH [of "c\<lparr>conn_out := a\<rparr>"] Cons.prems mv a(1,3) s(2) by auto
  then show ?case using a mv by (intro exI [of _ b]) simp
qed

lemma session_stream:
  assumes "list_all (list_all (sendable c)) mss" "\<forall>ms \<in> set mss. length (wires ms) \<le> arr_capacity (conn_out c)"
    and "conn_secured c" "conn_flags c AND NETCONN_REMOVE = 0" "arr_ok (conn_out c)" "contents (conn_out c) = []"
    and "arc4_ok (conn_encrypt c)" and send: "\<And>bs. send bs = int (length bs)"
  shows "\<exists>a ctx sent. session send mss c = Inr (c\<lparr>conn_encrypt := ctx, conn_out := a\<rparr>, sent) \<and>
    contents a = [] \<and> arc4_crypt (conn_encrypt c) (wires (concat mss)) = Inr (ctx, sent)"
  using assms(1-7)
proof (induction mss arbitrary: c)
  case Nil
  then show ?case by (intro exI [of _ "conn_out c"] exI [of _ "conn_encrypt c"] exI [of _ "[]"]) simp
next
  case (Cons ms mss)
  have z: "arr_size (conn_out c) = 0" using length_contents [OF Cons.prems(5)] Cons.prems(6) by simp
  obtain a where a: "arr_ok a" "contents a = wires ms" "arr_capacity a = arr_capacity (conn_out c)"
    "send_all send ms c = Inr (c\<lparr>conn_out := a\<rparr>, [])"
    using send_all_append [of c ms send] Cons.prems z by auto
  obtain ctx1 enc where e: "arc4_crypt (conn_encrypt c) (wires ms) = Inr (ctx1, enc)" "arc4_ok ctx1"
    "length enc = length (wires ms)"
    using arc4_crypt_ok [OF Cons.prems(7)] by blast
  let ?c1 = "c\<lparr>conn_out := a\<rparr>"
  have "conn_secured ?c1" "conn_flags ?c1 AND NETCONN_REMOVE = 0" "arr_ok (conn_out ?c1)"
    "arc4_crypt (conn_encrypt ?c1) (contents (conn_out ?c1)) = Inr (ctx1, enc)"
    "length enc = length (contents (conn_out ?c1))" "enc \<noteq> [] \<longrightarrow> send enc = int (length enc)"
    using Cons.prems(3,4) a(1,2) e send by simp_all
  from NetConn_Send_bytes [of ?c1 ctx1 enc send "length enc", OF this order.refl]
  obtain b where b: "arr_ok b" "contents b = []" "arr_capacity b = arr_capacity (conn_out c)"
    "NetConn_Send send ?c1 = Inr (c\<lparr>conn_encrypt := ctx1, conn_out := b\<rparr>, enc)"
    using a(3) by auto
  let ?c = "c\<lparr>conn_encrypt := ctx1, conn_out := b\<rparr>"
  obtain a' ctx sent where r: "session send mss ?c = Inr (?c\<lparr>conn_encrypt := ctx, conn_out := a'\<rparr>, sent)"
    "contents a' = []" "arc4_crypt ctx1 (wires (concat mss)) = Inr (ctx, sent)"
    using Cons.IH [of ?c] Cons.prems b(1-3) e(2) by (auto simp: list_all_iff)
  then show ?case using a(4) b(4) e(1)
    by (intro exI [of _ a'] exI [of _ ctx] exI [of _ "enc @ sent"]) (simp add: arc4_crypt_append)
qed

end
