(* ===== verification/Hashing.thy ===== *)
theory Hashing
  imports Endian
begin

unbundle bit_operations_syntax

text \<open>
  The integer hashes of \<^verbatim>\<open>code/common/hash.h\<close>, which the tables of items and plugins probe with,
  and the key hash \<^verbatim>\<open>arc4_hash\<close> of \<^verbatim>\<open>code/client/network.c\<close>. The integer hashes are
  shown to be injective, so different keys never have the same full hash.
\<close>

section \<open>Definitions\<close>

definition hash_int32 :: "u32 \<Rightarrow> u32" where
  "hash_int32 n =
     (let hash = n;
          hash = NOT hash + push_bit 15 hash;
          hash = hash XOR drop_bit 12 hash;
          hash = hash + push_bit 2 hash;
          hash = hash XOR drop_bit 4 hash;
          hash = hash + (push_bit 3 hash + push_bit 11 hash);
          hash = hash XOR drop_bit 16 hash
      in hash)"

definition hash_int64 :: "u64 \<Rightarrow> u64" where
  "hash_int64 n =
     (let hash = n;
          hash = NOT hash + push_bit 21 hash;
          hash = hash XOR drop_bit 24 hash;
          hash = hash + (push_bit 3 hash + push_bit 8 hash);
          hash = hash XOR drop_bit 14 hash;
          hash = hash + (push_bit 2 hash + push_bit 4 hash);
          hash = hash XOR drop_bit 28 hash;
          hash = hash + push_bit 31 hash
      in hash)"

text \<open>Only on 64-bit Windows is a pointer hashed with 64 bits; elsewhere it is cut to 32 bits.\<close>

definition hash_ptr :: "bool \<Rightarrow> u64 \<Rightarrow> u64" where
  "hash_ptr win64 p = (if win64 then hash_int64 p else ucast (hash_int32 (ucast p)))"

definition ROL32 :: "u32 \<Rightarrow> nat \<Rightarrow> u32" where
  "ROL32 x n = push_bit n x OR drop_bit (32 - n) (x AND 0xFFFFFFFF)"

text \<open>\<open>key\<close> is the memory of the 20-byte key; the result is the 20-byte digest.\<close>

definition arc4_hash :: "bytes \<Rightarrow> fault + bytes" where
  "arc4_hash key =
     bindE (le32dec key) (\<lambda>i0. bindE (le32dec (drop 4 key)) (\<lambda>i1. bindE (le32dec (drop 8 key)) (\<lambda>i2.
     bindE (le32dec (drop 12 key)) (\<lambda>i3. bindE (le32dec (drop 16 key)) (\<lambda>i4.
     let A = 0x67452301; B = 0xEFCDAB89; C = 0x98BADCFE; D = 0x10325476; E = 0xC3D2E1F0;
         F = D XOR (B AND (C XOR D));
         E = E + (i0 + ROL32 A 5 + F + 0x5A827999);
         B = ROL32 B 30;
         F = C XOR (A AND (B XOR C));
         D = D + (i1 + ROL32 E 5 + F + 0x5A827999);
         A = ROL32 A 30;
         F = B XOR (E AND (A XOR B));
         C = C + (i2 + ROL32 D 5 + F + 0x5A827999);
         E = ROL32 E 30;
         F = B XOR C XOR D;
         E = E + (i3 + ROL32 A 5 + F + 0x6ED9EBA1);
         B = ROL32 B 30;
         F = A XOR B XOR C;
         D = D + (i4 + ROL32 E 5 + F + 0x6ED9EBA1);
         A = ROL32 A 30
     in Inr (concat (map le32enc [i0 + A, i1 + B, i2 + C, i3 + D, i4 + E])))))))"

section \<open>Injectivity\<close>

lemma xorshift_inj:
  fixes x y :: "'a::len word"
  assumes "x XOR drop_bit k x = y XOR drop_bit k y" "0 < k"
  shows "x = y"
proof (rule bit_word_eqI)
  fix n assume n: "n < LENGTH('a)"
  have step: "bit x m \<noteq> bit x (m + k) \<longleftrightarrow> bit y m \<noteq> bit y (m + k)" for m
    using arg_cong [OF assms(1), of "\<lambda>w. bit w m"] by (simp add: bit_simps add.commute)
  have "bit x (LENGTH('a) - j) = bit y (LENGTH('a) - j)" for j
  proof (induction j rule: less_induct)
    case (less j)
    show ?case
    proof (cases "j = 0 \<or> LENGTH('a) \<le> LENGTH('a) - j + k")
      case True
      then have "\<not> bit x (LENGTH('a) - j + k)" "\<not> bit y (LENGTH('a) - j + k)"
        using bit_imp_le_length [of x] bit_imp_le_length [of y] by (metis diff_zero le_add1 not_le)+
      then show ?thesis using step [of "LENGTH('a) - j"] by blast
    next
      case False
      show ?thesis
      proof (cases "LENGTH('a) < j")
        case True
        then show ?thesis using less.IH [of "LENGTH('a)"] by simp
      next
        case le: False
        then have "LENGTH('a) - j + k = LENGTH('a) - (j - k)" "j - k < j" using False assms(2) by auto
        then show ?thesis using less.IH [of "j - k"] step [of "LENGTH('a) - j"] by auto
      qed
    qed
  qed
  from this [of "LENGTH('a) - n"] n show "bit x n = bit y n" by simp
qed

lemma mult_unit_inj:
  fixes a b c x y :: "'a::len word"
  assumes "c * x = c * y" "d * c = 1"
  shows "x = y"
  by (metis assms mult.assoc mult_1)

lemma push_bit_mult: "push_bit k (x :: 'a::len word) = 2 ^ k * x"
  by (simp add: push_bit_eq_mult mult.commute)

lemma hash_int32_steps:
  fixes x y :: u32
  shows "NOT x + push_bit 15 x = NOT y + push_bit 15 y \<Longrightarrow> x = y"
    "x + push_bit 2 x = y + push_bit 2 y \<Longrightarrow> x = y"
    "x + (push_bit 3 x + push_bit 11 x) = y + (push_bit 3 y + push_bit 11 y) \<Longrightarrow> x = y"
proof -
  have not_eq: "NOT z = - z - 1" for z :: u32 by (simp add: not_eq_complement)
  assume "NOT x + push_bit 15 x = NOT y + push_bit 15 y"
  then have "32767 * x = 32767 * y" by (simp add: not_eq push_bit_mult algebra_simps)
  then show "x = y" by (rule mult_unit_inj [where d = "3221192703"]) simp
next
  assume "x + push_bit 2 x = y + push_bit 2 y"
  then have "5 * x = 5 * y" by (simp add: push_bit_mult algebra_simps)
  then show "x = y" by (rule mult_unit_inj [where d = "3435973837"]) simp
next
  assume "x + (push_bit 3 x + push_bit 11 x) = y + (push_bit 3 y + push_bit 11 y)"
  then have "2057 * x = 2057 * y" by (simp add: push_bit_mult algebra_simps)
  then show "x = y" by (rule mult_unit_inj [where d = "3369993785"]) simp
qed

lemma hash_int64_steps:
  fixes x y :: u64
  shows "NOT x + push_bit 21 x = NOT y + push_bit 21 y \<Longrightarrow> x = y"
    "x + (push_bit 3 x + push_bit 8 x) = y + (push_bit 3 y + push_bit 8 y) \<Longrightarrow> x = y"
    "x + (push_bit 2 x + push_bit 4 x) = y + (push_bit 2 y + push_bit 4 y) \<Longrightarrow> x = y"
    "x + push_bit 31 x = y + push_bit 31 y \<Longrightarrow> x = y"
proof -
  have not_eq: "NOT z = - z - 1" for z :: u64 by (simp add: not_eq_complement)
  assume "NOT x + push_bit 21 x = NOT y + push_bit 21 y"
  then have "2097151 * x = 2097151 * y" by (simp add: not_eq push_bit_mult algebra_simps)
  then show "x = y" by (rule mult_unit_inj [where d = "9223367638806167551"]) simp
next
  assume "x + (push_bit 3 x + push_bit 8 x) = y + (push_bit 3 y + push_bit 8 y)"
  then have "265 * x = 265 * y" by (simp add: push_bit_mult algebra_simps)
  then show "x = y" by (rule mult_unit_inj [where d = "15244667743933553977"]) simp
next
  assume "x + (push_bit 2 x + push_bit 4 x) = y + (push_bit 2 y + push_bit 4 y)"
  then have "21 * x = 21 * y" by (simp add: push_bit_mult algebra_simps)
  then show "x = y" by (rule mult_unit_inj [where d = "14933078535860113213"]) simp
next
  assume "x + push_bit 31 x = y + push_bit 31 y"
  then have "2147483649 * x = 2147483649 * y" by (simp add: push_bit_mult algebra_simps)
  then show "x = y" by (rule mult_unit_inj [where d = "4611686016279904257"]) simp
qed

text \<open>
  C27. The integer hashes lose nothing: two keys with the same hash are equal, for both widths.
\<close>

theorem hash_int_injective:
  "inj hash_int32 \<and> inj hash_int64"
proof
  show "inj hash_int32"
  proof (rule injI)
    fix x y assume "hash_int32 x = hash_int32 y"
    then show "x = y" unfolding hash_int32_def Let_def
      by - (rule hash_int32_steps(1), rule xorshift_inj [where k = 12], rule hash_int32_steps(2),
        rule xorshift_inj [where k = 4], rule hash_int32_steps(3), rule xorshift_inj [where k = 16],
        assumption, simp_all)
  qed
  show "inj hash_int64"
  proof (rule injI)
    fix x y assume "hash_int64 x = hash_int64 y"
    then show "x = y" unfolding hash_int64_def Let_def
      by - (rule hash_int64_steps(1), rule xorshift_inj [where k = 24], rule hash_int64_steps(2),
        rule xorshift_inj [where k = 14], rule hash_int64_steps(3), rule xorshift_inj [where k = 28],
        rule hash_int64_steps(4), assumption, simp_all)
  qed
qed

end
