(* ===== verification/Uuid.thy ===== *)
theory Uuid
  imports Endian
begin

text \<open>
  The identifiers of \<^verbatim>\<open>code/common/uuid.h\<close>. The structure has no padding, so on the
  little-endian machines the program supports its memory is its little-endian encoding. A
  pointer is \<open>None\<close> (null) or an address with the structure it points to.
\<close>

record uuid =
  time_low :: u32
  time_mid :: u16
  time_hi_and_version :: u16
  clock_seq_hi_and_reserved :: u8
  clock_seq_low :: u8
  node :: bytes

type_synonym uuid_ptr = "(nat \<times> uuid) option"

definition UUID_NODE_LEN :: nat where
  "UUID_NODE_LEN = 6"

definition null_uuid :: uuid where
  "null_uuid = \<lparr>time_low = 0, time_mid = 0, time_hi_and_version = 0, clock_seq_hi_and_reserved = 0,
     clock_seq_low = 0, node = replicate UUID_NODE_LEN 0\<rparr>"

definition uuid_enc_le :: "uuid \<Rightarrow> bytes" where
  "uuid_enc_le u = le32enc (time_low u) @ le16enc (time_mid u) @ le16enc (time_hi_and_version u) @
     [clock_seq_hi_and_reserved u, clock_seq_low u] @ node u"

definition uuid_enc_be :: "uuid \<Rightarrow> bytes" where
  "uuid_enc_be u = be32enc (time_low u) @ be16enc (time_mid u) @ be16enc (time_hi_and_version u) @
     [clock_seq_hi_and_reserved u, clock_seq_low u] @ node u"

definition uuid_dec_le :: "bytes \<Rightarrow> fault + uuid" where
  "uuid_dec_le b =
     bindE (le32dec b) (\<lambda>t. bindE (le16dec (drop 4 b)) (\<lambda>m. bindE (le16dec (drop 6 b)) (\<lambda>h.
     bindE (idx b 8) (\<lambda>c. bindE (idx b 9) (\<lambda>d. bindE (mem_read b 10 UUID_NODE_LEN) (\<lambda>n.
       Inr \<lparr>time_low = t, time_mid = m, time_hi_and_version = h, clock_seq_hi_and_reserved = c,
            clock_seq_low = d, node = n\<rparr>))))))"

definition uuid_dec_be :: "bytes \<Rightarrow> fault + uuid" where
  "uuid_dec_be b =
     bindE (be32dec b) (\<lambda>t. bindE (be16dec (drop 4 b)) (\<lambda>m. bindE (be16dec (drop 6 b)) (\<lambda>h.
     bindE (idx b 8) (\<lambda>c. bindE (idx b 9) (\<lambda>d. bindE (mem_read b 10 UUID_NODE_LEN) (\<lambda>n.
       Inr \<lparr>time_low = t, time_mid = m, time_hi_and_version = h, clock_seq_hi_and_reserved = c,
            clock_seq_low = d, node = n\<rparr>))))))"

text \<open>A null pointer passed where the function dereferences it is a fault.\<close>

definition uuid_is_null :: "uuid_ptr \<Rightarrow> fault + bool" where
  "uuid_is_null p = (case p of None \<Rightarrow> Inl NullDeref
     | Some (_, u) \<Rightarrow> Inr (memcmp (uuid_enc_le u) (uuid_enc_le null_uuid) = 0))"

definition uuid_cmp :: "uuid_ptr \<Rightarrow> uuid_ptr \<Rightarrow> fault + int" where
  "uuid_cmp a b =
     (if map_option fst a = map_option fst b then Inr 1
      else case a of
        None \<Rightarrow> bindE (uuid_is_null b) (\<lambda>r. Inr (if r then 1 else 0))
      | Some (_, ua) \<Rightarrow> (case b of
          None \<Rightarrow> bindE (uuid_is_null a) (\<lambda>r. Inr (if r then 1 else 0))
        | Some (_, ub) \<Rightarrow> Inr (memcmp (uuid_enc_le ua) (uuid_enc_le ub))))"

definition uuid_equals :: "uuid_ptr \<Rightarrow> uuid_ptr \<Rightarrow> fault + bool" where
  "uuid_equals a b = bindE (uuid_cmp a b) (\<lambda>r. Inr (r = 0))"

text \<open>The structure that \<open>dest\<close> points to after the call.\<close>

definition uuid_copy :: "uuid_ptr \<Rightarrow> uuid_ptr \<Rightarrow> uuid option" where
  "uuid_copy dest src =
     (case dest of None \<Rightarrow> None
      | Some (p, d) \<Rightarrow>
          if map_option fst src = Some p then Some d
          else case src of Some (_, s) \<Rightarrow> Some s | None \<Rightarrow> Some null_uuid)"

definition uuid_clear :: "uuid_ptr \<Rightarrow> uuid option" where
  "uuid_clear p = (case p of None \<Rightarrow> None | Some _ \<Rightarrow> Some null_uuid)"

definition uuid_hash :: "uuid_ptr \<Rightarrow> u16" where
  "uuid_hash p = (case p of None \<Rightarrow> 0 | Some (_, u) \<Rightarrow> ucast (time_low u AND 0xffff))"

section \<open>Encoding\<close>

definition uuid_ok :: "uuid \<Rightarrow> bool" where
  "uuid_ok u \<longleftrightarrow> length (node u) = UUID_NODE_LEN"

lemma null_uuid_ok [simp]: "uuid_ok null_uuid"
  by (simp add: uuid_ok_def null_uuid_def)

lemma length_uuid_enc [simp]:
  "uuid_ok u \<Longrightarrow> length (uuid_enc_le u) = 16" "uuid_ok u \<Longrightarrow> length (uuid_enc_be u) = 16"
  by (simp_all add: uuid_ok_def uuid_enc_le_def uuid_enc_be_def UUID_NODE_LEN_def)

lemma uuid_dec_le_enc: "uuid_ok u \<Longrightarrow> uuid_dec_le (uuid_enc_le u @ r) = Inr u"
  by (simp add: uuid_ok_def uuid_enc_le_def uuid_dec_le_def UUID_NODE_LEN_def idx_def nth_append)

lemma uuid_dec_be_enc: "uuid_ok u \<Longrightarrow> uuid_dec_be (uuid_enc_be u @ r) = Inr u"
  by (simp add: uuid_ok_def uuid_enc_be_def uuid_dec_be_def UUID_NODE_LEN_def idx_def nth_append)

lemma uuid_enc_le_inj: "uuid_ok u \<Longrightarrow> uuid_ok v \<Longrightarrow> uuid_enc_le u = uuid_enc_le v \<longleftrightarrow> u = v"
  by (metis uuid_dec_le_enc sum.inject(2))

text \<open>
  C25. The encodings of an identifier decode to it in both byte orders, whatever follows them.
\<close>

theorem uuid_roundtrip:
  assumes "uuid_ok u"
  shows "uuid_dec_le (uuid_enc_le u @ rest) = Inr u \<and> uuid_dec_be (uuid_enc_be u @ rest) = Inr u"
  using assms uuid_dec_le_enc uuid_dec_be_enc by simp

theorem uuid_roundtrip_witness:
  "uuid_dec_le (uuid_enc_le (null_uuid\<lparr>time_low := 0x01020304\<rparr>) @ [9]) = Inr (null_uuid\<lparr>time_low := 0x01020304\<rparr>)"
  using uuid_roundtrip [of "null_uuid\<lparr>time_low := 0x01020304\<rparr>" "[9]"] by (simp add: uuid_ok_def null_uuid_def)

text \<open>
  C26. Comparison of identifiers: for different non-null pointers the result is 0 exactly when the
  identifiers are equal; but a pointer compared with itself gives 1, so uuid_equals says that an
  identifier is not equal to itself.
\<close>

theorem uuid_cmp_equality:
  assumes "uuid_ok u" "uuid_ok v" "p \<noteq> q"
  shows "(\<exists>r. uuid_cmp (Some (p, u)) (Some (q, v)) = Inr r \<and> (r = 0 \<longleftrightarrow> u = v)) \<and>
    uuid_equals (Some (p, u)) (Some (p, u)) = Inr False"
  using assms memcmp_eq_0 [of "uuid_enc_le u" "uuid_enc_le v"] uuid_enc_le_inj
  by (simp add: uuid_cmp_def uuid_equals_def)

theorem uuid_cmp_equality_witness:
  "uuid_cmp (Some (1, null_uuid)) (Some (2, null_uuid)) = Inr 0 \<and>
   uuid_equals (Some (1, null_uuid)) (Some (1, null_uuid)) = Inr False"
  using uuid_cmp_equality [of null_uuid null_uuid 1 2] by auto

end
