(* ===== verification/Packets_Auth.thy ===== *)
theory Packets_Auth
  imports Msg_Format
begin

text \<open>
  The messages between the client and the authentication server: the field arrays and format
  tables of \<^verbatim>\<open>code/client/packets.c\<close>, one definition per array, and their consistency. All
  fields leave the member \<^verbatim>\<open>size\<close> out.
\<close>

section \<open>AUTH_CLIENT_FORMATS\<close>

definition AUTH_CLIENT_0000 :: "msg_field list" where [packet_defs]:
  "AUTH_CLIENT_0000 = [fld TYPE_MSG_HEADER 0, fld TYPE_DWORD 0]"

definition AUTH_CLIENT_0001 :: "msg_field list" where [packet_defs]:
  "AUTH_CLIENT_0001 = [fld TYPE_MSG_HEADER 1, fld TYPE_STRING_16 32, fld TYPE_STRING_16 32]"

definition AUTH_CLIENT_0002 :: "msg_field list" where [packet_defs]:
  "AUTH_CLIENT_0002 = [fld TYPE_MSG_HEADER 2, fld TYPE_DWORD 0, fld TYPE_BLOB 16]"

definition AUTH_CLIENT_0003 :: "msg_field list" where [packet_defs]:
  "AUTH_CLIENT_0003 = [fld TYPE_MSG_HEADER 3, fld TYPE_DWORD 0, fld TYPE_STRING_16 64,
    fld TYPE_BLOB 20, fld TYPE_STRING_16 26]"

definition AUTH_CLIENT_0004 :: "msg_field list" where [packet_defs]:
  "AUTH_CLIENT_0004 = [fld TYPE_MSG_HEADER 4]"

definition AUTH_CLIENT_0005 :: "msg_field list" where [packet_defs]:
  "AUTH_CLIENT_0005 = [fld TYPE_MSG_HEADER 5, fld TYPE_DWORD 0, fld TYPE_DWORD 0, fld TYPE_BLOB 20,
    fld TYPE_BLOB 20, fld TYPE_STRING_16 64]"

definition AUTH_CLIENT_0006 :: "msg_field list" where [packet_defs]:
  "AUTH_CLIENT_0006 = [fld TYPE_MSG_HEADER 6, fld TYPE_DWORD 0, fld TYPE_DWORD 0]"

definition AUTH_CLIENT_0007 :: "msg_field list" where [packet_defs]:
  "AUTH_CLIENT_0007 = [fld TYPE_MSG_HEADER 7, fld TYPE_DWORD 0, fld TYPE_STRING_16 20]"

definition AUTH_CLIENT_0008 :: "msg_field list" where [packet_defs]:
  "AUTH_CLIENT_0008 = [fld TYPE_MSG_HEADER 8, fld TYPE_DWORD 0, fld TYPE_STRING_16 20]"

definition AUTH_CLIENT_0009 :: "msg_field list" where [packet_defs]:
  "AUTH_CLIENT_0009 = [fld TYPE_MSG_HEADER 9, fld TYPE_DWORD 0, fld TYPE_STRING_16 20,
    fld TYPE_ARRAY_8 64]"

definition AUTH_CLIENT_0010 :: "msg_field list" where [packet_defs]:
  "AUTH_CLIENT_0010 = [fld TYPE_MSG_HEADER 10, fld TYPE_DWORD 0, fld TYPE_STRING_16 20]"

definition AUTH_CLIENT_0011 :: "msg_field list" where [packet_defs]:
  "AUTH_CLIENT_0011 = [fld TYPE_MSG_HEADER 11, fld TYPE_DWORD 0, fld TYPE_DWORD 0, fld TYPE_DWORD 0,
    fld TYPE_DWORD 0]"

definition AUTH_CLIENT_0012 :: "msg_field list" where [packet_defs]:
  "AUTH_CLIENT_0012 = [fld TYPE_MSG_HEADER 12, fld TYPE_DWORD 0, fld TYPE_DWORD 0,
    fld TYPE_BLOB 16]"

definition AUTH_CLIENT_0013 :: "msg_field list" where [packet_defs]:
  "AUTH_CLIENT_0013 = [fld TYPE_MSG_HEADER 13, fld TYPE_DWORD 0]"

definition AUTH_CLIENT_0014 :: "msg_field list" where [packet_defs]:
  "AUTH_CLIENT_0014 = [fld TYPE_MSG_HEADER 14, fld TYPE_DWORD 0]"

definition AUTH_CLIENT_0015 :: "msg_field list" where [packet_defs]:
  "AUTH_CLIENT_0015 = [fld TYPE_MSG_HEADER 15]"

definition AUTH_CLIENT_0016 :: "msg_field list" where [packet_defs]:
  "AUTH_CLIENT_0016 = [fld TYPE_MSG_HEADER 16, fld TYPE_DWORD 0]"

definition AUTH_CLIENT_0017 :: "msg_field list" where [packet_defs]:
  "AUTH_CLIENT_0017 = [fld TYPE_MSG_HEADER 17, fld TYPE_STRING_16 256]"

definition AUTH_CLIENT_0018 :: "msg_field list" where [packet_defs]:
  "AUTH_CLIENT_0018 = [fld TYPE_MSG_HEADER 18]"

definition AUTH_CLIENT_0019 :: "msg_field list" where [packet_defs]:
  "AUTH_CLIENT_0019 = [fld TYPE_MSG_HEADER 19]"

definition AUTH_CLIENT_0020 :: "msg_field list" where [packet_defs]:
  "AUTH_CLIENT_0020 = [fld TYPE_MSG_HEADER 20, fld TYPE_DWORD 0, fld TYPE_DWORD 0,
    fld TYPE_STRING_16 64, fld TYPE_STRING_16 64, fld TYPE_STRING_16 256]"

definition AUTH_CLIENT_0021 :: "msg_field list" where [packet_defs]:
  "AUTH_CLIENT_0021 = [fld TYPE_MSG_HEADER 21, fld TYPE_DWORD 0]"

definition AUTH_CLIENT_0022 :: "msg_field list" where [packet_defs]:
  "AUTH_CLIENT_0022 = [fld TYPE_MSG_HEADER 22, fld TYPE_DWORD 0]"

definition AUTH_CLIENT_0023 :: "msg_field list" where [packet_defs]:
  "AUTH_CLIENT_0023 = [fld TYPE_MSG_HEADER 23, fld TYPE_DWORD 0]"

definition AUTH_CLIENT_0024 :: "msg_field list" where [packet_defs]:
  "AUTH_CLIENT_0024 = [fld TYPE_MSG_HEADER 24, fld TYPE_DWORD 0, fld TYPE_STRING_16 64]"

definition AUTH_CLIENT_0025 :: "msg_field list" where [packet_defs]:
  "AUTH_CLIENT_0025 = [fld TYPE_MSG_HEADER 25, fld TYPE_DWORD 0, fld TYPE_DWORD 0, fld TYPE_BLOB 20,
    fld TYPE_BLOB 20]"

definition AUTH_CLIENT_0026 :: "msg_field list" where [packet_defs]:
  "AUTH_CLIENT_0026 = [fld TYPE_MSG_HEADER 26, fld TYPE_DWORD 0, fld TYPE_DWORD 0,
    fld TYPE_STRING_16 20, fld TYPE_STRING_16 20]"

definition AUTH_CLIENT_0027 :: "msg_field list" where [packet_defs]:
  "AUTH_CLIENT_0027 = [fld TYPE_MSG_HEADER 27, fld TYPE_DWORD 0, fld TYPE_BLOB 16,
    fld TYPE_STRING_16 20]"

definition AUTH_CLIENT_0028 :: "msg_field list" where [packet_defs]:
  "AUTH_CLIENT_0028 = [fld TYPE_MSG_HEADER 28, fld TYPE_DWORD 0, fld TYPE_STRING_16 26]"

definition AUTH_CLIENT_0029 :: "msg_field list" where [packet_defs]:
  "AUTH_CLIENT_0029 = [fld TYPE_MSG_HEADER 29, fld TYPE_DWORD 0, fld TYPE_DWORD 0]"

definition AUTH_CLIENT_0030 :: "msg_field list" where [packet_defs]:
  "AUTH_CLIENT_0030 = [fld TYPE_MSG_HEADER 30, fld TYPE_DWORD 0, fld TYPE_DWORD 0,
    fld TYPE_STRING_16 26]"

definition AUTH_CLIENT_0031 :: "msg_field list" where [packet_defs]:
  "AUTH_CLIENT_0031 = [fld TYPE_MSG_HEADER 31, fld TYPE_DWORD 0, fld TYPE_DWORD 0, fld TYPE_DWORD 0,
    fld TYPE_DWORD 0, fld TYPE_DWORD 0, fld TYPE_DWORD 0, fld TYPE_STRING_16 64,
    fld TYPE_STRING_16 16, fld TYPE_STRING_16 256, fld TYPE_STRING_16 32, fld TYPE_STRING_16 28,
    fld TYPE_STRING_16 28, fld TYPE_STRING_16 32, fld TYPE_STRING_16 32, fld TYPE_STRING_16 28,
    fld TYPE_STRING_16 4, fld TYPE_STRING_16 32, fld TYPE_STRING_16 4, fld TYPE_STRING_16 28,
    fld TYPE_STRING_16 12, fld TYPE_STRING_16 20, fld TYPE_STRING_16 64]"

definition AUTH_CLIENT_0032 :: "msg_field list" where [packet_defs]:
  "AUTH_CLIENT_0032 = [fld TYPE_MSG_HEADER 32, fld TYPE_DWORD 0, fld TYPE_ARRAY_8 512]"

definition AUTH_CLIENT_0033 :: "msg_field list" where [packet_defs]:
  "AUTH_CLIENT_0033 = [fld TYPE_MSG_HEADER 33, fld TYPE_DWORD 0, fld TYPE_DWORD 0]"

definition AUTH_CLIENT_0034 :: "msg_field list" where [packet_defs]:
  "AUTH_CLIENT_0034 = [fld TYPE_MSG_HEADER 34, fld TYPE_DWORD 0]"

definition AUTH_CLIENT_0035 :: "msg_field list" where [packet_defs]:
  "AUTH_CLIENT_0035 = [fld TYPE_MSG_HEADER 35, fld TYPE_DWORD 0]"

definition AUTH_CLIENT_0036 :: "msg_field list" where [packet_defs]:
  "AUTH_CLIENT_0036 = [fld TYPE_MSG_HEADER 36, fld TYPE_DWORD 0, fld TYPE_STRING_16 64,
    fld TYPE_STRING_16 16]"

definition AUTH_CLIENT_0037 :: "msg_field list" where [packet_defs]:
  "AUTH_CLIENT_0037 = [fld TYPE_MSG_HEADER 37, fld TYPE_DWORD 0, fld TYPE_DWORD 0, fld TYPE_DWORD 0,
    fld TYPE_DWORD 0, fld TYPE_DWORD 0, fld TYPE_BLOB 16]"

definition AUTH_CLIENT_0038 :: "msg_field list" where [packet_defs]:
  "AUTH_CLIENT_0038 = [fld TYPE_MSG_HEADER 38, fld TYPE_BYTE 0]"

definition AUTH_CLIENT_0039 :: "msg_field list" where [packet_defs]:
  "AUTH_CLIENT_0039 = [fld TYPE_MSG_HEADER 39, fld TYPE_DWORD 0]"

definition AUTH_CLIENT_0040 :: "msg_field list" where [packet_defs]:
  "AUTH_CLIENT_0040 = [fld TYPE_MSG_HEADER 40, fld TYPE_DWORD 0, fld TYPE_STRING_16 28,
    fld TYPE_STRING_16 28, fld TYPE_STRING_16 32, fld TYPE_STRING_16 32, fld TYPE_STRING_16 12,
    fld TYPE_STRING_16 28, fld TYPE_STRING_16 28]"

definition AUTH_CLIENT_0041 :: "msg_field list" where [packet_defs]:
  "AUTH_CLIENT_0041 = [fld TYPE_MSG_HEADER 41, fld TYPE_DWORD 0, fld TYPE_DWORD 0, fld TYPE_DWORD 0,
    fld TYPE_DWORD 0, fld TYPE_DWORD 0, fld TYPE_DWORD 0]"

definition AUTH_CLIENT_0042 :: "msg_field list" where [packet_defs]:
  "AUTH_CLIENT_0042 = [fld TYPE_MSG_HEADER 42, fld TYPE_DWORD 0, fld TYPE_STRING_16 20,
    fld TYPE_STRING_16 20]"

definition AUTH_CLIENT_0043 :: "msg_field list" where [packet_defs]:
  "AUTH_CLIENT_0043 = [fld TYPE_MSG_HEADER 43, fld TYPE_DWORD 0, fld TYPE_ARRAY_32 128,
    fld TYPE_ARRAY_32 128]"

definition AUTH_CLIENT_0044 :: "msg_field list" where [packet_defs]:
  "AUTH_CLIENT_0044 = [fld TYPE_MSG_HEADER 44, fld TYPE_DWORD 0, fld TYPE_DWORD 0, fld TYPE_DWORD 0,
    fld TYPE_DWORD 0, fld TYPE_DWORD 0, fld TYPE_DWORD 0, fld TYPE_STRING_16 32,
    fld TYPE_STRING_16 64, fld TYPE_STRING_16 64, fld TYPE_STRING_16 28, fld TYPE_STRING_16 4,
    fld TYPE_STRING_16 4, fld TYPE_STRING_16 12, fld TYPE_STRING_16 8, fld TYPE_STRING_16 32,
    fld TYPE_STRING_16 28, fld TYPE_STRING_16 64, fld TYPE_STRING_16 64, fld TYPE_STRING_16 10,
    fld TYPE_STRING_16 6, fld TYPE_ARRAY_32 128, fld TYPE_ARRAY_32 128]"

definition AUTH_CLIENT_0045 :: "msg_field list" where [packet_defs]:
  "AUTH_CLIENT_0045 = [fld TYPE_MSG_HEADER 45, fld TYPE_DWORD 0]"

definition AUTH_CLIENT_0046 :: "msg_field list" where [packet_defs]:
  "AUTH_CLIENT_0046 = [fld TYPE_MSG_HEADER 46]"

definition AUTH_CLIENT_0047 :: "msg_field list" where [packet_defs]:
  "AUTH_CLIENT_0047 = [fld TYPE_MSG_HEADER 47]"

definition AUTH_CLIENT_0048 :: "msg_field list" where [packet_defs]:
  "AUTH_CLIENT_0048 = [fld TYPE_MSG_HEADER 48, fld TYPE_DWORD 0]"

definition AUTH_CLIENT_0049 :: "msg_field list" where [packet_defs]:
  "AUTH_CLIENT_0049 = [fld TYPE_MSG_HEADER 49, fld TYPE_DWORD 0]"

definition AUTH_CLIENT_0050 :: "msg_field list" where [packet_defs]:
  "AUTH_CLIENT_0050 = [fld TYPE_MSG_HEADER 50, fld TYPE_DWORD 0, fld TYPE_STRING_16 10]"

definition AUTH_CLIENT_0051 :: "msg_field list" where [packet_defs]:
  "AUTH_CLIENT_0051 = [fld TYPE_MSG_HEADER 51, fld TYPE_DWORD 0, fld TYPE_DWORD 0, fld TYPE_DWORD 0,
    fld TYPE_DWORD 0, fld TYPE_STRING_16 18]"

definition AUTH_CLIENT_0052 :: "msg_field list" where [packet_defs]:
  "AUTH_CLIENT_0052 = [fld TYPE_MSG_HEADER 52, fld TYPE_DWORD 0, fld TYPE_DWORD 0,
    fld TYPE_DWORD 0]"

definition AUTH_CLIENT_0053 :: "msg_field list" where [packet_defs]:
  "AUTH_CLIENT_0053 = [fld TYPE_MSG_HEADER 53, fld TYPE_DWORD 0]"

definition AUTH_CLIENT_0054 :: "msg_field list" where [packet_defs]:
  "AUTH_CLIENT_0054 = [fld TYPE_MSG_HEADER 54, fld TYPE_DWORD 0, fld TYPE_DWORD 0, fld TYPE_DWORD 0,
    fld TYPE_DWORD 0, fld TYPE_DWORD 0, fld TYPE_DWORD 0, fld TYPE_BLOB 256, fld TYPE_STRING_16 32,
    fld TYPE_STRING_16 64, fld TYPE_STRING_16 64, fld TYPE_STRING_16 28, fld TYPE_STRING_16 4,
    fld TYPE_STRING_16 4, fld TYPE_STRING_16 12, fld TYPE_STRING_16 8, fld TYPE_STRING_16 32,
    fld TYPE_STRING_16 28, fld TYPE_STRING_16 64, fld TYPE_STRING_16 64, fld TYPE_STRING_16 10,
    fld TYPE_ARRAY_32 128, fld TYPE_ARRAY_32 128]"

definition AUTH_CLIENT_0055 :: "msg_field list" where [packet_defs]:
  "AUTH_CLIENT_0055 = [fld TYPE_MSG_HEADER 55, fld TYPE_DWORD 0, fld TYPE_STRING_16 20,
    fld TYPE_STRING_16 20]"

definition AUTH_CLIENT_0056 :: "msg_field list" where [packet_defs]:
  "AUTH_CLIENT_0056 = [fld TYPE_MSG_HEADER 56, fld TYPE_DWORD 0, fld TYPE_BLOB 16, fld TYPE_BLOB 16,
    fld TYPE_STRING_16 20]"

text \<open>The rows of the table, at most 50 at a time.\<close>

definition AUTH_CLIENT_FORMATS_0 :: "msg_format list" where
  "AUTH_CLIENT_FORMATS_0 = [
    fmt 0 2 AUTH_CLIENT_0000 6, fmt 1 3 AUTH_CLIENT_0001 130, fmt 2 3 AUTH_CLIENT_0002 22,
    fmt 3 5 AUTH_CLIENT_0003 206, fmt 4 1 AUTH_CLIENT_0004 2, fmt 5 6 AUTH_CLIENT_0005 178,
    fmt 6 3 AUTH_CLIENT_0006 10, fmt 7 3 AUTH_CLIENT_0007 46, fmt 8 3 AUTH_CLIENT_0008 46,
    fmt 9 4 AUTH_CLIENT_0009 114, fmt 10 3 AUTH_CLIENT_0010 46, fmt 11 5 AUTH_CLIENT_0011 18,
    fmt 12 4 AUTH_CLIENT_0012 26, fmt 13 2 AUTH_CLIENT_0013 6, fmt 14 2 AUTH_CLIENT_0014 6,
    fmt 15 1 AUTH_CLIENT_0015 2, fmt 16 2 AUTH_CLIENT_0016 6, fmt 17 2 AUTH_CLIENT_0017 514,
    fmt 18 1 AUTH_CLIENT_0018 2, fmt 19 1 AUTH_CLIENT_0019 2, fmt 20 6 AUTH_CLIENT_0020 778,
    fmt 21 2 AUTH_CLIENT_0021 6, fmt 22 2 AUTH_CLIENT_0022 6, fmt 23 2 AUTH_CLIENT_0023 6,
    fmt 24 3 AUTH_CLIENT_0024 134, fmt 25 5 AUTH_CLIENT_0025 50, fmt 26 5 AUTH_CLIENT_0026 90,
    fmt 27 4 AUTH_CLIENT_0027 62, fmt 28 3 AUTH_CLIENT_0028 58, fmt 29 3 AUTH_CLIENT_0029 10,
    fmt 30 4 AUTH_CLIENT_0030 62, fmt 31 23 AUTH_CLIENT_0031 1386, fmt 32 3 AUTH_CLIENT_0032 522,
    fmt 33 3 AUTH_CLIENT_0033 10, fmt 34 2 AUTH_CLIENT_0034 6, fmt 35 2 AUTH_CLIENT_0035 6,
    fmt 36 4 AUTH_CLIENT_0036 166, fmt 37 7 AUTH_CLIENT_0037 38, fmt 38 2 AUTH_CLIENT_0038 3,
    fmt 39 2 AUTH_CLIENT_0039 6, fmt 40 9 AUTH_CLIENT_0040 382, fmt 41 7 AUTH_CLIENT_0041 26,
    fmt 42 4 AUTH_CLIENT_0042 86, fmt 43 4 AUTH_CLIENT_0043 1038, fmt 44 23 AUTH_CLIENT_0044 1898,
    fmt 45 2 AUTH_CLIENT_0045 6, fmt 46 1 AUTH_CLIENT_0046 2, fmt 47 1 AUTH_CLIENT_0047 2,
    fmt 48 2 AUTH_CLIENT_0048 6, fmt 49 2 AUTH_CLIENT_0049 6]"

definition AUTH_CLIENT_FORMATS_50 :: "msg_format list" where
  "AUTH_CLIENT_FORMATS_50 = [
    fmt 50 3 AUTH_CLIENT_0050 26, fmt 51 6 AUTH_CLIENT_0051 54, fmt 52 4 AUTH_CLIENT_0052 14,
    fmt 53 2 AUTH_CLIENT_0053 6, fmt 54 23 AUTH_CLIENT_0054 2142, fmt 55 4 AUTH_CLIENT_0055 86,
    fmt 56 5 AUTH_CLIENT_0056 78]"

definition AUTH_CLIENT_FORMATS :: "msg_format list" where
  "AUTH_CLIENT_FORMATS = AUTH_CLIENT_FORMATS_0 @ AUTH_CLIENT_FORMATS_50"

lemma length_AUTH_CLIENT_FORMATS_0 [simp]: "length AUTH_CLIENT_FORMATS_0 = 50"
  by (simp add: AUTH_CLIENT_FORMATS_0_def)

lemma table_ok_AUTH_CLIENT_FORMATS_0: "table_ok 0 AUTH_CLIENT_FORMATS_0"
  by (simp add: AUTH_CLIENT_FORMATS_0_def packet_defs table_ok_simps)

lemma length_AUTH_CLIENT_FORMATS_50 [simp]: "length AUTH_CLIENT_FORMATS_50 = 7"
  by (simp add: AUTH_CLIENT_FORMATS_50_def)

lemma table_ok_AUTH_CLIENT_FORMATS_50: "table_ok 50 AUTH_CLIENT_FORMATS_50"
  by (simp add: AUTH_CLIENT_FORMATS_50_def packet_defs table_ok_simps)

lemma length_AUTH_CLIENT_FORMATS [simp]: "length AUTH_CLIENT_FORMATS = 57"
  by (simp add: AUTH_CLIENT_FORMATS_def)

lemma table_ok_AUTH_CLIENT_FORMATS: "table_ok 0 AUTH_CLIENT_FORMATS"
  by (simp add: AUTH_CLIENT_FORMATS_def table_ok_append table_ok_AUTH_CLIENT_FORMATS_0 table_ok_AUTH_CLIENT_FORMATS_50)

lemma bounds_AUTH_CLIENT_FORMATS_0:
  "list_all (\<lambda>m. unpack_bound (mf_fields m) \<le> 4096 \<and> max_wire (mf_fields m) \<le> 4096) AUTH_CLIENT_FORMATS_0"
  by (simp add: AUTH_CLIENT_FORMATS_0_def packet_defs bound_simps)

lemma bounds_AUTH_CLIENT_FORMATS_50:
  "list_all (\<lambda>m. unpack_bound (mf_fields m) \<le> 4096 \<and> max_wire (mf_fields m) \<le> 4096) AUTH_CLIENT_FORMATS_50"
  by (simp add: AUTH_CLIENT_FORMATS_50_def packet_defs bound_simps)

lemma bounds_AUTH_CLIENT_FORMATS:
  "list_all (\<lambda>m. unpack_bound (mf_fields m) \<le> 4096 \<and> max_wire (mf_fields m) \<le> 4096) AUTH_CLIENT_FORMATS"
  by (simp add: AUTH_CLIENT_FORMATS_def bounds_AUTH_CLIENT_FORMATS_0 bounds_AUTH_CLIENT_FORMATS_50)

lemma sizes_AUTH_CLIENT_FORMATS_0: "list_all (\<lambda>m. mf_unpack_size m \<le> 4096) AUTH_CLIENT_FORMATS_0"
  by (simp add: AUTH_CLIENT_FORMATS_0_def)

lemma sizes_AUTH_CLIENT_FORMATS_50: "list_all (\<lambda>m. mf_unpack_size m \<le> 4096) AUTH_CLIENT_FORMATS_50"
  by (simp add: AUTH_CLIENT_FORMATS_50_def)

lemma sizes_AUTH_CLIENT_FORMATS: "list_all (\<lambda>m. mf_unpack_size m \<le> 4096) AUTH_CLIENT_FORMATS"
  by (simp add: AUTH_CLIENT_FORMATS_def sizes_AUTH_CLIENT_FORMATS_0 sizes_AUTH_CLIENT_FORMATS_50)

section \<open>AUTH_SERVER_FORMATS\<close>

definition AUTH_SERVER_0000 :: "msg_field list" where [packet_defs]:
  "AUTH_SERVER_0000 = [fld TYPE_MSG_HEADER 0, fld TYPE_DWORD 0]"

definition AUTH_SERVER_0001 :: "msg_field list" where [packet_defs]:
  "AUTH_SERVER_0001 = [fld TYPE_MSG_HEADER 1, fld TYPE_DWORD 0, fld TYPE_DWORD 0]"

definition AUTH_SERVER_0002 :: "msg_field list" where [packet_defs]:
  "AUTH_SERVER_0002 = [fld TYPE_MSG_HEADER 2, fld TYPE_DWORD 0, fld TYPE_DWORD 0]"

definition AUTH_SERVER_0003 :: "msg_field list" where [packet_defs]:
  "AUTH_SERVER_0003 = [fld TYPE_MSG_HEADER 3, fld TYPE_DWORD 0, fld TYPE_DWORD 0]"

definition AUTH_SERVER_0004 :: "msg_field list" where [packet_defs]:
  "AUTH_SERVER_0004 = [fld TYPE_MSG_HEADER 4, fld TYPE_DWORD 0, fld TYPE_STRING_16 2048]"

definition AUTH_SERVER_0005 :: "msg_field list" where [packet_defs]:
  "AUTH_SERVER_0005 = [fld TYPE_MSG_HEADER 5]"

definition AUTH_SERVER_0006 :: "msg_field list" where [packet_defs]:
  "AUTH_SERVER_0006 = [fld TYPE_MSG_HEADER 6, fld TYPE_DWORD 0, fld TYPE_BLOB 8, fld TYPE_BLOB 8,
    fld TYPE_BLOB 8, fld TYPE_BLOB 8, fld TYPE_DWORD 0]"

definition AUTH_SERVER_0007 :: "msg_field list" where [packet_defs]:
  "AUTH_SERVER_0007 = [fld TYPE_MSG_HEADER 7, fld TYPE_DWORD 0, fld TYPE_BLOB 16, fld TYPE_DWORD 0,
    fld TYPE_STRING_16 20, fld TYPE_ARRAY_8 64]"

definition AUTH_SERVER_0008 :: "msg_field list" where [packet_defs]:
  "AUTH_SERVER_0008 = [fld TYPE_MSG_HEADER 8, fld TYPE_DWORD 0, fld TYPE_DWORD 0, fld TYPE_BLOB 24,
    fld TYPE_DWORD 0]"

definition AUTH_SERVER_0009 :: "msg_field list" where [packet_defs]:
  "AUTH_SERVER_0009 = [fld TYPE_MSG_HEADER 9, fld TYPE_DWORD 0, fld TYPE_DWORD 0, fld TYPE_DWORD 0,
    fld TYPE_BLOB 24, fld TYPE_DWORD 0]"

definition AUTH_SERVER_0010 :: "msg_field list" where [packet_defs]:
  "AUTH_SERVER_0010 = [fld TYPE_MSG_HEADER 10, fld TYPE_DWORD 0, fld TYPE_DWORD 0, fld TYPE_BLOB 16,
    fld TYPE_STRING_16 20]"

definition AUTH_SERVER_0011 :: "msg_field list" where [packet_defs]:
  "AUTH_SERVER_0011 = [fld TYPE_MSG_HEADER 11, fld TYPE_DWORD 0, fld TYPE_BLOB 16,
    fld TYPE_STRING_16 20, fld TYPE_STRING_16 20]"

definition AUTH_SERVER_0012 :: "msg_field list" where [packet_defs]:
  "AUTH_SERVER_0012 = [fld TYPE_MSG_HEADER 12, fld TYPE_DWORD 0, fld TYPE_STRING_16 20,
    fld TYPE_STRING_16 256]"

definition AUTH_SERVER_0013 :: "msg_field list" where [packet_defs]:
  "AUTH_SERVER_0013 = [fld TYPE_MSG_HEADER 13, fld TYPE_DWORD 0, fld TYPE_DWORD 0,
    fld TYPE_STRING_16 256, fld TYPE_STRING_16 256]"

definition AUTH_SERVER_0014 :: "msg_field list" where [packet_defs]:
  "AUTH_SERVER_0014 = [fld TYPE_MSG_HEADER 14, fld TYPE_DWORD 0, fld TYPE_DWORD 0,
    fld TYPE_ARRAY_8 32]"

definition AUTH_SERVER_0015 :: "msg_field list" where [packet_defs]:
  "AUTH_SERVER_0015 = [fld TYPE_MSG_HEADER 15]"

definition AUTH_SERVER_0016 :: "msg_field list" where [packet_defs]:
  "AUTH_SERVER_0016 = [fld TYPE_MSG_HEADER 16, fld TYPE_DWORD 0, fld TYPE_DWORD 0, fld TYPE_BLOB 16,
    fld TYPE_STRING_16 20, fld TYPE_STRING_16 20, fld TYPE_STRING_16 256]"

definition AUTH_SERVER_0017 :: "msg_field list" where [packet_defs]:
  "AUTH_SERVER_0017 = [fld TYPE_MSG_HEADER 17, fld TYPE_DWORD 0, fld TYPE_DWORD 0, fld TYPE_DWORD 0,
    fld TYPE_BLOB 8, fld TYPE_BLOB 8, fld TYPE_BLOB 16, fld TYPE_BLOB 16, fld TYPE_DWORD 0,
    fld TYPE_ARRAY_8 200, fld TYPE_BYTE 0, fld TYPE_DWORD 0]"

definition AUTH_SERVER_0018 :: "msg_field list" where [packet_defs]:
  "AUTH_SERVER_0018 = [fld TYPE_MSG_HEADER 18, fld TYPE_DWORD 0, fld TYPE_DWORD 0, fld TYPE_BLOB 16,
    fld TYPE_STRING_16 20, fld TYPE_STRING_16 20, fld TYPE_STRING_16 256]"

definition AUTH_SERVER_0019 :: "msg_field list" where [packet_defs]:
  "AUTH_SERVER_0019 = [fld TYPE_MSG_HEADER 19, fld TYPE_DWORD 0]"

definition AUTH_SERVER_0020 :: "msg_field list" where [packet_defs]:
  "AUTH_SERVER_0020 = [fld TYPE_MSG_HEADER 20, fld TYPE_DWORD 0, fld TYPE_DWORD 0]"

definition AUTH_SERVER_0021 :: "msg_field list" where [packet_defs]:
  "AUTH_SERVER_0021 = [fld TYPE_MSG_HEADER 21, fld TYPE_DWORD 0, fld TYPE_BLOB 8, fld TYPE_BLOB 8,
    fld TYPE_DWORD 0, fld TYPE_DWORD 0, fld TYPE_DWORD 0]"

definition AUTH_SERVER_0022 :: "msg_field list" where [packet_defs]:
  "AUTH_SERVER_0022 = [fld TYPE_MSG_HEADER 22, fld TYPE_DWORD 0, fld TYPE_ARRAY_8 2048]"

definition AUTH_SERVER_0023 :: "msg_field list" where [packet_defs]:
  "AUTH_SERVER_0023 = [fld TYPE_MSG_HEADER 23, fld TYPE_ARRAY_8 4096]"

definition AUTH_SERVER_0024 :: "msg_field list" where [packet_defs]:
  "AUTH_SERVER_0024 = [fld TYPE_MSG_HEADER 24, fld TYPE_DWORD 0, fld TYPE_BLOB 8, fld TYPE_BLOB 8,
    fld TYPE_ARRAY_8 200]"

definition AUTH_SERVER_0025 :: "msg_field list" where [packet_defs]:
  "AUTH_SERVER_0025 = [fld TYPE_MSG_HEADER 25]"

definition AUTH_SERVER_0026 :: "msg_field list" where [packet_defs]:
  "AUTH_SERVER_0026 = [fld TYPE_MSG_HEADER 26, fld TYPE_DWORD 0, fld TYPE_NESTED_STRUCT 11,
    fld TYPE_BYTE 0, fld TYPE_BYTE 0]"

definition AUTH_SERVER_0027 :: "msg_field list" where [packet_defs]:
  "AUTH_SERVER_0027 = [fld TYPE_MSG_HEADER 27, fld TYPE_DWORD 0, fld TYPE_DWORD 0, fld TYPE_DWORD 0,
    fld TYPE_DWORD 0]"

definition AUTH_SERVER_0028 :: "msg_field list" where [packet_defs]:
  "AUTH_SERVER_0028 = [fld TYPE_MSG_HEADER 28, fld TYPE_DWORD 0, fld TYPE_DWORD 0]"

definition AUTH_SERVER_0029 :: "msg_field list" where [packet_defs]:
  "AUTH_SERVER_0029 = [fld TYPE_MSG_HEADER 29, fld TYPE_DWORD 0, fld TYPE_DWORD 0,
    fld TYPE_DWORD 0]"

definition AUTH_SERVER_0030 :: "msg_field list" where [packet_defs]:
  "AUTH_SERVER_0030 = [fld TYPE_MSG_HEADER 30, fld TYPE_DWORD 0, fld TYPE_DWORD 0, fld TYPE_DWORD 0,
    fld TYPE_DWORD 0, fld TYPE_DWORD 0, fld TYPE_DWORD 0, fld TYPE_DWORD 0, fld TYPE_DWORD 0,
    fld TYPE_DWORD 0]"

definition AUTH_SERVER_0031 :: "msg_field list" where [packet_defs]:
  "AUTH_SERVER_0031 = [fld TYPE_MSG_HEADER 31, fld TYPE_DWORD 0, fld TYPE_ARRAY_32 16,
    fld TYPE_ARRAY_32 16]"

definition AUTH_SERVER_0032 :: "msg_field list" where [packet_defs]:
  "AUTH_SERVER_0032 = [fld TYPE_MSG_HEADER 32, fld TYPE_DWORD 0, fld TYPE_WORD 0, fld TYPE_BYTE 0,
    fld TYPE_BYTE 0, fld TYPE_STRING_16 20]"

definition AUTH_SERVER_0033 :: "msg_field list" where [packet_defs]:
  "AUTH_SERVER_0033 = [fld TYPE_MSG_HEADER 33, fld TYPE_DWORD 0, fld TYPE_WORD 0, fld TYPE_BYTE 0,
    fld TYPE_BYTE 0, fld TYPE_STRING_16 20]"

definition AUTH_SERVER_0034 :: "msg_field list" where [packet_defs]:
  "AUTH_SERVER_0034 = [fld TYPE_MSG_HEADER 34, fld TYPE_DWORD 0, fld TYPE_BLOB 12]"

definition AUTH_SERVER_0035 :: "msg_field list" where [packet_defs]:
  "AUTH_SERVER_0035 = [fld TYPE_MSG_HEADER 35, fld TYPE_DWORD 0, fld TYPE_DWORD 0, fld TYPE_BLOB 16,
    fld TYPE_BLOB 16, fld TYPE_BLOB 16, fld TYPE_STRING_16 16]"

definition AUTH_SERVER_0036 :: "msg_field list" where [packet_defs]:
  "AUTH_SERVER_0036 = [fld TYPE_MSG_HEADER 36, fld TYPE_DWORD 0, fld TYPE_DWORD 0, fld TYPE_DWORD 0,
    fld TYPE_STRING_16 4, fld TYPE_STRING_16 20, fld TYPE_STRING_16 16]"

definition AUTH_SERVER_0037 :: "msg_field list" where [packet_defs]:
  "AUTH_SERVER_0037 = [fld TYPE_MSG_HEADER 37]"

definition AUTH_SERVER_0038 :: "msg_field list" where [packet_defs]:
  "AUTH_SERVER_0038 = [fld TYPE_MSG_HEADER 38, fld TYPE_DWORD 0, fld TYPE_DWORD 0]"

text \<open>The rows of the table, at most 50 at a time.\<close>

definition AUTH_SERVER_FORMATS_0 :: "msg_format list" where
  "AUTH_SERVER_FORMATS_0 = [
    fmt 0 2 AUTH_SERVER_0000 6, fmt 1 3 AUTH_SERVER_0001 10, fmt 2 3 AUTH_SERVER_0002 10,
    fmt 3 3 AUTH_SERVER_0003 10, fmt 4 3 AUTH_SERVER_0004 4102, fmt 5 1 AUTH_SERVER_0005 2,
    fmt 6 7 AUTH_SERVER_0006 42, fmt 7 6 AUTH_SERVER_0007 134, fmt 8 5 AUTH_SERVER_0008 38,
    fmt 9 6 AUTH_SERVER_0009 42, fmt 10 5 AUTH_SERVER_0010 66, fmt 11 5 AUTH_SERVER_0011 102,
    fmt 12 4 AUTH_SERVER_0012 558, fmt 13 5 AUTH_SERVER_0013 1034, fmt 14 4 AUTH_SERVER_0014 46,
    fmt 15 1 AUTH_SERVER_0015 2, fmt 16 7 AUTH_SERVER_0016 618, fmt 17 12 AUTH_SERVER_0017 275,
    fmt 18 7 AUTH_SERVER_0018 618, fmt 19 2 AUTH_SERVER_0019 6, fmt 20 3 AUTH_SERVER_0020 10,
    fmt 21 7 AUTH_SERVER_0021 34, fmt 22 3 AUTH_SERVER_0022 2058, fmt 23 2 AUTH_SERVER_0023 4102,
    fmt 24 5 AUTH_SERVER_0024 226, fmt 25 1 AUTH_SERVER_0025 2, fmt 26 5 AUTH_SERVER_0026 32,
    fmt 27 5 AUTH_SERVER_0027 18, fmt 28 3 AUTH_SERVER_0028 10, fmt 29 4 AUTH_SERVER_0029 14,
    fmt 30 10 AUTH_SERVER_0030 38, fmt 31 4 AUTH_SERVER_0031 142, fmt 32 6 AUTH_SERVER_0032 50,
    fmt 33 6 AUTH_SERVER_0033 50, fmt 34 3 AUTH_SERVER_0034 18, fmt 35 7 AUTH_SERVER_0035 90,
    fmt 36 7 AUTH_SERVER_0036 94, fmt 37 1 AUTH_SERVER_0037 2, fmt 38 3 AUTH_SERVER_0038 10]"

definition AUTH_SERVER_FORMATS :: "msg_format list" where
  "AUTH_SERVER_FORMATS = AUTH_SERVER_FORMATS_0"

lemma length_AUTH_SERVER_FORMATS_0 [simp]: "length AUTH_SERVER_FORMATS_0 = 39"
  by (simp add: AUTH_SERVER_FORMATS_0_def)

lemma table_ok_AUTH_SERVER_FORMATS_0: "table_ok 0 AUTH_SERVER_FORMATS_0"
  by (simp add: AUTH_SERVER_FORMATS_0_def packet_defs table_ok_simps)

lemma length_AUTH_SERVER_FORMATS [simp]: "length AUTH_SERVER_FORMATS = 39"
  by (simp add: AUTH_SERVER_FORMATS_def)

lemma table_ok_AUTH_SERVER_FORMATS: "table_ok 0 AUTH_SERVER_FORMATS"
  by (simp add: AUTH_SERVER_FORMATS_def table_ok_append table_ok_AUTH_SERVER_FORMATS_0)

lemma bounds_AUTH_SERVER_FORMATS_0:
  "list_all (\<lambda>m. unpack_bound (mf_fields m) \<le> 4102 \<and> max_wire (mf_fields m) \<le> 4104) AUTH_SERVER_FORMATS_0"
  by (simp add: AUTH_SERVER_FORMATS_0_def packet_defs bound_simps)

lemma bounds_AUTH_SERVER_FORMATS:
  "list_all (\<lambda>m. unpack_bound (mf_fields m) \<le> 4102 \<and> max_wire (mf_fields m) \<le> 4104) AUTH_SERVER_FORMATS"
  by (simp add: AUTH_SERVER_FORMATS_def bounds_AUTH_SERVER_FORMATS_0)

end
