(* ===== verification/Packets_Game_Client.thy ===== *)
theory Packets_Game_Client
  imports Msg_Format
begin

text \<open>
  The messages from the client to the game server: the field arrays and the format table of
  \<^verbatim>\<open>code/client/packets.c\<close>, one definition per array, and their consistency.
\<close>

section \<open>GAME_CLIENT_FORMATS\<close>

definition GAME_CLIENT_0000 :: "msg_field list" where [packet_defs]:
  "GAME_CLIENT_0000 = [fld TYPE_MSG_HEADER 0, fld TYPE_DWORD 0]"

definition GAME_CLIENT_0001 :: "msg_field list" where [packet_defs]:
  "GAME_CLIENT_0001 = [fld TYPE_MSG_HEADER 1]"

definition GAME_CLIENT_0002 :: "msg_field list" where [packet_defs]:
  "GAME_CLIENT_0002 = [fld TYPE_MSG_HEADER 2, fld TYPE_DWORD 0, fld TYPE_BYTE 0]"

definition GAME_CLIENT_0003 :: "msg_field list" where [packet_defs]:
  "GAME_CLIENT_0003 = [fld TYPE_MSG_HEADER 3, fld TYPE_DWORD 0]"

definition GAME_CLIENT_0004 :: "msg_field list" where [packet_defs]:
  "GAME_CLIENT_0004 = [fld TYPE_MSG_HEADER 4]"

definition GAME_CLIENT_0005 :: "msg_field list" where [packet_defs]:
  "GAME_CLIENT_0005 = [fld TYPE_MSG_HEADER 5, fld TYPE_DWORD 0, fld TYPE_BYTE 0]"

definition GAME_CLIENT_0006 :: "msg_field list" where [packet_defs]:
  "GAME_CLIENT_0006 = [fld TYPE_MSG_HEADER 6]"

definition GAME_CLIENT_0007 :: "msg_field list" where [packet_defs]:
  "GAME_CLIENT_0007 = [fld TYPE_MSG_HEADER 7]"

definition GAME_CLIENT_0008 :: "msg_field list" where [packet_defs]:
  "GAME_CLIENT_0008 = [fld TYPE_MSG_HEADER 8]"

definition GAME_CLIENT_0009 :: "msg_field list" where [packet_defs]:
  "GAME_CLIENT_0009 = [fld TYPE_MSG_HEADER 9, fld TYPE_DWORD 0]"

definition GAME_CLIENT_0010 :: "msg_field list" where [packet_defs]:
  "GAME_CLIENT_0010 = [fld TYPE_MSG_HEADER 10, fld TYPE_BLOB 16, fld TYPE_DWORD 0, fld TYPE_DWORD 0,
    fld TYPE_DWORD 0, fld TYPE_BLOB 12, fld TYPE_DWORD 0, fld TYPE_DWORD 0, fld TYPE_DWORD 0,
    fld TYPE_DWORD 0, fld TYPE_DWORD 0, fld TYPE_DWORD 0, fld TYPE_DWORD 0, fld TYPE_STRING_16 64,
    fld TYPE_STRING_16 20]"

definition GAME_CLIENT_0011 :: "msg_field list" where [packet_defs]:
  "GAME_CLIENT_0011 = [fld TYPE_MSG_HEADER 11]"

definition GAME_CLIENT_0012 :: "msg_field list" where [packet_defs]:
  "GAME_CLIENT_0012 = [fld TYPE_MSG_HEADER 12]"

definition GAME_CLIENT_0013 :: "msg_field list" where [packet_defs]:
  "GAME_CLIENT_0013 = [fld TYPE_MSG_HEADER 13, fld TYPE_AGENT_ID 0, fld TYPE_DWORD 0,
    fld TYPE_DWORD 0]"

definition GAME_CLIENT_0014 :: "msg_field list" where [packet_defs]:
  "GAME_CLIENT_0014 = [fld TYPE_MSG_HEADER 14, fld TYPE_AGENT_ID 0, fld TYPE_DWORD 0,
    fld TYPE_DWORD 0]"

definition GAME_CLIENT_0015 :: "msg_field list" where [packet_defs]:
  "GAME_CLIENT_0015 = [fld TYPE_MSG_HEADER 15, fld TYPE_AGENT_ID 0, fld TYPE_ARRAY_32 16,
    fld TYPE_ARRAY_32 16]"

definition GAME_CLIENT_0016 :: "msg_field list" where [packet_defs]:
  "GAME_CLIENT_0016 = [fld TYPE_MSG_HEADER 16, fld TYPE_DWORD 0]"

definition GAME_CLIENT_0017 :: "msg_field list" where [packet_defs]:
  "GAME_CLIENT_0017 = [fld TYPE_MSG_HEADER 17, fld TYPE_DWORD 0]"

definition GAME_CLIENT_0018 :: "msg_field list" where [packet_defs]:
  "GAME_CLIENT_0018 = [fld TYPE_MSG_HEADER 18]"

definition GAME_CLIENT_0019 :: "msg_field list" where [packet_defs]:
  "GAME_CLIENT_0019 = [fld TYPE_MSG_HEADER 19, fld TYPE_DWORD 0, fld TYPE_BYTE 0]"

definition GAME_CLIENT_0020 :: "msg_field list" where [packet_defs]:
  "GAME_CLIENT_0020 = [fld TYPE_MSG_HEADER 20, fld TYPE_AGENT_ID 0, fld TYPE_DWORD 0]"

definition GAME_CLIENT_0021 :: "msg_field list" where [packet_defs]:
  "GAME_CLIENT_0021 = [fld TYPE_MSG_HEADER 21, fld TYPE_AGENT_ID 0, fld TYPE_AGENT_ID 0]"

definition GAME_CLIENT_0022 :: "msg_field list" where [packet_defs]:
  "GAME_CLIENT_0022 = [fld TYPE_MSG_HEADER 22, fld TYPE_AGENT_ID 0]"

definition GAME_CLIENT_0023 :: "msg_field list" where [packet_defs]:
  "GAME_CLIENT_0023 = [fld TYPE_MSG_HEADER 23, fld TYPE_DWORD 0]"

definition GAME_CLIENT_0024 :: "msg_field list" where [packet_defs]:
  "GAME_CLIENT_0024 = [fld TYPE_MSG_HEADER 24, fld TYPE_AGENT_ID 0, fld TYPE_DWORD 0]"

definition GAME_CLIENT_0025 :: "msg_field list" where [packet_defs]:
  "GAME_CLIENT_0025 = [fld TYPE_MSG_HEADER 25, fld TYPE_AGENT_ID 0, fld TYPE_VECT2 0,
    fld TYPE_DWORD 0]"

definition GAME_CLIENT_0026 :: "msg_field list" where [packet_defs]:
  "GAME_CLIENT_0026 = [fld TYPE_MSG_HEADER 26, fld TYPE_VECT2 0, fld TYPE_DWORD 0]"

definition GAME_CLIENT_0027 :: "msg_field list" where [packet_defs]:
  "GAME_CLIENT_0027 = [fld TYPE_MSG_HEADER 27, fld TYPE_AGENT_ID 0, fld TYPE_DWORD 0,
    fld TYPE_DWORD 0, fld TYPE_AGENT_ID 0]"

definition GAME_CLIENT_0028 :: "msg_field list" where [packet_defs]:
  "GAME_CLIENT_0028 = [fld TYPE_MSG_HEADER 28, fld TYPE_AGENT_ID 0, fld TYPE_DWORD 0,
    fld TYPE_DWORD 0]"

definition GAME_CLIENT_0029 :: "msg_field list" where [packet_defs]:
  "GAME_CLIENT_0029 = [fld TYPE_MSG_HEADER 29, fld TYPE_WORD 0]"

definition GAME_CLIENT_0030 :: "msg_field list" where [packet_defs]:
  "GAME_CLIENT_0030 = [fld TYPE_MSG_HEADER 30, fld TYPE_WORD 0]"

definition GAME_CLIENT_0031 :: "msg_field list" where [packet_defs]:
  "GAME_CLIENT_0031 = [fld TYPE_MSG_HEADER 31, fld TYPE_BYTE 0]"

definition GAME_CLIENT_0032 :: "msg_field list" where [packet_defs]:
  "GAME_CLIENT_0032 = [fld TYPE_MSG_HEADER 32, fld TYPE_AGENT_ID 0, fld TYPE_DWORD 0]"

definition GAME_CLIENT_0033 :: "msg_field list" where [packet_defs]:
  "GAME_CLIENT_0033 = [fld TYPE_MSG_HEADER 33, fld TYPE_AGENT_ID 0, fld TYPE_DWORD 0]"

definition GAME_CLIENT_0034 :: "msg_field list" where [packet_defs]:
  "GAME_CLIENT_0034 = [fld TYPE_MSG_HEADER 34, fld TYPE_BYTE 0, fld TYPE_AGENT_ID 0]"

definition GAME_CLIENT_0035 :: "msg_field list" where [packet_defs]:
  "GAME_CLIENT_0035 = [fld TYPE_MSG_HEADER 35, fld TYPE_AGENT_ID 0, fld TYPE_DWORD 0]"

definition GAME_CLIENT_0036 :: "msg_field list" where [packet_defs]:
  "GAME_CLIENT_0036 = [fld TYPE_MSG_HEADER 36, fld TYPE_AGENT_ID 0, fld TYPE_DWORD 0,
    fld TYPE_DWORD 0]"

definition GAME_CLIENT_0037 :: "msg_field list" where [packet_defs]:
  "GAME_CLIENT_0037 = [fld TYPE_MSG_HEADER 37, fld TYPE_AGENT_ID 0, fld TYPE_BYTE 0]"

definition GAME_CLIENT_0038 :: "msg_field list" where [packet_defs]:
  "GAME_CLIENT_0038 = [fld TYPE_MSG_HEADER 38, fld TYPE_AGENT_ID 0, fld TYPE_DWORD 0,
    fld TYPE_DWORD 0, fld TYPE_BYTE 0]"

definition GAME_CLIENT_0039 :: "msg_field list" where [packet_defs]:
  "GAME_CLIENT_0039 = [fld TYPE_MSG_HEADER 39]"

definition GAME_CLIENT_0040 :: "msg_field list" where [packet_defs]:
  "GAME_CLIENT_0040 = [fld TYPE_MSG_HEADER 40, fld TYPE_DWORD 0]"

definition GAME_CLIENT_0041 :: "msg_field list" where [packet_defs]:
  "GAME_CLIENT_0041 = [fld TYPE_MSG_HEADER 41, fld TYPE_DWORD 0]"

definition GAME_CLIENT_0042 :: "msg_field list" where [packet_defs]:
  "GAME_CLIENT_0042 = [fld TYPE_MSG_HEADER 42, fld TYPE_DWORD 0, fld TYPE_ARRAY_32 16]"

definition GAME_CLIENT_0043 :: "msg_field list" where [packet_defs]:
  "GAME_CLIENT_0043 = [fld TYPE_MSG_HEADER 43, fld TYPE_DWORD 0, fld TYPE_BYTE 0]"

definition GAME_CLIENT_0044 :: "msg_field list" where [packet_defs]:
  "GAME_CLIENT_0044 = [fld TYPE_MSG_HEADER 44]"

definition GAME_CLIENT_0045 :: "msg_field list" where [packet_defs]:
  "GAME_CLIENT_0045 = [fld TYPE_MSG_HEADER 45]"

definition GAME_CLIENT_0046 :: "msg_field list" where [packet_defs]:
  "GAME_CLIENT_0046 = [fld TYPE_MSG_HEADER 46, fld TYPE_DWORD 0]"

definition GAME_CLIENT_0047 :: "msg_field list" where [packet_defs]:
  "GAME_CLIENT_0047 = [fld TYPE_MSG_HEADER 47, fld TYPE_DWORD 0]"

definition GAME_CLIENT_0048 :: "msg_field list" where [packet_defs]:
  "GAME_CLIENT_0048 = [fld TYPE_MSG_HEADER 48, fld TYPE_AGENT_ID 0, fld TYPE_DWORD 0]"

definition GAME_CLIENT_0049 :: "msg_field list" where [packet_defs]:
  "GAME_CLIENT_0049 = [fld TYPE_MSG_HEADER 49, fld TYPE_BYTE 0]"

definition GAME_CLIENT_0050 :: "msg_field list" where [packet_defs]:
  "GAME_CLIENT_0050 = [fld TYPE_MSG_HEADER 50, fld TYPE_AGENT_ID 0]"

definition GAME_CLIENT_0051 :: "msg_field list" where [packet_defs]:
  "GAME_CLIENT_0051 = [fld TYPE_MSG_HEADER 51, fld TYPE_DWORD 0, fld TYPE_BYTE 0,
    fld TYPE_ARRAY_32 4]"

definition GAME_CLIENT_0052 :: "msg_field list" where [packet_defs]:
  "GAME_CLIENT_0052 = [fld TYPE_MSG_HEADER 52, fld TYPE_DWORD 0, fld TYPE_BYTE 0, fld TYPE_DWORD 0]"

definition GAME_CLIENT_0053 :: "msg_field list" where [packet_defs]:
  "GAME_CLIENT_0053 = [fld TYPE_MSG_HEADER 53, fld TYPE_DWORD 0, fld TYPE_STRING_16 32,
    fld TYPE_STRING_16 6]"

definition GAME_CLIENT_0054 :: "msg_field list" where [packet_defs]:
  "GAME_CLIENT_0054 = [fld TYPE_MSG_HEADER 54, fld TYPE_DWORD 0, fld TYPE_ARRAY_32 4]"

definition GAME_CLIENT_0055 :: "msg_field list" where [packet_defs]:
  "GAME_CLIENT_0055 = [fld TYPE_MSG_HEADER 55, fld TYPE_DWORD 0, fld TYPE_BYTE 0, fld TYPE_BYTE 0,
    fld TYPE_BYTE 0, fld TYPE_BYTE 0, fld TYPE_BYTE 0, fld TYPE_WORD 0, fld TYPE_BYTE 0]"

definition GAME_CLIENT_0056 :: "msg_field list" where [packet_defs]:
  "GAME_CLIENT_0056 = [fld TYPE_MSG_HEADER 56, fld TYPE_AGENT_ID 0, fld TYPE_BYTE 0]"

definition GAME_CLIENT_0057 :: "msg_field list" where [packet_defs]:
  "GAME_CLIENT_0057 = [fld TYPE_MSG_HEADER 57, fld TYPE_DWORD 0, fld TYPE_ARRAY_32 4]"

definition GAME_CLIENT_0058 :: "msg_field list" where [packet_defs]:
  "GAME_CLIENT_0058 = [fld TYPE_MSG_HEADER 58, fld TYPE_DWORD 0]"

definition GAME_CLIENT_0059 :: "msg_field list" where [packet_defs]:
  "GAME_CLIENT_0059 = [fld TYPE_MSG_HEADER 59, fld TYPE_DWORD 0]"

definition GAME_CLIENT_0060 :: "msg_field list" where [packet_defs]:
  "GAME_CLIENT_0060 = [fld TYPE_MSG_HEADER 60, fld TYPE_VECT2 0, fld TYPE_DWORD 0, fld TYPE_VECT2 0,
    fld TYPE_DWORD 0]"

definition GAME_CLIENT_0061 :: "msg_field list" where [packet_defs]:
  "GAME_CLIENT_0061 = [fld TYPE_MSG_HEADER 61, fld TYPE_VECT2 0, fld TYPE_DWORD 0]"

definition GAME_CLIENT_0062 :: "msg_field list" where [packet_defs]:
  "GAME_CLIENT_0062 = [fld TYPE_MSG_HEADER 62, fld TYPE_AGENT_ID 0, fld TYPE_BYTE 0]"

definition GAME_CLIENT_0063 :: "msg_field list" where [packet_defs]:
  "GAME_CLIENT_0063 = [fld TYPE_MSG_HEADER 63, fld TYPE_DWORD 0, fld TYPE_DWORD 0]"

definition GAME_CLIENT_0064 :: "msg_field list" where [packet_defs]:
  "GAME_CLIENT_0064 = [fld TYPE_MSG_HEADER 64, fld TYPE_AGENT_ID 0, fld TYPE_BYTE 0]"

definition GAME_CLIENT_0065 :: "msg_field list" where [packet_defs]:
  "GAME_CLIENT_0065 = [fld TYPE_MSG_HEADER 65, fld TYPE_AGENT_ID 0]"

definition GAME_CLIENT_0066 :: "msg_field list" where [packet_defs]:
  "GAME_CLIENT_0066 = [fld TYPE_MSG_HEADER 66, fld TYPE_BYTE 0]"

definition GAME_CLIENT_0067 :: "msg_field list" where [packet_defs]:
  "GAME_CLIENT_0067 = [fld TYPE_MSG_HEADER 67, fld TYPE_DWORD 0]"

definition GAME_CLIENT_0068 :: "msg_field list" where [packet_defs]:
  "GAME_CLIENT_0068 = [fld TYPE_MSG_HEADER 68, fld TYPE_ARRAY_8 256]"

definition GAME_CLIENT_0069 :: "msg_field list" where [packet_defs]:
  "GAME_CLIENT_0069 = [fld TYPE_MSG_HEADER 69, fld TYPE_DWORD 0, fld TYPE_DWORD 0,
    fld TYPE_AGENT_ID 0, fld TYPE_BYTE 0]"

definition GAME_CLIENT_0070 :: "msg_field list" where [packet_defs]:
  "GAME_CLIENT_0070 = [fld TYPE_MSG_HEADER 70, fld TYPE_VECT2 0, fld TYPE_DWORD 0]"

definition GAME_CLIENT_0071 :: "msg_field list" where [packet_defs]:
  "GAME_CLIENT_0071 = [fld TYPE_MSG_HEADER 71, fld TYPE_VECT2 0, fld TYPE_DWORD 0]"

definition GAME_CLIENT_0072 :: "msg_field list" where [packet_defs]:
  "GAME_CLIENT_0072 = [fld TYPE_MSG_HEADER 72, fld TYPE_AGENT_ID 0]"

definition GAME_CLIENT_0073 :: "msg_field list" where [packet_defs]:
  "GAME_CLIENT_0073 = [fld TYPE_MSG_HEADER 73, fld TYPE_BYTE 0, fld TYPE_DWORD 0,
    fld TYPE_ARRAY_32 16, fld TYPE_DWORD 0, fld TYPE_ARRAY_32 16]"

definition GAME_CLIENT_0074 :: "msg_field list" where [packet_defs]:
  "GAME_CLIENT_0074 = [fld TYPE_MSG_HEADER 74, fld TYPE_BYTE 0]"

definition GAME_CLIENT_0075 :: "msg_field list" where [packet_defs]:
  "GAME_CLIENT_0075 = [fld TYPE_MSG_HEADER 75, fld TYPE_BYTE 0, fld TYPE_BYTE 0, fld TYPE_DWORD 0,
    fld TYPE_ARRAY_32 16, fld TYPE_DWORD 0, fld TYPE_ARRAY_32 16]"

definition GAME_CLIENT_0076 :: "msg_field list" where [packet_defs]:
  "GAME_CLIENT_0076 = [fld TYPE_MSG_HEADER 76, fld TYPE_BYTE 0, fld TYPE_DWORD 0,
    fld TYPE_ARRAY_32 16, fld TYPE_ARRAY_8 16, fld TYPE_DWORD 0, fld TYPE_ARRAY_32 16,
    fld TYPE_ARRAY_8 16]"

definition GAME_CLIENT_0077 :: "msg_field list" where [packet_defs]:
  "GAME_CLIENT_0077 = [fld TYPE_MSG_HEADER 77, fld TYPE_BYTE 0, fld TYPE_STRING_16 122]"

definition GAME_CLIENT_0078 :: "msg_field list" where [packet_defs]:
  "GAME_CLIENT_0078 = [fld TYPE_MSG_HEADER 78, fld TYPE_BYTE 0, fld TYPE_WORD 0, fld TYPE_BYTE 0]"

definition GAME_CLIENT_0079 :: "msg_field list" where [packet_defs]:
  "GAME_CLIENT_0079 = [fld TYPE_MSG_HEADER 79, fld TYPE_AGENT_ID 0, fld TYPE_BYTE 0,
    fld TYPE_WORD 0, fld TYPE_BYTE 0]"

definition GAME_CLIENT_0080 :: "msg_field list" where [packet_defs]:
  "GAME_CLIENT_0080 = [fld TYPE_MSG_HEADER 80, fld TYPE_AGENT_ID 0, fld TYPE_BYTE 0]"

definition GAME_CLIENT_0081 :: "msg_field list" where [packet_defs]:
  "GAME_CLIENT_0081 = [fld TYPE_MSG_HEADER 81, fld TYPE_AGENT_ID 0, fld TYPE_DWORD 0]"

definition GAME_CLIENT_0082 :: "msg_field list" where [packet_defs]:
  "GAME_CLIENT_0082 = [fld TYPE_MSG_HEADER 82, fld TYPE_DWORD 0]"

definition GAME_CLIENT_0083 :: "msg_field list" where [packet_defs]:
  "GAME_CLIENT_0083 = [fld TYPE_MSG_HEADER 83, fld TYPE_DWORD 0, fld TYPE_DWORD 0, fld TYPE_BYTE 0,
    fld TYPE_BYTE 0, fld TYPE_BYTE 0, fld TYPE_BYTE 0, fld TYPE_BYTE 0]"

definition GAME_CLIENT_0084 :: "msg_field list" where [packet_defs]:
  "GAME_CLIENT_0084 = [fld TYPE_MSG_HEADER 84, fld TYPE_DWORD 0]"

definition GAME_CLIENT_0085 :: "msg_field list" where [packet_defs]:
  "GAME_CLIENT_0085 = [fld TYPE_MSG_HEADER 85, fld TYPE_WORD 0, fld TYPE_DWORD 0]"

definition GAME_CLIENT_0086 :: "msg_field list" where [packet_defs]:
  "GAME_CLIENT_0086 = [fld TYPE_MSG_HEADER 86, fld TYPE_DWORD 0, fld TYPE_DWORD 0]"

definition GAME_CLIENT_0087 :: "msg_field list" where [packet_defs]:
  "GAME_CLIENT_0087 = [fld TYPE_MSG_HEADER 87, fld TYPE_DWORD 0]"

definition GAME_CLIENT_0088 :: "msg_field list" where [packet_defs]:
  "GAME_CLIENT_0088 = [fld TYPE_MSG_HEADER 88]"

definition GAME_CLIENT_0089 :: "msg_field list" where [packet_defs]:
  "GAME_CLIENT_0089 = [fld TYPE_MSG_HEADER 89]"

definition GAME_CLIENT_0090 :: "msg_field list" where [packet_defs]:
  "GAME_CLIENT_0090 = [fld TYPE_MSG_HEADER 90, fld TYPE_DWORD 0]"

definition GAME_CLIENT_0091 :: "msg_field list" where [packet_defs]:
  "GAME_CLIENT_0091 = [fld TYPE_MSG_HEADER 91, fld TYPE_AGENT_ID 0, fld TYPE_DWORD 0,
    fld TYPE_DWORD 0, fld TYPE_DWORD 0]"

definition GAME_CLIENT_0092 :: "msg_field list" where [packet_defs]:
  "GAME_CLIENT_0092 = [fld TYPE_MSG_HEADER 92, fld TYPE_AGENT_ID 0, fld TYPE_ARRAY_32 8]"

definition GAME_CLIENT_0093 :: "msg_field list" where [packet_defs]:
  "GAME_CLIENT_0093 = [fld TYPE_MSG_HEADER 93, fld TYPE_AGENT_ID 0, fld TYPE_DWORD 0,
    fld TYPE_DWORD 0, fld TYPE_DWORD 0, fld TYPE_DWORD 0]"

definition GAME_CLIENT_0094 :: "msg_field list" where [packet_defs]:
  "GAME_CLIENT_0094 = [fld TYPE_MSG_HEADER 94, fld TYPE_AGENT_ID 0, fld TYPE_DWORD 0,
    fld TYPE_DWORD 0, fld TYPE_DWORD 0]"

definition GAME_CLIENT_0095 :: "msg_field list" where [packet_defs]:
  "GAME_CLIENT_0095 = [fld TYPE_MSG_HEADER 95, fld TYPE_BYTE 0, fld TYPE_BYTE 0]"

definition GAME_CLIENT_0096 :: "msg_field list" where [packet_defs]:
  "GAME_CLIENT_0096 = [fld TYPE_MSG_HEADER 96, fld TYPE_STRING_16 32]"

definition GAME_CLIENT_0097 :: "msg_field list" where [packet_defs]:
  "GAME_CLIENT_0097 = [fld TYPE_MSG_HEADER 97, fld TYPE_STRING_16 32, fld TYPE_BYTE 0]"

definition GAME_CLIENT_0098 :: "msg_field list" where [packet_defs]:
  "GAME_CLIENT_0098 = [fld TYPE_MSG_HEADER 98]"

definition GAME_CLIENT_0099 :: "msg_field list" where [packet_defs]:
  "GAME_CLIENT_0099 = [fld TYPE_MSG_HEADER 99, fld TYPE_AGENT_ID 0, fld TYPE_STRING_16 138]"

definition GAME_CLIENT_0100 :: "msg_field list" where [packet_defs]:
  "GAME_CLIENT_0100 = [fld TYPE_MSG_HEADER 100, fld TYPE_DWORD 0]"

definition GAME_CLIENT_0101 :: "msg_field list" where [packet_defs]:
  "GAME_CLIENT_0101 = [fld TYPE_MSG_HEADER 101, fld TYPE_DWORD 0, fld TYPE_DWORD 0,
    fld TYPE_BYTE 0]"

definition GAME_CLIENT_0102 :: "msg_field list" where [packet_defs]:
  "GAME_CLIENT_0102 = [fld TYPE_MSG_HEADER 102, fld TYPE_DWORD 0, fld TYPE_BYTE 0, fld TYPE_WORD 0,
    fld TYPE_BYTE 0]"

definition GAME_CLIENT_0103 :: "msg_field list" where [packet_defs]:
  "GAME_CLIENT_0103 = [fld TYPE_MSG_HEADER 103, fld TYPE_WORD 0]"

definition GAME_CLIENT_0104 :: "msg_field list" where [packet_defs]:
  "GAME_CLIENT_0104 = [fld TYPE_MSG_HEADER 104, fld TYPE_DWORD 0]"

definition GAME_CLIENT_0105 :: "msg_field list" where [packet_defs]:
  "GAME_CLIENT_0105 = [fld TYPE_MSG_HEADER 105, fld TYPE_DWORD 0, fld TYPE_ARRAY_32 4]"

definition GAME_CLIENT_0106 :: "msg_field list" where [packet_defs]:
  "GAME_CLIENT_0106 = [fld TYPE_MSG_HEADER 106, fld TYPE_DWORD 0, fld TYPE_BYTE 0]"

definition GAME_CLIENT_0107 :: "msg_field list" where [packet_defs]:
  "GAME_CLIENT_0107 = [fld TYPE_MSG_HEADER 107, fld TYPE_DWORD 0, fld TYPE_DWORD 0]"

definition GAME_CLIENT_0108 :: "msg_field list" where [packet_defs]:
  "GAME_CLIENT_0108 = [fld TYPE_MSG_HEADER 108, fld TYPE_DWORD 0, fld TYPE_DWORD 0]"

definition GAME_CLIENT_0109 :: "msg_field list" where [packet_defs]:
  "GAME_CLIENT_0109 = [fld TYPE_MSG_HEADER 109, fld TYPE_DWORD 0, fld TYPE_DWORD 0]"

definition GAME_CLIENT_0110 :: "msg_field list" where [packet_defs]:
  "GAME_CLIENT_0110 = [fld TYPE_MSG_HEADER 110, fld TYPE_DWORD 0, fld TYPE_DWORD 0]"

definition GAME_CLIENT_0111 :: "msg_field list" where [packet_defs]:
  "GAME_CLIENT_0111 = [fld TYPE_MSG_HEADER 111, fld TYPE_DWORD 0]"

definition GAME_CLIENT_0112 :: "msg_field list" where [packet_defs]:
  "GAME_CLIENT_0112 = [fld TYPE_MSG_HEADER 112, fld TYPE_BYTE 0, fld TYPE_NESTED_STRUCT 6,
    fld TYPE_BYTE 0, fld TYPE_DWORD 0]"

definition GAME_CLIENT_0113 :: "msg_field list" where [packet_defs]:
  "GAME_CLIENT_0113 = [fld TYPE_MSG_HEADER 113, fld TYPE_DWORD 0, fld TYPE_WORD 0, fld TYPE_BYTE 0]"

definition GAME_CLIENT_0114 :: "msg_field list" where [packet_defs]:
  "GAME_CLIENT_0114 = [fld TYPE_MSG_HEADER 114, fld TYPE_WORD 0]"

definition GAME_CLIENT_0115 :: "msg_field list" where [packet_defs]:
  "GAME_CLIENT_0115 = [fld TYPE_MSG_HEADER 115, fld TYPE_BYTE 0, fld TYPE_BYTE 0]"

definition GAME_CLIENT_0116 :: "msg_field list" where [packet_defs]:
  "GAME_CLIENT_0116 = [fld TYPE_MSG_HEADER 116, fld TYPE_DWORD 0, fld TYPE_DWORD 0, fld TYPE_WORD 0,
    fld TYPE_BYTE 0]"

definition GAME_CLIENT_0117 :: "msg_field list" where [packet_defs]:
  "GAME_CLIENT_0117 = [fld TYPE_MSG_HEADER 117]"

definition GAME_CLIENT_0118 :: "msg_field list" where [packet_defs]:
  "GAME_CLIENT_0118 = [fld TYPE_MSG_HEADER 118, fld TYPE_WORD 0, fld TYPE_DWORD 0,
    fld TYPE_DWORD 0]"

definition GAME_CLIENT_0119 :: "msg_field list" where [packet_defs]:
  "GAME_CLIENT_0119 = [fld TYPE_MSG_HEADER 119]"

definition GAME_CLIENT_0120 :: "msg_field list" where [packet_defs]:
  "GAME_CLIENT_0120 = [fld TYPE_MSG_HEADER 120]"

definition GAME_CLIENT_0121 :: "msg_field list" where [packet_defs]:
  "GAME_CLIENT_0121 = [fld TYPE_MSG_HEADER 121]"

definition GAME_CLIENT_0122 :: "msg_field list" where [packet_defs]:
  "GAME_CLIENT_0122 = [fld TYPE_MSG_HEADER 122, fld TYPE_BYTE 0]"

definition GAME_CLIENT_0123 :: "msg_field list" where [packet_defs]:
  "GAME_CLIENT_0123 = [fld TYPE_MSG_HEADER 123, fld TYPE_DWORD 0, fld TYPE_DWORD 0]"

definition GAME_CLIENT_0124 :: "msg_field list" where [packet_defs]:
  "GAME_CLIENT_0124 = [fld TYPE_MSG_HEADER 124, fld TYPE_DWORD 0, fld TYPE_WORD 0, fld TYPE_BYTE 0]"

definition GAME_CLIENT_0125 :: "msg_field list" where [packet_defs]:
  "GAME_CLIENT_0125 = [fld TYPE_MSG_HEADER 125, fld TYPE_DWORD 0]"

definition GAME_CLIENT_0126 :: "msg_field list" where [packet_defs]:
  "GAME_CLIENT_0126 = [fld TYPE_MSG_HEADER 126, fld TYPE_BYTE 0, fld TYPE_DWORD 0]"

definition GAME_CLIENT_0127 :: "msg_field list" where [packet_defs]:
  "GAME_CLIENT_0127 = [fld TYPE_MSG_HEADER 127, fld TYPE_WORD 0, fld TYPE_DWORD 0]"

definition GAME_CLIENT_0128 :: "msg_field list" where [packet_defs]:
  "GAME_CLIENT_0128 = [fld TYPE_MSG_HEADER 128]"

definition GAME_CLIENT_0129 :: "msg_field list" where [packet_defs]:
  "GAME_CLIENT_0129 = [fld TYPE_MSG_HEADER 129]"

definition GAME_CLIENT_0130 :: "msg_field list" where [packet_defs]:
  "GAME_CLIENT_0130 = [fld TYPE_MSG_HEADER 130, fld TYPE_BYTE 0]"

definition GAME_CLIENT_0131 :: "msg_field list" where [packet_defs]:
  "GAME_CLIENT_0131 = [fld TYPE_MSG_HEADER 131, fld TYPE_BYTE 0, fld TYPE_BYTE 0]"

definition GAME_CLIENT_0132 :: "msg_field list" where [packet_defs]:
  "GAME_CLIENT_0132 = [fld TYPE_MSG_HEADER 132, fld TYPE_WORD 0]"

definition GAME_CLIENT_0133 :: "msg_field list" where [packet_defs]:
  "GAME_CLIENT_0133 = [fld TYPE_MSG_HEADER 133, fld TYPE_WORD 0, fld TYPE_WORD 0,
    fld TYPE_ARRAY_16 4, fld TYPE_BYTE 0, fld TYPE_BYTE 0, fld TYPE_BYTE 0]"

definition GAME_CLIENT_0134 :: "msg_field list" where [packet_defs]:
  "GAME_CLIENT_0134 = [fld TYPE_MSG_HEADER 134, fld TYPE_BYTE 0, fld TYPE_BYTE 0, fld TYPE_BYTE 0]"

definition GAME_CLIENT_0135 :: "msg_field list" where [packet_defs]:
  "GAME_CLIENT_0135 = [fld TYPE_MSG_HEADER 135]"

definition GAME_CLIENT_0136 :: "msg_field list" where [packet_defs]:
  "GAME_CLIENT_0136 = [fld TYPE_MSG_HEADER 136]"

definition GAME_CLIENT_0137 :: "msg_field list" where [packet_defs]:
  "GAME_CLIENT_0137 = [fld TYPE_MSG_HEADER 137]"

definition GAME_CLIENT_0138 :: "msg_field list" where [packet_defs]:
  "GAME_CLIENT_0138 = [fld TYPE_MSG_HEADER 138, fld TYPE_STRING_16 20, fld TYPE_BLOB 8]"

definition GAME_CLIENT_0139 :: "msg_field list" where [packet_defs]:
  "GAME_CLIENT_0139 = [fld TYPE_MSG_HEADER 139]"

definition GAME_CLIENT_0140 :: "msg_field list" where [packet_defs]:
  "GAME_CLIENT_0140 = [fld TYPE_MSG_HEADER 140, fld TYPE_WORD 0, fld TYPE_BYTE 0]"

definition GAME_CLIENT_0141 :: "msg_field list" where [packet_defs]:
  "GAME_CLIENT_0141 = [fld TYPE_MSG_HEADER 141, fld TYPE_DWORD 0]"

definition GAME_CLIENT_0142 :: "msg_field list" where [packet_defs]:
  "GAME_CLIENT_0142 = [fld TYPE_MSG_HEADER 142]"

definition GAME_CLIENT_0143 :: "msg_field list" where [packet_defs]:
  "GAME_CLIENT_0143 = [fld TYPE_MSG_HEADER 143, fld TYPE_BLOB 16]"

definition GAME_CLIENT_0144 :: "msg_field list" where [packet_defs]:
  "GAME_CLIENT_0144 = [fld TYPE_MSG_HEADER 144, fld TYPE_BYTE 0, fld TYPE_BYTE 0]"

definition GAME_CLIENT_0145 :: "msg_field list" where [packet_defs]:
  "GAME_CLIENT_0145 = [fld TYPE_MSG_HEADER 145, fld TYPE_ARRAY_8 112]"

definition GAME_CLIENT_0146 :: "msg_field list" where [packet_defs]:
  "GAME_CLIENT_0146 = [fld TYPE_MSG_HEADER 146, fld TYPE_WORD 0]"

definition GAME_CLIENT_0147 :: "msg_field list" where [packet_defs]:
  "GAME_CLIENT_0147 = [fld TYPE_MSG_HEADER 147, fld TYPE_BYTE 0]"

definition GAME_CLIENT_0148 :: "msg_field list" where [packet_defs]:
  "GAME_CLIENT_0148 = [fld TYPE_MSG_HEADER 148, fld TYPE_BYTE 0]"

definition GAME_CLIENT_0149 :: "msg_field list" where [packet_defs]:
  "GAME_CLIENT_0149 = [fld TYPE_MSG_HEADER 149, fld TYPE_DWORD 0, fld TYPE_WORD 0, fld TYPE_BYTE 0]"

definition GAME_CLIENT_0150 :: "msg_field list" where [packet_defs]:
  "GAME_CLIENT_0150 = [fld TYPE_MSG_HEADER 150]"

definition GAME_CLIENT_0151 :: "msg_field list" where [packet_defs]:
  "GAME_CLIENT_0151 = [fld TYPE_MSG_HEADER 151]"

definition GAME_CLIENT_0152 :: "msg_field list" where [packet_defs]:
  "GAME_CLIENT_0152 = [fld TYPE_MSG_HEADER 152]"

definition GAME_CLIENT_0153 :: "msg_field list" where [packet_defs]:
  "GAME_CLIENT_0153 = [fld TYPE_MSG_HEADER 153]"

definition GAME_CLIENT_0154 :: "msg_field list" where [packet_defs]:
  "GAME_CLIENT_0154 = [fld TYPE_MSG_HEADER 154, fld TYPE_BYTE 0]"

definition GAME_CLIENT_0155 :: "msg_field list" where [packet_defs]:
  "GAME_CLIENT_0155 = [fld TYPE_MSG_HEADER 155, fld TYPE_WORD 0]"

definition GAME_CLIENT_0156 :: "msg_field list" where [packet_defs]:
  "GAME_CLIENT_0156 = [fld TYPE_MSG_HEADER 156, fld TYPE_WORD 0]"

definition GAME_CLIENT_0157 :: "msg_field list" where [packet_defs]:
  "GAME_CLIENT_0157 = [fld TYPE_MSG_HEADER 157, fld TYPE_WORD 0]"

definition GAME_CLIENT_0158 :: "msg_field list" where [packet_defs]:
  "GAME_CLIENT_0158 = [fld TYPE_MSG_HEADER 158, fld TYPE_WORD 0]"

definition GAME_CLIENT_0159 :: "msg_field list" where [packet_defs]:
  "GAME_CLIENT_0159 = [fld TYPE_MSG_HEADER 159, fld TYPE_WORD 0]"

definition GAME_CLIENT_0160 :: "msg_field list" where [packet_defs]:
  "GAME_CLIENT_0160 = [fld TYPE_MSG_HEADER 160, fld TYPE_STRING_16 20]"

definition GAME_CLIENT_0161 :: "msg_field list" where [packet_defs]:
  "GAME_CLIENT_0161 = [fld TYPE_MSG_HEADER 161]"

definition GAME_CLIENT_0162 :: "msg_field list" where [packet_defs]:
  "GAME_CLIENT_0162 = [fld TYPE_MSG_HEADER 162]"

definition GAME_CLIENT_0163 :: "msg_field list" where [packet_defs]:
  "GAME_CLIENT_0163 = [fld TYPE_MSG_HEADER 163, fld TYPE_BYTE 0, fld TYPE_STRING_16 64]"

definition GAME_CLIENT_0164 :: "msg_field list" where [packet_defs]:
  "GAME_CLIENT_0164 = [fld TYPE_MSG_HEADER 164, fld TYPE_BYTE 0]"

definition GAME_CLIENT_0165 :: "msg_field list" where [packet_defs]:
  "GAME_CLIENT_0165 = [fld TYPE_MSG_HEADER 165, fld TYPE_WORD 0, fld TYPE_DWORD 0, fld TYPE_BYTE 0]"

definition GAME_CLIENT_0166 :: "msg_field list" where [packet_defs]:
  "GAME_CLIENT_0166 = [fld TYPE_MSG_HEADER 166]"

definition GAME_CLIENT_0167 :: "msg_field list" where [packet_defs]:
  "GAME_CLIENT_0167 = [fld TYPE_MSG_HEADER 167, fld TYPE_WORD 0]"

definition GAME_CLIENT_0168 :: "msg_field list" where [packet_defs]:
  "GAME_CLIENT_0168 = [fld TYPE_MSG_HEADER 168, fld TYPE_WORD 0]"

definition GAME_CLIENT_0169 :: "msg_field list" where [packet_defs]:
  "GAME_CLIENT_0169 = [fld TYPE_MSG_HEADER 169, fld TYPE_BYTE 0, fld TYPE_STRING_16 32,
    fld TYPE_WORD 0]"

definition GAME_CLIENT_0170 :: "msg_field list" where [packet_defs]:
  "GAME_CLIENT_0170 = [fld TYPE_MSG_HEADER 170]"

definition GAME_CLIENT_0171 :: "msg_field list" where [packet_defs]:
  "GAME_CLIENT_0171 = [fld TYPE_MSG_HEADER 171, fld TYPE_WORD 0]"

definition GAME_CLIENT_0172 :: "msg_field list" where [packet_defs]:
  "GAME_CLIENT_0172 = [fld TYPE_MSG_HEADER 172, fld TYPE_WORD 0]"

definition GAME_CLIENT_0173 :: "msg_field list" where [packet_defs]:
  "GAME_CLIENT_0173 = [fld TYPE_MSG_HEADER 173, fld TYPE_BYTE 0]"

definition GAME_CLIENT_0174 :: "msg_field list" where [packet_defs]:
  "GAME_CLIENT_0174 = [fld TYPE_MSG_HEADER 174, fld TYPE_BYTE 0]"

definition GAME_CLIENT_0175 :: "msg_field list" where [packet_defs]:
  "GAME_CLIENT_0175 = [fld TYPE_MSG_HEADER 175, fld TYPE_BLOB 16, fld TYPE_BYTE 0]"

definition GAME_CLIENT_0176 :: "msg_field list" where [packet_defs]:
  "GAME_CLIENT_0176 = [fld TYPE_MSG_HEADER 176, fld TYPE_WORD 0, fld TYPE_BYTE 0, fld TYPE_WORD 0,
    fld TYPE_BYTE 0, fld TYPE_BYTE 0]"

definition GAME_CLIENT_0177 :: "msg_field list" where [packet_defs]:
  "GAME_CLIENT_0177 = [fld TYPE_MSG_HEADER 177, fld TYPE_BYTE 0]"

definition GAME_CLIENT_0178 :: "msg_field list" where [packet_defs]:
  "GAME_CLIENT_0178 = [fld TYPE_MSG_HEADER 178, fld TYPE_DWORD 0, fld TYPE_STRING_16 20]"

definition GAME_CLIENT_0179 :: "msg_field list" where [packet_defs]:
  "GAME_CLIENT_0179 = [fld TYPE_MSG_HEADER 179, fld TYPE_DWORD 0, fld TYPE_STRING_16 20]"

definition GAME_CLIENT_0180 :: "msg_field list" where [packet_defs]:
  "GAME_CLIENT_0180 = [fld TYPE_MSG_HEADER 180, fld TYPE_DWORD 0, fld TYPE_STRING_16 32,
    fld TYPE_BYTE 0]"

definition GAME_CLIENT_0181 :: "msg_field list" where [packet_defs]:
  "GAME_CLIENT_0181 = [fld TYPE_MSG_HEADER 181, fld TYPE_DWORD 0, fld TYPE_BLOB 16,
    fld TYPE_BYTE 0]"

definition GAME_CLIENT_0182 :: "msg_field list" where [packet_defs]:
  "GAME_CLIENT_0182 = [fld TYPE_MSG_HEADER 182, fld TYPE_DWORD 0, fld TYPE_BLOB 16,
    fld TYPE_BYTE 0]"

definition GAME_CLIENT_0183 :: "msg_field list" where [packet_defs]:
  "GAME_CLIENT_0183 = [fld TYPE_MSG_HEADER 183, fld TYPE_DWORD 0, fld TYPE_STRING_16 20]"

definition GAME_CLIENT_0184 :: "msg_field list" where [packet_defs]:
  "GAME_CLIENT_0184 = [fld TYPE_MSG_HEADER 184, fld TYPE_DWORD 0, fld TYPE_WORD 0]"

definition GAME_CLIENT_0185 :: "msg_field list" where [packet_defs]:
  "GAME_CLIENT_0185 = [fld TYPE_MSG_HEADER 185, fld TYPE_DWORD 0, fld TYPE_STRING_16 20]"

definition GAME_CLIENT_0186 :: "msg_field list" where [packet_defs]:
  "GAME_CLIENT_0186 = [fld TYPE_MSG_HEADER 186, fld TYPE_DWORD 0]"

definition GAME_CLIENT_0187 :: "msg_field list" where [packet_defs]:
  "GAME_CLIENT_0187 = [fld TYPE_MSG_HEADER 187, fld TYPE_DWORD 0]"

definition GAME_CLIENT_0188 :: "msg_field list" where [packet_defs]:
  "GAME_CLIENT_0188 = [fld TYPE_MSG_HEADER 188, fld TYPE_DWORD 0, fld TYPE_STRING_16 20]"

definition GAME_CLIENT_0189 :: "msg_field list" where [packet_defs]:
  "GAME_CLIENT_0189 = [fld TYPE_MSG_HEADER 189, fld TYPE_DWORD 0, fld TYPE_STRING_16 256]"

definition GAME_CLIENT_0190 :: "msg_field list" where [packet_defs]:
  "GAME_CLIENT_0190 = [fld TYPE_MSG_HEADER 190, fld TYPE_DWORD 0, fld TYPE_BYTE 0,
    fld TYPE_STRING_16 32]"

definition GAME_CLIENT_0191 :: "msg_field list" where [packet_defs]:
  "GAME_CLIENT_0191 = [fld TYPE_MSG_HEADER 191, fld TYPE_STRING_16 32, fld TYPE_BYTE 0]"

definition GAME_CLIENT_0192 :: "msg_field list" where [packet_defs]:
  "GAME_CLIENT_0192 = [fld TYPE_MSG_HEADER 192, fld TYPE_AGENT_ID 0, fld TYPE_AGENT_ID 0]"

text \<open>The rows of the table, at most 50 at a time.\<close>

definition GAME_CLIENT_FORMATS_0 :: "msg_format list" where
  "GAME_CLIENT_FORMATS_0 = [
    fmt 0 2 GAME_CLIENT_0000 6, fmt 1 1 GAME_CLIENT_0001 2, fmt 2 3 GAME_CLIENT_0002 7,
    fmt 3 2 GAME_CLIENT_0003 6, fmt 4 1 GAME_CLIENT_0004 2, fmt 5 3 GAME_CLIENT_0005 7,
    fmt 6 1 GAME_CLIENT_0006 2, fmt 7 1 GAME_CLIENT_0007 2, fmt 8 1 GAME_CLIENT_0008 2,
    fmt 9 2 GAME_CLIENT_0009 6, fmt 10 15 GAME_CLIENT_0010 238, fmt 11 1 GAME_CLIENT_0011 2,
    fmt 12 1 GAME_CLIENT_0012 2, fmt 13 4 GAME_CLIENT_0013 14, fmt 14 4 GAME_CLIENT_0014 14,
    fmt 15 4 GAME_CLIENT_0015 142, fmt 16 2 GAME_CLIENT_0016 6, fmt 17 2 GAME_CLIENT_0017 6,
    fmt 18 1 GAME_CLIENT_0018 2, fmt 19 3 GAME_CLIENT_0019 7, fmt 20 3 GAME_CLIENT_0020 10,
    fmt 21 3 GAME_CLIENT_0021 10, fmt 22 2 GAME_CLIENT_0022 6, fmt 23 2 GAME_CLIENT_0023 6,
    fmt 24 3 GAME_CLIENT_0024 10, fmt 25 4 GAME_CLIENT_0025 18, fmt 26 3 GAME_CLIENT_0026 14,
    fmt 27 5 GAME_CLIENT_0027 18, fmt 28 4 GAME_CLIENT_0028 14, fmt 29 2 GAME_CLIENT_0029 4,
    fmt 30 2 GAME_CLIENT_0030 4, fmt 31 2 GAME_CLIENT_0031 3, fmt 32 3 GAME_CLIENT_0032 10,
    fmt 33 3 GAME_CLIENT_0033 10, fmt 34 3 GAME_CLIENT_0034 7, fmt 35 3 GAME_CLIENT_0035 10,
    fmt 36 4 GAME_CLIENT_0036 14, fmt 37 3 GAME_CLIENT_0037 7, fmt 38 5 GAME_CLIENT_0038 15,
    fmt 39 1 GAME_CLIENT_0039 2, fmt 40 2 GAME_CLIENT_0040 6, fmt 41 2 GAME_CLIENT_0041 6,
    fmt 42 3 GAME_CLIENT_0042 74, fmt 43 3 GAME_CLIENT_0043 7, fmt 44 1 GAME_CLIENT_0044 2,
    fmt 45 1 GAME_CLIENT_0045 2, fmt 46 2 GAME_CLIENT_0046 6, fmt 47 2 GAME_CLIENT_0047 6,
    fmt 48 3 GAME_CLIENT_0048 10, fmt 49 2 GAME_CLIENT_0049 3]"

definition GAME_CLIENT_FORMATS_50 :: "msg_format list" where
  "GAME_CLIENT_FORMATS_50 = [
    fmt 50 2 GAME_CLIENT_0050 6, fmt 51 4 GAME_CLIENT_0051 27, fmt 52 4 GAME_CLIENT_0052 11,
    fmt 53 4 GAME_CLIENT_0053 82, fmt 54 3 GAME_CLIENT_0054 26, fmt 55 9 GAME_CLIENT_0055 14,
    fmt 56 3 GAME_CLIENT_0056 7, fmt 57 3 GAME_CLIENT_0057 26, fmt 58 2 GAME_CLIENT_0058 6,
    fmt 59 2 GAME_CLIENT_0059 6, fmt 60 5 GAME_CLIENT_0060 26, fmt 61 3 GAME_CLIENT_0061 14,
    fmt 62 3 GAME_CLIENT_0062 7, fmt 63 3 GAME_CLIENT_0063 10, fmt 64 3 GAME_CLIENT_0064 7,
    fmt 65 2 GAME_CLIENT_0065 6, fmt 66 2 GAME_CLIENT_0066 3, fmt 67 2 GAME_CLIENT_0067 6,
    fmt 68 2 GAME_CLIENT_0068 262, fmt 69 5 GAME_CLIENT_0069 15, fmt 70 3 GAME_CLIENT_0070 14,
    fmt 71 3 GAME_CLIENT_0071 14, fmt 72 2 GAME_CLIENT_0072 6, fmt 73 6 GAME_CLIENT_0073 147,
    fmt 74 2 GAME_CLIENT_0074 3, fmt 75 7 GAME_CLIENT_0075 148, fmt 76 8 GAME_CLIENT_0076 187,
    fmt 77 3 GAME_CLIENT_0077 247, fmt 78 4 GAME_CLIENT_0078 6, fmt 79 5 GAME_CLIENT_0079 10,
    fmt 80 3 GAME_CLIENT_0080 7, fmt 81 3 GAME_CLIENT_0081 10, fmt 82 2 GAME_CLIENT_0082 6,
    fmt 83 8 GAME_CLIENT_0083 15, fmt 84 2 GAME_CLIENT_0084 6, fmt 85 3 GAME_CLIENT_0085 8,
    fmt 86 3 GAME_CLIENT_0086 10, fmt 87 2 GAME_CLIENT_0087 6, fmt 88 1 GAME_CLIENT_0088 2,
    fmt 89 1 GAME_CLIENT_0089 2, fmt 90 2 GAME_CLIENT_0090 6, fmt 91 5 GAME_CLIENT_0091 18,
    fmt 92 3 GAME_CLIENT_0092 42, fmt 93 6 GAME_CLIENT_0093 22, fmt 94 5 GAME_CLIENT_0094 18,
    fmt 95 3 GAME_CLIENT_0095 4, fmt 96 2 GAME_CLIENT_0096 66, fmt 97 3 GAME_CLIENT_0097 67,
    fmt 98 1 GAME_CLIENT_0098 2, fmt 99 3 GAME_CLIENT_0099 282]"

definition GAME_CLIENT_FORMATS_100 :: "msg_format list" where
  "GAME_CLIENT_FORMATS_100 = [
    fmt 100 2 GAME_CLIENT_0100 6, fmt 101 4 GAME_CLIENT_0101 11, fmt 102 5 GAME_CLIENT_0102 10,
    fmt 103 2 GAME_CLIENT_0103 4, fmt 104 2 GAME_CLIENT_0104 6, fmt 105 3 GAME_CLIENT_0105 26,
    fmt 106 3 GAME_CLIENT_0106 7, fmt 107 3 GAME_CLIENT_0107 10, fmt 108 3 GAME_CLIENT_0108 10,
    fmt 109 3 GAME_CLIENT_0109 10, fmt 110 3 GAME_CLIENT_0110 10, fmt 111 2 GAME_CLIENT_0111 6,
    fmt 112 5 GAME_CLIENT_0112 37, fmt 113 4 GAME_CLIENT_0113 9, fmt 114 2 GAME_CLIENT_0114 4,
    fmt 115 3 GAME_CLIENT_0115 4, fmt 116 5 GAME_CLIENT_0116 13, fmt 117 1 GAME_CLIENT_0117 2,
    fmt 118 4 GAME_CLIENT_0118 12, fmt 119 1 GAME_CLIENT_0119 2, fmt 120 1 GAME_CLIENT_0120 2,
    fmt 121 1 GAME_CLIENT_0121 2, fmt 122 2 GAME_CLIENT_0122 3, fmt 123 3 GAME_CLIENT_0123 10,
    fmt 124 4 GAME_CLIENT_0124 9, fmt 125 2 GAME_CLIENT_0125 6, fmt 126 3 GAME_CLIENT_0126 7,
    fmt 127 3 GAME_CLIENT_0127 8, fmt 128 1 GAME_CLIENT_0128 2, fmt 129 1 GAME_CLIENT_0129 2,
    fmt 130 2 GAME_CLIENT_0130 3, fmt 131 3 GAME_CLIENT_0131 4, fmt 132 2 GAME_CLIENT_0132 4,
    fmt 133 7 GAME_CLIENT_0133 21, fmt 134 4 GAME_CLIENT_0134 5, fmt 135 1 GAME_CLIENT_0135 2,
    fmt 136 1 GAME_CLIENT_0136 2, fmt 137 1 GAME_CLIENT_0137 2, fmt 138 3 GAME_CLIENT_0138 50,
    fmt 139 1 GAME_CLIENT_0139 2, fmt 140 3 GAME_CLIENT_0140 5, fmt 141 2 GAME_CLIENT_0141 6,
    fmt 142 1 GAME_CLIENT_0142 2, fmt 143 2 GAME_CLIENT_0143 18, fmt 144 3 GAME_CLIENT_0144 4,
    fmt 145 2 GAME_CLIENT_0145 118, fmt 146 2 GAME_CLIENT_0146 4, fmt 147 2 GAME_CLIENT_0147 3,
    fmt 148 2 GAME_CLIENT_0148 3, fmt 149 4 GAME_CLIENT_0149 9]"

definition GAME_CLIENT_FORMATS_150 :: "msg_format list" where
  "GAME_CLIENT_FORMATS_150 = [
    fmt 150 1 GAME_CLIENT_0150 2, fmt 151 1 GAME_CLIENT_0151 2, fmt 152 1 GAME_CLIENT_0152 2,
    fmt 153 1 GAME_CLIENT_0153 2, fmt 154 2 GAME_CLIENT_0154 3, fmt 155 2 GAME_CLIENT_0155 4,
    fmt 156 2 GAME_CLIENT_0156 4, fmt 157 2 GAME_CLIENT_0157 4, fmt 158 2 GAME_CLIENT_0158 4,
    fmt 159 2 GAME_CLIENT_0159 4, fmt 160 2 GAME_CLIENT_0160 42, fmt 161 1 GAME_CLIENT_0161 2,
    fmt 162 1 GAME_CLIENT_0162 2, fmt 163 3 GAME_CLIENT_0163 131, fmt 164 2 GAME_CLIENT_0164 3,
    fmt 165 4 GAME_CLIENT_0165 9, fmt 166 1 GAME_CLIENT_0166 2, fmt 167 2 GAME_CLIENT_0167 4,
    fmt 168 2 GAME_CLIENT_0168 4, fmt 169 4 GAME_CLIENT_0169 69, fmt 170 1 GAME_CLIENT_0170 2,
    fmt 171 2 GAME_CLIENT_0171 4, fmt 172 2 GAME_CLIENT_0172 4, fmt 173 2 GAME_CLIENT_0173 3,
    fmt 174 2 GAME_CLIENT_0174 3, fmt 175 3 GAME_CLIENT_0175 19, fmt 176 6 GAME_CLIENT_0176 9,
    fmt 177 2 GAME_CLIENT_0177 3, fmt 178 3 GAME_CLIENT_0178 46, fmt 179 3 GAME_CLIENT_0179 46,
    fmt 180 4 GAME_CLIENT_0180 71, fmt 181 4 GAME_CLIENT_0181 23, fmt 182 4 GAME_CLIENT_0182 23,
    fmt 183 3 GAME_CLIENT_0183 46, fmt 184 3 GAME_CLIENT_0184 8, fmt 185 3 GAME_CLIENT_0185 46,
    fmt 186 2 GAME_CLIENT_0186 6, fmt 187 2 GAME_CLIENT_0187 6, fmt 188 3 GAME_CLIENT_0188 46,
    fmt 189 3 GAME_CLIENT_0189 518, fmt 190 4 GAME_CLIENT_0190 71, fmt 191 3 GAME_CLIENT_0191 67,
    fmt 192 3 GAME_CLIENT_0192 10]"

definition GAME_CLIENT_FORMATS :: "msg_format list" where
  "GAME_CLIENT_FORMATS = GAME_CLIENT_FORMATS_0 @ GAME_CLIENT_FORMATS_50 @ GAME_CLIENT_FORMATS_100 @
    GAME_CLIENT_FORMATS_150"

lemma length_GAME_CLIENT_FORMATS_0 [simp]: "length GAME_CLIENT_FORMATS_0 = 50"
  by (simp add: GAME_CLIENT_FORMATS_0_def)

lemma table_ok_GAME_CLIENT_FORMATS_0: "table_ok 0 GAME_CLIENT_FORMATS_0"
  by (simp add: GAME_CLIENT_FORMATS_0_def packet_defs table_ok_simps)

lemma length_GAME_CLIENT_FORMATS_50 [simp]: "length GAME_CLIENT_FORMATS_50 = 50"
  by (simp add: GAME_CLIENT_FORMATS_50_def)

lemma table_ok_GAME_CLIENT_FORMATS_50: "table_ok 50 GAME_CLIENT_FORMATS_50"
  by (simp add: GAME_CLIENT_FORMATS_50_def packet_defs table_ok_simps)

lemma length_GAME_CLIENT_FORMATS_100 [simp]: "length GAME_CLIENT_FORMATS_100 = 50"
  by (simp add: GAME_CLIENT_FORMATS_100_def)

lemma table_ok_GAME_CLIENT_FORMATS_100: "table_ok 100 GAME_CLIENT_FORMATS_100"
  by (simp add: GAME_CLIENT_FORMATS_100_def packet_defs table_ok_simps)

lemma length_GAME_CLIENT_FORMATS_150 [simp]: "length GAME_CLIENT_FORMATS_150 = 43"
  by (simp add: GAME_CLIENT_FORMATS_150_def)

lemma table_ok_GAME_CLIENT_FORMATS_150: "table_ok 150 GAME_CLIENT_FORMATS_150"
  by (simp add: GAME_CLIENT_FORMATS_150_def packet_defs table_ok_simps)

lemma length_GAME_CLIENT_FORMATS [simp]: "length GAME_CLIENT_FORMATS = 193"
  by (simp add: GAME_CLIENT_FORMATS_def)

lemma table_ok_GAME_CLIENT_FORMATS: "table_ok 0 GAME_CLIENT_FORMATS"
  by (simp add: GAME_CLIENT_FORMATS_def table_ok_append table_ok_GAME_CLIENT_FORMATS_0 table_ok_GAME_CLIENT_FORMATS_50 table_ok_GAME_CLIENT_FORMATS_100 table_ok_GAME_CLIENT_FORMATS_150)

lemma bounds_GAME_CLIENT_FORMATS_0:
  "list_all (\<lambda>m. unpack_bound (mf_fields m) \<le> 4096 \<and> max_wire (mf_fields m) \<le> 4096) GAME_CLIENT_FORMATS_0"
  by (simp add: GAME_CLIENT_FORMATS_0_def packet_defs bound_simps)

lemma bounds_GAME_CLIENT_FORMATS_50:
  "list_all (\<lambda>m. unpack_bound (mf_fields m) \<le> 4096 \<and> max_wire (mf_fields m) \<le> 4096) GAME_CLIENT_FORMATS_50"
  by (simp add: GAME_CLIENT_FORMATS_50_def packet_defs bound_simps)

lemma bounds_GAME_CLIENT_FORMATS_100:
  "list_all (\<lambda>m. unpack_bound (mf_fields m) \<le> 4096 \<and> max_wire (mf_fields m) \<le> 4096) GAME_CLIENT_FORMATS_100"
  by (simp add: GAME_CLIENT_FORMATS_100_def packet_defs bound_simps)

lemma bounds_GAME_CLIENT_FORMATS_150:
  "list_all (\<lambda>m. unpack_bound (mf_fields m) \<le> 4096 \<and> max_wire (mf_fields m) \<le> 4096) GAME_CLIENT_FORMATS_150"
  by (simp add: GAME_CLIENT_FORMATS_150_def packet_defs bound_simps)

lemma bounds_GAME_CLIENT_FORMATS:
  "list_all (\<lambda>m. unpack_bound (mf_fields m) \<le> 4096 \<and> max_wire (mf_fields m) \<le> 4096) GAME_CLIENT_FORMATS"
  by (simp add: GAME_CLIENT_FORMATS_def bounds_GAME_CLIENT_FORMATS_0 bounds_GAME_CLIENT_FORMATS_50 bounds_GAME_CLIENT_FORMATS_100 bounds_GAME_CLIENT_FORMATS_150)

lemma sizes_GAME_CLIENT_FORMATS_0: "list_all (\<lambda>m. mf_unpack_size m \<le> 4096) GAME_CLIENT_FORMATS_0"
  by (simp add: GAME_CLIENT_FORMATS_0_def)

lemma sizes_GAME_CLIENT_FORMATS_50: "list_all (\<lambda>m. mf_unpack_size m \<le> 4096) GAME_CLIENT_FORMATS_50"
  by (simp add: GAME_CLIENT_FORMATS_50_def)

lemma sizes_GAME_CLIENT_FORMATS_100: "list_all (\<lambda>m. mf_unpack_size m \<le> 4096) GAME_CLIENT_FORMATS_100"
  by (simp add: GAME_CLIENT_FORMATS_100_def)

lemma sizes_GAME_CLIENT_FORMATS_150: "list_all (\<lambda>m. mf_unpack_size m \<le> 4096) GAME_CLIENT_FORMATS_150"
  by (simp add: GAME_CLIENT_FORMATS_150_def)

lemma sizes_GAME_CLIENT_FORMATS: "list_all (\<lambda>m. mf_unpack_size m \<le> 4096) GAME_CLIENT_FORMATS"
  by (simp add: GAME_CLIENT_FORMATS_def sizes_GAME_CLIENT_FORMATS_0 sizes_GAME_CLIENT_FORMATS_50 sizes_GAME_CLIENT_FORMATS_100 sizes_GAME_CLIENT_FORMATS_150)

end
