(* ===== verification/Packets_Game_Server.thy ===== *)
theory Packets_Game_Server
  imports Msg_Format
begin

text \<open>
  The messages from the game server to the client: the field arrays and the format table of
  \<^verbatim>\<open>code/client/packets.c\<close>, one definition per array, and their consistency.
\<close>

section \<open>GAME_SERVER_FORMATS\<close>

definition GAME_SERVER_0000 :: "msg_field list" where [packet_defs]:
  "GAME_SERVER_0000 = [fld TYPE_MSG_HEADER 0, fld TYPE_DWORD 0]"

definition GAME_SERVER_0001 :: "msg_field list" where [packet_defs]:
  "GAME_SERVER_0001 = [fld TYPE_MSG_HEADER 1, fld TYPE_BYTE 0]"

definition GAME_SERVER_0002 :: "msg_field list" where [packet_defs]:
  "GAME_SERVER_0002 = [fld TYPE_MSG_HEADER 2, fld TYPE_BYTE 0, fld TYPE_DWORD 0]"

definition GAME_SERVER_0003 :: "msg_field list" where [packet_defs]:
  "GAME_SERVER_0003 = [fld TYPE_MSG_HEADER 3, fld TYPE_DWORD 0]"

definition GAME_SERVER_0004 :: "msg_field list" where [packet_defs]:
  "GAME_SERVER_0004 = [fld TYPE_MSG_HEADER 4, fld TYPE_DWORD 0, fld TYPE_BYTE 0]"

definition GAME_SERVER_0005 :: "msg_field list" where [packet_defs]:
  "GAME_SERVER_0005 = [fld TYPE_MSG_HEADER 5, fld TYPE_DWORD 0]"

definition GAME_SERVER_0006 :: "msg_field list" where [packet_defs]:
  "GAME_SERVER_0006 = [fld TYPE_MSG_HEADER 6]"

definition GAME_SERVER_0007 :: "msg_field list" where [packet_defs]:
  "GAME_SERVER_0007 = [fld TYPE_MSG_HEADER 7]"

definition GAME_SERVER_0008 :: "msg_field list" where [packet_defs]:
  "GAME_SERVER_0008 = [fld TYPE_MSG_HEADER 8]"

definition GAME_SERVER_0009 :: "msg_field list" where [packet_defs]:
  "GAME_SERVER_0009 = [fld TYPE_MSG_HEADER 9]"

definition GAME_SERVER_0010 :: "msg_field list" where [packet_defs]:
  "GAME_SERVER_0010 = [fld TYPE_MSG_HEADER 10, fld TYPE_DWORD 0, fld TYPE_DWORD 0]"

definition GAME_SERVER_0011 :: "msg_field list" where [packet_defs]:
  "GAME_SERVER_0011 = [fld TYPE_MSG_HEADER 11, fld TYPE_DWORD 0]"

definition GAME_SERVER_0012 :: "msg_field list" where [packet_defs]:
  "GAME_SERVER_0012 = [fld TYPE_MSG_HEADER 12]"

definition GAME_SERVER_0013 :: "msg_field list" where [packet_defs]:
  "GAME_SERVER_0013 = [fld TYPE_MSG_HEADER 13, fld TYPE_DWORD 0]"

definition GAME_SERVER_0014 :: "msg_field list" where [packet_defs]:
  "GAME_SERVER_0014 = [fld TYPE_MSG_HEADER 14, fld TYPE_DWORD 0, fld TYPE_DWORD 0,
    fld TYPE_STRING_16 256, fld TYPE_STRING_16 256]"

definition GAME_SERVER_0015 :: "msg_field list" where [packet_defs]:
  "GAME_SERVER_0015 = [fld TYPE_MSG_HEADER 15, fld TYPE_WORD 0, fld TYPE_WORD 0, fld TYPE_WORD 0]"

definition GAME_SERVER_0016 :: "msg_field list" where [packet_defs]:
  "GAME_SERVER_0016 = [fld TYPE_MSG_HEADER 16, fld TYPE_BYTE 0]"

definition GAME_SERVER_0017 :: "msg_field list" where [packet_defs]:
  "GAME_SERVER_0017 = [fld TYPE_MSG_HEADER 17, fld TYPE_WORD 0]"

definition GAME_SERVER_0018 :: "msg_field list" where [packet_defs]:
  "GAME_SERVER_0018 = [fld TYPE_MSG_HEADER 18, fld TYPE_WORD 0]"

definition GAME_SERVER_0019 :: "msg_field list" where [packet_defs]:
  "GAME_SERVER_0019 = [fld TYPE_MSG_HEADER 19, fld TYPE_BYTE 0]"

definition GAME_SERVER_0020 :: "msg_field list" where [packet_defs]:
  "GAME_SERVER_0020 = [fld TYPE_MSG_HEADER 20, fld TYPE_BYTE 0, fld TYPE_DWORD 0, fld TYPE_DWORD 0]"

definition GAME_SERVER_0021 :: "msg_field list" where [packet_defs]:
  "GAME_SERVER_0021 = [fld TYPE_MSG_HEADER 21, fld TYPE_BYTE 0, fld TYPE_DWORD 0]"

definition GAME_SERVER_0022 :: "msg_field list" where [packet_defs]:
  "GAME_SERVER_0022 = [fld TYPE_MSG_HEADER 22, fld TYPE_STRING_16 122]"

definition GAME_SERVER_0023 :: "msg_field list" where [packet_defs]:
  "GAME_SERVER_0023 = [fld TYPE_MSG_HEADER 23, fld TYPE_BYTE 0, fld TYPE_BYTE 0, fld TYPE_DWORD 0,
    fld TYPE_DWORD 0, fld TYPE_BYTE 0]"

definition GAME_SERVER_0024 :: "msg_field list" where [packet_defs]:
  "GAME_SERVER_0024 = [fld TYPE_MSG_HEADER 24, fld TYPE_ARRAY_32 8]"

definition GAME_SERVER_0025 :: "msg_field list" where [packet_defs]:
  "GAME_SERVER_0025 = [fld TYPE_MSG_HEADER 25, fld TYPE_WORD 0, fld TYPE_BYTE 0,
    fld TYPE_NESTED_STRUCT 64, fld TYPE_DWORD 0]"

definition GAME_SERVER_0026 :: "msg_field list" where [packet_defs]:
  "GAME_SERVER_0026 = [fld TYPE_MSG_HEADER 26, fld TYPE_WORD 0, fld TYPE_NESTED_STRUCT 64,
    fld TYPE_DWORD 0]"

definition GAME_SERVER_0027 :: "msg_field list" where [packet_defs]:
  "GAME_SERVER_0027 = [fld TYPE_MSG_HEADER 27]"

definition GAME_SERVER_0028 :: "msg_field list" where [packet_defs]:
  "GAME_SERVER_0028 = [fld TYPE_MSG_HEADER 28, fld TYPE_WORD 0, fld TYPE_BYTE 0]"

definition GAME_SERVER_0029 :: "msg_field list" where [packet_defs]:
  "GAME_SERVER_0029 = [fld TYPE_MSG_HEADER 29, fld TYPE_ARRAY_32 128]"

definition GAME_SERVER_0030 :: "msg_field list" where [packet_defs]:
  "GAME_SERVER_0030 = [fld TYPE_MSG_HEADER 30, fld TYPE_DWORD 0]"

definition GAME_SERVER_0031 :: "msg_field list" where [packet_defs]:
  "GAME_SERVER_0031 = [fld TYPE_MSG_HEADER 31, fld TYPE_DWORD 0]"

definition GAME_SERVER_0032 :: "msg_field list" where [packet_defs]:
  "GAME_SERVER_0032 = [fld TYPE_MSG_HEADER 32, fld TYPE_DWORD 0, fld TYPE_DWORD 0, fld TYPE_BYTE 0,
    fld TYPE_BYTE 0, fld TYPE_VECT2 0, fld TYPE_WORD 0, fld TYPE_VECT2 0, fld TYPE_BYTE 0,
    fld TYPE_FLOAT 0, fld TYPE_FLOAT 0, fld TYPE_DWORD 0, fld TYPE_DWORD 0, fld TYPE_DWORD 0,
    fld TYPE_DWORD 0, fld TYPE_DWORD 0, fld TYPE_DWORD 0, fld TYPE_DWORD 0, fld TYPE_VECT2 0,
    fld TYPE_VECT2 0, fld TYPE_WORD 0, fld TYPE_DWORD 0, fld TYPE_VECT2 0, fld TYPE_WORD 0]"

definition GAME_SERVER_0033 :: "msg_field list" where [packet_defs]:
  "GAME_SERVER_0033 = [fld TYPE_MSG_HEADER 33, fld TYPE_DWORD 0]"

definition GAME_SERVER_0034 :: "msg_field list" where [packet_defs]:
  "GAME_SERVER_0034 = [fld TYPE_MSG_HEADER 34, fld TYPE_DWORD 0, fld TYPE_DWORD 0]"

definition GAME_SERVER_0035 :: "msg_field list" where [packet_defs]:
  "GAME_SERVER_0035 = [fld TYPE_MSG_HEADER 35, fld TYPE_DWORD 0, fld TYPE_DWORD 0]"

definition GAME_SERVER_0036 :: "msg_field list" where [packet_defs]:
  "GAME_SERVER_0036 = [fld TYPE_MSG_HEADER 36, fld TYPE_DWORD 0, fld TYPE_DWORD 0]"

definition GAME_SERVER_0037 :: "msg_field list" where [packet_defs]:
  "GAME_SERVER_0037 = [fld TYPE_MSG_HEADER 37, fld TYPE_DWORD 0, fld TYPE_VECT2 0, fld TYPE_BYTE 0]"

definition GAME_SERVER_0038 :: "msg_field list" where [packet_defs]:
  "GAME_SERVER_0038 = [fld TYPE_MSG_HEADER 38, fld TYPE_DWORD 0, fld TYPE_BYTE 0]"

definition GAME_SERVER_0039 :: "msg_field list" where [packet_defs]:
  "GAME_SERVER_0039 = [fld TYPE_MSG_HEADER 39, fld TYPE_DWORD 0, fld TYPE_FLOAT 0]"

definition GAME_SERVER_0040 :: "msg_field list" where [packet_defs]:
  "GAME_SERVER_0040 = [fld TYPE_MSG_HEADER 40, fld TYPE_DWORD 0]"

definition GAME_SERVER_0041 :: "msg_field list" where [packet_defs]:
  "GAME_SERVER_0041 = [fld TYPE_MSG_HEADER 41, fld TYPE_DWORD 0, fld TYPE_VECT2 0, fld TYPE_WORD 0,
    fld TYPE_WORD 0]"

definition GAME_SERVER_0042 :: "msg_field list" where [packet_defs]:
  "GAME_SERVER_0042 = [fld TYPE_MSG_HEADER 42, fld TYPE_DWORD 0, fld TYPE_VECT2 0, fld TYPE_WORD 0,
    fld TYPE_WORD 0, fld TYPE_DWORD 0]"

definition GAME_SERVER_0043 :: "msg_field list" where [packet_defs]:
  "GAME_SERVER_0043 = [fld TYPE_MSG_HEADER 43, fld TYPE_DWORD 0, fld TYPE_FLOAT 0, fld TYPE_BYTE 0]"

definition GAME_SERVER_0044 :: "msg_field list" where [packet_defs]:
  "GAME_SERVER_0044 = [fld TYPE_MSG_HEADER 44, fld TYPE_DWORD 0, fld TYPE_VECT2 0, fld TYPE_WORD 0]"

definition GAME_SERVER_0045 :: "msg_field list" where [packet_defs]:
  "GAME_SERVER_0045 = [fld TYPE_MSG_HEADER 45, fld TYPE_DWORD 0]"

definition GAME_SERVER_0046 :: "msg_field list" where [packet_defs]:
  "GAME_SERVER_0046 = [fld TYPE_MSG_HEADER 46, fld TYPE_DWORD 0, fld TYPE_DWORD 0,
    fld TYPE_DWORD 0]"

definition GAME_SERVER_0047 :: "msg_field list" where [packet_defs]:
  "GAME_SERVER_0047 = [fld TYPE_MSG_HEADER 47, fld TYPE_DWORD 0, fld TYPE_DWORD 0]"

definition GAME_SERVER_0048 :: "msg_field list" where [packet_defs]:
  "GAME_SERVER_0048 = [fld TYPE_MSG_HEADER 48, fld TYPE_STRING_16 32, fld TYPE_DWORD 0,
    fld TYPE_DWORD 0, fld TYPE_DWORD 0, fld TYPE_DWORD 0, fld TYPE_DWORD 0, fld TYPE_DWORD 0]"

definition GAME_SERVER_0049 :: "msg_field list" where [packet_defs]:
  "GAME_SERVER_0049 = [fld TYPE_MSG_HEADER 49, fld TYPE_STRING_16 32]"

definition GAME_SERVER_0050 :: "msg_field list" where [packet_defs]:
  "GAME_SERVER_0050 = [fld TYPE_MSG_HEADER 50, fld TYPE_DWORD 0, fld TYPE_DWORD 0, fld TYPE_DWORD 0,
    fld TYPE_DWORD 0, fld TYPE_DWORD 0, fld TYPE_DWORD 0]"

definition GAME_SERVER_0051 :: "msg_field list" where [packet_defs]:
  "GAME_SERVER_0051 = [fld TYPE_MSG_HEADER 51, fld TYPE_STRING_16 64]"

definition GAME_SERVER_0052 :: "msg_field list" where [packet_defs]:
  "GAME_SERVER_0052 = [fld TYPE_MSG_HEADER 52, fld TYPE_WORD 0, fld TYPE_AGENT_ID 0]"

definition GAME_SERVER_0053 :: "msg_field list" where [packet_defs]:
  "GAME_SERVER_0053 = [fld TYPE_MSG_HEADER 53, fld TYPE_AGENT_ID 0, fld TYPE_DWORD 0,
    fld TYPE_DWORD 0]"

definition GAME_SERVER_0054 :: "msg_field list" where [packet_defs]:
  "GAME_SERVER_0054 = [fld TYPE_MSG_HEADER 54, fld TYPE_AGENT_ID 0, fld TYPE_DWORD 0]"

definition GAME_SERVER_0055 :: "msg_field list" where [packet_defs]:
  "GAME_SERVER_0055 = [fld TYPE_MSG_HEADER 55, fld TYPE_AGENT_ID 0, fld TYPE_BYTE 0,
    fld TYPE_BYTE 0]"

definition GAME_SERVER_0056 :: "msg_field list" where [packet_defs]:
  "GAME_SERVER_0056 = [fld TYPE_MSG_HEADER 56, fld TYPE_AGENT_ID 0, fld TYPE_BYTE 0]"

definition GAME_SERVER_0057 :: "msg_field list" where [packet_defs]:
  "GAME_SERVER_0057 = [fld TYPE_MSG_HEADER 57, fld TYPE_AGENT_ID 0, fld TYPE_BYTE 0]"

definition GAME_SERVER_0058 :: "msg_field list" where [packet_defs]:
  "GAME_SERVER_0058 = [fld TYPE_MSG_HEADER 58, fld TYPE_AGENT_ID 0, fld TYPE_ARRAY_32 48]"

definition GAME_SERVER_0059 :: "msg_field list" where [packet_defs]:
  "GAME_SERVER_0059 = [fld TYPE_MSG_HEADER 59, fld TYPE_AGENT_ID 0, fld TYPE_BYTE 0,
    fld TYPE_BYTE 0, fld TYPE_BYTE 0]"

definition GAME_SERVER_0060 :: "msg_field list" where [packet_defs]:
  "GAME_SERVER_0060 = [fld TYPE_MSG_HEADER 60, fld TYPE_STRING_16 8, fld TYPE_STRING_16 128,
    fld TYPE_BYTE 0, fld TYPE_DWORD 0]"

definition GAME_SERVER_0061 :: "msg_field list" where [packet_defs]:
  "GAME_SERVER_0061 = [fld TYPE_MSG_HEADER 61, fld TYPE_AGENT_ID 0]"

definition GAME_SERVER_0062 :: "msg_field list" where [packet_defs]:
  "GAME_SERVER_0062 = [fld TYPE_MSG_HEADER 62, fld TYPE_AGENT_ID 0, fld TYPE_AGENT_ID 0,
    fld TYPE_WORD 0, fld TYPE_DWORD 0, fld TYPE_DWORD 0]"

definition GAME_SERVER_0063 :: "msg_field list" where [packet_defs]:
  "GAME_SERVER_0063 = [fld TYPE_MSG_HEADER 63, fld TYPE_AGENT_ID 0, fld TYPE_DWORD 0]"

definition GAME_SERVER_0064 :: "msg_field list" where [packet_defs]:
  "GAME_SERVER_0064 = [fld TYPE_MSG_HEADER 64, fld TYPE_AGENT_ID 0, fld TYPE_AGENT_ID 0,
    fld TYPE_WORD 0, fld TYPE_DWORD 0, fld TYPE_DWORD 0]"

definition GAME_SERVER_0065 :: "msg_field list" where [packet_defs]:
  "GAME_SERVER_0065 = [fld TYPE_MSG_HEADER 65, fld TYPE_AGENT_ID 0, fld TYPE_WORD 0,
    fld TYPE_DWORD 0, fld TYPE_DWORD 0, fld TYPE_DWORD 0]"

definition GAME_SERVER_0066 :: "msg_field list" where [packet_defs]:
  "GAME_SERVER_0066 = [fld TYPE_MSG_HEADER 66, fld TYPE_AGENT_ID 0, fld TYPE_DWORD 0,
    fld TYPE_DWORD 0, fld TYPE_DWORD 0]"

definition GAME_SERVER_0067 :: "msg_field list" where [packet_defs]:
  "GAME_SERVER_0067 = [fld TYPE_MSG_HEADER 67, fld TYPE_AGENT_ID 0, fld TYPE_DWORD 0]"

definition GAME_SERVER_0068 :: "msg_field list" where [packet_defs]:
  "GAME_SERVER_0068 = [fld TYPE_MSG_HEADER 68, fld TYPE_DWORD 0, fld TYPE_DWORD 0]"

definition GAME_SERVER_0069 :: "msg_field list" where [packet_defs]:
  "GAME_SERVER_0069 = [fld TYPE_MSG_HEADER 69, fld TYPE_DWORD 0, fld TYPE_DWORD 0,
    fld TYPE_AGENT_ID 0]"

definition GAME_SERVER_0070 :: "msg_field list" where [packet_defs]:
  "GAME_SERVER_0070 = [fld TYPE_MSG_HEADER 70, fld TYPE_DWORD 0, fld TYPE_DWORD 0, fld TYPE_VECT2 0,
    fld TYPE_WORD 0]"

definition GAME_SERVER_0071 :: "msg_field list" where [packet_defs]:
  "GAME_SERVER_0071 = [fld TYPE_MSG_HEADER 71, fld TYPE_AGENT_ID 0, fld TYPE_BYTE 0]"

definition GAME_SERVER_0072 :: "msg_field list" where [packet_defs]:
  "GAME_SERVER_0072 = [fld TYPE_MSG_HEADER 72, fld TYPE_DWORD 0, fld TYPE_VECT2 0, fld TYPE_WORD 0,
    fld TYPE_WORD 0, fld TYPE_DWORD 0, fld TYPE_STRING_16 8, fld TYPE_STRING_16 8,
    fld TYPE_STRING_16 8, fld TYPE_WORD 0]"

definition GAME_SERVER_0073 :: "msg_field list" where [packet_defs]:
  "GAME_SERVER_0073 = [fld TYPE_MSG_HEADER 73, fld TYPE_DWORD 0]"

definition GAME_SERVER_0074 :: "msg_field list" where [packet_defs]:
  "GAME_SERVER_0074 = [fld TYPE_MSG_HEADER 74, fld TYPE_ARRAY_32 64]"

definition GAME_SERVER_0075 :: "msg_field list" where [packet_defs]:
  "GAME_SERVER_0075 = [fld TYPE_MSG_HEADER 75, fld TYPE_DWORD 0, fld TYPE_STRING_16 128,
    fld TYPE_STRING_16 128]"

definition GAME_SERVER_0076 :: "msg_field list" where [packet_defs]:
  "GAME_SERVER_0076 = [fld TYPE_MSG_HEADER 76, fld TYPE_DWORD 0, fld TYPE_VECT2 0, fld TYPE_WORD 0,
    fld TYPE_WORD 0]"

definition GAME_SERVER_0077 :: "msg_field list" where [packet_defs]:
  "GAME_SERVER_0077 = [fld TYPE_MSG_HEADER 77, fld TYPE_DWORD 0, fld TYPE_DWORD 0,
    fld TYPE_DWORD 0]"

definition GAME_SERVER_0078 :: "msg_field list" where [packet_defs]:
  "GAME_SERVER_0078 = [fld TYPE_MSG_HEADER 78]"

definition GAME_SERVER_0079 :: "msg_field list" where [packet_defs]:
  "GAME_SERVER_0079 = [fld TYPE_MSG_HEADER 79, fld TYPE_DWORD 0, fld TYPE_DWORD 0,
    fld TYPE_STRING_16 8, fld TYPE_STRING_16 8, fld TYPE_STRING_16 8, fld TYPE_WORD 0]"

definition GAME_SERVER_0080 :: "msg_field list" where [packet_defs]:
  "GAME_SERVER_0080 = [fld TYPE_MSG_HEADER 80, fld TYPE_DWORD 0, fld TYPE_VECT2 0, fld TYPE_WORD 0,
    fld TYPE_WORD 0]"

definition GAME_SERVER_0081 :: "msg_field list" where [packet_defs]:
  "GAME_SERVER_0081 = [fld TYPE_MSG_HEADER 81, fld TYPE_DWORD 0]"

definition GAME_SERVER_0082 :: "msg_field list" where [packet_defs]:
  "GAME_SERVER_0082 = [fld TYPE_MSG_HEADER 82, fld TYPE_DWORD 0, fld TYPE_VECT2 0, fld TYPE_WORD 0,
    fld TYPE_WORD 0]"

definition GAME_SERVER_0083 :: "msg_field list" where [packet_defs]:
  "GAME_SERVER_0083 = [fld TYPE_MSG_HEADER 83, fld TYPE_DWORD 0, fld TYPE_STRING_16 128]"

definition GAME_SERVER_0084 :: "msg_field list" where [packet_defs]:
  "GAME_SERVER_0084 = [fld TYPE_MSG_HEADER 84]"

definition GAME_SERVER_0085 :: "msg_field list" where [packet_defs]:
  "GAME_SERVER_0085 = [fld TYPE_MSG_HEADER 85, fld TYPE_DWORD 0, fld TYPE_DWORD 0, fld TYPE_DWORD 0,
    fld TYPE_DWORD 0, fld TYPE_DWORD 0, fld TYPE_DWORD 0, fld TYPE_BYTE 0, fld TYPE_BYTE 0,
    fld TYPE_STRING_16 8]"

definition GAME_SERVER_0086 :: "msg_field list" where [packet_defs]:
  "GAME_SERVER_0086 = [fld TYPE_MSG_HEADER 86, fld TYPE_DWORD 0, fld TYPE_ARRAY_32 8]"

definition GAME_SERVER_0087 :: "msg_field list" where [packet_defs]:
  "GAME_SERVER_0087 = [fld TYPE_MSG_HEADER 87, fld TYPE_DWORD 0, fld TYPE_STRING_16 32]"

definition GAME_SERVER_0088 :: "msg_field list" where [packet_defs]:
  "GAME_SERVER_0088 = [fld TYPE_MSG_HEADER 88, fld TYPE_DWORD 0, fld TYPE_AGENT_ID 0,
    fld TYPE_DWORD 0, fld TYPE_BYTE 0, fld TYPE_DWORD 0, fld TYPE_DWORD 0, fld TYPE_STRING_16 32]"

definition GAME_SERVER_0089 :: "msg_field list" where [packet_defs]:
  "GAME_SERVER_0089 = [fld TYPE_MSG_HEADER 89, fld TYPE_DWORD 0]"

definition GAME_SERVER_0090 :: "msg_field list" where [packet_defs]:
  "GAME_SERVER_0090 = [fld TYPE_MSG_HEADER 90, fld TYPE_DWORD 0]"

definition GAME_SERVER_0091 :: "msg_field list" where [packet_defs]:
  "GAME_SERVER_0091 = [fld TYPE_MSG_HEADER 91, fld TYPE_AGENT_ID 0, fld TYPE_AGENT_ID 0,
    fld TYPE_DWORD 0]"

definition GAME_SERVER_0092 :: "msg_field list" where [packet_defs]:
  "GAME_SERVER_0092 = [fld TYPE_MSG_HEADER 92, fld TYPE_STRING_16 122]"

definition GAME_SERVER_0093 :: "msg_field list" where [packet_defs]:
  "GAME_SERVER_0093 = [fld TYPE_MSG_HEADER 93, fld TYPE_WORD 0, fld TYPE_BYTE 0]"

definition GAME_SERVER_0094 :: "msg_field list" where [packet_defs]:
  "GAME_SERVER_0094 = [fld TYPE_MSG_HEADER 94, fld TYPE_AGENT_ID 0, fld TYPE_BYTE 0,
    fld TYPE_STRING_16 8]"

definition GAME_SERVER_0095 :: "msg_field list" where [packet_defs]:
  "GAME_SERVER_0095 = [fld TYPE_MSG_HEADER 95, fld TYPE_BYTE 0, fld TYPE_STRING_16 32,
    fld TYPE_STRING_16 6]"

definition GAME_SERVER_0096 :: "msg_field list" where [packet_defs]:
  "GAME_SERVER_0096 = [fld TYPE_MSG_HEADER 96, fld TYPE_WORD 0, fld TYPE_BYTE 0]"

definition GAME_SERVER_0097 :: "msg_field list" where [packet_defs]:
  "GAME_SERVER_0097 = [fld TYPE_MSG_HEADER 97, fld TYPE_AGENT_ID 0, fld TYPE_DWORD 0]"

definition GAME_SERVER_0098 :: "msg_field list" where [packet_defs]:
  "GAME_SERVER_0098 = [fld TYPE_MSG_HEADER 98, fld TYPE_AGENT_ID 0, fld TYPE_AGENT_ID 0]"

definition GAME_SERVER_0099 :: "msg_field list" where [packet_defs]:
  "GAME_SERVER_0099 = [fld TYPE_MSG_HEADER 99, fld TYPE_AGENT_ID 0, fld TYPE_BYTE 0,
    fld TYPE_BYTE 0]"

definition GAME_SERVER_0100 :: "msg_field list" where [packet_defs]:
  "GAME_SERVER_0100 = [fld TYPE_MSG_HEADER 100, fld TYPE_AGENT_ID 0, fld TYPE_BYTE 0]"

definition GAME_SERVER_0101 :: "msg_field list" where [packet_defs]:
  "GAME_SERVER_0101 = [fld TYPE_MSG_HEADER 101, fld TYPE_AGENT_ID 0, fld TYPE_VECT2 0,
    fld TYPE_WORD 0]"

definition GAME_SERVER_0102 :: "msg_field list" where [packet_defs]:
  "GAME_SERVER_0102 = [fld TYPE_MSG_HEADER 102, fld TYPE_VECT2 0, fld TYPE_WORD 0]"

definition GAME_SERVER_0103 :: "msg_field list" where [packet_defs]:
  "GAME_SERVER_0103 = [fld TYPE_MSG_HEADER 103, fld TYPE_AGENT_ID 0, fld TYPE_WORD 0,
    fld TYPE_DWORD 0]"

definition GAME_SERVER_0104 :: "msg_field list" where [packet_defs]:
  "GAME_SERVER_0104 = [fld TYPE_MSG_HEADER 104, fld TYPE_AGENT_ID 0]"

definition GAME_SERVER_0105 :: "msg_field list" where [packet_defs]:
  "GAME_SERVER_0105 = [fld TYPE_MSG_HEADER 105, fld TYPE_DWORD 0]"

definition GAME_SERVER_0106 :: "msg_field list" where [packet_defs]:
  "GAME_SERVER_0106 = [fld TYPE_MSG_HEADER 106, fld TYPE_BYTE 0, fld TYPE_DWORD 0]"

definition GAME_SERVER_0107 :: "msg_field list" where [packet_defs]:
  "GAME_SERVER_0107 = [fld TYPE_MSG_HEADER 107, fld TYPE_DWORD 0, fld TYPE_DWORD 0,
    fld TYPE_DWORD 0]"

definition GAME_SERVER_0108 :: "msg_field list" where [packet_defs]:
  "GAME_SERVER_0108 = [fld TYPE_MSG_HEADER 108, fld TYPE_AGENT_ID 0, fld TYPE_DWORD 0,
    fld TYPE_DWORD 0]"

definition GAME_SERVER_0109 :: "msg_field list" where [packet_defs]:
  "GAME_SERVER_0109 = [fld TYPE_MSG_HEADER 109, fld TYPE_AGENT_ID 0, fld TYPE_DWORD 0,
    fld TYPE_DWORD 0, fld TYPE_DWORD 0, fld TYPE_DWORD 0, fld TYPE_DWORD 0, fld TYPE_DWORD 0,
    fld TYPE_DWORD 0, fld TYPE_DWORD 0, fld TYPE_DWORD 0]"

definition GAME_SERVER_0110 :: "msg_field list" where [packet_defs]:
  "GAME_SERVER_0110 = [fld TYPE_MSG_HEADER 110, fld TYPE_AGENT_ID 0, fld TYPE_DWORD 0,
    fld TYPE_DWORD 0]"

definition GAME_SERVER_0111 :: "msg_field list" where [packet_defs]:
  "GAME_SERVER_0111 = [fld TYPE_MSG_HEADER 111, fld TYPE_BYTE 0]"

definition GAME_SERVER_0112 :: "msg_field list" where [packet_defs]:
  "GAME_SERVER_0112 = [fld TYPE_MSG_HEADER 112, fld TYPE_AGENT_ID 0]"

definition GAME_SERVER_0113 :: "msg_field list" where [packet_defs]:
  "GAME_SERVER_0113 = [fld TYPE_MSG_HEADER 113, fld TYPE_WORD 0, fld TYPE_AGENT_ID 0,
    fld TYPE_DWORD 0, fld TYPE_DWORD 0]"

definition GAME_SERVER_0114 :: "msg_field list" where [packet_defs]:
  "GAME_SERVER_0114 = [fld TYPE_MSG_HEADER 114, fld TYPE_WORD 0, fld TYPE_BYTE 0, fld TYPE_BYTE 0,
    fld TYPE_BYTE 0, fld TYPE_DWORD 0, fld TYPE_DWORD 0, fld TYPE_BYTE 0, fld TYPE_BYTE 0]"

definition GAME_SERVER_0115 :: "msg_field list" where [packet_defs]:
  "GAME_SERVER_0115 = [fld TYPE_MSG_HEADER 115, fld TYPE_WORD 0, fld TYPE_BYTE 0, fld TYPE_BYTE 0,
    fld TYPE_BYTE 0, fld TYPE_DWORD 0, fld TYPE_DWORD 0, fld TYPE_BYTE 0, fld TYPE_BYTE 0,
    fld TYPE_DWORD 0, fld TYPE_DWORD 0, fld TYPE_DWORD 0, fld TYPE_DWORD 0, fld TYPE_DWORD 0,
    fld TYPE_DWORD 0, fld TYPE_DWORD 0, fld TYPE_DWORD 0, fld TYPE_DWORD 0, fld TYPE_DWORD 0,
    fld TYPE_DWORD 0, fld TYPE_STRING_16 32]"

definition GAME_SERVER_0116 :: "msg_field list" where [packet_defs]:
  "GAME_SERVER_0116 = [fld TYPE_MSG_HEADER 116, fld TYPE_AGENT_ID 0]"

definition GAME_SERVER_0117 :: "msg_field list" where [packet_defs]:
  "GAME_SERVER_0117 = [fld TYPE_MSG_HEADER 117, fld TYPE_WORD 0]"

definition GAME_SERVER_0118 :: "msg_field list" where [packet_defs]:
  "GAME_SERVER_0118 = [fld TYPE_MSG_HEADER 118, fld TYPE_WORD 0]"

definition GAME_SERVER_0119 :: "msg_field list" where [packet_defs]:
  "GAME_SERVER_0119 = [fld TYPE_MSG_HEADER 119, fld TYPE_BYTE 0, fld TYPE_NESTED_STRUCT 32,
    fld TYPE_WORD 0, fld TYPE_BYTE 0, fld TYPE_DWORD 0, fld TYPE_DWORD 0, fld TYPE_BYTE 0]"

definition GAME_SERVER_0120 :: "msg_field list" where [packet_defs]:
  "GAME_SERVER_0120 = [fld TYPE_MSG_HEADER 120, fld TYPE_WORD 0, fld TYPE_DWORD 0]"

definition GAME_SERVER_0121 :: "msg_field list" where [packet_defs]:
  "GAME_SERVER_0121 = [fld TYPE_MSG_HEADER 121, fld TYPE_DWORD 0, fld TYPE_STRING_16 8,
    fld TYPE_DWORD 0, fld TYPE_DWORD 0, fld TYPE_DWORD 0]"

definition GAME_SERVER_0122 :: "msg_field list" where [packet_defs]:
  "GAME_SERVER_0122 = [fld TYPE_MSG_HEADER 122, fld TYPE_DWORD 0]"

definition GAME_SERVER_0123 :: "msg_field list" where [packet_defs]:
  "GAME_SERVER_0123 = [fld TYPE_MSG_HEADER 123, fld TYPE_DWORD 0]"

definition GAME_SERVER_0124 :: "msg_field list" where [packet_defs]:
  "GAME_SERVER_0124 = [fld TYPE_MSG_HEADER 124, fld TYPE_DWORD 0]"

definition GAME_SERVER_0125 :: "msg_field list" where [packet_defs]:
  "GAME_SERVER_0125 = [fld TYPE_MSG_HEADER 125, fld TYPE_BYTE 0, fld TYPE_STRING_16 128,
    fld TYPE_DWORD 0, fld TYPE_DWORD 0]"

definition GAME_SERVER_0126 :: "msg_field list" where [packet_defs]:
  "GAME_SERVER_0126 = [fld TYPE_MSG_HEADER 126]"

definition GAME_SERVER_0127 :: "msg_field list" where [packet_defs]:
  "GAME_SERVER_0127 = [fld TYPE_MSG_HEADER 127, fld TYPE_STRING_16 122]"

definition GAME_SERVER_0128 :: "msg_field list" where [packet_defs]:
  "GAME_SERVER_0128 = [fld TYPE_MSG_HEADER 128, fld TYPE_AGENT_ID 0]"

definition GAME_SERVER_0129 :: "msg_field list" where [packet_defs]:
  "GAME_SERVER_0129 = [fld TYPE_MSG_HEADER 129, fld TYPE_AGENT_ID 0, fld TYPE_WORD 0]"

definition GAME_SERVER_0130 :: "msg_field list" where [packet_defs]:
  "GAME_SERVER_0130 = [fld TYPE_MSG_HEADER 130, fld TYPE_AGENT_ID 0, fld TYPE_BYTE 0,
    fld TYPE_DWORD 0]"

definition GAME_SERVER_0131 :: "msg_field list" where [packet_defs]:
  "GAME_SERVER_0131 = [fld TYPE_MSG_HEADER 131, fld TYPE_ARRAY_32 16]"

definition GAME_SERVER_0132 :: "msg_field list" where [packet_defs]:
  "GAME_SERVER_0132 = [fld TYPE_MSG_HEADER 132, fld TYPE_BYTE 0]"

definition GAME_SERVER_0133 :: "msg_field list" where [packet_defs]:
  "GAME_SERVER_0133 = [fld TYPE_MSG_HEADER 133, fld TYPE_BYTE 0]"

definition GAME_SERVER_0134 :: "msg_field list" where [packet_defs]:
  "GAME_SERVER_0134 = [fld TYPE_MSG_HEADER 134, fld TYPE_BYTE 0, fld TYPE_DWORD 0, fld TYPE_DWORD 0,
    fld TYPE_DWORD 0, fld TYPE_DWORD 0, fld TYPE_DWORD 0, fld TYPE_DWORD 0, fld TYPE_DWORD 0,
    fld TYPE_WORD 0, fld TYPE_WORD 0, fld TYPE_WORD 0, fld TYPE_WORD 0, fld TYPE_WORD 0,
    fld TYPE_BYTE 0, fld TYPE_BYTE 0, fld TYPE_BYTE 0, fld TYPE_BYTE 0, fld TYPE_BYTE 0]"

definition GAME_SERVER_0135 :: "msg_field list" where [packet_defs]:
  "GAME_SERVER_0135 = [fld TYPE_MSG_HEADER 135, fld TYPE_BYTE 0]"

definition GAME_SERVER_0136 :: "msg_field list" where [packet_defs]:
  "GAME_SERVER_0136 = [fld TYPE_MSG_HEADER 136, fld TYPE_BYTE 0, fld TYPE_VECT3 0,
    fld TYPE_VECT2 0]"

definition GAME_SERVER_0137 :: "msg_field list" where [packet_defs]:
  "GAME_SERVER_0137 = [fld TYPE_MSG_HEADER 137, fld TYPE_ARRAY_32 64]"

definition GAME_SERVER_0138 :: "msg_field list" where [packet_defs]:
  "GAME_SERVER_0138 = [fld TYPE_MSG_HEADER 138, fld TYPE_DWORD 0, fld TYPE_DWORD 0,
    fld TYPE_DWORD 0]"

definition GAME_SERVER_0139 :: "msg_field list" where [packet_defs]:
  "GAME_SERVER_0139 = [fld TYPE_MSG_HEADER 139, fld TYPE_DWORD 0, fld TYPE_DWORD 0]"

definition GAME_SERVER_0140 :: "msg_field list" where [packet_defs]:
  "GAME_SERVER_0140 = [fld TYPE_MSG_HEADER 140, fld TYPE_DWORD 0, fld TYPE_VECT2 0, fld TYPE_WORD 0,
    fld TYPE_BYTE 0, fld TYPE_DWORD 0, fld TYPE_DWORD 0, fld TYPE_STRING_16 8]"

definition GAME_SERVER_0141 :: "msg_field list" where [packet_defs]:
  "GAME_SERVER_0141 = [fld TYPE_MSG_HEADER 141, fld TYPE_DWORD 0]"

definition GAME_SERVER_0142 :: "msg_field list" where [packet_defs]:
  "GAME_SERVER_0142 = [fld TYPE_MSG_HEADER 142, fld TYPE_DWORD 0, fld TYPE_BYTE 0]"

definition GAME_SERVER_0143 :: "msg_field list" where [packet_defs]:
  "GAME_SERVER_0143 = [fld TYPE_MSG_HEADER 143, fld TYPE_DWORD 0, fld TYPE_DWORD 0]"

definition GAME_SERVER_0144 :: "msg_field list" where [packet_defs]:
  "GAME_SERVER_0144 = [fld TYPE_MSG_HEADER 144, fld TYPE_WORD 0, fld TYPE_DWORD 0,
    fld TYPE_ARRAY_32 16]"

definition GAME_SERVER_0145 :: "msg_field list" where [packet_defs]:
  "GAME_SERVER_0145 = [fld TYPE_MSG_HEADER 145, fld TYPE_DWORD 0, fld TYPE_DWORD 0]"

definition GAME_SERVER_0146 :: "msg_field list" where [packet_defs]:
  "GAME_SERVER_0146 = [fld TYPE_MSG_HEADER 146, fld TYPE_AGENT_ID 0, fld TYPE_DWORD 0]"

definition GAME_SERVER_0147 :: "msg_field list" where [packet_defs]:
  "GAME_SERVER_0147 = [fld TYPE_MSG_HEADER 147, fld TYPE_ARRAY_32 32, fld TYPE_ARRAY_32 32,
    fld TYPE_ARRAY_32 32, fld TYPE_ARRAY_32 32, fld TYPE_ARRAY_32 32]"

definition GAME_SERVER_0148 :: "msg_field list" where [packet_defs]:
  "GAME_SERVER_0148 = [fld TYPE_MSG_HEADER 148, fld TYPE_WORD 0, fld TYPE_DWORD 0]"

definition GAME_SERVER_0149 :: "msg_field list" where [packet_defs]:
  "GAME_SERVER_0149 = [fld TYPE_MSG_HEADER 149, fld TYPE_DWORD 0, fld TYPE_DWORD 0,
    fld TYPE_DWORD 0, fld TYPE_DWORD 0, fld TYPE_DWORD 0]"

definition GAME_SERVER_0150 :: "msg_field list" where [packet_defs]:
  "GAME_SERVER_0150 = [fld TYPE_MSG_HEADER 150, fld TYPE_BYTE 0, fld TYPE_STRING_16 128]"

definition GAME_SERVER_0151 :: "msg_field list" where [packet_defs]:
  "GAME_SERVER_0151 = [fld TYPE_MSG_HEADER 151, fld TYPE_BYTE 0, fld TYPE_DWORD 0, fld TYPE_DWORD 0,
    fld TYPE_DWORD 0]"

definition GAME_SERVER_0152 :: "msg_field list" where [packet_defs]:
  "GAME_SERVER_0152 = [fld TYPE_MSG_HEADER 152, fld TYPE_WORD 0, fld TYPE_BYTE 0]"

definition GAME_SERVER_0153 :: "msg_field list" where [packet_defs]:
  "GAME_SERVER_0153 = [fld TYPE_MSG_HEADER 153, fld TYPE_AGENT_ID 0, fld TYPE_DWORD 0]"

definition GAME_SERVER_0154 :: "msg_field list" where [packet_defs]:
  "GAME_SERVER_0154 = [fld TYPE_MSG_HEADER 154, fld TYPE_AGENT_ID 0, fld TYPE_STRING_16 32]"

definition GAME_SERVER_0155 :: "msg_field list" where [packet_defs]:
  "GAME_SERVER_0155 = [fld TYPE_MSG_HEADER 155, fld TYPE_AGENT_ID 0, fld TYPE_DWORD 0]"

definition GAME_SERVER_0156 :: "msg_field list" where [packet_defs]:
  "GAME_SERVER_0156 = [fld TYPE_MSG_HEADER 156, fld TYPE_AGENT_ID 0, fld TYPE_DWORD 0,
    fld TYPE_DWORD 0]"

definition GAME_SERVER_0157 :: "msg_field list" where [packet_defs]:
  "GAME_SERVER_0157 = [fld TYPE_MSG_HEADER 157, fld TYPE_AGENT_ID 0, fld TYPE_STRING_16 32,
    fld TYPE_BYTE 0, fld TYPE_STRING_16 122]"

definition GAME_SERVER_0158 :: "msg_field list" where [packet_defs]:
  "GAME_SERVER_0158 = [fld TYPE_MSG_HEADER 158, fld TYPE_DWORD 0, fld TYPE_AGENT_ID 0,
    fld TYPE_DWORD 0]"

definition GAME_SERVER_0159 :: "msg_field list" where [packet_defs]:
  "GAME_SERVER_0159 = [fld TYPE_MSG_HEADER 159, fld TYPE_DWORD 0, fld TYPE_AGENT_ID 0,
    fld TYPE_AGENT_ID 0, fld TYPE_DWORD 0]"

definition GAME_SERVER_0160 :: "msg_field list" where [packet_defs]:
  "GAME_SERVER_0160 = [fld TYPE_MSG_HEADER 160, fld TYPE_VECT2 0, fld TYPE_WORD 0,
    fld TYPE_AGENT_ID 0, fld TYPE_WORD 0, fld TYPE_BYTE 0, fld TYPE_BYTE 0]"

definition GAME_SERVER_0161 :: "msg_field list" where [packet_defs]:
  "GAME_SERVER_0161 = [fld TYPE_MSG_HEADER 161, fld TYPE_DWORD 0, fld TYPE_AGENT_ID 0,
    fld TYPE_DWORD 0]"

definition GAME_SERVER_0162 :: "msg_field list" where [packet_defs]:
  "GAME_SERVER_0162 = [fld TYPE_MSG_HEADER 162, fld TYPE_DWORD 0, fld TYPE_AGENT_ID 0,
    fld TYPE_AGENT_ID 0, fld TYPE_DWORD 0]"

definition GAME_SERVER_0163 :: "msg_field list" where [packet_defs]:
  "GAME_SERVER_0163 = [fld TYPE_MSG_HEADER 163, fld TYPE_AGENT_ID 0, fld TYPE_VECT2 0,
    fld TYPE_WORD 0, fld TYPE_DWORD 0, fld TYPE_DWORD 0, fld TYPE_DWORD 0, fld TYPE_BYTE 0]"

definition GAME_SERVER_0164 :: "msg_field list" where [packet_defs]:
  "GAME_SERVER_0164 = [fld TYPE_MSG_HEADER 164, fld TYPE_AGENT_ID 0, fld TYPE_STRING_16 122]"

definition GAME_SERVER_0165 :: "msg_field list" where [packet_defs]:
  "GAME_SERVER_0165 = [fld TYPE_MSG_HEADER 165, fld TYPE_AGENT_ID 0, fld TYPE_BYTE 0,
    fld TYPE_BYTE 0]"

definition GAME_SERVER_0166 :: "msg_field list" where [packet_defs]:
  "GAME_SERVER_0166 = [fld TYPE_MSG_HEADER 166, fld TYPE_AGENT_ID 0, fld TYPE_DWORD 0,
    fld TYPE_DWORD 0]"

definition GAME_SERVER_0167 :: "msg_field list" where [packet_defs]:
  "GAME_SERVER_0167 = [fld TYPE_MSG_HEADER 167, fld TYPE_VECT2 0, fld TYPE_WORD 0,
    fld TYPE_DWORD 0]"

definition GAME_SERVER_0168 :: "msg_field list" where [packet_defs]:
  "GAME_SERVER_0168 = [fld TYPE_MSG_HEADER 168, fld TYPE_AGENT_ID 0, fld TYPE_DWORD 0]"

definition GAME_SERVER_0169 :: "msg_field list" where [packet_defs]:
  "GAME_SERVER_0169 = [fld TYPE_MSG_HEADER 169, fld TYPE_AGENT_ID 0, fld TYPE_DWORD 0,
    fld TYPE_DWORD 0]"

definition GAME_SERVER_0170 :: "msg_field list" where [packet_defs]:
  "GAME_SERVER_0170 = [fld TYPE_MSG_HEADER 170]"

definition GAME_SERVER_0171 :: "msg_field list" where [packet_defs]:
  "GAME_SERVER_0171 = [fld TYPE_MSG_HEADER 171, fld TYPE_AGENT_ID 0, fld TYPE_BYTE 0]"

definition GAME_SERVER_0172 :: "msg_field list" where [packet_defs]:
  "GAME_SERVER_0172 = [fld TYPE_MSG_HEADER 172, fld TYPE_DWORD 0, fld TYPE_BYTE 0]"

definition GAME_SERVER_0173 :: "msg_field list" where [packet_defs]:
  "GAME_SERVER_0173 = [fld TYPE_MSG_HEADER 173, fld TYPE_AGENT_ID 0, fld TYPE_DWORD 0]"

definition GAME_SERVER_0174 :: "msg_field list" where [packet_defs]:
  "GAME_SERVER_0174 = [fld TYPE_MSG_HEADER 174, fld TYPE_STRING_16 32]"

definition GAME_SERVER_0175 :: "msg_field list" where [packet_defs]:
  "GAME_SERVER_0175 = [fld TYPE_MSG_HEADER 175, fld TYPE_WORD 0, fld TYPE_BYTE 0]"

definition GAME_SERVER_0176 :: "msg_field list" where [packet_defs]:
  "GAME_SERVER_0176 = [fld TYPE_MSG_HEADER 176, fld TYPE_WORD 0, fld TYPE_WORD 0]"

definition GAME_SERVER_0177 :: "msg_field list" where [packet_defs]:
  "GAME_SERVER_0177 = [fld TYPE_MSG_HEADER 177, fld TYPE_AGENT_ID 0, fld TYPE_AGENT_ID 0,
    fld TYPE_STRING_16 32, fld TYPE_DWORD 0, fld TYPE_DWORD 0, fld TYPE_DWORD 0]"

definition GAME_SERVER_0178 :: "msg_field list" where [packet_defs]:
  "GAME_SERVER_0178 = [fld TYPE_MSG_HEADER 178, fld TYPE_AGENT_ID 0]"

definition GAME_SERVER_0179 :: "msg_field list" where [packet_defs]:
  "GAME_SERVER_0179 = [fld TYPE_MSG_HEADER 179, fld TYPE_AGENT_ID 0, fld TYPE_STRING_16 32]"

definition GAME_SERVER_0180 :: "msg_field list" where [packet_defs]:
  "GAME_SERVER_0180 = [fld TYPE_MSG_HEADER 180, fld TYPE_ARRAY_8 256]"

definition GAME_SERVER_0181 :: "msg_field list" where [packet_defs]:
  "GAME_SERVER_0181 = [fld TYPE_MSG_HEADER 181, fld TYPE_AGENT_ID 0, fld TYPE_DWORD 0]"

definition GAME_SERVER_0182 :: "msg_field list" where [packet_defs]:
  "GAME_SERVER_0182 = [fld TYPE_MSG_HEADER 182, fld TYPE_AGENT_ID 0, fld TYPE_BYTE 0,
    fld TYPE_BYTE 0, fld TYPE_BYTE 0]"

definition GAME_SERVER_0183 :: "msg_field list" where [packet_defs]:
  "GAME_SERVER_0183 = [fld TYPE_MSG_HEADER 183]"

definition GAME_SERVER_0184 :: "msg_field list" where [packet_defs]:
  "GAME_SERVER_0184 = [fld TYPE_MSG_HEADER 184, fld TYPE_STRING_16 128, fld TYPE_DWORD 0]"

definition GAME_SERVER_0185 :: "msg_field list" where [packet_defs]:
  "GAME_SERVER_0185 = [fld TYPE_MSG_HEADER 185]"

definition GAME_SERVER_0186 :: "msg_field list" where [packet_defs]:
  "GAME_SERVER_0186 = [fld TYPE_MSG_HEADER 186, fld TYPE_DWORD 0, fld TYPE_DWORD 0,
    fld TYPE_STRING_16 128]"

definition GAME_SERVER_0187 :: "msg_field list" where [packet_defs]:
  "GAME_SERVER_0187 = [fld TYPE_MSG_HEADER 187, fld TYPE_DWORD 0]"

definition GAME_SERVER_0188 :: "msg_field list" where [packet_defs]:
  "GAME_SERVER_0188 = [fld TYPE_MSG_HEADER 188, fld TYPE_DWORD 0, fld TYPE_STRING_16 128]"

definition GAME_SERVER_0189 :: "msg_field list" where [packet_defs]:
  "GAME_SERVER_0189 = [fld TYPE_MSG_HEADER 189, fld TYPE_AGENT_ID 0]"

definition GAME_SERVER_0190 :: "msg_field list" where [packet_defs]:
  "GAME_SERVER_0190 = [fld TYPE_MSG_HEADER 190, fld TYPE_ARRAY_32 64]"

definition GAME_SERVER_0191 :: "msg_field list" where [packet_defs]:
  "GAME_SERVER_0191 = [fld TYPE_MSG_HEADER 191, fld TYPE_DWORD 0, fld TYPE_DWORD 0,
    fld TYPE_DWORD 0, fld TYPE_STRING_16 128, fld TYPE_STRING_16 128]"

definition GAME_SERVER_0192 :: "msg_field list" where [packet_defs]:
  "GAME_SERVER_0192 = [fld TYPE_MSG_HEADER 192, fld TYPE_DWORD 0, fld TYPE_DWORD 0]"

definition GAME_SERVER_0193 :: "msg_field list" where [packet_defs]:
  "GAME_SERVER_0193 = [fld TYPE_MSG_HEADER 193, fld TYPE_DWORD 0, fld TYPE_DWORD 0]"

definition GAME_SERVER_0194 :: "msg_field list" where [packet_defs]:
  "GAME_SERVER_0194 = [fld TYPE_MSG_HEADER 194, fld TYPE_BYTE 0, fld TYPE_DWORD 0]"

definition GAME_SERVER_0195 :: "msg_field list" where [packet_defs]:
  "GAME_SERVER_0195 = [fld TYPE_MSG_HEADER 195, fld TYPE_AGENT_ID 0]"

definition GAME_SERVER_0196 :: "msg_field list" where [packet_defs]:
  "GAME_SERVER_0196 = [fld TYPE_MSG_HEADER 196, fld TYPE_BYTE 0, fld TYPE_STRING_16 122]"

definition GAME_SERVER_0197 :: "msg_field list" where [packet_defs]:
  "GAME_SERVER_0197 = [fld TYPE_MSG_HEADER 197, fld TYPE_BYTE 0, fld TYPE_DWORD 0]"

definition GAME_SERVER_0198 :: "msg_field list" where [packet_defs]:
  "GAME_SERVER_0198 = [fld TYPE_MSG_HEADER 198, fld TYPE_BYTE 0, fld TYPE_DWORD 0,
    fld TYPE_ARRAY_32 16]"

definition GAME_SERVER_0199 :: "msg_field list" where [packet_defs]:
  "GAME_SERVER_0199 = [fld TYPE_MSG_HEADER 199, fld TYPE_BYTE 0, fld TYPE_DWORD 0,
    fld TYPE_DWORD 0]"

definition GAME_SERVER_0200 :: "msg_field list" where [packet_defs]:
  "GAME_SERVER_0200 = [fld TYPE_MSG_HEADER 200, fld TYPE_BYTE 0, fld TYPE_BYTE 0]"

definition GAME_SERVER_0201 :: "msg_field list" where [packet_defs]:
  "GAME_SERVER_0201 = [fld TYPE_MSG_HEADER 201, fld TYPE_BYTE 0, fld TYPE_DWORD 0]"

definition GAME_SERVER_0202 :: "msg_field list" where [packet_defs]:
  "GAME_SERVER_0202 = [fld TYPE_MSG_HEADER 202, fld TYPE_BYTE 0]"

definition GAME_SERVER_0203 :: "msg_field list" where [packet_defs]:
  "GAME_SERVER_0203 = [fld TYPE_MSG_HEADER 203, fld TYPE_BYTE 0]"

definition GAME_SERVER_0204 :: "msg_field list" where [packet_defs]:
  "GAME_SERVER_0204 = [fld TYPE_MSG_HEADER 204, fld TYPE_BYTE 0, fld TYPE_DWORD 0, fld TYPE_BYTE 0,
    fld TYPE_BYTE 0]"

definition GAME_SERVER_0205 :: "msg_field list" where [packet_defs]:
  "GAME_SERVER_0205 = [fld TYPE_MSG_HEADER 205, fld TYPE_DWORD 0, fld TYPE_DWORD 0]"

definition GAME_SERVER_0206 :: "msg_field list" where [packet_defs]:
  "GAME_SERVER_0206 = [fld TYPE_MSG_HEADER 206, fld TYPE_AGENT_ID 0, fld TYPE_DWORD 0]"

definition GAME_SERVER_0207 :: "msg_field list" where [packet_defs]:
  "GAME_SERVER_0207 = [fld TYPE_MSG_HEADER 207, fld TYPE_AGENT_ID 0]"

definition GAME_SERVER_0208 :: "msg_field list" where [packet_defs]:
  "GAME_SERVER_0208 = [fld TYPE_MSG_HEADER 208, fld TYPE_AGENT_ID 0, fld TYPE_WORD 0,
    fld TYPE_DWORD 0, fld TYPE_DWORD 0]"

definition GAME_SERVER_0209 :: "msg_field list" where [packet_defs]:
  "GAME_SERVER_0209 = [fld TYPE_MSG_HEADER 209, fld TYPE_AGENT_ID 0, fld TYPE_WORD 0,
    fld TYPE_DWORD 0]"

definition GAME_SERVER_0210 :: "msg_field list" where [packet_defs]:
  "GAME_SERVER_0210 = [fld TYPE_MSG_HEADER 210, fld TYPE_ARRAY_32 128]"

definition GAME_SERVER_0211 :: "msg_field list" where [packet_defs]:
  "GAME_SERVER_0211 = [fld TYPE_MSG_HEADER 211]"

definition GAME_SERVER_0212 :: "msg_field list" where [packet_defs]:
  "GAME_SERVER_0212 = [fld TYPE_MSG_HEADER 212]"

definition GAME_SERVER_0213 :: "msg_field list" where [packet_defs]:
  "GAME_SERVER_0213 = [fld TYPE_MSG_HEADER 213, fld TYPE_WORD 0, fld TYPE_WORD 0, fld TYPE_DWORD 0]"

definition GAME_SERVER_0214 :: "msg_field list" where [packet_defs]:
  "GAME_SERVER_0214 = [fld TYPE_MSG_HEADER 214, fld TYPE_ARRAY_32 8]"

definition GAME_SERVER_0215 :: "msg_field list" where [packet_defs]:
  "GAME_SERVER_0215 = [fld TYPE_MSG_HEADER 215, fld TYPE_ARRAY_32 4]"

definition GAME_SERVER_0216 :: "msg_field list" where [packet_defs]:
  "GAME_SERVER_0216 = [fld TYPE_MSG_HEADER 216, fld TYPE_AGENT_ID 0, fld TYPE_BYTE 0,
    fld TYPE_WORD 0, fld TYPE_DWORD 0]"

definition GAME_SERVER_0217 :: "msg_field list" where [packet_defs]:
  "GAME_SERVER_0217 = [fld TYPE_MSG_HEADER 217, fld TYPE_AGENT_ID 0, fld TYPE_ARRAY_32 8,
    fld TYPE_ARRAY_32 8, fld TYPE_BYTE 0]"

definition GAME_SERVER_0218 :: "msg_field list" where [packet_defs]:
  "GAME_SERVER_0218 = [fld TYPE_MSG_HEADER 218, fld TYPE_ARRAY_32 128]"

definition GAME_SERVER_0219 :: "msg_field list" where [packet_defs]:
  "GAME_SERVER_0219 = [fld TYPE_MSG_HEADER 219, fld TYPE_WORD 0, fld TYPE_DWORD 0]"

definition GAME_SERVER_0220 :: "msg_field list" where [packet_defs]:
  "GAME_SERVER_0220 = [fld TYPE_MSG_HEADER 220, fld TYPE_WORD 0, fld TYPE_DWORD 0]"

definition GAME_SERVER_0221 :: "msg_field list" where [packet_defs]:
  "GAME_SERVER_0221 = [fld TYPE_MSG_HEADER 221, fld TYPE_WORD 0]"

definition GAME_SERVER_0222 :: "msg_field list" where [packet_defs]:
  "GAME_SERVER_0222 = [fld TYPE_MSG_HEADER 222, fld TYPE_AGENT_ID 0, fld TYPE_DWORD 0]"

definition GAME_SERVER_0223 :: "msg_field list" where [packet_defs]:
  "GAME_SERVER_0223 = [fld TYPE_MSG_HEADER 223, fld TYPE_BYTE 0, fld TYPE_ARRAY_32 16]"

definition GAME_SERVER_0224 :: "msg_field list" where [packet_defs]:
  "GAME_SERVER_0224 = [fld TYPE_MSG_HEADER 224, fld TYPE_BYTE 0]"

definition GAME_SERVER_0225 :: "msg_field list" where [packet_defs]:
  "GAME_SERVER_0225 = [fld TYPE_MSG_HEADER 225, fld TYPE_AGENT_ID 0, fld TYPE_WORD 0,
    fld TYPE_DWORD 0]"

definition GAME_SERVER_0226 :: "msg_field list" where [packet_defs]:
  "GAME_SERVER_0226 = [fld TYPE_MSG_HEADER 226, fld TYPE_AGENT_ID 0, fld TYPE_WORD 0,
    fld TYPE_DWORD 0]"

definition GAME_SERVER_0227 :: "msg_field list" where [packet_defs]:
  "GAME_SERVER_0227 = [fld TYPE_MSG_HEADER 227, fld TYPE_AGENT_ID 0, fld TYPE_WORD 0,
    fld TYPE_DWORD 0]"

definition GAME_SERVER_0228 :: "msg_field list" where [packet_defs]:
  "GAME_SERVER_0228 = [fld TYPE_MSG_HEADER 228, fld TYPE_AGENT_ID 0, fld TYPE_WORD 0,
    fld TYPE_DWORD 0, fld TYPE_DWORD 0]"

definition GAME_SERVER_0229 :: "msg_field list" where [packet_defs]:
  "GAME_SERVER_0229 = [fld TYPE_MSG_HEADER 229, fld TYPE_AGENT_ID 0, fld TYPE_WORD 0,
    fld TYPE_DWORD 0]"

definition GAME_SERVER_0230 :: "msg_field list" where [packet_defs]:
  "GAME_SERVER_0230 = [fld TYPE_MSG_HEADER 230, fld TYPE_AGENT_ID 0, fld TYPE_WORD 0,
    fld TYPE_DWORD 0]"

definition GAME_SERVER_0231 :: "msg_field list" where [packet_defs]:
  "GAME_SERVER_0231 = [fld TYPE_MSG_HEADER 231, fld TYPE_AGENT_ID 0, fld TYPE_WORD 0,
    fld TYPE_DWORD 0, fld TYPE_DWORD 0, fld TYPE_DWORD 0]"

definition GAME_SERVER_0232 :: "msg_field list" where [packet_defs]:
  "GAME_SERVER_0232 = [fld TYPE_MSG_HEADER 232, fld TYPE_DWORD 0, fld TYPE_DWORD 0,
    fld TYPE_DWORD 0, fld TYPE_DWORD 0, fld TYPE_DWORD 0, fld TYPE_DWORD 0, fld TYPE_DWORD 0,
    fld TYPE_DWORD 0, fld TYPE_DWORD 0, fld TYPE_DWORD 0, fld TYPE_DWORD 0, fld TYPE_DWORD 0,
    fld TYPE_DWORD 0, fld TYPE_DWORD 0, fld TYPE_DWORD 0]"

definition GAME_SERVER_0233 :: "msg_field list" where [packet_defs]:
  "GAME_SERVER_0233 = [fld TYPE_MSG_HEADER 233, fld TYPE_DWORD 0]"

definition GAME_SERVER_0234 :: "msg_field list" where [packet_defs]:
  "GAME_SERVER_0234 = [fld TYPE_MSG_HEADER 234, fld TYPE_DWORD 0]"

definition GAME_SERVER_0235 :: "msg_field list" where [packet_defs]:
  "GAME_SERVER_0235 = [fld TYPE_MSG_HEADER 235, fld TYPE_DWORD 0]"

definition GAME_SERVER_0236 :: "msg_field list" where [packet_defs]:
  "GAME_SERVER_0236 = [fld TYPE_MSG_HEADER 236, fld TYPE_DWORD 0]"

definition GAME_SERVER_0237 :: "msg_field list" where [packet_defs]:
  "GAME_SERVER_0237 = [fld TYPE_MSG_HEADER 237, fld TYPE_DWORD 0, fld TYPE_DWORD 0]"

definition GAME_SERVER_0238 :: "msg_field list" where [packet_defs]:
  "GAME_SERVER_0238 = [fld TYPE_MSG_HEADER 238, fld TYPE_DWORD 0, fld TYPE_DWORD 0]"

definition GAME_SERVER_0239 :: "msg_field list" where [packet_defs]:
  "GAME_SERVER_0239 = [fld TYPE_MSG_HEADER 239, fld TYPE_AGENT_ID 0, fld TYPE_DWORD 0]"

definition GAME_SERVER_0240 :: "msg_field list" where [packet_defs]:
  "GAME_SERVER_0240 = [fld TYPE_MSG_HEADER 240, fld TYPE_AGENT_ID 0, fld TYPE_DWORD 0]"

definition GAME_SERVER_0241 :: "msg_field list" where [packet_defs]:
  "GAME_SERVER_0241 = [fld TYPE_MSG_HEADER 241, fld TYPE_DWORD 0]"

definition GAME_SERVER_0242 :: "msg_field list" where [packet_defs]:
  "GAME_SERVER_0242 = [fld TYPE_MSG_HEADER 242, fld TYPE_DWORD 0, fld TYPE_DWORD 0,
    fld TYPE_DWORD 0, fld TYPE_STRING_16 8]"

definition GAME_SERVER_0243 :: "msg_field list" where [packet_defs]:
  "GAME_SERVER_0243 = [fld TYPE_MSG_HEADER 243, fld TYPE_WORD 0, fld TYPE_DWORD 0]"

definition GAME_SERVER_0244 :: "msg_field list" where [packet_defs]:
  "GAME_SERVER_0244 = [fld TYPE_MSG_HEADER 244, fld TYPE_DWORD 0, fld TYPE_DWORD 0]"

definition GAME_SERVER_0245 :: "msg_field list" where [packet_defs]:
  "GAME_SERVER_0245 = [fld TYPE_MSG_HEADER 245, fld TYPE_DWORD 0, fld TYPE_DWORD 0,
    fld TYPE_DWORD 0, fld TYPE_DWORD 0, fld TYPE_DWORD 0, fld TYPE_DWORD 0, fld TYPE_DWORD 0,
    fld TYPE_DWORD 0, fld TYPE_DWORD 0, fld TYPE_STRING_16 8, fld TYPE_STRING_16 8]"

definition GAME_SERVER_0246 :: "msg_field list" where [packet_defs]:
  "GAME_SERVER_0246 = [fld TYPE_MSG_HEADER 246, fld TYPE_DWORD 0, fld TYPE_DWORD 0]"

definition GAME_SERVER_0247 :: "msg_field list" where [packet_defs]:
  "GAME_SERVER_0247 = [fld TYPE_MSG_HEADER 247, fld TYPE_AGENT_ID 0]"

definition GAME_SERVER_0248 :: "msg_field list" where [packet_defs]:
  "GAME_SERVER_0248 = [fld TYPE_MSG_HEADER 248, fld TYPE_ARRAY_32 16]"

definition GAME_SERVER_0249 :: "msg_field list" where [packet_defs]:
  "GAME_SERVER_0249 = [fld TYPE_MSG_HEADER 249, fld TYPE_ARRAY_32 32]"

definition GAME_SERVER_0250 :: "msg_field list" where [packet_defs]:
  "GAME_SERVER_0250 = [fld TYPE_MSG_HEADER 250, fld TYPE_WORD 0, fld TYPE_DWORD 0,
    fld TYPE_DWORD 0]"

definition GAME_SERVER_0251 :: "msg_field list" where [packet_defs]:
  "GAME_SERVER_0251 = [fld TYPE_MSG_HEADER 251, fld TYPE_DWORD 0, fld TYPE_DWORD 0]"

definition GAME_SERVER_0252 :: "msg_field list" where [packet_defs]:
  "GAME_SERVER_0252 = [fld TYPE_MSG_HEADER 252, fld TYPE_STRING_16 32, fld TYPE_BYTE 0]"

definition GAME_SERVER_0253 :: "msg_field list" where [packet_defs]:
  "GAME_SERVER_0253 = [fld TYPE_MSG_HEADER 253]"

definition GAME_SERVER_0254 :: "msg_field list" where [packet_defs]:
  "GAME_SERVER_0254 = [fld TYPE_MSG_HEADER 254, fld TYPE_BYTE 0, fld TYPE_BYTE 0]"

definition GAME_SERVER_0255 :: "msg_field list" where [packet_defs]:
  "GAME_SERVER_0255 = [fld TYPE_MSG_HEADER 255, fld TYPE_BYTE 0]"

definition GAME_SERVER_0256 :: "msg_field list" where [packet_defs]:
  "GAME_SERVER_0256 = [fld TYPE_MSG_HEADER 256, fld TYPE_BYTE 0]"

definition GAME_SERVER_0257 :: "msg_field list" where [packet_defs]:
  "GAME_SERVER_0257 = [fld TYPE_MSG_HEADER 257, fld TYPE_DWORD 0, fld TYPE_WORD 0,
    fld TYPE_STRING_16 80]"

definition GAME_SERVER_0258 :: "msg_field list" where [packet_defs]:
  "GAME_SERVER_0258 = [fld TYPE_MSG_HEADER 258]"

definition GAME_SERVER_0259 :: "msg_field list" where [packet_defs]:
  "GAME_SERVER_0259 = [fld TYPE_MSG_HEADER 259, fld TYPE_ARRAY_8 1024]"

definition GAME_SERVER_0260 :: "msg_field list" where [packet_defs]:
  "GAME_SERVER_0260 = [fld TYPE_MSG_HEADER 260]"

definition GAME_SERVER_0261 :: "msg_field list" where [packet_defs]:
  "GAME_SERVER_0261 = [fld TYPE_MSG_HEADER 261, fld TYPE_DWORD 0]"

definition GAME_SERVER_0262 :: "msg_field list" where [packet_defs]:
  "GAME_SERVER_0262 = [fld TYPE_MSG_HEADER 262, fld TYPE_AGENT_ID 0, fld TYPE_DWORD 0,
    fld TYPE_DWORD 0, fld TYPE_BYTE 0, fld TYPE_STRING_16 32]"

definition GAME_SERVER_0263 :: "msg_field list" where [packet_defs]:
  "GAME_SERVER_0263 = [fld TYPE_MSG_HEADER 263, fld TYPE_AGENT_ID 0]"

definition GAME_SERVER_0264 :: "msg_field list" where [packet_defs]:
  "GAME_SERVER_0264 = [fld TYPE_MSG_HEADER 264, fld TYPE_DWORD 0, fld TYPE_STRING_16 122]"

definition GAME_SERVER_0265 :: "msg_field list" where [packet_defs]:
  "GAME_SERVER_0265 = [fld TYPE_MSG_HEADER 265, fld TYPE_BYTE 0, fld TYPE_STRING_16 122,
    fld TYPE_DWORD 0, fld TYPE_WORD 0]"

definition GAME_SERVER_0266 :: "msg_field list" where [packet_defs]:
  "GAME_SERVER_0266 = [fld TYPE_MSG_HEADER 266, fld TYPE_STRING_16 122]"

definition GAME_SERVER_0267 :: "msg_field list" where [packet_defs]:
  "GAME_SERVER_0267 = [fld TYPE_MSG_HEADER 267, fld TYPE_DWORD 0]"

definition GAME_SERVER_0268 :: "msg_field list" where [packet_defs]:
  "GAME_SERVER_0268 = [fld TYPE_MSG_HEADER 268, fld TYPE_DWORD 0]"

definition GAME_SERVER_0269 :: "msg_field list" where [packet_defs]:
  "GAME_SERVER_0269 = [fld TYPE_MSG_HEADER 269, fld TYPE_WORD 0, fld TYPE_BYTE 0, fld TYPE_DWORD 0]"

definition GAME_SERVER_0270 :: "msg_field list" where [packet_defs]:
  "GAME_SERVER_0270 = [fld TYPE_MSG_HEADER 270, fld TYPE_WORD 0, fld TYPE_BYTE 0]"

definition GAME_SERVER_0271 :: "msg_field list" where [packet_defs]:
  "GAME_SERVER_0271 = [fld TYPE_MSG_HEADER 271, fld TYPE_WORD 0, fld TYPE_DWORD 0]"

definition GAME_SERVER_0272 :: "msg_field list" where [packet_defs]:
  "GAME_SERVER_0272 = [fld TYPE_MSG_HEADER 272, fld TYPE_WORD 0, fld TYPE_DWORD 0,
    fld TYPE_DWORD 0]"

definition GAME_SERVER_0273 :: "msg_field list" where [packet_defs]:
  "GAME_SERVER_0273 = [fld TYPE_MSG_HEADER 273, fld TYPE_DWORD 0, fld TYPE_BYTE 0]"

definition GAME_SERVER_0274 :: "msg_field list" where [packet_defs]:
  "GAME_SERVER_0274 = [fld TYPE_MSG_HEADER 274, fld TYPE_DWORD 0, fld TYPE_STRING_16 32]"

definition GAME_SERVER_0275 :: "msg_field list" where [packet_defs]:
  "GAME_SERVER_0275 = [fld TYPE_MSG_HEADER 275, fld TYPE_DWORD 0, fld TYPE_DWORD 0]"

definition GAME_SERVER_0276 :: "msg_field list" where [packet_defs]:
  "GAME_SERVER_0276 = [fld TYPE_MSG_HEADER 276, fld TYPE_DWORD 0, fld TYPE_DWORD 0]"

definition GAME_SERVER_0277 :: "msg_field list" where [packet_defs]:
  "GAME_SERVER_0277 = [fld TYPE_MSG_HEADER 277, fld TYPE_WORD 0, fld TYPE_BLOB 16, fld TYPE_BYTE 0,
    fld TYPE_DWORD 0]"

definition GAME_SERVER_0278 :: "msg_field list" where [packet_defs]:
  "GAME_SERVER_0278 = [fld TYPE_MSG_HEADER 278, fld TYPE_BLOB 16]"

definition GAME_SERVER_0279 :: "msg_field list" where [packet_defs]:
  "GAME_SERVER_0279 = [fld TYPE_MSG_HEADER 279, fld TYPE_WORD 0, fld TYPE_BLOB 16, fld TYPE_BYTE 0]"

definition GAME_SERVER_0280 :: "msg_field list" where [packet_defs]:
  "GAME_SERVER_0280 = [fld TYPE_MSG_HEADER 280]"

definition GAME_SERVER_0281 :: "msg_field list" where [packet_defs]:
  "GAME_SERVER_0281 = [fld TYPE_MSG_HEADER 281, fld TYPE_WORD 0, fld TYPE_BYTE 0, fld TYPE_BYTE 0,
    fld TYPE_DWORD 0, fld TYPE_STRING_16 32, fld TYPE_STRING_16 6, fld TYPE_BYTE 0, fld TYPE_BYTE 0,
    fld TYPE_BYTE 0, fld TYPE_BYTE 0, fld TYPE_BYTE 0, fld TYPE_WORD 0, fld TYPE_BYTE 0]"

definition GAME_SERVER_0282 :: "msg_field list" where [packet_defs]:
  "GAME_SERVER_0282 = [fld TYPE_MSG_HEADER 282, fld TYPE_DWORD 0, fld TYPE_BYTE 0]"

definition GAME_SERVER_0283 :: "msg_field list" where [packet_defs]:
  "GAME_SERVER_0283 = [fld TYPE_MSG_HEADER 283]"

definition GAME_SERVER_0284 :: "msg_field list" where [packet_defs]:
  "GAME_SERVER_0284 = [fld TYPE_MSG_HEADER 284, fld TYPE_BYTE 0]"

definition GAME_SERVER_0285 :: "msg_field list" where [packet_defs]:
  "GAME_SERVER_0285 = [fld TYPE_MSG_HEADER 285, fld TYPE_WORD 0, fld TYPE_DWORD 0]"

definition GAME_SERVER_0286 :: "msg_field list" where [packet_defs]:
  "GAME_SERVER_0286 = [fld TYPE_MSG_HEADER 286, fld TYPE_DWORD 0, fld TYPE_STRING_16 64]"

definition GAME_SERVER_0287 :: "msg_field list" where [packet_defs]:
  "GAME_SERVER_0287 = [fld TYPE_MSG_HEADER 287, fld TYPE_WORD 0, fld TYPE_BLOB 16,
    fld TYPE_STRING_16 32, fld TYPE_STRING_16 6, fld TYPE_BYTE 0, fld TYPE_BYTE 0, fld TYPE_BYTE 0,
    fld TYPE_BYTE 0, fld TYPE_BYTE 0, fld TYPE_BYTE 0, fld TYPE_WORD 0, fld TYPE_BYTE 0,
    fld TYPE_BYTE 0, fld TYPE_DWORD 0, fld TYPE_BYTE 0]"

definition GAME_SERVER_0288 :: "msg_field list" where [packet_defs]:
  "GAME_SERVER_0288 = [fld TYPE_MSG_HEADER 288, fld TYPE_WORD 0, fld TYPE_BLOB 16,
    fld TYPE_STRING_16 32, fld TYPE_STRING_16 6, fld TYPE_BYTE 0, fld TYPE_BYTE 0, fld TYPE_BYTE 0,
    fld TYPE_BYTE 0, fld TYPE_BYTE 0, fld TYPE_BYTE 0, fld TYPE_BYTE 0, fld TYPE_WORD 0,
    fld TYPE_BYTE 0, fld TYPE_BYTE 0, fld TYPE_DWORD 0, fld TYPE_DWORD 0, fld TYPE_DWORD 0,
    fld TYPE_DWORD 0, fld TYPE_BYTE 0]"

definition GAME_SERVER_0289 :: "msg_field list" where [packet_defs]:
  "GAME_SERVER_0289 = [fld TYPE_MSG_HEADER 289, fld TYPE_WORD 0, fld TYPE_BYTE 0, fld TYPE_DWORD 0]"

definition GAME_SERVER_0290 :: "msg_field list" where [packet_defs]:
  "GAME_SERVER_0290 = [fld TYPE_MSG_HEADER 290, fld TYPE_BLOB 16, fld TYPE_STRING_16 32,
    fld TYPE_STRING_16 6, fld TYPE_STRING_16 20, fld TYPE_DWORD 0, fld TYPE_DWORD 0,
    fld TYPE_BYTE 0]"

definition GAME_SERVER_0291 :: "msg_field list" where [packet_defs]:
  "GAME_SERVER_0291 = [fld TYPE_MSG_HEADER 291, fld TYPE_BLOB 16, fld TYPE_BYTE 0]"

definition GAME_SERVER_0292 :: "msg_field list" where [packet_defs]:
  "GAME_SERVER_0292 = [fld TYPE_MSG_HEADER 292, fld TYPE_WORD 0, fld TYPE_DWORD 0]"

definition GAME_SERVER_0293 :: "msg_field list" where [packet_defs]:
  "GAME_SERVER_0293 = [fld TYPE_MSG_HEADER 293, fld TYPE_WORD 0, fld TYPE_BYTE 0]"

definition GAME_SERVER_0294 :: "msg_field list" where [packet_defs]:
  "GAME_SERVER_0294 = [fld TYPE_MSG_HEADER 294, fld TYPE_STRING_16 20, fld TYPE_STRING_16 20,
    fld TYPE_STRING_16 20, fld TYPE_STRING_16 64, fld TYPE_DWORD 0, fld TYPE_DWORD 0,
    fld TYPE_DWORD 0, fld TYPE_DWORD 0, fld TYPE_BYTE 0]"

definition GAME_SERVER_0295 :: "msg_field list" where [packet_defs]:
  "GAME_SERVER_0295 = [fld TYPE_MSG_HEADER 295, fld TYPE_STRING_16 20]"

definition GAME_SERVER_0296 :: "msg_field list" where [packet_defs]:
  "GAME_SERVER_0296 = [fld TYPE_MSG_HEADER 296, fld TYPE_STRING_16 20]"

definition GAME_SERVER_0297 :: "msg_field list" where [packet_defs]:
  "GAME_SERVER_0297 = [fld TYPE_MSG_HEADER 297, fld TYPE_STRING_16 20]"

definition GAME_SERVER_0298 :: "msg_field list" where [packet_defs]:
  "GAME_SERVER_0298 = [fld TYPE_MSG_HEADER 298, fld TYPE_DWORD 0, fld TYPE_STRING_16 64]"

definition GAME_SERVER_0299 :: "msg_field list" where [packet_defs]:
  "GAME_SERVER_0299 = [fld TYPE_MSG_HEADER 299, fld TYPE_DWORD 0, fld TYPE_DWORD 0]"

definition GAME_SERVER_0300 :: "msg_field list" where [packet_defs]:
  "GAME_SERVER_0300 = [fld TYPE_MSG_HEADER 300, fld TYPE_BYTE 0]"

definition GAME_SERVER_0301 :: "msg_field list" where [packet_defs]:
  "GAME_SERVER_0301 = [fld TYPE_MSG_HEADER 301, fld TYPE_WORD 0]"

definition GAME_SERVER_0302 :: "msg_field list" where [packet_defs]:
  "GAME_SERVER_0302 = [fld TYPE_MSG_HEADER 302, fld TYPE_STRING_16 256, fld TYPE_STRING_16 20]"

definition GAME_SERVER_0303 :: "msg_field list" where [packet_defs]:
  "GAME_SERVER_0303 = [fld TYPE_MSG_HEADER 303, fld TYPE_WORD 0, fld TYPE_DWORD 0]"

definition GAME_SERVER_0304 :: "msg_field list" where [packet_defs]:
  "GAME_SERVER_0304 = [fld TYPE_MSG_HEADER 304]"

definition GAME_SERVER_0305 :: "msg_field list" where [packet_defs]:
  "GAME_SERVER_0305 = [fld TYPE_MSG_HEADER 305, fld TYPE_DWORD 0, fld TYPE_BYTE 0]"

definition GAME_SERVER_0306 :: "msg_field list" where [packet_defs]:
  "GAME_SERVER_0306 = [fld TYPE_MSG_HEADER 306, fld TYPE_DWORD 0]"

definition GAME_SERVER_0307 :: "msg_field list" where [packet_defs]:
  "GAME_SERVER_0307 = [fld TYPE_MSG_HEADER 307]"

definition GAME_SERVER_0308 :: "msg_field list" where [packet_defs]:
  "GAME_SERVER_0308 = [fld TYPE_MSG_HEADER 308, fld TYPE_DWORD 0, fld TYPE_WORD 0,
    fld TYPE_DWORD 0]"

definition GAME_SERVER_0309 :: "msg_field list" where [packet_defs]:
  "GAME_SERVER_0309 = [fld TYPE_MSG_HEADER 309, fld TYPE_DWORD 0]"

definition GAME_SERVER_0310 :: "msg_field list" where [packet_defs]:
  "GAME_SERVER_0310 = [fld TYPE_MSG_HEADER 310, fld TYPE_DWORD 0, fld TYPE_DWORD 0]"

definition GAME_SERVER_0311 :: "msg_field list" where [packet_defs]:
  "GAME_SERVER_0311 = [fld TYPE_MSG_HEADER 311, fld TYPE_DWORD 0, fld TYPE_BYTE 0,
    fld TYPE_STRING_16 8, fld TYPE_STRING_16 8, fld TYPE_STRING_16 8, fld TYPE_STRING_16 8]"

definition GAME_SERVER_0312 :: "msg_field list" where [packet_defs]:
  "GAME_SERVER_0312 = [fld TYPE_MSG_HEADER 312, fld TYPE_DWORD 0, fld TYPE_DWORD 0]"

definition GAME_SERVER_0313 :: "msg_field list" where [packet_defs]:
  "GAME_SERVER_0313 = [fld TYPE_MSG_HEADER 313, fld TYPE_DWORD 0, fld TYPE_STRING_16 32]"

definition GAME_SERVER_0314 :: "msg_field list" where [packet_defs]:
  "GAME_SERVER_0314 = [fld TYPE_MSG_HEADER 314, fld TYPE_DWORD 0, fld TYPE_DWORD 0]"

definition GAME_SERVER_0315 :: "msg_field list" where [packet_defs]:
  "GAME_SERVER_0315 = [fld TYPE_MSG_HEADER 315, fld TYPE_BYTE 0, fld TYPE_DWORD 0]"

definition GAME_SERVER_0316 :: "msg_field list" where [packet_defs]:
  "GAME_SERVER_0316 = [fld TYPE_MSG_HEADER 316, fld TYPE_DWORD 0, fld TYPE_WORD 0, fld TYPE_BYTE 0]"

definition GAME_SERVER_0317 :: "msg_field list" where [packet_defs]:
  "GAME_SERVER_0317 = [fld TYPE_MSG_HEADER 317, fld TYPE_WORD 0, fld TYPE_DWORD 0, fld TYPE_WORD 0,
    fld TYPE_BYTE 0]"

definition GAME_SERVER_0318 :: "msg_field list" where [packet_defs]:
  "GAME_SERVER_0318 = [fld TYPE_MSG_HEADER 318, fld TYPE_WORD 0, fld TYPE_BYTE 0, fld TYPE_BYTE 0,
    fld TYPE_WORD 0, fld TYPE_BYTE 0, fld TYPE_DWORD 0]"

definition GAME_SERVER_0319 :: "msg_field list" where [packet_defs]:
  "GAME_SERVER_0319 = [fld TYPE_MSG_HEADER 319, fld TYPE_WORD 0, fld TYPE_DWORD 0]"

definition GAME_SERVER_0320 :: "msg_field list" where [packet_defs]:
  "GAME_SERVER_0320 = [fld TYPE_MSG_HEADER 320, fld TYPE_WORD 0, fld TYPE_DWORD 0]"

definition GAME_SERVER_0321 :: "msg_field list" where [packet_defs]:
  "GAME_SERVER_0321 = [fld TYPE_MSG_HEADER 321, fld TYPE_WORD 0]"

definition GAME_SERVER_0322 :: "msg_field list" where [packet_defs]:
  "GAME_SERVER_0322 = [fld TYPE_MSG_HEADER 322, fld TYPE_WORD 0, fld TYPE_WORD 0]"

definition GAME_SERVER_0323 :: "msg_field list" where [packet_defs]:
  "GAME_SERVER_0323 = [fld TYPE_MSG_HEADER 323, fld TYPE_WORD 0, fld TYPE_BYTE 0]"

definition GAME_SERVER_0324 :: "msg_field list" where [packet_defs]:
  "GAME_SERVER_0324 = [fld TYPE_MSG_HEADER 324, fld TYPE_WORD 0]"

definition GAME_SERVER_0325 :: "msg_field list" where [packet_defs]:
  "GAME_SERVER_0325 = [fld TYPE_MSG_HEADER 325, fld TYPE_WORD 0, fld TYPE_BYTE 0, fld TYPE_WORD 0,
    fld TYPE_BYTE 0, fld TYPE_DWORD 0]"

definition GAME_SERVER_0326 :: "msg_field list" where [packet_defs]:
  "GAME_SERVER_0326 = [fld TYPE_MSG_HEADER 326, fld TYPE_WORD 0, fld TYPE_BYTE 0, fld TYPE_DWORD 0,
    fld TYPE_DWORD 0]"

definition GAME_SERVER_0327 :: "msg_field list" where [packet_defs]:
  "GAME_SERVER_0327 = [fld TYPE_MSG_HEADER 327, fld TYPE_WORD 0, fld TYPE_BYTE 0]"

definition GAME_SERVER_0328 :: "msg_field list" where [packet_defs]:
  "GAME_SERVER_0328 = [fld TYPE_MSG_HEADER 328, fld TYPE_WORD 0, fld TYPE_WORD 0, fld TYPE_BYTE 0]"

definition GAME_SERVER_0329 :: "msg_field list" where [packet_defs]:
  "GAME_SERVER_0329 = [fld TYPE_MSG_HEADER 329]"

definition GAME_SERVER_0330 :: "msg_field list" where [packet_defs]:
  "GAME_SERVER_0330 = [fld TYPE_MSG_HEADER 330, fld TYPE_WORD 0, fld TYPE_DWORD 0, fld TYPE_WORD 0,
    fld TYPE_BYTE 0]"

definition GAME_SERVER_0331 :: "msg_field list" where [packet_defs]:
  "GAME_SERVER_0331 = [fld TYPE_MSG_HEADER 331, fld TYPE_WORD 0, fld TYPE_BYTE 0, fld TYPE_BYTE 0]"

definition GAME_SERVER_0332 :: "msg_field list" where [packet_defs]:
  "GAME_SERVER_0332 = [fld TYPE_MSG_HEADER 332, fld TYPE_WORD 0, fld TYPE_DWORD 0]"

definition GAME_SERVER_0333 :: "msg_field list" where [packet_defs]:
  "GAME_SERVER_0333 = [fld TYPE_MSG_HEADER 333, fld TYPE_WORD 0, fld TYPE_WORD 0]"

definition GAME_SERVER_0334 :: "msg_field list" where [packet_defs]:
  "GAME_SERVER_0334 = [fld TYPE_MSG_HEADER 334, fld TYPE_WORD 0, fld TYPE_DWORD 0]"

definition GAME_SERVER_0335 :: "msg_field list" where [packet_defs]:
  "GAME_SERVER_0335 = [fld TYPE_MSG_HEADER 335, fld TYPE_WORD 0, fld TYPE_DWORD 0]"

definition GAME_SERVER_0336 :: "msg_field list" where [packet_defs]:
  "GAME_SERVER_0336 = [fld TYPE_MSG_HEADER 336, fld TYPE_WORD 0, fld TYPE_DWORD 0]"

definition GAME_SERVER_0337 :: "msg_field list" where [packet_defs]:
  "GAME_SERVER_0337 = [fld TYPE_MSG_HEADER 337, fld TYPE_WORD 0, fld TYPE_DWORD 0,
    fld TYPE_DWORD 0]"

definition GAME_SERVER_0338 :: "msg_field list" where [packet_defs]:
  "GAME_SERVER_0338 = [fld TYPE_MSG_HEADER 338, fld TYPE_WORD 0, fld TYPE_DWORD 0, fld TYPE_WORD 0,
    fld TYPE_BYTE 0]"

definition GAME_SERVER_0339 :: "msg_field list" where [packet_defs]:
  "GAME_SERVER_0339 = [fld TYPE_MSG_HEADER 339, fld TYPE_DWORD 0, fld TYPE_BYTE 0, fld TYPE_BYTE 0]"

definition GAME_SERVER_0340 :: "msg_field list" where [packet_defs]:
  "GAME_SERVER_0340 = [fld TYPE_MSG_HEADER 340, fld TYPE_DWORD 0, fld TYPE_DWORD 0]"

definition GAME_SERVER_0341 :: "msg_field list" where [packet_defs]:
  "GAME_SERVER_0341 = [fld TYPE_MSG_HEADER 341, fld TYPE_DWORD 0]"

definition GAME_SERVER_0342 :: "msg_field list" where [packet_defs]:
  "GAME_SERVER_0342 = [fld TYPE_MSG_HEADER 342, fld TYPE_DWORD 0, fld TYPE_DWORD 0,
    fld TYPE_DWORD 0, fld TYPE_DWORD 0]"

definition GAME_SERVER_0343 :: "msg_field list" where [packet_defs]:
  "GAME_SERVER_0343 = [fld TYPE_MSG_HEADER 343, fld TYPE_BYTE 0, fld TYPE_BYTE 0]"

definition GAME_SERVER_0344 :: "msg_field list" where [packet_defs]:
  "GAME_SERVER_0344 = [fld TYPE_MSG_HEADER 344, fld TYPE_DWORD 0, fld TYPE_WORD 0]"

definition GAME_SERVER_0345 :: "msg_field list" where [packet_defs]:
  "GAME_SERVER_0345 = [fld TYPE_MSG_HEADER 345, fld TYPE_DWORD 0, fld TYPE_BYTE 0]"

definition GAME_SERVER_0346 :: "msg_field list" where [packet_defs]:
  "GAME_SERVER_0346 = [fld TYPE_MSG_HEADER 346, fld TYPE_DWORD 0, fld TYPE_DWORD 0]"

definition GAME_SERVER_0347 :: "msg_field list" where [packet_defs]:
  "GAME_SERVER_0347 = [fld TYPE_MSG_HEADER 347, fld TYPE_WORD 0, fld TYPE_NESTED_STRUCT 7,
    fld TYPE_BYTE 0, fld TYPE_WORD 0, fld TYPE_BYTE 0, fld TYPE_WORD 0, fld TYPE_WORD 0,
    fld TYPE_WORD 0, fld TYPE_WORD 0]"

definition GAME_SERVER_0348 :: "msg_field list" where [packet_defs]:
  "GAME_SERVER_0348 = [fld TYPE_MSG_HEADER 348, fld TYPE_DWORD 0, fld TYPE_DWORD 0]"

definition GAME_SERVER_0349 :: "msg_field list" where [packet_defs]:
  "GAME_SERVER_0349 = [fld TYPE_MSG_HEADER 349, fld TYPE_DWORD 0, fld TYPE_DWORD 0, fld TYPE_BYTE 0,
    fld TYPE_BYTE 0, fld TYPE_WORD 0, fld TYPE_WORD 0, fld TYPE_BYTE 0, fld TYPE_DWORD 0,
    fld TYPE_DWORD 0]"

definition GAME_SERVER_0350 :: "msg_field list" where [packet_defs]:
  "GAME_SERVER_0350 = [fld TYPE_MSG_HEADER 350, fld TYPE_DWORD 0, fld TYPE_DWORD 0, fld TYPE_BYTE 0,
    fld TYPE_BYTE 0, fld TYPE_WORD 0, fld TYPE_WORD 0, fld TYPE_BYTE 0, fld TYPE_DWORD 0,
    fld TYPE_DWORD 0]"

definition GAME_SERVER_0351 :: "msg_field list" where [packet_defs]:
  "GAME_SERVER_0351 = [fld TYPE_MSG_HEADER 351, fld TYPE_DWORD 0, fld TYPE_DWORD 0,
    fld TYPE_DWORD 0, fld TYPE_STRING_16 64, fld TYPE_NESTED_STRUCT 64, fld TYPE_DWORD 0]"

definition GAME_SERVER_0352 :: "msg_field list" where [packet_defs]:
  "GAME_SERVER_0352 = [fld TYPE_MSG_HEADER 352, fld TYPE_DWORD 0, fld TYPE_DWORD 0, fld TYPE_BYTE 0,
    fld TYPE_BYTE 0, fld TYPE_WORD 0, fld TYPE_WORD 0, fld TYPE_BYTE 0, fld TYPE_DWORD 0,
    fld TYPE_DWORD 0, fld TYPE_DWORD 0, fld TYPE_DWORD 0, fld TYPE_STRING_16 64,
    fld TYPE_NESTED_STRUCT 64, fld TYPE_DWORD 0]"

definition GAME_SERVER_0353 :: "msg_field list" where [packet_defs]:
  "GAME_SERVER_0353 = [fld TYPE_MSG_HEADER 353, fld TYPE_DWORD 0, fld TYPE_DWORD 0, fld TYPE_BYTE 0,
    fld TYPE_BYTE 0, fld TYPE_WORD 0, fld TYPE_WORD 0, fld TYPE_BYTE 0, fld TYPE_DWORD 0,
    fld TYPE_DWORD 0, fld TYPE_DWORD 0, fld TYPE_DWORD 0, fld TYPE_STRING_16 64,
    fld TYPE_NESTED_STRUCT 64, fld TYPE_DWORD 0]"

definition GAME_SERVER_0354 :: "msg_field list" where [packet_defs]:
  "GAME_SERVER_0354 = [fld TYPE_MSG_HEADER 354, fld TYPE_WORD 0, fld TYPE_DWORD 0,
    fld TYPE_ARRAY_32 3]"

definition GAME_SERVER_0355 :: "msg_field list" where [packet_defs]:
  "GAME_SERVER_0355 = [fld TYPE_MSG_HEADER 355]"

definition GAME_SERVER_0356 :: "msg_field list" where [packet_defs]:
  "GAME_SERVER_0356 = [fld TYPE_MSG_HEADER 356]"

definition GAME_SERVER_0357 :: "msg_field list" where [packet_defs]:
  "GAME_SERVER_0357 = [fld TYPE_MSG_HEADER 357]"

definition GAME_SERVER_0358 :: "msg_field list" where [packet_defs]:
  "GAME_SERVER_0358 = [fld TYPE_MSG_HEADER 358, fld TYPE_BYTE 0]"

definition GAME_SERVER_0359 :: "msg_field list" where [packet_defs]:
  "GAME_SERVER_0359 = [fld TYPE_MSG_HEADER 359, fld TYPE_WORD 0, fld TYPE_WORD 0]"

definition GAME_SERVER_0360 :: "msg_field list" where [packet_defs]:
  "GAME_SERVER_0360 = [fld TYPE_MSG_HEADER 360, fld TYPE_BYTE 0, fld TYPE_DWORD 0]"

definition GAME_SERVER_0361 :: "msg_field list" where [packet_defs]:
  "GAME_SERVER_0361 = [fld TYPE_MSG_HEADER 361, fld TYPE_WORD 0, fld TYPE_DWORD 0,
    fld TYPE_ARRAY_32 3]"

definition GAME_SERVER_0362 :: "msg_field list" where [packet_defs]:
  "GAME_SERVER_0362 = [fld TYPE_MSG_HEADER 362]"

definition GAME_SERVER_0363 :: "msg_field list" where [packet_defs]:
  "GAME_SERVER_0363 = [fld TYPE_MSG_HEADER 363]"

definition GAME_SERVER_0364 :: "msg_field list" where [packet_defs]:
  "GAME_SERVER_0364 = [fld TYPE_MSG_HEADER 364, fld TYPE_BYTE 0]"

definition GAME_SERVER_0365 :: "msg_field list" where [packet_defs]:
  "GAME_SERVER_0365 = [fld TYPE_MSG_HEADER 365, fld TYPE_BYTE 0]"

definition GAME_SERVER_0366 :: "msg_field list" where [packet_defs]:
  "GAME_SERVER_0366 = [fld TYPE_MSG_HEADER 366]"

definition GAME_SERVER_0367 :: "msg_field list" where [packet_defs]:
  "GAME_SERVER_0367 = [fld TYPE_MSG_HEADER 367]"

definition GAME_SERVER_0368 :: "msg_field list" where [packet_defs]:
  "GAME_SERVER_0368 = [fld TYPE_MSG_HEADER 368, fld TYPE_DWORD 0, fld TYPE_BYTE 0, fld TYPE_DWORD 0,
    fld TYPE_DWORD 0, fld TYPE_DWORD 0, fld TYPE_DWORD 0, fld TYPE_DWORD 0, fld TYPE_DWORD 0,
    fld TYPE_BYTE 0, fld TYPE_BYTE 0, fld TYPE_BYTE 0, fld TYPE_BYTE 0, fld TYPE_BYTE 0,
    fld TYPE_WORD 0, fld TYPE_WORD 0, fld TYPE_WORD 0, fld TYPE_WORD 0, fld TYPE_WORD 0,
    fld TYPE_DWORD 0, fld TYPE_BYTE 0, fld TYPE_BYTE 0, fld TYPE_DWORD 0, fld TYPE_BYTE 0]"

definition GAME_SERVER_0369 :: "msg_field list" where [packet_defs]:
  "GAME_SERVER_0369 = [fld TYPE_MSG_HEADER 369, fld TYPE_DWORD 0]"

definition GAME_SERVER_0370 :: "msg_field list" where [packet_defs]:
  "GAME_SERVER_0370 = [fld TYPE_MSG_HEADER 370, fld TYPE_DWORD 0]"

definition GAME_SERVER_0371 :: "msg_field list" where [packet_defs]:
  "GAME_SERVER_0371 = [fld TYPE_MSG_HEADER 371, fld TYPE_DWORD 0, fld TYPE_BYTE 0, fld TYPE_DWORD 0,
    fld TYPE_DWORD 0, fld TYPE_DWORD 0, fld TYPE_DWORD 0, fld TYPE_DWORD 0, fld TYPE_DWORD 0,
    fld TYPE_BYTE 0, fld TYPE_BYTE 0, fld TYPE_BYTE 0, fld TYPE_BYTE 0, fld TYPE_BYTE 0,
    fld TYPE_WORD 0, fld TYPE_WORD 0, fld TYPE_WORD 0, fld TYPE_WORD 0, fld TYPE_WORD 0,
    fld TYPE_DWORD 0, fld TYPE_BYTE 0, fld TYPE_BYTE 0, fld TYPE_DWORD 0, fld TYPE_BYTE 0]"

definition GAME_SERVER_0372 :: "msg_field list" where [packet_defs]:
  "GAME_SERVER_0372 = [fld TYPE_MSG_HEADER 372, fld TYPE_DWORD 0, fld TYPE_WORD 0, fld TYPE_BYTE 0,
    fld TYPE_STRING_16 64]"

definition GAME_SERVER_0373 :: "msg_field list" where [packet_defs]:
  "GAME_SERVER_0373 = [fld TYPE_MSG_HEADER 373, fld TYPE_DWORD 0, fld TYPE_WORD 0]"

definition GAME_SERVER_0374 :: "msg_field list" where [packet_defs]:
  "GAME_SERVER_0374 = [fld TYPE_MSG_HEADER 374, fld TYPE_DWORD 0, fld TYPE_WORD 0, fld TYPE_BYTE 0,
    fld TYPE_STRING_16 64]"

definition GAME_SERVER_0375 :: "msg_field list" where [packet_defs]:
  "GAME_SERVER_0375 = [fld TYPE_MSG_HEADER 375, fld TYPE_WORD 0, fld TYPE_STRING_16 64,
    fld TYPE_STRING_16 6, fld TYPE_WORD 0, fld TYPE_BYTE 0, fld TYPE_BYTE 0, fld TYPE_BYTE 0,
    fld TYPE_BYTE 0, fld TYPE_WORD 0, fld TYPE_WORD 0, fld TYPE_BYTE 0, fld TYPE_BYTE 0,
    fld TYPE_BYTE 0, fld TYPE_BYTE 0, fld TYPE_WORD 0, fld TYPE_WORD 0, fld TYPE_DWORD 0,
    fld TYPE_DWORD 0, fld TYPE_DWORD 0, fld TYPE_BYTE 0]"

definition GAME_SERVER_0376 :: "msg_field list" where [packet_defs]:
  "GAME_SERVER_0376 = [fld TYPE_MSG_HEADER 376, fld TYPE_DWORD 0, fld TYPE_WORD 0, fld TYPE_BYTE 0]"

definition GAME_SERVER_0377 :: "msg_field list" where [packet_defs]:
  "GAME_SERVER_0377 = [fld TYPE_MSG_HEADER 377, fld TYPE_BYTE 0]"

definition GAME_SERVER_0378 :: "msg_field list" where [packet_defs]:
  "GAME_SERVER_0378 = [fld TYPE_MSG_HEADER 378]"

definition GAME_SERVER_0379 :: "msg_field list" where [packet_defs]:
  "GAME_SERVER_0379 = [fld TYPE_MSG_HEADER 379, fld TYPE_BYTE 0, fld TYPE_BYTE 0, fld TYPE_BYTE 0,
    fld TYPE_BYTE 0]"

definition GAME_SERVER_0380 :: "msg_field list" where [packet_defs]:
  "GAME_SERVER_0380 = [fld TYPE_MSG_HEADER 380, fld TYPE_STRING_16 20]"

definition GAME_SERVER_0381 :: "msg_field list" where [packet_defs]:
  "GAME_SERVER_0381 = [fld TYPE_MSG_HEADER 381]"

definition GAME_SERVER_0382 :: "msg_field list" where [packet_defs]:
  "GAME_SERVER_0382 = [fld TYPE_MSG_HEADER 382, fld TYPE_DWORD 0]"

definition GAME_SERVER_0383 :: "msg_field list" where [packet_defs]:
  "GAME_SERVER_0383 = [fld TYPE_MSG_HEADER 383, fld TYPE_STRING_16 122, fld TYPE_BYTE 0,
    fld TYPE_DWORD 0, fld TYPE_DWORD 0]"

definition GAME_SERVER_0384 :: "msg_field list" where [packet_defs]:
  "GAME_SERVER_0384 = [fld TYPE_MSG_HEADER 384, fld TYPE_DWORD 0]"

definition GAME_SERVER_0385 :: "msg_field list" where [packet_defs]:
  "GAME_SERVER_0385 = [fld TYPE_MSG_HEADER 385, fld TYPE_STRING_16 122, fld TYPE_BYTE 0]"

definition GAME_SERVER_0386 :: "msg_field list" where [packet_defs]:
  "GAME_SERVER_0386 = [fld TYPE_MSG_HEADER 386, fld TYPE_STRING_16 128, fld TYPE_DWORD 0]"

definition GAME_SERVER_0387 :: "msg_field list" where [packet_defs]:
  "GAME_SERVER_0387 = [fld TYPE_MSG_HEADER 387, fld TYPE_STRING_16 128, fld TYPE_STRING_16 256]"

definition GAME_SERVER_0388 :: "msg_field list" where [packet_defs]:
  "GAME_SERVER_0388 = [fld TYPE_MSG_HEADER 388, fld TYPE_STRING_16 128, fld TYPE_DWORD 0]"

definition GAME_SERVER_0389 :: "msg_field list" where [packet_defs]:
  "GAME_SERVER_0389 = [fld TYPE_MSG_HEADER 389]"

definition GAME_SERVER_0390 :: "msg_field list" where [packet_defs]:
  "GAME_SERVER_0390 = [fld TYPE_MSG_HEADER 390, fld TYPE_DWORD 0]"

definition GAME_SERVER_0391 :: "msg_field list" where [packet_defs]:
  "GAME_SERVER_0391 = [fld TYPE_MSG_HEADER 391, fld TYPE_BLOB 16, fld TYPE_STRING_16 20,
    fld TYPE_WORD 0, fld TYPE_ARRAY_8 1024]"

definition GAME_SERVER_0392 :: "msg_field list" where [packet_defs]:
  "GAME_SERVER_0392 = [fld TYPE_MSG_HEADER 392]"

definition GAME_SERVER_0393 :: "msg_field list" where [packet_defs]:
  "GAME_SERVER_0393 = [fld TYPE_MSG_HEADER 393]"

definition GAME_SERVER_0394 :: "msg_field list" where [packet_defs]:
  "GAME_SERVER_0394 = [fld TYPE_MSG_HEADER 394, fld TYPE_DWORD 0]"

definition GAME_SERVER_0395 :: "msg_field list" where [packet_defs]:
  "GAME_SERVER_0395 = [fld TYPE_MSG_HEADER 395, fld TYPE_BYTE 0]"

definition GAME_SERVER_0396 :: "msg_field list" where [packet_defs]:
  "GAME_SERVER_0396 = [fld TYPE_MSG_HEADER 396, fld TYPE_WORD 0]"

definition GAME_SERVER_0397 :: "msg_field list" where [packet_defs]:
  "GAME_SERVER_0397 = [fld TYPE_MSG_HEADER 397]"

definition GAME_SERVER_0398 :: "msg_field list" where [packet_defs]:
  "GAME_SERVER_0398 = [fld TYPE_MSG_HEADER 398, fld TYPE_WORD 0, fld TYPE_WORD 0, fld TYPE_DWORD 0]"

definition GAME_SERVER_0399 :: "msg_field list" where [packet_defs]:
  "GAME_SERVER_0399 = [fld TYPE_MSG_HEADER 399, fld TYPE_BYTE 0, fld TYPE_DWORD 0]"

definition GAME_SERVER_0400 :: "msg_field list" where [packet_defs]:
  "GAME_SERVER_0400 = [fld TYPE_MSG_HEADER 400, fld TYPE_WORD 0]"

definition GAME_SERVER_0401 :: "msg_field list" where [packet_defs]:
  "GAME_SERVER_0401 = [fld TYPE_MSG_HEADER 401, fld TYPE_WORD 0, fld TYPE_BYTE 0, fld TYPE_BYTE 0,
    fld TYPE_BYTE 0, fld TYPE_DWORD 0, fld TYPE_STRING_16 64, fld TYPE_NESTED_STRUCT 8,
    fld TYPE_STRING_16 20]"

definition GAME_SERVER_0402 :: "msg_field list" where [packet_defs]:
  "GAME_SERVER_0402 = [fld TYPE_MSG_HEADER 402, fld TYPE_WORD 0, fld TYPE_BYTE 0]"

definition GAME_SERVER_0403 :: "msg_field list" where [packet_defs]:
  "GAME_SERVER_0403 = [fld TYPE_MSG_HEADER 403, fld TYPE_BYTE 0]"

definition GAME_SERVER_0404 :: "msg_field list" where [packet_defs]:
  "GAME_SERVER_0404 = [fld TYPE_MSG_HEADER 404, fld TYPE_DWORD 0, fld TYPE_VECT2 0, fld TYPE_WORD 0,
    fld TYPE_BYTE 0, fld TYPE_BYTE 0, fld TYPE_BLOB 8]"

definition GAME_SERVER_0405 :: "msg_field list" where [packet_defs]:
  "GAME_SERVER_0405 = [fld TYPE_MSG_HEADER 405, fld TYPE_ARRAY_8 1024]"

definition GAME_SERVER_0406 :: "msg_field list" where [packet_defs]:
  "GAME_SERVER_0406 = [fld TYPE_MSG_HEADER 406, fld TYPE_BYTE 0, fld TYPE_WORD 0, fld TYPE_DWORD 0]"

definition GAME_SERVER_0407 :: "msg_field list" where [packet_defs]:
  "GAME_SERVER_0407 = [fld TYPE_MSG_HEADER 407, fld TYPE_BYTE 0]"

definition GAME_SERVER_0408 :: "msg_field list" where [packet_defs]:
  "GAME_SERVER_0408 = [fld TYPE_MSG_HEADER 408, fld TYPE_AGENT_ID 0, fld TYPE_WORD 0,
    fld TYPE_BYTE 0, fld TYPE_DWORD 0, fld TYPE_BYTE 0, fld TYPE_BYTE 0]"

definition GAME_SERVER_0409 :: "msg_field list" where [packet_defs]:
  "GAME_SERVER_0409 = [fld TYPE_MSG_HEADER 409, fld TYPE_DWORD 0, fld TYPE_DWORD 0]"

definition GAME_SERVER_0410 :: "msg_field list" where [packet_defs]:
  "GAME_SERVER_0410 = [fld TYPE_MSG_HEADER 410, fld TYPE_WORD 0]"

definition GAME_SERVER_0411 :: "msg_field list" where [packet_defs]:
  "GAME_SERVER_0411 = [fld TYPE_MSG_HEADER 411, fld TYPE_STRING_16 122]"

definition GAME_SERVER_0412 :: "msg_field list" where [packet_defs]:
  "GAME_SERVER_0412 = [fld TYPE_MSG_HEADER 412, fld TYPE_DWORD 0, fld TYPE_WORD 0, fld TYPE_WORD 0,
    fld TYPE_BYTE 0, fld TYPE_BYTE 0, fld TYPE_BYTE 0, fld TYPE_NESTED_STRUCT 2, fld TYPE_BYTE 0,
    fld TYPE_BYTE 0, fld TYPE_BYTE 0, fld TYPE_BYTE 0, fld TYPE_BYTE 0, fld TYPE_BYTE 0,
    fld TYPE_BYTE 0, fld TYPE_WORD 0, fld TYPE_BYTE 0, fld TYPE_STRING_16 48]"

definition GAME_SERVER_0413 :: "msg_field list" where [packet_defs]:
  "GAME_SERVER_0413 = [fld TYPE_MSG_HEADER 413]"

definition GAME_SERVER_0414 :: "msg_field list" where [packet_defs]:
  "GAME_SERVER_0414 = [fld TYPE_MSG_HEADER 414, fld TYPE_NESTED_STRUCT 16, fld TYPE_WORD 0,
    fld TYPE_DWORD 0]"

definition GAME_SERVER_0415 :: "msg_field list" where [packet_defs]:
  "GAME_SERVER_0415 = [fld TYPE_MSG_HEADER 415, fld TYPE_BYTE 0, fld TYPE_STRING_16 122,
    fld TYPE_STRING_16 122, fld TYPE_BYTE 0, fld TYPE_DWORD 0, fld TYPE_DWORD 0, fld TYPE_DWORD 0,
    fld TYPE_DWORD 0]"

definition GAME_SERVER_0416 :: "msg_field list" where [packet_defs]:
  "GAME_SERVER_0416 = [fld TYPE_MSG_HEADER 416, fld TYPE_BYTE 0]"

definition GAME_SERVER_0417 :: "msg_field list" where [packet_defs]:
  "GAME_SERVER_0417 = [fld TYPE_MSG_HEADER 417, fld TYPE_BYTE 0, fld TYPE_BYTE 0, fld TYPE_DWORD 0,
    fld TYPE_DWORD 0, fld TYPE_DWORD 0, fld TYPE_DWORD 0]"

definition GAME_SERVER_0418 :: "msg_field list" where [packet_defs]:
  "GAME_SERVER_0418 = [fld TYPE_MSG_HEADER 418, fld TYPE_BYTE 0, fld TYPE_STRING_16 122,
    fld TYPE_STRING_16 122]"

definition GAME_SERVER_0419 :: "msg_field list" where [packet_defs]:
  "GAME_SERVER_0419 = [fld TYPE_MSG_HEADER 419, fld TYPE_AGENT_ID 0, fld TYPE_WORD 0,
    fld TYPE_BYTE 0, fld TYPE_DWORD 0, fld TYPE_BYTE 0, fld TYPE_BYTE 0, fld TYPE_DWORD 0,
    fld TYPE_VECT2 0, fld TYPE_WORD 0, fld TYPE_BYTE 0, fld TYPE_BYTE 0, fld TYPE_STRING_16 20,
    fld TYPE_BLOB 8]"

definition GAME_SERVER_0420 :: "msg_field list" where [packet_defs]:
  "GAME_SERVER_0420 = [fld TYPE_MSG_HEADER 420, fld TYPE_BLOB 24, fld TYPE_DWORD 0, fld TYPE_BYTE 0,
    fld TYPE_WORD 0, fld TYPE_BYTE 0, fld TYPE_DWORD 0]"

definition GAME_SERVER_0421 :: "msg_field list" where [packet_defs]:
  "GAME_SERVER_0421 = [fld TYPE_MSG_HEADER 421, fld TYPE_BYTE 0, fld TYPE_BYTE 0, fld TYPE_DWORD 0,
    fld TYPE_STRING_16 122, fld TYPE_DWORD 0, fld TYPE_STRING_16 122, fld TYPE_DWORD 0,
    fld TYPE_BYTE 0, fld TYPE_BYTE 0]"

definition GAME_SERVER_0422 :: "msg_field list" where [packet_defs]:
  "GAME_SERVER_0422 = [fld TYPE_MSG_HEADER 422, fld TYPE_BYTE 0]"

definition GAME_SERVER_0423 :: "msg_field list" where [packet_defs]:
  "GAME_SERVER_0423 = [fld TYPE_MSG_HEADER 423, fld TYPE_BYTE 0, fld TYPE_DWORD 0]"

definition GAME_SERVER_0424 :: "msg_field list" where [packet_defs]:
  "GAME_SERVER_0424 = [fld TYPE_MSG_HEADER 424, fld TYPE_BYTE 0, fld TYPE_DWORD 0]"

definition GAME_SERVER_0425 :: "msg_field list" where [packet_defs]:
  "GAME_SERVER_0425 = [fld TYPE_MSG_HEADER 425, fld TYPE_BYTE 0]"

definition GAME_SERVER_0426 :: "msg_field list" where [packet_defs]:
  "GAME_SERVER_0426 = [fld TYPE_MSG_HEADER 426, fld TYPE_DWORD 0]"

definition GAME_SERVER_0427 :: "msg_field list" where [packet_defs]:
  "GAME_SERVER_0427 = [fld TYPE_MSG_HEADER 427, fld TYPE_WORD 0, fld TYPE_DWORD 0, fld TYPE_DWORD 0,
    fld TYPE_STRING_16 20]"

definition GAME_SERVER_0428 :: "msg_field list" where [packet_defs]:
  "GAME_SERVER_0428 = [fld TYPE_MSG_HEADER 428, fld TYPE_WORD 0, fld TYPE_DWORD 0, fld TYPE_BYTE 0,
    fld TYPE_BYTE 0, fld TYPE_BYTE 0, fld TYPE_STRING_16 20]"

definition GAME_SERVER_0429 :: "msg_field list" where [packet_defs]:
  "GAME_SERVER_0429 = [fld TYPE_MSG_HEADER 429, fld TYPE_WORD 0, fld TYPE_BYTE 0, fld TYPE_BYTE 0,
    fld TYPE_BYTE 0, fld TYPE_BYTE 0, fld TYPE_BYTE 0, fld TYPE_WORD 0, fld TYPE_BYTE 0,
    fld TYPE_DWORD 0, fld TYPE_DWORD 0, fld TYPE_STRING_16 32, fld TYPE_STRING_16 6]"

definition GAME_SERVER_0430 :: "msg_field list" where [packet_defs]:
  "GAME_SERVER_0430 = [fld TYPE_MSG_HEADER 430, fld TYPE_STRING_16 122]"

definition GAME_SERVER_0431 :: "msg_field list" where [packet_defs]:
  "GAME_SERVER_0431 = [fld TYPE_MSG_HEADER 431, fld TYPE_DWORD 0]"

definition GAME_SERVER_0432 :: "msg_field list" where [packet_defs]:
  "GAME_SERVER_0432 = [fld TYPE_MSG_HEADER 432, fld TYPE_WORD 0, fld TYPE_BYTE 0, fld TYPE_DWORD 0]"

definition GAME_SERVER_0433 :: "msg_field list" where [packet_defs]:
  "GAME_SERVER_0433 = [fld TYPE_MSG_HEADER 433, fld TYPE_WORD 0, fld TYPE_BYTE 0]"

definition GAME_SERVER_0434 :: "msg_field list" where [packet_defs]:
  "GAME_SERVER_0434 = [fld TYPE_MSG_HEADER 434, fld TYPE_BYTE 0, fld TYPE_BYTE 0,
    fld TYPE_STRING_16 32, fld TYPE_DWORD 0, fld TYPE_BYTE 0, fld TYPE_DWORD 0]"

definition GAME_SERVER_0435 :: "msg_field list" where [packet_defs]:
  "GAME_SERVER_0435 = [fld TYPE_MSG_HEADER 435]"

definition GAME_SERVER_0436 :: "msg_field list" where [packet_defs]:
  "GAME_SERVER_0436 = [fld TYPE_MSG_HEADER 436, fld TYPE_BYTE 0, fld TYPE_BYTE 0,
    fld TYPE_STRING_16 32, fld TYPE_DWORD 0, fld TYPE_BYTE 0, fld TYPE_DWORD 0]"

definition GAME_SERVER_0437 :: "msg_field list" where [packet_defs]:
  "GAME_SERVER_0437 = [fld TYPE_MSG_HEADER 437]"

definition GAME_SERVER_0438 :: "msg_field list" where [packet_defs]:
  "GAME_SERVER_0438 = [fld TYPE_MSG_HEADER 438, fld TYPE_BYTE 0]"

definition GAME_SERVER_0439 :: "msg_field list" where [packet_defs]:
  "GAME_SERVER_0439 = [fld TYPE_MSG_HEADER 439, fld TYPE_BYTE 0]"

definition GAME_SERVER_0440 :: "msg_field list" where [packet_defs]:
  "GAME_SERVER_0440 = [fld TYPE_MSG_HEADER 440]"

definition GAME_SERVER_0441 :: "msg_field list" where [packet_defs]:
  "GAME_SERVER_0441 = [fld TYPE_MSG_HEADER 441]"

definition GAME_SERVER_0442 :: "msg_field list" where [packet_defs]:
  "GAME_SERVER_0442 = [fld TYPE_MSG_HEADER 442, fld TYPE_WORD 0, fld TYPE_BYTE 0,
    fld TYPE_STRING_16 122]"

definition GAME_SERVER_0443 :: "msg_field list" where [packet_defs]:
  "GAME_SERVER_0443 = [fld TYPE_MSG_HEADER 443, fld TYPE_BYTE 0]"

definition GAME_SERVER_0444 :: "msg_field list" where [packet_defs]:
  "GAME_SERVER_0444 = [fld TYPE_MSG_HEADER 444, fld TYPE_DWORD 0]"

definition GAME_SERVER_0445 :: "msg_field list" where [packet_defs]:
  "GAME_SERVER_0445 = [fld TYPE_MSG_HEADER 445, fld TYPE_BYTE 0]"

definition GAME_SERVER_0446 :: "msg_field list" where [packet_defs]:
  "GAME_SERVER_0446 = [fld TYPE_MSG_HEADER 446, fld TYPE_WORD 0, fld TYPE_WORD 0,
    fld TYPE_STRING_16 20, fld TYPE_BYTE 0, fld TYPE_BYTE 0]"

definition GAME_SERVER_0447 :: "msg_field list" where [packet_defs]:
  "GAME_SERVER_0447 = [fld TYPE_MSG_HEADER 447, fld TYPE_WORD 0, fld TYPE_WORD 0]"

definition GAME_SERVER_0448 :: "msg_field list" where [packet_defs]:
  "GAME_SERVER_0448 = [fld TYPE_MSG_HEADER 448, fld TYPE_WORD 0]"

definition GAME_SERVER_0449 :: "msg_field list" where [packet_defs]:
  "GAME_SERVER_0449 = [fld TYPE_MSG_HEADER 449, fld TYPE_WORD 0, fld TYPE_WORD 0, fld TYPE_WORD 0,
    fld TYPE_BYTE 0, fld TYPE_BYTE 0]"

definition GAME_SERVER_0450 :: "msg_field list" where [packet_defs]:
  "GAME_SERVER_0450 = [fld TYPE_MSG_HEADER 450, fld TYPE_WORD 0, fld TYPE_WORD 0, fld TYPE_WORD 0]"

definition GAME_SERVER_0451 :: "msg_field list" where [packet_defs]:
  "GAME_SERVER_0451 = [fld TYPE_MSG_HEADER 451, fld TYPE_WORD 0]"

definition GAME_SERVER_0452 :: "msg_field list" where [packet_defs]:
  "GAME_SERVER_0452 = [fld TYPE_MSG_HEADER 452, fld TYPE_WORD 0]"

definition GAME_SERVER_0453 :: "msg_field list" where [packet_defs]:
  "GAME_SERVER_0453 = [fld TYPE_MSG_HEADER 453, fld TYPE_WORD 0]"

definition GAME_SERVER_0454 :: "msg_field list" where [packet_defs]:
  "GAME_SERVER_0454 = [fld TYPE_MSG_HEADER 454, fld TYPE_WORD 0]"

definition GAME_SERVER_0455 :: "msg_field list" where [packet_defs]:
  "GAME_SERVER_0455 = [fld TYPE_MSG_HEADER 455, fld TYPE_WORD 0]"

definition GAME_SERVER_0456 :: "msg_field list" where [packet_defs]:
  "GAME_SERVER_0456 = [fld TYPE_MSG_HEADER 456, fld TYPE_WORD 0]"

definition GAME_SERVER_0457 :: "msg_field list" where [packet_defs]:
  "GAME_SERVER_0457 = [fld TYPE_MSG_HEADER 457, fld TYPE_BYTE 0]"

definition GAME_SERVER_0458 :: "msg_field list" where [packet_defs]:
  "GAME_SERVER_0458 = [fld TYPE_MSG_HEADER 458, fld TYPE_WORD 0, fld TYPE_WORD 0, fld TYPE_BYTE 0]"

definition GAME_SERVER_0459 :: "msg_field list" where [packet_defs]:
  "GAME_SERVER_0459 = [fld TYPE_MSG_HEADER 459, fld TYPE_WORD 0, fld TYPE_WORD 0]"

definition GAME_SERVER_0460 :: "msg_field list" where [packet_defs]:
  "GAME_SERVER_0460 = [fld TYPE_MSG_HEADER 460, fld TYPE_WORD 0, fld TYPE_WORD 0]"

definition GAME_SERVER_0461 :: "msg_field list" where [packet_defs]:
  "GAME_SERVER_0461 = [fld TYPE_MSG_HEADER 461, fld TYPE_WORD 0, fld TYPE_WORD 0]"

definition GAME_SERVER_0462 :: "msg_field list" where [packet_defs]:
  "GAME_SERVER_0462 = [fld TYPE_MSG_HEADER 462, fld TYPE_WORD 0, fld TYPE_WORD 0]"

definition GAME_SERVER_0463 :: "msg_field list" where [packet_defs]:
  "GAME_SERVER_0463 = [fld TYPE_MSG_HEADER 463, fld TYPE_WORD 0, fld TYPE_WORD 0]"

definition GAME_SERVER_0464 :: "msg_field list" where [packet_defs]:
  "GAME_SERVER_0464 = [fld TYPE_MSG_HEADER 464, fld TYPE_WORD 0, fld TYPE_WORD 0, fld TYPE_BYTE 0]"

definition GAME_SERVER_0465 :: "msg_field list" where [packet_defs]:
  "GAME_SERVER_0465 = [fld TYPE_MSG_HEADER 465, fld TYPE_WORD 0]"

definition GAME_SERVER_0466 :: "msg_field list" where [packet_defs]:
  "GAME_SERVER_0466 = [fld TYPE_MSG_HEADER 466, fld TYPE_WORD 0]"

definition GAME_SERVER_0467 :: "msg_field list" where [packet_defs]:
  "GAME_SERVER_0467 = [fld TYPE_MSG_HEADER 467, fld TYPE_STRING_16 122]"

definition GAME_SERVER_0468 :: "msg_field list" where [packet_defs]:
  "GAME_SERVER_0468 = [fld TYPE_MSG_HEADER 468]"

definition GAME_SERVER_0469 :: "msg_field list" where [packet_defs]:
  "GAME_SERVER_0469 = [fld TYPE_MSG_HEADER 469, fld TYPE_BYTE 0]"

definition GAME_SERVER_0470 :: "msg_field list" where [packet_defs]:
  "GAME_SERVER_0470 = [fld TYPE_MSG_HEADER 470, fld TYPE_ARRAY_16 16, fld TYPE_NESTED_STRUCT 16,
    fld TYPE_DWORD 0, fld TYPE_DWORD 0, fld TYPE_DWORD 0]"

definition GAME_SERVER_0471 :: "msg_field list" where [packet_defs]:
  "GAME_SERVER_0471 = [fld TYPE_MSG_HEADER 471]"

definition GAME_SERVER_0472 :: "msg_field list" where [packet_defs]:
  "GAME_SERVER_0472 = [fld TYPE_MSG_HEADER 472, fld TYPE_BYTE 0, fld TYPE_BYTE 0,
    fld TYPE_STRING_16 122]"

definition GAME_SERVER_0473 :: "msg_field list" where [packet_defs]:
  "GAME_SERVER_0473 = [fld TYPE_MSG_HEADER 473, fld TYPE_WORD 0, fld TYPE_BYTE 0]"

definition GAME_SERVER_0474 :: "msg_field list" where [packet_defs]:
  "GAME_SERVER_0474 = [fld TYPE_MSG_HEADER 474, fld TYPE_WORD 0, fld TYPE_WORD 0]"

definition GAME_SERVER_0475 :: "msg_field list" where [packet_defs]:
  "GAME_SERVER_0475 = [fld TYPE_MSG_HEADER 475, fld TYPE_WORD 0, fld TYPE_WORD 0]"

definition GAME_SERVER_0476 :: "msg_field list" where [packet_defs]:
  "GAME_SERVER_0476 = [fld TYPE_MSG_HEADER 476, fld TYPE_WORD 0, fld TYPE_WORD 0, fld TYPE_BYTE 0,
    fld TYPE_BYTE 0, fld TYPE_BYTE 0, fld TYPE_BYTE 0, fld TYPE_BYTE 0, fld TYPE_STRING_16 32,
    fld TYPE_STRING_16 20, fld TYPE_BYTE 0, fld TYPE_BYTE 0, fld TYPE_BYTE 0, fld TYPE_DWORD 0]"

definition GAME_SERVER_0477 :: "msg_field list" where [packet_defs]:
  "GAME_SERVER_0477 = [fld TYPE_MSG_HEADER 477, fld TYPE_WORD 0]"

definition GAME_SERVER_0478 :: "msg_field list" where [packet_defs]:
  "GAME_SERVER_0478 = [fld TYPE_MSG_HEADER 478, fld TYPE_WORD 0]"

definition GAME_SERVER_0479 :: "msg_field list" where [packet_defs]:
  "GAME_SERVER_0479 = [fld TYPE_MSG_HEADER 479, fld TYPE_WORD 0, fld TYPE_BYTE 0, fld TYPE_BYTE 0]"

definition GAME_SERVER_0480 :: "msg_field list" where [packet_defs]:
  "GAME_SERVER_0480 = [fld TYPE_MSG_HEADER 480, fld TYPE_WORD 0, fld TYPE_BYTE 0, fld TYPE_BYTE 0]"

definition GAME_SERVER_0481 :: "msg_field list" where [packet_defs]:
  "GAME_SERVER_0481 = [fld TYPE_MSG_HEADER 481, fld TYPE_BYTE 0]"

definition GAME_SERVER_0482 :: "msg_field list" where [packet_defs]:
  "GAME_SERVER_0482 = [fld TYPE_MSG_HEADER 482, fld TYPE_STRING_16 122]"

definition GAME_SERVER_0483 :: "msg_field list" where [packet_defs]:
  "GAME_SERVER_0483 = [fld TYPE_MSG_HEADER 483, fld TYPE_BYTE 0]"

definition GAME_SERVER_0484 :: "msg_field list" where [packet_defs]:
  "GAME_SERVER_0484 = [fld TYPE_MSG_HEADER 484, fld TYPE_BYTE 0]"

text \<open>The rows of the table, at most 50 at a time.\<close>

definition GAME_SERVER_FORMATS_0 :: "msg_format list" where
  "GAME_SERVER_FORMATS_0 = [
    fmt 0 2 GAME_SERVER_0000 6, fmt 1 2 GAME_SERVER_0001 3, fmt 2 3 GAME_SERVER_0002 7,
    fmt 3 2 GAME_SERVER_0003 6, fmt 4 3 GAME_SERVER_0004 7, fmt 5 2 GAME_SERVER_0005 6,
    fmt 6 1 GAME_SERVER_0006 2, fmt 7 1 GAME_SERVER_0007 2, fmt 8 1 GAME_SERVER_0008 2,
    fmt 9 1 GAME_SERVER_0009 2, fmt 10 3 GAME_SERVER_0010 10, fmt 11 2 GAME_SERVER_0011 6,
    fmt 12 1 GAME_SERVER_0012 2, fmt 13 2 GAME_SERVER_0013 6, fmt 14 5 GAME_SERVER_0014 1034,
    fmt 15 4 GAME_SERVER_0015 8, fmt 16 2 GAME_SERVER_0016 3, fmt 17 2 GAME_SERVER_0017 4,
    fmt 18 2 GAME_SERVER_0018 4, fmt 19 2 GAME_SERVER_0019 3, fmt 20 4 GAME_SERVER_0020 11,
    fmt 21 3 GAME_SERVER_0021 7, fmt 22 2 GAME_SERVER_0022 246, fmt 23 6 GAME_SERVER_0023 13,
    fmt 24 2 GAME_SERVER_0024 38, fmt 25 5 GAME_SERVER_0025 265, fmt 26 4 GAME_SERVER_0026 264,
    fmt 27 1 GAME_SERVER_0027 2, fmt 28 3 GAME_SERVER_0028 5, fmt 29 2 GAME_SERVER_0029 518,
    fmt 30 2 GAME_SERVER_0030 6, fmt 31 2 GAME_SERVER_0031 6, fmt 32 24 GAME_SERVER_0032 99,
    fmt 33 2 GAME_SERVER_0033 6, fmt 34 3 GAME_SERVER_0034 10, fmt 35 3 GAME_SERVER_0035 10,
    fmt 36 3 GAME_SERVER_0036 10, fmt 37 4 GAME_SERVER_0037 15, fmt 38 3 GAME_SERVER_0038 7,
    fmt 39 3 GAME_SERVER_0039 10, fmt 40 2 GAME_SERVER_0040 6, fmt 41 5 GAME_SERVER_0041 18,
    fmt 42 6 GAME_SERVER_0042 22, fmt 43 4 GAME_SERVER_0043 11, fmt 44 4 GAME_SERVER_0044 16,
    fmt 45 2 GAME_SERVER_0045 6, fmt 46 4 GAME_SERVER_0046 14, fmt 47 3 GAME_SERVER_0047 10,
    fmt 48 8 GAME_SERVER_0048 90, fmt 49 2 GAME_SERVER_0049 66]"

definition GAME_SERVER_FORMATS_50 :: "msg_format list" where
  "GAME_SERVER_FORMATS_50 = [
    fmt 50 7 GAME_SERVER_0050 26, fmt 51 2 GAME_SERVER_0051 130, fmt 52 3 GAME_SERVER_0052 8,
    fmt 53 4 GAME_SERVER_0053 14, fmt 54 3 GAME_SERVER_0054 10, fmt 55 4 GAME_SERVER_0055 8,
    fmt 56 3 GAME_SERVER_0056 7, fmt 57 3 GAME_SERVER_0057 7, fmt 58 3 GAME_SERVER_0058 202,
    fmt 59 5 GAME_SERVER_0059 9, fmt 60 5 GAME_SERVER_0060 279, fmt 61 2 GAME_SERVER_0061 6,
    fmt 62 6 GAME_SERVER_0062 20, fmt 63 3 GAME_SERVER_0063 10, fmt 64 6 GAME_SERVER_0064 20,
    fmt 65 6 GAME_SERVER_0065 20, fmt 66 5 GAME_SERVER_0066 18, fmt 67 3 GAME_SERVER_0067 10,
    fmt 68 3 GAME_SERVER_0068 10, fmt 69 4 GAME_SERVER_0069 14, fmt 70 5 GAME_SERVER_0070 20,
    fmt 71 3 GAME_SERVER_0071 7, fmt 72 10 GAME_SERVER_0072 72, fmt 73 2 GAME_SERVER_0073 6,
    fmt 74 2 GAME_SERVER_0074 262, fmt 75 4 GAME_SERVER_0075 518, fmt 76 5 GAME_SERVER_0076 18,
    fmt 77 4 GAME_SERVER_0077 14, fmt 78 1 GAME_SERVER_0078 2, fmt 79 7 GAME_SERVER_0079 60,
    fmt 80 5 GAME_SERVER_0080 18, fmt 81 2 GAME_SERVER_0081 6, fmt 82 5 GAME_SERVER_0082 18,
    fmt 83 3 GAME_SERVER_0083 262, fmt 84 1 GAME_SERVER_0084 2, fmt 85 10 GAME_SERVER_0085 44,
    fmt 86 3 GAME_SERVER_0086 42, fmt 87 3 GAME_SERVER_0087 70, fmt 88 8 GAME_SERVER_0088 87,
    fmt 89 2 GAME_SERVER_0089 6, fmt 90 2 GAME_SERVER_0090 6, fmt 91 4 GAME_SERVER_0091 14,
    fmt 92 2 GAME_SERVER_0092 246, fmt 93 3 GAME_SERVER_0093 5, fmt 94 4 GAME_SERVER_0094 23,
    fmt 95 4 GAME_SERVER_0095 79, fmt 96 3 GAME_SERVER_0096 5, fmt 97 3 GAME_SERVER_0097 10,
    fmt 98 3 GAME_SERVER_0098 10, fmt 99 4 GAME_SERVER_0099 8]"

definition GAME_SERVER_FORMATS_100 :: "msg_format list" where
  "GAME_SERVER_FORMATS_100 = [
    fmt 100 3 GAME_SERVER_0100 7, fmt 101 4 GAME_SERVER_0101 16, fmt 102 3 GAME_SERVER_0102 12,
    fmt 103 4 GAME_SERVER_0103 12, fmt 104 2 GAME_SERVER_0104 6, fmt 105 2 GAME_SERVER_0105 6,
    fmt 106 3 GAME_SERVER_0106 7, fmt 107 4 GAME_SERVER_0107 14, fmt 108 4 GAME_SERVER_0108 14,
    fmt 109 11 GAME_SERVER_0109 42, fmt 110 4 GAME_SERVER_0110 14, fmt 111 2 GAME_SERVER_0111 3,
    fmt 112 2 GAME_SERVER_0112 6, fmt 113 5 GAME_SERVER_0113 16, fmt 114 9 GAME_SERVER_0114 17,
    fmt 115 21 GAME_SERVER_0115 125, fmt 116 2 GAME_SERVER_0116 6, fmt 117 2 GAME_SERVER_0117 4,
    fmt 118 2 GAME_SERVER_0118 4, fmt 119 8 GAME_SERVER_0119 391, fmt 120 3 GAME_SERVER_0120 8,
    fmt 121 6 GAME_SERVER_0121 34, fmt 122 2 GAME_SERVER_0122 6, fmt 123 2 GAME_SERVER_0123 6,
    fmt 124 2 GAME_SERVER_0124 6, fmt 125 5 GAME_SERVER_0125 267, fmt 126 1 GAME_SERVER_0126 2,
    fmt 127 2 GAME_SERVER_0127 246, fmt 128 2 GAME_SERVER_0128 6, fmt 129 3 GAME_SERVER_0129 8,
    fmt 130 4 GAME_SERVER_0130 11, fmt 131 2 GAME_SERVER_0131 70, fmt 132 2 GAME_SERVER_0132 3,
    fmt 133 2 GAME_SERVER_0133 3, fmt 134 19 GAME_SERVER_0134 46, fmt 135 2 GAME_SERVER_0135 3,
    fmt 136 4 GAME_SERVER_0136 23, fmt 137 2 GAME_SERVER_0137 262, fmt 138 4 GAME_SERVER_0138 14,
    fmt 139 3 GAME_SERVER_0139 10, fmt 140 8 GAME_SERVER_0140 41, fmt 141 2 GAME_SERVER_0141 6,
    fmt 142 3 GAME_SERVER_0142 7, fmt 143 3 GAME_SERVER_0143 10, fmt 144 4 GAME_SERVER_0144 76,
    fmt 145 3 GAME_SERVER_0145 10, fmt 146 3 GAME_SERVER_0146 10, fmt 147 6 GAME_SERVER_0147 662,
    fmt 148 3 GAME_SERVER_0148 8, fmt 149 6 GAME_SERVER_0149 22]"

definition GAME_SERVER_FORMATS_150 :: "msg_format list" where
  "GAME_SERVER_FORMATS_150 = [
    fmt 150 3 GAME_SERVER_0150 259, fmt 151 5 GAME_SERVER_0151 15, fmt 152 3 GAME_SERVER_0152 5,
    fmt 153 3 GAME_SERVER_0153 10, fmt 154 3 GAME_SERVER_0154 70, fmt 155 3 GAME_SERVER_0155 10,
    fmt 156 4 GAME_SERVER_0156 14, fmt 157 5 GAME_SERVER_0157 315, fmt 158 4 GAME_SERVER_0158 14,
    fmt 159 5 GAME_SERVER_0159 18, fmt 160 7 GAME_SERVER_0160 20, fmt 161 4 GAME_SERVER_0161 14,
    fmt 162 5 GAME_SERVER_0162 18, fmt 163 8 GAME_SERVER_0163 29, fmt 164 3 GAME_SERVER_0164 250,
    fmt 165 4 GAME_SERVER_0165 8, fmt 166 4 GAME_SERVER_0166 14, fmt 167 4 GAME_SERVER_0167 16,
    fmt 168 3 GAME_SERVER_0168 10, fmt 169 4 GAME_SERVER_0169 14, fmt 170 1 GAME_SERVER_0170 2,
    fmt 171 3 GAME_SERVER_0171 7, fmt 172 3 GAME_SERVER_0172 7, fmt 173 3 GAME_SERVER_0173 10,
    fmt 174 2 GAME_SERVER_0174 66, fmt 175 3 GAME_SERVER_0175 5, fmt 176 3 GAME_SERVER_0176 6,
    fmt 177 7 GAME_SERVER_0177 86, fmt 178 2 GAME_SERVER_0178 6, fmt 179 3 GAME_SERVER_0179 70,
    fmt 180 2 GAME_SERVER_0180 262, fmt 181 3 GAME_SERVER_0181 10, fmt 182 5 GAME_SERVER_0182 9,
    fmt 183 1 GAME_SERVER_0183 2, fmt 184 3 GAME_SERVER_0184 262, fmt 185 1 GAME_SERVER_0185 2,
    fmt 186 4 GAME_SERVER_0186 266, fmt 187 2 GAME_SERVER_0187 6, fmt 188 3 GAME_SERVER_0188 262,
    fmt 189 2 GAME_SERVER_0189 6, fmt 190 2 GAME_SERVER_0190 262, fmt 191 6 GAME_SERVER_0191 526,
    fmt 192 3 GAME_SERVER_0192 10, fmt 193 3 GAME_SERVER_0193 10, fmt 194 3 GAME_SERVER_0194 7,
    fmt 195 2 GAME_SERVER_0195 6, fmt 196 3 GAME_SERVER_0196 247, fmt 197 3 GAME_SERVER_0197 7,
    fmt 198 4 GAME_SERVER_0198 75, fmt 199 4 GAME_SERVER_0199 11]"

definition GAME_SERVER_FORMATS_200 :: "msg_format list" where
  "GAME_SERVER_FORMATS_200 = [
    fmt 200 3 GAME_SERVER_0200 4, fmt 201 3 GAME_SERVER_0201 7, fmt 202 2 GAME_SERVER_0202 3,
    fmt 203 2 GAME_SERVER_0203 3, fmt 204 5 GAME_SERVER_0204 9, fmt 205 3 GAME_SERVER_0205 10,
    fmt 206 3 GAME_SERVER_0206 10, fmt 207 2 GAME_SERVER_0207 6, fmt 208 5 GAME_SERVER_0208 16,
    fmt 209 4 GAME_SERVER_0209 12, fmt 210 2 GAME_SERVER_0210 518, fmt 211 1 GAME_SERVER_0211 2,
    fmt 212 1 GAME_SERVER_0212 2, fmt 213 4 GAME_SERVER_0213 10, fmt 214 2 GAME_SERVER_0214 38,
    fmt 215 2 GAME_SERVER_0215 22, fmt 216 5 GAME_SERVER_0216 13, fmt 217 5 GAME_SERVER_0217 79,
    fmt 218 2 GAME_SERVER_0218 518, fmt 219 3 GAME_SERVER_0219 8, fmt 220 3 GAME_SERVER_0220 8,
    fmt 221 2 GAME_SERVER_0221 4, fmt 222 3 GAME_SERVER_0222 10, fmt 223 3 GAME_SERVER_0223 71,
    fmt 224 2 GAME_SERVER_0224 3, fmt 225 4 GAME_SERVER_0225 12, fmt 226 4 GAME_SERVER_0226 12,
    fmt 227 4 GAME_SERVER_0227 12, fmt 228 5 GAME_SERVER_0228 16, fmt 229 4 GAME_SERVER_0229 12,
    fmt 230 4 GAME_SERVER_0230 12, fmt 231 6 GAME_SERVER_0231 20, fmt 232 16 GAME_SERVER_0232 62,
    fmt 233 2 GAME_SERVER_0233 6, fmt 234 2 GAME_SERVER_0234 6, fmt 235 2 GAME_SERVER_0235 6,
    fmt 236 2 GAME_SERVER_0236 6, fmt 237 3 GAME_SERVER_0237 10, fmt 238 3 GAME_SERVER_0238 10,
    fmt 239 3 GAME_SERVER_0239 10, fmt 240 3 GAME_SERVER_0240 10, fmt 241 2 GAME_SERVER_0241 6,
    fmt 242 5 GAME_SERVER_0242 30, fmt 243 3 GAME_SERVER_0243 8, fmt 244 3 GAME_SERVER_0244 10,
    fmt 245 12 GAME_SERVER_0245 70, fmt 246 3 GAME_SERVER_0246 10, fmt 247 2 GAME_SERVER_0247 6,
    fmt 248 2 GAME_SERVER_0248 70, fmt 249 2 GAME_SERVER_0249 134]"

definition GAME_SERVER_FORMATS_250 :: "msg_format list" where
  "GAME_SERVER_FORMATS_250 = [
    fmt 250 4 GAME_SERVER_0250 12, fmt 251 3 GAME_SERVER_0251 10, fmt 252 3 GAME_SERVER_0252 67,
    fmt 253 1 GAME_SERVER_0253 2, fmt 254 3 GAME_SERVER_0254 4, fmt 255 2 GAME_SERVER_0255 3,
    fmt 256 2 GAME_SERVER_0256 3, fmt 257 4 GAME_SERVER_0257 168, fmt 258 1 GAME_SERVER_0258 2,
    fmt 259 2 GAME_SERVER_0259 1030, fmt 260 1 GAME_SERVER_0260 2, fmt 261 2 GAME_SERVER_0261 6,
    fmt 262 6 GAME_SERVER_0262 79, fmt 263 2 GAME_SERVER_0263 6, fmt 264 3 GAME_SERVER_0264 250,
    fmt 265 5 GAME_SERVER_0265 253, fmt 266 2 GAME_SERVER_0266 246, fmt 267 2 GAME_SERVER_0267 6,
    fmt 268 2 GAME_SERVER_0268 6, fmt 269 4 GAME_SERVER_0269 9, fmt 270 3 GAME_SERVER_0270 5,
    fmt 271 3 GAME_SERVER_0271 8, fmt 272 4 GAME_SERVER_0272 12, fmt 273 3 GAME_SERVER_0273 7,
    fmt 274 3 GAME_SERVER_0274 70, fmt 275 3 GAME_SERVER_0275 10, fmt 276 3 GAME_SERVER_0276 10,
    fmt 277 5 GAME_SERVER_0277 25, fmt 278 2 GAME_SERVER_0278 18, fmt 279 4 GAME_SERVER_0279 21,
    fmt 280 1 GAME_SERVER_0280 2, fmt 281 14 GAME_SERVER_0281 94, fmt 282 3 GAME_SERVER_0282 7,
    fmt 283 1 GAME_SERVER_0283 2, fmt 284 2 GAME_SERVER_0284 3, fmt 285 3 GAME_SERVER_0285 8,
    fmt 286 3 GAME_SERVER_0286 134, fmt 287 16 GAME_SERVER_0287 111,
    fmt 288 20 GAME_SERVER_0288 124, fmt 289 4 GAME_SERVER_0289 9, fmt 290 8 GAME_SERVER_0290 143,
    fmt 291 3 GAME_SERVER_0291 19, fmt 292 3 GAME_SERVER_0292 8, fmt 293 3 GAME_SERVER_0293 5,
    fmt 294 10 GAME_SERVER_0294 267, fmt 295 2 GAME_SERVER_0295 42, fmt 296 2 GAME_SERVER_0296 42,
    fmt 297 2 GAME_SERVER_0297 42, fmt 298 3 GAME_SERVER_0298 134, fmt 299 3 GAME_SERVER_0299 10]"

definition GAME_SERVER_FORMATS_300 :: "msg_format list" where
  "GAME_SERVER_FORMATS_300 = [
    fmt 300 2 GAME_SERVER_0300 3, fmt 301 2 GAME_SERVER_0301 4, fmt 302 3 GAME_SERVER_0302 554,
    fmt 303 3 GAME_SERVER_0303 8, fmt 304 1 GAME_SERVER_0304 2, fmt 305 3 GAME_SERVER_0305 7,
    fmt 306 2 GAME_SERVER_0306 6, fmt 307 1 GAME_SERVER_0307 2, fmt 308 4 GAME_SERVER_0308 12,
    fmt 309 2 GAME_SERVER_0309 6, fmt 310 3 GAME_SERVER_0310 10, fmt 311 7 GAME_SERVER_0311 71,
    fmt 312 3 GAME_SERVER_0312 10, fmt 313 3 GAME_SERVER_0313 70, fmt 314 3 GAME_SERVER_0314 10,
    fmt 315 3 GAME_SERVER_0315 7, fmt 316 4 GAME_SERVER_0316 9, fmt 317 5 GAME_SERVER_0317 11,
    fmt 318 7 GAME_SERVER_0318 13, fmt 319 3 GAME_SERVER_0319 8, fmt 320 3 GAME_SERVER_0320 8,
    fmt 321 2 GAME_SERVER_0321 4, fmt 322 3 GAME_SERVER_0322 6, fmt 323 3 GAME_SERVER_0323 5,
    fmt 324 2 GAME_SERVER_0324 4, fmt 325 6 GAME_SERVER_0325 12, fmt 326 5 GAME_SERVER_0326 13,
    fmt 327 3 GAME_SERVER_0327 5, fmt 328 4 GAME_SERVER_0328 7, fmt 329 1 GAME_SERVER_0329 2,
    fmt 330 5 GAME_SERVER_0330 11, fmt 331 4 GAME_SERVER_0331 6, fmt 332 3 GAME_SERVER_0332 8,
    fmt 333 3 GAME_SERVER_0333 6, fmt 334 3 GAME_SERVER_0334 8, fmt 335 3 GAME_SERVER_0335 8,
    fmt 336 3 GAME_SERVER_0336 8, fmt 337 4 GAME_SERVER_0337 12, fmt 338 5 GAME_SERVER_0338 11,
    fmt 339 4 GAME_SERVER_0339 8, fmt 340 3 GAME_SERVER_0340 10, fmt 341 2 GAME_SERVER_0341 6,
    fmt 342 5 GAME_SERVER_0342 18, fmt 343 3 GAME_SERVER_0343 4, fmt 344 3 GAME_SERVER_0344 8,
    fmt 345 3 GAME_SERVER_0345 7, fmt 346 3 GAME_SERVER_0346 10, fmt 347 10 GAME_SERVER_0347 92,
    fmt 348 3 GAME_SERVER_0348 10, fmt 349 10 GAME_SERVER_0349 25]"

definition GAME_SERVER_FORMATS_350 :: "msg_format list" where
  "GAME_SERVER_FORMATS_350 = [
    fmt 350 10 GAME_SERVER_0350 25, fmt 351 7 GAME_SERVER_0351 402, fmt 352 15 GAME_SERVER_0352 421,
    fmt 353 15 GAME_SERVER_0353 421, fmt 354 4 GAME_SERVER_0354 24, fmt 355 1 GAME_SERVER_0355 2,
    fmt 356 1 GAME_SERVER_0356 2, fmt 357 1 GAME_SERVER_0357 2, fmt 358 2 GAME_SERVER_0358 3,
    fmt 359 3 GAME_SERVER_0359 6, fmt 360 3 GAME_SERVER_0360 7, fmt 361 4 GAME_SERVER_0361 24,
    fmt 362 1 GAME_SERVER_0362 2, fmt 363 1 GAME_SERVER_0363 2, fmt 364 2 GAME_SERVER_0364 3,
    fmt 365 2 GAME_SERVER_0365 3, fmt 366 1 GAME_SERVER_0366 2, fmt 367 1 GAME_SERVER_0367 2,
    fmt 368 24 GAME_SERVER_0368 57, fmt 369 2 GAME_SERVER_0369 6, fmt 370 2 GAME_SERVER_0370 6,
    fmt 371 24 GAME_SERVER_0371 57, fmt 372 5 GAME_SERVER_0372 137, fmt 373 3 GAME_SERVER_0373 8,
    fmt 374 5 GAME_SERVER_0374 137, fmt 375 21 GAME_SERVER_0375 175, fmt 376 4 GAME_SERVER_0376 9,
    fmt 377 2 GAME_SERVER_0377 3, fmt 378 1 GAME_SERVER_0378 2, fmt 379 5 GAME_SERVER_0379 6,
    fmt 380 2 GAME_SERVER_0380 42, fmt 381 1 GAME_SERVER_0381 2, fmt 382 2 GAME_SERVER_0382 6,
    fmt 383 5 GAME_SERVER_0383 255, fmt 384 2 GAME_SERVER_0384 6, fmt 385 3 GAME_SERVER_0385 247,
    fmt 386 3 GAME_SERVER_0386 262, fmt 387 3 GAME_SERVER_0387 770, fmt 388 3 GAME_SERVER_0388 262,
    fmt 389 1 GAME_SERVER_0389 2, fmt 390 2 GAME_SERVER_0390 6, fmt 391 5 GAME_SERVER_0391 1088,
    fmt 392 1 GAME_SERVER_0392 2, fmt 393 1 GAME_SERVER_0393 2, fmt 394 2 GAME_SERVER_0394 6,
    fmt 395 2 GAME_SERVER_0395 3, fmt 396 2 GAME_SERVER_0396 4, fmt 397 1 GAME_SERVER_0397 2,
    fmt 398 4 GAME_SERVER_0398 10, fmt 399 3 GAME_SERVER_0399 7]"

definition GAME_SERVER_FORMATS_400 :: "msg_format list" where
  "GAME_SERVER_FORMATS_400 = [
    fmt 400 2 GAME_SERVER_0400 4, fmt 401 9 GAME_SERVER_0401 463, fmt 402 3 GAME_SERVER_0402 5,
    fmt 403 2 GAME_SERVER_0403 3, fmt 404 7 GAME_SERVER_0404 26, fmt 405 2 GAME_SERVER_0405 1030,
    fmt 406 4 GAME_SERVER_0406 9, fmt 407 2 GAME_SERVER_0407 3, fmt 408 7 GAME_SERVER_0408 15,
    fmt 409 3 GAME_SERVER_0409 10, fmt 410 2 GAME_SERVER_0410 4, fmt 411 2 GAME_SERVER_0411 246,
    fmt 412 18 GAME_SERVER_0412 229, fmt 413 1 GAME_SERVER_0413 2, fmt 414 4 GAME_SERVER_0414 102,
    fmt 415 9 GAME_SERVER_0415 508, fmt 416 2 GAME_SERVER_0416 3, fmt 417 7 GAME_SERVER_0417 20,
    fmt 418 4 GAME_SERVER_0418 491, fmt 419 14 GAME_SERVER_0419 79, fmt 420 7 GAME_SERVER_0420 38,
    fmt 421 10 GAME_SERVER_0421 506, fmt 422 2 GAME_SERVER_0422 3, fmt 423 3 GAME_SERVER_0423 7,
    fmt 424 3 GAME_SERVER_0424 7, fmt 425 2 GAME_SERVER_0425 3, fmt 426 2 GAME_SERVER_0426 6,
    fmt 427 5 GAME_SERVER_0427 52, fmt 428 7 GAME_SERVER_0428 51, fmt 429 13 GAME_SERVER_0429 96,
    fmt 430 2 GAME_SERVER_0430 246, fmt 431 2 GAME_SERVER_0431 6, fmt 432 4 GAME_SERVER_0432 9,
    fmt 433 3 GAME_SERVER_0433 5, fmt 434 7 GAME_SERVER_0434 77, fmt 435 1 GAME_SERVER_0435 2,
    fmt 436 7 GAME_SERVER_0436 77, fmt 437 1 GAME_SERVER_0437 2, fmt 438 2 GAME_SERVER_0438 3,
    fmt 439 2 GAME_SERVER_0439 3, fmt 440 1 GAME_SERVER_0440 2, fmt 441 1 GAME_SERVER_0441 2,
    fmt 442 4 GAME_SERVER_0442 249, fmt 443 2 GAME_SERVER_0443 3, fmt 444 2 GAME_SERVER_0444 6,
    fmt 445 2 GAME_SERVER_0445 3, fmt 446 6 GAME_SERVER_0446 48, fmt 447 3 GAME_SERVER_0447 6,
    fmt 448 2 GAME_SERVER_0448 4, fmt 449 6 GAME_SERVER_0449 10]"

definition GAME_SERVER_FORMATS_450 :: "msg_format list" where
  "GAME_SERVER_FORMATS_450 = [
    fmt 450 4 GAME_SERVER_0450 8, fmt 451 2 GAME_SERVER_0451 4, fmt 452 2 GAME_SERVER_0452 4,
    fmt 453 2 GAME_SERVER_0453 4, fmt 454 2 GAME_SERVER_0454 4, fmt 455 2 GAME_SERVER_0455 4,
    fmt 456 2 GAME_SERVER_0456 4, fmt 457 2 GAME_SERVER_0457 3, fmt 458 4 GAME_SERVER_0458 7,
    fmt 459 3 GAME_SERVER_0459 6, fmt 460 3 GAME_SERVER_0460 6, fmt 461 3 GAME_SERVER_0461 6,
    fmt 462 3 GAME_SERVER_0462 6, fmt 463 3 GAME_SERVER_0463 6, fmt 464 4 GAME_SERVER_0464 7,
    fmt 465 2 GAME_SERVER_0465 4, fmt 466 2 GAME_SERVER_0466 4, fmt 467 2 GAME_SERVER_0467 246,
    fmt 468 1 GAME_SERVER_0468 2, fmt 469 2 GAME_SERVER_0469 3, fmt 470 6 GAME_SERVER_0470 234,
    fmt 471 1 GAME_SERVER_0471 2, fmt 472 4 GAME_SERVER_0472 248, fmt 473 3 GAME_SERVER_0473 5,
    fmt 474 3 GAME_SERVER_0474 6, fmt 475 3 GAME_SERVER_0475 6, fmt 476 14 GAME_SERVER_0476 122,
    fmt 477 2 GAME_SERVER_0477 4, fmt 478 2 GAME_SERVER_0478 4, fmt 479 4 GAME_SERVER_0479 6,
    fmt 480 4 GAME_SERVER_0480 6, fmt 481 2 GAME_SERVER_0481 3, fmt 482 2 GAME_SERVER_0482 246,
    fmt 483 2 GAME_SERVER_0483 3, fmt 484 2 GAME_SERVER_0484 3]"

definition GAME_SERVER_FORMATS :: "msg_format list" where
  "GAME_SERVER_FORMATS = GAME_SERVER_FORMATS_0 @ GAME_SERVER_FORMATS_50 @ GAME_SERVER_FORMATS_100 @
    GAME_SERVER_FORMATS_150 @ GAME_SERVER_FORMATS_200 @ GAME_SERVER_FORMATS_250 @
    GAME_SERVER_FORMATS_300 @ GAME_SERVER_FORMATS_350 @ GAME_SERVER_FORMATS_400 @
    GAME_SERVER_FORMATS_450"

lemma length_GAME_SERVER_FORMATS_0 [simp]: "length GAME_SERVER_FORMATS_0 = 50"
  by (simp add: GAME_SERVER_FORMATS_0_def)

lemma table_ok_GAME_SERVER_FORMATS_0: "table_ok 0 GAME_SERVER_FORMATS_0"
  by (simp add: GAME_SERVER_FORMATS_0_def packet_defs table_ok_simps)

lemma length_GAME_SERVER_FORMATS_50 [simp]: "length GAME_SERVER_FORMATS_50 = 50"
  by (simp add: GAME_SERVER_FORMATS_50_def)

lemma table_ok_GAME_SERVER_FORMATS_50: "table_ok 50 GAME_SERVER_FORMATS_50"
  by (simp add: GAME_SERVER_FORMATS_50_def packet_defs table_ok_simps)

lemma length_GAME_SERVER_FORMATS_100 [simp]: "length GAME_SERVER_FORMATS_100 = 50"
  by (simp add: GAME_SERVER_FORMATS_100_def)

lemma table_ok_GAME_SERVER_FORMATS_100: "table_ok 100 GAME_SERVER_FORMATS_100"
  by (simp add: GAME_SERVER_FORMATS_100_def packet_defs table_ok_simps)

lemma length_GAME_SERVER_FORMATS_150 [simp]: "length GAME_SERVER_FORMATS_150 = 50"
  by (simp add: GAME_SERVER_FORMATS_150_def)

lemma table_ok_GAME_SERVER_FORMATS_150: "table_ok 150 GAME_SERVER_FORMATS_150"
  by (simp add: GAME_SERVER_FORMATS_150_def packet_defs table_ok_simps)

lemma length_GAME_SERVER_FORMATS_200 [simp]: "length GAME_SERVER_FORMATS_200 = 50"
  by (simp add: GAME_SERVER_FORMATS_200_def)

lemma table_ok_GAME_SERVER_FORMATS_200: "table_ok 200 GAME_SERVER_FORMATS_200"
  by (simp add: GAME_SERVER_FORMATS_200_def packet_defs table_ok_simps)

lemma length_GAME_SERVER_FORMATS_250 [simp]: "length GAME_SERVER_FORMATS_250 = 50"
  by (simp add: GAME_SERVER_FORMATS_250_def)

lemma table_ok_GAME_SERVER_FORMATS_250: "table_ok 250 GAME_SERVER_FORMATS_250"
  by (simp add: GAME_SERVER_FORMATS_250_def packet_defs table_ok_simps)

lemma length_GAME_SERVER_FORMATS_300 [simp]: "length GAME_SERVER_FORMATS_300 = 50"
  by (simp add: GAME_SERVER_FORMATS_300_def)

lemma table_ok_GAME_SERVER_FORMATS_300: "table_ok 300 GAME_SERVER_FORMATS_300"
  by (simp add: GAME_SERVER_FORMATS_300_def packet_defs table_ok_simps)

lemma length_GAME_SERVER_FORMATS_350 [simp]: "length GAME_SERVER_FORMATS_350 = 50"
  by (simp add: GAME_SERVER_FORMATS_350_def)

lemma table_ok_GAME_SERVER_FORMATS_350: "table_ok 350 GAME_SERVER_FORMATS_350"
  by (simp add: GAME_SERVER_FORMATS_350_def packet_defs table_ok_simps)

lemma length_GAME_SERVER_FORMATS_400 [simp]: "length GAME_SERVER_FORMATS_400 = 50"
  by (simp add: GAME_SERVER_FORMATS_400_def)

lemma table_ok_GAME_SERVER_FORMATS_400: "table_ok 400 GAME_SERVER_FORMATS_400"
  by (simp add: GAME_SERVER_FORMATS_400_def packet_defs table_ok_simps)

lemma length_GAME_SERVER_FORMATS_450 [simp]: "length GAME_SERVER_FORMATS_450 = 35"
  by (simp add: GAME_SERVER_FORMATS_450_def)

lemma table_ok_GAME_SERVER_FORMATS_450: "table_ok 450 GAME_SERVER_FORMATS_450"
  by (simp add: GAME_SERVER_FORMATS_450_def packet_defs table_ok_simps)

lemma length_GAME_SERVER_FORMATS [simp]: "length GAME_SERVER_FORMATS = 485"
  by (simp add: GAME_SERVER_FORMATS_def)

lemma table_ok_GAME_SERVER_FORMATS: "table_ok 0 GAME_SERVER_FORMATS"
  by (simp add: GAME_SERVER_FORMATS_def table_ok_append table_ok_GAME_SERVER_FORMATS_0 table_ok_GAME_SERVER_FORMATS_50 table_ok_GAME_SERVER_FORMATS_100 table_ok_GAME_SERVER_FORMATS_150 table_ok_GAME_SERVER_FORMATS_200 table_ok_GAME_SERVER_FORMATS_250 table_ok_GAME_SERVER_FORMATS_300 table_ok_GAME_SERVER_FORMATS_350 table_ok_GAME_SERVER_FORMATS_400 table_ok_GAME_SERVER_FORMATS_450)

lemma bounds_GAME_SERVER_FORMATS_0:
  "list_all (\<lambda>m. unpack_bound (mf_fields m) \<le> 4096 \<and> max_wire (mf_fields m) \<le> 4096) GAME_SERVER_FORMATS_0"
  by (simp add: GAME_SERVER_FORMATS_0_def packet_defs bound_simps)

lemma bounds_GAME_SERVER_FORMATS_50:
  "list_all (\<lambda>m. unpack_bound (mf_fields m) \<le> 4096 \<and> max_wire (mf_fields m) \<le> 4096) GAME_SERVER_FORMATS_50"
  by (simp add: GAME_SERVER_FORMATS_50_def packet_defs bound_simps)

lemma bounds_GAME_SERVER_FORMATS_100:
  "list_all (\<lambda>m. unpack_bound (mf_fields m) \<le> 4096 \<and> max_wire (mf_fields m) \<le> 4096) GAME_SERVER_FORMATS_100"
  by (simp add: GAME_SERVER_FORMATS_100_def packet_defs bound_simps)

lemma bounds_GAME_SERVER_FORMATS_150:
  "list_all (\<lambda>m. unpack_bound (mf_fields m) \<le> 4096 \<and> max_wire (mf_fields m) \<le> 4096) GAME_SERVER_FORMATS_150"
  by (simp add: GAME_SERVER_FORMATS_150_def packet_defs bound_simps)

lemma bounds_GAME_SERVER_FORMATS_200:
  "list_all (\<lambda>m. unpack_bound (mf_fields m) \<le> 4096 \<and> max_wire (mf_fields m) \<le> 4096) GAME_SERVER_FORMATS_200"
  by (simp add: GAME_SERVER_FORMATS_200_def packet_defs bound_simps)

lemma bounds_GAME_SERVER_FORMATS_250:
  "list_all (\<lambda>m. unpack_bound (mf_fields m) \<le> 4096 \<and> max_wire (mf_fields m) \<le> 4096) GAME_SERVER_FORMATS_250"
  by (simp add: GAME_SERVER_FORMATS_250_def packet_defs bound_simps)

lemma bounds_GAME_SERVER_FORMATS_300:
  "list_all (\<lambda>m. unpack_bound (mf_fields m) \<le> 4096 \<and> max_wire (mf_fields m) \<le> 4096) GAME_SERVER_FORMATS_300"
  by (simp add: GAME_SERVER_FORMATS_300_def packet_defs bound_simps)

lemma bounds_GAME_SERVER_FORMATS_350:
  "list_all (\<lambda>m. unpack_bound (mf_fields m) \<le> 4096 \<and> max_wire (mf_fields m) \<le> 4096) GAME_SERVER_FORMATS_350"
  by (simp add: GAME_SERVER_FORMATS_350_def packet_defs bound_simps)

lemma bounds_GAME_SERVER_FORMATS_400:
  "list_all (\<lambda>m. unpack_bound (mf_fields m) \<le> 4096 \<and> max_wire (mf_fields m) \<le> 4096) GAME_SERVER_FORMATS_400"
  by (simp add: GAME_SERVER_FORMATS_400_def packet_defs bound_simps)

lemma bounds_GAME_SERVER_FORMATS_450:
  "list_all (\<lambda>m. unpack_bound (mf_fields m) \<le> 4096 \<and> max_wire (mf_fields m) \<le> 4096) GAME_SERVER_FORMATS_450"
  by (simp add: GAME_SERVER_FORMATS_450_def packet_defs bound_simps)

lemma bounds_GAME_SERVER_FORMATS:
  "list_all (\<lambda>m. unpack_bound (mf_fields m) \<le> 4096 \<and> max_wire (mf_fields m) \<le> 4096) GAME_SERVER_FORMATS"
  by (simp add: GAME_SERVER_FORMATS_def bounds_GAME_SERVER_FORMATS_0 bounds_GAME_SERVER_FORMATS_50 bounds_GAME_SERVER_FORMATS_100 bounds_GAME_SERVER_FORMATS_150 bounds_GAME_SERVER_FORMATS_200 bounds_GAME_SERVER_FORMATS_250 bounds_GAME_SERVER_FORMATS_300 bounds_GAME_SERVER_FORMATS_350 bounds_GAME_SERVER_FORMATS_400 bounds_GAME_SERVER_FORMATS_450)

lemma sizes_GAME_SERVER_FORMATS_0: "list_all (\<lambda>m. mf_unpack_size m \<le> 4096) GAME_SERVER_FORMATS_0"
  by (simp add: GAME_SERVER_FORMATS_0_def)

lemma sizes_GAME_SERVER_FORMATS_50: "list_all (\<lambda>m. mf_unpack_size m \<le> 4096) GAME_SERVER_FORMATS_50"
  by (simp add: GAME_SERVER_FORMATS_50_def)

lemma sizes_GAME_SERVER_FORMATS_100: "list_all (\<lambda>m. mf_unpack_size m \<le> 4096) GAME_SERVER_FORMATS_100"
  by (simp add: GAME_SERVER_FORMATS_100_def)

lemma sizes_GAME_SERVER_FORMATS_150: "list_all (\<lambda>m. mf_unpack_size m \<le> 4096) GAME_SERVER_FORMATS_150"
  by (simp add: GAME_SERVER_FORMATS_150_def)

lemma sizes_GAME_SERVER_FORMATS_200: "list_all (\<lambda>m. mf_unpack_size m \<le> 4096) GAME_SERVER_FORMATS_200"
  by (simp add: GAME_SERVER_FORMATS_200_def)

lemma sizes_GAME_SERVER_FORMATS_250: "list_all (\<lambda>m. mf_unpack_size m \<le> 4096) GAME_SERVER_FORMATS_250"
  by (simp add: GAME_SERVER_FORMATS_250_def)

lemma sizes_GAME_SERVER_FORMATS_300: "list_all (\<lambda>m. mf_unpack_size m \<le> 4096) GAME_SERVER_FORMATS_300"
  by (simp add: GAME_SERVER_FORMATS_300_def)

lemma sizes_GAME_SERVER_FORMATS_350: "list_all (\<lambda>m. mf_unpack_size m \<le> 4096) GAME_SERVER_FORMATS_350"
  by (simp add: GAME_SERVER_FORMATS_350_def)

lemma sizes_GAME_SERVER_FORMATS_400: "list_all (\<lambda>m. mf_unpack_size m \<le> 4096) GAME_SERVER_FORMATS_400"
  by (simp add: GAME_SERVER_FORMATS_400_def)

lemma sizes_GAME_SERVER_FORMATS_450: "list_all (\<lambda>m. mf_unpack_size m \<le> 4096) GAME_SERVER_FORMATS_450"
  by (simp add: GAME_SERVER_FORMATS_450_def)

lemma sizes_GAME_SERVER_FORMATS: "list_all (\<lambda>m. mf_unpack_size m \<le> 4096) GAME_SERVER_FORMATS"
  by (simp add: GAME_SERVER_FORMATS_def sizes_GAME_SERVER_FORMATS_0 sizes_GAME_SERVER_FORMATS_50 sizes_GAME_SERVER_FORMATS_100 sizes_GAME_SERVER_FORMATS_150 sizes_GAME_SERVER_FORMATS_200 sizes_GAME_SERVER_FORMATS_250 sizes_GAME_SERVER_FORMATS_300 sizes_GAME_SERVER_FORMATS_350 sizes_GAME_SERVER_FORMATS_400 sizes_GAME_SERVER_FORMATS_450)

end
