(* ===== verification/Handshake.thy ===== *)
theory Handshake
  imports Connection Hashing Uuid Packets_Auth Packets_Game_Client Packets_Game_Server
begin

unbundle bit_operations_syntax

text \<open>
  The handshake of \<^verbatim>\<open>code/client/network.c\<close>: connecting the socket, the version message, the
  Diffie-Hellman key exchange and the set-up of the ciphers. The big numbers are those of mbedtls;
  a number is the memory of its limbs, \<^verbatim>\<open>private_p\<close>, least significant byte first, and a number
  without limbs is the empty memory. Parameters of the definitions: \<open>exp_mod\<close> and \<open>rand\<close>, the
  library's modular exponentiation and random numbers, and the record \<open>os\<close> of what the system
  answers. The operations also return what they have sent.
\<close>

section \<open>Definitions\<close>

type_synonym mpi = bytes

record DiffieHellmanCtx =
  prime_modulus :: mpi
  server_public :: mpi
  primitive_root :: mpi

text \<open>The answers of the operating system: the descriptor of a new socket, the result of each try to
  connect, of the system calls send and recv, and the time.\<close>

record os =
  os_socket :: int
  os_connect :: "nat \<Rightarrow> sockaddr \<Rightarrow> int"
  os_send :: "bytes \<Rightarrow> int"
  os_recv :: "nat \<Rightarrow> recv_result"
  os_time :: u64

definition AUTH_CMSG_VERSION_HEADER :: u32 where "AUTH_CMSG_VERSION_HEADER = 0xC0400"
definition GAME_CMSG_VERSION_HEADER :: u32 where "GAME_CMSG_VERSION_HEADER = 0xC0500"

text \<open>The packed structures that are sent as they are.\<close>

definition MSG_CLIENT_SEED :: "bytes \<Rightarrow> bytes" where
  "MSG_CLIENT_SEED seed = [0, 66] @ seed"

definition AUTH_CMSG_VERSION :: "u32 \<Rightarrow> bytes" where
  "AUTH_CMSG_VERSION version =
     le32enc AUTH_CMSG_VERSION_HEADER @ le32enc version @ le32enc 1 @ le32enc 4"

definition GAME_CMSG_VERSION :: "u32 \<Rightarrow> uuid \<Rightarrow> uuid \<Rightarrow> u32 \<Rightarrow> u32 \<Rightarrow> u32 \<Rightarrow> bytes" where
  "GAME_CMSG_VERSION version account character world_hash player_hash map_id =
     le32enc GAME_CMSG_VERSION_HEADER @ le32enc version @ le32enc 1 @ le32enc world_hash @
     le32enc map_id @ le32enc player_hash @ uuid_enc_le account @ uuid_enc_le character @
     le32enc 0 @ le32enc 0"

definition key_exchange_helper ::
    "(mpi \<Rightarrow> mpi \<Rightarrow> mpi \<Rightarrow> mpi) \<Rightarrow> (nat \<Rightarrow> mpi) \<Rightarrow> os \<Rightarrow> connection \<Rightarrow> DiffieHellmanCtx \<Rightarrow>
     fault + bool \<times> connection \<times> bytes list" where
  "key_exchange_helper exp_mod rand os c dhm =
     (let private_key = rand 64;
          public_key = exp_mod (primitive_root dhm) private_key (prime_modulus dhm);
          shared_secret = exp_mod (server_public dhm) private_key (prime_modulus dhm)
      in if shared_secret = [] \<or> public_key = [] then Inr (False, c, [])
      else
        bindE (mem_read public_key 0 64) (\<lambda>seed.
        let client_seed = MSG_CLIENT_SEED seed in
        if os_send os client_seed \<noteq> int (length client_seed) then Inr (False, c, [client_seed])
        else case os_recv os 22 of
          RecvError e \<Rightarrow> Inr (False, c, [client_seed])
        | RecvBytes server_seed \<Rightarrow>
            if length server_seed \<noteq> 22 then Inr (False, c, [client_seed])
            else
              bindE (mem_read shared_secret 0 20) (\<lambda>shared_bytes.
              bindE (arc4_hash (map2 (XOR) (drop 2 server_seed) shared_bytes)) (\<lambda>arc4_key.
              bindE (arc4_setup arc4_key 20) (\<lambda>enc. bindE (arc4_setup arc4_key 20) (\<lambda>dec.
                Inr (True, c\<lparr>conn_encrypt := enc, conn_decrypt := dec, conn_secured := True\<rparr>, [client_seed])))))))"

text \<open>The loop that tries to connect: \<open>left\<close> tries are left, \<open>result\<close> is that of the last one.\<close>

fun connect_loop :: "os \<Rightarrow> sockaddr \<Rightarrow> nat \<Rightarrow> nat \<Rightarrow> int \<Rightarrow> int" where
  "connect_loop os host i 0 result = result"
| "connect_loop os host i (Suc left) result =
     (if result \<noteq> SOCKET_ERROR then result
      else connect_loop os host (i + 1) left (os_connect os i host))"

text \<open>
  What both connect functions do once the address is known: they differ in the kind, the tables
  and the version message.
\<close>

definition srv_connect ::
    "(mpi \<Rightarrow> mpi \<Rightarrow> mpi \<Rightarrow> mpi) \<Rightarrow> (nat \<Rightarrow> mpi) \<Rightarrow> os \<Rightarrow> DiffieHellmanCtx \<Rightarrow>
     msg_format list \<Rightarrow> msg_format list \<Rightarrow> bytes \<Rightarrow> connection \<Rightarrow> fault + bool \<times> connection \<times> bytes list" where
  "srv_connect exp_mod rand os keys server_formats client_formats version c =
     (let c = c\<lparr>conn_fd := os_socket os\<rparr> in
      if conn_fd c = INVALID_SOCKET then Inr (False, NetConn_Reset c, [])
      else
        let c = c\<lparr>conn_t0 := os_time os, conn_secured := False\<rparr> in
        if connect_loop os (conn_host c) 0 5 SOCKET_ERROR = SOCKET_ERROR
        then Inr (False, NetConn_Reset c, [])
        else
          let c = c\<lparr>conn_server_msg_format := server_formats, conn_client_msg_format := client_formats\<rparr> in
          if os_send os version = SOCKET_ERROR then Inr (False, NetConn_Reset c, [version])
          else
            bindE (key_exchange_helper exp_mod rand os c keys) (\<lambda>(ok, c, sent).
              if \<not> ok then Inr (False, NetConn_Reset c, version # sent)
              else Inr (True, c, version # sent)))"

definition AuthSrv_Connect ::
    "(mpi \<Rightarrow> mpi \<Rightarrow> mpi \<Rightarrow> mpi) \<Rightarrow> (nat \<Rightarrow> mpi) \<Rightarrow> os \<Rightarrow> DiffieHellmanCtx \<Rightarrow> u32 \<Rightarrow> bool \<Rightarrow> sockaddr list \<Rightarrow>
     connection \<Rightarrow> fault + bool \<times> connection \<times> bytes list" where
  "AuthSrv_Connect exp_mod rand os keys game_version net_initialized AuthSrv_IPs c =
     bindE (assertE net_initialized) (\<lambda>_.
     let c = c\<lparr>conn_proto := ConnectionType_Auth\<rparr> in
     if fst (conn_host c) = 0 \<and> AuthSrv_IPs = [] then Inr (False, NetConn_Reset c, [])
     else
       let c = (if fst (conn_host c) = 0 then c\<lparr>conn_host := hd AuthSrv_IPs\<rparr> else c) in
       srv_connect exp_mod rand os keys AUTH_SERVER_FORMATS AUTH_CLIENT_FORMATS
         (AUTH_CMSG_VERSION game_version) c)"

definition GameSrv_Connect ::
    "(mpi \<Rightarrow> mpi \<Rightarrow> mpi \<Rightarrow> mpi) \<Rightarrow> (nat \<Rightarrow> mpi) \<Rightarrow> os \<Rightarrow> DiffieHellmanCtx \<Rightarrow> u32 \<Rightarrow> bool \<Rightarrow>
     uuid \<Rightarrow> uuid \<Rightarrow> u32 \<Rightarrow> u32 \<Rightarrow> u32 \<Rightarrow> connection \<Rightarrow> fault + bool \<times> connection \<times> bytes list" where
  "GameSrv_Connect exp_mod rand os keys game_version net_initialized account character
       world_hash player_hash map_id c =
     bindE (assertE net_initialized) (\<lambda>_.
       srv_connect exp_mod rand os keys GAME_SERVER_FORMATS GAME_CLIENT_FORMATS
         (GAME_CMSG_VERSION game_version account character world_hash player_hash map_id)
         (c\<lparr>conn_proto := ConnectionType_Game\<rparr>))"

section \<open>The bytes of a number\<close>

fun mpi_value :: "mpi \<Rightarrow> nat" where
  "mpi_value [] = 0"
| "mpi_value (b # bs) = unat b + 256 * mpi_value bs"

lemma mpi_value_inj: "length xs = length ys \<Longrightarrow> mpi_value xs = mpi_value ys \<Longrightarrow> xs = ys"
proof (induction xs ys rule: list_induct2)
  case (Cons x xs y ys)
  have "unat x = (unat x + 256 * mpi_value xs) mod 256" by simp
  also have "\<dots> = (unat y + 256 * mpi_value ys) mod 256" using Cons.prems by simp
  finally have "unat x = unat y" by simp
  then show ?case using Cons by (simp add: word_unat_eq_iff)
qed simp

lemma mpi_value_append: "mpi_value (xs @ ys) = mpi_value xs + 256 ^ length xs * mpi_value ys"
  by (induction xs) (auto simp: algebra_simps)

lemma mpi_value_less: "mpi_value xs < 256 ^ length xs"
proof (induction xs)
  case (Cons x xs)
  have "unat x < 256" by (rule unat_u8_less)
  moreover have "256 * Suc (mpi_value xs) \<le> 256 * 256 ^ length xs" using Cons by (intro mult_le_mono) auto
  ultimately show ?case
    unfolding mpi_value.simps length_Cons power_Suc mult_Suc_right by (meson add_less_cancel_right less_le_trans)
qed simp

text \<open>The low bytes of a number depend on its value only.\<close>

lemma mpi_value_take: "mpi_value (take k xs) = mpi_value xs mod 256 ^ min k (length xs)"
proof -
  have "mpi_value xs = mpi_value (take k xs) + 256 ^ length (take k xs) * mpi_value (drop k xs)"
    using mpi_value_append [of "take k xs" "drop k xs"] by simp
  then show ?thesis using mpi_value_less [of "take k xs"] by (simp add: min.commute)
qed

lemma take_mpi_eq:
  assumes "mpi_value xs = mpi_value ys" "k \<le> length xs" "k \<le> length ys"
  shows "take k xs = take k ys"
  by (rule mpi_value_inj) (use assms in \<open>simp_all add: mpi_value_take min_def\<close>)

section \<open>The key exchange\<close>

lemma le32dec_four: "4 \<le> length p \<Longrightarrow> \<exists>w. le32dec p = Inr w"
  by (cases p rule: le32dec.cases) auto

lemma arc4_hash_ok:
  assumes "20 \<le> length key"
  shows "\<exists>d. arc4_hash key = Inr d \<and> length d = 20"
proof -
  have "\<exists>w. le32dec (drop k key) = Inr w" if "k + 4 \<le> length key" for k
    using that le32dec_four [of "drop k key"] by simp
  from this [of 0] this [of 4] this [of 8] this [of 12] this [of 16] assms
  show ?thesis by (auto simp: arc4_hash_def Let_def)
qed

lemma xor_twice:
  fixes xs ys :: bytes
  shows "length xs = length ys \<Longrightarrow> map2 (XOR) (map2 (XOR) xs ys) ys = xs"
  by (induction xs ys rule: list_induct2) (simp_all add: xor.assoc)

lemma key_exchange_helper_ok:
  assumes "public = exp_mod (primitive_root dhm) (rand 64) (prime_modulus dhm)" "64 \<le> length public"
    and "shared = exp_mod (server_public dhm) (rand 64) (prime_modulus dhm)" "20 \<le> length shared"
    and "os_send os (MSG_CLIENT_SEED (take 64 public)) = 66" "os_recv os 22 = RecvBytes seed" "length seed = 22"
  shows "\<exists>key ctx. arc4_hash (map2 (XOR) (drop 2 seed) (take 20 shared)) = Inr key \<and> length key = 20 \<and>
    arc4_setup key 20 = Inr ctx \<and> arc4_ok ctx \<and>
    key_exchange_helper exp_mod rand os c dhm =
      Inr (True, c\<lparr>conn_encrypt := ctx, conn_decrypt := ctx, conn_secured := True\<rparr>, [MSG_CLIENT_SEED (take 64 public)])"
proof -
  obtain key where key: "arc4_hash (map2 (XOR) (drop 2 seed) (take 20 shared)) = Inr key" "length key = 20"
    using arc4_hash_ok [of "map2 (XOR) (drop 2 seed) (take 20 shared)"] assms(4,7) by auto
  obtain ctx where ctx: "arc4_setup key 20 = Inr ctx" "arc4_ok ctx"
    using arc4_setup_ok [of 20 key] key(2) by auto
  have "public \<noteq> []" "shared \<noteq> []" using assms(2,4) by auto
  moreover have "length (MSG_CLIENT_SEED (take 64 public)) = 66" using assms(2) by (simp add: MSG_CLIENT_SEED_def)
  ultimately show ?thesis
    using key ctx assms by (simp add: key_exchange_helper_def Let_def)
qed

text \<open>The outcome of the exchange, whatever the server answers.\<close>

lemma key_exchange_helper_cases:
  assumes "\<And>a e m. exp_mod a e m = [] \<or> 64 \<le> length (exp_mod a e m)"
  shows "\<exists>sent. key_exchange_helper exp_mod rand os c dhm = Inr (False, c, sent) \<or>
    (\<exists>ctx. arc4_ok ctx \<and> key_exchange_helper exp_mod rand os c dhm =
      Inr (True, c\<lparr>conn_encrypt := ctx, conn_decrypt := ctx, conn_secured := True\<rparr>, sent))"
proof -
  define public where "public = exp_mod (primitive_root dhm) (rand 64) (prime_modulus dhm)"
  define shared where "shared = exp_mod (server_public dhm) (rand 64) (prime_modulus dhm)"
  note defs = key_exchange_helper_def Let_def public_def [symmetric] shared_def [symmetric]
  consider "shared = [] \<or> public = []" | "shared \<noteq> []" "public \<noteq> []" by blast
  then show ?thesis
  proof cases
    case 1
    then show ?thesis by (auto simp: defs)
  next
    case 2
    then have l: "64 \<le> length public" "64 \<le> length shared"
      using assms unfolding public_def shared_def by blast+
    let ?m = "MSG_CLIENT_SEED (take 64 public)"
    have lm: "length ?m = 66" using l by (simp add: MSG_CLIENT_SEED_def)
    show ?thesis
    proof (cases "os_send os ?m = 66 \<and> (\<exists>seed. os_recv os 22 = RecvBytes seed \<and> length seed = 22)")
      case True
      then show ?thesis
        using key_exchange_helper_ok [of public exp_mod dhm rand shared os _ c, OF public_def l(1) shared_def] l(2)
        by (elim exE conjE) fastforce
    next
      case False
      then show ?thesis
        using 2 l lm by (cases "os_recv os 22") (auto simp: defs)
    qed
  qed
qed

lemma power_mod_commute: "((a ^ x mod p) ^ s) mod p = ((a ^ s mod p) ^ x) mod (p :: nat)"
  by (simp add: power_mod power_mult [symmetric] mult.commute)

text \<open>
  C7. The two sides agree on the key. When the library computes powers modulo the prime, the
  prime fits 64 bytes and the server knows the exponent of its public number, then a server that
  hides a 20-byte secret under the shared number makes the client set up both ciphers with the
  hash of exactly that secret; the client sends its public number and nothing else.
\<close>

theorem key_exchange_agrees:
  assumes exp: "\<And>a e. mpi_value (exp_mod a e p) = mpi_value a ^ mpi_value e mod mpi_value p"
      "\<And>a e. 64 \<le> length (exp_mod a e p)"
    and keys: "p = prime_modulus keys" "0 < mpi_value p" "mpi_value p \<le> 256 ^ 64"
      "mpi_value (server_public keys) = mpi_value (primitive_root keys) ^ mpi_value s mod mpi_value p"
    and net: "public = take 64 (exp_mod (primitive_root keys) (rand 64) p)" "os_send os (MSG_CLIENT_SEED public) = 66"
      "os_recv os 22 = RecvBytes ([1, 22] @ map2 (XOR) secret (take 20 (exp_mod public s p)))"
      "length secret = 20"
  shows "\<exists>key ctx. arc4_hash secret = Inr key \<and> arc4_setup key 20 = Inr ctx \<and> arc4_ok ctx \<and>
    key_exchange_helper exp_mod rand os c keys =
      Inr (True, c\<lparr>conn_encrypt := ctx, conn_decrypt := ctx, conn_secured := True\<rparr>, [MSG_CLIENT_SEED public])"
proof -
  let ?pub = "exp_mod (primitive_root keys) (rand 64) p" and ?shared = "exp_mod (server_public keys) (rand 64) p"
  have "mpi_value ?pub < mpi_value p" using exp(1) keys(2) by simp
  then have "mpi_value ?pub < 256 ^ 64" using keys(3) by (rule less_le_trans)
  then have "mpi_value public = mpi_value ?pub"
    unfolding net(1) mpi_value_take using exp(2) [of "primitive_root keys" "rand 64"] by (simp add: min_def)
  then have "mpi_value (exp_mod public s p) = mpi_value ?shared"
    unfolding exp(1) keys(4) by (simp only: exp(1) power_mod_commute)
  then have sh: "take 20 (exp_mod public s p) = take 20 ?shared"
    using exp(2) by (intro take_mpi_eq) (auto intro: order_trans [of _ 64])
  have l: "length (take 20 ?shared) = 20" using exp(2) [of "server_public keys" "rand 64"] by simp
  let ?seed = "[1, 22] @ map2 (XOR) secret (take 20 ?shared)"
  have "map2 (XOR) (drop 2 ?seed) (take 20 ?shared) = secret" using xor_twice [of secret "take 20 ?shared"] l net(4) by simp
  then show ?thesis
    using key_exchange_helper_ok [of ?pub exp_mod keys rand ?shared os ?seed c]
      exp(2) [of "primitive_root keys" "rand 64"] exp(2) [of "server_public keys" "rand 64"] net keys(1) sh l
    by auto
qed

text \<open>A library for the concrete instances: numbers of 64 bytes.\<close>

fun mpi_of :: "nat \<Rightarrow> nat \<Rightarrow> mpi" where
  "mpi_of 0 n = []"
| "mpi_of (Suc k) n = of_nat (n mod 256) # mpi_of k (n div 256)"

lemma mpi_of_value: "mpi_value (mpi_of k n) = n mod 256 ^ k \<and> length (mpi_of k n) = k"
proof (induction k arbitrary: n)
  case (Suc k)
  have "unat (of_nat (n mod 256) :: u8) = n mod 256" by (simp add: unat_of_nat take_bit_eq_mod)
  then show ?case using Suc [of "n div 256"] by (simp add: mod_mult2_eq)
qed simp

definition sample_exp_mod :: "mpi \<Rightarrow> mpi \<Rightarrow> mpi \<Rightarrow> mpi" where
  "sample_exp_mod a e m = mpi_of 64 (mpi_value a ^ mpi_value e mod mpi_value m)"

definition sample_keys :: DiffieHellmanCtx where
  "sample_keys = \<lparr>prime_modulus = mpi_of 64 23, server_public = mpi_of 64 8, primitive_root = mpi_of 64 5\<rparr>"

text \<open>The server knows the exponent 6 and hides the secret 7, 7, \<dots> under the shared number.\<close>

definition sample_os :: os where
  "sample_os = \<lparr>os_socket = 5, os_connect = (\<lambda>i _. if i = 0 then SOCKET_ERROR else 0), os_send = (\<lambda>bs. int (length bs)),
     os_recv = (\<lambda>_. RecvBytes ([1, 22] @ map2 (XOR) (replicate 20 7) (take 20 (sample_exp_mod
       (take 64 (sample_exp_mod (mpi_of 64 5) [15] (mpi_of 64 23))) [6] (mpi_of 64 23))))), os_time = 1000\<rparr>"

lemma sample_exp_mod_ok:
  "mpi_value (sample_exp_mod a e (mpi_of 64 23)) = mpi_value a ^ mpi_value e mod mpi_value (mpi_of 64 23)"
  "length (sample_exp_mod a e m) = 64"
proof -
  have v: "mpi_value (mpi_of 64 23) = 23" by (simp add: mpi_of_value)
  have "x mod 23 < 256 ^ 64" for x :: nat by (rule less_trans [of _ 23]) simp_all
  then show "mpi_value (sample_exp_mod a e (mpi_of 64 23)) = mpi_value a ^ mpi_value e mod mpi_value (mpi_of 64 23)"
    unfolding sample_exp_mod_def v by (simp add: mpi_of_value)
  show "length (sample_exp_mod a e m) = 64" by (simp add: sample_exp_mod_def mpi_of_value)
qed

theorem key_exchange_agrees_witness:
  "\<forall>c. \<exists>key ctx sent. arc4_hash (replicate 20 7) = Inr key \<and> arc4_setup key 20 = Inr ctx \<and>
    key_exchange_helper sample_exp_mod (\<lambda>_. [15]) sample_os c sample_keys =
      Inr (True, c\<lparr>conn_encrypt := ctx, conn_decrypt := ctx, conn_secured := True\<rparr>, sent)"
proof
  fix c
  let ?p = "mpi_of 64 23" and ?pub = "take 64 (sample_exp_mod (mpi_of 64 5) [15] (mpi_of 64 23))"
  have v: "mpi_value ?p = 23" "mpi_value (mpi_of 64 8) = 8" "mpi_value (mpi_of 64 5) = 5"
    by (simp_all add: mpi_of_value)
  have k: "prime_modulus sample_keys = ?p" "server_public sample_keys = mpi_of 64 8"
    "primitive_root sample_keys = mpi_of 64 5" by (simp_all add: sample_keys_def)
  have "\<exists>key ctx. arc4_hash (replicate 20 7) = Inr key \<and> arc4_setup key 20 = Inr ctx \<and> arc4_ok ctx \<and>
    key_exchange_helper sample_exp_mod (\<lambda>_. [15]) sample_os c sample_keys =
      Inr (True, c\<lparr>conn_encrypt := ctx, conn_decrypt := ctx, conn_secured := True\<rparr>, [MSG_CLIENT_SEED ?pub])"
  proof (rule key_exchange_agrees [where p = ?p and s = "[6]"])
    show "mpi_value (server_public sample_keys) = mpi_value (primitive_root sample_keys) ^ mpi_value [6] mod mpi_value ?p"
      unfolding k v by simp
    show "mpi_value ?p \<le> 256 ^ 64" "0 < mpi_value ?p" unfolding v by simp_all
    show "os_send sample_os (MSG_CLIENT_SEED ?pub) = 66"
      by (simp add: sample_os_def MSG_CLIENT_SEED_def sample_exp_mod_ok)
  qed (simp_all only: sample_exp_mod_ok k sample_os_def os.simps length_replicate)
  then show "\<exists>key ctx sent. arc4_hash (replicate 20 7) = Inr key \<and> arc4_setup key 20 = Inr ctx \<and>
    key_exchange_helper sample_exp_mod (\<lambda>_. [15]) sample_os c sample_keys =
      Inr (True, c\<lparr>conn_encrypt := ctx, conn_decrypt := ctx, conn_secured := True\<rparr>, sent)"
    by blast
qed

section \<open>Connecting\<close>

text \<open>A connection that is ready: open, secured, both ciphers in the same state, the tables set.\<close>

definition ready :: "os \<Rightarrow> msg_format list \<Rightarrow> msg_format list \<Rightarrow> connection \<Rightarrow> bool" where
  "ready os sf cf c \<longleftrightarrow> conn_fd c = os_socket os \<and> conn_fd c \<noteq> INVALID_SOCKET \<and> conn_t0 c = os_time os \<and>
     conn_secured c \<and> arc4_ok (conn_encrypt c) \<and> conn_decrypt c = conn_encrypt c \<and>
     conn_server_msg_format c = sf \<and> conn_client_msg_format c = cf"

text \<open>A connection that is closed, its buffers and handlers released.\<close>

definition closed :: "connection \<Rightarrow> bool" where
  "closed c \<longleftrightarrow> NetConn_IsShutdown c \<and> conn_in c = array_reset (conn_in c) \<and>
     conn_out c = array_reset (conn_out c) \<and> conn_handlers c = array_reset (conn_handlers c)"

definition keeps_buffers :: "connection \<Rightarrow> connection \<Rightarrow> bool" where
  "keeps_buffers c c' \<longleftrightarrow> conn_in c' = conn_in c \<and> conn_out c' = conn_out c \<and>
     conn_handlers c' = conn_handlers c \<and> conn_flags c' = conn_flags c \<and> conn_mutex c' = conn_mutex c"

lemma closed_Reset: "closed (NetConn_Reset c)"
  by (simp add: closed_def NetConn_Reset_def NetConn_IsShutdown_def array_reset_def)

definition connect_outcome ::
    "os \<Rightarrow> msg_format list \<Rightarrow> msg_format list \<Rightarrow> bytes \<Rightarrow> connection \<Rightarrow> fault + bool \<times> connection \<times> bytes list \<Rightarrow> bool" where
  "connect_outcome os sf cf version c r \<longleftrightarrow> (\<exists>ok c' sent. r = Inr (ok, c', sent) \<and>
     (if ok then ready os sf cf c' \<and> keeps_buffers c c' \<and> (\<exists>seed. sent = version # seed) else closed c'))"

lemma srv_connect_outcome:
  assumes "\<And>a e m. exp_mod a e m = [] \<or> 64 \<le> length (exp_mod a e m)"
  shows "connect_outcome os sf cf version c (srv_connect exp_mod rand os keys sf cf version c)"
proof -
  let ?c = "c\<lparr>conn_fd := os_socket os, conn_t0 := os_time os, conn_secured := False,
    conn_server_msg_format := sf, conn_client_msg_format := cf\<rparr>"
  obtain sent where "key_exchange_helper exp_mod rand os ?c keys = Inr (False, ?c, sent) \<or>
      (\<exists>ctx. arc4_ok ctx \<and> key_exchange_helper exp_mod rand os ?c keys =
        Inr (True, ?c\<lparr>conn_encrypt := ctx, conn_decrypt := ctx, conn_secured := True\<rparr>, sent))"
    using key_exchange_helper_cases [of exp_mod rand os ?c keys, OF assms] by blast
  then show ?thesis
    by (auto simp: connect_outcome_def srv_connect_def Let_def closed_Reset ready_def keeps_buffers_def)
qed

text \<open>
  C8. Connecting to either server ends in one of two ways, whatever the system and the server
  answer: the connection is open and secured, with the tables of that server and both ciphers in
  the same state, or it is closed and its buffers are released. It never accesses memory out of
  bounds, provided a number of the library is empty or has the 64 bytes that are copied.
\<close>

theorem connect_opens_or_closes:
  assumes "\<And>a e m. exp_mod a e m = [] \<or> 64 \<le> length (exp_mod a e m)"
  shows "connect_outcome os GAME_SERVER_FORMATS GAME_CLIENT_FORMATS
      (GAME_CMSG_VERSION version account character world_hash player_hash map_id) c
      (GameSrv_Connect exp_mod rand os keys version True account character world_hash player_hash map_id c) \<and>
    connect_outcome os AUTH_SERVER_FORMATS AUTH_CLIENT_FORMATS (AUTH_CMSG_VERSION version) c
      (AuthSrv_Connect exp_mod rand os keys version True ips c)"
proof -
  have out: "connect_outcome os sf cf v c (srv_connect exp_mod rand os keys sf cf v c')"
    if "keeps_buffers c c'" for c' sf cf v
  proof -
    obtain ok c'' sent where r: "srv_connect exp_mod rand os keys sf cf v c' = Inr (ok, c'', sent)"
      "if ok then ready os sf cf c'' \<and> keeps_buffers c' c'' \<and> (\<exists>seed. sent = v # seed) else closed c''"
      using srv_connect_outcome [of exp_mod os sf cf v c' rand keys, OF assms] by (auto simp: connect_outcome_def)
    then show ?thesis using that unfolding connect_outcome_def keeps_buffers_def by (cases ok) auto
  qed
  have reset: "connect_outcome os sf cf v c (Inr (False, NetConn_Reset c', []))" for c' sf cf v
    by (simp add: connect_outcome_def closed_Reset) blast
  have "connect_outcome os AUTH_SERVER_FORMATS AUTH_CLIENT_FORMATS (AUTH_CMSG_VERSION version) c
      (AuthSrv_Connect exp_mod rand os keys version True ips c)"
    unfolding AuthSrv_Connect_def Let_def assertE_True [OF TrueI] bindE_Inr
    by (simp only: reset if_split, intro conjI impI reset out) (simp_all add: keeps_buffers_def)
  moreover have "connect_outcome os GAME_SERVER_FORMATS GAME_CLIENT_FORMATS
      (GAME_CMSG_VERSION version account character world_hash player_hash map_id) c
      (GameSrv_Connect exp_mod rand os keys version True account character world_hash player_hash map_id c)"
    unfolding GameSrv_Connect_def assertE_True [OF TrueI] bindE_Inr by (rule out) (simp add: keeps_buffers_def)
  ultimately show ?thesis by blast
qed

theorem connect_opens_or_closes_witness:
  "\<forall>c. connect_outcome sample_os GAME_SERVER_FORMATS GAME_CLIENT_FORMATS (GAME_CMSG_VERSION 37000 null_uuid null_uuid 1 2 3) c
     (GameSrv_Connect sample_exp_mod (\<lambda>_. [15]) sample_os sample_keys 37000 True null_uuid null_uuid 1 2 3 c)"
  using connect_opens_or_closes [of sample_exp_mod] sample_exp_mod_ok(2) by simp

section \<open>Connecting again\<close>

lemma array_reset_sel [simp]:
  "arr_capacity (array_reset a) = 0" "arr_size (array_reset a) = 0" "arr_data (array_reset a) = []"
  by (simp_all add: array_reset_def)

lemma array_clear_sel [simp]:
  "arr_capacity (array_clear a) = arr_capacity a" "arr_size (array_clear a) = 0" "arr_data (array_clear a) = arr_data a"
  by (simp_all add: array_clear_def)

lemma flag_set: "NETCONN_SHUTDOWN \<noteq> 0"
  by (simp add: NETCONN_SHUTDOWN_def)

lemma NetConn_Send_empty:
  "conn_secured c \<Longrightarrow> arr_size (conn_out c) = 0 \<Longrightarrow> NetConn_Send send c = Inr (c, [])"
  by (simp add: NetConn_Send_def Let_def lock_def unlock_def)

text \<open>What is left of the buffers after a shutdown and the update that notices it.\<close>

lemma NetConn_Shutdown_buffers:
  assumes "NetConn_Shutdown send c = Inr (c1, sent)"
  shows "arr_capacity (conn_in c1) = 0" "arr_size (conn_in c1) = 0"
    "arr_capacity (conn_out c1) = 0" "arr_size (conn_out c1) = 0"
    "conn_flags c1 AND NETCONN_SHUTDOWN \<noteq> 0"
  using assms
  by (auto simp: NetConn_Shutdown_def res_simps flag_set)

lemma NetConn_Update_after_shutdown:
  assumes "arr_capacity (conn_in c1) = 0" "arr_capacity (conn_out c1) = 0" "arr_size (conn_out c1) = 0"
    "conn_flags c1 AND NETCONN_SHUTDOWN \<noteq> 0" "\<not> NetConn_IsShutdown c1"
    and "NetConn_Update send (\<lambda>_. RecvError err) run leave_game buffer (w, c1) = Inr ((w', c2), sent)"
    and "\<not> socket_would_block err"
  shows "arr_capacity (conn_in c2) = 0" "arr_capacity (conn_out c2) = 0" "conn_flags c2 = 0"
    "arr_size (conn_out c2) = 0"
proof -
  have sec: "conn_secured c1" using assms(5,6)
    by (auto simp: NetConn_Update_def NetConn_IsShutdown_def NetConn_Send_def res_simps split: if_splits)
  note snd = NetConn_Send_empty [OF sec assms(3), of send]
  show "arr_capacity (conn_in c2) = 0" "arr_capacity (conn_out c2) = 0" "conn_flags c2 = 0"
    "arr_size (conn_out c2) = 0"
    using assms(1,2,5,6,7) sec snd
    by (auto simp: NetConn_Update_def NetConn_Recv_def NetConn_IsShutdown_def Let_def NetConn_HardShutdown_def
        unlock_def flag_set split: if_splits)
qed

lemma srv_connect_keeps:
  assumes "\<And>a e m. exp_mod a e m = [] \<or> 64 \<le> length (exp_mod a e m)"
    and "srv_connect exp_mod rand os keys sf cf version c = Inr (True, c', sent)"
  shows "keeps_buffers c c'" "ready os sf cf c'"
  using srv_connect_outcome [of exp_mod os sf cf version c rand keys, OF assms(1)] assms(2)
  by (auto simp: connect_outcome_def)

lemma SendPacket_no_buffer:
  assumes "arr_capacity (conn_out c) = 0" "arr_size (conn_out c) = 0" "conn_flags c = 0" "conn_secured c"
    and "conn_client_msg_format c = GAME_CLIENT_FORMATS"
    and "le16dec p = Inr h" "unat (h AND 0x7FFF) < 193"
    and "psize = mf_unpack_size (GAME_CLIENT_FORMATS ! unat (h AND 0x7FFF))"
  shows "SendPacket send c psize p = Inl AssertFail"
proof -
  let ?i = "unat (h AND 0x7FFF)"
  have "format_ok ?i (GAME_CLIENT_FORMATS ! ?i)"
    using table_ok_nth [OF table_ok_GAME_CLIENT_FORMATS, of ?i] assms(7) table_ok_GAME_CLIENT_FORMATS by simp
  then have h: "mf_header (GAME_CLIENT_FORMATS ! ?i) = ?i" by (auto simp: format_ok_def split: list.splits)
  have "NetConn_Send send (lock c) = Inr (lock c, [])"
    using assms(2,4) by (intro NetConn_Send_empty) (simp_all add: lock_def)
  then show ?thesis
    using assms h by (simp add: SendPacket_def Let_def lock_def table_ok_GAME_CLIENT_FORMATS)
qed

text \<open>
  C9. A game connection that was shut down cannot be used again: shutting down releases the
  buffers, connecting does not allocate them, so after changing the game server the first
  message fails the assertion of SendPacket and no byte can be received.
\<close>

theorem shutdown_loses_buffers:
  assumes exp: "\<And>a e m. exp_mod a e m = [] \<or> 64 \<le> length (exp_mod a e m)"
    and down: "NetConn_Shutdown send c = Inr (c1, sent1)" "\<not> NetConn_IsShutdown c1"
    and update: "NetConn_Update send (\<lambda>_. RecvError err) run leave_game buffer (w, c1) = Inr ((w', c2), sent2)"
      "\<not> socket_would_block err"
    and conn: "GameSrv_Connect exp_mod rand os keys version True account character world_hash player_hash map_id
        (c2\<lparr>conn_host := host\<rparr>) = Inr (True, c3, sent3)"
    and packet: "le16dec p = Inr h" "unat (h AND 0x7FFF) < 193"
      "psize = mf_unpack_size (GAME_CLIENT_FORMATS ! unat (h AND 0x7FFF))"
  shows "conn_secured c3 \<and> SendPacket send c3 psize p = Inl AssertFail \<and> arr_capacity (conn_in c3) = 0"
proof -
  note s = NetConn_Shutdown_buffers [OF down(1)]
  note u = NetConn_Update_after_shutdown [OF s(1,3,4,5) down(2) update]
  have "srv_connect exp_mod rand os keys GAME_SERVER_FORMATS GAME_CLIENT_FORMATS
      (GAME_CMSG_VERSION version account character world_hash player_hash map_id)
      (c2\<lparr>conn_host := host, conn_proto := ConnectionType_Game\<rparr>) = Inr (True, c3, sent3)"
    using conn by (simp add: GameSrv_Connect_def)
  note k = srv_connect_keeps [of exp_mod, OF exp this]
  have "SendPacket send c3 psize p = Inl AssertFail"
    using k u packet by (intro SendPacket_no_buffer) (simp_all add: keeps_buffers_def ready_def)
  then show ?thesis using k u by (simp add: keeps_buffers_def ready_def)
qed

definition idle_conn :: connection where
  "idle_conn = \<lparr>conn_flags = 0, conn_proto = ConnectionType_Game, conn_t0 = 0, conn_host = (2, []),
     conn_fd = 3, conn_ping = 0, conn_pong = 0, conn_latency = 0, conn_last_tick_time = 0,
     conn_mutex = 0, conn_in = array_init, conn_out = array_init, conn_secured = True,
     conn_decrypt = arc4_init, conn_encrypt = arc4_init, conn_server_msg_format = [],
     conn_client_msg_format = [], conn_handlers = array_init\<rparr>"

lemma sample_os_sel:
  "os_socket sample_os = 5" "os_time sample_os = 1000" "os_send sample_os v = int (length v)"
  "os_connect sample_os i h = (if i = 0 then SOCKET_ERROR else 0)"
  by (simp_all add: sample_os_def)

lemma sample_connect:
  "\<exists>c' sent. srv_connect sample_exp_mod (\<lambda>_. [15]) sample_os sample_keys sf cf v c = Inr (True, c', sent)"
proof -
  let ?c = "c\<lparr>conn_fd := 5, conn_t0 := 1000, conn_secured := False, conn_server_msg_format := sf, conn_client_msg_format := cf\<rparr>"
  let ?pub = "sample_exp_mod (primitive_root sample_keys) [15] (prime_modulus sample_keys)"
  let ?sh = "sample_exp_mod (server_public sample_keys) [15] (prime_modulus sample_keys)"
  obtain seed where seed: "os_recv sample_os 22 = RecvBytes seed" "length seed = 22"
    by (simp add: sample_os_def sample_exp_mod_ok)
  have l: "64 \<le> length ?pub" "20 \<le> length ?sh" by (simp_all only: sample_exp_mod_ok(2))
  have "os_send sample_os (MSG_CLIENT_SEED (take 64 ?pub)) = 66"
    by (simp add: sample_os_def MSG_CLIENT_SEED_def sample_exp_mod_ok)
  then have "\<exists>key ctx. arc4_hash (map2 (XOR) (drop 2 seed) (take 20 ?sh)) = Inr key \<and> length key = 20 \<and>
      arc4_setup key 20 = Inr ctx \<and> arc4_ok ctx \<and>
      key_exchange_helper sample_exp_mod (\<lambda>_. [15]) sample_os ?c sample_keys =
        Inr (True, ?c\<lparr>conn_encrypt := ctx, conn_decrypt := ctx, conn_secured := True\<rparr>, [MSG_CLIENT_SEED (take 64 ?pub)])"
    by (rule key_exchange_helper_ok [of ?pub sample_exp_mod sample_keys "\<lambda>_. [15]" ?sh, OF refl l(1) refl l(2) _ seed])
  then obtain ctx where "key_exchange_helper sample_exp_mod (\<lambda>_. [15]) sample_os ?c sample_keys =
      Inr (True, ?c\<lparr>conn_encrypt := ctx, conn_decrypt := ctx, conn_secured := True\<rparr>, [MSG_CLIENT_SEED (take 64 ?pub)])"
    by (elim exE conjE) (rule that)
  moreover have "os_socket sample_os = 5" "os_time sample_os = 1000" "connect_loop sample_os h 0 5 SOCKET_ERROR = 0"
    "os_send sample_os v = int (length v)" for h v
    by (simp_all only: sample_os_sel) (simp add: SOCKET_ERROR_def numeral_eq_Suc sample_os_sel)
  ultimately show ?thesis
    by (simp add: srv_connect_def Let_def SOCKET_ERROR_def INVALID_SOCKET_def)
qed

theorem shutdown_loses_buffers_witness:
  "\<exists>c1 c2 c3 sent. NetConn_Shutdown (\<lambda>bs. int (length bs)) idle_conn = Inr (c1, []) \<and>
    NetConn_Update (\<lambda>bs. int (length bs)) (\<lambda>_. RecvError 9) (\<lambda>h n p s. Inr s) id [] ((), c1) = Inr (((), c2), []) \<and>
    GameSrv_Connect sample_exp_mod (\<lambda>_. [15]) sample_os sample_keys 37000 True null_uuid null_uuid 1 2 3
      (c2\<lparr>conn_host := (2, [])\<rparr>) = Inr (True, c3, sent) \<and>
    SendPacket (\<lambda>bs. int (length bs)) c3 (mf_unpack_size (GAME_CLIENT_FORMATS ! 5)) [5, 0] = Inl AssertFail"
proof -
  let ?send = "\<lambda>bs :: bytes. int (length bs)"
  let ?c1 = "idle_conn\<lparr>conn_flags := NETCONN_SHUTDOWN\<rparr>"
  let ?c2 = "?c1\<lparr>conn_fd := INVALID_SOCKET, conn_flags := 0, conn_secured := False\<rparr>"
  have r: "array_reset array_init = array_init" "array_clear array_init = array_init"
    by (simp_all add: array_reset_def array_clear_def array_init_def)
  have z: "arr_size array_init = 0" by (simp add: array_init_def)
  have s: "NetConn_Send ?send idle_conn = Inr (idle_conn, [])" "NetConn_Send ?send ?c1 = Inr (?c1, [])"
    using z by (intro NetConn_Send_empty; simp add: idle_conn_def)+
  have 1: "NetConn_Shutdown ?send idle_conn = Inr (?c1, [])"
    using s r by (simp add: NetConn_Shutdown_def idle_conn_def)
  have 2: "NetConn_Update ?send (\<lambda>_. RecvError 9) (\<lambda>h n p s. Inr s) id [] ((), ?c1) = Inr (((), ?c2), [])"
    using s(2) r flag_set
    by (simp add: NetConn_Update_def NetConn_Recv_def Let_def socket_would_block_def NetConn_HardShutdown_def
        unlock_def idle_conn_def INVALID_SOCKET_def)
  obtain c3 sent where 3: "GameSrv_Connect sample_exp_mod (\<lambda>_. [15]) sample_os sample_keys 37000 True null_uuid null_uuid 1 2 3
      (?c2\<lparr>conn_host := (2, [])\<rparr>) = Inr (True, c3, sent)"
    using sample_connect unfolding GameSrv_Connect_def assertE_True [OF TrueI] bindE_Inr by blast
  have "\<not> NetConn_IsShutdown ?c1" "\<not> socket_would_block 9" "le16dec [5, 0] = Inr (5 :: u16)"
    "unat ((5 :: u16) AND 0x7FFF) = 5"
    by (simp_all add: NetConn_IsShutdown_def idle_conn_def INVALID_SOCKET_def socket_would_block_def)
  then have "SendPacket ?send c3 (mf_unpack_size (GAME_CLIENT_FORMATS ! 5)) [5, 0] = Inl AssertFail"
    using shutdown_loses_buffers [of sample_exp_mod, OF _ 1 _ 2 _ 3, of "[5, 0]" 5] sample_exp_mod_ok(2) by simp
  with 1 2 3 show ?thesis by blast
qed

end
