(* ===== verification/Linked_List.thy ===== *)
theory Linked_List
  imports Prelude
begin

text \<open>
  The intrusive doubly linked list of \<^verbatim>\<open>code/common/list.h\<close>, on a heap: a node is an address,
  the heap gives the members \<^verbatim>\<open>prev\<close> and \<^verbatim>\<open>next\<close> of each address, and the address 0 is
  the null pointer, whose members cannot be accessed. A list is a ring through its head; the
  predicate \<open>ring\<close> relates a heap and a head to the list of the nodes, and every operation is
  shown to perform on the heap what its comment says of that list.
\<close>

section \<open>Definitions\<close>

record list_heap =
  l_prev :: "nat \<Rightarrow> nat"
  l_next :: "nat \<Rightarrow> nat"

definition get_next :: "nat \<Rightarrow> list_heap \<Rightarrow> fault + nat" where
  "get_next p h = (if p = 0 then Inl NullDeref else Inr (l_next h p))"

definition get_prev :: "nat \<Rightarrow> list_heap \<Rightarrow> fault + nat" where
  "get_prev p h = (if p = 0 then Inl NullDeref else Inr (l_prev h p))"

definition set_next :: "nat \<Rightarrow> nat \<Rightarrow> list_heap \<Rightarrow> fault + list_heap" where
  "set_next p q h = (if p = 0 then Inl NullDeref else Inr (h\<lparr>l_next := (l_next h)(p := q)\<rparr>))"

definition set_prev :: "nat \<Rightarrow> nat \<Rightarrow> list_heap \<Rightarrow> fault + list_heap" where
  "set_prev p q h = (if p = 0 then Inl NullDeref else Inr (h\<lparr>l_prev := (l_prev h)(p := q)\<rparr>))"

definition list_init :: "nat \<Rightarrow> list_heap \<Rightarrow> fault + list_heap" where
  "list_init l h = bindE (set_prev l l h) (set_next l l)"

definition list_node_init :: "nat \<Rightarrow> list_heap \<Rightarrow> fault + list_heap" where
  "list_node_init n h = bindE (set_prev n 0 h) (set_next n 0)"

definition list_node_unlinked :: "nat \<Rightarrow> list_heap \<Rightarrow> fault + bool" where
  "list_node_unlinked n h = bindE (get_prev n h) (\<lambda>p. Inr (p = 0))"

definition list_first :: "nat \<Rightarrow> list_heap \<Rightarrow> fault + nat" where
  "list_first l h = get_next l h"

definition list_last :: "nat \<Rightarrow> list_heap \<Rightarrow> fault + nat" where
  "list_last l h = get_prev l h"

definition list_next :: "nat \<Rightarrow> list_heap \<Rightarrow> fault + nat" where
  "list_next n h = get_next n h"

definition list_prev :: "nat \<Rightarrow> list_heap \<Rightarrow> fault + nat" where
  "list_prev n h = get_prev n h"

definition list_end :: "nat \<Rightarrow> nat \<Rightarrow> bool" where
  "list_end l n \<longleftrightarrow> l = n"

definition list_empty :: "nat \<Rightarrow> list_heap \<Rightarrow> fault + bool" where
  "list_empty l h = bindE (get_next l h) (\<lambda>n. Inr (l = n))"

definition list_singular :: "nat \<Rightarrow> list_heap \<Rightarrow> fault + bool" where
  "list_singular l h = bindE (get_next l h) (\<lambda>n. bindE (get_prev l h) (\<lambda>p. Inr (l \<noteq> n \<and> n = p)))"

definition list_split :: "nat \<Rightarrow> nat \<Rightarrow> nat \<Rightarrow> list_heap \<Rightarrow> fault + list_heap" where
  "list_split l1 l2 node h =
     bindE (list_empty l2 h) (\<lambda>e.
     bindE (get_next l2 h) (\<lambda>first.
     if e \<or> first = node \<or> list_end l2 node then list_init l1 h
     else
       bindE (set_next l1 first h) (\<lambda>h.
       bindE (get_next l1 h) (\<lambda>n1.
       bindE (set_prev n1 l1 h) (\<lambda>h.
       bindE (get_prev node h) (\<lambda>p.
       bindE (set_prev l1 p h) (\<lambda>h.
       bindE (get_prev node h) (\<lambda>p.
       bindE (set_next p l1 h) (\<lambda>h.
       bindE (set_next l2 node h) (set_prev node l2))))))))))"

definition list_concat :: "nat \<Rightarrow> nat \<Rightarrow> list_heap \<Rightarrow> fault + list_heap" where
  "list_concat l1 l2 h =
     bindE (list_empty l2 h) (\<lambda>e.
     if e then Inr h
     else
       bindE (get_prev l1 h) (\<lambda>last1.
       bindE (get_next l2 h) (\<lambda>first2.
       bindE (get_prev l2 h) (\<lambda>last2.
       bindE (set_next last1 first2 h) (\<lambda>h.
       bindE (set_prev first2 last1 h) (\<lambda>h.
       bindE (set_next last2 l1 h) (set_prev l1 last2)))))))"

definition list_set_head :: "nat \<Rightarrow> nat \<Rightarrow> list_heap \<Rightarrow> fault + list_heap" where
  "list_set_head new_head old_head h =
     bindE (list_empty old_head h) (\<lambda>e.
     if e then list_init new_head h
     else
       bindE (get_prev old_head h) (\<lambda>p.
       bindE (get_next old_head h) (\<lambda>n.
       bindE (set_prev new_head p h) (\<lambda>h.
       bindE (set_next new_head n h) (\<lambda>h.
       bindE (get_next new_head h) (\<lambda>n.
       bindE (set_prev n new_head h) (\<lambda>h.
       bindE (get_prev new_head h) (\<lambda>p. set_next p new_head h))))))))"

definition list_add :: "nat \<Rightarrow> nat \<Rightarrow> nat \<Rightarrow> list_heap \<Rightarrow> fault + list_heap" where
  "list_add prv nxt node h =
     bindE (set_prev nxt node h) (\<lambda>h.
     bindE (set_next node nxt h) (\<lambda>h.
     bindE (set_next prv node h) (set_prev node prv)))"

definition list_insert_head :: "nat \<Rightarrow> nat \<Rightarrow> list_heap \<Rightarrow> fault + list_heap" where
  "list_insert_head l node h = bindE (get_next l h) (\<lambda>n. list_add l n node h)"

definition list_insert_tail :: "nat \<Rightarrow> nat \<Rightarrow> list_heap \<Rightarrow> fault + list_heap" where
  "list_insert_tail l node h = bindE (get_prev l h) (\<lambda>p. list_add p l node h)"

definition list_insert_before :: "nat \<Rightarrow> nat \<Rightarrow> list_heap \<Rightarrow> fault + list_heap" where
  "list_insert_before nxt node h = bindE (get_prev nxt h) (\<lambda>p. list_add p nxt node h)"

definition list_insert_after :: "nat \<Rightarrow> nat \<Rightarrow> list_heap \<Rightarrow> fault + list_heap" where
  "list_insert_after prv node h = bindE (get_next prv h) (\<lambda>n. list_add prv n node h)"

definition list_remove :: "nat \<Rightarrow> list_heap \<Rightarrow> fault + list_heap" where
  "list_remove node h =
     bindE (get_prev node h) (\<lambda>p. bindE (get_next node h) (\<lambda>n. bindE (set_next p n h) (\<lambda>h.
     bindE (get_next node h) (\<lambda>n. bindE (get_prev node h) (\<lambda>p. set_prev n p h)))))"

lemmas heap_defs = get_next_def get_prev_def set_next_def set_prev_def

section \<open>Rings\<close>

text \<open>Each node of the sequence is linked with the one after it.\<close>

fun linked :: "list_heap \<Rightarrow> nat list \<Rightarrow> bool" where
  "linked h [] \<longleftrightarrow> True"
| "linked h [x] \<longleftrightarrow> True"
| "linked h (x # y # ps) \<longleftrightarrow> l_next h x = y \<and> l_prev h y = x \<and> linked h (y # ps)"

definition ring :: "list_heap \<Rightarrow> nat \<Rightarrow> nat list \<Rightarrow> bool" where
  "ring h l xs \<longleftrightarrow> distinct (l # xs) \<and> 0 \<notin> set (l # xs) \<and> linked h (l # xs @ [l])"

lemma linked_append:
  "us \<noteq> [] \<Longrightarrow> vs \<noteq> [] \<Longrightarrow> linked h (us @ vs) \<longleftrightarrow>
     linked h us \<and> linked h vs \<and> l_next h (last us) = hd vs \<and> l_prev h (hd vs) = last us"
proof (induction h us rule: linked.induct)
  case (2 h x)
  then show ?case by (cases vs) auto
qed auto

lemma linked_cong:
  "(\<And>x. x \<in> set (butlast ps) \<Longrightarrow> l_next h' x = l_next h x) \<Longrightarrow>
   (\<And>x. x \<in> set (tl ps) \<Longrightarrow> l_prev h' x = l_prev h x) \<Longrightarrow> linked h' ps = linked h ps"
  by (induction h ps rule: linked.induct) auto

lemma linked_next: "linked h ps \<Longrightarrow> p \<notin> set (butlast ps) \<Longrightarrow> linked (h\<lparr>l_next := (l_next h)(p := a)\<rparr>) ps"
  by (subst linked_cong [of _ _ h]) auto

lemma linked_prev: "linked h ps \<Longrightarrow> q \<notin> set (tl ps) \<Longrightarrow> linked (h\<lparr>l_prev := (l_prev h)(q := a)\<rparr>) ps"
  by (subst linked_cong [of _ _ h]) auto

text \<open>What the operations do not touch.\<close>

definition same_outside :: "nat set \<Rightarrow> list_heap \<Rightarrow> list_heap \<Rightarrow> bool" where
  "same_outside A h h' \<longleftrightarrow> (\<forall>x. x \<notin> A \<longrightarrow> l_next h' x = l_next h x \<and> l_prev h' x = l_prev h x)"

lemma ring_same_outside:
  assumes "same_outside A h h'" "A \<inter> set (l # xs) = {}" "ring h l xs"
  shows "ring h' l xs"
proof -
  have "linked h' (l # xs @ [l]) = linked h (l # xs @ [l])"
    using assms(1,2) by (intro linked_cong) (auto simp: same_outside_def butlast_append)
  with assms(3) show ?thesis by (simp add: ring_def)
qed

lemma ring_first: "ring h l xs \<Longrightarrow> list_first l h = Inr (hd (xs @ [l]))"
  by (cases xs) (auto simp: ring_def list_first_def heap_defs)

lemma ring_last: "ring h l xs \<Longrightarrow> list_last l h = Inr (last (l # xs))"
  using linked_append [of "l # xs" "[l]" h] by (auto simp: ring_def list_last_def heap_defs)

lemma ring_empty: "ring h l xs \<Longrightarrow> list_empty l h = Inr (xs = [])"
  by (cases xs) (auto simp: ring_def list_empty_def heap_defs)

lemma ring_singular: "ring h l xs \<Longrightarrow> list_singular l h = Inr (length xs = 1)"
  using ring_last [of h l xs]
  by (cases xs rule: rev_cases; cases xs)
    (auto simp: ring_def list_singular_def list_last_def heap_defs Cons_eq_append_conv append_eq_Cons_conv
      split: if_splits)

lemma list_init_ring:
  "l \<noteq> 0 \<Longrightarrow> \<exists>h'. list_init l h = Inr h' \<and> ring h' l [] \<and> same_outside {l} h h'"
  by (auto simp: list_init_def heap_defs ring_def same_outside_def)

section \<open>Insertion and removal\<close>

lemma list_add_linked:
  assumes "us \<noteq> []" "vs \<noteq> []" "linked h (us @ vs)" "n \<notin> set (us @ vs)" "0 \<notin> set (us @ n # vs)"
    and "last us \<notin> set (butlast us) \<union> set (butlast vs)" "hd vs \<notin> set (tl us) \<union> set (tl vs)"
  shows "\<exists>h'. list_add (last us) (hd vs) n h = Inr h' \<and> linked h' (us @ n # vs) \<and>
    same_outside {last us, hd vs, n} h h'"
proof -
  let ?p = "last us" and ?q = "hd vs"
  define h1 where "h1 = h\<lparr>l_prev := (l_prev h)(?q := n)\<rparr>"
  define h2 where "h2 = h1\<lparr>l_next := (l_next h1)(n := ?q)\<rparr>"
  define h3 where "h3 = h2\<lparr>l_next := (l_next h2)(?p := n)\<rparr>"
  define h' where "h' = h3\<lparr>l_prev := (l_prev h3)(n := ?p)\<rparr>"
  have mem: "?p \<in> set us" "?q \<in> set vs" using assms(1,2) by auto
  moreover have "\<forall>x \<in> set us \<union> set vs. x \<noteq> 0 \<and> x \<noteq> n" "n \<noteq> 0" using assms(4,5) by (auto intro!: gr0I)
  ultimately have ne: "?p \<noteq> n" "?q \<noteq> n" "?p \<noteq> 0" "?q \<noteq> 0" "n \<noteq> 0" by blast+
  have l: "linked h us" "linked h vs" using assms(1-3) by (simp_all add: linked_append)
  have fresh: "n \<notin> set (butlast us)" "n \<notin> set (butlast vs)" "n \<notin> set (tl us)" "n \<notin> set (tl vs)"
    using assms(1,2,4) by (auto dest: in_set_butlastD list.set_sel(2) [rotated])
  have "linked h' us" "linked h' vs"
    unfolding h'_def h3_def h2_def h1_def using l assms(6,7) fresh by (intro linked_next linked_prev; simp)+
  then have "linked h' (us @ n # vs)"
    using assms(1,2) ne linked_append [of "[n]" vs h'] by (simp add: linked_append h'_def h3_def h2_def h1_def)
  moreover have "list_add ?p ?q n h = Inr h'"
    using ne by (simp add: list_add_def heap_defs h'_def h3_def h2_def h1_def)
  moreover have "same_outside {?p, ?q, n} h h'" by (simp add: same_outside_def h'_def h3_def h2_def h1_def)
  ultimately show ?thesis by blast
qed

lemma list_add_ring:
  assumes "ring h l (xs @ ys)" "n \<notin> set (l # xs @ ys)" "n \<noteq> 0"
  shows "\<exists>h'. list_add (last (l # xs)) (hd (ys @ [l])) n h = Inr h' \<and> ring h' l (xs @ n # ys) \<and>
    same_outside ({n} \<union> set (l # xs @ ys)) h h'"
proof -
  let ?us = "l # xs" and ?vs = "ys @ [l]"
  have d: "distinct (l # xs @ ys)" "0 \<notin> set (l # xs @ ys)" "linked h (?us @ ?vs)"
    using assms(1) by (simp_all add: ring_def)
  have "last ?us \<notin> set (butlast ?us) \<union> set (butlast ?vs)"
    using d(1) by (cases xs rule: rev_cases) auto
  moreover have "hd ?vs \<notin> set (tl ?us) \<union> set (tl ?vs)" using d(1) by (cases ys) auto
  moreover have "n \<notin> set (?us @ ?vs)" "0 \<notin> set (?us @ n # ?vs)" using assms(2,3) d(2) by auto
  ultimately obtain h' where h': "list_add (last ?us) (hd ?vs) n h = Inr h'" "linked h' (?us @ n # ?vs)"
    "same_outside {last ?us, hd ?vs, n} h h'"
    using list_add_linked [of ?us ?vs h n] d(3) by auto
  have "{last ?us, hd ?vs, n} \<subseteq> {n} \<union> set (l # xs @ ys)" by (cases ys) auto
  then have "same_outside ({n} \<union> set (l # xs @ ys)) h h'" using h'(3) unfolding same_outside_def by blast
  moreover have "ring h' l (xs @ n # ys)" using h'(2) d assms(2,3) by (auto simp: ring_def)
  ultimately show ?thesis using h'(1) by blast
qed

lemma list_insert_head_ring:
  assumes "ring h l xs" "n \<notin> set (l # xs)" "n \<noteq> 0"
  shows "\<exists>h'. list_insert_head l n h = Inr h' \<and> ring h' l (n # xs) \<and> same_outside ({n} \<union> set (l # xs)) h h'"
  using list_add_ring [of h l "[]" xs n] ring_first [OF assms(1)] assms
  by (simp add: list_insert_head_def list_first_def)

lemma list_insert_tail_ring:
  assumes "ring h l xs" "n \<notin> set (l # xs)" "n \<noteq> 0"
  shows "\<exists>h'. list_insert_tail l n h = Inr h' \<and> ring h' l (xs @ [n]) \<and> same_outside ({n} \<union> set (l # xs)) h h'"
  using list_add_ring [of h l xs "[]" n] ring_last [OF assms(1)] assms
  by (simp add: list_insert_tail_def list_last_def)

text \<open>A node of the ring knows its neighbours.\<close>

lemma ring_node:
  assumes "ring h l (xs @ x # ys)"
  shows "x \<noteq> 0" "l_prev h x = last (l # xs)" "l_next h x = hd (ys @ [l])"
proof -
  have "linked h ((l # xs) @ (x # ys @ [l]))" using assms by (simp add: ring_def)
  then have l: "linked h (x # ys @ [l])" "l_prev h x = last (l # xs)"
    by (subst (asm) linked_append; simp)+
  show "x \<noteq> 0" using assms by (auto simp: ring_def)
  show "l_prev h x = last (l # xs)" by (rule l(2))
  show "l_next h x = hd (ys @ [l])" using l(1) by (cases ys) auto
qed

lemma list_insert_before_ring:
  assumes "ring h l (xs @ x # ys)" "n \<notin> set (l # xs @ x # ys)" "n \<noteq> 0"
  shows "\<exists>h'. list_insert_before x n h = Inr h' \<and> ring h' l (xs @ n # x # ys) \<and>
    same_outside ({n} \<union> set (l # xs @ x # ys)) h h'"
  using list_add_ring [of h l xs "x # ys" n] ring_node [OF assms(1)] assms
  by (simp add: list_insert_before_def heap_defs)

lemma list_insert_after_ring:
  assumes "ring h l (xs @ x # ys)" "n \<notin> set (l # xs @ x # ys)" "n \<noteq> 0"
  shows "\<exists>h'. list_insert_after x n h = Inr h' \<and> ring h' l (xs @ x # n # ys) \<and>
    same_outside ({n} \<union> set (l # xs @ x # ys)) h h'"
  using list_add_ring [of h l "xs @ [x]" ys n] ring_node [OF assms(1)] assms
  by (simp add: list_insert_after_def heap_defs)

text \<open>
  Removal keeps the members of the removed node, which the code calls stale: a loop that has
  read \<^verbatim>\<open>next\<close> before the removal goes on correctly.
\<close>

lemma list_remove_ring:
  assumes "ring h l (xs @ x # ys)"
  shows "\<exists>h'. list_remove x h = Inr h' \<and> ring h' l (xs @ ys) \<and> same_outside (set (l # xs @ ys)) h h' \<and>
    l_next h' x = l_next h x \<and> l_prev h' x = l_prev h x"
proof -
  let ?us = "l # xs" and ?vs = "ys @ [l]"
  let ?p = "last ?us" and ?q = "hd ?vs"
  note node = ring_node [OF assms]
  have d: "distinct (l # xs @ x # ys)" "0 \<notin> set (l # xs @ x # ys)" "linked h (?us @ x # ?vs)"
    using assms by (simp_all add: ring_def)
  define h1 where "h1 = h\<lparr>l_next := (l_next h)(?p := ?q)\<rparr>"
  define h' where "h' = h1\<lparr>l_prev := (l_prev h1)(?q := ?p)\<rparr>"
  have mem: "?p \<in> set ?us" by simp
  have mem2: "?q \<in> set (l # ys)" by (cases ys) simp_all
  have "\<forall>y \<in> set ?us \<union> set (l # ys). y \<noteq> 0 \<and> y \<noteq> x" using d(1,2) by (auto intro!: gr0I)
  then have ne: "?p \<noteq> x" "?q \<noteq> x" "?p \<noteq> 0" "?q \<noteq> 0" using mem mem2 by blast+
  have fresh: "?p \<notin> set (butlast ?us) \<union> set (butlast ?vs)"
    using d(1) by (cases xs rule: rev_cases) auto
  have fresh2: "?q \<notin> set (tl ?us) \<union> set (tl ?vs)" using d(1) by (cases ys) auto
  have "linked h ?us" "linked h (x # ?vs)" using d(3) by (subst (asm) linked_append; simp)+
  then have "linked h ?us" "linked h ?vs" by simp (cases ys; use \<open>linked h (x # ?vs)\<close> in simp)
  then have "linked h' ?us" "linked h' ?vs"
    unfolding h1_def h'_def using fresh fresh2 by (intro linked_next linked_prev; simp)+
  then have "linked h' (?us @ ?vs)" by (simp add: linked_append h'_def h1_def del: append_Cons)
  then have "ring h' l (xs @ ys)" using d by (simp add: ring_def)
  moreover have "list_remove x h = Inr h'"
    using ne node by (simp add: list_remove_def heap_defs h'_def h1_def)
  moreover have "same_outside (set (l # xs @ ys)) h h'" "l_next h' x = l_next h x" "l_prev h' x = l_prev h x"
    using mem mem2 ne by (auto simp: same_outside_def h'_def h1_def)
  ultimately show ?thesis by blast
qed

section \<open>Joining and splitting\<close>

lemma ring_parts:
  assumes "ring h l (xs @ ys)" "ys \<noteq> []"
  shows "linked h (l # xs)" "linked h ys" "linked h [l]"
    "l_next h (last (l # xs)) = hd ys" "l_prev h (hd ys) = last (l # xs)"
    "l_next h (last ys) = l" "l_prev h l = last ys"
proof -
  have "linked h ((l # xs) @ ys @ [l])" using assms(1) by (simp add: ring_def)
  then show "linked h (l # xs)" "linked h ys" "linked h [l]"
    "l_next h (last (l # xs)) = hd ys" "l_prev h (hd ys) = last (l # xs)"
    "l_next h (last ys) = l" "l_prev h l = last ys"
    using assms(2) by (simp_all only: linked_append linked.simps list.distinct append_is_Nil_conv list.sel
        hd_append2 last.simps if_True not_False_eq_True simp_thms)
qed

lemma distinct_last_butlast: "distinct ps \<Longrightarrow> ps \<noteq> [] \<Longrightarrow> last ps \<notin> set (butlast ps)"
  by (induction ps) (auto dest: in_set_butlastD)

lemma distinct_hd_tl: "distinct ps \<Longrightarrow> ps \<noteq> [] \<Longrightarrow> hd ps \<notin> set (tl ps)"
  by (cases ps) auto

lemma not_in_parts: "x \<notin> set ps \<Longrightarrow> x \<notin> set (butlast ps) \<and> x \<notin> set (tl ps)"
  by (cases ps) (auto dest: in_set_butlastD)

lemma ring_nonnull: "ring h l xs \<Longrightarrow> x \<in> set (l # xs) \<Longrightarrow> x \<noteq> 0"
  unfolding ring_def by metis

lemma list_concat_ring:
  assumes "ring h l1 xs" "ring h l2 ys" "set (l1 # xs) \<inter> set (l2 # ys) = {}"
  shows "\<exists>h'. list_concat l1 l2 h = Inr h' \<and> ring h' l1 (xs @ ys) \<and> same_outside (set (l1 # xs @ ys)) h h'"
proof (cases "ys = []")
  case True
  then show ?thesis using assms ring_empty [OF assms(2)]
    by (auto simp: list_concat_def same_outside_def)
next
  case False
  let ?a = "last (l1 # xs)" and ?b = "hd ys" and ?c = "last ys"
  have e: "list_empty l2 h = Inr False" using ring_empty [OF assms(2)] False by simp
  have l1: "l_prev h l1 = ?a" using ring_last [OF assms(1)] by (auto simp: list_last_def heap_defs split: if_splits)
  have l2: "l_prev h l2 = ?c" "l_next h l2 = ?b" "linked h ys" using ring_parts [of h l2 "[]" ys] assms(2) False by simp_all
  have in1: "?a \<in> set (l1 # xs)" and in2: "?b \<in> set ys" "?c \<in> set ys" using False by simp_all
  have nz: "?a \<noteq> 0" "?b \<noteq> 0" "?c \<noteq> 0" "l1 \<noteq> 0" "l2 \<noteq> 0"
    using ring_nonnull [OF assms(1)] ring_nonnull [OF assms(2)] in1 in2 by auto
  have d: "distinct (l1 # xs)" "distinct ys" "set (l1 # xs) \<inter> set ys = {}"
    using assms by (auto simp: ring_def)
  have ne: "?a \<noteq> l2" "?b \<noteq> l1" "?b \<noteq> l2" "?a \<notin> set ys" "?c \<notin> set (l1 # xs)" "?b \<notin> set (l1 # xs)" "l1 \<notin> set ys"
    using in1 in2 assms(2,3) by (auto simp: ring_def)
  have ac: "?a \<noteq> ?c" using ne(4) in2(2) by metis
  define h1 where "h1 = h\<lparr>l_next := (l_next h)(?a := ?b)\<rparr>"
  define h2 where "h2 = h1\<lparr>l_prev := (l_prev h1)(?b := ?a)\<rparr>"
  define h3 where "h3 = h2\<lparr>l_next := (l_next h2)(?c := l1)\<rparr>"
  define h' where "h' = h3\<lparr>l_prev := (l_prev h3)(l1 := ?c)\<rparr>"
  note hs = h'_def h3_def h2_def h1_def
  have lk: "linked h (l1 # xs)"
    using assms(1) linked_append [of "l1 # xs" "[l1]" h] by (simp add: ring_def)
  have fresh: "?a \<notin> set (butlast (l1 # xs))" "?c \<notin> set (butlast ys)" "?b \<notin> set (tl ys)" "l1 \<notin> set (tl (l1 # xs))"
    "?a \<notin> set (butlast ys)" "?c \<notin> set (butlast (l1 # xs))" "?b \<notin> set (tl (l1 # xs))" "l1 \<notin> set (tl ys)"
    using distinct_last_butlast [OF d(1) list.distinct(2)] distinct_last_butlast [OF d(2) False]
      distinct_hd_tl [OF d(2) False] distinct_hd_tl [OF d(1) list.distinct(2), unfolded list.sel(1)]
      not_in_parts [OF ne(4)] not_in_parts [OF ne(5)] not_in_parts [OF ne(6)] not_in_parts [OF ne(7)]
    by (blast+)
  have "linked h' (l1 # xs)" "linked h' ys"
    unfolding hs using lk l2(3) fresh by (intro linked_next linked_prev; simp)+
  then have "linked h' ((l1 # xs) @ ys @ [l1])"
    using False ne ac by (simp add: linked_append hs del: append_Cons)
  then have "ring h' l1 (xs @ ys)" using d assms(1,2) by (auto simp: ring_def)
  moreover have "list_concat l1 l2 h = Inr h'"
    using e nz l1 l2 ne ac by (simp add: list_concat_def heap_defs hs)
  moreover have "same_outside (set (l1 # xs @ ys)) h h'" using in1 in2 by (auto simp: same_outside_def hs)
  ultimately show ?thesis by blast
qed

lemma list_split_ring:
  assumes "ring h l2 (xs @ node # ys)" "l1 \<notin> set (l2 # xs @ node # ys)" "l1 \<noteq> 0"
  shows "\<exists>h'. list_split l1 l2 node h = Inr h' \<and> ring h' l1 xs \<and> ring h' l2 (node # ys)"
proof (cases "xs = []")
  case True
  obtain h' where "list_init l1 h = Inr h'" "ring h' l1 []" "same_outside {l1} h h'"
    using list_init_ring [OF assms(3)] by blast
  moreover have "ring h' l2 (node # ys)"
    using assms True by (intro ring_same_outside [OF calculation(3)]) auto
  moreover have "list_split l1 l2 node h = list_init l1 h"
    using True ring_empty [OF assms(1)] ring_first [OF assms(1)]
    by (simp add: list_split_def list_first_def)
  ultimately show ?thesis using True by auto
next
  case False
  let ?b = "hd xs" and ?c = "last xs"
  have d: "distinct (l2 # xs @ node # ys)" using assms(1) by (simp add: ring_def)
  have e: "list_empty l2 h = Inr False" using ring_empty [OF assms(1)] by simp
  note nd = ring_node [OF assms(1)]
  have nx: "l_next h l2 = ?b" "l_prev h node = ?c"
    using ring_first [OF assms(1)] nd(2) False by (auto simp: list_first_def heap_defs split: if_splits)
  have lk: "linked h xs" "linked h (node # ys @ [l2])"
    using assms(1) False linked_append [of "[l2]" "xs @ node # ys @ [l2]" h] linked_append [of xs "node # ys @ [l2]" h]
    by (simp_all add: ring_def)
  have in2: "?b \<in> set xs" "?c \<in> set xs" using False by simp_all
  have nz: "?b \<noteq> 0" "?c \<noteq> 0" "node \<noteq> 0" "l2 \<noteq> 0" using ring_nonnull [OF assms(1)] in2 by auto
  have ne: "?b \<noteq> l1" "?c \<noteq> l1" "node \<noteq> l1" "l2 \<noteq> l1" "?b \<noteq> node" "?c \<noteq> node" "?b \<noteq> l2" "?c \<noteq> l2" "l2 \<noteq> node"
    using in2 d assms(2) by auto
  define h1 where "h1 = h\<lparr>l_next := (l_next h)(l1 := ?b)\<rparr>"
  define h2 where "h2 = h1\<lparr>l_prev := (l_prev h1)(?b := l1)\<rparr>"
  define h3 where "h3 = h2\<lparr>l_prev := (l_prev h2)(l1 := ?c)\<rparr>"
  define h4 where "h4 = h3\<lparr>l_next := (l_next h3)(?c := l1)\<rparr>"
  define h5 where "h5 = h4\<lparr>l_next := (l_next h4)(l2 := node)\<rparr>"
  define h' where "h' = h5\<lparr>l_prev := (l_prev h5)(node := l2)\<rparr>"
  note hs = h'_def h5_def h4_def h3_def h2_def h1_def
  have dx: "distinct xs" "l1 \<notin> set xs" "l2 \<notin> set xs" "node \<notin> set xs" using d assms(2) by auto
  have "linked h' xs"
    unfolding hs using lk(1) dx distinct_last_butlast [OF dx(1) False] distinct_hd_tl [OF dx(1) False]
      not_in_parts [OF dx(2)] not_in_parts [OF dx(3)] not_in_parts [OF dx(4)]
    by (intro linked_next linked_prev; simp)
  moreover have dn: "?b \<notin> set (ys @ [l2])" "?c \<notin> set (node # ys)" "node \<notin> set (ys @ [l2])"
    "l1 \<notin> set (node # ys @ [l2])" "l2 \<notin> set (node # ys)"
    using d in2 assms(2) by auto
  have "linked h' (node # ys @ [l2])"
    unfolding hs using lk(2) dn by (intro linked_next linked_prev; simp add: butlast_append)
  moreover have "l_next h' l1 = ?b" "l_prev h' ?b = l1" "l_next h' ?c = l1" "l_prev h' l1 = ?c"
    "l_next h' l2 = node" "l_prev h' node = l2"
    using ne by (simp_all add: hs)
  ultimately have "linked h' ([l1] @ xs @ [l1])" "linked h' ([l2] @ node # ys @ [l2])"
    using False by (simp_all add: linked_append del: append_Cons)
  then have "ring h' l1 xs" "ring h' l2 (node # ys)"
    using assms d nz by (auto simp: ring_def)
  moreover have "list_split l1 l2 node h = Inr h'"
    using e nz nx ne assms(3) by (simp add: list_split_def list_end_def heap_defs hs)
  ultimately show ?thesis by blast
qed

lemma list_set_head_ring:
  assumes "ring h old xs" "new \<notin> set (old # xs)" "new \<noteq> 0"
  shows "\<exists>h'. list_set_head new old h = Inr h' \<and> ring h' new xs"
proof (cases "xs = []")
  case True
  then show ?thesis
    using ring_empty [OF assms(1)] list_init_ring [OF assms(3), of h] by (auto simp: list_set_head_def)
next
  case False
  let ?b = "hd xs" and ?c = "last xs"
  have e: "list_empty old h = Inr False" using ring_empty [OF assms(1)] False by simp
  have p: "linked h xs" "l_prev h old = ?c" "l_next h old = ?b"
    using ring_parts [of h old "[]" xs] assms(1) False by simp_all
  have in2: "?b \<in> set xs" "?c \<in> set xs" using False by simp_all
  have dx: "distinct xs" "new \<notin> set xs" using assms(1,2) by (auto simp: ring_def)
  have nz: "?b \<noteq> 0" "?c \<noteq> 0" "old \<noteq> 0" "old \<noteq> new" "?b \<noteq> new" "?c \<noteq> new"
    using ring_nonnull [OF assms(1)] in2 assms(2) by auto
  define h1 where "h1 = h\<lparr>l_prev := (l_prev h)(new := ?c)\<rparr>"
  define h2 where "h2 = h1\<lparr>l_next := (l_next h1)(new := ?b)\<rparr>"
  define h3 where "h3 = h2\<lparr>l_prev := (l_prev h2)(?b := new)\<rparr>"
  define h' where "h' = h3\<lparr>l_next := (l_next h3)(?c := new)\<rparr>"
  note hs = h'_def h3_def h2_def h1_def
  have "linked h' xs"
    unfolding hs using p dx distinct_last_butlast [OF dx(1) False] distinct_hd_tl [OF dx(1) False]
      not_in_parts [OF dx(2)]
    by (intro linked_next linked_prev; simp)
  then have "linked h' ([new] @ xs @ [new])"
    using False nz by (simp add: linked_append hs del: append_Cons)
  then have "ring h' new xs" using assms by (auto simp: ring_def)
  moreover have "list_set_head new old h = Inr h'"
    using e nz p assms(3) by (simp add: list_set_head_def heap_defs hs)
  ultimately show ?thesis by blast
qed

end
