(* ===== verification/Events.thy ===== *)
theory Events
  imports Linked_List
begin

text \<open>
  The event manager of \<^verbatim>\<open>code/client/event.c\<close> and the registration functions of
  \<^verbatim>\<open>code/client/api.c\<close>. The manager is an array of list heads; an entry is identified by the
  address of its node. Callbacks are a parameter: \<open>call f x\<close> is the effect of calling function \<open>f\<close> for
  the entry \<open>x\<close> on the event state and on the rest of the client. As a callback may change the
  list while it is traversed, the loop of \<^verbatim>\<open>broadcast_event\<close> has fuel; \<open>None\<close> means
  that it did not end. \<open>ndebug\<close> says whether the code is compiled with \<^verbatim>\<open>NDEBUG\<close>, which
  here concerns only \<^verbatim>\<open>events_rem_entry\<close>, not the assertions.
\<close>

record callback_entry =
  cb_registered :: bool
  cb_callback :: "nat option"

record ev_state =
  ev_heap :: list_heap
  ev_entries :: "nat \<Rightarrow> callback_entry"

definition EventType_Count :: int where
  "EventType_Count = 21"

text \<open>The address of \<^verbatim>\<open>mgr->callbacks[e]\<close>: a \<^verbatim>\<open>struct list\<close> has 16 bytes.\<close>

definition callbacks :: "nat \<Rightarrow> int \<Rightarrow> nat" where
  "callbacks mgr e = mgr + 16 * nat e"

definition on_heap :: "(list_heap \<Rightarrow> fault + list_heap) \<Rightarrow> ev_state \<Rightarrow> fault + ev_state" where
  "on_heap f s = bindE (f (ev_heap s)) (\<lambda>h. Inr (s\<lparr>ev_heap := h\<rparr>))"

definition set_registered :: "nat \<Rightarrow> bool \<Rightarrow> ev_state \<Rightarrow> ev_state" where
  "set_registered x b s = s\<lparr>ev_entries := (ev_entries s)(x := (ev_entries s x)\<lparr>cb_registered := b\<rparr>)\<rparr>"

fun init_callbacks :: "nat \<Rightarrow> int list \<Rightarrow> ev_state \<Rightarrow> fault + ev_state" where
  "init_callbacks mgr [] s = Inr s"
| "init_callbacks mgr (i # is) s =
     bindE (on_heap (list_init (callbacks mgr i)) s) (init_callbacks mgr is)"

definition init_event_manager :: "nat \<Rightarrow> ev_state \<Rightarrow> fault + ev_state" where
  "init_event_manager mgr s = init_callbacks mgr (map int [0..<nat EventType_Count]) s"

definition CallbackEntry_Init :: "nat \<Rightarrow> nat option \<Rightarrow> ev_state \<Rightarrow> ev_state" where
  "CallbackEntry_Init x cb s =
     s\<lparr>ev_entries := (ev_entries s)(x := \<lparr>cb_registered = False, cb_callback = cb\<rparr>)\<rparr>"

definition events_add_entry :: "nat \<Rightarrow> int \<Rightarrow> nat \<Rightarrow> ev_state \<Rightarrow> fault + ev_state" where
  "events_add_entry mgr e x s =
     bindE (assertE (mgr \<noteq> 0 \<and> x \<noteq> 0 \<and> cb_callback (ev_entries s x) \<noteq> None)) (\<lambda>_.
     bindE (assertE (0 \<le> e \<and> e < EventType_Count)) (\<lambda>_.
     bindE (on_heap (list_insert_head (callbacks mgr e) x) s) (\<lambda>s.
       Inr (set_registered x True s))))"

definition events_rem_entry :: "bool \<Rightarrow> nat \<Rightarrow> nat \<Rightarrow> ev_state \<Rightarrow> fault + ev_state" where
  "events_rem_entry ndebug mgr x s =
     bindE (assertE (mgr \<noteq> 0 \<and> x \<noteq> 0)) (\<lambda>_.
     bindE (get_next x (ev_heap s)) (\<lambda>n. bindE (get_prev x (ev_heap s)) (\<lambda>p.
     bindE (assertE (n \<noteq> 0 \<and> p \<noteq> 0)) (\<lambda>_.
     bindE (on_heap (list_remove x) s) (\<lambda>s.
     bindE (if ndebug then Inr s
            else on_heap (\<lambda>h. bindE (set_next x 0 h) (set_prev x 0)) s) (\<lambda>s.
       Inr (set_registered x False s)))))))"

definition is_event_subscribed :: "nat \<Rightarrow> int \<Rightarrow> ev_state \<Rightarrow> fault + bool" where
  "is_event_subscribed mgr e s =
     (if 0 \<le> e \<and> e < EventType_Count
      then bindE (list_empty (callbacks mgr e) (ev_heap s)) (\<lambda>b. Inr (\<not> b)) else Inr False)"

fun broadcast_loop ::
    "(nat \<Rightarrow> nat \<Rightarrow> 'w \<times> ev_state \<Rightarrow> fault + 'w \<times> ev_state) \<Rightarrow> nat \<Rightarrow> nat \<Rightarrow> nat \<Rightarrow>
     'w \<times> ev_state \<Rightarrow> fault + ('w \<times> ev_state) option" where
  "broadcast_loop call l 0 it s = (if list_end l it then Inr (Some s) else Inr None)"
| "broadcast_loop call l (Suc fuel) it s =
     (if list_end l it then Inr (Some s)
      else bindE (list_next it (ev_heap (snd s))) (\<lambda>it'.
           bindE (case cb_callback (ev_entries (snd s) it) of
                    None \<Rightarrow> Inr s | Some f \<Rightarrow> call f it s)
             (broadcast_loop call l fuel it')))"

definition broadcast_event ::
    "(nat \<Rightarrow> nat \<Rightarrow> 'w \<times> ev_state \<Rightarrow> fault + 'w \<times> ev_state) \<Rightarrow> nat \<Rightarrow> nat \<Rightarrow> int \<Rightarrow>
     'w \<times> ev_state \<Rightarrow> fault + ('w \<times> ev_state) option" where
  "broadcast_event call fuel mgr e s =
     bindE (assertE (0 \<le> e \<and> e < EventType_Count)) (\<lambda>_.
     bindE (list_first (callbacks mgr e) (ev_heap (snd s))) (\<lambda>it.
       broadcast_loop call (callbacks mgr e) fuel it s))"

definition RegisterEvent :: "nat \<Rightarrow> int \<Rightarrow> nat \<Rightarrow> ev_state \<Rightarrow> fault + bool \<times> ev_state" where
  "RegisterEvent mgr e x s =
     (if e < 0 \<or> EventType_Count \<le> e then Inr (False, s)
      else if x = 0 \<or> cb_registered (ev_entries s x) then Inr (False, s)
      else bindE (events_add_entry mgr e x s) (\<lambda>s. Inr (True, s)))"

definition UnRegisterEvent :: "bool \<Rightarrow> nat \<Rightarrow> nat \<Rightarrow> ev_state \<Rightarrow> fault + bool \<times> ev_state" where
  "UnRegisterEvent ndebug mgr x s =
     (if x = 0 then Inr (False, s)
      else if \<not> cb_registered (ev_entries s x) then Inr (True, s)
      else bindE (get_prev x (ev_heap s)) (\<lambda>p. bindE (get_next x (ev_heap s)) (\<lambda>n.
        if \<not> (p \<noteq> 0 \<and> n \<noteq> 0) then Inr (False, s)
        else bindE (events_rem_entry ndebug mgr x s) (\<lambda>s. Inr (True, s)))))"

section \<open>The registered entries\<close>

text \<open>
  The entries of an event: the nodes of its ring, the last registered first, all of them with a
  callback and the mark that they are registered.
\<close>

definition subscribers :: "nat \<Rightarrow> int \<Rightarrow> ev_state \<Rightarrow> nat list \<Rightarrow> bool" where
  "subscribers mgr e s xs \<longleftrightarrow> ring (ev_heap s) (callbacks mgr e) xs \<and>
     (\<forall>x \<in> set xs. cb_registered (ev_entries s x) \<and> cb_callback (ev_entries s x) \<noteq> None)"

lemma register_subscribers:
  assumes "subscribers mgr e s xs" "0 \<le> e" "e < EventType_Count" "mgr \<noteq> 0" "x \<noteq> 0"
    and "\<not> cb_registered (ev_entries s x)" "cb_callback (ev_entries s x) \<noteq> None" "x \<noteq> callbacks mgr e"
  shows "\<exists>s'. RegisterEvent mgr e x s = Inr (True, s') \<and> subscribers mgr e s' (x # xs)"
proof -
  have "x \<notin> set (callbacks mgr e # xs)" using assms by (auto simp: subscribers_def)
  then obtain h where "list_insert_head (callbacks mgr e) x (ev_heap s) = Inr h"
    "ring h (callbacks mgr e) (x # xs)"
    using list_insert_head_ring [of "ev_heap s" "callbacks mgr e" xs x] assms(1,5) by (auto simp: subscribers_def)
  then show ?thesis using assms
    by (auto simp: RegisterEvent_def events_add_entry_def on_heap_def set_registered_def subscribers_def)
qed

lemma unregister_subscribers:
  assumes "subscribers mgr e s (xs @ x # ys)" "mgr \<noteq> 0"
  shows "\<exists>s'. UnRegisterEvent ndebug mgr x s = Inr (True, s') \<and> subscribers mgr e s' (xs @ ys) \<and>
    \<not> cb_registered (ev_entries s' x)"
proof -
  let ?l = "callbacks mgr e"
  have r: "ring (ev_heap s) ?l (xs @ x # ys)" using assms(1) by (simp add: subscribers_def)
  note nd = ring_node [OF r]
  have nz: "l_next (ev_heap s) x \<noteq> 0" "l_prev (ev_heap s) x \<noteq> 0"
    unfolding nd using ring_nonnull [OF r] by (cases ys; auto)+
  obtain h where h: "list_remove x (ev_heap s) = Inr h" "ring h ?l (xs @ ys)"
    using list_remove_ring [OF r] by blast
  have x: "x \<notin> set (?l # xs @ ys)" using r by (auto simp: ring_def)
  let ?h = "h\<lparr>l_next := (l_next h)(x := 0), l_prev := (l_prev h)(x := 0)\<rparr>"
  have "ring ?h ?l (xs @ ys)"
    using x by (intro ring_same_outside [OF _ _ h(2), of "{x}"]) (auto simp: same_outside_def)
  then show ?thesis
    using assms h nd(1) nz x
    by (cases ndebug) (auto simp: UnRegisterEvent_def events_rem_entry_def on_heap_def set_registered_def
        subscribers_def heap_defs)
qed

section \<open>Broadcasting\<close>

fun notify ::
    "(nat \<Rightarrow> nat \<Rightarrow> 'w \<times> ev_state \<Rightarrow> fault + 'w \<times> ev_state) \<Rightarrow> nat list \<Rightarrow>
     'w \<times> ev_state \<Rightarrow> fault + 'w \<times> ev_state" where
  "notify call [] s = Inr s"
| "notify call (x # xs) s =
     bindE (case cb_callback (ev_entries (snd s) x) of None \<Rightarrow> Inr s | Some f \<Rightarrow> call f x s)
       (notify call xs)"

text \<open>A callback is tame when it leaves the list alone or unregisters its own entry.\<close>

definition tame :: "nat \<Rightarrow> (nat \<Rightarrow> nat \<Rightarrow> 'w \<times> ev_state \<Rightarrow> fault + 'w \<times> ev_state) \<Rightarrow> bool" where
  "tame l call \<longleftrightarrow> (\<forall>f x xs ys s s'. ring (ev_heap (snd s)) l (xs @ x # ys) \<and> call f x s = Inr s' \<longrightarrow>
     ring (ev_heap (snd s')) l (xs @ x # ys) \<or> ring (ev_heap (snd s')) l (xs @ ys))"

lemma broadcast_loop_notify:
  assumes "tame l call" "ring (ev_heap (snd s)) l (ds @ xs)" "length xs \<le> fuel"
  shows "broadcast_loop call l fuel (hd (xs @ [l])) s = bindE (notify call xs s) (\<lambda>s. Inr (Some s))"
  using assms(2,3)
proof (induction xs arbitrary: ds s fuel)
  case Nil
  then show ?case by (cases fuel) (auto simp: list_end_def)
next
  case (Cons x xs)
  then obtain n where n: "fuel = Suc n" "length xs \<le> n" by (cases fuel) auto
  have "x \<noteq> l" using Cons.prems(1) by (auto simp: ring_def)
  moreover note nd = ring_node [OF Cons.prems(1)]
  moreover have "broadcast_loop call l n (hd (xs @ [l])) s' = bindE (notify call xs s') (\<lambda>s. Inr (Some s))"
    if "(case cb_callback (ev_entries (snd s) x) of None \<Rightarrow> Inr s | Some f \<Rightarrow> call f x s) = Inr s'" for s'
  proof -
    have "ring (ev_heap (snd s')) l (ds @ x # xs) \<or> ring (ev_heap (snd s')) l (ds @ xs)"
    proof (cases "cb_callback (ev_entries (snd s) x)")
      case None
      then show ?thesis using that Cons.prems(1) by simp
    next
      case (Some f)
      then have "call f x s = Inr s'" using that by simp
      then show ?thesis using assms(1) Cons.prems(1) unfolding tame_def by blast
    qed
    then have "ring (ev_heap (snd s')) l ((ds @ [x]) @ xs) \<or> ring (ev_heap (snd s')) l (ds @ xs)" by simp
    then show ?thesis using Cons.IH n(2) by blast
  qed
  ultimately show ?case
    by (auto simp: n list_end_def list_next_def heap_defs bindE_assoc intro!: bindE_cong)
qed

text \<open>
  C17. Broadcasting an event calls the callback of every registered entry exactly once, the last
  registered first, and ends, provided each callback at most unregisters its own entry: as many
  iterations as there are entries are enough.
\<close>

theorem broadcast_calls_subscribers:
  assumes "subscribers mgr e (snd s) xs" "tame (callbacks mgr e) call" "0 \<le> e" "e < EventType_Count"
  shows "broadcast_event call (length xs) mgr e s = bindE (notify call xs s) (\<lambda>s. Inr (Some s))"
  using broadcast_loop_notify [of "callbacks mgr e" call s "[]" xs "length xs"] assms
    ring_first [of "ev_heap (snd s)" "callbacks mgr e" xs]
  by (simp add: broadcast_event_def subscribers_def)

text \<open>Two entries at the addresses 1000 and 2000, registered for the first event of a manager.\<close>

definition sample_events :: ev_state where
  "sample_events = \<lparr>ev_heap = \<lparr>l_prev = (\<lambda>_. 0)(64 := 2000, 1000 := 64, 2000 := 1000),
     l_next = (\<lambda>_. 0)(64 := 1000, 1000 := 2000, 2000 := 64)\<rparr>,
     ev_entries = (\<lambda>_. \<lparr>cb_registered = True, cb_callback = Some 7\<rparr>)\<rparr>"

lemma sample_events_subscribers: "subscribers 64 0 sample_events [1000, 2000]"
  by (simp add: subscribers_def sample_events_def ring_def callbacks_def)

theorem broadcast_calls_subscribers_witness:
  "broadcast_event (\<lambda>f x s. Inr (fst s @ [x], snd s)) 2 64 0 ([], sample_events) =
   Inr (Some ([1000, 2000], sample_events))"
  using broadcast_calls_subscribers [of 64 0 "([], sample_events)" "[1000, 2000]" "\<lambda>f x s. Inr (fst s @ [x], snd s)"]
    sample_events_subscribers
  by (auto simp: tame_def EventType_Count_def) (simp add: sample_events_def numeral_2_eq_2)

text \<open>
  C19. A callback that unregisters the entry after its own breaks the traversal when the code is
  compiled without NDEBUG: the loop has already stepped to that entry, calls it although it is
  no longer registered, and then follows its cleared next pointer.
\<close>

theorem unregister_next_crashes:
  assumes "subscribers mgr e s (x # y # ys)" "0 \<le> e" "e < EventType_Count" "mgr \<noteq> 0"
    and "call = (\<lambda>f z (w, s). if z = x then bindE (events_rem_entry False mgr y s) (\<lambda>s. Inr (w, s)) else Inr (w, s))"
  shows "broadcast_event call 3 mgr e (w, s) = Inl NullDeref"
proof -
  let ?l = "callbacks mgr e"
  have r: "ring (ev_heap s) ?l ([x] @ y # ys)" using assms(1) by (simp add: subscribers_def)
  have ne: "x \<noteq> ?l" "y \<noteq> ?l" "y \<noteq> x" "x \<noteq> 0" "y \<noteq> 0" "?l \<noteq> 0" using r by (auto simp: ring_def)
  note nx = ring_node [of "ev_heap s" ?l "[]" x "y # ys"] and ny = ring_node [OF r]
  have nz: "l_next (ev_heap s) y \<noteq> 0" "l_prev (ev_heap s) y \<noteq> 0"
    unfolding ny using ring_nonnull [OF r] ne by (cases ys; auto)+
  obtain h where h: "list_remove y (ev_heap s) = Inr h" using list_remove_ring [OF r] by blast
  obtain fx fy where cb: "cb_callback (ev_entries s x) = Some fx" "cb_callback (ev_entries s y) = Some fy"
    using assms(1) by (auto simp: subscribers_def)
  let ?s' = "set_registered y False (s\<lparr>ev_heap := h\<lparr>l_next := (l_next h)(y := 0), l_prev := (l_prev h)(y := 0)\<rparr>\<rparr>)"
  have rem: "events_rem_entry False mgr y s = Inr ?s'"
    using h ne nz assms(4) by (simp add: events_rem_entry_def on_heap_def heap_defs)
  have "ring (ev_heap s) ?l (x # y # ys)" using r by simp
  then have "list_first ?l (ev_heap s) = Inr x" "l_next (ev_heap s) x = y"
    using ring_first [of "ev_heap s" ?l "x # y # ys"] nx(3) by simp_all
  then show ?thesis
    using assms(2,3) ne rem cb
    by (simp add: broadcast_event_def assms(5) numeral_3_eq_3 list_end_def list_next_def heap_defs
        set_registered_def)
qed

theorem unregister_next_crashes_witness:
  "broadcast_event (\<lambda>f z (w, s). if z = 1000 then bindE (events_rem_entry False 64 2000 s) (\<lambda>s. Inr (w, s))
      else Inr (w, s)) 3 64 0 ((), sample_events) = Inl NullDeref"
  by (rule unregister_next_crashes [OF sample_events_subscribers _ _ _ refl]) (simp_all add: EventType_Count_def)



end
