(* ===== verification/Kstr.thy ===== *)
theory Kstr
  imports Endian
begin

unbundle bit_operations_syntax

text \<open>
  The bounded 16-bit strings of \<^verbatim>\<open>code/client/kstr.c\<close>: a length, a capacity and a buffer,
  which is the block of memory from the pointer on. Strings that come from the network are read
  with \<^verbatim>\<open>kstr_read\<close> and written null-terminated with \<^verbatim>\<open>kstr_write\<close>. The
  functions on a \<^verbatim>\<open>kstr_hdr\<close> are those on the string with the buffer behind the header.
\<close>

section \<open>Definitions\<close>

record kstr =
  k_length :: nat
  k_capacity :: nat
  k_buffer :: "u16 list"

text \<open>The value \<^verbatim>\<open>(size_t)-1\<close>.\<close>

definition npos :: nat where
  "npos = 2 ^ 64 - 1"

fun u16len_from :: "u16 list \<Rightarrow> nat \<Rightarrow> nat \<Rightarrow> fault + nat" where
  "u16len_from src 0 len = Inr len"
| "u16len_from src (Suc n) len =
     bindE (idx src len) (\<lambda>c. if c = 0 then Inr len else u16len_from src n (len + 1))"

definition u16len :: "u16 list \<Rightarrow> nat \<Rightarrow> fault + nat" where
  "u16len src n = u16len_from src n 0"

definition kstr_init :: "u16 list \<Rightarrow> nat \<Rightarrow> nat \<Rightarrow> kstr" where
  "kstr_init buffer len capacity = \<lparr>k_length = len, k_capacity = capacity, k_buffer = buffer\<rparr>"

fun find_from :: "u16 list \<Rightarrow> u16 \<Rightarrow> nat \<Rightarrow> nat \<Rightarrow> fault + nat" where
  "find_from buffer codepoint 0 i = Inr npos"
| "find_from buffer codepoint (Suc n) i =
     bindE (idx buffer i) (\<lambda>c. if c = codepoint then Inr i else find_from buffer codepoint n (i + 1))"

definition kstr_find_codepoint :: "kstr \<Rightarrow> u16 \<Rightarrow> fault + nat" where
  "kstr_find_codepoint s codepoint = find_from (k_buffer s) codepoint (k_length s) 0"

definition kstr_init_from_null_terminated :: "u16 list \<Rightarrow> nat \<Rightarrow> fault + kstr" where
  "kstr_init_from_null_terminated buffer capacity =
     (let s = kstr_init buffer capacity capacity in
      bindE (kstr_find_codepoint s 0) (\<lambda>len.
        Inr (if len < capacity then s\<lparr>k_length := len\<rparr> else s)))"

definition kstr_copy :: "kstr \<Rightarrow> kstr \<Rightarrow> fault + bool \<times> kstr" where
  "kstr_copy dest src =
     (if k_capacity dest < k_length src then Inr (False, dest)
      else
        bindE (mem_read (k_buffer src) 0 (k_length src)) (\<lambda>cs.
        bindE (mem_write (k_buffer dest) 0 cs) (\<lambda>b.
          Inr (True, dest\<lparr>k_buffer := b, k_length := k_length src\<rparr>))))"

definition kstr_compare :: "kstr \<Rightarrow> kstr \<Rightarrow> fault + int" where
  "kstr_compare s1 s2 =
     (if k_length s1 < k_length s2 then Inr (- 1)
      else if k_length s2 < k_length s1 then Inr 1
      else
        bindE (mem_read (k_buffer s1) 0 (k_length s1)) (\<lambda>a.
        bindE (mem_read (k_buffer s2) 0 (k_length s1)) (\<lambda>b.
          Inr (memcmp (concat (map le16enc a)) (concat (map le16enc b))))))"

definition kstr_substr :: "kstr \<Rightarrow> nat \<Rightarrow> nat \<Rightarrow> kstr" where
  "kstr_substr s pos0 len0 =
     (let pos = (if k_length s < pos0 then k_length s else pos0);
          len = (if k_length s - pos < len0 then k_length s - pos else len0)
      in \<lparr>k_length = len, k_capacity = k_capacity s - pos, k_buffer = drop pos (k_buffer s)\<rparr>)"

definition kstr_read :: "kstr \<Rightarrow> u16 list \<Rightarrow> nat \<Rightarrow> fault + bool \<times> kstr" where
  "kstr_read s src n =
     (let source = kstr_init src n n in
      bindE (kstr_find_codepoint source 0) (\<lambda>trim.
        kstr_copy s (if trim \<noteq> npos then kstr_substr source 0 trim else source)))"

definition kstr_write :: "kstr \<Rightarrow> u16 list \<Rightarrow> nat \<Rightarrow> fault + bool \<times> u16 list" where
  "kstr_write s buffer n =
     (if n \<le> k_length s then Inr (False, buffer)
      else
        bindE (mem_read (k_buffer s) 0 (k_length s)) (\<lambda>cs.
        bindE (mem_write buffer 0 cs) (\<lambda>b.
        bindE (upd b (k_length s) 0) (\<lambda>b. Inr (True, b)))))"

text \<open>\<^verbatim>\<open>strnlen\<close>: a \<^verbatim>\<open>char\<close> is its byte.\<close>

fun strnlen :: "bytes \<Rightarrow> nat \<Rightarrow> fault + nat" where
  "strnlen s 0 = Inr 0"
| "strnlen [] (Suc n) = Inl OutOfBounds"
| "strnlen (c # s) (Suc n) = (if c = 0 then Inr 0 else bindE (strnlen s n) (\<lambda>k. Inr (Suc k)))"

fun read_ascii_from :: "bytes \<Rightarrow> nat \<Rightarrow> nat \<Rightarrow> u16 list \<Rightarrow> fault + bool \<times> u16 list" where
  "read_ascii_from src 0 i buffer = Inr (True, buffer)"
| "read_ascii_from src (Suc n) i buffer =
     bindE (idx src i) (\<lambda>c.
       if c AND 0x80 \<noteq> 0 then Inr (False, buffer)
       else bindE (upd buffer i (ucast c)) (read_ascii_from src n (i + 1)))"

definition kstr_read_ascii :: "kstr \<Rightarrow> bytes \<Rightarrow> nat \<Rightarrow> fault + bool \<times> kstr" where
  "kstr_read_ascii s0 src n =
     (let s = s0\<lparr>k_length := 0\<rparr> in
      bindE (strnlen src n) (\<lambda>len.
        if k_capacity s < len then Inr (False, s)
        else bindE (read_ascii_from src len 0 (k_buffer s)) (\<lambda>(ok, b).
          if ok then Inr (True, s\<lparr>k_buffer := b, k_length := len\<rparr>)
          else Inr (False, s\<lparr>k_buffer := b\<rparr>))))"

fun write_ascii_from :: "u16 list \<Rightarrow> nat \<Rightarrow> nat \<Rightarrow> bytes \<Rightarrow> fault + bool \<times> bytes" where
  "write_ascii_from s 0 i buffer = Inr (True, buffer)"
| "write_ascii_from s (Suc n) i buffer =
     bindE (idx s i) (\<lambda>c.
       if c AND NOT 0x7F \<noteq> 0 then Inr (False, buffer)
       else bindE (upd buffer i (ucast (c AND 0x7F))) (write_ascii_from s n (i + 1)))"

definition kstr_write_ascii :: "kstr \<Rightarrow> bytes \<Rightarrow> nat \<Rightarrow> fault + bool \<times> bytes" where
  "kstr_write_ascii s buffer n =
     (if n \<le> k_length s then Inr (False, buffer)
      else
        bindE (write_ascii_from (k_buffer s) (k_length s) 0 buffer) (\<lambda>(ok, b).
          if ok then bindE (upd b (k_length s) 0) (\<lambda>b. Inr (True, b)) else Inr (False, b)))"

section \<open>Well-formed strings\<close>

definition kstr_ok :: "kstr \<Rightarrow> bool" where
  "kstr_ok s \<longleftrightarrow> k_length s \<le> k_capacity s \<and> k_capacity s \<le> length (k_buffer s)"

definition kstr_text :: "kstr \<Rightarrow> u16 list" where
  "kstr_text s = take (k_length s) (k_buffer s)"

lemma length_kstr_text [simp]: "kstr_ok s \<Longrightarrow> length (kstr_text s) = k_length s"
  by (simp add: kstr_ok_def kstr_text_def)

text \<open>The characters before the first null character.\<close>

definition until_null :: "u16 list \<Rightarrow> u16 list" where
  "until_null cs = takeWhile (\<lambda>c. c \<noteq> 0) cs"

lemma find_from_found:
  "i + n \<le> length buffer \<Longrightarrow> c \<in> set (take n (drop i buffer)) \<Longrightarrow>
   find_from buffer c n i = Inr (i + length (takeWhile (\<lambda>x. x \<noteq> c) (take n (drop i buffer))))"
proof (induction n arbitrary: i)
  case (Suc n)
  then have "take (Suc n) (drop i buffer) = buffer ! i # take n (drop (Suc i) buffer)"
    by (metis Cons_nth_drop_Suc Suc_le_eq add_Suc_right le_add1 le_less_trans take_Suc_Cons not_less)
  with Suc show ?case by auto
qed simp

lemma find_from_not_found:
  "i + n \<le> length buffer \<Longrightarrow> c \<notin> set (take n (drop i buffer)) \<Longrightarrow> find_from buffer c n i = Inr npos"
proof (induction n arbitrary: i)
  case (Suc n)
  then have "take (Suc n) (drop i buffer) = buffer ! i # take n (drop (Suc i) buffer)"
    by (metis Cons_nth_drop_Suc Suc_le_eq add_Suc_right le_add1 le_less_trans take_Suc_Cons not_less)
  with Suc show ?case by auto
qed simp

lemma takeWhile_length_less: "c \<in> set xs \<Longrightarrow> length (takeWhile (\<lambda>x. x \<noteq> c) xs) < length xs"
  by (induction xs) auto

lemma u16len_from_correct:
  "i + n \<le> length src \<Longrightarrow> u16len_from src n i = Inr (i + length (until_null (take n (drop i src))))"
proof (induction n arbitrary: i)
  case (Suc n)
  then have "take (Suc n) (drop i src) = src ! i # take n (drop (Suc i) src)"
    by (metis Cons_nth_drop_Suc Suc_le_eq add_Suc_right le_add1 le_less_trans take_Suc_Cons not_less)
  with Suc show ?case by (auto simp: until_null_def)
qed (simp add: until_null_def)

lemma u16len_correct: "n \<le> length src \<Longrightarrow> u16len src n = Inr (length (until_null (take n src)))"
  using u16len_from_correct [of 0 n src] by (simp add: u16len_def)

lemma kstr_copy_ok:
  assumes "kstr_ok d" "kstr_ok s" "k_length s \<le> k_capacity d"
  shows "\<exists>d'. kstr_copy d s = Inr (True, d') \<and> kstr_ok d' \<and> kstr_text d' = kstr_text s \<and>
    k_capacity d' = k_capacity d"
  using assms take_overlay_all [of 0 "k_buffer d" "kstr_text s"]
  by (auto simp: kstr_copy_def kstr_ok_def kstr_text_def)

lemma kstr_read_ok:
  assumes "kstr_ok s" "n \<le> length src" "n < npos"
  shows "if length (until_null (take n src)) \<le> k_capacity s
    then \<exists>s'. kstr_read s src n = Inr (True, s') \<and> kstr_ok s' \<and> kstr_text s' = until_null (take n src) \<and>
      k_capacity s' = k_capacity s
    else kstr_read s src n = Inr (False, s)"
proof -
  let ?t = "until_null (take n src)"
  define src' where "src' = \<lparr>k_length = length ?t, k_capacity = n, k_buffer = src\<rparr>"
  have le: "length ?t \<le> n" using length_takeWhile_le [of _ "take n src"] assms(2)
    by (simp add: until_null_def)
  have "take (length ?t) (take n src) = ?t"
    using takeWhile_eq_take [of "\<lambda>c. c \<noteq> 0" "take n src"] by (simp only: until_null_def)
  then have src': "kstr_ok src'" "kstr_text src' = ?t"
    using le assms(2) by (simp_all add: src'_def kstr_ok_def kstr_text_def min_absorb1)
  have "kstr_read s src n = kstr_copy s src'"
  proof (cases "0 \<in> set (take n src)")
    case True
    then have "find_from src 0 n 0 = Inr (length ?t)" "length ?t < n"
      using find_from_found [of 0 n src 0] takeWhile_length_less [of 0 "take n src"] assms(2)
      by (simp_all add: until_null_def)
    then show ?thesis using assms(3)
      by (simp add: kstr_read_def kstr_find_codepoint_def kstr_init_def kstr_substr_def src'_def)
  next
    case False
    then have "?t = take n src" by (auto simp: until_null_def takeWhile_eq_all_conv)
    then show ?thesis using False find_from_not_found [of 0 n src 0] assms(2)
      by (simp add: kstr_read_def kstr_find_codepoint_def kstr_init_def src'_def)
  qed
  then show ?thesis
    using kstr_copy_ok [OF assms(1) src'(1)] src' by (auto simp: kstr_copy_def src'_def)
qed

lemma kstr_write_ok:
  assumes "kstr_ok s" "n \<le> length buffer" "k_length s < n"
  shows "kstr_write s buffer n = Inr (True, overlay buffer 0 (kstr_text s @ [0]))"
proof -
  have len: "length (kstr_text s) = k_length s" "k_length s + 1 \<le> length buffer" using assms by auto
  have "(overlay buffer 0 (kstr_text s))[k_length s := 0] = overlay buffer 0 (kstr_text s @ [0])"
    using len overlay_snoc [of 0 "kstr_text s" buffer 0] by simp
  then show ?thesis
    using assms len by (simp add: kstr_write_def kstr_ok_def kstr_text_def)
qed

section \<open>Comparison\<close>

lemma le16enc_inj: "le16enc a = le16enc b \<longleftrightarrow> a = b"
  by (metis le16dec_le16enc sum.inject(2))

lemma concat_le16enc_inj: "length as = length bs \<Longrightarrow> concat (map le16enc as) = concat (map le16enc bs) \<longleftrightarrow> as = bs"
  by (induction as bs rule: list_induct2) (auto simp: le16enc_inj)

lemma length_concat_le16enc [simp]: "length (concat (map le16enc as)) = 2 * length as"
  by (induction as) auto

lemma kstr_compare_ok:
  assumes "kstr_ok s" "kstr_ok t"
  obtains r where "kstr_compare s t = Inr r" "kstr_compare t s = Inr (- r)" "r = 0 \<longleftrightarrow> kstr_text s = kstr_text t"
proof -
  let ?b = "\<lambda>s. concat (map le16enc (kstr_text s))"
  define r where "r = (if k_length s < k_length t then - 1 else if k_length t < k_length s then 1
    else memcmp (?b s) (?b t))"
  have "kstr_compare s t = Inr r"
    using assms by (simp add: kstr_compare_def r_def kstr_ok_def kstr_text_def)
  moreover have "kstr_compare t s = Inr (- r)"
    using assms memcmp_swap [of "?b s" "?b t"]
    by (auto simp: kstr_compare_def r_def kstr_ok_def kstr_text_def)
  moreover have "kstr_text s = kstr_text t \<Longrightarrow> k_length s = k_length t"
    using length_kstr_text [OF assms(1)] length_kstr_text [OF assms(2)] by simp
  then have "r = 0 \<longleftrightarrow> kstr_text s = kstr_text t"
    using assms length_kstr_text [OF assms(1)] length_kstr_text [OF assms(2)]
      memcmp_eq_0 [of "?b s" "?b t"] concat_le16enc_inj [of "kstr_text s" "kstr_text t"]
    by (auto simp: r_def)
  ultimately show ?thesis using that by blast
qed

section \<open>Conversion from and to ASCII\<close>

definition ascii :: "u8 \<Rightarrow> bool" where
  "ascii c \<longleftrightarrow> c AND 0x80 = 0"

lemma strnlen_text: "0 \<notin> set cs \<Longrightarrow> length cs < n \<Longrightarrow> strnlen (cs @ 0 # rest) n = Inr (length cs)"
proof (induction cs arbitrary: n)
  case Nil
  then show ?case by (cases n) auto
next
  case (Cons c cs)
  then show ?case by (cases n) auto
qed

lemma read_ascii_from_ok:
  assumes "list_all ascii cs" "i + length cs \<le> length buffer" "take i src = pre" "src = pre @ cs @ rest" "i = length pre"
  shows "read_ascii_from src (length cs) i buffer = Inr (True, overlay buffer i (map ucast cs))"
  using assms
proof (induction cs arbitrary: i pre buffer)
  case (Cons c cs)
  have "read_ascii_from src (length cs) (i + 1) (buffer[i := ucast c]) =
      Inr (True, overlay (buffer[i := ucast c]) (i + 1) (map ucast cs))"
    using Cons.prems by (intro Cons.IH [of _ _ "pre @ [c]"]) auto
  moreover have "overlay (buffer[i := ucast c]) (i + 1) (map ucast cs) = overlay buffer i (map ucast (c # cs))"
    using Cons.prems(2) overlay_Cons [of i _ buffer] by simp
  ultimately show ?case using Cons.prems by (simp add: ascii_def nth_append)
qed simp

lemma ascii_mask:
  fixes c :: "u8"
  assumes "c AND 0x80 = 0"
  shows "(ucast c :: u16) AND NOT 0x7F = 0" "ucast ((ucast c :: u16) AND 0x7F) = c"
proof -
  have e: "(0x80 :: u8) = push_bit 7 1" "(0x7F :: u16) = mask 7" by (simp_all add: mask_eq_exp_minus_1)
  have "\<not> bit c 7"
  proof
    assume "bit c 7"
    then have "bit (c AND 0x80) 7" by (simp only: bit_and_iff) simp
    with assms show False by simp
  qed
  then have b: "bit c n \<Longrightarrow> n < 7" for n
    using bit_imp_le_length [of c n] by (cases "n = 7") auto
  show "(ucast c :: u16) AND NOT 0x7F = 0"
    unfolding e(2) by (rule bit_word_eqI) (auto simp: bit_simps dest: b)
  show "ucast ((ucast c :: u16) AND 0x7F) = c"
    unfolding e(2) by (rule bit_word_eqI) (auto simp: bit_simps dest: b)
qed
lemma write_ascii_from_ok:
  assumes "list_all ascii cs" "i + length cs \<le> length buffer" "src = pre @ map ucast cs @ rest" "i = length pre"
  shows "write_ascii_from src (length cs) i buffer = Inr (True, overlay buffer i cs)"
  using assms
proof (induction cs arbitrary: i pre buffer)
  case (Cons c cs)
  have w: "(ucast c :: u16) AND NOT 0x7F = 0" "ucast ((ucast c :: u16) AND 0x7F) = c"
    using ascii_mask [of c] Cons.prems(1) by (simp_all add: ascii_def)
  have "write_ascii_from src (length cs) (i + 1) (buffer[i := c]) = Inr (True, overlay (buffer[i := c]) (i + 1) cs)"
    using Cons.prems by (intro Cons.IH [of _ _ "pre @ [ucast c]"]) auto
  moreover have "overlay (buffer[i := c]) (i + 1) cs = overlay buffer i (c # cs)"
    using Cons.prems(2) overlay_Cons [of i _ buffer] by simp
  ultimately show ?case using Cons.prems w by (simp add: nth_append)
qed simp

text \<open>
  C22. A string received from the network and written out again is the text before the first null
  character, followed by a null character, whatever the receive buffer holds after it; a string
  longer than the capacity is refused and leaves the destination as it was.
\<close>

theorem kstr_read_write:
  assumes "kstr_ok s" "n \<le> length src" "n < npos" "m \<le> length buffer" "length (until_null (take n src)) < m"
  shows "if length (until_null (take n src)) \<le> k_capacity s
    then \<exists>s'. kstr_read s src n = Inr (True, s') \<and>
      kstr_write s' buffer m = Inr (True, overlay buffer 0 (until_null (take n src) @ [0]))
    else kstr_read s src n = Inr (False, s)"
proof (cases "length (until_null (take n src)) \<le> k_capacity s")
  case True
  then obtain s' where s': "kstr_read s src n = Inr (True, s')" "kstr_ok s'" "kstr_text s' = until_null (take n src)"
    using kstr_read_ok [OF assms(1-3)] by auto
  then have "k_length s' < m" using length_kstr_text [OF s'(2)] assms(5) by simp
  then show ?thesis using kstr_write_ok [OF s'(2) assms(4)] s' True by simp
next
  case False
  then show ?thesis using kstr_read_ok [OF assms(1-3)] by simp
qed

theorem kstr_read_write_witness:
  "\<exists>s'. kstr_read (kstr_init [0, 0, 0, 0] 0 4) [104, 105, 0, 7] 4 = Inr (True, s') \<and>
    kstr_write s' [9, 9, 9, 9, 9] 5 = Inr (True, [104, 105, 0, 9, 9])"
  using kstr_read_write [of "kstr_init [0, 0, 0, 0] 0 4" 4 "[104, 105, 0, 7]" 5 "[9, 9, 9, 9, 9]"]
  by (simp add: kstr_ok_def kstr_init_def npos_def until_null_def overlay_def)

text \<open>
  C23. Comparing two strings gives 0 exactly for equal texts, and swapping the arguments negates
  the sign, so the comparison is symmetric in its notion of equality.
\<close>

theorem kstr_compare_sign:
  assumes "kstr_ok s" "kstr_ok t"
  shows "\<exists>r. kstr_compare s t = Inr r \<and> kstr_compare t s = Inr (- r) \<and> (r = 0 \<longleftrightarrow> kstr_text s = kstr_text t)"
  using kstr_compare_ok [OF assms] by metis

theorem kstr_compare_sign_witness:
  "\<exists>r. kstr_compare (kstr_init [1, 2] 2 2) (kstr_init [1, 3] 2 2) = Inr r \<and> r \<noteq> 0"
  using kstr_compare_sign [of "kstr_init [1, 2] 2 2" "kstr_init [1, 3] 2 2"]
  by (auto simp: kstr_ok_def kstr_init_def kstr_text_def)

text \<open>
  C24. ASCII text read into a string and written back is the same text, null-terminated.
\<close>

theorem kstr_ascii_roundtrip:
  assumes "kstr_ok s" "list_all ascii cs" "0 \<notin> set cs" "length cs \<le> k_capacity s" "length cs < n"
    and "m \<le> length buffer" "length cs < m"
  shows "\<exists>s'. kstr_read_ascii s (cs @ 0 # rest) n = Inr (True, s') \<and> kstr_ok s' \<and>
    kstr_write_ascii s' buffer m = Inr (True, (overlay buffer 0 cs)[length cs := 0])"
proof -
  let ?b = "overlay (k_buffer s) 0 (map ucast cs)"
  define s' where "s' = s\<lparr>k_length := length cs, k_buffer := ?b\<rparr>"
  have len: "length cs \<le> length (k_buffer s)" using assms(1,4) by (simp add: kstr_ok_def)
  have "read_ascii_from (cs @ 0 # rest) (length cs) 0 (k_buffer s) = Inr (True, ?b)"
    using len by (intro read_ascii_from_ok [of _ _ _ _ "[]" "0 # rest"] assms(2)) auto
  then have "kstr_read_ascii s (cs @ 0 # rest) n = Inr (True, s')"
    using assms strnlen_text [OF assms(3,5), of rest]
    by (simp add: kstr_read_ascii_def s'_def)
  moreover have "kstr_ok s'" using assms(1,4) len by (simp add: s'_def kstr_ok_def)
  moreover have "?b = [] @ map ucast cs @ drop (length cs) (k_buffer s)" by (simp add: overlay_def)
  then have "write_ascii_from ?b (length cs) 0 buffer = Inr (True, overlay buffer 0 cs)"
    using assms(6,7) by (intro write_ascii_from_ok [of _ _ _ _ "[]"] assms(2)) auto
  then have "kstr_write_ascii s' buffer m = Inr (True, (overlay buffer 0 cs)[length cs := 0])"
    using assms(6,7) by (simp add: kstr_write_ascii_def s'_def)
  ultimately show ?thesis by blast
qed

theorem kstr_ascii_roundtrip_witness:
  "\<exists>s'. kstr_read_ascii (kstr_init [0, 0, 0, 0] 0 4) ([104, 105] @ 0 # [3]) 9 = Inr (True, s') \<and>
    kstr_write_ascii s' [9, 9, 9] 3 = Inr (True, [104, 105, 0])"
  using kstr_ascii_roundtrip [of "kstr_init [0, 0, 0, 0] 0 4" "[104, 105]" 9 3 "[9, 9, 9]" "[3]"]
  by (auto simp: kstr_ok_def kstr_init_def ascii_def overlay_def)

end
