(* ===== verification/Portal_Stream.thy ===== *)
theory Portal_Stream
  imports Endian Dyn_Array
begin

unbundle bit_operations_syntax

text \<open>
  The byte streams of the portal client: the checked readers and the writers of
  \<^verbatim>\<open>code/portal/stream.c\<close>, and \<^verbatim>\<open>send_full\<close> and \<^verbatim>\<open>recv_to_buffer\<close> of
  \<^verbatim>\<open>code/portal/socket.c\<close>. A stream that is read is the memory from the pointer on together with
  the length the code keeps. An error code is a value of \<open>ssl_error\<close>; the return value 0 is
  success. The results that the system call \<^verbatim>\<open>recv\<close> will give are a list.
\<close>

section \<open>Error codes\<close>

datatype ssl_error =
    ERR_SSL_UNSUCCESSFUL | ERR_SSL_CONTINUE_PROCESSING | ERR_SSL_UNEXPECTED_MESSAGE
  | ERR_SSL_UNSUPPORTED_PROTOCOL | ERR_SSL_BAD_INPUT_DATA | ERR_SSL_BUFFER_TOO_SMALL

text \<open>Sequencing of calls that may fault or return an error code.\<close>

definition andThen :: "fault + ('e + 'a) \<Rightarrow> ('a \<Rightarrow> fault + ('e + 'b)) \<Rightarrow> fault + ('e + 'b)" where
  "andThen m f = bindE m (\<lambda>r. case r of Inl e \<Rightarrow> Inr (Inl e) | Inr x \<Rightarrow> f x)"

definition reject_if :: "bool \<Rightarrow> 'e \<Rightarrow> fault + ('e + unit)" where
  "reject_if b e = (if b then Inr (Inl e) else Inr (Inr ()))"

lemma andThen_simps [simp]:
  "andThen (Inl flt) f = Inl flt" "andThen (Inr (Inl e)) f = Inr (Inl e)" "andThen (Inr (Inr x)) f = f x"
  by (simp_all add: andThen_def)

lemma andThen_cong [fundef_cong]:
  "m = m' \<Longrightarrow> (\<And>x. m' = Inr (Inr x) \<Longrightarrow> f x = g x) \<Longrightarrow> andThen m f = andThen m' g"
  by (auto simp: andThen_def split: sum.splits intro!: bindE_cong)

lemma andThen_eq_ok:
  "andThen m f = Inr (Inr y) \<longleftrightarrow> (\<exists>x. m = Inr (Inr x) \<and> f x = Inr (Inr y))"
  by (auto simp: andThen_def bindE_def split: sum.splits)

lemma andThen_eq_fault:
  "andThen m f = Inl e \<longleftrightarrow> m = Inl e \<or> (\<exists>x. m = Inr (Inr x) \<and> f x = Inl e)"
  by (auto simp: andThen_def bindE_def split: sum.splits)

lemma reject_if_simps [simp]: "reject_if True e = Inr (Inl e)" "reject_if False e = Inr (Inr ())"
  by (simp_all add: reject_if_def)

lemma reject_if_eq_ok: "reject_if b e = Inr (Inr u) \<longleftrightarrow> \<not> b"
  by (simp add: reject_if_def)

lemma reject_if_no_fault [simp]: "reject_if b e \<noteq> Inl x"
  by (simp add: reject_if_def)

section \<open>Reading\<close>

type_synonym in_stream = "bytes \<times> nat"

definition be24dec :: "bytes \<Rightarrow> fault + u32" where
  "be24dec p = bindE (idx p 0) (\<lambda>a. bindE (idx p 1) (\<lambda>b. bindE (idx p 2) (\<lambda>c.
     Inr (push_bit 16 (ucast a) OR push_bit 8 (ucast b) OR ucast c))))"

definition chk_stream_read8 :: "in_stream \<Rightarrow> fault + (ssl_error + u8 \<times> in_stream)" where
  "chk_stream_read8 s = (case s of (data, len) \<Rightarrow>
     if len < 1 then Inr (Inl ERR_SSL_BAD_INPUT_DATA)
     else bindE (idx data 0) (\<lambda>b. Inr (Inr (b, drop 1 data, len - 1))))"

definition chk_stream_read16 :: "in_stream \<Rightarrow> fault + (ssl_error + u16 \<times> in_stream)" where
  "chk_stream_read16 s = (case s of (data, len) \<Rightarrow>
     if len < 2 then Inr (Inl ERR_SSL_BAD_INPUT_DATA)
     else bindE (be16dec data) (\<lambda>w. Inr (Inr (w, drop 2 data, len - 2))))"

definition chk_stream_read32 :: "in_stream \<Rightarrow> fault + (ssl_error + u32 \<times> in_stream)" where
  "chk_stream_read32 s = (case s of (data, len) \<Rightarrow>
     if len < 4 then Inr (Inl ERR_SSL_BAD_INPUT_DATA)
     else bindE (be32dec data) (\<lambda>w. Inr (Inr (w, drop 4 data, len - 4))))"

definition chk_stream_read :: "in_stream \<Rightarrow> nat \<Rightarrow> fault + (ssl_error + bytes \<times> in_stream)" where
  "chk_stream_read s n = (case s of (data, len) \<Rightarrow>
     if len < n then Inr (Inl ERR_SSL_BAD_INPUT_DATA)
     else bindE (mem_read data 0 n) (\<lambda>bs. Inr (Inr (bs, drop n data, len - n))))"

text \<open>A stream whose length is within its memory is read without a fault.\<close>

definition in_ok :: "in_stream \<Rightarrow> bool" where
  "in_ok s \<longleftrightarrow> snd s \<le> length (fst s)"

lemma be16dec_total: "2 \<le> length p \<Longrightarrow> \<exists>w. be16dec p = Inr w"
  by (cases p rule: be16dec.cases) auto

lemma be32dec_total: "4 \<le> length p \<Longrightarrow> \<exists>w. be32dec p = Inr w"
  by (cases p rule: be32dec.cases) auto

lemma chk_stream_safe:
  assumes "in_ok s"
  shows "chk_stream_read8 s \<noteq> Inl f" "chk_stream_read16 s \<noteq> Inl f" "chk_stream_read32 s \<noteq> Inl f"
    "chk_stream_read s n \<noteq> Inl f"
    "chk_stream_read8 s = Inr (Inr (b, s')) \<Longrightarrow> in_ok s'"
    "chk_stream_read16 s = Inr (Inr (w, s')) \<Longrightarrow> in_ok s'"
    "chk_stream_read32 s = Inr (Inr (d, s')) \<Longrightarrow> in_ok s'"
    "chk_stream_read s n = Inr (Inr (bs, s')) \<Longrightarrow> in_ok s'"
  using assms be16dec_total [of "fst s"] be32dec_total [of "fst s"]
  by (auto simp: idx_def in_ok_def chk_stream_read8_def chk_stream_read16_def chk_stream_read32_def chk_stream_read_def
      res_simps split: prod.splits if_splits)

lemma chk_stream_exact:
  "chk_stream_read8 (b # r, Suc n) = Inr (Inr (b, r, n))"
  "chk_stream_read16 (be16enc w @ r, 2 + n) = Inr (Inr (w, r, n))"
  "chk_stream_read32 (be32enc d @ r, 4 + n) = Inr (Inr (d, r, n))"
  "chk_stream_read (bs @ r, length bs + n) (length bs) = Inr (Inr (bs, r, n))"
  by (simp_all add: chk_stream_read8_def chk_stream_read16_def chk_stream_read32_def chk_stream_read_def)

section \<open>Writing\<close>

type_synonym out_buffer = "u8 carray"

abbreviation put :: "out_buffer \<Rightarrow> bytes \<Rightarrow> fault + out_buffer" where
  "put b bs \<equiv> bindE (byte_insert b bs) (\<lambda>(_, b). Inr b)"

abbreviation byte_push :: "out_buffer \<Rightarrow> nat \<Rightarrow> fault + nat option \<times> out_buffer" where
  "byte_push \<equiv> array_push (\<lambda>_. True) 0 1"

text \<open>Pushing bytes and writing them through the returned pointer.\<close>

definition push_write :: "out_buffer \<Rightarrow> bytes \<Rightarrow> fault + out_buffer" where
  "push_write b bs = bindE (byte_push b (length bs)) (\<lambda>(p, b). case p of None \<Rightarrow> Inl NullDeref
     | Some i \<Rightarrow> bindE (mem_write (arr_data b) i bs) (\<lambda>d. Inr (b\<lparr>arr_data := d\<rparr>)))"

definition array_add_be_uint16 :: "out_buffer \<Rightarrow> u16 \<Rightarrow> fault + out_buffer" where
  "array_add_be_uint16 b v = push_write b (be16enc v)"

text \<open>\<^verbatim>\<open>appendf\<close> with the text that the format produces: it is printed with its null
  character, which is popped afterwards.\<close>

definition appendf :: "out_buffer \<Rightarrow> bytes \<Rightarrow> fault + out_buffer" where
  "appendf b txt = bindE (push_write b (txt @ [0])) (\<lambda>b. bindE (array_pop b) (\<lambda>(_, b). Inr b))"

abbreviation buf_limit :: nat where
  "buf_limit \<equiv> 2 ^ 62"

lemma put_ok:
  assumes "arr_ok b" "length (contents b) + length bs \<le> buf_limit"
  shows "\<exists>b'. put b bs = Inr b' \<and> arr_ok b' \<and> contents b' = contents b @ bs"
  using byte_buf.ins_ok [OF assms] by auto

lemma push_write_ok:
  assumes "arr_ok b" "length (contents b) + length bs \<le> buf_limit"
  shows "\<exists>b'. push_write b bs = Inr b' \<and> arr_ok b' \<and> contents b' = contents b @ bs"
proof -
  have "arr_size b + length bs \<le> buf_limit" using assms by simp
  then have small: "2 * (arr_size b + length bs) * 1 + ARRAY_MIN_CAPACITY * 1 < SZ"
    by (simp add: SZ_def ARRAY_MIN_CAPACITY_def)
  obtain a where a: "byte_push b (length bs) = Inr (Some (arr_size b), a)" "arr_ok a"
    "arr_size a = arr_size b + length bs" "take (arr_size b) (contents a) = contents b"
    using array_push_ok [OF assms(1) _ small, of "\<lambda>_. True" 0] by auto
  have l: "arr_size b + length bs \<le> length (arr_data a)" using a(2,3) by (simp add: arr_ok_def)
  have "take (arr_size b) (arr_data a) = contents b" using a(3,4) by (simp add: contents_def min_def)
  then have "take (arr_size b + length bs) (overlay (arr_data a) (arr_size b) bs) = contents b @ bs"
    using l by simp
  then show ?thesis
    using a l by (simp add: push_write_def arr_ok_def contents_def)
qed

lemma array_add_be_uint16_ok:
  assumes "arr_ok b" "length (contents b) + 2 \<le> buf_limit"
  shows "\<exists>b'. array_add_be_uint16 b v = Inr b' \<and> arr_ok b' \<and> contents b' = contents b @ be16enc v"
  using push_write_ok [OF assms(1), of "be16enc v"] assms(2) by (simp add: array_add_be_uint16_def)

lemma appendf_ok:
  assumes "arr_ok b" "length (contents b) + length txt < buf_limit"
  shows "\<exists>b'. appendf b txt = Inr b' \<and> arr_ok b' \<and> contents b' = contents b @ txt"
proof -
  obtain a where a: "push_write b (txt @ [0]) = Inr a" "arr_ok a" "contents a = contents b @ txt @ [0]"
    using push_write_ok [OF assms(1), of "txt @ [0]"] assms(2) by auto
  then have "0 < arr_size a" using length_contents [OF a(2)] by simp
  from array_pop_ok [OF a(2) this] a show ?thesis by (auto simp: appendf_def butlast_append)
qed

text \<open>
  The interface of a writer: operations that each append a fixed text. A sequence of them appends
  the texts one after the other.
\<close>

fun run_all :: "('b \<Rightarrow> fault + 'b) list \<Rightarrow> 'b \<Rightarrow> fault + 'b" where
  "run_all [] b = Inr b"
| "run_all (f # fs) b = bindE (f b) (run_all fs)"

locale writer = growable ins cts inv limit
  for ins :: "'q \<Rightarrow> 'a list \<Rightarrow> fault + bool \<times> 'q" and cts :: "'q \<Rightarrow> 'a list" and inv :: "'q \<Rightarrow> bool" and limit :: nat
begin

definition writes :: "'a list \<Rightarrow> ('q \<Rightarrow> fault + 'q) \<Rightarrow> bool" where
  "writes bs f \<longleftrightarrow> (\<forall>b. inv b \<and> length (cts b) + length bs \<le> limit \<longrightarrow>
     (\<exists>b'. f b = Inr b' \<and> inv b' \<and> cts b' = cts b @ bs))"

lemma writesD:
  "writes bs f \<Longrightarrow> inv b \<Longrightarrow> length (cts b) + length bs \<le> limit \<Longrightarrow>
   \<exists>b'. f b = Inr b' \<and> inv b' \<and> cts b' = cts b @ bs"
  by (simp add: writes_def)

lemma writes_ins: "writes bs (\<lambda>b. bindE (ins b bs) (\<lambda>(_, b). Inr b))"
  unfolding writes_def using ins_ok by fastforce

lemma writes_seq: "writes as f \<Longrightarrow> writes bs g \<Longrightarrow> writes (as @ bs) (\<lambda>b. bindE (f b) g)"
  unfolding writes_def by fastforce

lemma writes_nothing: "writes [] Inr"
  by (simp add: writes_def)

lemma writes_all: "list_all2 writes bss fs \<Longrightarrow> writes (concat bss) (run_all fs)"
proof (induction rule: list_all2_induct)
  case (Cons bs bss f fs)
  then show ?case using writes_seq [of bs f "concat bss" "run_all fs"] by simp
qed (simp add: writes_def)

end

interpretation out: writer byte_insert contents arr_ok "2 ^ 61"
proof unfold_locales
  fix q :: out_buffer and xs :: bytes
  assume "arr_ok q" "length (contents q) + length xs \<le> 2 ^ 61"
  then show "\<exists>q'. byte_insert q xs = Inr (True, q') \<and> arr_ok q' \<and> contents q' = contents q @ xs"
    by (intro byte_buf.ins_ok) simp_all
qed

lemma push_write_writes: "out.writes bs (\<lambda>b. push_write b bs)"
  unfolding out.writes_def by (intro allI impI push_write_ok) auto

lemma add_be_uint16_writes: "out.writes (be16enc v) (\<lambda>b. array_add_be_uint16 b v)"
  unfolding array_add_be_uint16_def by (rule push_write_writes)

lemma appendf_writes: "out.writes txt (\<lambda>b. appendf b txt)"
  unfolding out.writes_def by (intro allI impI appendf_ok) auto

lemmas out_writes = out.writes_ins push_write_writes add_be_uint16_writes appendf_writes

section \<open>Sockets\<close>

datatype net_result = NetError int | NetBytes bytes

text \<open>
  \<^verbatim>\<open>send_full\<close>: \<open>send\<close> gives the result of the system call on the bytes it is passed, for a call
  number. The returned bytes are those the system accepted. As a result of at most 0 ends the loop,
  each iteration makes progress.
\<close>

definition INT_MAX :: nat where "INT_MAX = 2147483647"

function send_full :: "(nat \<Rightarrow> bytes \<Rightarrow> int) \<Rightarrow> nat \<Rightarrow> bytes \<Rightarrow> nat \<Rightarrow> int \<times> bytes" where
  "send_full send k buffer written =
     (if length buffer \<le> written then (0, [])
      else
        let p = take (min INT_MAX (length buffer - written)) (drop written buffer);
            ret = send k p
        in if ret \<le> 0 then (ret, [])
        else case send_full send (k + 1) buffer (written + nat ret) of
          (r, sent) \<Rightarrow> (r, take (nat ret) p @ sent))"
  by pat_completeness auto
termination
  by (relation "measure (\<lambda>(_, _, buffer, written). length buffer - written)") auto

declare send_full.simps [simp del]

text \<open>
  \<^verbatim>\<open>recv_to_buffer\<close>: its result is 0 when bytes arrived, and also at the end of the stream, where
  the system call returns 0.
\<close>

definition recv_to_buffer :: "net_result \<Rightarrow> out_buffer \<Rightarrow> fault + int \<times> out_buffer" where
  "recv_to_buffer r b =
     bindE (byte_push b 1024) (\<lambda>(p, b).
       case p of None \<Rightarrow> Inl NullDeref
       | Some i \<Rightarrow>
           case r of
             NetError e \<Rightarrow> Inr (e, b\<lparr>arr_size := sz_sub (arr_size b) 1024\<rparr>)
           | NetBytes bs \<Rightarrow>
               if bs = [] then Inr (0, b\<lparr>arr_size := sz_sub (arr_size b) 1024\<rparr>)
               else bindE (mem_write (arr_data b) i bs) (\<lambda>d.
                 Inr (0, b\<lparr>arr_data := d, arr_size := sz_sub (arr_size b) (1024 - length bs)\<rparr>)))"

section \<open>What the socket functions do\<close>

text \<open>When the system always accepts some bytes, \<^verbatim>\<open>send_full\<close> sends everything, whatever the pieces.\<close>

lemma send_full_complete:
  assumes "\<And>k p. p \<noteq> [] \<Longrightarrow> 0 < send k p \<and> send k p \<le> int (length p)"
  shows "send_full send k buffer written = (0, drop written buffer)"
proof (induction "length buffer - written" arbitrary: k written rule: less_induct)
  case less
  show ?case
  proof (cases "length buffer \<le> written")
    case False
    let ?rest = "drop written buffer"
    define m where "m = min INT_MAX (length buffer - written)"
    let ?p = "take m ?rest"
    have m: "m \<le> length buffer - written" "length ?p = m" by (simp_all add: m_def)
    define n where "n = nat (send k ?p)"
    have "?p \<noteq> []" using False by (simp add: INT_MAX_def m_def)
    then have r: "0 < send k ?p" "send k ?p \<le> int (length ?p)" using assms [of ?p k] by auto
    then have n: "0 < n" "n \<le> m" unfolding m(2) by (simp_all add: n_def nat_le_iff)
    have "send_full send (k + 1) buffer (written + n) = (0, drop (written + n) buffer)"
      using less [of "written + n" "k + 1"] n m(1) False by simp
    moreover have "take n ?p @ drop (written + n) buffer = ?rest"
      using n(2) by (simp add: min_absorb1 m_def [symmetric] take_drop_append [of n 0 ?rest, simplified] add.commute)
    ultimately show ?thesis
      using False r(1) by (subst send_full.simps) (simp add: Let_def n_def [symmetric] m_def [symmetric])
  qed (simp add: send_full.simps)
qed

text \<open>A system call that returns 0 ends the loop as if everything had been sent.\<close>

lemma send_full_zero: "send k (take INT_MAX buffer) = 0 \<Longrightarrow> send_full send k buffer 0 = (0, [])"
  using take_take [of INT_MAX "length buffer" buffer] by (subst send_full.simps) (simp add: Let_def)

lemma recv_to_buffer_ok:
  assumes "arr_ok b" "arr_size b \<le> buf_limit" "length bs \<le> 1024"
  shows "\<exists>b'. recv_to_buffer (NetBytes bs) b = Inr (0, b') \<and> arr_ok b' \<and> contents b' = contents b @ bs"
proof -
  have small: "2 * (arr_size b + 1024) * 1 + ARRAY_MIN_CAPACITY * 1 < SZ"
    using assms(2) by (simp add: SZ_def ARRAY_MIN_CAPACITY_def)
  obtain a where a: "byte_push b 1024 = Inr (Some (arr_size b), a)" "arr_ok a"
    "arr_size a = arr_size b + 1024" "take (arr_size b) (contents a) = contents b"
    using array_push_ok [OF assms(1) _ small, of "\<lambda>_. True" 0] by auto
  have l: "arr_size b + 1024 \<le> length (arr_data a)" using a(2,3) by (simp add: arr_ok_def)
  have t: "take (arr_size b) (arr_data a) = contents b" using a(3,4) by (simp add: contents_def min_def)
  then have "take (arr_size b + length bs) (overlay (arr_data a) (arr_size b) bs) = contents b @ bs"
    using l assms(3) by simp
  then show ?thesis
    using a l t assms(3) by (auto simp: recv_to_buffer_def arr_ok_def contents_def)
qed

end
