(* ===== verification/Sts.thy ===== *)
theory Sts
  imports Portal_Stream Uuid
begin

unbundle bit_operations_syntax

text \<open>
  The text protocol of the portal, \<^verbatim>\<open>code/portal/sts.c\<close>: writing requests, parsing replies and
  switching to TLS. The functions of the C library that the code uses are defined here as far as it
  uses them: \<^verbatim>\<open>sscanf\<close> with the conversions \<^verbatim>\<open>%u\<close>, \<^verbatim>\<open>%c\<close> and a maximal width, and the printing
  of decimal numbers. \<^verbatim>\<open>sscanf\<close> takes a null-terminated string, so calling it on a block without a
  null byte is an access outside of the block.
\<close>

section \<open>Strings and numbers\<close>

abbreviation CRLF :: bytes where
  "CRLF \<equiv> [13, 10]"

text \<open>Decimal printing, \<^verbatim>\<open>PRIu32\<close>.\<close>

fun dec :: "nat \<Rightarrow> bytes" where
  "dec n = (if n < 10 then [48 + of_nat n] else dec (n div 10) @ [48 + of_nat (n mod 10)])"

declare dec.simps [simp del]

definition is_digit :: "u8 \<Rightarrow> bool" where
  "is_digit c \<longleftrightarrow> 48 \<le> c \<and> c \<le> 57"

definition is_space :: "u8 \<Rightarrow> bool" where
  "is_space c \<longleftrightarrow> c \<in> {32, 9, 10, 11, 12, 13}"

definition digits_value :: "bytes \<Rightarrow> nat" where
  "digits_value ds = foldl (\<lambda>v d. 10 * v + (unat d - 48)) 0 ds"

text \<open>
  The conversion \<^verbatim>\<open>%u\<close> with a maximal width (0 for none): white space, a sign, digits. The digits
  are converted as by \<^verbatim>\<open>strtoul\<close> with 64 bits and cut to 32 bits.
\<close>

definition strtoul32 :: "bool \<Rightarrow> nat \<Rightarrow> u32" where
  "strtoul32 negative v = (let w = (if v < 2 ^ 64 then (if negative then - of_nat v else of_nat v) else 2 ^ 64 - 1 :: u64) in ucast w)"

definition scan_uint :: "nat \<Rightarrow> bytes \<Rightarrow> (u32 \<times> bytes) option" where
  "scan_uint width s =
     (let s = dropWhile is_space s;
          limit = (if width = 0 then length s else width);
          signed = (limit \<noteq> 0 \<and> s \<noteq> [] \<and> (hd s = 43 \<or> hd s = 45));
          negative = (signed \<and> hd s = 45);
          body = (if signed then tl s else s);
          ds = takeWhile is_digit (take (if signed then limit - 1 else limit) body)
      in if ds = [] then None else Some (strtoul32 negative (digits_value ds), drop (length ds) body))"

datatype directive = Lit bytes | UInt nat | Chr

datatype conversion = Number u32 | Character u8

text \<open>The conversions that are done before the first that fails.\<close>

fun scan :: "directive list \<Rightarrow> bytes \<Rightarrow> conversion list" where
  "scan [] s = []"
| "scan (Lit l # ds) s = (if take (length l) s = l then scan ds (drop (length l) s) else [])"
| "scan (UInt w # ds) s = (case scan_uint w s of None \<Rightarrow> [] | Some (v, s) \<Rightarrow> Number v # scan ds s)"
| "scan (Chr # ds) s = (case s of [] \<Rightarrow> [] | c # s \<Rightarrow> Character c # scan ds s)"

definition sscanf :: "bytes \<Rightarrow> directive list \<Rightarrow> fault + conversion list" where
  "sscanf mem ds = (if 0 \<in> set mem then Inr (scan ds (takeWhile (\<lambda>c. c \<noteq> 0) mem)) else Inl OutOfBounds)"

section \<open>Replies\<close>

datatype sts_error =
    STSE_UNSUCCESSFUL | STSE_INCOMPLETE_CONTENT | STSE_INCOMPLETE_HEADER
  | STSE_UNSUPPORTED_HEADER | STSE_UNSUPPORTED_PROTOCOL

text \<open>\<open>reply_content\<close> is the memory from the content on, or \<open>None\<close> for the null pointer.\<close>

record sts_reply =
  status_code :: u32
  sequence_number :: u32
  content_length :: u32
  reply_content :: "bytes option"

definition null_reply :: sts_reply where
  "null_reply = \<lparr>status_code = 0, sequence_number = 0, content_length = 0, reply_content = None\<rparr>"

text \<open>The loop of \<^verbatim>\<open>parse_next_line\<close>: \<open>n\<close> positions are left from \<open>i\<close> on.\<close>

fun find_crlf :: "bytes \<Rightarrow> nat \<Rightarrow> nat \<Rightarrow> fault + nat option" where
  "find_crlf data i 0 = Inr None"
| "find_crlf data i (Suc n) =
     bindE (idx data i) (\<lambda>a.
       if a \<noteq> 13 then find_crlf data (i + 1) n
       else bindE (idx data (i + 1)) (\<lambda>b. if b = 10 then Inr (Some i) else find_crlf data (i + 1) n))"

definition parse_next_line :: "bytes \<Rightarrow> nat \<Rightarrow> fault + (sts_error + nat)" where
  "parse_next_line data len =
     (if len < 2 then Inr (Inl STSE_INCOMPLETE_HEADER)
      else bindE (find_crlf data 0 (len - 1)) (\<lambda>r. case r of
        None \<Rightarrow> Inr (Inl STSE_INCOMPLETE_HEADER) | Some i \<Rightarrow> Inr (Inr i)))"

definition skip_line :: "bytes \<Rightarrow> nat \<Rightarrow> nat \<Rightarrow> fault + bytes \<times> nat" where
  "skip_line data len line_len =
     bindE (assertE (line_len + 2 \<le> len)) (\<lambda>_.
     bindE (idx data line_len) (\<lambda>a. bindE (idx data (line_len + 1)) (\<lambda>b.
     bindE (assertE (a = 13 \<and> b = 10)) (\<lambda>_.
       Inr (drop (line_len + 2) data, len - (line_len + 2))))))"

text \<open>The loop over the header lines; the result is the rest of the data.\<close>

function header_loop :: "sts_reply \<Rightarrow> bytes \<Rightarrow> nat \<Rightarrow> fault + (sts_error + bytes \<times> nat) \<times> sts_reply" where
  "header_loop reply data len =
     (if len = 0 then Inr (Inr (data, len), reply)
      else
        bindE (parse_next_line data len) (\<lambda>r. case r of
          Inl e \<Rightarrow> Inr (Inl e, reply)
        | Inr line_len \<Rightarrow>
            if line_len = 0 then bindE (skip_line data len line_len) (\<lambda>s. Inr (Inr s, reply))
            else
              bindE (idx data 0) (\<lambda>c.
              bindE (if c = 115 then bindE (sscanf data [Lit (str ''s:''), UInt 0, Lit (str ''R'')]) (\<lambda>v. case v of
                         [Number n] \<Rightarrow> Inr (Some (reply\<lparr>sequence_number := n\<rparr>)) | _ \<Rightarrow> Inr None)
                     else if c = 108 then bindE (sscanf data [Lit (str ''l:''), UInt 0]) (\<lambda>v. case v of
                         [Number n] \<Rightarrow> Inr (Some (reply\<lparr>content_length := n\<rparr>)) | _ \<Rightarrow> Inr None)
                     else Inr None) (\<lambda>r. case r of
                None \<Rightarrow> Inr (Inl STSE_UNSUPPORTED_HEADER, reply)
              | Some reply' \<Rightarrow> bindE (skip_line data len line_len) (\<lambda>(data, len). header_loop reply' data len)))))"
  by pat_completeness auto
termination
  by (relation "measure (\<lambda>(_, _, len). len)") (auto simp: skip_line_def res_simps)

declare header_loop.simps [simp del]

definition sts_parse_reply :: "sts_reply \<Rightarrow> bytes \<Rightarrow> nat \<Rightarrow> fault + (sts_error + unit) \<times> sts_reply" where
  "sts_parse_reply reply raw len =
     bindE (parse_next_line raw len) (\<lambda>r. case r of
       Inl e \<Rightarrow> Inr (Inl e, reply)
     | Inr line_len \<Rightarrow>
         bindE (sscanf raw [Lit (str ''STS/''), UInt 1, Lit (str ''.''), UInt 1, Chr, UInt 3]) (\<lambda>v. case v of
           [Number version_major, Number version_minor, Character separator, Number status] \<Rightarrow>
             let reply = reply\<lparr>status_code := status\<rparr> in
             if version_major \<noteq> 1 \<or> version_minor \<noteq> 0 then Inr (Inl STSE_UNSUPPORTED_PROTOCOL, reply)
             else
               bindE (skip_line raw len line_len) (\<lambda>(data, len).
               bindE (header_loop reply data len) (\<lambda>(r, reply). case r of
                 Inl e \<Rightarrow> Inr (Inl e, reply)
               | Inr (data, len) \<Rightarrow>
                   if len < unat (content_length reply) then Inr (Inl STSE_INCOMPLETE_CONTENT, reply)
                   else Inr (Inr (), reply\<lparr>reply_content := Some data\<rparr>)))
         | _ \<Rightarrow> Inr (Inl STSE_UNSUPPORTED_PROTOCOL, reply)))"

section \<open>Requests\<close>

definition sts_write_header :: "out_buffer \<Rightarrow> bytes \<Rightarrow> nat \<Rightarrow> fault + (sts_error + out_buffer)" where
  "sts_write_header request url content_len =
     (if 2 ^ 32 - 1 < content_len then Inr (Inl STSE_UNSUCCESSFUL)
      else
        bindE (run_all [\<lambda>b. put b (str ''P ''), \<lambda>b. put b url, \<lambda>b. put b (str '' STS/1.0'' @ CRLF),
                        \<lambda>b. put b (str ''l:'' @ dec content_len)] request) (\<lambda>b. Inr (Inr b)))"

definition sts_finish_request :: "out_buffer \<Rightarrow> bytes \<Rightarrow> fault + out_buffer" where
  "sts_finish_request request content = run_all [\<lambda>b. put b (CRLF @ CRLF), \<lambda>b. put b content] request"

definition sts_write_request :: "out_buffer \<Rightarrow> bytes \<Rightarrow> bytes \<Rightarrow> fault + (sts_error + out_buffer)" where
  "sts_write_request request url content =
     bindE (sts_write_header request url (length content)) (\<lambda>r. case r of
       Inl e \<Rightarrow> Inr (Inl STSE_UNSUCCESSFUL)
     | Inr b \<Rightarrow> bindE (sts_finish_request b content) (\<lambda>b. Inr (Inr b)))"

definition sts_write_request_with_sequence_number ::
    "out_buffer \<Rightarrow> bytes \<Rightarrow> nat \<Rightarrow> u32 \<Rightarrow> bytes \<Rightarrow> fault + (sts_error + out_buffer)" where
  "sts_write_request_with_sequence_number request url seq_number timeout_ms content =
     bindE (sts_write_header request url (length content)) (\<lambda>r. case r of
       Inl e \<Rightarrow> Inr (Inl STSE_UNSUCCESSFUL)
     | Inr b \<Rightarrow>
         bindE (run_all [\<lambda>b. put b CRLF, \<lambda>b. put b (str ''s:'' @ dec (unat (of_nat seq_number :: u32)) @
                           str '';timeout='' @ dec (unat timeout_ms))] b) (\<lambda>b.
         bindE (sts_finish_request b content) (\<lambda>b. Inr (Inr b))))"

section \<open>Numbers are read as they are printed\<close>

lemma digit_char [simp]: "n < 10 \<Longrightarrow> is_digit (48 + of_nat n)" "n < 10 \<Longrightarrow> unat (48 + of_nat n :: u8) = 48 + n"
proof -
  assume n: "n < 10"
  have u: "unat (48 + of_nat n :: u8) = 48 + n" using n by (simp add: unat_word_ariths unat_of_nat take_bit_eq_mod)
  then show "unat (48 + of_nat n :: u8) = 48 + n" .
  show "is_digit (48 + of_nat n)" using n by (simp add: is_digit_def word_le_nat_alt u)
qed

lemma dec_digits: "list_all is_digit (dec n)"
proof (induction n rule: dec.induct)
  case (1 n)
  then show ?case by (subst dec.simps) simp
qed

lemma dec_nonempty [simp]: "dec n \<noteq> []"
  by (subst dec.simps) simp

lemma digits_value_snoc: "digits_value (ds @ [d]) = 10 * digits_value ds + (unat d - 48)"
  by (simp add: digits_value_def)

lemma digits_value_dec [simp]: "digits_value (dec n) = n"
proof (induction n rule: dec.induct)
  case (1 n)
  have "digits_value [48 + of_nat n] = n" if "n < 10" using that by (simp add: digits_value_def)
  then show ?case using 1 by (subst dec.simps) (simp add: digits_value_snoc)
qed

lemma length_dec: "n < 10 ^ Suc k \<Longrightarrow> length (dec n) \<le> Suc k"
proof (induction k arbitrary: n)
  case (Suc k)
  then show ?case using Suc.IH [of "n div 10"] by (subst dec.simps) (simp add: less_mult_imp_div_less)
qed (simp add: dec.simps)

lemma length_dec_3: "100 \<le> n \<Longrightarrow> n < 1000 \<Longrightarrow> length (dec n) = 3"
proof -
  assume n: "100 \<le> n" "n < 1000"
  then have "\<not> n < 10" "\<not> n div 10 < 10" "n div 10 div 10 < 10" by simp_all
  then show ?thesis by (simp add: dec.simps [of n] dec.simps [of "n div 10"] dec.simps [of "n div 10 div 10"])
qed

lemma digit_facts: "is_digit c \<Longrightarrow> \<not> is_space c" "is_digit c \<Longrightarrow> c \<noteq> 43 \<and> c \<noteq> 45 \<and> c \<noteq> 13 \<and> c \<noteq> 0"
  by (auto simp: is_digit_def is_space_def)

lemma strtoul32_small: "v < 2 ^ 32 \<Longrightarrow> strtoul32 False v = of_nat v"
  by (simp add: strtoul32_def Let_def unsigned_of_nat take_bit_eq_mod)

text \<open>A printed number followed by something that is not a digit.\<close>

lemma scan_uint_dec:
  assumes "v < 2 ^ 32" "r = [] \<or> \<not> is_digit (hd r)"
  shows "scan_uint 0 (dec v @ r) = Some (of_nat v, r)"
proof -
  obtain d ds where d: "dec v = d # ds" "is_digit d"
    using dec_digits [of v] dec_nonempty [of v] by (cases "dec v") auto
  have "takeWhile is_digit (dec v @ r) = dec v"
    using dec_digits [of v] assms(2) by (cases r) (auto simp: takeWhile_append2 list_all_iff)
  then show ?thesis
    using d digit_facts [OF d(2)] assms(1) strtoul32_small [OF assms(1)] digits_value_dec [of v]
    by (simp add: scan_uint_def)
qed

lemma scan_uint_width:
  assumes "length (dec v) = w" "0 < w" "v < 2 ^ 32"
  shows "scan_uint w (dec v @ r) = Some (of_nat v, r)"
proof -
  obtain d ds where d: "dec v = d # ds" "is_digit d"
    using dec_digits [of v] dec_nonempty [of v] by (cases "dec v") auto
  have "takeWhile is_digit ds = ds"
    using dec_digits [of v] d(1) by (simp add: list_all_iff takeWhile_eq_all_conv)
  moreover have "take w (dec v @ r) = dec v" "drop w (dec v @ r) = r" using assms(1) by simp_all
  ultimately show ?thesis
    using d digit_facts [OF d(2)] assms strtoul32_small [OF assms(3)] digits_value_dec [of v]
    by (simp add: scan_uint_def del: takeWhile_eq_all_conv)
qed

text \<open>The null bytes behind a text do not matter to what is read from the text.\<close>

lemma takeWhile_text: "0 \<notin> set l \<Longrightarrow> takeWhile (\<lambda>c. c \<noteq> 0) (l @ r) = l @ takeWhile (\<lambda>c. c \<noteq> (0 :: u8)) r"
  by (rule takeWhile_append2) auto

lemma dec_no_null [simp]: "0 \<notin> set (dec n)" "13 \<notin> set (dec n)"
  using dec_digits [of n] digit_facts(2) by (auto simp: list_all_iff)

section \<open>Lines\<close>

lemma find_crlf_found:
  "13 \<notin> set l \<Longrightarrow> length l < n \<Longrightarrow> i = length pre \<Longrightarrow>
   find_crlf (pre @ l @ CRLF @ r) i n = Inr (Some (length pre + length l))"
proof (induction n arbitrary: l pre i)
  case (Suc n)
  then show ?case
  proof (cases l)
    case Nil
    then show ?thesis using Suc.prems by (simp add: nth_append)
  next
    case (Cons c l')
    then show ?thesis using Suc.IH [of l' "i + 1" "pre @ [c]"] Suc.prems by (simp add: nth_append)
  qed
qed simp

lemma parse_next_line_found:
  "13 \<notin> set l \<Longrightarrow> length l + 2 \<le> len \<Longrightarrow> parse_next_line (l @ CRLF @ r) len = Inr (Inr (length l))"
  using find_crlf_found [of l "len - 1" 0 "[]" r] by (simp add: parse_next_line_def)

lemma skip_line_found: "length l + 2 \<le> len \<Longrightarrow> skip_line (l @ CRLF @ r) len (length l) = Inr (r, len - (length l + 2))"
  by (simp add: skip_line_def nth_append)

section \<open>A complete reply\<close>

definition reply_text :: "nat \<Rightarrow> bytes \<Rightarrow> nat \<Rightarrow> bytes \<Rightarrow> bytes" where
  "reply_text status reason seq content = (str ''STS/1.0 '' @ dec status @ reason) @ CRLF @
     (str ''s:'' @ dec seq @ str ''R'') @ CRLF @ (str ''l:'' @ dec (length content)) @ CRLF @ CRLF @ content"

lemma scan_status_line:
  assumes "100 \<le> status" "status < 1000"
  shows "scan [Lit (str ''STS/''), UInt 1, Lit (str ''.''), UInt 1, Chr, UInt 3] (str ''STS/1.0 '' @ dec status @ r) =
    [Number 1, Number 0, Character 32, Number (of_nat status)]"
proof -
  have "scan_uint 1 (dec 1 @ r) = Some (1, r)" "scan_uint 1 (dec 0 @ r) = Some (0, r)" for r
    using scan_uint_width [of 1 1 r] scan_uint_width [of 0 1 r] by (simp_all add: dec.simps)
  then have 1: "scan_uint 1 (49 # r) = Some (1, r)" "scan_uint 1 (48 # r) = Some (0, r)" for r
    by (simp_all add: dec.simps)
  have 2: "scan_uint 3 (dec status @ r) = Some (of_nat status, r)"
    using assms length_dec_3 by (intro scan_uint_width) auto
  show ?thesis by (simp add: str_def 1 [unfolded One_nat_def] 2)
qed

lemma sscanf_text:
  assumes "0 \<notin> set l" "0 \<in> set r" "scan ds (l @ takeWhile (\<lambda>c. c \<noteq> 0) r) = v"
  shows "sscanf (l @ r) ds = Inr v"
  using assms takeWhile_text [of l r] by (simp add: sscanf_def)

lemma header_loop_seq:
  assumes "seq < 2 ^ 32" "0 \<in> set r" "l = str ''s:'' @ dec seq @ str ''R''" "length l + 2 \<le> len"
  shows "header_loop reply (l @ CRLF @ r) len =
    header_loop (reply\<lparr>sequence_number := of_nat seq\<rparr>) r (len - (length l + 2))"
proof -
  have "0 \<notin> set (l @ CRLF)" "13 \<notin> set l" "l \<noteq> []" "hd l = 115" by (auto simp: assms(3) str_def)
  moreover have "sscanf ((l @ CRLF) @ r) [Lit (str ''s:''), UInt 0, Lit (str ''R'')] = Inr [Number (of_nat seq)]"
    using calculation(1) assms(2)
    by (rule sscanf_text) (simp add: assms(3) str_def scan_uint_dec [OF assms(1)] is_digit_def)
  moreover have "idx (l @ CRLF @ r) 0 = Inr 115" using calculation(3,4) by (cases l) auto
  ultimately show ?thesis
    using parse_next_line_found [of l len r] skip_line_found [of l len r] assms(4)
    by (subst header_loop.simps) simp
qed

lemma header_loop_length:
  assumes "n < 2 ^ 32" "0 \<in> set r" "l = str ''l:'' @ dec n" "length l + 2 \<le> len"
  shows "header_loop reply (l @ CRLF @ r) len =
    header_loop (reply\<lparr>content_length := of_nat n\<rparr>) r (len - (length l + 2))"
proof -
  have "0 \<notin> set (l @ CRLF)" "13 \<notin> set l" "l \<noteq> []" "hd l = 108" by (auto simp: assms(3) str_def)
  moreover have "sscanf ((l @ CRLF) @ r) [Lit (str ''l:''), UInt 0] = Inr [Number (of_nat n)]"
    using calculation(1) assms(2)
    by (rule sscanf_text) (simp add: assms(3) str_def scan_uint_dec [OF assms(1)] is_digit_def)
  moreover have "idx (l @ CRLF @ r) 0 = Inr 108" using calculation(3,4) by (cases l) auto
  ultimately show ?thesis
    using parse_next_line_found [of l len r] skip_line_found [of l len r] assms(4)
    by (subst header_loop.simps) simp
qed

lemma header_loop_end: "2 \<le> len \<Longrightarrow> header_loop reply (CRLF @ r) len = Inr (Inr (r, len - 2), reply)"
  using parse_next_line_found [of "[]" len r] skip_line_found [of "[]" len r] by (subst header_loop.simps) simp

lemma sts_parse_status:
  assumes "100 \<le> status" "status < 1000" "13 \<notin> set reason" "0 \<notin> set reason" "0 \<in> set r"
    and "l = str ''STS/1.0 '' @ dec status @ reason" "length l + 2 \<le> len"
  shows "sts_parse_reply reply (l @ CRLF @ r) len =
    bindE (header_loop (reply\<lparr>status_code := of_nat status\<rparr>) r (len - (length l + 2))) (\<lambda>(res, reply). case res of
      Inl e \<Rightarrow> Inr (Inl e, reply)
    | Inr (data, len) \<Rightarrow> if len < unat (content_length reply) then Inr (Inl STSE_INCOMPLETE_CONTENT, reply)
        else Inr (Inr (), reply\<lparr>reply_content := Some data\<rparr>))"
proof -
  have "0 \<notin> set (l @ CRLF)" "13 \<notin> set l" using assms(3,4) by (auto simp: assms(6) str_def)
  moreover have "sscanf ((l @ CRLF) @ r) [Lit (str ''STS/''), UInt 1, Lit (str ''.''), UInt 1, Chr, UInt 3] =
      Inr [Number 1, Number 0, Character 32, Number (of_nat status)]"
    using calculation(1) assms(5) by (rule sscanf_text) (simp only: assms(6) append_assoc scan_status_line [OF assms(1,2)])
  ultimately show ?thesis
    using parse_next_line_found [of l len r] skip_line_found [of l len r] assms(7)
    by (simp add: sts_parse_reply_def Let_def)
qed

lemma parse_reply_text:
  assumes "100 \<le> status" "status < 1000" "13 \<notin> set reason" "0 \<notin> set reason" "seq < 2 ^ 32"
    and "length content < 2 ^ 32" "0 \<in> set tail"
  shows "sts_parse_reply reply (reply_text status reason seq content @ tail) (length (reply_text status reason seq content)) =
    Inr (Inr (), \<lparr>status_code = of_nat status, sequence_number = of_nat seq,
      content_length = of_nat (length content), reply_content = Some (content @ tail)\<rparr>)"
proof -
  let ?l1 = "str ''STS/1.0 '' @ dec status @ reason" and ?l2 = "str ''s:'' @ dec seq @ str ''R''"
    and ?l3 = "str ''l:'' @ dec (length content)"
  let ?r3 = "CRLF @ content @ tail"
  let ?r2 = "?l3 @ CRLF @ ?r3"
  let ?r1 = "?l2 @ CRLF @ ?r2"
  let ?n = "length (reply_text status reason seq content)"
  have n: "?n = (length ?l1 + 2) + (length ?l2 + 2) + (length ?l3 + 2) + 2 + length content"
    by (simp add: reply_text_def)
  have z: "0 \<in> set ?r1" "0 \<in> set ?r2" "0 \<in> set ?r3" using assms(7) by simp_all
  have u: "unat (of_nat (length content) :: u32) = length content"
    using assms(6) by (simp add: unat_of_nat take_bit_eq_mod)
  have "?n - (length ?l1 + 2) - (length ?l2 + 2) - (length ?l3 + 2) - 2 = length content"
    "length ?l1 + 2 \<le> ?n" "length ?l2 + 2 \<le> ?n - (length ?l1 + 2)"
    "length ?l3 + 2 \<le> ?n - (length ?l1 + 2) - (length ?l2 + 2)"
    "2 \<le> ?n - (length ?l1 + 2) - (length ?l2 + 2) - (length ?l3 + 2)"
    unfolding n by simp_all
  note parts = this
  have "sts_parse_reply reply (?l1 @ CRLF @ ?r1) ?n =
      Inr (Inr (), reply\<lparr>status_code := of_nat status, sequence_number := of_nat seq,
        content_length := of_nat (length content), reply_content := Some (content @ tail)\<rparr>)"
    unfolding sts_parse_status [OF assms(1-4) z(1) refl parts(2)]
      header_loop_seq [OF assms(5) z(2) refl parts(3)] header_loop_length [OF assms(6) z(3) refl parts(4)]
      header_loop_end [OF parts(5)] parts(1)
    by (simp add: u)
  then show ?thesis by (simp add: reply_text_def)
qed

text \<open>
  C28. A complete reply is parsed into the numbers it was printed from, and the content starts
  where it was written, for every status of three digits, sequence number and content, provided
  the memory behind the reply holds a null byte.
\<close>

theorem sts_reply_roundtrip:
  assumes "100 \<le> status" "status < 1000" "13 \<notin> set reason" "0 \<notin> set reason" "seq < 2 ^ 32"
    and "length content < 2 ^ 32" "0 \<in> set tail"
  shows "sts_parse_reply reply (reply_text status reason seq content @ tail) (length (reply_text status reason seq content)) =
    Inr (Inr (), \<lparr>status_code = of_nat status, sequence_number = of_nat seq,
      content_length = of_nat (length content), reply_content = Some (content @ tail)\<rparr>)"
  by (rule parse_reply_text [OF assms])

theorem sts_reply_roundtrip_witness:
  "sts_parse_reply null_reply (reply_text 400 (str '' Success'') 1 [60, 62] @ [0]) (length (reply_text 400 (str '' Success'') 1 [60, 62])) =
    Inr (Inr (), \<lparr>status_code = 400, sequence_number = 1, content_length = 2, reply_content = Some [60, 62, 0]\<rparr>)"
  using sts_reply_roundtrip [of 400 "str '' Success''" 1 "[60, 62]" "[0]" null_reply] by (simp add: str_def)

text \<open>
  C31. A reply that is cut behind a line of its header is taken for complete: the parser reports
  success, with the numbers of the missing lines unchanged, as soon as the received data ends with
  the status line, instead of asking for more.
\<close>

theorem sts_reply_cut_at_line:
  assumes "100 \<le> status" "status < 1000" "13 \<notin> set reason" "0 \<notin> set reason" "0 \<in> set tail"
    and "content_length reply = 0" "l = str ''STS/1.0 '' @ dec status @ reason @ CRLF"
  shows "sts_parse_reply reply (l @ tail) (length l) =
    Inr (Inr (), reply\<lparr>status_code := of_nat status, reply_content := Some tail\<rparr>)"
proof -
  let ?l = "str ''STS/1.0 '' @ dec status @ reason"
  have "sts_parse_reply reply (?l @ CRLF @ tail) (length ?l + 2) =
      Inr (Inr (), reply\<lparr>status_code := of_nat status, reply_content := Some tail\<rparr>)"
    unfolding sts_parse_status [OF assms(1-5) refl order_refl]
    using assms(6) by (subst header_loop.simps) simp
  then show ?thesis by (simp add: assms(7))
qed

theorem sts_reply_cut_at_line_witness:
  "sts_parse_reply null_reply (str ''STS/1.0 400 Success'' @ CRLF @ [0]) 21 =
    Inr (Inr (), null_reply\<lparr>status_code := 400, reply_content := Some [0]\<rparr>)"
proof -
  let ?l = "str ''STS/1.0 '' @ dec 400 @ str '' Success'' @ CRLF"
  have d: "dec 400 = [52, 48, 48]" by (simp add: dec.simps)
  have l: "?l = str ''STS/1.0 400 Success'' @ CRLF" "length ?l = 21" by (simp_all add: str_def d)
  have "sts_parse_reply null_reply (?l @ [0]) (length ?l) =
      Inr (Inr (), null_reply\<lparr>status_code := of_nat 400, reply_content := Some [0]\<rparr>)"
    by (rule sts_reply_cut_at_line) (simp_all add: str_def null_reply_def)
  then show ?thesis unfolding l(2) unfolding l(1) by simp
qed

section \<open>Parsing never leaves the received data\<close>

text \<open>
  The parser works on a block whose first \<open>len\<close> bytes were received; what is behind them has to
  hold a null byte, because of \<^verbatim>\<open>sscanf\<close>.
\<close>

definition terminated :: "bytes \<Rightarrow> nat \<Rightarrow> bool" where
  "terminated data len \<longleftrightarrow> len \<le> length data \<and> 0 \<in> set (drop len data)"

lemma terminated_sscanf: "terminated data len \<Longrightarrow> sscanf data ds \<noteq> Inl e"
  using in_set_dropD [of 0 len data] by (simp add: terminated_def sscanf_def)

lemma terminated_drop: "terminated data len \<Longrightarrow> n \<le> len \<Longrightarrow> terminated (drop n data) (len - n)"
  by (auto simp: terminated_def)

lemma find_crlf_safe:
  "i + n + 1 \<le> length data \<Longrightarrow> \<exists>r. find_crlf data i n = Inr r \<and>
     (\<forall>k. r = Some k \<longrightarrow> k < i + n \<and> data ! k = 13 \<and> data ! (k + 1) = 10)"
proof (induction n arbitrary: i)
  case (Suc n)
  have step: "idx data i = Inr (data ! i)" "idx data (i + 1) = Inr (data ! (i + 1))"
    using Suc.prems by (simp_all add: idx_def)
  obtain r where "find_crlf data (i + 1) n = Inr r"
    "\<forall>k. r = Some k \<longrightarrow> k < i + 1 + n \<and> data ! k = 13 \<and> data ! (k + 1) = 10"
    using Suc.IH [of "i + 1"] Suc.prems by auto
  then show ?case using step by auto
qed simp

lemma parse_next_line_safe:
  assumes "len \<le> length data"
  obtains e where "parse_next_line data len = Inr (Inl e)"
    | k where "parse_next_line data len = Inr (Inr k)" "skip_line data len k = Inr (drop (k + 2) data, len - (k + 2))"
        "k + 2 \<le> len"
proof (cases "len < 2")
  case True
  then show ?thesis using that(1) by (simp add: parse_next_line_def)
next
  case False
  then obtain r where r: "find_crlf data 0 (len - 1) = Inr r"
    "\<forall>k. r = Some k \<longrightarrow> k < len - 1 \<and> data ! k = 13 \<and> data ! (k + 1) = 10"
    using find_crlf_safe [of 0 "len - 1" data] assms by auto
  show ?thesis
  proof (cases r)
    case None
    then show ?thesis using False r(1) that(1) by (simp add: parse_next_line_def)
  next
    case (Some k)
    then have "parse_next_line data len = Inr (Inr k)" "k + 2 \<le> len"
      using False r by (auto simp: parse_next_line_def)
    moreover have "skip_line data len k = Inr (drop (k + 2) data, len - (k + 2))"
      using Some r(2) assms calculation(2) by (simp add: skip_line_def idx_def)
    ultimately show ?thesis using that(2) by blast
  qed
qed

lemma header_loop_safe:
  "terminated data len \<Longrightarrow> \<exists>res reply'. header_loop reply data len = Inr (res, reply') \<and>
     (\<forall>s. res = Inr s \<longrightarrow> snd s \<le> length (fst s))"
proof (induction len arbitrary: data reply rule: less_induct)
  case (less len)
  show ?case
  proof (cases "len = 0")
    case False
    have l: "len \<le> length data" using less.prems by (simp add: terminated_def)
    from l show ?thesis
    proof (cases rule: parse_next_line_safe)
      case (2 k)
      have t: "terminated (drop (k + 2) data) (len - (k + 2))" using less.prems 2(3) by (rule terminated_drop)
      have ih: "\<exists>res reply'. header_loop reply (drop (k + 2) data) (len - (k + 2)) = Inr (res, reply') \<and>
        (\<forall>s. res = Inr s \<longrightarrow> snd s \<le> length (fst s))" for reply
        using less.IH [OF _ t] 2(3) by auto
      have "\<exists>v. sscanf data ds = Inr v" for ds
        using terminated_sscanf [OF less.prems] by (cases "sscanf data ds") auto
      then obtain sc where sc: "\<And>ds. sscanf data ds = Inr (sc ds)" by metis
      have i: "idx data 0 = Inr (data ! 0)" using False l by (auto simp: idx_def)
      show ?thesis
        using False 2 l t ih by (subst header_loop.simps) (auto simp: sc i terminated_def split: list.splits conversion.splits)
    qed (use False in \<open>simp add: header_loop.simps\<close>)
  qed (use less.prems in \<open>simp add: header_loop.simps terminated_def\<close>)
qed

text \<open>
  C29. Whatever bytes arrive, complete or not, well formed or not, the parser of replies stays
  inside the block and returns, provided a null byte is behind the received bytes.
\<close>

theorem sts_parse_reply_safe:
  assumes "len \<le> length raw" "0 \<in> set (drop len raw)"
  shows "\<exists>res reply'. sts_parse_reply reply raw len = Inr (res, reply')"
  using assms(1)
proof (cases rule: parse_next_line_safe)
  case (2 k)
  have t: "terminated raw len" using assms by (simp add: terminated_def)
  have "\<exists>v. sscanf raw ds = Inr v" for ds
    using terminated_sscanf [OF t] by (cases "sscanf raw ds") auto
  then obtain sc where sc: "\<And>ds. sscanf raw ds = Inr (sc ds)" by metis
  have "\<exists>x. header_loop reply (drop (k + 2) raw) (len - (k + 2)) = Inr x" for reply
    using header_loop_safe [OF terminated_drop [OF t 2(3)]] by blast
  then obtain hl where hl: "\<And>reply. header_loop reply (drop (k + 2) raw) (len - (k + 2)) = Inr (hl reply)"
    by metis
  show ?thesis using 2
    by (auto simp: sts_parse_reply_def sc hl [simplified] Let_def split: list.splits conversion.splits prod.splits sum.splits)
qed (simp add: sts_parse_reply_def)

theorem sts_parse_reply_safe_witness:
  "\<exists>res reply'. sts_parse_reply null_reply (str ''STS/9'' @ CRLF @ [255, 0]) 8 = Inr (res, reply')"
  by (rule sts_parse_reply_safe) (simp_all add: str_def)

section \<open>The switch to TLS\<close>

record sts_connection =
  sts_fd :: int
  seq_number :: nat
  user_id :: uuid
  token :: uuid

definition NO_SOCKET :: int where "NO_SOCKET = - 1"

definition sts_connection_init :: sts_connection where
  "sts_connection_init = \<lparr>sts_fd = NO_SOCKET, seq_number = 0, user_id = null_uuid, token = null_uuid\<rparr>"

text \<open>
  The results: a failed send or receive with the value of the system call, an error of the
  protocol, or success.
\<close>

datatype sts_result = NetFailure int | StsFailure sts_error | StsSuccess

text \<open>
  The loop that waits for the reply, on the results that the following calls of \<^verbatim>\<open>recv\<close> give;
  \<open>None\<close> means that it still waits after these.
\<close>

fun reply_loop :: "net_result list \<Rightarrow> out_buffer \<Rightarrow> sts_reply \<Rightarrow> fault + (sts_result \<times> sts_reply) option" where
  "reply_loop [] b reply = Inr None"
| "reply_loop (r # rs) b reply =
     bindE (recv_to_buffer r b) (\<lambda>(ret, b).
       if ret \<noteq> 0 then Inr (Some (NetFailure ret, reply))
       else bindE (sts_parse_reply reply (arr_data b) (arr_size b)) (\<lambda>(res, reply). case res of
         Inl STSE_INCOMPLETE_CONTENT \<Rightarrow> reply_loop rs b reply
       | Inl STSE_INCOMPLETE_HEADER \<Rightarrow> reply_loop rs b reply
       | Inl e \<Rightarrow> Inr (Some (StsFailure e, reply))
       | Inr _ \<Rightarrow> Inr (Some (StsSuccess, reply))))"

definition sts_send_request_with_sequence_number ::
    "(nat \<Rightarrow> bytes \<Rightarrow> int) \<Rightarrow> bytes \<Rightarrow> nat \<Rightarrow> u32 \<Rightarrow> bytes \<Rightarrow> fault + sts_result \<times> bytes" where
  "sts_send_request_with_sequence_number send url seq timeout_ms content =
     bindE (sts_write_request_with_sequence_number array_init url seq timeout_ms content) (\<lambda>r. case r of
       Inl e \<Rightarrow> Inr (StsFailure e, [])
     | Inr request \<Rightarrow>
         case send_full send 0 (contents request) 0 of (ret, sent) \<Rightarrow>
           Inr (if ret \<noteq> 0 then NetFailure ret else StsSuccess, sent))"

text \<open>The result, the two descriptors (of the connection and of the TLS connection) and what was sent.\<close>

definition sts_connection_start_tls ::
    "(nat \<Rightarrow> bytes \<Rightarrow> int) \<Rightarrow> net_result list \<Rightarrow> sts_connection \<Rightarrow> int \<Rightarrow>
     fault + (sts_result \<times> sts_connection \<times> int \<times> bytes) option" where
  "sts_connection_start_tls send net sts ssl_fd =
     (let sts = sts\<lparr>seq_number := sz_add (seq_number sts) 1\<rparr> in
      bindE (sts_send_request_with_sequence_number send (str ''/Auth/StartTls'') (seq_number sts) 4000 [])
        (\<lambda>(r, sent).
        if r \<noteq> StsSuccess then Inr (Some (r, sts, ssl_fd, sent))
        else bindE (reply_loop net array_init null_reply) (\<lambda>w. case w of
          None \<Rightarrow> Inr None
        | Some (r, reply) \<Rightarrow>
            if r \<noteq> StsSuccess then Inr (Some (r, sts, ssl_fd, sent))
            else if status_code reply \<noteq> 400 then Inr (Some (StsFailure STSE_UNSUCCESSFUL, sts, ssl_fd, sent))
            else Inr (Some (StsSuccess, sts\<lparr>sts_fd := NO_SOCKET\<rparr>, sts_fd sts, sent)))))"

section \<open>What is sent, and what the wait does\<close>

definition request_text :: "bytes \<Rightarrow> nat \<Rightarrow> u32 \<Rightarrow> bytes \<Rightarrow> bytes" where
  "request_text url seq timeout_ms content =
     str ''P '' @ url @ str '' STS/1.0'' @ CRLF @ str ''l:'' @ dec (length content) @ CRLF @
     str ''s:'' @ dec seq @ str '';timeout='' @ dec (unat timeout_ms) @ CRLF @ CRLF @ content"

lemma sts_write_header_writes:
  assumes "n < 2 ^ 32" "arr_ok b"
    and "length (contents b) + length (str ''P '' @ url @ str '' STS/1.0'' @ CRLF @ str ''l:'' @ dec n) \<le> 2 ^ 61"
  shows "\<exists>b'. sts_write_header b url n = Inr (Inr b') \<and> arr_ok b' \<and>
    contents b' = contents b @ str ''P '' @ url @ str '' STS/1.0'' @ CRLF @ str ''l:'' @ dec n"
proof -
  have "out.writes (concat [str ''P '', url, str '' STS/1.0'' @ CRLF, str ''l:'' @ dec n])
      (run_all [\<lambda>b. put b (str ''P ''), \<lambda>b. put b url, \<lambda>b. put b (str '' STS/1.0'' @ CRLF), \<lambda>b. put b (str ''l:'' @ dec n)])"
    by (intro out.writes_all list.rel_intros out.writes_ins)
  from out.writesD [OF this assms(2)] assms(1,3) show ?thesis by (auto simp: sts_write_header_def)
qed

lemma sts_finish_request_writes: "out.writes (CRLF @ CRLF @ content) (\<lambda>b. sts_finish_request b content)"
proof -
  have "out.writes (concat [CRLF @ CRLF, content]) (run_all [\<lambda>b. put b (CRLF @ CRLF), \<lambda>b. put b content])"
    by (intro out.writes_all list.rel_intros out.writes_ins)
  then show ?thesis by (simp only: sts_finish_request_def [abs_def] concat.simps append_assoc append_Nil2)
qed

lemma sts_write_request_text:
  assumes "length content < 2 ^ 32" "seq < 2 ^ 32" "arr_ok b"
    and "length (contents b) + length (request_text url seq timeout content) \<le> 2 ^ 61"
  shows "\<exists>b'. sts_write_request_with_sequence_number b url seq timeout content = Inr (Inr b') \<and>
    contents b' = contents b @ request_text url seq timeout content"
proof -
  let ?h = "str ''P '' @ url @ str '' STS/1.0'' @ CRLF @ str ''l:'' @ dec (length content)"
    and ?s = "str ''s:'' @ dec seq @ str '';timeout='' @ dec (unat timeout)"
  have "length (contents b) + length ?h \<le> 2 ^ 61" using assms(4) by (simp add: request_text_def)
  from sts_write_header_writes [OF assms(1,3) this]
  obtain b1 where b1: "sts_write_header b url (length content) = Inr (Inr b1)" "arr_ok b1"
    "contents b1 = contents b @ ?h" by auto
  have "out.writes (concat [CRLF, ?s]) (run_all [\<lambda>b. put b CRLF, \<lambda>b. put b ?s])"
    by (intro out.writes_all list.rel_intros out.writes_ins)
  moreover have "length (contents b1) + length (concat [CRLF, ?s]) \<le> 2 ^ 61"
    using assms(4) by (simp add: b1(3) request_text_def)
  ultimately obtain b2 where b2: "run_all [\<lambda>b. put b CRLF, \<lambda>b. put b ?s] b1 = Inr b2" "arr_ok b2"
    "contents b2 = contents b1 @ concat [CRLF, ?s]"
    using out.writesD [OF _ b1(2)] by blast
  have "length (contents b2) + length (CRLF @ CRLF @ content) \<le> 2 ^ 61"
    using assms(4) by (simp add: b1(3) b2(3) request_text_def)
  then obtain b3 where b3: "sts_finish_request b2 content = Inr b3" "contents b3 = contents b2 @ CRLF @ CRLF @ content"
    using out.writesD [OF sts_finish_request_writes b2(2)] by blast
  have seq: "unat (of_nat seq :: u32) = seq" using assms(2) by (simp add: unat_of_nat take_bit_eq_mod)
  have "contents b3 = contents b @ request_text url seq timeout content"
    by (simp add: b1(3) b2(3) b3(2) request_text_def)
  then show ?thesis
    by (simp only: sts_write_request_with_sequence_number_def b1(1) seq b2(1) b3(1) bindE_Inr sum.case) simp
qed

text \<open>
  The wait does not notice the end of the stream: \<^verbatim>\<open>recv_to_buffer\<close> reports it like received
  data, and the loop goes on, however often the system call is made.
\<close>

lemma reply_loop_end_of_stream:
  "arr_ok b \<Longrightarrow> contents b = [] \<Longrightarrow> reply_loop (replicate n (NetBytes [])) b reply = Inr None"
proof (induction n arbitrary: b)
  case (Suc n)
  have "arr_size b = 0" using length_contents [OF Suc.prems(1)] Suc.prems(2) by simp
  then obtain b' where b': "recv_to_buffer (NetBytes []) b = Inr (0, b')" "arr_ok b'" "contents b' = []"
    using recv_to_buffer_ok [OF Suc.prems(1), of "[]"] Suc.prems(2) by auto
  then have "arr_size b' = 0" using length_contents [OF b'(2)] by simp
  then have "sts_parse_reply reply (arr_data b') (arr_size b') = Inr (Inl STSE_INCOMPLETE_HEADER, reply)"
    by (simp add: sts_parse_reply_def parse_next_line_def)
  then show ?case using Suc.IH [OF b'(2,3)] b'(1) by simp
qed simp

lemma wait_never_ends: "reply_loop (replicate n (NetBytes [])) array_init null_reply = Inr None"
  by (rule reply_loop_end_of_stream) (simp_all add: arr_ok_init)

text \<open>
  The first call of \<^verbatim>\<open>recv_to_buffer\<close> gets a block of exactly 1024 bytes. What \<^verbatim>\<open>malloc\<close> leaves in
  it is taken to be zero here.
\<close>

lemma first_receive:
  assumes "bs \<noteq> []" "length bs \<le> 1024"
  shows "recv_to_buffer (NetBytes bs) array_init =
    Inr (0, \<lparr>arr_capacity = 1024, arr_size = length bs, arr_data = bs @ replicate (1024 - length bs) 0\<rparr>)"
proof -
  have "byte_push array_init 1024 = Inr (Some 0, \<lparr>arr_capacity = 1024, arr_size = 1024, arr_data = replicate 1024 0\<rparr>)"
    by (simp add: array_defs array_push_def sz_add_def sz_sub_def sz_mul_def SZ_def ARRAY_MIN_CAPACITY_def)
  moreover have "mem_write (replicate 1024 0) 0 bs = Inr (bs @ replicate (1024 - length bs) 0)"
    using assms(2) by (simp add: mem_write_def overlay_def)
  moreover have "sz_sub 1024 (1024 - length bs) = length bs"
    using assms(2) by (simp add: sz_sub_def SZ_def)
  ultimately show ?thesis using assms(1) by (simp add: recv_to_buffer_def)
qed

text \<open>A first packet that fills the block leaves no room for a null byte, and \<^verbatim>\<open>sscanf\<close> runs behind it.\<close>

lemma full_block_overread:
  assumes "length bs = 1024" "0 \<notin> set bs" "bs = l @ CRLF @ r" "13 \<notin> set l"
  shows "reply_loop (NetBytes bs # rs) array_init null_reply = Inl OutOfBounds"
proof -
  have "parse_next_line bs 1024 = Inr (Inr (length l))"
    using parse_next_line_found [OF assms(4), of 1024 r] assms(1,3) by simp
  then have "sts_parse_reply null_reply bs 1024 = Inl OutOfBounds"
    using assms(2) by (simp add: sts_parse_reply_def sscanf_def)
  moreover have "bs \<noteq> []" using assms(1) by auto
  ultimately show ?thesis using first_receive [of bs] assms(1) by simp
qed

lemma full_block_overread_example:
  "reply_loop [NetBytes (CRLF @ replicate 1022 1)] array_init null_reply = Inl OutOfBounds"
  using full_block_overread [of "CRLF @ replicate 1022 1" "[]" "replicate 1022 1" "[]"] by simp

text \<open>A reply that arrives in one piece and leaves room in the block ends the wait.\<close>

lemma reply_loop_complete:
  assumes "bs \<noteq> []" "length bs < 1024"
    and "sts_parse_reply null_reply (bs @ replicate (1024 - length bs) 0) (length bs) = Inr (Inr (), reply)"
  shows "reply_loop (NetBytes bs # rs) array_init null_reply = Inr (Some (StsSuccess, reply))"
  using assms first_receive [of bs] by simp

text \<open>
  C30. When the system accepts what is sent and the server answers, the request on the wire is
  exactly the one of the protocol, with the next sequence number; then the socket belongs to
  exactly one of the two connections: to the TLS connection on success, to the plain one otherwise.
\<close>

theorem start_tls_moves_socket:
  assumes "\<And>k p. p \<noteq> [] \<Longrightarrow> 0 < send k p \<and> send k p \<le> int (length p)" "seq_number sts < 2 ^ 32 - 1"
    and "reply_loop net array_init null_reply = Inr (Some (r, reply))"
    and "request = request_text (str ''/Auth/StartTls'') (seq_number sts + 1) 4000 []"
  shows "sts_connection_start_tls send net sts ssl_fd =
    Inr (Some (if r = StsSuccess \<and> status_code reply = 400
      then (StsSuccess, sts\<lparr>seq_number := seq_number sts + 1, sts_fd := NO_SOCKET\<rparr>, sts_fd sts, request)
      else (if r = StsSuccess then StsFailure STSE_UNSUCCESSFUL else r, sts\<lparr>seq_number := seq_number sts + 1\<rparr>, ssl_fd, request)))"
proof -
  have s: "sz_add (seq_number sts) 1 = seq_number sts + 1" using assms(2) by (simp add: sz_add_def SZ_def)
  have "seq_number sts + 1 < 2 ^ 32" using assms(2) by simp
  have d: "length (dec n) \<le> 10" if "n < 2 ^ 32" for n using length_dec [of n 9] that by simp
  obtain b where b: "sts_write_request_with_sequence_number array_init (str ''/Auth/StartTls'') (seq_number sts + 1) 4000 [] = Inr (Inr b)"
    "contents b = request"
    using sts_write_request_text [of "[]" "seq_number sts + 1" array_init "str ''/Auth/StartTls''" 4000] assms(2,4)
      d [of 0] d [of 4000] d [of "seq_number sts + 1"]
    by (auto simp: request_text_def str_def)
  have "sts_send_request_with_sequence_number send (str ''/Auth/StartTls'') (seq_number sts + 1) 4000 [] = Inr (StsSuccess, request)"
    using b send_full_complete [of send 0 request 0, OF assms(1)] by (simp add: sts_send_request_with_sequence_number_def)
  then show ?thesis
    using assms(3) s by (simp add: sts_connection_start_tls_def Let_def)
qed

theorem start_tls_moves_socket_witness:
  "\<exists>request. sts_connection_start_tls (\<lambda>_ p. int (length p)) [NetBytes (reply_text 400 (str '' Success'') 1 [60])]
      \<lparr>sts_fd = 7, seq_number = 0, user_id = null_uuid, token = null_uuid\<rparr> 0 =
    Inr (Some (StsSuccess, \<lparr>sts_fd = NO_SOCKET, seq_number = 1, user_id = null_uuid, token = null_uuid\<rparr>, 7, request))"
proof -
  let ?t = "reply_text 400 (str '' Success'') 1 [60]"
  let ?reply = "\<lparr>status_code = 400, sequence_number = 1, content_length = 1,
    reply_content = Some ([60] @ replicate (1024 - length ?t) 0)\<rparr>"
  have d: "length (dec 400) = 3" "length (dec 1) = 1" by (simp_all add: dec.simps)
  then have l: "?t \<noteq> []" "length ?t < 1024" by (simp_all add: reply_text_def str_def)
  have "sts_parse_reply null_reply (?t @ replicate (1024 - length ?t) 0) (length ?t) = Inr (Inr (), ?reply)"
    using parse_reply_text [of 400 "str '' Success''" 1 "[60]" "replicate (1024 - length ?t) 0" null_reply] l(2)
    by (simp add: str_def)
  then have "reply_loop [NetBytes ?t] array_init null_reply = Inr (Some (StsSuccess, ?reply))"
    by (rule reply_loop_complete [OF l])
  from start_tls_moves_socket [OF _ _ this refl, of "\<lambda>_ p. int (length p)" "\<lparr>sts_fd = 7, seq_number = 0, user_id = null_uuid, token = null_uuid\<rparr>" 0]
  show ?thesis by auto
qed

section \<open>Connecting\<close>

definition anet_epoch :: "int \<Rightarrow> nat" where
  "anet_epoch time = nat ((time - 978307200) mod 2 ^ 64)"

definition sts_send_request :: "(nat \<Rightarrow> bytes \<Rightarrow> int) \<Rightarrow> bytes \<Rightarrow> bytes \<Rightarrow> fault + sts_result \<times> bytes" where
  "sts_send_request send url content =
     bindE (sts_write_request array_init url content) (\<lambda>r. case r of
       Inl e \<Rightarrow> Inr (StsFailure e, [])
     | Inr request \<Rightarrow>
         case send_full send 0 (contents request) 0 of (ret, sent) \<Rightarrow>
           Inr (if ret \<noteq> 0 then NetFailure ret else StsSuccess, sent))"

text \<open>The lines that introduce the client; its address, the epoch and the process are arguments.\<close>

definition connect_lines :: "bytes \<Rightarrow> nat \<Rightarrow> nat \<Rightarrow> bytes list" where
  "connect_lines sockname epoch pid = map (\<lambda>l. l @ [10])
     [str ''<Connect>'', str ''<ConnType>400</ConnType>'', str ''<Address>'' @ sockname @ str ''</Address>'',
      str ''<ProductType>0</ProductType>'', str ''<ProductName>Gw</ProductName>'', str ''<AppIndex>1</AppIndex>'',
      str ''<Epoch>'' @ dec epoch @ str ''</Epoch>'', str ''<Program>1</Program>'', str ''<Build>1002</Build>'',
      str ''<Process>'' @ dec pid @ str ''</Process>'', str ''</Connect>'']"

text \<open>
  The system: the descriptor that \<^verbatim>\<open>socket\<close> gives, the addresses the name resolves to, for each
  whether connecting succeeds, the name of the socket, the time and the process.
\<close>

definition sts_connection_connect ::
    "int \<Rightarrow> 'addr list option \<Rightarrow> ('addr \<Rightarrow> bool) \<Rightarrow> bytes option \<Rightarrow> int \<Rightarrow> nat \<Rightarrow> (nat \<Rightarrow> bytes \<Rightarrow> int) \<Rightarrow>
     sts_connection \<Rightarrow> fault + sts_result \<times> sts_connection \<times> bytes" where
  "sts_connection_connect fd dns connects sockname time pid send sts =
     (let sts = sts\<lparr>sts_fd := fd\<rparr>; failure = (StsFailure STSE_UNSUCCESSFUL, sts, [])
      in if fd = NO_SOCKET then Inr failure
         else case dns of None \<Rightarrow> Inr failure
         | Some addresses \<Rightarrow>
             if \<not> list_ex connects addresses then Inr failure
             else case sockname of None \<Rightarrow> Inr failure
             | Some name \<Rightarrow>
                 bindE (run_all (map (\<lambda>l b. appendf b l) (connect_lines name (anet_epoch time) pid)) array_init) (\<lambda>content.
                 bindE (sts_send_request send (str ''/Sts/Connect'') (contents content)) (\<lambda>(r, sent).
                   Inr (r, sts, sent))))"

lemma sts_write_request_contents:
  assumes "length content < 2 ^ 32" "arr_ok b" "length (contents b) + length url + length content < 2 ^ 60"
  shows "\<exists>b'. sts_write_request b url content = Inr (Inr b') \<and> contents b' = contents b @
    str ''P '' @ url @ str '' STS/1.0'' @ CRLF @ str ''l:'' @ dec (length content) @ CRLF @ CRLF @ content"
proof -
  let ?h = "str ''P '' @ url @ str '' STS/1.0'' @ CRLF @ str ''l:'' @ dec (length content)"
  have l: "length ?h \<le> length url + 30" using length_dec [of "length content" 9] assms(1) by (simp add: str_def)
  then have "length (contents b) + length ?h \<le> 2 ^ 61" using assms(3) by simp
  from sts_write_header_writes [OF assms(1,2) this]
  obtain b1 where b1: "sts_write_header b url (length content) = Inr (Inr b1)" "arr_ok b1"
    "contents b1 = contents b @ ?h" by auto
  have "length (contents b1) + length (CRLF @ CRLF @ content) \<le> 2 ^ 61"
    using l assms(3) by (simp add: b1(3))
  then obtain b2 where "sts_finish_request b1 content = Inr b2" "contents b2 = contents b1 @ CRLF @ CRLF @ content"
    using out.writesD [OF sts_finish_request_writes b1(2)] by blast
  then show ?thesis by (simp add: sts_write_request_def b1(1,3))
qed

text \<open>When everything succeeds, this is what reaches the server.\<close>

lemma sts_connection_connect_sends:
  assumes "fd \<noteq> NO_SOCKET" "list_ex connects addresses" "\<And>k p. p \<noteq> [] \<Longrightarrow> 0 < send k p \<and> send k p \<le> int (length p)"
    and "content = concat (connect_lines name (anet_epoch time) pid)" "length content < 2 ^ 32"
  shows "sts_connection_connect fd (Some addresses) connects (Some name) time pid send sts =
    Inr (StsSuccess, sts\<lparr>sts_fd := fd\<rparr>, str ''P /Sts/Connect STS/1.0'' @ CRLF @ str ''l:'' @ dec (length content) @
      CRLF @ CRLF @ content)"
proof -
  have "list_all2 out.writes ls (map (\<lambda>l b. appendf b l) ls)" for ls
    by (induction ls; simp only: list.map) (intro list.rel_intros appendf_writes; assumption)+
  then have "out.writes (concat (connect_lines name (anet_epoch time) pid))
      (run_all (map (\<lambda>l b. appendf b l) (connect_lines name (anet_epoch time) pid)))"
    by (rule out.writes_all)
  from out.writesD [OF this, of array_init] assms(4,5)
  obtain c where c: "run_all (map (\<lambda>l b. appendf b l) (connect_lines name (anet_epoch time) pid)) array_init = Inr c"
    "contents c = content" by auto
  obtain b where b: "sts_write_request array_init (str ''/Sts/Connect'') content = Inr (Inr b)"
    "contents b = str ''P '' @ str ''/Sts/Connect'' @ str '' STS/1.0'' @ CRLF @ str ''l:'' @ dec (length content) @ CRLF @ CRLF @ content"
    using sts_write_request_contents [OF assms(5), of array_init "str ''/Sts/Connect''"] assms(5)
    by (auto simp: str_def)
  show ?thesis
    using assms(1,2) b c send_full_complete [of send 0 "contents b" 0, OF assms(3)]
    by (simp add: sts_connection_connect_def sts_send_request_def Let_def str_def)
qed

end
