(* ===== verification/Totp.thy ===== *)
theory Totp
  imports Portal_Stream
begin

unbundle bit_operations_syntax

text \<open>
  One-time passwords, \<^verbatim>\<open>code/portal/totp.c\<close>: HMAC-SHA1, base 32 and the truncation. The hash
  function is the one of the cryptographic library, an argument of the definitions; its three calls
  (start, update, finish) hash what was passed to the updates.
\<close>

section \<open>HMAC\<close>

definition SHA1_BLOCK_SIZE :: nat where "SHA1_BLOCK_SIZE = 64"
definition SHA1_DIGEST_SIZE :: nat where "SHA1_DIGEST_SIZE = 20"

definition hmac_sha1 :: "(bytes \<Rightarrow> bytes) \<Rightarrow> bytes \<Rightarrow> bytes \<Rightarrow> bytes" where
  "hmac_sha1 sha1 secret data =
     (let key = overlay (replicate SHA1_BLOCK_SIZE 0) 0 (if length secret \<le> SHA1_BLOCK_SIZE then secret else sha1 secret);
          ipad = map2 (XOR) (replicate SHA1_BLOCK_SIZE 0x36) key;
          opad = map2 (XOR) (replicate SHA1_BLOCK_SIZE 0x5C) key;
          stage1 = sha1 (ipad @ data)
      in sha1 (opad @ stage1))"

section \<open>Base 32\<close>

definition b32_digit :: "u8 \<Rightarrow> u32 option" where
  "b32_digit ch =
     (if 65 \<le> ch \<and> ch \<le> 90 then Some (ucast (ch - 65))
      else if 97 \<le> ch \<and> ch \<le> 122 then Some (ucast (ch - 97))
      else if 50 \<le> ch \<and> ch \<le> 55 then Some (ucast (ch - 50) + 26)
      else None)"

text \<open>The loop: \<open>tmp\<close> holds the bits that are not written yet, \<open>left\<close> is their number.\<close>

fun b32_loop :: "bytes \<Rightarrow> u32 \<Rightarrow> nat \<Rightarrow> out_buffer \<Rightarrow> fault + bool \<times> out_buffer" where
  "b32_loop [] tmp left b = Inr (True, b)"
| "b32_loop (ch # rest) tmp left b =
     (if ch = 61 then Inr (list_all (\<lambda>c. c = 61) rest, b)
      else case b32_digit ch of None \<Rightarrow> Inr (False, b)
      | Some v \<Rightarrow>
          let tmp = push_bit 5 tmp + v; left = left + 5
          in if 8 \<le> left then
               bindE (put b [ucast (drop_bit (left - 8) tmp)]) (\<lambda>b.
               b32_loop rest (tmp AND 0xFF) (left - 8) b)
             else b32_loop rest tmp left b)"

definition b32decode :: "bytes \<Rightarrow> out_buffer \<Rightarrow> fault + bool \<times> out_buffer" where
  "b32decode input b =
     bindE (array_reserve (\<lambda>_. True) 0 1 b ((length input + 4) div 5 * 8)) (\<lambda>(_, b). b32_loop input 0 0 b)"

section \<open>The code\<close>

definition MOD_TABLE :: "u32 list" where
  "MOD_TABLE = [1, 10, 100, 1000, 10000, 100000, 1000000, 10000000, 100000000, 1000000000, - 1]"

definition truncated :: "bytes \<Rightarrow> fault + u32" where
  "truncated mac =
     bindE (idx mac 19) (\<lambda>l. let offset = unat (l AND 0xF) in
     bindE (idx mac (offset + 0)) (\<lambda>a. bindE (idx mac (offset + 1)) (\<lambda>b.
     bindE (idx mac (offset + 2)) (\<lambda>c. bindE (idx mac (offset + 3)) (\<lambda>d.
       Inr (push_bit 24 (ucast (a AND 0x7F)) OR push_bit 16 (ucast (b AND 0xFF)) OR
            push_bit 8 (ucast (c AND 0xFF)) OR ucast (d AND 0xFF)))))))"

text \<open>\<open>now\<close> is the time in seconds, \<open>secret\<close> the memory of a null-terminated string.\<close>

definition totp :: "(bytes \<Rightarrow> bytes) \<Rightarrow> u64 \<Rightarrow> bytes \<Rightarrow> nat \<Rightarrow> fault + u32 option" where
  "totp sha1 now secret digits =
     bindE (if 0 \<in> set secret then Inr (takeWhile (\<lambda>c. c \<noteq> 0) secret) else Inl OutOfBounds) (\<lambda>secret.
     bindE (b32decode secret array_init) (\<lambda>(ok, key).
       if \<not> ok then Inr None
       else
         let moving_factor = now div 30; mac = hmac_sha1 sha1 (contents key) (be64enc moving_factor)
         in bindE (truncated mac) (\<lambda>number.
              if digits < length MOD_TABLE then bindE (idx MOD_TABLE digits) (\<lambda>m. Inr (Some (number mod m)))
              else Inr (Some number))))"

section \<open>Decoding base 32\<close>

definition digit_value :: "u8 \<Rightarrow> nat" where
  "digit_value ch = unat (the (b32_digit ch))"

definition b32_char :: "u8 \<Rightarrow> bool" where
  "b32_char ch \<longleftrightarrow> b32_digit ch \<noteq> None"

definition b32_number :: "bytes \<Rightarrow> nat" where
  "b32_number cs = foldl (\<lambda>v c. 32 * v + digit_value c) 0 cs"

lemma b32_number_snoc [simp]: "b32_number (cs @ [c]) = 32 * b32_number cs + digit_value c"
  by (simp add: b32_number_def)

lemma b32_number_Nil [simp]: "b32_number [] = 0"
  by (simp add: b32_number_def)

lemma unat_sub_range: "a \<le> c \<Longrightarrow> unat (ucast (c - a :: u8) :: u32) = unat c - unat a"
  using unsigned_less [where 'a = nat, of c]
  by (auto simp: unsigned_ucast_eq unat_sub_if' word_le_nat_alt intro!: take_bit_nat_eq_self)

lemma b32_digit_small: "b32_digit ch = Some v \<Longrightarrow> unat v < 32"
proof -
  assume a: "b32_digit ch = Some v"
  have add: "unat (x + 26) = unat x + 26" if "unat x < 6" for x :: u32
    using that by (simp add: unat_word_ariths)
  from a show ?thesis
    by (auto simp: b32_digit_def unat_sub_range add word_le_nat_alt split: if_splits)
qed

lemma b32_char_not_pad: "b32_char ch \<Longrightarrow> ch \<noteq> 61 \<and> ch \<noteq> 0"
  by (auto simp: b32_char_def b32_digit_def split: if_splits)

text \<open>
  The invariant of the loop: the number of the characters read is the bytes written followed by the
  bits that are left.
\<close>

definition b32_inv :: "bytes \<Rightarrow> bytes \<Rightarrow> u32 \<Rightarrow> nat \<Rightarrow> bool" where
  "b32_inv read written tmp left \<longleftrightarrow> left < 8 \<and> unat tmp < (if left < 3 then 256 else 2 ^ 14) \<and>
     8 * length written + left = 5 * length read \<and>
     b32_number read = be_value written * 2 ^ left + unat tmp mod 2 ^ left"

lemma shifted_digit:
  assumes "unat (tmp :: u32) < 2 ^ 14" "unat (v :: u32) < 32"
  shows "unat (push_bit 5 tmp + v) = 32 * unat tmp + unat v"
  using assms by (simp add: unat_word_ariths unsigned_push_bit_eq take_bit_eq_mod push_bit_eq_mult)

lemma b32_inv_step:
  assumes "b32_inv read written tmp left" "b32_digit ch = Some v" "t = push_bit 5 tmp + v"
  shows "left + 5 < 8 \<Longrightarrow> b32_inv (read @ [ch]) written t (left + 5)"
    and "8 \<le> left + 5 \<Longrightarrow> b32_inv (read @ [ch]) (written @ [ucast (drop_bit (left - 3) t)]) (t AND 0xFF) (left - 3)"
proof -
  have v: "unat v < 32" "digit_value ch = unat v" using b32_digit_small [OF assms(2)] assms(2) by (simp_all add: digit_value_def)
  have i: "left < 8" "unat tmp < (if left < 3 then 256 else 2 ^ 14)" "8 * length written + left = 5 * length read"
    "b32_number read = be_value written * 2 ^ left + unat tmp mod 2 ^ left"
    using assms(1) by (auto simp: b32_inv_def)
  have small: "unat tmp < 2 ^ 14" using i(2) by (simp split: if_splits)
  have t: "unat t = 32 * unat tmp + unat v" unfolding assms(3) using small v(1) by (rule shifted_digit)
  have low: "unat t mod 2 ^ (left + 5) = 32 * (unat tmp mod 2 ^ left) + unat v"
  proof -
    have "unat t mod 2 ^ (left + 5) = 32 * (unat t div 32 mod 2 ^ left) + unat t mod 32"
      using mod_mult2_eq [of "unat t" 32 "2 ^ left"] by (simp add: power_add mult.commute)
    then show ?thesis using v(1) by (simp add: t)
  qed
  then have n: "b32_number (read @ [ch]) = be_value written * 2 ^ (left + 5) + unat t mod 2 ^ (left + 5)"
    by (simp add: i(4) v(2) power_add algebra_simps)
  show "left + 5 < 8 \<Longrightarrow> b32_inv (read @ [ch]) written t (left + 5)"
    using i v(1) n by (simp add: b32_inv_def t split: if_splits)
  assume 8: "8 \<le> left + 5"
  then have l: "left + 5 = (left - 3) + 8" "left - 3 \<le> 8" using i(1) by simp_all
  let ?b = "ucast (drop_bit (left - 3) t) :: u8"
  have b: "unat ?b = unat t div 2 ^ (left - 3) mod 256"
    using unsigned_less [where 'a = nat, of t]
    unfolding unsigned_ucast_eq unsigned_drop_bit_eq by (simp add: take_bit_eq_mod drop_bit_eq_div)
  have m: "unat (t AND 0xFF) = unat t mod 256"
    using take_bit_eq_mask [of 8 t, symmetric] by (simp add: mask_eq_exp_minus_1 take_bit_eq_mod unat_mod)
  have "unat t mod 2 ^ (left + 5) = unat ?b * 2 ^ (left - 3) + unat t mod 2 ^ (left - 3)"
    using mod_mult2_eq [of "unat t" "2 ^ (left - 3)" 256] unfolding l(1) b by (simp add: power_add)
  moreover have "unat t mod 256 mod 2 ^ (left - 3) = unat t mod 2 ^ (left - 3)"
    using le_imp_power_dvd [OF l(2), of "2 :: nat"] by (simp add: mod_mod_cancel)
  moreover have "be_value written * 2 ^ (left + 5) = 256 * be_value written * 2 ^ (left - 3)"
    unfolding l(1) by (simp add: power_add)
  ultimately show "b32_inv (read @ [ch]) (written @ [?b]) (t AND 0xFF) (left - 3)"
    using i(3) 8 n mod_less_divisor [of 256 "unat t"] less_imp_diff_less [OF i(1)] less_trans [of "unat t mod 256" 256 "2 ^ 14"]
    unfolding b32_inv_def m by (intro conjI) (simp_all add: algebra_simps)
qed

lemma b32_loop_ok:
  assumes "b32_inv read (contents b) tmp left" "\<forall>ch\<in>set cs. b32_char ch" "arr_ok b"
    and "length (contents b) + length cs < 2 ^ 60"
  shows "\<exists>b' t l. b32_loop (cs @ replicate k 61) tmp left b = Inr (True, b') \<and> arr_ok b' \<and>
    b32_inv (read @ cs) (contents b') t l"
  using assms
proof (induction cs arbitrary: read b tmp left)
  case Nil
  have "b32_loop (replicate k 61) tmp left b = Inr (True, b)"
    by (cases k) (simp_all add: list_all_iff)
  then show ?case using Nil by auto
next
  case (Cons ch cs)
  obtain v where v: "b32_digit ch = Some v" using Cons.prems(2) by (auto simp: b32_char_def)
  have ch: "ch \<noteq> 61" using Cons.prems(2) b32_char_not_pad by auto
  have chars: "\<forall>ch\<in>set cs. b32_char ch" using Cons.prems(2) by simp
  show ?case
  proof (cases "left + 5 < 8")
    case True
    from b32_inv_step(1) [OF Cons.prems(1) v refl True] have "b32_inv (read @ [ch]) (contents b) (push_bit 5 tmp + v) (left + 5)" .
    from Cons.IH [OF this chars Cons.prems(3)] Cons.prems(4) True v ch show ?thesis by simp
  next
    case False
    let ?t = "push_bit 5 tmp + v"
    let ?w = "ucast (drop_bit (left - 3) ?t) :: u8"
    obtain b1 where b1: "put b [?w] = Inr b1" "arr_ok b1" "contents b1 = contents b @ [?w]"
      using put_ok [OF Cons.prems(3), of "[?w]"] Cons.prems(4) by auto
    have "b32_inv (read @ [ch]) (contents b1) (?t AND 0xFF) (left - 3)"
      using b32_inv_step(2) [OF Cons.prems(1) v refl] False by (simp add: b1(3))
    moreover have "length (contents b1) + length cs < 2 ^ 60" using Cons.prems(4) by (simp add: b1(3))
    ultimately obtain b' t l where "b32_loop (cs @ replicate k 61) (?t AND 0xFF) (left - 3) b1 = Inr (True, b')"
      "arr_ok b'" "b32_inv (read @ [ch] @ cs) (contents b') t l"
      using Cons.IH [OF _ chars b1(2)] by fastforce
    moreover from this have "b32_inv (read @ ch # cs) (contents b') t l" by simp
    ultimately show ?thesis using False v ch b1(1) by (simp add: Let_def) blast
  qed
qed

lemma arr_size_init: "arr_size array_init = 0"
  by (simp add: array_init_def)

lemma reserve_empty:
  "n < 2 ^ 62 \<Longrightarrow> \<exists>b. array_reserve (\<lambda>_. True) 0 1 (array_init :: out_buffer) n = Inr (True, b) \<and> arr_ok b \<and> contents b = []"
  using array_reserve_ok [of "array_init :: out_buffer" 1 n "\<lambda>_. True" 0]
  by (auto simp: arr_size_init SZ_def ARRAY_MIN_CAPACITY_def)

lemma b32decode_ok:
  assumes "\<forall>ch\<in>set cs. b32_char ch" "length cs + k < 2 ^ 58"
  shows "\<exists>b. b32decode (cs @ replicate k 61) array_init = Inr (True, b) \<and>
    length (contents b) = 5 * length cs div 8 \<and> be_value (contents b) = b32_number cs div 2 ^ (5 * length cs mod 8)"
proof -
  have "(length cs + k + 4) div 5 * 8 < 2 ^ 62" using assms(2) by simp
  with reserve_empty obtain r where r: "array_reserve (\<lambda>_. True) 0 1 (array_init :: out_buffer) ((length cs + k + 4) div 5 * 8) = Inr (True, r)"
    "arr_ok r" "contents r = []" by blast
  have "b32_inv [] (contents r) 0 0" by (simp add: b32_inv_def r(3))
  from b32_loop_ok [OF this assms(1) r(2), of k] assms(2)
  obtain b t l where b: "b32_loop (cs @ replicate k 61) 0 0 r = Inr (True, b)" "b32_inv cs (contents b) t l"
    by (auto simp: r(3))
  then have i: "l < 8" "8 * length (contents b) + l = 5 * length cs"
    "b32_number cs = be_value (contents b) * 2 ^ l + unat t mod 2 ^ l" by (simp_all add: b32_inv_def)
  have "5 * length cs mod 8 = l" "5 * length cs div 8 = length (contents b)"
    unfolding i(2) [symmetric] using i(1) by simp_all
  moreover have "b32_number cs div 2 ^ l = be_value (contents b)" by (simp add: i(3))
  ultimately show ?thesis using r(1) b(1) by (simp add: b32decode_def)
qed

text \<open>A character outside of the alphabet is refused, whatever follows.\<close>

lemma b32_loop_refuses:
  assumes "\<forall>ch\<in>set cs. b32_char ch" "\<not> b32_char c" "c \<noteq> 61" "arr_ok b" "length (contents b) + length cs < 2 ^ 60"
  shows "\<exists>b'. b32_loop (cs @ c # rest) tmp left b = Inr (False, b')"
  using assms
proof (induction cs arbitrary: b tmp left)
  case Nil
  then show ?case by (simp add: b32_char_def)
next
  case (Cons ch cs)
  obtain v where v: "b32_digit ch = Some v" using Cons.prems(1) by (auto simp: b32_char_def)
  have ch: "ch \<noteq> 61" using Cons.prems(1) b32_char_not_pad by auto
  let ?w = "ucast (drop_bit (left - 3) (push_bit 5 tmp + v)) :: u8"
  obtain b1 where b1: "put b [?w] = Inr b1" "arr_ok b1" "contents b1 = contents b @ [?w]"
    using put_ok [OF Cons.prems(4), of "[?w]"] Cons.prems(5) by auto
  have "length (contents b1) + length cs < 2 ^ 60" using Cons.prems(5) by (simp add: b1(3))
  from Cons.IH [OF _ assms(2,3) b1(2) this] Cons.IH [OF _ assms(2,3) Cons.prems(4)] Cons.prems(1,5) v ch b1(1)
  show ?case by (auto simp: Let_def)
qed

section \<open>The passwords\<close>

lemma word_mod_less_nat: "0 < unat (m :: u32) \<Longrightarrow> unat (n mod m) < unat m"
  by (simp add: unat_mod)

lemma MOD_TABLE_power: "digits \<le> 9 \<Longrightarrow> \<exists>m. idx MOD_TABLE digits = Inr m \<and> unat m = 10 ^ digits"
proof -
  assume d: "digits \<le> 9"
  have "map unat (take 10 MOD_TABLE) = map ((^) 10) [0..<10]"
    by (simp add: MOD_TABLE_def upt_rec del: upt_rec_numeral)
  then have "map unat (take 10 MOD_TABLE) ! digits = map ((^) 10) [0..<10] ! digits" by simp
  moreover have "length MOD_TABLE = 11" by (simp add: MOD_TABLE_def)
  ultimately show ?thesis using d by (simp add: idx_def)
qed

lemma unat_append_byte:
  assumes "unat (w :: u32) < 2 ^ 24"
  shows "unat (push_bit 8 w OR ucast (b :: u8)) = 256 * unat w + unat b"
proof -
  have "push_bit 8 w AND ucast b = 0"
    by (intro bit_word_eqI) (auto simp: bit_simps dest: bit_imp_le_length)
  then have "push_bit 8 w OR ucast b = push_bit 8 w + ucast b" by (simp add: disjunctive_add_eq_or)
  then show ?thesis
    using assms unsigned_less [where 'a = nat, of b]
    by (simp add: unat_word_ariths unsigned_push_bit_eq take_bit_eq_mod push_bit_eq_mult unsigned_ucast_eq)
qed

lemma unat_be32:
  "unat (push_bit 24 (ucast a) OR push_bit 16 (ucast b) OR push_bit 8 (ucast c) OR ucast d :: u32) = be_value [a, b, c, d]"
proof -
  let ?x = "push_bit 8 (push_bit 8 (ucast a) OR ucast b) OR ucast c :: u32"
  have bytes: "unat a < 256" "unat b < 256" "unat c < 256"
    using unsigned_less [where 'a = nat, of a] unsigned_less [where 'a = nat, of b] unsigned_less [where 'a = nat, of c] by simp_all
  have "push_bit 24 (ucast a) OR push_bit 16 (ucast b) OR push_bit 8 (ucast c) OR ucast d = (push_bit 8 ?x OR ucast d :: u32)"
    by (simp add: push_bit_or or.assoc)
  moreover have a: "unat (ucast a :: u32) = unat a" using bytes(1) by (simp add: unsigned_ucast_eq take_bit_eq_mod)
  moreover have b: "unat (push_bit 8 (ucast a) OR ucast b :: u32) = 256 * unat a + unat b"
    using unat_append_byte [of "ucast a" b] bytes(1) by (simp add: a)
  moreover have c: "unat ?x = 256 * (256 * unat a + unat b) + unat c"
    using unat_append_byte [of "push_bit 8 (ucast a) OR ucast b" c] bytes by (simp add: b)
  moreover have "unat (push_bit 8 ?x OR ucast d) = 256 * (256 * (256 * unat a + unat b) + unat c) + unat d"
  proof -
    have "unat ?x < 2 ^ 24" unfolding c using bytes by simp
    from unat_append_byte [OF this, of d] show ?thesis unfolding c .
  qed
  ultimately show ?thesis by (simp add: be_value_def)
qed

lemma top_byte_mod: "(l :: nat) < 2 ^ 24 \<Longrightarrow> (2 ^ 24 * a + l) mod 2 ^ 31 = 2 ^ 24 * (a mod 128) + l"
proof -
  assume l: "l < 2 ^ 24"
  have "(2 ^ 24 * a + l) div 2 ^ 24 = a" "(2 ^ 24 * a + l) mod 2 ^ 24 = l" using l by simp_all
  then show ?thesis using mod_mult2_eq [of "2 ^ 24 * a + l" "2 ^ 24" 128] by simp
qed

lemma take_four: "4 \<le> length xs \<Longrightarrow> take 4 xs = [xs ! 0, xs ! 1, xs ! 2, xs ! 3 :: u8]"
  by (cases xs rule: be32dec.cases) auto

lemma truncated_ok:
  assumes "length mac = 20" "offset = unat (mac ! 19) mod 16"
  shows "\<exists>n. truncated mac = Inr n \<and> unat n = be_value (take 4 (drop offset mac)) mod 2 ^ 31"
proof -
  have o: "unat (mac ! 19 AND 0xF) = offset"
    using take_bit_eq_mask [of 4 "mac ! 19", symmetric] assms(2) by (simp add: mask_eq_exp_minus_1 take_bit_eq_mod unat_mod)
  then have o15: "offset \<le> 15" by (simp add: assms(2))
  define a b c d where abcd: "a = mac ! offset" "b = mac ! (offset + 1)" "c = mac ! (offset + 2)" "d = mac ! (offset + 3)"
  have parts: "take 4 (drop offset mac) = [a, b, c, d]"
    using take_four [of "drop offset mac"] assms(1) o15 by (simp add: abcd)
  have ff: "x AND 0xFF = x" for x :: u8
    using take_bit_eq_mask [of 8 x, symmetric] by (simp add: mask_eq_exp_minus_1 take_bit_word_eq_self)
  have low: "unat (a AND 0x7F) = unat a mod 128"
    using take_bit_eq_mask [of 7 a, symmetric] by (simp add: mask_eq_exp_minus_1 take_bit_eq_mod unat_mod)
  let ?n = "push_bit 24 (ucast (a AND 0x7F)) OR push_bit 16 (ucast b) OR push_bit 8 (ucast c) OR ucast d :: u32"
  have t: "truncated mac = Inr (push_bit 24 (ucast (a AND 0x7F)) OR push_bit 16 (ucast b) OR push_bit 8 (ucast c) OR ucast d)"
    using assms(1) o15 unfolding truncated_def by (simp add: idx_def o abcd Let_def ff)
  have v: "be_value [a AND 0x7F, b, c, d] = be_value [a, b, c, d] mod 2 ^ 31"
  proof -
    have "unat b < 256" "unat c < 256" "unat d < 256"
      using unsigned_less [where 'a = nat, of b] unsigned_less [where 'a = nat, of c] unsigned_less [where 'a = nat, of d] by simp_all
    then have l: "65536 * unat b + 256 * unat c + unat d < 2 ^ 24" by simp
    have v: "be_value [x, b, c, d] = 2 ^ 24 * unat x + (65536 * unat b + 256 * unat c + unat d)" for x
      by (simp add: be_value_def)
    show ?thesis unfolding v low top_byte_mod [OF l] ..
  qed
  have "unat ?n = be_value (take 4 (drop offset mac)) mod 2 ^ 31" unfolding unat_be32 v parts ..
  with t show ?thesis by blast
qed

lemma secret_string: "0 \<notin> set cs \<Longrightarrow> takeWhile (\<lambda>c. c \<noteq> 0) (cs @ (0 :: u8) # rest) = cs"
  by (subst takeWhile_append2) auto

text \<open>A secret with a character outside of the alphabet gives no password.\<close>

lemma totp_refuses:
  assumes "\<forall>ch\<in>set cs. b32_char ch" "\<not> b32_char c" "c \<notin> {0, 61}" "0 \<notin> set more_chars"
    and "length cs + length more_chars < 2 ^ 58"
  shows "totp sha1 now (cs @ c # more_chars @ 0 # rest) digits = Inr None"
proof -
  have "0 \<notin> set (cs @ c # more_chars)" using assms b32_char_not_pad by auto
  from secret_string [OF this, of rest]
  have s: "takeWhile (\<lambda>c. c \<noteq> 0) (cs @ c # more_chars @ 0 # rest) = cs @ c # more_chars" by simp
  have "(length (cs @ c # more_chars) + 4) div 5 * 8 < 2 ^ 62" using assms(5) by simp
  from reserve_empty [OF this] obtain r where r:
    "array_reserve (\<lambda>_. True) 0 1 (array_init :: out_buffer) ((length (cs @ c # more_chars) + 4) div 5 * 8) = Inr (True, r)"
    "arr_ok r" "contents r = []" by blast
  obtain b where b: "b32_loop (cs @ c # more_chars) 0 0 r = Inr (False, b)"
    using b32_loop_refuses [OF assms(1,2) _ r(2)] assms(3,5) r(3) by fastforce
  have "b32decode (cs @ c # more_chars) array_init = Inr (False, b)"
    unfolding b32decode_def r(1) by (simp add: b)
  then show ?thesis by (simp add: totp_def s)
qed



end
