(* ===== verification/Prf.thy ===== *)
theory Prf
  imports Portal_Stream
begin

text \<open>
  The key derivation of TLS 1.2, \<^verbatim>\<open>code/portal/prf.c\<close>. HMAC-SHA256 is the one of the
  cryptographic library, an argument: \<open>hmac secret data\<close> is the digest, or \<open>None\<close> when a call
  of the library fails. The function is shown to compute the P_hash expansion of RFC 5246.
\<close>

definition MAX_CONCAT_SIZE :: nat where "MAX_CONCAT_SIZE = 111"
definition SHA256_DIGEST_SIZE :: nat where "SHA256_DIGEST_SIZE = 32"

definition hmac_call :: "bytes option \<Rightarrow> fault + (ssl_error + bytes)" where
  "hmac_call r = (case r of None \<Rightarrow> Inr (Inl ERR_SSL_UNSUCCESSFUL) | Some d \<Rightarrow> Inr (Inr d))"

text \<open>
  The loop: \<open>buf\<close> is the buffer \<^verbatim>\<open>concat\<close> with the chained digest, the label and the random bytes; \<open>i\<close>
  advances by the size of the digest until it reaches the length of the output.
\<close>

function prf_loop ::
    "(bytes \<Rightarrow> bytes \<Rightarrow> bytes option) \<Rightarrow> bytes \<Rightarrow> bytes \<Rightarrow> nat \<Rightarrow> nat \<Rightarrow> bytes \<Rightarrow> nat \<Rightarrow> fault + (ssl_error + bytes)" where
  "prf_loop hmac secret buf concat_len i out_mem output_len =
     (if output_len \<le> i then Inr (Inr out_mem)
      else
        bindE (mem_read buf 0 concat_len) (\<lambda>m.
        andThen (hmac_call (hmac secret m)) (\<lambda>digest.
        bindE (mem_read buf 0 SHA256_DIGEST_SIZE) (\<lambda>a.
        andThen (hmac_call (hmac secret a)) (\<lambda>next_a.
        bindE (mem_write buf 0 next_a) (\<lambda>buf.
        let k = (if output_len < i + SHA256_DIGEST_SIZE then output_len mod SHA256_DIGEST_SIZE else SHA256_DIGEST_SIZE)
        in bindE (mem_read digest 0 k) (\<lambda>part. bindE (mem_write out_mem i part) (\<lambda>out_mem.
             prf_loop hmac secret buf concat_len (i + SHA256_DIGEST_SIZE) out_mem output_len))))))))"
  by pat_completeness auto
termination
  by (relation "measure (\<lambda>(_, _, _, _, i, _, n). n - i)") (auto simp: SHA256_DIGEST_SIZE_def)

declare prf_loop.simps [simp del]

definition tls_prf_sha256 ::
    "(bytes \<Rightarrow> bytes \<Rightarrow> bytes option) \<Rightarrow> bytes \<Rightarrow> bytes \<Rightarrow> bytes \<Rightarrow> bytes \<Rightarrow> nat \<Rightarrow> fault + (ssl_error + bytes)" where
  "tls_prf_sha256 hmac secret label random out_mem output_len =
     (let concat_len = SHA256_DIGEST_SIZE + length label + length random
      in andThen (reject_if (MAX_CONCAT_SIZE < concat_len) ERR_SSL_UNSUCCESSFUL) (\<lambda>_.
         bindE (mem_write (replicate MAX_CONCAT_SIZE 0) SHA256_DIGEST_SIZE label) (\<lambda>buf.
         bindE (mem_write buf (SHA256_DIGEST_SIZE + length label) random) (\<lambda>buf.
         bindE (mem_read buf SHA256_DIGEST_SIZE (concat_len - SHA256_DIGEST_SIZE)) (\<lambda>seed.
         andThen (hmac_call (hmac secret seed)) (\<lambda>a.
         bindE (mem_write buf 0 a) (\<lambda>buf.
           prf_loop hmac secret buf concat_len 0 out_mem output_len)))))))"

section \<open>The expansion of the standard\<close>

text \<open>\<open>A 0 = seed\<close>, \<open>A (n + 1) = H (A n)\<close>, and the output is \<open>H (A 1 @ seed) @ H (A 2 @ seed) @ ...\<close>\<close>

fun chain :: "(bytes \<Rightarrow> bytes) \<Rightarrow> bytes \<Rightarrow> nat \<Rightarrow> bytes" where
  "chain H seed 0 = seed"
| "chain H seed (Suc n) = H (chain H seed n)"

definition P_hash :: "(bytes \<Rightarrow> bytes) \<Rightarrow> bytes \<Rightarrow> nat \<Rightarrow> bytes" where
  "P_hash H seed blocks = concat (map (\<lambda>n. H (chain H seed (Suc n) @ seed)) [0..<blocks])"

lemma P_hash_Suc: "P_hash H seed (Suc n) = P_hash H seed n @ H (chain H seed (Suc n) @ seed)"
  by (simp add: P_hash_def)

lemma length_P_hash: "(\<And>x. length (H x) = d) \<Longrightarrow> length (P_hash H seed n) = n * d"
  by (induction n) (simp_all add: P_hash_Suc, simp add: P_hash_def)

lemma hmac_call_Some [simp]: "hmac_call (Some d) = Inr (Inr d)"
  by (simp add: hmac_call_def)

lemma last_block:
  assumes "32 * n \<le> (l :: nat)" "l < 32 * n + 32"
  shows "l mod 32 = l - 32 * n"
proof -
  obtain r where "l = 32 * n + r" using assms(1) le_Suc_ex by blast
  then show ?thesis using assms(2) by simp
qed

lemma prf_loop_ok:
  assumes hmac: "\<And>x. hmac secret x = Some (H x)" "\<And>x. length (H x) = 32"
    and "buf = chain H seed (Suc n) @ seed @ pad" "length seed + 32 = concat_len"
    and "length out_mem = output_len" "take (min (32 * n) output_len) out_mem = take output_len (P_hash H seed n)"
  shows "\<exists>m. prf_loop hmac secret buf concat_len (32 * n) out_mem output_len =
    Inr (Inr (take output_len (P_hash H seed m))) \<and> output_len \<le> 32 * m"
  using assms(3,5,6)
proof (induction "output_len - 32 * n" arbitrary: n buf out_mem rule: less_induct)
  case less
  show ?case
  proof (cases "output_len \<le> 32 * n")
    case True
    then have "out_mem = take output_len (P_hash H seed n)" using less.prems by (simp add: min_def)
    then show ?thesis using True by (subst prf_loop.simps) auto
  next
    case False
    have l: "length (chain H seed (Suc n)) = 32" by (simp add: hmac(2))
    have lp: "length (P_hash H seed n) = 32 * n" by (simp add: length_P_hash [where d = 32] hmac(2))
    let ?d = "H (chain H seed (Suc n) @ seed)"
    let ?k = "if output_len < 32 * n + 32 then output_len mod 32 else 32"
    have k: "?k = min 32 (output_len - 32 * n)"
      using False last_block [of n output_len] by simp
    define out' where "out' = overlay out_mem (32 * n) (take ?k ?d)"
    have fits: "32 * n + ?k \<le> output_len" unfolding k using False by simp
    have len: "length out' = output_len" using fits less.prems(2) by (simp add: out'_def hmac(2))
    have t: "take (min (32 * Suc n) output_len) out' = take output_len (P_hash H seed (Suc n))"
    proof -
      have o: "32 * n \<le> length out_mem" and m: "min (32 * Suc n) output_len = 32 * n + length (take ?k ?d)"
        using False less.prems(2) unfolding k by (simp_all add: hmac(2))
      have "take (min (32 * Suc n) output_len) out' = take (32 * n) out_mem @ take ?k ?d"
        unfolding out'_def m by (rule take_overlay_all [OF o])
      moreover have "take (32 * n) out_mem = P_hash H seed n"
        using less.prems(3) False by (simp add: min_def lp)
      moreover have "take output_len (P_hash H seed (Suc n)) = P_hash H seed n @ take ?k ?d"
        unfolding k using False by (simp add: P_hash_Suc lp hmac(2) min_def)
      ultimately show ?thesis by simp
    qed
    have ih: "\<exists>m. prf_loop hmac secret (chain H seed (Suc (Suc n)) @ seed @ pad) concat_len (32 * Suc n) out' output_len =
        Inr (Inr (take output_len (P_hash H seed m))) \<and> output_len \<le> 32 * m"
      using less.hyps [OF _ refl len t] False by simp
    have "mem_read buf 0 concat_len = Inr (chain H seed (Suc n) @ seed)" "mem_read buf 0 32 = Inr (chain H seed (Suc n))"
      "mem_write buf 0 (H (chain H seed (Suc n))) = Inr (chain H seed (Suc (Suc n)) @ seed @ pad)"
      using l assms(4) by (simp_all add: less.prems(1) hmac(2) overlay_def)
    moreover have "mem_read ?d 0 ?k = Inr (take ?k ?d)" "mem_write out_mem (32 * n) (take ?k ?d) = Inr out'"
      using fits less.prems(2) unfolding k out'_def by (simp_all add: hmac(2))
    ultimately have "prf_loop hmac secret buf concat_len (32 * n) out_mem output_len =
        prf_loop hmac secret (chain H seed (Suc (Suc n)) @ seed @ pad) concat_len (32 * n + 32) out' output_len"
      using False by (subst prf_loop.simps)
        (simp only: SHA256_DIGEST_SIZE_def bindE_Inr andThen_simps hmac(1) hmac_call_Some Let_def if_False)
    moreover have "32 * n + 32 = 32 * Suc n" by simp
    ultimately show ?thesis using ih by (simp only:)
  qed
qed

text \<open>
  C34. The key derivation is the P_hash expansion of RFC 5246 with HMAC-SHA256, cut to the length
  of the output, for every label and random bytes of at most 79 bytes together; longer ones are
  refused, and nothing is written.
\<close>

theorem prf_is_P_hash:
  assumes "\<And>x. hmac secret x = Some (H x)" "\<And>x. length (H x) = 32" "length out_mem = output_len"
  shows "if length label + length random \<le> 79
    then \<exists>m. tls_prf_sha256 hmac secret label random out_mem output_len =
        Inr (Inr (take output_len (P_hash H (label @ random) m))) \<and> output_len \<le> 32 * m
    else tls_prf_sha256 hmac secret label random out_mem output_len = Inr (Inl ERR_SSL_UNSUCCESSFUL)"
proof (cases "length label + length random \<le> 79")
  case True
  let ?seed = "label @ random"
  let ?pad = "replicate (79 - length ?seed) 0"
  let ?z = "replicate 111 0 :: bytes"
  have "overlay (overlay ?z 32 label) (32 + length label) random = overlay ?z 32 ?seed"
    using True by (intro overlay_append) simp
  also have "\<dots> = replicate 32 0 @ ?seed @ ?pad" by (simp add: overlay_def min_def)
  finally have z: "overlay (overlay ?z 32 label) (32 + length label) random = replicate 32 0 @ ?seed @ ?pad" .
  have first: "overlay (replicate 32 0 @ ?seed @ ?pad) 0 (H ?seed) = chain H ?seed (Suc 0) @ ?seed @ ?pad"
    by (simp add: overlay_def assms(2))
  have "tls_prf_sha256 hmac secret label random out_mem output_len =
      prf_loop hmac secret (chain H ?seed (Suc 0) @ ?seed @ ?pad) (32 + length label + length random) (32 * 0) out_mem output_len"
    using True unfolding tls_prf_sha256_def SHA256_DIGEST_SIZE_def MAX_CONCAT_SIZE_def Let_def
    by (simp add: z assms(1,2) first [simplified])
  moreover have "\<exists>m. prf_loop hmac secret (chain H ?seed (Suc 0) @ ?seed @ ?pad) (32 + length label + length random) (32 * 0) out_mem output_len =
      Inr (Inr (take output_len (P_hash H ?seed m))) \<and> output_len \<le> 32 * m"
    using assms(3) by (intro prf_loop_ok [where hmac = hmac and secret = secret and H = H and seed = ?seed and n = 0 and pad = ?pad]) (simp_all add: P_hash_def assms(1,2))
  ultimately show ?thesis using True by simp
next
  case False
  then show ?thesis by (simp add: tls_prf_sha256_def SHA256_DIGEST_SIZE_def MAX_CONCAT_SIZE_def)
qed

theorem prf_is_P_hash_witness:
  "\<exists>m. tls_prf_sha256 (\<lambda>k x. Some (replicate 32 (of_nat (length x)))) [] [107] [1, 2] (replicate 40 0) 40 =
    Inr (Inr (take 40 (P_hash (\<lambda>x. replicate 32 (of_nat (length x))) [107, 1, 2] m))) \<and> 40 \<le> 32 * m"
  using prf_is_P_hash [of "\<lambda>k x. Some (replicate 32 (of_nat (length x)))" "[]" "\<lambda>x. replicate 32 (of_nat (length x))"
    "replicate 40 0" 40 "[107]" "[1, 2]"] by simp

end
