(* ===== verification/Tls_Base.thy ===== *)
theory Tls_Base
  imports Prf
begin

unbundle bit_operations_syntax

text \<open>
  The TLS connection of the portal, first part of \<^verbatim>\<open>code/portal/ssl.c\<close> and \<^verbatim>\<open>ssl.h\<close>: the
  state, its initialisation and the hashes of the password. The cryptographic library is the
  argument \<open>L\<close> of the definitions: a record of its functions, over contexts of types that the
  model does not look into. A call that returns an error is \<open>None\<close>.

  Operations are functions of the state that may fault, return an error code, or succeed with a
  result; in each case but a fault the state is the new one.
\<close>

section \<open>Operations\<close>

datatype tls_error = Code ssl_error | NetCode int | Waiting

type_synonym ('s, 'a) op = "'s \<Rightarrow> fault + (tls_error + 'a) \<times> 's"

definition ret :: "'a \<Rightarrow> ('s, 'a) op" where
  "ret x s = Inr (Inr x, s)"

definition fail :: "tls_error \<Rightarrow> ('s, 'a) op" where
  "fail e s = Inr (Inl e, s)"

definition bindS :: "('s, 'a) op \<Rightarrow> ('a \<Rightarrow> ('s, 'b) op) \<Rightarrow> ('s, 'b) op" where
  "bindS m f s = bindE (m s) (\<lambda>(r, s). case r of Inl e \<Rightarrow> Inr (Inl e, s) | Inr x \<Rightarrow> f x s)"

definition gets :: "('s \<Rightarrow> 'a) \<Rightarrow> ('s, 'a) op" where
  "gets f s = Inr (Inr (f s), s)"

definition modify :: "('s \<Rightarrow> 's) \<Rightarrow> ('s, unit) op" where
  "modify f s = Inr (Inr (), f s)"

definition liftE :: "fault + 'a \<Rightarrow> ('s, 'a) op" where
  "liftE m s = bindE m (\<lambda>x. Inr (Inr x, s))"

definition coded :: "fault + (ssl_error + 'a) \<Rightarrow> ('s, 'a) op" where
  "coded m s = bindE m (\<lambda>r. Inr (case r of Inl e \<Rightarrow> Inl (Code e) | Inr x \<Rightarrow> Inr x, s))"

definition fail_if :: "bool \<Rightarrow> ssl_error \<Rightarrow> ('s, unit) op" where
  "fail_if b e s = Inr (if b then Inl (Code e) else Inr (), s)"

text \<open>A call of the library whose failure becomes the general error code.\<close>

definition lib :: "'a option \<Rightarrow> ('s, 'a) op" where
  "lib r s = Inr (case r of None \<Rightarrow> Inl (Code ERR_SSL_UNSUCCESSFUL) | Some x \<Rightarrow> Inr x, s)"

named_theorems op_simps

lemma op_simps_intro [op_simps]:
  "ret x s = Inr (Inr x, s)" "fail e s = Inr (Inl e, s)" "gets g s = Inr (Inr (g s), s)" "modify h s = Inr (Inr (), h s)"
  "liftE (Inr x) s = Inr (Inr x, s)" "liftE (Inl flt) s = Inl flt"
  "coded (Inr (Inr x)) s = Inr (Inr x, s)" "coded (Inr (Inl c)) s = Inr (Inl (Code c), s)" "coded (Inl flt) s = Inl flt"
  "fail_if True c s = Inr (Inl (Code c), s)" "fail_if False c s = Inr (Inr (), s)"
  "lib (Some x) s = Inr (Inr x, s)" "lib None s = Inr (Inl (Code ERR_SSL_UNSUCCESSFUL), s)"
  by (simp_all add: ret_def fail_def gets_def modify_def liftE_def coded_def fail_if_def lib_def)

lemma bindS_Inl [op_simps]: "m s = Inl flt \<Longrightarrow> bindS m f s = Inl flt"
  by (simp add: bindS_def)

lemma bindS_error [op_simps]: "m s = Inr (Inl e, t) \<Longrightarrow> bindS m f s = Inr (Inl e, t)"
  by (simp add: bindS_def)

lemma bindS_ok [op_simps]: "m s = Inr (Inr x, t) \<Longrightarrow> bindS m f s = f x t"
  by (simp add: bindS_def)

text \<open>One step of a computation, for rewriting with the fact that it succeeds.\<close>

lemma bindS_lift: "m = Inr x \<Longrightarrow> bindS (liftE m) f s = f x s"
  by (simp add: bindS_def op_simps_intro)

lemma bindS_lib: "r = Some x \<Longrightarrow> bindS (lib r) f s = f x s"
  by (simp add: bindS_def op_simps_intro)

lemma bindS_gets: "bindS (gets g) f s = f (g s) s"
  by (simp add: bindS_def op_simps_intro)

lemma bindS_modify: "bindS (modify h) f s = f () (h s)"
  by (simp add: bindS_def op_simps_intro)

lemma bindS_coded: "m = Inr (Inr x) \<Longrightarrow> bindS (coded m) f s = f x s"
  by (simp add: bindS_def op_simps_intro)

lemma bindS_fail_if: "\<not> b \<Longrightarrow> bindS (fail_if b e) f s = f () s"
  by (simp add: bindS_def op_simps_intro)

lemma bindS_eq_Inl: "bindS m f s = Inl flt \<longleftrightarrow> m s = Inl flt \<or> (\<exists>x t. m s = Inr (Inr x, t) \<and> f x t = Inl flt)"
  by (cases "m s") (auto simp: bindS_def split: sum.splits)

lemma bindS_eq_ok: "bindS m f s = Inr (Inr y, u) \<longleftrightarrow> (\<exists>x t. m s = Inr (Inr x, t) \<and> f x t = Inr (Inr y, u))"
  by (cases "m s") (auto simp: bindS_def split: sum.splits)

lemma bindS_assoc: "bindS (bindS m f) g s = bindS m (\<lambda>x. bindS (f x) g) s"
  by (auto simp: bindS_def bindE_def split: sum.splits prod.splits)

text \<open>
  A computation that ends without a fault from every state that satisfies \<open>P\<close>, in a state that
  satisfies \<open>R\<close> after an error and \<open>Q\<close> after a success.
\<close>

definition runs :: "('s \<Rightarrow> bool) \<Rightarrow> ('s, 'a) op \<Rightarrow> ('a \<Rightarrow> 's \<Rightarrow> bool) \<Rightarrow> ('s \<Rightarrow> bool) \<Rightarrow> bool" where
  "runs P m Q R \<longleftrightarrow> (\<forall>s. P s \<longrightarrow> (\<exists>r t. m s = Inr (r, t) \<and> (case r of Inl _ \<Rightarrow> R t | Inr x \<Rightarrow> Q x t)))"

lemma runsI: "(\<And>s. P s \<Longrightarrow> \<exists>r t. m s = Inr (r, t) \<and> (case r of Inl _ \<Rightarrow> R t | Inr x \<Rightarrow> Q x t)) \<Longrightarrow> runs P m Q R"
  by (simp add: runs_def)

lemma runsE:
  assumes "runs P m Q R" "P s"
  obtains e t where "m s = Inr (Inl e, t)" "R t" | x t where "m s = Inr (Inr x, t)" "Q x t"
proof -
  obtain r t where r: "m s = Inr (r, t)" "case r of Inl _ \<Rightarrow> R t | Inr x \<Rightarrow> Q x t"
    using assms by (auto simp: runs_def)
  show ?thesis using r by (cases r) (auto intro: that)
qed

lemma runs_bind:
  assumes "runs P m Q R" "\<And>x. runs (Q x) (f x) Q' R"
  shows "runs P (bindS m f) Q' R"
proof (rule runsI)
  fix s assume "P s"
  with assms(1) show "\<exists>r t. bindS m f s = Inr (r, t) \<and> (case r of Inl _ \<Rightarrow> R t | Inr x \<Rightarrow> Q' x t)"
  proof (cases rule: runsE)
    case (1 e t)
    then show ?thesis by (simp add: op_simps)
  next
    case (2 x t)
    from assms(2) 2(2) show ?thesis by (cases rule: runsE) (use 2(1) in \<open>simp_all add: op_simps\<close>)
  qed
qed

lemma runs_weaken:
  "runs P m Q R \<Longrightarrow> (\<And>s. P' s \<Longrightarrow> P s) \<Longrightarrow> (\<And>x s. Q x s \<Longrightarrow> Q' x s) \<Longrightarrow> (\<And>s. R s \<Longrightarrow> R' s) \<Longrightarrow> runs P' m Q' R'"
  by (rule runsI) (erule runsE, blast, auto)

lemma runs_ret: "(\<And>s. P s \<Longrightarrow> Q x s) \<Longrightarrow> runs P (ret x) Q R"
  by (simp add: runs_def op_simps)

lemma runs_gets: "(\<And>s. P s \<Longrightarrow> Q (g s) s) \<Longrightarrow> runs P (gets g) Q R"
  by (simp add: runs_def op_simps)

lemma runs_modify: "(\<And>s. P s \<Longrightarrow> Q () (h s)) \<Longrightarrow> runs P (modify h) Q R"
  by (simp add: runs_def op_simps)

lemma runs_lib: "(\<And>s. P s \<Longrightarrow> R s) \<Longrightarrow> (\<And>x s. r = Some x \<Longrightarrow> P s \<Longrightarrow> Q x s) \<Longrightarrow> runs P (lib r) Q R"
  by (cases r) (simp_all add: runs_def op_simps)

lemma runs_fail_if: "(\<And>s. P s \<Longrightarrow> R s) \<Longrightarrow> (\<And>s. \<not> b \<Longrightarrow> P s \<Longrightarrow> Q () s) \<Longrightarrow> runs P (fail_if b e) Q R"
  by (cases b) (simp_all add: runs_def op_simps)

lemma runs_liftE: "(\<And>s. P s \<Longrightarrow> \<exists>x. m = Inr x \<and> Q x s) \<Longrightarrow> runs P (liftE m) Q R"
proof (rule runsI)
  fix s assume a: "\<And>s. P s \<Longrightarrow> \<exists>x. m = Inr x \<and> Q x s" "P s"
  from a(1) [OF a(2)] obtain x where "m = Inr x" "Q x s" by blast
  then show "\<exists>r t. liftE m s = Inr (r, t) \<and> (case r of Inl _ \<Rightarrow> R t | Inr x \<Rightarrow> Q x t)" by (simp add: op_simps)
qed

lemma runs_coded:
  "(\<And>s. P s \<Longrightarrow> \<exists>r. m = Inr r \<and> (case r of Inl _ \<Rightarrow> R s | Inr x \<Rightarrow> Q x s)) \<Longrightarrow> runs P (coded m) Q R"
proof (rule runsI)
  fix s assume a: "\<And>s. P s \<Longrightarrow> \<exists>r. m = Inr r \<and> (case r of Inl _ \<Rightarrow> R s | Inr x \<Rightarrow> Q x s)" "P s"
  from a(1) [OF a(2)] obtain r where "m = Inr r" "case r of Inl _ \<Rightarrow> R s | Inr x \<Rightarrow> Q x s" by blast
  then show "\<exists>r t. coded m s = Inr (r, t) \<and> (case r of Inl _ \<Rightarrow> R t | Inr x \<Rightarrow> Q x t)"
    by (cases r) (simp_all add: op_simps)
qed

section \<open>The library\<close>

text \<open>
  \<open>'h\<close>, \<open>'m\<close> and \<open>'c\<close> are the contexts of SHA-256, HMAC and AES. \<open>lib_sha1 parts\<close> is the digest of
  the parts passed to the updates; \<open>lib_exp_mod\<close> works on integers as the library does;
  \<open>lib_send n\<close> is the system call after \<open>n\<close> bytes were sent.
\<close>

record ('h, 'm, 'c) library =
  sha256_new :: 'h
  sha256_update :: "'h \<Rightarrow> bytes \<Rightarrow> 'h option"
  sha256_finish :: "'h \<Rightarrow> bytes option"
  lib_sha1 :: "bytes list \<Rightarrow> bytes option"
  hmac_sha256 :: "bytes \<Rightarrow> bytes \<Rightarrow> bytes option"
  md_new :: 'm
  md_hmac_starts :: "bytes \<Rightarrow> 'm option"
  md_hmac_update :: "'m \<Rightarrow> bytes \<Rightarrow> 'm option"
  md_hmac_finish :: "'m \<Rightarrow> bytes option"
  md_hmac_reset :: "'m \<Rightarrow> 'm option"
  aes_new :: 'c
  aes_setkey_enc :: "bytes \<Rightarrow> 'c option"
  aes_setkey_dec :: "bytes \<Rightarrow> 'c option"
  aes_encrypt_block :: "'c \<Rightarrow> bytes \<Rightarrow> bytes option"
  aes_cbc_encrypt :: "'c \<Rightarrow> bytes \<Rightarrow> bytes \<Rightarrow> (bytes \<times> bytes) option"
  aes_cbc_decrypt :: "'c \<Rightarrow> bytes \<Rightarrow> bytes \<Rightarrow> (bytes \<times> bytes) option"
  lib_exp_mod :: "int \<Rightarrow> int \<Rightarrow> int \<Rightarrow> int option"
  lib_send :: "nat \<Rightarrow> nat \<Rightarrow> bytes \<Rightarrow> int"

section \<open>The connection\<close>

datatype ssl_sts_state =
    AWAIT_CLIENT_HELLO | AWAIT_SERVER_HELLO | AWAIT_SERVER_KEY_EXCHANGE | AWAIT_SERVER_HELLO_DONE
  | AWAIT_CLIENT_KEY_EXCHANGE | AWAIT_CLIENT_CHANGE_CIPHER_SPEC | AWAIT_CLIENT_HANDSHAKE
  | AWAIT_SERVER_CHANGE_CIPHER_SPEC | AWAIT_SERVER_ENC_HANDSHAKE | AWAIT_CLIENT_FINISHED

record server_key =
  prime :: bytes
  generator :: bytes
  salt :: bytes
  server_public :: bytes

record client_key =
  cli_private :: bytes
  cli_public :: bytes

record tls12_random =
  rnd_time :: u32
  rnd_bytes :: bytes

record ('h, 'm, 'c) ssl_sts_connection =
  ssl_fd :: int
  ssl_state :: ssl_sts_state
  checksum :: 'h
  next_read_id :: bytes
  next_write_id :: bytes
  iv_enc :: bytes
  cipher_enc :: 'c
  cipher_dec :: 'c
  mac_enc :: 'm
  mac_dec :: 'm
  read_buf :: out_buffer
  write_buf :: out_buffer
  client_random :: tls12_random
  server_random :: tls12_random
  srv_key :: server_key
  cli_key :: client_key
  srp_username :: bytes
  srp_username_len :: nat
  which_hash_verifier :: bytes
  static_legacy_hash :: bytes
  static_verifier_hash :: bytes
  premaster_secret :: bytes
  master_secret :: bytes
  client_finished :: bytes
  server_finished :: bytes

text \<open>
  The environment of a connection: the results that the next calls of \<^verbatim>\<open>recv\<close> give, and what the
  system has accepted for sending so far.
\<close>

record ('h, 'm, 'c) session = "('h, 'm, 'c) ssl_sts_connection" +
  incoming :: "net_result list"
  outgoing :: bytes

type_synonym ('h, 'm, 'c, 'a) tls_op = "(('h, 'm, 'c) session, 'a) op"

definition ssl_sts_connection_init :: "('h, 'm, 'c) library \<Rightarrow> ('h, 'm, 'c) ssl_sts_connection" where
  "ssl_sts_connection_init L =
     \<lparr>ssl_fd = - 1, ssl_state = AWAIT_CLIENT_HELLO, checksum = sha256_new L,
      next_read_id = replicate 8 0, next_write_id = replicate 8 0, iv_enc = replicate 16 0,
      cipher_enc = aes_new L, cipher_dec = aes_new L, mac_enc = md_new L, mac_dec = md_new L,
      read_buf = array_init, write_buf = array_init,
      client_random = \<lparr>rnd_time = 0, rnd_bytes = replicate 28 0\<rparr>,
      server_random = \<lparr>rnd_time = 0, rnd_bytes = replicate 28 0\<rparr>,
      srv_key = \<lparr>prime = replicate 128 0, generator = replicate 1 0, salt = replicate 8 0, server_public = replicate 128 0\<rparr>,
      cli_key = \<lparr>cli_private = replicate 128 0, cli_public = replicate 128 0\<rparr>,
      srp_username = replicate 256 0, srp_username_len = 0,
      which_hash_verifier = replicate 20 0, static_legacy_hash = replicate 20 0, static_verifier_hash = replicate 20 0,
      premaster_secret = replicate 128 0, master_secret = replicate 48 0,
      client_finished = replicate 12 0, server_finished = replicate 12 0\<rparr>"

section \<open>Hashes\<close>

text \<open>
  The two functions return 0 also when the library fails; then the digest is what it was.
\<close>

definition compute_srp_hash :: "('h, 'm, 'c) library \<Rightarrow> bytes \<Rightarrow> bytes \<Rightarrow> bytes \<Rightarrow> bytes" where
  "compute_srp_hash L digest part1 part2 =
     (case lib_sha1 L [part1, [58], part2] of None \<Rightarrow> digest | Some d \<Rightarrow> d)"

definition sha1_of_two_values :: "('h, 'm, 'c) library \<Rightarrow> bytes \<Rightarrow> bytes \<Rightarrow> bytes \<Rightarrow> bytes" where
  "sha1_of_two_values L digest part1 part2 =
     (case lib_sha1 L [part1, part2] of None \<Rightarrow> digest | Some d \<Rightarrow> d)"

definition sha1_of_two_values_with_padding ::
    "('h, 'm, 'c) library \<Rightarrow> bytes \<Rightarrow> nat \<Rightarrow> bytes \<Rightarrow> bytes \<Rightarrow> fault + (ssl_error + bytes)" where
  "sha1_of_two_values_with_padding L digest padding part1 part2 =
     andThen (reject_if (256 < padding) ERR_SSL_UNSUCCESSFUL) (\<lambda>_.
     andThen (reject_if (padding < length part1 \<or> padding < length part2) ERR_SSL_UNSUCCESSFUL) (\<lambda>_.
       Inr (Inr (sha1_of_two_values L digest
         (replicate (padding - length part1) 0 @ part1) (replicate (padding - length part2) 0 @ part2)))))"

definition non_ascii :: "u8 \<Rightarrow> bool" where
  "non_ascii c \<longleftrightarrow> c AND NOT 0x7F \<noteq> 0"

definition swap_word :: "nat \<Rightarrow> bytes \<Rightarrow> fault + bytes" where
  "swap_word k t = bindE (be32dec (drop k t)) (\<lambda>w. mem_write t k (le32enc w))"

text \<open>The buffer of 16-bit words is the memory of the password followed by the user name.\<close>

definition compute_legacy_hash ::
    "('h, 'm, 'c) library \<Rightarrow> bytes \<Rightarrow> bytes \<Rightarrow> bytes \<Rightarrow> fault + (ssl_error + bytes)" where
  "compute_legacy_hash L digest username password =
     (let required = (length username + length password) * 2
      in andThen (reject_if (512 < required) ERR_SSL_UNSUCCESSFUL) (\<lambda>_.
         andThen (reject_if (list_ex non_ascii password) ERR_SSL_UNSUCCESSFUL) (\<lambda>_.
         andThen (reject_if (list_ex non_ascii username) ERR_SSL_UNSUCCESSFUL) (\<lambda>_.
         andThen (hmac_call (lib_sha1 L [concat (map (\<lambda>c. le16enc (ucast c)) (password @ username))])) (\<lambda>temp.
         bindE (run_all (map swap_word [0, 4, 8, 12, 16]) temp) (\<lambda>temp.
           Inr (Inr (compute_srp_hash L digest username temp))))))))"

definition compute_static_hash :: "('h, 'm, 'c) library \<Rightarrow> bytes \<Rightarrow> bytes \<Rightarrow> ('h, 'm, 'c, unit) tls_op" where
  "compute_static_hash L username password =
     bindS (modify (\<lambda>s. s\<lparr>static_verifier_hash := compute_srp_hash L (static_verifier_hash s) username password\<rparr>)) (\<lambda>_.
     bindS (gets static_legacy_hash) (\<lambda>d.
     bindS (coded (compute_legacy_hash L d username password)) (\<lambda>d.
       modify (\<lambda>s. s\<lparr>static_legacy_hash := d\<rparr>))))"

definition ssl_sts_connection_init_srp :: "('h, 'm, 'c) library \<Rightarrow> bytes \<Rightarrow> bytes \<Rightarrow> ('h, 'm, 'c, unit) tls_op" where
  "ssl_sts_connection_init_srp L username password =
     bindS (compute_static_hash L username password) (\<lambda>_.
     bindS (fail_if (256 < length username) ERR_SSL_UNSUCCESSFUL) (\<lambda>_.
     bindS (gets srp_username) (\<lambda>m.
     bindS (liftE (mem_write m 0 username)) (\<lambda>m.
       modify (\<lambda>s. s\<lparr>srp_username := m, srp_username_len := length username\<rparr>)))))"

section \<open>Seeding\<close>

text \<open>The generator: \<open>random k n\<close> are the \<open>n\<close> bytes of its call number \<open>k\<close>.\<close>

definition ssl_sts_connection_seed :: "bool \<Rightarrow> (nat \<Rightarrow> nat \<Rightarrow> bytes option) \<Rightarrow> ('h, 'm, 'c, unit) tls_op" where
  "ssl_sts_connection_seed seeded random =
     bindS (fail_if (\<not> seeded) ERR_SSL_UNSUCCESSFUL) (\<lambda>_.
     bindS (lib (random 0 32)) (\<lambda>bs.
     bindS (liftE (le32dec bs)) (\<lambda>t.
     bindS (modify (\<lambda>s. s\<lparr>client_random := \<lparr>rnd_time = t, rnd_bytes = drop 4 bs\<rparr>\<rparr>)) (\<lambda>_.
     bindS (lib (random 1 128)) (\<lambda>bs.
     bindS (modify (\<lambda>s. s\<lparr>cli_key := (cli_key s)\<lparr>cli_private := bs\<rparr>\<rparr>)) (\<lambda>_.
     bindS (lib (random 2 16)) (\<lambda>bs. modify (\<lambda>s. s\<lparr>iv_enc := bs\<rparr>))))))))"

definition ssl_sts_connection_seed_test :: "bytes \<Rightarrow> bytes \<Rightarrow> bytes \<Rightarrow> ('h, 'm, 'c, unit) tls_op" where
  "ssl_sts_connection_seed_test client_private random iv =
     bindS (fail_if (128 < length client_private) ERR_SSL_UNSUCCESSFUL) (\<lambda>_.
     bindS (gets (\<lambda>s. cli_private (cli_key s))) (\<lambda>p.
     bindS (liftE (mem_write p (128 - length client_private) client_private)) (\<lambda>p.
     bindS (modify (\<lambda>s. s\<lparr>cli_key := (cli_key s)\<lparr>cli_private := p\<rparr>\<rparr>)) (\<lambda>_.
     bindS (fail_if (32 \<noteq> length random) ERR_SSL_UNSUCCESSFUL) (\<lambda>_.
     bindS (liftE (be32dec random)) (\<lambda>t.
     bindS (modify (\<lambda>s. s\<lparr>client_random := \<lparr>rnd_time = t, rnd_bytes = drop 4 random\<rparr>\<rparr>)) (\<lambda>_.
     bindS (fail_if (16 \<noteq> length iv) ERR_SSL_UNSUCCESSFUL) (\<lambda>_.
       modify (\<lambda>s. s\<lparr>iv_enc := iv\<rparr>)))))))))"

end
