(* ===== verification/Tls_Record.thy ===== *)
theory Tls_Record
  imports Tls_Base
begin

unbundle bit_operations_syntax

text \<open>
  The record layer of \<^verbatim>\<open>code/portal/ssl.c\<close>: headers, padding, encryption and authentication of
  records, and the loops that wait for the network. A peer that runs the same code with matching
  keys receives what was sent.
\<close>

section \<open>The write buffer\<close>

definition write_bytes :: "bytes \<Rightarrow> ('h, 'm, 'c, unit) tls_op" where
  "write_bytes bs = bindS (gets write_buf) (\<lambda>b. bindS (liftE (put b bs)) (\<lambda>b. modify (\<lambda>s. s\<lparr>write_buf := b\<rparr>)))"

text \<open>\<^verbatim>\<open>array_push\<close>: the position of the reserved bytes.\<close>

definition write_reserve :: "nat \<Rightarrow> ('h, 'm, 'c, nat) tls_op" where
  "write_reserve n =
     bindS (gets write_buf) (\<lambda>b. bindS (liftE (byte_push b n)) (\<lambda>(p, b). case p of
       None \<Rightarrow> liftE (Inl NullDeref)
     | Some i \<Rightarrow> bindS (modify (\<lambda>s. s\<lparr>write_buf := b\<rparr>)) (\<lambda>_. ret i)))"

definition write_at :: "nat \<Rightarrow> bytes \<Rightarrow> ('h, 'm, 'c, unit) tls_op" where
  "write_at i bs =
     bindS (gets write_buf) (\<lambda>b. bindS (liftE (mem_write (arr_data b) i bs)) (\<lambda>d.
       modify (\<lambda>s. s\<lparr>write_buf := b\<lparr>arr_data := d\<rparr>\<rparr>)))"

definition write_size :: "('h, 'm, 'c, nat) tls_op" where
  "write_size = gets (\<lambda>s. arr_size (write_buf s))"

text \<open>\<^verbatim>\<open>send_full\<close> on the socket of the connection.\<close>

definition send_bytes :: "('h, 'm, 'c) library \<Rightarrow> bytes \<Rightarrow> ('h, 'm, 'c, unit) tls_op" where
  "send_bytes L bs s = (case send_full (lib_send L (length (outgoing s))) 0 bs 0 of (r, sent) \<Rightarrow>
     Inr (if r \<noteq> 0 then Inl (NetCode r) else Inr (), s\<lparr>outgoing := outgoing s @ sent\<rparr>))"

section \<open>Headers\<close>

definition ssl_srp_write_protocol_header :: "u8 \<Rightarrow> nat \<Rightarrow> ('h, 'm, 'c, unit) tls_op" where
  "ssl_srp_write_protocol_header msg_type msg_size =
     bindS (fail_if (65535 < msg_size) ERR_SSL_UNSUCCESSFUL) (\<lambda>_.
     bindS (write_bytes [msg_type]) (\<lambda>_. bindS (write_bytes [3]) (\<lambda>_. bindS (write_bytes [3]) (\<lambda>_.
     bindS (write_reserve 2) (\<lambda>p. write_at p (be16enc (of_nat msg_size)))))))"

definition ssl_srp_start_protocol_msg :: "u8 \<Rightarrow> ('h, 'm, 'c, nat) tls_op" where
  "ssl_srp_start_protocol_msg msg_type =
     bindS write_size (\<lambda>header_pos.
     bindS (write_bytes [msg_type]) (\<lambda>_. bindS (write_bytes [3]) (\<lambda>_. bindS (write_bytes [3]) (\<lambda>_.
     bindS (write_reserve 2) (\<lambda>_. ret header_pos)))))"

definition ssl_srp_finish_protocol_msg :: "('h, 'm, 'c) library \<Rightarrow> u8 \<Rightarrow> nat \<Rightarrow> ('h, 'm, 'c, unit) tls_op" where
  "ssl_srp_finish_protocol_msg L msg_type header_pos =
     bindS (gets write_buf) (\<lambda>b.
     bindS (liftE (assertE (header_pos + 5 \<le> arr_size b))) (\<lambda>_.
     bindS (liftE (array_at b header_pos)) (\<lambda>t.
     bindS (liftE (assertE (t = msg_type))) (\<lambda>_.
     let msg_offset = header_pos + 5; msg_size = arr_size b - msg_offset in
     bindS (fail_if (65535 < msg_size) ERR_SSL_UNSUCCESSFUL) (\<lambda>_.
     bindS (liftE (mem_read (arr_data b) msg_offset msg_size)) (\<lambda>msg.
     bindS (gets checksum) (\<lambda>h.
     bindS (lib (sha256_update L h msg)) (\<lambda>h.
     bindS (modify (\<lambda>s. s\<lparr>checksum := h\<rparr>)) (\<lambda>_.
       write_at (header_pos + 3) (be16enc (of_nat msg_size)))))))))))"

text \<open>
  The loop of the two functions that increment: it starts at a position and moves up while the
  byte becomes 0.
\<close>

function inc_from :: "nat \<Rightarrow> bytes \<Rightarrow> bytes" where
  "inc_from i bs =
     (if i < length bs then
        let b = bs ! i + 1 in if b \<noteq> 0 then bs[i := b] else inc_from (i + 1) (bs[i := b])
      else bs)"
  by pat_completeness auto
termination by (relation "measure (\<lambda>(i, bs). length bs - i)") auto

declare inc_from.simps [simp del]

definition increment_be :: "bytes \<Rightarrow> bytes" where
  "increment_be bs = inc_from (sz_sub (length bs) 1) bs"

definition ssl_sts_issue_next_iv :: "('h, 'm, 'c) library \<Rightarrow> ('h, 'm, 'c, bytes) tls_op" where
  "ssl_sts_issue_next_iv L =
     bindS (modify (\<lambda>s. s\<lparr>iv_enc := inc_from 0 (iv_enc s)\<rparr>)) (\<lambda>_.
     bindS (gets (\<lambda>s. (cipher_enc s, iv_enc s))) (\<lambda>(c, i).
     bindS (lib (aes_encrypt_block L c i)) (\<lambda>iv.
     bindS (modify (\<lambda>s. s\<lparr>iv_enc := iv\<rparr>)) (\<lambda>_. ret iv))))"

section \<open>Sending a record\<close>

definition mac_enc_add :: "('h, 'm, 'c) library \<Rightarrow> bytes \<Rightarrow> ('h, 'm, 'c, unit) tls_op" where
  "mac_enc_add L bs =
     bindS (gets mac_enc) (\<lambda>m. bindS (lib (md_hmac_update L m bs)) (\<lambda>m. modify (\<lambda>s. s\<lparr>mac_enc := m\<rparr>)))"

definition padding_of :: "nat \<Rightarrow> nat \<times> u8" where
  "padding_of n =
     (let alligned = (n + 15) div 16 * 16;
          alligned = (if n = alligned then n + 16 else alligned)
      in (alligned, of_nat (alligned - n) - 1))"

definition ssl_srp_build_message_to_encrypt ::
    "('h, 'm, 'c) library \<Rightarrow> bytes \<Rightarrow> ('h, 'm, 'c, bytes) tls_op" where
  "ssl_srp_build_message_to_encrypt L msg =
     bindS (liftE (put array_init msg)) (\<lambda>buffer.
     bindS (gets mac_enc) (\<lambda>m.
     bindS (lib (md_hmac_finish L m)) (\<lambda>digest.
     bindS (liftE (push_write buffer digest)) (\<lambda>buffer.
     bindS (lib (md_hmac_reset L m)) (\<lambda>m.
     bindS (modify (\<lambda>s. s\<lparr>mac_enc := m\<rparr>)) (\<lambda>_.
     case padding_of (arr_size buffer) of (alligned, padval) \<Rightarrow>
     bindS (liftE (assertE (arr_size buffer < alligned))) (\<lambda>_.
     bindS (liftE (assertE (alligned - arr_size buffer \<le> 16))) (\<lambda>_.
     bindS (liftE (put buffer (replicate (unat padval + 1) padval))) (\<lambda>buffer. ret (contents buffer))))))))))"

text \<open>
  The three parts of sending: the message authentication code is fed, the initialisation vector and
  the encrypted message are appended, the length is filled in and the packet is sent.
\<close>

definition authenticate_record :: "('h, 'm, 'c) library \<Rightarrow> nat \<Rightarrow> bytes \<Rightarrow> ('h, 'm, 'c, unit) tls_op" where
  "authenticate_record L size_at_start data =
     bindS (gets next_write_id) (\<lambda>i.
     bindS (mac_enc_add L i) (\<lambda>_.
     bindS (modify (\<lambda>s. s\<lparr>next_write_id := increment_be (next_write_id s)\<rparr>)) (\<lambda>_.
     bindS (gets write_buf) (\<lambda>b.
     bindS (liftE (assertE (size_at_start + 5 \<le> arr_size b))) (\<lambda>_.
     bindS (liftE (mem_read (arr_data b) size_at_start 5)) (\<lambda>header_bytes.
     bindS (mac_enc_add L header_bytes) (\<lambda>_.
       mac_enc_add L data)))))))"

definition encrypt_record :: "('h, 'm, 'c) library \<Rightarrow> bytes \<Rightarrow> ('h, 'm, 'c, unit) tls_op" where
  "encrypt_record L data =
     bindS (write_reserve 16) (\<lambda>iv_buffer.
     bindS (ssl_sts_issue_next_iv L) (\<lambda>iv.
     bindS (write_at iv_buffer iv) (\<lambda>_.
     bindS (ssl_srp_build_message_to_encrypt L data) (\<lambda>buffer.
     bindS (write_reserve (length buffer)) (\<lambda>output.
     bindS (gets (\<lambda>s. (cipher_enc s, iv_enc s))) (\<lambda>(c, iv).
     bindS (lib (aes_cbc_encrypt L c iv buffer)) (\<lambda>(iv, encrypted).
     bindS (modify (\<lambda>s. s\<lparr>iv_enc := iv\<rparr>)) (\<lambda>_.
       write_at output encrypted))))))))"

definition send_record :: "('h, 'm, 'c) library \<Rightarrow> nat \<Rightarrow> ('h, 'm, 'c, unit) tls_op" where
  "send_record L size_at_start =
     bindS write_size (\<lambda>end_pos.
     let content_size = end_pos - size_at_start - 5 in
     bindS (liftE (assertE (content_size \<le> 65535))) (\<lambda>_.
     bindS (write_at (size_at_start + 3) (be16enc (of_nat content_size))) (\<lambda>_.
     bindS (gets write_buf) (\<lambda>b.
     bindS (liftE (mem_read (arr_data b) size_at_start (end_pos - size_at_start))) (\<lambda>packet.
     bindS (send_bytes L packet) (\<lambda>_.
       modify (\<lambda>s. s\<lparr>write_buf := write_buf s\<lparr>arr_size := size_at_start\<rparr>\<rparr>)))))))"

text \<open>A failure of the header is returned as success, before anything is sent.\<close>

definition ssl_sts_connection_send_internal ::
    "('h, 'm, 'c) library \<Rightarrow> u8 \<Rightarrow> bytes \<Rightarrow> ('h, 'm, 'c, unit) tls_op" where
  "ssl_sts_connection_send_internal L message_type data =
     bindS write_size (\<lambda>size_at_start s.
     bindE (ssl_srp_write_protocol_header message_type (length data) s) (\<lambda>(r, s). case r of
       Inl _ \<Rightarrow> Inr (Inr (), s)
     | Inr _ \<Rightarrow>
         bindS (authenticate_record L size_at_start data) (\<lambda>_.
         bindS (encrypt_record L data) (\<lambda>_.
           send_record L size_at_start)) s))"

section \<open>Receiving a record\<close>

text \<open>The result is the content of the record and the number of bytes it takes in the buffer.\<close>

definition parse_tls12_handshake ::
    "('h, 'm, 'c) library \<Rightarrow> u8 \<Rightarrow> bool \<Rightarrow> ('h, 'm, 'c, bytes) tls_op" where
  "parse_tls12_handshake L content_type include_msg_in_checksum =
     bindS (gets (\<lambda>s. (arr_data (read_buf s), arr_size (read_buf s)))) (\<lambda>(data, len).
     bindS (fail_if (len < 5) ERR_SSL_CONTINUE_PROCESSING) (\<lambda>_.
     bindS (liftE (idx data 1)) (\<lambda>major. bindS (liftE (idx data 2)) (\<lambda>minor.
     bindS (fail_if (major \<noteq> 3 \<and> minor \<noteq> 3) ERR_SSL_UNSUPPORTED_PROTOCOL) (\<lambda>_.
     bindS (liftE (be16dec (drop 3 data))) (\<lambda>client_sublen.
     bindS (fail_if (len - 5 < unat client_sublen) ERR_SSL_CONTINUE_PROCESSING) (\<lambda>_.
     bindS (liftE (mem_read data 5 (unat client_sublen))) (\<lambda>subdata.
     bindS (liftE (idx data 0)) (\<lambda>t.
     bindS (fail_if (t \<noteq> content_type) ERR_SSL_UNEXPECTED_MESSAGE) (\<lambda>_.
       if include_msg_in_checksum then
         bindS (gets checksum) (\<lambda>h. bindS (lib (sha256_update L h subdata)) (\<lambda>h.
         bindS (modify (\<lambda>s. s\<lparr>checksum := h\<rparr>)) (\<lambda>_. ret subdata)))
       else ret subdata))))))))))"

text \<open>
  The loops that repeat a step until the read buffer holds enough, on the results that the system
  call gives; they still wait when there is none left. \<open>on_error\<close> makes the result of a failed
  call an error of the loop.
\<close>

fun await_on ::
    "(int \<Rightarrow> tls_error) \<Rightarrow> ('h, 'm, 'c, 'a) tls_op \<Rightarrow> net_result list \<Rightarrow> ('h, 'm, 'c, 'a) tls_op" where
  "await_on on_error step [] s =
     bindE (step s) (\<lambda>(r, s). Inr (if r = Inl (Code ERR_SSL_CONTINUE_PROCESSING) then Inl Waiting else r, s))"
| "await_on on_error step (n # ns) s =
     bindE (step s) (\<lambda>(r, s).
       if r = Inl (Code ERR_SSL_CONTINUE_PROCESSING) then
         bindE (recv_to_buffer n (read_buf s)) (\<lambda>(ret, b).
           let s = s\<lparr>read_buf := b, incoming := ns\<rparr> in
           if ret \<noteq> 0 then Inr (Inl (on_error ret), s) else await_on on_error step ns s)
       else Inr (r, s))"

definition await :: "(int \<Rightarrow> tls_error) \<Rightarrow> ('h, 'm, 'c, 'a) tls_op \<Rightarrow> ('h, 'm, 'c, 'a) tls_op" where
  "await on_error step s = await_on on_error step (incoming s) s"

definition mac_dec_add :: "('h, 'm, 'c) library \<Rightarrow> bytes \<Rightarrow> ('h, 'm, 'c, unit) tls_op" where
  "mac_dec_add L bs =
     bindS (gets mac_dec) (\<lambda>m. bindS (lib (md_hmac_update L m bs)) (\<lambda>m. modify (\<lambda>s. s\<lparr>mac_dec := m\<rparr>)))"

definition consume :: "nat \<Rightarrow> ('h, 'm, 'c, unit) tls_op" where
  "consume processed =
     bindS (gets read_buf) (\<lambda>b. bindS (liftE (array_remove_range_ordered 1 b 0 processed)) (\<lambda>b.
       modify (\<lambda>s. s\<lparr>read_buf := b\<rparr>)))"

text \<open>Checking and removing the padding: the decrypted bytes without it.\<close>

definition unpad :: "bytes \<Rightarrow> fault + (ssl_error + bytes)" where
  "unpad buffer =
     (let enc_len = length buffer in
      bindE (idx buffer (enc_len - 1)) (\<lambda>pad_val.
      let pad_len = unat (pad_val + 1) in
      andThen (reject_if (enc_len < pad_len) ERR_SSL_BAD_INPUT_DATA) (\<lambda>_.
      bindE (mem_read buffer (enc_len - pad_len) pad_len) (\<lambda>pad.
      andThen (reject_if (list_ex (\<lambda>c. c \<noteq> pad_val) pad) ERR_SSL_BAD_INPUT_DATA) (\<lambda>_.
        Inr (Inr (take (enc_len - pad_len) buffer)))))))"

text \<open>
  The parts of receiving behind the header: decryption, and the comparison of the message
  authentication code; the results are the bytes without the padding and the message.
\<close>

definition decrypt_record :: "('h, 'm, 'c) library \<Rightarrow> nat \<Rightarrow> bytes \<Rightarrow> ('h, 'm, 'c, bytes) tls_op" where
  "decrypt_record L buffer_len inner =
     bindS (fail_if (length inner < 16) ERR_SSL_BAD_INPUT_DATA) (\<lambda>_.
     let iv = take 16 inner; enc_data = drop 16 inner; enc_len = length inner - 16 in
     bindS (fail_if (enc_len div 16 * 16 \<noteq> enc_len) ERR_SSL_BAD_INPUT_DATA) (\<lambda>_.
     bindS (fail_if (enc_len = 0) ERR_SSL_BAD_INPUT_DATA) (\<lambda>_.
     bindS (fail_if (buffer_len < enc_len) ERR_SSL_BUFFER_TOO_SMALL) (\<lambda>_.
     bindS (gets cipher_dec) (\<lambda>c.
     case aes_cbc_decrypt L c iv enc_data of
       None \<Rightarrow> fail (Code ERR_SSL_BAD_INPUT_DATA)
     | Some (_, buffer) \<Rightarrow> coded (unpad buffer))))))"

definition check_record :: "('h, 'm, 'c) library \<Rightarrow> bytes \<Rightarrow> ('h, 'm, 'c, bytes) tls_op" where
  "check_record L buffer =
     bindS (gets next_read_id) (\<lambda>i.
     bindS (mac_dec_add L i) (\<lambda>_.
     bindS (modify (\<lambda>s. s\<lparr>next_read_id := increment_be (next_read_id s)\<rparr>)) (\<lambda>_.
     bindS (gets read_buf) (\<lambda>b.
     bindS (liftE (assertE (5 \<le> arr_size b))) (\<lambda>_.
     bindS (liftE (mem_read (arr_data b) 0 5)) (\<lambda>ssl_header.
     bindS (fail_if (length buffer < 20) ERR_SSL_BAD_INPUT_DATA) (\<lambda>_.
     let msg_len = length buffer - 20 in
     bindS (fail_if (65535 < msg_len) ERR_SSL_UNSUCCESSFUL) (\<lambda>_.
     bindS (liftE (mem_write ssl_header 3 (be16enc (of_nat msg_len)))) (\<lambda>ssl_header.
     bindS (mac_dec_add L ssl_header) (\<lambda>_.
     bindS (mac_dec_add L (take msg_len buffer)) (\<lambda>_.
     bindS (gets mac_dec) (\<lambda>m.
     bindS (lib (md_hmac_finish L m)) (\<lambda>digest.
     bindS (lib (md_hmac_reset L m)) (\<lambda>m.
     bindS (modify (\<lambda>s. s\<lparr>mac_dec := m\<rparr>)) (\<lambda>_.
     bindS (fail_if (memcmp (drop msg_len buffer) digest \<noteq> 0) ERR_SSL_BAD_INPUT_DATA) (\<lambda>_.
       ret (take msg_len buffer)))))))))))))))))"

definition ssl_sts_connection_recv_internal ::
    "('h, 'm, 'c) library \<Rightarrow> u8 \<Rightarrow> nat \<Rightarrow> ('h, 'm, 'c, bytes) tls_op" where
  "ssl_sts_connection_recv_internal L message_type buffer_len =
     bindS (await NetCode (parse_tls12_handshake L message_type False)) (\<lambda>inner.
     bindS (decrypt_record L buffer_len inner) (\<lambda>buffer.
     bindS (check_record L buffer) (\<lambda>msg.
     bindS (consume (5 + length inner)) (\<lambda>_.
       ret msg))))"

definition SSL_MSG_APPLICATION_DATA :: u8 where "SSL_MSG_APPLICATION_DATA = 23"

definition ssl_sts_connection_send :: "('h, 'm, 'c) library \<Rightarrow> bytes \<Rightarrow> ('h, 'm, 'c, unit) tls_op" where
  "ssl_sts_connection_send L data = ssl_sts_connection_send_internal L SSL_MSG_APPLICATION_DATA data"

definition ssl_sts_connection_recv :: "('h, 'm, 'c) library \<Rightarrow> nat \<Rightarrow> ('h, 'm, 'c, bytes) tls_op" where
  "ssl_sts_connection_recv L buffer_len = ssl_sts_connection_recv_internal L SSL_MSG_APPLICATION_DATA buffer_len"

end
