(* ===== verification/Tls_Messages.thy ===== *)
theory Tls_Messages
  imports Tls_Record
begin

unbundle bit_operations_syntax

text \<open>
  The messages of the TLS-SRP handshake of \<^verbatim>\<open>code/portal/ssl.c\<close>: those the client writes, those of
  the server it parses, the secrets that are derived, and the handshake that puts them in order.
\<close>

section \<open>Writing handshake messages\<close>

definition SSL_MSG_CHANGE_CIPHER_SPEC :: u8 where "SSL_MSG_CHANGE_CIPHER_SPEC = 20"
definition SSL_MSG_HANDSHAKE :: u8 where "SSL_MSG_HANDSHAKE = 22"
definition SSL_HS_CLIENT_HELLO :: u8 where "SSL_HS_CLIENT_HELLO = 1"
definition SSL_HS_SERVER_HELLO :: u8 where "SSL_HS_SERVER_HELLO = 2"
definition SSL_HS_SERVER_KEY_EXCHANGE :: u8 where "SSL_HS_SERVER_KEY_EXCHANGE = 12"
definition SSL_HS_CLIENT_KEY_EXCHANGE :: u8 where "SSL_HS_CLIENT_KEY_EXCHANGE = 16"
definition SSL_HS_FINISHED :: u8 where "SSL_HS_FINISHED = 20"

definition TLS_SRP_SHA_WITH_AES_256_CBC_SHA :: u16 where "TLS_SRP_SHA_WITH_AES_256_CBC_SHA = 0xC020"
definition TLS_SRP_SHA_WITH_AES_128_CBC_SHA :: u16 where "TLS_SRP_SHA_WITH_AES_128_CBC_SHA = 0xC01D"
definition TLS_SRP_SHA_WITH_LEGACY_PASSWORD :: u16 where "TLS_SRP_SHA_WITH_LEGACY_PASSWORD = 0xFF04"

definition write_be16 :: "u16 \<Rightarrow> ('h, 'm, 'c, unit) tls_op" where
  "write_be16 v = bindS (gets write_buf) (\<lambda>b. bindS (liftE (array_add_be_uint16 b v)) (\<lambda>b. modify (\<lambda>s. s\<lparr>write_buf := b\<rparr>)))"

definition ssl_srp_start_handshake_msg :: "u8 \<Rightarrow> ('h, 'm, 'c, nat) tls_op" where
  "ssl_srp_start_handshake_msg hs_type =
     bindS (ssl_srp_start_protocol_msg SSL_MSG_HANDSHAKE) (\<lambda>header_pos.
     bindS write_size (\<lambda>pos.
     bindS (liftE (assertE (pos - header_pos = 5))) (\<lambda>_.
     bindS (write_bytes [hs_type]) (\<lambda>_.
     bindS (write_reserve 3) (\<lambda>_. ret pos)))))"

text \<open>The three bytes of a length.\<close>

definition be24 :: "nat \<Rightarrow> bytes" where
  "be24 n = [of_nat (drop_bit 16 n AND 0xFF), of_nat (drop_bit 8 n AND 0xFF), of_nat (n AND 0xFF)]"

definition ssl_srp_finish_handshake_msg :: "('h, 'm, 'c) library \<Rightarrow> nat \<Rightarrow> u8 \<Rightarrow> ('h, 'm, 'c, unit) tls_op" where
  "ssl_srp_finish_handshake_msg L header_pos hs_type =
     bindS (gets write_buf) (\<lambda>b.
     bindS (liftE (assertE (header_pos + 4 \<le> arr_size b))) (\<lambda>_.
     bindS (liftE (array_at b header_pos)) (\<lambda>t.
     bindS (liftE (assertE (t = hs_type))) (\<lambda>_.
     let content_length = arr_size b - (header_pos + 4) in
     bindS (fail_if (0xFFFFFF \<le> content_length) ERR_SSL_UNSUCCESSFUL) (\<lambda>_.
     bindS (write_at (1 + header_pos) (be24 content_length)) (\<lambda>_.
       ssl_srp_finish_protocol_msg L SSL_MSG_HANDSHAKE (sz_sub header_pos 5)))))))"

definition ssl_srp_write_srp :: "bytes \<Rightarrow> nat \<Rightarrow> ('h, 'm, 'c, unit) tls_op" where
  "ssl_srp_write_srp username len =
     bindS (liftE (assertE (len < 254))) (\<lambda>_.
     bindS (write_be16 12) (\<lambda>_.
     bindS (write_be16 (of_nat (len + 1))) (\<lambda>_.
     bindS (write_bytes [of_nat len]) (\<lambda>_.
     bindS (liftE (mem_read username 0 len)) (\<lambda>name. write_bytes name)))))"

definition ssl_srp_write_extension :: "('h, 'm, 'c, unit) tls_op" where
  "ssl_srp_write_extension =
     bindS write_size (\<lambda>extensions_len_pos.
     bindS (write_reserve 2) (\<lambda>_.
     bindS (write_be16 0xADAE) (\<lambda>_.
     bindS (write_be16 0) (\<lambda>_.
     bindS (gets (\<lambda>s. (srp_username s, srp_username_len s))) (\<lambda>(name, n).
     bindS (ssl_srp_write_srp name n) (\<lambda>_.
     bindS write_size (\<lambda>end_pos.
     let extension_len = end_pos - (extensions_len_pos + 2) in
     bindS (fail_if (65535 < extension_len) ERR_SSL_UNSUCCESSFUL) (\<lambda>_.
       write_at extensions_len_pos (be16enc (of_nat extension_len))))))))))"

fun write_each :: "u16 list \<Rightarrow> ('h, 'm, 'c, unit) tls_op" where
  "write_each [] = ret ()"
| "write_each (c # cs) = bindS (write_be16 c) (\<lambda>_. write_each cs)"

definition ciphers :: "u16 list" where
  "ciphers = [TLS_SRP_SHA_WITH_AES_256_CBC_SHA, TLS_SRP_SHA_WITH_AES_128_CBC_SHA, 0xFF02, 0xFF01,
     TLS_SRP_SHA_WITH_LEGACY_PASSWORD, 0xFF03]"

definition write_pushed :: "bytes \<Rightarrow> ('h, 'm, 'c, unit) tls_op" where
  "write_pushed bs = bindS (write_reserve (length bs)) (\<lambda>p. write_at p bs)"

definition ssl_srp_write_client_hello_body :: "('h, 'm, 'c, unit) tls_op" where
  "ssl_srp_write_client_hello_body =
     bindS (write_bytes [3]) (\<lambda>_. bindS (write_bytes [3]) (\<lambda>_.
     bindS (gets client_random) (\<lambda>r.
     bindS (write_pushed (be32enc (rnd_time r))) (\<lambda>_.
     bindS (write_bytes (rnd_bytes r)) (\<lambda>_.
     bindS (write_bytes [0]) (\<lambda>_.
     bindS (write_be16 (of_nat (2 * length ciphers))) (\<lambda>_.
     bindS (write_each ciphers) (\<lambda>_.
     bindS (write_bytes [1]) (\<lambda>_. bindS (write_bytes [0]) (\<lambda>_.
       ssl_srp_write_extension))))))))))"

definition in_state :: "ssl_sts_state \<Rightarrow> ('h, 'm, 'c, unit) tls_op" where
  "in_state st = bindS (gets ssl_state) (\<lambda>st'. liftE (assertE (st' = st)))"

definition to_state :: "ssl_sts_state \<Rightarrow> ('h, 'm, 'c, unit) tls_op" where
  "to_state st = modify (\<lambda>s. s\<lparr>ssl_state := st\<rparr>)"

definition ssl_srp_write_client_hello :: "('h, 'm, 'c) library \<Rightarrow> ('h, 'm, 'c, unit) tls_op" where
  "ssl_srp_write_client_hello L =
     bindS (in_state AWAIT_CLIENT_HELLO) (\<lambda>_.
     bindS (ssl_srp_start_handshake_msg SSL_HS_CLIENT_HELLO) (\<lambda>header_pos.
     bindS ssl_srp_write_client_hello_body (\<lambda>_.
     bindS (ssl_srp_finish_handshake_msg L header_pos SSL_HS_CLIENT_HELLO) (\<lambda>_.
       to_state AWAIT_SERVER_HELLO))))"

section \<open>Big numbers\<close>

definition mpi_read_binary :: "bytes \<Rightarrow> int" where
  "mpi_read_binary bs = int (be_value bs)"

definition mpi_write_binary :: "nat \<Rightarrow> int \<Rightarrow> bytes option" where
  "mpi_write_binary n x = (if \<bar>x\<bar> < 256 ^ n then Some (be_bytes n (nat \<bar>x\<bar>)) else None)"

definition compute_client_public :: "('h, 'm, 'c) library \<Rightarrow> ('h, 'm, 'c, unit) tls_op" where
  "compute_client_public L =
     bindS (gets (\<lambda>s. (srv_key s, cli_key s))) (\<lambda>(sk, ck).
     bindS (lib (lib_exp_mod L (mpi_read_binary (generator sk)) (mpi_read_binary (cli_private ck)) (mpi_read_binary (prime sk)))) (\<lambda>x.
     bindS (lib (mpi_write_binary 128 x)) (\<lambda>bs.
       modify (\<lambda>s. s\<lparr>cli_key := (cli_key s)\<lparr>cli_public := bs\<rparr>\<rparr>))))"

definition ssl_srp_write_client_key_exchange :: "('h, 'm, 'c) library \<Rightarrow> ('h, 'm, 'c, unit) tls_op" where
  "ssl_srp_write_client_key_exchange L =
     bindS (in_state AWAIT_CLIENT_KEY_EXCHANGE) (\<lambda>_.
     bindS (compute_client_public L) (\<lambda>_.
     bindS (ssl_srp_start_handshake_msg SSL_HS_CLIENT_KEY_EXCHANGE) (\<lambda>header_pos.
     bindS (gets (\<lambda>s. cli_public (cli_key s))) (\<lambda>pub.
     bindS (write_be16 128) (\<lambda>_.
     bindS (write_bytes pub) (\<lambda>_.
     bindS (ssl_srp_finish_handshake_msg L header_pos SSL_HS_CLIENT_KEY_EXCHANGE) (\<lambda>_.
       to_state AWAIT_CLIENT_CHANGE_CIPHER_SPEC)))))))"

definition ssl_srp_write_change_cipher_spec :: "('h, 'm, 'c, unit) tls_op" where
  "ssl_srp_write_change_cipher_spec =
     bindS (write_bytes [SSL_MSG_CHANGE_CIPHER_SPEC]) (\<lambda>_.
     bindS (write_bytes [3]) (\<lambda>_. bindS (write_bytes [3]) (\<lambda>_.
     bindS (write_be16 1) (\<lambda>_. bindS (write_bytes [1]) (\<lambda>_.
       to_state AWAIT_CLIENT_HANDSHAKE)))))"

definition ssl_srp_write_finished :: "('h, 'm, 'c) library \<Rightarrow> ('h, 'm, 'c, unit) tls_op" where
  "ssl_srp_write_finished L =
     bindS (in_state AWAIT_CLIENT_HANDSHAKE) (\<lambda>_.
     bindS write_size (\<lambda>size_at_start.
     bindS (gets client_finished) (\<lambda>finished.
     bindS (write_bytes [SSL_HS_FINISHED]) (\<lambda>_.
     bindS (write_pushed (be24 12)) (\<lambda>_.
     bindS (write_bytes finished) (\<lambda>_.
     bindS (gets write_buf) (\<lambda>b.
     bindS (liftE (mem_read (arr_data b) size_at_start (arr_size b - size_at_start))) (\<lambda>pack.
     bindS (gets checksum) (\<lambda>h.
     bindS (lib (sha256_update L h pack)) (\<lambda>h.
     bindS (modify (\<lambda>s. s\<lparr>checksum := h\<rparr>)) (\<lambda>_.
       to_state AWAIT_SERVER_CHANGE_CIPHER_SPEC)))))))))))"

section \<open>Parsing handshake messages\<close>

definition set_random_time :: "u32 \<Rightarrow> ('h, 'm, 'c, unit) tls_op" where
  "set_random_time t = modify (\<lambda>s. s\<lparr>server_random := (server_random s)\<lparr>rnd_time := t\<rparr>\<rparr>)"

definition set_random_bytes :: "bytes \<Rightarrow> ('h, 'm, 'c, unit) tls_op" where
  "set_random_bytes bs = modify (\<lambda>s. s\<lparr>server_random := (server_random s)\<lparr>rnd_bytes := bs\<rparr>\<rparr>)"

definition choose_hash :: "u16 \<Rightarrow> ('h, 'm, 'c, unit) tls_op" where
  "choose_hash cipher_suite =
     (if cipher_suite = TLS_SRP_SHA_WITH_AES_256_CBC_SHA then
        modify (\<lambda>s. s\<lparr>which_hash_verifier := static_verifier_hash s\<rparr>)
      else if cipher_suite = TLS_SRP_SHA_WITH_LEGACY_PASSWORD then
        modify (\<lambda>s. s\<lparr>which_hash_verifier := static_legacy_hash s\<rparr>)
      else fail (Code ERR_SSL_BAD_INPUT_DATA))"

text \<open>The header of a handshake message: type and length; the result is the stream behind it.\<close>

definition handshake_content :: "u8 \<Rightarrow> bytes \<Rightarrow> fault + (ssl_error + in_stream)" where
  "handshake_content hs_type data =
     andThen (reject_if (length data < 4) ERR_SSL_BAD_INPUT_DATA) (\<lambda>_.
     bindE (idx data 0) (\<lambda>t.
     andThen (reject_if (t \<noteq> hs_type) ERR_SSL_UNEXPECTED_MESSAGE) (\<lambda>_.
     bindE (be24dec (drop 1 data)) (\<lambda>content_len.
     andThen (reject_if (length data - 4 \<noteq> unat content_len) ERR_SSL_BAD_INPUT_DATA) (\<lambda>_.
       Inr (Inr (drop 4 data, unat content_len)))))))"

definition parse_server_hello :: "bytes \<Rightarrow> ('h, 'm, 'c, unit) tls_op" where
  "parse_server_hello data =
     bindS (coded (handshake_content SSL_HS_SERVER_HELLO data)) (\<lambda>content.
     bindS (coded (chk_stream_read16 content)) (\<lambda>(version, content).
     bindS (fail_if (version \<noteq> 0x0303) ERR_SSL_BAD_INPUT_DATA) (\<lambda>_.
     bindS (coded (chk_stream_read32 content)) (\<lambda>(time, content).
     bindS (set_random_time time) (\<lambda>_.
     bindS (coded (chk_stream_read content 28)) (\<lambda>(bs, content).
     bindS (set_random_bytes bs) (\<lambda>_.
     bindS (coded (chk_stream_read8 content)) (\<lambda>(session_id_len, content).
     bindS (fail_if (session_id_len \<noteq> 0) ERR_SSL_BAD_INPUT_DATA) (\<lambda>_.
     bindS (coded (chk_stream_read16 content)) (\<lambda>(cipher_suite, content).
     bindS (choose_hash cipher_suite) (\<lambda>_.
     bindS (coded (chk_stream_read8 content)) (\<lambda>(compression_method, content).
     bindS (fail_if (compression_method \<noteq> 0) ERR_SSL_BAD_INPUT_DATA) (\<lambda>_.
     bindS (coded (chk_stream_read16 content)) (\<lambda>(extension_len, content).
       fail_if (snd content \<noteq> unat extension_len) ERR_SSL_BAD_INPUT_DATA))))))))))))))"

definition set_key :: "(server_key \<Rightarrow> server_key) \<Rightarrow> ('h, 'm, 'c, unit) tls_op" where
  "set_key f = modify (\<lambda>s. s\<lparr>srv_key := f (srv_key s)\<rparr>)"

definition parse_server_key_exchange :: "bytes \<Rightarrow> ('h, 'm, 'c, unit) tls_op" where
  "parse_server_key_exchange data =
     bindS (coded (handshake_content SSL_HS_SERVER_KEY_EXCHANGE data)) (\<lambda>content.
     bindS (coded (chk_stream_read16 content)) (\<lambda>(prime_len, content).
     bindS (fail_if (unat prime_len \<noteq> 128) ERR_SSL_UNSUPPORTED_PROTOCOL) (\<lambda>_.
     bindS (coded (chk_stream_read content 128)) (\<lambda>(bs, content).
     bindS (set_key (\<lambda>k. k\<lparr>prime := bs\<rparr>)) (\<lambda>_.
     bindS (coded (chk_stream_read16 content)) (\<lambda>(generator_len, content).
     bindS (fail_if (unat generator_len \<noteq> 1) ERR_SSL_UNSUPPORTED_PROTOCOL) (\<lambda>_.
     bindS (coded (chk_stream_read content 1)) (\<lambda>(bs, content).
     bindS (set_key (\<lambda>k. k\<lparr>generator := bs\<rparr>)) (\<lambda>_.
     bindS (coded (chk_stream_read8 content)) (\<lambda>(salt_len, content).
     bindS (fail_if (unat salt_len \<noteq> 8) ERR_SSL_UNSUPPORTED_PROTOCOL) (\<lambda>_.
     bindS (coded (chk_stream_read content 8)) (\<lambda>(bs, content).
     bindS (set_key (\<lambda>k. k\<lparr>salt := bs\<rparr>)) (\<lambda>_.
     bindS (coded (chk_stream_read16 content)) (\<lambda>(server_public_len, content).
     bindS (fail_if (unat server_public_len \<noteq> 128) ERR_SSL_UNSUPPORTED_PROTOCOL) (\<lambda>_.
     bindS (coded (chk_stream_read content 128)) (\<lambda>(bs, content).
     bindS (set_key (\<lambda>k. k\<lparr>server_public := bs\<rparr>)) (\<lambda>_.
       fail_if (snd content \<noteq> 0) ERR_SSL_BAD_INPUT_DATA)))))))))))))))))"

text \<open>A step that takes one whole record with a handshake message out of the read buffer.\<close>

definition process_record ::
    "('h, 'm, 'c) library \<Rightarrow> ssl_sts_state \<Rightarrow> u8 \<Rightarrow> bool \<Rightarrow> (bytes \<Rightarrow> ('h, 'm, 'c, unit) tls_op) \<Rightarrow> ssl_sts_state \<Rightarrow>
     ('h, 'm, 'c, unit) tls_op" where
  "process_record L from_state ty include_msg parse next_state =
     bindS (in_state from_state) (\<lambda>_.
     bindS (parse_tls12_handshake L ty include_msg) (\<lambda>inner.
     bindS (parse inner) (\<lambda>_.
     bindS (consume (5 + length inner)) (\<lambda>_.
       to_state next_state))))"

definition expect :: "bytes \<Rightarrow> bytes \<Rightarrow> ('h, 'm, 'c, unit) tls_op" where
  "expect expected inner =
     bindS (fail_if (length inner \<noteq> length expected) ERR_SSL_BAD_INPUT_DATA) (\<lambda>_.
       fail_if (memcmp inner expected \<noteq> 0) ERR_SSL_BAD_INPUT_DATA)"

definition ssl_srp_process_server_hello :: "('h, 'm, 'c) library \<Rightarrow> ('h, 'm, 'c, unit) tls_op" where
  "ssl_srp_process_server_hello L =
     process_record L AWAIT_SERVER_HELLO SSL_MSG_HANDSHAKE True parse_server_hello AWAIT_SERVER_KEY_EXCHANGE"

definition ssl_srp_process_server_key_exchange :: "('h, 'm, 'c) library \<Rightarrow> ('h, 'm, 'c, unit) tls_op" where
  "ssl_srp_process_server_key_exchange L =
     process_record L AWAIT_SERVER_KEY_EXCHANGE SSL_MSG_HANDSHAKE True parse_server_key_exchange AWAIT_SERVER_HELLO_DONE"

definition ssl_srp_process_server_done :: "('h, 'm, 'c) library \<Rightarrow> ('h, 'm, 'c, unit) tls_op" where
  "ssl_srp_process_server_done L =
     process_record L AWAIT_SERVER_HELLO_DONE SSL_MSG_HANDSHAKE True (expect [14, 0, 0, 0]) AWAIT_CLIENT_KEY_EXCHANGE"

definition ssl_srp_process_change_cipher_spec :: "('h, 'm, 'c) library \<Rightarrow> ('h, 'm, 'c, unit) tls_op" where
  "ssl_srp_process_change_cipher_spec L =
     process_record L AWAIT_SERVER_CHANGE_CIPHER_SPEC SSL_MSG_CHANGE_CIPHER_SPEC False (expect [1]) AWAIT_SERVER_ENC_HANDSHAKE"

section \<open>Secrets\<close>

definition ssl_srp_compute_premaster_secret :: "('h, 'm, 'c) library \<Rightarrow> ('h, 'm, 'c, unit) tls_op" where
  "ssl_srp_compute_premaster_secret L =
     bindS (gets (\<lambda>s. (srv_key s, cli_key s, which_hash_verifier s))) (\<lambda>(sk, ck, verifier_hash).
     let none = replicate 20 0; verifier_digest = sha1_of_two_values L none (salt sk) verifier_hash;
         padding = length (prime sk) in
     bindS (coded (sha1_of_two_values_with_padding L none padding (cli_public ck) (server_public sk))) (\<lambda>u_buffer.
     bindS (coded (sha1_of_two_values_with_padding L none padding (prime sk) (generator sk))) (\<lambda>k_buffer.
     let generator = mpi_read_binary (generator sk); prime = mpi_read_binary (prime sk);
         server_public = mpi_read_binary (server_public sk); client_private = mpi_read_binary (cli_private ck);
         verifier = mpi_read_binary verifier_digest; u = mpi_read_binary u_buffer; k = mpi_read_binary k_buffer in
     bindS (lib (lib_exp_mod L generator verifier prime)) (\<lambda>base1.
     let base2 = k * base1; base = server_public - base2; exponent1 = u * verifier;
         exponent = client_private + exponent1 in
     bindS (lib (lib_exp_mod L base exponent prime)) (\<lambda>premaster.
     bindS (lib (mpi_write_binary 128 premaster)) (\<lambda>bs.
       modify (\<lambda>s. s\<lparr>premaster_secret := bs\<rparr>)))))))"

definition serialize_tls12_random :: "tls12_random \<Rightarrow> bytes" where
  "serialize_tls12_random r = be32enc (rnd_time r) @ rnd_bytes r"

definition ssl_sts_connection_setup_ciphers :: "('h, 'm, 'c) library \<Rightarrow> ('h, 'm, 'c, unit) tls_op" where
  "ssl_sts_connection_setup_ciphers L =
     bindS (ssl_srp_compute_premaster_secret L) (\<lambda>_.
     bindS (gets (\<lambda>s. (premaster_secret s, serialize_tls12_random (client_random s), serialize_tls12_random (server_random s), master_secret s)))
       (\<lambda>(premaster, client, server, m).
     bindS (coded (tls_prf_sha256 (hmac_sha256 L) premaster (str ''master secret'') (client @ server) m 48)) (\<lambda>master.
     bindS (modify (\<lambda>s. s\<lparr>master_secret := master\<rparr>)) (\<lambda>_.
     bindS (coded (tls_prf_sha256 (hmac_sha256 L) master (str ''key expansion'') (server @ client) (replicate 104 0) 104)) (\<lambda>key_expansion.
     bindS (lib (aes_setkey_enc L (take 32 (drop 40 key_expansion)))) (\<lambda>c.
     bindS (modify (\<lambda>s. s\<lparr>cipher_enc := c\<rparr>)) (\<lambda>_.
     bindS (lib (aes_setkey_dec L (take 32 (drop 72 key_expansion)))) (\<lambda>c.
     bindS (modify (\<lambda>s. s\<lparr>cipher_dec := c\<rparr>)) (\<lambda>_.
     bindS (lib (md_hmac_starts L (take 20 key_expansion))) (\<lambda>h.
     bindS (modify (\<lambda>s. s\<lparr>mac_enc := h\<rparr>)) (\<lambda>_.
     bindS (lib (md_hmac_starts L (take 20 (drop 20 key_expansion)))) (\<lambda>h.
     bindS (modify (\<lambda>s. s\<lparr>mac_dec := h\<rparr>)) (\<lambda>_.
     bindS (gets (\<lambda>s. (checksum s, client_finished s))) (\<lambda>(ctx, finished).
     bindS (lib (sha256_finish L ctx)) (\<lambda>digest.
     bindS (coded (tls_prf_sha256 (hmac_sha256 L) master (str ''client finished'') digest finished 12)) (\<lambda>finished.
       modify (\<lambda>s. s\<lparr>client_finished := finished\<rparr>)))))))))))))))))"

definition ssl_srp_process_encrypted_handshake :: "('h, 'm, 'c) library \<Rightarrow> ('h, 'm, 'c, unit) tls_op" where
  "ssl_srp_process_encrypted_handshake L =
     bindS (in_state AWAIT_SERVER_ENC_HANDSHAKE) (\<lambda>_.
     bindS (ssl_sts_connection_recv_internal L SSL_MSG_HANDSHAKE 1024) (\<lambda>msg.
     bindS (fail_if (length msg \<noteq> 16) ERR_SSL_BAD_INPUT_DATA) (\<lambda>_.
     bindS (gets (\<lambda>s. (checksum s, master_secret s, server_finished s))) (\<lambda>(ctx, master, finished).
     bindS (lib (sha256_finish L ctx)) (\<lambda>digest.
     bindS (coded (tls_prf_sha256 (hmac_sha256 L) master (str ''server finished'') digest finished 12)) (\<lambda>finished.
     bindS (modify (\<lambda>s. s\<lparr>server_finished := finished\<rparr>)) (\<lambda>_.
     bindS (liftE (mem_read msg 0 4)) (\<lambda>head.
     bindS (fail_if (memcmp head [20, 0, 0, 12] \<noteq> 0) ERR_SSL_BAD_INPUT_DATA) (\<lambda>_.
     bindS (liftE (mem_read msg 4 12)) (\<lambda>verify.
     bindS (fail_if (memcmp verify finished \<noteq> 0) ERR_SSL_BAD_INPUT_DATA) (\<lambda>_.
       to_state AWAIT_CLIENT_FINISHED)))))))))))"

section \<open>The handshake\<close>

definition wait_for_server_step :: "('h, 'm, 'c, unit) tls_op \<Rightarrow> ('h, 'm, 'c, unit) tls_op" where
  "wait_for_server_step step = await (\<lambda>_. Code ERR_SSL_UNEXPECTED_MESSAGE) step"

definition clear_write :: "('h, 'm, 'c, unit) tls_op" where
  "clear_write = modify (\<lambda>s. s\<lparr>write_buf := array_clear (write_buf s)\<rparr>)"

definition send_client_step :: "('h, 'm, 'c) library \<Rightarrow> ('h, 'm, 'c, unit) tls_op \<Rightarrow> ('h, 'm, 'c, unit) tls_op" where
  "send_client_step L step =
     bindS write_size (\<lambda>n.
     bindS (liftE (assertE (n = 0))) (\<lambda>_.
     bindS step (\<lambda>_.
     bindS (gets write_buf) (\<lambda>b.
     bindS (liftE (mem_read (arr_data b) 0 (arr_size b))) (\<lambda>data.
     bindS (send_bytes L data) (\<lambda>_. clear_write))))))"

text \<open>Every error becomes the general one; a wait that has not ended stays one.\<close>

definition generally :: "('s, 'a) op \<Rightarrow> ('s, 'a) op" where
  "generally m s = bindE (m s) (\<lambda>(r, s). Inr (case r of
     Inl Waiting \<Rightarrow> Inl Waiting | Inl _ \<Rightarrow> Inl (Code ERR_SSL_UNSUCCESSFUL) | Inr x \<Rightarrow> Inr x, s))"

definition ssl_sts_connection_handshake :: "('h, 'm, 'c) library \<Rightarrow> ('h, 'm, 'c, unit) tls_op" where
  "ssl_sts_connection_handshake L = generally (
     bindS (gets ssl_state) (\<lambda>st.
     bindS (fail_if (st \<noteq> AWAIT_CLIENT_HELLO) ERR_SSL_UNSUCCESSFUL) (\<lambda>_.
     bindS (send_client_step L (ssl_srp_write_client_hello L)) (\<lambda>_.
     bindS (wait_for_server_step (ssl_srp_process_server_hello L)) (\<lambda>_.
     bindS (wait_for_server_step (ssl_srp_process_server_key_exchange L)) (\<lambda>_.
     bindS (wait_for_server_step (ssl_srp_process_server_done L)) (\<lambda>_.
     bindS (send_client_step L (ssl_srp_write_client_key_exchange L)) (\<lambda>_.
     bindS (send_client_step L ssl_srp_write_change_cipher_spec) (\<lambda>_.
     bindS (ssl_sts_connection_setup_ciphers L) (\<lambda>_.
     bindS (ssl_srp_write_finished L) (\<lambda>_.
     bindS (gets write_buf) (\<lambda>b.
     bindS (liftE (mem_read (arr_data b) 0 (arr_size b))) (\<lambda>data.
     bindS (ssl_sts_connection_send_internal L SSL_MSG_HANDSHAKE data) (\<lambda>_.
     bindS (wait_for_server_step (ssl_srp_process_change_cipher_spec L)) (\<lambda>_.
     bindS (wait_for_server_step (ssl_srp_process_encrypted_handshake L)) (\<lambda>_.
     bindS (modify (\<lambda>s. s\<lparr>read_buf := array_clear (read_buf s)\<rparr>)) (\<lambda>_.
     bindS clear_write (\<lambda>_.
       to_state AWAIT_CLIENT_FINISHED))))))))))))))))))"

end
