(* ===== verification/Tls_Stream.thy ===== *)
theory Tls_Stream
  imports Tls_Record
begin

unbundle bit_operations_syntax

text \<open>
  Records from one connection to another: what the sender puts on the wire, and that a receiver
  with matching keys takes the same message out of it, however the network cuts the stream.
\<close>

section \<open>The write buffer\<close>

lemma write_bytes_step:
  assumes "arr_ok (write_buf s)" "length (contents (write_buf s)) + length bs \<le> buf_limit"
  shows "\<exists>b. write_bytes bs s = Inr (Inr (), s\<lparr>write_buf := b\<rparr>) \<and> arr_ok b \<and> contents b = contents (write_buf s) @ bs"
  using put_ok [OF assms] by (auto simp: write_bytes_def bindS_def op_simps_intro)

lemma write_reserve_step:
  assumes "arr_ok (write_buf s)" "length (contents (write_buf s)) + n \<le> buf_limit"
  shows "\<exists>b z. write_reserve n s = Inr (Inr (length (contents (write_buf s))), s\<lparr>write_buf := b\<rparr>) \<and> arr_ok b \<and>
    contents b = contents (write_buf s) @ z \<and> length z = n"
proof -
  have l: "length (contents (write_buf s)) = arr_size (write_buf s)" using assms(1) by (rule length_contents)
  then have small: "2 * (arr_size (write_buf s) + n) * 1 + ARRAY_MIN_CAPACITY * 1 < SZ"
    using assms(2) by (simp add: SZ_def ARRAY_MIN_CAPACITY_def)
  obtain a where a: "byte_push (write_buf s) n = Inr (Some (arr_size (write_buf s)), a)" "arr_ok a"
    "arr_size a = arr_size (write_buf s) + n" "take (arr_size (write_buf s)) (contents a) = contents (write_buf s)"
    using array_push_ok [OF assms(1) _ small, of "\<lambda>_. True" 0] by auto
  have "contents a = contents (write_buf s) @ drop (arr_size (write_buf s)) (contents a)"
    using a(4) by (metis append_take_drop_id)
  moreover have "length (drop (arr_size (write_buf s)) (contents a)) = n"
    using a(3) length_contents [OF a(2)] by simp
  moreover have "write_reserve n s = Inr (Inr (length (contents (write_buf s))), s\<lparr>write_buf := a\<rparr>)"
    using a(1) l by (simp add: write_reserve_def bindS_def op_simps_intro)
  ultimately show ?thesis using a(2) by blast
qed

lemma take_overlay_inside:
  assumes "i + length bs \<le> n" "n \<le> length m"
  shows "take n (overlay m i bs) = overlay (take n m) i bs"
proof -
  obtain k where "n = i + length bs + k" using assms(1) le_Suc_ex by blast
  then show ?thesis using assms(2) by (simp add: overlay_def take_drop add.commute)
qed

lemma write_at_step:
  assumes "arr_ok (write_buf s)" "i + length bs \<le> length (contents (write_buf s))"
  shows "\<exists>b. write_at i bs s = Inr (Inr (), s\<lparr>write_buf := b\<rparr>) \<and> arr_ok b \<and> contents b = overlay (contents (write_buf s)) i bs"
proof -
  let ?b = "write_buf s"
  have l: "length (contents ?b) = arr_size ?b" "arr_size ?b \<le> length (arr_data ?b)"
    using length_contents [OF assms(1)] assms(1) by (simp_all add: arr_ok_def)
  then have fits: "i + length bs \<le> arr_size ?b" using assms(2) by simp
  have "take (arr_size ?b) (overlay (arr_data ?b) i bs) = overlay (contents ?b) i bs"
    unfolding contents_def using fits l(2) by (rule take_overlay_inside)
  moreover have "arr_ok (?b\<lparr>arr_data := overlay (arr_data ?b) i bs\<rparr>)"
    using assms(1) fits l(2) by (simp add: arr_ok_def)
  ultimately show ?thesis
    using fits l(2) by (auto simp: write_at_def bindS_def op_simps_intro contents_def)
qed

lemma header_step:
  assumes "arr_ok (write_buf s)" "length (contents (write_buf s)) + 5 \<le> buf_limit" "n \<le> 65535"
  shows "\<exists>b. ssl_srp_write_protocol_header t n s = Inr (Inr (), s\<lparr>write_buf := b\<rparr>) \<and> arr_ok b \<and>
    contents b = contents (write_buf s) @ [t, 3, 3] @ be16enc (of_nat n)"
proof -
  let ?w = "contents (write_buf s)"
  obtain b1 where b1: "write_bytes [t] s = Inr (Inr (), s\<lparr>write_buf := b1\<rparr>)" "arr_ok b1" "contents b1 = ?w @ [t]"
    using write_bytes_step [OF assms(1), of "[t]"] assms(2) by auto
  obtain b2 where b2: "write_bytes [3] (s\<lparr>write_buf := b1\<rparr>) = Inr (Inr (), s\<lparr>write_buf := b2\<rparr>)" "arr_ok b2" "contents b2 = ?w @ [t, 3]"
    using write_bytes_step [of "s\<lparr>write_buf := b1\<rparr>" "[3]"] b1(2,3) assms(2) by auto
  obtain b3 where b3: "write_bytes [3] (s\<lparr>write_buf := b2\<rparr>) = Inr (Inr (), s\<lparr>write_buf := b3\<rparr>)" "arr_ok b3" "contents b3 = ?w @ [t, 3, 3]"
    using write_bytes_step [of "s\<lparr>write_buf := b2\<rparr>" "[3]"] b2(2,3) assms(2) by auto
  obtain b4 z where b4: "write_reserve 2 (s\<lparr>write_buf := b3\<rparr>) = Inr (Inr (length ?w + 3), s\<lparr>write_buf := b4\<rparr>)" "arr_ok b4"
    "contents b4 = ?w @ [t, 3, 3] @ z" "length z = 2"
    using write_reserve_step [of "s\<lparr>write_buf := b3\<rparr>" 2] b3(2,3) assms(2) by (auto simp: numeral_3_eq_3)
  have o: "overlay (?w @ [t, 3, 3] @ z) (length ?w + 3) (be16enc (of_nat n)) = ?w @ [t, 3, 3] @ be16enc (of_nat n)"
    using b4(4) by (simp add: overlay_def)
  obtain b5 where b5: "write_at (length ?w + 3) (be16enc (of_nat n)) (s\<lparr>write_buf := b4\<rparr>) = Inr (Inr (), s\<lparr>write_buf := b5\<rparr>)"
    "arr_ok b5" "contents b5 = ?w @ [t, 3, 3] @ be16enc (of_nat n)"
    using write_at_step [of "s\<lparr>write_buf := b4\<rparr>" "length ?w + 3" "be16enc (of_nat n)"] b4(2,3,4) o by auto
  show ?thesis
    using assms(3) b5 by (auto simp: ssl_srp_write_protocol_header_def bindS_def op_simps_intro b1(1) b2(1) b3(1) b4(1))
qed

section \<open>Padding\<close>

lemma padding_of_facts:
  assumes "padding_of n = (al, v)"
  shows "n < al" "al - n \<le> 16" "unat v + 1 = al - n" "16 dvd al" "unat v < 16"
proof -
  have al: "al = (if n = (n + 15) div 16 * 16 then n + 16 else (n + 15) div 16 * 16)" "v = of_nat (al - n) - 1"
    using assms by (auto simp: padding_of_def Let_def)
  have "n \<le> (n + 15) div 16 * 16" "(n + 15) div 16 * 16 \<le> n + 15" by presburger+
  then show a: "n < al" "al - n \<le> 16" by (auto simp: al(1))
  show "16 dvd al" by (cases "n = (n + 15) div 16 * 16") (simp_all add: al(1), presburger)
  have "unat (of_nat d - 1 :: u8) = d - 1" if "0 < d" "d \<le> 16" for d
    using that by (subst unat_sub_if') (simp add: word_le_nat_alt unat_of_nat take_bit_eq_mod)
  from this [of "al - n"] have "unat v = al - n - 1" unfolding al(2) using a by simp
  then show "unat v + 1 = al - n" "unat v < 16" using a by simp_all
qed

definition padded :: "bytes \<Rightarrow> bytes" where
  "padded m = m @ (case padding_of (length m) of (_, v) \<Rightarrow> replicate (unat v + 1) v)"

lemma length_padded_dvd: "16 dvd length (padded m)" "length m < length (padded m)" "length (padded m) \<le> length m + 16"
  using padding_of_facts [of "length m"] by (auto simp: padded_def split: prod.splits)

lemma unpad_padded: "unpad (padded m) = Inr (Inr m)"
proof -
  obtain al v where p: "padding_of (length m) = (al, v)" by (cases "padding_of (length m)")
  note f = padding_of_facts [OF p]
  have pl: "unat (v + 1) = unat v + 1" using f(5) by (simp add: unat_word_ariths)
  have e: "padded m = m @ replicate (unat v + 1) v" by (simp add: padded_def p)
  have l: "length (padded m) = length m + (unat v + 1)" by (simp add: e)
  have "idx (padded m) (length (padded m) - 1) = Inr v"
    using nth_replicate [of "unat v" "unat v + 1" v] nth_append_length_plus [of m "replicate (unat v + 1) v" "unat v"]
    by (simp add: e del: replicate_Suc)
  moreover have "mem_read (padded m) (length (padded m) - unat (v + 1)) (unat (v + 1)) = Inr (replicate (unat v + 1) v)"
    unfolding pl l unfolding e by simp
  ultimately show ?thesis
    by (simp add: unpad_def Let_def pl l list_ex_iff) (simp add: e)
qed

section \<open>What is sent\<close>

definition hash_works :: "('h, 'm, 'c) library \<Rightarrow> bool" where
  "hash_works L \<longleftrightarrow> (\<forall>m bs. md_hmac_update L m bs \<noteq> None) \<and>
     (\<forall>m. \<exists>d. md_hmac_finish L m = Some d \<and> length d = 20) \<and> (\<forall>m. md_hmac_reset L m \<noteq> None)"

definition cipher_pair :: "('h, 'm, 'c) library \<Rightarrow> 'c \<Rightarrow> 'c \<Rightarrow> bool" where
  "cipher_pair L c d \<longleftrightarrow>
     (\<forall>b. length b = 16 \<longrightarrow> (\<exists>b'. aes_encrypt_block L c b = Some b' \<and> length b' = 16)) \<and>
     (\<forall>iv x. length iv = 16 \<and> 16 dvd length x \<longrightarrow> (\<exists>iv' y iv''. aes_cbc_encrypt L c iv x = Some (iv', y) \<and>
        length iv' = 16 \<and> length y = length x \<and> aes_cbc_decrypt L d iv y = Some (iv'', x)))"

definition sends_all :: "('h, 'm, 'c) library \<Rightarrow> bool" where
  "sends_all L \<longleftrightarrow> (\<forall>n k p. p \<noteq> [] \<longrightarrow> 0 < lib_send L n k p \<and> lib_send L n k p \<le> int (length p))"

text \<open>The digest of a record and the context after it.\<close>

definition mac_fed :: "('h, 'm, 'c) library \<Rightarrow> 'm \<Rightarrow> bytes list \<Rightarrow> 'm" where
  "mac_fed L m parts = foldl (\<lambda>m p. the (md_hmac_update L m p)) m parts"

definition record_parts :: "u8 \<Rightarrow> bytes \<Rightarrow> bytes \<Rightarrow> bytes list" where
  "record_parts t i data = [i, [t, 3, 3] @ be16enc (of_nat (length data)), data]"

definition record_digest :: "('h, 'm, 'c) library \<Rightarrow> 'm \<Rightarrow> u8 \<Rightarrow> bytes \<Rightarrow> bytes \<Rightarrow> bytes" where
  "record_digest L m t i data = the (md_hmac_finish L (mac_fed L m (record_parts t i data)))"

definition record_mac :: "('h, 'm, 'c) library \<Rightarrow> 'm \<Rightarrow> u8 \<Rightarrow> bytes \<Rightarrow> bytes \<Rightarrow> 'm" where
  "record_mac L m t i data = the (md_hmac_reset L (mac_fed L m (record_parts t i data)))"

definition next_iv :: "('h, 'm, 'c) library \<Rightarrow> ('h, 'm, 'c) session \<Rightarrow> bytes" where
  "next_iv L s = the (aes_encrypt_block L (cipher_enc s) (inc_from 0 (iv_enc s)))"

definition record_cipher :: "('h, 'm, 'c) library \<Rightarrow> ('h, 'm, 'c) session \<Rightarrow> u8 \<Rightarrow> bytes \<Rightarrow> bytes \<times> bytes" where
  "record_cipher L s t data = the (aes_cbc_encrypt L (cipher_enc s) (next_iv L s)
     (padded (data @ record_digest L (mac_enc s) t (next_write_id s) data)))"

definition record_body :: "('h, 'm, 'c) library \<Rightarrow> ('h, 'm, 'c) session \<Rightarrow> u8 \<Rightarrow> bytes \<Rightarrow> bytes" where
  "record_body L s t data = next_iv L s @ snd (record_cipher L s t data)"

definition framed :: "u8 \<Rightarrow> bytes \<Rightarrow> bytes" where
  "framed t body = [t, 3, 3] @ be16enc (of_nat (length body)) @ body"

lemma length_framed: "length (framed t body) = 5 + length body"
  by (simp add: framed_def)

lemma hash_worksD:
  assumes "hash_works L"
  shows "md_hmac_update L m bs = Some (the (md_hmac_update L m bs))"
    "md_hmac_finish L m = Some (the (md_hmac_finish L m))" "length (the (md_hmac_finish L m)) = 20"
    "md_hmac_reset L m = Some (the (md_hmac_reset L m))"
proof -
  have a: "md_hmac_update L m bs \<noteq> None" "\<exists>d. md_hmac_finish L m = Some d \<and> length d = 20" "md_hmac_reset L m \<noteq> None"
    using assms by (simp_all add: hash_works_def)
  from a(1) show "md_hmac_update L m bs = Some (the (md_hmac_update L m bs))" by (rule option.collapse [symmetric])
  from a(3) show "md_hmac_reset L m = Some (the (md_hmac_reset L m))" by (rule option.collapse [symmetric])
  from a(2) obtain d where "md_hmac_finish L m = Some d" "length d = 20" by blast
  then show "md_hmac_finish L m = Some (the (md_hmac_finish L m))" "length (the (md_hmac_finish L m)) = 20" by simp_all
qed

lemma length_inc_from [simp]: "length (inc_from i bs) = length bs"
proof (induction i bs rule: inc_from.induct)
  case (1 i bs)
  then show ?case by (subst inc_from.simps) (simp add: Let_def)
qed

lemma mac_enc_add_step:
  "hash_works L \<Longrightarrow> mac_enc_add L bs s = Inr (Inr (), s\<lparr>mac_enc := the (md_hmac_update L (mac_enc s) bs)\<rparr>)"
proof -
  assume w: "hash_works L"
  obtain m where "md_hmac_update L (mac_enc s) bs = Some m" by (rule that [OF hash_worksD(1) [OF w]])
  then show ?thesis by (simp add: mac_enc_add_def bindS_def op_simps_intro)
qed

lemma build_step:
  assumes "hash_works L" "length msg \<le> 2 ^ 20" "d = the (md_hmac_finish L (mac_enc s))"
  shows "ssl_srp_build_message_to_encrypt L msg s =
    Inr (Inr (padded (msg @ d)), s\<lparr>mac_enc := the (md_hmac_reset L (mac_enc s))\<rparr>)"
proof -
  have d: "length d = 20" "md_hmac_finish L (mac_enc s) = Some d"
    using hash_worksD(2,3) [OF assms(1), of "mac_enc s"] by (simp_all add: assms(3))
  obtain r where r: "md_hmac_reset L (mac_enc s) = Some r" by (rule that [OF hash_worksD(4) [OF assms(1)]])
  obtain b1 where b1: "put array_init msg = Inr b1" "arr_ok b1" "contents b1 = msg"
    using put_ok [of "array_init :: out_buffer" msg] assms(2) by auto
  obtain b2 where b2: "push_write b1 d = Inr b2" "arr_ok b2" "contents b2 = msg @ d"
    using push_write_ok [OF b1(2), of d] assms(2) d(1) b1(3) by auto
  obtain al v where p: "padding_of (arr_size b2) = (al, v)" by (cases "padding_of (arr_size b2)")
  note f = padding_of_facts [OF p]
  have l: "arr_size b2 = length (msg @ d)" using length_contents [OF b2(2)] b2(3) by simp
  obtain b3 where b3: "put b2 (replicate (unat v + 1) v) = Inr b3" "contents b3 = (msg @ d) @ replicate (unat v + 1) v"
    using put_ok [OF b2(2), of "replicate (unat v + 1) v"] assms(2) d(1) b2(3) f(5) by auto
  have "padded (msg @ d) = contents b3" using p unfolding l by (simp add: padded_def b3(2))
  then show ?thesis
    unfolding ssl_srp_build_message_to_encrypt_def
    by (simp only: bindS_lift [OF b1(1)] bindS_lift [OF b2(1)] bindS_lift [OF b3(1)] bindS_gets bindS_modify
      bindS_lib [OF d(2)] bindS_lib [OF r] bindS_lift [OF assertE_True [OF f(1)]] bindS_lift [OF assertE_True [OF f(2)]] p prod.case)
      (simp add: op_simps_intro r)
qed

lemma issue_iv_step:
  assumes "cipher_pair L (cipher_enc s) d" "length (iv_enc s) = 16"
  shows "ssl_sts_issue_next_iv L s = Inr (Inr (next_iv L s), s\<lparr>iv_enc := next_iv L s\<rparr>)" "length (next_iv L s) = 16"
proof -
  obtain b where b: "aes_encrypt_block L (cipher_enc s) (inc_from 0 (iv_enc s)) = Some b" "length b = 16"
    using assms unfolding cipher_pair_def by (metis length_inc_from)
  then show "ssl_sts_issue_next_iv L s = Inr (Inr (next_iv L s), s\<lparr>iv_enc := next_iv L s\<rparr>)" "length (next_iv L s) = 16"
    by (simp_all add: ssl_sts_issue_next_iv_def bindS_def op_simps_intro next_iv_def)
qed

lemma send_bytes_step:
  "sends_all L \<Longrightarrow> send_bytes L bs s = Inr (Inr (), s\<lparr>outgoing := outgoing s @ bs\<rparr>)"
  using send_full_complete [of "lib_send L (length (outgoing s))" 0 bs 0]
  by (simp add: send_bytes_def sends_all_def)

lemma bindS_mac_enc:
  "hash_works L \<Longrightarrow> bindS (mac_enc_add L bs) f s = f () (s\<lparr>mac_enc := the (md_hmac_update L (mac_enc s) bs)\<rparr>)"
  by (simp add: bindS_def mac_enc_add_step)

lemma authenticate_step:
  assumes "hash_works L" "arr_ok (write_buf s)" "contents (write_buf s) = w @ [t, 3, 3] @ be16enc (of_nat (length data))"
  shows "authenticate_record L (length w) data s = Inr (Inr (), s\<lparr>next_write_id := increment_be (next_write_id s),
    mac_enc := mac_fed L (mac_enc s) (record_parts t (next_write_id s) data)\<rparr>)"
proof -
  let ?b = "write_buf s" and ?h = "[t, 3, 3] @ be16enc (of_nat (length data))"
  have n: "arr_size ?b = length w + 5" using length_contents [OF assms(2)] assms(3) by simp
  have "take (length w + 5) (arr_data ?b) = w @ ?h" using assms(3) n by (simp add: contents_def)
  then have "drop (length w) (take (length w + 5) (arr_data ?b)) = ?h" by simp
  then have r: "mem_read (arr_data ?b) (length w) 5 = Inr ?h"
    using n assms(2) by (simp add: arr_ok_def take_drop add.commute)
  have a: "length w + 5 \<le> arr_size ?b" using n by simp
  show ?thesis
    unfolding authenticate_record_def
    by (simp add: bindS_gets bindS_modify bindS_mac_enc [OF assms(1)] bindS_lift [OF r [simplified]] bindS_lift [OF assertE_True [OF a]]
      mac_enc_add_step [OF assms(1)] mac_fed_def record_parts_def)
qed

lemma encrypt_step:
  assumes "hash_works L" "cipher_pair L (cipher_enc s) c" "length (iv_enc s) = 16" "arr_ok (write_buf s)"
    and "length (contents (write_buf s)) + length data \<le> 2 ^ 20"
    and "d = the (md_hmac_finish L (mac_enc s))" "r = the (aes_cbc_encrypt L (cipher_enc s) (next_iv L s) (padded (data @ d)))"
  shows "\<exists>b. encrypt_record L data s =
      Inr (Inr (), s\<lparr>write_buf := b, iv_enc := fst r, mac_enc := the (md_hmac_reset L (mac_enc s))\<rparr>) \<and> arr_ok b \<and>
    contents b = contents (write_buf s) @ next_iv L s @ snd r \<and> length (fst r) = 16 \<and> length (snd r) = length (padded (data @ d))"
proof -
  let ?w = "contents (write_buf s)" and ?iv = "next_iv L s" and ?m = "padded (data @ d)"
  have d: "length d = 20" unfolding assms(6) by (rule hash_worksD(3) [OF assms(1)])
  have ml: "length ?m \<le> length data + 36" using length_padded_dvd(3) [of "data @ d"] d by simp
  note iv = issue_iv_step [OF assms(2,3)]
  obtain b1 z where b1: "write_reserve 16 s = Inr (Inr (length ?w), s\<lparr>write_buf := b1\<rparr>)" "arr_ok b1" "contents b1 = ?w @ z" "length z = 16"
    using write_reserve_step [OF assms(4), of 16] assms(5) by auto
  define s1 where "s1 = s\<lparr>write_buf := b1\<rparr>"
  define s2 where "s2 = s1\<lparr>iv_enc := ?iv\<rparr>"
  have "next_iv L s1 = ?iv" by (simp add: s1_def next_iv_def)
  then have i1: "ssl_sts_issue_next_iv L s1 = Inr (Inr ?iv, s2)"
    using issue_iv_step(1) [of L s1 c] assms(2,3) by (simp add: s1_def s2_def)
  have "overlay (?w @ z) (length ?w) ?iv = ?w @ ?iv" using iv(2) b1(4) by (simp add: overlay_def)
  then obtain b2 where b2: "write_at (length ?w) ?iv s2 = Inr (Inr (), s2\<lparr>write_buf := b2\<rparr>)" "arr_ok b2" "contents b2 = ?w @ ?iv"
    using write_at_step [of s2 "length ?w" ?iv] b1(2,3,4) iv(2) by (auto simp: s2_def s1_def)
  define s3 where "s3 = s2\<lparr>write_buf := b2\<rparr>"
  define s4 where "s4 = s3\<lparr>mac_enc := the (md_hmac_reset L (mac_enc s))\<rparr>"
  have m: "ssl_srp_build_message_to_encrypt L data s3 = Inr (Inr ?m, s4)"
    using build_step [OF assms(1), of data d s3] assms(5,6) by (simp add: s4_def s3_def s2_def s1_def)
  obtain b3 y where b3: "write_reserve (length ?m) s4 = Inr (Inr (length ?w + 16), s4\<lparr>write_buf := b3\<rparr>)" "arr_ok b3"
    "contents b3 = ?w @ ?iv @ y" "length y = length ?m"
    using write_reserve_step [of s4 "length ?m"] b2(2,3) iv(2) assms(5) ml by (auto simp: s4_def s3_def)
  define s5 where "s5 = s4\<lparr>write_buf := b3\<rparr>"
  obtain iv' e where r: "aes_cbc_encrypt L (cipher_enc s) ?iv ?m = Some (iv', e)" "length iv' = 16" "length e = length ?m"
    using assms(2) iv(2) length_padded_dvd(1) [of "data @ d"] unfolding cipher_pair_def by blast
  define s6 where "s6 = s5\<lparr>iv_enc := iv'\<rparr>"
  have "overlay (?w @ ?iv @ y) (length ?w + 16) e = ?w @ ?iv @ e" using iv(2) b3(4) r(3) by (simp add: overlay_def)
  then obtain b4 where b4: "write_at (length ?w + 16) e s6 = Inr (Inr (), s6\<lparr>write_buf := b4\<rparr>)" "arr_ok b4" "contents b4 = ?w @ ?iv @ e"
    using write_at_step [of s6 "length ?w + 16" e] b3(2,3,4) iv(2) r(3) by (auto simp: s6_def s5_def)
  have g: "cipher_enc s5 = cipher_enc s" "iv_enc s5 = ?iv" by (simp_all add: s5_def s4_def s3_def s2_def s1_def)
  have "encrypt_record L data s = Inr (Inr (), s6\<lparr>write_buf := b4\<rparr>)"
    unfolding encrypt_record_def
    by (simp add: bindS_def op_simps_intro b1(1) s1_def [symmetric] i1 b2(1) s3_def [symmetric] m b3(1) s5_def [symmetric]
      g r(1) s6_def [symmetric] b4(1))
  moreover have "s6\<lparr>write_buf := b4\<rparr> = s\<lparr>write_buf := b4, iv_enc := iv', mac_enc := the (md_hmac_reset L (mac_enc s))\<rparr>"
    by (simp add: s6_def s5_def s4_def s3_def s2_def s1_def)
  ultimately show ?thesis using b4(2,3) r by (auto simp: assms(7))
qed

lemma send_record_step:
  assumes "sends_all L" "arr_ok (write_buf s)" "contents (write_buf s) = w @ [t, 3, 3] @ h @ body" "length h = 2"
    and "length body \<le> 65535"
  shows "\<exists>b. send_record L (length w) s = Inr (Inr (), s\<lparr>write_buf := b, outgoing := outgoing s @ framed t body\<rparr>) \<and>
    arr_ok b \<and> contents b = w"
proof -
  let ?n = "length w + 5 + length body"
  have n: "arr_size (write_buf s) = ?n" using length_contents [OF assms(2)] assms(3,4) by simp
  have o: "overlay (w @ [t, 3, 3] @ h @ body) (length w + 3) (be16enc (of_nat (length body))) = w @ framed t body"
    using assms(4) by (simp add: overlay_def framed_def)
  obtain b where b: "write_at (length w + 3) (be16enc (of_nat (length body))) s = Inr (Inr (), s\<lparr>write_buf := b\<rparr>)"
    "arr_ok b" "contents b = w @ framed t body"
    using write_at_step [OF assms(2), of "length w + 3" "be16enc (of_nat (length body))"] o assms(3,4) by auto
  have bn: "arr_size b = ?n" "?n \<le> length (arr_data b)"
    using length_contents [OF b(2)] b(2,3) by (simp_all add: framed_def arr_ok_def)
  have "drop (length w) (take ?n (arr_data b)) = framed t body" using b(3) bn(1) by (simp add: contents_def)
  then have r: "mem_read (arr_data b) (length w) (?n - length w) = Inr (framed t body)"
    using bn(2) by (simp add: take_drop ac_simps)
  have c: "?n - length w - 5 \<le> 65535" using assms(5) by simp
  have "send_record L (length w) s =
      Inr (Inr (), s\<lparr>write_buf := b\<lparr>arr_size := length w\<rparr>, outgoing := outgoing s @ framed t body\<rparr>)"
    unfolding send_record_def write_size_def
    using r c assms(5) by (simp add: n Let_def b(1) bindS_def send_bytes_step [OF assms(1)] op_simps_intro)
  moreover have "arr_ok (b\<lparr>arr_size := length w\<rparr>)" using b(2) bn by (simp add: arr_ok_def)
  moreover have "contents (b\<lparr>arr_size := length w\<rparr>) = w"
  proof -
    have "contents (b\<lparr>arr_size := length w\<rparr>) = take (length w) (contents b)" using bn(1) by (simp add: contents_def min_def)
    then show ?thesis by (simp add: b(3))
  qed
  ultimately show ?thesis by blast
qed

lemma send_internal_step:
  assumes "hash_works L" "sends_all L" "cipher_pair L (cipher_enc s) c" "length (iv_enc s) = 16" "arr_ok (write_buf s)"
    and "length (contents (write_buf s)) \<le> 2 ^ 16" "length data \<le> 65483"
  shows "\<exists>b. ssl_sts_connection_send_internal L t data s = Inr (Inr (), s\<lparr>write_buf := b,
      next_write_id := increment_be (next_write_id s), mac_enc := record_mac L (mac_enc s) t (next_write_id s) data,
      iv_enc := fst (record_cipher L s t data), outgoing := outgoing s @ framed t (record_body L s t data)\<rparr>) \<and>
    arr_ok b \<and> contents b = contents (write_buf s) \<and> length (fst (record_cipher L s t data)) = 16 \<and>
    length (record_body L s t data) \<le> 65535"
proof -
  let ?w = "contents (write_buf s)" and ?h = "be16enc (of_nat (length data))"
  let ?m = "mac_fed L (mac_enc s) (record_parts t (next_write_id s) data)"
  have wl: "arr_size (write_buf s) = length ?w" using length_contents [OF assms(5)] by simp
  obtain b1 where b1: "ssl_srp_write_protocol_header t (length data) s = Inr (Inr (), s\<lparr>write_buf := b1\<rparr>)" "arr_ok b1"
    "contents b1 = ?w @ [t, 3, 3] @ ?h"
    using header_step [OF assms(5), of "length data" t] assms(6,7) by auto
  define s1 where "s1 = s\<lparr>write_buf := b1\<rparr>"
  define s2 where "s2 = s1\<lparr>next_write_id := increment_be (next_write_id s), mac_enc := ?m\<rparr>"
  have a: "authenticate_record L (length ?w) data s1 = Inr (Inr (), s2)"
    using authenticate_step [OF assms(1), of s1 ?w t data] b1(2,3) by (simp add: s1_def s2_def)
  have iv2: "next_iv L s2 = next_iv L s" by (simp add: s2_def s1_def next_iv_def)
  have mac: "mac_enc s2 = ?m" by (simp add: s2_def)
  have d: "the (md_hmac_finish L (mac_enc s2)) = record_digest L (mac_enc s) t (next_write_id s) data"
    by (simp add: mac record_digest_def)
  let ?r = "record_cipher L s t data"
  have "cipher_pair L (cipher_enc s2) c" "length (iv_enc s2) = 16" "arr_ok (write_buf s2)"
    "length (contents (write_buf s2)) + length data \<le> 2 ^ 20"
    using assms(3,4,6,7) b1(2,3) by (simp_all add: s2_def s1_def)
  from encrypt_step [OF assms(1) this refl refl]
  obtain b2 where b2: "encrypt_record L data s2 = Inr (Inr (), s2\<lparr>write_buf := b2, iv_enc := fst ?r,
      mac_enc := the (md_hmac_reset L (mac_enc s2))\<rparr>)" "arr_ok b2"
    "contents b2 = contents (write_buf s2) @ next_iv L s @ snd ?r" "length (fst ?r) = 16"
    "length (snd ?r) = length (padded (data @ record_digest L (mac_enc s) t (next_write_id s) data))"
    unfolding d iv2 by (auto simp: record_cipher_def s2_def s1_def)
  define s3 where "s3 = s2\<lparr>write_buf := b2, iv_enc := fst ?r, mac_enc := record_mac L (mac_enc s) t (next_write_id s) data\<rparr>"
  have e: "encrypt_record L data s2 = Inr (Inr (), s3)"
    unfolding b2(1) s3_def record_mac_def mac by simp
  have dl: "length (record_digest L (mac_enc s) t (next_write_id s) data) = 20"
    unfolding record_digest_def by (rule hash_worksD(3) [OF assms(1)])
  have "length (next_iv L s) = 16" using issue_iv_step(2) [OF assms(3,4)] .
  moreover have "16 dvd length (snd ?r)" "length (snd ?r) \<le> 65483 + 36"
    using length_padded_dvd(1,3) [of "data @ record_digest L (mac_enc s) t (next_write_id s) data"] dl assms(7)
    unfolding b2(5) by simp_all
  ultimately have bl: "length (record_body L s t data) \<le> 65535" unfolding record_body_def by simp
  have "contents (write_buf s3) = ?w @ [t, 3, 3] @ ?h @ record_body L s t data"
    using b2(3) b1(3) by (simp add: s3_def s2_def s1_def record_body_def)
  moreover have "arr_ok (write_buf s3)" using b2(2) by (simp add: s3_def)
  ultimately obtain b where b: "send_record L (length ?w) s3 =
      Inr (Inr (), s3\<lparr>write_buf := b, outgoing := outgoing s3 @ framed t (record_body L s t data)\<rparr>)" "arr_ok b" "contents b = ?w"
    using send_record_step [OF assms(2), of s3 ?w t ?h] bl by auto
  have "ssl_sts_connection_send_internal L t data s =
      Inr (Inr (), s3\<lparr>write_buf := b, outgoing := outgoing s3 @ framed t (record_body L s t data)\<rparr>)"
    unfolding ssl_sts_connection_send_internal_def write_size_def
    by (simp add: op_simps_intro wl b1(1) s1_def [symmetric] bindS_def a e b(1))
  moreover have "s3\<lparr>write_buf := b, outgoing := outgoing s3 @ framed t (record_body L s t data)\<rparr> = s\<lparr>write_buf := b,
      next_write_id := increment_be (next_write_id s), mac_enc := record_mac L (mac_enc s) t (next_write_id s) data,
      iv_enc := fst ?r, outgoing := outgoing s @ framed t (record_body L s t data)\<rparr>"
    by (simp add: s3_def s2_def s1_def)
  ultimately show ?thesis using b(2,3) b2(4) bl by auto
qed

section \<open>What is received\<close>

lemma parse_whole:
  assumes "arr_ok (read_buf s)" "contents (read_buf s) = framed t body @ extra" "length body \<le> 65535"
  shows "parse_tls12_handshake L t False s = Inr (Inr body, s)"
proof -
  let ?d = "arr_data (read_buf s)" and ?n = "arr_size (read_buf s)"
  obtain z where z: "?d = framed t body @ extra @ z"
    using assms(2) unfolding contents_def by (metis append.assoc append_take_drop_id)
  have n: "?n = 5 + length body + length extra"
    using length_contents [OF assms(1)] assms(2) by (simp add: framed_def)
  have u: "unat (of_nat (length body) :: u16) = length body" using assms(3) by (simp add: unat_of_nat take_bit_eq_mod)
  have "be16dec (drop 3 ?d) = Inr (of_nat (length body))"
    by (simp add: z framed_def)
  moreover have "mem_read ?d 5 (length body) = Inr body" by (simp add: z framed_def)
  ultimately show ?thesis
    by (simp add: parse_tls12_handshake_def bindS_def op_simps_intro n u)
      (simp add: z framed_def op_simps_intro bindS_def u)
qed

lemma parse_part:
  assumes "arr_ok (read_buf s)" "framed t body = contents (read_buf s) @ more_bytes" "more_bytes \<noteq> []" "length body \<le> 65535"
  shows "parse_tls12_handshake L t b s = Inr (Inl (Code ERR_SSL_CONTINUE_PROCESSING), s)"
proof (cases "arr_size (read_buf s) < 5")
  case True
  then show ?thesis by (simp add: parse_tls12_handshake_def bindS_def op_simps_intro)
next
  case False
  let ?d = "arr_data (read_buf s)" and ?n = "arr_size (read_buf s)"
  let ?c = "contents (read_buf s)"
  obtain z where z: "?d = ?c @ z" unfolding contents_def by (metis append_take_drop_id)
  have n: "?n = length ?c" using length_contents [OF assms(1)] by simp
  have l: "length ?c < 5 + length body" using arg_cong [OF assms(2), of length] assms(3)
    by (cases more_bytes) (simp_all add: framed_def)
  have "take 5 ?c = take 5 (framed t body)" using False n by (simp add: assms(2))
  then have "take 5 ?c = [t, 3, 3] @ be16enc (of_nat (length body))" by (simp add: framed_def)
  then obtain r where c: "?c = [t, 3, 3] @ be16enc (of_nat (length body)) @ r"
    by (metis append.assoc append_take_drop_id)
  have u: "unat (of_nat (length body) :: u16) = length body" using assms(4) by (simp add: unat_of_nat take_bit_eq_mod)
  have "be16dec (drop 3 ?d) = Inr (of_nat (length body))" "idx ?d 1 = Inr 3" "idx ?d 2 = Inr 3"
    unfolding z c by simp_all
  moreover have "?n - 5 < length body" using l False n by simp
  ultimately show ?thesis
    using False by (simp add: parse_tls12_handshake_def bindS_def op_simps_intro u)
qed

section \<open>Waiting for a record\<close>

definition arrived :: "net_result \<Rightarrow> bytes" where
  "arrived n = (case n of NetBytes bs \<Rightarrow> bs | NetError _ \<Rightarrow> [])"

lemma arrived_bytes [simp]: "arrived (NetBytes bs) = bs"
  by (simp add: arrived_def)

definition good_net :: "net_result \<Rightarrow> bool" where
  "good_net n \<longleftrightarrow> (\<exists>bs. n = NetBytes bs \<and> length bs \<le> 1024)"

text \<open>All bytes of the stream that have not been taken: those in the buffer and those to come.\<close>

definition unread :: "('h, 'm, 'c) session \<Rightarrow> bytes" where
  "unread s = contents (read_buf s) @ concat (map arrived (incoming s))"

definition net_ok :: "('h, 'm, 'c) session \<Rightarrow> bool" where
  "net_ok s \<longleftrightarrow> arr_ok (read_buf s) \<and> list_all good_net (incoming s) \<and> length (unread s) < 2 ^ 60"

lemma append_eq_long:
  assumes "c @ r = p @ e" "length p \<le> length c"
  shows "\<exists>x. c = p @ x \<and> x @ r = e"
proof -
  have "take (length p) (c @ r) = p" unfolding assms(1) by simp
  then have "take (length p) c = p" using assms(2) by simp
  then have c: "c = p @ drop (length p) c" by (metis append_take_drop_id)
  then have "p @ drop (length p) c @ r = p @ e" using assms(1) by (metis append.assoc)
  then show ?thesis using c by auto
qed

lemma append_eq_short:
  assumes "c @ r = p @ e" "length c < length p"
  shows "\<exists>x. p = c @ x \<and> x \<noteq> []"
  using append_eq_long [OF assms(1) [symmetric]] assms(2) by auto

lemma await_record:
  assumes "arr_ok (read_buf s)" "list_all good_net ns" "length (contents (read_buf s) @ concat (map arrived ns)) < 2 ^ 60"
    and "contents (read_buf s) @ concat (map arrived ns) = framed t body @ extra" "length body \<le> 65535" "incoming s = ns"
  shows "\<exists>b ns'. await_on e (parse_tls12_handshake L t False) ns s = Inr (Inr body, s\<lparr>read_buf := b, incoming := ns'\<rparr>) \<and>
    arr_ok b \<and> list_all good_net ns' \<and> (\<exists>x. contents b = framed t body @ x \<and> x @ concat (map arrived ns') = extra)"
  using assms
proof (induction ns arbitrary: s)
  case Nil
  have "contents (read_buf s) = framed t body @ extra" using Nil.prems(4) by simp
  from parse_whole [OF Nil.prems(1) this assms(5)] show ?case
    using Nil.prems by (auto intro!: exI [of _ "read_buf s"] exI [of _ "[] :: net_result list"])
next
  case (Cons n ns)
  let ?c = "contents (read_buf s)"
  show ?case
  proof (cases "length (framed t body) \<le> length ?c")
    case True
    then obtain x where x: "?c = framed t body @ x" "x @ concat (map arrived (n # ns)) = extra"
      using append_eq_long [OF Cons.prems(4)] by blast
    from parse_whole [OF Cons.prems(1) x(1) assms(5)] show ?thesis
      using Cons.prems x by (auto intro!: exI [of _ "read_buf s"] exI [of _ "n # ns"])
  next
    case False
    then obtain r where r: "framed t body = ?c @ r" "r \<noteq> []"
      using append_eq_short [OF Cons.prems(4)] by auto
    obtain bs where bs: "n = NetBytes bs" "length bs \<le> 1024" using Cons.prems(2) by (auto simp: good_net_def)
    have "arr_size (read_buf s) \<le> buf_limit" using Cons.prems(3) length_contents [OF Cons.prems(1)] by simp
    then obtain b where b: "recv_to_buffer n (read_buf s) = Inr (0, b)" "arr_ok b" "contents b = ?c @ bs"
      using recv_to_buffer_ok [OF Cons.prems(1) _ bs(2)] bs(1) by auto
    let ?s = "s\<lparr>read_buf := b, incoming := ns\<rparr>"
    have step: "await_on e (parse_tls12_handshake L t False) (n # ns) s = await_on e (parse_tls12_handshake L t False) ns ?s"
      using parse_part [OF Cons.prems(1) r assms(5), of L False] b(1) by simp
    have "arr_ok (read_buf ?s)" "list_all good_net ns" "incoming ?s = ns"
      "contents (read_buf ?s) @ concat (map arrived ns) = framed t body @ extra"
      using Cons.prems b bs(1) by simp_all
    moreover have "length (contents (read_buf ?s) @ concat (map arrived ns)) < 2 ^ 60"
      using Cons.prems(3) b(3) bs(1) by simp
    ultimately show ?thesis using Cons.IH [of ?s] assms(5) unfolding step by simp
  qed
qed

lemma mac_dec_add_step:
  assumes "hash_works L"
  shows "mac_dec_add L bs s = Inr (Inr (), s\<lparr>mac_dec := the (md_hmac_update L (mac_dec s) bs)\<rparr>)"
proof -
  obtain m where "md_hmac_update L (mac_dec s) bs = Some m" by (rule that [OF hash_worksD(1) [OF assms]])
  then show ?thesis by (simp add: mac_dec_add_def bindS_def op_simps_intro)
qed

lemma check_step:
  assumes "hash_works L" "arr_ok (read_buf s)" "contents (read_buf s) = framed t body @ x" "length data \<le> 65535"
    and "d = record_digest L (mac_dec s) t (next_read_id s) data"
  shows "check_record L (data @ d) s = Inr (Inr data, s\<lparr>next_read_id := increment_be (next_read_id s),
    mac_dec := record_mac L (mac_dec s) t (next_read_id s) data\<rparr>)"
proof -
  let ?b = "read_buf s" and ?h = "[t, 3, 3] @ be16enc (of_nat (length data))"
  let ?m = "mac_fed L (mac_dec s) (record_parts t (next_read_id s) data)"
  have dl: "length d = 20" unfolding assms(5) record_digest_def by (rule hash_worksD(3) [OF assms(1)])
  have n: "5 \<le> arr_size ?b" using length_contents [OF assms(2)] assms(3) by (simp add: framed_def)
  obtain z where z: "arr_data ?b = framed t body @ x @ z"
    using assms(3) unfolding contents_def by (metis append.assoc append_take_drop_id)
  have r: "mem_read (arr_data ?b) 0 5 = Inr ([t, 3, 3] @ be16enc (of_nat (length body)))"
    by (simp add: z framed_def)
  have w: "mem_write ([t, 3, 3] @ be16enc (of_nat (length body))) 3 (be16enc (of_nat (length data))) = Inr ?h"
    by (simp add: overlay_def)
  obtain r' where r': "md_hmac_reset L ?m = Some r'" by (rule that [OF hash_worksD(4) [OF assms(1)]])
  have f: "md_hmac_finish L ?m = Some d" unfolding assms(5) record_digest_def by (rule hash_worksD(2) [OF assms(1)])
  have l: "length (data @ d) - 20 = length data" "\<not> length (data @ d) < 20" "\<not> 65535 < length data" using dl assms(4) by simp_all
  have m: "the (md_hmac_update L (the (md_hmac_update L (the (md_hmac_update L (mac_dec s) (next_read_id s))) ?h)) data) = ?m"
    by (simp add: mac_fed_def record_parts_def)
  have c: "\<not> memcmp (drop (length data) (data @ d)) d \<noteq> 0" by (simp add: memcmp_eq_0)
  show ?thesis
    unfolding check_record_def Let_def l(1)
    using n l(2,3) by (simp add: bindS_def op_simps_intro mac_dec_add_step [OF assms(1)] r [simplified] w [simplified] m [simplified]
      f r' record_mac_def memcmp_eq_0)
qed

definition keyed :: "('h, 'm, 'c) library \<Rightarrow> ('h, 'm, 'c) session \<Rightarrow> ('h, 'm, 'c) session \<Rightarrow> bool" where
  "keyed L s t \<longleftrightarrow> cipher_pair L (cipher_enc s) (cipher_dec t) \<and> mac_enc s = mac_dec t \<and> next_write_id s = next_read_id t \<and>
     length (iv_enc s) = 16 \<and> arr_ok (write_buf s) \<and> contents (write_buf s) = []"

lemma decrypt_step:
  assumes "cipher_pair L c (cipher_dec s)" "length iv = 16" "aes_cbc_encrypt L c iv (padded m) = Some (iv', e)"
    and "length e = length (padded m)" "length m + 16 \<le> buffer_len"
  shows "decrypt_record L buffer_len (iv @ e) s = Inr (Inr m, s)"
proof -
  note l = length_padded_dvd [of m]
  obtain iv'' where d: "aes_cbc_decrypt L (cipher_dec s) iv e = Some (iv'', padded m)"
    using assms(1-3) l(1) unfolding cipher_pair_def by fastforce
  have "length e div 16 * 16 = length e" "length e \<noteq> 0" "\<not> buffer_len < length e"
    using l assms(4,5) by auto
  then show ?thesis
    using assms(2) by (simp add: decrypt_record_def bindS_def op_simps_intro Let_def d unpad_padded)
qed

text \<open>One message: it is taken out of the stream, and the two sides stay in step.\<close>

lemma record_delivered:
  assumes "hash_works L" "sends_all L" "keyed L s t" "net_ok t" "length data \<le> 65483" "length data + 36 \<le> buffer_len"
    and "unread t = framed ty (record_body L s ty data) @ rest"
  shows "\<exists>s' t'. ssl_sts_connection_send_internal L ty data s = Inr (Inr (), s') \<and>
    ssl_sts_connection_recv_internal L ty buffer_len t = Inr (Inr data, t') \<and>
    outgoing s' = outgoing s @ framed ty (record_body L s ty data) \<and> unread t' = rest \<and> keyed L s' t' \<and> net_ok t'"
proof -
  have k: "cipher_pair L (cipher_enc s) (cipher_dec t)" "mac_enc s = mac_dec t" "next_write_id s = next_read_id t"
    "length (iv_enc s) = 16" "arr_ok (write_buf s)" "contents (write_buf s) = []"
    using assms(3) by (simp_all add: keyed_def)
  let ?body = "record_body L s ty data" and ?d = "record_digest L (mac_enc s) ty (next_write_id s) data"
  obtain b where s: "ssl_sts_connection_send_internal L ty data s = Inr (Inr (), s\<lparr>write_buf := b,
      next_write_id := increment_be (next_write_id s), mac_enc := record_mac L (mac_enc s) ty (next_write_id s) data,
      iv_enc := fst (record_cipher L s ty data), outgoing := outgoing s @ framed ty ?body\<rparr>)"
    "arr_ok b" "contents b = []" "length (fst (record_cipher L s ty data)) = 16" "length ?body \<le> 65535"
    using send_internal_step [OF assms(1,2) k(1,4,5) _ assms(5), of ty] unfolding k(6) by auto
  have n: "arr_ok (read_buf t)" "list_all good_net (incoming t)"
    "length (contents (read_buf t) @ concat (map arrived (incoming t))) < 2 ^ 60"
    using assms(4) unfolding net_ok_def unread_def by blast+
  have n4: "contents (read_buf t) @ concat (map arrived (incoming t)) = framed ty ?body @ rest"
    using assms(7) unfolding unread_def .
  obtain b1 ns x where a: "await_on NetCode (parse_tls12_handshake L ty False) (incoming t) t =
      Inr (Inr ?body, t\<lparr>read_buf := b1, incoming := ns\<rparr>)" "arr_ok b1" "list_all good_net ns"
    "contents b1 = framed ty ?body @ x" "x @ concat (map arrived ns) = rest"
    using await_record [OF n n4 s(5) refl] by blast
  define t1 where "t1 = t\<lparr>read_buf := b1, incoming := ns\<rparr>"
  have dl: "length ?d = 20" unfolding record_digest_def by (rule hash_worksD(3) [OF assms(1)])
  have iv: "length (next_iv L s) = 16" using issue_iv_step(2) [OF k(1,4)] .
  obtain iv' e where r: "aes_cbc_encrypt L (cipher_enc s) (next_iv L s) (padded (data @ ?d)) = Some (iv', e)"
    "length e = length (padded (data @ ?d))"
    using k(1) iv length_padded_dvd(1) [of "data @ ?d"] unfolding cipher_pair_def by blast
  have body: "?body = next_iv L s @ e" by (simp add: record_body_def record_cipher_def r(1))
  have dec: "decrypt_record L buffer_len ?body t1 = Inr (Inr (data @ ?d), t1)"
    unfolding body using decrypt_step [of L "cipher_enc s" t1, OF _ iv r] k(1) dl assms(6) by (simp add: t1_def)
  define t2 where "t2 = t1\<lparr>next_read_id := increment_be (next_read_id t),
    mac_dec := record_mac L (mac_dec t) ty (next_read_id t) data\<rparr>"
  have chk: "check_record L (data @ ?d) t1 = Inr (Inr data, t2)"
    using check_step [OF assms(1), of t1 ty ?body x data ?d] a(2,4) assms(5) by (simp add: t1_def t2_def k(2,3))
  have "5 + length ?body \<le> arr_size b1" using length_contents [OF a(2)] a(4) by (simp add: framed_def)
  moreover have "drop (5 + length ?body) (contents b1) = x"
    unfolding a(4) length_framed [of ty, symmetric] by simp
  ultimately obtain b2 where b2:
    "array_remove_range_ordered 1 b1 0 (5 + length ?body) = Inr b2" "arr_ok b2" "contents b2 = x"
    using remove_range_front [OF a(2), of 1 "5 + length ?body"] by auto
  define t3 where "t3 = t2\<lparr>read_buf := b2\<rparr>"
  have "consume (5 + length ?body) t2 = Inr (Inr (), t3)"
    using b2(1) by (simp add: consume_def bindS_def op_simps_intro t2_def t1_def t3_def)
  then have recv: "ssl_sts_connection_recv_internal L ty buffer_len t = Inr (Inr data, t3)"
    by (simp add: ssl_sts_connection_recv_internal_def bindS_def await_def a(1) t1_def [symmetric] dec chk op_simps_intro)
  have "unread t3 = rest" "net_ok t3"
    using b2 a(3,5) n(3) n4 arg_cong [OF n4, of length] by (auto simp: t3_def t2_def t1_def unread_def net_ok_def)
  moreover have "keyed L (s\<lparr>write_buf := b,
      next_write_id := increment_be (next_write_id s), mac_enc := record_mac L (mac_enc s) ty (next_write_id s) data,
      iv_enc := fst (record_cipher L s ty data), outgoing := outgoing s @ framed ty ?body\<rparr>) t3"
    using k s(2,3,4) by (simp add: keyed_def t3_def t2_def t1_def)
  ultimately show ?thesis using s(1) recv by auto
qed

section \<open>Sessions\<close>

fun tls_send_all :: "('h, 'm, 'c) library \<Rightarrow> bytes list \<Rightarrow> ('h, 'm, 'c, unit) tls_op" where
  "tls_send_all L [] = ret ()"
| "tls_send_all L (m # ms) = bindS (ssl_sts_connection_send L m) (\<lambda>_. tls_send_all L ms)"

fun tls_recv_all :: "('h, 'm, 'c) library \<Rightarrow> nat \<Rightarrow> nat \<Rightarrow> ('h, 'm, 'c, bytes list) tls_op" where
  "tls_recv_all L buffer_len 0 = ret []"
| "tls_recv_all L buffer_len (Suc n) =
     bindS (ssl_sts_connection_recv L buffer_len) (\<lambda>m. bindS (tls_recv_all L buffer_len n) (\<lambda>ms. ret (m # ms)))"

lemma keyed_other_stream: "keyed L s (t\<lparr>read_buf := b, incoming := ns\<rparr>) \<longleftrightarrow> keyed L s t"
  by (simp add: keyed_def)

text \<open>What a sender sends does not depend on how it is received; a peer that gets single bytes shows that it works.\<close>

lemma record_sent:
  assumes "hash_works L" "sends_all L" "keyed L s t" "length data \<le> 65483"
  obtains s' t' where "ssl_sts_connection_send L data s = Inr (Inr (), s')" "keyed L s' t'"
    "outgoing s' = outgoing s @ framed SSL_MSG_APPLICATION_DATA (record_body L s SSL_MSG_APPLICATION_DATA data)"
proof -
  let ?f = "framed SSL_MSG_APPLICATION_DATA (record_body L s SSL_MSG_APPLICATION_DATA data)"
  let ?t = "t\<lparr>read_buf := array_init, incoming := map (\<lambda>b. NetBytes [b]) ?f\<rparr>"
  have k: "cipher_pair L (cipher_enc s) (cipher_dec t)" "length (iv_enc s) = 16" "arr_ok (write_buf s)" "contents (write_buf s) = []"
    using assms(3) by (simp_all add: keyed_def)
  have "length (record_body L s SSL_MSG_APPLICATION_DATA data) \<le> 65535"
    using send_internal_step [OF assms(1,2) k(1-3) _ assms(4)] k(4) by auto
  then have n: "net_ok ?t" "unread ?t = ?f @ []"
    by (simp_all add: net_ok_def unread_def good_net_def list_all_iff length_framed comp_def map_concat [symmetric])
  show ?thesis
    using record_delivered [OF assms(1,2) _ n(1) assms(4) order_refl n(2)] assms(3) that
    by (auto simp: keyed_other_stream ssl_sts_connection_send_def)
qed

lemma tls_session_stream:
  assumes "hash_works L" "sends_all L" "keyed L s t" "\<forall>m\<in>set ms. length m \<le> 65483 \<and> length m + 36 \<le> buffer_len"
  shows "\<exists>s' stream. tls_send_all L ms s = Inr (Inr (), s') \<and> outgoing s' = outgoing s @ stream \<and>
    (\<forall>t rest. keyed L s t \<and> net_ok t \<and> unread t = stream @ rest \<longrightarrow>
      (\<exists>t'. tls_recv_all L buffer_len (length ms) t = Inr (Inr ms, t') \<and> unread t' = rest))"
  using assms(3,4)
proof (induction ms arbitrary: s t)
  case Nil
  show ?case by (auto simp: op_simps_intro intro!: exI [of _ s] exI [of _ "[] :: bytes"])
next
  case (Cons m ms)
  let ?f = "framed SSL_MSG_APPLICATION_DATA (record_body L s SSL_MSG_APPLICATION_DATA m)"
  have m: "length m \<le> 65483" "length m + 36 \<le> buffer_len" using Cons.prems(2) by simp_all
  obtain s1 t1 where s1: "ssl_sts_connection_send L m s = Inr (Inr (), s1)" "keyed L s1 t1" "outgoing s1 = outgoing s @ ?f"
    using record_sent [OF assms(1,2) Cons.prems(1) m(1)] by blast
  obtain s' stream where r: "tls_send_all L ms s1 = Inr (Inr (), s')" "outgoing s' = outgoing s1 @ stream"
    "\<And>t rest. keyed L s1 t \<Longrightarrow> net_ok t \<Longrightarrow> unread t = stream @ rest \<Longrightarrow>
      \<exists>t'. tls_recv_all L buffer_len (length ms) t = Inr (Inr ms, t') \<and> unread t' = rest"
    using Cons.IH [OF s1(2)] Cons.prems(2) by auto
  have "\<exists>t'. tls_recv_all L buffer_len (length (m # ms)) t = Inr (Inr (m # ms), t') \<and> unread t' = rest"
    if t: "keyed L s t" "net_ok t" "unread t = (?f @ stream) @ rest" for t rest
  proof -
    from t(3) have "unread t = ?f @ (stream @ rest)" by simp
    from record_delivered [OF assms(1,2) t(1,2) m this] s1(1)
    obtain t2 where t2: "ssl_sts_connection_recv L buffer_len t = Inr (Inr m, t2)" "keyed L s1 t2" "net_ok t2"
      "unread t2 = stream @ rest"
      by (auto simp: ssl_sts_connection_send_def ssl_sts_connection_recv_def)
    from r(3) [OF t2(2,3,4)] show ?thesis by (auto simp: bindS_def t2(1) op_simps_intro)
  qed
  moreover have "tls_send_all L (m # ms) s = Inr (Inr (), s')" by (simp add: bindS_def s1(1) r(1))
  moreover have "outgoing s' = outgoing s @ ?f @ stream" by (simp add: r(2) s1(3))
  ultimately show ?case by blast
qed

text \<open>
  C32. Messages that one side of an established TLS connection sends are taken out by the other
  side, once each and in order, however the network cuts the stream into packets, and nothing of
  what follows is consumed. The two sides share the state of the message authentication code, the
  record number and a pair of cipher contexts that are inverse to each other.
\<close>

theorem tls_session_delivered:
  assumes "hash_works L" "sends_all L" "keyed L s t" "contents (read_buf t) = []" "arr_ok (read_buf t)"
    and "\<forall>m\<in>set ms. length m \<le> 65483 \<and> length m + 36 \<le> buffer_len"
  shows "\<exists>s' stream. tls_send_all L ms s = Inr (Inr (), s') \<and> outgoing s' = outgoing s @ stream \<and>
    (\<forall>ns rest. list_all good_net ns \<and> concat (map arrived ns) = stream @ rest \<and> length (stream @ rest) < 2 ^ 60 \<longrightarrow>
      (\<exists>t'. tls_recv_all L buffer_len (length ms) (t\<lparr>incoming := ns\<rparr>) = Inr (Inr ms, t') \<and> unread t' = rest))"
proof -
  obtain s' stream where r: "tls_send_all L ms s = Inr (Inr (), s')" "outgoing s' = outgoing s @ stream"
    "\<And>t rest. keyed L s t \<Longrightarrow> net_ok t \<Longrightarrow> unread t = stream @ rest \<Longrightarrow>
      \<exists>t'. tls_recv_all L buffer_len (length ms) t = Inr (Inr ms, t') \<and> unread t' = rest"
    using tls_session_stream [OF assms(1-3,6)] by blast
  have "keyed L s (t\<lparr>incoming := ns\<rparr>)" for ns using assms(3) by (simp add: keyed_def)
  moreover have "net_ok (t\<lparr>incoming := ns\<rparr>)" "unread (t\<lparr>incoming := ns\<rparr>) = stream @ rest"
    if "list_all good_net ns" "concat (map arrived ns) = stream @ rest" "length (stream @ rest) < 2 ^ 60" for ns rest
    using that assms(4,5) unfolding net_ok_def unread_def by simp_all
  ultimately show ?thesis using r by blast
qed

text \<open>A small instance of the library: contexts are what they were fed, the cipher adds its key.\<close>

definition sample_library :: "(bytes, bytes, u8) library" where
  "sample_library = \<lparr>sha256_new = [], sha256_update = (\<lambda>h bs. Some (h @ bs)),
     sha256_finish = (\<lambda>h. Some (replicate 32 (of_nat (length h)))),
     lib_sha1 = (\<lambda>parts. Some (replicate 20 (of_nat (length (concat parts))))),
     hmac_sha256 = (\<lambda>k x. Some (replicate 32 (of_nat (length k + length x)))),
     md_new = [], md_hmac_starts = Some, md_hmac_update = (\<lambda>m bs. Some (m @ bs)),
     md_hmac_finish = (\<lambda>m. Some (replicate 20 (of_nat (length m)))), md_hmac_reset = (\<lambda>m. Some []),
     aes_new = 0, aes_setkey_enc = (\<lambda>k. Some (hd k)), aes_setkey_dec = (\<lambda>k. Some (hd k)),
     aes_encrypt_block = (\<lambda>k b. Some (map ((+) k) b)),
     aes_cbc_encrypt = (\<lambda>k iv x. Some (iv, map ((+) k) x)), aes_cbc_decrypt = (\<lambda>k iv x. Some (iv, map (\<lambda>b. b - k) x)),
     lib_exp_mod = (\<lambda>b e n. Some (b ^ nat e mod n)), lib_send = (\<lambda>_ _ p. int (length p))\<rparr>"

definition sample_session :: "(bytes, bytes, u8) session" where
  "sample_session = ssl_sts_connection.extend (ssl_sts_connection_init sample_library) \<lparr>incoming = [], outgoing = []\<rparr>"

lemma sample_library_works: "hash_works sample_library" "sends_all sample_library" "cipher_pair sample_library k k"
  by (auto simp: hash_works_def sends_all_def cipher_pair_def sample_library_def comp_def)

lemma sample_keyed: "keyed sample_library sample_session sample_session"
  using sample_library_works(3)
  by (simp add: keyed_def sample_session_def ssl_sts_connection_init_def ssl_sts_connection.extend_def)

theorem tls_session_delivered_witness:
  "\<exists>s' stream. tls_send_all sample_library [[1, 2], [3]] sample_session = Inr (Inr (), s') \<and> outgoing s' = outgoing sample_session @ stream \<and>
    (\<forall>ns rest. list_all good_net ns \<and> concat (map arrived ns) = stream @ rest \<and> length (stream @ rest) < 2 ^ 60 \<longrightarrow>
      (\<exists>t'. tls_recv_all sample_library 100 (length [[1 :: u8, 2], [3]]) (sample_session\<lparr>incoming := ns\<rparr>) = Inr (Inr [[1, 2], [3]], t') \<and>
        unread t' = rest))"
  by (rule tls_session_delivered [OF sample_library_works(1,2) sample_keyed])
    (simp_all add: sample_session_def ssl_sts_connection_init_def ssl_sts_connection.extend_def)

text \<open>
  C33. The record number has eight bytes, but only its last byte counts: after 256 messages it
  repeats, so the record with number 256 carries the number 0 of the first one.
\<close>

theorem record_number_wraps:
  "(increment_be ^^ 256) (replicate 8 0) = replicate 8 0 \<and>
   (\<forall>n. (increment_be ^^ n) (replicate 8 0) = replicate 7 0 @ [of_nat n])"
proof -
  have step: "increment_be (replicate 7 0 @ [v]) = replicate 7 0 @ [v + 1]" for v
  proof -
    have "inc_from 8 xs = xs" if "length xs = 8" for xs using that by (simp add: inc_from.simps)
    then have "inc_from 7 (replicate 7 0 @ [v]) = replicate 7 0 @ [v + 1]"
      by (subst inc_from.simps) (simp add: Let_def nth_append list_update_append)
    then show ?thesis by (simp add: increment_be_def sz_sub_def SZ_def)
  qed
  have n: "(increment_be ^^ n) (replicate 7 0 @ [0]) = replicate 7 0 @ [of_nat n]" for n
    by (induction n) (simp_all add: step add.commute)
  have r: "replicate 8 0 = replicate 7 0 @ [0 :: u8]" by (simp add: numeral_eq_Suc)
  have "(of_nat 256 :: u8) = 0" by simp
  then show ?thesis using n unfolding r by (metis (no_types))
qed

end
