(* ===== verification/Handler_Structs.thy ===== *)
theory Handler_Structs
  imports Prelude
begin

text \<open>
  The packed structures through which the handlers of the client read messages and through which
  it builds the messages it sends, and the checks at the entry of each handler: the header of the
  packet and the size of the structure are asserted. The structures are written down member by
  member as the functions declare them; \<^verbatim>\<open>GameSrv_handlers\<close> and \<^verbatim>\<open>AuthSrv_handlers\<close> are the
  assignments of the two functions that register the handlers.
\<close>

section \<open>Structures\<close>

datatype ctype =
    C_Header | C_int8_t | C_uint8_t | C_int16_t | C_uint16_t | C_int32_t | C_uint32_t
  | C_float | C_AgentId | C_Vec2f | C_Appearance

text \<open>A member: its name, its type and the length of its array, 1 when it is none.\<close>

type_synonym cstruct = "(string \<times> ctype \<times> nat) list"

definition mem :: "ctype \<Rightarrow> string \<Rightarrow> string \<times> ctype \<times> nat" where
  "mem t n = (n, t, 1)"

definition arr :: "ctype \<Rightarrow> string \<Rightarrow> nat \<Rightarrow> string \<times> ctype \<times> nat" where
  "arr t n k = (n, t, k)"

text \<open>The members are packed, so the size of a structure is the sum of the sizes of its members.\<close>

fun sizeof_type :: "ctype \<Rightarrow> nat" where
  "sizeof_type C_Header = 2"
| "sizeof_type C_int8_t = 1"
| "sizeof_type C_uint8_t = 1"
| "sizeof_type C_int16_t = 2"
| "sizeof_type C_uint16_t = 2"
| "sizeof_type C_int32_t = 4"
| "sizeof_type C_uint32_t = 4"
| "sizeof_type C_float = 4"
| "sizeof_type C_AgentId = 4"
| "sizeof_type C_Vec2f = 8"
| "sizeof_type C_Appearance = 4"

fun sizeof :: "cstruct \<Rightarrow> nat" where
  "sizeof [] = 0"
| "sizeof ((n, t, k) # ms) = k * sizeof_type t + sizeof ms"

text \<open>The checks at the entry of a handler.\<close>

record handler_entry =
  en_header :: "nat option"
  en_struct :: "cstruct option"

definition check_of :: "nat \<Rightarrow> cstruct \<Rightarrow> handler_entry" where
  "check_of h ms = \<lparr>en_header = Some h, en_struct = Some ms\<rparr>"

definition no_check :: handler_entry where
  "no_check = \<lparr>en_header = None, en_struct = None\<rparr>"

definition handler_entered :: "handler_entry \<Rightarrow> nat \<Rightarrow> nat \<Rightarrow> fault + unit" where
  "handler_entered e header psize =
     bindE (assertE (case en_header e of None \<Rightarrow> True | Some h \<Rightarrow> header = h)) (\<lambda>_.
       assertE (case en_struct e of None \<Rightarrow> True | Some ms \<Rightarrow> sizeof ms = psize))"

section \<open>Identifiers of the messages\<close>

definition GAME_SMSG_PING_REQUEST :: nat where
  "GAME_SMSG_PING_REQUEST = 12"

definition GAME_SMSG_PING_REPLY :: nat where
  "GAME_SMSG_PING_REPLY = 13"

definition GAME_SMSG_INSTANCE_SHOW_WIN :: nat where
  "GAME_SMSG_INSTANCE_SHOW_WIN = 378"

definition GAME_SMSG_INSTANCE_LOAD_HEAD :: nat where
  "GAME_SMSG_INSTANCE_LOAD_HEAD = 379"

definition GAME_SMSG_INSTANCE_COUNTDOWN_STOP :: nat where
  "GAME_SMSG_INSTANCE_COUNTDOWN_STOP = 381"

definition GAME_SMSG_INSTANCE_COUNTDOWN :: nat where
  "GAME_SMSG_INSTANCE_COUNTDOWN = 383"

definition GAME_SMSG_INSTANCE_LOAD_PLAYER_NAME :: nat where
  "GAME_SMSG_INSTANCE_LOAD_PLAYER_NAME = 380"

definition GAME_SMSG_INSTANCE_LOAD_SPAWN_POINT :: nat where
  "GAME_SMSG_INSTANCE_LOAD_SPAWN_POINT = 404"

definition GAME_SMSG_INSTANCE_LOAD_INFO :: nat where
  "GAME_SMSG_INSTANCE_LOAD_INFO = 408"

definition GAME_SMSG_TRANSFER_GAME_SERVER_INFO :: nat where
  "GAME_SMSG_TRANSFER_GAME_SERVER_INFO = 420"

definition GAME_SMSG_READY_FOR_MAP_SPAWN :: nat where
  "GAME_SMSG_READY_FOR_MAP_SPAWN = 426"

definition GAME_SMSG_INSTANCE_CANT_ENTER :: nat where
  "GAME_SMSG_INSTANCE_CANT_ENTER = 443"

definition GAME_SMSG_INSTANCE_TRAVEL_TIMER :: nat where
  "GAME_SMSG_INSTANCE_TRAVEL_TIMER = 442"

definition GAME_SMSG_INSTANCE_LOAD_FINISH :: nat where
  "GAME_SMSG_INSTANCE_LOAD_FINISH = 397"

definition GAME_SMSG_INSTANCE_LOADED :: nat where
  "GAME_SMSG_INSTANCE_LOADED = 241"

definition GAME_SMSG_FRIENDLIST_MESSAGE :: nat where
  "GAME_SMSG_FRIENDLIST_MESSAGE = 14"

definition GAME_SMSG_INSTANCE_REDIRECT :: nat where
  "GAME_SMSG_INSTANCE_REDIRECT = 400"

definition GAME_SMSG_UPDATE_GOLD_CHARACTER :: nat where
  "GAME_SMSG_UPDATE_GOLD_CHARACTER = 319"

definition GAME_SMSG_UPDATE_GOLD_STORAGE :: nat where
  "GAME_SMSG_UPDATE_GOLD_STORAGE = 320"

definition GAME_SMSG_GOLD_CHARACTER_REMOVE :: nat where
  "GAME_SMSG_GOLD_CHARACTER_REMOVE = 334"

definition GAME_SMSG_GOLD_STORAGE_REMOVE :: nat where
  "GAME_SMSG_GOLD_STORAGE_REMOVE = 335"

definition GAME_SMSG_ITEM_UPDATE_QUANTITY :: nat where
  "GAME_SMSG_ITEM_UPDATE_QUANTITY = 312"

definition GAME_SMSG_ITEM_MOVED_TO_LOCATION :: nat where
  "GAME_SMSG_ITEM_MOVED_TO_LOCATION = 317"

definition GAME_SMSG_INVENTORY_CREATE_BAG :: nat where
  "GAME_SMSG_INVENTORY_CREATE_BAG = 318"

definition GAME_SMSG_ITEM_STREAM_CREATE :: nat where
  "GAME_SMSG_ITEM_STREAM_CREATE = 323"

definition GAME_SMSG_ITEM_STREAM_DESTROY :: nat where
  "GAME_SMSG_ITEM_STREAM_DESTROY = 324"

definition GAME_SMSG_ITEM_WEAPON_SET :: nat where
  "GAME_SMSG_ITEM_WEAPON_SET = 326"

definition GAME_SMSG_ITEM_SET_ACTIVE_WEAPON_SET :: nat where
  "GAME_SMSG_ITEM_SET_ACTIVE_WEAPON_SET = 327"

definition GAME_SMSG_ITEM_GENERAL_INFO :: nat where
  "GAME_SMSG_ITEM_GENERAL_INFO = 352"

definition GAME_SMSG_ITEM_CHANGE_LOCATION :: nat where
  "GAME_SMSG_ITEM_CHANGE_LOCATION = 330"

definition GAME_SMSG_ITEM_REMOVE :: nat where
  "GAME_SMSG_ITEM_REMOVE = 332"

definition GAME_SMSG_ITEM_PRICE_QUOTE :: nat where
  "GAME_SMSG_ITEM_PRICE_QUOTE = 246"

definition GAME_SMSG_WINDOW_MERCHANT :: nat where
  "GAME_SMSG_WINDOW_MERCHANT = 194"

definition GAME_SMSG_WINDOW_ITEM_STREAM_END :: nat where
  "GAME_SMSG_WINDOW_ITEM_STREAM_END = 133"

definition GAME_SMSG_WINDOW_OWNER :: nat where
  "GAME_SMSG_WINDOW_OWNER = 195"

definition GAME_SMSG_WINDOW_ADD_ITEMS :: nat where
  "GAME_SMSG_WINDOW_ADD_ITEMS = 131"

definition GAME_SMSG_ITEM_PRICES :: nat where
  "GAME_SMSG_ITEM_PRICES = 248"

definition GAME_SMSG_ITEM_SALVAGE_SESSION_START :: nat where
  "GAME_SMSG_ITEM_SALVAGE_SESSION_START = 354"

definition GAME_SMSG_ITEM_SALVAGE_SESSION_CANCEL :: nat where
  "GAME_SMSG_ITEM_SALVAGE_SESSION_CANCEL = 355"

definition GAME_SMSG_ITEM_SALVAGE_SESSION_DONE :: nat where
  "GAME_SMSG_ITEM_SALVAGE_SESSION_DONE = 356"

definition GAME_SMSG_ITEM_SALVAGE_SESSION_SUCCESS :: nat where
  "GAME_SMSG_ITEM_SALVAGE_SESSION_SUCCESS = 357"

definition GAME_SMSG_ITEM_SALVAGE_SESSION_ITEM_KEPT :: nat where
  "GAME_SMSG_ITEM_SALVAGE_SESSION_ITEM_KEPT = 358"

definition GAME_SMSG_AGENT_MOVEMENT_TICK :: nat where
  "GAME_SMSG_AGENT_MOVEMENT_TICK = 30"

definition GAME_SMSG_AGENT_INSTANCE_TIMER :: nat where
  "GAME_SMSG_AGENT_INSTANCE_TIMER = 31"

definition GAME_SMSG_AGENT_SPAWNED :: nat where
  "GAME_SMSG_AGENT_SPAWNED = 32"

definition GAME_SMSG_AGENT_DESPAWNED :: nat where
  "GAME_SMSG_AGENT_DESPAWNED = 33"

definition GAME_SMSG_AGENT_SET_PLAYER :: nat where
  "GAME_SMSG_AGENT_SET_PLAYER = 34"

definition GAME_SMSG_AGENT_UPDATE_DIRECTION :: nat where
  "GAME_SMSG_AGENT_UPDATE_DIRECTION = 37"

definition GAME_SMSG_AGENT_UPDATE_SPEED_BASE :: nat where
  "GAME_SMSG_AGENT_UPDATE_SPEED_BASE = 39"

definition GAME_SMSG_AGENT_STOP_MOVING :: nat where
  "GAME_SMSG_AGENT_STOP_MOVING = 40"

definition GAME_SMSG_AGENT_MOVE_TO_POINT :: nat where
  "GAME_SMSG_AGENT_MOVE_TO_POINT = 41"

definition GAME_SMSG_AGENT_UPDATE_SPEED :: nat where
  "GAME_SMSG_AGENT_UPDATE_SPEED = 43"

definition GAME_SMSG_AGENT_UPDATE_POSITION :: nat where
  "GAME_SMSG_AGENT_UPDATE_POSITION = 44"

definition GAME_SMSG_AGENT_UPDATE_ROTATION :: nat where
  "GAME_SMSG_AGENT_UPDATE_ROTATION = 46"

definition GAME_SMSG_AGENT_UPDATE_DESTINATION :: nat where
  "GAME_SMSG_AGENT_UPDATE_DESTINATION = 42"

definition GAME_SMSG_UPDATE_PLAYER_INFO :: nat where
  "GAME_SMSG_UPDATE_PLAYER_INFO = 88"

definition GAME_SMSG_AGENT_DESTROY_PLAYER :: nat where
  "GAME_SMSG_AGENT_DESTROY_PLAYER = 89"

definition GAME_SMSG_AGENT_CREATE_NPC :: nat where
  "GAME_SMSG_AGENT_CREATE_NPC = 169"

definition GAME_SMSG_AGENT_PINGED :: nat where
  "GAME_SMSG_AGENT_PINGED = 52"

definition GAME_SMSG_AGENT_UPDATE_EFFECTS :: nat where
  "GAME_SMSG_AGENT_UPDATE_EFFECTS = 240"

definition GAME_SMSG_NPC_UPDATE_PROPERTIES :: nat where
  "GAME_SMSG_NPC_UPDATE_PROPERTIES = 85"

definition GAME_SMSG_NPC_UPDATE_MODEL :: nat where
  "GAME_SMSG_NPC_UPDATE_MODEL = 86"

definition GAME_SMSG_PLAYER_UNLOCKED_PROFESSION :: nat where
  "GAME_SMSG_PLAYER_UNLOCKED_PROFESSION = 181"

definition GAME_SMSG_PLAYER_UPDATE_PROFESSION :: nat where
  "GAME_SMSG_PLAYER_UPDATE_PROFESSION = 182"

definition GAME_SMSG_AGENT_UPDATE_NPC_NAME :: nat where
  "GAME_SMSG_AGENT_UPDATE_NPC_NAME = 154"

definition GAME_SMSG_AGENT_ATTR_UPDATE_INT :: nat where
  "GAME_SMSG_AGENT_ATTR_UPDATE_INT = 158"

definition GAME_SMSG_AGENT_ATTR_UPDATE_INT_TARGET :: nat where
  "GAME_SMSG_AGENT_ATTR_UPDATE_INT_TARGET = 159"

definition GAME_SMSG_AGENT_ATTR_UPDATE_FLOAT :: nat where
  "GAME_SMSG_AGENT_ATTR_UPDATE_FLOAT = 161"

definition GAME_SMSG_AGENT_ATTR_UPDATE_FLOAT_TARGET :: nat where
  "GAME_SMSG_AGENT_ATTR_UPDATE_FLOAT_TARGET = 162"

definition GAME_SMSG_AGENT_UPDATE_PROFESSION :: nat where
  "GAME_SMSG_AGENT_UPDATE_PROFESSION = 165"

definition GAME_SMSG_CINEMATIC_START :: nat where
  "GAME_SMSG_CINEMATIC_START = 255"

definition GAME_SMSG_CINEMATIC_DATA :: nat where
  "GAME_SMSG_CINEMATIC_DATA = 259"

definition GAME_SMSG_CINEMATIC_DATA_END :: nat where
  "GAME_SMSG_CINEMATIC_DATA_END = 258"

definition GAME_SMSG_CINEMATIC_END :: nat where
  "GAME_SMSG_CINEMATIC_END = 260"

definition GAME_SMSG_TRADE_REQUEST :: nat where
  "GAME_SMSG_TRADE_REQUEST = 0"

definition GAME_SMSG_TRADE_TERMINATE :: nat where
  "GAME_SMSG_TRADE_TERMINATE = 1"

definition GAME_SMSG_TRADE_OFFERED_COUNT :: nat where
  "GAME_SMSG_TRADE_OFFERED_COUNT = 8"

definition GAME_SMSG_TRADE_RECEIVE_OFFER :: nat where
  "GAME_SMSG_TRADE_RECEIVE_OFFER = 3"

definition GAME_SMSG_TRADE_ADD_ITEM :: nat where
  "GAME_SMSG_TRADE_ADD_ITEM = 4"

definition GAME_SMSG_TRADE_ACKNOWLEDGE :: nat where
  "GAME_SMSG_TRADE_ACKNOWLEDGE = 5"

definition GAME_SMSG_TRADE_ACCEPT :: nat where
  "GAME_SMSG_TRADE_ACCEPT = 6"

definition GAME_SMSG_TRADE_CHANGE_OFFER :: nat where
  "GAME_SMSG_TRADE_CHANGE_OFFER = 2"

definition GAME_SMSG_CHAT_MESSAGE_CORE :: nat where
  "GAME_SMSG_CHAT_MESSAGE_CORE = 92"

definition GAME_SMSG_CHAT_MESSAGE_LOCAL :: nat where
  "GAME_SMSG_CHAT_MESSAGE_LOCAL = 96"

definition GAME_SMSG_CHAT_MESSAGE_GLOBAL :: nat where
  "GAME_SMSG_CHAT_MESSAGE_GLOBAL = 95"

definition GAME_SMSG_CHAT_MESSAGE_SERVER :: nat where
  "GAME_SMSG_CHAT_MESSAGE_SERVER = 93"

definition GAME_SMSG_PLAYER_UPDATE_FACTIONS :: nat where
  "GAME_SMSG_PLAYER_UPDATE_FACTIONS = 232"

definition GAME_SMSG_PLAYER_FACTION_MAX_KURZICK :: nat where
  "GAME_SMSG_PLAYER_FACTION_MAX_KURZICK = 233"

definition GAME_SMSG_PLAYER_FACTION_MAX_LUXON :: nat where
  "GAME_SMSG_PLAYER_FACTION_MAX_LUXON = 234"

definition GAME_SMSG_PLAYER_FACTION_MAX_BALTHAZAR :: nat where
  "GAME_SMSG_PLAYER_FACTION_MAX_BALTHAZAR = 235"

definition GAME_SMSG_PLAYER_FACTION_MAX_IMPERIAL :: nat where
  "GAME_SMSG_PLAYER_FACTION_MAX_IMPERIAL = 236"

definition GAME_SMSG_PLAYER_FACTION_UPDATE :: nat where
  "GAME_SMSG_PLAYER_FACTION_UPDATE = 237"

definition GAME_SMSG_MAPS_UNLOCKED :: nat where
  "GAME_SMSG_MAPS_UNLOCKED = 147"

definition GAME_SMSG_SKILLBAR_UPDATE_SKILL :: nat where
  "GAME_SMSG_SKILLBAR_UPDATE_SKILL = 216"

definition GAME_SMSG_SKILLBAR_UPDATE :: nat where
  "GAME_SMSG_SKILLBAR_UPDATE = 217"

definition GAME_SMSG_SKILL_ADD_TO_WINDOWS_DATA :: nat where
  "GAME_SMSG_SKILL_ADD_TO_WINDOWS_DATA = 223"

definition GAME_SMSG_SKILL_ADD_TO_WINDOWS_END :: nat where
  "GAME_SMSG_SKILL_ADD_TO_WINDOWS_END = 224"

definition GAME_SMSG_SKILL_ACTIVATED :: nat where
  "GAME_SMSG_SKILL_ACTIVATED = 226"

definition GAME_SMSG_SKILL_ACTIVATE :: nat where
  "GAME_SMSG_SKILL_ACTIVATE = 227"

definition GAME_SMSG_SKILL_RECHARGE :: nat where
  "GAME_SMSG_SKILL_RECHARGE = 228"

definition GAME_SMSG_SKILL_RECHARGED :: nat where
  "GAME_SMSG_SKILL_RECHARGED = 229"

definition GAME_SMSG_HERO_BEHAVIOR :: nat where
  "GAME_SMSG_HERO_BEHAVIOR = 97"

definition GAME_SMSG_HERO_SKILL_STATUS :: nat where
  "GAME_SMSG_HERO_SKILL_STATUS = 99"

definition GAME_SMSG_HERO_SKILL_STATUS_BITMAP :: nat where
  "GAME_SMSG_HERO_SKILL_STATUS_BITMAP = 100"

definition GAME_SMSG_AGENT_UPDATE_ATTRIBUTES :: nat where
  "GAME_SMSG_AGENT_UPDATE_ATTRIBUTES = 58"

definition GAME_SMSG_QUEST_DESCRIPTION :: nat where
  "GAME_SMSG_QUEST_DESCRIPTION = 75"

definition GAME_SMSG_QUEST_GENERAL_INFO :: nat where
  "GAME_SMSG_QUEST_GENERAL_INFO = 79"

definition GAME_SMSG_QUEST_UPDATE_MARKER :: nat where
  "GAME_SMSG_QUEST_UPDATE_MARKER = 80"

definition GAME_SMSG_QUEST_REMOVE :: nat where
  "GAME_SMSG_QUEST_REMOVE = 81"

definition GAME_SMSG_TITLE_RANK_DATA :: nat where
  "GAME_SMSG_TITLE_RANK_DATA = 242"

definition GAME_SMSG_TITLE_RANK_DISPLAY :: nat where
  "GAME_SMSG_TITLE_RANK_DISPLAY = 243"

definition GAME_SMSG_TITLE_TRACK_INFO :: nat where
  "GAME_SMSG_TITLE_TRACK_INFO = 245"

definition GAME_SMSG_MISSION_INFOBOX_ADD :: nat where
  "GAME_SMSG_MISSION_INFOBOX_ADD = 184"

definition GAME_SMSG_MISSION_OBJECTIVE_ADD :: nat where
  "GAME_SMSG_MISSION_OBJECTIVE_ADD = 186"

definition GAME_SMSG_DIALOG_BUTTON :: nat where
  "GAME_SMSG_DIALOG_BUTTON = 125"

definition GAME_SMSG_DIALOG_BODY :: nat where
  "GAME_SMSG_DIALOG_BODY = 127"

definition GAME_SMSG_DIALOG_SENDER :: nat where
  "GAME_SMSG_DIALOG_SENDER = 128"

definition GAME_SMSG_GUILD_PLAYER_ROLE :: nat where
  "GAME_SMSG_GUILD_PLAYER_ROLE = 279"

definition GAME_SMSG_GUILD_PLAYER_INFO :: nat where
  "GAME_SMSG_GUILD_PLAYER_INFO = 294"

definition GAME_SMSG_GUILD_GENERAL_INFO :: nat where
  "GAME_SMSG_GUILD_GENERAL_INFO = 288"

definition GAME_SMSG_GUILD_CHANGE_FACTION :: nat where
  "GAME_SMSG_GUILD_CHANGE_FACTION = 289"

definition GAME_SMSG_GUILD_INVITE_RECEIVED :: nat where
  "GAME_SMSG_GUILD_INVITE_RECEIVED = 290"

definition GAME_SMSG_GUILD_PLAYER_CHANGE_COMPLETE :: nat where
  "GAME_SMSG_GUILD_PLAYER_CHANGE_COMPLETE = 297"

definition GAME_SMSG_GUILD_CHANGE_PLAYER_CONTEXT :: nat where
  "GAME_SMSG_GUILD_CHANGE_PLAYER_CONTEXT = 298"

definition GAME_SMSG_GUILD_CHANGE_PLAYER_TYPE :: nat where
  "GAME_SMSG_GUILD_CHANGE_PLAYER_TYPE = 300"

definition GAME_SMSG_GUILD_CHANGE_PLAYER_STATUS :: nat where
  "GAME_SMSG_GUILD_CHANGE_PLAYER_STATUS = 299"

definition GAME_SMSG_EFFECT_UPKEEP_ADDED :: nat where
  "GAME_SMSG_EFFECT_UPKEEP_ADDED = 62"

definition GAME_SMSG_EFFECT_UPKEEP_REMOVED :: nat where
  "GAME_SMSG_EFFECT_UPKEEP_REMOVED = 63"

definition GAME_SMSG_EFFECT_UPKEEP_APPLIED :: nat where
  "GAME_SMSG_EFFECT_UPKEEP_APPLIED = 64"

definition GAME_SMSG_EFFECT_APPLIED :: nat where
  "GAME_SMSG_EFFECT_APPLIED = 65"

definition GAME_SMSG_EFFECT_RENEWED :: nat where
  "GAME_SMSG_EFFECT_RENEWED = 66"

definition GAME_SMSG_EFFECT_REMOVED :: nat where
  "GAME_SMSG_EFFECT_REMOVED = 67"

definition GAME_SMSG_PARTY_SET_DIFFICULTY :: nat where
  "GAME_SMSG_PARTY_SET_DIFFICULTY = 445"

definition GAME_SMSG_PARTY_HERO_ADD :: nat where
  "GAME_SMSG_PARTY_HERO_ADD = 449"

definition GAME_SMSG_PARTY_HERO_REMOVE :: nat where
  "GAME_SMSG_PARTY_HERO_REMOVE = 450"

definition GAME_SMSG_PARTY_INVITE_ADD :: nat where
  "GAME_SMSG_PARTY_INVITE_ADD = 451"

definition GAME_SMSG_PARTY_JOIN_REQUEST :: nat where
  "GAME_SMSG_PARTY_JOIN_REQUEST = 452"

definition GAME_SMSG_PARTY_INVITE_CANCEL :: nat where
  "GAME_SMSG_PARTY_INVITE_CANCEL = 453"

definition GAME_SMSG_PARTY_REQUEST_CANCEL :: nat where
  "GAME_SMSG_PARTY_REQUEST_CANCEL = 454"

definition GAME_SMSG_PARTY_YOU_ARE_LEADER :: nat where
  "GAME_SMSG_PARTY_YOU_ARE_LEADER = 457"

definition GAME_SMSG_PARTY_PLAYER_ADD :: nat where
  "GAME_SMSG_PARTY_PLAYER_ADD = 458"

definition GAME_SMSG_PARTY_PLAYER_REMOVE :: nat where
  "GAME_SMSG_PARTY_PLAYER_REMOVE = 463"

definition GAME_SMSG_PARTY_PLAYER_READY :: nat where
  "GAME_SMSG_PARTY_PLAYER_READY = 464"

definition GAME_SMSG_PARTY_CREATE :: nat where
  "GAME_SMSG_PARTY_CREATE = 465"

definition GAME_SMSG_PARTY_MEMBER_STREAM_END :: nat where
  "GAME_SMSG_PARTY_MEMBER_STREAM_END = 466"

definition GAME_SMSG_PARTY_DEFEATED :: nat where
  "GAME_SMSG_PARTY_DEFEATED = 471"

definition GAME_SMSG_PARTY_SEARCH_REQUEST_JOIN :: nat where
  "GAME_SMSG_PARTY_SEARCH_REQUEST_JOIN = 474"

definition GAME_SMSG_PARTY_SEARCH_REQUEST_DONE :: nat where
  "GAME_SMSG_PARTY_SEARCH_REQUEST_DONE = 475"

definition GAME_SMSG_PARTY_SEARCH_ADVERTISEMENT :: nat where
  "GAME_SMSG_PARTY_SEARCH_ADVERTISEMENT = 476"

definition GAME_SMSG_PARTY_SEARCH_SEEK :: nat where
  "GAME_SMSG_PARTY_SEARCH_SEEK = 477"

definition GAME_SMSG_PARTY_SEARCH_REMOVE :: nat where
  "GAME_SMSG_PARTY_SEARCH_REMOVE = 478"

definition GAME_SMSG_PARTY_SEARCH_SIZE :: nat where
  "GAME_SMSG_PARTY_SEARCH_SIZE = 479"

definition GAME_SMSG_PARTY_SEARCH_TYPE :: nat where
  "GAME_SMSG_PARTY_SEARCH_TYPE = 480"

definition AUTH_SMSG_REQUEST_RESPONSE :: nat where
  "AUTH_SMSG_REQUEST_RESPONSE = 3"

definition AUTH_SMSG_SERVER_RESPONSE :: nat where
  "AUTH_SMSG_SERVER_RESPONSE = 38"

definition AUTH_SMSG_SESSION_INFO :: nat where
  "AUTH_SMSG_SESSION_INFO = 1"

definition AUTH_SMSG_ACCOUNT_INFO :: nat where
  "AUTH_SMSG_ACCOUNT_INFO = 17"

definition AUTH_SMSG_CHARACTER_INFO :: nat where
  "AUTH_SMSG_CHARACTER_INFO = 7"

definition AUTH_SMSG_GAME_SERVER_INFO :: nat where
  "AUTH_SMSG_GAME_SERVER_INFO = 9"

definition AUTH_SMSG_ACCOUNT_SETTINGS :: nat where
  "AUTH_SMSG_ACCOUNT_SETTINGS = 22"

definition AUTH_SMSG_FRIEND_UPDATE_INFO :: nat where
  "AUTH_SMSG_FRIEND_UPDATE_INFO = 10"

definition AUTH_SMSG_FRIEND_UPDATE_STATUS :: nat where
  "AUTH_SMSG_FRIEND_UPDATE_STATUS = 11"

definition AUTH_SMSG_FRIEND_STREAM_END :: nat where
  "AUTH_SMSG_FRIEND_STREAM_END = 20"

definition AUTH_SMSG_FRIEND_UPDATE_LOCATION :: nat where
  "AUTH_SMSG_FRIEND_UPDATE_LOCATION = 32"

definition AUTH_SMSG_WHISPER_RECEIVED :: nat where
  "AUTH_SMSG_WHISPER_RECEIVED = 12"

definition GAME_CMSG_MOVE_TO_COORD :: nat where
  "GAME_CMSG_MOVE_TO_COORD = 32829"

definition GAME_CMSG_INTERACT_LIVING :: nat where
  "GAME_CMSG_INTERACT_LIVING = 32824"

definition GAME_CMSG_INTERACT_GADGET :: nat where
  "GAME_CMSG_INTERACT_GADGET = 32848"

definition GAME_CMSG_ROTATE_PLAYER :: nat where
  "GAME_CMSG_ROTATE_PLAYER = 32831"

definition AUTH_CMSG_HEARTBEAT :: nat where
  "AUTH_CMSG_HEARTBEAT = 32768"

definition AUTH_CMSG_ASK_SERVER_RESPONSE :: nat where
  "AUTH_CMSG_ASK_SERVER_RESPONSE = 32821"

definition AUTH_CMSG_SEND_COMPUTER_INFO :: nat where
  "AUTH_CMSG_SEND_COMPUTER_INFO = 32769"

definition AUTH_CMSG_SEND_COMPUTER_HASH :: nat where
  "AUTH_CMSG_SEND_COMPUTER_HASH = 32770"

definition AUTH_CMSG_REQUEST_GAME_INSTANCE :: nat where
  "AUTH_CMSG_REQUEST_GAME_INSTANCE = 32809"

definition AUTH_CMSG_CHANGE_PLAY_CHARACTER :: nat where
  "AUTH_CMSG_CHANGE_PLAY_CHARACTER = 32778"

definition AUTH_CMSG_SET_PLAYER_STATUS :: nat where
  "AUTH_CMSG_SET_PLAYER_STATUS = 32782"

definition GAME_CMSG_SEND_CHAT_MESSAGE :: nat where
  "GAME_CMSG_SEND_CHAT_MESSAGE = 32867"

definition GAME_CMSG_DISCONNECT :: nat where
  "GAME_CMSG_DISCONNECT = 32776"

definition GAME_CMSG_SKIP_CINEMATIC :: nat where
  "GAME_CMSG_SKIP_CINEMATIC = 32866"

definition GAME_CMSG_ITEM_CHANGE_GOLD :: nat where
  "GAME_CMSG_ITEM_CHANGE_GOLD = 32891"

definition GAME_CMSG_SEND_DIALOG :: nat where
  "GAME_CMSG_SEND_DIALOG = 32826"

definition GAME_CMSG_INSTANCE_LOAD_REQUEST_SPAWN :: nat where
  "GAME_CMSG_INSTANCE_LOAD_REQUEST_SPAWN = 32903"

definition GAME_CMSG_INSTANCE_LOAD_REQUEST_PLAYERS :: nat where
  "GAME_CMSG_INSTANCE_LOAD_REQUEST_PLAYERS = 32911"

definition GAME_CMSG_PING_REPLY :: nat where
  "GAME_CMSG_PING_REPLY = 32777"

definition GAME_CMSG_PING_REQUEST :: nat where
  "GAME_CMSG_PING_REQUEST = 32780"

definition GAME_CMSG_HERO_USE_SKILL :: nat where
  "GAME_CMSG_HERO_USE_SKILL = 32795"

definition GAME_CMSG_HERO_BEHAVIOR :: nat where
  "GAME_CMSG_HERO_BEHAVIOR = 32788"

definition GAME_CMSG_HERO_SKILL_TOGGLE :: nat where
  "GAME_CMSG_HERO_SKILL_TOGGLE = 32792"

definition GAME_CMSG_PARTY_ENTER_GUILD_HALL :: nat where
  "GAME_CMSG_PARTY_ENTER_GUILD_HALL = 32943"

definition GAME_CMSG_PARTY_LEAVE_GUILD_HALL :: nat where
  "GAME_CMSG_PARTY_LEAVE_GUILD_HALL = 32945"

definition GAME_CMSG_PARTY_TRAVEL :: nat where
  "GAME_CMSG_PARTY_TRAVEL = 32944"

definition GAME_CMSG_PARTY_RETURN_TO_OUTPOST :: nat where
  "GAME_CMSG_PARTY_RETURN_TO_OUTPOST = 32934"

definition GAME_CMSG_ITEM_USE :: nat where
  "GAME_CMSG_ITEM_USE = 32893"

definition GAME_CMSG_INTERACT_ITEM :: nat where
  "GAME_CMSG_INTERACT_ITEM = 32830"

definition GAME_CMSG_ITEM_MOVE :: nat where
  "GAME_CMSG_ITEM_MOVE = 32881"

definition GAME_CMSG_ITEM_SALVAGE_SESSION_OPEN :: nat where
  "GAME_CMSG_ITEM_SALVAGE_SESSION_OPEN = 32886"

definition GAME_CMSG_ITEM_SALVAGE_SESSION_CANCEL :: nat where
  "GAME_CMSG_ITEM_SALVAGE_SESSION_CANCEL = 32887"

definition GAME_CMSG_ITEM_SALVAGE_SESSION_DONE :: nat where
  "GAME_CMSG_ITEM_SALVAGE_SESSION_DONE = 32888"

definition GAME_CMSG_ITEM_SALVAGE_MATERIALS :: nat where
  "GAME_CMSG_ITEM_SALVAGE_MATERIALS = 32889"

definition GAME_CMSG_ITEM_SALVAGE_UPGRADE :: nat where
  "GAME_CMSG_ITEM_SALVAGE_UPGRADE = 32890"

definition GAME_CMSG_UNEQUIP_ITEM :: nat where
  "GAME_CMSG_UNEQUIP_ITEM = 32846"

definition GAME_CMSG_ITEM_IDENTIFY :: nat where
  "GAME_CMSG_ITEM_IDENTIFY = 32875"

definition GAME_CMSG_TRANSACT_ITEMS :: nat where
  "GAME_CMSG_TRANSACT_ITEMS = 32844"

definition GAME_CMSG_BUY_MATERIALS :: nat where
  "GAME_CMSG_BUY_MATERIALS = 32841"

definition GAME_CMSG_REQUEST_QUOTE :: nat where
  "GAME_CMSG_REQUEST_QUOTE = 32843"

definition GAME_CMSG_HERO_FLAG_SINGLE :: nat where
  "GAME_CMSG_HERO_FLAG_SINGLE = 32793"

definition GAME_CMSG_HERO_FLAG_ALL :: nat where
  "GAME_CMSG_HERO_FLAG_ALL = 32794"

definition GAME_CMSG_PARTY_ACCEPT_INVITE :: nat where
  "GAME_CMSG_PARTY_ACCEPT_INVITE = 32923"

definition GAME_CMSG_PARTY_LEAVE_GROUP :: nat where
  "GAME_CMSG_PARTY_LEAVE_GROUP = 32929"

definition GAME_CMSG_PARTY_ACCEPT_REFUSE :: nat where
  "GAME_CMSG_PARTY_ACCEPT_REFUSE = 32925"

definition GAME_CMSG_PARTY_READY_STATUS :: nat where
  "GAME_CMSG_PARTY_READY_STATUS = 32942"

definition GAME_CMSG_PARTY_SET_DIFFICULTY :: nat where
  "GAME_CMSG_PARTY_SET_DIFFICULTY = 32922"

definition GAME_CMSG_HERO_ADD :: nat where
  "GAME_CMSG_HERO_ADD = 32797"

definition GAME_CMSG_HERO_KICK :: nat where
  "GAME_CMSG_HERO_KICK = 32798"

definition GAME_CMSG_PARTY_SEARCH_SEEK :: nat where
  "GAME_CMSG_PARTY_SEARCH_SEEK = 32937"

definition GAME_CMSG_PARTY_SEARCH_CANCEL :: nat where
  "GAME_CMSG_PARTY_SEARCH_CANCEL = 32938"

definition GAME_CMSG_PARTY_SEARCH_REQUEST_JOIN :: nat where
  "GAME_CMSG_PARTY_SEARCH_REQUEST_JOIN = 32939"

definition GAME_CMSG_PARTY_SEARCH_REQUEST_REPLY :: nat where
  "GAME_CMSG_PARTY_SEARCH_REQUEST_REPLY = 32940"

definition GAME_CMSG_PARTY_SEARCH_TYPE :: nat where
  "GAME_CMSG_PARTY_SEARCH_TYPE = 32941"

definition GAME_CMSG_DEPOSIT_FACTION :: nat where
  "GAME_CMSG_DEPOSIT_FACTION = 32820"

definition GAME_CMSG_QUEST_ABANDON :: nat where
  "GAME_CMSG_QUEST_ABANDON = 32784"

definition GAME_CMSG_QUEST_REQUEST_INFOS :: nat where
  "GAME_CMSG_QUEST_REQUEST_INFOS = 32785"

definition GAME_CMSG_USE_SKILL :: nat where
  "GAME_CMSG_USE_SKILL = 32837"

definition GAME_CMSG_ATTACK_AGENT :: nat where
  "GAME_CMSG_ATTACK_AGENT = 32805"

definition GAME_CMSG_SKILLBAR_LOAD :: nat where
  "GAME_CMSG_SKILLBAR_LOAD = 32860"

definition GAME_CMSG_ATTRIBUTE_LOAD :: nat where
  "GAME_CMSG_ATTRIBUTE_LOAD = 32783"

definition GAME_CMSG_CHANGE_SECOND_PROFESSION :: nat where
  "GAME_CMSG_CHANGE_SECOND_PROFESSION = 32832"

definition GAME_CMSG_TRADE_ACKNOWLEDGE :: nat where
  "GAME_CMSG_TRADE_ACKNOWLEDGE = 32768"

definition GAME_CMSG_TRADE_CANCEL :: nat where
  "GAME_CMSG_TRADE_CANCEL = 32769"

definition GAME_CMSG_TRADE_ADD_ITEM :: nat where
  "GAME_CMSG_TRADE_ADD_ITEM = 32770"

definition GAME_CMSG_TRADE_SEND_OFFER :: nat where
  "GAME_CMSG_TRADE_SEND_OFFER = 32771"

definition GAME_CMSG_TRADE_REMOVE_ITEM :: nat where
  "GAME_CMSG_TRADE_REMOVE_ITEM = 32773"

definition GAME_CMSG_TRADE_CANCEL_OFFER :: nat where
  "GAME_CMSG_TRADE_CANCEL_OFFER = 32774"

definition GAME_CMSG_TRADE_ACCEPT :: nat where
  "GAME_CMSG_TRADE_ACCEPT = 32775"

definition GAME_CMSG_TRADE_INITIATE :: nat where
  "GAME_CMSG_TRADE_INITIATE = 32840"

section \<open>The entries of the handlers\<close>

definition HandlePingRequest_entry :: handler_entry where
  "HandlePingRequest_entry =
    check_of GAME_SMSG_PING_REQUEST [mem C_Header ''header'']"

definition HandlePingReply_entry :: handler_entry where
  "HandlePingReply_entry =
    check_of GAME_SMSG_PING_REPLY [mem C_Header ''header'', mem C_int32_t ''ping'']"

definition HandleInstanceShowWin_entry :: handler_entry where
  "HandleInstanceShowWin_entry =
    check_of GAME_SMSG_INSTANCE_SHOW_WIN [mem C_Header ''header'']"

definition HandleInstanceLoadHead_entry :: handler_entry where
  "HandleInstanceLoadHead_entry =
    check_of GAME_SMSG_INSTANCE_LOAD_HEAD [mem C_Header ''header'', mem C_int8_t ''b1'',
    mem C_int8_t ''b2'', mem C_int8_t ''b3'', mem C_int8_t ''b4'']"

definition HandleInstanceCountdownStop_entry :: handler_entry where
  "HandleInstanceCountdownStop_entry =
    check_of GAME_SMSG_INSTANCE_COUNTDOWN_STOP [mem C_Header ''header'']"

definition HandleInstanceCountdown_entry :: handler_entry where
  "HandleInstanceCountdown_entry =
    check_of GAME_SMSG_INSTANCE_COUNTDOWN [mem C_Header ''header'', arr C_uint16_t ''text'' 122,
    mem C_int8_t ''unk1'', mem C_int32_t ''unk2'', mem C_int32_t ''time'']"

definition HandleInstanceLoadPlayerName_entry :: handler_entry where
  "HandleInstanceLoadPlayerName_entry =
    check_of GAME_SMSG_INSTANCE_LOAD_PLAYER_NAME [mem C_Header ''header'',
    arr C_uint16_t ''name'' 20]"

definition HandleInstanceLoadSpawnPoint_entry :: handler_entry where
  "HandleInstanceLoadSpawnPoint_entry =
    check_of GAME_SMSG_INSTANCE_LOAD_SPAWN_POINT [mem C_Header ''header'',
    mem C_uint32_t ''map_file'', mem C_Vec2f ''pos'', mem C_int16_t ''plane'',
    mem C_uint8_t ''unk0'', mem C_uint8_t ''is_cinematic'', arr C_uint8_t ''unknow'' 8]"

definition HandleInstanceLoadInfo_entry :: handler_entry where
  "HandleInstanceLoadInfo_entry =
    check_of GAME_SMSG_INSTANCE_LOAD_INFO [mem C_Header ''header'', mem C_AgentId ''agent'',
    mem C_int16_t ''map_id'', mem C_int8_t ''is_explorable'', mem C_int32_t ''district'',
    mem C_int8_t ''language'', mem C_int8_t ''is_observer'']"

definition HandleGameTransferInfo_entry :: handler_entry where
  "HandleGameTransferInfo_entry =
    check_of GAME_SMSG_TRANSFER_GAME_SERVER_INFO [mem C_Header ''header'',
    arr C_uint8_t ''host'' 24, mem C_uint32_t ''world_id'', mem C_int8_t ''region'',
    mem C_uint16_t ''map_id'', mem C_uint8_t ''is_explorable'', mem C_uint32_t ''player_id'']"

definition HandleReadyForMapSpawn_entry :: handler_entry where
  "HandleReadyForMapSpawn_entry = no_check"

definition HandleCantEnterOutpost_entry :: handler_entry where
  "HandleCantEnterOutpost_entry =
    check_of GAME_SMSG_INSTANCE_CANT_ENTER [mem C_Header ''header'', mem C_int8_t ''value'']"

definition HandleInstanceTravelTimer_entry :: handler_entry where
  "HandleInstanceTravelTimer_entry =
    check_of GAME_SMSG_INSTANCE_TRAVEL_TIMER [mem C_Header ''header'',
    mem C_uint16_t ''time_in_sec'', mem C_uint8_t ''unk2'', arr C_uint16_t ''msg'' 122]"

definition HandleInstanceLoadFinish_entry :: handler_entry where
  "HandleInstanceLoadFinish_entry =
    check_of GAME_SMSG_INSTANCE_LOAD_FINISH [mem C_Header ''header'']"

definition HandleInstanceLoaded_entry :: handler_entry where
  "HandleInstanceLoaded_entry =
    check_of GAME_SMSG_INSTANCE_LOADED [mem C_Header ''header'', mem C_uint32_t ''unk1'']"

definition HandleFriendListMessage_entry :: handler_entry where
  "HandleFriendListMessage_entry =
    check_of GAME_SMSG_FRIENDLIST_MESSAGE [mem C_Header ''header'', mem C_int32_t ''type'',
    mem C_int32_t ''unk2'', arr C_uint16_t ''subject'' 256, arr C_uint16_t ''message'' 256]"

definition HandleInstanceRedirect_entry :: handler_entry where
  "HandleInstanceRedirect_entry =
    check_of GAME_SMSG_INSTANCE_REDIRECT [mem C_Header ''header'', mem C_uint16_t ''map_id'']"

definition HandleGoldCharacterAdd_entry :: handler_entry where
  "HandleGoldCharacterAdd_entry =
    check_of GAME_SMSG_UPDATE_GOLD_CHARACTER [mem C_Header ''header'', mem C_int16_t ''stream'',
    mem C_int32_t ''gold'']"

definition HandleGoldStorageAdd_entry :: handler_entry where
  "HandleGoldStorageAdd_entry =
    check_of GAME_SMSG_UPDATE_GOLD_STORAGE [mem C_Header ''header'', mem C_int16_t ''stream'',
    mem C_int32_t ''gold'']"

definition HandleGoldCharacterRemove_entry :: handler_entry where
  "HandleGoldCharacterRemove_entry =
    check_of GAME_SMSG_GOLD_CHARACTER_REMOVE [mem C_Header ''header'', mem C_int16_t ''stream'',
    mem C_int32_t ''gold'']"

definition HandleGoldStorageRemove_entry :: handler_entry where
  "HandleGoldStorageRemove_entry =
    check_of GAME_SMSG_GOLD_STORAGE_REMOVE [mem C_Header ''header'', mem C_int16_t ''stream'',
    mem C_int32_t ''gold'']"

definition HandleInventoryItemQuantity_entry :: handler_entry where
  "HandleInventoryItemQuantity_entry =
    check_of GAME_SMSG_ITEM_UPDATE_QUANTITY [mem C_Header ''header'', mem C_int32_t ''item_id'',
    mem C_int32_t ''quantity'']"

definition HandleInventoryItemLocation_entry :: handler_entry where
  "HandleInventoryItemLocation_entry =
    check_of GAME_SMSG_ITEM_MOVED_TO_LOCATION [mem C_Header ''header'', mem C_int16_t ''stream_id'',
    mem C_int32_t ''item_id'', mem C_int16_t ''bag_id'', mem C_int8_t ''slot'']"

definition HandleInventoryCreateBag_entry :: handler_entry where
  "HandleInventoryCreateBag_entry =
    check_of GAME_SMSG_INVENTORY_CREATE_BAG [mem C_Header ''header'', mem C_int16_t ''stream_id'',
    mem C_int8_t ''bag_type'', mem C_int8_t ''bag_model_id'', mem C_int16_t ''bag_id'',
    mem C_int8_t ''slot_count'', mem C_int32_t ''assoc_item_id'']"

definition HandleItemStreamCreate_entry :: handler_entry where
  "HandleItemStreamCreate_entry =
    check_of GAME_SMSG_ITEM_STREAM_CREATE [mem C_Header ''header'', mem C_uint16_t ''stream_id'',
    mem C_uint8_t ''is_hero'']"

definition HandleItemStreamDestroy_entry :: handler_entry where
  "HandleItemStreamDestroy_entry =
    check_of GAME_SMSG_ITEM_STREAM_DESTROY [mem C_Header ''header'', mem C_int16_t ''stream_id'']"

definition HandleItemWeaponSet_entry :: handler_entry where
  "HandleItemWeaponSet_entry =
    check_of GAME_SMSG_ITEM_WEAPON_SET [mem C_Header ''header'', mem C_int16_t ''stream_id'',
    mem C_int8_t ''slot'', mem C_int32_t ''leadhand'', mem C_int32_t ''offhand'']"

definition HandleUpdateActiveWeaponSet_entry :: handler_entry where
  "HandleUpdateActiveWeaponSet_entry =
    check_of GAME_SMSG_ITEM_SET_ACTIVE_WEAPON_SET [mem C_Header ''header'',
    mem C_int16_t ''stream'', mem C_int8_t ''slot'']"

definition HandleItemGeneralInfo_entry :: handler_entry where
  "HandleItemGeneralInfo_entry =
    check_of GAME_SMSG_ITEM_GENERAL_INFO [mem C_Header ''header'', mem C_int32_t ''item_id'',
    mem C_int32_t ''file_id'', mem C_int8_t ''type'', mem C_int8_t ''unk0'',
    mem C_int16_t ''dye_color'', mem C_int16_t ''materials'', mem C_int8_t ''unk1'',
    mem C_int32_t ''flags'', mem C_int32_t ''value'', mem C_int32_t ''model'',
    mem C_int32_t ''quantity'', arr C_uint16_t ''name'' 64, mem C_uint32_t ''n_modifier'',
    arr C_uint32_t ''modifier'' 64]"

definition HandleItemChangeLocation_entry :: handler_entry where
  "HandleItemChangeLocation_entry =
    check_of GAME_SMSG_ITEM_CHANGE_LOCATION [mem C_Header ''header'', mem C_int16_t ''stream_id'',
    mem C_int32_t ''item_id'', mem C_int16_t ''bag_id'', mem C_int8_t ''slot'']"

definition HandleItemRemove_entry :: handler_entry where
  "HandleItemRemove_entry =
    check_of GAME_SMSG_ITEM_REMOVE [mem C_Header ''header'', mem C_int16_t ''stream_id'',
    mem C_int32_t ''item_id'']"

definition HandleItemPriceQuote_entry :: handler_entry where
  "HandleItemPriceQuote_entry =
    check_of GAME_SMSG_ITEM_PRICE_QUOTE [mem C_Header ''header'', mem C_int32_t ''item_id'',
    mem C_int32_t ''price'']"

definition HandleWindowMerchant_entry :: handler_entry where
  "HandleWindowMerchant_entry =
    check_of GAME_SMSG_WINDOW_MERCHANT [mem C_Header ''header'', mem C_uint8_t ''type'',
    mem C_uint32_t ''unk'']"

definition HandleWindowItemStreamEnd_entry :: handler_entry where
  "HandleWindowItemStreamEnd_entry =
    check_of GAME_SMSG_WINDOW_ITEM_STREAM_END [mem C_Header ''header'', mem C_uint8_t ''type'']"

definition HandleWindowOwner_entry :: handler_entry where
  "HandleWindowOwner_entry =
    check_of GAME_SMSG_WINDOW_OWNER [mem C_Header ''header'', mem C_AgentId ''agent_id'']"

definition HandleWindowAddItems_entry :: handler_entry where
  "HandleWindowAddItems_entry =
    check_of GAME_SMSG_WINDOW_ADD_ITEMS [mem C_Header ''header'', mem C_uint32_t ''n_items'',
    arr C_uint32_t ''items'' 16]"

definition HandleWindowAddPrices_entry :: handler_entry where
  "HandleWindowAddPrices_entry =
    check_of GAME_SMSG_ITEM_PRICES [mem C_Header ''header'', mem C_uint32_t ''n_prices'',
    arr C_int32_t ''prices'' 16]"

definition HandleSalvageSessionStart_entry :: handler_entry where
  "HandleSalvageSessionStart_entry =
    check_of GAME_SMSG_ITEM_SALVAGE_SESSION_START [mem C_Header ''header'',
    mem C_uint16_t ''salvage_session_id'', mem C_uint32_t ''item_id'',
    mem C_uint32_t ''n_upgrades'', arr C_uint32_t ''upgrades'' 3]"

definition HandleSalvageSessionCancel_entry :: handler_entry where
  "HandleSalvageSessionCancel_entry =
    check_of GAME_SMSG_ITEM_SALVAGE_SESSION_CANCEL [mem C_Header ''header'']"

definition HandleSalvageSessionDone_entry :: handler_entry where
  "HandleSalvageSessionDone_entry =
    check_of GAME_SMSG_ITEM_SALVAGE_SESSION_DONE [mem C_Header ''header'']"

definition HandleSalvageSessionSuccess_entry :: handler_entry where
  "HandleSalvageSessionSuccess_entry =
    check_of GAME_SMSG_ITEM_SALVAGE_SESSION_SUCCESS [mem C_Header ''header'']"

definition HandleSalvageSessionItemKept_entry :: handler_entry where
  "HandleSalvageSessionItemKept_entry =
    check_of GAME_SMSG_ITEM_SALVAGE_SESSION_ITEM_KEPT [mem C_Header ''header'',
    mem C_uint8_t ''item_kept'']"

definition HandleAgentMovementTick_entry :: handler_entry where
  "HandleAgentMovementTick_entry =
    check_of GAME_SMSG_AGENT_MOVEMENT_TICK [mem C_Header ''header'', mem C_int32_t ''delta'']"

definition HandleAgentInstanceTimer_entry :: handler_entry where
  "HandleAgentInstanceTimer_entry =
    check_of GAME_SMSG_AGENT_INSTANCE_TIMER [mem C_Header ''header'', mem C_int32_t ''time'']"

definition HandleAgentSpawned_entry :: handler_entry where
  "HandleAgentSpawned_entry =
    check_of GAME_SMSG_AGENT_SPAWNED [mem C_Header ''header'', mem C_uint32_t ''agent_id'',
    mem C_uint32_t ''model_id'', mem C_uint8_t ''type'', mem C_uint8_t ''h000B'',
    mem C_Vec2f ''position'', mem C_int16_t ''plane'', mem C_Vec2f ''direction'',
    mem C_int8_t ''h001E'', mem C_float ''speed_base'', mem C_float ''h0023'',
    mem C_int32_t ''h0027'', mem C_int32_t ''model_type'', mem C_int32_t ''h002F'',
    mem C_int32_t ''h0033'', mem C_int32_t ''h0037'', mem C_int32_t ''h003B'',
    mem C_int32_t ''h003F'', mem C_float ''h0043'', mem C_float ''h0047'', mem C_float ''h004B'',
    mem C_float ''h004F'', mem C_int16_t ''h0053'', mem C_int32_t ''h0055'', mem C_float ''h0059'',
    mem C_float ''h005D'', mem C_int16_t ''h0061'']"

definition HandleAgentDespawned_entry :: handler_entry where
  "HandleAgentDespawned_entry =
    check_of GAME_SMSG_AGENT_DESPAWNED [mem C_Header ''header'', mem C_AgentId ''agent_id'']"

definition HandleAgentSetPlayer_entry :: handler_entry where
  "HandleAgentSetPlayer_entry =
    check_of GAME_SMSG_AGENT_SET_PLAYER [mem C_Header ''header'', mem C_AgentId ''agent_id'',
    mem C_int32_t ''unk0'']"

definition HandleAgentUpdateDirection_entry :: handler_entry where
  "HandleAgentUpdateDirection_entry =
    check_of GAME_SMSG_AGENT_UPDATE_DIRECTION [mem C_Header ''header'', mem C_AgentId ''agent_id'',
    mem C_Vec2f ''direction'', mem C_uint8_t ''orientation'']"

definition HandleAgentUpdateSpeedBase_entry :: handler_entry where
  "HandleAgentUpdateSpeedBase_entry =
    check_of GAME_SMSG_AGENT_UPDATE_SPEED_BASE [mem C_Header ''header'', mem C_AgentId ''agent_id'',
    mem C_float ''speed_base'']"

definition HandleAgentStopMoving_entry :: handler_entry where
  "HandleAgentStopMoving_entry =
    check_of GAME_SMSG_AGENT_STOP_MOVING [mem C_Header ''header'', mem C_int32_t ''agent_id'']"

definition HandleAgentMoveToPoint_entry :: handler_entry where
  "HandleAgentMoveToPoint_entry =
    check_of GAME_SMSG_AGENT_MOVE_TO_POINT [mem C_Header ''header'', mem C_AgentId ''agent_id'',
    mem C_Vec2f ''dest'', mem C_int16_t ''plane'', mem C_int16_t ''current_plane'']"

definition HandleAgentUpdateSpeedModifier_entry :: handler_entry where
  "HandleAgentUpdateSpeedModifier_entry =
    check_of GAME_SMSG_AGENT_UPDATE_SPEED [mem C_Header ''header'', mem C_AgentId ''agent_id'',
    mem C_float ''speed_modifier'', mem C_uint8_t ''unk0'']"

definition HandleAgentUpdatePosition_entry :: handler_entry where
  "HandleAgentUpdatePosition_entry =
    check_of GAME_SMSG_AGENT_UPDATE_POSITION [mem C_Header ''header'', mem C_AgentId ''agent_id'',
    mem C_Vec2f ''position'', mem C_int16_t ''plane'']"

definition HandleAgentUpdateRotation_entry :: handler_entry where
  "HandleAgentUpdateRotation_entry =
    check_of GAME_SMSG_AGENT_UPDATE_ROTATION [mem C_Header ''header'', mem C_uint32_t ''agent_id'',
    mem C_uint32_t ''rotation'', mem C_uint32_t ''unk0'']"

definition HandleAgentUpdateDestination_entry :: handler_entry where
  "HandleAgentUpdateDestination_entry =
    check_of GAME_SMSG_AGENT_UPDATE_DESTINATION [mem C_Header ''header'',
    mem C_AgentId ''agent_id'', mem C_Vec2f ''dest'', mem C_int16_t ''plane'',
    mem C_int16_t ''unk0'', mem C_int32_t ''target_id'']"

definition HandleUpdatePlayerInfo_entry :: handler_entry where
  "HandleUpdatePlayerInfo_entry =
    check_of GAME_SMSG_UPDATE_PLAYER_INFO [mem C_Header ''header'', mem C_int32_t ''player_id'',
    mem C_AgentId ''agent_id'', mem C_Appearance ''appearance'', mem C_int8_t ''unk0'',
    mem C_int32_t ''unk1'', mem C_int32_t ''unk2'', arr C_uint16_t ''name'' 32]"

definition HandleAgentDestroyPlayer_entry :: handler_entry where
  "HandleAgentDestroyPlayer_entry =
    check_of GAME_SMSG_AGENT_DESTROY_PLAYER [mem C_Header ''header'', mem C_int32_t ''player_id'']"

definition HandleAgentCreateNPC_entry :: handler_entry where
  "HandleAgentCreateNPC_entry =
    check_of GAME_SMSG_AGENT_CREATE_NPC [mem C_Header ''header'', mem C_AgentId ''agent_id'',
    mem C_int32_t ''agent_class'', mem C_int32_t ''npc_id'']"

definition HandleAgentPingeg_entry :: handler_entry where
  "HandleAgentPingeg_entry =
    check_of GAME_SMSG_AGENT_PINGED [mem C_Header ''header'', mem C_uint16_t ''player_id'',
    mem C_uint32_t ''agent_id'']"

definition HandleAgentUpdateEffects_entry :: handler_entry where
  "HandleAgentUpdateEffects_entry =
    check_of GAME_SMSG_AGENT_UPDATE_EFFECTS [mem C_Header ''header'', mem C_AgentId ''agent_id'',
    mem C_uint32_t ''effects'']"

definition HandleNPCUpdateProperties_entry :: handler_entry where
  "HandleNPCUpdateProperties_entry =
    check_of GAME_SMSG_NPC_UPDATE_PROPERTIES [mem C_Header ''header'', mem C_int32_t ''model_id'',
    mem C_int32_t ''unk2'', mem C_int32_t ''unk3'', mem C_int32_t ''unk4'', mem C_int32_t ''unk5'',
    mem C_int32_t ''unk6'', mem C_int8_t ''unk7'', mem C_int8_t ''unk8'', arr C_uint16_t ''name'' 8]"

definition HandleNPCUpdateModel_entry :: handler_entry where
  "HandleNPCUpdateModel_entry =
    check_of GAME_SMSG_NPC_UPDATE_MODEL [mem C_Header ''header'', mem C_uint32_t ''npc_id'',
    mem C_uint32_t ''n_models'', arr C_uint32_t ''models'' 8]"

definition HandlePlayerUnlockedProfession_entry :: handler_entry where
  "HandlePlayerUnlockedProfession_entry =
    check_of GAME_SMSG_PLAYER_UNLOCKED_PROFESSION [mem C_Header ''header'',
    mem C_AgentId ''agent_id'', mem C_int32_t ''unlocked'']"

definition HandlePlayerUpdateProfession_entry :: handler_entry where
  "HandlePlayerUpdateProfession_entry =
    check_of GAME_SMSG_PLAYER_UPDATE_PROFESSION [mem C_Header ''header'',
    mem C_AgentId ''agent_id'', mem C_int8_t ''prof1'', mem C_int8_t ''prof2'',
    mem C_int8_t ''is_pvp'']"

definition HandleAgentUpdateNpcName_entry :: handler_entry where
  "HandleAgentUpdateNpcName_entry =
    check_of GAME_SMSG_AGENT_UPDATE_NPC_NAME [mem C_Header ''header'', mem C_AgentId ''agent_id'',
    arr C_uint16_t ''name'' 32]"

definition HandleAgentAttrUpdateInt_entry :: handler_entry where
  "HandleAgentAttrUpdateInt_entry =
    check_of GAME_SMSG_AGENT_ATTR_UPDATE_INT [mem C_Header ''header'', mem C_int32_t ''attr_id'',
    mem C_AgentId ''agent_id'', mem C_int32_t ''value'']"

definition HandleAgentAttrUpdateIntTarget_entry :: handler_entry where
  "HandleAgentAttrUpdateIntTarget_entry =
    check_of GAME_SMSG_AGENT_ATTR_UPDATE_INT_TARGET [mem C_Header ''header'',
    mem C_int32_t ''attr_id'', mem C_AgentId ''target_id'', mem C_AgentId ''cause_id'',
    mem C_int32_t ''value'']"

definition HandleAgentAttrUpdateFloat_entry :: handler_entry where
  "HandleAgentAttrUpdateFloat_entry =
    check_of GAME_SMSG_AGENT_ATTR_UPDATE_FLOAT [mem C_Header ''header'', mem C_int32_t ''attr_id'',
    mem C_AgentId ''agent_id'', mem C_float ''value'']"

definition HandleAgentAttrUpdateFloatTarget_entry :: handler_entry where
  "HandleAgentAttrUpdateFloatTarget_entry =
    check_of GAME_SMSG_AGENT_ATTR_UPDATE_FLOAT_TARGET [mem C_Header ''header'',
    mem C_int32_t ''attr_id'', mem C_AgentId ''target_id'', mem C_AgentId ''cause_id'',
    mem C_float ''value'']"

definition HandleAgentUpdateProfession_entry :: handler_entry where
  "HandleAgentUpdateProfession_entry =
    check_of GAME_SMSG_AGENT_UPDATE_PROFESSION [mem C_Header ''header'', mem C_AgentId ''agent_id'',
    mem C_uint8_t ''prof1'', mem C_uint8_t ''prof2'']"

definition HandleCinematicStart_entry :: handler_entry where
  "HandleCinematicStart_entry =
    check_of GAME_SMSG_CINEMATIC_START [mem C_Header ''header'', mem C_uint8_t ''start'']"

definition HandleCinematicData_entry :: handler_entry where
  "HandleCinematicData_entry =
    check_of GAME_SMSG_CINEMATIC_DATA [mem C_Header ''header'', mem C_uint32_t ''n_data'',
    arr C_uint8_t ''data'' 1024]"

definition HandleCinematicDataEnd_entry :: handler_entry where
  "HandleCinematicDataEnd_entry =
    check_of GAME_SMSG_CINEMATIC_DATA_END [mem C_Header ''header'']"

definition HandleCinematicEnd_entry :: handler_entry where
  "HandleCinematicEnd_entry =
    check_of GAME_SMSG_CINEMATIC_END [mem C_Header ''header'']"

definition HandleTradeRequest_entry :: handler_entry where
  "HandleTradeRequest_entry =
    check_of GAME_SMSG_TRADE_REQUEST [mem C_Header ''header'', mem C_int32_t ''player_id'']"

definition HandleTradeTerminate_entry :: handler_entry where
  "HandleTradeTerminate_entry =
    check_of GAME_SMSG_TRADE_TERMINATE [mem C_Header ''header'', mem C_uint8_t ''unk0'']"

definition HandleTradeOfferedCount_entry :: handler_entry where
  "HandleTradeOfferedCount_entry =
    check_of GAME_SMSG_TRADE_OFFERED_COUNT [mem C_Header ''header'', mem C_uint8_t ''unk0'',
    mem C_int32_t ''quantity'']"

definition HandleTradeReceiveOffer_entry :: handler_entry where
  "HandleTradeReceiveOffer_entry =
    check_of GAME_SMSG_TRADE_RECEIVE_OFFER [mem C_Header ''header'', mem C_int32_t ''gold'']"

definition HandleTradeAddItem_entry :: handler_entry where
  "HandleTradeAddItem_entry =
    check_of GAME_SMSG_TRADE_ADD_ITEM [mem C_Header ''header'', mem C_int32_t ''item_id'',
    mem C_uint8_t ''quantity'']"

definition HandleTradeAcknowledge_entry :: handler_entry where
  "HandleTradeAcknowledge_entry =
    check_of GAME_SMSG_TRADE_ACKNOWLEDGE [mem C_Header ''header'', mem C_int32_t ''player_id'']"

definition HandleTradeAccept_entry :: handler_entry where
  "HandleTradeAccept_entry =
    check_of GAME_SMSG_TRADE_ACCEPT [mem C_Header ''header'']"

definition HandleTradeChangeOffer_entry :: handler_entry where
  "HandleTradeChangeOffer_entry =
    check_of GAME_SMSG_TRADE_CHANGE_OFFER [mem C_Header ''header'', mem C_uint8_t ''unk0'',
    mem C_int32_t ''unk1'']"

definition HandleChatMessageCore_entry :: handler_entry where
  "HandleChatMessageCore_entry =
    check_of GAME_SMSG_CHAT_MESSAGE_CORE [mem C_Header ''header'', arr C_uint16_t ''msg'' 122]"

definition HandleChatMessageLocal_entry :: handler_entry where
  "HandleChatMessageLocal_entry =
    check_of GAME_SMSG_CHAT_MESSAGE_LOCAL [mem C_Header ''header'', mem C_uint16_t ''sender'',
    mem C_uint8_t ''channel'']"

definition HandleChatMessageGlobal_entry :: handler_entry where
  "HandleChatMessageGlobal_entry =
    check_of GAME_SMSG_CHAT_MESSAGE_GLOBAL [mem C_Header ''header'', mem C_uint8_t ''channel'',
    arr C_uint16_t ''sender'' 32, arr C_uint16_t ''tag'' 6]"

definition HandleChatMessageServer_entry :: handler_entry where
  "HandleChatMessageServer_entry =
    check_of GAME_SMSG_CHAT_MESSAGE_SERVER [mem C_Header ''header'', mem C_uint16_t ''id'',
    mem C_uint8_t ''channel'']"

definition HandlePlayerUpdateFactions_entry :: handler_entry where
  "HandlePlayerUpdateFactions_entry =
    check_of GAME_SMSG_PLAYER_UPDATE_FACTIONS [mem C_Header ''header'',
    mem C_int32_t ''experience'', mem C_int32_t ''kurzick_current'',
    mem C_int32_t ''kurzick_total'', mem C_int32_t ''luxon_current'', mem C_int32_t ''luxon_total'',
    mem C_int32_t ''imperial_current'', mem C_int32_t ''imperial_total'', mem C_int32_t ''data1'',
    mem C_int32_t ''data2'', mem C_int32_t ''level'', mem C_int32_t ''morale'',
    mem C_int32_t ''balthazar_current'', mem C_int32_t ''balthazar_total'',
    mem C_int32_t ''skill_current'', mem C_int32_t ''skill_total'']"

definition HandlePlayerFactionMaxKurzick_entry :: handler_entry where
  "HandlePlayerFactionMaxKurzick_entry =
    check_of GAME_SMSG_PLAYER_FACTION_MAX_KURZICK [mem C_Header ''header'', mem C_int32_t ''value'']"

definition HandlePlayerFactionMaxLuxon_entry :: handler_entry where
  "HandlePlayerFactionMaxLuxon_entry =
    check_of GAME_SMSG_PLAYER_FACTION_MAX_LUXON [mem C_Header ''header'', mem C_int32_t ''value'']"

definition HandlePlayerFactionMaxBalthazar_entry :: handler_entry where
  "HandlePlayerFactionMaxBalthazar_entry =
    check_of GAME_SMSG_PLAYER_FACTION_MAX_BALTHAZAR [mem C_Header ''header'',
    mem C_int32_t ''value'']"

definition HandlePlayerFactionMaxImperial_entry :: handler_entry where
  "HandlePlayerFactionMaxImperial_entry =
    check_of GAME_SMSG_PLAYER_FACTION_MAX_IMPERIAL [mem C_Header ''header'',
    mem C_int32_t ''value'']"

definition HandlePlayerFactionUpdate_entry :: handler_entry where
  "HandlePlayerFactionUpdate_entry =
    check_of GAME_SMSG_PLAYER_FACTION_UPDATE [mem C_Header ''header'', mem C_int32_t ''attr_id'',
    mem C_int32_t ''value'']"

definition HandlePlayerUnlockedAreas_entry :: handler_entry where
  "HandlePlayerUnlockedAreas_entry =
    check_of GAME_SMSG_MAPS_UNLOCKED [mem C_Header ''header'',
    mem C_uint32_t ''missions_completed_size'', arr C_uint32_t ''missions_completed_buffer'' 32,
    mem C_uint32_t ''unlocked2_size'', arr C_uint32_t ''unlocked2'' 32,
    mem C_uint32_t ''unlocked3_size'', arr C_uint32_t ''unlocked3'' 32,
    mem C_uint32_t ''unlocked4_size'', arr C_uint32_t ''unlocked4'' 32,
    mem C_uint32_t ''maps_unlocked_size'', arr C_uint32_t ''maps_unlocked_buf'' 32]"

definition HandleSkillbarUpdateSkill_entry :: handler_entry where
  "HandleSkillbarUpdateSkill_entry =
    check_of GAME_SMSG_SKILLBAR_UPDATE_SKILL [mem C_Header ''header'', mem C_AgentId ''agent_id'',
    mem C_int8_t ''position'', mem C_int16_t ''skill_id'', mem C_int32_t ''unk1'']"

definition HandleSkillbarUpdate_entry :: handler_entry where
  "HandleSkillbarUpdate_entry =
    check_of GAME_SMSG_SKILLBAR_UPDATE [mem C_Header ''header'', mem C_AgentId ''agent_id'',
    mem C_uint32_t ''n_skills'', arr C_int32_t ''skills'' 8, mem C_uint32_t ''n_pvp_masks'',
    arr C_int32_t ''pvp_masks'' 8, mem C_int8_t ''unk1'']"

definition HandleSkillAddToWindowsData_entry :: handler_entry where
  "HandleSkillAddToWindowsData_entry =
    check_of GAME_SMSG_SKILL_ADD_TO_WINDOWS_DATA [mem C_Header ''header'']"

definition HandleSkillAddToWindowsEnd_entry :: handler_entry where
  "HandleSkillAddToWindowsEnd_entry =
    check_of GAME_SMSG_SKILL_ADD_TO_WINDOWS_END [mem C_Header ''header'']"

definition HandleSkillActivated_entry :: handler_entry where
  "HandleSkillActivated_entry =
    check_of GAME_SMSG_SKILL_ACTIVATED [mem C_Header ''header'', mem C_AgentId ''agent_id'',
    mem C_int16_t ''skill_id'', mem C_int32_t ''unk1'']"

definition HandleSkillActivate_entry :: handler_entry where
  "HandleSkillActivate_entry =
    check_of GAME_SMSG_SKILL_ACTIVATE [mem C_Header ''header'', mem C_AgentId ''agent_id'',
    mem C_int16_t ''skill_id'', mem C_int32_t ''unk1'']"

definition HandleSkillRecharge_entry :: handler_entry where
  "HandleSkillRecharge_entry =
    check_of GAME_SMSG_SKILL_RECHARGE [mem C_Header ''header'', mem C_AgentId ''agent_id'',
    mem C_int16_t ''skill_id'', mem C_int32_t ''unk1'', mem C_int32_t ''recharge_sec'']"

definition HandleSkillRecharged_entry :: handler_entry where
  "HandleSkillRecharged_entry =
    check_of GAME_SMSG_SKILL_RECHARGED [mem C_Header ''header'', mem C_AgentId ''agent_id'',
    mem C_int16_t ''skill_id'', mem C_int32_t ''unk1'']"

definition HandleHeroBehavior_entry :: handler_entry where
  "HandleHeroBehavior_entry =
    check_of GAME_SMSG_HERO_BEHAVIOR [mem C_Header ''header'', mem C_AgentId ''agent_id'',
    mem C_int32_t ''behavior'']"

definition HandleHeroSkillStatus_entry :: handler_entry where
  "HandleHeroSkillStatus_entry =
    check_of GAME_SMSG_HERO_SKILL_STATUS [mem C_Header ''header'', mem C_AgentId ''agent_id'',
    mem C_uint8_t ''pos'', mem C_uint8_t ''status'']"

definition HandleHeroSkillStatusBitmap_entry :: handler_entry where
  "HandleHeroSkillStatusBitmap_entry =
    check_of GAME_SMSG_HERO_SKILL_STATUS_BITMAP [mem C_Header ''header'',
    mem C_AgentId ''agent_id'', mem C_uint8_t ''bitmap'']"

definition HandleAgentUpdateAttributes_entry :: handler_entry where
  "HandleAgentUpdateAttributes_entry =
    check_of GAME_SMSG_AGENT_UPDATE_ATTRIBUTES [mem C_Header ''header'', mem C_AgentId ''agent_id'',
    mem C_uint32_t ''n_data'', arr C_uint32_t ''data'' 48]"

definition HandleQuestDescription_entry :: handler_entry where
  "HandleQuestDescription_entry =
    check_of GAME_SMSG_QUEST_DESCRIPTION [mem C_Header ''header'', mem C_int32_t ''quest_id'',
    arr C_uint16_t ''reward'' 128, arr C_uint16_t ''objective'' 128]"

definition HandleQuestGeneralInfo_entry :: handler_entry where
  "HandleQuestGeneralInfo_entry =
    check_of GAME_SMSG_QUEST_GENERAL_INFO [mem C_Header ''header'', mem C_int32_t ''quest_id'',
    mem C_int32_t ''status'', arr C_uint16_t ''category'' 8, arr C_uint16_t ''name'' 8,
    arr C_uint16_t ''givenby'' 8, mem C_int16_t ''map_id'']"

definition HandleQuestUpdateMarker_entry :: handler_entry where
  "HandleQuestUpdateMarker_entry =
    check_of GAME_SMSG_QUEST_UPDATE_MARKER [mem C_Header ''header'', mem C_int32_t ''quest_id'',
    mem C_Vec2f ''marker_coord'', mem C_int16_t ''unk1'', mem C_int16_t ''unk2'']"

definition HandleQuestRemove_entry :: handler_entry where
  "HandleQuestRemove_entry =
    check_of GAME_SMSG_QUEST_REMOVE [mem C_Header ''header'', mem C_int32_t ''quest_id'']"

definition HandleTitleRankData_entry :: handler_entry where
  "HandleTitleRankData_entry =
    check_of GAME_SMSG_TITLE_RANK_DATA [mem C_Header ''header'', mem C_int32_t ''rank_id'',
    mem C_int32_t ''unk0'', mem C_int32_t ''rank'', arr C_uint16_t ''name'' 8]"

definition HandleTitleRankDisplay_entry :: handler_entry where
  "HandleTitleRankDisplay_entry =
    check_of GAME_SMSG_TITLE_RANK_DISPLAY [mem C_Header ''header'', mem C_int16_t ''player_id'',
    mem C_int32_t ''rank_id'']"

definition HandleTitleTrackInfo_entry :: handler_entry where
  "HandleTitleTrackInfo_entry =
    check_of GAME_SMSG_TITLE_TRACK_INFO [mem C_Header ''header'', mem C_int32_t ''track_id'',
    mem C_int32_t ''group_id'', mem C_int32_t ''current_points'', mem C_int32_t ''current_rank'',
    mem C_int32_t ''points_needed_to_reach_current_rank'', mem C_int32_t ''next_title_rank_id'',
    mem C_int32_t ''points_needed_to_reach_next_rank'', mem C_int32_t ''max_rank'',
    mem C_int32_t ''max_rank_id'', arr C_uint16_t ''point_name'' 8,
    arr C_uint16_t ''description'' 8]"

definition HandleMissionAddGoal_entry :: handler_entry where
  "HandleMissionAddGoal_entry =
    check_of GAME_SMSG_MISSION_INFOBOX_ADD [mem C_Header ''header'', arr C_uint16_t ''unk0'' 128,
    mem C_int32_t ''unk1'']"

definition HandleMissionAddObjective_entry :: handler_entry where
  "HandleMissionAddObjective_entry =
    check_of GAME_SMSG_MISSION_OBJECTIVE_ADD [mem C_Header ''header'', mem C_int32_t ''unk0'',
    mem C_int32_t ''unk1'', arr C_uint16_t ''unk2'' 128]"

definition HandleDialogButton_entry :: handler_entry where
  "HandleDialogButton_entry =
    check_of GAME_SMSG_DIALOG_BUTTON [mem C_Header ''header'', mem C_int8_t ''icon_id'',
    arr C_uint16_t ''caption'' 128, mem C_int32_t ''dialog_id'', mem C_int32_t ''skill_id'']"

definition HandleDialogBody_entry :: handler_entry where
  "HandleDialogBody_entry =
    check_of GAME_SMSG_DIALOG_BODY [mem C_Header ''header'', arr C_uint16_t ''body'' 122]"

definition HandleDialogSender_entry :: handler_entry where
  "HandleDialogSender_entry =
    check_of GAME_SMSG_DIALOG_SENDER [mem C_Header ''header'', mem C_AgentId ''agent_id'']"

definition HandleGuildPlayerRole_entry :: handler_entry where
  "HandleGuildPlayerRole_entry =
    check_of GAME_SMSG_GUILD_PLAYER_ROLE [mem C_Header ''header'', mem C_int16_t ''guild_id'',
    arr C_uint8_t ''guild_uuid'' 16, mem C_uint8_t ''member_type'']"

definition HandleGuildPlayerInfo_entry :: handler_entry where
  "HandleGuildPlayerInfo_entry =
    check_of GAME_SMSG_GUILD_PLAYER_INFO [mem C_Header ''header'',
    arr C_uint16_t ''account_name'' 20, arr C_uint16_t ''player_name'' 20,
    arr C_uint16_t ''invited_by'' 20, arr C_uint16_t ''context_info'' 64, mem C_int32_t ''unk'',
    mem C_uint32_t ''minutes_since_login'', mem C_int32_t ''join_date'', mem C_int32_t ''status'',
    mem C_int8_t ''member_type'']"

definition HandleGuildGeneralInfo_entry :: handler_entry where
  "HandleGuildGeneralInfo_entry =
    check_of GAME_SMSG_GUILD_GENERAL_INFO [mem C_Header ''header'', mem C_int16_t ''guild_id'',
    arr C_uint8_t ''uuid'' 16, arr C_uint16_t ''name'' 32, arr C_uint16_t ''tag'' 6,
    mem C_uint8_t ''feature'', mem C_uint8_t ''territory'', mem C_uint8_t ''cape_bg_color'',
    mem C_uint8_t ''cape_pattern_color'', mem C_uint8_t ''cape_emblem_color'',
    mem C_uint8_t ''cape_shape'', mem C_uint8_t ''cape_pattern'', mem C_int16_t ''cape_emblem'',
    mem C_uint8_t ''cape_trim'', mem C_uint8_t ''allegiance'', mem C_int32_t ''guild_faction'',
    mem C_int32_t ''qualifier_pts'', mem C_int32_t ''rating'', mem C_int32_t ''rank'',
    mem C_uint8_t ''unk1'']"

definition HandleGuildChangeFaction_entry :: handler_entry where
  "HandleGuildChangeFaction_entry =
    check_of GAME_SMSG_GUILD_CHANGE_FACTION [mem C_Header ''header'', mem C_int16_t ''guild_id'',
    mem C_uint8_t ''allegiance'', mem C_int32_t ''guild_faction'']"

definition HandleGuildInviteReceived_entry :: handler_entry where
  "HandleGuildInviteReceived_entry =
    check_of GAME_SMSG_GUILD_INVITE_RECEIVED [mem C_Header ''header'',
    arr C_uint8_t ''guild_uuid'' 16, arr C_uint16_t ''name'' 32, arr C_uint16_t ''tag'' 6,
    arr C_uint16_t ''inviter'' 20, mem C_int32_t ''date'', mem C_int32_t ''minutes'',
    mem C_int8_t ''type'']"

definition HandleGuildPlayerChangeComplete_entry :: handler_entry where
  "HandleGuildPlayerChangeComplete_entry =
    check_of GAME_SMSG_GUILD_PLAYER_CHANGE_COMPLETE [mem C_Header ''header'',
    arr C_uint16_t ''account_name'' 20]"

definition HandleGuildChangePlayerContext_entry :: handler_entry where
  "HandleGuildChangePlayerContext_entry =
    check_of GAME_SMSG_GUILD_CHANGE_PLAYER_CONTEXT [mem C_Header ''header'',
    mem C_int32_t ''context_date'', arr C_uint16_t ''context'' 64]"

definition HandleGuildChangePlayerType_entry :: handler_entry where
  "HandleGuildChangePlayerType_entry =
    check_of GAME_SMSG_GUILD_CHANGE_PLAYER_TYPE [mem C_Header ''header'',
    mem C_int8_t ''member_type'']"

definition HandleGuildChangePlayerStatus_entry :: handler_entry where
  "HandleGuildChangePlayerStatus_entry =
    check_of GAME_SMSG_GUILD_CHANGE_PLAYER_STATUS [mem C_Header ''header'',
    mem C_uint32_t ''minutes_since_login'', mem C_uint32_t ''status'']"

definition HandleEffectUpkeepAdded_entry :: handler_entry where
  "HandleEffectUpkeepAdded_entry =
    check_of GAME_SMSG_EFFECT_UPKEEP_ADDED [mem C_Header ''header'', mem C_AgentId ''target_id'',
    mem C_AgentId ''agent_id'', mem C_int16_t ''skill_id'', mem C_int32_t ''effect_type'',
    mem C_int32_t ''effect_id'']"

definition HandleEffectUpkeepRemoved_entry :: handler_entry where
  "HandleEffectUpkeepRemoved_entry =
    check_of GAME_SMSG_EFFECT_UPKEEP_REMOVED [mem C_Header ''header'', mem C_AgentId ''agent_id'',
    mem C_int32_t ''effect_id'']"

definition HandleEffectUpkeepApplied_entry :: handler_entry where
  "HandleEffectUpkeepApplied_entry =
    check_of GAME_SMSG_EFFECT_UPKEEP_APPLIED [mem C_Header ''header'', mem C_AgentId ''target_id'',
    mem C_AgentId ''agent_id'', mem C_int16_t ''skill_id'', mem C_int32_t ''effect_type'',
    mem C_int32_t ''effect_id'']"

definition HandleEffectApplied_entry :: handler_entry where
  "HandleEffectApplied_entry =
    check_of GAME_SMSG_EFFECT_APPLIED [mem C_Header ''header'', mem C_AgentId ''agent_id'',
    mem C_uint16_t ''skill_id'', mem C_uint32_t ''effect_type'', mem C_uint32_t ''effect_id'',
    mem C_uint32_t ''duration'']"

definition HandleEffectRenewed_entry :: handler_entry where
  "HandleEffectRenewed_entry =
    check_of GAME_SMSG_EFFECT_RENEWED [mem C_Header ''header'', mem C_AgentId ''agent_id'',
    mem C_uint32_t ''effect_type'', mem C_uint32_t ''effect_id'', mem C_uint32_t ''duration'']"

definition HandleEffectRemoved_entry :: handler_entry where
  "HandleEffectRemoved_entry =
    check_of GAME_SMSG_EFFECT_REMOVED [mem C_Header ''header'', mem C_AgentId ''agent_id'',
    mem C_uint32_t ''effect_id'']"

definition HandlePartySetDifficulty_entry :: handler_entry where
  "HandlePartySetDifficulty_entry =
    check_of GAME_SMSG_PARTY_SET_DIFFICULTY [mem C_Header ''header'', mem C_uint8_t ''mode'']"

definition HandlePartyHeroAdd_entry :: handler_entry where
  "HandlePartyHeroAdd_entry =
    check_of GAME_SMSG_PARTY_HERO_ADD [mem C_Header ''header'', mem C_uint16_t ''party_id'',
    mem C_uint16_t ''player_id'', mem C_uint16_t ''agent_id'', mem C_uint8_t ''hero_id'',
    mem C_uint8_t ''level'']"

definition HandlePartyHeroRemove_entry :: handler_entry where
  "HandlePartyHeroRemove_entry =
    check_of GAME_SMSG_PARTY_HERO_REMOVE [mem C_Header ''header'', mem C_uint16_t ''party_id'',
    mem C_uint16_t ''player_id'', mem C_uint16_t ''agent_id'']"

definition HandlePartyInviteAdd_entry :: handler_entry where
  "HandlePartyInviteAdd_entry =
    check_of GAME_SMSG_PARTY_INVITE_ADD [mem C_Header ''header'', mem C_uint16_t ''party_id'']"

definition HandlePartyJoinRequest_entry :: handler_entry where
  "HandlePartyJoinRequest_entry =
    check_of GAME_SMSG_PARTY_JOIN_REQUEST [mem C_Header ''header'', mem C_uint16_t ''party_id'']"

definition HandlePartyInviteCancel_entry :: handler_entry where
  "HandlePartyInviteCancel_entry =
    check_of GAME_SMSG_PARTY_HERO_REMOVE [mem C_Header ''header'', mem C_uint16_t ''party_id'']"

definition HandlePartyRequestCancel_entry :: handler_entry where
  "HandlePartyRequestCancel_entry =
    check_of GAME_SMSG_PARTY_REQUEST_CANCEL [mem C_Header ''header'', mem C_uint16_t ''party_id'']"

definition HandlePartyYouAreLeader_entry :: handler_entry where
  "HandlePartyYouAreLeader_entry =
    check_of GAME_SMSG_PARTY_YOU_ARE_LEADER [mem C_Header ''header'', mem C_uint8_t ''is_loaded'']"

definition HandlePartyPlayerAdd_entry :: handler_entry where
  "HandlePartyPlayerAdd_entry =
    check_of GAME_SMSG_PARTY_PLAYER_ADD [mem C_Header ''header'', mem C_uint16_t ''party_id'',
    mem C_uint16_t ''player_id'', mem C_uint8_t ''is_loaded'']"

definition HandlePartyPlayerRemove_entry :: handler_entry where
  "HandlePartyPlayerRemove_entry =
    check_of GAME_SMSG_PARTY_PLAYER_REMOVE [mem C_Header ''header'', mem C_uint16_t ''party_id'',
    mem C_uint16_t ''player_id'']"

definition HandlePartyPlayerReady_entry :: handler_entry where
  "HandlePartyPlayerReady_entry =
    check_of GAME_SMSG_PARTY_PLAYER_READY [mem C_Header ''header'', mem C_uint16_t ''party_id'',
    mem C_uint16_t ''player_id'', mem C_uint8_t ''is_ready'']"

definition HandlePartyCreate_entry :: handler_entry where
  "HandlePartyCreate_entry =
    check_of GAME_SMSG_PARTY_CREATE [mem C_Header ''header'', mem C_uint16_t ''party_id'']"

definition HandlePartyMemberStreamEnd_entry :: handler_entry where
  "HandlePartyMemberStreamEnd_entry =
    check_of GAME_SMSG_PARTY_MEMBER_STREAM_END [mem C_Header ''header'',
    mem C_uint16_t ''party_id'']"

definition HandlePartyDefeated_entry :: handler_entry where
  "HandlePartyDefeated_entry =
    check_of GAME_SMSG_PARTY_DEFEATED [mem C_Header ''header'']"

definition HandlePartySearchRequestJoin_entry :: handler_entry where
  "HandlePartySearchRequestJoin_entry =
    check_of GAME_SMSG_PARTY_SEARCH_REQUEST_JOIN [mem C_Header ''header'',
    mem C_uint16_t ''ps_from'', mem C_uint16_t ''ps_host'']"

definition HandlePartySearchRequestDone_entry :: handler_entry where
  "HandlePartySearchRequestDone_entry =
    check_of GAME_SMSG_PARTY_SEARCH_REQUEST_DONE [mem C_Header ''header'',
    mem C_uint16_t ''ps_from'', mem C_uint16_t ''ps_host'']"

definition HandlePartySearchAdvertisement_entry :: handler_entry where
  "HandlePartySearchAdvertisement_entry =
    check_of GAME_SMSG_PARTY_SEARCH_ADVERTISEMENT [mem C_Header ''header'',
    mem C_uint16_t ''ps_id'', mem C_uint16_t ''district_number'', mem C_uint8_t ''language'',
    mem C_uint8_t ''party_size'', mem C_uint8_t ''hero_count'', mem C_uint8_t ''search_type'',
    mem C_uint8_t ''hardmode'', arr C_uint16_t ''message'' 32, arr C_uint16_t ''player_name'' 20,
    mem C_uint8_t ''primary'', mem C_uint8_t ''secondary'', mem C_uint8_t ''level'',
    mem C_uint32_t ''timestamp'']"

definition HandlePartySearchSeek_entry :: handler_entry where
  "HandlePartySearchSeek_entry =
    check_of GAME_SMSG_PARTY_SEARCH_SEEK [mem C_Header ''header'', mem C_uint16_t ''ps_id'']"

definition HandlePartySearchRemove_entry :: handler_entry where
  "HandlePartySearchRemove_entry =
    check_of GAME_SMSG_PARTY_SEARCH_REMOVE [mem C_Header ''header'', mem C_uint16_t ''ps_id'']"

definition HandlePartySearchSize_entry :: handler_entry where
  "HandlePartySearchSize_entry =
    check_of GAME_SMSG_PARTY_SEARCH_SIZE [mem C_Header ''header'', mem C_uint16_t ''ps_id'',
    mem C_uint8_t ''party_size'', mem C_uint8_t ''hero_count'']"

definition HandlePartySearchType_entry :: handler_entry where
  "HandlePartySearchType_entry =
    check_of GAME_SMSG_PARTY_SEARCH_TYPE [mem C_Header ''header'', mem C_uint16_t ''ps_id'',
    mem C_uint8_t ''search_type'', mem C_uint8_t ''hardmode'']"

definition HandleRequestResponse_entry :: handler_entry where
  "HandleRequestResponse_entry =
    check_of AUTH_SMSG_REQUEST_RESPONSE [mem C_Header ''header'', mem C_uint32_t ''trans_id'',
    mem C_uint32_t ''code'']"

definition HandleServerReponse_entry :: handler_entry where
  "HandleServerReponse_entry =
    check_of AUTH_SMSG_SERVER_RESPONSE [mem C_Header ''header'', mem C_uint32_t ''trans_id'',
    mem C_uint32_t ''code'']"

definition HandleSessionInfo_entry :: handler_entry where
  "HandleSessionInfo_entry =
    check_of AUTH_SMSG_SESSION_INFO [mem C_Header ''header'', mem C_uint32_t ''server_salt'',
    mem C_uint32_t ''unk0'']"

definition HandleAccountInfo_entry :: handler_entry where
  "HandleAccountInfo_entry =
    check_of AUTH_SMSG_ACCOUNT_INFO [mem C_Header ''header'', mem C_uint32_t ''trans_id'',
    mem C_uint32_t ''territory'', mem C_uint32_t ''unk0'', arr C_uint8_t ''unk1'' 8,
    arr C_uint8_t ''unk2'' 8, arr C_uint8_t ''account_uuid'' 16,
    arr C_uint8_t ''character_uuid'' 16, mem C_uint32_t ''unk3'', mem C_uint32_t ''n_unk4'',
    arr C_uint8_t ''unk4'' 200, mem C_uint8_t ''eula_accepted'', mem C_int32_t ''unk5'']"

definition HandleCharacterInfo_entry :: handler_entry where
  "HandleCharacterInfo_entry =
    check_of AUTH_SMSG_CHARACTER_INFO [mem C_Header ''header'', mem C_uint32_t ''trans_id'',
    arr C_uint8_t ''uuid'' 16, mem C_uint32_t ''unk0'', arr C_uint16_t ''name'' 20,
    mem C_uint32_t ''n_extended'', arr C_uint8_t ''extended'' 64]"

definition HandleGameServerInfo_entry :: handler_entry where
  "HandleGameServerInfo_entry =
    check_of AUTH_SMSG_GAME_SERVER_INFO [mem C_Header ''header'', mem C_int32_t ''request'',
    mem C_uint32_t ''world_id'', mem C_uint32_t ''map_id'', arr C_uint8_t ''host'' 24,
    mem C_uint32_t ''player_id'']"

definition HandleAccountSettings_entry :: handler_entry where
  "HandleAccountSettings_entry =
    check_of AUTH_SMSG_ACCOUNT_SETTINGS [mem C_Header ''header'', mem C_uint32_t ''trans_id'',
    mem C_uint32_t ''n_data'', arr C_uint8_t ''data'' 2048]"

definition HandleFriendUpdateInfo_entry :: handler_entry where
  "HandleFriendUpdateInfo_entry =
    check_of AUTH_SMSG_FRIEND_UPDATE_INFO [mem C_Header ''header'', mem C_uint32_t ''status'',
    mem C_uint32_t ''type'', arr C_uint8_t ''uuid'' 16, arr C_uint16_t ''account'' 20]"

definition HandleFriendUpdateStatus_entry :: handler_entry where
  "HandleFriendUpdateStatus_entry =
    check_of AUTH_SMSG_FRIEND_UPDATE_STATUS [mem C_Header ''header'', mem C_uint32_t ''status'',
    arr C_uint8_t ''uuid'' 16, arr C_uint16_t ''account'' 20, arr C_uint16_t ''played'' 20]"

definition HandleFriendStreamEnd_entry :: handler_entry where
  "HandleFriendStreamEnd_entry =
    check_of AUTH_SMSG_FRIEND_STREAM_END [mem C_Header ''header'', mem C_uint32_t ''unk1'',
    mem C_uint32_t ''unk2'']"

definition HandleFriendUpdateLocation_entry :: handler_entry where
  "HandleFriendUpdateLocation_entry =
    check_of AUTH_SMSG_FRIEND_UPDATE_LOCATION [mem C_Header ''header'', mem C_int32_t ''map_id'',
    mem C_int32_t ''type'', arr C_uint16_t ''account'' 20]"

definition HandleWhisperReceived_entry :: handler_entry where
  "HandleWhisperReceived_entry =
    check_of AUTH_SMSG_WHISPER_RECEIVED [mem C_Header ''header'', mem C_int32_t ''unk0'',
    arr C_uint16_t ''sender'' 20, arr C_uint16_t ''message'' 256]"

section \<open>Registration\<close>

definition GameSrv_handlers :: "(nat \<times> handler_entry) list" where
  "GameSrv_handlers = [(GAME_SMSG_PING_REQUEST, HandlePingRequest_entry),
    (GAME_SMSG_PING_REPLY, HandlePingReply_entry),
    (GAME_SMSG_INSTANCE_SHOW_WIN, HandleInstanceShowWin_entry),
    (GAME_SMSG_INSTANCE_LOAD_HEAD, HandleInstanceLoadHead_entry),
    (GAME_SMSG_INSTANCE_COUNTDOWN_STOP, HandleInstanceCountdownStop_entry),
    (GAME_SMSG_INSTANCE_COUNTDOWN, HandleInstanceCountdown_entry),
    (GAME_SMSG_INSTANCE_LOAD_PLAYER_NAME, HandleInstanceLoadPlayerName_entry),
    (GAME_SMSG_INSTANCE_LOAD_SPAWN_POINT, HandleInstanceLoadSpawnPoint_entry),
    (GAME_SMSG_INSTANCE_LOAD_INFO, HandleInstanceLoadInfo_entry),
    (GAME_SMSG_TRANSFER_GAME_SERVER_INFO, HandleGameTransferInfo_entry),
    (GAME_SMSG_READY_FOR_MAP_SPAWN, HandleReadyForMapSpawn_entry),
    (GAME_SMSG_INSTANCE_CANT_ENTER, HandleCantEnterOutpost_entry),
    (GAME_SMSG_INSTANCE_TRAVEL_TIMER, HandleInstanceTravelTimer_entry),
    (GAME_SMSG_INSTANCE_LOAD_FINISH, HandleInstanceLoadFinish_entry),
    (GAME_SMSG_INSTANCE_LOADED, HandleInstanceLoaded_entry),
    (GAME_SMSG_FRIENDLIST_MESSAGE, HandleFriendListMessage_entry),
    (GAME_SMSG_INSTANCE_REDIRECT, HandleInstanceRedirect_entry),
    (GAME_SMSG_UPDATE_GOLD_CHARACTER, HandleGoldCharacterAdd_entry),
    (GAME_SMSG_UPDATE_GOLD_STORAGE, HandleGoldStorageAdd_entry),
    (GAME_SMSG_GOLD_CHARACTER_REMOVE, HandleGoldCharacterRemove_entry),
    (GAME_SMSG_GOLD_STORAGE_REMOVE, HandleGoldStorageRemove_entry),
    (GAME_SMSG_ITEM_UPDATE_QUANTITY, HandleInventoryItemQuantity_entry),
    (GAME_SMSG_ITEM_MOVED_TO_LOCATION, HandleInventoryItemLocation_entry),
    (GAME_SMSG_INVENTORY_CREATE_BAG, HandleInventoryCreateBag_entry),
    (GAME_SMSG_ITEM_STREAM_CREATE, HandleItemStreamCreate_entry),
    (GAME_SMSG_ITEM_STREAM_DESTROY, HandleItemStreamDestroy_entry),
    (GAME_SMSG_ITEM_WEAPON_SET, HandleItemWeaponSet_entry),
    (GAME_SMSG_ITEM_SET_ACTIVE_WEAPON_SET, HandleUpdateActiveWeaponSet_entry),
    (GAME_SMSG_ITEM_GENERAL_INFO, HandleItemGeneralInfo_entry),
    (GAME_SMSG_ITEM_CHANGE_LOCATION, HandleItemChangeLocation_entry),
    (GAME_SMSG_ITEM_REMOVE, HandleItemRemove_entry),
    (GAME_SMSG_ITEM_PRICE_QUOTE, HandleItemPriceQuote_entry),
    (GAME_SMSG_WINDOW_MERCHANT, HandleWindowMerchant_entry),
    (GAME_SMSG_WINDOW_ITEM_STREAM_END, HandleWindowItemStreamEnd_entry),
    (GAME_SMSG_WINDOW_OWNER, HandleWindowOwner_entry),
    (GAME_SMSG_WINDOW_ADD_ITEMS, HandleWindowAddItems_entry),
    (GAME_SMSG_ITEM_PRICES, HandleWindowAddPrices_entry),
    (GAME_SMSG_ITEM_SALVAGE_SESSION_START, HandleSalvageSessionStart_entry),
    (GAME_SMSG_ITEM_SALVAGE_SESSION_CANCEL, HandleSalvageSessionCancel_entry),
    (GAME_SMSG_ITEM_SALVAGE_SESSION_DONE, HandleSalvageSessionDone_entry),
    (GAME_SMSG_ITEM_SALVAGE_SESSION_SUCCESS, HandleSalvageSessionSuccess_entry),
    (GAME_SMSG_ITEM_SALVAGE_SESSION_ITEM_KEPT, HandleSalvageSessionItemKept_entry),
    (GAME_SMSG_AGENT_MOVEMENT_TICK, HandleAgentMovementTick_entry),
    (GAME_SMSG_AGENT_INSTANCE_TIMER, HandleAgentInstanceTimer_entry),
    (GAME_SMSG_AGENT_SPAWNED, HandleAgentSpawned_entry),
    (GAME_SMSG_AGENT_DESPAWNED, HandleAgentDespawned_entry),
    (GAME_SMSG_AGENT_SET_PLAYER, HandleAgentSetPlayer_entry),
    (GAME_SMSG_AGENT_UPDATE_DIRECTION, HandleAgentUpdateDirection_entry),
    (GAME_SMSG_AGENT_UPDATE_SPEED_BASE, HandleAgentUpdateSpeedBase_entry),
    (GAME_SMSG_AGENT_STOP_MOVING, HandleAgentStopMoving_entry),
    (GAME_SMSG_AGENT_MOVE_TO_POINT, HandleAgentMoveToPoint_entry),
    (GAME_SMSG_AGENT_UPDATE_SPEED, HandleAgentUpdateSpeedModifier_entry),
    (GAME_SMSG_AGENT_UPDATE_POSITION, HandleAgentUpdatePosition_entry),
    (GAME_SMSG_AGENT_UPDATE_ROTATION, HandleAgentUpdateRotation_entry),
    (GAME_SMSG_AGENT_UPDATE_DESTINATION, HandleAgentUpdateDestination_entry),
    (GAME_SMSG_UPDATE_PLAYER_INFO, HandleUpdatePlayerInfo_entry),
    (GAME_SMSG_AGENT_DESTROY_PLAYER, HandleAgentDestroyPlayer_entry),
    (GAME_SMSG_AGENT_CREATE_NPC, HandleAgentCreateNPC_entry),
    (GAME_SMSG_AGENT_PINGED, HandleAgentPingeg_entry),
    (GAME_SMSG_AGENT_UPDATE_EFFECTS, HandleAgentUpdateEffects_entry),
    (GAME_SMSG_NPC_UPDATE_PROPERTIES, HandleNPCUpdateProperties_entry),
    (GAME_SMSG_NPC_UPDATE_MODEL, HandleNPCUpdateModel_entry),
    (GAME_SMSG_PLAYER_UNLOCKED_PROFESSION, HandlePlayerUnlockedProfession_entry),
    (GAME_SMSG_PLAYER_UPDATE_PROFESSION, HandlePlayerUpdateProfession_entry),
    (GAME_SMSG_AGENT_UPDATE_NPC_NAME, HandleAgentUpdateNpcName_entry),
    (GAME_SMSG_AGENT_ATTR_UPDATE_INT, HandleAgentAttrUpdateInt_entry),
    (GAME_SMSG_AGENT_ATTR_UPDATE_INT_TARGET, HandleAgentAttrUpdateIntTarget_entry),
    (GAME_SMSG_AGENT_ATTR_UPDATE_FLOAT, HandleAgentAttrUpdateFloat_entry),
    (GAME_SMSG_AGENT_ATTR_UPDATE_FLOAT_TARGET, HandleAgentAttrUpdateFloatTarget_entry),
    (GAME_SMSG_AGENT_UPDATE_PROFESSION, HandleAgentUpdateProfession_entry),
    (GAME_SMSG_CINEMATIC_START, HandleCinematicStart_entry),
    (GAME_SMSG_CINEMATIC_DATA, HandleCinematicData_entry),
    (GAME_SMSG_CINEMATIC_DATA_END, HandleCinematicDataEnd_entry),
    (GAME_SMSG_CINEMATIC_END, HandleCinematicEnd_entry),
    (GAME_SMSG_TRADE_REQUEST, HandleTradeRequest_entry),
    (GAME_SMSG_TRADE_TERMINATE, HandleTradeTerminate_entry),
    (GAME_SMSG_TRADE_OFFERED_COUNT, HandleTradeOfferedCount_entry),
    (GAME_SMSG_TRADE_RECEIVE_OFFER, HandleTradeReceiveOffer_entry),
    (GAME_SMSG_TRADE_ADD_ITEM, HandleTradeAddItem_entry),
    (GAME_SMSG_TRADE_ACKNOWLEDGE, HandleTradeAcknowledge_entry),
    (GAME_SMSG_TRADE_ACCEPT, HandleTradeAccept_entry),
    (GAME_SMSG_TRADE_CHANGE_OFFER, HandleTradeChangeOffer_entry),
    (GAME_SMSG_CHAT_MESSAGE_CORE, HandleChatMessageCore_entry),
    (GAME_SMSG_CHAT_MESSAGE_LOCAL, HandleChatMessageLocal_entry),
    (GAME_SMSG_CHAT_MESSAGE_GLOBAL, HandleChatMessageGlobal_entry),
    (GAME_SMSG_CHAT_MESSAGE_SERVER, HandleChatMessageServer_entry),
    (GAME_SMSG_PLAYER_UPDATE_FACTIONS, HandlePlayerUpdateFactions_entry),
    (GAME_SMSG_PLAYER_FACTION_MAX_KURZICK, HandlePlayerFactionMaxKurzick_entry),
    (GAME_SMSG_PLAYER_FACTION_MAX_LUXON, HandlePlayerFactionMaxLuxon_entry),
    (GAME_SMSG_PLAYER_FACTION_MAX_BALTHAZAR, HandlePlayerFactionMaxBalthazar_entry),
    (GAME_SMSG_PLAYER_FACTION_MAX_IMPERIAL, HandlePlayerFactionMaxImperial_entry),
    (GAME_SMSG_PLAYER_FACTION_UPDATE, HandlePlayerFactionUpdate_entry),
    (GAME_SMSG_MAPS_UNLOCKED, HandlePlayerUnlockedAreas_entry),
    (GAME_SMSG_SKILLBAR_UPDATE_SKILL, HandleSkillbarUpdateSkill_entry),
    (GAME_SMSG_SKILLBAR_UPDATE, HandleSkillbarUpdate_entry),
    (GAME_SMSG_SKILL_ADD_TO_WINDOWS_DATA, HandleSkillAddToWindowsData_entry),
    (GAME_SMSG_SKILL_ADD_TO_WINDOWS_END, HandleSkillAddToWindowsEnd_entry),
    (GAME_SMSG_SKILL_ACTIVATED, HandleSkillActivated_entry),
    (GAME_SMSG_SKILL_ACTIVATE, HandleSkillActivate_entry),
    (GAME_SMSG_SKILL_RECHARGE, HandleSkillRecharge_entry),
    (GAME_SMSG_SKILL_RECHARGED, HandleSkillRecharged_entry),
    (GAME_SMSG_HERO_BEHAVIOR, HandleHeroBehavior_entry),
    (GAME_SMSG_HERO_SKILL_STATUS, HandleHeroSkillStatus_entry),
    (GAME_SMSG_HERO_SKILL_STATUS_BITMAP, HandleHeroSkillStatusBitmap_entry),
    (GAME_SMSG_AGENT_UPDATE_ATTRIBUTES, HandleAgentUpdateAttributes_entry),
    (GAME_SMSG_QUEST_DESCRIPTION, HandleQuestDescription_entry),
    (GAME_SMSG_QUEST_GENERAL_INFO, HandleQuestGeneralInfo_entry),
    (GAME_SMSG_QUEST_UPDATE_MARKER, HandleQuestUpdateMarker_entry),
    (GAME_SMSG_QUEST_REMOVE, HandleQuestRemove_entry),
    (GAME_SMSG_TITLE_RANK_DATA, HandleTitleRankData_entry),
    (GAME_SMSG_TITLE_RANK_DISPLAY, HandleTitleRankDisplay_entry),
    (GAME_SMSG_TITLE_TRACK_INFO, HandleTitleTrackInfo_entry),
    (GAME_SMSG_MISSION_INFOBOX_ADD, HandleMissionAddGoal_entry),
    (GAME_SMSG_MISSION_OBJECTIVE_ADD, HandleMissionAddObjective_entry),
    (GAME_SMSG_DIALOG_BUTTON, HandleDialogButton_entry),
    (GAME_SMSG_DIALOG_BODY, HandleDialogBody_entry),
    (GAME_SMSG_DIALOG_SENDER, HandleDialogSender_entry),
    (GAME_SMSG_GUILD_PLAYER_ROLE, HandleGuildPlayerRole_entry),
    (GAME_SMSG_GUILD_PLAYER_INFO, HandleGuildPlayerInfo_entry),
    (GAME_SMSG_GUILD_GENERAL_INFO, HandleGuildGeneralInfo_entry),
    (GAME_SMSG_GUILD_CHANGE_FACTION, HandleGuildChangeFaction_entry),
    (GAME_SMSG_GUILD_INVITE_RECEIVED, HandleGuildInviteReceived_entry),
    (GAME_SMSG_GUILD_PLAYER_CHANGE_COMPLETE, HandleGuildPlayerChangeComplete_entry),
    (GAME_SMSG_GUILD_CHANGE_PLAYER_CONTEXT, HandleGuildChangePlayerContext_entry),
    (GAME_SMSG_GUILD_CHANGE_PLAYER_TYPE, HandleGuildChangePlayerType_entry),
    (GAME_SMSG_GUILD_CHANGE_PLAYER_STATUS, HandleGuildChangePlayerStatus_entry),
    (GAME_SMSG_EFFECT_UPKEEP_ADDED, HandleEffectUpkeepAdded_entry),
    (GAME_SMSG_EFFECT_UPKEEP_REMOVED, HandleEffectUpkeepRemoved_entry),
    (GAME_SMSG_EFFECT_UPKEEP_APPLIED, HandleEffectUpkeepApplied_entry),
    (GAME_SMSG_EFFECT_APPLIED, HandleEffectApplied_entry),
    (GAME_SMSG_EFFECT_RENEWED, HandleEffectRenewed_entry),
    (GAME_SMSG_EFFECT_REMOVED, HandleEffectRemoved_entry),
    (GAME_SMSG_PARTY_SET_DIFFICULTY, HandlePartySetDifficulty_entry),
    (GAME_SMSG_PARTY_HERO_ADD, HandlePartyHeroAdd_entry),
    (GAME_SMSG_PARTY_HERO_REMOVE, HandlePartyHeroRemove_entry),
    (GAME_SMSG_PARTY_INVITE_ADD, HandlePartyInviteAdd_entry),
    (GAME_SMSG_PARTY_JOIN_REQUEST, HandlePartyJoinRequest_entry),
    (GAME_SMSG_PARTY_INVITE_CANCEL, HandlePartyInviteCancel_entry),
    (GAME_SMSG_PARTY_REQUEST_CANCEL, HandlePartyRequestCancel_entry),
    (GAME_SMSG_PARTY_YOU_ARE_LEADER, HandlePartyYouAreLeader_entry),
    (GAME_SMSG_PARTY_PLAYER_ADD, HandlePartyPlayerAdd_entry),
    (GAME_SMSG_PARTY_PLAYER_REMOVE, HandlePartyPlayerRemove_entry),
    (GAME_SMSG_PARTY_PLAYER_READY, HandlePartyPlayerReady_entry),
    (GAME_SMSG_PARTY_CREATE, HandlePartyCreate_entry),
    (GAME_SMSG_PARTY_MEMBER_STREAM_END, HandlePartyMemberStreamEnd_entry),
    (GAME_SMSG_PARTY_DEFEATED, HandlePartyDefeated_entry),
    (GAME_SMSG_PARTY_SEARCH_REQUEST_JOIN, HandlePartySearchRequestJoin_entry),
    (GAME_SMSG_PARTY_SEARCH_REQUEST_DONE, HandlePartySearchRequestDone_entry),
    (GAME_SMSG_PARTY_SEARCH_ADVERTISEMENT, HandlePartySearchAdvertisement_entry),
    (GAME_SMSG_PARTY_SEARCH_SEEK, HandlePartySearchSeek_entry),
    (GAME_SMSG_PARTY_SEARCH_REMOVE, HandlePartySearchRemove_entry),
    (GAME_SMSG_PARTY_SEARCH_SIZE, HandlePartySearchSize_entry),
    (GAME_SMSG_PARTY_SEARCH_TYPE, HandlePartySearchType_entry)]"

definition AuthSrv_handlers :: "(nat \<times> handler_entry) list" where
  "AuthSrv_handlers = [(AUTH_SMSG_REQUEST_RESPONSE, HandleRequestResponse_entry),
    (AUTH_SMSG_SERVER_RESPONSE, HandleServerReponse_entry),
    (AUTH_SMSG_SESSION_INFO, HandleSessionInfo_entry),
    (AUTH_SMSG_ACCOUNT_INFO, HandleAccountInfo_entry),
    (AUTH_SMSG_CHARACTER_INFO, HandleCharacterInfo_entry),
    (AUTH_SMSG_GAME_SERVER_INFO, HandleGameServerInfo_entry),
    (AUTH_SMSG_ACCOUNT_SETTINGS, HandleAccountSettings_entry),
    (AUTH_SMSG_FRIEND_UPDATE_INFO, HandleFriendUpdateInfo_entry),
    (AUTH_SMSG_FRIEND_UPDATE_STATUS, HandleFriendUpdateStatus_entry),
    (AUTH_SMSG_FRIEND_STREAM_END, HandleFriendStreamEnd_entry),
    (AUTH_SMSG_FRIEND_UPDATE_LOCATION, HandleFriendUpdateLocation_entry),
    (AUTH_SMSG_WHISPER_RECEIVED, HandleWhisperReceived_entry)]"

section \<open>The messages that the client sends\<close>

definition GameSrv_MoveToCoord_packet :: cstruct where
  "GameSrv_MoveToCoord_packet = [mem C_Header ''header'', mem C_Vec2f ''pos'',
    mem C_int32_t ''plane'']"

definition GameSrv_InteractLiving_packet :: cstruct where
  "GameSrv_InteractLiving_packet = [mem C_Header ''header'', mem C_AgentId ''agent_id'',
    mem C_uint8_t ''unk0'']"

definition GameSrv_InteractGadget_packet :: cstruct where
  "GameSrv_InteractGadget_packet = [mem C_Header ''header'', mem C_AgentId ''agent_id'',
    mem C_uint8_t ''unk0'']"

definition GameSrv_RotateToAngle_packet :: cstruct where
  "GameSrv_RotateToAngle_packet = [mem C_Header ''header'', mem C_uint32_t ''rotation'',
    mem C_uint32_t ''unk'']"

definition AuthSrv_HeartBeat_packet :: cstruct where
  "AuthSrv_HeartBeat_packet = [mem C_Header ''header'', mem C_uint32_t ''tick'']"

definition AuthSrv_AskServerResponse_packet :: cstruct where
  "AuthSrv_AskServerResponse_packet = [mem C_Header ''header'', mem C_uint32_t ''trans_id'']"

definition AuthSrv_ComputerInfo_packet :: cstruct where
  "AuthSrv_ComputerInfo_packet = [mem C_Header ''header'', arr C_uint16_t ''username'' 32,
    arr C_uint16_t ''pcname'' 32]"

definition AuthSrv_ComputerInfo_packet2 :: cstruct where
  "AuthSrv_ComputerInfo_packet2 = [mem C_Header ''header'', mem C_uint32_t ''version'',
    arr C_uint8_t ''hash'' 16]"

definition AuthSrv_RequestInstance_packet :: cstruct where
  "AuthSrv_RequestInstance_packet = [mem C_Header ''header'', mem C_uint32_t ''trans_id'',
    mem C_uint32_t ''map_type'', mem C_uint32_t ''map_id'', mem C_uint32_t ''region'',
    mem C_uint32_t ''district'', mem C_uint32_t ''language'']"

definition AuthSrv_ChangeCharacter_packet :: cstruct where
  "AuthSrv_ChangeCharacter_packet = [mem C_Header ''header'', mem C_uint32_t ''trans_id'',
    arr C_uint16_t ''name'' 20]"

definition AuthSrv_SetPlayerStatus_packet :: cstruct where
  "AuthSrv_SetPlayerStatus_packet = [mem C_Header ''header'', mem C_int32_t ''status'']"

definition GameSrv_SendChat_packet :: cstruct where
  "GameSrv_SendChat_packet = [mem C_Header ''header'', mem C_AgentId ''agent_id'',
    arr C_uint16_t ''buffer'' 138]"

definition GameSrv_SendWhisper_packet :: cstruct where
  "GameSrv_SendWhisper_packet = [mem C_Header ''header'', mem C_AgentId ''agent_id'',
    arr C_uint16_t ''buffer'' 138]"

definition GameSrv_Disconnect_packet :: cstruct where
  "GameSrv_Disconnect_packet = [mem C_Header ''header'']"

definition GameSrv_SkipCinematic_packet :: cstruct where
  "GameSrv_SkipCinematic_packet = [mem C_Header ''header'']"

definition GameSrv_ChangeGold_packet :: cstruct where
  "GameSrv_ChangeGold_packet = [mem C_Header ''header'', mem C_int32_t ''gold_character'',
    mem C_int32_t ''gold_storage'']"

definition GameSrv_SendDialog_packet :: cstruct where
  "GameSrv_SendDialog_packet = [mem C_Header ''header'', mem C_int32_t ''dialog_id'']"

definition HandleReadyForMapSpawn_packet :: cstruct where
  "HandleReadyForMapSpawn_packet = [mem C_Header ''header'']"

definition HandleInstanceLoadSpawnPoint_packet :: cstruct where
  "HandleInstanceLoadSpawnPoint_packet = [mem C_Header ''header'', arr C_uint32_t ''data'' 4]"

definition GameSrv_PingReply_packet :: cstruct where
  "GameSrv_PingReply_packet = [mem C_Header ''header'', mem C_uint32_t ''value'']"

definition GameSrv_PingRequest_packet :: cstruct where
  "GameSrv_PingRequest_packet = [mem C_Header ''header'']"

definition GameSrv_HeroUseSkill_packet :: cstruct where
  "GameSrv_HeroUseSkill_packet = [mem C_Header ''header'', mem C_AgentId ''hero'',
    mem C_uint32_t ''skill_id'', mem C_uint32_t ''flags'', mem C_AgentId ''target'']"

definition GameSrv_HeroSetBehavior_packet :: cstruct where
  "GameSrv_HeroSetBehavior_packet = [mem C_Header ''header'', mem C_AgentId ''agent_id'',
    mem C_uint32_t ''behavior'']"

definition GameSrv_HeroSkillToggle_packet :: cstruct where
  "GameSrv_HeroSkillToggle_packet = [mem C_Header ''header'', mem C_AgentId ''agent_id'',
    mem C_int32_t ''skill_slot'']"

definition GameSrv_TravelGH_packet :: cstruct where
  "GameSrv_TravelGH_packet = [mem C_Header ''header'', arr C_uint8_t ''uuid'' 16,
    mem C_int8_t ''unk1'']"

definition GameSrv_LeaveGH_packet :: cstruct where
  "GameSrv_LeaveGH_packet = [mem C_Header ''header'', mem C_int8_t ''unk1'']"

definition GameSrv_Travel_packet :: cstruct where
  "GameSrv_Travel_packet = [mem C_Header ''header'', mem C_uint16_t ''map_id'',
    mem C_int8_t ''region'', mem C_uint16_t ''district'', mem C_uint8_t ''language'',
    mem C_uint8_t ''unk1'']"

definition GameSrv_ReturnToOutpost_packet :: cstruct where
  "GameSrv_ReturnToOutpost_packet = [mem C_Header ''header'']"

definition GameSrv_UseItem_packet :: cstruct where
  "GameSrv_UseItem_packet = [mem C_Header ''header'', mem C_int32_t ''item_id'']"

definition GameSrv_InteractItem_packet :: cstruct where
  "GameSrv_InteractItem_packet = [mem C_Header ''header'', mem C_AgentId ''agent_id'',
    mem C_uint8_t ''unk0'']"

definition GameSrv_MoveItem_packet :: cstruct where
  "GameSrv_MoveItem_packet = [mem C_Header ''header'', mem C_int32_t ''item_id'',
    mem C_int16_t ''bag_id'', mem C_uint8_t ''slot'']"

definition GameSrv_StartSalvage_packet :: cstruct where
  "GameSrv_StartSalvage_packet = [mem C_Header ''header'', mem C_int16_t ''session_id'',
    mem C_int32_t ''kit_item_id'', mem C_int32_t ''item_id'']"

definition GameSrv_CancelSalvage_packet :: cstruct where
  "GameSrv_CancelSalvage_packet = [mem C_Header ''header'']"

definition GameSrv_SalvageDone_packet :: cstruct where
  "GameSrv_SalvageDone_packet = [mem C_Header ''header'']"

definition GameSrv_SalvageMaterials_packet :: cstruct where
  "GameSrv_SalvageMaterials_packet = [mem C_Header ''header'']"

definition GameSrv_SalvageUpgrade_packet :: cstruct where
  "GameSrv_SalvageUpgrade_packet = [mem C_Header ''header'', mem C_uint8_t ''upgrade_index'']"

definition GameSrv_UnequipItem_packet :: cstruct where
  "GameSrv_UnequipItem_packet = [mem C_Header ''header'', mem C_uint8_t ''equip_slot'',
    mem C_int16_t ''bag_id'', mem C_uint8_t ''bag_slot'']"

definition GameSrv_Identify_packet :: cstruct where
  "GameSrv_Identify_packet = [mem C_Header ''header'', mem C_int32_t ''kit_item_id'',
    mem C_int32_t ''item_id'']"

definition GameSrv_TransactItems_packet :: cstruct where
  "GameSrv_TransactItems_packet = [mem C_Header ''header'', mem C_int8_t ''type'',
    mem C_int32_t ''gold_send'', mem C_uint32_t ''n_item_ids_send'',
    arr C_int32_t ''item_ids_send'' 16, mem C_uint32_t ''n_item_quant_send'',
    arr C_uint8_t ''item_quant_send'' 16, mem C_int32_t ''gold_recv'',
    mem C_uint32_t ''n_item_ids_recv'', arr C_int32_t ''item_ids_recv'' 16,
    mem C_uint32_t ''n_item_quant_recv'', arr C_uint8_t ''item_quant_recv'' 16]"

definition GameSrv_BuyMaterials_packet :: cstruct where
  "GameSrv_BuyMaterials_packet = [mem C_Header ''header'', mem C_int8_t ''type'',
    mem C_int32_t ''gold_send'', mem C_uint32_t ''n_item_ids_send'',
    arr C_int32_t ''item_ids_send'' 16, mem C_int32_t ''gold_recv'',
    mem C_uint32_t ''n_item_ids_recv'', arr C_int32_t ''item_ids_recv'' 16]"

definition GameSrv_RequestQuote_packet :: cstruct where
  "GameSrv_RequestQuote_packet = [mem C_Header ''header'', mem C_int8_t ''type'',
    mem C_int8_t ''unk1'', mem C_int32_t ''unk_send'', mem C_uint32_t ''n_item_ids_send'',
    arr C_int32_t ''item_ids_send'' 16, mem C_int32_t ''unk_recv'',
    mem C_uint32_t ''n_item_ids_recv'', arr C_int32_t ''item_ids_recv'' 16]"

definition GameSrv_FlagHero_packet :: cstruct where
  "GameSrv_FlagHero_packet = [mem C_Header ''header'', mem C_AgentId ''agent_id'',
    mem C_Vec2f ''pos'', mem C_int32_t ''plane'']"

definition GameSrv_FlagAllHero_packet :: cstruct where
  "GameSrv_FlagAllHero_packet = [mem C_Header ''header'', mem C_Vec2f ''pos'',
    mem C_int32_t ''plane'']"

definition GameSrv_AcceptInvite_packet :: cstruct where
  "GameSrv_AcceptInvite_packet = [mem C_Header ''header'', mem C_uint16_t ''party_id'']"

definition GameSrv_LeaveParty_packet :: cstruct where
  "GameSrv_LeaveParty_packet = [mem C_Header ''header'']"

definition GameSrv_RefuseInvite_packet :: cstruct where
  "GameSrv_RefuseInvite_packet = [mem C_Header ''header'', mem C_uint16_t ''party_id'']"

definition GameSrv_PartySetTick_packet :: cstruct where
  "GameSrv_PartySetTick_packet = [mem C_Header ''header'', mem C_uint8_t ''ticked'']"

definition GameSrv_SetDifficulty_packet :: cstruct where
  "GameSrv_SetDifficulty_packet = [mem C_Header ''header'', mem C_uint8_t ''mode'']"

definition GameSrv_AddHero_packet :: cstruct where
  "GameSrv_AddHero_packet = [mem C_Header ''header'', mem C_uint16_t ''hero_id'']"

definition GameSrv_KickHero_packet :: cstruct where
  "GameSrv_KickHero_packet = [mem C_Header ''header'', mem C_uint16_t ''hero_id'']"

definition GameSrv_PS_SeekParty_packet :: cstruct where
  "GameSrv_PS_SeekParty_packet = [mem C_Header ''header'', mem C_uint8_t ''type'',
    arr C_uint16_t ''msg'' 32, mem C_uint16_t ''unk2'']"

definition GameSrv_PS_CancelSeek_packet :: cstruct where
  "GameSrv_PS_CancelSeek_packet = [mem C_Header ''header'']"

definition GameSrv_PS_RequestJoin_packet :: cstruct where
  "GameSrv_PS_RequestJoin_packet = [mem C_Header ''header'', mem C_uint16_t ''ps_id'']"

definition GameSrv_PS_RequestReply_packet :: cstruct where
  "GameSrv_PS_RequestReply_packet = [mem C_Header ''header'', mem C_uint16_t ''ps_id'']"

definition GameSrv_PS_ChangeType_packet :: cstruct where
  "GameSrv_PS_ChangeType_packet = [mem C_Header ''header'', mem C_uint8_t ''type'']"

definition GameSrv_DonateFaction_packet :: cstruct where
  "GameSrv_DonateFaction_packet = [mem C_Header ''header'', mem C_int32_t ''unk0'',
    mem C_int8_t ''faction'', mem C_int32_t ''amount'']"

definition GameSrv_AbandonQuest_packet :: cstruct where
  "GameSrv_AbandonQuest_packet = [mem C_Header ''header'', mem C_int32_t ''quest_id'']"

definition GameSrv_RequestQuestInfos_packet :: cstruct where
  "GameSrv_RequestQuestInfos_packet = [mem C_Header ''header'', mem C_int32_t ''quest_id'']"

definition GameSrv_UseSkill_packet :: cstruct where
  "GameSrv_UseSkill_packet = [mem C_Header ''header'', mem C_int32_t ''skill_id'',
    mem C_int32_t ''flags'', mem C_AgentId ''target'', mem C_uint8_t ''unk1'']"

definition GameSrv_Attack_packet :: cstruct where
  "GameSrv_Attack_packet = [mem C_Header ''header'', mem C_AgentId ''target'',
    mem C_uint8_t ''call'']"

definition GameSrv_LoadSkills_packet :: cstruct where
  "GameSrv_LoadSkills_packet = [mem C_Header ''header'', mem C_AgentId ''agent_id'',
    mem C_uint32_t ''n_skill_ids'', arr C_uint32_t ''skill_ids'' 8]"

definition GameSrv_LoadAttributes_packet :: cstruct where
  "GameSrv_LoadAttributes_packet = [mem C_Header ''header'', mem C_AgentId ''agent_id'',
    mem C_uint32_t ''n_attribute_ids'', arr C_uint32_t ''attribute_ids'' 16,
    mem C_uint32_t ''n_attribute_values'', arr C_uint32_t ''attribute_values'' 16]"

definition GameSrv_ChangeSecondary_packet :: cstruct where
  "GameSrv_ChangeSecondary_packet = [mem C_Header ''header'', mem C_AgentId ''agent_id'',
    mem C_uint8_t ''profession'']"

definition GameSrv_TradeAcknowledge_packet :: cstruct where
  "GameSrv_TradeAcknowledge_packet = [mem C_Header ''header'', mem C_int32_t ''player_id'']"

definition GameSrv_TradeCancel_packet :: cstruct where
  "GameSrv_TradeCancel_packet = [mem C_Header ''header'']"

definition GameSrv_TradeAddItem_packet :: cstruct where
  "GameSrv_TradeAddItem_packet = [mem C_Header ''header'', mem C_uint32_t ''item_id'',
    mem C_uint8_t ''quantity'']"

definition GameSrv_TradeSendOffer_packet :: cstruct where
  "GameSrv_TradeSendOffer_packet = [mem C_Header ''header'', mem C_int32_t ''gold'']"

definition GameSrv_TradeRemoveItem_packet :: cstruct where
  "GameSrv_TradeRemoveItem_packet = [mem C_Header ''header'', mem C_int32_t ''item_id'',
    mem C_uint8_t ''quantity'']"

definition GameSrv_TradeCancelOffer_packet :: cstruct where
  "GameSrv_TradeCancelOffer_packet = [mem C_Header ''header'']"

definition GameSrv_TradeAccept_packet :: cstruct where
  "GameSrv_TradeAccept_packet = [mem C_Header ''header'']"

definition GameSrv_TradeInitiate_packet :: cstruct where
  "GameSrv_TradeInitiate_packet = [mem C_Header ''header'', mem C_AgentId ''agent_id'']"

definition game_sent :: "(nat \<times> cstruct) list" where
  "game_sent = [(GAME_CMSG_MOVE_TO_COORD, GameSrv_MoveToCoord_packet),
    (GAME_CMSG_INTERACT_LIVING, GameSrv_InteractLiving_packet),
    (GAME_CMSG_INTERACT_GADGET, GameSrv_InteractGadget_packet),
    (GAME_CMSG_ROTATE_PLAYER, GameSrv_RotateToAngle_packet),
    (GAME_CMSG_SEND_CHAT_MESSAGE, GameSrv_SendChat_packet),
    (GAME_CMSG_SEND_CHAT_MESSAGE, GameSrv_SendWhisper_packet),
    (GAME_CMSG_DISCONNECT, GameSrv_Disconnect_packet),
    (GAME_CMSG_SKIP_CINEMATIC, GameSrv_SkipCinematic_packet),
    (GAME_CMSG_ITEM_CHANGE_GOLD, GameSrv_ChangeGold_packet),
    (GAME_CMSG_SEND_DIALOG, GameSrv_SendDialog_packet),
    (GAME_CMSG_INSTANCE_LOAD_REQUEST_SPAWN, HandleReadyForMapSpawn_packet),
    (GAME_CMSG_INSTANCE_LOAD_REQUEST_PLAYERS, HandleInstanceLoadSpawnPoint_packet),
    (GAME_CMSG_PING_REPLY, GameSrv_PingReply_packet),
    (GAME_CMSG_PING_REQUEST, GameSrv_PingRequest_packet),
    (GAME_CMSG_HERO_USE_SKILL, GameSrv_HeroUseSkill_packet),
    (GAME_CMSG_HERO_BEHAVIOR, GameSrv_HeroSetBehavior_packet),
    (GAME_CMSG_HERO_SKILL_TOGGLE, GameSrv_HeroSkillToggle_packet),
    (GAME_CMSG_PARTY_ENTER_GUILD_HALL, GameSrv_TravelGH_packet),
    (GAME_CMSG_PARTY_LEAVE_GUILD_HALL, GameSrv_LeaveGH_packet),
    (GAME_CMSG_PARTY_TRAVEL, GameSrv_Travel_packet),
    (GAME_CMSG_PARTY_RETURN_TO_OUTPOST, GameSrv_ReturnToOutpost_packet),
    (GAME_CMSG_ITEM_USE, GameSrv_UseItem_packet),
    (GAME_CMSG_INTERACT_ITEM, GameSrv_InteractItem_packet),
    (GAME_CMSG_ITEM_MOVE, GameSrv_MoveItem_packet),
    (GAME_CMSG_ITEM_SALVAGE_SESSION_OPEN, GameSrv_StartSalvage_packet),
    (GAME_CMSG_ITEM_SALVAGE_SESSION_CANCEL, GameSrv_CancelSalvage_packet),
    (GAME_CMSG_ITEM_SALVAGE_SESSION_DONE, GameSrv_SalvageDone_packet),
    (GAME_CMSG_ITEM_SALVAGE_MATERIALS, GameSrv_SalvageMaterials_packet),
    (GAME_CMSG_ITEM_SALVAGE_UPGRADE, GameSrv_SalvageUpgrade_packet),
    (GAME_CMSG_UNEQUIP_ITEM, GameSrv_UnequipItem_packet),
    (GAME_CMSG_ITEM_IDENTIFY, GameSrv_Identify_packet),
    (GAME_CMSG_TRANSACT_ITEMS, GameSrv_TransactItems_packet),
    (GAME_CMSG_BUY_MATERIALS, GameSrv_BuyMaterials_packet),
    (GAME_CMSG_REQUEST_QUOTE, GameSrv_RequestQuote_packet),
    (GAME_CMSG_HERO_FLAG_SINGLE, GameSrv_FlagHero_packet),
    (GAME_CMSG_HERO_FLAG_ALL, GameSrv_FlagAllHero_packet),
    (GAME_CMSG_PARTY_ACCEPT_INVITE, GameSrv_AcceptInvite_packet),
    (GAME_CMSG_PARTY_LEAVE_GROUP, GameSrv_LeaveParty_packet),
    (GAME_CMSG_PARTY_ACCEPT_REFUSE, GameSrv_RefuseInvite_packet),
    (GAME_CMSG_PARTY_READY_STATUS, GameSrv_PartySetTick_packet),
    (GAME_CMSG_PARTY_SET_DIFFICULTY, GameSrv_SetDifficulty_packet),
    (GAME_CMSG_HERO_ADD, GameSrv_AddHero_packet), (GAME_CMSG_HERO_KICK, GameSrv_KickHero_packet),
    (GAME_CMSG_PARTY_SEARCH_SEEK, GameSrv_PS_SeekParty_packet),
    (GAME_CMSG_PARTY_SEARCH_CANCEL, GameSrv_PS_CancelSeek_packet),
    (GAME_CMSG_PARTY_SEARCH_REQUEST_JOIN, GameSrv_PS_RequestJoin_packet),
    (GAME_CMSG_PARTY_SEARCH_REQUEST_REPLY, GameSrv_PS_RequestReply_packet),
    (GAME_CMSG_PARTY_SEARCH_TYPE, GameSrv_PS_ChangeType_packet),
    (GAME_CMSG_DEPOSIT_FACTION, GameSrv_DonateFaction_packet),
    (GAME_CMSG_QUEST_ABANDON, GameSrv_AbandonQuest_packet),
    (GAME_CMSG_QUEST_REQUEST_INFOS, GameSrv_RequestQuestInfos_packet),
    (GAME_CMSG_USE_SKILL, GameSrv_UseSkill_packet), (GAME_CMSG_ATTACK_AGENT, GameSrv_Attack_packet),
    (GAME_CMSG_SKILLBAR_LOAD, GameSrv_LoadSkills_packet),
    (GAME_CMSG_ATTRIBUTE_LOAD, GameSrv_LoadAttributes_packet),
    (GAME_CMSG_CHANGE_SECOND_PROFESSION, GameSrv_ChangeSecondary_packet),
    (GAME_CMSG_TRADE_ACKNOWLEDGE, GameSrv_TradeAcknowledge_packet),
    (GAME_CMSG_TRADE_CANCEL, GameSrv_TradeCancel_packet),
    (GAME_CMSG_TRADE_ADD_ITEM, GameSrv_TradeAddItem_packet),
    (GAME_CMSG_TRADE_SEND_OFFER, GameSrv_TradeSendOffer_packet),
    (GAME_CMSG_TRADE_REMOVE_ITEM, GameSrv_TradeRemoveItem_packet),
    (GAME_CMSG_TRADE_CANCEL_OFFER, GameSrv_TradeCancelOffer_packet),
    (GAME_CMSG_TRADE_ACCEPT, GameSrv_TradeAccept_packet),
    (GAME_CMSG_TRADE_INITIATE, GameSrv_TradeInitiate_packet)]"

definition auth_sent :: "(nat \<times> cstruct) list" where
  "auth_sent = [(AUTH_CMSG_HEARTBEAT, AuthSrv_HeartBeat_packet),
    (AUTH_CMSG_ASK_SERVER_RESPONSE, AuthSrv_AskServerResponse_packet),
    (AUTH_CMSG_SEND_COMPUTER_INFO, AuthSrv_ComputerInfo_packet),
    (AUTH_CMSG_SEND_COMPUTER_HASH, AuthSrv_ComputerInfo_packet2),
    (AUTH_CMSG_REQUEST_GAME_INSTANCE, AuthSrv_RequestInstance_packet),
    (AUTH_CMSG_CHANGE_PLAY_CHARACTER, AuthSrv_ChangeCharacter_packet),
    (AUTH_CMSG_SET_PLAYER_STATUS, AuthSrv_SetPlayerStatus_packet)]"

lemmas entry_defs =
  HandlePingRequest_entry_def HandlePingReply_entry_def HandleInstanceShowWin_entry_def
  HandleInstanceLoadHead_entry_def HandleInstanceCountdownStop_entry_def
  HandleInstanceCountdown_entry_def HandleInstanceLoadPlayerName_entry_def
  HandleInstanceLoadSpawnPoint_entry_def HandleInstanceLoadInfo_entry_def
  HandleGameTransferInfo_entry_def HandleReadyForMapSpawn_entry_def
  HandleCantEnterOutpost_entry_def HandleInstanceTravelTimer_entry_def
  HandleInstanceLoadFinish_entry_def HandleInstanceLoaded_entry_def
  HandleFriendListMessage_entry_def HandleInstanceRedirect_entry_def
  HandleGoldCharacterAdd_entry_def HandleGoldStorageAdd_entry_def
  HandleGoldCharacterRemove_entry_def HandleGoldStorageRemove_entry_def
  HandleInventoryItemQuantity_entry_def HandleInventoryItemLocation_entry_def
  HandleInventoryCreateBag_entry_def HandleItemStreamCreate_entry_def
  HandleItemStreamDestroy_entry_def HandleItemWeaponSet_entry_def
  HandleUpdateActiveWeaponSet_entry_def HandleItemGeneralInfo_entry_def
  HandleItemChangeLocation_entry_def HandleItemRemove_entry_def HandleItemPriceQuote_entry_def
  HandleWindowMerchant_entry_def HandleWindowItemStreamEnd_entry_def HandleWindowOwner_entry_def
  HandleWindowAddItems_entry_def HandleWindowAddPrices_entry_def
  HandleSalvageSessionStart_entry_def HandleSalvageSessionCancel_entry_def
  HandleSalvageSessionDone_entry_def HandleSalvageSessionSuccess_entry_def
  HandleSalvageSessionItemKept_entry_def HandleAgentMovementTick_entry_def
  HandleAgentInstanceTimer_entry_def HandleAgentSpawned_entry_def HandleAgentDespawned_entry_def
  HandleAgentSetPlayer_entry_def HandleAgentUpdateDirection_entry_def
  HandleAgentUpdateSpeedBase_entry_def HandleAgentStopMoving_entry_def
  HandleAgentMoveToPoint_entry_def HandleAgentUpdateSpeedModifier_entry_def
  HandleAgentUpdatePosition_entry_def HandleAgentUpdateRotation_entry_def
  HandleAgentUpdateDestination_entry_def HandleUpdatePlayerInfo_entry_def
  HandleAgentDestroyPlayer_entry_def HandleAgentCreateNPC_entry_def HandleAgentPingeg_entry_def
  HandleAgentUpdateEffects_entry_def HandleNPCUpdateProperties_entry_def
  HandleNPCUpdateModel_entry_def HandlePlayerUnlockedProfession_entry_def
  HandlePlayerUpdateProfession_entry_def HandleAgentUpdateNpcName_entry_def
  HandleAgentAttrUpdateInt_entry_def HandleAgentAttrUpdateIntTarget_entry_def
  HandleAgentAttrUpdateFloat_entry_def HandleAgentAttrUpdateFloatTarget_entry_def
  HandleAgentUpdateProfession_entry_def HandleCinematicStart_entry_def
  HandleCinematicData_entry_def HandleCinematicDataEnd_entry_def HandleCinematicEnd_entry_def
  HandleTradeRequest_entry_def HandleTradeTerminate_entry_def HandleTradeOfferedCount_entry_def
  HandleTradeReceiveOffer_entry_def HandleTradeAddItem_entry_def HandleTradeAcknowledge_entry_def
  HandleTradeAccept_entry_def HandleTradeChangeOffer_entry_def HandleChatMessageCore_entry_def
  HandleChatMessageLocal_entry_def HandleChatMessageGlobal_entry_def
  HandleChatMessageServer_entry_def HandlePlayerUpdateFactions_entry_def
  HandlePlayerFactionMaxKurzick_entry_def HandlePlayerFactionMaxLuxon_entry_def
  HandlePlayerFactionMaxBalthazar_entry_def HandlePlayerFactionMaxImperial_entry_def
  HandlePlayerFactionUpdate_entry_def HandlePlayerUnlockedAreas_entry_def
  HandleSkillbarUpdateSkill_entry_def HandleSkillbarUpdate_entry_def
  HandleSkillAddToWindowsData_entry_def HandleSkillAddToWindowsEnd_entry_def
  HandleSkillActivated_entry_def HandleSkillActivate_entry_def HandleSkillRecharge_entry_def
  HandleSkillRecharged_entry_def HandleHeroBehavior_entry_def HandleHeroSkillStatus_entry_def
  HandleHeroSkillStatusBitmap_entry_def HandleAgentUpdateAttributes_entry_def
  HandleQuestDescription_entry_def HandleQuestGeneralInfo_entry_def
  HandleQuestUpdateMarker_entry_def HandleQuestRemove_entry_def HandleTitleRankData_entry_def
  HandleTitleRankDisplay_entry_def HandleTitleTrackInfo_entry_def HandleMissionAddGoal_entry_def
  HandleMissionAddObjective_entry_def HandleDialogButton_entry_def HandleDialogBody_entry_def
  HandleDialogSender_entry_def HandleGuildPlayerRole_entry_def HandleGuildPlayerInfo_entry_def
  HandleGuildGeneralInfo_entry_def HandleGuildChangeFaction_entry_def
  HandleGuildInviteReceived_entry_def HandleGuildPlayerChangeComplete_entry_def
  HandleGuildChangePlayerContext_entry_def HandleGuildChangePlayerType_entry_def
  HandleGuildChangePlayerStatus_entry_def HandleEffectUpkeepAdded_entry_def
  HandleEffectUpkeepRemoved_entry_def HandleEffectUpkeepApplied_entry_def
  HandleEffectApplied_entry_def HandleEffectRenewed_entry_def HandleEffectRemoved_entry_def
  HandlePartySetDifficulty_entry_def HandlePartyHeroAdd_entry_def HandlePartyHeroRemove_entry_def
  HandlePartyInviteAdd_entry_def HandlePartyJoinRequest_entry_def
  HandlePartyInviteCancel_entry_def HandlePartyRequestCancel_entry_def
  HandlePartyYouAreLeader_entry_def HandlePartyPlayerAdd_entry_def
  HandlePartyPlayerRemove_entry_def HandlePartyPlayerReady_entry_def HandlePartyCreate_entry_def
  HandlePartyMemberStreamEnd_entry_def HandlePartyDefeated_entry_def
  HandlePartySearchRequestJoin_entry_def HandlePartySearchRequestDone_entry_def
  HandlePartySearchAdvertisement_entry_def HandlePartySearchSeek_entry_def
  HandlePartySearchRemove_entry_def HandlePartySearchSize_entry_def
  HandlePartySearchType_entry_def HandleRequestResponse_entry_def HandleServerReponse_entry_def
  HandleSessionInfo_entry_def HandleAccountInfo_entry_def HandleCharacterInfo_entry_def
  HandleGameServerInfo_entry_def HandleAccountSettings_entry_def HandleFriendUpdateInfo_entry_def
  HandleFriendUpdateStatus_entry_def HandleFriendStreamEnd_entry_def
  HandleFriendUpdateLocation_entry_def HandleWhisperReceived_entry_def

lemmas sent_defs =
  GameSrv_MoveToCoord_packet_def GameSrv_InteractLiving_packet_def GameSrv_InteractGadget_packet_def
  GameSrv_RotateToAngle_packet_def AuthSrv_HeartBeat_packet_def
  AuthSrv_AskServerResponse_packet_def AuthSrv_ComputerInfo_packet_def
  AuthSrv_ComputerInfo_packet2_def AuthSrv_RequestInstance_packet_def
  AuthSrv_ChangeCharacter_packet_def AuthSrv_SetPlayerStatus_packet_def
  GameSrv_SendChat_packet_def GameSrv_SendWhisper_packet_def GameSrv_Disconnect_packet_def
  GameSrv_SkipCinematic_packet_def GameSrv_ChangeGold_packet_def GameSrv_SendDialog_packet_def
  HandleReadyForMapSpawn_packet_def HandleInstanceLoadSpawnPoint_packet_def
  GameSrv_PingReply_packet_def GameSrv_PingRequest_packet_def GameSrv_HeroUseSkill_packet_def
  GameSrv_HeroSetBehavior_packet_def GameSrv_HeroSkillToggle_packet_def
  GameSrv_TravelGH_packet_def GameSrv_LeaveGH_packet_def GameSrv_Travel_packet_def
  GameSrv_ReturnToOutpost_packet_def GameSrv_UseItem_packet_def GameSrv_InteractItem_packet_def
  GameSrv_MoveItem_packet_def GameSrv_StartSalvage_packet_def GameSrv_CancelSalvage_packet_def
  GameSrv_SalvageDone_packet_def GameSrv_SalvageMaterials_packet_def
  GameSrv_SalvageUpgrade_packet_def GameSrv_UnequipItem_packet_def GameSrv_Identify_packet_def
  GameSrv_TransactItems_packet_def GameSrv_BuyMaterials_packet_def GameSrv_RequestQuote_packet_def
  GameSrv_FlagHero_packet_def GameSrv_FlagAllHero_packet_def GameSrv_AcceptInvite_packet_def
  GameSrv_LeaveParty_packet_def GameSrv_RefuseInvite_packet_def GameSrv_PartySetTick_packet_def
  GameSrv_SetDifficulty_packet_def GameSrv_AddHero_packet_def GameSrv_KickHero_packet_def
  GameSrv_PS_SeekParty_packet_def GameSrv_PS_CancelSeek_packet_def
  GameSrv_PS_RequestJoin_packet_def GameSrv_PS_RequestReply_packet_def
  GameSrv_PS_ChangeType_packet_def GameSrv_DonateFaction_packet_def
  GameSrv_AbandonQuest_packet_def GameSrv_RequestQuestInfos_packet_def GameSrv_UseSkill_packet_def
  GameSrv_Attack_packet_def GameSrv_LoadSkills_packet_def GameSrv_LoadAttributes_packet_def
  GameSrv_ChangeSecondary_packet_def GameSrv_TradeAcknowledge_packet_def
  GameSrv_TradeCancel_packet_def GameSrv_TradeAddItem_packet_def GameSrv_TradeSendOffer_packet_def
  GameSrv_TradeRemoveItem_packet_def GameSrv_TradeCancelOffer_packet_def
  GameSrv_TradeAccept_packet_def GameSrv_TradeInitiate_packet_def

lemmas opcode_defs =
  GAME_SMSG_PING_REQUEST_def GAME_SMSG_PING_REPLY_def GAME_SMSG_INSTANCE_SHOW_WIN_def
  GAME_SMSG_INSTANCE_LOAD_HEAD_def GAME_SMSG_INSTANCE_COUNTDOWN_STOP_def
  GAME_SMSG_INSTANCE_COUNTDOWN_def GAME_SMSG_INSTANCE_LOAD_PLAYER_NAME_def
  GAME_SMSG_INSTANCE_LOAD_SPAWN_POINT_def GAME_SMSG_INSTANCE_LOAD_INFO_def
  GAME_SMSG_TRANSFER_GAME_SERVER_INFO_def GAME_SMSG_READY_FOR_MAP_SPAWN_def
  GAME_SMSG_INSTANCE_CANT_ENTER_def GAME_SMSG_INSTANCE_TRAVEL_TIMER_def
  GAME_SMSG_INSTANCE_LOAD_FINISH_def GAME_SMSG_INSTANCE_LOADED_def
  GAME_SMSG_FRIENDLIST_MESSAGE_def GAME_SMSG_INSTANCE_REDIRECT_def
  GAME_SMSG_UPDATE_GOLD_CHARACTER_def GAME_SMSG_UPDATE_GOLD_STORAGE_def
  GAME_SMSG_GOLD_CHARACTER_REMOVE_def GAME_SMSG_GOLD_STORAGE_REMOVE_def
  GAME_SMSG_ITEM_UPDATE_QUANTITY_def GAME_SMSG_ITEM_MOVED_TO_LOCATION_def
  GAME_SMSG_INVENTORY_CREATE_BAG_def GAME_SMSG_ITEM_STREAM_CREATE_def
  GAME_SMSG_ITEM_STREAM_DESTROY_def GAME_SMSG_ITEM_WEAPON_SET_def
  GAME_SMSG_ITEM_SET_ACTIVE_WEAPON_SET_def GAME_SMSG_ITEM_GENERAL_INFO_def
  GAME_SMSG_ITEM_CHANGE_LOCATION_def GAME_SMSG_ITEM_REMOVE_def GAME_SMSG_ITEM_PRICE_QUOTE_def
  GAME_SMSG_WINDOW_MERCHANT_def GAME_SMSG_WINDOW_ITEM_STREAM_END_def GAME_SMSG_WINDOW_OWNER_def
  GAME_SMSG_WINDOW_ADD_ITEMS_def GAME_SMSG_ITEM_PRICES_def
  GAME_SMSG_ITEM_SALVAGE_SESSION_START_def GAME_SMSG_ITEM_SALVAGE_SESSION_CANCEL_def
  GAME_SMSG_ITEM_SALVAGE_SESSION_DONE_def GAME_SMSG_ITEM_SALVAGE_SESSION_SUCCESS_def
  GAME_SMSG_ITEM_SALVAGE_SESSION_ITEM_KEPT_def GAME_SMSG_AGENT_MOVEMENT_TICK_def
  GAME_SMSG_AGENT_INSTANCE_TIMER_def GAME_SMSG_AGENT_SPAWNED_def GAME_SMSG_AGENT_DESPAWNED_def
  GAME_SMSG_AGENT_SET_PLAYER_def GAME_SMSG_AGENT_UPDATE_DIRECTION_def
  GAME_SMSG_AGENT_UPDATE_SPEED_BASE_def GAME_SMSG_AGENT_STOP_MOVING_def
  GAME_SMSG_AGENT_MOVE_TO_POINT_def GAME_SMSG_AGENT_UPDATE_SPEED_def
  GAME_SMSG_AGENT_UPDATE_POSITION_def GAME_SMSG_AGENT_UPDATE_ROTATION_def
  GAME_SMSG_AGENT_UPDATE_DESTINATION_def GAME_SMSG_UPDATE_PLAYER_INFO_def
  GAME_SMSG_AGENT_DESTROY_PLAYER_def GAME_SMSG_AGENT_CREATE_NPC_def GAME_SMSG_AGENT_PINGED_def
  GAME_SMSG_AGENT_UPDATE_EFFECTS_def GAME_SMSG_NPC_UPDATE_PROPERTIES_def
  GAME_SMSG_NPC_UPDATE_MODEL_def GAME_SMSG_PLAYER_UNLOCKED_PROFESSION_def
  GAME_SMSG_PLAYER_UPDATE_PROFESSION_def GAME_SMSG_AGENT_UPDATE_NPC_NAME_def
  GAME_SMSG_AGENT_ATTR_UPDATE_INT_def GAME_SMSG_AGENT_ATTR_UPDATE_INT_TARGET_def
  GAME_SMSG_AGENT_ATTR_UPDATE_FLOAT_def GAME_SMSG_AGENT_ATTR_UPDATE_FLOAT_TARGET_def
  GAME_SMSG_AGENT_UPDATE_PROFESSION_def GAME_SMSG_CINEMATIC_START_def GAME_SMSG_CINEMATIC_DATA_def
  GAME_SMSG_CINEMATIC_DATA_END_def GAME_SMSG_CINEMATIC_END_def GAME_SMSG_TRADE_REQUEST_def
  GAME_SMSG_TRADE_TERMINATE_def GAME_SMSG_TRADE_OFFERED_COUNT_def
  GAME_SMSG_TRADE_RECEIVE_OFFER_def GAME_SMSG_TRADE_ADD_ITEM_def GAME_SMSG_TRADE_ACKNOWLEDGE_def
  GAME_SMSG_TRADE_ACCEPT_def GAME_SMSG_TRADE_CHANGE_OFFER_def GAME_SMSG_CHAT_MESSAGE_CORE_def
  GAME_SMSG_CHAT_MESSAGE_LOCAL_def GAME_SMSG_CHAT_MESSAGE_GLOBAL_def
  GAME_SMSG_CHAT_MESSAGE_SERVER_def GAME_SMSG_PLAYER_UPDATE_FACTIONS_def
  GAME_SMSG_PLAYER_FACTION_MAX_KURZICK_def GAME_SMSG_PLAYER_FACTION_MAX_LUXON_def
  GAME_SMSG_PLAYER_FACTION_MAX_BALTHAZAR_def GAME_SMSG_PLAYER_FACTION_MAX_IMPERIAL_def
  GAME_SMSG_PLAYER_FACTION_UPDATE_def GAME_SMSG_MAPS_UNLOCKED_def
  GAME_SMSG_SKILLBAR_UPDATE_SKILL_def GAME_SMSG_SKILLBAR_UPDATE_def
  GAME_SMSG_SKILL_ADD_TO_WINDOWS_DATA_def GAME_SMSG_SKILL_ADD_TO_WINDOWS_END_def
  GAME_SMSG_SKILL_ACTIVATED_def GAME_SMSG_SKILL_ACTIVATE_def GAME_SMSG_SKILL_RECHARGE_def
  GAME_SMSG_SKILL_RECHARGED_def GAME_SMSG_HERO_BEHAVIOR_def GAME_SMSG_HERO_SKILL_STATUS_def
  GAME_SMSG_HERO_SKILL_STATUS_BITMAP_def GAME_SMSG_AGENT_UPDATE_ATTRIBUTES_def
  GAME_SMSG_QUEST_DESCRIPTION_def GAME_SMSG_QUEST_GENERAL_INFO_def
  GAME_SMSG_QUEST_UPDATE_MARKER_def GAME_SMSG_QUEST_REMOVE_def GAME_SMSG_TITLE_RANK_DATA_def
  GAME_SMSG_TITLE_RANK_DISPLAY_def GAME_SMSG_TITLE_TRACK_INFO_def
  GAME_SMSG_MISSION_INFOBOX_ADD_def GAME_SMSG_MISSION_OBJECTIVE_ADD_def
  GAME_SMSG_DIALOG_BUTTON_def GAME_SMSG_DIALOG_BODY_def GAME_SMSG_DIALOG_SENDER_def
  GAME_SMSG_GUILD_PLAYER_ROLE_def GAME_SMSG_GUILD_PLAYER_INFO_def GAME_SMSG_GUILD_GENERAL_INFO_def
  GAME_SMSG_GUILD_CHANGE_FACTION_def GAME_SMSG_GUILD_INVITE_RECEIVED_def
  GAME_SMSG_GUILD_PLAYER_CHANGE_COMPLETE_def GAME_SMSG_GUILD_CHANGE_PLAYER_CONTEXT_def
  GAME_SMSG_GUILD_CHANGE_PLAYER_TYPE_def GAME_SMSG_GUILD_CHANGE_PLAYER_STATUS_def
  GAME_SMSG_EFFECT_UPKEEP_ADDED_def GAME_SMSG_EFFECT_UPKEEP_REMOVED_def
  GAME_SMSG_EFFECT_UPKEEP_APPLIED_def GAME_SMSG_EFFECT_APPLIED_def GAME_SMSG_EFFECT_RENEWED_def
  GAME_SMSG_EFFECT_REMOVED_def GAME_SMSG_PARTY_SET_DIFFICULTY_def GAME_SMSG_PARTY_HERO_ADD_def
  GAME_SMSG_PARTY_HERO_REMOVE_def GAME_SMSG_PARTY_INVITE_ADD_def GAME_SMSG_PARTY_JOIN_REQUEST_def
  GAME_SMSG_PARTY_INVITE_CANCEL_def GAME_SMSG_PARTY_REQUEST_CANCEL_def
  GAME_SMSG_PARTY_YOU_ARE_LEADER_def GAME_SMSG_PARTY_PLAYER_ADD_def
  GAME_SMSG_PARTY_PLAYER_REMOVE_def GAME_SMSG_PARTY_PLAYER_READY_def GAME_SMSG_PARTY_CREATE_def
  GAME_SMSG_PARTY_MEMBER_STREAM_END_def GAME_SMSG_PARTY_DEFEATED_def
  GAME_SMSG_PARTY_SEARCH_REQUEST_JOIN_def GAME_SMSG_PARTY_SEARCH_REQUEST_DONE_def
  GAME_SMSG_PARTY_SEARCH_ADVERTISEMENT_def GAME_SMSG_PARTY_SEARCH_SEEK_def
  GAME_SMSG_PARTY_SEARCH_REMOVE_def GAME_SMSG_PARTY_SEARCH_SIZE_def
  GAME_SMSG_PARTY_SEARCH_TYPE_def AUTH_SMSG_REQUEST_RESPONSE_def AUTH_SMSG_SERVER_RESPONSE_def
  AUTH_SMSG_SESSION_INFO_def AUTH_SMSG_ACCOUNT_INFO_def AUTH_SMSG_CHARACTER_INFO_def
  AUTH_SMSG_GAME_SERVER_INFO_def AUTH_SMSG_ACCOUNT_SETTINGS_def AUTH_SMSG_FRIEND_UPDATE_INFO_def
  AUTH_SMSG_FRIEND_UPDATE_STATUS_def AUTH_SMSG_FRIEND_STREAM_END_def
  AUTH_SMSG_FRIEND_UPDATE_LOCATION_def AUTH_SMSG_WHISPER_RECEIVED_def GAME_CMSG_MOVE_TO_COORD_def
  GAME_CMSG_INTERACT_LIVING_def GAME_CMSG_INTERACT_GADGET_def GAME_CMSG_ROTATE_PLAYER_def
  AUTH_CMSG_HEARTBEAT_def AUTH_CMSG_ASK_SERVER_RESPONSE_def AUTH_CMSG_SEND_COMPUTER_INFO_def
  AUTH_CMSG_SEND_COMPUTER_HASH_def AUTH_CMSG_REQUEST_GAME_INSTANCE_def
  AUTH_CMSG_CHANGE_PLAY_CHARACTER_def AUTH_CMSG_SET_PLAYER_STATUS_def
  GAME_CMSG_SEND_CHAT_MESSAGE_def GAME_CMSG_DISCONNECT_def GAME_CMSG_SKIP_CINEMATIC_def
  GAME_CMSG_ITEM_CHANGE_GOLD_def GAME_CMSG_SEND_DIALOG_def
  GAME_CMSG_INSTANCE_LOAD_REQUEST_SPAWN_def GAME_CMSG_INSTANCE_LOAD_REQUEST_PLAYERS_def
  GAME_CMSG_PING_REPLY_def GAME_CMSG_PING_REQUEST_def GAME_CMSG_HERO_USE_SKILL_def
  GAME_CMSG_HERO_BEHAVIOR_def GAME_CMSG_HERO_SKILL_TOGGLE_def GAME_CMSG_PARTY_ENTER_GUILD_HALL_def
  GAME_CMSG_PARTY_LEAVE_GUILD_HALL_def GAME_CMSG_PARTY_TRAVEL_def
  GAME_CMSG_PARTY_RETURN_TO_OUTPOST_def GAME_CMSG_ITEM_USE_def GAME_CMSG_INTERACT_ITEM_def
  GAME_CMSG_ITEM_MOVE_def GAME_CMSG_ITEM_SALVAGE_SESSION_OPEN_def
  GAME_CMSG_ITEM_SALVAGE_SESSION_CANCEL_def GAME_CMSG_ITEM_SALVAGE_SESSION_DONE_def
  GAME_CMSG_ITEM_SALVAGE_MATERIALS_def GAME_CMSG_ITEM_SALVAGE_UPGRADE_def
  GAME_CMSG_UNEQUIP_ITEM_def GAME_CMSG_ITEM_IDENTIFY_def GAME_CMSG_TRANSACT_ITEMS_def
  GAME_CMSG_BUY_MATERIALS_def GAME_CMSG_REQUEST_QUOTE_def GAME_CMSG_HERO_FLAG_SINGLE_def
  GAME_CMSG_HERO_FLAG_ALL_def GAME_CMSG_PARTY_ACCEPT_INVITE_def GAME_CMSG_PARTY_LEAVE_GROUP_def
  GAME_CMSG_PARTY_ACCEPT_REFUSE_def GAME_CMSG_PARTY_READY_STATUS_def
  GAME_CMSG_PARTY_SET_DIFFICULTY_def GAME_CMSG_HERO_ADD_def GAME_CMSG_HERO_KICK_def
  GAME_CMSG_PARTY_SEARCH_SEEK_def GAME_CMSG_PARTY_SEARCH_CANCEL_def
  GAME_CMSG_PARTY_SEARCH_REQUEST_JOIN_def GAME_CMSG_PARTY_SEARCH_REQUEST_REPLY_def
  GAME_CMSG_PARTY_SEARCH_TYPE_def GAME_CMSG_DEPOSIT_FACTION_def GAME_CMSG_QUEST_ABANDON_def
  GAME_CMSG_QUEST_REQUEST_INFOS_def GAME_CMSG_USE_SKILL_def GAME_CMSG_ATTACK_AGENT_def
  GAME_CMSG_SKILLBAR_LOAD_def GAME_CMSG_ATTRIBUTE_LOAD_def GAME_CMSG_CHANGE_SECOND_PROFESSION_def
  GAME_CMSG_TRADE_ACKNOWLEDGE_def GAME_CMSG_TRADE_CANCEL_def GAME_CMSG_TRADE_ADD_ITEM_def
  GAME_CMSG_TRADE_SEND_OFFER_def GAME_CMSG_TRADE_REMOVE_ITEM_def GAME_CMSG_TRADE_CANCEL_OFFER_def
  GAME_CMSG_TRADE_ACCEPT_def GAME_CMSG_TRADE_INITIATE_def

end
