(* ===== verification/Handler_Layout.thy ===== *)
theory Handler_Layout
  imports Handler_Structs Packets_Auth Packets_Game_Client Packets_Game_Server
begin

text \<open>
  The structures of the handlers against the format tables: the size of a structure is the unpack
  size of its message, which both the handlers and \<^verbatim>\<open>SendPacket\<close> assert, and its members are made
  of whole values of the decoded message.
\<close>

section \<open>Members over decoded values\<close>

text \<open>The sizes of the scalars of a structure and of a decoded message, in the order of memory.\<close>

fun type_cells :: "ctype \<Rightarrow> nat list" where
  "type_cells C_Vec2f = [4, 4]"
| "type_cells t = [sizeof_type t]"

fun struct_cells :: "cstruct \<Rightarrow> nat list" where
  "struct_cells [] = []"
| "struct_cells ((n, t, k) # ms) = concat (replicate k (type_cells t)) @ struct_cells ms"

fun field_cells :: "msg_type \<Rightarrow> nat \<Rightarrow> nat list" where
  "field_cells TYPE_MSG_HEADER p = [2]"
| "field_cells TYPE_AGENT_ID p = [4]"
| "field_cells TYPE_FLOAT p = [4]"
| "field_cells TYPE_VECT2 p = [4, 4]"
| "field_cells TYPE_VECT3 p = [4, 4, 4]"
| "field_cells TYPE_BYTE p = [1]"
| "field_cells TYPE_WORD p = [2]"
| "field_cells TYPE_DWORD p = [4]"
| "field_cells TYPE_BLOB p = replicate p 1"
| "field_cells TYPE_STRING_16 p = replicate p 2"
| "field_cells TYPE_ARRAY_8 p = 4 # replicate p 1"
| "field_cells TYPE_ARRAY_16 p = 4 # replicate p 2"
| "field_cells TYPE_ARRAY_32 p = 4 # replicate p 4"
| "field_cells TYPE_NESTED_STRUCT p = [4]"

fun format_cells :: "msg_field list \<Rightarrow> nat list" where
  "format_cells [] = []"
| "format_cells (f # fs) = field_cells (fd_type f) (fd_param f) @
     (if is_nested f then concat (replicate (fd_param f) (format_cells fs)) else format_cells fs)"

text \<open>Every member covers a whole number of decoded scalars.\<close>

fun take_cells :: "nat \<Rightarrow> nat list \<Rightarrow> nat list option" where
  "take_cells n [] = (if n = 0 then Some [] else None)"
| "take_cells n (c # cs) = (if n = 0 then Some (c # cs) else if n < c then None else take_cells (n - c) cs)"

fun covers :: "nat list \<Rightarrow> nat list \<Rightarrow> bool" where
  "covers [] cs \<longleftrightarrow> cs = []"
| "covers (s # ss) cs \<longleftrightarrow> (case take_cells s cs of None \<Rightarrow> False | Some rest \<Rightarrow> covers ss rest)"

definition accepts :: "handler_entry \<Rightarrow> msg_format \<Rightarrow> bool" where
  "accepts e m \<longleftrightarrow> handler_entered e (mf_header m) (mf_unpack_size m) = Inr () \<and>
     (case en_struct e of None \<Rightarrow> True | Some ms \<Rightarrow> covers (struct_cells ms) (format_cells (mf_fields m)))"

text \<open>A structure that the client sends, against the format \<^verbatim>\<open>SendPacket\<close> finds for it.\<close>

definition conforms :: "cstruct \<Rightarrow> msg_format \<Rightarrow> bool" where
  "conforms ms m \<longleftrightarrow> sizeof ms = mf_unpack_size m \<and> covers (struct_cells ms) (format_cells (mf_fields m))"

lemma take_cells_0 [simp]: "take_cells 0 cs = Some cs"
  by (cases cs) auto

lemma covers_replicate [simp]: "0 < s \<Longrightarrow> covers (replicate k s @ xs) (replicate k s @ ys) = covers xs ys"
  by (induction k) auto

lemma covers_replicate_end [simp]: "0 < s \<Longrightarrow> covers (replicate k s) (replicate k s)"
  by (induction k) auto

lemma covers_words [simp]: "covers (replicate 4 4) (replicate 16 (Suc 0))"
  by (simp add: numeral_eq_Suc)

lemmas accepts_simps = conforms_def accepts_def handler_entered_def check_of_def no_check_def mem_def arr_def


section \<open>Every structure against its format\<close>

lemma accept_auth_client_0:
  "conforms AuthSrv_HeartBeat_packet (AUTH_CLIENT_FORMATS ! (AUTH_CMSG_HEARTBEAT mod 32768))"
  "conforms AuthSrv_ComputerInfo_packet
    (AUTH_CLIENT_FORMATS !
    (AUTH_CMSG_SEND_COMPUTER_INFO mod 32768))"
  "conforms AuthSrv_ComputerInfo_packet2
    (AUTH_CLIENT_FORMATS !
    (AUTH_CMSG_SEND_COMPUTER_HASH mod 32768))"
  "conforms AuthSrv_RequestInstance_packet
    (AUTH_CLIENT_FORMATS !
    (AUTH_CMSG_REQUEST_GAME_INSTANCE mod 32768))"
  "conforms AuthSrv_ChangeCharacter_packet
    (AUTH_CLIENT_FORMATS !
    (AUTH_CMSG_CHANGE_PLAY_CHARACTER mod 32768))"
  "conforms AuthSrv_SetPlayerStatus_packet
    (AUTH_CLIENT_FORMATS !
    (AUTH_CMSG_SET_PLAYER_STATUS mod 32768))"
  by (simp_all add: AUTH_CLIENT_FORMATS_def nth_append AUTH_CLIENT_FORMATS_0_def packet_defs
      accepts_simps entry_defs sent_defs opcode_defs)

lemma accept_auth_client_50:
  "conforms AuthSrv_AskServerResponse_packet
    (AUTH_CLIENT_FORMATS !
    (AUTH_CMSG_ASK_SERVER_RESPONSE mod 32768))"
  by (simp_all add: AUTH_CLIENT_FORMATS_def nth_append AUTH_CLIENT_FORMATS_50_def packet_defs
      accepts_simps entry_defs sent_defs opcode_defs)

lemma accept_auth_server_0:
  "accepts HandleRequestResponse_entry (AUTH_SERVER_FORMATS ! AUTH_SMSG_REQUEST_RESPONSE)"
  "accepts HandleServerReponse_entry (AUTH_SERVER_FORMATS ! AUTH_SMSG_SERVER_RESPONSE)"
  "accepts HandleSessionInfo_entry (AUTH_SERVER_FORMATS ! AUTH_SMSG_SESSION_INFO)"
  "accepts HandleAccountInfo_entry (AUTH_SERVER_FORMATS ! AUTH_SMSG_ACCOUNT_INFO)"
  "accepts HandleCharacterInfo_entry (AUTH_SERVER_FORMATS ! AUTH_SMSG_CHARACTER_INFO)"
  "accepts HandleGameServerInfo_entry (AUTH_SERVER_FORMATS ! AUTH_SMSG_GAME_SERVER_INFO)"
  "accepts HandleAccountSettings_entry (AUTH_SERVER_FORMATS ! AUTH_SMSG_ACCOUNT_SETTINGS)"
  "accepts HandleFriendUpdateInfo_entry (AUTH_SERVER_FORMATS ! AUTH_SMSG_FRIEND_UPDATE_INFO)"
  "accepts HandleFriendUpdateStatus_entry (AUTH_SERVER_FORMATS ! AUTH_SMSG_FRIEND_UPDATE_STATUS)"
  "accepts HandleFriendStreamEnd_entry (AUTH_SERVER_FORMATS ! AUTH_SMSG_FRIEND_STREAM_END)"
  "accepts HandleFriendUpdateLocation_entry
    (AUTH_SERVER_FORMATS ! AUTH_SMSG_FRIEND_UPDATE_LOCATION)"
  "accepts HandleWhisperReceived_entry (AUTH_SERVER_FORMATS ! AUTH_SMSG_WHISPER_RECEIVED)"
  by (simp_all add: AUTH_SERVER_FORMATS_def nth_append AUTH_SERVER_FORMATS_0_def packet_defs
      accepts_simps entry_defs sent_defs opcode_defs)

lemma accept_game_client_0:
  "conforms GameSrv_Disconnect_packet (GAME_CLIENT_FORMATS ! (GAME_CMSG_DISCONNECT mod 32768))"
  "conforms GameSrv_PingReply_packet (GAME_CLIENT_FORMATS ! (GAME_CMSG_PING_REPLY mod 32768))"
  "conforms GameSrv_PingRequest_packet (GAME_CLIENT_FORMATS ! (GAME_CMSG_PING_REQUEST mod 32768))"
  "conforms GameSrv_HeroUseSkill_packet
    (GAME_CLIENT_FORMATS !
    (GAME_CMSG_HERO_USE_SKILL mod 32768))"
  "conforms GameSrv_HeroSetBehavior_packet
    (GAME_CLIENT_FORMATS !
    (GAME_CMSG_HERO_BEHAVIOR mod 32768))"
  "conforms GameSrv_HeroSkillToggle_packet
    (GAME_CLIENT_FORMATS !
    (GAME_CMSG_HERO_SKILL_TOGGLE mod 32768))"
  "conforms GameSrv_FlagHero_packet (GAME_CLIENT_FORMATS ! (GAME_CMSG_HERO_FLAG_SINGLE mod 32768))"
  "conforms GameSrv_FlagAllHero_packet (GAME_CLIENT_FORMATS ! (GAME_CMSG_HERO_FLAG_ALL mod 32768))"
  "conforms GameSrv_AddHero_packet (GAME_CLIENT_FORMATS ! (GAME_CMSG_HERO_ADD mod 32768))"
  "conforms GameSrv_KickHero_packet (GAME_CLIENT_FORMATS ! (GAME_CMSG_HERO_KICK mod 32768))"
  "conforms GameSrv_AbandonQuest_packet (GAME_CLIENT_FORMATS ! (GAME_CMSG_QUEST_ABANDON mod 32768))"
  "conforms GameSrv_RequestQuestInfos_packet
    (GAME_CLIENT_FORMATS !
    (GAME_CMSG_QUEST_REQUEST_INFOS mod 32768))"
  by (simp_all add: GAME_CLIENT_FORMATS_def nth_append GAME_CLIENT_FORMATS_0_def packet_defs
      accepts_simps entry_defs sent_defs opcode_defs)

lemma accept_game_client_0_12:
  "conforms GameSrv_Attack_packet (GAME_CLIENT_FORMATS ! (GAME_CMSG_ATTACK_AGENT mod 32768))"
  "conforms GameSrv_LoadAttributes_packet
    (GAME_CLIENT_FORMATS !
    (GAME_CMSG_ATTRIBUTE_LOAD mod 32768))"
  "conforms GameSrv_TradeAcknowledge_packet
    (GAME_CLIENT_FORMATS !
    (GAME_CMSG_TRADE_ACKNOWLEDGE mod 32768))"
  "conforms GameSrv_TradeCancel_packet (GAME_CLIENT_FORMATS ! (GAME_CMSG_TRADE_CANCEL mod 32768))"
  "conforms GameSrv_TradeAddItem_packet
    (GAME_CLIENT_FORMATS !
    (GAME_CMSG_TRADE_ADD_ITEM mod 32768))"
  "conforms GameSrv_TradeSendOffer_packet
    (GAME_CLIENT_FORMATS !
    (GAME_CMSG_TRADE_SEND_OFFER mod 32768))"
  "conforms GameSrv_TradeRemoveItem_packet
    (GAME_CLIENT_FORMATS !
    (GAME_CMSG_TRADE_REMOVE_ITEM mod 32768))"
  "conforms GameSrv_TradeCancelOffer_packet
    (GAME_CLIENT_FORMATS !
    (GAME_CMSG_TRADE_CANCEL_OFFER mod 32768))"
  "conforms GameSrv_TradeAccept_packet (GAME_CLIENT_FORMATS ! (GAME_CMSG_TRADE_ACCEPT mod 32768))"
  by (simp_all add: GAME_CLIENT_FORMATS_def nth_append GAME_CLIENT_FORMATS_0_def packet_defs
      accepts_simps entry_defs sent_defs opcode_defs)

lemma accept_game_client_100:
  "conforms GameSrv_ChangeGold_packet
    (GAME_CLIENT_FORMATS !
    (GAME_CMSG_ITEM_CHANGE_GOLD mod 32768))"
  "conforms HandleReadyForMapSpawn_packet
    (GAME_CLIENT_FORMATS !
    (GAME_CMSG_INSTANCE_LOAD_REQUEST_SPAWN mod 32768))"
  "conforms HandleInstanceLoadSpawnPoint_packet
    (GAME_CLIENT_FORMATS !
    (GAME_CMSG_INSTANCE_LOAD_REQUEST_PLAYERS mod 32768))"
  "conforms GameSrv_UseItem_packet (GAME_CLIENT_FORMATS ! (GAME_CMSG_ITEM_USE mod 32768))"
  "conforms GameSrv_MoveItem_packet (GAME_CLIENT_FORMATS ! (GAME_CMSG_ITEM_MOVE mod 32768))"
  "conforms GameSrv_StartSalvage_packet
    (GAME_CLIENT_FORMATS !
    (GAME_CMSG_ITEM_SALVAGE_SESSION_OPEN mod 32768))"
  "conforms GameSrv_CancelSalvage_packet
    (GAME_CLIENT_FORMATS !
    (GAME_CMSG_ITEM_SALVAGE_SESSION_CANCEL mod 32768))"
  "conforms GameSrv_SalvageDone_packet
    (GAME_CLIENT_FORMATS !
    (GAME_CMSG_ITEM_SALVAGE_SESSION_DONE mod 32768))"
  "conforms GameSrv_SalvageMaterials_packet
    (GAME_CLIENT_FORMATS !
    (GAME_CMSG_ITEM_SALVAGE_MATERIALS mod 32768))"
  "conforms GameSrv_SalvageUpgrade_packet
    (GAME_CLIENT_FORMATS !
    (GAME_CMSG_ITEM_SALVAGE_UPGRADE mod 32768))"
  "conforms GameSrv_Identify_packet (GAME_CLIENT_FORMATS ! (GAME_CMSG_ITEM_IDENTIFY mod 32768))"
  by (simp_all add: GAME_CLIENT_FORMATS_def nth_append GAME_CLIENT_FORMATS_100_def packet_defs
      accepts_simps entry_defs sent_defs opcode_defs)

lemma accept_game_client_150:
  "conforms GameSrv_TravelGH_packet
    (GAME_CLIENT_FORMATS !
    (GAME_CMSG_PARTY_ENTER_GUILD_HALL mod 32768))"
  "conforms GameSrv_LeaveGH_packet
    (GAME_CLIENT_FORMATS !
    (GAME_CMSG_PARTY_LEAVE_GUILD_HALL mod 32768))"
  "conforms GameSrv_Travel_packet (GAME_CLIENT_FORMATS ! (GAME_CMSG_PARTY_TRAVEL mod 32768))"
  "conforms GameSrv_ReturnToOutpost_packet
    (GAME_CLIENT_FORMATS !
    (GAME_CMSG_PARTY_RETURN_TO_OUTPOST mod 32768))"
  "conforms GameSrv_AcceptInvite_packet
    (GAME_CLIENT_FORMATS !
    (GAME_CMSG_PARTY_ACCEPT_INVITE mod 32768))"
  "conforms GameSrv_LeaveParty_packet
    (GAME_CLIENT_FORMATS !
    (GAME_CMSG_PARTY_LEAVE_GROUP mod 32768))"
  "conforms GameSrv_RefuseInvite_packet
    (GAME_CLIENT_FORMATS !
    (GAME_CMSG_PARTY_ACCEPT_REFUSE mod 32768))"
  "conforms GameSrv_PartySetTick_packet
    (GAME_CLIENT_FORMATS !
    (GAME_CMSG_PARTY_READY_STATUS mod 32768))"
  "conforms GameSrv_SetDifficulty_packet
    (GAME_CLIENT_FORMATS !
    (GAME_CMSG_PARTY_SET_DIFFICULTY mod 32768))"
  "conforms GameSrv_PS_SeekParty_packet
    (GAME_CLIENT_FORMATS !
    (GAME_CMSG_PARTY_SEARCH_SEEK mod 32768))"
  "conforms GameSrv_PS_CancelSeek_packet
    (GAME_CLIENT_FORMATS !
    (GAME_CMSG_PARTY_SEARCH_CANCEL mod 32768))"
  "conforms GameSrv_PS_RequestJoin_packet
    (GAME_CLIENT_FORMATS !
    (GAME_CMSG_PARTY_SEARCH_REQUEST_JOIN mod 32768))"
  by (simp_all add: GAME_CLIENT_FORMATS_def nth_append GAME_CLIENT_FORMATS_150_def packet_defs
      accepts_simps entry_defs sent_defs opcode_defs)

lemma accept_game_client_150_12:
  "conforms GameSrv_PS_RequestReply_packet
    (GAME_CLIENT_FORMATS !
    (GAME_CMSG_PARTY_SEARCH_REQUEST_REPLY mod 32768))"
  "conforms GameSrv_PS_ChangeType_packet
    (GAME_CLIENT_FORMATS !
    (GAME_CMSG_PARTY_SEARCH_TYPE mod 32768))"
  by (simp_all add: GAME_CLIENT_FORMATS_def nth_append GAME_CLIENT_FORMATS_150_def packet_defs
      accepts_simps entry_defs sent_defs opcode_defs)

lemma accept_game_client_50:
  "conforms GameSrv_MoveToCoord_packet (GAME_CLIENT_FORMATS ! (GAME_CMSG_MOVE_TO_COORD mod 32768))"
  "conforms GameSrv_InteractLiving_packet
    (GAME_CLIENT_FORMATS !
    (GAME_CMSG_INTERACT_LIVING mod 32768))"
  "conforms GameSrv_InteractGadget_packet
    (GAME_CLIENT_FORMATS !
    (GAME_CMSG_INTERACT_GADGET mod 32768))"
  "conforms GameSrv_RotateToAngle_packet
    (GAME_CLIENT_FORMATS !
    (GAME_CMSG_ROTATE_PLAYER mod 32768))"
  "conforms GameSrv_SendChat_packet (GAME_CLIENT_FORMATS ! (GAME_CMSG_SEND_CHAT_MESSAGE mod 32768))"
  "conforms GameSrv_SendWhisper_packet
    (GAME_CLIENT_FORMATS !
    (GAME_CMSG_SEND_CHAT_MESSAGE mod 32768))"
  "conforms GameSrv_SkipCinematic_packet
    (GAME_CLIENT_FORMATS !
    (GAME_CMSG_SKIP_CINEMATIC mod 32768))"
  "conforms GameSrv_SendDialog_packet (GAME_CLIENT_FORMATS ! (GAME_CMSG_SEND_DIALOG mod 32768))"
  "conforms GameSrv_InteractItem_packet (GAME_CLIENT_FORMATS ! (GAME_CMSG_INTERACT_ITEM mod 32768))"
  "conforms GameSrv_UnequipItem_packet (GAME_CLIENT_FORMATS ! (GAME_CMSG_UNEQUIP_ITEM mod 32768))"
  "conforms GameSrv_TransactItems_packet
    (GAME_CLIENT_FORMATS !
    (GAME_CMSG_TRANSACT_ITEMS mod 32768))"
  "conforms GameSrv_BuyMaterials_packet (GAME_CLIENT_FORMATS ! (GAME_CMSG_BUY_MATERIALS mod 32768))"
  by (simp_all add: GAME_CLIENT_FORMATS_def nth_append GAME_CLIENT_FORMATS_50_def packet_defs
      accepts_simps entry_defs sent_defs opcode_defs)

lemma accept_game_client_50_12:
  "conforms GameSrv_RequestQuote_packet (GAME_CLIENT_FORMATS ! (GAME_CMSG_REQUEST_QUOTE mod 32768))"
  "conforms GameSrv_DonateFaction_packet
    (GAME_CLIENT_FORMATS !
    (GAME_CMSG_DEPOSIT_FACTION mod 32768))"
  "conforms GameSrv_UseSkill_packet (GAME_CLIENT_FORMATS ! (GAME_CMSG_USE_SKILL mod 32768))"
  "conforms GameSrv_LoadSkills_packet (GAME_CLIENT_FORMATS ! (GAME_CMSG_SKILLBAR_LOAD mod 32768))"
  "conforms GameSrv_ChangeSecondary_packet
    (GAME_CLIENT_FORMATS !
    (GAME_CMSG_CHANGE_SECOND_PROFESSION mod 32768))"
  "conforms GameSrv_TradeInitiate_packet
    (GAME_CLIENT_FORMATS !
    (GAME_CMSG_TRADE_INITIATE mod 32768))"
  by (simp_all add: GAME_CLIENT_FORMATS_def nth_append GAME_CLIENT_FORMATS_50_def packet_defs
      accepts_simps entry_defs sent_defs opcode_defs)

lemma accept_game_server_0:
  "accepts HandlePingRequest_entry (GAME_SERVER_FORMATS ! GAME_SMSG_PING_REQUEST)"
  "accepts HandlePingReply_entry (GAME_SERVER_FORMATS ! GAME_SMSG_PING_REPLY)"
  "accepts HandleFriendListMessage_entry (GAME_SERVER_FORMATS ! GAME_SMSG_FRIENDLIST_MESSAGE)"
  "accepts HandleAgentMovementTick_entry (GAME_SERVER_FORMATS ! GAME_SMSG_AGENT_MOVEMENT_TICK)"
  "accepts HandleAgentInstanceTimer_entry (GAME_SERVER_FORMATS ! GAME_SMSG_AGENT_INSTANCE_TIMER)"
  "accepts HandleAgentSpawned_entry (GAME_SERVER_FORMATS ! GAME_SMSG_AGENT_SPAWNED)"
  "accepts HandleAgentDespawned_entry (GAME_SERVER_FORMATS ! GAME_SMSG_AGENT_DESPAWNED)"
  "accepts HandleAgentSetPlayer_entry (GAME_SERVER_FORMATS ! GAME_SMSG_AGENT_SET_PLAYER)"
  "accepts HandleAgentUpdateDirection_entry
    (GAME_SERVER_FORMATS ! GAME_SMSG_AGENT_UPDATE_DIRECTION)"
  "accepts HandleAgentUpdateSpeedBase_entry
    (GAME_SERVER_FORMATS ! GAME_SMSG_AGENT_UPDATE_SPEED_BASE)"
  "accepts HandleAgentStopMoving_entry (GAME_SERVER_FORMATS ! GAME_SMSG_AGENT_STOP_MOVING)"
  "accepts HandleAgentMoveToPoint_entry (GAME_SERVER_FORMATS ! GAME_SMSG_AGENT_MOVE_TO_POINT)"
  by (simp_all add: GAME_SERVER_FORMATS_def nth_append GAME_SERVER_FORMATS_0_def packet_defs
      accepts_simps entry_defs sent_defs opcode_defs)

lemma accept_game_server_0_12:
  "accepts HandleAgentUpdateSpeedModifier_entry
    (GAME_SERVER_FORMATS ! GAME_SMSG_AGENT_UPDATE_SPEED)"
  "accepts HandleAgentUpdatePosition_entry (GAME_SERVER_FORMATS ! GAME_SMSG_AGENT_UPDATE_POSITION)"
  "accepts HandleAgentUpdateRotation_entry (GAME_SERVER_FORMATS ! GAME_SMSG_AGENT_UPDATE_ROTATION)"
  "accepts HandleAgentUpdateDestination_entry
    (GAME_SERVER_FORMATS ! GAME_SMSG_AGENT_UPDATE_DESTINATION)"
  "accepts HandleTradeRequest_entry (GAME_SERVER_FORMATS ! GAME_SMSG_TRADE_REQUEST)"
  "accepts HandleTradeTerminate_entry (GAME_SERVER_FORMATS ! GAME_SMSG_TRADE_TERMINATE)"
  "\<not> accepts HandleTradeOfferedCount_entry
    (GAME_SERVER_FORMATS ! GAME_SMSG_TRADE_OFFERED_COUNT)"
  "accepts HandleTradeReceiveOffer_entry (GAME_SERVER_FORMATS ! GAME_SMSG_TRADE_RECEIVE_OFFER)"
  "accepts HandleTradeAddItem_entry (GAME_SERVER_FORMATS ! GAME_SMSG_TRADE_ADD_ITEM)"
  "accepts HandleTradeAcknowledge_entry (GAME_SERVER_FORMATS ! GAME_SMSG_TRADE_ACKNOWLEDGE)"
  "accepts HandleTradeAccept_entry (GAME_SERVER_FORMATS ! GAME_SMSG_TRADE_ACCEPT)"
  "accepts HandleTradeChangeOffer_entry (GAME_SERVER_FORMATS ! GAME_SMSG_TRADE_CHANGE_OFFER)"
  by (simp_all add: GAME_SERVER_FORMATS_def nth_append GAME_SERVER_FORMATS_0_def packet_defs
      accepts_simps entry_defs sent_defs opcode_defs)

lemma accept_game_server_100:
  "accepts HandleWindowItemStreamEnd_entry (GAME_SERVER_FORMATS ! GAME_SMSG_WINDOW_ITEM_STREAM_END)"
  "accepts HandleWindowAddItems_entry (GAME_SERVER_FORMATS ! GAME_SMSG_WINDOW_ADD_ITEMS)"
  "accepts HandlePlayerUnlockedAreas_entry (GAME_SERVER_FORMATS ! GAME_SMSG_MAPS_UNLOCKED)"
  "accepts HandleHeroSkillStatusBitmap_entry
    (GAME_SERVER_FORMATS ! GAME_SMSG_HERO_SKILL_STATUS_BITMAP)"
  "accepts HandleDialogButton_entry (GAME_SERVER_FORMATS ! GAME_SMSG_DIALOG_BUTTON)"
  "accepts HandleDialogBody_entry (GAME_SERVER_FORMATS ! GAME_SMSG_DIALOG_BODY)"
  "accepts HandleDialogSender_entry (GAME_SERVER_FORMATS ! GAME_SMSG_DIALOG_SENDER)"
  by (simp_all add: GAME_SERVER_FORMATS_def nth_append GAME_SERVER_FORMATS_100_def packet_defs
      accepts_simps entry_defs sent_defs opcode_defs)

lemma accept_game_server_150:
  "accepts HandleWindowMerchant_entry (GAME_SERVER_FORMATS ! GAME_SMSG_WINDOW_MERCHANT)"
  "accepts HandleWindowOwner_entry (GAME_SERVER_FORMATS ! GAME_SMSG_WINDOW_OWNER)"
  "accepts HandleAgentCreateNPC_entry (GAME_SERVER_FORMATS ! GAME_SMSG_AGENT_CREATE_NPC)"
  "accepts HandlePlayerUnlockedProfession_entry
    (GAME_SERVER_FORMATS ! GAME_SMSG_PLAYER_UNLOCKED_PROFESSION)"
  "accepts HandlePlayerUpdateProfession_entry
    (GAME_SERVER_FORMATS ! GAME_SMSG_PLAYER_UPDATE_PROFESSION)"
  "accepts HandleAgentUpdateNpcName_entry (GAME_SERVER_FORMATS ! GAME_SMSG_AGENT_UPDATE_NPC_NAME)"
  "accepts HandleAgentAttrUpdateInt_entry (GAME_SERVER_FORMATS ! GAME_SMSG_AGENT_ATTR_UPDATE_INT)"
  "accepts HandleAgentAttrUpdateIntTarget_entry
    (GAME_SERVER_FORMATS ! GAME_SMSG_AGENT_ATTR_UPDATE_INT_TARGET)"
  "accepts HandleAgentAttrUpdateFloat_entry
    (GAME_SERVER_FORMATS ! GAME_SMSG_AGENT_ATTR_UPDATE_FLOAT)"
  "accepts HandleAgentAttrUpdateFloatTarget_entry
    (GAME_SERVER_FORMATS ! GAME_SMSG_AGENT_ATTR_UPDATE_FLOAT_TARGET)"
  "accepts HandleAgentUpdateProfession_entry
    (GAME_SERVER_FORMATS ! GAME_SMSG_AGENT_UPDATE_PROFESSION)"
  "accepts HandleMissionAddGoal_entry (GAME_SERVER_FORMATS ! GAME_SMSG_MISSION_INFOBOX_ADD)"
  by (simp_all add: GAME_SERVER_FORMATS_def nth_append GAME_SERVER_FORMATS_150_def packet_defs
      accepts_simps entry_defs sent_defs opcode_defs)

lemma accept_game_server_150_12:
  "accepts HandleMissionAddObjective_entry (GAME_SERVER_FORMATS ! GAME_SMSG_MISSION_OBJECTIVE_ADD)"
  by (simp_all add: GAME_SERVER_FORMATS_def nth_append GAME_SERVER_FORMATS_150_def packet_defs
      accepts_simps entry_defs sent_defs opcode_defs)

lemma accept_game_server_200:
  "accepts HandleInstanceLoaded_entry (GAME_SERVER_FORMATS ! GAME_SMSG_INSTANCE_LOADED)"
  "accepts HandleItemPriceQuote_entry (GAME_SERVER_FORMATS ! GAME_SMSG_ITEM_PRICE_QUOTE)"
  "accepts HandleWindowAddPrices_entry (GAME_SERVER_FORMATS ! GAME_SMSG_ITEM_PRICES)"
  "accepts HandleAgentUpdateEffects_entry (GAME_SERVER_FORMATS ! GAME_SMSG_AGENT_UPDATE_EFFECTS)"
  "accepts HandlePlayerUpdateFactions_entry
    (GAME_SERVER_FORMATS ! GAME_SMSG_PLAYER_UPDATE_FACTIONS)"
  "accepts HandlePlayerFactionMaxKurzick_entry
    (GAME_SERVER_FORMATS ! GAME_SMSG_PLAYER_FACTION_MAX_KURZICK)"
  "accepts HandlePlayerFactionMaxLuxon_entry
    (GAME_SERVER_FORMATS ! GAME_SMSG_PLAYER_FACTION_MAX_LUXON)"
  "accepts HandlePlayerFactionMaxBalthazar_entry
    (GAME_SERVER_FORMATS ! GAME_SMSG_PLAYER_FACTION_MAX_BALTHAZAR)"
  "accepts HandlePlayerFactionMaxImperial_entry
    (GAME_SERVER_FORMATS ! GAME_SMSG_PLAYER_FACTION_MAX_IMPERIAL)"
  "accepts HandlePlayerFactionUpdate_entry (GAME_SERVER_FORMATS ! GAME_SMSG_PLAYER_FACTION_UPDATE)"
  "accepts HandleSkillbarUpdateSkill_entry (GAME_SERVER_FORMATS ! GAME_SMSG_SKILLBAR_UPDATE_SKILL)"
  "accepts HandleSkillbarUpdate_entry (GAME_SERVER_FORMATS ! GAME_SMSG_SKILLBAR_UPDATE)"
  by (simp_all add: GAME_SERVER_FORMATS_def nth_append GAME_SERVER_FORMATS_200_def packet_defs
      accepts_simps entry_defs sent_defs opcode_defs)

lemma accept_game_server_200_12:
  "\<not> accepts HandleSkillAddToWindowsData_entry
    (GAME_SERVER_FORMATS ! GAME_SMSG_SKILL_ADD_TO_WINDOWS_DATA)"
  "\<not> accepts HandleSkillAddToWindowsEnd_entry
    (GAME_SERVER_FORMATS ! GAME_SMSG_SKILL_ADD_TO_WINDOWS_END)"
  "accepts HandleSkillActivated_entry (GAME_SERVER_FORMATS ! GAME_SMSG_SKILL_ACTIVATED)"
  "accepts HandleSkillActivate_entry (GAME_SERVER_FORMATS ! GAME_SMSG_SKILL_ACTIVATE)"
  "accepts HandleSkillRecharge_entry (GAME_SERVER_FORMATS ! GAME_SMSG_SKILL_RECHARGE)"
  "accepts HandleSkillRecharged_entry (GAME_SERVER_FORMATS ! GAME_SMSG_SKILL_RECHARGED)"
  "accepts HandleTitleRankData_entry (GAME_SERVER_FORMATS ! GAME_SMSG_TITLE_RANK_DATA)"
  "accepts HandleTitleRankDisplay_entry (GAME_SERVER_FORMATS ! GAME_SMSG_TITLE_RANK_DISPLAY)"
  "accepts HandleTitleTrackInfo_entry (GAME_SERVER_FORMATS ! GAME_SMSG_TITLE_TRACK_INFO)"
  by (simp_all add: GAME_SERVER_FORMATS_def nth_append GAME_SERVER_FORMATS_200_def packet_defs
      accepts_simps entry_defs sent_defs opcode_defs)

lemma accept_game_server_250:
  "accepts HandleCinematicStart_entry (GAME_SERVER_FORMATS ! GAME_SMSG_CINEMATIC_START)"
  "accepts HandleCinematicData_entry (GAME_SERVER_FORMATS ! GAME_SMSG_CINEMATIC_DATA)"
  "accepts HandleCinematicDataEnd_entry (GAME_SERVER_FORMATS ! GAME_SMSG_CINEMATIC_DATA_END)"
  "accepts HandleCinematicEnd_entry (GAME_SERVER_FORMATS ! GAME_SMSG_CINEMATIC_END)"
  "accepts HandleGuildPlayerRole_entry (GAME_SERVER_FORMATS ! GAME_SMSG_GUILD_PLAYER_ROLE)"
  "accepts HandleGuildPlayerInfo_entry (GAME_SERVER_FORMATS ! GAME_SMSG_GUILD_PLAYER_INFO)"
  "accepts HandleGuildGeneralInfo_entry (GAME_SERVER_FORMATS ! GAME_SMSG_GUILD_GENERAL_INFO)"
  "accepts HandleGuildChangeFaction_entry (GAME_SERVER_FORMATS ! GAME_SMSG_GUILD_CHANGE_FACTION)"
  "accepts HandleGuildInviteReceived_entry (GAME_SERVER_FORMATS ! GAME_SMSG_GUILD_INVITE_RECEIVED)"
  "accepts HandleGuildPlayerChangeComplete_entry
    (GAME_SERVER_FORMATS ! GAME_SMSG_GUILD_PLAYER_CHANGE_COMPLETE)"
  "accepts HandleGuildChangePlayerContext_entry
    (GAME_SERVER_FORMATS ! GAME_SMSG_GUILD_CHANGE_PLAYER_CONTEXT)"
  "accepts HandleGuildChangePlayerStatus_entry
    (GAME_SERVER_FORMATS ! GAME_SMSG_GUILD_CHANGE_PLAYER_STATUS)"
  by (simp_all add: GAME_SERVER_FORMATS_def nth_append GAME_SERVER_FORMATS_250_def packet_defs
      accepts_simps entry_defs sent_defs opcode_defs)

lemma accept_game_server_300:
  "accepts HandleGoldCharacterAdd_entry (GAME_SERVER_FORMATS ! GAME_SMSG_UPDATE_GOLD_CHARACTER)"
  "accepts HandleGoldStorageAdd_entry (GAME_SERVER_FORMATS ! GAME_SMSG_UPDATE_GOLD_STORAGE)"
  "accepts HandleGoldCharacterRemove_entry (GAME_SERVER_FORMATS ! GAME_SMSG_GOLD_CHARACTER_REMOVE)"
  "accepts HandleGoldStorageRemove_entry (GAME_SERVER_FORMATS ! GAME_SMSG_GOLD_STORAGE_REMOVE)"
  "accepts HandleInventoryItemQuantity_entry (GAME_SERVER_FORMATS ! GAME_SMSG_ITEM_UPDATE_QUANTITY)"
  "accepts HandleInventoryItemLocation_entry
    (GAME_SERVER_FORMATS ! GAME_SMSG_ITEM_MOVED_TO_LOCATION)"
  "accepts HandleInventoryCreateBag_entry (GAME_SERVER_FORMATS ! GAME_SMSG_INVENTORY_CREATE_BAG)"
  "accepts HandleItemStreamCreate_entry (GAME_SERVER_FORMATS ! GAME_SMSG_ITEM_STREAM_CREATE)"
  "accepts HandleItemStreamDestroy_entry (GAME_SERVER_FORMATS ! GAME_SMSG_ITEM_STREAM_DESTROY)"
  "accepts HandleItemWeaponSet_entry (GAME_SERVER_FORMATS ! GAME_SMSG_ITEM_WEAPON_SET)"
  "accepts HandleUpdateActiveWeaponSet_entry
    (GAME_SERVER_FORMATS ! GAME_SMSG_ITEM_SET_ACTIVE_WEAPON_SET)"
  "accepts HandleItemChangeLocation_entry (GAME_SERVER_FORMATS ! GAME_SMSG_ITEM_CHANGE_LOCATION)"
  by (simp_all add: GAME_SERVER_FORMATS_def nth_append GAME_SERVER_FORMATS_300_def packet_defs
      accepts_simps entry_defs sent_defs opcode_defs)

lemma accept_game_server_300_12:
  "accepts HandleItemRemove_entry (GAME_SERVER_FORMATS ! GAME_SMSG_ITEM_REMOVE)"
  "accepts HandleGuildChangePlayerType_entry
    (GAME_SERVER_FORMATS ! GAME_SMSG_GUILD_CHANGE_PLAYER_TYPE)"
  by (simp_all add: GAME_SERVER_FORMATS_def nth_append GAME_SERVER_FORMATS_300_def packet_defs
      accepts_simps entry_defs sent_defs opcode_defs)

lemma accept_game_server_350:
  "accepts HandleInstanceShowWin_entry (GAME_SERVER_FORMATS ! GAME_SMSG_INSTANCE_SHOW_WIN)"
  "accepts HandleInstanceLoadHead_entry (GAME_SERVER_FORMATS ! GAME_SMSG_INSTANCE_LOAD_HEAD)"
  "accepts HandleInstanceCountdownStop_entry
    (GAME_SERVER_FORMATS ! GAME_SMSG_INSTANCE_COUNTDOWN_STOP)"
  "accepts HandleInstanceCountdown_entry (GAME_SERVER_FORMATS ! GAME_SMSG_INSTANCE_COUNTDOWN)"
  "accepts HandleInstanceLoadPlayerName_entry
    (GAME_SERVER_FORMATS ! GAME_SMSG_INSTANCE_LOAD_PLAYER_NAME)"
  "accepts HandleInstanceLoadFinish_entry (GAME_SERVER_FORMATS ! GAME_SMSG_INSTANCE_LOAD_FINISH)"
  "accepts HandleItemGeneralInfo_entry (GAME_SERVER_FORMATS ! GAME_SMSG_ITEM_GENERAL_INFO)"
  "accepts HandleSalvageSessionStart_entry
    (GAME_SERVER_FORMATS ! GAME_SMSG_ITEM_SALVAGE_SESSION_START)"
  "accepts HandleSalvageSessionCancel_entry
    (GAME_SERVER_FORMATS ! GAME_SMSG_ITEM_SALVAGE_SESSION_CANCEL)"
  "accepts HandleSalvageSessionDone_entry
    (GAME_SERVER_FORMATS ! GAME_SMSG_ITEM_SALVAGE_SESSION_DONE)"
  "accepts HandleSalvageSessionSuccess_entry
    (GAME_SERVER_FORMATS ! GAME_SMSG_ITEM_SALVAGE_SESSION_SUCCESS)"
  "accepts HandleSalvageSessionItemKept_entry
    (GAME_SERVER_FORMATS ! GAME_SMSG_ITEM_SALVAGE_SESSION_ITEM_KEPT)"
  by (simp_all add: GAME_SERVER_FORMATS_def nth_append GAME_SERVER_FORMATS_350_def packet_defs
      accepts_simps entry_defs sent_defs opcode_defs)

lemma accept_game_server_400:
  "accepts HandleInstanceLoadSpawnPoint_entry
    (GAME_SERVER_FORMATS ! GAME_SMSG_INSTANCE_LOAD_SPAWN_POINT)"
  "accepts HandleInstanceLoadInfo_entry (GAME_SERVER_FORMATS ! GAME_SMSG_INSTANCE_LOAD_INFO)"
  "accepts HandleGameTransferInfo_entry (GAME_SERVER_FORMATS ! GAME_SMSG_TRANSFER_GAME_SERVER_INFO)"
  "accepts HandleReadyForMapSpawn_entry (GAME_SERVER_FORMATS ! GAME_SMSG_READY_FOR_MAP_SPAWN)"
  "accepts HandleCantEnterOutpost_entry (GAME_SERVER_FORMATS ! GAME_SMSG_INSTANCE_CANT_ENTER)"
  "accepts HandleInstanceTravelTimer_entry (GAME_SERVER_FORMATS ! GAME_SMSG_INSTANCE_TRAVEL_TIMER)"
  "accepts HandleInstanceRedirect_entry (GAME_SERVER_FORMATS ! GAME_SMSG_INSTANCE_REDIRECT)"
  "accepts HandlePartySetDifficulty_entry (GAME_SERVER_FORMATS ! GAME_SMSG_PARTY_SET_DIFFICULTY)"
  "accepts HandlePartyHeroAdd_entry (GAME_SERVER_FORMATS ! GAME_SMSG_PARTY_HERO_ADD)"
  by (simp_all add: GAME_SERVER_FORMATS_def nth_append GAME_SERVER_FORMATS_400_def packet_defs
      accepts_simps entry_defs sent_defs opcode_defs)

lemma accept_game_server_450:
  "accepts HandlePartyHeroRemove_entry (GAME_SERVER_FORMATS ! GAME_SMSG_PARTY_HERO_REMOVE)"
  "accepts HandlePartyInviteAdd_entry (GAME_SERVER_FORMATS ! GAME_SMSG_PARTY_INVITE_ADD)"
  "accepts HandlePartyJoinRequest_entry (GAME_SERVER_FORMATS ! GAME_SMSG_PARTY_JOIN_REQUEST)"
  "\<not> accepts HandlePartyInviteCancel_entry
    (GAME_SERVER_FORMATS ! GAME_SMSG_PARTY_INVITE_CANCEL)"
  "accepts HandlePartyRequestCancel_entry (GAME_SERVER_FORMATS ! GAME_SMSG_PARTY_REQUEST_CANCEL)"
  "accepts HandlePartyYouAreLeader_entry (GAME_SERVER_FORMATS ! GAME_SMSG_PARTY_YOU_ARE_LEADER)"
  "accepts HandlePartyPlayerAdd_entry (GAME_SERVER_FORMATS ! GAME_SMSG_PARTY_PLAYER_ADD)"
  "accepts HandlePartyPlayerRemove_entry (GAME_SERVER_FORMATS ! GAME_SMSG_PARTY_PLAYER_REMOVE)"
  "accepts HandlePartyPlayerReady_entry (GAME_SERVER_FORMATS ! GAME_SMSG_PARTY_PLAYER_READY)"
  "accepts HandlePartyCreate_entry (GAME_SERVER_FORMATS ! GAME_SMSG_PARTY_CREATE)"
  "accepts HandlePartyMemberStreamEnd_entry
    (GAME_SERVER_FORMATS ! GAME_SMSG_PARTY_MEMBER_STREAM_END)"
  "accepts HandlePartyDefeated_entry (GAME_SERVER_FORMATS ! GAME_SMSG_PARTY_DEFEATED)"
  by (simp_all add: GAME_SERVER_FORMATS_def nth_append GAME_SERVER_FORMATS_450_def packet_defs
      accepts_simps entry_defs sent_defs opcode_defs)

lemma accept_game_server_450_12:
  "accepts HandlePartySearchRequestJoin_entry
    (GAME_SERVER_FORMATS ! GAME_SMSG_PARTY_SEARCH_REQUEST_JOIN)"
  "accepts HandlePartySearchRequestDone_entry
    (GAME_SERVER_FORMATS ! GAME_SMSG_PARTY_SEARCH_REQUEST_DONE)"
  "accepts HandlePartySearchAdvertisement_entry
    (GAME_SERVER_FORMATS ! GAME_SMSG_PARTY_SEARCH_ADVERTISEMENT)"
  "accepts HandlePartySearchSeek_entry (GAME_SERVER_FORMATS ! GAME_SMSG_PARTY_SEARCH_SEEK)"
  "accepts HandlePartySearchRemove_entry (GAME_SERVER_FORMATS ! GAME_SMSG_PARTY_SEARCH_REMOVE)"
  "accepts HandlePartySearchSize_entry (GAME_SERVER_FORMATS ! GAME_SMSG_PARTY_SEARCH_SIZE)"
  "accepts HandlePartySearchType_entry (GAME_SERVER_FORMATS ! GAME_SMSG_PARTY_SEARCH_TYPE)"
  by (simp_all add: GAME_SERVER_FORMATS_def nth_append GAME_SERVER_FORMATS_450_def packet_defs
      accepts_simps entry_defs sent_defs opcode_defs)

lemma accept_game_server_50:
  "accepts HandleUpdatePlayerInfo_entry (GAME_SERVER_FORMATS ! GAME_SMSG_UPDATE_PLAYER_INFO)"
  "accepts HandleAgentDestroyPlayer_entry (GAME_SERVER_FORMATS ! GAME_SMSG_AGENT_DESTROY_PLAYER)"
  "accepts HandleAgentPingeg_entry (GAME_SERVER_FORMATS ! GAME_SMSG_AGENT_PINGED)"
  "accepts HandleNPCUpdateProperties_entry (GAME_SERVER_FORMATS ! GAME_SMSG_NPC_UPDATE_PROPERTIES)"
  "accepts HandleNPCUpdateModel_entry (GAME_SERVER_FORMATS ! GAME_SMSG_NPC_UPDATE_MODEL)"
  "accepts HandleChatMessageCore_entry (GAME_SERVER_FORMATS ! GAME_SMSG_CHAT_MESSAGE_CORE)"
  "accepts HandleChatMessageLocal_entry (GAME_SERVER_FORMATS ! GAME_SMSG_CHAT_MESSAGE_LOCAL)"
  "accepts HandleChatMessageGlobal_entry (GAME_SERVER_FORMATS ! GAME_SMSG_CHAT_MESSAGE_GLOBAL)"
  "accepts HandleChatMessageServer_entry (GAME_SERVER_FORMATS ! GAME_SMSG_CHAT_MESSAGE_SERVER)"
  "accepts HandleHeroBehavior_entry (GAME_SERVER_FORMATS ! GAME_SMSG_HERO_BEHAVIOR)"
  "accepts HandleHeroSkillStatus_entry (GAME_SERVER_FORMATS ! GAME_SMSG_HERO_SKILL_STATUS)"
  "accepts HandleAgentUpdateAttributes_entry
    (GAME_SERVER_FORMATS ! GAME_SMSG_AGENT_UPDATE_ATTRIBUTES)"
  by (simp_all add: GAME_SERVER_FORMATS_def nth_append GAME_SERVER_FORMATS_50_def packet_defs
      accepts_simps entry_defs sent_defs opcode_defs)

lemma accept_game_server_50_12:
  "accepts HandleQuestDescription_entry (GAME_SERVER_FORMATS ! GAME_SMSG_QUEST_DESCRIPTION)"
  "accepts HandleQuestGeneralInfo_entry (GAME_SERVER_FORMATS ! GAME_SMSG_QUEST_GENERAL_INFO)"
  "accepts HandleQuestUpdateMarker_entry (GAME_SERVER_FORMATS ! GAME_SMSG_QUEST_UPDATE_MARKER)"
  "accepts HandleQuestRemove_entry (GAME_SERVER_FORMATS ! GAME_SMSG_QUEST_REMOVE)"
  "accepts HandleEffectUpkeepAdded_entry (GAME_SERVER_FORMATS ! GAME_SMSG_EFFECT_UPKEEP_ADDED)"
  "accepts HandleEffectUpkeepRemoved_entry (GAME_SERVER_FORMATS ! GAME_SMSG_EFFECT_UPKEEP_REMOVED)"
  "accepts HandleEffectUpkeepApplied_entry (GAME_SERVER_FORMATS ! GAME_SMSG_EFFECT_UPKEEP_APPLIED)"
  "accepts HandleEffectApplied_entry (GAME_SERVER_FORMATS ! GAME_SMSG_EFFECT_APPLIED)"
  "accepts HandleEffectRenewed_entry (GAME_SERVER_FORMATS ! GAME_SMSG_EFFECT_RENEWED)"
  "accepts HandleEffectRemoved_entry (GAME_SERVER_FORMATS ! GAME_SMSG_EFFECT_REMOVED)"
  by (simp_all add: GAME_SERVER_FORMATS_def nth_append GAME_SERVER_FORMATS_50_def packet_defs
      accepts_simps entry_defs sent_defs opcode_defs)

lemmas accept_lemmas =
  accept_auth_client_0 accept_auth_client_50 accept_auth_server_0 accept_game_client_0
  accept_game_client_0_12 accept_game_client_100 accept_game_client_150 accept_game_client_150_12
  accept_game_client_50 accept_game_client_50_12 accept_game_server_0 accept_game_server_0_12
  accept_game_server_100 accept_game_server_150 accept_game_server_150_12 accept_game_server_200
  accept_game_server_200_12 accept_game_server_250 accept_game_server_300 accept_game_server_300_12
  accept_game_server_350 accept_game_server_400 accept_game_server_450 accept_game_server_450_12
  accept_game_server_50 accept_game_server_50_12

lemma refused:
  "handler_entered HandleTradeOfferedCount_entry GAME_SMSG_TRADE_OFFERED_COUNT
    (mf_unpack_size (GAME_SERVER_FORMATS ! GAME_SMSG_TRADE_OFFERED_COUNT)) = Inl AssertFail"
  "handler_entered HandleSkillAddToWindowsData_entry GAME_SMSG_SKILL_ADD_TO_WINDOWS_DATA
    (mf_unpack_size (GAME_SERVER_FORMATS ! GAME_SMSG_SKILL_ADD_TO_WINDOWS_DATA)) = Inl AssertFail"
  "handler_entered HandleSkillAddToWindowsEnd_entry GAME_SMSG_SKILL_ADD_TO_WINDOWS_END
    (mf_unpack_size (GAME_SERVER_FORMATS ! GAME_SMSG_SKILL_ADD_TO_WINDOWS_END)) = Inl AssertFail"
  "handler_entered HandlePartyInviteCancel_entry GAME_SMSG_PARTY_INVITE_CANCEL
    (mf_unpack_size (GAME_SERVER_FORMATS ! GAME_SMSG_PARTY_INVITE_CANCEL)) = Inl AssertFail"
  by (simp_all add: GAME_SERVER_FORMATS_def nth_append GAME_SERVER_FORMATS_0_def GAME_SERVER_FORMATS_200_def
      GAME_SERVER_FORMATS_400_def GAME_SERVER_FORMATS_450_def packet_defs accepts_simps entry_defs opcode_defs)


end
