(* ===== verification/World.thy ===== *)
theory World
  imports Dyn_Array Kstr Uuid Hashing
begin

text \<open>
  The state of the game that the handlers keep, \<^verbatim>\<open>code/client/world.h\<close> and the headers of the
  objects in it, and the functions of \<^verbatim>\<open>code/client/world.c\<close>. Objects of their own allocation
  (items, agents, players) live in heaps; a pointer is an address or null. The pointer to a bag is
  its index in the array of bags, which never grows after \<^verbatim>\<open>init_world\<close>. A \<^verbatim>\<open>float\<close> is
  its bit pattern; its arithmetic is a parameter.
\<close>

section \<open>Heaps\<close>

record 'a heap =
  hp_obj :: "nat \<Rightarrow> 'a option"
  hp_next :: nat

type_synonym ptr = "nat option"

definition empty_heap :: "'a heap" where
  "empty_heap = \<lparr>hp_obj = (\<lambda>_. None), hp_next = 0\<rparr>"

definition deref :: "'a heap \<Rightarrow> ptr \<Rightarrow> fault + 'a" where
  "deref h p = (case p of None \<Rightarrow> Inl NullDeref
     | Some a \<Rightarrow> (case hp_obj h a of None \<Rightarrow> Inl UseAfterFree | Some x \<Rightarrow> Inr x))"

definition store :: "'a heap \<Rightarrow> ptr \<Rightarrow> 'a \<Rightarrow> fault + 'a heap" where
  "store h p x = bindE (deref h p) (\<lambda>_. Inr (h\<lparr>hp_obj := (hp_obj h)(the p \<mapsto> x)\<rparr>))"

definition new_object :: "'a heap \<Rightarrow> 'a \<Rightarrow> ptr \<times> 'a heap" where
  "new_object h x = (Some (hp_next h), h\<lparr>hp_obj := (hp_obj h)(hp_next h \<mapsto> x), hp_next := hp_next h + 1\<rparr>)"

text \<open>\<^verbatim>\<open>free\<close> accepts null; releasing an object twice is a fault.\<close>

definition release :: "'a heap \<Rightarrow> ptr \<Rightarrow> fault + 'a heap" where
  "release h p = (if p = None then Inr h
     else bindE (deref h p) (\<lambda>_. Inr (h\<lparr>hp_obj := (hp_obj h)(the p := None)\<rparr>)))"

section \<open>Objects\<close>

type_synonym f32 = u32
type_synonym vec2f = "f32 \<times> f32"

record bag =
  bag_id :: u16
  bag_item_count :: int
  bag_model :: u8
  bag_type :: u8
  bag_items :: "ptr carray"

record item =
  item_id :: u32
  item_agent_id :: u32
  item_flags :: u32
  item_value :: u32
  item_quantity :: u32
  item_model_id :: u32
  item_name :: kstr
  item_mod_struct :: "u32 carray"
  item_bag :: ptr
  item_type :: u8
  item_slot :: u32
  item_quote_price :: u32

definition BagEnum_Count :: int where
  "BagEnum_Count = 22"

record inventory =
  inv_bags :: "ptr list"
  gold_character :: u32
  gold_storage :: u32

record salvage_session =
  salvage_session_id :: u16
  salvage_is_open :: bool
  salvage_n_upgrades :: u32
  salvage_upgrades :: "ptr list"

text \<open>
  Three members of an agent that nothing reads or writes, the attacked agent, its party and the state
  of its model, are left out.
\<close>

record agent =
  ag_agent_id :: u32
  ag_type :: u8
  ag_spawned :: bool
  ag_npc_id :: u32
  ag_item_id :: u32
  ag_gadget_id :: u32
  ag_player_id :: u32
  ag_effects :: u32
  ag_health :: f32
  ag_energy :: f32
  ag_health_max :: u32
  ag_energy_max :: u32
  ag_health_per_sec :: f32
  ag_energy_per_sec :: f32
  ag_velocity :: vec2f
  ag_rotation :: f32
  ag_speed :: f32
  ag_prof1 :: u8
  ag_prof2 :: u8
  ag_moving :: bool
  ag_maybe_moving :: bool
  ag_speed_base :: f32
  ag_speed_modifier :: f32
  ag_position :: vec2f
  ag_destination :: vec2f
  ag_direction :: vec2f
  ag_level :: u32
  ag_marker :: u32
  ag_casting_skill_id :: u32

record faction_point =
  fp_current :: u32
  fp_max :: u32
  fp_total :: u32

record player_hero =
  ph_imperial :: faction_point
  ph_balthazar :: faction_point
  ph_kurzick :: faction_point
  ph_luxon :: faction_point
  ph_experience :: u32
  ph_level :: u32
  ph_skillpoint_current :: u32
  ph_skillpoint_spent :: u32
  ph_skillpoint_total :: u32
  ph_maps_unlocked :: "u32 carray"

record player =
  pl_player_id :: u32
  pl_agent_id :: u32
  pl_name :: kstr
  pl_guild_id :: u64
  pl_party_id :: u64
  pl_player_hero :: player_hero
  pl_unlocked_profession :: u32

record party_player =
  pp_agent_id :: u32
  pp_player_id :: u32
  pp_ready :: bool
  pp_connected :: bool

record party_hero =
  phero_agent_id :: u32
  phero_owner_id :: u32
  phero_hero_id :: u32
  phero_level :: u32

text \<open>Nothing adds a henchman, so the array of them is left out.\<close>

record party =
  party_id :: u16
  party_player_count :: u64
  party_defeated :: bool
  party_difficulty :: u8
  party_heroes :: "party_hero carray"
  party_players :: "party_player carray"

record effect =
  ef_effect_id :: u32
  ef_skill_id :: u32
  ef_type :: u32
  ef_agent_id :: u32
  ef_duration :: f32
  ef_timestamp :: u64
  ef_remaining :: f32

record title =
  tt_title_id :: u32
  tt_rank_max :: u32
  tt_rank_current :: u32
  tt_points_in_cur_rank :: u32
  tt_points_for_rank_up :: u32

record quest =
  qu_id :: nat
  qu_quest_id :: u32
  qu_map_id :: u32
  qu_status :: u32
  qu_marker_coord :: vec2f
  qu_objective :: "u16 list"

record skill =
  sk_skill_id :: u32
  sk_caster_agent_id :: u32
  sk_target_agent_id :: u32
  sk_disable :: bool
  sk_casting :: bool
  sk_casting_confirmed :: bool
  sk_recharging :: bool

record attribute =
  at_attribute_id :: u32
  at_rank_base :: u32
  at_rank_bonus :: u32

record skillbar =
  sb_owner_agent_id :: u32
  sb_attributes :: "attribute carray"
  sb_prof1 :: u8
  sb_prof2 :: u8
  sb_skills :: "skill list"

record trade_item =
  ti_item_id :: u32
  ti_quantity :: u32

record trade_session =
  tr_trader :: u32
  tr_state :: u32
  tr_request_pending :: bool
  tr_trader_gold :: u32
  tr_player_gold :: u32
  tr_trader_items :: "trade_item carray"
  tr_player_items :: "trade_item carray"

record dialog_button =
  db_dialog_id :: u32
  db_icon_id :: u32

record dialog_info =
  dlg_opened :: bool
  dlg_interact_with :: u32
  dlg_body :: "u16 list"
  dlg_buttons :: "dialog_button carray"

record guild_member =
  gm_last_login_utc :: u64
  gm_status :: u32
  gm_member_type :: u32
  gm_account_name :: kstr
  gm_player_name :: kstr

record guild =
  guild_id :: u32
  guild_uuid :: uuid
  guild_allegiance :: u8
  guild_faction_pts :: u32
  guild_tag :: kstr
  guild_name :: kstr
  guild_members :: "guild_member carray"

record guild_member_update =
  gmu_pending :: bool
  gmu_status :: u32
  gmu_member_type :: u8
  gmu_minutes_since_login :: u32
  gmu_player_name :: kstr

section \<open>The world\<close>

text \<open>The objects behind the pointers of the arrays are in a heap for each of their types.\<close>

record world =
  w_hash :: u32
  w_bags :: "bag carray"
  w_items :: "ptr carray"
  w_item_heap :: "item heap"
  w_item_mod_structs :: "u32 carray"
  w_parties :: "party carray"
  w_guilds :: "guild carray"
  w_quests :: "quest carray"
  w_agents :: "ptr carray"
  w_agent_heap :: "agent heap"
  w_players :: "ptr carray"
  w_player_heap :: "player heap"
  w_effects :: "effect carray"
  w_titles :: "title carray"
  w_inventory :: inventory
  w_skillbars :: "skillbar carray"
  w_guild_member_update :: guild_member_update
  w_tmp_merchant_items :: "ptr carray"
  w_tmp_merchant_prices :: "u32 carray"
  w_merchant_items :: "ptr carray"
  w_merchant_agent_id :: u32
  w_interact_with :: u32
  w_dialog :: dialog_info
  w_trade_session :: trade_session
  w_salvage_session :: salvage_session
  w_player_agent_id :: u32
  w_player_id :: u32
  w_map_id :: u32
  w_district :: u32
  w_language :: u32
  w_player_count :: u64
  w_objective_count :: u64
  w_world_time :: u64
  w_time_server :: u64
  w_load_time :: u64
  w_pvp_timer_start :: u64
  w_pvp_timer_duration :: u64
  w_in_cinematic :: bool
  w_cinematic_skip_count :: u32
  w_cinematic_member_count :: u32

section \<open>Values whose bytes are zero\<close>

definition zero_kstr :: "nat \<Rightarrow> kstr" where
  "zero_kstr n = \<lparr>k_length = 0, k_capacity = 0, k_buffer = replicate n 0\<rparr>"

definition zero_carray :: "'a carray" where
  "zero_carray = \<lparr>arr_capacity = 0, arr_size = 0, arr_data = []\<rparr>"

definition zero_bag :: bag where
  "zero_bag = \<lparr>bag_id = 0, bag_item_count = 0, bag_model = 0, bag_type = 0, bag_items = zero_carray\<rparr>"

definition zero_item :: item where
  "zero_item = \<lparr>item_id = 0, item_agent_id = 0, item_flags = 0, item_value = 0, item_quantity = 0,
     item_model_id = 0, item_name = zero_kstr 8, item_mod_struct = zero_carray, item_bag = None,
     item_type = 0, item_slot = 0, item_quote_price = 0\<rparr>"

definition zero_agent :: agent where
  "zero_agent = \<lparr>ag_agent_id = 0, ag_type = 0, ag_spawned = False, ag_npc_id = 0, ag_item_id = 0,
     ag_gadget_id = 0, ag_player_id = 0, ag_effects = 0, ag_health = 0, ag_energy = 0, ag_health_max = 0,
     ag_energy_max = 0, ag_health_per_sec = 0, ag_energy_per_sec = 0, ag_velocity = (0, 0),
     ag_rotation = 0, ag_speed = 0, ag_prof1 = 0, ag_prof2 = 0, ag_moving = False,
     ag_maybe_moving = False, ag_speed_base = 0, ag_speed_modifier = 0, ag_position = (0, 0),
     ag_destination = (0, 0), ag_direction = (0, 0), ag_level = 0, ag_marker = 0, ag_casting_skill_id = 0\<rparr>"

definition zero_faction_point :: faction_point where
  "zero_faction_point = \<lparr>fp_current = 0, fp_max = 0, fp_total = 0\<rparr>"

definition zero_player_hero :: player_hero where
  "zero_player_hero = \<lparr>ph_imperial = zero_faction_point, ph_balthazar = zero_faction_point,
     ph_kurzick = zero_faction_point, ph_luxon = zero_faction_point, ph_experience = 0, ph_level = 0,
     ph_skillpoint_current = 0, ph_skillpoint_spent = 0, ph_skillpoint_total = 0,
     ph_maps_unlocked = zero_carray\<rparr>"

definition zero_player :: player where
  "zero_player = \<lparr>pl_player_id = 0, pl_agent_id = 0, pl_name = zero_kstr 64, pl_guild_id = 0,
     pl_party_id = 0, pl_player_hero = zero_player_hero, pl_unlocked_profession = 0\<rparr>"

definition zero_party :: party where
  "zero_party = \<lparr>party_id = 0, party_player_count = 0, party_defeated = False, party_difficulty = 0,
     party_heroes = zero_carray, party_players = zero_carray\<rparr>"

definition zero_effect :: effect where
  "zero_effect = \<lparr>ef_effect_id = 0, ef_skill_id = 0, ef_type = 0, ef_agent_id = 0, ef_duration = 0,
     ef_timestamp = 0, ef_remaining = 0\<rparr>"

definition zero_title :: title where
  "zero_title = \<lparr>tt_title_id = 0, tt_rank_max = 0, tt_rank_current = 0, tt_points_in_cur_rank = 0,
     tt_points_for_rank_up = 0\<rparr>"

definition zero_quest :: quest where
  "zero_quest = \<lparr>qu_id = 0, qu_quest_id = 0, qu_map_id = 0, qu_status = 0, qu_marker_coord = (0, 0),
     qu_objective = replicate 128 0\<rparr>"

definition zero_uuid :: uuid where
  "zero_uuid = \<lparr>time_low = 0, time_mid = 0, time_hi_and_version = 0, clock_seq_hi_and_reserved = 0,
     clock_seq_low = 0, node = replicate 6 0\<rparr>"

definition zero_guild :: guild where
  "zero_guild = \<lparr>guild_id = 0, guild_uuid = zero_uuid, guild_allegiance = 0, guild_faction_pts = 0,
     guild_tag = zero_kstr 32, guild_name = zero_kstr 64, guild_members = zero_carray\<rparr>"

definition zero_dialog_info :: dialog_info where
  "zero_dialog_info = \<lparr>dlg_opened = False, dlg_interact_with = 0, dlg_body = replicate 122 0,
     dlg_buttons = zero_carray\<rparr>"

definition zero_trade_session :: trade_session where
  "zero_trade_session = \<lparr>tr_trader = 0, tr_state = 0, tr_request_pending = False, tr_trader_gold = 0,
     tr_player_gold = 0, tr_trader_items = zero_carray, tr_player_items = zero_carray\<rparr>"

definition zero_guild_member_update :: guild_member_update where
  "zero_guild_member_update = \<lparr>gmu_pending = False, gmu_status = 0, gmu_member_type = 0,
     gmu_minutes_since_login = 0, gmu_player_name = zero_kstr 20\<rparr>"

text \<open>The world filled with zeros; the heaps are not part of it.\<close>

definition zero_world :: "item heap \<Rightarrow> agent heap \<Rightarrow> player heap \<Rightarrow> world" where
  "zero_world ih ah ph = \<lparr>w_hash = 0, w_bags = zero_carray, w_items = zero_carray, w_item_heap = ih,
     w_item_mod_structs = zero_carray, w_parties = zero_carray, w_guilds = zero_carray, w_quests = zero_carray, w_agents = zero_carray,
     w_agent_heap = ah, w_players = zero_carray, w_player_heap = ph, w_effects = zero_carray,
     w_titles = zero_carray, w_inventory = \<lparr>inv_bags = replicate (nat BagEnum_Count) None, gold_character = 0, gold_storage = 0\<rparr>,
     w_skillbars = zero_carray, w_guild_member_update = zero_guild_member_update,
     w_tmp_merchant_items = zero_carray, w_tmp_merchant_prices = zero_carray,
     w_merchant_items = zero_carray, w_merchant_agent_id = 0, w_interact_with = 0,
     w_dialog = zero_dialog_info, w_trade_session = zero_trade_session,
     w_salvage_session = \<lparr>salvage_session_id = 0, salvage_is_open = False, salvage_n_upgrades = 0,
       salvage_upgrades = replicate 3 None\<rparr>,
     w_player_agent_id = 0, w_player_id = 0, w_map_id = 0, w_district = 0, w_language = 0,
     w_player_count = 0, w_objective_count = 0, w_world_time = 0, w_time_server = 0, w_load_time = 0, w_pvp_timer_start = 0,
     w_pvp_timer_duration = 0, w_in_cinematic = False, w_cinematic_skip_count = 0,
     w_cinematic_member_count = 0\<rparr>"

section \<open>Sizes of the objects\<close>

text \<open>On the platform of the program, with 8-byte pointers.\<close>

named_theorems struct_sizes \<open>sizes of the structures\<close>

definition sizeof_ptr :: nat where [struct_sizes]: "sizeof_ptr = 8"
definition sizeof_Bag :: nat where [struct_sizes]: "sizeof_Bag = 40"
definition sizeof_Item :: nat where [struct_sizes]: "sizeof_Item = 104"
definition sizeof_Agent :: nat where [struct_sizes]: "sizeof_Agent = 140"
definition sizeof_Player :: nat where [struct_sizes]: "sizeof_Player = 272"
definition sizeof_Party :: nat where [struct_sizes]: "sizeof_Party = 104"
definition sizeof_PartyPlayer :: nat where [struct_sizes]: "sizeof_PartyPlayer = 12"
definition sizeof_PartyHero :: nat where [struct_sizes]: "sizeof_PartyHero = 16"
definition sizeof_Effect :: nat where [struct_sizes]: "sizeof_Effect = 40"
definition sizeof_Quest :: nat where [struct_sizes]: "sizeof_Quest = 288"
definition sizeof_Title :: nat where [struct_sizes]: "sizeof_Title = 20"
definition sizeof_Guild :: nat where [struct_sizes]: "sizeof_Guild = 280"
definition sizeof_GuildMember :: nat where [struct_sizes]: "sizeof_GuildMember = 128"
definition sizeof_Skillbar :: nat where [struct_sizes]: "sizeof_Skillbar = 424"
definition sizeof_Attribute :: nat where [struct_sizes]: "sizeof_Attribute = 12"
definition sizeof_TradeItem :: nat where [struct_sizes]: "sizeof_TradeItem = 8"
definition sizeof_DialogButton :: nat where [struct_sizes]: "sizeof_DialogButton = 8"

section \<open>Creation and release\<close>

text \<open>The flag of an array operation, which these functions ignore.\<close>

definition ignored :: "fault + bool \<times> 'a \<Rightarrow> fault + 'a" where
  "ignored r = bindE r (\<lambda>(_, a). Inr a)"

definition reset_guildmember_update :: "guild_member_update \<Rightarrow> guild_member_update" where
  "reset_guildmember_update gmu = zero_guild_member_update"

definition init_guildmember_update :: "guild_member_update \<Rightarrow> guild_member_update" where
  "init_guildmember_update gmu = reset_guildmember_update
     (zero_guild_member_update\<lparr>gmu_player_name := kstr_init (replicate 20 0) 0 20\<rparr>)"

definition init_world :: "(nat \<Rightarrow> bool) \<Rightarrow> world \<Rightarrow> u32 \<Rightarrow> fault + world" where
  "init_world alloc w0 h =
     (let w = zero_world (w_item_heap w0) (w_agent_heap w0) (w_player_heap w0) in
      bindE (ignored (array_resize alloc None sizeof_ptr (w_agents w) 64)) (\<lambda>agents.
      bindE (ignored (array_resize alloc zero_bag sizeof_Bag (w_bags w) 32)) (\<lambda>bags.
      bindE (ignored (array_resize alloc zero_effect sizeof_Effect (w_effects w) 32)) (\<lambda>effects.
      bindE (ignored (array_resize alloc zero_guild sizeof_Guild (w_guilds w) 32)) (\<lambda>guilds.
      bindE (ignored (array_resize alloc None sizeof_ptr (w_items w) 1024)) (\<lambda>items.
      bindE (ignored (array_resize alloc zero_party sizeof_Party (w_parties w) 8)) (\<lambda>parties.
      bindE (ignored (array_resize alloc None sizeof_ptr (w_players w) 32)) (\<lambda>players.
      bindE (ignored (array_resize alloc zero_quest sizeof_Quest (w_quests w) 32)) (\<lambda>quests.
      bindE (ignored (array_resize alloc zero_title sizeof_Title (w_titles w) 64)) (\<lambda>titles.
        Inr (w\<lparr>w_agents := agents, w_bags := bags, w_effects := effects, w_guilds := guilds,
          w_items := items, w_parties := parties, w_players := players, w_quests := quests, w_titles := titles,
          w_guild_member_update := init_guildmember_update (w_guild_member_update w),
          w_player_count := 0, w_hash := h\<rparr>)))))))))))"

definition free_item :: "ptr \<Rightarrow> item heap \<Rightarrow> fault + item heap" where
  "free_item p h = (if p = None then Inr h
     else bindE (deref h p) (\<lambda>it.
       bindE (store h p (it\<lparr>item_mod_struct := array_reset (item_mod_struct it)\<rparr>)) (\<lambda>h. release h p)))"

fun free_each :: "(ptr \<Rightarrow> 'a heap \<Rightarrow> fault + 'a heap) \<Rightarrow> ptr list \<Rightarrow> 'a heap \<Rightarrow> fault + 'a heap" where
  "free_each f [] h = Inr h"
| "free_each f (p # ps) h = bindE (f p h) (free_each f ps)"

definition foreach :: "'a carray \<Rightarrow> fault + 'a list" where
  "foreach a = mem_read (arr_data a) 0 (arr_size a)"

definition free_dialog_info :: "dialog_info \<Rightarrow> dialog_info" where
  "free_dialog_info d = d\<lparr>dlg_opened := False, dlg_interact_with := 0, dlg_buttons := array_clear (dlg_buttons d)\<rparr>"

definition free_trade_session :: "trade_session \<Rightarrow> trade_session" where
  "free_trade_session t = t\<lparr>tr_trader_items := array_reset (tr_trader_items t),
     tr_player_items := array_reset (tr_player_items t)\<rparr>"

text \<open>The arrays in the bags are reset before the array of the bags is.\<close>

definition free_world :: "world \<Rightarrow> fault + world" where
  "free_world w =
     bindE (foreach (w_items w)) (\<lambda>items.
     bindE (free_each free_item items (w_item_heap w)) (\<lambda>ih.
     bindE (foreach (w_agents w)) (\<lambda>agents.
     bindE (free_each (\<lambda>p h. release h p) agents (w_agent_heap w)) (\<lambda>ah.
     bindE (foreach (w_players w)) (\<lambda>players.
     bindE (free_each (\<lambda>p h. release h p) players (w_player_heap w)) (\<lambda>ph.
     bindE (foreach (w_bags w)) (\<lambda>bags.
       Inr (w\<lparr>w_item_heap := ih, w_agent_heap := ah, w_player_heap := ph,
         w_bags := array_reset (w_bags w), w_items := array_reset (w_items w),
         w_guilds := array_reset (w_guilds w), w_quests := array_reset (w_quests w),
         w_agents := array_reset (w_agents w), w_parties := array_reset (w_parties w),
         w_players := array_reset (w_players w), w_effects := array_reset (w_effects w),
         w_tmp_merchant_items := array_reset (w_tmp_merchant_items w),
         w_tmp_merchant_prices := array_reset (w_tmp_merchant_prices w),
         w_merchant_items := array_reset (w_merchant_items w),
         w_dialog := free_dialog_info (w_dialog w),
         w_trade_session := free_trade_session (w_trade_session w)\<rparr>))))))))"

definition reset_world :: "(nat \<Rightarrow> bool) \<Rightarrow> world \<Rightarrow> fault + world" where
  "reset_world alloc w = bindE (free_world w) (\<lambda>w. init_world alloc w 0)"

end
