(* ===== verification/Items.thy ===== *)
theory Items
  imports World
begin

unbundle bit_operations_syntax

text \<open>
  Items and bags, \<^verbatim>\<open>code/client/item.c\<close>: the functions that change the world, with the members
  of the packet as arguments. The bags are a hash table with repeated hashing in place of a step;
  its search is a loop that need not end, and then the result is \<open>Diverges\<close>.
\<close>

section \<open>Items and bags\<close>

definition item_mod_identifier :: "u32 \<Rightarrow> u32" where
  "item_mod_identifier m = drop_bit 16 m"

definition item_mod_arg1 :: "u32 \<Rightarrow> u32" where
  "item_mod_arg1 m = drop_bit 8 (m AND 0x0000FF00)"

definition item_mod_arg2 :: "u32 \<Rightarrow> u32" where
  "item_mod_arg2 m = m AND 0x000000FF"

text \<open>A signed index is inside when it is not negative and below the size.\<close>

definition inside_signed :: "'a carray \<Rightarrow> int \<Rightarrow> bool" where
  "inside_signed a i \<longleftrightarrow> 0 \<le> i \<and> array_inside a (nat i)"

text \<open>The conversion of a signed number to \<^verbatim>\<open>size_t\<close>.\<close>

definition to_size :: "int \<Rightarrow> nat" where
  "to_size i = nat (i mod 2 ^ 64)"

definition put_bag :: "nat \<Rightarrow> bag \<Rightarrow> world \<Rightarrow> fault + world" where
  "put_bag b x w = bindE (mem_write (arr_data (w_bags w)) b [x]) (\<lambda>d.
     Inr (w\<lparr>w_bags := (w_bags w)\<lparr>arr_data := d\<rparr>\<rparr>))"

definition put_item :: "ptr \<Rightarrow> item \<Rightarrow> world \<Rightarrow> fault + world" where
  "put_item p it w = bindE (store (w_item_heap w) p it) (\<lambda>h. Inr (w\<lparr>w_item_heap := h\<rparr>))"

definition alloc_item :: "(nat \<Rightarrow> bool) \<Rightarrow> item heap \<Rightarrow> ptr \<times> item heap" where
  "alloc_item alloc h = (if alloc sizeof_Item
     then new_object h (zero_item\<lparr>item_mod_struct := array_init\<rparr>) else (None, h))"

definition remove_item_from_bag :: "ptr \<Rightarrow> world \<Rightarrow> fault + world" where
  "remove_item_from_bag p w =
     bindE (deref (w_item_heap w) p) (\<lambda>it.
       case item_bag it of None \<Rightarrow> Inr w
       | Some b \<Rightarrow>
           let slot = unat (item_slot it) in
           bindE (array_at (w_bags w) b) (\<lambda>bag.
           bindE (assertE (array_inside (bag_items bag) slot)) (\<lambda>_.
           bindE (array_at (bag_items bag) slot) (\<lambda>q.
           bindE (assertE (q \<noteq> None)) (\<lambda>_.
           bindE (ignored (array_set (bag_items bag) slot None)) (\<lambda>slots.
           bindE (put_item p (it\<lparr>item_bag := None, item_slot := 0\<rparr>) w) (\<lambda>w.
             put_bag b (bag\<lparr>bag_items := slots, bag_item_count := bag_item_count bag - 1\<rparr>) w)))))))"

definition get_item_safe :: "world \<Rightarrow> u32 \<Rightarrow> fault + ptr" where
  "get_item_safe w ident =
     (if inside_signed (w_items w) (sint ident) then array_at (w_items w) (nat (sint ident))
      else Inr None)"

definition get_bag_safe :: "world \<Rightarrow> nat \<Rightarrow> fault + ptr" where
  "get_bag_safe w n = idx (inv_bags (w_inventory w)) n"

section \<open>The table of the bags\<close>

text \<open>The result of a loop.\<close>

definition returned :: "(fault + 'a) option \<Rightarrow> fault + 'a" where
  "returned r = (case r of None \<Rightarrow> Inl Diverges | Some x \<Rightarrow> x)"

text \<open>
  The identifier in the packet is signed and is promoted, so it is compared as a number; the one
  in the table is unsigned.
\<close>

partial_function (option) find_bag_loop :: "bag carray \<Rightarrow> int \<Rightarrow> u32 \<Rightarrow> (fault + nat) option" where [code]:
  "find_bag_loop bags ident h =
     (let index = unat h mod arr_size bags in
      case array_at bags index of
        Inl e \<Rightarrow> Some (Inl e)
      | Inr bag \<Rightarrow>
          if uint (bag_id bag) = ident then Some (Inr index)
          else if bag_id bag = 0 then Some (Inl AssertFail)
          else find_bag_loop bags ident (hash_int32 h))"

partial_function (option) free_bag_loop :: "bag carray \<Rightarrow> u32 \<Rightarrow> (fault + nat) option" where [code]:
  "free_bag_loop bags h =
     (let index = unat h mod arr_size bags in
      case array_at bags index of
        Inl e \<Rightarrow> Some (Inl e)
      | Inr bag \<Rightarrow> if bag_id bag = 0 then Some (Inr index) else free_bag_loop bags (hash_int32 h))"

text \<open>With no bags the remainder is a division by zero, which ends the program as a failed assertion does.\<close>

definition find_bag :: "bag carray \<Rightarrow> u16 \<Rightarrow> fault + nat" where
  "find_bag bags ident = bindE (assertE (arr_size bags \<noteq> 0)) (\<lambda>_.
     returned (find_bag_loop bags (sint ident) (hash_int32 (scast ident))))"

definition free_bag :: "bag carray \<Rightarrow> u16 \<Rightarrow> fault + nat" where
  "free_bag bags ident = bindE (assertE (arr_size bags \<noteq> 0)) (\<lambda>_.
     returned (free_bag_loop bags (hash_int32 (scast ident))))"

section \<open>Messages about items\<close>

definition item_general_info ::
    "(nat \<Rightarrow> bool) \<Rightarrow> u32 \<Rightarrow> u8 \<Rightarrow> u32 \<Rightarrow> u32 \<Rightarrow> u32 \<Rightarrow> u32 \<Rightarrow> u16 list \<Rightarrow> u32 list \<Rightarrow> nat \<Rightarrow> world \<Rightarrow> fault + world" where
  "item_general_info alloc ident type flags value model quantity name modifier n_modifier w =
     bindE (if inside_signed (w_items w) (sint ident) then Inr (w_items w)
            else bindE (ignored (array_resize alloc None sizeof_ptr (w_items w) (to_size (sint ident + 1)))) (\<lambda>a.
                   Inr (a\<lparr>arr_size := arr_capacity a\<rparr>))) (\<lambda>items.
     case alloc_item alloc (w_item_heap w) of (p, h) \<Rightarrow>
     bindE (deref h p) (\<lambda>new_item.
     bindE (kstr_read (item_name new_item) name 64) (\<lambda>(_, name').
     bindE (array_push alloc 0 4 (item_mod_struct new_item) n_modifier) (\<lambda>(buffer, mods).
     bindE (if n_modifier = 0 then Inr mods
            else case buffer of None \<Rightarrow> Inl NullDeref
                 | Some i \<Rightarrow> bindE (mem_read modifier 0 n_modifier) (\<lambda>ms.
                     bindE (mem_write (arr_data mods) i ms) (\<lambda>d. Inr (mods\<lparr>arr_data := d\<rparr>)))) (\<lambda>mods.
     bindE (store h p (new_item\<lparr>item_id := ident, item_flags := flags, item_value := value,
             item_model_id := model, item_quantity := quantity, item_type := type,
             item_name := name', item_mod_struct := mods\<rparr>)) (\<lambda>h.
     bindE (ignored (if inside_signed items (sint ident) then array_set items (nat (sint ident)) p
                     else Inr (False, items))) (\<lambda>items.
       Inr (w\<lparr>w_items := items, w_item_heap := h\<rparr>))))))))"

definition item_remove :: "u32 \<Rightarrow> world \<Rightarrow> fault + world" where
  "item_remove ident w =
     bindE (get_item_safe w ident) (\<lambda>p.
       if p = None then Inr w
       else bindE (ignored (array_set (w_items w) (nat (sint ident)) None)) (\<lambda>items.
            bindE (remove_item_from_bag p (w\<lparr>w_items := items\<rparr>)) (\<lambda>w.
            bindE (free_item p (w_item_heap w)) (\<lambda>h. Inr (w\<lparr>w_item_heap := h\<rparr>)))))"

definition inventory_item_quantity :: "u32 \<Rightarrow> u32 \<Rightarrow> world \<Rightarrow> fault + world" where
  "inventory_item_quantity ident quantity w =
     bindE (get_item_safe w ident) (\<lambda>p.
       if p = None then Inr w
       else bindE (deref (w_item_heap w) p) (\<lambda>it. put_item p (it\<lparr>item_quantity := quantity\<rparr>) w))"

text \<open>The slot is a signed byte; storing it in the item extends its sign.\<close>

definition inventory_item_location :: "u32 \<Rightarrow> u16 \<Rightarrow> u8 \<Rightarrow> world \<Rightarrow> fault + world" where
  "inventory_item_location ident bag slot w =
     (if \<not> inside_signed (w_items w) (sint ident) then Inr w
      else bindE (array_at (w_items w) (nat (sint ident))) (\<lambda>p.
        if p = None then Inr w
        else
          bindE (find_bag (w_bags w) bag) (\<lambda>b.
          bindE (array_at (w_bags w) b) (\<lambda>x.
          bindE (assertE (uint (bag_id x) = sint bag)) (\<lambda>_.
          bindE (assertE (inside_signed (bag_items x) (sint slot))) (\<lambda>_.
          bindE (deref (w_item_heap w) p) (\<lambda>it.
          bindE (put_item p (it\<lparr>item_bag := Some b, item_slot := scast slot\<rparr>) w) (\<lambda>w.
          bindE (ignored (array_set (bag_items x) (nat (sint slot)) p)) (\<lambda>slots.
            put_bag b (x\<lparr>bag_items := slots, bag_item_count := bag_item_count x + 1\<rparr>) w)))))))))"

definition inventory_create_bag ::
    "(nat \<Rightarrow> bool) \<Rightarrow> u8 \<Rightarrow> u8 \<Rightarrow> u16 \<Rightarrow> u8 \<Rightarrow> world \<Rightarrow> fault + world" where
  "inventory_create_bag alloc type model ident slot_count w =
     bindE (free_bag (w_bags w) ident) (\<lambda>b.
     bindE (array_at (w_bags w) b) (\<lambda>x.
     bindE (assertE (bag_id x = 0)) (\<lambda>_.
     bindE (ignored (array_resize alloc None sizeof_ptr array_init (to_size (sint slot_count)))) (\<lambda>slots.
     bindE (put_bag b (x\<lparr>bag_id := ident, bag_type := type, bag_model := model, bag_items := slots\<rparr>) w) (\<lambda>w.
     bindE (assertE (sint model < BagEnum_Count)) (\<lambda>_.
     bindE (if sint model < 0 then Inl OutOfBounds
            else upd (inv_bags (w_inventory w)) (nat (sint model)) (Some b)) (\<lambda>bs.
       Inr (w\<lparr>w_inventory := (w_inventory w)\<lparr>inv_bags := bs\<rparr>\<rparr>))))))))"

text \<open>The slot is not compared with the size of the bag here.\<close>

definition item_change_location :: "u32 \<Rightarrow> u16 \<Rightarrow> u8 \<Rightarrow> world \<Rightarrow> fault + world" where
  "item_change_location ident bag slot w =
     bindE (get_item_safe w ident) (\<lambda>p.
       if p = None then Inr w
       else
         bindE (find_bag (w_bags w) bag) (\<lambda>b.
         bindE (remove_item_from_bag p w) (\<lambda>w.
         bindE (deref (w_item_heap w) p) (\<lambda>it.
         bindE (put_item p (it\<lparr>item_bag := Some b, item_slot := scast slot\<rparr>) w) (\<lambda>w.
         bindE (array_at (w_bags w) b) (\<lambda>x.
         bindE (if sint slot < 0 then Inl OutOfBounds
                else upd (arr_data (bag_items x)) (nat (sint slot)) p) (\<lambda>d.
           put_bag b (x\<lparr>bag_items := (bag_items x)\<lparr>arr_data := d\<rparr>,
             bag_item_count := bag_item_count x + 1\<rparr>) w)))))))"

section \<open>Merchants\<close>

definition window_owner :: "u32 \<Rightarrow> world \<Rightarrow> world" where
  "window_owner agent w = w\<lparr>w_merchant_items := array_clear (w_merchant_items w),
     w_tmp_merchant_items := array_clear (w_tmp_merchant_items w),
     w_tmp_merchant_prices := array_clear (w_tmp_merchant_prices w),
     w_merchant_agent_id := agent, w_interact_with := agent\<rparr>"

text \<open>The loop of \<^verbatim>\<open>HandleMerchantReady\<close> from index \<open>i\<close> on, \<open>n\<close> steps of it.\<close>

fun merchant_loop :: "(nat \<Rightarrow> bool) \<Rightarrow> nat \<Rightarrow> nat \<Rightarrow> world \<Rightarrow> fault + world" where
  "merchant_loop alloc i 0 w = Inr w"
| "merchant_loop alloc i (Suc n) w =
     bindE (array_at (w_tmp_merchant_items w) i) (\<lambda>p.
     bindE (ignored (array_add alloc None sizeof_ptr (w_merchant_items w) p)) (\<lambda>ms.
     let w = w\<lparr>w_merchant_items := ms\<rparr> in
     bindE (if array_inside (w_tmp_merchant_prices w) i
            then bindE (deref (w_item_heap w) p) (\<lambda>it.
                 bindE (array_at (w_tmp_merchant_prices w) i) (\<lambda>price.
                   if item_value it < price then put_item p (it\<lparr>item_value := price\<rparr>) w else Inr w))
            else Inr w) (\<lambda>w.
       merchant_loop alloc (i + 1) n w)))"

definition merchant_ready :: "(nat \<Rightarrow> bool) \<Rightarrow> world \<Rightarrow> fault + world" where
  "merchant_ready alloc w = merchant_loop alloc 0 (arr_size (w_tmp_merchant_items w)) w"

fun window_add_items :: "(nat \<Rightarrow> bool) \<Rightarrow> u32 list \<Rightarrow> world \<Rightarrow> fault + world" where
  "window_add_items alloc [] w = Inr w"
| "window_add_items alloc (ident # ids) w =
     bindE (get_item_safe w ident) (\<lambda>p.
     bindE (if p = None then Inr w
            else bindE (ignored (array_add alloc None sizeof_ptr (w_tmp_merchant_items w) p)) (\<lambda>a.
                   Inr (w\<lparr>w_tmp_merchant_items := a\<rparr>))) (\<lambda>w.
       window_add_items alloc ids w))"

fun window_add_prices :: "(nat \<Rightarrow> bool) \<Rightarrow> u32 list \<Rightarrow> world \<Rightarrow> fault + world" where
  "window_add_prices alloc [] w = Inr w"
| "window_add_prices alloc (price # ps) w =
     bindE (ignored (array_add alloc 0 4 (w_tmp_merchant_prices w) price)) (\<lambda>a.
       window_add_prices alloc ps (w\<lparr>w_tmp_merchant_prices := a\<rparr>))"

definition item_price_quote :: "u32 \<Rightarrow> u32 \<Rightarrow> world \<Rightarrow> fault + world" where
  "item_price_quote ident price w =
     bindE (assertE (inside_signed (w_items w) (sint ident))) (\<lambda>_.
     bindE (array_at (w_items w) (nat (sint ident))) (\<lambda>p.
     bindE (assertE (p \<noteq> None)) (\<lambda>_.
     bindE (deref (w_item_heap w) p) (\<lambda>it. put_item p (it\<lparr>item_quote_price := price\<rparr>) w))))"

section \<open>Salvage\<close>

fun salvage_loop :: "nat \<Rightarrow> u32 list \<Rightarrow> world \<Rightarrow> fault + world" where
  "salvage_loop i [] w = Inr w"
| "salvage_loop i (ident # ids) w =
     bindE (get_item_safe w ident) (\<lambda>p.
     bindE (upd (salvage_upgrades (w_salvage_session w)) i p) (\<lambda>us.
       salvage_loop (i + 1) ids (w\<lparr>w_salvage_session := (w_salvage_session w)\<lparr>salvage_upgrades := us\<rparr>\<rparr>)))"

definition salvage_session_start :: "u16 \<Rightarrow> u32 \<Rightarrow> u32 list \<Rightarrow> world \<Rightarrow> fault + bool \<times> world" where
  "salvage_session_start ident n_upgrades upgrades w =
     (if ident \<noteq> salvage_session_id (w_salvage_session w) then Inr (False, w)
      else
        bindE (mem_read upgrades 0 (unat n_upgrades)) (\<lambda>us.
        bindE (salvage_loop 0 us (w\<lparr>w_salvage_session := (w_salvage_session w)\<lparr>salvage_n_upgrades := n_upgrades\<rparr>\<rparr>)) (\<lambda>w.
          Inr (True, w\<lparr>w_salvage_session := (w_salvage_session w)\<lparr>salvage_is_open := True\<rparr>\<rparr>))))"

definition salvage_session_close :: "world \<Rightarrow> world" where
  "salvage_session_close w = w\<lparr>w_salvage_session :=
     (w_salvage_session w)\<lparr>salvage_is_open := False, salvage_n_upgrades := 0\<rparr>\<rparr>"

end
