(* ===== verification/Bag_Table.thy ===== *)
theory Bag_Table
  imports Items
begin

text \<open>
  The table of the bags refines a finite map from identifiers to bags: creating a bag enters it at
  the first free place of its sequence of hashes, and the search follows the same sequence past
  places that stay taken. The argument is made once, for any sequence of places.
\<close>

section \<open>Tables with a sequence of places per key\<close>

locale probing =
  fixes step :: "'h \<Rightarrow> 'h" and place :: "'h \<Rightarrow> nat" and start :: "'k \<Rightarrow> 'h"
begin

definition nth_hash :: "'k \<Rightarrow> nat \<Rightarrow> 'h" where
  "nth_hash k n = (step ^^ n) (start k)"

definition nth_place :: "'k \<Rightarrow> nat \<Rightarrow> nat" where
  "nth_place k n = place (nth_hash k n)"

text \<open>The key is at the place \<open>i\<close>, and the places before it in its sequence hold other keys.\<close>

definition placed :: "(nat \<Rightarrow> 'k option) \<Rightarrow> 'k \<Rightarrow> nat \<Rightarrow> bool" where
  "placed t k i \<longleftrightarrow> t i = Some k \<and>
     (\<exists>n. nth_place k n = i \<and> (\<forall>m < n. t (nth_place k m) \<noteq> None \<and> t (nth_place k m) \<noteq> Some k))"

definition placed_all :: "(nat \<Rightarrow> 'k option) \<Rightarrow> bool" where
  "placed_all t \<longleftrightarrow> (\<forall>i k. t i = Some k \<longrightarrow> placed t k i)"

lemma nth_hash_simps [simp]: "nth_hash k 0 = start k" "nth_hash k (Suc n) = step (nth_hash k n)"
  by (simp_all add: nth_hash_def)

lemma first_free:
  assumes "t (nth_place k n) = None"
  obtains m where "t (nth_place k m) = None" "\<forall>j < m. t (nth_place k j) \<noteq> None"
proof -
  let ?P = "\<lambda>m. t (nth_place k m) = None"
  have "?P (LEAST m. ?P m)" using assms by (rule LeastI)
  moreover have "\<forall>j < (LEAST m. ?P m). \<not> ?P j" using not_less_Least by blast
  ultimately show ?thesis using that by blast
qed

lemma placed_insert_new:
  assumes "t (nth_place k m) = None" "\<forall>j < m. t (nth_place k j) \<noteq> None" "\<forall>i. t i \<noteq> Some k"
  shows "placed (t(nth_place k m \<mapsto> k)) k (nth_place k m)"
proof -
  have "\<forall>j < m. nth_place k j \<noteq> nth_place k m" using assms(1,2) by metis
  then show ?thesis using assms unfolding placed_def by (intro conjI exI [of _ m]) auto
qed

lemma placed_insert_old:
  assumes "placed t k' i" "t j = None" "k \<noteq> k'"
  shows "placed (t(j \<mapsto> k)) k' i"
proof -
  obtain n where n: "nth_place k' n = i" "t i = Some k'"
    "\<forall>m < n. t (nth_place k' m) \<noteq> None \<and> t (nth_place k' m) \<noteq> Some k'"
    using assms(1) by (auto simp: placed_def)
  have "i \<noteq> j" using n(2) assms(2) by auto
  moreover have "(t(j \<mapsto> k)) (nth_place k' m) \<noteq> None \<and> (t(j \<mapsto> k)) (nth_place k' m) \<noteq> Some k'" if "m < n" for m
    using n(3) that assms(2,3) by (cases "nth_place k' m = j") auto
  ultimately show ?thesis using n unfolding placed_def by (intro conjI exI [of _ n]) auto
qed

lemma placed_all_insert:
  assumes "placed_all t" "t (nth_place k m) = None" "\<forall>j < m. t (nth_place k j) \<noteq> None" "\<forall>i. t i \<noteq> Some k"
  shows "placed_all (t(nth_place k m \<mapsto> k))"
  unfolding placed_all_def
proof (intro allI impI)
  fix i k' assume i: "(t(nth_place k m \<mapsto> k)) i = Some k'"
  show "placed (t(nth_place k m \<mapsto> k)) k' i"
  proof (cases "i = nth_place k m")
    case True
    then show ?thesis using i placed_insert_new [OF assms(2-4)] by auto
  next
    case False
    then have "t i = Some k'" using i by simp
    then show ?thesis using assms(1,2,4) placed_insert_old [of t k' i _ k] by (auto simp: placed_all_def)
  qed
qed

lemma placed_unique:
  assumes "placed t k i" "placed t k j"
  shows "i = j"
proof -
  obtain n m where n: "nth_place k n = i" "\<forall>l < n. t (nth_place k l) \<noteq> None \<and> t (nth_place k l) \<noteq> Some k"
    and m: "nth_place k m = j" "\<forall>l < m. t (nth_place k l) \<noteq> None \<and> t (nth_place k l) \<noteq> Some k"
    and "t i = Some k" "t j = Some k"
    using assms by (auto simp: placed_def)
  then have "\<not> n < m" "\<not> m < n" by auto
  then show ?thesis using n m by simp
qed

end

section \<open>The bags\<close>

interpretation bag_probe: probing hash_int32 "\<lambda>h. unat h mod 32" "\<lambda>ident :: u16. hash_int32 (scast ident)" .

definition bag_at :: "bag carray \<Rightarrow> nat \<Rightarrow> u16 option" where
  "bag_at bags i = (if i < arr_size bags \<and> bag_id (contents bags ! i) \<noteq> 0
     then Some (bag_id (contents bags ! i)) else None)"

definition bag_table_ok :: "bag carray \<Rightarrow> bool" where
  "bag_table_ok bags \<longleftrightarrow> arr_ok bags \<and> arr_size bags = 32 \<and> bag_probe.placed_all (bag_at bags)"

text \<open>The abstract table: the place of a bag, if there is one.\<close>

definition bag_map :: "bag carray \<Rightarrow> u16 \<Rightarrow> nat option" where
  "bag_map bags ident = List.find (\<lambda>i. bag_at bags i = Some ident) [0..<arr_size bags]"

lemma bag_map_Some:
  assumes "bag_table_ok bags"
  shows "bag_map bags ident = Some i \<longleftrightarrow> bag_at bags i = Some ident"
proof
  assume "bag_map bags ident = Some i"
  then show "bag_at bags i = Some ident" by (auto simp: bag_map_def find_Some_iff)
next
  assume i: "bag_at bags i = Some ident"
  then have "i < arr_size bags" by (auto simp: bag_at_def split: if_splits)
  then obtain j where j: "bag_map bags ident = Some j"
    using i by (cases "bag_map bags ident") (auto simp: bag_map_def find_None_iff)
  then have "bag_at bags j = Some ident" by (auto simp: bag_map_def find_Some_iff)
  then have "bag_probe.placed (bag_at bags) ident i" "bag_probe.placed (bag_at bags) ident j"
    using i assms by (auto simp: bag_table_ok_def bag_probe.placed_all_def)
  then have "i = j" by (rule bag_probe.placed_unique)
  then show "bag_map bags ident = Some i" using j by simp
qed

lemma bag_map_None:
  assumes "bag_table_ok bags"
  shows "bag_map bags ident = None \<longleftrightarrow> (\<forall>i. bag_at bags i \<noteq> Some ident)"
  by (cases "bag_map bags ident") (use bag_map_Some [OF assms, of ident] in fastforce)+

lemma bag_place [simp]: "bag_probe.nth_place ident n < 32"
  by (simp add: bag_probe.nth_place_def)

subsection \<open>Searching\<close>

lemma uint_nonneg:
  assumes "0 \<le> sint (x :: 'a :: len word)"
  shows "uint x = sint x"
proof -
  have "sint x = uint x - 2 ^ LENGTH('a) * of_bool (bit (uint x) (LENGTH('a) - 1))"
    using uint_lt2p [of x] take_bit_int_eq_self [of "uint x" "LENGTH('a)"]
    by (simp add: sint_uint signed_take_bit_eq_take_bit_minus)
  then have "sint x < 0 \<or> sint x = uint x" using uint_lt2p [of x] by (cases "bit (uint x) (LENGTH('a) - 1)") simp_all
  then show ?thesis using assms by linarith
qed

lemma find_bag_steps:
  assumes "arr_ok bags" "arr_size bags = 32"
    and "\<forall>m < n. bag_at bags (bag_probe.nth_place ident m) \<noteq> None \<and>
      bag_at bags (bag_probe.nth_place ident m) \<noteq> Some ident"
  shows "find_bag_loop bags (sint ident) (bag_probe.nth_hash ident 0) =
    find_bag_loop bags (sint ident) (bag_probe.nth_hash ident n)"
  using assms(3)
proof (induction n)
  case (Suc n)
  let ?h = "bag_probe.nth_hash ident n"
  have p: "bag_probe.nth_place ident n = unat ?h mod 32" by (simp add: bag_probe.nth_place_def)
  have "bag_at bags (unat ?h mod 32) \<noteq> None" "bag_at bags (unat ?h mod 32) \<noteq> Some ident"
    using Suc.prems p by (metis lessI)+
  then have "bag_id (contents bags ! (unat ?h mod 32)) \<noteq> 0" "bag_id (contents bags ! (unat ?h mod 32)) \<noteq> ident"
    using assms(2) by (auto simp: bag_at_def simp del: nth_contents split: if_splits)
  moreover have "x = ident" if "uint x = sint ident" for x :: u16
    using arg_cong [OF that, of "of_int :: int \<Rightarrow> u16"] by simp
  ultimately have "find_bag_loop bags (sint ident) ?h = find_bag_loop bags (sint ident) (hash_int32 ?h)"
    using assms(1,2) by (subst find_bag_loop.simps) (auto simp: Let_def)
  then show ?case using Suc by simp
qed simp

lemma find_bag_found:
  assumes ok: "bag_table_ok bags" and at: "bag_at bags i = Some ident" and pos: "0 \<le> sint ident"
  shows "find_bag bags ident = Inr i"
proof -
  have b: "arr_ok bags" "arr_size bags = 32" using ok by (auto simp: bag_table_ok_def)
  obtain n where n: "bag_probe.nth_place ident n = i"
    "\<forall>m < n. bag_at bags (bag_probe.nth_place ident m) \<noteq> None \<and>
      bag_at bags (bag_probe.nth_place ident m) \<noteq> Some ident"
    using ok at by (auto simp: bag_table_ok_def bag_probe.placed_all_def bag_probe.placed_def)
  let ?h = "bag_probe.nth_hash ident n"
  have i: "unat ?h mod 32 = i" using n(1) by (simp add: bag_probe.nth_place_def)
  have "bag_id (contents bags ! i) = ident" using at by (auto simp: bag_at_def split: if_splits)
  moreover have "uint ident = sint ident" using pos by (rule uint_nonneg)
  moreover have "i < 32" using i by auto
  ultimately have "find_bag_loop bags (sint ident) ?h = Some (Inr i)"
    using b i by (subst find_bag_loop.simps) (auto simp: Let_def)
  then show ?thesis
    using find_bag_steps [OF b n(2)] b by (simp add: find_bag_def returned_def)
qed

text \<open>An identifier with the highest bit set is negative in the packet, and no bag has it.\<close>

lemma find_bag_loop_found:
  assumes "find_bag_loop bags v h = Some r"
  shows "\<forall>i. r = Inr i \<longrightarrow> (\<exists>x :: u16. v = uint x)"
proof (rule find_bag_loop.raw_induct [OF _ assms])
  fix loop bags v h r
  assume IH: "\<And>bags v h r. loop bags v h = Some r \<Longrightarrow> \<forall>i. r = Inr i \<longrightarrow> (\<exists>x :: u16. v = uint x)"
    and r: "(let index = unat h mod arr_size bags in
      case array_at bags index of Inl e \<Rightarrow> Some (Inl e)
      | Inr bag \<Rightarrow> if uint (bag_id bag) = v then Some (Inr index)
          else if bag_id bag = 0 then Some (Inl AssertFail) else loop bags v (hash_int32 h)) = Some r"
  show "\<forall>i. r = Inr i \<longrightarrow> (\<exists>x :: u16. v = uint x)"
    using r IH by (auto simp: Let_def split: sum.splits if_splits)
qed

lemma find_bag_negative: "sint ident < 0 \<Longrightarrow> find_bag bags ident \<noteq> Inr i"
proof
  assume "sint ident < 0" "find_bag bags ident = Inr i"
  then obtain x :: u16 where "sint ident = uint x"
    using find_bag_loop_found [of bags "sint ident"]
    by (auto simp: find_bag_def returned_def res_simps split: option.splits)
  then show False using \<open>sint ident < 0\<close> by simp
qed

subsection \<open>Creating a bag\<close>

lemma free_bag_steps:
  assumes "arr_ok bags" "arr_size bags = 32" "\<forall>m < n. bag_at bags (bag_probe.nth_place ident m) \<noteq> None"
  shows "free_bag_loop bags (bag_probe.nth_hash ident 0) = free_bag_loop bags (bag_probe.nth_hash ident n)"
  using assms(3)
proof (induction n)
  case (Suc n)
  let ?h = "bag_probe.nth_hash ident n"
  have "bag_at bags (unat ?h mod 32) \<noteq> None" using Suc.prems by (metis lessI bag_probe.nth_place_def)
  then have "bag_id (contents bags ! (unat ?h mod 32)) \<noteq> 0"
    using assms(2) by (auto simp: bag_at_def simp del: nth_contents split: if_splits)
  then have "free_bag_loop bags ?h = free_bag_loop bags (hash_int32 ?h)"
    using assms(1,2) by (subst free_bag_loop.simps) (auto simp: Let_def)
  then show ?case using Suc by simp
qed simp

lemma free_bag_found:
  assumes "bag_table_ok bags" and "bag_at bags (bag_probe.nth_place ident n) = None"
    and "\<forall>m < n. bag_at bags (bag_probe.nth_place ident m) \<noteq> None"
  shows "free_bag bags ident = Inr (bag_probe.nth_place ident n)"
    and "bag_id (contents bags ! bag_probe.nth_place ident n) = 0"
proof -
  let ?h = "bag_probe.nth_hash ident n"
  have b: "arr_ok bags" "arr_size bags = 32" using assms(1) by (auto simp: bag_table_ok_def)
  have p: "bag_probe.nth_place ident n = unat ?h mod 32" by (simp add: bag_probe.nth_place_def)
  show z: "bag_id (contents bags ! bag_probe.nth_place ident n) = 0"
    using assms(2) b by (auto simp: bag_at_def simp del: nth_contents split: if_splits)
  have "free_bag_loop bags ?h = Some (Inr (unat ?h mod 32))"
    using z b p by (subst free_bag_loop.simps) (auto simp: Let_def)
  then show "free_bag bags ident = Inr (bag_probe.nth_place ident n)"
    using free_bag_steps [OF b assms(3)] b p by (simp add: free_bag_def returned_def)
qed

lemma put_bag_ok:
  assumes "arr_ok (w_bags w)" "b < arr_size (w_bags w)"
  obtains bags where "put_bag b x w = Inr (w\<lparr>w_bags := bags\<rparr>)" "arr_ok bags"
    "arr_size bags = arr_size (w_bags w)" "contents bags = (contents (w_bags w))[b := x]"
proof -
  have "b < length (arr_data (w_bags w))" using assms by (auto simp: arr_ok_def)
  then have "put_bag b x w = Inr (w\<lparr>w_bags := (w_bags w)\<lparr>arr_data := (arr_data (w_bags w))[b := x]\<rparr>\<rparr>)"
    by (simp add: put_bag_def list_update_overlay)
  then show ?thesis
    using that assms by (auto simp: arr_ok_def contents_def take_update_swap)
qed

lemma array_resize_init:
  assumes "\<forall>n. alloc n" "n < 65536" "0 < esz" "esz < 65536"
  obtains a where "array_resize alloc z esz array_init n = Inr (True, a)" "arr_ok a"
    "arr_size a = n" "contents a = replicate n z"
proof (cases "n = 0")
  case True
  then show ?thesis
    using that [of array_init] assms by (simp add: array_resize_def) (simp add: array_init_def)
next
  case False
  define m where "m = max n ARRAY_MIN_CAPACITY"
  define a where "a = \<lparr>arr_capacity = m, arr_size = n, arr_data = replicate m z\<rparr>"
  have m: "m < 65536" "n \<le> m" using assms(2) by (auto simp: m_def ARRAY_MIN_CAPACITY_def)
  have "m * esz < 65536 * 65536"
    using m assms(4) by (metis mult_strict_mono' zero_le)
  then have b: "m * esz < SZ" "n < SZ" using assms(2) by (auto simp: SZ_def)
  have "array_resize alloc z esz array_init n = Inr (True, a)"
    using assms False b m by (simp add: array_resize_def array_reserve_def array_grow_to_def array_init_def
        Let_def a_def m_def [symmetric])
  then show ?thesis
    using that [of a] m b(2) by (auto simp: a_def arr_ok_def contents_def SZ_def)
qed

lemma bag_at_update:
  assumes "arr_ok bags" "b < arr_size bags" "arr_size bags' = arr_size bags"
    "contents bags' = (contents bags)[b := x]" "bag_id x \<noteq> 0"
  shows "bag_at bags' = (bag_at bags)(b \<mapsto> bag_id x)"
  using assms by (auto simp: bag_at_def fun_eq_iff nth_list_update simp del: nth_contents)

lemma create_bag_ok:
  assumes ok: "bag_table_ok (w_bags w)" and new: "ident \<noteq> 0" "bag_map (w_bags w) ident = None"
    and free: "bag_at (w_bags w) (bag_probe.nth_place ident n) = None"
    and args: "0 \<le> sint slot_count" "0 \<le> sint model" "sint model < BagEnum_Count"
    and inv: "length (inv_bags (w_inventory w)) = nat BagEnum_Count" and mem: "\<forall>n. alloc n"
  obtains b slots bags where "b < 32" "bag_at (w_bags w) b = None"
    "arr_ok slots" "contents slots = replicate (nat (sint slot_count)) None"
    "bag_table_ok bags" "bag_map bags = (bag_map (w_bags w))(ident \<mapsto> b)"
    "contents bags = (contents (w_bags w))[b := (contents (w_bags w) ! b)\<lparr>bag_id := ident, bag_type := type,
       bag_model := model, bag_items := slots\<rparr>]"
    "inventory_create_bag alloc type model ident slot_count w = Inr (w\<lparr>w_bags := bags,
       w_inventory := (w_inventory w)\<lparr>inv_bags := (inv_bags (w_inventory w))[nat (sint model) := Some b]\<rparr>\<rparr>)"
proof -
  let ?bags = "w_bags w"
  have b0: "arr_ok ?bags" "arr_size ?bags = 32" using ok by (auto simp: bag_table_ok_def)
  obtain m where m: "bag_at ?bags (bag_probe.nth_place ident m) = None"
    "\<forall>j < m. bag_at ?bags (bag_probe.nth_place ident j) \<noteq> None"
    using bag_probe.first_free [of "bag_at ?bags" ident n] free by blast
  define b where "b = bag_probe.nth_place ident m"
  have b: "b < arr_size ?bags" "free_bag ?bags ident = Inr b" "bag_id (contents ?bags ! b) = 0"
    using free_bag_found [OF ok m] b0 by (auto simp: b_def)
  have sc: "sint slot_count < 128" using sint_lt [of slot_count] by simp
  then have ts: "to_size (sint slot_count) = nat (sint slot_count)" "nat (sint slot_count) < 65536"
    using args(1) by (auto simp: to_size_def)
  obtain slots where slots: "array_resize alloc (None :: ptr) sizeof_ptr array_init (nat (sint slot_count)) = Inr (True, slots)"
    "arr_ok slots" "arr_size slots = nat (sint slot_count)" "contents slots = replicate (nat (sint slot_count)) None"
    using array_resize_init [OF mem ts(2), of sizeof_ptr None] by (auto simp: struct_sizes)
  let ?x = "(contents ?bags ! b)\<lparr>bag_id := ident, bag_type := type, bag_model := model, bag_items := slots\<rparr>"
  obtain bags where bags: "put_bag b ?x w = Inr (w\<lparr>w_bags := bags\<rparr>)" "arr_ok bags" "arr_size bags = 32"
    "contents bags = (contents ?bags)[b := ?x]"
    using put_bag_ok [OF b0(1) b(1), of ?x] b0(2) by metis
  have at: "bag_at bags = (bag_at ?bags)(b \<mapsto> ident)"
    using bag_at_update [OF b0(1) b(1) _ bags(4)] bags(3) b0(2) new(1) by simp
  have none: "\<forall>i. bag_at ?bags i \<noteq> Some ident" using bag_map_None [OF ok] new(2) by blast
  have ok': "bag_table_ok bags"
    unfolding bag_table_ok_def at b_def
    using bags(2,3) ok m none by (auto simp: bag_table_ok_def intro: bag_probe.placed_all_insert)
  have map: "bag_map bags = (bag_map ?bags)(ident \<mapsto> b)"
  proof (rule ext)
    fix k
    have *: "bag_map bags k = Some i \<longleftrightarrow> ((bag_map ?bags)(ident \<mapsto> b)) k = Some i" for i
      using bag_map_Some [OF ok', of k i] bag_map_Some [OF ok, of k i] at none m(1)
      by (auto simp: b_def)
    show "bag_map bags k = ((bag_map ?bags)(ident \<mapsto> b)) k"
      by (cases "bag_map bags k"; cases "((bag_map ?bags)(ident \<mapsto> b)) k") (use * in auto)
  qed
  have "inventory_create_bag alloc type model ident slot_count w = Inr (w\<lparr>w_bags := bags,
       w_inventory := (w_inventory w)\<lparr>inv_bags := (inv_bags (w_inventory w))[nat (sint model) := Some b]\<rparr>\<rparr>)"
    using b b0 slots ts bags(1) args inv
    by (simp add: inventory_create_bag_def ignored_def nat_less_iff del: nth_contents)
  then show ?thesis
    using that [of b slots bags] b(1) b0(2) m(1) slots ok' map bags(4) by (auto simp: b_def)
qed

subsection \<open>Refinement\<close>

lemma empty_bag_table:
  assumes "arr_ok bags" "contents bags = replicate 32 zero_bag"
  shows "bag_table_ok bags" "bag_at bags = Map.empty" "bag_map bags = Map.empty"
proof -
  have s: "arr_size bags = 32" using assms length_contents [OF assms(1)] by simp
  show e: "bag_at bags = Map.empty"
    using assms(2) s by (auto simp: bag_at_def fun_eq_iff zero_bag_def simp del: nth_contents)
  show ok: "bag_table_ok bags" using assms(1) s by (simp add: bag_table_ok_def e bag_probe.placed_all_def)
  show "bag_map bags = Map.empty" using bag_map_None [OF ok] e by (auto simp: fun_eq_iff)
qed


definition sample_bags :: "bag carray" where
  "sample_bags = \<lparr>arr_capacity = 32, arr_size = 32, arr_data = replicate 32 zero_bag\<rparr>"

lemma sample_bags_ok: "arr_ok sample_bags" "contents sample_bags = replicate 32 zero_bag"
  by (simp_all add: sample_bags_def arr_ok_def contents_def SZ_def)


end
