(* ===== verification/Inventory.thy ===== *)
theory Inventory
  imports Bag_Table
begin

text \<open>
  What the items and the bags have in common: an item that is in a bag is in the slot it names,
  a slot holds an item that names it, and a bag counts its items. Every operation on items keeps
  this as long as the server sends messages that fit the state; the lemmas at the end show what
  happens when it does not.
\<close>

section \<open>Items and slots\<close>

text \<open>Slots are compared through the contents of the arrays.\<close>

declare length_contents [simp del] nth_contents [simp del]

abbreviation slots :: "bag \<Rightarrow> ptr list" where
  "slots x \<equiv> contents (bag_items x)"

definition count_items :: "ptr list \<Rightarrow> int" where
  "count_items ps = int (length (filter (\<lambda>p. p \<noteq> None) ps))"

definition in_slot :: "(nat \<Rightarrow> item option) \<Rightarrow> bag list \<Rightarrow> bool" where
  "in_slot obj bs \<longleftrightarrow> (\<forall>p it b. obj p = Some it \<longrightarrow> item_bag it = Some b \<longrightarrow>
     b < length bs \<and> unat (item_slot it) < length (slots (bs ! b)) \<and> slots (bs ! b) ! unat (item_slot it) = Some p)"

definition slot_ok :: "(nat \<Rightarrow> item option) \<Rightarrow> nat \<Rightarrow> bag \<Rightarrow> bool" where
  "slot_ok obj b x \<longleftrightarrow> arr_ok (bag_items x) \<and> bag_item_count x = count_items (slots x) \<and>
     (\<forall>s p. s < length (slots x) \<longrightarrow> slots x ! s = Some p \<longrightarrow>
        (\<exists>it. obj p = Some it \<and> item_bag it = Some b \<and> unat (item_slot it) = s))"

definition stored_ok :: "(nat \<Rightarrow> item option) \<Rightarrow> bag list \<Rightarrow> bool" where
  "stored_ok obj bs \<longleftrightarrow> in_slot obj bs \<and> (\<forall>b < length bs. slot_ok obj b (bs ! b))"

lemma count_items_update:
  "i < length ps \<Longrightarrow>
   count_items (ps[i := q]) = count_items ps - of_bool (ps ! i \<noteq> None) + of_bool (q \<noteq> None)"
proof (induction ps arbitrary: i)
  case (Cons p ps)
  then show ?case by (cases i) (auto simp: count_items_def)
qed simp

lemma stored_okD:
  assumes "stored_ok obj bs" "obj p = Some it" "item_bag it = Some b"
  shows "b < length bs" "unat (item_slot it) < length (slots (bs ! b))"
    "slots (bs ! b) ! unat (item_slot it) = Some p" "slot_ok obj b (bs ! b)"
  using assms by (auto simp: stored_ok_def in_slot_def)

lemma slot_holds:
  assumes "stored_ok obj bs" "b < length bs" "s < length (slots (bs ! b))" "slots (bs ! b) ! s = Some p"
  obtains it where "obj p = Some it" "item_bag it = Some b" "unat (item_slot it) = s"
  using assms unfolding stored_ok_def slot_ok_def by blast

text \<open>Changing an item in other members, and objects that are in no bag.\<close>

lemma stored_ok_same:
  assumes "stored_ok obj bs" "obj p = Some it" "item_bag it' = item_bag it" "item_slot it' = item_slot it"
  shows "stored_ok (obj(p \<mapsto> it')) bs"
  using assms unfolding stored_ok_def in_slot_def slot_ok_def by (fastforce split: if_splits)

lemma stored_ok_new:
  assumes "stored_ok obj bs" "obj p = None" "item_bag it = None"
  shows "stored_ok (obj(p \<mapsto> it)) bs"
  using assms unfolding stored_ok_def in_slot_def slot_ok_def by (fastforce split: if_splits)

lemma stored_ok_free:
  assumes "stored_ok obj bs" "obj p = Some it" "item_bag it = None"
  shows "stored_ok (obj(p := None)) bs"
  using assms unfolding stored_ok_def in_slot_def slot_ok_def by (fastforce split: if_splits)

text \<open>Taking an item out of its slot and putting it into a free one.\<close>

lemma stored_ok_take:
  assumes ok: "stored_ok obj bs" and it: "obj p = Some it" "item_bag it = Some b"
    and it': "item_bag it' = None"
    and x: "arr_ok a" "contents a = (slots (bs ! b))[unat (item_slot it) := None]"
      "x = (bs ! b)\<lparr>bag_items := a, bag_item_count := bag_item_count (bs ! b) - 1\<rparr>"
  shows "stored_ok (obj(p \<mapsto> it')) (bs[b := x])"
proof -
  note s = stored_okD [OF ok it]
  let ?s = "unat (item_slot it)" and ?obj = "obj(p \<mapsto> it')"
  have sx: "slots x = (slots (bs ! b))[?s := None]" using x by simp
  have other: "\<exists>it. ?obj q = Some it \<and> item_bag it = Some c \<and> unat (item_slot it) = t"
    if q: "\<exists>it. obj q = Some it \<and> item_bag it = Some c \<and> unat (item_slot it) = t" and "c \<noteq> b \<or> t \<noteq> ?s" for q c t
    using q that(2) it by (cases "q = p") auto
  have in_slot: "in_slot ?obj (bs[b := x])"
    unfolding in_slot_def
  proof (intro allI impI)
    fix q jt c assume q: "?obj q = Some jt" "item_bag jt = Some c"
    then have "q \<noteq> p" using it' by auto
    then have o: "obj q = Some jt" using q by simp
    note t = stored_okD [OF ok o q(2)]
    have "c \<noteq> b \<or> unat (item_slot jt) \<noteq> ?s" using s(3) t(3) \<open>q \<noteq> p\<close> by auto
    then show "c < length (bs[b := x]) \<and> unat (item_slot jt) < length (slots (bs[b := x] ! c)) \<and>
        slots (bs[b := x] ! c) ! unat (item_slot jt) = Some q"
      using t s(1) sx by (auto simp: nth_list_update)
  qed
  have slot: "slot_ok ?obj c (bs[b := x] ! c)" if c: "c < length (bs[b := x])" for c
  proof (cases "c = b")
    case True
    have "bag_item_count x = count_items (slots x)"
      using s(2-4) x(3) sx by (simp add: count_items_update slot_ok_def)
    moreover have "\<exists>it. ?obj q = Some it \<and> item_bag it = Some b \<and> unat (item_slot it) = t"
      if "t < length (slots x)" "slots x ! t = Some q" for t q
    proof -
      have "t \<noteq> ?s" "slots (bs ! b) ! t = Some q" "t < length (slots (bs ! b))"
        using that sx s(2) by (auto simp: nth_list_update split: if_splits)
      then show ?thesis using s(4) other [of q b t] by (auto simp: slot_ok_def)
    qed
    ultimately show ?thesis using True c x(1,3) by (auto simp: slot_ok_def)
  next
    case False
    then have "slot_ok obj c (bs ! c)" using ok c by (auto simp: stored_ok_def)
    then show ?thesis using False other by (auto simp: slot_ok_def)
  qed
  show ?thesis using in_slot slot by (auto simp: stored_ok_def)
qed

lemma stored_ok_put:
  assumes ok: "stored_ok obj bs" and it: "obj p = Some it" "item_bag it = None"
    and it': "item_bag it' = Some b" "unat (item_slot it') = s"
    and b: "b < length bs" "s < length (slots (bs ! b))" "slots (bs ! b) ! s = None"
    and x: "arr_ok a" "contents a = (slots (bs ! b))[s := Some p]"
      "x = (bs ! b)\<lparr>bag_items := a, bag_item_count := bag_item_count (bs ! b) + 1\<rparr>"
  shows "stored_ok (obj(p \<mapsto> it')) (bs[b := x])"
proof -
  let ?obj = "obj(p \<mapsto> it')"
  have sx: "slots x = (slots (bs ! b))[s := Some p]" using x by simp
  have other: "\<exists>it. ?obj q = Some it \<and> item_bag it = Some c \<and> unat (item_slot it) = t"
    if "\<exists>it. obj q = Some it \<and> item_bag it = Some c \<and> unat (item_slot it) = t" for q c t
    using that it by (cases "q = p") auto
  have in_slot: "in_slot ?obj (bs[b := x])"
    unfolding in_slot_def
  proof (intro allI impI)
    fix q jt c assume q: "?obj q = Some jt" "item_bag jt = Some c"
    show "c < length (bs[b := x]) \<and> unat (item_slot jt) < length (slots (bs[b := x] ! c)) \<and>
        slots (bs[b := x] ! c) ! unat (item_slot jt) = Some q"
    proof (cases "q = p")
      case True
      then show ?thesis using q it' b sx by auto
    next
      case False
      then have o: "obj q = Some jt" using q by simp
      note t = stored_okD [OF ok o q(2)]
      have "c \<noteq> b \<or> unat (item_slot jt) \<noteq> s" using t(3) b(3) by auto
      then show ?thesis using t b(1) sx by (auto simp: nth_list_update)
    qed
  qed
  have slot: "slot_ok ?obj c (bs[b := x] ! c)" if c: "c < length (bs[b := x])" for c
  proof (cases "c = b")
    case True
    have old: "slot_ok obj b (bs ! b)" using ok b(1) by (simp add: stored_ok_def)
    have "bag_item_count x = count_items (slots x)"
      using b old x(3) sx by (simp add: count_items_update slot_ok_def)
    moreover have "\<exists>it. ?obj q = Some it \<and> item_bag it = Some b \<and> unat (item_slot it) = t"
      if "t < length (slots x)" "slots x ! t = Some q" for t q
    proof (cases "t = s")
      case True
      then show ?thesis using that sx b(2) it' by auto
    next
      case False
      then show ?thesis using that sx old other [of q b t] by (auto simp: slot_ok_def)
    qed
    ultimately show ?thesis using True c x(1,3) by (auto simp: slot_ok_def)
  next
    case False
    then have "slot_ok obj c (bs ! c)" using ok c by (auto simp: stored_ok_def)
    then show ?thesis using False other by (auto simp: slot_ok_def)
  qed
  show ?thesis using in_slot slot by (auto simp: stored_ok_def)
qed

lemma stored_ok_bag:
  assumes ok: "stored_ok obj bs" and b: "b < length bs" "bag_id (bs ! b) = 0"
    and empty: "count_items (slots (bs ! b)) = 0"
    and x: "arr_ok a" "contents a = replicate n None" "bag_items x = a" "bag_item_count x = bag_item_count (bs ! b)"
  shows "stored_ok obj (bs[b := x])"
proof -
  have none: "item_bag it \<noteq> Some b" if "obj p = Some it" for p it
  proof
    assume "item_bag it = Some b"
    note s = stored_okD [OF ok that this]
    have "Some p \<in> set (slots (bs ! b))" using s by (metis nth_mem)
    then have "filter (\<lambda>p. p \<noteq> None) (slots (bs ! b)) \<noteq> []" by (auto simp: filter_empty_conv)
    then show False using empty by (simp add: count_items_def)
  qed
  have "slot_ok obj b x"
    using ok b x empty by (auto simp: stored_ok_def slot_ok_def count_items_def)
  then show ?thesis
    using ok none b(1) by (auto simp: stored_ok_def in_slot_def nth_list_update)
qed

section \<open>The operations on slots\<close>

lemma bag_table_same:
  assumes ok: "bag_table_ok bags" and new: "arr_ok bags'" "arr_size bags' = arr_size bags"
    "contents bags' = (contents bags)[b := x]" "bag_id x = bag_id (contents bags ! b)"
  shows "bag_at bags' = bag_at bags" "bag_table_ok bags'" "bag_map bags' = bag_map bags"
proof -
  have l: "length (contents bags) = arr_size bags" using ok by (simp add: bag_table_ok_def length_contents)
  show at: "bag_at bags' = bag_at bags"
    unfolding bag_at_def new(2,3) using new(4) l
    by (cases "b < length (contents bags)") (auto simp: fun_eq_iff nth_list_update not_less)
  show "bag_table_ok bags'" using ok new(1,2) at by (simp add: bag_table_ok_def)
  show "bag_map bags' = bag_map bags" by (simp add: bag_map_def at new(2) fun_eq_iff)
qed

text \<open>A change of one bag that keeps its identifier and the number of its slots.\<close>

definition same_bags :: "bag carray \<Rightarrow> bag carray \<Rightarrow> bool" where
  "same_bags bags bags' \<longleftrightarrow> bag_at bags' = bag_at bags \<and> bag_map bags' = bag_map bags \<and>
     (\<forall>b < 32. length (slots (contents bags' ! b)) = length (slots (contents bags ! b)))"

definition vacant :: "bag carray \<Rightarrow> nat \<Rightarrow> nat \<Rightarrow> bool" where
  "vacant bags b s \<longleftrightarrow> b < 32 \<and> s < length (slots (contents bags ! b)) \<and> slots (contents bags ! b) ! s = None"

lemma store_ok: "hp_obj h p = Some x \<Longrightarrow> store h (Some p) y = Inr (h\<lparr>hp_obj := (hp_obj h)(p \<mapsto> y)\<rparr>)"
  by (simp add: store_def deref_def)

lemma put_item_ok:
  "hp_obj (w_item_heap w) p = Some x \<Longrightarrow>
   put_item (Some p) y w = Inr (w\<lparr>w_item_heap := (w_item_heap w)\<lparr>hp_obj := (hp_obj (w_item_heap w))(p \<mapsto> y)\<rparr>\<rparr>)"
  by (simp add: put_item_def store_ok)

lemma array_set_result:
  assumes "arr_ok a" "i < arr_size a"
  obtains a' where "array_set a i e = Inr (True, a')" "arr_ok a'" "contents a' = (contents a)[i := e]"
  using array_set_ok [OF assms, of e] by blast

lemma remove_item_from_bag_ok:
  assumes table: "bag_table_ok (w_bags w)" and ok: "stored_ok (hp_obj (w_item_heap w)) (contents (w_bags w))"
    and it: "hp_obj (w_item_heap w) p = Some it"
  obtains bags it' where
    "remove_item_from_bag (Some p) w = Inr (w\<lparr>w_bags := bags,
       w_item_heap := (w_item_heap w)\<lparr>hp_obj := (hp_obj (w_item_heap w))(p \<mapsto> it')\<rparr>\<rparr>)"
    "bag_table_ok bags" "same_bags (w_bags w) bags"
    "stored_ok ((hp_obj (w_item_heap w))(p \<mapsto> it')) (contents bags)"
    "item_bag it' = None" "item_id it' = item_id it"
    "\<forall>b s. vacant (w_bags w) b s \<longrightarrow> vacant bags b s"
    "\<forall>b. item_bag it = Some b \<longrightarrow> vacant bags b (unat (item_slot it))"
proof (cases "item_bag it")
  case None
  have "(hp_obj (w_item_heap w))(p \<mapsto> it) = hp_obj (w_item_heap w)" using it by auto
  then show ?thesis
    using that [of it "w_bags w"] None it table ok by (simp add: remove_item_from_bag_def deref_def same_bags_def)
next
  case (Some b)
  let ?h = "w_item_heap w" and ?bags = "w_bags w" and ?s = "unat (item_slot it)"
  let ?x = "contents ?bags ! b"
  note s = stored_okD [OF ok it Some]
  have t: "arr_ok ?bags" "arr_size ?bags = 32" using table by (auto simp: bag_table_ok_def)
  have b: "b < arr_size ?bags" using s(1) t by (simp add: length_contents)
  have a: "arr_ok (bag_items ?x)" "?s < arr_size (bag_items ?x)"
    using s(2,4) by (auto simp: slot_ok_def length_contents)
  obtain a' where a': "array_set (bag_items ?x) ?s None = Inr (True, a')" "arr_ok a'"
    "contents a' = (slots ?x)[?s := None]"
    using array_set_result [OF a] by blast
  define it' where "it' = it\<lparr>item_bag := None, item_slot := 0\<rparr>"
  define x where "x = ?x\<lparr>bag_items := a', bag_item_count := bag_item_count ?x - 1\<rparr>"
  let ?w = "w\<lparr>w_item_heap := ?h\<lparr>hp_obj := (hp_obj ?h)(p \<mapsto> it')\<rparr>\<rparr>"
  obtain bags where bags: "put_bag b x ?w = Inr (?w\<lparr>w_bags := bags\<rparr>)" "arr_ok bags"
    "arr_size bags = arr_size ?bags" "contents bags = (contents ?bags)[b := x]"
    using put_bag_ok [of ?w b x] t b by auto
  have run: "remove_item_from_bag (Some p) w = Inr (?w\<lparr>w_bags := bags\<rparr>)"
    unfolding remove_item_from_bag_def
    using it Some t b a a'(1) bags(1) s(3)
    by (simp add: deref_def put_item_ok [OF it] ignored_def array_inside_def
        it'_def [symmetric] x_def [symmetric])
  note same = bag_table_same [OF table bags(2-4)]
  have id: "bag_id x = bag_id ?x" by (simp add: x_def)
  have len: "length (slots (contents bags ! c)) = length (slots (contents ?bags ! c))" for c
    using bags(4) a'(3) by (cases "c = b"; cases "b < length (contents ?bags)") (auto simp: x_def not_less list_update_beyond)
  have stored: "stored_ok ((hp_obj ?h)(p \<mapsto> it')) (contents bags)"
    unfolding bags(4) using stored_ok_take [OF ok it Some _ a'(2,3), of it' x] by (simp add: it'_def x_def)
  have vac: "vacant bags c r" if "vacant ?bags c r" for c r
    using that s(1,2) bags(4) a'(3) by (cases "c = b") (auto simp: vacant_def x_def nth_list_update)
  have here: "vacant bags b ?s"
    using s(1,2) bags(4) a'(3) b t by (auto simp: vacant_def x_def)
  show ?thesis
    using that [of it' bags] run same(2) [OF id] stored vac here Some len same(1,3) [OF id]
    by (simp add: it'_def same_bags_def)
qed

lemma place_item_ok:
  assumes table: "bag_table_ok (w_bags w)" and ok: "stored_ok (hp_obj (w_item_heap w)) (contents (w_bags w))"
    and it: "hp_obj (w_item_heap w) p = Some it" "item_bag it = None"
    and it': "item_bag it' = Some b" "unat (item_slot it') = s"
    and v: "vacant (w_bags w) b s"
    and a: "arr_ok a" "contents a = (slots (contents (w_bags w) ! b))[s := Some p]"
  obtains bags where
    "put_bag b ((contents (w_bags w) ! b)\<lparr>bag_items := a,
         bag_item_count := bag_item_count (contents (w_bags w) ! b) + 1\<rparr>)
       (w\<lparr>w_item_heap := (w_item_heap w)\<lparr>hp_obj := (hp_obj (w_item_heap w))(p \<mapsto> it')\<rparr>\<rparr>) =
     Inr (w\<lparr>w_bags := bags,
       w_item_heap := (w_item_heap w)\<lparr>hp_obj := (hp_obj (w_item_heap w))(p \<mapsto> it')\<rparr>\<rparr>)"
    "bag_table_ok bags" "same_bags (w_bags w) bags"
    "stored_ok ((hp_obj (w_item_heap w))(p \<mapsto> it')) (contents bags)"
    "\<forall>c. c \<noteq> b \<longrightarrow> slots (contents bags ! c) = slots (contents (w_bags w) ! c)"
proof -
  let ?h = "w_item_heap w" and ?bags = "w_bags w" and ?x = "contents (w_bags w) ! b"
  let ?w = "w\<lparr>w_item_heap := ?h\<lparr>hp_obj := (hp_obj ?h)(p \<mapsto> it')\<rparr>\<rparr>"
  define x where "x = ?x\<lparr>bag_items := a, bag_item_count := bag_item_count ?x + 1\<rparr>"
  have t: "arr_ok ?bags" "arr_size ?bags = 32" using table by (auto simp: bag_table_ok_def)
  have b: "b < 32" "s < length (slots ?x)" "slots ?x ! s = None" using v by (auto simp: vacant_def)
  obtain bags where bags: "put_bag b x ?w = Inr (?w\<lparr>w_bags := bags\<rparr>)" "arr_ok bags"
    "arr_size bags = arr_size ?bags" "contents bags = (contents ?bags)[b := x]"
    using put_bag_ok [of ?w b x] t b(1) by auto
  note same = bag_table_same [OF table bags(2-4)]
  have id: "bag_id x = bag_id ?x" by (simp add: x_def)
  have len: "length (slots (contents bags ! c)) = length (slots (contents ?bags ! c))" for c
    using bags(4) a(2) by (cases "c = b"; cases "b < length (contents ?bags)") (auto simp: x_def not_less list_update_beyond)
  have "stored_ok ((hp_obj ?h)(p \<mapsto> it')) (contents bags)"
    unfolding bags(4)
    using stored_ok_put [OF ok it it' _ b(2,3) a, of x] b(1) t by (simp add: x_def length_contents)
  then show ?thesis
    using that [of bags] bags(1,4) same(2) [OF id] same(1,3) [OF id] len
    by (simp add: x_def same_bags_def)
qed

section \<open>The invariant\<close>

text \<open>The pointers in the array of the items, which is indexed by their identifiers.\<close>

definition listed :: "(nat \<Rightarrow> item option) \<Rightarrow> ptr list \<Rightarrow> bool" where
  "listed obj ps \<longleftrightarrow> (\<forall>i < length ps. \<forall>p. ps ! i = Some p \<longrightarrow>
     (\<exists>it. obj p = Some it \<and> unat (item_id it) = i))"

text \<open>A place without a bag has no items.\<close>

definition unused_empty :: "bag carray \<Rightarrow> bool" where
  "unused_empty bags \<longleftrightarrow> (\<forall>b < 32. bag_id (contents bags ! b) = 0 \<longrightarrow> count_items (slots (contents bags ! b)) = 0)"

lemma same_bags_unused:
  assumes "bag_table_ok bags" "bag_table_ok bags'" "same_bags bags bags'" "b < 32"
  shows "bag_id (contents bags' ! b) = 0 \<longleftrightarrow> bag_id (contents bags ! b) = 0"
proof -
  have "arr_size bags = 32" "arr_size bags' = 32" using assms(1,2) by (auto simp: bag_table_ok_def)
  moreover have "bag_at bags' b = bag_at bags b" using assms(3) by (simp add: same_bags_def)
  ultimately show ?thesis using assms(4) by (auto simp: bag_at_def split: if_splits)
qed

lemma unused_empty_vacant:
  assumes ok: "bag_table_ok bags" "bag_table_ok bags'" and same: "same_bags bags bags'"
    and e: "unused_empty bags" and vac: "\<forall>b s. vacant bags b s \<longrightarrow> vacant bags' b s"
  shows "unused_empty bags'"
  unfolding unused_empty_def
proof (intro allI impI)
  fix b :: nat assume b: "b < 32" "bag_id (contents bags' ! b) = 0"
  then have "count_items (slots (contents bags ! b)) = 0"
    using e same_bags_unused [OF ok same] by (simp add: unused_empty_def)
  then have "\<forall>s < length (slots (contents bags ! b)). vacant bags b s"
    using b(1) by (auto simp: count_items_def filter_empty_conv vacant_def)
  then have "\<forall>s < length (slots (contents bags' ! b)). slots (contents bags' ! b) ! s = None"
    using same vac b(1) by (auto simp: same_bags_def vacant_def)
  then show "count_items (slots (contents bags' ! b)) = 0"
    by (auto simp: count_items_def filter_empty_conv in_set_conv_nth)
qed

definition inventory_ok :: "world \<Rightarrow> bool" where
  "inventory_ok w \<longleftrightarrow> bag_table_ok (w_bags w) \<and>
     stored_ok (hp_obj (w_item_heap w)) (contents (w_bags w)) \<and>
     (\<forall>p \<ge> hp_next (w_item_heap w). hp_obj (w_item_heap w) p = None) \<and>
     arr_ok (w_items w) \<and> arr_capacity (w_items w) = arr_size (w_items w) \<and> arr_size (w_items w) \<le> 2 ^ 34 \<and>
     listed (hp_obj (w_item_heap w)) (contents (w_items w)) \<and>
     length (inv_bags (w_inventory w)) = nat BagEnum_Count \<and>
     unused_empty (w_bags w)"

definition item_at :: "world \<Rightarrow> u32 \<Rightarrow> ptr" where
  "item_at w ident = (if inside_signed (w_items w) (sint ident)
     then contents (w_items w) ! nat (sint ident) else None)"

lemma inventory_okD:
  assumes "inventory_ok w"
  shows "bag_table_ok (w_bags w)" "stored_ok (hp_obj (w_item_heap w)) (contents (w_bags w))"
    "arr_ok (w_items w)" "listed (hp_obj (w_item_heap w)) (contents (w_items w))"
  using assms by (auto simp: inventory_ok_def)

lemma get_item_safe_at: "inventory_ok w \<Longrightarrow> get_item_safe w ident = Inr (item_at w ident)"
  by (auto simp: get_item_safe_def item_at_def inventory_ok_def inside_signed_def array_inside_def)

lemma item_at_Some:
  assumes "inventory_ok w" "item_at w ident = Some p"
  obtains it where "hp_obj (w_item_heap w) p = Some it" "item_id it = ident"
    "nat (sint ident) < arr_size (w_items w)" "contents (w_items w) ! nat (sint ident) = Some p" "0 \<le> sint ident"
proof -
  have i: "0 \<le> sint ident" "nat (sint ident) < arr_size (w_items w)" "contents (w_items w) ! nat (sint ident) = Some p"
    using assms(2) by (auto simp: item_at_def inside_signed_def array_inside_def split: if_splits)
  obtain it where it: "hp_obj (w_item_heap w) p = Some it" "unat (item_id it) = nat (sint ident)"
    using inventory_okD(3,4) [OF assms(1)] i by (auto simp: listed_def length_contents)
  have "uint (item_id it) = sint ident" using it(2) i(1) by (metis int_nat_eq uint_nat)
  then have "of_int (uint (item_id it)) = (of_int (sint ident) :: u32)" by simp
  then have "item_id it = ident" by simp
  then show ?thesis using that it(1) i by blast
qed

lemma listed_same:
  "listed obj ps \<Longrightarrow> obj p = Some it \<Longrightarrow> item_id it' = item_id it \<Longrightarrow> listed (obj(p \<mapsto> it')) ps"
  unfolding listed_def by fastforce

lemma listed_remove:
  assumes "listed obj ps" "obj p = Some it" "unat (item_id it) = i"
  shows "listed (obj(p := None)) (ps[i := None])"
  unfolding listed_def
proof (intro allI impI)
  fix j q assume j: "j < length (ps[i := None])" "ps[i := None] ! j = Some q"
  then have "j \<noteq> i" by auto
  then have "ps ! j = Some q" using j by simp
  then obtain jt where jt: "obj q = Some jt" "unat (item_id jt) = j" using assms(1) j(1) by (auto simp: listed_def)
  then have "q \<noteq> p" using assms(2,3) \<open>j \<noteq> i\<close> by auto
  then show "\<exists>it. (obj(p := None)) q = Some it \<and> unat (item_id it) = j" using jt by simp
qed

text \<open>Changing members of an item that do not tie it to a bag.\<close>

lemma inventory_ok_member:
  assumes ok: "inventory_ok w" and it: "hp_obj (w_item_heap w) p = Some it"
    and same: "item_bag it' = item_bag it" "item_slot it' = item_slot it" "item_id it' = item_id it"
  shows "inventory_ok (w\<lparr>w_item_heap := (w_item_heap w)\<lparr>hp_obj := (hp_obj (w_item_heap w))(p \<mapsto> it')\<rparr>\<rparr>)"
  using ok it stored_ok_same [of "hp_obj (w_item_heap w)" "contents (w_bags w)" p it it'] same
    listed_same [of "hp_obj (w_item_heap w)" "contents (w_items w)" p it it']
  by (auto simp: inventory_ok_def)

lemma inventory_item_quantity_ok:
  assumes "inventory_ok w"
  shows "\<exists>w'. inventory_item_quantity ident q w = Inr w' \<and> inventory_ok w'"
proof (cases "item_at w ident")
  case None
  then show ?thesis using assms by (simp add: inventory_item_quantity_def get_item_safe_at)
next
  case (Some p)
  obtain it where "hp_obj (w_item_heap w) p = Some it" using item_at_Some [OF assms Some] .
  then show ?thesis using assms Some inventory_ok_member [OF assms]
    by (simp add: inventory_item_quantity_def get_item_safe_at deref_def put_item_ok)
qed

lemma item_price_quote_ok:
  assumes "inventory_ok w" "item_at w ident = Some p"
  shows "\<exists>w'. item_price_quote ident price w = Inr w' \<and> inventory_ok w'"
proof -
  obtain it where it: "hp_obj (w_item_heap w) p = Some it" "nat (sint ident) < arr_size (w_items w)"
    "contents (w_items w) ! nat (sint ident) = Some p" "0 \<le> sint ident"
    using item_at_Some [OF assms] by blast
  then show ?thesis using inventory_okD(3) [OF assms(1)] inventory_ok_member [OF assms(1) it(1)]
    by (simp add: item_price_quote_def inside_signed_def array_inside_def deref_def put_item_ok)
qed

lemma item_remove_ok:
  assumes ok: "inventory_ok w"
  shows "\<exists>w'. item_remove ident w = Inr w' \<and> inventory_ok w'"
proof (cases "item_at w ident")
  case None
  then show ?thesis using ok by (simp add: item_remove_def get_item_safe_at)
next
  case (Some p)
  let ?i = "nat (sint ident)" and ?obj = "hp_obj (w_item_heap w)"
  obtain it where it: "?obj p = Some it" "item_id it = ident" "?i < arr_size (w_items w)"
    "contents (w_items w) ! ?i = Some p" "0 \<le> sint ident"
    using item_at_Some [OF ok Some] by blast
  note o = inventory_okD [OF ok]
  have idx: "unat (item_id it) = ?i" using o(3,4) it by (force simp: listed_def length_contents)
  obtain items where items: "array_set (w_items w) ?i None = Inr (True, items)" "arr_ok items"
    "contents items = (contents (w_items w))[?i := None]"
    using array_set_result [OF o(3) it(3)] by blast
  have size: "arr_size items = arr_size (w_items w)" "arr_capacity items = arr_capacity (w_items w)"
    using items(1) it(3) o(3) by (auto simp: array_set_def array_inside_def arr_ok_def)
  let ?w = "w\<lparr>w_items := items\<rparr>"
  have w: "bag_table_ok (w_bags ?w)" "stored_ok (hp_obj (w_item_heap ?w)) (contents (w_bags ?w))"
    "hp_obj (w_item_heap ?w) p = Some it"
    using o(1,2) it(1) by simp_all
  obtain bags it' where r: "remove_item_from_bag (Some p) ?w = Inr (?w\<lparr>w_bags := bags,
       w_item_heap := (w_item_heap ?w)\<lparr>hp_obj := (hp_obj (w_item_heap ?w))(p \<mapsto> it')\<rparr>\<rparr>)"
    "bag_table_ok bags" "same_bags (w_bags ?w) bags"
    "stored_ok ((hp_obj (w_item_heap ?w))(p \<mapsto> it')) (contents bags)"
    "item_bag it' = None" "item_id it' = item_id it"
    "\<forall>b s. vacant (w_bags ?w) b s \<longrightarrow> vacant bags b s"
    using remove_item_from_bag_ok [OF w] by metis
  note r = r [simplified]
  let ?it = "it'\<lparr>item_mod_struct := array_reset (item_mod_struct it')\<rparr>"
  have free: "free_item (Some p) ((w_item_heap w)\<lparr>hp_obj := ?obj(p \<mapsto> it')\<rparr>) =
      Inr ((w_item_heap w)\<lparr>hp_obj := ?obj(p := None)\<rparr>)"
    by (simp add: free_item_def release_def store_def deref_def)
  have stored: "stored_ok (?obj(p := None)) (contents bags)"
    using stored_ok_free [OF r(4), of p it'] r(5) by simp
  have listed: "listed (?obj(p := None)) (contents items)"
    unfolding items(3) using o(4) it(1) idx by (rule listed_remove)
  have empty: "unused_empty bags"
    using unused_empty_vacant [OF o(1) r(2,3)] ok r(7) by (simp add: inventory_ok_def)
  show ?thesis
    using ok Some r(1,2) items(1,2) size free stored listed empty
    by (auto simp: item_remove_def get_item_safe_at ignored_def inventory_ok_def)
qed

section \<open>Placing items\<close>

lemma slot_index: "0 \<le> sint (s :: u8) \<Longrightarrow> unat (scast s :: u32) = nat (sint s)"
proof -
  assume "0 \<le> sint s"
  then have "sint s mod 2 ^ 32 = sint s" using sint_lt [of s] by (intro mod_pos_pos_trivial) auto
  moreover have "uint (scast s :: u32) = sint s mod 2 ^ 32" unfolding scast_eq uint_word_of_int by simp
  ultimately show ?thesis by (simp only: unat_eq_nat_uint)
qed

text \<open>The item that a message places fits: it is not elsewhere, and the slot is free.\<close>

definition placed_well :: "world \<Rightarrow> u32 \<Rightarrow> u16 \<Rightarrow> u8 \<Rightarrow> bool" where
  "placed_well w ident bag slot \<longleftrightarrow> (case item_at w ident of None \<Rightarrow> True
     | Some p \<Rightarrow> (case hp_obj (w_item_heap w) p of None \<Rightarrow> False
       | Some it \<Rightarrow> (case bag_map (w_bags w) bag of None \<Rightarrow> False
         | Some b \<Rightarrow> 0 \<le> sint bag \<and> 0 \<le> sint slot \<and> item_bag it = None \<and>
             vacant (w_bags w) b (nat (sint slot)))))"

text \<open>An item that moves may also stay where it is.\<close>

definition moved_well :: "world \<Rightarrow> u32 \<Rightarrow> u16 \<Rightarrow> u8 \<Rightarrow> bool" where
  "moved_well w ident bag slot \<longleftrightarrow> (case item_at w ident of None \<Rightarrow> True
     | Some p \<Rightarrow> (case hp_obj (w_item_heap w) p of None \<Rightarrow> False
       | Some it \<Rightarrow> (case bag_map (w_bags w) bag of None \<Rightarrow> False
         | Some b \<Rightarrow> 0 \<le> sint bag \<and> 0 \<le> sint slot \<and>
             (vacant (w_bags w) b (nat (sint slot)) \<or>
              item_bag it = Some b \<and> unat (item_slot it) = nat (sint slot)))))"

lemma unused_empty_place:
  assumes ok: "bag_table_ok bags" "bag_table_ok bags'" "same_bags bags bags'"
    and e: "unused_empty bags" and b: "b < 32" "bag_id (contents bags ! b) \<noteq> 0"
    and other: "\<forall>c. c \<noteq> b \<longrightarrow> slots (contents bags' ! c) = slots (contents bags ! c)"
  shows "unused_empty bags'"
  unfolding unused_empty_def
proof (intro allI impI)
  fix c :: nat assume c: "c < 32" "bag_id (contents bags' ! c) = 0"
  then have "bag_id (contents bags ! c) = 0" using same_bags_unused [OF ok c(1)] by simp
  moreover then have "c \<noteq> b" using b by auto
  ultimately show "count_items (slots (contents bags' ! c)) = 0"
    using e c(1) other by (simp add: unused_empty_def)
qed

text \<open>What an item in a bag at a free slot looks like; shared by both messages.\<close>

lemma inventory_ok_placed:
  assumes ok: "inventory_ok w" and it: "hp_obj (w_item_heap w) p = Some it" and same: "item_id it' = item_id it"
    and bags: "bag_table_ok bags" "same_bags (w_bags w) bags"
      "stored_ok ((hp_obj (w_item_heap w))(p \<mapsto> it')) (contents bags)" "unused_empty bags"
  shows "inventory_ok (w\<lparr>w_bags := bags,
    w_item_heap := (w_item_heap w)\<lparr>hp_obj := (hp_obj (w_item_heap w))(p \<mapsto> it')\<rparr>\<rparr>)"
  using ok bags it listed_same [of "hp_obj (w_item_heap w)" "contents (w_items w)" p it it'] same
  by (auto simp: inventory_ok_def)

lemma bag_known:
  assumes "bag_table_ok bags" "bag_map bags ident = Some b"
  shows "b < 32" "b < arr_size bags" "bag_id (contents bags ! b) = ident" "ident \<noteq> 0"
  using bag_map_Some [OF assms(1)] assms by (auto simp: bag_at_def bag_table_ok_def split: if_splits)

lemma inventory_item_location_ok:
  assumes ok: "inventory_ok w" and fits: "placed_well w ident bag slot"
  shows "\<exists>w'. inventory_item_location ident bag slot w = Inr w' \<and> inventory_ok w'"
proof (cases "item_at w ident")
  case None
  then show ?thesis
    using ok by (auto simp: inventory_item_location_def item_at_def inventory_ok_def inside_signed_def
        array_inside_def split: if_splits)
next
  case (Some p)
  let ?bags = "w_bags w" and ?h = "w_item_heap w" and ?s = "nat (sint slot)"
  note o = inventory_okD [OF ok]
  obtain it where it: "hp_obj ?h p = Some it" "nat (sint ident) < arr_size (w_items w)"
    "contents (w_items w) ! nat (sint ident) = Some p" "0 \<le> sint ident"
    using item_at_Some [OF ok Some] by blast
  obtain b where b: "bag_map ?bags bag = Some b" "0 \<le> sint bag" "0 \<le> sint slot" "item_bag it = None"
    "vacant ?bags b ?s"
    using fits Some it(1) by (auto simp: placed_well_def split: option.splits)
  note k = bag_known [OF o(1) b(1)]
  let ?x = "contents ?bags ! b"
  have found: "find_bag ?bags bag = Inr b"
    using find_bag_found [OF o(1) _ b(2)] bag_map_Some [OF o(1)] b(1) by blast
  have t: "arr_ok ?bags" "arr_size ?bags = 32" using o(1) by (auto simp: bag_table_ok_def)
  have x: "slot_ok (hp_obj ?h) b ?x" using o(2) k t by (simp add: stored_ok_def length_contents)
  then have s: "arr_ok (bag_items ?x)" "?s < arr_size (bag_items ?x)"
    using b(5) by (auto simp: slot_ok_def vacant_def length_contents)
  obtain a where a: "array_set (bag_items ?x) ?s (Some p) = Inr (True, a)" "arr_ok a"
    "contents a = (slots ?x)[?s := Some p]"
    using array_set_result [OF s] by blast
  let ?it = "it\<lparr>item_bag := Some b, item_slot := scast slot\<rparr>"
  have si: "item_bag ?it = Some b" "unat (item_slot ?it) = ?s" using b(3) by (simp_all add: slot_index)
  obtain bags where bags: "put_bag b (?x\<lparr>bag_items := a, bag_item_count := bag_item_count ?x + 1\<rparr>)
       (w\<lparr>w_item_heap := ?h\<lparr>hp_obj := (hp_obj ?h)(p \<mapsto> ?it)\<rparr>\<rparr>) =
     Inr (w\<lparr>w_bags := bags, w_item_heap := ?h\<lparr>hp_obj := (hp_obj ?h)(p \<mapsto> ?it)\<rparr>\<rparr>)"
    "bag_table_ok bags" "same_bags ?bags bags" "stored_ok ((hp_obj ?h)(p \<mapsto> ?it)) (contents bags)"
    "\<forall>c. c \<noteq> b \<longrightarrow> slots (contents bags ! c) = slots (contents ?bags ! c)"
    using place_item_ok [OF o(1,2) it(1) b(4) si b(5) a(2,3)] by metis
  have "uint (bag_id ?x) = sint bag" using k(3) uint_nonneg [OF b(2)] by simp
  then have run: "inventory_item_location ident bag slot w =
      Inr (w\<lparr>w_bags := bags, w_item_heap := ?h\<lparr>hp_obj := (hp_obj ?h)(p \<mapsto> ?it)\<rparr>\<rparr>)"
    using it o(3) found k t s a(1) bags(1) b(3)
    by (simp add: inventory_item_location_def inside_signed_def array_inside_def deref_def
        put_item_ok [OF it(1)] ignored_def)
  have "unused_empty bags"
    using unused_empty_place [OF o(1) bags(2,3) _ k(1) _ bags(5)] ok k(3,4) by (simp add: inventory_ok_def)
  then show ?thesis
    using run inventory_ok_placed [OF ok it(1) _ bags(2-4), of ] by simp
qed

lemma array_poke:
  assumes "arr_ok a" "i < arr_size a"
  shows "upd (arr_data a) i e = Inr ((arr_data a)[i := e])" "arr_ok (a\<lparr>arr_data := (arr_data a)[i := e]\<rparr>)"
    "contents (a\<lparr>arr_data := (arr_data a)[i := e]\<rparr>) = (contents a)[i := e]"
  using assms by (auto simp: arr_ok_def contents_def take_update_swap)

lemma item_change_location_ok:
  assumes ok: "inventory_ok w" and fits: "moved_well w ident bag slot"
  shows "\<exists>w'. item_change_location ident bag slot w = Inr w' \<and> inventory_ok w'"
proof (cases "item_at w ident")
  case None
  then show ?thesis using ok by (simp add: item_change_location_def get_item_safe_at)
next
  case (Some p)
  let ?h = "w_item_heap w" and ?s = "nat (sint slot)"
  note o = inventory_okD [OF ok]
  obtain it where it: "hp_obj ?h p = Some it" using item_at_Some [OF ok Some] by blast
  obtain b where b: "bag_map (w_bags w) bag = Some b" "0 \<le> sint bag" "0 \<le> sint slot"
    and v: "vacant (w_bags w) b ?s \<or> item_bag it = Some b \<and> unat (item_slot it) = ?s"
    using fits Some it(1) by (auto simp: moved_well_def split: option.splits)
  have found: "find_bag (w_bags w) bag = Inr b"
    using find_bag_found [OF o(1) _ b(2)] bag_map_Some [OF o(1)] b(1) by blast
  obtain bags1 it1 where r: "remove_item_from_bag (Some p) w = Inr (w\<lparr>w_bags := bags1,
       w_item_heap := ?h\<lparr>hp_obj := (hp_obj ?h)(p \<mapsto> it1)\<rparr>\<rparr>)"
    "bag_table_ok bags1" "same_bags (w_bags w) bags1" "stored_ok ((hp_obj ?h)(p \<mapsto> it1)) (contents bags1)"
    "item_bag it1 = None" "item_id it1 = item_id it"
    "\<forall>b s. vacant (w_bags w) b s \<longrightarrow> vacant bags1 b s"
    "\<forall>b. item_bag it = Some b \<longrightarrow> vacant bags1 b (unat (item_slot it))"
    using remove_item_from_bag_ok [OF o(1,2) it] by metis
  have v1: "vacant bags1 b ?s" using v r(7,8) by metis
  define w1 where "w1 = w\<lparr>w_bags := bags1, w_item_heap := ?h\<lparr>hp_obj := (hp_obj ?h)(p \<mapsto> it1)\<rparr>\<rparr>"
  have e1: "unused_empty bags1" using unused_empty_vacant [OF o(1) r(2,3) _ r(7)] ok by (simp add: inventory_ok_def)
  have ok1: "inventory_ok w1"
    unfolding w1_def using inventory_ok_placed [OF ok it r(6) r(2-4) e1] .
  note o1 = inventory_okD [OF ok1]
  have w1: "w_bags w1 = bags1" "hp_obj (w_item_heap w1) p = Some it1" by (simp_all add: w1_def)
  have "bag_map (w_bags w1) bag = Some b" using b(1) r(3) w1 by (simp add: same_bags_def)
  note k = bag_known [OF o1(1) this]
  let ?x = "contents bags1 ! b"
  have t: "arr_ok bags1" "arr_size bags1 = 32" using r(2) by (auto simp: bag_table_ok_def)
  have x: "slot_ok (hp_obj (w_item_heap w1)) b ?x" using o1(2) k t w1 by (simp add: stored_ok_def length_contents)
  then have s: "arr_ok (bag_items ?x)" "?s < arr_size (bag_items ?x)"
    using v1 by (auto simp: slot_ok_def vacant_def length_contents)
  let ?a = "(bag_items ?x)\<lparr>arr_data := (arr_data (bag_items ?x))[?s := Some p]\<rparr>"
  let ?it = "it1\<lparr>item_bag := Some b, item_slot := scast slot\<rparr>"
  have si: "item_bag ?it = Some b" "unat (item_slot ?it) = ?s" using b(3) by (simp_all add: slot_index)
  have pa: "upd (arr_data (bag_items ?x)) ?s (Some p) = Inr ((arr_data (bag_items ?x))[?s := Some p])"
    "arr_ok ?a" "contents ?a = (slots (contents (w_bags w1) ! b))[?s := Some p]"
    using array_poke [OF s] w1(1) by simp_all
  have v': "vacant (w_bags w1) b ?s" using v1 w1(1) by simp
  obtain bags where bags: "put_bag b ((contents (w_bags w1) ! b)\<lparr>bag_items := ?a,
         bag_item_count := bag_item_count (contents (w_bags w1) ! b) + 1\<rparr>)
       (w1\<lparr>w_item_heap := (w_item_heap w1)\<lparr>hp_obj := (hp_obj (w_item_heap w1))(p \<mapsto> ?it)\<rparr>\<rparr>) =
     Inr (w1\<lparr>w_bags := bags, w_item_heap := (w_item_heap w1)\<lparr>hp_obj := (hp_obj (w_item_heap w1))(p \<mapsto> ?it)\<rparr>\<rparr>)"
    "bag_table_ok bags" "same_bags (w_bags w1) bags"
    "stored_ok ((hp_obj (w_item_heap w1))(p \<mapsto> ?it)) (contents bags)"
    "\<forall>c. c \<noteq> b \<longrightarrow> slots (contents bags ! c) = slots (contents (w_bags w1) ! c)"
    using place_item_ok [OF o1(1,2) w1(2) r(5) si v' pa(2,3)] by metis
  have run: "item_change_location ident bag slot w =
      Inr (w1\<lparr>w_bags := bags, w_item_heap := (w_item_heap w1)\<lparr>hp_obj := (hp_obj (w_item_heap w1))(p \<mapsto> ?it)\<rparr>\<rparr>)"
    using Some found r(1) w1 t k(1) pa(1) bags(1) b(3)
    by (simp add: item_change_location_def get_item_safe_at [OF ok] w1_def [symmetric] deref_def
        put_item_ok [OF w1(2)])
  have "unused_empty bags"
    using unused_empty_place [OF o1(1) bags(2,3) _ k(1) _ bags(5)] ok1 k(3,4) by (simp add: inventory_ok_def)
  then show ?thesis using run inventory_ok_placed [OF ok1 w1(2) _ bags(2-4)] by simp
qed

section \<open>New bags and new items\<close>

lemma inventory_create_bag_ok:
  assumes ok: "inventory_ok w" and mem: "\<forall>n. alloc n"
    and new: "ident \<noteq> 0" "bag_map (w_bags w) ident = None"
    and free: "bag_at (w_bags w) (bag_probe.nth_place ident n) = None"
    and args: "0 \<le> sint slot_count" "0 \<le> sint model" "sint model < BagEnum_Count"
  shows "\<exists>w' b. inventory_create_bag alloc type model ident slot_count w = Inr w' \<and> inventory_ok w' \<and>
    bag_map (w_bags w') = (bag_map (w_bags w))(ident \<mapsto> b) \<and> (\<forall>s < nat (sint slot_count). vacant (w_bags w') b s) \<and>
    w_items w' = w_items w \<and> w_item_heap w' = w_item_heap w"
proof -
  note o = inventory_okD [OF ok]
  have inv: "length (inv_bags (w_inventory w)) = nat BagEnum_Count" using ok by (simp add: inventory_ok_def)
  obtain b sl bags where b: "b < 32" "bag_at (w_bags w) b = None"
    "arr_ok sl" "contents sl = replicate (nat (sint slot_count)) None"
    "bag_table_ok bags" "bag_map bags = (bag_map (w_bags w))(ident \<mapsto> b)"
    and c: "contents bags = (contents (w_bags w))[b := (contents (w_bags w) ! b)\<lparr>bag_id := ident, bag_type := type,
       bag_model := model, bag_items := sl\<rparr>]"
    and run: "inventory_create_bag alloc type model ident slot_count w = Inr (w\<lparr>w_bags := bags,
       w_inventory := (w_inventory w)\<lparr>inv_bags := (inv_bags (w_inventory w))[nat (sint model) := Some b]\<rparr>\<rparr>)"
    using create_bag_ok [OF o(1) new free args inv mem, of type] by metis
  have l: "length (contents (w_bags w)) = 32" using o(1) by (simp add: bag_table_ok_def length_contents)
  have z: "bag_id (contents (w_bags w) ! b) = 0" using b(1,2) o(1) by (auto simp: bag_at_def bag_table_ok_def split: if_splits)
  then have e: "count_items (slots (contents (w_bags w) ! b)) = 0"
    using ok b(1) by (simp add: inventory_ok_def unused_empty_def)
  have "stored_ok (hp_obj (w_item_heap w)) (contents bags)"
    unfolding c using stored_ok_bag [OF o(2) _ z e b(3,4)] b(1) l by simp
  moreover have "unused_empty bags"
    using ok b(1) c l new(1) by (auto simp: inventory_ok_def unused_empty_def nth_list_update)
  moreover have "\<forall>s < nat (sint slot_count). vacant bags b s"
    using b(1,4) c l by (simp add: vacant_def)
  ultimately show ?thesis using ok run b(5,6) by (auto simp: inventory_ok_def)
qed

text \<open>Entering a new item: its place in the array, which may have to grow, is empty.\<close>

lemma listed_new:
  assumes "listed obj ps" "unat (item_id it) = i" "obj p = None"
  shows "listed (obj(p \<mapsto> it)) (ps[i := Some p])"
  unfolding listed_def
proof (intro allI impI)
  fix j q assume j: "j < length (ps[i := Some p])" "ps[i := Some p] ! j = Some q"
  show "\<exists>jt. (obj(p \<mapsto> it)) q = Some jt \<and> unat (item_id jt) = j"
  proof (cases "j = i")
    case True
    then show ?thesis using j assms(2) by auto
  next
    case False
    then have "ps ! j = Some q" using j(2) by simp
    then obtain jt where "obj q = Some jt" "unat (item_id jt) = j" using assms(1) j(1) by (auto simp: listed_def)
    then show ?thesis using assms(3) by auto
  qed
qed

lemma item_name_read:
  assumes "length name = 64"
  obtains r k where "kstr_read (zero_kstr 8) name 64 = Inr (r, k)"
proof -
  have k: "kstr_ok (zero_kstr 8)" "64 \<le> length name" "(64 :: nat) < npos"
    using assms by (simp_all add: kstr_ok_def zero_kstr_def npos_def)
  show ?thesis using kstr_read_ok [OF k] that by (auto split: if_splits)
qed

lemma modifiers_pushed:
  assumes mem: "\<forall>n. alloc n" and n: "n \<le> length modifier" "n \<le> 64"
  obtains a mods where "array_push alloc 0 4 (array_init :: u32 carray) n = Inr (Some 0, a)"
    "(if n = 0 then Inr a else bindE (mem_read modifier 0 n) (\<lambda>ms.
        bindE (mem_write (arr_data a) 0 ms) (\<lambda>d. Inr (a\<lparr>arr_data := d\<rparr>)))) = Inr mods"
proof -
  have z: "arr_size (array_init :: u32 carray) = 0" by (simp add: array_init_def)
  obtain a where a: "array_push alloc 0 4 (array_init :: u32 carray) n = Inr (Some 0, a)" "arr_ok a" "arr_size a = n"
    using array_push_ok [OF arr_ok_init, of 4 n alloc "0 :: u32"] mem n z
    by (auto simp: SZ_def ARRAY_MIN_CAPACITY_def)
  have "n \<le> length (arr_data a)" using a(2,3) by (auto simp: arr_ok_def)
  then show ?thesis
    using that [of a "if n = 0 then a else a\<lparr>arr_data := overlay (arr_data a) 0 (take n modifier)\<rparr>"] a(1) n
    by (cases "n = 0") auto
qed

lemma item_general_info_ok:
  assumes ok: "inventory_ok w" and mem: "\<forall>n. alloc n"
    and new: "0 \<le> sint ident" "item_at w ident = None"
    and len: "length name = 64" "n_modifier \<le> length modifier" "n_modifier \<le> 64"
  shows "\<exists>w'. item_general_info alloc ident type flags value model quantity name modifier n_modifier w = Inr w' \<and>
    inventory_ok w' \<and> w_bags w' = w_bags w \<and> item_at w' ident = Some (hp_next (w_item_heap w)) \<and>
    (\<exists>it. hp_obj (w_item_heap w') (hp_next (w_item_heap w)) = Some it \<and> item_id it = ident \<and> item_bag it = None \<and>
       item_quantity it = quantity \<and> item_model_id it = model)"
proof -
  note o = inventory_okD [OF ok]
  let ?i = "nat (sint ident)" and ?h = "w_item_heap w"
  have i: "?i < 2 ^ 31" "to_size (sint ident + 1) = ?i + 1"
    using new(1) sint_lt [of ident] by (auto simp: to_size_def)
  have cap: "arr_capacity (w_items w) = arr_size (w_items w)" "arr_size (w_items w) \<le> 2 ^ 34"
    using ok by (simp_all add: inventory_ok_def)
  obtain items k where items: "(if inside_signed (w_items w) (sint ident) then Inr (w_items w)
            else bindE (ignored (array_resize alloc None sizeof_ptr (w_items w) (to_size (sint ident + 1)))) (\<lambda>a.
                   Inr (a\<lparr>arr_size := arr_capacity a\<rparr>))) = Inr items"
    "arr_ok items" "arr_capacity items = arr_size items" "arr_size items \<le> 2 ^ 34" "?i < arr_size items"
    "contents items = contents (w_items w) @ replicate k None"
  proof (cases "inside_signed (w_items w) (sint ident)")
    case True
    then show ?thesis using that [of "w_items w" 0] o(3) cap by (auto simp: inside_signed_def array_inside_def)
  next
    case False
    then have lt: "arr_size (w_items w) < ?i + 1" using new(1) by (auto simp: inside_signed_def array_inside_def)
    have small: "2 * (arr_size (w_items w) + (?i + 1)) * sizeof_ptr + ARRAY_MIN_CAPACITY * sizeof_ptr < SZ"
      using lt i(1) by (simp add: struct_sizes ARRAY_MIN_CAPACITY_def SZ_def)
    obtain a k where a: "array_resize alloc (None :: ptr) sizeof_ptr (w_items w) (?i + 1) = Inr (True, a)"
      "?i + 1 \<le> arr_capacity a" "arr_capacity a \<le> 2 * (arr_size (w_items w) + (?i + 1)) + ARRAY_MIN_CAPACITY"
      "arr_ok (a\<lparr>arr_size := arr_capacity a\<rparr>)"
      "contents (a\<lparr>arr_size := arr_capacity a\<rparr>) = contents (w_items w) @ replicate k None"
      using array_resize_full [OF o(3) cap(1) _ lt small mem, of None] by (auto simp: struct_sizes)
    have "arr_capacity a \<le> 2 ^ 34" using a(3) lt i(1) by (simp add: ARRAY_MIN_CAPACITY_def)
    then show ?thesis
      using that [of "a\<lparr>arr_size := arr_capacity a\<rparr>" k] False a i(2) by (auto simp: ignored_def)
  qed
  have empty: "contents items ! ?i = None"
  proof (cases "?i < length (contents (w_items w))")
    case True
    then show ?thesis using new o(3) items(6)
      by (auto simp: item_at_def inside_signed_def array_inside_def length_contents nth_append)
  next
    case False
    have "length (contents items) = arr_size items" using items(2) by (rule length_contents)
    then show ?thesis using False items(5,6) by (simp add: nth_append)
  qed
  let ?p = "hp_next ?h"
  have none: "hp_obj ?h ?p = None" using ok by (simp add: inventory_ok_def)
  obtain r nm where nm: "kstr_read (zero_kstr 8) name 64 = Inr (r, nm)" using item_name_read [OF len(1)] .
  define f where "f mods = zero_item\<lparr>item_id := ident, item_flags := flags, item_value := value,
    item_model_id := model, item_quantity := quantity, item_type := type, item_name := nm,
    item_mod_struct := mods\<rparr>" for mods
  obtain a where a: "array_set items ?i (Some ?p) = Inr (True, a)" "arr_ok a"
    "contents a = (contents items)[?i := Some ?p]"
    using array_set_result [OF items(2,5)] by blast
  have size: "arr_size a = arr_size items" "arr_capacity a = arr_capacity items"
    using a(1) items(2,5) by (auto simp: array_set_def array_inside_def arr_ok_def)
  obtain pushed mods where m: "array_push alloc 0 4 (array_init :: u32 carray) n_modifier = Inr (Some 0, pushed)"
    "(if n_modifier = 0 then Inr pushed else bindE (mem_read modifier 0 n_modifier) (\<lambda>ms.
        bindE (mem_write (arr_data pushed) 0 ms) (\<lambda>d. Inr (pushed\<lparr>arr_data := d\<rparr>)))) = Inr mods"
    using modifiers_pushed [OF mem len(2,3)] by metis
  have zi: "item_name (zero_item\<lparr>item_mod_struct := array_init\<rparr>) = zero_kstr 8"
    "item_mod_struct (zero_item\<lparr>item_mod_struct := array_init\<rparr>) = array_init" by (simp_all add: zero_item_def)
  have run: "item_general_info alloc ident type flags value model quantity name modifier n_modifier w =
      Inr (w\<lparr>w_items := a, w_item_heap := ?h\<lparr>hp_next := ?p + 1, hp_obj := (hp_obj ?h)(?p \<mapsto> f mods)\<rparr>\<rparr>)"
    unfolding item_general_info_def items(1)
    using mem items(5) nm a(1) new(1) m
    by (simp add: alloc_item_def new_object_def deref_def store_def f_def zi inside_signed_def
        array_inside_def ignored_def split: if_splits)
  have id: "item_bag (f mods) = None" "item_id (f mods) = ident"
    "item_quantity (f mods) = quantity" "item_model_id (f mods) = model" by (simp_all add: f_def zero_item_def)
  have iu: "unat ident = ?i" unfolding unat_eq_nat_uint uint_nonneg [OF new(1)] ..
  have "listed (hp_obj ?h) (contents items)"
    using o(4) items(6) by (auto simp: listed_def nth_append)
  then have "listed ((hp_obj ?h)(?p \<mapsto> f mods)) (contents a)"
    unfolding a(3) using iu none id(2) by (intro listed_new) simp_all
  moreover have "contents a ! ?i = Some ?p"
    unfolding a(3) using items(2,5) by (simp add: length_contents)
  ultimately show ?thesis
    using run ok a(2) size items(3-5) id new(1) stored_ok_new [OF o(2) none id(1)]
    by (simp add: inventory_ok_def item_at_def inside_signed_def array_inside_def)
qed

end
