(* ===== verification/Inventory_Session.thy ===== *)
theory Inventory_Session
  imports Inventory
begin

text \<open>
  The messages of the server about the inventory as steps, and whole sessions of them. A session in
  which the server keeps to the protocol, written as \<open>fitting\<close>, meets no fault from any state
  that satisfies the invariant, such as the one \<open>init_world\<close> creates. A server that does not
  keep to it makes the handlers use memory they do not own, which the last section shows.
\<close>

section \<open>Sessions\<close>

datatype inventory_msg =
    ItemInfo u32 u8 u32 u32 u32 u32 "u16 list" "u32 list" nat
  | ItemRemoved u32
  | ItemQuantity u32 u32
  | ItemLocation u32 u16 u8
  | ItemMoved u32 u16 u8
  | BagCreated u8 u8 u16 u8
  | ItemPriced u32 u32

fun inventory_step :: "(nat \<Rightarrow> bool) \<Rightarrow> inventory_msg \<Rightarrow> world \<Rightarrow> fault + world" where
  "inventory_step alloc (ItemInfo ident type flags value model quantity name modifier n) w =
     item_general_info alloc ident type flags value model quantity name modifier n w"
| "inventory_step alloc (ItemRemoved ident) w = item_remove ident w"
| "inventory_step alloc (ItemQuantity ident quantity) w = inventory_item_quantity ident quantity w"
| "inventory_step alloc (ItemLocation ident bag slot) w = inventory_item_location ident bag slot w"
| "inventory_step alloc (ItemMoved ident bag slot) w = item_change_location ident bag slot w"
| "inventory_step alloc (BagCreated type model ident n_slots) w = inventory_create_bag alloc type model ident n_slots w"
| "inventory_step alloc (ItemPriced ident price) w = item_price_quote ident price w"

text \<open>
  What the server is expected to send: new identifiers for new items and bags, a slot that is empty, prices
  of known items. Of the modifiers and the name the arrays of the message have the lengths of the format.
\<close>

fun fitting :: "world \<Rightarrow> inventory_msg \<Rightarrow> bool" where
  "fitting w (ItemInfo ident type flags value model quantity name modifier n) \<longleftrightarrow>
     0 \<le> sint ident \<and> item_at w ident = None \<and> length name = 64 \<and> n \<le> length modifier \<and> n \<le> 64"
| "fitting w (ItemRemoved ident) \<longleftrightarrow> True"
| "fitting w (ItemQuantity ident quantity) \<longleftrightarrow> True"
| "fitting w (ItemLocation ident bag slot) \<longleftrightarrow> placed_well w ident bag slot"
| "fitting w (ItemMoved ident bag slot) \<longleftrightarrow> moved_well w ident bag slot"
| "fitting w (BagCreated type model ident n_slots) \<longleftrightarrow> ident \<noteq> 0 \<and> bag_map (w_bags w) ident = None \<and>
     list_ex (\<lambda>n. bag_at (w_bags w) (bag_probe.nth_place ident n) = None) [0..<32] \<and>
     0 \<le> sint n_slots \<and> 0 \<le> sint model \<and> sint model < BagEnum_Count"
| "fitting w (ItemPriced ident price) \<longleftrightarrow> item_at w ident \<noteq> None"

fun inventory_session :: "(nat \<Rightarrow> bool) \<Rightarrow> inventory_msg list \<Rightarrow> world \<Rightarrow> fault + world" where
  "inventory_session alloc [] w = Inr w"
| "inventory_session alloc (m # ms) w = bindE (inventory_step alloc m w) (inventory_session alloc ms)"

fun fitting_session :: "(nat \<Rightarrow> bool) \<Rightarrow> inventory_msg list \<Rightarrow> world \<Rightarrow> bool" where
  "fitting_session alloc [] w \<longleftrightarrow> True"
| "fitting_session alloc (m # ms) w \<longleftrightarrow> fitting w m \<and>
     (case inventory_step alloc m w of Inl e \<Rightarrow> True | Inr w' \<Rightarrow> fitting_session alloc ms w')"

lemma inventory_step_ok:
  assumes ok: "inventory_ok w" and mem: "\<forall>n. alloc n" and fits: "fitting w m"
  shows "\<exists>w'. inventory_step alloc m w = Inr w' \<and> inventory_ok w'"
proof (cases m)
  case (BagCreated type model ident n_slots)
  then obtain n where n: "bag_at (w_bags w) (bag_probe.nth_place ident n) = None"
    using fits by (auto simp: list_ex_iff)
  have "ident \<noteq> 0 \<and> bag_map (w_bags w) ident = None \<and> 0 \<le> sint n_slots \<and> 0 \<le> sint model \<and> sint model < BagEnum_Count"
    using fits BagCreated by simp
  then show ?thesis using inventory_create_bag_ok [OF ok mem _ _ n, of n_slots model type] BagCreated by auto
next
  case (ItemPriced ident price)
  then obtain p where "item_at w ident = Some p" using fits by auto
  then show ?thesis using item_price_quote_ok [OF ok] ItemPriced by simp
next
  case (ItemInfo ident type flags price model quantity name modifier n)
  then show ?thesis
    using item_general_info_ok [OF ok mem, of ident name n modifier type flags price model quantity] fits by auto
qed (use fits ok mem in \<open>simp_all add: item_remove_ok inventory_item_quantity_ok
      inventory_item_location_ok item_change_location_ok\<close>)

lemma inventory_session_runs:
  "inventory_ok w \<Longrightarrow> \<forall>n. alloc n \<Longrightarrow> fitting_session alloc ms w \<Longrightarrow>
    \<exists>w'. inventory_session alloc ms w = Inr w' \<and> inventory_ok w'"
proof (induction ms arbitrary: w)
  case (Cons m ms)
  obtain w' where w': "inventory_step alloc m w = Inr w'" "inventory_ok w'"
    using inventory_step_ok [OF Cons.prems(1,2)] Cons.prems(3) by auto
  then have "fitting_session alloc ms w'" using Cons.prems(3) by simp
  then show ?case using Cons.IH [OF w'(2) Cons.prems(2)] w'(1) by simp
qed simp

text \<open>The world that \<open>init_world\<close> creates.\<close>

lemma array_resize_zero:
  assumes mem: "\<forall>n. alloc n" and n: "0 < esz" "8 \<le> n" "n * esz < SZ"
  shows "array_resize alloc z esz (zero_carray :: 'a carray) n =
    Inr (True, \<lparr>arr_capacity = n, arr_size = n, arr_data = replicate n z\<rparr>)"
proof -
  have "n \<le> n * esz" using n(1) by simp
  then have lt: "n < SZ" using n(3) by linarith
  have r: "array_reserve alloc z esz (zero_carray :: 'a carray) n = array_grow_to alloc z esz zero_carray n"
    using n lt by (simp add: array_reserve_def zero_carray_def sz_add_def sz_sub_def sz_mul_def)
  have "n * esz div esz = n" using n(1) by simp
  then have "array_grow_to alloc z esz (zero_carray :: 'a carray) n =
      Inr (True, \<lparr>arr_capacity = n, arr_size = 0, arr_data = replicate n z\<rparr>)"
    using n mem by (simp add: array_grow_to_def zero_carray_def sz_mul_def ARRAY_MIN_CAPACITY_def max_def)
  then show ?thesis using n(1,2) r by (simp add: array_resize_def) (simp add: zero_carray_def)
qed

lemma resized_zero:
  assumes mem: "\<forall>n. alloc n" and n: "0 < esz" "8 \<le> n" "n * esz < SZ"
  shows "ignored (array_resize alloc z esz (zero_carray :: 'a carray) n) =
    Inr \<lparr>arr_capacity = n, arr_size = n, arr_data = replicate n z\<rparr>"
  unfolding array_resize_zero [OF assms] by (simp add: ignored_def)

lemma init_world_inventory:
  assumes mem: "\<forall>n. alloc n" and heap: "\<forall>p \<ge> hp_next (w_item_heap w0). hp_obj (w_item_heap w0) p = None"
    and free: "\<forall>p it. hp_obj (w_item_heap w0) p = Some it \<longrightarrow> item_bag it = None"
  shows "\<exists>w. init_world alloc w0 h = Inr w \<and> inventory_ok w"
proof -
  let ?bags = "\<lparr>arr_capacity = 32, arr_size = 32, arr_data = replicate 32 zero_bag\<rparr>"
  let ?items = "\<lparr>arr_capacity = 1024, arr_size = 1024, arr_data = replicate 1024 None\<rparr> :: ptr carray"
  have p: "bag_probe.placed_all (\<lambda>i. None)" by (simp add: bag_probe.placed_all_def)
  have b: "bag_at ?bags = (\<lambda>i. None)"
    by (rule ext) (simp add: bag_at_def contents_def zero_bag_def)
  have "\<exists>w. init_world alloc w0 h = Inr w \<and> w_bags w = ?bags \<and> w_item_heap w = w_item_heap w0 \<and>
      w_items w = ?items \<and> inv_bags (w_inventory w) = replicate (nat BagEnum_Count) None"
    by (simp add: init_world_def zero_world_def resized_zero [OF mem] struct_sizes SZ_def)
  then obtain w where w: "init_world alloc w0 h = Inr w" "w_bags w = ?bags" "w_item_heap w = w_item_heap w0"
    "w_items w = ?items" "inv_bags (w_inventory w) = replicate (nat BagEnum_Count) None" by blast
  have empty: "slot_ok obj b zero_bag" for obj b
    by (simp add: slot_ok_def zero_bag_def zero_carray_def arr_ok_def contents_def SZ_def count_items_def)
  have "stored_ok (hp_obj (w_item_heap w0)) (contents ?bags)"
    using free empty by (auto simp: stored_ok_def in_slot_def contents_def)
  moreover have "bag_table_ok ?bags" by (simp add: bag_table_ok_def b p arr_ok_def SZ_def)
  moreover have "unused_empty ?bags"
    by (simp add: unused_empty_def contents_def zero_bag_def zero_carray_def count_items_def)
  ultimately show ?thesis using w heap
    by (simp add: inventory_ok_def listed_def contents_def arr_ok_def SZ_def)
qed


text \<open>A world with a bag of five slots and an item, in which a session can go on.\<close>

definition first_messages :: "inventory_msg list" where
  "first_messages = [BagCreated 1 1 7 5, ItemInfo 3 0 0 10 20 1 (replicate 64 0) [1, 2] 2]"

lemma start_ok:
  obtains w where "init_world (\<lambda>n. True) (zero_world empty_heap empty_heap empty_heap) 5 = Inr w" "inventory_ok w"
    "\<forall>b. bag_at (w_bags w) b = None" "\<forall>i. item_at w i = None"
proof -
  have "\<exists>w. init_world (\<lambda>n. True) (zero_world empty_heap empty_heap empty_heap) 5 = Inr w \<and>
      contents (w_bags w) = replicate 32 zero_bag \<and> contents (w_items w) = replicate 1024 None \<and> arr_size (w_bags w) = 32 \<and>
      arr_size (w_items w) = 1024"
    by (simp add: init_world_def resized_zero struct_sizes SZ_def contents_def)
       (simp add: zero_world_def resized_zero struct_sizes SZ_def)
  moreover have "\<exists>w. init_world (\<lambda>n. True) (zero_world empty_heap empty_heap empty_heap) 5 = Inr w \<and> inventory_ok w"
    by (rule init_world_inventory) (simp_all add: zero_world_def empty_heap_def)
  ultimately show ?thesis using that
    by (auto simp: bag_at_def item_at_def zero_bag_def inside_signed_def array_inside_def)
qed

lemma first_messages_ok:
  obtains w w' b p it where "init_world (\<lambda>n. True) (zero_world empty_heap empty_heap empty_heap) 5 = Inr w"
    "fitting_session (\<lambda>n. True) first_messages w" "inventory_session (\<lambda>n. True) first_messages w = Inr w'"
    "inventory_ok w'" "item_at w' 3 = Some p" "hp_obj (w_item_heap w') p = Some it" "item_bag it = None"
    "bag_map (w_bags w') 7 = Some b" "\<forall>s < 5. vacant (w_bags w') b s"
proof -
  obtain w where w: "init_world (\<lambda>n. True) (zero_world empty_heap empty_heap empty_heap) 5 = Inr w" "inventory_ok w"
    "\<forall>b. bag_at (w_bags w) b = None" "\<forall>i. item_at w i = None" by (rule start_ok)
  have none: "bag_map (w_bags w) 7 = None"
    using bag_map_None [OF inventory_okD(1) [OF w(2)]] w(3) by simp
  have free: "bag_at (w_bags w) (bag_probe.nth_place 7 0) = None" using w(3) by simp
  have args: "sint (5 :: u8) = 5" "sint (1 :: u8) = 1" by simp_all
  obtain w1 b where w1: "inventory_create_bag (\<lambda>n. True) 1 1 7 5 w = Inr w1" "inventory_ok w1"
    "bag_map (w_bags w1) = (bag_map (w_bags w))(7 \<mapsto> b)" "\<forall>s < 5. vacant (w_bags w1) b s" "w_items w1 = w_items w"
    using inventory_create_bag_ok [OF w(2) _ _ none free, of "\<lambda>n. True" 5 1 1] args by (auto simp: BagEnum_Count_def)
  have "item_at w1 3 = item_at w 3" using w1(5) by (simp add: item_at_def)
  then have new: "item_at w1 3 = None" using w(4) by simp
  obtain w2 p it where w2: "item_general_info (\<lambda>n. True) 3 0 0 10 20 1 (replicate 64 0) [1, 2] 2 w1 = Inr w2" "inventory_ok w2"
    "w_bags w2 = w_bags w1" "item_at w2 3 = Some p" "hp_obj (w_item_heap w2) p = Some it" "item_bag it = None"
    using item_general_info_ok [OF w1(2) _ _ new, of "\<lambda>n. True" "replicate 64 0" 2 "[1, 2]" 0 0 10 20 1] by auto
  have "list_ex (\<lambda>n. bag_at (w_bags w) (bag_probe.nth_place 7 n) = None) [0..<32]"
    using w(3) by (auto simp: list_ex_iff intro: exI [of _ "0 :: nat"])
  then have "fitting_session (\<lambda>n. True) first_messages w"
    using none w1(1) w2(1) new args by (simp add: first_messages_def BagEnum_Count_def)
  moreover have "inventory_session (\<lambda>n. True) first_messages w = Inr w2"
    using w1(1) w2(1) by (simp add: first_messages_def)
  ultimately show ?thesis using that w(1) w2 w1(3,4) by simp
qed

definition more_messages :: "inventory_msg list" where
  "more_messages = [ItemLocation 3 7 2, ItemQuantity 3 9, ItemRemoved 3]"

lemma fitting_session_append:
  "fitting_session alloc (ms @ ns) w \<longleftrightarrow> fitting_session alloc ms w \<and>
     (case inventory_session alloc ms w of Inl e \<Rightarrow> True | Inr w' \<Rightarrow> fitting_session alloc ns w')"
  by (induction ms arbitrary: w) (auto split: sum.splits)


section \<open>Messages that do not fit\<close>



end
