(* ===== verification/Client.thy ===== *)
theory Client
  imports Inventory_Session Handshake Handler_Structs
begin

text \<open>
  The state of the client, \<^verbatim>\<open>GwClient\<close> of \<^verbatim>\<open>client/client.h\<close>, and what its handlers and senders are
  made of: members of packed structures, the checks at the entry of a handler, sending a structure
  and broadcasting an event.

  What is not in the program is a record of parameters: the allocator, the system call that sends, the
  clock, the options of the command line, the text that \<^verbatim>\<open>swprintf\<close> makes and the callbacks that
  the plugins subscribe to events. The
  bytes that the system accepted are kept with the client, as the network holds them.
\<close>

section \<open>Objects\<close>

datatype async_type = AsyncType_None | AsyncType_AccountLogin | AsyncType_PlayCharacter
  | AsyncType_ServerTransfer | AsyncType_SendHardwareInfo | AsyncType_ChangeCharacter | AsyncType_Count

datatype await_state = AwaitNothing | AwaitAuthServer | AwaitSessionInfo | AwaitAccountConnect
  | AwaitAccountConnection | AwaitHardwareInfoReply | AwaitPlayCharacter | AwaitChangeCharacter
  | AwaitGameServerInfo | AwaitGameServerDisconnect | AwaitGameServerTransfer

record async_request =
  ar_trans_id :: u32
  ar_type :: async_type

record game_server_transfer =
  gt_map_id :: u32
  gt_world_id :: u32
  gt_player_id :: u32
  gt_host :: sockaddr

text \<open>
  The settings of a character are kept as bytes: 62 of them, and the 2 bytes behind them that pad the
  structure.
\<close>

record character =
  ch_name :: kstr
  ch_uuid :: uuid
  ch_settings :: bytes

definition sizeof_Character :: nat where [struct_sizes]: "sizeof_Character = 136"
definition sizeof_AsyncRequest :: nat where [struct_sizes]: "sizeof_AsyncRequest = 8"
definition sizeof_Friend :: nat where [struct_sizes]: "sizeof_Friend = 144"

definition sizeof_ChatMessage :: nat where [struct_sizes]: "sizeof_ChatMessage = 40"

definition init_character :: character where
  "init_character = \<lparr>ch_name = kstr_init (replicate 20 0) 0 20, ch_uuid = zero_uuid, ch_settings = replicate 64 0\<rparr>"

definition last_outpost :: "character \<Rightarrow> u32" where
  "last_outpost c = ucast (ch_settings c ! 2) + 256 * ucast (ch_settings c ! 3)"

record friend =
  fr_status :: u32
  fr_type :: u32
  fr_name :: kstr
  fr_account :: kstr
  fr_uuid :: uuid
  fr_zone :: u32

record chat_message =
  cm_channel :: u32
  cm_str :: kstr
  cm_allocated :: nat

record chat =
  chat_next_message_entry :: nat
  chat_messages :: "chat_message carray"
  chat_str_builder :: "u16 carray"

definition zero_chat_message :: chat_message where
  "zero_chat_message = \<lparr>cm_channel = 0, cm_str = zero_kstr 0, cm_allocated = 0\<rparr>"

record gw_client =
  auth_srv :: connection
  game_srv :: connection
  gc_mutex :: nat
  gc_uuid :: uuid
  gc_email :: kstr
  gc_charname :: kstr
  gc_password :: bytes
  portal_token :: uuid
  portal_user_id :: uuid
  gc_state :: await_state
  gc_ingame :: bool
  gc_loading :: bool
  gc_connected :: bool
  gc_try_changing_zone :: bool
  gc_static_salt :: u32
  next_transaction_id :: u32
  gc_requests :: "async_request carray"
  gc_player_status :: u32
  gc_friends :: "friend carray"
  gc_characters :: "character carray"
  current_character_idx :: nat
  pending_character_idx :: nat
  gc_region :: u32
  gc_chat :: chat
  gc_world :: world
  gc_player_hero :: player_hero
  server_transfer :: game_server_transfer
  auth_wire :: bytes
  game_wire :: bytes

section \<open>The surroundings\<close>

text \<open>An event with the members of its structure. Texts are given with their length.\<close>

datatype event =
    EventType_AgentFocus u32 u32
  | EventType_ChatMessage u32 u16 "u16 list" "u16 list"
  | EventType_CinematicPlay
  | EventType_DialogOpen u32
  | EventType_DialogButton u32 u32
  | EventType_AuthError u32 async_type
  | EventType_FriendStatus bytes u32 u32 u32 "u16 list" "u16 list"
  | EventType_GuildMemberUpdated "u16 list" "u16 list" u32 u32 u64
  | EventType_ItemQuotePrice u32 u32
  | EventType_PartyInviteRequest u32
  | EventType_PartyLeaderChanged
  | EventType_PartyMembersChanged u32
  | EventType_PartySearchAdvertisement u16 u8 u8 u8 u8 u16 u8 u8 u8 u8 "u16 list" "u16 list"
  | EventType_PartySearchRemoved u16
  | EventType_PartySearchSize u16 u8 u8
  | EventType_PartySearchType u16 u8 u8
  | EventType_SalvageSessionStart u32
  | EventType_WorldCantTravel u8
  | EventType_WorldMapEnter
  | EventType_WorldMapLeave

record command_options =
  opt_newauth :: bool
  opt_game_version :: u32
  opt_charname :: bytes
  opt_online_status :: u32
  opt_map_id :: "u32 option"
  opt_map_type :: "u32 option"

text \<open>
  The arithmetic of single precision numbers is the processor's and the mathematical library's; the
  numbers themselves are their 32 bits.
\<close>

record float_ops =
  fl_add :: "f32 \<Rightarrow> f32 \<Rightarrow> f32"
  fl_sub :: "f32 \<Rightarrow> f32 \<Rightarrow> f32"
  fl_mul :: "f32 \<Rightarrow> f32 \<Rightarrow> f32"
  fl_div :: "f32 \<Rightarrow> f32 \<Rightarrow> f32"
  fl_less :: "f32 \<Rightarrow> f32 \<Rightarrow> bool"
  fl_leq :: "f32 \<Rightarrow> f32 \<Rightarrow> bool"
  fl_eq :: "f32 \<Rightarrow> f32 \<Rightarrow> bool"
  fl_sqrt :: "f32 \<Rightarrow> f32"
  fl_cos :: "f32 \<Rightarrow> f32"
  fl_sin :: "f32 \<Rightarrow> f32"
  fl_atan2 :: "f32 \<Rightarrow> f32 \<Rightarrow> f32"
  fl_of_int :: "int \<Rightarrow> f32"

record 'c env =
  en_alloc :: "nat \<Rightarrow> bool"
  en_send :: "int \<Rightarrow> bytes \<Rightarrow> int"
  en_broadcast :: "event \<Rightarrow> 'c \<Rightarrow> fault + 'c"
  en_chat_subscribed :: "'c \<Rightarrow> bool"
  en_friends_subscribed :: "'c \<Rightarrow> bool"
  en_guild_subscribed :: "'c \<Rightarrow> bool"
  en_format_offline :: "u16 list \<Rightarrow> u16 list option"
  en_time :: u64
  en_epoch :: u64
  en_float :: float_ops
  en_options :: command_options

type_synonym surroundings = "gw_client env"

definition broadcast :: "surroundings \<Rightarrow> event \<Rightarrow> gw_client \<Rightarrow> fault + gw_client" where
  "broadcast e ev c = en_broadcast e ev c"

section \<open>Structures in memory\<close>

text \<open>The place of a member in a packed structure.\<close>

fun locate :: "cstruct \<Rightarrow> string \<Rightarrow> nat \<Rightarrow> nat \<times> nat" where
  "locate [] n off = (off, 0)"
| "locate ((m, t, k) # ms) n off =
     (if m = n then (off, k * sizeof_type t) else locate ms n (off + k * sizeof_type t))"

definition member_bytes :: "handler_entry \<Rightarrow> string \<Rightarrow> bytes \<Rightarrow> bytes" where
  "member_bytes e n p = (case locate (case en_struct e of None \<Rightarrow> [] | Some ms \<Rightarrow> ms) n 0 of (off, k) \<Rightarrow> take k (drop off p))"

fun little :: "bytes \<Rightarrow> nat" where
  "little [] = 0"
| "little (b # bs) = unat b + 256 * little bs"

text \<open>\<^verbatim>\<open>pack->n\<close>: a number of the width of the member, or an array of such numbers.\<close>

definition get :: "handler_entry \<Rightarrow> string \<Rightarrow> bytes \<Rightarrow> 'a :: len word" where
  "get e n p = of_nat (little (member_bytes e n p))"

fun elems :: "nat \<Rightarrow> nat \<Rightarrow> bytes \<Rightarrow> 'a :: len word list" where
  "elems 0 w bs = []"
| "elems (Suc k) w bs = of_nat (little (take w bs)) # elems k w (drop w bs)"

definition get_array :: "handler_entry \<Rightarrow> string \<Rightarrow> nat \<Rightarrow> bytes \<Rightarrow> 'a :: len word list" where
  "get_array e n w p = elems (length (member_bytes e n p) div w) w (member_bytes e n p)"

definition u16s :: "u16 list \<Rightarrow> bytes" where
  "u16s ws = concat (map le16enc ws)"

text \<open>A structure that \<^verbatim>\<open>NewPacket\<close> clears and gives a header, with the members set behind it.\<close>

definition NewPacket :: "nat \<Rightarrow> bytes \<Rightarrow> bytes" where
  "NewPacket h ms = le16enc (of_nat h) @ ms"

section \<open>Handlers and senders\<close>

definition send_auth :: "surroundings \<Rightarrow> bytes \<Rightarrow> gw_client \<Rightarrow> fault + gw_client" where
  "send_auth e p c =
     bindE (SendPacket (en_send e (conn_fd (auth_srv c))) (auth_srv c) (length p) p) (\<lambda>(conn, sent).
       Inr (c\<lparr>auth_srv := conn, auth_wire := auth_wire c @ sent\<rparr>))"

definition send_game :: "surroundings \<Rightarrow> bytes \<Rightarrow> gw_client \<Rightarrow> fault + gw_client" where
  "send_game e p c =
     bindE (SendPacket (en_send e (conn_fd (game_srv c))) (game_srv c) (length p) p) (\<lambda>(conn, sent).
       Inr (c\<lparr>game_srv := conn, game_wire := game_wire c @ sent\<rparr>))"

text \<open>The checks that handlers share: header and size, then the connection, then a world.\<close>

definition header_of :: "bytes \<Rightarrow> nat" where
  "header_of p = little (take 2 p)"

definition entered :: "handler_entry \<Rightarrow> (bytes \<Rightarrow> gw_client \<Rightarrow> fault + gw_client) \<Rightarrow>
    nat \<Rightarrow> bytes \<Rightarrow> gw_client \<Rightarrow> fault + gw_client" where
  "entered e body psize p c = bindE (handler_entered e (header_of p) psize) (\<lambda>_. body p c)"

definition secured :: "handler_entry \<Rightarrow> (bytes \<Rightarrow> gw_client \<Rightarrow> fault + gw_client) \<Rightarrow>
    nat \<Rightarrow> bytes \<Rightarrow> gw_client \<Rightarrow> fault + gw_client" where
  "secured e body = entered e (\<lambda>p c. bindE (assertE (conn_secured (game_srv c))) (\<lambda>_. body p c))"

definition get_world :: "gw_client \<Rightarrow> world option" where
  "get_world c = (if w_hash (gc_world c) = 0 then None else Some (gc_world c))"

text \<open>\<^verbatim>\<open>abort\<close> ends the program as a failed assertion does.\<close>

definition get_world_or_abort :: "gw_client \<Rightarrow> fault + world" where
  "get_world_or_abort c = (if w_hash (gc_world c) = 0 then Inl AssertFail else Inr (gc_world c))"

definition in_world :: "handler_entry \<Rightarrow> (bytes \<Rightarrow> world \<Rightarrow> gw_client \<Rightarrow> fault + gw_client) \<Rightarrow>
    nat \<Rightarrow> bytes \<Rightarrow> gw_client \<Rightarrow> fault + gw_client" where
  "in_world e body = secured e (\<lambda>p c. bindE (get_world_or_abort c) (\<lambda>w. body p w c))"

definition get_vec :: "handler_entry \<Rightarrow> string \<Rightarrow> bytes \<Rightarrow> vec2f" where
  "get_vec e n p = (let bs = member_bytes e n p in (of_nat (little (take 4 bs)), of_nat (little (drop 4 bs))))"

text \<open>Storing the new state of the world.\<close>

definition set_world :: "gw_client \<Rightarrow> fault + world \<Rightarrow> fault + gw_client" where
  "set_world c r = bindE r (\<lambda>w. Inr (c\<lparr>gc_world := w\<rparr>))"

end
