(* ===== verification/Agents.thy ===== *)
theory Agents
  imports Client
begin

text \<open>
  The agents of the world, \<^verbatim>\<open>client/agent.c\<close> and \<^verbatim>\<open>client/agent.h\<close>, and the player,
  \<^verbatim>\<open>client/player.c\<close>: everything that moves is an agent in an array of pointers that is indexed by
  the identifiers of the server.
\<close>

unbundle bit_operations_syntax

section \<open>Objects\<close>

definition zero_f :: f32 where "zero_f = 0"
definition one_f :: f32 where "one_f = 0x3F800000"

definition agent_set_casting :: "u32 \<Rightarrow> agent \<Rightarrow> agent" where
  "agent_set_casting skill_id a = a\<lparr>ag_casting_skill_id := skill_id\<rparr>"

definition agent_stop_moving :: "agent \<Rightarrow> agent" where
  "agent_stop_moving a = a\<lparr>ag_speed := zero_f, ag_moving := False, ag_maybe_moving := False,
     ag_velocity := (zero_f, zero_f), ag_destination := (zero_f, zero_f)\<rparr>"

definition agent_update_api :: "float_ops \<Rightarrow> agent \<Rightarrow> agent" where
  "agent_update_api f a =
     (let speed = fl_mul f (ag_speed_base a) (ag_speed_modifier a) in
      a\<lparr>ag_speed := speed, ag_velocity := (fl_mul f (fst (ag_direction a)) speed, fl_mul f (snd (ag_direction a)) speed)\<rparr>)"

definition agent_is_dead :: "agent \<Rightarrow> bool" where
  "agent_is_dead a \<longleftrightarrow> ag_effects a AND 0x10 \<noteq> 0"

definition clampf :: "float_ops \<Rightarrow> f32 \<Rightarrow> f32 \<Rightarrow> f32 \<Rightarrow> f32" where
  "clampf f val mn mx = (if fl_less f val mn then mn else if fl_less f mx val then mx else val)"

definition v2_equals :: "float_ops \<Rightarrow> vec2f \<Rightarrow> vec2f \<Rightarrow> bool" where
  "v2_equals f v1 v2 \<longleftrightarrow> fl_eq f (fst v1) (fst v2) \<and> fl_eq f (snd v1) (snd v2)"

definition lerpf :: "float_ops \<Rightarrow> f32 \<Rightarrow> f32 \<Rightarrow> f32 \<Rightarrow> f32" where
  "lerpf f p1 p2 t = fl_add f (fl_mul f t p1) (fl_mul f (fl_sub f (fl_of_int f 1) t) p2)"

definition agent_set_distination :: "float_ops \<Rightarrow> vec2f \<Rightarrow> agent \<Rightarrow> agent" where
  "agent_set_distination f dest a =
     (let pos = ag_position a;
          dx = fl_sub f (fst dest) (fst pos); dy = fl_sub f (snd dest) (snd pos);
          dist = fl_sqrt f (fl_add f (fl_mul f dx dx) (fl_mul f dy dy));
          x = fl_div f dx dist; y = fl_div f dy dist
      in a\<lparr>ag_moving := True, ag_destination := dest, ag_direction := (x, y), ag_rotation := fl_atan2 f y x\<rparr>)"

section \<open>The array of the agents\<close>

definition put_agent :: "ptr \<Rightarrow> agent \<Rightarrow> world \<Rightarrow> fault + world" where
  "put_agent p a w = bindE (store (w_agent_heap w) p a) (\<lambda>h. Inr (w\<lparr>w_agent_heap := h\<rparr>))"

definition get_agent_safe :: "world \<Rightarrow> u32 \<Rightarrow> fault + ptr" where
  "get_agent_safe w ident =
     (if ident = 0 then Inr None
      else if \<not> array_inside (w_agents w) (unat ident) then Inr None
      else array_at (w_agents w) (unat ident))"

text \<open>The identifier plus one is computed in 32 bits; the results of the array operations are ignored.\<close>

definition ensure_agent_exist :: "(nat \<Rightarrow> bool) \<Rightarrow> u32 \<Rightarrow> world \<Rightarrow> fault + world" where
  "ensure_agent_exist alloc ident w =
     bindE (if array_inside (w_agents w) (unat ident)
            then bindE (array_at (w_agents w) (unat ident)) (\<lambda>p. Inr (p \<noteq> None)) else Inr False) (\<lambda>there.
       if there then Inr w
       else
         bindE (if array_inside (w_agents w) (unat ident) then Inr (w_agents w)
                else bindE (ignored (array_resize alloc None sizeof_ptr (w_agents w) (unat (ident + 1)))) (\<lambda>a.
                       Inr (a\<lparr>arr_size := arr_capacity a\<rparr>))) (\<lambda>agents.
         case (if alloc sizeof_Agent then new_object (w_agent_heap w) zero_agent else (None, w_agent_heap w)) of (p, h) \<Rightarrow>
         bindE (store h p (zero_agent\<lparr>ag_agent_id := ident, ag_speed_modifier := one_f\<rparr>)) (\<lambda>h.
         bindE (ignored (array_set agents (unat ident) p)) (\<lambda>agents.
           Inr (w\<lparr>w_agents := agents, w_agent_heap := h\<rparr>)))))"

definition remove_agent :: "u32 \<Rightarrow> world \<Rightarrow> fault + world" where
  "remove_agent ident w =
     (if \<not> array_inside (w_agents w) (unat ident) then Inr w
      else
        bindE (array_at (w_agents w) (unat ident)) (\<lambda>p.
        bindE (release (w_agent_heap w) p) (\<lambda>h.
        bindE (upd (arr_data (w_agents w)) (unat ident) None) (\<lambda>d.
          Inr (w\<lparr>w_agents := (w_agents w)\<lparr>arr_data := d\<rparr>, w_agent_heap := h\<rparr>)))))"

text \<open>An agent that must exist: created, read, asserted.\<close>

definition the_agent :: "(nat \<Rightarrow> bool) \<Rightarrow> u32 \<Rightarrow> (ptr \<Rightarrow> agent \<Rightarrow> world \<Rightarrow> fault + world) \<Rightarrow> world \<Rightarrow> fault + world" where
  "the_agent alloc ident k w =
     bindE (ensure_agent_exist alloc ident w) (\<lambda>w.
     bindE (array_at (w_agents w) (unat ident)) (\<lambda>p.
     bindE (assertE (p \<noteq> None)) (\<lambda>_.
     bindE (deref (w_agent_heap w) p) (\<lambda>a. k p a w))))"

text \<open>An agent that may be missing, in which case the message is ignored.\<close>

definition known_agent :: "u32 \<Rightarrow> (ptr \<Rightarrow> agent \<Rightarrow> world \<Rightarrow> fault + world) \<Rightarrow> world \<Rightarrow> fault + world" where
  "known_agent ident k w =
     bindE (get_agent_safe w ident) (\<lambda>p.
       if p = None then Inr w else bindE (deref (w_agent_heap w) p) (\<lambda>a. k p a w))"

section \<open>Moving\<close>

definition update_agent_position :: "float_ops \<Rightarrow> f32 \<Rightarrow> agent \<Rightarrow> agent" where
  "update_agent_position f delta a0 =
     (if \<not> ag_moving a0 then a0
      else
        let a = agent_update_api f a0;
            speed = ag_speed a;
            rem_x = fl_sub f (fst (ag_destination a)) (fst (ag_position a));
            rem_y = fl_sub f (snd (ag_destination a)) (snd (ag_position a));
            dist = fl_mul f delta speed;
            dist_rem = fl_sqrt f (fl_add f (fl_mul f rem_x rem_x) (fl_mul f rem_y rem_y));
            dx = fl_mul f (fst (ag_direction a)) dist;
            dy = fl_mul f (snd (ag_direction a)) dist;
            a = (if fl_leq f dist_rem dist
                 then agent_stop_moving (a\<lparr>ag_position := ag_destination a\<rparr>)
                 else a\<lparr>ag_position := (fl_add f (fst (ag_position a)) dx, fl_add f (snd (ag_position a)) dy)\<rparr>);
            health_diff = fl_mul f delta (ag_health_per_sec a);
            energy_diff = fl_mul f delta (ag_energy_per_sec a)
        in a\<lparr>ag_health := clampf f (fl_add f (ag_health a) health_diff) zero_f one_f,
             ag_energy := clampf f (fl_add f (ag_energy a) energy_diff) zero_f one_f\<rparr>)"

fun update_each :: "float_ops \<Rightarrow> f32 \<Rightarrow> ptr list \<Rightarrow> agent heap \<Rightarrow> fault + agent heap" where
  "update_each f delta [] h = Inr h"
| "update_each f delta (p # ps) h =
     bindE (if p = None then Inr h
            else bindE (deref h p) (\<lambda>a. store h p (update_agent_position f delta a))) (update_each f delta ps)"

text \<open>The milliseconds since the last update, as seconds.\<close>

definition seconds :: "float_ops \<Rightarrow> u64 \<Rightarrow> f32" where
  "seconds f diff = fl_div f (fl_of_int f (uint diff)) (fl_of_int f 1000)"

definition update_agents_position :: "float_ops \<Rightarrow> u64 \<Rightarrow> world \<Rightarrow> fault + world" where
  "update_agents_position f diff w =
     bindE (foreach (w_agents w)) (\<lambda>ps.
     bindE (update_each f (seconds f diff) ps (w_agent_heap w)) (\<lambda>h. Inr (w\<lparr>w_agent_heap := h\<rparr>)))"

definition update_effect :: "float_ops \<Rightarrow> f32 \<Rightarrow> effect \<Rightarrow> effect" where
  "update_effect f diff_sec ef =
     (if fl_eq f (ef_remaining ef) zero_f then ef
      else let r = fl_sub f (ef_remaining ef) diff_sec in ef\<lparr>ef_remaining := (if fl_less f r zero_f then zero_f else r)\<rparr>)"

definition world_update :: "float_ops \<Rightarrow> u64 \<Rightarrow> world \<Rightarrow> fault + world" where
  "world_update f diff w =
     bindE (foreach (w_effects w)) (\<lambda>es.
     bindE (mem_write (arr_data (w_effects w)) 0 (map (update_effect f (seconds f diff)) es)) (\<lambda>d.
       update_agents_position f diff (w\<lparr>w_effects := (w_effects w)\<lparr>arr_data := d\<rparr>\<rparr>)))"

section \<open>Handlers\<close>

definition HandleAgentMovementTick :: "nat \<Rightarrow> bytes \<Rightarrow> gw_client \<Rightarrow> fault + gw_client" where
  "HandleAgentMovementTick = (let en = HandleAgentMovementTick_entry in in_world en (\<lambda>p w c.
     set_world c (Inr (w\<lparr>w_time_server := w_time_server w + scast (get en ''delta'' p :: u32)\<rparr>))))"

definition HandleAgentInstanceTimer :: "nat \<Rightarrow> bytes \<Rightarrow> gw_client \<Rightarrow> fault + gw_client" where
  "HandleAgentInstanceTimer = (let en = HandleAgentInstanceTimer_entry in in_world en (\<lambda>p w c.
     let time = scast (get en ''time'' p :: u32) in
     set_world c (Inr (w\<lparr>w_load_time := time, w_time_server := time\<rparr>))))"

text \<open>What an agent is: a character or player, a gadget or an item, which learns its agent.\<close>

definition spawned_as :: "u8 \<Rightarrow> u32 \<Rightarrow> ptr \<Rightarrow> agent \<Rightarrow> world \<Rightarrow> fault + agent \<times> world" where
  "spawned_as type model_id p a w =
     (let ident = model_id AND 0xffffff; ext = drop_bit 28 model_id AND 0xf in
      if type = 1 then
        Inr (if ext = 2 then a\<lparr>ag_npc_id := ident\<rparr> else if ext = 3 then a\<lparr>ag_player_id := ident\<rparr> else a, w)
      else if type = 2 then Inr (a\<lparr>ag_gadget_id := ident\<rparr>, w)
      else if type = 4 then
        bindE (get_item_safe w ident) (\<lambda>q.
        bindE (if q = None then Inr w
               else bindE (deref (w_item_heap w) q) (\<lambda>it. put_item q (it\<lparr>item_agent_id := ag_agent_id a\<rparr>) w)) (\<lambda>w.
          Inr (a\<lparr>ag_item_id := ident\<rparr>, w)))
      else Inr (a, w))"

definition HandleAgentSpawned :: "surroundings \<Rightarrow> nat \<Rightarrow> bytes \<Rightarrow> gw_client \<Rightarrow> fault + gw_client" where
  "HandleAgentSpawned e = (let en = HandleAgentSpawned_entry in in_world en (\<lambda>p w c.
     set_world c (the_agent (en_alloc e) (get en ''agent_id'' p) (\<lambda>q a w.
       let type = get en ''type'' p; direction = get_vec en ''direction'' p in
       bindE (spawned_as type (get en ''model_id'' p) q (a\<lparr>ag_position := get_vec en ''position'' p,
           ag_speed_base := get en ''speed_base'' p, ag_type := type\<rparr>) w) (\<lambda>(a, w).
         put_agent q (a\<lparr>ag_spawned := True, ag_direction := direction,
           ag_rotation := fl_atan2 (en_float e) (snd direction) (fst direction)\<rparr>) w)) w)))"

definition agent_despawned :: "u32 \<Rightarrow> world \<Rightarrow> fault + world" where
  "agent_despawned ident w =
     bindE (get_agent_safe w ident) (\<lambda>p.
       if p = None then Inr w
       else
         bindE (deref (w_agent_heap w) p) (\<lambda>a.
         bindE (put_agent p (a\<lparr>ag_spawned := False\<rparr>) w) (\<lambda>w.
         bindE (if ag_item_id a = 0 then Inr w
                else bindE (get_item_safe w (ag_item_id a)) (\<lambda>q.
                       if q = None then Inr w
                       else bindE (deref (w_item_heap w) q) (\<lambda>it. put_item q (it\<lparr>item_agent_id := 0\<rparr>) w))) (\<lambda>w.
           remove_agent ident w))))"

definition HandleAgentDespawned :: "nat \<Rightarrow> bytes \<Rightarrow> gw_client \<Rightarrow> fault + gw_client" where
  "HandleAgentDespawned = (let en = HandleAgentDespawned_entry in in_world en (\<lambda>p w c.
     set_world c (agent_despawned (get en ''agent_id'' p) w)))"

text \<open>The agent is looked up, and reported when it is missing; nothing is changed.\<close>

definition HandleAgentStopMoving :: "nat \<Rightarrow> bytes \<Rightarrow> gw_client \<Rightarrow> fault + gw_client" where
  "HandleAgentStopMoving = (let en = HandleAgentStopMoving_entry in in_world en (\<lambda>p w c.
     set_world c (known_agent (get en ''agent_id'' p) (\<lambda>q a w. Inr w) w)))"

definition HandleAgentUpdateDirection :: "surroundings \<Rightarrow> nat \<Rightarrow> bytes \<Rightarrow> gw_client \<Rightarrow> fault + gw_client" where
  "HandleAgentUpdateDirection e = (let en = HandleAgentUpdateDirection_entry in in_world en (\<lambda>p w c.
     set_world c (known_agent (get en ''agent_id'' p) (\<lambda>q a.
       let d = get_vec en ''direction'' p in
       put_agent q (a\<lparr>ag_direction := d, ag_rotation := fl_atan2 (en_float e) (snd d) (fst d)\<rparr>)) w)))"

definition HandleAgentUpdateSpeedBase :: "nat \<Rightarrow> bytes \<Rightarrow> gw_client \<Rightarrow> fault + gw_client" where
  "HandleAgentUpdateSpeedBase = (let en = HandleAgentUpdateSpeedBase_entry in in_world en (\<lambda>p w c.
     set_world c (known_agent (get en ''agent_id'' p) (\<lambda>q a. put_agent q (a\<lparr>ag_speed_base := get en ''speed_base'' p\<rparr>)) w)))"

definition HandleAgentUpdateSpeedModifier :: "nat \<Rightarrow> bytes \<Rightarrow> gw_client \<Rightarrow> fault + gw_client" where
  "HandleAgentUpdateSpeedModifier = (let en = HandleAgentUpdateSpeedModifier_entry in in_world en (\<lambda>p w c.
     set_world c (known_agent (get en ''agent_id'' p) (\<lambda>q a.
       put_agent q (a\<lparr>ag_speed_modifier := get en ''speed_modifier'' p\<rparr>)) w)))"

definition HandleAgentUpdatePosition :: "nat \<Rightarrow> bytes \<Rightarrow> gw_client \<Rightarrow> fault + gw_client" where
  "HandleAgentUpdatePosition = (let en = HandleAgentUpdatePosition_entry in in_world en (\<lambda>p w c.
     set_world c (known_agent (get en ''agent_id'' p) (\<lambda>q a. put_agent q (a\<lparr>ag_position := get_vec en ''position'' p\<rparr>)) w)))"

definition HandleAgentUpdateRotation :: "surroundings \<Rightarrow> nat \<Rightarrow> bytes \<Rightarrow> gw_client \<Rightarrow> fault + gw_client" where
  "HandleAgentUpdateRotation e = (let en = HandleAgentUpdateRotation_entry in in_world en (\<lambda>p w c.
     set_world c (known_agent (get en ''agent_id'' p) (\<lambda>q a.
       let r = get en ''rotation'' p in
       put_agent q (a\<lparr>ag_rotation := r, ag_direction := (fl_cos (en_float e) r, fl_sin (en_float e) r)\<rparr>)) w)))"

text \<open>When the own agent moves, the dialog is closed.\<close>

definition agent_moves :: "float_ops \<Rightarrow> u32 \<Rightarrow> vec2f \<Rightarrow> world \<Rightarrow> fault + world" where
  "agent_moves f ident dest = known_agent ident (\<lambda>q a w.
     put_agent q (agent_set_distination f dest a)
       (if ag_agent_id a = w_player_agent_id w
        then w\<lparr>w_dialog := free_dialog_info (w_dialog w), w_interact_with := 0\<rparr> else w))"

definition HandleAgentMoveToPoint :: "surroundings \<Rightarrow> nat \<Rightarrow> bytes \<Rightarrow> gw_client \<Rightarrow> fault + gw_client" where
  "HandleAgentMoveToPoint e = (let en = HandleAgentMoveToPoint_entry in in_world en (\<lambda>p w c.
     set_world c (agent_moves (en_float e) (get en ''agent_id'' p) (get_vec en ''dest'' p) w)))"

definition HandleAgentUpdateDestination :: "surroundings \<Rightarrow> nat \<Rightarrow> bytes \<Rightarrow> gw_client \<Rightarrow> fault + gw_client" where
  "HandleAgentUpdateDestination e = (let en = HandleAgentUpdateDestination_entry in in_world en (\<lambda>p w c.
     set_world c (agent_moves (en_float e) (get en ''agent_id'' p) (get_vec en ''dest'' p) w)))"

definition HandleAgentDestroyPlayer :: "nat \<Rightarrow> bytes \<Rightarrow> gw_client \<Rightarrow> fault + gw_client" where
  "HandleAgentDestroyPlayer = (let en = HandleAgentDestroyPlayer_entry in in_world en (\<lambda>p w c.
     bindE (assertE (inside_signed (w_players w) (sint (get en ''player_id'' p :: u32)))) (\<lambda>_.
       set_world c (Inr (w\<lparr>w_player_count := w_player_count w - 1\<rparr>)))))"

definition init_player :: "player \<Rightarrow> player" where
  "init_player pl = pl\<lparr>pl_name := (pl_name pl)\<lparr>k_length := 0, k_capacity := 64\<rparr>\<rparr>"

definition update_player_info :: "(nat \<Rightarrow> bool) \<Rightarrow> u32 \<Rightarrow> u32 \<Rightarrow> u16 list \<Rightarrow> world \<Rightarrow> fault + world" where
  "update_player_info alloc player_id agent_id name = the_agent alloc agent_id (\<lambda>q a w.
     bindE (if inside_signed (w_players w) (sint player_id) then Inr (w_players w)
            else bindE (ignored (array_resize alloc None sizeof_ptr (w_players w) (to_size (sint player_id + 1)))) (\<lambda>ps.
                   Inr (ps\<lparr>arr_size := arr_capacity ps\<rparr>))) (\<lambda>players.
     bindE (assertE (inside_signed players (sint player_id))) (\<lambda>_.
     bindE (array_at players (nat (sint player_id))) (\<lambda>old.
     bindE (if old \<noteq> None then Inr (old, players, w_player_heap w)
            else case (if alloc sizeof_Player then new_object (w_player_heap w) zero_player else (None, w_player_heap w)) of (p, h) \<Rightarrow>
              bindE (assertE (p \<noteq> None)) (\<lambda>_.
              bindE (ignored (array_set players (nat (sint player_id)) p)) (\<lambda>players. Inr (p, players, h)))) (\<lambda>(p, players, h).
     bindE (deref h p) (\<lambda>pl.
     let pl = (init_player pl)\<lparr>pl_player_id := player_id, pl_agent_id := agent_id\<rparr> in
     bindE (kstr_read (pl_name pl) name 32) (\<lambda>(_, nm).
     bindE (store h p (pl\<lparr>pl_name := nm\<rparr>)) (\<lambda>h.
       put_agent q (a\<lparr>ag_player_id := player_id\<rparr>)
         (w\<lparr>w_players := players, w_player_heap := h, w_player_count := w_player_count w + 1\<rparr>)))))))))"

definition HandleUpdatePlayerInfo :: "surroundings \<Rightarrow> nat \<Rightarrow> bytes \<Rightarrow> gw_client \<Rightarrow> fault + gw_client" where
  "HandleUpdatePlayerInfo e = (let en = HandleUpdatePlayerInfo_entry in in_world en (\<lambda>p w c.
     set_world c (update_player_info (en_alloc e) (get en ''player_id'' p) (get en ''agent_id'' p)
       (get_array en ''name'' 2 p) w)))"

definition HandleAgentUpdateProfession :: "surroundings \<Rightarrow> nat \<Rightarrow> bytes \<Rightarrow> gw_client \<Rightarrow> fault + gw_client" where
  "HandleAgentUpdateProfession e = (let en = HandleAgentUpdateProfession_entry in in_world en (\<lambda>p w c.
     set_world c (the_agent (en_alloc e) (get en ''agent_id'' p) (\<lambda>q a.
       put_agent q (a\<lparr>ag_prof1 := get en ''prof1'' p, ag_prof2 := get en ''prof2'' p\<rparr>)) w)))"

end
