(* ===== verification/Area_Info.thy ===== *)
theory Area_Info
  imports Prelude
begin

text \<open>
  The table of the areas of the game, of which only the type of the region is ever read, and the
  choice of the type of a map for a request to enter it, \<^verbatim>\<open>find_map_type_from_map_id\<close> of
  \<^verbatim>\<open>client/client.c\<close>.
\<close>

section \<open>The tables\<close>

datatype region_type =
    RegionType_AllianceBattle | RegionType_Arena | RegionType_ExplorableZone
  | RegionType_GuildBattleArea | RegionType_GuildHall | RegionType_MissionOutpost
  | RegionType_CooperativeMission | RegionType_CompetitiveMission | RegionType_EliteMission
  | RegionType_Challenge | RegionType_Outpost | RegionType_ZaishenBattle | RegionType_HeroesAscent
  | RegionType_City | RegionType_MissionArea | RegionType_HeroBattleOutpost
  | RegionType_HeroBattleArea | RegionType_EotnMission | RegionType_Dungeon | RegionType_Marketplace
  | RegionType_Unknown | RegionType_DevRegion

definition area_info_table_0 :: "region_type list" where
  "area_info_table_0 = [
    RegionType_City, RegionType_Arena, RegionType_Arena, RegionType_ExplorableZone, RegionType_GuildHall,
    RegionType_GuildHall, RegionType_GuildHall, RegionType_ExplorableZone, RegionType_ExplorableZone,
    RegionType_ExplorableZone, RegionType_MissionOutpost, RegionType_MissionOutpost,
    RegionType_MissionOutpost, RegionType_ExplorableZone, RegionType_MissionOutpost,
    RegionType_MissionOutpost, RegionType_MissionOutpost, RegionType_ExplorableZone,
    RegionType_ExplorableZone, RegionType_MissionOutpost, RegionType_City, RegionType_MissionOutpost,
    RegionType_MissionOutpost, RegionType_MissionOutpost, RegionType_MissionOutpost,
    RegionType_MissionOutpost, RegionType_ExplorableZone, RegionType_ExplorableZone,
    RegionType_MissionOutpost, RegionType_MissionOutpost, RegionType_MissionOutpost,
    RegionType_ExplorableZone, RegionType_MissionOutpost, RegionType_ExplorableZone,
    RegionType_ExplorableZone, RegionType_Outpost, RegionType_Outpost, RegionType_Challenge,
    RegionType_Outpost, RegionType_Outpost, RegionType_Outpost, RegionType_ExplorableZone,
    RegionType_ExplorableZone, RegionType_ExplorableZone, RegionType_ExplorableZone,
    RegionType_ExplorableZone, RegionType_ExplorableZone, RegionType_ExplorableZone,
    RegionType_ExplorableZone, RegionType_City, RegionType_ExplorableZone, RegionType_Outpost,
    RegionType_GuildHall, RegionType_ExplorableZone, RegionType_ExplorableZone, RegionType_City,
    RegionType_ExplorableZone, RegionType_Outpost, RegionType_ExplorableZone, RegionType_ExplorableZone,
    RegionType_ExplorableZone, RegionType_ExplorableZone, RegionType_ExplorableZone,
    RegionType_ExplorableZone, RegionType_ExplorableZone, RegionType_Arena, RegionType_MissionOutpost,
    RegionType_ExplorableZone, RegionType_ExplorableZone, RegionType_ExplorableZone,
    RegionType_ExplorableZone, RegionType_ExplorableZone, RegionType_ExplorableZone,
    RegionType_MissionOutpost, RegionType_HeroesAscent, RegionType_HeroesAscent, RegionType_HeroesAscent,
    RegionType_City, RegionType_HeroesAscent, RegionType_HeroesAscent, RegionType_HeroesAscent,
    RegionType_City, RegionType_Outpost, RegionType_HeroesAscent, RegionType_HeroesAscent,
    RegionType_Arena, RegionType_HeroesAscent, RegionType_ExplorableZone, RegionType_ExplorableZone,
    RegionType_ExplorableZone, RegionType_ExplorableZone, RegionType_ExplorableZone,
    RegionType_ExplorableZone, RegionType_ExplorableZone, RegionType_ExplorableZone,
    RegionType_ExplorableZone, RegionType_ExplorableZone, RegionType_ExplorableZone,
    RegionType_ExplorableZone, RegionType_ExplorableZone, RegionType_ExplorableZone,
    RegionType_ExplorableZone, RegionType_ExplorableZone, RegionType_ExplorableZone,
    RegionType_ExplorableZone, RegionType_ExplorableZone, RegionType_ExplorableZone,
    RegionType_ExplorableZone, RegionType_ExplorableZone, RegionType_City, RegionType_ExplorableZone,
    RegionType_ExplorableZone, RegionType_ExplorableZone, RegionType_ExplorableZone,
    RegionType_ExplorableZone, RegionType_ExplorableZone, RegionType_MissionOutpost,
    RegionType_MissionOutpost, RegionType_MissionOutpost, RegionType_MissionOutpost,
    RegionType_MissionOutpost, RegionType_ExplorableZone, RegionType_MissionOutpost,
    RegionType_MissionOutpost, RegionType_MissionOutpost, RegionType_MissionOutpost,
    RegionType_HeroesAscent, RegionType_HeroesAscent, RegionType_ExplorableZone, RegionType_Outpost,
    RegionType_Outpost, RegionType_Outpost, RegionType_Outpost, RegionType_Outpost, RegionType_Outpost,
    RegionType_Outpost, RegionType_Outpost, RegionType_Outpost, RegionType_Outpost, RegionType_Outpost,
    RegionType_Outpost, RegionType_Outpost, RegionType_Outpost, RegionType_Outpost,
    RegionType_ExplorableZone, RegionType_ExplorableZone, RegionType_ExplorableZone]"

definition area_info_table_1 :: "region_type list" where
  "area_info_table_1 = [
    RegionType_ExplorableZone, RegionType_Outpost, RegionType_Arena, RegionType_Arena,
    RegionType_ExplorableZone, RegionType_Outpost, RegionType_Outpost, RegionType_Outpost,
    RegionType_Outpost, RegionType_Outpost, RegionType_Outpost, RegionType_Outpost, RegionType_Outpost,
    RegionType_ExplorableZone, RegionType_ExplorableZone, RegionType_ExplorableZone, RegionType_Outpost,
    RegionType_Outpost, RegionType_Outpost, RegionType_Outpost, RegionType_GuildBattleArea,
    RegionType_GuildBattleArea, RegionType_DevRegion, RegionType_GuildBattleArea,
    RegionType_GuildBattleArea, RegionType_GuildBattleArea, RegionType_GuildBattleArea,
    RegionType_GuildBattleArea, RegionType_GuildBattleArea, RegionType_GuildHall, RegionType_GuildHall,
    RegionType_GuildHall, RegionType_GuildHall, RegionType_Arena, RegionType_Arena, RegionType_Arena,
    RegionType_Arena, RegionType_Arena, RegionType_GuildBattleArea, RegionType_GuildHall,
    RegionType_ExplorableZone, RegionType_Arena, RegionType_Arena, RegionType_ExplorableZone,
    RegionType_ExplorableZone, RegionType_MissionOutpost, RegionType_City, RegionType_City,
    RegionType_ExplorableZone, RegionType_ExplorableZone, RegionType_ExplorableZone,
    RegionType_ExplorableZone, RegionType_ExplorableZone, RegionType_ExplorableZone,
    RegionType_ExplorableZone, RegionType_ExplorableZone, RegionType_ExplorableZone,
    RegionType_CooperativeMission, RegionType_ExplorableZone, RegionType_Outpost,
    RegionType_ExplorableZone, RegionType_Arena, RegionType_ExplorableZone, RegionType_ExplorableZone,
    RegionType_ExplorableZone, RegionType_ExplorableZone, RegionType_MissionOutpost,
    RegionType_MissionOutpost, RegionType_CooperativeMission, RegionType_MissionOutpost,
    RegionType_MissionOutpost, RegionType_MissionOutpost, RegionType_MissionOutpost,
    RegionType_MissionOutpost, RegionType_CompetitiveMission, RegionType_MissionOutpost,
    RegionType_CompetitiveMission, RegionType_MissionOutpost, RegionType_MissionOutpost,
    RegionType_MissionOutpost, RegionType_ExplorableZone, RegionType_AllianceBattle,
    RegionType_AllianceBattle, RegionType_Challenge, RegionType_AllianceBattle, RegionType_ExplorableZone,
    RegionType_ExplorableZone, RegionType_Challenge, RegionType_ExplorableZone, RegionType_ExplorableZone,
    RegionType_ExplorableZone, RegionType_ExplorableZone, RegionType_ExplorableZone,
    RegionType_ExplorableZone, RegionType_ExplorableZone, RegionType_City, RegionType_Arena,
    RegionType_ExplorableZone, RegionType_ExplorableZone, RegionType_ExplorableZone,
    RegionType_ExplorableZone, RegionType_City, RegionType_Outpost, RegionType_Outpost, RegionType_Outpost,
    RegionType_ExplorableZone, RegionType_Arena, RegionType_MissionOutpost, RegionType_MissionOutpost,
    RegionType_ExplorableZone, RegionType_MissionArea, RegionType_MissionArea, RegionType_MissionArea,
    RegionType_MissionArea, RegionType_MissionArea, RegionType_MissionArea, RegionType_MissionArea,
    RegionType_MissionArea, RegionType_ExplorableZone, RegionType_EliteMission, RegionType_MissionArea,
    RegionType_MissionArea, RegionType_ExplorableZone, RegionType_MissionArea, RegionType_MissionArea,
    RegionType_Challenge, RegionType_Challenge, RegionType_Challenge, RegionType_GuildHall,
    RegionType_GuildHall, RegionType_Outpost, RegionType_Outpost, RegionType_Outpost,
    RegionType_ExplorableZone, RegionType_ZaishenBattle, RegionType_ZaishenBattle, RegionType_Outpost,
    RegionType_Outpost, RegionType_ExplorableZone, RegionType_Outpost, RegionType_Outpost,
    RegionType_Outpost, RegionType_Outpost, RegionType_ExplorableZone, RegionType_CooperativeMission,
    RegionType_CooperativeMission, RegionType_CompetitiveMission]"

definition area_info_table_2 :: "region_type list" where
  "area_info_table_2 = [
    RegionType_CompetitiveMission, RegionType_CompetitiveMission, RegionType_CompetitiveMission,
    RegionType_CooperativeMission, RegionType_CooperativeMission, RegionType_AllianceBattle,
    RegionType_AllianceBattle, RegionType_ExplorableZone, RegionType_ExplorableZone, RegionType_Outpost,
    RegionType_MissionArea, RegionType_MissionArea, RegionType_MissionArea, RegionType_EliteMission,
    RegionType_Arena, RegionType_ZaishenBattle, RegionType_ZaishenBattle, RegionType_ZaishenBattle,
    RegionType_ZaishenBattle, RegionType_ExplorableZone, RegionType_Arena, RegionType_DevRegion,
    RegionType_DevRegion, RegionType_DevRegion, RegionType_ZaishenBattle, RegionType_ZaishenBattle,
    RegionType_ZaishenBattle, RegionType_ZaishenBattle, RegionType_ZaishenBattle, RegionType_MissionArea,
    RegionType_MissionArea, RegionType_MissionArea, RegionType_MissionArea, RegionType_ExplorableZone,
    RegionType_AllianceBattle, RegionType_AllianceBattle, RegionType_HeroesAscent,
    RegionType_AllianceBattle, RegionType_AllianceBattle, RegionType_AllianceBattle,
    RegionType_AllianceBattle, RegionType_AllianceBattle, RegionType_AllianceBattle,
    RegionType_AllianceBattle, RegionType_AllianceBattle, RegionType_ZaishenBattle,
    RegionType_ZaishenBattle, RegionType_ZaishenBattle, RegionType_ZaishenBattle, RegionType_ZaishenBattle,
    RegionType_ExplorableZone, RegionType_ExplorableZone, RegionType_ExplorableZone,
    RegionType_ExplorableZone, RegionType_Outpost, RegionType_Outpost, RegionType_Outpost,
    RegionType_ExplorableZone, RegionType_Arena, RegionType_Arena, RegionType_Arena,
    RegionType_GuildBattleArea, RegionType_GuildBattleArea, RegionType_GuildBattleArea,
    RegionType_GuildBattleArea, RegionType_GuildHall, RegionType_GuildHall, RegionType_ExplorableZone,
    RegionType_ExplorableZone, RegionType_ExplorableZone, RegionType_ExplorableZone, RegionType_Arena,
    RegionType_Arena, RegionType_ExplorableZone, RegionType_Arena, RegionType_ExplorableZone,
    RegionType_MissionArea, RegionType_ExplorableZone, RegionType_ExplorableZone,
    RegionType_ExplorableZone, RegionType_DevRegion, RegionType_ExplorableZone, RegionType_Outpost,
    RegionType_ExplorableZone, RegionType_Outpost, RegionType_ExplorableZone, RegionType_ExplorableZone,
    RegionType_Outpost, RegionType_ExplorableZone, RegionType_DevRegion, RegionType_ExplorableZone,
    RegionType_ExplorableZone, RegionType_ExplorableZone, RegionType_City, RegionType_Outpost,
    RegionType_Outpost, RegionType_Outpost, RegionType_Outpost, RegionType_ExplorableZone,
    RegionType_Outpost, RegionType_ExplorableZone, RegionType_ExplorableZone, RegionType_Outpost,
    RegionType_ExplorableZone, RegionType_Outpost, RegionType_ExplorableZone, RegionType_ExplorableZone,
    RegionType_ExplorableZone, RegionType_ExplorableZone, RegionType_Outpost, RegionType_ExplorableZone,
    RegionType_MissionArea, RegionType_ExplorableZone, RegionType_Outpost, RegionType_ExplorableZone,
    RegionType_ExplorableZone, RegionType_ExplorableZone, RegionType_ExplorableZone,
    RegionType_ExplorableZone, RegionType_ExplorableZone, RegionType_City, RegionType_ExplorableZone,
    RegionType_MissionArea, RegionType_MissionArea, RegionType_MissionArea, RegionType_ExplorableZone,
    RegionType_ExplorableZone, RegionType_MissionOutpost, RegionType_ExplorableZone,
    RegionType_ExplorableZone, RegionType_MissionOutpost, RegionType_MissionOutpost,
    RegionType_MissionOutpost, RegionType_MissionOutpost, RegionType_MissionOutpost,
    RegionType_ExplorableZone, RegionType_ExplorableZone, RegionType_Outpost, RegionType_ExplorableZone,
    RegionType_MissionOutpost, RegionType_MissionOutpost, RegionType_MissionOutpost,
    RegionType_ExplorableZone, RegionType_ExplorableZone, RegionType_Outpost, RegionType_ExplorableZone,
    RegionType_Outpost]"

definition area_info_table_3 :: "region_type list" where
  "area_info_table_3 = [
    RegionType_ExplorableZone, RegionType_Outpost, RegionType_ExplorableZone, RegionType_ExplorableZone,
    RegionType_EliteMission, RegionType_ExplorableZone, RegionType_ExplorableZone,
    RegionType_ExplorableZone, RegionType_City, RegionType_City, RegionType_EliteMission,
    RegionType_MissionArea, RegionType_MissionArea, RegionType_MissionOutpost, RegionType_ExplorableZone,
    RegionType_ExplorableZone, RegionType_ExplorableZone, RegionType_MissionArea, RegionType_MissionArea,
    RegionType_MissionArea, RegionType_ExplorableZone, RegionType_ExplorableZone,
    RegionType_ExplorableZone, RegionType_ExplorableZone, RegionType_ExplorableZone,
    RegionType_ExplorableZone, RegionType_Arena, RegionType_ExplorableZone, RegionType_Outpost,
    RegionType_ExplorableZone, RegionType_ExplorableZone, RegionType_ExplorableZone, RegionType_Outpost,
    RegionType_EliteMission, RegionType_Dungeon, RegionType_MissionOutpost, RegionType_MissionOutpost,
    RegionType_MissionOutpost, RegionType_Outpost, RegionType_MissionOutpost, RegionType_ExplorableZone,
    RegionType_ExplorableZone, RegionType_ExplorableZone, RegionType_ExplorableZone,
    RegionType_ExplorableZone, RegionType_ExplorableZone, RegionType_Outpost, RegionType_ExplorableZone,
    RegionType_Outpost, RegionType_ExplorableZone, RegionType_MissionOutpost, RegionType_MissionOutpost,
    RegionType_MissionOutpost, RegionType_MissionOutpost, RegionType_MissionOutpost,
    RegionType_MissionOutpost, RegionType_Arena, RegionType_DevRegion, RegionType_ExplorableZone,
    RegionType_ExplorableZone, RegionType_ExplorableZone, RegionType_Outpost, RegionType_ExplorableZone,
    RegionType_Arena, RegionType_ExplorableZone, RegionType_ExplorableZone, RegionType_ExplorableZone,
    RegionType_ExplorableZone, RegionType_ExplorableZone, RegionType_ExplorableZone,
    RegionType_ExplorableZone, RegionType_ExplorableZone, RegionType_ExplorableZone,
    RegionType_MissionArea, RegionType_MissionArea, RegionType_MissionArea, RegionType_MissionArea,
    RegionType_MissionArea, RegionType_MissionArea, RegionType_MissionArea, RegionType_MissionArea,
    RegionType_MissionArea, RegionType_MissionArea, RegionType_MissionArea, RegionType_MissionArea,
    RegionType_MissionArea, RegionType_MissionArea, RegionType_MissionArea, RegionType_GuildHall,
    RegionType_GuildHall, RegionType_ExplorableZone, RegionType_ExplorableZone, RegionType_GuildBattleArea,
    RegionType_GuildBattleArea, RegionType_Arena, RegionType_Arena, RegionType_GuildHall,
    RegionType_GuildHall, RegionType_ExplorableZone, RegionType_ExplorableZone, RegionType_GuildBattleArea,
    RegionType_GuildBattleArea, RegionType_ExplorableZone, RegionType_MissionOutpost, RegionType_Challenge,
    RegionType_ExplorableZone, RegionType_HeroBattleArea, RegionType_ExplorableZone,
    RegionType_HeroBattleOutpost, RegionType_HeroBattleArea, RegionType_HeroBattleArea,
    RegionType_HeroBattleArea, RegionType_ExplorableZone, RegionType_Challenge, RegionType_Challenge,
    RegionType_MissionArea, RegionType_Outpost, RegionType_ExplorableZone, RegionType_Outpost,
    RegionType_Dungeon, RegionType_ExplorableZone, RegionType_ExplorableZone, RegionType_ExplorableZone,
    RegionType_ExplorableZone, RegionType_ExplorableZone, RegionType_ExplorableZone, RegionType_Dungeon,
    RegionType_Dungeon, RegionType_ExplorableZone, RegionType_Dungeon, RegionType_Dungeon,
    RegionType_ExplorableZone, RegionType_Dungeon, RegionType_Dungeon, RegionType_Dungeon,
    RegionType_Dungeon, RegionType_Dungeon, RegionType_Dungeon, RegionType_Dungeon, RegionType_Dungeon,
    RegionType_Dungeon, RegionType_Dungeon, RegionType_Dungeon, RegionType_Dungeon, RegionType_Dungeon,
    RegionType_Dungeon, RegionType_Dungeon]"

definition area_info_table_4 :: "region_type list" where
  "area_info_table_4 = [
    RegionType_Dungeon, RegionType_Dungeon, RegionType_Dungeon, RegionType_Dungeon,
    RegionType_CooperativeMission, RegionType_HeroesAscent, RegionType_HeroesAscent,
    RegionType_HeroesAscent, RegionType_HeroesAscent, RegionType_HeroesAscent, RegionType_HeroesAscent,
    RegionType_HeroesAscent, RegionType_HeroesAscent, RegionType_Dungeon, RegionType_Dungeon,
    RegionType_Dungeon, RegionType_Dungeon, RegionType_Dungeon, RegionType_Dungeon, RegionType_Dungeon,
    RegionType_Dungeon, RegionType_Dungeon, RegionType_Dungeon, RegionType_Dungeon, RegionType_Dungeon,
    RegionType_Dungeon, RegionType_Dungeon, RegionType_Dungeon, RegionType_Dungeon, RegionType_Dungeon,
    RegionType_Dungeon, RegionType_Dungeon, RegionType_Dungeon, RegionType_Dungeon, RegionType_Dungeon,
    RegionType_Dungeon, RegionType_Outpost, RegionType_ExplorableZone, RegionType_ExplorableZone,
    RegionType_ExplorableZone, RegionType_Dungeon, RegionType_Dungeon, RegionType_Dungeon,
    RegionType_Dungeon, RegionType_Dungeon, RegionType_Dungeon, RegionType_Dungeon, RegionType_Dungeon,
    RegionType_Dungeon, RegionType_Dungeon, RegionType_Outpost, RegionType_Outpost, RegionType_City,
    RegionType_Outpost, RegionType_Outpost, RegionType_Outpost, RegionType_City, RegionType_Outpost,
    RegionType_ExplorableZone, RegionType_ExplorableZone, RegionType_City, RegionType_ExplorableZone,
    RegionType_Outpost, RegionType_ExplorableZone, RegionType_Outpost, RegionType_ExplorableZone,
    RegionType_ExplorableZone, RegionType_Dungeon, RegionType_Dungeon, RegionType_Dungeon,
    RegionType_Dungeon, RegionType_Dungeon, RegionType_Dungeon, RegionType_Dungeon, RegionType_Dungeon,
    RegionType_Dungeon, RegionType_ExplorableZone, RegionType_ExplorableZone, RegionType_Dungeon,
    RegionType_Dungeon, RegionType_Dungeon, RegionType_ExplorableZone, RegionType_Dungeon,
    RegionType_Dungeon, RegionType_Dungeon, RegionType_ExplorableZone, RegionType_ExplorableZone,
    RegionType_Outpost, RegionType_Dungeon, RegionType_ExplorableZone, RegionType_ExplorableZone,
    RegionType_MissionArea, RegionType_MissionArea, RegionType_MissionArea, RegionType_MissionArea,
    RegionType_MissionArea, RegionType_MissionArea, RegionType_MissionArea, RegionType_ExplorableZone,
    RegionType_ExplorableZone, RegionType_ExplorableZone, RegionType_MissionArea,
    RegionType_ExplorableZone, RegionType_ExplorableZone, RegionType_ExplorableZone,
    RegionType_ExplorableZone, RegionType_MissionArea, RegionType_ExplorableZone,
    RegionType_ExplorableZone, RegionType_ExplorableZone, RegionType_ExplorableZone,
    RegionType_ExplorableZone, RegionType_ExplorableZone, RegionType_Dungeon, RegionType_ExplorableZone,
    RegionType_ExplorableZone, RegionType_Dungeon, RegionType_ExplorableZone, RegionType_ExplorableZone,
    RegionType_ExplorableZone, RegionType_ExplorableZone, RegionType_Arena, RegionType_ExplorableZone,
    RegionType_ExplorableZone, RegionType_Arena, RegionType_Arena, RegionType_Arena,
    RegionType_MissionArea, RegionType_MissionArea, RegionType_ExplorableZone, RegionType_MissionArea,
    RegionType_MissionArea, RegionType_ExplorableZone, RegionType_Arena, RegionType_Arena,
    RegionType_Arena, RegionType_Arena, RegionType_Arena, RegionType_ExplorableZone,
    RegionType_ExplorableZone, RegionType_ExplorableZone, RegionType_ExplorableZone,
    RegionType_MissionArea, RegionType_MissionArea, RegionType_MissionArea, RegionType_MissionArea,
    RegionType_MissionArea]"

definition area_info_table_5 :: "region_type list" where
  "area_info_table_5 = [
    RegionType_MissionArea, RegionType_MissionArea, RegionType_MissionArea, RegionType_MissionArea,
    RegionType_MissionArea, RegionType_MissionArea, RegionType_MissionArea, RegionType_MissionArea,
    RegionType_MissionArea, RegionType_MissionArea, RegionType_MissionArea, RegionType_MissionArea,
    RegionType_MissionArea, RegionType_MissionArea, RegionType_MissionArea, RegionType_MissionArea,
    RegionType_MissionArea, RegionType_MissionArea, RegionType_MissionArea, RegionType_MissionArea,
    RegionType_MissionArea, RegionType_DevRegion, RegionType_DevRegion, RegionType_DevRegion,
    RegionType_EotnMission, RegionType_EotnMission, RegionType_EotnMission, RegionType_EotnMission,
    RegionType_EotnMission, RegionType_EotnMission, RegionType_EotnMission, RegionType_EotnMission,
    RegionType_EotnMission, RegionType_EotnMission, RegionType_EotnMission, RegionType_ExplorableZone,
    RegionType_ExplorableZone, RegionType_ExplorableZone, RegionType_ExplorableZone,
    RegionType_Marketplace, RegionType_MissionArea, RegionType_ExplorableZone, RegionType_MissionArea,
    RegionType_MissionArea, RegionType_DevRegion, RegionType_DevRegion, RegionType_ExplorableZone,
    RegionType_ExplorableZone, RegionType_ExplorableZone, RegionType_ZaishenBattle,
    RegionType_HeroBattleArea, RegionType_GuildBattleArea, RegionType_GuildBattleArea,
    RegionType_ExplorableZone, RegionType_ExplorableZone, RegionType_ExplorableZone,
    RegionType_ExplorableZone, RegionType_ExplorableZone, RegionType_ExplorableZone,
    RegionType_ExplorableZone, RegionType_Outpost, RegionType_Arena, RegionType_Dungeon,
    RegionType_Dungeon, RegionType_Dungeon, RegionType_Dungeon, RegionType_Dungeon, RegionType_Dungeon,
    RegionType_Dungeon, RegionType_Dungeon, RegionType_Dungeon, RegionType_ExplorableZone,
    RegionType_ExplorableZone, RegionType_City, RegionType_City, RegionType_City, RegionType_City,
    RegionType_City, RegionType_City, RegionType_Outpost, RegionType_City, RegionType_City,
    RegionType_City, RegionType_City, RegionType_City, RegionType_City, RegionType_Outpost,
    RegionType_City, RegionType_Arena, RegionType_Arena, RegionType_Arena, RegionType_Arena,
    RegionType_Arena, RegionType_Arena, RegionType_Arena, RegionType_Arena, RegionType_Arena,
    RegionType_Arena, RegionType_Arena, RegionType_Arena, RegionType_Arena, RegionType_Arena,
    RegionType_ExplorableZone, RegionType_ExplorableZone, RegionType_ExplorableZone,
    RegionType_ExplorableZone, RegionType_ExplorableZone, RegionType_ExplorableZone,
    RegionType_ExplorableZone, RegionType_ExplorableZone, RegionType_ExplorableZone,
    RegionType_ExplorableZone, RegionType_ExplorableZone, RegionType_ExplorableZone,
    RegionType_ExplorableZone, RegionType_ExplorableZone, RegionType_ExplorableZone,
    RegionType_ExplorableZone, RegionType_ExplorableZone, RegionType_ExplorableZone, RegionType_Arena,
    RegionType_ExplorableZone, RegionType_Outpost, RegionType_ExplorableZone, RegionType_ExplorableZone,
    RegionType_ExplorableZone, RegionType_ExplorableZone, RegionType_ExplorableZone,
    RegionType_ExplorableZone, RegionType_ExplorableZone, RegionType_ExplorableZone,
    RegionType_ExplorableZone, RegionType_ExplorableZone, RegionType_Challenge, RegionType_ExplorableZone,
    RegionType_ExplorableZone, RegionType_ExplorableZone, RegionType_ExplorableZone,
    RegionType_ExplorableZone, RegionType_ExplorableZone, RegionType_ExplorableZone,
    RegionType_ExplorableZone]"

definition area_info_table :: "region_type list" where
  "area_info_table = area_info_table_0 @ area_info_table_1 @ area_info_table_2 @ area_info_table_3 @ area_info_table_4 @ area_info_table_5"

definition region_type_to_map_type_table :: "(u32 \<times> region_type) list" where
  "region_type_to_map_type_table = [
    (5, RegionType_Arena), (5, RegionType_AllianceBattle), (5, RegionType_CooperativeMission),
    (5, RegionType_CompetitiveMission), (5, RegionType_HeroBattleOutpost), (15, RegionType_Marketplace),
    (0, RegionType_City), (3, RegionType_MissionOutpost), (3, RegionType_EliteMission),
    (3, RegionType_Challenge), (3, RegionType_Outpost), (3, RegionType_ZaishenBattle),
    (3, RegionType_City), (2, RegionType_GuildHall), (7, RegionType_HeroesAscent),
    (16, RegionType_Unknown), (6, RegionType_HeroBattleArea), (6, RegionType_Arena),
    (6, RegionType_AllianceBattle), (6, RegionType_CooperativeMission), (6, RegionType_CompetitiveMission),
    (4, RegionType_MissionOutpost), (4, RegionType_EliteMission), (4, RegionType_Challenge),
    (4, RegionType_ZaishenBattle), (1, RegionType_ExplorableZone), (1, RegionType_MissionArea),
    (1, RegionType_Dungeon), (10, RegionType_GuildBattleArea), (8, RegionType_HeroesAscent)]"

section \<open>The choice\<close>

definition find_map_type_from_map_id :: "u32 \<Rightarrow> fault + u32" where
  "find_map_type_from_map_id map_id =
     bindE (assertE (unat map_id < length area_info_table)) (\<lambda>_.
     bindE (idx area_info_table (unat map_id)) (\<lambda>area_info.
       case List.find (\<lambda>(map_type, region_type). region_type = area_info) region_type_to_map_type_table of
         Some (map_type, _) \<Rightarrow> Inr map_type
       | None \<Rightarrow> Inl AssertFail))"

end
