(* ===== verification/Auth_Session.thy ===== *)
theory Auth_Session
  imports Client Area_Info
begin

text \<open>
  The session with the authentication server: \<^verbatim>\<open>client/auth.c\<close>, the requests of \<^verbatim>\<open>client/client.c\<close>
  and the change of game servers of \<^verbatim>\<open>client/instance.c\<close>. A request is remembered with a transaction
  number and its kind; the response of the server continues what the request was made for. The state
  \<^verbatim>\<open>AwaitState\<close> says what the main loop does next.
\<close>

section \<open>The client\<close>

text \<open>The arrays of the connections and of the log of the chat are reserved when the client is created.\<close>

definition init_chat :: "(nat \<Rightarrow> bool) \<Rightarrow> fault + chat" where
  "init_chat alloc = bindE (ignored (array_resize alloc zero_chat_message sizeof_ChatMessage array_init 256)) (\<lambda>ms.
     Inr \<lparr>chat_next_message_entry = 0, chat_messages = ms, chat_str_builder = array_init\<rparr>)"

definition init_client :: "surroundings \<Rightarrow> world \<Rightarrow> fault + gw_client" where
  "init_client e zeros =
     bindE (init_chat (en_alloc e)) (\<lambda>chat.
     bindE (init_connection (en_alloc e)) (\<lambda>auth.
     bindE (init_connection (en_alloc e)) (\<lambda>game.
       Inr \<lparr>auth_srv = auth, game_srv = game, gc_mutex = 0, gc_uuid = zero_uuid,
            gc_email = kstr_init (replicate 100 0) 0 100, gc_charname = kstr_init (replicate 64 0) 0 64,
            gc_password = replicate 20 0, portal_token = zero_uuid, portal_user_id = zero_uuid,
            gc_state = AwaitAuthServer, gc_ingame = False, gc_loading = True, gc_connected = True,
            gc_try_changing_zone = False, gc_static_salt = 0, next_transaction_id = 1,
            gc_requests = zero_carray, gc_player_status = 0, gc_friends = zero_carray,
            gc_characters = array_init, current_character_idx = 0, pending_character_idx = 0,
            gc_region = 0, gc_chat = chat, gc_world = zeros,
            gc_player_hero = zero_player_hero\<lparr>ph_maps_unlocked := array_init\<rparr>,
            server_transfer = \<lparr>gt_map_id = 0, gt_world_id = 0, gt_player_id = 0, gt_host = (0, replicate 14 0)\<rparr>,
            auth_wire = [], game_wire = []\<rparr>)))"

definition issue_next_transaction :: "surroundings \<Rightarrow> async_type \<Rightarrow> gw_client \<Rightarrow> fault + u32 \<times> gw_client" where
  "issue_next_transaction e type c =
     bindE (array_push (en_alloc e) \<lparr>ar_trans_id = 0, ar_type = AsyncType_None\<rparr> sizeof_AsyncRequest (gc_requests c) 1)
       (\<lambda>(request, a).
       case request of None \<Rightarrow> Inl NullDeref
       | Some i \<Rightarrow>
           let trans_id = next_transaction_id c + 1 in
           bindE (upd (arr_data a) i \<lparr>ar_trans_id = trans_id, ar_type = type\<rparr>) (\<lambda>d.
             Inr (trans_id, c\<lparr>gc_requests := a\<lparr>arr_data := d\<rparr>, next_transaction_id := trans_id\<rparr>)))"

definition GetCharacter :: "gw_client \<Rightarrow> nat \<Rightarrow> fault + character option" where
  "GetCharacter c char_id =
     (if arr_size (gc_characters c) \<le> char_id then Inr None
      else bindE (array_at (gc_characters c) char_id) (\<lambda>ch. Inr (Some ch)))"

text \<open>The password hash is computed over both texts in a buffer of 256 units.\<close>

definition compute_pswd_hash :: "(bytes \<Rightarrow> bytes) \<Rightarrow> kstr \<Rightarrow> kstr \<Rightarrow> fault + bytes" where
  "compute_pswd_hash sha1 email pswd =
     bindE (mem_read (k_buffer pswd) 0 (k_length pswd)) (\<lambda>ps.
     bindE (mem_read (k_buffer email) 0 (k_length email)) (\<lambda>es.
     bindE (mem_write (replicate 256 0) 0 (ps @ es)) (\<lambda>_. Inr (sha1 (u16s (ps @ es))))))"

section \<open>Messages to the authentication server\<close>

definition AuthSrv_HeartBeat :: "surroundings \<Rightarrow> u64 \<Rightarrow> gw_client \<Rightarrow> fault + gw_client" where
  "AuthSrv_HeartBeat e tick = send_auth e (NewPacket AUTH_CMSG_HEARTBEAT (le32enc (ucast tick AND 0xFFFFFF)))"

definition AuthSrv_AskServerResponse :: "surroundings \<Rightarrow> u32 \<Rightarrow> gw_client \<Rightarrow> fault + gw_client" where
  "AuthSrv_AskServerResponse e trans_id =
     send_auth e (NewPacket AUTH_CMSG_ASK_SERVER_RESPONSE (le32enc trans_id))"

definition AuthSrv_ComputerInfo :: "surroundings \<Rightarrow> gw_client \<Rightarrow> fault + gw_client" where
  "AuthSrv_ComputerInfo e c =
     bindE (kstr_read_ascii (kstr_init (replicate 32 0) 0 32) (str ''Wyatt-PC'') 8) (\<lambda>(_, pcname).
     bindE (kstr_read_ascii (kstr_init (replicate 32 0) 0 32) (str ''Wyatt'') 5) (\<lambda>(_, username).
     bindE (kstr_write pcname (replicate 32 0) 32) (\<lambda>(_, pc).
     bindE (kstr_write username (replicate 32 0) 32) (\<lambda>(_, user).
     bindE (send_auth e (NewPacket AUTH_CMSG_SEND_COMPUTER_INFO (u16s user @ u16s pc)) c) (\<lambda>c.
       send_auth e (NewPacket AUTH_CMSG_SEND_COMPUTER_HASH (le32enc (opt_game_version (en_options e)) @
         [0x19, 0x0D, 0xB0, 0x37, 0xE6, 0x05, 0x13, 0x6B, 0x86, 0x18, 0x66, 0x28, 0x45, 0x7E, 0xDD, 0xB5])) c)))))"

definition AuthSrv_RequestInstance ::
    "surroundings \<Rightarrow> u32 \<Rightarrow> u32 \<Rightarrow> u32 \<Rightarrow> u32 \<Rightarrow> u32 \<Rightarrow> u32 \<Rightarrow> gw_client \<Rightarrow> fault + gw_client" where
  "AuthSrv_RequestInstance e trans_id map_id type region district language c =
     send_auth e (NewPacket AUTH_CMSG_REQUEST_GAME_INSTANCE (le32enc trans_id @ le32enc type @ le32enc map_id @
       le32enc region @ le32enc district @ le32enc language)) (c\<lparr>gc_state := AwaitGameServerInfo\<rparr>)"

definition AuthSrv_ChangeCharacter :: "surroundings \<Rightarrow> u32 \<Rightarrow> kstr \<Rightarrow> gw_client \<Rightarrow> fault + gw_client" where
  "AuthSrv_ChangeCharacter e trans_id name c =
     bindE (assertE (k_length name \<noteq> 0)) (\<lambda>_.
       if 19 < k_length name then Inr c
       else bindE (mem_read (k_buffer name) 0 (k_length name)) (\<lambda>text.
            send_auth e (NewPacket AUTH_CMSG_CHANGE_PLAY_CHARACTER
              (le32enc trans_id @ u16s (text @ replicate (20 - k_length name) 0))) c))"

definition AuthSrv_SetPlayerStatus :: "surroundings \<Rightarrow> u32 \<Rightarrow> gw_client \<Rightarrow> fault + gw_client" where
  "AuthSrv_SetPlayerStatus e status = send_auth e (NewPacket AUTH_CMSG_SET_PLAYER_STATUS (le32enc status))"

definition AuthSrv_SendPacket35 :: "surroundings \<Rightarrow> gw_client \<Rightarrow> fault + gw_client" where
  "AuthSrv_SendPacket35 e = send_auth e (NewPacket 35 (le32enc 0))"

definition AUTH_CMSG_DISCONNECT :: nat where "AUTH_CMSG_DISCONNECT = 0x800D"
definition AUTH_CMSG_PORTAL_ACCOUNT_LOGIN :: nat where "AUTH_CMSG_PORTAL_ACCOUNT_LOGIN = 0x8038"

text \<open>The request is remembered before the length of the name is checked.\<close>

definition PortalAccountConnect :: "surroundings \<Rightarrow> uuid \<Rightarrow> uuid \<Rightarrow> kstr \<Rightarrow> gw_client \<Rightarrow> fault + gw_client" where
  "PortalAccountConnect e user_id token charname c =
     (if gc_state c \<noteq> AwaitAccountConnect then Inr c
      else bindE (issue_next_transaction e AsyncType_AccountLogin c) (\<lambda>(trans_id, c).
        if 20 < k_length charname then Inr c
        else send_auth e (NewPacket AUTH_CMSG_PORTAL_ACCOUNT_LOGIN
          (le32enc trans_id @ uuid_enc_le user_id @ uuid_enc_le token @ u16s (replicate 20 0))) c))"

definition AccountLogin :: "surroundings \<Rightarrow> gw_client \<Rightarrow> fault + gw_client" where
  "AccountLogin e c =
     bindE (assertE (gc_state c = AwaitAccountConnect)) (\<lambda>_.
     bindE (if opt_newauth (en_options e)
            then PortalAccountConnect e (portal_user_id c) (portal_token c) (gc_charname c) c
            else Inr c) (\<lambda>c. Inr (c\<lparr>gc_state := AwaitAccountConnection\<rparr>)))"

definition AccountLogout :: "surroundings \<Rightarrow> gw_client \<Rightarrow> fault + gw_client" where
  "AccountLogout e = send_auth e (NewPacket AUTH_CMSG_DISCONNECT (le32enc 0))"

section \<open>What a response continues\<close>

definition ContinueAccountLogin :: "surroundings \<Rightarrow> u32 \<Rightarrow> gw_client \<Rightarrow> fault + gw_client" where
  "ContinueAccountLogin e error_code c =
     bindE (assertE (gc_state c = AwaitAccountConnection)) (\<lambda>_.
       if error_code \<noteq> 0 then Inr (c\<lparr>gc_state := AwaitNothing\<rparr>)
       else bindE (issue_next_transaction e AsyncType_SendHardwareInfo c) (\<lambda>(trans_id, c).
            AuthSrv_AskServerResponse e trans_id (c\<lparr>gc_state := AwaitHardwareInfoReply\<rparr>)))"

definition ContinueSendHardwareInfo :: "u32 \<Rightarrow> gw_client \<Rightarrow> fault + gw_client" where
  "ContinueSendHardwareInfo error_code c =
     bindE (assertE (gc_state c = AwaitHardwareInfoReply)) (\<lambda>_.
       Inr (c\<lparr>gc_state := AwaitPlayCharacter, gc_connected := True\<rparr>))"

definition begin_travel :: "gw_client \<Rightarrow> gw_client" where
  "begin_travel c = c\<lparr>gc_try_changing_zone := True\<rparr>"

definition ContinuePlayCharacter :: "surroundings \<Rightarrow> u32 \<Rightarrow> gw_client \<Rightarrow> fault + gw_client" where
  "ContinuePlayCharacter e error_code c =
     bindE (assertE (gc_state c = AwaitChangeCharacter)) (\<lambda>_.
       if error_code \<noteq> 0 then Inr c
       else
         bindE (issue_next_transaction e AsyncType_PlayCharacter (begin_travel c)) (\<lambda>(trans_id, c).
         bindE (case opt_map_id (en_options e) of Some map_id \<Rightarrow> Inr map_id
                | None \<Rightarrow> bindE (GetCharacter c (current_character_idx c)) (\<lambda>ch.
                    Inr (case ch of None \<Rightarrow> 0 | Some ch \<Rightarrow> last_outpost ch))) (\<lambda>choosen_map_id.
         bindE (case opt_map_type (en_options e) of Some map_type \<Rightarrow> Inr map_type
                | None \<Rightarrow> find_map_type_from_map_id choosen_map_id) (\<lambda>map_type.
           AuthSrv_RequestInstance e trans_id choosen_map_id map_type 0 0 0 c))))"

text \<open>The loop over the characters, from the index on.\<close>

fun find_named :: "character list \<Rightarrow> kstr \<Rightarrow> nat \<Rightarrow> fault + nat option" where
  "find_named [] name i = Inr None"
| "find_named (ch # chs) name i =
     bindE (kstr_compare (ch_name ch) name) (\<lambda>r. if r = 0 then Inr (Some i) else find_named chs name (i + 1))"

definition ChangeCharacter :: "surroundings \<Rightarrow> kstr option \<Rightarrow> gw_client \<Rightarrow> fault + bool \<times> gw_client" where
  "ChangeCharacter e name c =
     bindE (GetCharacter c (current_character_idx c)) (\<lambda>cc.
       case (cc, name) of
         (Some cc, Some name) \<Rightarrow>
           bindE (kstr_compare (ch_name cc) name) (\<lambda>r.
             if r = 0 then Inr (False, c)
             else
               bindE (foreach (gc_characters c)) (\<lambda>chs.
               bindE (find_named chs name 0) (\<lambda>i.
                 case i of
                   None \<Rightarrow> Inr (False, c)
                 | Some i \<Rightarrow>
                     bindE (issue_next_transaction e AsyncType_ChangeCharacter
                       (c\<lparr>gc_state := AwaitChangeCharacter, pending_character_idx := i\<rparr>)) (\<lambda>(trans_id, c).
                     bindE (AuthSrv_ChangeCharacter e trans_id name c) (\<lambda>c. Inr (True, c))))))
       | _ \<Rightarrow> Inr (False, c))"

definition PlayCharacter :: "surroundings \<Rightarrow> kstr option \<Rightarrow> u32 \<Rightarrow> gw_client \<Rightarrow> fault + gw_client" where
  "PlayCharacter e name status c =
     bindE (assertE (gc_state c = AwaitPlayCharacter)) (\<lambda>_.
     bindE (if gc_player_status c \<noteq> status
            then bindE (AuthSrv_SetPlayerStatus e status c) (\<lambda>c. Inr (c\<lparr>gc_player_status := status\<rparr>))
            else Inr c) (\<lambda>c.
     bindE (ChangeCharacter e name c) (\<lambda>(changed, c).
       if changed then Inr c
       else ContinuePlayCharacter e 0 (c\<lparr>gc_state := AwaitChangeCharacter\<rparr>))))"

definition ContinueChangeCharacter :: "surroundings \<Rightarrow> u32 \<Rightarrow> gw_client \<Rightarrow> fault + gw_client" where
  "ContinueChangeCharacter e error_code c =
     bindE (assertE (gc_state c = AwaitChangeCharacter \<and> pending_character_idx c \<noteq> 0)) (\<lambda>_.
       if error_code \<noteq> 0 then Inr c
       else PlayCharacter e None 0 (c\<lparr>current_character_idx := pending_character_idx c,
              pending_character_idx := 0, gc_state := AwaitPlayCharacter\<rparr>))"

end
