(* ===== verification/Instances.thy ===== *)
theory Instances
  imports Auth_Session
begin

text \<open>
  Changing the game server, \<^verbatim>\<open>client/instance.c\<close>, and the messages of \<^verbatim>\<open>client/game.c\<close> about the
  instance, the gold, cinematics and pings.
\<close>

section \<open>Leaving and entering game servers\<close>

definition GameSrv_Disconnect :: "surroundings \<Rightarrow> gw_client \<Rightarrow> fault + gw_client" where
  "GameSrv_Disconnect e c =
     bindE (assertE (conn_secured (game_srv c))) (\<lambda>_.
     bindE (send_game e (NewPacket GAME_CMSG_DISCONNECT []) (c\<lparr>gc_state := AwaitGameServerDisconnect\<rparr>)) (\<lambda>c.
     bindE (NetConn_Shutdown (en_send e (conn_fd (game_srv c))) (game_srv c)) (\<lambda>(conn, sent).
       Inr (c\<lparr>game_srv := conn, game_wire := game_wire c @ sent\<rparr>))))"

definition GameSrv_LogoutToCharselect :: "surroundings \<Rightarrow> gw_client \<Rightarrow> fault + gw_client" where
  "GameSrv_LogoutToCharselect e c =
     bindE (if gc_player_status c \<noteq> 0
            then bindE (AuthSrv_SetPlayerStatus e 0 c) (\<lambda>c. Inr (c\<lparr>gc_player_status := 0\<rparr>))
            else Inr c) (GameSrv_Disconnect e)"

definition start_loading_new_zone ::
    "surroundings \<Rightarrow> sockaddr \<Rightarrow> u32 \<Rightarrow> u32 \<Rightarrow> u32 \<Rightarrow> gw_client \<Rightarrow> fault + gw_client" where
  "start_loading_new_zone e host map_id world_id player_id c =
     bindE (if \<not> NetConn_IsShutdown (game_srv c) then GameSrv_Disconnect e c
            else Inr (c\<lparr>gc_state := AwaitGameServerTransfer\<rparr>)) (\<lambda>c.
     bindE (if get_world c = None then Inr c
            else bindE (broadcast e EventType_WorldMapLeave c) (\<lambda>c.
                 set_world c (reset_world (en_alloc e) (gc_world c)))) (\<lambda>c.
       Inr (c\<lparr>server_transfer := \<lparr>gt_map_id = map_id, gt_world_id = world_id, gt_player_id = player_id,
                gt_host = host\<rparr>\<rparr>)))"

text \<open>What the handshake with a game server takes from outside the program.\<close>

record handshake_env =
  he_exp_mod :: "mpi \<Rightarrow> mpi \<Rightarrow> mpi \<Rightarrow> mpi"
  he_rand :: "nat \<Rightarrow> mpi"
  he_os :: os
  he_keys :: DiffieHellmanCtx
  he_net_initialized :: bool

text \<open>The character is read through a pointer that is null when there is none.\<close>

definition TransferGameServer :: "surroundings \<Rightarrow> handshake_env \<Rightarrow> gw_client \<Rightarrow> fault + gw_client" where
  "TransferGameServer e h c =
     bindE (assertE (NetConn_IsShutdown (game_srv c))) (\<lambda>_.
     bindE (assertE (gc_state c = AwaitGameServerTransfer)) (\<lambda>_.
     bindE (GetCharacter c (current_character_idx c)) (\<lambda>cc.
     let transfer = server_transfer c in
     bindE (assertE (w_hash (gc_world c) = 0)) (\<lambda>_.
     bindE (set_world c (init_world (en_alloc e) (gc_world c) (gt_world_id transfer))) (\<lambda>c.
     bindE (case cc of None \<Rightarrow> Inl NullDeref
            | Some cc \<Rightarrow> GameSrv_Connect (he_exp_mod h) (he_rand h) (he_os h) (he_keys h)
                (opt_game_version (en_options e)) (he_net_initialized h) (gc_uuid c) (ch_uuid cc)
                (gt_world_id transfer) (gt_player_id transfer) (gt_map_id transfer)
                ((game_srv c)\<lparr>conn_host := gt_host transfer\<rparr>)) (\<lambda>(ok, conn, sent).
     let c = c\<lparr>game_srv := conn, game_wire := game_wire c @ concat sent\<rparr> in
       if ok then Inr c
       else bindE (free_world (gc_world c)) (\<lambda>w.
            Inr (c\<lparr>gc_world := w, game_srv := NetConn_Reset (game_srv c), gc_state := AwaitNothing\<rparr>))))))))"

text \<open>The address is the first 16 of the 24 bytes of the message.\<close>

definition host_of :: "bytes \<Rightarrow> sockaddr" where
  "host_of bs = (of_nat (little (take 2 bs)), take 14 (drop 2 bs))"

definition HandleGameServerInfo :: "surroundings \<Rightarrow> nat \<Rightarrow> bytes \<Rightarrow> gw_client \<Rightarrow> fault + gw_client" where
  "HandleGameServerInfo e = (let en = HandleGameServerInfo_entry in entered en (\<lambda>p c.
     bindE (assertE (gc_state c = AwaitGameServerInfo)) (\<lambda>_.
       start_loading_new_zone e (host_of (member_bytes en ''host'' p)) (get en ''map_id'' p)
         (get en ''world_id'' p) (get en ''player_id'' p) c)))"

definition HandleGameTransferInfo :: "surroundings \<Rightarrow> nat \<Rightarrow> bytes \<Rightarrow> gw_client \<Rightarrow> fault + gw_client" where
  "HandleGameTransferInfo e = (let en = HandleGameTransferInfo_entry in in_world en (\<lambda>p w c.
     start_loading_new_zone e (host_of (member_bytes en ''host'' p)) (ucast (get en ''map_id'' p :: u16))
       (get en ''world_id'' p) (get en ''player_id'' p) (c\<lparr>gc_region := scast (get en ''region'' p :: u8)\<rparr>)))"

section \<open>Messages about the instance\<close>

text \<open>Handlers that read nothing and change nothing but check their message.\<close>

definition checked :: "handler_entry \<Rightarrow> nat \<Rightarrow> bytes \<Rightarrow> gw_client \<Rightarrow> fault + gw_client" where
  "checked en = entered en (\<lambda>p c. Inr c)"

definition checked_secured :: "handler_entry \<Rightarrow> nat \<Rightarrow> bytes \<Rightarrow> gw_client \<Rightarrow> fault + gw_client" where
  "checked_secured en = secured en (\<lambda>p c. Inr c)"

definition HandleInstanceCountdownStop :: "nat \<Rightarrow> bytes \<Rightarrow> gw_client \<Rightarrow> fault + gw_client" where
  "HandleInstanceCountdownStop = in_world HandleInstanceCountdownStop_entry (\<lambda>p w c.
     set_world c (Inr (w\<lparr>w_pvp_timer_start := 0, w_pvp_timer_duration := 0\<rparr>)))"

definition HandleInstanceCountdown :: "nat \<Rightarrow> bytes \<Rightarrow> gw_client \<Rightarrow> fault + gw_client" where
  "HandleInstanceCountdown = (let en = HandleInstanceCountdown_entry in in_world en (\<lambda>p w c.
     set_world c (Inr (w\<lparr>w_pvp_timer_start := w_world_time w,
       w_pvp_timer_duration := scast (get en ''time'' p :: u32)\<rparr>))))"

definition HandleInstanceTravelTimer :: "nat \<Rightarrow> bytes \<Rightarrow> gw_client \<Rightarrow> fault + gw_client" where
  "HandleInstanceTravelTimer = checked_secured HandleInstanceTravelTimer_entry"

definition HandleInstanceLoaded :: "nat \<Rightarrow> bytes \<Rightarrow> gw_client \<Rightarrow> fault + gw_client" where
  "HandleInstanceLoaded = secured HandleInstanceLoaded_entry (\<lambda>p c. Inr (c\<lparr>gc_ingame := True\<rparr>))"

definition HandleInstanceLoadFinish :: "surroundings \<Rightarrow> nat \<Rightarrow> bytes \<Rightarrow> gw_client \<Rightarrow> fault + gw_client" where
  "HandleInstanceLoadFinish e = secured HandleInstanceLoadFinish_entry (\<lambda>p c.
     broadcast e EventType_WorldMapEnter (c\<lparr>gc_loading := False\<rparr>))"

definition GAME_CMSG_INSTANCE_LOAD_REQUEST_ITEMS :: nat where "GAME_CMSG_INSTANCE_LOAD_REQUEST_ITEMS = 0x8090"

definition InstanceLoad_RequestData :: "surroundings \<Rightarrow> gw_client \<Rightarrow> fault + gw_client" where
  "InstanceLoad_RequestData e = send_game e (NewPacket GAME_CMSG_INSTANCE_LOAD_REQUEST_ITEMS [0, 0])"

definition HandleInstanceLoadInfo :: "surroundings \<Rightarrow> nat \<Rightarrow> bytes \<Rightarrow> gw_client \<Rightarrow> fault + gw_client" where
  "HandleInstanceLoadInfo e = (let en = HandleInstanceLoadInfo_entry in in_world en (\<lambda>p w c.
     bindE (set_world c (Inr (w\<lparr>w_map_id := scast (get en ''map_id'' p :: u16), w_district := get en ''district'' p,
       w_language := scast (get en ''language'' p :: u8)\<rparr>))) (InstanceLoad_RequestData e)))"

definition HandleInstanceLoadSpawnPoint :: "surroundings \<Rightarrow> nat \<Rightarrow> bytes \<Rightarrow> gw_client \<Rightarrow> fault + gw_client" where
  "HandleInstanceLoadSpawnPoint e = (let en = HandleInstanceLoadSpawnPoint_entry in secured en (\<lambda>p c.
     send_game e (NewPacket GAME_CMSG_INSTANCE_LOAD_REQUEST_PLAYERS
       (le32enc 4 @ le32enc (get en ''map_file'' p) @ le32enc 0 @ le32enc 0)) c))"

definition HandleInstanceLoadHead :: "nat \<Rightarrow> bytes \<Rightarrow> gw_client \<Rightarrow> fault + gw_client" where
  "HandleInstanceLoadHead = checked_secured HandleInstanceLoadHead_entry"

definition HandleInstanceLoadPlayerName :: "nat \<Rightarrow> bytes \<Rightarrow> gw_client \<Rightarrow> fault + gw_client" where
  "HandleInstanceLoadPlayerName = checked_secured HandleInstanceLoadPlayerName_entry"

definition HandleReadyForMapSpawn :: "surroundings \<Rightarrow> nat \<Rightarrow> bytes \<Rightarrow> gw_client \<Rightarrow> fault + gw_client" where
  "HandleReadyForMapSpawn e psize p c =
     bindE (assertE (conn_secured (game_srv c))) (\<lambda>_.
     bindE (assertE (\<not> gc_ingame c)) (\<lambda>_.
       send_game e (NewPacket GAME_CMSG_INSTANCE_LOAD_REQUEST_SPAWN []) c))"

definition HandleCantEnterOutpost :: "surroundings \<Rightarrow> nat \<Rightarrow> bytes \<Rightarrow> gw_client \<Rightarrow> fault + gw_client" where
  "HandleCantEnterOutpost e = (let en = HandleCantEnterOutpost_entry in secured en (\<lambda>p c.
     broadcast e (EventType_WorldCantTravel (get en ''value'' p)) (c\<lparr>gc_try_changing_zone := False\<rparr>)))"

definition HandleInstanceShowWin :: "nat \<Rightarrow> bytes \<Rightarrow> gw_client \<Rightarrow> fault + gw_client" where
  "HandleInstanceShowWin = checked_secured HandleInstanceShowWin_entry"

definition HandleMissionAddGoal :: "nat \<Rightarrow> bytes \<Rightarrow> gw_client \<Rightarrow> fault + gw_client" where
  "HandleMissionAddGoal = in_world HandleMissionAddGoal_entry (\<lambda>p w c.
     set_world c (Inr (w\<lparr>w_objective_count := w_objective_count w + 1\<rparr>)))"

definition HandleMissionAddObjective :: "nat \<Rightarrow> bytes \<Rightarrow> gw_client \<Rightarrow> fault + gw_client" where
  "HandleMissionAddObjective = checked HandleMissionAddObjective_entry"

section \<open>Gold, pings and cinematics\<close>

definition HandlePingRequest :: "surroundings \<Rightarrow> nat \<Rightarrow> bytes \<Rightarrow> gw_client \<Rightarrow> fault + gw_client" where
  "HandlePingRequest e = entered HandlePingRequest_entry (\<lambda>p.
     send_game e (NewPacket GAME_CMSG_PING_REPLY (le32enc 16)))"

definition HandlePingReply :: "nat \<Rightarrow> bytes \<Rightarrow> gw_client \<Rightarrow> fault + gw_client" where
  "HandlePingReply = entered HandlePingReply_entry (\<lambda>p c.
     bindE (get_world_or_abort c) (\<lambda>w.
       let conn = (game_srv c)\<lparr>conn_pong := w_world_time w\<rparr> in
       Inr (c\<lparr>game_srv := conn\<lparr>conn_latency := conn_pong conn - conn_ping conn\<rparr>\<rparr>)))"

definition GameSrv_PingRequest :: "surroundings \<Rightarrow> gw_client \<Rightarrow> fault + gw_client" where
  "GameSrv_PingRequest e c =
     bindE (get_world_or_abort c) (\<lambda>w.
       send_game e (NewPacket GAME_CMSG_PING_REQUEST []) (c\<lparr>game_srv := (game_srv c)\<lparr>conn_ping := w_world_time w\<rparr>\<rparr>))"

definition GameSrv_HeartBeat :: "surroundings \<Rightarrow> gw_client \<Rightarrow> fault + gw_client" where
  "GameSrv_HeartBeat e = GameSrv_PingRequest e"

definition HandleUpdateActiveWeaponSet :: "nat \<Rightarrow> bytes \<Rightarrow> gw_client \<Rightarrow> fault + gw_client" where
  "HandleUpdateActiveWeaponSet = checked_secured HandleUpdateActiveWeaponSet_entry"

definition add_gold :: "world \<Rightarrow> u32 \<Rightarrow> u32 \<Rightarrow> world" where
  "add_gold w character storage = w\<lparr>w_inventory := (w_inventory w)\<lparr>
     gold_character := gold_character (w_inventory w) + character, gold_storage := gold_storage (w_inventory w) + storage\<rparr>\<rparr>"

definition HandleGoldCharacterAdd :: "nat \<Rightarrow> bytes \<Rightarrow> gw_client \<Rightarrow> fault + gw_client" where
  "HandleGoldCharacterAdd = (let en = HandleGoldCharacterAdd_entry in in_world en (\<lambda>p w c.
     set_world c (Inr (add_gold w (get en ''gold'' p) 0))))"

definition HandleGoldStorageAdd :: "nat \<Rightarrow> bytes \<Rightarrow> gw_client \<Rightarrow> fault + gw_client" where
  "HandleGoldStorageAdd = (let en = HandleGoldStorageAdd_entry in in_world en (\<lambda>p w c.
     set_world c (Inr (add_gold w 0 (get en ''gold'' p)))))"

definition HandleGoldCharacterRemove :: "nat \<Rightarrow> bytes \<Rightarrow> gw_client \<Rightarrow> fault + gw_client" where
  "HandleGoldCharacterRemove = (let en = HandleGoldCharacterRemove_entry in in_world en (\<lambda>p w c.
     set_world c (Inr (add_gold w (- get en ''gold'' p) 0))))"

definition HandleGoldStorageRemove :: "nat \<Rightarrow> bytes \<Rightarrow> gw_client \<Rightarrow> fault + gw_client" where
  "HandleGoldStorageRemove = (let en = HandleGoldStorageRemove_entry in in_world en (\<lambda>p w c.
     set_world c (Inr (add_gold w 0 (- get en ''gold'' p)))))"

definition GameSrv_ChangeGold :: "surroundings \<Rightarrow> u32 \<Rightarrow> u32 \<Rightarrow> gw_client \<Rightarrow> fault + gw_client" where
  "GameSrv_ChangeGold e character storage c =
     bindE (assertE (conn_secured (game_srv c))) (\<lambda>_.
       send_game e (NewPacket GAME_CMSG_ITEM_CHANGE_GOLD (le32enc character @ le32enc storage)) c)"

text \<open>The message is put into the stream of the authentication server.\<close>

definition GameSrv_SkipCinematic :: "surroundings \<Rightarrow> gw_client \<Rightarrow> fault + gw_client" where
  "GameSrv_SkipCinematic e = send_auth e (NewPacket GAME_CMSG_SKIP_CINEMATIC [])"

definition HandleCinematicStart :: "surroundings \<Rightarrow> nat \<Rightarrow> bytes \<Rightarrow> gw_client \<Rightarrow> fault + gw_client" where
  "HandleCinematicStart e = (let en = HandleCinematicStart_entry in in_world en (\<lambda>p w c.
     bindE (set_world c (Inr (w\<lparr>w_in_cinematic := True\<rparr>))) (\<lambda>c.
       if get en ''start'' p \<noteq> (0 :: u8) then broadcast e EventType_CinematicPlay c else Inr c)))"

definition HandleCinematicDataEnd :: "nat \<Rightarrow> bytes \<Rightarrow> gw_client \<Rightarrow> fault + gw_client" where
  "HandleCinematicDataEnd = checked_secured HandleCinematicDataEnd_entry"

definition HandleCinematicData :: "nat \<Rightarrow> bytes \<Rightarrow> gw_client \<Rightarrow> fault + gw_client" where
  "HandleCinematicData = checked_secured HandleCinematicData_entry"

definition HandleCinematicEnd :: "nat \<Rightarrow> bytes \<Rightarrow> gw_client \<Rightarrow> fault + gw_client" where
  "HandleCinematicEnd = in_world HandleCinematicEnd_entry (\<lambda>p w c.
     set_world c (Inr (w\<lparr>w_in_cinematic := False\<rparr>)))"

section \<open>Travelling\<close>

datatype district = DISTRICT_CURRENT | DISTRICT_INTERNATIONAL | DISTRICT_AMERICAN | DISTRICT_EUROPE_ENGLISH
  | DISTRICT_EUROPE_FRENCH | DISTRICT_EUROPE_GERMAN | DISTRICT_EUROPE_ITALIAN | DISTRICT_EUROPE_SPANISH
  | DISTRICT_EUROPE_POLISH | DISTRICT_EUROPE_RUSSIAN | DISTRICT_ASIA_KOREAN | DISTRICT_ASIA_CHINESE
  | DISTRICT_ASIA_JAPANESE

text \<open>Regions: -2 is international, then America, Korea, Europe, China and Japan from 0 on.\<close>

definition GetDistrictRegion :: "gw_client \<Rightarrow> u32" where
  "GetDistrictRegion c = gc_region c"

definition GetDistrictLanguage :: "gw_client \<Rightarrow> u32" where
  "GetDistrictLanguage c = (case get_world c of None \<Rightarrow> 0 | Some w \<Rightarrow> w_language w)"

definition GetDistrictNumber :: "gw_client \<Rightarrow> u32" where
  "GetDistrictNumber c = (case get_world c of None \<Rightarrow> 0 | Some w \<Rightarrow> w_district w)"

definition GetDistrict :: "gw_client \<Rightarrow> district" where
  "GetDistrict c =
     (if GetDistrictRegion c = - 2 then DISTRICT_INTERNATIONAL
      else if GetDistrictRegion c = 0 then DISTRICT_AMERICAN
      else if GetDistrictRegion c = 1 then DISTRICT_ASIA_KOREAN
      else if GetDistrictRegion c = 2 then
        (if GetDistrictLanguage c = 0 then DISTRICT_EUROPE_ENGLISH
         else if GetDistrictLanguage c = 2 then DISTRICT_EUROPE_FRENCH
         else if GetDistrictLanguage c = 3 then DISTRICT_EUROPE_GERMAN
         else if GetDistrictLanguage c = 4 then DISTRICT_EUROPE_ITALIAN
         else if GetDistrictLanguage c = 5 then DISTRICT_EUROPE_SPANISH
         else if GetDistrictLanguage c = 9 then DISTRICT_EUROPE_POLISH
         else if GetDistrictLanguage c = 10 then DISTRICT_EUROPE_RUSSIAN
         else DISTRICT_CURRENT)
      else if GetDistrictRegion c = 3 then DISTRICT_ASIA_CHINESE
      else if GetDistrictRegion c = 4 then DISTRICT_ASIA_JAPANESE
      else DISTRICT_CURRENT)"

fun extract_district :: "gw_client \<Rightarrow> district \<Rightarrow> u32 \<times> u32" where
  "extract_district c DISTRICT_INTERNATIONAL = (- 2, 0)"
| "extract_district c DISTRICT_AMERICAN = (0, 0)"
| "extract_district c DISTRICT_EUROPE_ENGLISH = (2, 0)"
| "extract_district c DISTRICT_EUROPE_FRENCH = (2, 2)"
| "extract_district c DISTRICT_EUROPE_GERMAN = (2, 3)"
| "extract_district c DISTRICT_EUROPE_ITALIAN = (2, 4)"
| "extract_district c DISTRICT_EUROPE_SPANISH = (2, 5)"
| "extract_district c DISTRICT_EUROPE_POLISH = (2, 9)"
| "extract_district c DISTRICT_EUROPE_RUSSIAN = (2, 10)"
| "extract_district c DISTRICT_ASIA_KOREAN = (1, 0)"
| "extract_district c DISTRICT_ASIA_CHINESE = (3, 0)"
| "extract_district c DISTRICT_ASIA_JAPANESE = (4, 0)"
| "extract_district c DISTRICT_CURRENT = (gc_region c, case get_world c of None \<Rightarrow> 0 | Some w \<Rightarrow> w_language w)"

definition GameSrv_Travel :: "surroundings \<Rightarrow> u16 \<Rightarrow> district \<Rightarrow> u16 \<Rightarrow> gw_client \<Rightarrow> fault + gw_client" where
  "GameSrv_Travel e map_id district district_number c =
     bindE (assertE (conn_secured (game_srv c))) (\<lambda>_.
     bindE (get_world_or_abort c) (\<lambda>w.
     case extract_district c district of (region, language) \<Rightarrow>
       send_game e (NewPacket GAME_CMSG_PARTY_TRAVEL (le16enc map_id @ [ucast region] @ le16enc district_number @
         [ucast language, 0])) (begin_travel c)))"

definition GameSrv_TravelGH :: "surroundings \<Rightarrow> uuid \<Rightarrow> gw_client \<Rightarrow> fault + gw_client" where
  "GameSrv_TravelGH e hall c =
     bindE (assertE (conn_secured (game_srv c))) (\<lambda>_.
       send_game e (NewPacket GAME_CMSG_PARTY_ENTER_GUILD_HALL (uuid_enc_le hall @ [0])) (begin_travel c))"

definition GameSrv_LeaveGH :: "surroundings \<Rightarrow> gw_client \<Rightarrow> fault + gw_client" where
  "GameSrv_LeaveGH e c =
     bindE (assertE (conn_secured (game_srv c))) (\<lambda>_.
       send_game e (NewPacket GAME_CMSG_PARTY_LEAVE_GUILD_HALL [1]) c)"

definition GameSrv_ReturnToOutpost :: "surroundings \<Rightarrow> gw_client \<Rightarrow> fault + gw_client" where
  "GameSrv_ReturnToOutpost e c =
     bindE (assertE (conn_secured (game_srv c))) (\<lambda>_.
       send_game e (NewPacket GAME_CMSG_PARTY_RETURN_TO_OUTPOST []) (begin_travel c))"

text \<open>The function that is called takes the region before the district.\<close>

definition RedirectMap :: "surroundings \<Rightarrow> u32 \<Rightarrow> district \<Rightarrow> u32 \<Rightarrow> gw_client \<Rightarrow> fault + gw_client" where
  "RedirectMap e map_id district district_number c =
     (if \<not> gc_connected c then Inr c
      else
        case extract_district c district of (region, language) \<Rightarrow>
        bindE (find_map_type_from_map_id map_id) (\<lambda>map_type.
        bindE (issue_next_transaction e AsyncType_None c) (\<lambda>(trans_id, c).
          AuthSrv_RequestInstance e trans_id map_id map_type district_number region language c)))"

definition HandleInstanceRedirect :: "surroundings \<Rightarrow> nat \<Rightarrow> bytes \<Rightarrow> gw_client \<Rightarrow> fault + gw_client" where
  "HandleInstanceRedirect e = (let en = HandleInstanceRedirect_entry in secured en (\<lambda>p c.
     RedirectMap e (ucast (get en ''map_id'' p :: u16)) (GetDistrict c) (GetDistrictNumber c) c))"

end
