(* ===== verification/Players.thy ===== *)
theory Players
  imports Agents Instances
begin

text \<open>
  Attributes of agents, the rest of \<^verbatim>\<open>client/agent.c\<close>, and the player, \<^verbatim>\<open>client/player.c\<close>. What the
  server tells about the player before it says which agent the player is, is kept in the client and
  copied when the agent is set.
\<close>

section \<open>Attributes\<close>

definition AG_ATTR_SET_MARKER :: u32 where "AG_ATTR_SET_MARKER = 11"
definition AG_ATTR_REMOVE_MARKER :: u32 where "AG_ATTR_REMOVE_MARKER = 12"
definition AG_ATTR_DAMAGE :: u32 where "AG_ATTR_DAMAGE = 16"
definition AG_ATTR_CRITICAL_DAMAGE :: u32 where "AG_ATTR_CRITICAL_DAMAGE = 17"
definition AG_ATTR_SET_LEVEL :: u32 where "AG_ATTR_SET_LEVEL = 36"
definition AG_ATTR_LEVEL_UP :: u32 where "AG_ATTR_LEVEL_UP = 37"
definition AG_ATTR_SET_ENERGY :: u32 where "AG_ATTR_SET_ENERGY = 41"
definition AG_ATTR_SET_HEALTH :: u32 where "AG_ATTR_SET_HEALTH = 42"
definition AG_ATTR_SET_ENERGY_PS :: u32 where "AG_ATTR_SET_ENERGY_PS = 43"
definition AG_ATTR_SET_HEALTH_PS :: u32 where "AG_ATTR_SET_HEALTH_PS = 44"
definition AG_ATTR_ARMOR_IGNORING :: u32 where "AG_ATTR_ARMOR_IGNORING = 55"

definition update_int :: "u32 \<Rightarrow> u32 \<Rightarrow> agent \<Rightarrow> agent" where
  "update_int attr_id v a =
     (if attr_id = AG_ATTR_SET_MARKER then a\<lparr>ag_marker := v\<rparr>
      else if attr_id = AG_ATTR_REMOVE_MARKER then a\<lparr>ag_marker := 0\<rparr>
      else if attr_id = AG_ATTR_SET_LEVEL then a\<lparr>ag_level := v\<rparr>
      else if attr_id = AG_ATTR_LEVEL_UP then a\<lparr>ag_level := ag_level a + 1\<rparr>
      else if attr_id = AG_ATTR_SET_ENERGY then a\<lparr>ag_energy := one_f, ag_energy_max := v\<rparr>
      else if attr_id = AG_ATTR_SET_HEALTH then a\<lparr>ag_health := one_f, ag_health_max := v\<rparr>
      else a)"

definition HandleAgentAttrUpdateInt :: "surroundings \<Rightarrow> nat \<Rightarrow> bytes \<Rightarrow> gw_client \<Rightarrow> fault + gw_client" where
  "HandleAgentAttrUpdateInt e = (let en = HandleAgentAttrUpdateInt_entry in in_world en (\<lambda>p w c.
     let attr_id = get en ''attr_id'' p :: u32 in
     if sint attr_id < 0 \<or> 66 < sint attr_id then Inr c
     else set_world c (the_agent (en_alloc e) (get en ''agent_id'' p) (\<lambda>q a.
            put_agent q (update_int attr_id (get en ''value'' p) a)) w)))"

text \<open>Nothing is done with the values of this message.\<close>

definition HandleAgentAttrUpdateIntTarget :: "nat \<Rightarrow> bytes \<Rightarrow> gw_client \<Rightarrow> fault + gw_client" where
  "HandleAgentAttrUpdateIntTarget = checked_secured HandleAgentAttrUpdateIntTarget_entry"

definition inside_agent :: "u32 \<Rightarrow> (ptr \<Rightarrow> agent \<Rightarrow> world \<Rightarrow> fault + world) \<Rightarrow> world \<Rightarrow> fault + world" where
  "inside_agent ident k w =
     bindE (if array_inside (w_agents w) (unat ident) then array_at (w_agents w) (unat ident) else Inr None) (\<lambda>p.
       if p = None then Inr w else bindE (deref (w_agent_heap w) p) (\<lambda>a. k p a w))"

definition HandleAgentAttrUpdateFloat :: "nat \<Rightarrow> bytes \<Rightarrow> gw_client \<Rightarrow> fault + gw_client" where
  "HandleAgentAttrUpdateFloat = (let en = HandleAgentAttrUpdateFloat_entry in in_world en (\<lambda>p w c.
     let attr_id = get en ''attr_id'' p :: u32; v = get en ''value'' p in
     if sint attr_id < 0 \<or> 65 < sint attr_id then Inr c
     else set_world c (inside_agent (get en ''agent_id'' p) (\<lambda>q a.
            put_agent q (if attr_id = AG_ATTR_SET_ENERGY_PS then a\<lparr>ag_energy_per_sec := v\<rparr>
                         else if attr_id = AG_ATTR_SET_HEALTH_PS then a\<lparr>ag_health_per_sec := v\<rparr> else a)) w)))"

definition HandleAgentAttrUpdateFloatTarget :: "surroundings \<Rightarrow> nat \<Rightarrow> bytes \<Rightarrow> gw_client \<Rightarrow> fault + gw_client" where
  "HandleAgentAttrUpdateFloatTarget e = (let en = HandleAgentAttrUpdateFloatTarget_entry; f = en_float e in in_world en (\<lambda>p w c.
     let attr_id = get en ''attr_id'' p :: u32; v = get en ''value'' p in
     if sint attr_id < 0 \<or> 65 < sint attr_id then Inr c
     else set_world c (inside_agent (get en ''target_id'' p) (\<lambda>q a.
            put_agent q (if attr_id \<in> {AG_ATTR_DAMAGE, AG_ATTR_CRITICAL_DAMAGE, AG_ATTR_ARMOR_IGNORING}
              then a\<lparr>ag_health := clampf f (fl_add f (ag_health a) v) zero_f (fl_of_int f (sint (ag_health_max a)))\<rparr>
              else a)) w)))"

definition HandleAgentUpdateNpcName :: "nat \<Rightarrow> bytes \<Rightarrow> gw_client \<Rightarrow> fault + gw_client" where
  "HandleAgentUpdateNpcName = checked_secured HandleAgentUpdateNpcName_entry"

definition HandleNPCUpdateProperties :: "nat \<Rightarrow> bytes \<Rightarrow> gw_client \<Rightarrow> fault + gw_client" where
  "HandleNPCUpdateProperties = checked_secured HandleNPCUpdateProperties_entry"

definition HandleNPCUpdateModel :: "nat \<Rightarrow> bytes \<Rightarrow> gw_client \<Rightarrow> fault + gw_client" where
  "HandleNPCUpdateModel = checked_secured HandleNPCUpdateModel_entry"

definition HandleAgentCreateNPC :: "nat \<Rightarrow> bytes \<Rightarrow> gw_client \<Rightarrow> fault + gw_client" where
  "HandleAgentCreateNPC = checked_secured HandleAgentCreateNPC_entry"

definition HandleAgentUpdateEffects :: "nat \<Rightarrow> bytes \<Rightarrow> gw_client \<Rightarrow> fault + gw_client" where
  "HandleAgentUpdateEffects = (let en = HandleAgentUpdateEffects_entry in in_world en (\<lambda>p w c.
     set_world c (known_agent (get en ''agent_id'' p) (\<lambda>q a. put_agent q (a\<lparr>ag_effects := get en ''effects'' p\<rparr>)) w)))"

definition HandleAgentPingeg :: "surroundings \<Rightarrow> nat \<Rightarrow> bytes \<Rightarrow> gw_client \<Rightarrow> fault + gw_client" where
  "HandleAgentPingeg e = (let en = HandleAgentPingeg_entry in secured en (\<lambda>p.
     broadcast e (EventType_AgentFocus (ucast (get en ''player_id'' p :: u16)) (get en ''agent_id'' p))))"

section \<open>Professions\<close>

definition put_player :: "ptr \<Rightarrow> player \<Rightarrow> world \<Rightarrow> fault + world" where
  "put_player p x w = bindE (store (w_player_heap w) p x) (\<lambda>h. Inr (w\<lparr>w_player_heap := h\<rparr>))"

definition get_player_safe :: "world \<Rightarrow> u32 \<Rightarrow> fault + ptr" where
  "get_player_safe w player_id =
     (if \<not> array_inside (w_players w) (unat player_id) then Inr None else array_at (w_players w) (unat player_id))"

definition HandlePlayerUnlockedProfession :: "nat \<Rightarrow> bytes \<Rightarrow> gw_client \<Rightarrow> fault + gw_client" where
  "HandlePlayerUnlockedProfession = (let en = HandlePlayerUnlockedProfession_entry in in_world en (\<lambda>p w c.
     if w_player_agent_id w \<noteq> get en ''agent_id'' p then Inr c
     else
       bindE (get_player_safe w (w_player_id w)) (\<lambda>q.
         if q = None then Inr c
         else set_world c (bindE (deref (w_player_heap w) q) (\<lambda>x.
                put_player q (x\<lparr>pl_unlocked_profession := get en ''unlocked'' p\<rparr>) w)))))"

text \<open>
  The loop over the skill bars leaves its pointer behind the array when no bar is found, not null, so
  the professions are written to the element behind the last one.
\<close>

fun find_skillbar :: "skillbar list \<Rightarrow> u32 \<Rightarrow> nat \<Rightarrow> nat" where
  "find_skillbar [] agent_id i = i"
| "find_skillbar (sb # sbs) agent_id i =
     (if sb_owner_agent_id sb = agent_id then i else find_skillbar sbs agent_id (i + 1))"

definition player_update_profession :: "(nat \<Rightarrow> bool) \<Rightarrow> u32 \<Rightarrow> u8 \<Rightarrow> u8 \<Rightarrow> world \<Rightarrow> fault + world" where
  "player_update_profession alloc agent_id prof1 prof2 w =
     bindE (the_agent alloc agent_id (\<lambda>q a. put_agent q (a\<lparr>ag_prof1 := prof1, ag_prof2 := prof2\<rparr>)) w) (\<lambda>w.
     bindE (foreach (w_skillbars w)) (\<lambda>sbs.
       if arr_capacity (w_skillbars w) = 0 then Inr w
       else
         let i = find_skillbar sbs agent_id 0 in
         bindE (idx (arr_data (w_skillbars w)) i) (\<lambda>sb.
         bindE (upd (arr_data (w_skillbars w)) i (sb\<lparr>sb_prof1 := prof1, sb_prof2 := prof2\<rparr>)) (\<lambda>d.
           Inr (w\<lparr>w_skillbars := (w_skillbars w)\<lparr>arr_data := d\<rparr>\<rparr>)))))"

definition HandlePlayerUpdateProfession :: "surroundings \<Rightarrow> nat \<Rightarrow> bytes \<Rightarrow> gw_client \<Rightarrow> fault + gw_client" where
  "HandlePlayerUpdateProfession e = (let en = HandlePlayerUpdateProfession_entry in in_world en (\<lambda>p w c.
     set_world c (player_update_profession (en_alloc e) (get en ''agent_id'' p) (get en ''prof1'' p) (get en ''prof2'' p) w)))"

section \<open>The own player\<close>

definition player_is_created :: "u32 \<Rightarrow> gw_client \<Rightarrow> fault + gw_client" where
  "player_is_created agent_id c =
     bindE (get_world_or_abort c) (\<lambda>w.
     let w = w\<lparr>w_player_agent_id := agent_id\<rparr> in
     bindE (assertE (array_inside (w_agents w) (unat agent_id))) (\<lambda>_.
     bindE (array_at (w_agents w) (unat agent_id)) (\<lambda>p.
     bindE (assertE (p \<noteq> None)) (\<lambda>_.
     bindE (deref (w_agent_heap w) p) (\<lambda>me.
       if ag_player_id me = 0 then set_world c (Inr w)
       else
         bindE (assertE (array_inside (w_players w) (unat (ag_player_id me)))) (\<lambda>_.
         bindE (idx (arr_data (w_players w)) (unat (ag_player_id me))) (\<lambda>q.
         bindE (deref (w_player_heap w) q) (\<lambda>x.
           set_world c (put_player q (x\<lparr>pl_player_hero := gc_player_hero c\<rparr>)
             (w\<lparr>w_player_id := pl_player_id x\<rparr>))))))))))"

definition HandleAgentSetPlayer :: "nat \<Rightarrow> bytes \<Rightarrow> gw_client \<Rightarrow> fault + gw_client" where
  "HandleAgentSetPlayer = (let en = HandleAgentSetPlayer_entry in in_world en (\<lambda>p w c.
     bindE (get_agent_safe w (get en ''agent_id'' p)) (\<lambda>me.
       if me = None then Inr c else player_is_created (get en ''agent_id'' p) c)))"

definition hero_max :: "(u32 \<Rightarrow> player_hero \<Rightarrow> player_hero) \<Rightarrow> handler_entry \<Rightarrow> nat \<Rightarrow> bytes \<Rightarrow> gw_client \<Rightarrow> fault + gw_client" where
  "hero_max f en = secured en (\<lambda>p c. Inr (c\<lparr>gc_player_hero := f (get en ''value'' p) (gc_player_hero c)\<rparr>))"

definition HandlePlayerFactionMaxKurzick :: "nat \<Rightarrow> bytes \<Rightarrow> gw_client \<Rightarrow> fault + gw_client" where
  "HandlePlayerFactionMaxKurzick = hero_max (\<lambda>v h. h\<lparr>ph_kurzick := (ph_kurzick h)\<lparr>fp_max := v\<rparr>\<rparr>) HandlePlayerFactionMaxKurzick_entry"

definition HandlePlayerFactionMaxLuxon :: "nat \<Rightarrow> bytes \<Rightarrow> gw_client \<Rightarrow> fault + gw_client" where
  "HandlePlayerFactionMaxLuxon = hero_max (\<lambda>v h. h\<lparr>ph_luxon := (ph_luxon h)\<lparr>fp_max := v\<rparr>\<rparr>) HandlePlayerFactionMaxLuxon_entry"

definition HandlePlayerFactionMaxBalthazar :: "nat \<Rightarrow> bytes \<Rightarrow> gw_client \<Rightarrow> fault + gw_client" where
  "HandlePlayerFactionMaxBalthazar = hero_max (\<lambda>v h. h\<lparr>ph_balthazar := (ph_balthazar h)\<lparr>fp_max := v\<rparr>\<rparr>) HandlePlayerFactionMaxBalthazar_entry"

definition HandlePlayerFactionMaxImperial :: "nat \<Rightarrow> bytes \<Rightarrow> gw_client \<Rightarrow> fault + gw_client" where
  "HandlePlayerFactionMaxImperial = hero_max (\<lambda>v h. h\<lparr>ph_imperial := (ph_imperial h)\<lparr>fp_max := v\<rparr>\<rparr>) HandlePlayerFactionMaxImperial_entry"

definition HandlePlayerUpdateFactions :: "nat \<Rightarrow> bytes \<Rightarrow> gw_client \<Rightarrow> fault + gw_client" where
  "HandlePlayerUpdateFactions = (let en = HandlePlayerUpdateFactions_entry in secured en (\<lambda>p c.
     let h = gc_player_hero c; v = (\<lambda>n. get en n p) in
     Inr (c\<lparr>gc_player_hero := h\<lparr>ph_experience := v ''experience'', ph_level := v ''level'',
       ph_skillpoint_current := v ''skill_current'', ph_skillpoint_spent := v ''skill_total'' - v ''skill_current'',
       ph_skillpoint_total := v ''skill_total'',
       ph_imperial := (ph_imperial h)\<lparr>fp_total := v ''imperial_total'', fp_current := v ''imperial_current''\<rparr>,
       ph_balthazar := (ph_balthazar h)\<lparr>fp_total := v ''balthazar_total'', fp_current := v ''balthazar_current''\<rparr>,
       ph_kurzick := (ph_kurzick h)\<lparr>fp_total := v ''kurzick_total'', fp_current := v ''kurzick_current''\<rparr>,
       ph_luxon := (ph_luxon h)\<lparr>fp_total := v ''luxon_total'', fp_current := v ''luxon_current''\<rparr>\<rparr>\<rparr>)))"

definition add_current :: "u32 \<Rightarrow> faction_point \<Rightarrow> faction_point" where
  "add_current v x = x\<lparr>fp_current := fp_current x + v\<rparr>"

definition add_total :: "u32 \<Rightarrow> faction_point \<Rightarrow> faction_point" where
  "add_total v x = x\<lparr>fp_total := fp_total x + v\<rparr>"

definition faction_update :: "u32 \<Rightarrow> u32 \<Rightarrow> player_hero \<Rightarrow> player_hero" where
  "faction_update attr_id v h =
     (if attr_id = 0 then h\<lparr>ph_experience := ph_experience h + v\<rparr>
      else if attr_id = 1 then h\<lparr>ph_kurzick := add_current v (ph_kurzick h)\<rparr>
      else if attr_id = 2 then h\<lparr>ph_kurzick := add_total v (ph_kurzick h)\<rparr>
      else if attr_id = 3 then h\<lparr>ph_luxon := add_current v (ph_luxon h)\<rparr>
      else if attr_id = 4 then h\<lparr>ph_luxon := add_total v (ph_luxon h)\<rparr>
      else if attr_id = 5 then h\<lparr>ph_imperial := add_current v (ph_imperial h)\<rparr>
      else if attr_id = 6 then h\<lparr>ph_imperial := add_total v (ph_imperial h)\<rparr>
      else if attr_id = 11 then h\<lparr>ph_balthazar := add_current v (ph_balthazar h)\<rparr>
      else if attr_id = 12 then h\<lparr>ph_balthazar := add_total v (ph_balthazar h)\<rparr>
      else if attr_id = 13 then h\<lparr>ph_skillpoint_current := ph_skillpoint_current h + v\<rparr>
      else if attr_id = 14 then h\<lparr>ph_skillpoint_total := ph_skillpoint_total h + v\<rparr>
      else h)"

definition HandlePlayerFactionUpdate :: "nat \<Rightarrow> bytes \<Rightarrow> gw_client \<Rightarrow> fault + gw_client" where
  "HandlePlayerFactionUpdate = (let en = HandlePlayerFactionUpdate_entry in secured en (\<lambda>p c.
     Inr (c\<lparr>gc_player_hero := faction_update (get en ''attr_id'' p) (get en ''value'' p) (gc_player_hero c)\<rparr>)))"

text \<open>The number of maps comes from the message and is not compared with the length of its array.\<close>

fun unlock_maps :: "nat \<Rightarrow> nat \<Rightarrow> u32 list \<Rightarrow> u32 carray \<Rightarrow> fault + u32 carray" where
  "unlock_maps i 0 buf a = Inr a"
| "unlock_maps i (Suc n) buf a =
     bindE (idx buf i) (\<lambda>m. bindE (ignored (array_set a i m)) (unlock_maps (i + 1) n buf))"

definition HandlePlayerUnlockedAreas :: "surroundings \<Rightarrow> nat \<Rightarrow> bytes \<Rightarrow> gw_client \<Rightarrow> fault + gw_client" where
  "HandlePlayerUnlockedAreas e = (let en = HandlePlayerUnlockedAreas_entry in secured en (\<lambda>p c.
     let n = unat (get en ''maps_unlocked_size'' p :: u32) in
     bindE (ignored (array_resize (en_alloc e) 0 4 (ph_maps_unlocked (gc_player_hero c)) n)) (\<lambda>a.
     bindE (unlock_maps 0 n (get_array en ''maps_unlocked_buf'' 4 p) a) (\<lambda>a.
       Inr (c\<lparr>gc_player_hero := (gc_player_hero c)\<lparr>ph_maps_unlocked := a\<rparr>\<rparr>)))))"

section \<open>Messages to the game server\<close>

text \<open>The sender asserts the connection first.\<close>

definition send_secured :: "surroundings \<Rightarrow> bytes \<Rightarrow> gw_client \<Rightarrow> fault + gw_client" where
  "send_secured e p c = bindE (assertE (conn_secured (game_srv c))) (\<lambda>_. send_game e p c)"

definition GameSrv_MoveToCoord :: "surroundings \<Rightarrow> f32 \<Rightarrow> f32 \<Rightarrow> gw_client \<Rightarrow> fault + gw_client" where
  "GameSrv_MoveToCoord e x y c =
     bindE (send_secured e (NewPacket GAME_CMSG_MOVE_TO_COORD (le32enc x @ le32enc y @ le32enc 0)) c) (\<lambda>c.
     bindE (get_world_or_abort c) (\<lambda>w.
     bindE (array_at (w_agents w) (unat (w_player_agent_id w))) (\<lambda>q.
     bindE (assertE (q \<noteq> None)) (\<lambda>_.
     bindE (deref (w_agent_heap w) q) (\<lambda>a. set_world c (put_agent q (a\<lparr>ag_maybe_moving := True\<rparr>) w))))))"

definition GameSrv_InteractLiving :: "surroundings \<Rightarrow> u32 \<Rightarrow> gw_client \<Rightarrow> fault + gw_client" where
  "GameSrv_InteractLiving e agent_id = send_secured e (NewPacket GAME_CMSG_INTERACT_LIVING (le32enc agent_id @ [0]))"

definition GameSrv_InteractGadget :: "surroundings \<Rightarrow> u32 \<Rightarrow> gw_client \<Rightarrow> fault + gw_client" where
  "GameSrv_InteractGadget e agent_id = send_secured e (NewPacket GAME_CMSG_INTERACT_GADGET (le32enc agent_id @ [0]))"

definition GameSrv_RotateToAngle :: "surroundings \<Rightarrow> f32 \<Rightarrow> gw_client \<Rightarrow> fault + gw_client" where
  "GameSrv_RotateToAngle e rotation =
     send_secured e (NewPacket GAME_CMSG_ROTATE_PLAYER (le32enc rotation @ le32enc 0x3F800000))"

definition GameSrv_DonateFaction :: "surroundings \<Rightarrow> u32 \<Rightarrow> u32 \<Rightarrow> gw_client \<Rightarrow> fault + gw_client" where
  "GameSrv_DonateFaction e faction amount c =
     bindE (assertE (conn_secured (game_srv c))) (\<lambda>_.
     bindE (assertE (faction = 0 \<or> faction = 1)) (\<lambda>_.
       send_game e (NewPacket GAME_CMSG_DEPOSIT_FACTION (le32enc 0 @ [ucast faction] @ le32enc amount)) c))"

end
