(* ===== verification/Skills.thy ===== *)
theory Skills
  imports Players
begin

text \<open>
  Skill bars and the casting of skills, \<^verbatim>\<open>client/skill.h\<close>, \<^verbatim>\<open>client/skill.c\<close> and
  \<^verbatim>\<open>client/hero.c\<close>. A skill bar belongs to an agent and is found by a search through the array; the
  index of the bar stands for the pointer to it.
\<close>

unbundle bit_operations_syntax

section \<open>Skill bars\<close>

definition zero_skill :: skill where
  "zero_skill = \<lparr>sk_skill_id = 0, sk_caster_agent_id = 0, sk_target_agent_id = 0, sk_disable = False,
     sk_casting = False, sk_casting_confirmed = False, sk_recharging = False\<rparr>"

definition zero_skillbar :: skillbar where
  "zero_skillbar = \<lparr>sb_owner_agent_id = 0, sb_attributes = zero_carray, sb_prof1 = 0, sb_prof2 = 0,
     sb_skills = replicate 8 zero_skill\<rparr>"

definition put_skillbar :: "nat \<Rightarrow> skillbar \<Rightarrow> world \<Rightarrow> fault + world" where
  "put_skillbar i sb w =
     bindE (upd (arr_data (w_skillbars w)) i sb) (\<lambda>d. Inr (w\<lparr>w_skillbars := (w_skillbars w)\<lparr>arr_data := d\<rparr>\<rparr>))"

definition get_skillbar_safe :: "world \<Rightarrow> u32 \<Rightarrow> fault + nat option" where
  "get_skillbar_safe w agent_id =
     bindE (foreach (w_skillbars w)) (\<lambda>sbs.
       let i = find_skillbar sbs agent_id 0 in Inr (if i < length sbs then Some i else None))"

definition skillbar_set_skill_id :: "int \<Rightarrow> u32 \<Rightarrow> skillbar \<Rightarrow> fault + skillbar" where
  "skillbar_set_skill_id pos skill_id sb =
     bindE (assertE (0 \<le> pos \<and> pos \<le> 7)) (\<lambda>_.
     bindE (upd (sb_skills sb) (nat pos) (zero_skill\<lparr>sk_skill_id := skill_id\<rparr>)) (\<lambda>s. Inr (sb\<lparr>sb_skills := s\<rparr>)))"

definition skillbar_set_skill :: "int \<Rightarrow> skill \<Rightarrow> skillbar \<Rightarrow> fault + skillbar" where
  "skillbar_set_skill pos s = skillbar_set_skill_id pos (sk_skill_id s)"

fun find_skill :: "skill list \<Rightarrow> u32 \<Rightarrow> nat \<Rightarrow> nat option" where
  "find_skill [] skill_id i = None"
| "find_skill (s # ss) skill_id i = (if sk_skill_id s = skill_id then Some i else find_skill ss skill_id (i + 1))"

definition skillbar_get_skill_by_id :: "skillbar \<Rightarrow> u32 \<Rightarrow> nat option" where
  "skillbar_get_skill_by_id sb skill_id = find_skill (sb_skills sb) skill_id 0"

definition get_skill_position :: "world \<Rightarrow> u32 \<Rightarrow> u32 \<Rightarrow> fault + int" where
  "get_skill_position w agent_id skill_id =
     bindE (get_skillbar_safe w agent_id) (\<lambda>i. case i of None \<Rightarrow> Inr (- 1)
       | Some i \<Rightarrow> bindE (array_at (w_skillbars w) i) (\<lambda>sb.
           Inr (case skillbar_get_skill_by_id sb skill_id of None \<Rightarrow> - 1 | Some k \<Rightarrow> int k)))"

text \<open>The position counts from 1, but is used to index the array from 0.\<close>

definition skillbar_skill_is_casting :: "skillbar \<Rightarrow> int \<Rightarrow> fault + bool" where
  "skillbar_skill_is_casting sb pos =
     bindE (assertE (1 \<le> pos \<and> pos \<le> 8)) (\<lambda>_.
     bindE (idx (sb_skills sb) (nat pos)) (\<lambda>s. Inr (sk_casting s \<or> sk_casting_confirmed s)))"

text \<open>Changing one skill of a bar.\<close>

definition put_skill :: "nat \<Rightarrow> nat \<Rightarrow> (skill \<Rightarrow> skill) \<Rightarrow> world \<Rightarrow> fault + world" where
  "put_skill i k f w =
     bindE (array_at (w_skillbars w) i) (\<lambda>sb.
     bindE (idx (sb_skills sb) k) (\<lambda>s.
     bindE (upd (sb_skills sb) k (f s)) (\<lambda>ss. put_skillbar i (sb\<lparr>sb_skills := ss\<rparr>) w)))"

text \<open>The target may be null: nobody checks it.\<close>

definition skillbar_start_cast :: "nat option \<Rightarrow> u32 \<Rightarrow> ptr \<Rightarrow> ptr \<Rightarrow> world \<Rightarrow> fault + world" where
  "skillbar_start_cast sb skill_id caster target w =
     (case sb of None \<Rightarrow> Inl AssertFail
      | Some i \<Rightarrow>
          bindE (array_at (w_skillbars w) i) (\<lambda>sb.
          bindE (assertE (sb_owner_agent_id sb \<noteq> 0)) (\<lambda>_.
          case skillbar_get_skill_by_id sb skill_id of None \<Rightarrow> Inr w
          | Some k \<Rightarrow>
              bindE (deref (w_agent_heap w) caster) (\<lambda>a.
              bindE (deref (w_agent_heap w) target) (\<lambda>t.
              bindE (put_skill i k (\<lambda>s. s\<lparr>sk_casting := True, sk_caster_agent_id := ag_agent_id a,
                sk_target_agent_id := ag_agent_id t\<rparr>) w) (\<lambda>w.
                put_agent caster (agent_set_casting skill_id a) w))))))"

definition skillbar_done_cast :: "nat \<Rightarrow> u32 \<Rightarrow> world \<Rightarrow> fault + world" where
  "skillbar_done_cast i skill_id w =
     bindE (array_at (w_skillbars w) i) (\<lambda>sb.
     bindE (assertE (sb_owner_agent_id sb \<noteq> 0)) (\<lambda>_.
     case skillbar_get_skill_by_id sb skill_id of None \<Rightarrow> Inr w
     | Some k \<Rightarrow>
         bindE (idx (sb_skills sb) k) (\<lambda>s.
         bindE (known_agent (sk_caster_agent_id s) (\<lambda>q a. put_agent q (agent_set_casting 0 a)) w) (\<lambda>w.
           put_skill i k (\<lambda>s. s\<lparr>sk_casting := False, sk_casting_confirmed := False,
             sk_caster_agent_id := 0, sk_target_agent_id := 0\<rparr>) w))))"

section \<open>Handlers\<close>

text \<open>A message about the bar of an agent is ignored when the agent has none.\<close>

definition with_skillbar :: "u32 \<Rightarrow> (nat \<Rightarrow> skillbar \<Rightarrow> world \<Rightarrow> fault + world) \<Rightarrow> world \<Rightarrow> fault + world" where
  "with_skillbar agent_id k w =
     bindE (get_skillbar_safe w agent_id) (\<lambda>i. case i of None \<Rightarrow> Inr w
       | Some i \<Rightarrow> bindE (array_at (w_skillbars w) i) (\<lambda>sb. k i sb w))"

definition with_skill :: "u32 \<Rightarrow> u32 \<Rightarrow> (skill \<Rightarrow> skill) \<Rightarrow> world \<Rightarrow> fault + world" where
  "with_skill agent_id skill_id f = with_skillbar agent_id (\<lambda>i sb w.
     case skillbar_get_skill_by_id sb skill_id of None \<Rightarrow> Inr w | Some k \<Rightarrow> put_skill i k f w)"

definition skill_id16 :: "handler_entry \<Rightarrow> bytes \<Rightarrow> u32" where
  "skill_id16 en p = scast (get en ''skill_id'' p :: u16)"

definition HandleSkillbarUpdateSkill :: "nat \<Rightarrow> bytes \<Rightarrow> gw_client \<Rightarrow> fault + gw_client" where
  "HandleSkillbarUpdateSkill = (let en = HandleSkillbarUpdateSkill_entry in in_world en (\<lambda>p w c.
     set_world c (with_skillbar (get en ''agent_id'' p) (\<lambda>i sb w.
       bindE (skillbar_set_skill_id (sint (get en ''position'' p :: u8)) (skill_id16 en p) sb) (\<lambda>sb.
         put_skillbar i sb w)) w)))"

fun set_skills :: "u32 list \<Rightarrow> int \<Rightarrow> skillbar \<Rightarrow> fault + skillbar" where
  "set_skills [] i sb = Inr sb"
| "set_skills (s # ss) i sb = bindE (skillbar_set_skill_id i s sb) (set_skills ss (i + 1))"

definition skillbar_update :: "(nat \<Rightarrow> bool) \<Rightarrow> u32 \<Rightarrow> nat \<Rightarrow> u32 list \<Rightarrow> world \<Rightarrow> fault + world" where
  "skillbar_update alloc agent_id n_skills ids w =
     bindE (get_skillbar_safe w agent_id) (\<lambda>i.
     bindE (case i of Some i \<Rightarrow> Inr (Some i, w_skillbars w)
            | None \<Rightarrow> array_push alloc zero_skillbar sizeof_Skillbar (w_skillbars w) 1) (\<lambda>(i, a).
     case i of None \<Rightarrow> Inl NullDeref
     | Some i \<Rightarrow>
         bindE (array_at a i) (\<lambda>sb.
         bindE (mem_read ids 0 n_skills) (\<lambda>ids.
         bindE (set_skills ids 0 (sb\<lparr>sb_owner_agent_id := agent_id\<rparr>)) (\<lambda>sb.
           put_skillbar i sb (w\<lparr>w_skillbars := a\<rparr>))))))"

definition HandleSkillbarUpdate :: "surroundings \<Rightarrow> nat \<Rightarrow> bytes \<Rightarrow> gw_client \<Rightarrow> fault + gw_client" where
  "HandleSkillbarUpdate e = (let en = HandleSkillbarUpdate_entry in in_world en (\<lambda>p w c.
     set_world c (skillbar_update (en_alloc e) (get en ''agent_id'' p) (unat (get en ''n_skills'' p :: u32))
       (get_array en ''skills'' 4 p) w)))"

definition HandleSkillAddToWindowsData :: "nat \<Rightarrow> bytes \<Rightarrow> gw_client \<Rightarrow> fault + gw_client" where
  "HandleSkillAddToWindowsData = checked_secured HandleSkillAddToWindowsData_entry"

definition HandleSkillAddToWindowsEnd :: "nat \<Rightarrow> bytes \<Rightarrow> gw_client \<Rightarrow> fault + gw_client" where
  "HandleSkillAddToWindowsEnd = checked_secured HandleSkillAddToWindowsEnd_entry"

definition HandleSkillActivated :: "nat \<Rightarrow> bytes \<Rightarrow> gw_client \<Rightarrow> fault + gw_client" where
  "HandleSkillActivated = (let en = HandleSkillActivated_entry in in_world en (\<lambda>p w c.
     set_world c (with_skillbar (get en ''agent_id'' p) (\<lambda>i sb. skillbar_done_cast i (skill_id16 en p)) w)))"

definition HandleSkillActivate :: "nat \<Rightarrow> bytes \<Rightarrow> gw_client \<Rightarrow> fault + gw_client" where
  "HandleSkillActivate = (let en = HandleSkillActivate_entry in in_world en (\<lambda>p w c.
     set_world c (with_skill (get en ''agent_id'' p) (skill_id16 en p) (\<lambda>s. s\<lparr>sk_casting_confirmed := True\<rparr>) w)))"

definition HandleSkillRecharge :: "nat \<Rightarrow> bytes \<Rightarrow> gw_client \<Rightarrow> fault + gw_client" where
  "HandleSkillRecharge = (let en = HandleSkillRecharge_entry in in_world en (\<lambda>p w c.
     set_world c (with_skill (get en ''agent_id'' p) (skill_id16 en p) (\<lambda>s. s\<lparr>sk_recharging := True\<rparr>) w)))"

definition HandleSkillRecharged :: "nat \<Rightarrow> bytes \<Rightarrow> gw_client \<Rightarrow> fault + gw_client" where
  "HandleSkillRecharged = (let en = HandleSkillRecharged_entry in in_world en (\<lambda>p w c.
     set_world c (with_skill (get en ''agent_id'' p) (skill_id16 en p) (\<lambda>s. s\<lparr>sk_recharging := False\<rparr>) w)))"

text \<open>The position is unsigned and the two comparisons are joined by \<^verbatim>\<open>&&\<close>, so it is never refused.\<close>

definition hero_skill_status :: "u32 \<Rightarrow> u8 \<Rightarrow> u8 \<Rightarrow> world \<Rightarrow> fault + world" where
  "hero_skill_status agent_id pos status = with_skillbar agent_id (\<lambda>i sb.
     put_skill i (unat pos) (\<lambda>s. s\<lparr>sk_disable := (status = 1)\<rparr>))"

definition HandleHeroSkillStatus :: "nat \<Rightarrow> bytes \<Rightarrow> gw_client \<Rightarrow> fault + gw_client" where
  "HandleHeroSkillStatus = (let en = HandleHeroSkillStatus_entry in in_world en (\<lambda>p w c.
     set_world c (hero_skill_status (get en ''agent_id'' p) (get en ''pos'' p) (get en ''status'' p) w)))"

fun disable_skills :: "nat \<Rightarrow> u8 \<Rightarrow> skill list \<Rightarrow> nat \<Rightarrow> fault + skill list" where
  "disable_skills i bitmap ss 0 = Inr ss"
| "disable_skills i bitmap ss (Suc n) =
     bindE (if bitmap AND 1 \<noteq> 0 then bindE (idx ss i) (\<lambda>s. upd ss i (s\<lparr>sk_disable := True\<rparr>)) else Inr ss) (\<lambda>ss.
       disable_skills (i + 1) (drop_bit 1 bitmap) ss n)"

definition HandleHeroSkillStatusBitmap :: "nat \<Rightarrow> bytes \<Rightarrow> gw_client \<Rightarrow> fault + gw_client" where
  "HandleHeroSkillStatusBitmap = (let en = HandleHeroSkillStatusBitmap_entry in in_world en (\<lambda>p w c.
     set_world c (with_skillbar (get en ''agent_id'' p) (\<lambda>i sb w.
       bindE (disable_skills 0 (get en ''bitmap'' p) (sb_skills sb) 8) (\<lambda>ss.
         put_skillbar i (sb\<lparr>sb_skills := ss\<rparr>) w)) w)))"

text \<open>
  As for the professions, the pointer is behind the array when no bar is found. The attributes are
  appended to the ones the bar has, three columns of the same length.
\<close>

fun read_attributes :: "u32 list \<Rightarrow> nat \<Rightarrow> nat \<Rightarrow> nat \<Rightarrow> fault + attribute list" where
  "read_attributes d cols i 0 = Inr []"
| "read_attributes d cols i (Suc n) =
     bindE (idx d i) (\<lambda>x. bindE (idx d (i + cols)) (\<lambda>y. bindE (idx d (i + 2 * cols)) (\<lambda>z.
     bindE (read_attributes d cols (i + 1) n) (\<lambda>as.
       Inr (\<lparr>at_attribute_id = x, at_rank_base = y, at_rank_bonus = z\<rparr> # as)))))"

definition update_attributes :: "(nat \<Rightarrow> bool) \<Rightarrow> u32 \<Rightarrow> nat \<Rightarrow> u32 list \<Rightarrow> world \<Rightarrow> fault + world" where
  "update_attributes alloc agent_id n_data d w =
     bindE (foreach (w_skillbars w)) (\<lambda>sbs.
       if arr_capacity (w_skillbars w) = 0 then Inr w
       else
         let i = find_skillbar sbs agent_id 0; cols = n_data div 3 in
         if 3 * cols \<noteq> n_data then Inr w
         else
           bindE (idx (arr_data (w_skillbars w)) i) (\<lambda>sb.
           bindE (array_push alloc \<lparr>at_attribute_id = 0, at_rank_base = 0, at_rank_bonus = 0\<rparr> sizeof_Attribute
             (sb_attributes sb) cols) (\<lambda>(attrs, a).
           bindE (if cols = 0 then Inr a
                  else case attrs of None \<Rightarrow> Inl NullDeref
                       | Some k \<Rightarrow> bindE (read_attributes d cols 0 cols) (\<lambda>as.
                           bindE (mem_write (arr_data a) k as) (\<lambda>m. Inr (a\<lparr>arr_data := m\<rparr>)))) (\<lambda>a.
             put_skillbar i (sb\<lparr>sb_attributes := a\<rparr>) w))))"

definition HandleAgentUpdateAttributes :: "surroundings \<Rightarrow> nat \<Rightarrow> bytes \<Rightarrow> gw_client \<Rightarrow> fault + gw_client" where
  "HandleAgentUpdateAttributes e = (let en = HandleAgentUpdateAttributes_entry in in_world en (\<lambda>p w c.
     set_world c (update_attributes (en_alloc e) (get en ''agent_id'' p) (unat (get en ''n_data'' p :: u32))
       (get_array en ''data'' 4 p) w)))"

definition HandleHeroBehavior :: "nat \<Rightarrow> bytes \<Rightarrow> gw_client \<Rightarrow> fault + gw_client" where
  "HandleHeroBehavior = checked_secured HandleHeroBehavior_entry"

section \<open>Messages to the game server\<close>

definition use_skill :: "surroundings \<Rightarrow> u32 \<Rightarrow> u32 \<Rightarrow> u32 \<Rightarrow> bytes \<Rightarrow> gw_client \<Rightarrow> fault + gw_client" where
  "use_skill e agent_id skill_id target_id packet c =
     bindE (assertE (conn_secured (game_srv c))) (\<lambda>_.
     bindE (get_world_or_abort c) (\<lambda>w.
     bindE (get_agent_safe w agent_id) (\<lambda>caster.
       if caster = None then Inr c
       else
         bindE (get_agent_safe w target_id) (\<lambda>target.
         bindE (get_skillbar_safe w agent_id) (\<lambda>sb.
         bindE (set_world c (skillbar_start_cast sb skill_id caster target w)) (send_game e packet))))))"

definition GameSrv_UseSkill :: "surroundings \<Rightarrow> u32 \<Rightarrow> u32 \<Rightarrow> u32 \<Rightarrow> gw_client \<Rightarrow> fault + gw_client" where
  "GameSrv_UseSkill e skill_id flags target_id c =
     use_skill e (w_player_agent_id (gc_world c)) skill_id target_id
       (NewPacket GAME_CMSG_USE_SKILL (le32enc skill_id @ le32enc flags @ le32enc target_id @ [0])) c"

definition GameSrv_HeroUseSkill :: "surroundings \<Rightarrow> u32 \<Rightarrow> u32 \<Rightarrow> u32 \<Rightarrow> u32 \<Rightarrow> gw_client \<Rightarrow> fault + gw_client" where
  "GameSrv_HeroUseSkill e hero_id skill_id flags target_id =
     use_skill e hero_id skill_id target_id
       (NewPacket GAME_CMSG_HERO_USE_SKILL (le32enc hero_id @ le32enc skill_id @ le32enc flags @ le32enc target_id))"

text \<open>A sender for an agent that must be known.\<close>

definition for_agent :: "u32 \<Rightarrow> (agent \<Rightarrow> gw_client \<Rightarrow> fault + gw_client) \<Rightarrow> gw_client \<Rightarrow> fault + gw_client" where
  "for_agent agent_id k c =
     bindE (get_world_or_abort c) (\<lambda>w.
     bindE (get_agent_safe w agent_id) (\<lambda>q.
       if q = None then Inr c else bindE (deref (w_agent_heap w) q) (\<lambda>a. k a c)))"

definition GameSrv_Attack :: "surroundings \<Rightarrow> u32 \<Rightarrow> bool \<Rightarrow> gw_client \<Rightarrow> fault + gw_client" where
  "GameSrv_Attack e target_id call_target c =
     bindE (assertE (conn_secured (game_srv c))) (\<lambda>_.
       for_agent (w_player_agent_id (gc_world c)) (\<lambda>_. for_agent target_id (\<lambda>_.
         send_game e (NewPacket GAME_CMSG_ATTACK_AGENT (le32enc target_id @ [of_bool call_target])))) c)"

definition GameSrv_LoadSkills :: "surroundings \<Rightarrow> u32 \<Rightarrow> u32 list \<Rightarrow> gw_client \<Rightarrow> fault + gw_client" where
  "GameSrv_LoadSkills e agent_id skill_ids c =
     bindE (assertE (conn_secured (game_srv c))) (\<lambda>_.
       for_agent agent_id (\<lambda>a c.
         bindE (mem_read skill_ids 0 8) (\<lambda>ids.
           send_game e (NewPacket GAME_CMSG_SKILLBAR_LOAD (le32enc (ag_agent_id a) @ le32enc 8 @ concat (map le32enc ids))) c)) c)"

definition GameSrv_LoadAttributes :: "surroundings \<Rightarrow> u32 \<Rightarrow> attribute carray \<Rightarrow> gw_client \<Rightarrow> fault + gw_client" where
  "GameSrv_LoadAttributes e agent_id attributes = for_agent agent_id (\<lambda>a c.
     bindE (assertE (arr_size attributes \<le> 16)) (\<lambda>_.
     bindE (foreach attributes) (\<lambda>as.
     let n = arr_size attributes in
       send_game e (NewPacket GAME_CMSG_ATTRIBUTE_LOAD (le32enc (ag_agent_id a) @
         le32enc (of_nat n) @ concat (map (le32enc \<circ> at_attribute_id) as) @ replicate (4 * (16 - n)) 0 @
         le32enc (of_nat n) @ concat (map (le32enc \<circ> at_rank_base) as) @ replicate (4 * (16 - n)) 0)) c)))"

definition GameSrv_ChangeSecondary :: "surroundings \<Rightarrow> u32 \<Rightarrow> u32 \<Rightarrow> gw_client \<Rightarrow> fault + gw_client" where
  "GameSrv_ChangeSecondary e agent_id profession c =
     bindE (assertE (conn_secured (game_srv c))) (\<lambda>_.
       for_agent agent_id (\<lambda>a c.
         if profession = 0 then Inr c
         else send_game e (NewPacket GAME_CMSG_CHANGE_SECOND_PROFESSION (le32enc (ag_agent_id a) @ [ucast profession])) c) c)"

definition for_player :: "(u32 \<Rightarrow> gw_client \<Rightarrow> fault + gw_client) \<Rightarrow> gw_client \<Rightarrow> fault + gw_client" where
  "for_player k c =
     bindE (assertE (conn_secured (game_srv c))) (\<lambda>_.
       for_agent (w_player_agent_id (gc_world c)) (\<lambda>a. k (ag_agent_id a)) c)"

definition GameSrv_PlayerLoadSkills :: "surroundings \<Rightarrow> u32 list \<Rightarrow> gw_client \<Rightarrow> fault + gw_client" where
  "GameSrv_PlayerLoadSkills e skill_ids = for_player (\<lambda>a. GameSrv_LoadSkills e a skill_ids)"

definition GameSrv_PlayerLoadAttributes :: "surroundings \<Rightarrow> attribute carray \<Rightarrow> gw_client \<Rightarrow> fault + gw_client" where
  "GameSrv_PlayerLoadAttributes e attributes = for_player (\<lambda>a. GameSrv_LoadAttributes e a attributes)"

definition GameSrv_PlayerChangeSecondary :: "surroundings \<Rightarrow> u32 \<Rightarrow> gw_client \<Rightarrow> fault + gw_client" where
  "GameSrv_PlayerChangeSecondary e profession = for_player (\<lambda>a. GameSrv_ChangeSecondary e a profession)"

definition GameSrv_HeroSetBehavior :: "surroundings \<Rightarrow> u32 \<Rightarrow> u32 \<Rightarrow> gw_client \<Rightarrow> fault + gw_client" where
  "GameSrv_HeroSetBehavior e agent_id behavior =
     send_secured e (NewPacket GAME_CMSG_HERO_BEHAVIOR (le32enc agent_id @ le32enc behavior))"

definition GameSrv_HeroSkillToggle :: "surroundings \<Rightarrow> u32 \<Rightarrow> u32 \<Rightarrow> gw_client \<Rightarrow> fault + gw_client" where
  "GameSrv_HeroSkillToggle e agent_id skill_slot =
     send_secured e (NewPacket GAME_CMSG_HERO_SKILL_TOGGLE (le32enc agent_id @ le32enc skill_slot))"

end
