(* ===== verification/Parties.thy ===== *)
theory Parties
  imports Skills
begin

text \<open>
  Parties and the search for them, \<^verbatim>\<open>client/party.c\<close>, and the heroes of the own party,
  \<^verbatim>\<open>client/hero.c\<close>. The identifier of a party is its index in the array of the parties; the index
  stands for the pointer to the party.
\<close>

section \<open>The party\<close>

definition get_party_safe :: "world \<Rightarrow> u32 \<Rightarrow> nat option" where
  "get_party_safe w ident = (if \<not> array_inside (w_parties w) (unat ident) then None else Some (unat ident))"

text \<open>The player keeps the identifier as a \<^verbatim>\<open>size_t\<close>; the lookup takes 32 bits of it.\<close>

definition get_player_party_safe :: "world \<Rightarrow> u32 \<Rightarrow> fault + nat option" where
  "get_player_party_safe w player_id =
     bindE (get_player_safe w player_id) (\<lambda>q.
       if q = None then Inr None
       else bindE (deref (w_player_heap w) q) (\<lambda>x. Inr (get_party_safe w (ucast (pl_party_id x)))))"

fun find_party_player :: "party_player list \<Rightarrow> u32 \<Rightarrow> nat \<Rightarrow> nat" where
  "find_party_player [] ident i = i"
| "find_party_player (x # xs) ident i = (if pp_player_id x = ident then i else find_party_player xs ident (i + 1))"

definition get_party_player :: "party \<Rightarrow> u32 \<Rightarrow> fault + nat option" where
  "get_party_player x ident =
     bindE (foreach (party_players x)) (\<lambda>ps.
       let i = find_party_player ps ident 0 in Inr (if i < length ps then Some i else None))"

fun find_party_hero :: "party_hero list \<Rightarrow> u32 \<Rightarrow> nat \<Rightarrow> nat option" where
  "find_party_hero [] ident i = None"
| "find_party_hero (x # xs) ident i = (if phero_agent_id x = ident then Some i else find_party_hero xs ident (i + 1))"

definition get_party_hero_agent :: "party \<Rightarrow> u32 \<Rightarrow> fault + nat option" where
  "get_party_hero_agent x ident = bindE (foreach (party_heroes x)) (\<lambda>hs. Inr (find_party_hero hs ident 0))"

text \<open>Reading and writing the party behind a pointer.\<close>

definition put_party :: "nat \<Rightarrow> party \<Rightarrow> world \<Rightarrow> fault + world" where
  "put_party i x w = bindE (upd (arr_data (w_parties w)) i x) (\<lambda>d. Inr (w\<lparr>w_parties := (w_parties w)\<lparr>arr_data := d\<rparr>\<rparr>))"

definition of_party :: "nat option \<Rightarrow> (nat \<Rightarrow> party \<Rightarrow> world \<Rightarrow> fault + world) \<Rightarrow> world \<Rightarrow> fault + world" where
  "of_party i k w = (case i of None \<Rightarrow> Inr w
     | Some i \<Rightarrow> bindE (array_at (w_parties w) i) (\<lambda>x. k i x w))"

section \<open>Handlers of the party\<close>

definition party_set_difficulty :: "u8 \<Rightarrow> world \<Rightarrow> fault + world" where
  "party_set_difficulty mode w =
     bindE (get_player_party_safe w (w_player_id w)) (\<lambda>i. of_party i (\<lambda>i x w.
       if mode = 0 \<or> mode = 1 then put_party i (x\<lparr>party_difficulty := mode\<rparr>) w else Inr w) w)"

definition HandlePartySetDifficulty :: "nat \<Rightarrow> bytes \<Rightarrow> gw_client \<Rightarrow> fault + gw_client" where
  "HandlePartySetDifficulty = (let en = HandlePartySetDifficulty_entry in in_world en (\<lambda>p w c.
     set_world c (party_set_difficulty (get en ''mode'' p) w)))"

definition party_hero_add :: "(nat \<Rightarrow> bool) \<Rightarrow> u16 \<Rightarrow> u16 \<Rightarrow> u16 \<Rightarrow> u8 \<Rightarrow> u8 \<Rightarrow> world \<Rightarrow> fault + world" where
  "party_hero_add alloc ident player_id agent_id hero_id level w =
     bindE (assertE (array_inside (w_parties w) (unat ident))) (\<lambda>_.
     bindE (array_at (w_parties w) (unat ident)) (\<lambda>x.
     bindE (array_push alloc \<lparr>phero_agent_id = 0, phero_owner_id = 0, phero_hero_id = 0, phero_level = 0\<rparr>
       sizeof_PartyHero (party_heroes x) 1) (\<lambda>(k, a).
       case k of None \<Rightarrow> put_party (unat ident) (x\<lparr>party_heroes := a\<rparr>) w
       | Some k \<Rightarrow>
           bindE (upd (arr_data a) k \<lparr>phero_agent_id = ucast agent_id, phero_owner_id = ucast player_id,
             phero_hero_id = ucast hero_id, phero_level = ucast level\<rparr>) (\<lambda>d.
             put_party (unat ident) (x\<lparr>party_heroes := a\<lparr>arr_data := d\<rparr>\<rparr>) w))))"

definition HandlePartyHeroAdd :: "surroundings \<Rightarrow> nat \<Rightarrow> bytes \<Rightarrow> gw_client \<Rightarrow> fault + gw_client" where
  "HandlePartyHeroAdd e = (let en = HandlePartyHeroAdd_entry in in_world en (\<lambda>p w c.
     set_world c (party_hero_add (en_alloc e) (get en ''party_id'' p) (get en ''player_id'' p)
       (get en ''agent_id'' p) (get en ''hero_id'' p) (get en ''level'' p) w)))"

definition party_hero_remove :: "u16 \<Rightarrow> u16 \<Rightarrow> world \<Rightarrow> fault + world" where
  "party_hero_remove ident agent_id w = of_party (get_party_safe w (ucast ident)) (\<lambda>i x w.
     bindE (get_party_hero_agent x (ucast agent_id)) (\<lambda>k.
       case k of None \<Rightarrow> Inr w
       | Some k \<Rightarrow> bindE (array_remove_range_ordered sizeof_PartyHero (party_heroes x) k 1) (\<lambda>a.
           put_party i (x\<lparr>party_heroes := a\<rparr>) w))) w"

definition HandlePartyHeroRemove :: "nat \<Rightarrow> bytes \<Rightarrow> gw_client \<Rightarrow> fault + gw_client" where
  "HandlePartyHeroRemove = (let en = HandlePartyHeroRemove_entry in in_world en (\<lambda>p w c.
     set_world c (party_hero_remove (get en ''party_id'' p) (get en ''agent_id'' p) w)))"

definition HandlePartyInviteAdd :: "nat \<Rightarrow> bytes \<Rightarrow> gw_client \<Rightarrow> fault + gw_client" where
  "HandlePartyInviteAdd = checked_secured HandlePartyInviteAdd_entry"

text \<open>The header that is asserted is the one of another message.\<close>

definition HandlePartyInviteCancel :: "nat \<Rightarrow> bytes \<Rightarrow> gw_client \<Rightarrow> fault + gw_client" where
  "HandlePartyInviteCancel = checked_secured HandlePartyInviteCancel_entry"

definition HandlePartyRequestCancel :: "nat \<Rightarrow> bytes \<Rightarrow> gw_client \<Rightarrow> fault + gw_client" where
  "HandlePartyRequestCancel = checked_secured HandlePartyRequestCancel_entry"

definition HandlePartyJoinRequest :: "surroundings \<Rightarrow> nat \<Rightarrow> bytes \<Rightarrow> gw_client \<Rightarrow> fault + gw_client" where
  "HandlePartyJoinRequest e = (let en = HandlePartyJoinRequest_entry in in_world en (\<lambda>p w c.
     let ident = ucast (get en ''party_id'' p :: u16) in
     if get_party_safe w ident = None then Inr c else broadcast e (EventType_PartyInviteRequest ident) c))"

definition HandlePartyYouAreLeader :: "surroundings \<Rightarrow> nat \<Rightarrow> bytes \<Rightarrow> gw_client \<Rightarrow> fault + gw_client" where
  "HandlePartyYouAreLeader e = secured HandlePartyYouAreLeader_entry (\<lambda>p. broadcast e EventType_PartyLeaderChanged)"

text \<open>The player and the party of a message, asserted.\<close>

definition member_of :: "u16 \<Rightarrow> u16 \<Rightarrow> (ptr \<Rightarrow> player \<Rightarrow> nat \<Rightarrow> party \<Rightarrow> world \<Rightarrow> fault + 'a) \<Rightarrow> world \<Rightarrow> fault + 'a" where
  "member_of ident player_id k w =
     bindE (get_player_safe w (ucast player_id)) (\<lambda>q.
     bindE (assertE (q \<noteq> None \<and> get_party_safe w (ucast ident) \<noteq> None)) (\<lambda>_.
     bindE (deref (w_player_heap w) q) (\<lambda>pl.
     bindE (array_at (w_parties w) (unat ident)) (\<lambda>x. k q pl (unat ident) x w))))"

text \<open>
  The identifier of the party is a signed number of 16 bits and the one of the player has 64 bits. Adding
  the player says whether it worked, so that the event is sent.
\<close>

definition party_player_add :: "(nat \<Rightarrow> bool) \<Rightarrow> u16 \<Rightarrow> u16 \<Rightarrow> u8 \<Rightarrow> world \<Rightarrow> fault + bool \<times> world" where
  "party_player_add alloc ident player_id is_loaded = member_of ident player_id (\<lambda>q pl i x w.
     bindE (put_player q (pl\<lparr>pl_party_id := scast (party_id x)\<rparr>) w) (\<lambda>w.
     bindE (array_push alloc \<lparr>pp_agent_id = 0, pp_player_id = 0, pp_ready = False, pp_connected = False\<rparr>
       sizeof_PartyPlayer (party_players x) 1) (\<lambda>(k, a).
       case k of None \<Rightarrow> bindE (put_party i (x\<lparr>party_players := a\<rparr>) w) (\<lambda>w. Inr (False, w))
       | Some k \<Rightarrow>
           bindE (idx (arr_data a) k) (\<lambda>pp.
           bindE (upd (arr_data a) k (pp\<lparr>pp_agent_id := pl_agent_id pl, pp_player_id := ucast player_id,
             pp_connected := (is_loaded = 1)\<rparr>)) (\<lambda>d.
           bindE (put_party i (x\<lparr>party_players := a\<lparr>arr_data := d\<rparr>, party_player_count := party_player_count x + 1\<rparr>) w) (\<lambda>w.
             Inr (True, w)))))))"

definition HandlePartyPlayerAdd :: "surroundings \<Rightarrow> nat \<Rightarrow> bytes \<Rightarrow> gw_client \<Rightarrow> fault + gw_client" where
  "HandlePartyPlayerAdd e = (let en = HandlePartyPlayerAdd_entry in in_world en (\<lambda>p w c.
     let ident = get en ''party_id'' p in
     bindE (party_player_add (en_alloc e) ident (get en ''player_id'' p) (get en ''is_loaded'' p) w) (\<lambda>(added, w).
     bindE (set_world c (Inr w)) (\<lambda>c.
       if added then broadcast e (EventType_PartyMembersChanged (ucast ident)) c else Inr c))))"

text \<open>The index is the number of players when the player is not found, and then nobody is removed.\<close>

definition party_player_remove :: "u16 \<Rightarrow> u16 \<Rightarrow> world \<Rightarrow> fault + world" where
  "party_player_remove ident player_id = member_of ident player_id (\<lambda>q pl i x w.
     bindE (foreach (party_players x)) (\<lambda>ps.
     bindE (array_remove_range_ordered sizeof_PartyPlayer (party_players x) (find_party_player ps (pl_player_id pl) 0) 1) (\<lambda>a.
     bindE (put_player q (pl\<lparr>pl_party_id := 0\<rparr>) w) (\<lambda>w.
       put_party i (x\<lparr>party_players := a, party_player_count := party_player_count x - 1\<rparr>) w))))"

definition HandlePartyPlayerRemove :: "surroundings \<Rightarrow> nat \<Rightarrow> bytes \<Rightarrow> gw_client \<Rightarrow> fault + gw_client" where
  "HandlePartyPlayerRemove e = (let en = HandlePartyPlayerRemove_entry in in_world en (\<lambda>p w c.
     let ident = get en ''party_id'' p in
     bindE (set_world c (party_player_remove ident (get en ''player_id'' p) w)) (\<lambda>c.
       broadcast e (EventType_PartyMembersChanged (ucast ident)) c)))"

text \<open>The member \<^verbatim>\<open>is_ready\<close> of the message is not read.\<close>

definition party_player_ready :: "u16 \<Rightarrow> u16 \<Rightarrow> world \<Rightarrow> fault + world" where
  "party_player_ready ident player_id w = of_party (get_party_safe w (ucast ident)) (\<lambda>i x w.
     bindE (get_party_player x (ucast player_id)) (\<lambda>k.
       case k of None \<Rightarrow> Inr w
       | Some k \<Rightarrow>
           bindE (idx (arr_data (party_players x)) k) (\<lambda>pp.
           bindE (upd (arr_data (party_players x)) k (pp\<lparr>pp_ready := True\<rparr>)) (\<lambda>d.
             put_party i (x\<lparr>party_players := (party_players x)\<lparr>arr_data := d\<rparr>\<rparr>) w)))) w"

definition HandlePartyPlayerReady :: "nat \<Rightarrow> bytes \<Rightarrow> gw_client \<Rightarrow> fault + gw_client" where
  "HandlePartyPlayerReady = (let en = HandlePartyPlayerReady_entry in in_world en (\<lambda>p w c.
     set_world c (party_player_ready (get en ''party_id'' p) (get en ''player_id'' p) w)))"

text \<open>A party that is created again loses its members; their blocks are not released.\<close>

definition party_create :: "(nat \<Rightarrow> bool) \<Rightarrow> u16 \<Rightarrow> world \<Rightarrow> fault + world" where
  "party_create alloc ident w =
     bindE (if array_inside (w_parties w) (unat ident) then Inr (w_parties w)
            else bindE (ignored (array_resize alloc zero_party sizeof_Party (w_parties w) (unat ident + 1))) (\<lambda>a.
                   Inr (a\<lparr>arr_size := arr_capacity a\<rparr>))) (\<lambda>a.
       put_party (unat ident) (zero_party\<lparr>party_id := ident, party_heroes := array_init, party_players := array_init\<rparr>)
         (w\<lparr>w_parties := a\<rparr>))"

definition HandlePartyCreate :: "surroundings \<Rightarrow> nat \<Rightarrow> bytes \<Rightarrow> gw_client \<Rightarrow> fault + gw_client" where
  "HandlePartyCreate e = (let en = HandlePartyCreate_entry in in_world en (\<lambda>p w c.
     set_world c (party_create (en_alloc e) (get en ''party_id'' p) w)))"

definition HandlePartyMemberStreamEnd :: "nat \<Rightarrow> bytes \<Rightarrow> gw_client \<Rightarrow> fault + gw_client" where
  "HandlePartyMemberStreamEnd = checked_secured HandlePartyMemberStreamEnd_entry"

definition party_is_defeated :: "world \<Rightarrow> fault + world" where
  "party_is_defeated w =
     bindE (get_player_party_safe w (w_player_id w)) (\<lambda>i. of_party i (\<lambda>i x. put_party i (x\<lparr>party_defeated := True\<rparr>)) w)"

definition HandlePartyDefeated :: "nat \<Rightarrow> bytes \<Rightarrow> gw_client \<Rightarrow> fault + gw_client" where
  "HandlePartyDefeated = in_world HandlePartyDefeated_entry (\<lambda>p w c. set_world c (party_is_defeated w))"

section \<open>Messages to the game server\<close>

definition GameSrv_FlagHero :: "surroundings \<Rightarrow> vec2f \<Rightarrow> u32 \<Rightarrow> gw_client \<Rightarrow> fault + gw_client" where
  "GameSrv_FlagHero e pos agent_id = send_secured e (NewPacket GAME_CMSG_HERO_FLAG_SINGLE
     (le32enc agent_id @ le32enc (fst pos) @ le32enc (snd pos) @ le32enc 0))"

definition GameSrv_FlagAllHero :: "surroundings \<Rightarrow> vec2f \<Rightarrow> gw_client \<Rightarrow> fault + gw_client" where
  "GameSrv_FlagAllHero e pos = send_secured e (NewPacket GAME_CMSG_HERO_FLAG_ALL
     (le32enc (fst pos) @ le32enc (snd pos) @ le32enc 0))"

definition GameSrv_AcceptInvite :: "surroundings \<Rightarrow> u32 \<Rightarrow> gw_client \<Rightarrow> fault + gw_client" where
  "GameSrv_AcceptInvite e ident = send_secured e (NewPacket GAME_CMSG_PARTY_ACCEPT_INVITE (le16enc (ucast ident)))"

definition GameSrv_LeaveParty :: "surroundings \<Rightarrow> gw_client \<Rightarrow> fault + gw_client" where
  "GameSrv_LeaveParty e = send_secured e (NewPacket GAME_CMSG_PARTY_LEAVE_GROUP [])"

definition GameSrv_RefuseInvite :: "surroundings \<Rightarrow> u32 \<Rightarrow> gw_client \<Rightarrow> fault + gw_client" where
  "GameSrv_RefuseInvite e ident = send_secured e (NewPacket GAME_CMSG_PARTY_ACCEPT_REFUSE (le16enc (ucast ident)))"

definition GameSrv_PartySetTick :: "surroundings \<Rightarrow> bool \<Rightarrow> gw_client \<Rightarrow> fault + gw_client" where
  "GameSrv_PartySetTick e ticked = send_secured e (NewPacket GAME_CMSG_PARTY_READY_STATUS [of_bool ticked])"

definition GameSrv_SetDifficulty :: "surroundings \<Rightarrow> u32 \<Rightarrow> gw_client \<Rightarrow> fault + gw_client" where
  "GameSrv_SetDifficulty e mode = send_secured e (NewPacket GAME_CMSG_PARTY_SET_DIFFICULTY [ucast mode])"

definition GameSrv_AddHero :: "surroundings \<Rightarrow> u32 \<Rightarrow> gw_client \<Rightarrow> fault + gw_client" where
  "GameSrv_AddHero e hero_id = send_secured e (NewPacket GAME_CMSG_HERO_ADD (le16enc (ucast hero_id)))"

definition GameSrv_KickHero :: "surroundings \<Rightarrow> u32 \<Rightarrow> gw_client \<Rightarrow> fault + gw_client" where
  "GameSrv_KickHero e hero_id = send_secured e (NewPacket GAME_CMSG_HERO_KICK (le16enc (ucast hero_id)))"

text \<open>Messages for a hero of the own party, found by its place in the array of the heroes.\<close>

definition for_hero :: "u32 \<Rightarrow> (u32 \<Rightarrow> gw_client \<Rightarrow> fault + gw_client) \<Rightarrow> gw_client \<Rightarrow> fault + gw_client" where
  "for_hero hero_index k c =
     bindE (assertE (conn_secured (game_srv c))) (\<lambda>_.
     bindE (get_world_or_abort c) (\<lambda>w.
     bindE (get_player_party_safe w (w_player_id w)) (\<lambda>i.
       case i of None \<Rightarrow> Inr c
       | Some i \<Rightarrow>
           bindE (array_at (w_parties w) i) (\<lambda>x.
             if \<not> array_inside (party_heroes x) (unat hero_index) then Inr c
             else bindE (array_at (party_heroes x) (unat hero_index)) (\<lambda>h. k (phero_agent_id h) c)))))"

definition GameSrv_HeroLoadSkills :: "surroundings \<Rightarrow> u32 \<Rightarrow> u32 list \<Rightarrow> gw_client \<Rightarrow> fault + gw_client" where
  "GameSrv_HeroLoadSkills e hero_index skill_ids = for_hero hero_index (\<lambda>a. GameSrv_LoadSkills e a skill_ids)"

definition GameSrv_HeroLoadAttributes :: "surroundings \<Rightarrow> u32 \<Rightarrow> attribute carray \<Rightarrow> gw_client \<Rightarrow> fault + gw_client" where
  "GameSrv_HeroLoadAttributes e hero_index attributes = for_hero hero_index (\<lambda>a. GameSrv_LoadAttributes e a attributes)"

definition GameSrv_HeroChangeSecondary :: "surroundings \<Rightarrow> u32 \<Rightarrow> u32 \<Rightarrow> gw_client \<Rightarrow> fault + gw_client" where
  "GameSrv_HeroChangeSecondary e hero_index profession = for_hero hero_index (\<lambda>a. GameSrv_ChangeSecondary e a profession)"

section \<open>The search for parties\<close>

text \<open>Texts of a message end at their first zero.\<close>

definition text_of :: "handler_entry \<Rightarrow> string \<Rightarrow> bytes \<Rightarrow> fault + u16 list" where
  "text_of en n p =
     (let t = get_array en n 2 p in bindE (u16len t (length t)) (\<lambda>k. Inr (take k t)))"

definition HandlePartySearchRequestJoin :: "nat \<Rightarrow> bytes \<Rightarrow> gw_client \<Rightarrow> fault + gw_client" where
  "HandlePartySearchRequestJoin = checked_secured HandlePartySearchRequestJoin_entry"

definition HandlePartySearchRequestDone :: "nat \<Rightarrow> bytes \<Rightarrow> gw_client \<Rightarrow> fault + gw_client" where
  "HandlePartySearchRequestDone = checked_secured HandlePartySearchRequestDone_entry"

definition HandlePartySearchAdvertisement :: "surroundings \<Rightarrow> nat \<Rightarrow> bytes \<Rightarrow> gw_client \<Rightarrow> fault + gw_client" where
  "HandlePartySearchAdvertisement e = (let en = HandlePartySearchAdvertisement_entry in secured en (\<lambda>p c.
     bindE (text_of en ''player_name'' p) (\<lambda>sender.
     bindE (text_of en ''message'' p) (\<lambda>message.
       broadcast e (EventType_PartySearchAdvertisement (get en ''ps_id'' p) (get en ''party_size'' p)
         (get en ''hero_count'' p) (get en ''search_type'' p) (get en ''hardmode'' p) (get en ''district_number'' p)
         (get en ''language'' p) (get en ''primary'' p) (get en ''secondary'' p) (get en ''level'' p) message sender) c))))"

definition HandlePartySearchSeek :: "nat \<Rightarrow> bytes \<Rightarrow> gw_client \<Rightarrow> fault + gw_client" where
  "HandlePartySearchSeek = checked_secured HandlePartySearchSeek_entry"

definition HandlePartySearchRemove :: "surroundings \<Rightarrow> nat \<Rightarrow> bytes \<Rightarrow> gw_client \<Rightarrow> fault + gw_client" where
  "HandlePartySearchRemove e = (let en = HandlePartySearchRemove_entry in secured en (\<lambda>p.
     broadcast e (EventType_PartySearchRemoved (get en ''ps_id'' p))))"

definition HandlePartySearchSize :: "surroundings \<Rightarrow> nat \<Rightarrow> bytes \<Rightarrow> gw_client \<Rightarrow> fault + gw_client" where
  "HandlePartySearchSize e = (let en = HandlePartySearchSize_entry in secured en (\<lambda>p.
     broadcast e (EventType_PartySearchSize (get en ''ps_id'' p) (get en ''party_size'' p) (get en ''hero_count'' p))))"

definition HandlePartySearchType :: "surroundings \<Rightarrow> nat \<Rightarrow> bytes \<Rightarrow> gw_client \<Rightarrow> fault + gw_client" where
  "HandlePartySearchType e = (let en = HandlePartySearchType_entry in secured en (\<lambda>p.
     broadcast e (EventType_PartySearchType (get en ''ps_id'' p) (get en ''search_type'' p) (get en ''hardmode'' p))))"

definition GameSrv_PS_SeekParty :: "surroundings \<Rightarrow> u8 \<Rightarrow> kstr \<Rightarrow> gw_client \<Rightarrow> fault + gw_client" where
  "GameSrv_PS_SeekParty e type msg c =
     bindE (assertE (conn_secured (game_srv c))) (\<lambda>_.
     bindE (kstr_write msg (replicate 32 0) 32) (\<lambda>(_, t).
       send_game e (NewPacket GAME_CMSG_PARTY_SEARCH_SEEK ([type] @ u16s t @ [0, 0])) c))"

definition GameSrv_PS_CancelSeek :: "surroundings \<Rightarrow> gw_client \<Rightarrow> fault + gw_client" where
  "GameSrv_PS_CancelSeek e = send_secured e (NewPacket GAME_CMSG_PARTY_SEARCH_CANCEL [])"

definition GameSrv_PS_RequestJoin :: "surroundings \<Rightarrow> u16 \<Rightarrow> gw_client \<Rightarrow> fault + gw_client" where
  "GameSrv_PS_RequestJoin e ident = send_secured e (NewPacket GAME_CMSG_PARTY_SEARCH_REQUEST_JOIN (le16enc ident))"

definition GameSrv_PS_RequestReply :: "surroundings \<Rightarrow> u16 \<Rightarrow> gw_client \<Rightarrow> fault + gw_client" where
  "GameSrv_PS_RequestReply e ident = send_secured e (NewPacket GAME_CMSG_PARTY_SEARCH_REQUEST_REPLY (le16enc ident))"

definition GameSrv_PS_ChangeType :: "surroundings \<Rightarrow> u8 \<Rightarrow> gw_client \<Rightarrow> fault + gw_client" where
  "GameSrv_PS_ChangeType e type = send_secured e (NewPacket GAME_CMSG_PARTY_SEARCH_TYPE [type])"

end
