(* ===== verification/Guilds.thy ===== *)
theory Guilds
  imports Parties
begin

text \<open>
  Guilds and their members, \<^verbatim>\<open>client/guild.h\<close> and \<^verbatim>\<open>client/guild.c\<close>. A change of a member arrives
  as several messages: what changed is collected in the world, the last message names the member. The
  index of a guild stands for the pointer to it.
\<close>

section \<open>Looking up\<close>

definition get_guild_safe :: "world \<Rightarrow> u32 \<Rightarrow> fault + nat option" where
  "get_guild_safe w ident =
     (if \<not> array_inside (w_guilds w) (unat ident) then Inr None
      else bindE (array_at (w_guilds w) (unat ident)) (\<lambda>g.
        Inr (if guild_id g \<noteq> ident then None else Some (unat ident))))"

definition get_player_guild_safe :: "world \<Rightarrow> u32 \<Rightarrow> fault + nat option" where
  "get_player_guild_safe w player_id =
     bindE (get_player_safe w player_id) (\<lambda>q.
       if q = None then Inr None
       else bindE (deref (w_player_heap w) q) (\<lambda>x. get_guild_safe w (ucast (pl_guild_id x))))"

definition put_guild :: "nat \<Rightarrow> guild \<Rightarrow> world \<Rightarrow> fault + world" where
  "put_guild i g w = bindE (upd (arr_data (w_guilds w)) i g) (\<lambda>d. Inr (w\<lparr>w_guilds := (w_guilds w)\<lparr>arr_data := d\<rparr>\<rparr>))"

text \<open>The loop over the members: the first whose account has the name.\<close>

fun find_member :: "guild_member list \<Rightarrow> kstr \<Rightarrow> nat \<Rightarrow> fault + nat option" where
  "find_member [] name i = Inr None"
| "find_member (m # ms) name i =
     bindE (kstr_compare (gm_account_name m) name) (\<lambda>r. if r = 0 then Inr (Some i) else find_member ms name (i + 1))"

section \<open>Members\<close>

text \<open>The time is in seconds; the clock gives the current one.\<close>

definition calc_last_login :: "u64 \<Rightarrow> u32 \<Rightarrow> guild_member \<Rightarrow> guild_member" where
  "calc_last_login epoch minutes m =
     m\<lparr>gm_last_login_utc := (if minutes = 0 then epoch else epoch - ucast minutes * 60)\<rparr>"

text \<open>
  Both tests of the update compare an unsigned number with zero, so the status and the type are always
  replaced, by zero when no message said what they are.
\<close>

definition apply_member_update :: "u64 \<Rightarrow> guild_member_update \<Rightarrow> guild_member \<Rightarrow> fault + guild_member" where
  "apply_member_update epoch u m =
     bindE (if gmu_status u = 0 then Inr (False, (gm_player_name m)\<lparr>k_length := 0\<rparr>)
            else kstr_copy (gm_player_name m) (gmu_player_name u)) (\<lambda>(_, name).
       Inr ((calc_last_login epoch (gmu_minutes_since_login u) (m\<lparr>gm_status := gmu_status u, gm_player_name := name\<rparr>))
         \<lparr>gm_member_type := ucast (gmu_member_type u)\<rparr>))"

definition complete_guildmember_update :: "u64 \<Rightarrow> kstr \<Rightarrow> world \<Rightarrow> fault + guild_member option \<times> world" where
  "complete_guildmember_update epoch account_name w =
     bindE (get_player_guild_safe w (w_player_id w)) (\<lambda>g.
       case g of None \<Rightarrow> Inr (None, w)
       | Some g \<Rightarrow>
           let u = w_guild_member_update w in
           bindE (assertE (gmu_pending u \<and> w_player_id w \<noteq> 0)) (\<lambda>_.
           bindE (array_at (w_guilds w) g) (\<lambda>x.
           bindE (foreach (guild_members x)) (\<lambda>ms.
           bindE (find_member ms account_name 0) (\<lambda>i.
           bindE (case i of None \<Rightarrow> Inr (None, w)
                  | Some i \<Rightarrow>
                      bindE (idx ms i) (\<lambda>m.
                      bindE (apply_member_update epoch u m) (\<lambda>m.
                      bindE (upd (arr_data (guild_members x)) i m) (\<lambda>d.
                      bindE (put_guild g (x\<lparr>guild_members := (guild_members x)\<lparr>arr_data := d\<rparr>\<rparr>) w) (\<lambda>w.
                        Inr (Some m, w)))))) (\<lambda>(m, w).
             Inr (m, w\<lparr>w_guild_member_update := reset_guildmember_update (w_guild_member_update w)\<rparr>)))))))"

definition empty_text :: "nat \<Rightarrow> kstr \<Rightarrow> kstr" where
  "empty_text capacity s = s\<lparr>k_length := 0, k_capacity := capacity\<rparr>"

text \<open>The capacity of the array of the members is cleared, its size and its block are not.\<close>

definition init_guild :: "guild \<Rightarrow> guild" where
  "init_guild g = g\<lparr>guild_id := 0, guild_uuid := zero_uuid, guild_allegiance := 4, guild_faction_pts := 0,
     guild_tag := empty_text 32 (guild_tag g), guild_name := empty_text 64 (guild_name g),
     guild_members := (guild_members g)\<lparr>arr_capacity := 0\<rparr>\<rparr>"

definition init_guildmember :: "guild_member \<Rightarrow> guild_member" where
  "init_guildmember m = m\<lparr>gm_status := 0, gm_member_type := 0, gm_last_login_utc := 0,
     gm_account_name := empty_text 20 (gm_account_name m), gm_player_name := empty_text 20 (gm_player_name m)\<rparr>"

text \<open>The structure for the plugins, made in memory filled with zeros.\<close>

definition api_make_guild_member :: "guild_member \<Rightarrow> fault + event" where
  "api_make_guild_member m =
     bindE (kstr_write (gm_account_name m) (replicate 20 0) 20) (\<lambda>(_, account).
     bindE (if gm_status m = 1 then kstr_write (gm_player_name m) (replicate 20 0) 20
            else Inr (True, replicate 20 0)) (\<lambda>(_, player).
       Inr (EventType_GuildMemberUpdated account player (gm_status m) (gm_member_type m) (gm_last_login_utc m))))"

definition member_updated :: "surroundings \<Rightarrow> guild_member \<Rightarrow> gw_client \<Rightarrow> fault + gw_client" where
  "member_updated e m c =
     (if \<not> en_guild_subscribed e c then Inr c else bindE (api_make_guild_member m) (\<lambda>ev. broadcast e ev c))"

section \<open>Handlers\<close>

definition guild_player_role :: "int \<Rightarrow> world \<Rightarrow> fault + world" where
  "guild_player_role ident w =
     (if \<not> inside_signed (w_guilds w) ident then Inr w
      else
        bindE (array_at (w_guilds w) (nat ident)) (\<lambda>g.
        bindE (put_guild (nat ident) (g\<lparr>guild_members := array_init\<rparr>) w) (\<lambda>w.
        bindE (get_player_safe w (w_player_id w)) (\<lambda>q.
          if q = None then Inr w
          else bindE (deref (w_player_heap w) q) (\<lambda>x.
                 put_player q (x\<lparr>pl_guild_id := ucast (guild_id g)\<rparr>) w)))))"

definition HandleGuildPlayerRole :: "nat \<Rightarrow> bytes \<Rightarrow> gw_client \<Rightarrow> fault + gw_client" where
  "HandleGuildPlayerRole = (let en = HandleGuildPlayerRole_entry in in_world en (\<lambda>p w c.
     set_world c (guild_player_role (sint (get en ''guild_id'' p :: u16)) w)))"

definition guild_change_player_status :: "u32 \<Rightarrow> u32 \<Rightarrow> world \<Rightarrow> world" where
  "guild_change_player_status minutes status w = w\<lparr>w_guild_member_update := (w_guild_member_update w)
     \<lparr>gmu_minutes_since_login := minutes, gmu_status := status, gmu_pending := True\<rparr>\<rparr>"

definition HandleGuildChangePlayerStatus :: "nat \<Rightarrow> bytes \<Rightarrow> gw_client \<Rightarrow> fault + gw_client" where
  "HandleGuildChangePlayerStatus = (let en = HandleGuildChangePlayerStatus_entry in in_world en (\<lambda>p w c.
     set_world c (Inr (guild_change_player_status (get en ''minutes_since_login'' p) (get en ''status'' p) w))))"

definition guild_change_player_type :: "u8 \<Rightarrow> world \<Rightarrow> world" where
  "guild_change_player_type type w = w\<lparr>w_guild_member_update := (w_guild_member_update w)
     \<lparr>gmu_member_type := type, gmu_pending := True\<rparr>\<rparr>"

definition HandleGuildChangePlayerType :: "nat \<Rightarrow> bytes \<Rightarrow> gw_client \<Rightarrow> fault + gw_client" where
  "HandleGuildChangePlayerType = (let en = HandleGuildChangePlayerType_entry in in_world en (\<lambda>p w c.
     set_world c (Inr (guild_change_player_type (get en ''member_type'' p) w))))"

definition HandleGuildChangePlayerContext :: "nat \<Rightarrow> bytes \<Rightarrow> gw_client \<Rightarrow> fault + gw_client" where
  "HandleGuildChangePlayerContext = checked HandleGuildChangePlayerContext_entry"

definition HandleGuildPlayerChangeComplete :: "surroundings \<Rightarrow> nat \<Rightarrow> bytes \<Rightarrow> gw_client \<Rightarrow> fault + gw_client" where
  "HandleGuildPlayerChangeComplete e = (let en = HandleGuildPlayerChangeComplete_entry in in_world en (\<lambda>p w c.
     bindE (kstr_init_from_null_terminated (get_array en ''account_name'' 2 p) 20) (\<lambda>account.
     bindE (complete_guildmember_update (en_epoch e) account w) (\<lambda>(m, w).
     bindE (set_world c (Inr w)) (\<lambda>c.
       case m of None \<Rightarrow> Inr c | Some m \<Rightarrow> member_updated e m c)))))"

text \<open>
  The member is looked up by the name of who invited it, and gets that name as the name of its account;
  the name of the account in the message is not read.
\<close>

definition guild_player_info :: "(nat \<Rightarrow> bool) \<Rightarrow> u64 \<Rightarrow> u16 list \<Rightarrow> u16 list \<Rightarrow> u32 \<Rightarrow> u32 \<Rightarrow> u8 \<Rightarrow> world \<Rightarrow>
    fault + guild_member option \<times> world" where
  "guild_player_info alloc epoch invited player minutes status type w =
     bindE (get_player_guild_safe w (w_player_id w)) (\<lambda>g.
       case g of None \<Rightarrow> Inr (None, w)
       | Some g \<Rightarrow>
           bindE (array_at (w_guilds w) g) (\<lambda>x.
           bindE (kstr_init_from_null_terminated invited 20) (\<lambda>invited_by.
           bindE (foreach (guild_members x)) (\<lambda>ms.
           bindE (find_member ms invited_by 0) (\<lambda>found.
           bindE (case found of
                    Some i \<Rightarrow> bindE (idx ms i) (\<lambda>m. Inr (i, m, guild_members x))
                  | None \<Rightarrow>
                      bindE (array_push alloc \<lparr>gm_last_login_utc = 0, gm_status = 0, gm_member_type = 0,
                        gm_account_name = zero_kstr 20, gm_player_name = zero_kstr 20\<rparr> sizeof_GuildMember
                        (guild_members x) 1) (\<lambda>(i, a).
                      case i of None \<Rightarrow> Inl NullDeref
                      | Some i \<Rightarrow>
                          bindE (idx (arr_data a) i) (\<lambda>m.
                          let m = init_guildmember m in
                          bindE (kstr_copy (gm_account_name m) invited_by) (\<lambda>(_, account).
                            Inr (i, m\<lparr>gm_account_name := account\<rparr>, a))))) (\<lambda>(i, m, a).
           bindE (kstr_init_from_null_terminated player 20) (\<lambda>player_name.
           bindE (kstr_copy (gm_player_name m) player_name) (\<lambda>(_, name).
           let m = calc_last_login epoch minutes (m\<lparr>gm_player_name := name, gm_status := status,
                 gm_member_type := scast type\<rparr>) in
           bindE (upd (arr_data a) i m) (\<lambda>d.
           bindE (put_guild g (x\<lparr>guild_members := a\<lparr>arr_data := d\<rparr>\<rparr>) w) (\<lambda>w. Inr (Some m, w)))))))))))"

definition HandleGuildPlayerInfo :: "surroundings \<Rightarrow> nat \<Rightarrow> bytes \<Rightarrow> gw_client \<Rightarrow> fault + gw_client" where
  "HandleGuildPlayerInfo e = (let en = HandleGuildPlayerInfo_entry in in_world en (\<lambda>p w c.
     bindE (guild_player_info (en_alloc e) (en_epoch e) (get_array en ''invited_by'' 2 p) (get_array en ''player_name'' 2 p)
       (get en ''minutes_since_login'' p) (get en ''status'' p) (get en ''member_type'' p) w) (\<lambda>(m, w).
     bindE (set_world c (Inr w)) (\<lambda>c.
       case m of None \<Rightarrow> Inr c | Some m \<Rightarrow> member_updated e m c))))"

text \<open>A signed identifier is converted to \<^verbatim>\<open>size_t\<close>, for the index as for the new size.\<close>

definition guild_general_info :: "(nat \<Rightarrow> bool) \<Rightarrow> int \<Rightarrow> bytes \<Rightarrow> u8 \<Rightarrow> u32 \<Rightarrow> u16 list \<Rightarrow> u16 list \<Rightarrow> world \<Rightarrow> fault + world" where
  "guild_general_info alloc ident uid allegiance faction tag name w =
     bindE (if array_inside (w_guilds w) (to_size ident) then Inr (w_guilds w)
            else bindE (ignored (array_resize alloc zero_guild sizeof_Guild (w_guilds w) (to_size (ident + 1)))) (\<lambda>a.
                   Inr (a\<lparr>arr_size := arr_capacity a\<rparr>))) (\<lambda>guilds.
     let w = w\<lparr>w_guilds := guilds\<rparr> in
     bindE (array_at guilds (to_size ident)) (\<lambda>g.
     let g = init_guild g in
     bindE (uuid_dec_le uid) (\<lambda>u.
     let g = g\<lparr>guild_uuid := u, guild_id := of_int ident\<rparr>;
         g = (if allegiance < 5 then g\<lparr>guild_allegiance := allegiance\<rparr> else g);
         g = g\<lparr>guild_faction_pts := faction\<rparr> in
     bindE (kstr_read (guild_tag g) tag 6) (\<lambda>(_, t).
     bindE (kstr_read (guild_name g) name 32) (\<lambda>(_, n).
       put_guild (to_size ident) (g\<lparr>guild_tag := t, guild_name := n\<rparr>) w)))))"

definition HandleGuildGeneralInfo :: "surroundings \<Rightarrow> nat \<Rightarrow> bytes \<Rightarrow> gw_client \<Rightarrow> fault + gw_client" where
  "HandleGuildGeneralInfo e = (let en = HandleGuildGeneralInfo_entry in in_world en (\<lambda>p w c.
     set_world c (guild_general_info (en_alloc e) (sint (get en ''guild_id'' p :: u16)) (member_bytes en ''uuid'' p)
       (get en ''allegiance'' p) (get en ''guild_faction'' p) (get_array en ''tag'' 2 p) (get_array en ''name'' 2 p) w)))"

definition guild_change_faction :: "int \<Rightarrow> u8 \<Rightarrow> u32 \<Rightarrow> world \<Rightarrow> fault + world" where
  "guild_change_faction ident allegiance faction w =
     (if \<not> inside_signed (w_guilds w) ident then Inr w
      else
        bindE (array_at (w_guilds w) (nat ident)) (\<lambda>g.
          put_guild (nat ident) ((if allegiance < 5 then g\<lparr>guild_allegiance := allegiance\<rparr> else g)
            \<lparr>guild_faction_pts := faction\<rparr>) w))"

definition HandleGuildChangeFaction :: "nat \<Rightarrow> bytes \<Rightarrow> gw_client \<Rightarrow> fault + gw_client" where
  "HandleGuildChangeFaction = (let en = HandleGuildChangeFaction_entry in in_world en (\<lambda>p w c.
     set_world c (guild_change_faction (sint (get en ''guild_id'' p :: u16)) (get en ''allegiance'' p)
       (get en ''guild_faction'' p) w)))"

definition HandleGuildInviteReceived :: "nat \<Rightarrow> bytes \<Rightarrow> gw_client \<Rightarrow> fault + gw_client" where
  "HandleGuildInviteReceived = checked_secured HandleGuildInviteReceived_entry"

end
