(* ===== verification/Friends_Chat.thy ===== *)
theory Friends_Chat
  imports Guilds
begin

text \<open>
  Friends, \<^verbatim>\<open>client/friend.c\<close>, and the chat, \<^verbatim>\<open>client/chat.c\<close> with the messages of
  \<^verbatim>\<open>client/game.c\<close> about friends. The text of a message of the chat arrives in pieces, which a buffer
  of the client collects; the message that says who sent it hands the text to the plugins and clears the
  buffer.
\<close>

section \<open>Friends\<close>

text \<open>The identifier of the message and the one of the friend are different objects.\<close>

fun find_friend_uuid :: "uuid \<Rightarrow> friend list \<Rightarrow> nat \<Rightarrow> fault + nat option" where
  "find_friend_uuid u [] i = Inr None"
| "find_friend_uuid u (f # fs) i =
     bindE (uuid_cmp (Some (0, u)) (Some (1, fr_uuid f))) (\<lambda>r. if r = 0 then Inr (Some i) else find_friend_uuid u fs (i + 1))"

fun find_friend_name :: "kstr \<Rightarrow> friend list \<Rightarrow> nat \<Rightarrow> fault + nat option" where
  "find_friend_name s [] i = Inr None"
| "find_friend_name s (f # fs) i =
     bindE (kstr_compare (fr_name f) s) (\<lambda>r.
       if r = 0 then Inr (Some i)
       else bindE (kstr_compare (fr_account f) s) (\<lambda>r.
              if r = 0 then Inr (Some i) else find_friend_name s fs (i + 1)))"

definition get_friend :: "uuid option \<Rightarrow> u16 list option \<Rightarrow> gw_client \<Rightarrow> fault + nat option" where
  "get_friend u name c =
     bindE (foreach (gc_friends c)) (\<lambda>fs.
     bindE (case u of None \<Rightarrow> Inr None | Some u \<Rightarrow> find_friend_uuid u fs 0) (\<lambda>found.
       if found \<noteq> None then Inr found
       else case name of None \<Rightarrow> Inr None
         | Some name \<Rightarrow> bindE (u16len name 20) (\<lambda>n. find_friend_name (kstr_init name n n) fs 0)))"

definition zero_friend :: friend where
  "zero_friend = \<lparr>fr_status = 0, fr_type = 0, fr_name = zero_kstr 20, fr_account = zero_kstr 20,
     fr_uuid = zero_uuid, fr_zone = 0\<rparr>"

definition init_friend :: "friend \<Rightarrow> friend" where
  "init_friend f = f\<lparr>fr_name := empty_text 20 (fr_name f), fr_account := empty_text 20 (fr_account f),
     fr_status := 0, fr_type := 0, fr_zone := 0\<rparr>"

definition put_friend :: "nat \<Rightarrow> friend \<Rightarrow> gw_client \<Rightarrow> fault + gw_client" where
  "put_friend i f c =
     bindE (upd (arr_data (gc_friends c)) i f) (\<lambda>d. Inr (c\<lparr>gc_friends := (gc_friends c)\<lparr>arr_data := d\<rparr>\<rparr>))"

definition get_or_create_friend ::
    "(nat \<Rightarrow> bool) \<Rightarrow> uuid option \<Rightarrow> u16 list option \<Rightarrow> gw_client \<Rightarrow> fault + nat option \<times> gw_client" where
  "get_or_create_friend alloc u name c =
     bindE (get_friend u name c) (\<lambda>found.
       if found \<noteq> None then Inr (found, c)
       else
         bindE (array_push alloc zero_friend sizeof_Friend (gc_friends c) 1) (\<lambda>(i, a).
         let c = c\<lparr>gc_friends := a\<rparr> in
         case i of None \<Rightarrow> Inr (None, c)
         | Some i \<Rightarrow> bindE (idx (arr_data a) i) (\<lambda>f. bindE (put_friend i (init_friend f) c) (\<lambda>c. Inr (Some i, c)))))"

text \<open>What is forgotten of a friend that is offline.\<close>

definition friend_offline :: "friend \<Rightarrow> fault + friend" where
  "friend_offline f =
     bindE (upd (k_buffer (fr_name f)) 0 0) (\<lambda>b.
       Inr (f\<lparr>fr_status := 0, fr_name := (fr_name f)\<lparr>k_length := 0, k_buffer := b\<rparr>, fr_zone := 0\<rparr>))"

definition api_make_friend :: "friend \<Rightarrow> fault + event" where
  "api_make_friend f =
     bindE (kstr_write (fr_account f) (replicate 20 0) 20) (\<lambda>(_, account).
     bindE (kstr_write (fr_name f) (replicate 20 0) 20) (\<lambda>(_, playing).
       Inr (EventType_FriendStatus (uuid_enc_le (fr_uuid f)) (fr_type f) (fr_status f) (fr_zone f) account playing)))"

definition friend_updated :: "surroundings \<Rightarrow> friend \<Rightarrow> gw_client \<Rightarrow> fault + gw_client" where
  "friend_updated e f c =
     (if \<not> en_friends_subscribed e c then Inr c else bindE (api_make_friend f) (\<lambda>ev. broadcast e ev c))"

definition friend_update_info :: "(nat \<Rightarrow> bool) \<Rightarrow> bytes \<Rightarrow> u16 list \<Rightarrow> u32 \<Rightarrow> gw_client \<Rightarrow> fault + gw_client" where
  "friend_update_info alloc uid account type c =
     bindE (uuid_dec_le uid) (\<lambda>u.
     bindE (get_or_create_friend alloc (Some u) (Some account) c) (\<lambda>(i, c).
     case i of None \<Rightarrow> Inl AssertFail
     | Some i \<Rightarrow>
         bindE (array_at (gc_friends c) i) (\<lambda>f.
         bindE (kstr_read (fr_account f) account 20) (\<lambda>(_, a).
         let f = f\<lparr>fr_account := a, fr_uuid := u, fr_type := type\<rparr> in
         bindE (if fr_status f < 1 then friend_offline f else Inr f) (\<lambda>f. put_friend i f c)))))"

definition HandleFriendUpdateInfo :: "surroundings \<Rightarrow> nat \<Rightarrow> bytes \<Rightarrow> gw_client \<Rightarrow> fault + gw_client" where
  "HandleFriendUpdateInfo e = (let en = HandleFriendUpdateInfo_entry in entered en (\<lambda>p.
     friend_update_info (en_alloc e) (member_bytes en ''uuid'' p) (get_array en ''account'' 2 p) (get en ''type'' p)))"

text \<open>The friend that could not be created is written to.\<close>

definition friend_update_status ::
    "surroundings \<Rightarrow> u32 \<Rightarrow> bytes \<Rightarrow> u16 list \<Rightarrow> gw_client \<Rightarrow> fault + gw_client" where
  "friend_update_status e status uid played c =
     bindE (assertE (status \<le> 3)) (\<lambda>_.
     bindE (uuid_dec_le uid) (\<lambda>u.
     bindE (get_or_create_friend (en_alloc e) (Some u) None c) (\<lambda>(i, c).
     case i of None \<Rightarrow> Inl NullDeref
     | Some i \<Rightarrow>
         bindE (array_at (gc_friends c) i) (\<lambda>f.
         let f = f\<lparr>fr_status := status\<rparr> in
         bindE (if status < 1 then friend_offline f
                else bindE (kstr_read (fr_name f) played 20) (\<lambda>(_, n). Inr (f\<lparr>fr_name := n\<rparr>))) (\<lambda>f.
         bindE (put_friend i f c) (friend_updated e f))))))"

definition HandleFriendUpdateStatus :: "surroundings \<Rightarrow> nat \<Rightarrow> bytes \<Rightarrow> gw_client \<Rightarrow> fault + gw_client" where
  "HandleFriendUpdateStatus e = (let en = HandleFriendUpdateStatus_entry in entered en (\<lambda>p.
     friend_update_status e (get en ''status'' p) (member_bytes en ''uuid'' p) (get_array en ''played'' 2 p)))"

text \<open>A friend that is created here gets no name, so the next message about it creates another.\<close>

definition friend_update_location :: "surroundings \<Rightarrow> u32 \<Rightarrow> u16 list \<Rightarrow> gw_client \<Rightarrow> fault + gw_client" where
  "friend_update_location e map_id account c =
     bindE (get_or_create_friend (en_alloc e) None (Some account) c) (\<lambda>(i, c).
     case i of None \<Rightarrow> Inr c
     | Some i \<Rightarrow>
         bindE (array_at (gc_friends c) i) (\<lambda>f.
         let f = f\<lparr>fr_zone := map_id\<rparr> in bindE (put_friend i f c) (friend_updated e f)))"

definition HandleFriendUpdateLocation :: "surroundings \<Rightarrow> nat \<Rightarrow> bytes \<Rightarrow> gw_client \<Rightarrow> fault + gw_client" where
  "HandleFriendUpdateLocation e = (let en = HandleFriendUpdateLocation_entry in entered en (\<lambda>p.
     friend_update_location e (get en ''map_id'' p) (get_array en ''account'' 2 p)))"

definition HandleFriendStreamEnd :: "nat \<Rightarrow> bytes \<Rightarrow> gw_client \<Rightarrow> fault + gw_client" where
  "HandleFriendStreamEnd = checked HandleFriendStreamEnd_entry"

section \<open>The chat\<close>

definition Channel_Count :: nat where "Channel_Count = 15"

definition get_channel_character :: "nat \<Rightarrow> u16" where
  "get_channel_character channel =
     (if channel = 0 then 0x25 else if channel = 1 then 0x23 else if channel = 3 then 0x21
      else if channel = 6 then 0x2F else if channel = 9 then 0x40 else if channel = 11 then 0x23
      else if channel = 12 then 0x24 else if channel = 14 then 0x22 else 0)"

text \<open>The pieces of a text: up to and with the first zero.\<close>

fun append_piece :: "(nat \<Rightarrow> bool) \<Rightarrow> u16 list \<Rightarrow> nat \<Rightarrow> nat \<Rightarrow> u16 carray \<Rightarrow> fault + u16 carray" where
  "append_piece alloc msg i 0 sb = Inr sb"
| "append_piece alloc msg i (Suc n) sb =
     bindE (idx msg i) (\<lambda>x.
     bindE (ignored (array_add alloc 0 2 sb x)) (\<lambda>sb.
       if x = 0 then Inr sb else append_piece alloc msg (i + 1) n sb))"

definition set_builder :: "gw_client \<Rightarrow> u16 carray \<Rightarrow> gw_client" where
  "set_builder c sb = c\<lparr>gc_chat := (gc_chat c)\<lparr>chat_str_builder := sb\<rparr>\<rparr>"

definition chat_message_core :: "(nat \<Rightarrow> bool) \<Rightarrow> u16 list \<Rightarrow> gw_client \<Rightarrow> fault + gw_client" where
  "chat_message_core alloc msg c =
     bindE (ignored (array_reserve alloc 0 2 (chat_str_builder (gc_chat c)) 123)) (\<lambda>sb.
     bindE (append_piece alloc msg 0 122 sb) (\<lambda>sb. Inr (set_builder c sb)))"

definition HandleChatMessageCore :: "surroundings \<Rightarrow> nat \<Rightarrow> bytes \<Rightarrow> gw_client \<Rightarrow> fault + gw_client" where
  "HandleChatMessageCore e = (let en = HandleChatMessageCore_entry in secured en (\<lambda>p.
     chat_message_core (en_alloc e) (get_array en ''msg'' 2 p)))"

text \<open>The collected text goes to the plugins, if any wants it, and the buffer is cleared.\<close>

definition chat_done :: "gw_client \<Rightarrow> fault + gw_client" where
  "chat_done c = Inr (set_builder c (array_clear (chat_str_builder (gc_chat c))))"

definition tell_chat :: "surroundings \<Rightarrow> nat \<Rightarrow> u16 \<Rightarrow> u16 list \<Rightarrow> gw_client \<Rightarrow> fault + gw_client" where
  "tell_chat e channel extra sender c =
     bindE (foreach (chat_str_builder (gc_chat c))) (\<lambda>message.
       broadcast e (EventType_ChatMessage (of_nat channel) extra message sender) c)"

text \<open>The player is read at the index of the message, whatever the size of the array and without a world.\<close>

definition chat_message_local :: "surroundings \<Rightarrow> nat \<Rightarrow> nat \<Rightarrow> gw_client \<Rightarrow> fault + gw_client" where
  "chat_message_local e sender channel c =
     bindE (if \<not> en_chat_subscribed e c \<or> Channel_Count \<le> channel then Inr c
            else
              bindE (array_at (w_players (gc_world c)) sender) (\<lambda>q.
                if q = None then Inr c
                else
                  bindE (deref (w_player_heap (gc_world c)) q) (\<lambda>x.
                  bindE (mem_read (k_buffer (pl_name x)) 0 (k_length (pl_name x))) (\<lambda>name.
                    tell_chat e channel 0 name c)))) chat_done"

definition HandleChatMessageLocal :: "surroundings \<Rightarrow> nat \<Rightarrow> bytes \<Rightarrow> gw_client \<Rightarrow> fault + gw_client" where
  "HandleChatMessageLocal e = (let en = HandleChatMessageLocal_entry in secured en (\<lambda>p.
     chat_message_local e (unat (get en ''sender'' p :: u16)) (unat (get en ''channel'' p :: u8))))"

text \<open>The sender with its tag in brackets and a zero, in a buffer of 48 units.\<close>

definition sender_with_tag :: "u16 list \<Rightarrow> u16 list \<Rightarrow> u16 list" where
  "sender_with_tag sender tag = until_null sender @ [0x20, 0x5B] @ until_null tag @ [0x5D, 0]"

definition chat_message_global :: "surroundings \<Rightarrow> nat \<Rightarrow> u16 list \<Rightarrow> u16 list \<Rightarrow> gw_client \<Rightarrow> fault + gw_client" where
  "chat_message_global e channel sender tag c =
     bindE (if \<not> en_chat_subscribed e c \<or> Channel_Count \<le> channel then Inr c
            else
              bindE (mem_write (replicate 48 0) 0 (sender_with_tag sender tag)) (\<lambda>_.
                tell_chat e channel 0 (sender_with_tag sender tag) c)) chat_done"

definition HandleChatMessageGlobal :: "surroundings \<Rightarrow> nat \<Rightarrow> bytes \<Rightarrow> gw_client \<Rightarrow> fault + gw_client" where
  "HandleChatMessageGlobal e = (let en = HandleChatMessageGlobal_entry in secured en (\<lambda>p.
     chat_message_global e (unat (get en ''channel'' p :: u8)) (get_array en ''sender'' 2 p) (get_array en ''tag'' 2 p)))"

definition chat_message_server :: "surroundings \<Rightarrow> u16 \<Rightarrow> nat \<Rightarrow> gw_client \<Rightarrow> fault + gw_client" where
  "chat_message_server e ident channel c =
     bindE (if Channel_Count \<le> channel \<or> \<not> en_chat_subscribed e c then Inr c
            else tell_chat e channel ident [] c) chat_done"

definition HandleChatMessageServer :: "surroundings \<Rightarrow> nat \<Rightarrow> bytes \<Rightarrow> gw_client \<Rightarrow> fault + gw_client" where
  "HandleChatMessageServer e = (let en = HandleChatMessageServer_entry in secured en (\<lambda>p.
     chat_message_server e (get en ''id'' p) (unat (get en ''channel'' p :: u8))))"

text \<open>
  A whisper comes from the authentication server, but the handler asserts that the connection to the
  game server is secured.
\<close>

definition whisper_received :: "surroundings \<Rightarrow> u16 list \<Rightarrow> u16 list \<Rightarrow> gw_client \<Rightarrow> fault + gw_client" where
  "whisper_received e sender message c =
     (if \<not> en_chat_subscribed e c then Inr c
      else
        bindE (kstr_read (kstr_init (replicate 20 0) 0 20) sender 20) (\<lambda>_.
        bindE (kstr_read (kstr_init (replicate 256 0) 0 256) message 256) (\<lambda>_.
        bindE (u16len sender 20) (\<lambda>n.
        bindE (u16len message 256) (\<lambda>k.
          broadcast e (EventType_ChatMessage 14 0 (take k message) (take n sender)) c)))))"

definition HandleWhisperReceived :: "surroundings \<Rightarrow> nat \<Rightarrow> bytes \<Rightarrow> gw_client \<Rightarrow> fault + gw_client" where
  "HandleWhisperReceived e = (let en = HandleWhisperReceived_entry in secured en (\<lambda>p.
     whisper_received e (get_array en ''sender'' 2 p) (get_array en ''message'' 2 p)))"

text \<open>
  The text for a player who is offline is made by \<^verbatim>\<open>swprintf\<close>, in a block of 256 units, and copied
  over the message without its zero. The sender of the event is the message; its message is empty.
\<close>

definition offline_message :: "surroundings \<Rightarrow> u16 list \<Rightarrow> u16 list \<Rightarrow> fault + u16 list" where
  "offline_message e subject message =
     bindE (u16len subject 256) (\<lambda>n.
     bindE (mem_write (replicate 256 (0 :: u16)) 0 (take n subject @ [0])) (\<lambda>_.
       case en_format_offline e (take n subject) of None \<Rightarrow> Inl AssertFail
       | Some t \<Rightarrow> mem_write message 0 t))"

definition friend_list_message :: "surroundings \<Rightarrow> u32 \<Rightarrow> u16 list \<Rightarrow> u16 list \<Rightarrow> gw_client \<Rightarrow> fault + gw_client" where
  "friend_list_message e type subject message c =
     bindE (if type = 54 then offline_message e subject message else Inr message) (\<lambda>message.
     bindE (u16len subject 256) (\<lambda>_.
     bindE (u16len message 256) (\<lambda>k.
       broadcast e (EventType_ChatMessage (if type = 2 then 2 else if type = 54 then 7 else 0) 0 [] (take k message)) c)))"

definition HandleFriendListMessage :: "surroundings \<Rightarrow> nat \<Rightarrow> bytes \<Rightarrow> gw_client \<Rightarrow> fault + gw_client" where
  "HandleFriendListMessage e = (let en = HandleFriendListMessage_entry in secured en (\<lambda>p.
     friend_list_message e (get en ''type'' p) (get_array en ''subject'' 2 p) (get_array en ''message'' 2 p)))"

definition GameSrv_SendChat :: "surroundings \<Rightarrow> nat \<Rightarrow> kstr \<Rightarrow> gw_client \<Rightarrow> fault + gw_client" where
  "GameSrv_SendChat e channel msg c =
     (let x = get_channel_character channel in
      if x = 0 then Inr c
      else bindE (kstr_write msg (replicate 137 0) 137) (\<lambda>(ok, b).
        if \<not> ok then Inr c
        else send_game e (NewPacket GAME_CMSG_SEND_CHAT_MESSAGE (le32enc 0 @ u16s (x # b))) c))"

text \<open>The receiver, a comma, the text and a zero, behind the sign of a whisper.\<close>

definition GameSrv_SendWhisper :: "surroundings \<Rightarrow> kstr \<Rightarrow> kstr \<Rightarrow> gw_client \<Rightarrow> fault + gw_client" where
  "GameSrv_SendWhisper e target msg c =
     (if 138 \<le> 2 + k_length target + k_length msg then Inr c
      else
        bindE (mem_read (k_buffer target) 0 (k_length target)) (\<lambda>t.
        bindE (mem_read (k_buffer msg) 0 (k_length msg)) (\<lambda>m.
        bindE (mem_write (replicate 138 0) 0 ([0x22] @ t @ [0x2C] @ m @ [0])) (\<lambda>b.
          send_game e (NewPacket GAME_CMSG_SEND_CHAT_MESSAGE (le32enc 0 @ u16s b)) c))))"

end
