(* ===== verification/Item_Handlers.thy ===== *)
theory Item_Handlers
  imports Friends_Chat
begin

text \<open>
  The handlers of \<^verbatim>\<open>client/item.c\<close>: the members of the message are read and given to the functions
  of the theory Items. Then the messages about items to the game server, \<^verbatim>\<open>client/item.c\<close> and
  \<^verbatim>\<open>client/merchant.c\<close>.
\<close>

section \<open>Handlers\<close>

definition HandleItemStreamCreate :: "nat \<Rightarrow> bytes \<Rightarrow> gw_client \<Rightarrow> fault + gw_client" where
  "HandleItemStreamCreate = checked_secured HandleItemStreamCreate_entry"

definition HandleItemStreamDestroy :: "nat \<Rightarrow> bytes \<Rightarrow> gw_client \<Rightarrow> fault + gw_client" where
  "HandleItemStreamDestroy = checked_secured HandleItemStreamDestroy_entry"

definition HandleItemGeneralInfo :: "surroundings \<Rightarrow> nat \<Rightarrow> bytes \<Rightarrow> gw_client \<Rightarrow> fault + gw_client" where
  "HandleItemGeneralInfo e = (let en = HandleItemGeneralInfo_entry in in_world en (\<lambda>p w c.
     set_world c (item_general_info (en_alloc e) (get en ''item_id'' p) (get en ''type'' p) (get en ''flags'' p)
       (get en ''value'' p) (get en ''model'' p) (get en ''quantity'' p) (get_array en ''name'' 2 p)
       (get_array en ''modifier'' 4 p) (unat (get en ''n_modifier'' p :: u32)) w)))"

definition HandleItemRemove :: "nat \<Rightarrow> bytes \<Rightarrow> gw_client \<Rightarrow> fault + gw_client" where
  "HandleItemRemove = (let en = HandleItemRemove_entry in in_world en (\<lambda>p w c.
     set_world c (item_remove (get en ''item_id'' p) w)))"

definition HandleItemWeaponSet :: "nat \<Rightarrow> bytes \<Rightarrow> gw_client \<Rightarrow> fault + gw_client" where
  "HandleItemWeaponSet = checked_secured HandleItemWeaponSet_entry"

definition HandleInventoryItemQuantity :: "nat \<Rightarrow> bytes \<Rightarrow> gw_client \<Rightarrow> fault + gw_client" where
  "HandleInventoryItemQuantity = (let en = HandleInventoryItemQuantity_entry in in_world en (\<lambda>p w c.
     set_world c (inventory_item_quantity (get en ''item_id'' p) (get en ''quantity'' p) w)))"

definition HandleInventoryItemLocation :: "nat \<Rightarrow> bytes \<Rightarrow> gw_client \<Rightarrow> fault + gw_client" where
  "HandleInventoryItemLocation = (let en = HandleInventoryItemLocation_entry in in_world en (\<lambda>p w c.
     set_world c (inventory_item_location (get en ''item_id'' p) (get en ''bag_id'' p) (get en ''slot'' p) w)))"

definition HandleInventoryCreateBag :: "surroundings \<Rightarrow> nat \<Rightarrow> bytes \<Rightarrow> gw_client \<Rightarrow> fault + gw_client" where
  "HandleInventoryCreateBag e = (let en = HandleInventoryCreateBag_entry in in_world en (\<lambda>p w c.
     set_world c (inventory_create_bag (en_alloc e) (get en ''bag_type'' p) (get en ''bag_model_id'' p)
       (get en ''bag_id'' p) (get en ''slot_count'' p) w)))"

definition HandleItemChangeLocation :: "nat \<Rightarrow> bytes \<Rightarrow> gw_client \<Rightarrow> fault + gw_client" where
  "HandleItemChangeLocation = (let en = HandleItemChangeLocation_entry in in_world en (\<lambda>p w c.
     set_world c (item_change_location (get en ''item_id'' p) (get en ''bag_id'' p) (get en ''slot'' p) w)))"

definition HandleMerchantReady :: "surroundings \<Rightarrow> gw_client \<Rightarrow> fault + gw_client" where
  "HandleMerchantReady e c =
     bindE (get_world_or_abort c) (\<lambda>w.
     bindE (set_world c (merchant_ready (en_alloc e) w)) (\<lambda>c.
       broadcast e (EventType_DialogOpen (w_merchant_agent_id (gc_world c))) c))"

definition HandleWindowItemStreamEnd :: "surroundings \<Rightarrow> nat \<Rightarrow> bytes \<Rightarrow> gw_client \<Rightarrow> fault + gw_client" where
  "HandleWindowItemStreamEnd e = secured HandleWindowItemStreamEnd_entry (\<lambda>p. HandleMerchantReady e)"

definition HandleWindowMerchant :: "surroundings \<Rightarrow> nat \<Rightarrow> bytes \<Rightarrow> gw_client \<Rightarrow> fault + gw_client" where
  "HandleWindowMerchant e = (let en = HandleWindowMerchant_entry in secured en (\<lambda>p c.
     if get en ''type'' p = (11 :: u8) \<and> get en ''unk'' p = (0 :: u32) then HandleMerchantReady e c else Inr c))"

definition HandleWindowOwner :: "surroundings \<Rightarrow> nat \<Rightarrow> bytes \<Rightarrow> gw_client \<Rightarrow> fault + gw_client" where
  "HandleWindowOwner e = (let en = HandleWindowOwner_entry in in_world en (\<lambda>p w c.
     let agent = get en ''agent_id'' p in
     bindE (set_world c (Inr (window_owner agent w))) (broadcast e (EventType_DialogOpen agent))))"

text \<open>The numbers of items and of prices come from the messages, which have room for 16 of them.\<close>

definition HandleWindowAddItems :: "surroundings \<Rightarrow> nat \<Rightarrow> bytes \<Rightarrow> gw_client \<Rightarrow> fault + gw_client" where
  "HandleWindowAddItems e = (let en = HandleWindowAddItems_entry in in_world en (\<lambda>p w c.
     bindE (mem_read (get_array en ''items'' 4 p) 0 (unat (get en ''n_items'' p :: u32))) (\<lambda>ids.
       set_world c (window_add_items (en_alloc e) ids w))))"

definition HandleWindowAddPrices :: "surroundings \<Rightarrow> nat \<Rightarrow> bytes \<Rightarrow> gw_client \<Rightarrow> fault + gw_client" where
  "HandleWindowAddPrices e = (let en = HandleWindowAddPrices_entry in in_world en (\<lambda>p w c.
     bindE (mem_read (get_array en ''prices'' 4 p) 0 (unat (get en ''n_prices'' p :: u32))) (\<lambda>ps.
       set_world c (window_add_prices (en_alloc e) ps w))))"

definition HandleItemPriceQuote :: "surroundings \<Rightarrow> nat \<Rightarrow> bytes \<Rightarrow> gw_client \<Rightarrow> fault + gw_client" where
  "HandleItemPriceQuote e = (let en = HandleItemPriceQuote_entry in in_world en (\<lambda>p w c.
     let ident = get en ''item_id'' p in
     bindE (item_price_quote ident (get en ''price'' p) w) (\<lambda>w.
     bindE (array_at (w_items w) (nat (sint ident))) (\<lambda>q.
     bindE (deref (w_item_heap w) q) (\<lambda>it.
     bindE (set_world c (Inr w)) (broadcast e (EventType_ItemQuotePrice (item_id it) (item_quote_price it))))))))"

definition HandleSalvageSessionStart :: "surroundings \<Rightarrow> nat \<Rightarrow> bytes \<Rightarrow> gw_client \<Rightarrow> fault + gw_client" where
  "HandleSalvageSessionStart e = (let en = HandleSalvageSessionStart_entry in in_world en (\<lambda>p w c.
     bindE (salvage_session_start (get en ''salvage_session_id'' p) (get en ''n_upgrades'' p)
       (get_array en ''upgrades'' 4 p) w) (\<lambda>(started, w).
     bindE (set_world c (Inr w)) (\<lambda>c.
       if started then broadcast e (EventType_SalvageSessionStart (get en ''item_id'' p)) c else Inr c))))"

definition HandleSalvageSessionCancel :: "nat \<Rightarrow> bytes \<Rightarrow> gw_client \<Rightarrow> fault + gw_client" where
  "HandleSalvageSessionCancel = in_world HandleSalvageSessionCancel_entry (\<lambda>p w c.
     set_world c (Inr (salvage_session_close w)))"

definition HandleSalvageSessionDone :: "nat \<Rightarrow> bytes \<Rightarrow> gw_client \<Rightarrow> fault + gw_client" where
  "HandleSalvageSessionDone = in_world HandleSalvageSessionDone_entry (\<lambda>p w c.
     set_world c (Inr (salvage_session_close w)))"

definition GameSrv_SalvageDone :: "surroundings \<Rightarrow> gw_client \<Rightarrow> fault + gw_client" where
  "GameSrv_SalvageDone e = send_secured e (NewPacket GAME_CMSG_ITEM_SALVAGE_SESSION_DONE [])"

definition HandleSalvageSessionSuccess :: "surroundings \<Rightarrow> nat \<Rightarrow> bytes \<Rightarrow> gw_client \<Rightarrow> fault + gw_client" where
  "HandleSalvageSessionSuccess e = secured HandleSalvageSessionSuccess_entry (\<lambda>p. GameSrv_SalvageDone e)"

definition HandleSalvageSessionItemKept :: "nat \<Rightarrow> bytes \<Rightarrow> gw_client \<Rightarrow> fault + gw_client" where
  "HandleSalvageSessionItemKept = checked_secured HandleSalvageSessionItemKept_entry"

section \<open>Messages to the game server\<close>

text \<open>Items and bags are given as objects; of a bag only its identifier is read.\<close>

definition GameSrv_UseItem :: "surroundings \<Rightarrow> item \<Rightarrow> gw_client \<Rightarrow> fault + gw_client" where
  "GameSrv_UseItem e it = send_secured e (NewPacket GAME_CMSG_ITEM_USE (le32enc (item_id it)))"

definition GameSrv_InteractItem :: "surroundings \<Rightarrow> u32 \<Rightarrow> gw_client \<Rightarrow> fault + gw_client" where
  "GameSrv_InteractItem e agent_id = send_secured e (NewPacket GAME_CMSG_INTERACT_ITEM (le32enc agent_id @ [0]))"

definition GameSrv_MoveItem :: "surroundings \<Rightarrow> item \<Rightarrow> bag \<Rightarrow> u8 \<Rightarrow> gw_client \<Rightarrow> fault + gw_client" where
  "GameSrv_MoveItem e it bag slot = send_secured e (NewPacket GAME_CMSG_ITEM_MOVE
     (le32enc (item_id it) @ le16enc (bag_id bag) @ [slot]))"

text \<open>The number of the session is always the same one.\<close>

definition GameSrv_StartSalvage :: "surroundings \<Rightarrow> item \<Rightarrow> item \<Rightarrow> gw_client \<Rightarrow> fault + gw_client" where
  "GameSrv_StartSalvage e kit it c =
     bindE (assertE (conn_secured (game_srv c))) (\<lambda>_.
     bindE (get_world_or_abort c) (\<lambda>w.
     bindE (set_world c (Inr (w\<lparr>w_salvage_session := (w_salvage_session w)\<lparr>salvage_session_id := 21\<rparr>\<rparr>)))
       (send_game e (NewPacket GAME_CMSG_ITEM_SALVAGE_SESSION_OPEN
         (le16enc 21 @ le32enc (item_id kit) @ le32enc (item_id it))))))"

definition GameSrv_CancelSalvage :: "surroundings \<Rightarrow> gw_client \<Rightarrow> fault + gw_client" where
  "GameSrv_CancelSalvage e c =
     bindE (assertE (conn_secured (game_srv c))) (\<lambda>_.
     bindE (get_world_or_abort c) (\<lambda>w.
       if \<not> salvage_is_open (w_salvage_session w) then Inr c
       else send_game e (NewPacket GAME_CMSG_ITEM_SALVAGE_SESSION_CANCEL []) c))"

definition GameSrv_SalvageMaterials :: "surroundings \<Rightarrow> gw_client \<Rightarrow> fault + gw_client" where
  "GameSrv_SalvageMaterials e = send_secured e (NewPacket GAME_CMSG_ITEM_SALVAGE_MATERIALS [])"

definition GameSrv_SalvageUpgrade :: "surroundings \<Rightarrow> nat \<Rightarrow> gw_client \<Rightarrow> fault + gw_client" where
  "GameSrv_SalvageUpgrade e index c =
     bindE (assertE (conn_secured (game_srv c))) (\<lambda>_.
     bindE (get_world_or_abort c) (\<lambda>w.
       if unat (salvage_n_upgrades (w_salvage_session w)) \<le> index then Inr c
       else send_game e (NewPacket GAME_CMSG_ITEM_SALVAGE_UPGRADE [of_nat index]) c))"

definition GameSrv_UnequipItem :: "surroundings \<Rightarrow> u8 \<Rightarrow> bag \<Rightarrow> u8 \<Rightarrow> gw_client \<Rightarrow> fault + gw_client" where
  "GameSrv_UnequipItem e equip_slot bag slot = send_secured e (NewPacket GAME_CMSG_UNEQUIP_ITEM
     ([equip_slot] @ le16enc (bag_id bag) @ [slot]))"

definition GameSrv_Identify :: "surroundings \<Rightarrow> item \<Rightarrow> item \<Rightarrow> gw_client \<Rightarrow> fault + gw_client" where
  "GameSrv_Identify e kit it = send_secured e (NewPacket GAME_CMSG_ITEM_IDENTIFY
     (le32enc (item_id kit) @ le32enc (item_id it)))"

section \<open>Merchants\<close>

text \<open>The caller's arrays have room for 16 items.\<close>

record transaction_info =
  ti_gold :: u32
  ti_count :: nat
  ti_ids :: "u32 list"
  ti_quants :: "u32 list"

definition item_columns :: "transaction_info \<Rightarrow> fault + bytes \<times> bytes" where
  "item_columns t =
     bindE (mem_read (ti_ids t) 0 (ti_count t)) (\<lambda>ids.
     bindE (mem_write (replicate 16 0) 0 ids) (\<lambda>ids.
     bindE (mem_read (ti_quants t) 0 (ti_count t)) (\<lambda>qs.
     bindE (mem_write (replicate 16 (0 :: u8)) 0 (map ucast qs)) (\<lambda>qs.
       Inr (le32enc (of_nat (ti_count t)) @ concat (map le32enc ids), le32enc (of_nat (ti_count t)) @ qs)))))"

definition GameSrv_TransactItems ::
    "surroundings \<Rightarrow> u8 \<Rightarrow> u32 \<Rightarrow> transaction_info \<Rightarrow> u32 \<Rightarrow> transaction_info \<Rightarrow> gw_client \<Rightarrow> fault + gw_client" where
  "GameSrv_TransactItems e type gold_send s gold_recv r c =
     bindE (assertE (ti_count s \<le> 16)) (\<lambda>_.
     bindE (item_columns s) (\<lambda>(s_ids, s_quants).
     bindE (assertE (ti_count r \<le> 16)) (\<lambda>_.
     bindE (item_columns r) (\<lambda>(r_ids, r_quants).
       send_game e (NewPacket GAME_CMSG_TRANSACT_ITEMS ([type] @ le32enc gold_send @ s_ids @ s_quants @
         le32enc gold_recv @ r_ids @ r_quants)) c))))"

definition id_column :: "nat \<Rightarrow> u32 list \<Rightarrow> fault + bytes" where
  "id_column n ids =
     bindE (mem_read ids 0 n) (\<lambda>ids.
     bindE (mem_write (replicate 16 0) 0 ids) (\<lambda>ids. Inr (le32enc (of_nat n) @ concat (map le32enc ids))))"

definition GameSrv_BuyMaterials ::
    "surroundings \<Rightarrow> u8 \<Rightarrow> u32 \<Rightarrow> transaction_info \<Rightarrow> u32 \<Rightarrow> transaction_info \<Rightarrow> gw_client \<Rightarrow> fault + gw_client" where
  "GameSrv_BuyMaterials e type gold_send s gold_recv r c =
     bindE (assertE (ti_count s \<le> 16)) (\<lambda>_.
     bindE (id_column (ti_count s) (ti_ids s)) (\<lambda>s_ids.
     bindE (assertE (ti_count r \<le> 16)) (\<lambda>_.
     bindE (id_column (ti_count r) (ti_ids r)) (\<lambda>r_ids.
       send_game e (NewPacket GAME_CMSG_BUY_MATERIALS ([type] @ le32enc gold_send @ s_ids @
         le32enc gold_recv @ r_ids)) c))))"

text \<open>The counts are not compared with 16 here.\<close>

record quote_info =
  qi_unk1 :: u32
  qi_count :: nat
  qi_ids :: "u32 list"

definition GameSrv_RequestQuote :: "surroundings \<Rightarrow> u8 \<Rightarrow> quote_info \<Rightarrow> quote_info \<Rightarrow> gw_client \<Rightarrow> fault + gw_client" where
  "GameSrv_RequestQuote e type s r c =
     bindE (id_column (qi_count s) (qi_ids s)) (\<lambda>s_ids.
     bindE (id_column (qi_count r) (qi_ids r)) (\<lambda>r_ids.
       send_game e (NewPacket GAME_CMSG_REQUEST_QUOTE ([type, 0] @ le32enc 0 @ s_ids @ le32enc 0 @ r_ids)) c))"

end
