(* ===== verification/Login_Session.thy ===== *)
theory Login_Session
  imports Item_Handlers
begin

text \<open>
  The handlers of \<^verbatim>\<open>client/auth.c\<close> and the connection to the authentication server. A response
  removes the request with its transaction number, tells the plugins and continues what the request was
  made for.
\<close>

section \<open>Handlers\<close>

definition HandleAccountSettings :: "nat \<Rightarrow> bytes \<Rightarrow> gw_client \<Rightarrow> fault + gw_client" where
  "HandleAccountSettings = checked HandleAccountSettings_entry"

definition HandleServerReponse :: "nat \<Rightarrow> bytes \<Rightarrow> gw_client \<Rightarrow> fault + gw_client" where
  "HandleServerReponse = checked HandleServerReponse_entry"

fun find_request :: "async_request list \<Rightarrow> u32 \<Rightarrow> nat \<Rightarrow> nat option" where
  "find_request [] trans_id i = None"
| "find_request (r # rs) trans_id i = (if ar_trans_id r = trans_id then Some i else find_request rs trans_id (i + 1))"

definition take_request :: "u32 \<Rightarrow> async_request carray \<Rightarrow> fault + async_type \<times> async_request carray" where
  "take_request trans_id a =
     bindE (foreach a) (\<lambda>rs.
       case find_request rs trans_id 0 of None \<Rightarrow> Inr (AsyncType_None, a)
       | Some i \<Rightarrow>
           bindE (idx rs i) (\<lambda>r.
           bindE (array_remove sizeof_AsyncRequest a i) (\<lambda>a. Inr (ar_type r, a))))"

fun continue_request :: "surroundings \<Rightarrow> async_type \<Rightarrow> u32 \<Rightarrow> gw_client \<Rightarrow> fault + gw_client" where
  "continue_request e AsyncType_AccountLogin code = ContinueAccountLogin e code"
| "continue_request e AsyncType_ChangeCharacter code = ContinueChangeCharacter e code"
| "continue_request e AsyncType_PlayCharacter code = ContinuePlayCharacter e code"
| "continue_request e AsyncType_SendHardwareInfo code = ContinueSendHardwareInfo code"
| "continue_request e type code = Inr"

definition request_response :: "surroundings \<Rightarrow> u32 \<Rightarrow> u32 \<Rightarrow> gw_client \<Rightarrow> fault + gw_client" where
  "request_response e trans_id code c =
     bindE (take_request trans_id (gc_requests c)) (\<lambda>(type, a).
     bindE (broadcast e (EventType_AuthError code type) (c\<lparr>gc_requests := a\<rparr>))
       (continue_request e type code))"

definition HandleRequestResponse :: "surroundings \<Rightarrow> nat \<Rightarrow> bytes \<Rightarrow> gw_client \<Rightarrow> fault + gw_client" where
  "HandleRequestResponse e = (let en = HandleRequestResponse_entry in entered en (\<lambda>p.
     request_response e (get en ''trans_id'' p) (get en ''code'' p)))"

definition HandleSessionInfo :: "nat \<Rightarrow> bytes \<Rightarrow> gw_client \<Rightarrow> fault + gw_client" where
  "HandleSessionInfo = (let en = HandleSessionInfo_entry in entered en (\<lambda>p c.
     Inr (c\<lparr>gc_static_salt := get en ''server_salt'' p, gc_state := AwaitAccountConnect\<rparr>)))"

text \<open>The identifier of the message is not the object of a character.\<close>

fun find_character :: "uuid \<Rightarrow> character list \<Rightarrow> nat \<Rightarrow> fault + nat option" where
  "find_character u [] i = Inr None"
| "find_character u (ch # chs) i =
     bindE (uuid_equals (Some (1, ch_uuid ch)) (Some (0, u))) (\<lambda>r. if r then Inr (Some i) else find_character u chs (i + 1))"

definition account_info :: "bytes \<Rightarrow> bytes \<Rightarrow> gw_client \<Rightarrow> fault + gw_client" where
  "account_info account character_uuid c =
     bindE (uuid_dec_le account) (\<lambda>u.
     bindE (uuid_dec_le character_uuid) (\<lambda>char_uuid.
     bindE (foreach (gc_characters c)) (\<lambda>chs.
     bindE (find_character char_uuid chs 0) (\<lambda>i.
       Inr (case i of None \<Rightarrow> c\<lparr>gc_uuid := u\<rparr> | Some i \<Rightarrow> c\<lparr>gc_uuid := u, current_character_idx := i\<rparr>)))))"

definition HandleAccountInfo :: "nat \<Rightarrow> bytes \<Rightarrow> gw_client \<Rightarrow> fault + gw_client" where
  "HandleAccountInfo = (let en = HandleAccountInfo_entry in entered en (\<lambda>p.
     account_info (member_bytes en ''account_uuid'' p) (member_bytes en ''character_uuid'' p)))"

text \<open>The settings are the bytes that the message says it has, at least the 33 up to the pieces of armour.\<close>

definition character_info ::
    "(nat \<Rightarrow> bool) \<Rightarrow> bytes \<Rightarrow> u16 list \<Rightarrow> nat \<Rightarrow> bytes \<Rightarrow> gw_client \<Rightarrow> fault + gw_client" where
  "character_info alloc uid name n_extended extended c =
     bindE (array_push alloc init_character sizeof_Character (gc_characters c) 1) (\<lambda>(i, a).
       case i of None \<Rightarrow> Inr (c\<lparr>gc_characters := a\<rparr>)
       | Some i \<Rightarrow>
           bindE (kstr_read (ch_name init_character) name 20) (\<lambda>(_, nm).
           bindE (uuid_dec_le uid) (\<lambda>u.
           bindE (if n_extended < 33 then Inr (ch_settings init_character)
                  else bindE (mem_read extended 0 n_extended) (mem_write (ch_settings init_character) 0)) (\<lambda>s.
           bindE (upd (arr_data a) i \<lparr>ch_name = nm, ch_uuid = u, ch_settings = s\<rparr>) (\<lambda>d.
             Inr (c\<lparr>gc_characters := a\<lparr>arr_data := d\<rparr>\<rparr>))))))"

definition HandleCharacterInfo :: "surroundings \<Rightarrow> nat \<Rightarrow> bytes \<Rightarrow> gw_client \<Rightarrow> fault + gw_client" where
  "HandleCharacterInfo e = (let en = HandleCharacterInfo_entry in entered en (\<lambda>p.
     character_info (en_alloc e) (member_bytes en ''uuid'' p) (get_array en ''name'' 2 p)
       (unat (get en ''n_extended'' p :: u32)) (member_bytes en ''extended'' p)))"

section \<open>Connecting\<close>

text \<open>
  \<^verbatim>\<open>strrchr\<close>: what follows the last colon, with the colon. The port is what it finds, so it starts
  with the colon; the name of the host is not cut.
\<close>

fun last_colon :: "bytes \<Rightarrow> bytes option" where
  "last_colon [] = None"
| "last_colon (b # bs) = (case last_colon bs of Some r \<Rightarrow> Some r | None \<Rightarrow> if b = 0x3A then Some (b # bs) else None)"

definition port_of :: "bytes \<Rightarrow> bytes" where
  "port_of host = (case last_colon host of None \<Rightarrow> str ''6112'' | Some p \<Rightarrow> p)"

text \<open>\<open>resolve\<close> is \<^verbatim>\<open>getaddrinfo\<close> of the system; the host is copied into a buffer of 256 bytes.\<close>

definition init_auth_connection ::
    "surroundings \<Rightarrow> handshake_env \<Rightarrow> sockaddr list \<Rightarrow> (bytes \<Rightarrow> bytes \<Rightarrow> sockaddr option) \<Rightarrow> bytes option \<Rightarrow>
     gw_client \<Rightarrow> fault + bool \<times> gw_client" where
  "init_auth_connection e h ips resolve host c =
     (let host = map_option (take 255) host;
          found = (case host of None \<Rightarrow> Some (conn_host (auth_srv c)) | Some name \<Rightarrow> resolve name (port_of name)) in
      case found of None \<Rightarrow> Inr (False, c)
      | Some addr \<Rightarrow>
          bindE (AuthSrv_Connect (he_exp_mod h) (he_rand h) (he_os h) (he_keys h) (opt_game_version (en_options e))
            (he_net_initialized h) ips ((auth_srv c)\<lparr>conn_host := addr\<rparr>)) (\<lambda>(ok, conn, sent).
          let c = c\<lparr>auth_srv := conn, auth_wire := auth_wire c @ concat sent\<rparr> in
          if \<not> ok \<or> \<not> conn_secured conn then Inr (False, c\<lparr>gc_state := AwaitNothing\<rparr>)
          else bindE (AuthSrv_ComputerInfo e (c\<lparr>gc_state := AwaitSessionInfo\<rparr>)) (\<lambda>c. Inr (True, c))))"

end
