(* ===== verification/Encounters.thy ===== *)
theory Encounters
  imports Players
begin

text \<open>
  Effects on agents, quests, titles, dialogs and trades: \<^verbatim>\<open>client/effect.c\<close>, \<^verbatim>\<open>client/quest.c\<close>,
  \<^verbatim>\<open>client/title.c\<close>, \<^verbatim>\<open>client/dialog.c\<close> and \<^verbatim>\<open>client/trade.c\<close>.
\<close>

unbundle bit_operations_syntax

section \<open>Effects\<close>

fun find_effect :: "effect list \<Rightarrow> u32 \<Rightarrow> nat \<Rightarrow> nat option" where
  "find_effect [] ident i = None"
| "find_effect (x # xs) ident i = (if ef_effect_id x = ident then Some i else find_effect xs ident (i + 1))"

definition array_find_effect_index :: "effect carray \<Rightarrow> u32 \<Rightarrow> fault + nat option" where
  "array_find_effect_index effects ident = bindE (foreach effects) (\<lambda>xs. Inr (find_effect xs ident 0))"

definition HandleEffectUpkeepAdded :: "nat \<Rightarrow> bytes \<Rightarrow> gw_client \<Rightarrow> fault + gw_client" where
  "HandleEffectUpkeepAdded = checked_secured HandleEffectUpkeepAdded_entry"

definition HandleEffectUpkeepRemoved :: "nat \<Rightarrow> bytes \<Rightarrow> gw_client \<Rightarrow> fault + gw_client" where
  "HandleEffectUpkeepRemoved = checked_secured HandleEffectUpkeepRemoved_entry"

definition HandleEffectUpkeepApplied :: "nat \<Rightarrow> bytes \<Rightarrow> gw_client \<Rightarrow> fault + gw_client" where
  "HandleEffectUpkeepApplied = checked_secured HandleEffectUpkeepApplied_entry"

text \<open>The element that \<^verbatim>\<open>array_push\<close> returns is not compared with null.\<close>

definition effect_applied :: "(nat \<Rightarrow> bool) \<Rightarrow> u32 \<Rightarrow> u32 \<Rightarrow> u32 \<Rightarrow> u32 \<Rightarrow> f32 \<Rightarrow> world \<Rightarrow> fault + world" where
  "effect_applied alloc agent_id skill_id type ident duration w =
     bindE (array_push alloc zero_effect sizeof_Effect (w_effects w) 1) (\<lambda>(i, a).
       case i of None \<Rightarrow> Inl NullDeref
       | Some i \<Rightarrow>
           bindE (upd (arr_data a) i \<lparr>ef_effect_id = ident, ef_skill_id = skill_id, ef_type = type,
             ef_agent_id = agent_id, ef_duration = duration, ef_timestamp = w_world_time w, ef_remaining = duration\<rparr>) (\<lambda>d.
             Inr (w\<lparr>w_effects := a\<lparr>arr_data := d\<rparr>\<rparr>)))"

definition HandleEffectApplied :: "surroundings \<Rightarrow> nat \<Rightarrow> bytes \<Rightarrow> gw_client \<Rightarrow> fault + gw_client" where
  "HandleEffectApplied e = (let en = HandleEffectApplied_entry in in_world en (\<lambda>p w c.
     set_world c (effect_applied (en_alloc e) (get en ''agent_id'' p) (ucast (get en ''skill_id'' p :: u16))
       (get en ''effect_type'' p) (get en ''effect_id'' p) (get en ''duration'' p) w)))"

definition effect_renewed :: "u32 \<Rightarrow> u32 \<Rightarrow> u32 \<Rightarrow> f32 \<Rightarrow> world \<Rightarrow> fault + world" where
  "effect_renewed agent_id type ident duration w =
     bindE (array_find_effect_index (w_effects w) ident) (\<lambda>i.
       case i of None \<Rightarrow> Inl NullDeref
       | Some i \<Rightarrow>
           bindE (array_at (w_effects w) i) (\<lambda>x.
           bindE (upd (arr_data (w_effects w)) i (x\<lparr>ef_timestamp := w_world_time w, ef_agent_id := agent_id,
             ef_type := type, ef_duration := duration, ef_remaining := duration\<rparr>)) (\<lambda>d.
             Inr (w\<lparr>w_effects := (w_effects w)\<lparr>arr_data := d\<rparr>\<rparr>))))"

definition HandleEffectRenewed :: "nat \<Rightarrow> bytes \<Rightarrow> gw_client \<Rightarrow> fault + gw_client" where
  "HandleEffectRenewed = (let en = HandleEffectRenewed_entry in in_world en (\<lambda>p w c.
     set_world c (effect_renewed (get en ''agent_id'' p) (get en ''effect_type'' p) (get en ''effect_id'' p)
       (get en ''duration'' p) w)))"

definition effect_removed :: "u32 \<Rightarrow> world \<Rightarrow> fault + world" where
  "effect_removed ident w =
     bindE (array_find_effect_index (w_effects w) ident) (\<lambda>i.
       case i of None \<Rightarrow> Inr w
       | Some i \<Rightarrow> bindE (array_remove sizeof_Effect (w_effects w) i) (\<lambda>a. Inr (w\<lparr>w_effects := a\<rparr>)))"

definition HandleEffectRemoved :: "nat \<Rightarrow> bytes \<Rightarrow> gw_client \<Rightarrow> fault + gw_client" where
  "HandleEffectRemoved = (let en = HandleEffectRemoved_entry in in_world en (\<lambda>p w c.
     set_world c (effect_removed (get en ''effect_id'' p) w)))"

section \<open>Quests\<close>

text \<open>The index of the quest stands for the pointer to it.\<close>

fun find_quest :: "quest list \<Rightarrow> u32 \<Rightarrow> nat \<Rightarrow> nat option" where
  "find_quest [] ident i = None"
| "find_quest (x # xs) ident i = (if qu_quest_id x = ident then Some i else find_quest xs ident (i + 1))"

definition find_quest_by_id :: "quest carray \<Rightarrow> u32 \<Rightarrow> fault + nat option" where
  "find_quest_by_id quests ident = bindE (foreach quests) (\<lambda>xs. Inr (find_quest xs ident 0))"

definition put_quest :: "nat \<Rightarrow> (quest \<Rightarrow> quest) \<Rightarrow> world \<Rightarrow> fault + world" where
  "put_quest i f w =
     bindE (array_at (w_quests w) i) (\<lambda>x.
     bindE (upd (arr_data (w_quests w)) i (f x)) (\<lambda>d. Inr (w\<lparr>w_quests := (w_quests w)\<lparr>arr_data := d\<rparr>\<rparr>)))"

definition quest_description :: "u32 \<Rightarrow> u16 list \<Rightarrow> world \<Rightarrow> fault + world" where
  "quest_description ident objective w =
     bindE (find_quest_by_id (w_quests w) ident) (\<lambda>i.
       case i of None \<Rightarrow> Inr w | Some i \<Rightarrow> put_quest i (\<lambda>x. x\<lparr>qu_objective := objective\<rparr>) w)"

definition HandleQuestDescription :: "nat \<Rightarrow> bytes \<Rightarrow> gw_client \<Rightarrow> fault + gw_client" where
  "HandleQuestDescription = (let en = HandleQuestDescription_entry in in_world en (\<lambda>p w c.
     set_world c (quest_description (get en ''quest_id'' p) (get_array en ''objective'' 2 p) w)))"

definition quest_general_info :: "(nat \<Rightarrow> bool) \<Rightarrow> u32 \<Rightarrow> u32 \<Rightarrow> u32 \<Rightarrow> world \<Rightarrow> fault + world" where
  "quest_general_info alloc ident status map_id w =
     bindE (ignored (array_add alloc zero_quest sizeof_Quest (w_quests w)
       (zero_quest\<lparr>qu_quest_id := ident, qu_status := status, qu_map_id := map_id, qu_id := arr_size (w_quests w)\<rparr>))) (\<lambda>a.
       Inr (w\<lparr>w_quests := a\<rparr>))"

definition HandleQuestGeneralInfo :: "surroundings \<Rightarrow> nat \<Rightarrow> bytes \<Rightarrow> gw_client \<Rightarrow> fault + gw_client" where
  "HandleQuestGeneralInfo e = (let en = HandleQuestGeneralInfo_entry in in_world en (\<lambda>p w c.
     set_world c (quest_general_info (en_alloc e) (get en ''quest_id'' p) (get en ''status'' p)
       (scast (get en ''map_id'' p :: u16)) w)))"

definition quest_update_marker :: "u32 \<Rightarrow> vec2f \<Rightarrow> world \<Rightarrow> fault + world" where
  "quest_update_marker ident coord w =
     bindE (find_quest_by_id (w_quests w) ident) (\<lambda>i.
       case i of None \<Rightarrow> Inl NullDeref | Some i \<Rightarrow> put_quest i (\<lambda>x. x\<lparr>qu_marker_coord := coord\<rparr>) w)"

definition HandleQuestUpdateMarker :: "nat \<Rightarrow> bytes \<Rightarrow> gw_client \<Rightarrow> fault + gw_client" where
  "HandleQuestUpdateMarker = (let en = HandleQuestUpdateMarker_entry in in_world en (\<lambda>p w c.
     set_world c (quest_update_marker (get en ''quest_id'' p) (get_vec en ''marker_coord'' p) w)))"

text \<open>The place that is removed is the one the quest was added at, which is not where it is any more
  when a quest before it was removed.\<close>

definition quest_remove :: "u32 \<Rightarrow> world \<Rightarrow> fault + world" where
  "quest_remove ident w =
     bindE (find_quest_by_id (w_quests w) ident) (\<lambda>i.
       case i of None \<Rightarrow> Inr w
       | Some i \<Rightarrow>
           bindE (array_at (w_quests w) i) (\<lambda>x.
           bindE (array_remove sizeof_Quest (w_quests w) (qu_id x)) (\<lambda>a. Inr (w\<lparr>w_quests := a\<rparr>))))"

definition HandleQuestRemove :: "nat \<Rightarrow> bytes \<Rightarrow> gw_client \<Rightarrow> fault + gw_client" where
  "HandleQuestRemove = (let en = HandleQuestRemove_entry in in_world en (\<lambda>p w c.
     set_world c (quest_remove (get en ''quest_id'' p) w)))"

definition GameSrv_AbandonQuest :: "surroundings \<Rightarrow> u32 \<Rightarrow> gw_client \<Rightarrow> fault + gw_client" where
  "GameSrv_AbandonQuest e ident = send_game e (NewPacket GAME_CMSG_QUEST_ABANDON (le32enc ident))"

definition GameSrv_RequestQuestInfos :: "surroundings \<Rightarrow> u32 \<Rightarrow> gw_client \<Rightarrow> fault + gw_client" where
  "GameSrv_RequestQuestInfos e ident = send_game e (NewPacket GAME_CMSG_QUEST_REQUEST_INFOS (le32enc ident))"

section \<open>Titles\<close>

definition HandleTitleRankData :: "nat \<Rightarrow> bytes \<Rightarrow> gw_client \<Rightarrow> fault + gw_client" where
  "HandleTitleRankData = checked_secured HandleTitleRankData_entry"

definition HandleTitleRankDisplay :: "nat \<Rightarrow> bytes \<Rightarrow> gw_client \<Rightarrow> fault + gw_client" where
  "HandleTitleRankDisplay = checked_secured HandleTitleRankDisplay_entry"

definition HandleTitleTrackInfo :: "nat \<Rightarrow> bytes \<Rightarrow> gw_client \<Rightarrow> fault + gw_client" where
  "HandleTitleTrackInfo = checked_secured HandleTitleTrackInfo_entry"

section \<open>Dialogs\<close>

definition HandleDialogButton :: "surroundings \<Rightarrow> nat \<Rightarrow> bytes \<Rightarrow> gw_client \<Rightarrow> fault + gw_client" where
  "HandleDialogButton e = (let en = HandleDialogButton_entry in in_world en (\<lambda>p w c.
     let button = \<lparr>db_dialog_id = get en ''dialog_id'' p, db_icon_id = scast (get en ''icon_id'' p :: u8)\<rparr> in
     bindE (ignored (array_add (en_alloc e) \<lparr>db_dialog_id = 0, db_icon_id = 0\<rparr> sizeof_DialogButton
       (dlg_buttons (w_dialog w)) button)) (\<lambda>a.
     bindE (set_world c (Inr (w\<lparr>w_dialog := (w_dialog w)\<lparr>dlg_buttons := a\<rparr>\<rparr>))) (\<lambda>c.
       broadcast e (EventType_DialogButton (db_dialog_id button) (db_icon_id button)) c))))"

definition HandleDialogBody :: "nat \<Rightarrow> bytes \<Rightarrow> gw_client \<Rightarrow> fault + gw_client" where
  "HandleDialogBody = (let en = HandleDialogBody_entry in in_world en (\<lambda>p w c.
     set_world c (Inr (w\<lparr>w_dialog := (w_dialog w)\<lparr>dlg_body := get_array en ''body'' 2 p\<rparr>\<rparr>))))"

definition HandleDialogSender :: "surroundings \<Rightarrow> nat \<Rightarrow> bytes \<Rightarrow> gw_client \<Rightarrow> fault + gw_client" where
  "HandleDialogSender e = (let en = HandleDialogSender_entry in in_world en (\<lambda>p w c.
     let agent = get en ''agent_id'' p in
     bindE (set_world c (Inr (w\<lparr>w_dialog := (w_dialog w)\<lparr>dlg_opened := True, dlg_interact_with := agent,
         dlg_buttons := array_clear (dlg_buttons (w_dialog w))\<rparr>, w_interact_with := agent,
       w_merchant_items := array_clear (w_merchant_items w),
       w_tmp_merchant_items := array_clear (w_tmp_merchant_items w),
       w_tmp_merchant_prices := array_clear (w_tmp_merchant_prices w)\<rparr>)))
       (broadcast e (EventType_DialogOpen agent))))"

text \<open>Whether the dialog is open and has such a button is only logged.\<close>

definition GameSrv_SendDialog :: "surroundings \<Rightarrow> u32 \<Rightarrow> gw_client \<Rightarrow> fault + gw_client" where
  "GameSrv_SendDialog e dialog_id c =
     bindE (get_world_or_abort c) (\<lambda>w.
     bindE (send_game e (NewPacket GAME_CMSG_SEND_DIALOG (le32enc dialog_id)) c) (\<lambda>c.
       set_world c (Inr ((gc_world c)\<lparr>w_dialog := free_dialog_info (w_dialog (gc_world c)), w_interact_with := 0\<rparr>))))"

section \<open>Trades\<close>

definition TradeState_Closed :: u32 where "TradeState_Closed = 1"
definition TradeState_Opened :: u32 where "TradeState_Opened = 2"
definition TradeState_Received :: u32 where "TradeState_Received = 4"
definition TradeState_Accepted :: u32 where "TradeState_Accepted = 8"

definition in_trade :: "(trade_session \<Rightarrow> trade_session) \<Rightarrow> world \<Rightarrow> world" where
  "in_trade f w = w\<lparr>w_trade_session := f (w_trade_session w)\<rparr>"

definition trade_opened :: "u32 \<Rightarrow> trade_session \<Rightarrow> trade_session" where
  "trade_opened trader t = t\<lparr>tr_trader := trader, tr_state := tr_state t OR TradeState_Opened,
     tr_trader_items := array_clear (tr_trader_items t), tr_player_items := array_clear (tr_player_items t)\<rparr>"

definition GameSrv_TradeAcknowledge :: "surroundings \<Rightarrow> u32 \<Rightarrow> gw_client \<Rightarrow> fault + gw_client" where
  "GameSrv_TradeAcknowledge e player_id c =
     bindE (send_secured e (NewPacket GAME_CMSG_TRADE_ACKNOWLEDGE (le32enc player_id)) c) (\<lambda>c.
     bindE (get_world_or_abort c) (\<lambda>w. set_world c (Inr (in_trade (trade_opened player_id) w))))"

definition HandleTradeRequest :: "surroundings \<Rightarrow> nat \<Rightarrow> bytes \<Rightarrow> gw_client \<Rightarrow> fault + gw_client" where
  "HandleTradeRequest e = (let en = HandleTradeRequest_entry in secured en (\<lambda>p.
     GameSrv_TradeAcknowledge e (get en ''player_id'' p)))"

definition HandleTradeTerminate :: "nat \<Rightarrow> bytes \<Rightarrow> gw_client \<Rightarrow> fault + gw_client" where
  "HandleTradeTerminate = in_world HandleTradeTerminate_entry (\<lambda>p w c.
     set_world c (Inr (in_trade (\<lambda>t. t\<lparr>tr_state := TradeState_Closed\<rparr>) w)))"

definition HandleTradeOfferedCount :: "nat \<Rightarrow> bytes \<Rightarrow> gw_client \<Rightarrow> fault + gw_client" where
  "HandleTradeOfferedCount = checked_secured HandleTradeOfferedCount_entry"

definition HandleTradeReceiveOffer :: "nat \<Rightarrow> bytes \<Rightarrow> gw_client \<Rightarrow> fault + gw_client" where
  "HandleTradeReceiveOffer = (let en = HandleTradeReceiveOffer_entry in in_world en (\<lambda>p w c.
     set_world c (Inr (in_trade (\<lambda>t. t\<lparr>tr_state := tr_state t OR TradeState_Received, tr_trader_gold := get en ''gold'' p\<rparr>) w))))"

definition trade_add_item :: "(nat \<Rightarrow> bool) \<Rightarrow> u32 \<Rightarrow> u8 \<Rightarrow> world \<Rightarrow> fault + world" where
  "trade_add_item alloc ident quantity w =
     bindE (assertE (arr_size (tr_trader_items (w_trade_session w)) \<le> 6)) (\<lambda>_.
     bindE (ignored (array_add alloc \<lparr>ti_item_id = 0, ti_quantity = 0\<rparr> sizeof_TradeItem (tr_trader_items (w_trade_session w))
       \<lparr>ti_item_id = ident, ti_quantity = ucast quantity\<rparr>)) (\<lambda>a.
       Inr (in_trade (\<lambda>t. t\<lparr>tr_trader_items := a\<rparr>) w)))"

definition HandleTradeAddItem :: "surroundings \<Rightarrow> nat \<Rightarrow> bytes \<Rightarrow> gw_client \<Rightarrow> fault + gw_client" where
  "HandleTradeAddItem e = (let en = HandleTradeAddItem_entry in in_world en (\<lambda>p w c.
     set_world c (trade_add_item (en_alloc e) (get en ''item_id'' p) (get en ''quantity'' p) w)))"

definition trade_acknowledge :: "u32 \<Rightarrow> world \<Rightarrow> fault + world" where
  "trade_acknowledge player_id w =
     bindE (assertE (tr_request_pending (w_trade_session w))) (\<lambda>_.
       Inr (in_trade (\<lambda>t. trade_opened player_id (t\<lparr>tr_request_pending := False\<rparr>)) w))"

definition HandleTradeAcknowledge :: "nat \<Rightarrow> bytes \<Rightarrow> gw_client \<Rightarrow> fault + gw_client" where
  "HandleTradeAcknowledge = (let en = HandleTradeAcknowledge_entry in in_world en (\<lambda>p w c.
     set_world c (trade_acknowledge (get en ''player_id'' p) w)))"

definition HandleTradeAccept :: "nat \<Rightarrow> bytes \<Rightarrow> gw_client \<Rightarrow> fault + gw_client" where
  "HandleTradeAccept = in_world HandleTradeAccept_entry (\<lambda>p w c.
     set_world c (Inr (in_trade (\<lambda>t. t\<lparr>tr_state := tr_state t OR TradeState_Accepted\<rparr>) w)))"

text \<open>The complement of the flag is added, not removed.\<close>

definition trade_change_offer :: "world \<Rightarrow> world" where
  "trade_change_offer = in_trade (\<lambda>t. t\<lparr>tr_state := tr_state t OR NOT TradeState_Opened\<rparr>)"

definition HandleTradeChangeOffer :: "nat \<Rightarrow> bytes \<Rightarrow> gw_client \<Rightarrow> fault + gw_client" where
  "HandleTradeChangeOffer = in_world HandleTradeChangeOffer_entry (\<lambda>p w c. set_world c (Inr (trade_change_offer w)))"

definition GameSrv_TradeCancel :: "surroundings \<Rightarrow> gw_client \<Rightarrow> fault + gw_client" where
  "GameSrv_TradeCancel e c =
     bindE (send_secured e (NewPacket GAME_CMSG_TRADE_CANCEL []) c) (\<lambda>c.
     bindE (get_world_or_abort c) (\<lambda>w. set_world c (Inr (in_trade (\<lambda>t. t\<lparr>tr_state := TradeState_Closed\<rparr>) w))))"

definition GameSrv_TradeAddItem :: "surroundings \<Rightarrow> u32 \<Rightarrow> u8 \<Rightarrow> gw_client \<Rightarrow> fault + gw_client" where
  "GameSrv_TradeAddItem e ident quantity c =
     bindE (assertE (conn_secured (game_srv c))) (\<lambda>_.
     bindE (assertE (quantity \<le> 250)) (\<lambda>_.
     bindE (send_game e (NewPacket GAME_CMSG_TRADE_ADD_ITEM (le32enc ident @ [quantity])) c) (\<lambda>c.
     bindE (get_world_or_abort c) (\<lambda>w.
     bindE (ignored (array_add (en_alloc e) \<lparr>ti_item_id = 0, ti_quantity = 0\<rparr> sizeof_TradeItem (tr_player_items (w_trade_session w))
       \<lparr>ti_item_id = ident, ti_quantity = ucast quantity\<rparr>)) (\<lambda>a.
       set_world c (Inr (in_trade (\<lambda>t. t\<lparr>tr_player_items := a\<rparr>) w)))))))"

definition GameSrv_TradeSendOffer :: "surroundings \<Rightarrow> u32 \<Rightarrow> gw_client \<Rightarrow> fault + gw_client" where
  "GameSrv_TradeSendOffer e gold = send_secured e (NewPacket GAME_CMSG_TRADE_SEND_OFFER (le32enc gold))"

text \<open>The remainder of a signed division.\<close>

definition GameSrv_TradeRemoveItem :: "surroundings \<Rightarrow> u32 \<Rightarrow> int \<Rightarrow> gw_client \<Rightarrow> fault + gw_client" where
  "GameSrv_TradeRemoveItem e ident quantity =
     send_secured e (NewPacket GAME_CMSG_TRADE_REMOVE_ITEM (le32enc ident @ [of_int (sgn quantity * (\<bar>quantity\<bar> mod 250))]))"

definition GameSrv_TradeCancelOffer :: "surroundings \<Rightarrow> gw_client \<Rightarrow> fault + gw_client" where
  "GameSrv_TradeCancelOffer e = send_secured e (NewPacket GAME_CMSG_TRADE_CANCEL_OFFER [])"

definition GameSrv_TradeAccept :: "surroundings \<Rightarrow> gw_client \<Rightarrow> fault + gw_client" where
  "GameSrv_TradeAccept e = send_secured e (NewPacket GAME_CMSG_TRADE_ACCEPT [])"

definition GameSrv_TradeInitiate :: "surroundings \<Rightarrow> u32 \<Rightarrow> gw_client \<Rightarrow> fault + gw_client" where
  "GameSrv_TradeInitiate e partner c =
     bindE (send_secured e (NewPacket GAME_CMSG_TRADE_INITIATE (le32enc partner)) c) (\<lambda>c.
     bindE (get_world_or_abort c) (\<lambda>w. set_world c (Inr (in_trade (\<lambda>t. t\<lparr>tr_request_pending := True\<rparr>) w))))"

end
