(* ===== verification/Main_Loop.thy ===== *)
theory Main_Loop
  imports Login_Session Encounters Dispatch
begin

text \<open>
  The tables of the handlers, \<^verbatim>\<open>AuthSrv_RegisterCallbacks\<close> and \<^verbatim>\<open>GameSrv_RegisterCallbacks\<close>, the
  dispatch of the messages of both connections to them, and the iteration of the main loop,
  \<^verbatim>\<open>client/main.c\<close>, which starts what the state of the client waits for, updates the connections and
  lets the time of the world pass. A pointer to a handler is the number it is registered under.
\<close>

section \<open>Tables of handlers\<close>

definition auth_handlers :: "surroundings \<Rightarrow> (nat \<times> (nat \<Rightarrow> bytes \<Rightarrow> gw_client \<Rightarrow> fault + gw_client)) list" where
  "auth_handlers e = [
     (AUTH_SMSG_REQUEST_RESPONSE, HandleRequestResponse e), (AUTH_SMSG_SERVER_RESPONSE, HandleServerReponse),
     (AUTH_SMSG_SESSION_INFO, HandleSessionInfo), (AUTH_SMSG_ACCOUNT_INFO, HandleAccountInfo),
     (AUTH_SMSG_CHARACTER_INFO, HandleCharacterInfo e), (AUTH_SMSG_GAME_SERVER_INFO, HandleGameServerInfo e),
     (AUTH_SMSG_ACCOUNT_SETTINGS, HandleAccountSettings), (AUTH_SMSG_FRIEND_UPDATE_INFO, HandleFriendUpdateInfo e),
     (AUTH_SMSG_FRIEND_UPDATE_STATUS, HandleFriendUpdateStatus e), (AUTH_SMSG_FRIEND_STREAM_END, HandleFriendStreamEnd),
     (AUTH_SMSG_FRIEND_UPDATE_LOCATION, HandleFriendUpdateLocation e), (AUTH_SMSG_WHISPER_RECEIVED, HandleWhisperReceived e)]"

definition game_handlers_0 :: "surroundings \<Rightarrow> (nat \<times> (nat \<Rightarrow> bytes \<Rightarrow> gw_client \<Rightarrow> fault + gw_client)) list" where
  "game_handlers_0 e = [
     (GAME_SMSG_PING_REQUEST, HandlePingRequest e),
     (GAME_SMSG_PING_REPLY, HandlePingReply),
     (GAME_SMSG_INSTANCE_SHOW_WIN, HandleInstanceShowWin),
     (GAME_SMSG_INSTANCE_LOAD_HEAD, HandleInstanceLoadHead),
     (GAME_SMSG_INSTANCE_COUNTDOWN_STOP, HandleInstanceCountdownStop),
     (GAME_SMSG_INSTANCE_COUNTDOWN, HandleInstanceCountdown),
     (GAME_SMSG_INSTANCE_LOAD_PLAYER_NAME, HandleInstanceLoadPlayerName),
     (GAME_SMSG_INSTANCE_LOAD_SPAWN_POINT, HandleInstanceLoadSpawnPoint e),
     (GAME_SMSG_INSTANCE_LOAD_INFO, HandleInstanceLoadInfo e),
     (GAME_SMSG_TRANSFER_GAME_SERVER_INFO, HandleGameTransferInfo e),
     (GAME_SMSG_READY_FOR_MAP_SPAWN, HandleReadyForMapSpawn e),
     (GAME_SMSG_INSTANCE_CANT_ENTER, HandleCantEnterOutpost e),
     (GAME_SMSG_INSTANCE_TRAVEL_TIMER, HandleInstanceTravelTimer),
     (GAME_SMSG_INSTANCE_LOAD_FINISH, HandleInstanceLoadFinish e),
     (GAME_SMSG_INSTANCE_LOADED, HandleInstanceLoaded),
     (GAME_SMSG_FRIENDLIST_MESSAGE, HandleFriendListMessage e),
     (GAME_SMSG_INSTANCE_REDIRECT, HandleInstanceRedirect e),
     (GAME_SMSG_UPDATE_GOLD_CHARACTER, HandleGoldCharacterAdd),
     (GAME_SMSG_UPDATE_GOLD_STORAGE, HandleGoldStorageAdd),
     (GAME_SMSG_GOLD_CHARACTER_REMOVE, HandleGoldCharacterRemove),
     (GAME_SMSG_GOLD_STORAGE_REMOVE, HandleGoldStorageRemove),
     (GAME_SMSG_ITEM_UPDATE_QUANTITY, HandleInventoryItemQuantity),
     (GAME_SMSG_ITEM_MOVED_TO_LOCATION, HandleInventoryItemLocation),
     (GAME_SMSG_INVENTORY_CREATE_BAG, HandleInventoryCreateBag e),
     (GAME_SMSG_ITEM_STREAM_CREATE, HandleItemStreamCreate),
     (GAME_SMSG_ITEM_STREAM_DESTROY, HandleItemStreamDestroy),
     (GAME_SMSG_ITEM_WEAPON_SET, HandleItemWeaponSet),
     (GAME_SMSG_ITEM_SET_ACTIVE_WEAPON_SET, HandleUpdateActiveWeaponSet),
     (GAME_SMSG_ITEM_GENERAL_INFO, HandleItemGeneralInfo e),
     (GAME_SMSG_ITEM_CHANGE_LOCATION, HandleItemChangeLocation),
     (GAME_SMSG_ITEM_REMOVE, HandleItemRemove),
     (GAME_SMSG_ITEM_PRICE_QUOTE, HandleItemPriceQuote e),
     (GAME_SMSG_WINDOW_MERCHANT, HandleWindowMerchant e),
     (GAME_SMSG_WINDOW_ITEM_STREAM_END, HandleWindowItemStreamEnd e),
     (GAME_SMSG_WINDOW_OWNER, HandleWindowOwner e),
     (GAME_SMSG_WINDOW_ADD_ITEMS, HandleWindowAddItems e),
     (GAME_SMSG_ITEM_PRICES, HandleWindowAddPrices e),
     (GAME_SMSG_ITEM_SALVAGE_SESSION_START, HandleSalvageSessionStart e),
     (GAME_SMSG_ITEM_SALVAGE_SESSION_CANCEL, HandleSalvageSessionCancel),
     (GAME_SMSG_ITEM_SALVAGE_SESSION_DONE, HandleSalvageSessionDone),
     (GAME_SMSG_ITEM_SALVAGE_SESSION_SUCCESS, HandleSalvageSessionSuccess e),
     (GAME_SMSG_ITEM_SALVAGE_SESSION_ITEM_KEPT, HandleSalvageSessionItemKept),
     (GAME_SMSG_AGENT_MOVEMENT_TICK, HandleAgentMovementTick),
     (GAME_SMSG_AGENT_INSTANCE_TIMER, HandleAgentInstanceTimer),
     (GAME_SMSG_AGENT_SPAWNED, HandleAgentSpawned e),
     (GAME_SMSG_AGENT_DESPAWNED, HandleAgentDespawned),
     (GAME_SMSG_AGENT_SET_PLAYER, HandleAgentSetPlayer),
     (GAME_SMSG_AGENT_UPDATE_DIRECTION, HandleAgentUpdateDirection e),
     (GAME_SMSG_AGENT_UPDATE_SPEED_BASE, HandleAgentUpdateSpeedBase),
     (GAME_SMSG_AGENT_STOP_MOVING, HandleAgentStopMoving),
     (GAME_SMSG_AGENT_MOVE_TO_POINT, HandleAgentMoveToPoint e),
     (GAME_SMSG_AGENT_UPDATE_SPEED, HandleAgentUpdateSpeedModifier)]"

definition game_handlers_1 :: "surroundings \<Rightarrow> (nat \<times> (nat \<Rightarrow> bytes \<Rightarrow> gw_client \<Rightarrow> fault + gw_client)) list" where
  "game_handlers_1 e = [
     (GAME_SMSG_AGENT_UPDATE_POSITION, HandleAgentUpdatePosition),
     (GAME_SMSG_AGENT_UPDATE_ROTATION, HandleAgentUpdateRotation e),
     (GAME_SMSG_AGENT_UPDATE_DESTINATION, HandleAgentUpdateDestination e),
     (GAME_SMSG_UPDATE_PLAYER_INFO, HandleUpdatePlayerInfo e),
     (GAME_SMSG_AGENT_DESTROY_PLAYER, HandleAgentDestroyPlayer),
     (GAME_SMSG_AGENT_CREATE_NPC, HandleAgentCreateNPC),
     (GAME_SMSG_AGENT_PINGED, HandleAgentPingeg e),
     (GAME_SMSG_AGENT_UPDATE_EFFECTS, HandleAgentUpdateEffects),
     (GAME_SMSG_NPC_UPDATE_PROPERTIES, HandleNPCUpdateProperties),
     (GAME_SMSG_NPC_UPDATE_MODEL, HandleNPCUpdateModel),
     (GAME_SMSG_PLAYER_UNLOCKED_PROFESSION, HandlePlayerUnlockedProfession),
     (GAME_SMSG_PLAYER_UPDATE_PROFESSION, HandlePlayerUpdateProfession e),
     (GAME_SMSG_AGENT_UPDATE_NPC_NAME, HandleAgentUpdateNpcName),
     (GAME_SMSG_AGENT_ATTR_UPDATE_INT, HandleAgentAttrUpdateInt e),
     (GAME_SMSG_AGENT_ATTR_UPDATE_INT_TARGET, HandleAgentAttrUpdateIntTarget),
     (GAME_SMSG_AGENT_ATTR_UPDATE_FLOAT, HandleAgentAttrUpdateFloat),
     (GAME_SMSG_AGENT_ATTR_UPDATE_FLOAT_TARGET, HandleAgentAttrUpdateFloatTarget e),
     (GAME_SMSG_AGENT_UPDATE_PROFESSION, HandleAgentUpdateProfession e),
     (GAME_SMSG_CINEMATIC_START, HandleCinematicStart e),
     (GAME_SMSG_CINEMATIC_DATA, HandleCinematicData),
     (GAME_SMSG_CINEMATIC_DATA_END, HandleCinematicDataEnd),
     (GAME_SMSG_CINEMATIC_END, HandleCinematicEnd),
     (GAME_SMSG_TRADE_REQUEST, HandleTradeRequest e),
     (GAME_SMSG_TRADE_TERMINATE, HandleTradeTerminate),
     (GAME_SMSG_TRADE_OFFERED_COUNT, HandleTradeOfferedCount),
     (GAME_SMSG_TRADE_RECEIVE_OFFER, HandleTradeReceiveOffer),
     (GAME_SMSG_TRADE_ADD_ITEM, HandleTradeAddItem e),
     (GAME_SMSG_TRADE_ACKNOWLEDGE, HandleTradeAcknowledge),
     (GAME_SMSG_TRADE_ACCEPT, HandleTradeAccept),
     (GAME_SMSG_TRADE_CHANGE_OFFER, HandleTradeChangeOffer),
     (GAME_SMSG_CHAT_MESSAGE_CORE, HandleChatMessageCore e),
     (GAME_SMSG_CHAT_MESSAGE_LOCAL, HandleChatMessageLocal e),
     (GAME_SMSG_CHAT_MESSAGE_GLOBAL, HandleChatMessageGlobal e),
     (GAME_SMSG_CHAT_MESSAGE_SERVER, HandleChatMessageServer e),
     (GAME_SMSG_PLAYER_UPDATE_FACTIONS, HandlePlayerUpdateFactions),
     (GAME_SMSG_PLAYER_FACTION_MAX_KURZICK, HandlePlayerFactionMaxKurzick),
     (GAME_SMSG_PLAYER_FACTION_MAX_LUXON, HandlePlayerFactionMaxLuxon),
     (GAME_SMSG_PLAYER_FACTION_MAX_BALTHAZAR, HandlePlayerFactionMaxBalthazar),
     (GAME_SMSG_PLAYER_FACTION_MAX_IMPERIAL, HandlePlayerFactionMaxImperial),
     (GAME_SMSG_PLAYER_FACTION_UPDATE, HandlePlayerFactionUpdate),
     (GAME_SMSG_MAPS_UNLOCKED, HandlePlayerUnlockedAreas e),
     (GAME_SMSG_SKILLBAR_UPDATE_SKILL, HandleSkillbarUpdateSkill),
     (GAME_SMSG_SKILLBAR_UPDATE, HandleSkillbarUpdate e),
     (GAME_SMSG_SKILL_ADD_TO_WINDOWS_DATA, HandleSkillAddToWindowsData),
     (GAME_SMSG_SKILL_ADD_TO_WINDOWS_END, HandleSkillAddToWindowsEnd),
     (GAME_SMSG_SKILL_ACTIVATED, HandleSkillActivated),
     (GAME_SMSG_SKILL_ACTIVATE, HandleSkillActivate),
     (GAME_SMSG_SKILL_RECHARGE, HandleSkillRecharge),
     (GAME_SMSG_SKILL_RECHARGED, HandleSkillRecharged),
     (GAME_SMSG_HERO_BEHAVIOR, HandleHeroBehavior),
     (GAME_SMSG_HERO_SKILL_STATUS, HandleHeroSkillStatus),
     (GAME_SMSG_HERO_SKILL_STATUS_BITMAP, HandleHeroSkillStatusBitmap)]"

definition game_handlers_2 :: "surroundings \<Rightarrow> (nat \<times> (nat \<Rightarrow> bytes \<Rightarrow> gw_client \<Rightarrow> fault + gw_client)) list" where
  "game_handlers_2 e = [
     (GAME_SMSG_AGENT_UPDATE_ATTRIBUTES, HandleAgentUpdateAttributes e),
     (GAME_SMSG_QUEST_DESCRIPTION, HandleQuestDescription),
     (GAME_SMSG_QUEST_GENERAL_INFO, HandleQuestGeneralInfo e),
     (GAME_SMSG_QUEST_UPDATE_MARKER, HandleQuestUpdateMarker),
     (GAME_SMSG_QUEST_REMOVE, HandleQuestRemove),
     (GAME_SMSG_TITLE_RANK_DATA, HandleTitleRankData),
     (GAME_SMSG_TITLE_RANK_DISPLAY, HandleTitleRankDisplay),
     (GAME_SMSG_TITLE_TRACK_INFO, HandleTitleTrackInfo),
     (GAME_SMSG_MISSION_INFOBOX_ADD, HandleMissionAddGoal),
     (GAME_SMSG_MISSION_OBJECTIVE_ADD, HandleMissionAddObjective),
     (GAME_SMSG_DIALOG_BUTTON, HandleDialogButton e),
     (GAME_SMSG_DIALOG_BODY, HandleDialogBody),
     (GAME_SMSG_DIALOG_SENDER, HandleDialogSender e),
     (GAME_SMSG_GUILD_PLAYER_ROLE, HandleGuildPlayerRole),
     (GAME_SMSG_GUILD_PLAYER_INFO, HandleGuildPlayerInfo e),
     (GAME_SMSG_GUILD_GENERAL_INFO, HandleGuildGeneralInfo e),
     (GAME_SMSG_GUILD_CHANGE_FACTION, HandleGuildChangeFaction),
     (GAME_SMSG_GUILD_INVITE_RECEIVED, HandleGuildInviteReceived),
     (GAME_SMSG_GUILD_PLAYER_CHANGE_COMPLETE, HandleGuildPlayerChangeComplete e),
     (GAME_SMSG_GUILD_CHANGE_PLAYER_CONTEXT, HandleGuildChangePlayerContext),
     (GAME_SMSG_GUILD_CHANGE_PLAYER_TYPE, HandleGuildChangePlayerType),
     (GAME_SMSG_GUILD_CHANGE_PLAYER_STATUS, HandleGuildChangePlayerStatus),
     (GAME_SMSG_EFFECT_UPKEEP_ADDED, HandleEffectUpkeepAdded),
     (GAME_SMSG_EFFECT_UPKEEP_REMOVED, HandleEffectUpkeepRemoved),
     (GAME_SMSG_EFFECT_UPKEEP_APPLIED, HandleEffectUpkeepApplied),
     (GAME_SMSG_EFFECT_APPLIED, HandleEffectApplied e),
     (GAME_SMSG_EFFECT_RENEWED, HandleEffectRenewed),
     (GAME_SMSG_EFFECT_REMOVED, HandleEffectRemoved),
     (GAME_SMSG_PARTY_SET_DIFFICULTY, HandlePartySetDifficulty),
     (GAME_SMSG_PARTY_HERO_ADD, HandlePartyHeroAdd e),
     (GAME_SMSG_PARTY_HERO_REMOVE, HandlePartyHeroRemove),
     (GAME_SMSG_PARTY_INVITE_ADD, HandlePartyInviteAdd),
     (GAME_SMSG_PARTY_JOIN_REQUEST, HandlePartyJoinRequest e),
     (GAME_SMSG_PARTY_INVITE_CANCEL, HandlePartyInviteCancel),
     (GAME_SMSG_PARTY_REQUEST_CANCEL, HandlePartyRequestCancel),
     (GAME_SMSG_PARTY_YOU_ARE_LEADER, HandlePartyYouAreLeader e),
     (GAME_SMSG_PARTY_PLAYER_ADD, HandlePartyPlayerAdd e),
     (GAME_SMSG_PARTY_PLAYER_REMOVE, HandlePartyPlayerRemove e),
     (GAME_SMSG_PARTY_PLAYER_READY, HandlePartyPlayerReady),
     (GAME_SMSG_PARTY_CREATE, HandlePartyCreate e),
     (GAME_SMSG_PARTY_MEMBER_STREAM_END, HandlePartyMemberStreamEnd),
     (GAME_SMSG_PARTY_DEFEATED, HandlePartyDefeated),
     (GAME_SMSG_PARTY_SEARCH_REQUEST_JOIN, HandlePartySearchRequestJoin),
     (GAME_SMSG_PARTY_SEARCH_REQUEST_DONE, HandlePartySearchRequestDone),
     (GAME_SMSG_PARTY_SEARCH_ADVERTISEMENT, HandlePartySearchAdvertisement e),
     (GAME_SMSG_PARTY_SEARCH_SEEK, HandlePartySearchSeek),
     (GAME_SMSG_PARTY_SEARCH_REMOVE, HandlePartySearchRemove e),
     (GAME_SMSG_PARTY_SEARCH_SIZE, HandlePartySearchSize e),
     (GAME_SMSG_PARTY_SEARCH_TYPE, HandlePartySearchType e)]"

definition game_handlers :: "surroundings \<Rightarrow> (nat \<times> (nat \<Rightarrow> bytes \<Rightarrow> gw_client \<Rightarrow> fault + gw_client)) list" where
  "game_handlers e = game_handlers_0 e @ game_handlers_1 e @ game_handlers_2 e"

definition AUTH_SMSG_COUNT :: nat where "AUTH_SMSG_COUNT = 39"
definition GAME_SMSG_COUNT :: nat where "GAME_SMSG_COUNT = 485"

fun register_all :: "nat list \<Rightarrow> nat option list \<Rightarrow> fault + nat option list" where
  "register_all [] d = Inr d"
| "register_all (h # hs) d = bindE (upd d h (Some h)) (register_all hs)"

definition register_handlers :: "(nat \<Rightarrow> bool) \<Rightarrow> nat \<Rightarrow> nat list \<Rightarrow> connection \<Rightarrow> fault + connection" where
  "register_handlers alloc n hs c =
     bindE (ignored (array_resize alloc None sizeof_ptr array_init n)) (\<lambda>a.
     bindE (register_all hs (arr_data a)) (\<lambda>d.
       Inr (c\<lparr>conn_handlers := a\<lparr>arr_data := d\<rparr>, conn_last_tick_time := 0\<rparr>)))"

definition AuthSrv_RegisterCallbacks :: "surroundings \<Rightarrow> connection \<Rightarrow> fault + connection" where
  "AuthSrv_RegisterCallbacks e = register_handlers (en_alloc e) AUTH_SMSG_COUNT (map fst (auth_handlers e))"

definition GameSrv_RegisterCallbacks :: "surroundings \<Rightarrow> connection \<Rightarrow> fault + connection" where
  "GameSrv_RegisterCallbacks e = register_handlers (en_alloc e) GAME_SMSG_COUNT (map fst (game_handlers e))"

section \<open>Dispatch\<close>

text \<open>
  A handler is called with the connection that is dispatched in its place in the client. The call of a
  number that was never registered cannot happen; it is a call through a null pointer.
\<close>

definition run_auth :: "surroundings \<Rightarrow> gw_client runner" where
  "run_auth e h psize p = (\<lambda>(c, conn).
     case map_of (auth_handlers e) h of None \<Rightarrow> Inl NullDeref
     | Some f \<Rightarrow> bindE (f psize p (c\<lparr>auth_srv := conn\<rparr>)) (\<lambda>c. Inr (c, auth_srv c)))"

definition run_game :: "surroundings \<Rightarrow> gw_client runner" where
  "run_game e h psize p = (\<lambda>(c, conn).
     case map_of (game_handlers e) h of None \<Rightarrow> Inl NullDeref
     | Some f \<Rightarrow> bindE (f psize p (c\<lparr>game_srv := conn\<rparr>)) (\<lambda>c. Inr (c, game_srv c)))"

definition left_game :: "gw_client \<Rightarrow> gw_client" where
  "left_game c = c\<lparr>gc_ingame := False\<rparr>"

text \<open>The system gives \<open>recv_auth\<close> and \<open>recv_game\<close>; \<open>buffer\<close> is the \<^verbatim>\<open>PacketBuffer\<close> on the stack.\<close>

definition update_auth :: "surroundings \<Rightarrow> (nat \<Rightarrow> recv_result) \<Rightarrow> bytes \<Rightarrow> gw_client \<Rightarrow> fault + gw_client" where
  "update_auth e recv buffer c =
     bindE (NetConn_Update (en_send e (conn_fd (auth_srv c))) recv (run_auth e) left_game buffer (c, auth_srv c))
       (\<lambda>((c, conn), sent). Inr (c\<lparr>auth_srv := conn, auth_wire := auth_wire c @ sent\<rparr>))"

definition update_game :: "surroundings \<Rightarrow> (nat \<Rightarrow> recv_result) \<Rightarrow> bytes \<Rightarrow> gw_client \<Rightarrow> fault + gw_client" where
  "update_game e recv buffer c =
     bindE (NetConn_Update (en_send e (conn_fd (game_srv c))) recv (run_game e) left_game buffer (c, game_srv c))
       (\<lambda>((c, conn), sent). Inr (c\<lparr>game_srv := conn, game_wire := game_wire c @ sent\<rparr>))"

section \<open>The main loop\<close>

text \<open>The name of the character is the one of the command line; a name that is not ASCII ends the loop.\<close>

definition play_selected :: "surroundings \<Rightarrow> gw_client \<Rightarrow> fault + bool \<times> gw_client" where
  "play_selected e c =
     bindE (assertE (NetConn_IsShutdown (game_srv c))) (\<lambda>_.
     bindE (kstr_read_ascii (kstr_init (replicate 20 0) 0 20) (opt_charname (en_options e)) 20) (\<lambda>(ok, name).
       if \<not> ok then Inr (False, c)
       else bindE (PlayCharacter e (Some name) (opt_online_status (en_options e)) c) (\<lambda>c. Inr (True, c))))"

definition leave_game_server :: "gw_client \<Rightarrow> gw_client" where
  "leave_game_server c =
     (if gc_state c = AwaitGameServerDisconnect \<and> NetConn_IsShutdown (game_srv c)
      then c\<lparr>gc_ingame := False, gc_loading := True, gc_state := AwaitGameServerTransfer\<rparr> else c)"

text \<open>The asynchronous operations of an iteration; the flag tells whether the loop goes on.\<close>

definition advance_state :: "surroundings \<Rightarrow> handshake_env \<Rightarrow> gw_client \<Rightarrow> fault + bool \<times> gw_client" where
  "advance_state e h c =
     bindE (if gc_state c = AwaitAccountConnect then AccountLogin e c else Inr c) (\<lambda>c.
     bindE (if gc_state c = AwaitPlayCharacter then play_selected e c else Inr (True, c)) (\<lambda>(go, c).
       if \<not> go then Inr (False, c)
       else
         let c = leave_game_server c in
         bindE (if gc_state c = AwaitGameServerTransfer \<and> NetConn_IsShutdown (game_srv c)
                then TransferGameServer e h c else Inr c) (\<lambda>c. Inr (True, c))))"

definition client_frame_update :: "surroundings \<Rightarrow> u64 \<Rightarrow> gw_client \<Rightarrow> fault + gw_client" where
  "client_frame_update e diff c =
     bindE (if 120 * 1000 \<le> en_time e - conn_last_tick_time (auth_srv c)
            then bindE (AuthSrv_HeartBeat e (en_time e) c) (\<lambda>c.
                   Inr (c\<lparr>auth_srv := (auth_srv c)\<lparr>conn_last_tick_time := en_time e\<rparr>\<rparr>))
            else Inr c) (\<lambda>c.
     bindE (if gc_ingame c \<and> 5 * 1000 \<le> en_time e - conn_last_tick_time (game_srv c)
            then bindE (GameSrv_HeartBeat e c) (\<lambda>c.
                   Inr (c\<lparr>game_srv := (game_srv c)\<lparr>conn_last_tick_time := en_time e\<rparr>\<rparr>))
            else Inr c) (\<lambda>c.
       if w_hash (gc_world c) = 0 then Inr c else set_world c (world_update (en_float e) diff (gc_world c))))"

text \<open>One iteration, with what the system received and the timers of the plugins as arguments.\<close>

definition main_iteration ::
    "surroundings \<Rightarrow> handshake_env \<Rightarrow> (nat \<Rightarrow> recv_result) \<Rightarrow> (nat \<Rightarrow> recv_result) \<Rightarrow> bytes \<Rightarrow> u64 \<Rightarrow>
     (gw_client \<Rightarrow> fault + gw_client) \<Rightarrow> gw_client \<Rightarrow> fault + bool \<times> gw_client" where
  "main_iteration e h recv_auth recv_game buffer diff process_timers c =
     bindE (advance_state e h c) (\<lambda>(go, c).
       if \<not> go then Inr (False, c)
       else
         bindE (update_auth e recv_auth buffer c) (\<lambda>c.
         bindE (update_game e recv_game buffer c) (\<lambda>c.
         bindE (client_frame_update e diff c) (\<lambda>c.
         bindE (process_timers c) (\<lambda>c. Inr (True, c))))))"

end
