(* ===== verification/Login_Progress.thy ===== *)
theory Login_Progress
  imports Main_Loop Sending
begin

unbundle bit_operations_syntax

text \<open>
  The course of a login. The frames of the main loop and the messages of the authentication server that
  arrive between them drive the state of the client; when the server answers every request with success,
  the client ends up waiting for the game server that it was told.
\<close>

section \<open>Frames and messages\<close>

datatype occurrence = Frame | Message nat bytes

fun happen :: "surroundings \<Rightarrow> handshake_env \<Rightarrow> occurrence \<Rightarrow> gw_client \<Rightarrow> fault + bool \<times> gw_client" where
  "happen e h Frame c = advance_state e h c"
| "happen e h (Message n p) c = bindE (run_auth e n (length p) p (c, auth_srv c)) (\<lambda>(c, conn). Inr (True, c))"

fun course :: "surroundings \<Rightarrow> handshake_env \<Rightarrow> occurrence list \<Rightarrow> gw_client \<Rightarrow> fault + bool \<times> gw_client" where
  "course e h [] c = Inr (True, c)"
| "course e h (x # xs) c = bindE (happen e h x c) (\<lambda>(go, c). if go then course e h xs c else Inr (False, c))"

section \<open>Reading what was written\<close>

lemma little_append: "little (a @ b) = little a + 256 ^ length a * little b"
  by (induction a) (simp_all add: algebra_simps)

lemma byte_of: "unat (ucast (drop_bit n w AND 0xff) :: u8) = unat w div 2 ^ n mod 256" for w :: "'a :: len word"
proof -
  have "(0xff :: 'a word) = mask 8" by (simp add: mask_eq_exp_minus_1)
  then have "unat (ucast (drop_bit n w AND 0xff) :: u8) = unat (ucast (take_bit 8 (drop_bit n w)) :: u8)"
    by (simp only: take_bit_eq_mask)
  also have "\<dots> = take_bit 8 (take_bit 8 (drop_bit n (unat w)))"
    using unsigned_less [where ?'a = nat, of w]
    by (simp only: unsigned_ucast_eq unsigned_take_bit_eq unsigned_drop_bit_eq) (simp add: take_bit_nat_eq_self)
  finally show ?thesis by (simp add: take_bit_eq_mod drop_bit_eq_div)
qed

lemma digits:
  "a < 65536 \<Longrightarrow> a mod 256 + 256 * (a div 256 mod 256) = a"
  "a < 4294967296 \<Longrightarrow> a mod 256 + 256 * (a div 256 mod 256 + 256 * (a div 65536 mod 256 + 256 * (a div 16777216 mod 256))) = a"
  for a :: nat
  using mod_mult2_eq [of a 256 256] mod_mult2_eq [of a 65536 65536] mod_mult2_eq [of "a div 65536" 256 256]
  by (simp_all add: div_mult2_eq [symmetric])

lemma little_le16enc [simp]: "little (le16enc w) = unat w"
proof -
  have "little (le16enc w) = unat w mod 256 + 256 * (unat w div 256 mod 256)"
    using byte_of [of 0 w] byte_of [of 8 w] by (simp add: le16enc_def)
  moreover have "unat w < 65536" using unsigned_less [where ?'a = nat, of w] by simp
  ultimately show ?thesis using digits(1) by simp
qed

lemma little_le32enc [simp]: "little (le32enc w) = unat w"
proof -
  have "little (le32enc w) = unat w mod 256 + 256 * (unat w div 256 mod 256 +
      256 * (unat w div 65536 mod 256 + 256 * (unat w div 16777216 mod 256)))"
    using byte_of [of 0 w] byte_of [of 8 w] byte_of [of 16 w] byte_of [of 24 w] by (simp add: le32enc_def)
  moreover have "unat w < 4294967296" using unsigned_less [where ?'a = nat, of w] by simp
  ultimately show ?thesis using digits(2) by simp
qed

section \<open>Requests\<close>

lemma foreach_contents: "arr_ok a \<Longrightarrow> foreach a = Inr (contents a)"
  using arr_okD [of a] by (simp add: foreach_def contents_def)

lemma issue_next_transaction_ok:
  assumes "arr_ok (gc_requests c)" "arr_size (gc_requests c) < 2 ^ 32" "\<forall>n. en_alloc e n"
  shows "\<exists>a. arr_ok a \<and> contents a = contents (gc_requests c) @ [\<lparr>ar_trans_id = next_transaction_id c + 1, ar_type = t\<rparr>] \<and>
    issue_next_transaction e t c =
      Inr (next_transaction_id c + 1, c\<lparr>gc_requests := a, next_transaction_id := next_transaction_id c + 1\<rparr>)"
proof -
  let ?z = "\<lparr>ar_trans_id = 0, ar_type = AsyncType_None\<rparr>" and ?q = "gc_requests c"
  let ?r = "\<lparr>ar_trans_id = next_transaction_id c + 1, ar_type = t\<rparr>"
  have small: "2 * (arr_size ?q + 1) * sizeof_AsyncRequest + ARRAY_MIN_CAPACITY * sizeof_AsyncRequest < SZ"
    using assms(2) by (simp add: struct_sizes ARRAY_MIN_CAPACITY_def SZ_def)
  obtain a where a: "array_push (en_alloc e) ?z sizeof_AsyncRequest ?q 1 = Inr (Some (arr_size ?q), a)" "arr_ok a"
    "arr_size a = arr_size ?q + 1" "take (arr_size ?q) (contents a) = contents ?q"
    using array_push_ok [OF assms(1) _ small assms(3), of ?z] by (auto simp: struct_sizes)
  define b where "b = a\<lparr>arr_data := (arr_data a)[arr_size ?q := ?r]\<rparr>"
  have l: "arr_size ?q < length (arr_data a)" using a(3) arr_okD [OF a(2)] by simp
  have "arr_ok b" using a(2) by (simp add: b_def arr_ok_def)
  moreover have "contents b = contents ?q @ [?r]"
    using l a(3,4) by (simp add: b_def contents_def take_Suc_conv_app_nth)
  moreover have "issue_next_transaction e t c =
      Inr (next_transaction_id c + 1, c\<lparr>gc_requests := b, next_transaction_id := next_transaction_id c + 1\<rparr>)"
    using l a(1) by (simp add: issue_next_transaction_def b_def Let_def)
  ultimately show ?thesis by blast
qed

lemma find_request_last:
  "tid \<notin> ar_trans_id ` set rs \<Longrightarrow> ar_trans_id r = tid \<Longrightarrow> find_request (rs @ [r]) tid i = Some (i + length rs)"
  by (induction rs arbitrary: i) auto

lemma take_request_last:
  assumes "arr_ok a" "contents a = rs @ [r]" "ar_trans_id r = tid" "tid \<notin> ar_trans_id ` set rs"
  shows "\<exists>b. take_request tid a = Inr (ar_type r, b) \<and> arr_ok b \<and> contents b = rs"
proof -
  have n: "arr_size a = length rs + 1"
    using length_contents [OF assms(1)] assms(2) by simp
  obtain b where "array_remove sizeof_AsyncRequest a (length rs) = Inr b" "arr_ok b" "contents b = rs"
    using array_remove_ok [OF assms(1), of sizeof_AsyncRequest "length rs"] n assms(2) by (auto simp: struct_sizes)
  then show ?thesis
    using foreach_contents [OF assms(1)] find_request_last [OF assms(4,3), of 0] assms(2)
    by (simp add: take_request_def)
qed

section \<open>Messages of the login\<close>

definition login_message :: "u32 \<Rightarrow> uuid \<Rightarrow> uuid \<Rightarrow> mval list" where
  "login_message tid user token =
     [VFix (le16enc 0x8038), VFix (le32enc tid), VFix (uuid_enc_le user), VFix (uuid_enc_le token), VStr []]"

definition ask_message :: "u32 \<Rightarrow> mval list" where
  "ask_message tid = [VFix (le16enc 0x8035), VFix (le32enc tid)]"

definition status_message :: "u32 \<Rightarrow> mval list" where
  "status_message status = [VFix (le16enc 0x800E), VFix (le32enc status)]"

definition instance_message :: "u32 \<Rightarrow> u32 \<Rightarrow> u32 \<Rightarrow> mval list" where
  "instance_message tid type map_id = [VFix (le16enc 0x8029), VFix (le32enc tid), VFix (le32enc type),
     VFix (le32enc map_id), VFix (le32enc 0), VFix (le32enc 0), VFix (le32enc 0)]"

lemma client_formats:
  "AUTH_CLIENT_FORMATS ! 56 = fmt 56 5 AUTH_CLIENT_0056 78" "AUTH_CLIENT_FORMATS ! 53 = fmt 53 2 AUTH_CLIENT_0053 6"
  "AUTH_CLIENT_FORMATS ! 14 = fmt 14 2 AUTH_CLIENT_0014 6" "AUTH_CLIENT_FORMATS ! 41 = fmt 41 7 AUTH_CLIENT_0041 26"
  by (simp_all add: AUTH_CLIENT_FORMATS_def AUTH_CLIENT_FORMATS_0_def AUTH_CLIENT_FORMATS_50_def nth_append)

lemma login_messages_ok:
  "uuid_ok u \<Longrightarrow> uuid_ok v \<Longrightarrow> msg_ok AUTH_CLIENT_0056 (login_message tid u v)"
  "msg_ok AUTH_CLIENT_0053 (ask_message tid)" "msg_ok AUTH_CLIENT_0014 (status_message status)"
  "msg_ok AUTH_CLIENT_0041 (instance_message tid type map_id)"
  by (simp_all add: packet_defs login_message_def ask_message_def status_message_def instance_message_def
    get_element_size.simps fld_def)

lemma u16s_zeros: "u16s (replicate n 0) = replicate (2 * n) 0"
  by (induction n) (simp_all add: u16s_def le16enc_def)

lemma login_messages_image:
  "struct_image AUTH_CLIENT_0056 (login_message tid u v) = NewPacket AUTH_CMSG_PORTAL_ACCOUNT_LOGIN
     (le32enc tid @ uuid_enc_le u @ uuid_enc_le v @ u16s (replicate 20 0))"
  "struct_image AUTH_CLIENT_0053 (ask_message tid) = NewPacket AUTH_CMSG_ASK_SERVER_RESPONSE (le32enc tid)"
  "struct_image AUTH_CLIENT_0014 (status_message status) = NewPacket AUTH_CMSG_SET_PLAYER_STATUS (le32enc status)"
  "struct_image AUTH_CLIENT_0041 (instance_message tid type map_id) = NewPacket AUTH_CMSG_REQUEST_GAME_INSTANCE
     (le32enc tid @ le32enc type @ le32enc map_id @ le32enc 0 @ le32enc 0 @ le32enc 0)"
  by (simp_all add: packet_defs login_message_def ask_message_def status_message_def instance_message_def
    NewPacket_def u16s_zeros padded_def AUTH_CMSG_PORTAL_ACCOUNT_LOGIN_def AUTH_CMSG_ASK_SERVER_RESPONSE_def
    AUTH_CMSG_SET_PLAYER_STATUS_def AUTH_CMSG_REQUEST_GAME_INSTANCE_def)

text \<open>The authentication connection can take \<open>n\<close> more bytes.\<close>

definition can_queue :: "nat \<Rightarrow> gw_client \<Rightarrow> bool" where
  "can_queue n c \<longleftrightarrow> conn_client_msg_format (auth_srv c) = AUTH_CLIENT_FORMATS \<and>
     conn_flags (auth_srv c) AND NETCONN_REMOVE = 0 \<and> arr_ok (conn_out (auth_srv c)) \<and>
     arr_size (conn_out (auth_srv c)) + n \<le> arr_capacity (conn_out (auth_srv c))"

definition queued :: "gw_client \<Rightarrow> bytes" where
  "queued c = contents (conn_out (auth_srv c))"

lemma send_auth_ok:
  assumes "can_queue n c" "length (wire vs) \<le> n" "AUTH_CLIENT_FORMATS ! k = fmt k j fs (length (struct_image fs vs))"
    and "k < length AUTH_CLIENT_FORMATS" "msg_ok fs vs" "rows_step_ok fs vs"
    and "hd vs = VFix (le16enc h)" "unat (h AND 0x7FFF) = k"
  shows "\<exists>a. send_auth e (struct_image fs vs) c = Inr (c\<lparr>auth_srv := (auth_srv c)\<lparr>conn_out := a\<rparr>\<rparr>) \<and>
    can_queue (n - length (wire vs)) (c\<lparr>auth_srv := (auth_srv c)\<lparr>conn_out := a\<rparr>\<rparr>) \<and>
    contents a = queued c @ wire vs"
proof -
  let ?m = "fmt k j fs (length (struct_image fs vs))"
  have "format_ok k ?m" using table_ok_nth [OF table_ok_AUTH_CLIENT_FORMATS assms(4)] assms(3) by simp
  moreover have "vs \<noteq> []" using assms(5) \<open>format_ok k ?m\<close> by (cases vs; cases fs) (auto simp: format_ok_def fmt_def)
  then obtain vs' where vs: "vs = VFix (le16enc h) # vs'" using assms(7) by (cases vs) auto
  ultimately have "sendable (auth_srv c) (?m, vs)"
    using assms by (auto simp: sendable_def can_queue_def fmt_def)
  from SendPacket_append [OF this, of "en_send e (conn_fd (auth_srv c))" "[]"]
  obtain a where a: "arr_ok a" "contents a = queued c @ wire vs" "arr_capacity a = arr_capacity (conn_out (auth_srv c))"
    "SendPacket (en_send e (conn_fd (auth_srv c))) (auth_srv c) (length (struct_image fs vs)) (struct_image fs vs) =
      Inr ((auth_srv c)\<lparr>conn_out := a\<rparr>, [])"
    using assms(1,2) by (auto simp: can_queue_def queued_def fmt_def)
  have "arr_size a = arr_size (conn_out (auth_srv c)) + length (wire vs)"
    using length_contents [OF a(1)] length_contents [of "conn_out (auth_srv c)"] a(2) assms(1)
    by (simp add: can_queue_def queued_def)
  then have "can_queue (n - length (wire vs)) (c\<lparr>auth_srv := (auth_srv c)\<lparr>conn_out := a\<rparr>\<rparr>)"
    using a(1,3) assms(1,2) by (simp add: can_queue_def)
  moreover have "send_auth e (struct_image fs vs) c = Inr (c\<lparr>auth_srv := (auth_srv c)\<lparr>conn_out := a\<rparr>\<rparr>)"
    using a(4) by (simp add: send_auth_def)
  ultimately show ?thesis using a(2) by blast
qed

lemma login_messages_wire:
  "uuid_ok u \<Longrightarrow> uuid_ok v \<Longrightarrow> length (wire (login_message tid u v)) = 40"
  "length (wire (ask_message tid)) = 6" "length (wire (status_message s)) = 6"
  "length (wire (instance_message tid type m)) = 26"
  by (simp_all add: login_message_def ask_message_def status_message_def instance_message_def)

lemma login_messages_size:
  "uuid_ok u \<Longrightarrow> uuid_ok v \<Longrightarrow> length (struct_image AUTH_CLIENT_0056 (login_message tid u v)) = 78"
  "length (struct_image AUTH_CLIENT_0053 (ask_message tid)) = 6"
  "length (struct_image AUTH_CLIENT_0014 (status_message s)) = 6"
  "length (struct_image AUTH_CLIENT_0041 (instance_message tid type m)) = 26"
  by (simp_all add: login_messages_image NewPacket_def u16s_zeros)

lemma client_formats_length: "56 < length AUTH_CLIENT_FORMATS"
  by (simp add: AUTH_CLIENT_FORMATS_def AUTH_CLIENT_FORMATS_0_def AUTH_CLIENT_FORMATS_50_def)

lemma rows_step_ok_no_rows: "list_all (\<lambda>v. case v of VRows _ \<Rightarrow> False | _ \<Rightarrow> True) vs \<Longrightarrow> rows_step_ok fs vs"
proof (induction vs arbitrary: fs)
  case (Cons v vs)
  then show ?case by (cases v; cases fs) auto
qed simp

lemma header_of_login:
  "unat ((0x8038 :: u16) AND 0x7FFF) = 56" "unat ((0x8035 :: u16) AND 0x7FFF) = 53"
  "unat ((0x800E :: u16) AND 0x7FFF) = 14" "unat ((0x8029 :: u16) AND 0x7FFF) = 41"
  by simp_all

lemma login_messages_shape:
  "hd (login_message tid u v) = VFix (le16enc 0x8038)" "hd (ask_message tid) = VFix (le16enc 0x8035)"
  "hd (status_message s) = VFix (le16enc 0x800E)" "hd (instance_message tid type m) = VFix (le16enc 0x8029)"
  "rows_step_ok fs (login_message tid u v)" "rows_step_ok fs (ask_message tid)"
  "rows_step_ok fs (status_message s)" "rows_step_ok fs (instance_message tid type m)"
  by (simp_all add: rows_step_ok_no_rows login_message_def ask_message_def status_message_def instance_message_def)

lemmas login_messages = login_messages_ok login_messages_size login_messages_wire client_formats header_of_login
  login_messages_shape client_formats_length

lemma queue_login:
  assumes "can_queue n c" "40 \<le> n" "uuid_ok u" "uuid_ok v"
  shows "\<exists>a. send_auth e (NewPacket AUTH_CMSG_PORTAL_ACCOUNT_LOGIN
      (le32enc tid @ uuid_enc_le u @ uuid_enc_le v @ u16s (replicate 20 0))) c =
      Inr (c\<lparr>auth_srv := (auth_srv c)\<lparr>conn_out := a\<rparr>\<rparr>) \<and>
    can_queue (n - 40) (c\<lparr>auth_srv := (auth_srv c)\<lparr>conn_out := a\<rparr>\<rparr>) \<and>
    contents a = queued c @ wire (login_message tid u v)"
  using send_auth_ok [of n c "login_message tid u v" 56 5 AUTH_CLIENT_0056 "0x8038" e] assms login_messages
  by (simp add: login_messages_image)

lemma queue_ask:
  assumes "can_queue n c" "6 \<le> n"
  shows "\<exists>a. AuthSrv_AskServerResponse e tid c = Inr (c\<lparr>auth_srv := (auth_srv c)\<lparr>conn_out := a\<rparr>\<rparr>) \<and>
    can_queue (n - 6) (c\<lparr>auth_srv := (auth_srv c)\<lparr>conn_out := a\<rparr>\<rparr>) \<and>
    contents a = queued c @ wire (ask_message tid)"
  using send_auth_ok [of n c "ask_message tid" 53 2 AUTH_CLIENT_0053 "0x8035" e] assms login_messages
  by (simp add: login_messages_image AuthSrv_AskServerResponse_def)

lemma queue_status:
  assumes "can_queue n c" "6 \<le> n"
  shows "\<exists>a. AuthSrv_SetPlayerStatus e status c = Inr (c\<lparr>auth_srv := (auth_srv c)\<lparr>conn_out := a\<rparr>\<rparr>) \<and>
    can_queue (n - 6) (c\<lparr>auth_srv := (auth_srv c)\<lparr>conn_out := a\<rparr>\<rparr>) \<and>
    contents a = queued c @ wire (status_message status)"
  using send_auth_ok [of n c "status_message status" 14 2 AUTH_CLIENT_0014 "0x800E" e] assms login_messages
  by (simp add: login_messages_image AuthSrv_SetPlayerStatus_def)

lemma queue_instance:
  assumes "can_queue n c" "26 \<le> n"
  shows "\<exists>a. AuthSrv_RequestInstance e tid m type 0 0 0 c =
      Inr (c\<lparr>gc_state := AwaitGameServerInfo, auth_srv := (auth_srv c)\<lparr>conn_out := a\<rparr>\<rparr>) \<and>
    contents a = queued c @ wire (instance_message tid type m)"
  using send_auth_ok [of n "c\<lparr>gc_state := AwaitGameServerInfo\<rparr>" "instance_message tid type m" 41 7
      AUTH_CLIENT_0041 "0x8029" e] assms login_messages
  by (auto simp: login_messages_image AuthSrv_RequestInstance_def can_queue_def queued_def)

section \<open>Messages that arrive\<close>

definition response :: "u32 \<Rightarrow> u32 \<Rightarrow> occurrence" where
  "response tid code = Message AUTH_SMSG_REQUEST_RESPONSE (NewPacket AUTH_SMSG_REQUEST_RESPONSE (le32enc tid @ le32enc code))"

definition server_info :: "u32 \<Rightarrow> u32 \<Rightarrow> u32 \<Rightarrow> bytes \<Rightarrow> u32 \<Rightarrow> occurrence" where
  "server_info tid world map_id host player = Message AUTH_SMSG_GAME_SERVER_INFO (NewPacket AUTH_SMSG_GAME_SERVER_INFO
     (le32enc tid @ le32enc world @ le32enc map_id @ host @ le32enc player))"

lemma get_u32: "member_bytes en n p = le32enc w \<Longrightarrow> get en n p = w"
  by (simp add: get_def)

lemma happen_response:
  "happen e h (response tid code) c = bindE (request_response e tid code c) (\<lambda>c. Inr (True, c))"
proof -
  let ?p = "NewPacket AUTH_SMSG_REQUEST_RESPONSE (le32enc tid @ le32enc code)"
  have g: "get HandleRequestResponse_entry ''trans_id'' ?p = tid" "get HandleRequestResponse_entry ''code'' ?p = code"
    by (rule get_u32; simp add: member_bytes_def HandleRequestResponse_entry_def check_of_def mem_def NewPacket_def)+
  have "header_of ?p = AUTH_SMSG_REQUEST_RESPONSE" by (simp add: header_of_def NewPacket_def AUTH_SMSG_REQUEST_RESPONSE_def)
  then have "handler_entered HandleRequestResponse_entry (header_of ?p) (length ?p) = Inr ()"
    by (simp add: handler_entered_def HandleRequestResponse_entry_def check_of_def mem_def NewPacket_def)
  moreover have "map_of (auth_handlers e) AUTH_SMSG_REQUEST_RESPONSE = Some (HandleRequestResponse e)"
    by (simp add: auth_handlers_def)
  ultimately show ?thesis
    by (simp add: response_def run_auth_def HandleRequestResponse_def entered_def g Let_def bindE_assoc)
qed

lemma happen_server_info:
  assumes "length host = 24"
  shows "happen e h (server_info tid world map_id host player) c =
    bindE (assertE (gc_state c = AwaitGameServerInfo)) (\<lambda>_.
    bindE (start_loading_new_zone e (host_of host) map_id world player c) (\<lambda>c. Inr (True, c)))"
proof -
  let ?p = "NewPacket AUTH_SMSG_GAME_SERVER_INFO (le32enc tid @ le32enc world @ le32enc map_id @ host @ le32enc player)"
  let ?en = HandleGameServerInfo_entry
  have g: "get ?en ''world_id'' ?p = world" "get ?en ''map_id'' ?p = map_id" "get ?en ''player_id'' ?p = player"
    by (rule get_u32; simp add: assms member_bytes_def HandleGameServerInfo_entry_def check_of_def mem_def arr_def NewPacket_def)+
  have m: "member_bytes ?en ''host'' ?p = host" using assms
    by (simp add: member_bytes_def HandleGameServerInfo_entry_def check_of_def mem_def arr_def NewPacket_def)
  have "header_of ?p = AUTH_SMSG_GAME_SERVER_INFO" by (simp add: header_of_def NewPacket_def AUTH_SMSG_GAME_SERVER_INFO_def)
  then have "handler_entered ?en (header_of ?p) (length ?p) = Inr ()" using assms
    by (simp add: handler_entered_def HandleGameServerInfo_entry_def check_of_def mem_def arr_def NewPacket_def)
  moreover have "map_of (auth_handlers e) AUTH_SMSG_GAME_SERVER_INFO = Some (HandleGameServerInfo e)"
    by (simp add: auth_handlers_def AUTH_SMSG_GAME_SERVER_INFO_def AUTH_SMSG_REQUEST_RESPONSE_def AUTH_SMSG_SERVER_RESPONSE_def
      AUTH_SMSG_SESSION_INFO_def AUTH_SMSG_ACCOUNT_INFO_def AUTH_SMSG_CHARACTER_INFO_def)
  ultimately show ?thesis
    by (simp add: server_info_def run_auth_def HandleGameServerInfo_def entered_def g m Let_def bindE_assoc)
qed

section \<open>Steps\<close>

lemma frame_login:
  assumes "gc_state c = AwaitAccountConnect" "opt_newauth (en_options e)" "\<forall>n. en_alloc e n"
    and "arr_ok (gc_requests c)" "arr_size (gc_requests c) < 2 ^ 32" "can_queue n c" "40 \<le> n"
    and "uuid_ok (portal_user_id c)" "uuid_ok (portal_token c)" "k_length (gc_charname c) \<le> 20"
  shows "\<exists>q a. happen e h Frame c = Inr (True, c\<lparr>auth_srv := (auth_srv c)\<lparr>conn_out := a\<rparr>,
      gc_state := AwaitAccountConnection, next_transaction_id := next_transaction_id c + 1, gc_requests := q\<rparr>) \<and>
    arr_ok q \<and> contents q = contents (gc_requests c) @
      [\<lparr>ar_trans_id = next_transaction_id c + 1, ar_type = AsyncType_AccountLogin\<rparr>] \<and>
    can_queue (n - 40) (c\<lparr>auth_srv := (auth_srv c)\<lparr>conn_out := a\<rparr>\<rparr>) \<and>
    contents a = queued c @ wire (login_message (next_transaction_id c + 1) (portal_user_id c) (portal_token c))"
proof -
  let ?tid = "next_transaction_id c + 1"
  obtain q where q: "arr_ok q" "contents q = contents (gc_requests c) @ [\<lparr>ar_trans_id = ?tid, ar_type = AsyncType_AccountLogin\<rparr>]"
    "issue_next_transaction e AsyncType_AccountLogin c = Inr (?tid, c\<lparr>gc_requests := q, next_transaction_id := ?tid\<rparr>)"
    using issue_next_transaction_ok [OF assms(4,5,3)] by blast
  let ?c = "c\<lparr>gc_requests := q, next_transaction_id := ?tid\<rparr>"
  have "can_queue n ?c" using assms(6) by (simp add: can_queue_def)
  then obtain a where a: "contents a = queued ?c @ wire (login_message ?tid (portal_user_id c) (portal_token c))"
    "can_queue (n - 40) (?c\<lparr>auth_srv := (auth_srv ?c)\<lparr>conn_out := a\<rparr>\<rparr>)"
    "send_auth e (NewPacket AUTH_CMSG_PORTAL_ACCOUNT_LOGIN (le32enc ?tid @ uuid_enc_le (portal_user_id c) @
      uuid_enc_le (portal_token c) @ u16s (replicate 20 0))) ?c = Inr (?c\<lparr>auth_srv := (auth_srv ?c)\<lparr>conn_out := a\<rparr>\<rparr>)"
    using queue_login [of n ?c] assms(7-9) by blast
  have "AccountLogin e c = Inr (?c\<lparr>auth_srv := (auth_srv c)\<lparr>conn_out := a\<rparr>, gc_state := AwaitAccountConnection\<rparr>)"
    using assms(1,2,10) q(3) a(3) by (simp add: AccountLogin_def PortalAccountConnect_def)
  then have "happen e h Frame c = Inr (True, c\<lparr>auth_srv := (auth_srv c)\<lparr>conn_out := a\<rparr>,
      gc_state := AwaitAccountConnection, next_transaction_id := ?tid, gc_requests := q\<rparr>)"
    using assms(1) by (simp add: advance_state_def leave_game_server_def Let_def)
  moreover have "can_queue (n - 40) (c\<lparr>auth_srv := (auth_srv c)\<lparr>conn_out := a\<rparr>\<rparr>)" "contents a = queued c @
      wire (login_message ?tid (portal_user_id c) (portal_token c))"
    using a(1,2) by (simp_all add: can_queue_def queued_def)
  ultimately show ?thesis using q(1,2) by blast
qed

lemma response_taken:
  assumes "arr_ok (gc_requests c)" "contents (gc_requests c) = rs @ [r]" "tid \<notin> ar_trans_id ` set rs"
    and "ar_trans_id r = tid" "\<And>c. en_broadcast e (EventType_AuthError code (ar_type r)) c = Inr c"
  shows "\<exists>q. arr_ok q \<and> contents q = rs \<and>
    happen e h (response tid code) c = bindE (continue_request e (ar_type r) code (c\<lparr>gc_requests := q\<rparr>)) (\<lambda>c. Inr (True, c))"
proof -
  obtain q where "take_request tid (gc_requests c) = Inr (ar_type r, q)" "arr_ok q" "contents q = rs"
    using take_request_last [OF assms(1,2,4,3)] by blast
  then show ?thesis
    by (intro exI [of _ q]) (simp add: happen_response request_response_def broadcast_def assms(5))
qed

lemma response_login:
  assumes "gc_state c = AwaitAccountConnection" "\<forall>n. en_alloc e n" "can_queue n c" "6 \<le> n"
    and "arr_ok (gc_requests c)" "arr_size (gc_requests c) < 2 ^ 32" "tid \<notin> ar_trans_id ` set rs"
    and "contents (gc_requests c) = rs @ [\<lparr>ar_trans_id = tid, ar_type = AsyncType_AccountLogin\<rparr>]"
    and "\<And>t c. en_broadcast e (EventType_AuthError 0 t) c = Inr c"
  shows "\<exists>q a. happen e h (response tid 0) c = Inr (True, c\<lparr>auth_srv := (auth_srv c)\<lparr>conn_out := a\<rparr>,
      gc_state := AwaitHardwareInfoReply, next_transaction_id := next_transaction_id c + 1, gc_requests := q\<rparr>) \<and>
    arr_ok q \<and> contents q = rs @ [\<lparr>ar_trans_id = next_transaction_id c + 1, ar_type = AsyncType_SendHardwareInfo\<rparr>] \<and>
    can_queue (n - 6) (c\<lparr>auth_srv := (auth_srv c)\<lparr>conn_out := a\<rparr>\<rparr>) \<and>
    contents a = queued c @ wire (ask_message (next_transaction_id c + 1))"
proof -
  let ?tid = "next_transaction_id c + 1"
  obtain p where p: "arr_ok p" "contents p = rs" "happen e h (response tid 0) c =
      bindE (ContinueAccountLogin e 0 (c\<lparr>gc_requests := p\<rparr>)) (\<lambda>c. Inr (True, c))"
    using response_taken [OF assms(5,8,7), of e 0 h] assms(9) by auto
  have "arr_size p < 2 ^ 32"
    using length_contents [OF p(1)] length_contents [OF assms(5)] assms(6,8) p(2) by simp
  then obtain q where q: "arr_ok q" "contents q = rs @ [\<lparr>ar_trans_id = ?tid, ar_type = AsyncType_SendHardwareInfo\<rparr>]"
    "issue_next_transaction e AsyncType_SendHardwareInfo (c\<lparr>gc_requests := p\<rparr>) =
      Inr (?tid, c\<lparr>gc_requests := q, next_transaction_id := ?tid\<rparr>)"
    using issue_next_transaction_ok [of "c\<lparr>gc_requests := p\<rparr>" e AsyncType_SendHardwareInfo] p(1,2) assms(2) by auto
  let ?c = "c\<lparr>gc_requests := q, next_transaction_id := ?tid, gc_state := AwaitHardwareInfoReply\<rparr>"
  have "can_queue n ?c" using assms(3) by (simp add: can_queue_def)
  then obtain a where a: "contents a = queued ?c @ wire (ask_message ?tid)"
    "can_queue (n - 6) (?c\<lparr>auth_srv := (auth_srv ?c)\<lparr>conn_out := a\<rparr>\<rparr>)"
    "AuthSrv_AskServerResponse e ?tid ?c = Inr (?c\<lparr>auth_srv := (auth_srv ?c)\<lparr>conn_out := a\<rparr>\<rparr>)"
    using queue_ask [of n ?c] assms(4) by blast
  have "happen e h (response tid 0) c = Inr (True, c\<lparr>auth_srv := (auth_srv c)\<lparr>conn_out := a\<rparr>,
      gc_state := AwaitHardwareInfoReply, next_transaction_id := ?tid, gc_requests := q\<rparr>)"
    using assms(1) p(3) q(3) a(3) by (simp add: ContinueAccountLogin_def)
  moreover have "can_queue (n - 6) (c\<lparr>auth_srv := (auth_srv c)\<lparr>conn_out := a\<rparr>\<rparr>)"
    "contents a = queued c @ wire (ask_message ?tid)"
    using a(1,2) by (simp_all add: can_queue_def queued_def)
  ultimately show ?thesis using q(1,2) by blast
qed

lemma response_hardware:
  assumes "gc_state c = AwaitHardwareInfoReply" "arr_ok (gc_requests c)" "tid \<notin> ar_trans_id ` set rs"
    and "contents (gc_requests c) = rs @ [\<lparr>ar_trans_id = tid, ar_type = AsyncType_SendHardwareInfo\<rparr>]"
    and "\<And>t c. en_broadcast e (EventType_AuthError 0 t) c = Inr c"
  shows "\<exists>q. happen e h (response tid 0) c =
      Inr (True, c\<lparr>gc_requests := q, gc_state := AwaitPlayCharacter, gc_connected := True\<rparr>) \<and>
    arr_ok q \<and> contents q = rs"
  using response_taken [OF assms(2,4,3), of e 0 h] assms(1,5) by (auto simp: ContinueSendHardwareInfo_def)

text \<open>The map that is asked for, and its type: the command line's, else those of the character.\<close>

definition wanted_map :: "surroundings \<Rightarrow> character \<Rightarrow> u32" where
  "wanted_map e ch = (case opt_map_id (en_options e) of Some m \<Rightarrow> m | None \<Rightarrow> last_outpost ch)"

definition wanted_type :: "surroundings \<Rightarrow> character \<Rightarrow> fault + u32" where
  "wanted_type e ch = (case opt_map_type (en_options e) of Some t \<Rightarrow> Inr t
     | None \<Rightarrow> find_map_type_from_map_id (wanted_map e ch))"

text \<open>The selected character has the name of the command line.\<close>

definition selected :: "surroundings \<Rightarrow> gw_client \<Rightarrow> character \<Rightarrow> bool" where
  "selected e c ch \<longleftrightarrow> arr_ok (gc_characters c) \<and> current_character_idx c < arr_size (gc_characters c) \<and>
     contents (gc_characters c) ! current_character_idx c = ch \<and> kstr_ok (ch_name ch) \<and>
     (case strnlen (opt_charname (en_options e)) 20 of Inl _ \<Rightarrow> False
      | Inr n \<Rightarrow> n < 20 \<and> list_all ascii (take n (opt_charname (en_options e))) \<and>
          n \<le> length (opt_charname (en_options e)) \<and>
          kstr_text (ch_name ch) = map ucast (take n (opt_charname (en_options e))))"

lemma GetCharacter_selected: "selected e c ch \<Longrightarrow> GetCharacter c (current_character_idx c) = Inr (Some ch)"
  using arr_okD [of "gc_characters c"]
  by (auto simp: selected_def GetCharacter_def array_at_def contents_def)

lemma read_charname:
  assumes "selected e c ch"
  obtains name r where "kstr_read_ascii (kstr_init (replicate 20 0) 0 20) (opt_charname (en_options e)) 20 = Inr (True, name)"
    "kstr_compare (ch_name ch) name = Inr 0"
proof -
  let ?s = "opt_charname (en_options e)"
  obtain n where n: "strnlen ?s 20 = Inr n" "n < 20" "n \<le> length ?s" "list_all ascii (take n ?s)"
    "kstr_text (ch_name ch) = map ucast (take n ?s)"
    using assms by (auto simp: selected_def split: sum.splits)
  let ?b = "overlay (replicate 20 0) 0 (map ucast (take n ?s)) :: u16 list"
  have "read_ascii_from ?s (length (take n ?s)) 0 (replicate 20 0) = Inr (True, ?b)"
    using n by (intro read_ascii_from_ok [of _ _ _ _ "[]" "drop n ?s"]) auto
  then have r: "read_ascii_from ?s n 0 (replicate 20 0) = Inr (True, ?b)" using n(3) by simp
  define name where "name = \<lparr>k_length = n, k_capacity = 20, k_buffer = ?b\<rparr>"
  have rd: "kstr_read_ascii (kstr_init (replicate 20 0) 0 20) ?s 20 = Inr (True, name)"
    using n(1,2) r by (simp add: kstr_read_ascii_def kstr_init_def name_def)
  have ok: "kstr_ok name" "kstr_ok (ch_name ch)"
    using n(2,3) assms by (simp_all add: kstr_ok_def name_def selected_def)
  have "kstr_text name = kstr_text (ch_name ch)" using n(3,5) by (simp add: kstr_text_def name_def overlay_def)
  then have "kstr_compare (ch_name ch) name = Inr 0"
    using kstr_compare_ok [OF ok(2,1)] by metis
  with rd show ?thesis by (rule that)
qed

lemma status_sent:
  assumes "can_queue n c" "6 \<le> n"
  shows "\<exists>a. (if gc_player_status c \<noteq> status
      then bindE (AuthSrv_SetPlayerStatus e status c) (\<lambda>c. Inr (c\<lparr>gc_player_status := status\<rparr>)) else Inr c) =
      Inr (c\<lparr>auth_srv := (auth_srv c)\<lparr>conn_out := a\<rparr>, gc_player_status := status\<rparr>) \<and>
    can_queue (n - 6) (c\<lparr>auth_srv := (auth_srv c)\<lparr>conn_out := a\<rparr>\<rparr>) \<and>
    contents a = queued c @ (if gc_player_status c = status then [] else wire (status_message status))"
proof (cases "gc_player_status c = status")
  case True
  then show ?thesis using assms
    by (intro exI [of _ "conn_out (auth_srv c)"]) (auto simp: can_queue_def queued_def)
next
  case False
  then show ?thesis using queue_status [OF assms, of e status] by auto
qed

lemma frame_play:
  assumes "gc_state c = AwaitPlayCharacter" "\<forall>n. en_alloc e n" "can_queue n c" "32 \<le> n"
    and "arr_ok (gc_requests c)" "arr_size (gc_requests c) < 2 ^ 32" "NetConn_IsShutdown (game_srv c)"
    and "selected e c ch" "wanted_type e ch = Inr type"
  shows "\<exists>q a. happen e h Frame c = Inr (True, c\<lparr>auth_srv := (auth_srv c)\<lparr>conn_out := a\<rparr>, gc_state := AwaitGameServerInfo,
      gc_try_changing_zone := True, next_transaction_id := next_transaction_id c + 1, gc_requests := q,
      gc_player_status := opt_online_status (en_options e)\<rparr>) \<and>
    arr_ok q \<and> contents q = contents (gc_requests c) @
      [\<lparr>ar_trans_id = next_transaction_id c + 1, ar_type = AsyncType_PlayCharacter\<rparr>] \<and>
    contents a = queued c @ (if gc_player_status c = opt_online_status (en_options e) then []
      else wire (status_message (opt_online_status (en_options e)))) @
      wire (instance_message (next_transaction_id c + 1) type (wanted_map e ch))"
proof -
  let ?tid = "next_transaction_id c + 1" and ?st = "opt_online_status (en_options e)"
  have six: "6 \<le> n" using assms(4) by simp
  obtain b where b: "(if gc_player_status c \<noteq> ?st
      then bindE (AuthSrv_SetPlayerStatus e ?st c) (\<lambda>c. Inr (c\<lparr>gc_player_status := ?st\<rparr>)) else Inr c) =
      Inr (c\<lparr>auth_srv := (auth_srv c)\<lparr>conn_out := b\<rparr>, gc_player_status := ?st\<rparr>)"
    "can_queue (n - 6) (c\<lparr>auth_srv := (auth_srv c)\<lparr>conn_out := b\<rparr>\<rparr>)"
    "contents b = queued c @ (if gc_player_status c = ?st then [] else wire (status_message ?st))"
    using status_sent [OF assms(3) six, where e = e and status = ?st] by blast
  obtain name where nm: "kstr_read_ascii (kstr_init (replicate 20 0) 0 20) (opt_charname (en_options e)) 20 = Inr (True, name)"
    "kstr_compare (ch_name ch) name = Inr 0"
    using read_charname [OF assms(8)] by blast
  let ?c = "c\<lparr>auth_srv := (auth_srv c)\<lparr>conn_out := b\<rparr>, gc_player_status := ?st\<rparr>"
  have ch: "GetCharacter (c\<lparr>auth_srv := x, gc_player_status := ?st\<rparr>) (current_character_idx c) = Inr (Some ch)"
    "GetCharacter (c\<lparr>auth_srv := x, gc_player_status := ?st, gc_state := s, gc_try_changing_zone := z,
      gc_requests := r, next_transaction_id := i\<rparr>) (current_character_idx c) = Inr (Some ch)" for x s z r i
    using GetCharacter_selected [OF assms(8)] by (auto simp: GetCharacter_def split: if_splits)
  let ?d = "?c\<lparr>gc_state := AwaitChangeCharacter, gc_try_changing_zone := True\<rparr>"
  obtain q where q: "arr_ok q" "contents q = contents (gc_requests c) @ [\<lparr>ar_trans_id = ?tid, ar_type = AsyncType_PlayCharacter\<rparr>]"
    "issue_next_transaction e AsyncType_PlayCharacter ?d = Inr (?tid, ?d\<lparr>gc_requests := q, next_transaction_id := ?tid\<rparr>)"
    using issue_next_transaction_ok [of ?d e AsyncType_PlayCharacter] assms(2,5,6) by auto
  let ?f = "?d\<lparr>gc_requests := q, next_transaction_id := ?tid\<rparr>"
  have "can_queue (n - 6) ?f" "26 \<le> n - 6" using b(2) assms(4) by (simp_all add: can_queue_def)
  then obtain a where a: "AuthSrv_RequestInstance e ?tid (wanted_map e ch) type 0 0 0 ?f =
      Inr (?f\<lparr>gc_state := AwaitGameServerInfo, auth_srv := (auth_srv ?f)\<lparr>conn_out := a\<rparr>\<rparr>)"
    "contents a = queued ?f @ wire (instance_message ?tid type (wanted_map e ch))"
    using queue_instance [of "n - 6" ?f] by blast
  have p: "ContinuePlayCharacter e 0 (?c\<lparr>gc_state := AwaitChangeCharacter\<rparr>) =
      Inr (?f\<lparr>gc_state := AwaitGameServerInfo, auth_srv := (auth_srv ?f)\<lparr>conn_out := a\<rparr>\<rparr>)"
    using a(1) q(3) ch assms(9)
    by (simp add: ContinuePlayCharacter_def begin_travel_def wanted_map_def wanted_type_def split: option.splits)
  have "ChangeCharacter e (Some name) ?c = Inr (False, ?c)"
    using ch(1) nm(2) by (simp add: ChangeCharacter_def)
  then have "PlayCharacter e (Some name) ?st c =
      Inr (?f\<lparr>gc_state := AwaitGameServerInfo, auth_srv := (auth_srv ?f)\<lparr>conn_out := a\<rparr>\<rparr>)"
    unfolding PlayCharacter_def using assms(1) b(1) p by simp
  then have "happen e h Frame c = Inr (True, c\<lparr>auth_srv := (auth_srv c)\<lparr>conn_out := a\<rparr>, gc_state := AwaitGameServerInfo,
      gc_try_changing_zone := True, next_transaction_id := ?tid, gc_requests := q, gc_player_status := ?st\<rparr>)"
    using assms(1,7) nm(1) by (simp add: advance_state_def play_selected_def leave_game_server_def Let_def)
  moreover have "contents a = queued c @ (if gc_player_status c = ?st then [] else wire (status_message ?st)) @
      wire (instance_message ?tid type (wanted_map e ch))"
    using a(2) b(3) by (simp add: queued_def)
  ultimately show ?thesis using q(1,2) by blast
qed

section \<open>The course of a login\<close>

lemma login_accepted:
  assumes "gc_state c = AwaitAccountConnect" "opt_newauth (en_options e)" "\<forall>n. en_alloc e n"
    and "\<And>t c. en_broadcast e (EventType_AuthError 0 t) c = Inr c"
    and "arr_ok (gc_requests c)" "arr_size (gc_requests c) < 2 ^ 31" "can_queue 78 c"
    and "next_transaction_id c + 1 \<notin> ar_trans_id ` set (contents (gc_requests c))"
      "next_transaction_id c + 2 \<notin> ar_trans_id ` set (contents (gc_requests c))"
    and "uuid_ok (portal_user_id c)" "uuid_ok (portal_token c)" "k_length (gc_charname c) \<le> 20"
  shows "\<exists>q a. course e h [Frame, response (next_transaction_id c + 1) 0, response (next_transaction_id c + 2) 0] c =
      Inr (True, c\<lparr>auth_srv := (auth_srv c)\<lparr>conn_out := a\<rparr>, next_transaction_id := next_transaction_id c + 2,
        gc_requests := q, gc_state := AwaitPlayCharacter, gc_connected := True\<rparr>) \<and>
    arr_ok q \<and> contents q = contents (gc_requests c) \<and>
    can_queue 32 (c\<lparr>auth_srv := (auth_srv c)\<lparr>conn_out := a\<rparr>\<rparr>) \<and>
    contents a = queued c @ wire (login_message (next_transaction_id c + 1) (portal_user_id c) (portal_token c)) @
      wire (ask_message (next_transaction_id c + 2))"
proof -
  let ?n = "next_transaction_id c" and ?rs = "contents (gc_requests c)"
  have len: "arr_size q = length (contents q)" if "arr_ok q" for q :: "async_request carray"
    using length_contents [OF that] by simp
  have small: "length ?rs < 2 ^ 31" using len [OF assms(5)] assms(6) by simp
  have small32: "arr_size (gc_requests c) < 2 ^ 32" "40 \<le> (78 :: nat)" using assms(6) by simp_all
  obtain q1 a1 where s1: "happen e h Frame c = Inr (True, c\<lparr>auth_srv := (auth_srv c)\<lparr>conn_out := a1\<rparr>,
      gc_state := AwaitAccountConnection, next_transaction_id := ?n + 1, gc_requests := q1\<rparr>)" "arr_ok q1"
    "contents q1 = ?rs @ [\<lparr>ar_trans_id = ?n + 1, ar_type = AsyncType_AccountLogin\<rparr>]"
    "can_queue 38 (c\<lparr>auth_srv := (auth_srv c)\<lparr>conn_out := a1\<rparr>\<rparr>)"
    "contents a1 = queued c @ wire (login_message (?n + 1) (portal_user_id c) (portal_token c))"
    using frame_login [OF assms(1-3,5) small32(1) assms(7) small32(2) assms(10-12), of h] by auto
  let ?c1 = "c\<lparr>auth_srv := (auth_srv c)\<lparr>conn_out := a1\<rparr>,
      gc_state := AwaitAccountConnection, next_transaction_id := ?n + 1, gc_requests := q1\<rparr>"
  have "can_queue 38 ?c1" using s1(4) by (simp add: can_queue_def)
  then obtain q2 a2 where s2: "happen e h (response (?n + 1) 0) ?c1 = Inr (True, c\<lparr>auth_srv := (auth_srv c)\<lparr>conn_out := a2\<rparr>,
      gc_state := AwaitHardwareInfoReply, next_transaction_id := ?n + 2, gc_requests := q2\<rparr>)" "arr_ok q2"
    "contents q2 = ?rs @ [\<lparr>ar_trans_id = ?n + 2, ar_type = AsyncType_SendHardwareInfo\<rparr>]"
    "can_queue 32 (c\<lparr>auth_srv := (auth_srv c)\<lparr>conn_out := a2\<rparr>\<rparr>)"
    "contents a2 = contents a1 @ wire (ask_message (?n + 2))"
    using response_login [of ?c1 e 38 "?n + 1" ?rs h, OF _ assms(3) _ _ _ _ assms(8) _ assms(4)] s1(2,3) len [OF s1(2)] small
    by (auto simp: queued_def add.assoc can_queue_def)
  let ?c2 = "c\<lparr>auth_srv := (auth_srv c)\<lparr>conn_out := a2\<rparr>,
      gc_state := AwaitHardwareInfoReply, next_transaction_id := ?n + 2, gc_requests := q2\<rparr>"
  obtain q3 where s3: "happen e h (response (?n + 2) 0) ?c2 =
      Inr (True, ?c2\<lparr>gc_requests := q3, gc_state := AwaitPlayCharacter, gc_connected := True\<rparr>)" "arr_ok q3" "contents q3 = ?rs"
    using response_hardware [of ?c2 "?n + 2" ?rs e h, OF _ _ assms(9) _ assms(4)] s2(2,3) by auto
  have "course e h [Frame, response (?n + 1) 0, response (?n + 2) 0] c =
      Inr (True, c\<lparr>auth_srv := (auth_srv c)\<lparr>conn_out := a2\<rparr>, next_transaction_id := ?n + 2,
        gc_requests := q3, gc_state := AwaitPlayCharacter, gc_connected := True\<rparr>)"
    using s1(1) s2(1) s3(1) by simp
  then show ?thesis using s1(5) s2(4,5) s3(2,3) by (intro exI [of _ q3] exI [of _ a2]) simp
qed

lemma course_append:
  "course e h xs c = Inr (True, c') \<Longrightarrow> course e h (xs @ ys) c = course e h ys c'"
  by (induction xs arbitrary: c) (auto simp: res_simps split: prod.splits if_splits)


definition sample_auth :: connection where
  "sample_auth = \<lparr>conn_flags = 0, conn_proto = ConnectionType_Auth, conn_t0 = 0, conn_host = (2, []), conn_fd = 3,
     conn_ping = 0, conn_pong = 0, conn_latency = 0, conn_last_tick_time = 0, conn_mutex = 0,
     conn_in = \<lparr>arr_capacity = 100, arr_size = 0, arr_data = replicate 100 0\<rparr>,
     conn_out = \<lparr>arr_capacity = 100, arr_size = 0, arr_data = replicate 100 0\<rparr>,
     conn_secured = True, conn_decrypt = arc4_init, conn_encrypt = arc4_init,
     conn_server_msg_format = AUTH_SERVER_FORMATS, conn_client_msg_format = AUTH_CLIENT_FORMATS,
     conn_handlers = array_init\<rparr>"

definition sample_character :: character where
  "sample_character = init_character\<lparr>ch_name := \<lparr>k_length = 2, k_capacity = 20, k_buffer = 0x41 # 0x62 # replicate 18 0\<rparr>\<rparr>"

definition sample_client :: gw_client where
  "sample_client = \<lparr>auth_srv = sample_auth, game_srv = sample_auth\<lparr>conn_fd := 0\<rparr>, gc_mutex = 0, gc_uuid = zero_uuid,
     gc_email = kstr_init (replicate 100 0) 0 100, gc_charname = kstr_init (replicate 64 0) 0 64,
     gc_password = replicate 20 0, portal_token = zero_uuid, portal_user_id = zero_uuid,
     gc_state = AwaitAccountConnect, gc_ingame = False, gc_loading = True, gc_connected = True,
     gc_try_changing_zone = False, gc_static_salt = 0, next_transaction_id = 1, gc_requests = zero_carray,
     gc_player_status = 0, gc_friends = zero_carray,
     gc_characters = \<lparr>arr_capacity = 1, arr_size = 1, arr_data = [sample_character]\<rparr>,
     current_character_idx = 0, pending_character_idx = 0, gc_region = 0,
     gc_chat = \<lparr>chat_next_message_entry = 0, chat_messages = array_init, chat_str_builder = array_init\<rparr>,
     gc_world = zero_world empty_heap empty_heap empty_heap, gc_player_hero = zero_player_hero,
     server_transfer = \<lparr>gt_map_id = 0, gt_world_id = 0, gt_player_id = 0, gt_host = (0, replicate 14 0)\<rparr>,
     auth_wire = [], game_wire = []\<rparr>"

definition sample_env :: surroundings where
  "sample_env = \<lparr>en_alloc = (\<lambda>_. True), en_send = (\<lambda>_ bs. int (length bs)), en_broadcast = (\<lambda>_. Inr),
     en_chat_subscribed = (\<lambda>_. False), en_friends_subscribed = (\<lambda>_. False), en_guild_subscribed = (\<lambda>_. False),
     en_format_offline = (\<lambda>_. None), en_time = 0, en_epoch = 0,
     en_float = \<lparr>fl_add = (+), fl_sub = (-), fl_mul = (*), fl_div = (div), fl_less = (<), fl_leq = (\<le>), fl_eq = (=),
       fl_sqrt = (\<lambda>x. x), fl_cos = (\<lambda>x. x), fl_sin = (\<lambda>x. x), fl_atan2 = (\<lambda>x y. x), fl_of_int = of_int\<rparr>,
     en_options = \<lparr>opt_newauth = True, opt_game_version = 37000, opt_charname = [0x41, 0x62, 0], opt_online_status = 1,
       opt_map_id = Some 55, opt_map_type = Some 2\<rparr>\<rparr>"

definition sample_handshake :: handshake_env where
  "sample_handshake = \<lparr>he_exp_mod = sample_exp_mod, he_rand = (\<lambda>_. [15]), he_os = sample_os, he_keys = sample_keys,
     he_net_initialized = True\<rparr>"

lemma sample_selected: "selected sample_env sample_client sample_character"
proof -
  have "strnlen [0x41, 0x62, 0] 20 = Inr 2" using strnlen_text [of "[0x41, 0x62]" 20 "[]"] by simp
  then show ?thesis
    by (simp add: selected_def sample_client_def sample_env_def sample_character_def arr_ok_def SZ_def contents_def
      kstr_ok_def kstr_text_def ascii_def)
qed

lemma sample_client_ok:
  "gc_state sample_client = AwaitAccountConnect" "opt_newauth (en_options sample_env)" "\<forall>n. en_alloc sample_env n"
  "en_broadcast sample_env (EventType_AuthError 0 t) c = Inr c" "arr_ok (gc_requests sample_client)"
  "arr_size (gc_requests sample_client) < 2 ^ 31" "can_queue 78 sample_client"
  "next_transaction_id sample_client + 1 \<notin> ar_trans_id ` set (contents (gc_requests sample_client))"
  "next_transaction_id sample_client + 2 \<notin> ar_trans_id ` set (contents (gc_requests sample_client))"
  "uuid_ok (portal_user_id sample_client)" "uuid_ok (portal_token sample_client)"
  "k_length (gc_charname sample_client) \<le> 20" "NetConn_IsShutdown (game_srv sample_client)"
  "w_hash (gc_world sample_client) = 0" "wanted_type sample_env sample_character = Inr 2"
  by (simp_all add: sample_client_def sample_env_def sample_auth_def can_queue_def arr_ok_def
    zero_carray_def contents_def SZ_def uuid_ok_def zero_uuid_def UUID_NODE_LEN_def kstr_init_def NetConn_IsShutdown_def
    zero_world_def wanted_type_def)


end
