(* ===== verification/Rb_Tree.thy ===== *)
theory Rb_Tree
  imports Prelude
begin

text \<open>
  The red-black tree of \<^verbatim>\<open>code/common/rbtree.c\<close>, which keeps the timers by the time at which they
  are due. A node is part of the object it belongs to; the tree links nodes by pointers to both children
  and to the parent, and the sentinel stands for the empty tree. Memory maps addresses to nodes; the
  address 0 is the null pointer. A loop takes fuel and gives \<open>None\<close> when it runs out.
\<close>

section \<open>Memory\<close>

record rbnode =
  rb_key :: u64
  rb_left :: nat
  rb_right :: nat
  rb_parent :: nat
  rb_color :: u8

type_synonym rb_memory = "nat \<Rightarrow> rbnode"

record rbtree =
  rb_root :: nat
  rb_sentinel :: nat

definition rd :: "rb_memory \<Rightarrow> nat \<Rightarrow> fault + rbnode" where
  "rd h p = (if p = 0 then Inl NullDeref else Inr (h p))"

definition wr :: "nat \<Rightarrow> (rbnode \<Rightarrow> rbnode) \<Rightarrow> rb_memory \<Rightarrow> fault + rb_memory" where
  "wr p f h = (if p = 0 then Inl NullDeref else Inr (h(p := f (h p))))"

definition rbtree_set_red :: "nat \<Rightarrow> rb_memory \<Rightarrow> fault + rb_memory" where
  "rbtree_set_red p = wr p (\<lambda>n. n\<lparr>rb_color := 1\<rparr>)"

definition rbtree_set_black :: "nat \<Rightarrow> rb_memory \<Rightarrow> fault + rb_memory" where
  "rbtree_set_black p = wr p (\<lambda>n. n\<lparr>rb_color := 0\<rparr>)"

definition rbtree_is_red :: "rb_memory \<Rightarrow> nat \<Rightarrow> fault + bool" where
  "rbtree_is_red h p = bindE (rd h p) (\<lambda>n. Inr (rb_color n = 1))"

definition rbtree_is_black :: "rb_memory \<Rightarrow> nat \<Rightarrow> fault + bool" where
  "rbtree_is_black h p = bindE (rd h p) (\<lambda>n. Inr (rb_color n = 0))"

section \<open>Looking around\<close>

definition rbtree_init :: "nat \<Rightarrow> rb_memory \<Rightarrow> fault + rbtree \<times> rb_memory" where
  "rbtree_init sentinel h =
     bindE (rbtree_set_black sentinel h) (\<lambda>h. Inr (\<lparr>rb_root = sentinel, rb_sentinel = sentinel\<rparr>, h))"

fun rbtree_min :: "nat \<Rightarrow> nat \<Rightarrow> rb_memory \<Rightarrow> nat \<Rightarrow> fault + nat option" where
  "rbtree_min 0 sentinel h node = Inr None"
| "rbtree_min (Suc fuel) sentinel h node =
     bindE (rd h node) (\<lambda>n. if rb_left n \<noteq> sentinel then rbtree_min fuel sentinel h (rb_left n) else Inr (Some node))"

fun climb :: "nat \<Rightarrow> nat \<Rightarrow> rb_memory \<Rightarrow> nat \<Rightarrow> fault + nat option" where
  "climb 0 root h node = Inr None"
| "climb (Suc fuel) root h node =
     bindE (rd h node) (\<lambda>n.
     if node = root then Inr (Some 0)
     else bindE (rd h (rb_parent n)) (\<lambda>p.
       if node = rb_left p then Inr (Some (rb_parent n)) else climb fuel root h (rb_parent n)))"

definition rbtree_next :: "nat \<Rightarrow> rbtree \<Rightarrow> rb_memory \<Rightarrow> nat \<Rightarrow> fault + nat option" where
  "rbtree_next fuel tree h node =
     bindE (rd h node) (\<lambda>n.
       if rb_right n \<noteq> rb_sentinel tree then rbtree_min fuel (rb_sentinel tree) h (rb_right n)
       else climb fuel (rb_root tree) h node)"

section \<open>Rotations\<close>

text \<open>The place in the parent of \<open>node\<close> that refers to it, or the root, is made to refer to \<open>temp\<close>.\<close>

definition replace_child :: "nat \<Rightarrow> nat \<Rightarrow> nat \<times> rb_memory \<Rightarrow> fault + nat \<times> rb_memory" where
  "replace_child node temp s = (case s of (root, h) \<Rightarrow>
     if node = root then Inr (temp, h)
     else
       bindE (rd h node) (\<lambda>n.
       bindE (rd h (rb_parent n)) (\<lambda>p.
       bindE (if node = rb_left p then wr (rb_parent n) (\<lambda>p. p\<lparr>rb_left := temp\<rparr>) h
              else wr (rb_parent n) (\<lambda>p. p\<lparr>rb_right := temp\<rparr>) h) (\<lambda>h. Inr (root, h)))))"

definition rbtree_rotate_right :: "nat \<Rightarrow> nat \<Rightarrow> nat \<times> rb_memory \<Rightarrow> fault + nat \<times> rb_memory" where
  "rbtree_rotate_right sentinel node s = (case s of (root, h) \<Rightarrow>
     bindE (rd h node) (\<lambda>n.
     let temp = rb_left n in
     bindE (rd h temp) (\<lambda>t.
     bindE (wr node (\<lambda>n. n\<lparr>rb_left := rb_right t\<rparr>) h) (\<lambda>h.
     bindE (rd h temp) (\<lambda>t.
     bindE (if rb_right t \<noteq> sentinel then wr (rb_right t) (\<lambda>b. b\<lparr>rb_parent := node\<rparr>) h else Inr h) (\<lambda>h.
     bindE (wr temp (\<lambda>t. t\<lparr>rb_right := node\<rparr>) h) (\<lambda>h.
     bindE (rd h node) (\<lambda>n.
     bindE (wr temp (\<lambda>t. t\<lparr>rb_parent := rb_parent n\<rparr>) h) (\<lambda>h.
     bindE (replace_child node temp (root, h)) (\<lambda>(root, h).
     bindE (wr node (\<lambda>n. n\<lparr>rb_parent := temp\<rparr>) h) (\<lambda>h. Inr (root, h))))))))))))"

definition rbtree_rotate_left :: "nat \<Rightarrow> nat \<Rightarrow> nat \<times> rb_memory \<Rightarrow> fault + nat \<times> rb_memory" where
  "rbtree_rotate_left sentinel node s = (case s of (root, h) \<Rightarrow>
     bindE (rd h node) (\<lambda>n.
     let temp = rb_right n in
     bindE (rd h temp) (\<lambda>t.
     bindE (wr node (\<lambda>n. n\<lparr>rb_right := rb_left t\<rparr>) h) (\<lambda>h.
     bindE (rd h temp) (\<lambda>t.
     bindE (if rb_left t \<noteq> sentinel then wr (rb_left t) (\<lambda>b. b\<lparr>rb_parent := node\<rparr>) h else Inr h) (\<lambda>h.
     bindE (wr temp (\<lambda>t. t\<lparr>rb_left := node\<rparr>) h) (\<lambda>h.
     bindE (rd h node) (\<lambda>n.
     bindE (wr temp (\<lambda>t. t\<lparr>rb_parent := rb_parent n\<rparr>) h) (\<lambda>h.
     bindE (replace_child node temp (root, h)) (\<lambda>(root, h).
     bindE (wr node (\<lambda>n. n\<lparr>rb_parent := temp\<rparr>) h) (\<lambda>h. Inr (root, h))))))))))))"

section \<open>Insertion\<close>

fun rbtree_insert_core :: "nat \<Rightarrow> nat \<Rightarrow> nat \<Rightarrow> nat \<Rightarrow> rb_memory \<Rightarrow> fault + rb_memory option" where
  "rbtree_insert_core 0 root sentinel node h = Inr None"
| "rbtree_insert_core (Suc fuel) root sentinel node h =
     bindE (rd h node) (\<lambda>n.
     bindE (rd h root) (\<lambda>r.
     let it = (if rb_key n < rb_key r then rb_left r else rb_right r) in
     if it = sentinel then
       bindE (wr node (\<lambda>n. n\<lparr>rb_left := sentinel, rb_right := sentinel, rb_parent := root, rb_color := 1\<rparr>) h) (\<lambda>h.
       bindE (if rb_key n < rb_key r then wr root (\<lambda>r. r\<lparr>rb_left := node\<rparr>) h
              else wr root (\<lambda>r. r\<lparr>rb_right := node\<rparr>) h) (\<lambda>h. Inr (Some h)))
     else rbtree_insert_core fuel it sentinel node h))"

text \<open>The parent and the grandparent of the node.\<close>

definition family :: "rb_memory \<Rightarrow> nat \<Rightarrow> fault + nat \<times> nat" where
  "family h node = bindE (rd h node) (\<lambda>n. bindE (rd h (rb_parent n)) (\<lambda>p. Inr (rb_parent n, rb_parent p)))"

text \<open>The uncle is red: the colours move up one generation.\<close>

definition recolor :: "nat \<Rightarrow> nat \<Rightarrow> nat \<times> rb_memory \<Rightarrow> fault + nat \<times> nat \<times> rb_memory" where
  "recolor node uncle s = (case s of (root, h) \<Rightarrow>
     bindE (family h node) (\<lambda>(parent, grandparent).
     bindE (rbtree_set_black parent h) (\<lambda>h.
     bindE (rbtree_set_black uncle h) (\<lambda>h.
     bindE (rbtree_set_red grandparent h) (\<lambda>h. Inr (grandparent, root, h))))))"

definition insert_step :: "nat \<Rightarrow> nat \<Rightarrow> nat \<times> rb_memory \<Rightarrow> fault + nat \<times> nat \<times> rb_memory" where
  "insert_step sentinel node s = (case s of (root, h) \<Rightarrow>
     bindE (family h node) (\<lambda>(parent, grandparent).
     bindE (rd h grandparent) (\<lambda>g.
     if parent = rb_left g then
       let uncle = rb_right g in
       bindE (rbtree_is_red h uncle) (\<lambda>red.
       if red then recolor node uncle s
       else
         bindE (rd h parent) (\<lambda>p.
         bindE (if node = rb_right p
                then bindE (rbtree_rotate_left sentinel parent s) (\<lambda>s. Inr (parent, s)) else Inr (node, s)) (\<lambda>(node, root, h).
         bindE (family h node) (\<lambda>(parent, grandparent).
         bindE (rbtree_set_black parent h) (\<lambda>h.
         bindE (rbtree_set_red grandparent h) (\<lambda>h.
         bindE (rbtree_rotate_right sentinel grandparent (root, h)) (\<lambda>s. Inr (node, s))))))))
     else
       let uncle = rb_left g in
       bindE (rbtree_is_red h uncle) (\<lambda>red.
       if red then recolor node uncle s
       else
         bindE (rd h parent) (\<lambda>p.
         bindE (if node = rb_left p
                then bindE (rbtree_rotate_right sentinel parent s) (\<lambda>s. Inr (parent, s)) else Inr (node, s)) (\<lambda>(node, root, h).
         bindE (family h node) (\<lambda>(parent, grandparent).
         bindE (rbtree_set_black parent h) (\<lambda>h.
         bindE (rbtree_set_red grandparent h) (\<lambda>h.
         bindE (rbtree_rotate_left sentinel grandparent (root, h)) (\<lambda>s. Inr (node, s)))))))))))"

fun insert_fixup :: "nat \<Rightarrow> nat \<Rightarrow> nat \<Rightarrow> nat \<times> rb_memory \<Rightarrow> fault + (nat \<times> rb_memory) option" where
  "insert_fixup 0 sentinel node s = Inr None"
| "insert_fixup (Suc fuel) sentinel node (root, h) =
     bindE (if node = root then Inr False else bindE (rd h node) (\<lambda>n. rbtree_is_red h (rb_parent n))) (\<lambda>go.
     if go then bindE (insert_step sentinel node (root, h)) (\<lambda>(node, s). insert_fixup fuel sentinel node s)
     else Inr (Some (root, h)))"

definition rbtree_insert :: "nat \<Rightarrow> rbtree \<Rightarrow> nat \<Rightarrow> rb_memory \<Rightarrow> fault + (rbtree \<times> rb_memory) option" where
  "rbtree_insert fuel tree node h =
     bindE (assertE (node \<noteq> 0 \<and> rb_root tree \<noteq> 0)) (\<lambda>_.
     let sentinel = rb_sentinel tree in
     if rb_root tree = sentinel then
       bindE (wr node (\<lambda>n. n\<lparr>rb_left := sentinel, rb_right := sentinel, rb_parent := 0, rb_color := 0\<rparr>) h) (\<lambda>h.
         Inr (Some (tree\<lparr>rb_root := node\<rparr>, h)))
     else
       bindE (rbtree_insert_core fuel (rb_root tree) sentinel node h) (\<lambda>r.
       case r of None \<Rightarrow> Inr None | Some h \<Rightarrow>
       bindE (insert_fixup fuel sentinel node (rb_root tree, h)) (\<lambda>r.
       case r of None \<Rightarrow> Inr None | Some (root, h) \<Rightarrow>
       bindE (rbtree_set_black root h) (\<lambda>h. Inr (Some (tree\<lparr>rb_root := root\<rparr>, h))))))"

section \<open>Shape\<close>

text \<open>
  A tree of nodes. \<open>shape\<close> says that the memory holds it under the pointer \<open>q\<close>, with the parent \<open>p\<close>.
  Both sides of a tree are treated alike: \<open>join d a x c b\<close> is the node with \<open>a\<close> on the side \<open>d\<close>.
\<close>

datatype tree = Tip | Bin tree nat bool tree

datatype side = Lft | Rgt

fun opp :: "side \<Rightarrow> side" where
  "opp Lft = Rgt"
| "opp Rgt = Lft"

fun child :: "side \<Rightarrow> rbnode \<Rightarrow> nat" where
  "child Lft n = rb_left n"
| "child Rgt n = rb_right n"

fun set_child :: "side \<Rightarrow> nat \<Rightarrow> rbnode \<Rightarrow> rbnode" where
  "set_child Lft p n = n\<lparr>rb_left := p\<rparr>"
| "set_child Rgt p n = n\<lparr>rb_right := p\<rparr>"

fun join :: "side \<Rightarrow> tree \<Rightarrow> nat \<Rightarrow> bool \<Rightarrow> tree \<Rightarrow> tree" where
  "join Lft a x c b = Bin a x c b"
| "join Rgt a x c b = Bin b x c a"

fun inorder :: "tree \<Rightarrow> nat list" where
  "inorder Tip = []"
| "inorder (Bin l x c r) = inorder l @ x # inorder r"

definition nodes :: "tree \<Rightarrow> nat set" where
  "nodes t = set (inorder t)"

definition color :: "bool \<Rightarrow> u8" where
  "color red = (if red then 1 else 0)"

fun shape :: "rb_memory \<Rightarrow> nat \<Rightarrow> nat \<Rightarrow> nat \<Rightarrow> tree \<Rightarrow> bool" where
  "shape h s p q Tip \<longleftrightarrow> q = s"
| "shape h s p q (Bin l x c r) \<longleftrightarrow> q = x \<and> x \<noteq> 0 \<and> x \<noteq> s \<and> rb_parent (h x) = p \<and> rb_color (h x) = color c \<and>
     shape h s x (rb_left (h x)) l \<and> shape h s x (rb_right (h x)) r"

text \<open>The path from a subtree up to the root: the sides on which it lies, with the siblings.\<close>

type_synonym path = "(side \<times> nat \<times> bool \<times> tree) list"

fun plug :: "path \<Rightarrow> tree \<Rightarrow> tree" where
  "plug [] t = t"
| "plug ((d, x, c, b) # fs) t = plug fs (join d t x c b)"

fun outside :: "path \<Rightarrow> nat set" where
  "outside [] = {}"
| "outside ((d, x, c, b) # fs) = insert x (nodes b \<union> outside fs)"

fun hole :: "rb_memory \<Rightarrow> nat \<Rightarrow> nat \<Rightarrow> path \<Rightarrow> nat \<Rightarrow> nat \<Rightarrow> bool" where
  "hole h s root [] p q \<longleftrightarrow> q = root"
| "hole h s root ((d, x, c, b) # fs) p q \<longleftrightarrow> p = x \<and> x \<noteq> 0 \<and> x \<noteq> s \<and> child d (h x) = q \<and> rb_color (h x) = color c \<and>
     shape h s x (child (opp d) (h x)) b \<and> hole h s root fs (rb_parent (h x)) x"

lemma nodes_simps [simp]:
  "nodes Tip = {}" "nodes (Bin l x c r) = insert x (nodes l \<union> nodes r)" "nodes (join d l x c r) = insert x (nodes l \<union> nodes r)"
  by (cases d; auto simp: nodes_def)+

lemma opp_simps [simp]: "opp (opp d) = d" "opp d \<noteq> d" "d \<noteq> opp d"
  by (cases d; simp)+

lemma shape_join [simp]:
  "shape h s p q (join d a x c b) \<longleftrightarrow> q = x \<and> x \<noteq> 0 \<and> x \<noteq> s \<and> rb_parent (h x) = p \<and> rb_color (h x) = color c \<and>
     shape h s x (child d (h x)) a \<and> shape h s x (child (opp d) (h x)) b"
  by (cases d) auto

text \<open>The parent of the root is never looked at; a removal leaves it as it was.\<close>

definition whole :: "rb_memory \<Rightarrow> nat \<Rightarrow> nat \<Rightarrow> tree \<Rightarrow> bool" where
  "whole h s root t \<longleftrightarrow> (\<exists>p. shape h s p root t)"

lemma whole_simps [simp]:
  "whole h s q Tip \<longleftrightarrow> q = s"
  "whole h s q (Bin a x c b) \<longleftrightarrow> q = x \<and> x \<noteq> 0 \<and> x \<noteq> s \<and> rb_color (h x) = color c \<and>
     shape h s x (rb_left (h x)) a \<and> shape h s x (rb_right (h x)) b"
  "whole h s q (join d a x c b) \<longleftrightarrow> q = x \<and> x \<noteq> 0 \<and> x \<noteq> s \<and> rb_color (h x) = color c \<and>
     shape h s x (child d (h x)) a \<and> shape h s x (child (opp d) (h x)) b"
  by (auto simp: whole_def)

lemma shape_plug: "whole h s root (plug fs t) \<longleftrightarrow> (\<exists>p q. hole h s root fs p q \<and> shape h s p q t)"
proof (induction fs arbitrary: t)
  case (Cons f fs)
  obtain d x c b where "f = (d, x, c, b)" by (cases f) auto
  then show ?case using Cons.IH [of "join d t x c b"] by auto
qed (simp add: whole_def)

lemma set_inorder: "set (inorder t) = nodes t"
  by (simp add: nodes_def)

lemma nodes_plug: "nodes (plug fs t) = nodes t \<union> outside fs"
  by (induction fs t rule: plug.induct) auto

fun spread :: "path \<Rightarrow> bool" where
  "spread [] \<longleftrightarrow> True"
| "spread ((d, x, c, b) # fs) \<longleftrightarrow> x \<notin> nodes b \<and> x \<notin> outside fs \<and> nodes b \<inter> outside fs = {} \<and> distinct (inorder b) \<and> spread fs"

lemma distinct_join: "distinct (inorder (join d a x c b)) \<longleftrightarrow>
    distinct (inorder a) \<and> distinct (inorder b) \<and> x \<notin> nodes a \<and> x \<notin> nodes b \<and> nodes a \<inter> nodes b = {}"
  by (cases d) (auto simp: set_inorder)

lemma distinct_plug: "distinct (inorder (plug fs t)) \<longleftrightarrow> distinct (inorder t) \<and> spread fs \<and> nodes t \<inter> outside fs = {}"
proof (induction fs t rule: plug.induct)
  case (2 d x c b fs t)
  show ?case by (auto simp: 2 distinct_join)
qed simp

section \<open>Memory that is left alone\<close>

lemma shape_same: "\<forall>x \<in> nodes t. h' x = h x \<Longrightarrow> shape h' s p q t = shape h s p q t"
  by (induction t arbitrary: p q) auto

lemma hole_same: "\<forall>x \<in> outside fs. h' x = h x \<Longrightarrow> hole h' s root fs p q = hole h s root fs p q"
proof (induction fs arbitrary: p q)
  case (Cons f fs)
  obtain d x c b where "f = (d, x, c, b)" by (cases f) auto
  then show ?case using Cons by (auto simp: shape_same [of b h' h])
qed simp

lemma shape_upd [simp]: "x \<notin> nodes t \<Longrightarrow> shape (h(x := n)) s p q t = shape h s p q t"
  by (rule shape_same) auto

lemma hole_upd [simp]: "x \<notin> outside fs \<Longrightarrow> hole (h(x := n)) s root fs p q = hole h s root fs p q"
  by (rule hole_same) auto

text \<open>The root of a tree is given another parent.\<close>

lemma shape_parent:
  assumes "shape h s p q t" "distinct (inorder t)" "t \<noteq> Tip"
  shows "shape (h(q := (h q)\<lparr>rb_parent := p'\<rparr>)) s p' q t"
  using assms by (cases t) (auto simp: set_inorder)

section \<open>Rotating\<close>

lemma set_child_simps [simp]:
  "child d (set_child d p n) = p" "child (opp d) (set_child d p n) = child (opp d) n" "child d (set_child (opp d) p n) = child d n"
  "rb_parent (set_child d p n) = rb_parent n" "rb_color (set_child d p n) = rb_color n" "rb_key (set_child d p n) = rb_key n"
  "child d (n\<lparr>rb_parent := q\<rparr>) = child d n" "child d (n\<lparr>rb_color := k\<rparr>) = child d n"
  by (cases d; simp)+

lemma shape_pointer: "shape h s p q t \<Longrightarrow> q = s \<and> t = Tip \<or> q \<in> nodes t \<and> q \<noteq> s \<and> q \<noteq> 0"
  by (cases t) auto

lemma hole_root: "hole h s root (f # fs) p q \<Longrightarrow> root \<in> outside (f # fs)"
proof (induction fs arbitrary: f p q)
  case Nil
  then show ?case by (cases f) auto
next
  case (Cons g fs)
  obtain d x c b where "f = (d, x, c, b)" by (cases f) auto
  then show ?case using Cons.IH [of g "rb_parent (h x)" x] Cons.prems by auto
qed

definition same_keys :: "rb_memory \<Rightarrow> rb_memory \<Rightarrow> bool" where
  "same_keys h h' \<longleftrightarrow> (\<forall>z. rb_key (h' z) = rb_key (h z))"

lemma same_keys_simps [simp, intro]: "same_keys h h" "same_keys h h' \<Longrightarrow> same_keys h' h'' \<Longrightarrow> same_keys h h''"
  by (simp_all add: same_keys_def)

lemma replace_child_ok:
  assumes "hole h s root fs p x" "x \<notin> outside fs" "spread fs" "x \<noteq> s" "x \<noteq> 0" "rb_parent (h x) = p"
  shows "\<exists>root' h'. replace_child x y (root, h) = Inr (root', h') \<and> hole h' s root' fs p y \<and> same_keys h h' \<and>
    (\<forall>z. z \<notin> outside fs \<longrightarrow> h' z = h z)"
proof (cases fs)
  case Nil
  then show ?thesis using assms by (auto simp: replace_child_def)
next
  case (Cons f fs')
  obtain d g c b where f: "f = (d, g, c, b)" by (cases f) auto
  have ne: "x \<noteq> root" using hole_root [of h s root f fs'] assms(1,2) Cons by blast
  let ?h = "h(g := set_child d y (h g))"
  have b: "p = g" "g \<noteq> 0" "child d (h g) = x" "shape h s g (child (opp d) (h g)) b" "g \<notin> nodes b" "g \<notin> outside fs'"
    using assms(1,3) Cons f by auto
  have "child (opp d) (h g) \<noteq> x" using shape_pointer [OF b(4)] assms(2,4) Cons f by auto
  then have "replace_child x y (root, h) = Inr (root, ?h)"
    using ne assms(5,6) b(1-3) by (cases d) (simp_all add: replace_child_def rd_def wr_def)
  moreover have "hole ?h s root fs p y" using assms(1) b Cons f by simp
  moreover have "same_keys h ?h" by (simp add: same_keys_def)
  moreover have "\<forall>z. z \<notin> outside fs \<longrightarrow> ?h z = h z" using Cons f by simp
  ultimately show ?thesis by blast
qed

definition rotate :: "side \<Rightarrow> nat \<Rightarrow> nat \<Rightarrow> nat \<times> rb_memory \<Rightarrow> fault + nat \<times> rb_memory" where
  "rotate d sentinel node s = (case s of (root, h) \<Rightarrow>
     bindE (rd h node) (\<lambda>n.
     let temp = child d n in
     bindE (rd h temp) (\<lambda>t.
     bindE (wr node (\<lambda>n. set_child d (child (opp d) t) n) h) (\<lambda>h.
     bindE (rd h temp) (\<lambda>t.
     bindE (if child (opp d) t \<noteq> sentinel then wr (child (opp d) t) (\<lambda>b. b\<lparr>rb_parent := node\<rparr>) h else Inr h) (\<lambda>h.
     bindE (wr temp (\<lambda>t. set_child (opp d) node t) h) (\<lambda>h.
     bindE (rd h node) (\<lambda>n.
     bindE (wr temp (\<lambda>t. t\<lparr>rb_parent := rb_parent n\<rparr>) h) (\<lambda>h.
     bindE (replace_child node temp (root, h)) (\<lambda>(root, h).
     bindE (wr node (\<lambda>n. n\<lparr>rb_parent := temp\<rparr>) h) (\<lambda>h. Inr (root, h))))))))))))"

lemma rotate_right_eq: "rbtree_rotate_right = rotate Lft"
  by (simp add: rbtree_rotate_right_def rotate_def fun_eq_iff cong: if_cong)

lemma rotate_left_eq: "rbtree_rotate_left = rotate Rgt"
  by (simp add: rbtree_rotate_left_def rotate_def fun_eq_iff cong: if_cong)

lemma rotate_ok:
  assumes "whole h s root (plug fs (join d (join d a y cy b) x cx c))"
    and "distinct (inorder (plug fs (join d (join d a y cy b) x cx c)))"
  shows "\<exists>root' h'. rotate d s x (root, h) = Inr (root', h') \<and> same_keys h h' \<and>
    whole h' s root' (plug fs (join d a y cy (join d b x cx c))) \<and>
    (\<forall>z. z \<notin> nodes (plug fs (join d (join d a y cy b) x cx c)) \<longrightarrow> h' z = h z)"
proof -
  obtain p q where hl: "hole h s root fs p q" "shape h s p q (join d (join d a y cy b) x cx c)"
    using assms(1) by (auto simp: shape_plug)
  note ds = assms(2) [unfolded distinct_plug distinct_join]
  let ?bp = "child (opp d) (h y)"
  have x: "q = x" "x \<noteq> 0" "x \<noteq> s" "y \<noteq> 0" "y \<noteq> s" "x \<noteq> y" "child d (h x) = y" "rb_parent (h x) = p"
    "shape h s y (child d (h y)) a" "shape h s y ?bp b" "shape h s x (child (opp d) (h x)) c"
    "rb_color (h x) = color cx" "rb_color (h y) = color cy"
    using hl(2) conjunct1 [OF ds] by (simp_all del: distinct_plug)
  define h1 where "h1 = h(x := set_child d ?bp (h x))"
  define h2 where "h2 = (if ?bp \<noteq> s then h1(?bp := (h1 ?bp)\<lparr>rb_parent := x\<rparr>) else h1)"
  define h3 where "h3 = h2(y := set_child (opp d) x (h2 y))"
  define h4 where "h4 = h3(y := (h3 y)\<lparr>rb_parent := p\<rparr>)"
  have bp: "?bp \<noteq> s \<longrightarrow> ?bp \<in> nodes b \<and> ?bp \<noteq> 0" "?bp \<noteq> x" "?bp \<noteq> y"
    using shape_pointer [OF x(10)] x(3,5) ds by auto
  have h2: "h2 x = set_child d ?bp (h x)" "h2 y = h y" "h2 s = h s"
    using bp(2,3) x(3,5,6) by (cases "?bp = s"; simp add: h2_def h1_def)+
  have h4x: "h4 x = set_child d ?bp (h x)" using x(6) by (simp add: h4_def h3_def h2)
  have h4y: "h4 y = (set_child (opp d) x (h y))\<lparr>rb_parent := p\<rparr>" by (simp add: h4_def h3_def h2)
  have h4s: "h4 s = h s" using x(5) by (simp add: h4_def h3_def h2)
  have h4o: "\<And>z. z \<noteq> x \<Longrightarrow> z \<noteq> y \<Longrightarrow> z \<noteq> ?bp \<Longrightarrow> h4 z = h z"
    by (simp add: h4_def h3_def h2_def h1_def)
  have h4b: "?bp \<noteq> s \<longrightarrow> h4 ?bp = (h ?bp)\<lparr>rb_parent := x\<rparr>"
    using bp(2,3) by (simp add: h4_def h3_def h2_def h1_def)
  note h4 = h4x h4y h4o h4b h4s
  have keys: "same_keys h h4" by (simp add: same_keys_def h4_def h3_def h2_def h1_def)
  have h4z: "h4 z = h z" if "z \<noteq> x" "z \<noteq> y" "z \<notin> nodes b" for z
    using that bp(1) h4o [of z] h4s by metis
  have out: "z \<in> outside fs \<Longrightarrow> h4 z = h z" "z \<in> nodes a \<Longrightarrow> h4 z = h z" "z \<in> nodes c \<Longrightarrow> h4 z = h z" for z
    by (rule h4z; use ds in \<open>auto simp: disjoint_iff\<close>)+
  have tb: "shape h4 s x ?bp b"
  proof (cases b)
    case (Bin l z k r)
    have "?bp = z" using x(10) Bin by simp
    moreover have "w \<in> nodes l \<union> nodes r \<Longrightarrow> h4 w = h w" for w
      using h4o [of w] ds Bin \<open>?bp = z\<close> by (auto simp: set_inorder)
    then have "shape h4 s z v l = shape h s z v l" "shape h4 s z v r = shape h s z v r" for v
      by (auto intro!: shape_same)
    ultimately show ?thesis using x(10) h4(4) Bin by auto
  qed (use x(10) in simp)
  have hl4: "hole h4 s root fs p x" using hl(1) x(1) hole_same [of fs h4 h] out(1) by simp
  have "x \<notin> outside fs" "spread fs" using ds by auto
  then obtain root' h5 where r: "replace_child x y (root, h4) = Inr (root', h5)" "hole h5 s root' fs p y" "same_keys h4 h5"
    "\<forall>z. z \<notin> outside fs \<longrightarrow> h5 z = h4 z"
    using replace_child_ok [OF hl4, of y] x(2,3,8) h4(1) by auto
  define h6 where "h6 = h5(x := (h5 x)\<lparr>rb_parent := y\<rparr>)"
  have h5: "h5 z = h4 z" if "z \<in> insert x (insert y (nodes a \<union> nodes b \<union> nodes c))" for z
  proof -
    have "z \<notin> outside fs" using that ds by (auto simp: disjoint_iff)
    then show ?thesis using r(4) by simp
  qed
  have "shape h5 s y v a = shape h s y v a" "shape h5 s x v c = shape h s x v c" "shape h5 s x v b = shape h4 s x v b" for v
    using h5 out(2,3) by (auto intro!: shape_same)
  then have "shape h6 s p y (join d a y cy (join d b x cx c))"
    using x tb ds h4(1,2) h5 by (simp add: h6_def)
  moreover have "hole h6 s root' fs p y" using r(2) ds by (simp add: h6_def)
  ultimately have "whole h6 s root' (plug fs (join d a y cy (join d b x cx c)))" by (auto simp: shape_plug)
  moreover have "same_keys h h6" using keys r(3) by (auto simp: h6_def same_keys_def)
  moreover have "h6 z = h z" if "z \<notin> nodes (plug fs (join d (join d a y cy b) x cx c))" for z
    using that r(4) h4z [of z] by (simp add: nodes_plug h6_def)
  moreover have "rotate d s x (root, h) = Inr (root', h6)"
    using x(2,4,6,7,8) bp r(1)
    by (cases "?bp = s") (simp_all add: rotate_def rd_def wr_def h6_def h4_def h3_def h2_def h1_def Let_def)
  ultimately show ?thesis by blast
qed

section \<open>Red-black trees\<close>

fun red :: "tree \<Rightarrow> bool" where
  "red Tip \<longleftrightarrow> False"
| "red (Bin l x c r) \<longleftrightarrow> c"

fun black_height :: "tree \<Rightarrow> nat" where
  "black_height Tip = 0"
| "black_height (Bin l x c r) = black_height l + (if c then 0 else 1)"

fun balanced :: "tree \<Rightarrow> bool" where
  "balanced Tip \<longleftrightarrow> True"
| "balanced (Bin l x c r) \<longleftrightarrow> balanced l \<and> balanced r \<and> black_height l = black_height r"

text \<open>No red node has a red child.\<close>

fun alternates :: "tree \<Rightarrow> bool" where
  "alternates Tip \<longleftrightarrow> True"
| "alternates (Bin l x c r) \<longleftrightarrow> alternates l \<and> alternates r \<and> (c \<longrightarrow> \<not> red l \<and> \<not> red r)"

fun black_above :: "path \<Rightarrow> bool" where
  "black_above [] \<longleftrightarrow> False"
| "black_above ((d, x, c, b) # fs) \<longleftrightarrow> \<not> c"

fun path_alternates :: "path \<Rightarrow> bool" where
  "path_alternates [] \<longleftrightarrow> True"
| "path_alternates ((d, x, c, b) # fs) \<longleftrightarrow> alternates b \<and> (c \<longrightarrow> \<not> red b \<and> black_above fs) \<and> path_alternates fs"

lemma join_simps [simp]:
  "red (join d l x c r) = c" "inorder (join Lft l x c r) = inorder l @ x # inorder r" "join d l x c r \<noteq> Tip"
  "inorder (join Rgt l x c r) = inorder r @ x # inorder l"
  "alternates (join d l x c r) \<longleftrightarrow> alternates l \<and> alternates r \<and> (c \<longrightarrow> \<not> red l \<and> \<not> red r)"
  by (cases d; auto)+

lemma balanced_join [simp]:
  "balanced (join d l x c r) \<longleftrightarrow> balanced l \<and> balanced r \<and> black_height l = black_height r"
  "black_height l = black_height r \<Longrightarrow> black_height (join d l x c r) = black_height l + (if c then 0 else 1)"
  by (cases d; auto)+

lemma alternates_plug:
  "fs \<noteq> [] \<Longrightarrow> alternates (plug fs t) \<and> \<not> red (plug fs t) \<longleftrightarrow>
    alternates t \<and> path_alternates fs \<and> (red t \<longrightarrow> black_above fs)"
proof (induction fs arbitrary: t)
  case (Cons f fs)
  obtain d x c b where f: "f = (d, x, c, b)" by (cases f) auto
  show ?case
  proof (cases "fs = []")
    case False
    then show ?thesis using Cons.IH [of "join d t x c b"] f by auto
  qed (auto simp: f)
qed simp

lemma balanced_focus: "balanced (plug fs t) \<Longrightarrow> balanced t"
proof (induction fs arbitrary: t)
  case (Cons f fs)
  obtain d x c b where "f = (d, x, c, b)" by (cases f) auto
  then show ?case using Cons by fastforce
qed simp

lemma balanced_plug:
  assumes "balanced (plug fs t)" "balanced t'" "black_height t' = black_height t"
  shows "balanced (plug fs t') \<and> black_height (plug fs t') = black_height (plug fs t)"
  using assms
proof (induction fs arbitrary: t t')
  case (Cons f fs)
  obtain d x c b where f: "f = (d, x, c, b)" by (cases f) auto
  then have "balanced (join d t x c b)" using Cons.prems(1) balanced_focus [of fs "join d t x c b"] by simp
  then have "balanced (join d t' x c b)" "black_height (join d t' x c b) = black_height (join d t x c b)"
    using Cons.prems by simp_all
  then show ?case using Cons.IH [of "join d t x c b" "join d t' x c b"] Cons.prems(1) f by simp
qed simp

text \<open>What lies before and behind a subtree in the order.\<close>

fun before :: "path \<Rightarrow> nat list" where
  "before [] = []"
| "before ((Lft, x, c, b) # fs) = before fs"
| "before ((Rgt, x, c, b) # fs) = before fs @ inorder b @ [x]"

fun behind :: "path \<Rightarrow> nat list" where
  "behind [] = []"
| "behind ((Lft, x, c, b) # fs) = x # inorder b @ behind fs"
| "behind ((Rgt, x, c, b) # fs) = behind fs"

lemma inorder_plug: "inorder (plug fs t) = before fs @ inorder t @ behind fs"
proof (induction fs arbitrary: t)
  case (Cons f fs)
  obtain d x c b where "f = (d, x, c, b)" by (cases f) auto
  then show ?case using Cons.IH by (cases d) auto
qed simp

lemma inorder_rotated: "inorder (join d a y cy (join d b x cx c)) = inorder (join d (join d a y cy' b) x cx' c)"
  by (cases d) auto

lemma inorder_color: "inorder (join d a x c b) = inorder (join d a x c' b)"
  by (cases d) auto

section \<open>Heights\<close>

fun height :: "tree \<Rightarrow> nat" where
  "height Tip = 0"
| "height (Bin l x c r) = Suc (max (height l) (height r))"

lemma height_black: "balanced t \<Longrightarrow> alternates t \<Longrightarrow> height t \<le> 2 * black_height t + (if red t then 1 else 0)"
  by (induction t) (auto split: if_splits)

lemma size_black: "balanced t \<Longrightarrow> 2 ^ black_height t \<le> length (inorder t) + 1"
  by (induction t) (auto split: if_splits)

lemma height_logarithmic:
  assumes "balanced t" "alternates t" "\<not> red t" "length (inorder t) + 1 < 2 ^ Suc k"
  shows "height t \<le> 2 * k"
proof -
  have "2 ^ black_height t < (2 :: nat) ^ Suc k" using size_black [OF assms(1)] assms(4) by linarith
  then have "black_height t \<le> k" by (simp only: power_strict_increasing_iff less_Suc_eq_le)
  then show ?thesis using height_black [OF assms(1,2)] assms(3) by simp
qed

section \<open>Insertion of a leaf\<close>

lemma shape_avoids: "shape h s p q t \<Longrightarrow> s \<notin> nodes t \<and> 0 \<notin> nodes t"
  by (induction t arbitrary: p q) auto

lemma whole_pointer: "whole h s q t \<Longrightarrow> q = s \<and> t = Tip \<or> q \<in> nodes t \<and> q \<noteq> s \<and> q \<noteq> 0"
  unfolding whole_def using shape_pointer by blast

lemma whole_avoids: "whole h s q t \<Longrightarrow> s \<notin> nodes t \<and> 0 \<notin> nodes t"
  unfolding whole_def using shape_avoids by blast

definition keys :: "rb_memory \<Rightarrow> nat list \<Rightarrow> u64 list" where
  "keys h xs = map (\<lambda>x. rb_key (h x)) xs"

lemma keys_simps [simp]: "keys h [] = []" "keys h (x # xs) = rb_key (h x) # keys h xs" "keys h (xs @ ys) = keys h xs @ keys h ys"
  by (simp_all add: keys_def)

lemma keys_same: "same_keys h h' \<Longrightarrow> keys h' xs = keys h xs"
  by (simp add: keys_def same_keys_def)

lemma set_keys: "set (keys h xs) = (\<lambda>x. rb_key (h x)) ` set xs"
  by (simp add: keys_def)

definition rb_tree :: "rbtree \<Rightarrow> rb_memory \<Rightarrow> tree \<Rightarrow> bool" where
  "rb_tree tr h t \<longleftrightarrow> rb_sentinel tr \<noteq> 0 \<and> rb_color (h (rb_sentinel tr)) = 0 \<and> whole h (rb_sentinel tr) (rb_root tr) t \<and>
     distinct (inorder t) \<and> balanced t \<and> alternates t \<and> \<not> red t \<and> sorted (keys h (inorder t))"

text \<open>The leaf replaces an empty subtree, with the smaller or equal keys before it and the greater ones behind it.\<close>

lemma insert_core_ok:
  assumes "whole h s root (plug fs t)" "distinct (inorder (plug fs t))" "t \<noteq> Tip" "hole h s root fs p q" "shape h s p q t"
    and "n \<notin> nodes (plug fs t)" "n \<noteq> 0" "n \<noteq> s" "height t \<le> fuel"
    and "\<forall>k \<in> set (keys h (before fs)). k \<le> rb_key (h n)" "\<forall>k \<in> set (keys h (behind fs)). rb_key (h n) < k"
    and "sorted (keys h (inorder (plug fs t)))"
  shows "\<exists>h' fs'. rbtree_insert_core fuel q s n h = Inr (Some h') \<and> plug fs' Tip = plug fs t \<and> same_keys h h' \<and>
    whole h' s root (plug fs' (Bin Tip n True Tip)) \<and> length fs' \<le> length fs + height t \<and>
    (\<forall>k \<in> set (keys h (before fs')). k \<le> rb_key (h n)) \<and> (\<forall>k \<in> set (keys h (behind fs')). rb_key (h n) < k) \<and>
    (\<forall>z. z \<notin> insert n (nodes (plug fs t)) \<longrightarrow> h' z = h z)"
  using assms
proof (induction t arbitrary: fs p q fuel)
  case (Bin l x c r)
  obtain f where fuel: "fuel = Suc f" using Bin.prems(9) by (cases fuel) auto
  have q: "q = x" "x \<noteq> 0" "x \<noteq> s" "x \<noteq> n" using Bin.prems(5,6) by (auto simp: nodes_plug)
  define d where "d = (if rb_key (h n) < rb_key (h x) then Lft else Rgt)"
  define tt where "tt = (if rb_key (h n) < rb_key (h x) then l else r)"
  define b where "b = (if rb_key (h n) < rb_key (h x) then r else l)"
  have j: "Bin l x c r = join d tt x c b" by (simp add: d_def tt_def b_def)
  let ?fs = "(d, x, c, b) # fs" and ?it = "child d (h x)"
  have pl: "plug ?fs tt = plug fs (Bin l x c r)" using j by simp
  have it: "(if rb_key (h n) < rb_key (h x) then rb_left (h x) else rb_right (h x)) = ?it" by (simp add: d_def)
  have hl: "hole h s root ?fs x ?it" "shape h s x ?it tt" using Bin.prems(4,5) unfolding j by auto
  have srt: "\<forall>k \<in> set (keys h (inorder l)). k \<le> rb_key (h x)" "\<forall>k \<in> set (keys h (inorder r)). rb_key (h x) \<le> k"
    using Bin.prems(12) by (simp_all add: inorder_plug sorted_append)
  have ord: "\<forall>k \<in> set (keys h (before ?fs)). k \<le> rb_key (h n)" "\<forall>k \<in> set (keys h (behind ?fs)). rb_key (h n) < k"
    using Bin.prems(10,11) srt by (auto simp: d_def b_def intro: less_le_trans order_trans)
  show ?case
  proof (cases "tt = Tip")
    case True
    then have s: "?it = s" using hl(2) by simp
    let ?h = "h(n := (h n)\<lparr>rb_left := s, rb_right := s, rb_parent := x, rb_color := 1\<rparr>)"
    let ?h' = "?h(x := set_child d n (?h x))"
    have "rbtree_insert_core fuel q s n h = Inr (Some ?h')"
      using q Bin.prems(7) it s by (cases d) (auto simp: fuel rd_def wr_def d_def Let_def)
    moreover have av: "x \<notin> nodes b" "x \<notin> outside fs" "n \<notin> nodes b" "n \<notin> outside fs"
      using Bin.prems(2,6) unfolding j by (auto simp: nodes_plug distinct_plug distinct_join)
    then have "hole ?h' s root ?fs x n" "shape ?h' s x n (Bin Tip n True Tip)"
      using hl(1) q Bin.prems(7,8) by (auto simp: color_def)
    then have "whole ?h' s root (plug ?fs (Bin Tip n True Tip))" by (auto simp: shape_plug)
    moreover have "same_keys h ?h'" by (simp add: same_keys_def)
    moreover have "length ?fs \<le> length fs + height (Bin l x c r)" by simp
    moreover have "z \<notin> insert n (nodes (plug fs (Bin l x c r))) \<Longrightarrow> ?h' z = h z" for z by (auto simp: nodes_plug)
    moreover have "plug ?fs Tip = plug fs (Bin l x c r)" using True pl by simp
    ultimately show ?thesis using ord by blast
  next
    case False
    have ih: "height tt \<le> f" using Bin.prems(9) fuel by (simp add: tt_def)
    have ne: "?it \<noteq> s" using hl(2) False shape_pointer by blast
    have rc: "rbtree_insert_core fuel q s n h = rbtree_insert_core f ?it s n h"
      using q Bin.prems(7) it ne by (simp add: fuel rd_def Let_def)
    have le: "length ?fs + height tt \<le> length fs + height (Bin l x c r)" by (simp add: tt_def)
    have "\<exists>h' fs'. rbtree_insert_core f ?it s n h = Inr (Some h') \<and> plug fs' Tip = plug ?fs tt \<and> same_keys h h' \<and>
      whole h' s root (plug fs' (Bin Tip n True Tip)) \<and> length fs' \<le> length ?fs + height tt \<and>
      (\<forall>k \<in> set (keys h (before fs')). k \<le> rb_key (h n)) \<and> (\<forall>k \<in> set (keys h (behind fs')). rb_key (h n) < k) \<and>
      (\<forall>z. z \<notin> insert n (nodes (plug ?fs tt)) \<longrightarrow> h' z = h z)"
    proof (cases "rb_key (h n) < rb_key (h x)")
      case True
      then have "tt = l" by (simp add: tt_def)
      then show ?thesis using Bin.IH(1) [of ?fs x ?it f] Bin.prems False pl hl ord ih by simp
    next
      case False
      then have "tt = r" by (simp add: tt_def)
      then show ?thesis using Bin.IH(2) [of ?fs x ?it f] Bin.prems \<open>tt \<noteq> Tip\<close> pl hl ord ih by simp
    qed
    then obtain h' fs' where r: "rbtree_insert_core f ?it s n h = Inr (Some h')" "length fs' \<le> length ?fs + height tt"
      "plug fs' Tip = plug ?fs tt \<and> same_keys h h' \<and> whole h' s root (plug fs' (Bin Tip n True Tip)) \<and>
      (\<forall>k \<in> set (keys h (before fs')). k \<le> rb_key (h n)) \<and> (\<forall>k \<in> set (keys h (behind fs')). rb_key (h n) < k) \<and>
      (\<forall>z. z \<notin> insert n (nodes (plug ?fs tt)) \<longrightarrow> h' z = h z)"
      by blast
    have "length fs' \<le> length fs + height (Bin l x c r)" using r(2) le by (rule le_trans)
    then show ?thesis using r(1,3) unfolding pl rc by blast
  qed
qed simp

section \<open>Repairing an insertion\<close>

definition touches :: "nat set \<Rightarrow> rb_memory \<Rightarrow> rb_memory \<Rightarrow> bool" where
  "touches N h h' \<longleftrightarrow> same_keys h h' \<and> (\<forall>z. z \<notin> N \<longrightarrow> h' z = h z)"

lemma touches_trans: "touches N h h' \<Longrightarrow> touches N h' h'' \<Longrightarrow> touches N h h''"
  by (simp add: touches_def same_keys_def)

definition paint :: "nat \<Rightarrow> bool \<Rightarrow> rb_memory \<Rightarrow> rb_memory" where
  "paint x c h = h(x := (h x)\<lparr>rb_color := color c\<rparr>)"

lemma paint_set [simp]:
  "x \<noteq> 0 \<Longrightarrow> rbtree_set_red x h = Inr (paint x True h)" "x \<noteq> 0 \<Longrightarrow> rbtree_set_black x h = Inr (paint x False h)"
  by (simp_all add: rbtree_set_red_def rbtree_set_black_def wr_def paint_def color_def)

lemma paint_sel [simp]:
  "rb_parent (paint x c h z) = rb_parent (h z)" "child d (paint x c h z) = child d (h z)" "rb_key (paint x c h z) = rb_key (h z)"
  "rb_left (paint x c h z) = rb_left (h z)" "rb_right (paint x c h z) = rb_right (h z)"
  by (simp_all add: paint_def)

lemma paint_touches: "x \<in> N \<Longrightarrow> touches N h (paint x c h)"
  by (auto simp: touches_def same_keys_def paint_def)

lemma join_opp: "join (opp d) a x c b = join d b x c a"
  by (cases d) auto

lemma paint_ok:
  assumes "whole h s root (plug fs (join d a x c b))" "distinct (inorder (plug fs (join d a x c b)))"
  shows "whole (paint x c' h) s root (plug fs (join d a x c' b))"
proof -
  obtain p q where "hole h s root fs p q" "shape h s p q (join d a x c b)" using assms(1) by (auto simp: shape_plug)
  then have "hole (paint x c' h) s root fs p q" "shape (paint x c' h) s p q (join d a x c' b)"
    using assms(2) by (auto simp: distinct_plug distinct_join paint_def)
  then show ?thesis by (auto simp: shape_plug)
qed

text \<open>A node below a parent and a grandparent.\<close>

lemma grand:
  assumes "whole h s root (plug fs (join d2 (join d1 (join d0 l n c r) p c1 b) g c2 u))"
    and "distinct (inorder (plug fs (join d2 (join d1 (join d0 l n c r) p c1 b) g c2 u)))"
  shows "family h n = Inr (p, g)" "n \<noteq> 0" "p \<noteq> 0" "g \<noteq> 0" "child d2 (h g) = p" "child (opp d2) (h g) \<noteq> p"
    "child d1 (h p) = n" "child (opp d1) (h p) \<noteq> n" "shape h s g (child (opp d2) (h g)) u" "n \<noteq> root"
    "rb_parent (h n) = p" "rb_color (h p) = color c1"
proof -
  obtain pp q where hl: "hole h s root fs pp q" "shape h s pp q (join d2 (join d1 (join d0 l n c r) p c1 b) g c2 u)"
    using assms(1) by (auto simp: shape_plug)
  note ds = assms(2) [unfolded distinct_plug distinct_join]
  show f: "n \<noteq> 0" "p \<noteq> 0" "g \<noteq> 0" "child d2 (h g) = p" "child d1 (h p) = n" "shape h s g (child (opp d2) (h g)) u"
    "rb_parent (h n) = p" "rb_color (h p) = color c1"
    using hl(2) by simp_all
  show "family h n = Inr (p, g)" using hl(2) by (simp add: family_def rd_def)
  have s: "p \<noteq> s" "n \<noteq> s" "shape h s p (child (opp d1) (h p)) b" using hl(2) by simp_all
  have m: "p \<notin> nodes u" "n \<notin> nodes b" using ds by auto
  show "child (opp d2) (h g) \<noteq> p" using shape_pointer [OF f(6)] s(1) m(1) by metis
  show "child (opp d1) (h p) \<noteq> n" using shape_pointer [OF s(3)] s(2) m(2) by metis
  have "root \<in> insert g (outside fs)"
    using hl hole_root [of h s root _ _ pp q] by (cases fs) auto
  then show "n \<noteq> root" using ds by auto
qed

definition turn :: "side \<Rightarrow> nat \<Rightarrow> nat \<Rightarrow> nat \<times> rb_memory \<Rightarrow> fault + nat \<times> nat \<times> rb_memory" where
  "turn d sentinel node s = (case s of (root, h) \<Rightarrow>
     bindE (family h node) (\<lambda>(parent, grandparent).
     bindE (rbtree_set_black parent h) (\<lambda>h.
     bindE (rbtree_set_red grandparent h) (\<lambda>h.
     bindE (rotate d sentinel grandparent (root, h)) (\<lambda>s. Inr (node, s))))))"

lemma turn_ok:
  assumes "whole h s root (plug fs (join d (join d (join d0 l n c r) p c1 b) g c2 u))" 
    and "distinct (inorder (plug fs (join d (join d (join d0 l n c r) p c1 b) g c2 u)))" (is "distinct (inorder ?T)")
  shows "\<exists>root' h'. turn d s n (root, h) = Inr (n, root', h') \<and> touches (nodes ?T) h h' \<and>
    whole h' s root' (plug fs (join d (join d0 l n c r) p False (join d b g True u)))"
proof -
  let ?t = "join d0 l n c r" and ?h1 = "paint p False h"
  note f = grand [OF assms]
  have "whole ?h1 s root (plug ((d, g, c2, u) # fs) (join d ?t p False b))"
    using assms by (intro paint_ok [of _ _ _ _ _ _ _ c1]) simp_all
  moreover have "distinct (inorder (plug fs (join d (join d ?t p False b) g c2 u)))"
    using assms(2) by (simp add: distinct_plug distinct_join)
  ultimately have "whole (paint g True ?h1) s root (plug fs (join d (join d ?t p False b) g True u))"
    by (intro paint_ok [of _ _ _ _ _ _ _ c2]) simp_all
  moreover have "distinct (inorder (plug fs (join d (join d ?t p False b) g True u)))"
    using assms(2) by (simp add: distinct_plug distinct_join)
  ultimately obtain root' h' where r: "rotate d s g (root, paint g True ?h1) = Inr (root', h')" "same_keys (paint g True ?h1) h'"
    "whole h' s root' (plug fs (join d ?t p False (join d b g True u)))"
    "\<forall>z. z \<notin> nodes (plug fs (join d (join d ?t p False b) g True u)) \<longrightarrow> h' z = paint g True ?h1 z"
    using rotate_ok by metis
  have "touches (nodes ?T) (paint g True ?h1) h'" using r(2,4) by (simp add: touches_def nodes_plug)
  moreover have "touches (nodes ?T) h ?h1" "touches (nodes ?T) ?h1 (paint g True ?h1)"
    by (rule paint_touches, simp add: nodes_plug)+
  ultimately have "touches (nodes ?T) h h'" by (metis touches_trans)
  then show ?thesis using f(1,3,4) r(1,3) by (simp add: turn_def)
qed

definition step_on :: "side \<Rightarrow> nat \<Rightarrow> nat \<Rightarrow> nat \<Rightarrow> nat \<Rightarrow> nat \<times> rb_memory \<Rightarrow> fault + nat \<times> nat \<times> rb_memory" where
  "step_on d sentinel node parent grandparent s = (case s of (root, h) \<Rightarrow>
     let uncle = child (opp d) (h grandparent) in
     bindE (rbtree_is_red h uncle) (\<lambda>red.
     if red then recolor node uncle s
     else if node = child (opp d) (h parent)
     then bindE (rotate (opp d) sentinel parent s) (turn d sentinel parent)
     else turn d sentinel node s))"

lemma insert_step_eq:
  assumes "family h n = Inr (p, g)" "p \<noteq> 0" "g \<noteq> 0" "child d (h g) = p" "child (opp d) (h g) \<noteq> p"
  shows "insert_step s n (root, h) = step_on d s n p g (root, h)"
  using assms
  by (cases d; cases "rbtree_is_red h (child (opp d) (h g))")
    (auto simp: insert_step_def step_on_def turn_def [abs_def] rd_def rotate_right_eq rotate_left_eq Let_def bindE_assoc)

lemma inner_paths:
  "plug fs (join d (join (opp d) t p c1 b) g c2 u) = plug ((d, g, c2, u) # fs) (join (opp d) t p c1 b)"
  "plug fs (join d (join (opp d) l n c (join (opp d) r p c1 b)) g c2 u) =
   plug fs (join d (join d (join (opp d) r p c1 b) n c l) g c2 u)"
  by (simp_all add: join_opp)

lemma recolor_ok:
  assumes "whole h s root (plug fs (join d2 (join d1 (join d0 l n c r) p c1 b) g c2 (join d3 ul ux c3 ur)))"
    and "distinct (inorder (plug fs (join d2 (join d1 (join d0 l n c r) p c1 b) g c2 (join d3 ul ux c3 ur))))"
      (is "distinct (inorder ?T)")
  shows "\<exists>h'. recolor n ux (root, h) = Inr (g, root, h') \<and> touches (nodes ?T) h h' \<and>
    whole h' s root (plug fs (join d2 (join d1 (join d0 l n c r) p False b) g True (join d3 ul ux False ur)))"
proof -
  let ?t = "join d0 l n c r" and ?u = "join d3 ul ux c3 ur"
  let ?h1 = "paint p False h" and ?h2 = "paint ux False (paint p False h)" and ?h3 = "paint g True (paint ux False (paint p False h))"
  note f = grand [OF assms]
  have d: "distinct (inorder (plug fs (join d2 (join d1 ?t p k1 b) g k2 (join d3 ul ux k3 ur))))" for k1 k2 k3
    using assms(2) by (simp add: distinct_plug distinct_join)
  have "ux \<noteq> 0" using f(9) by simp
  have "whole ?h1 s root (plug ((d2, g, c2, ?u) # fs) (join d1 ?t p False b))"
    using assms by (intro paint_ok [of _ _ _ _ _ _ _ c1]) simp_all
  then have "whole ?h1 s root (plug ((opp d2, g, c2, join d1 ?t p False b) # fs) ?u)" by (simp add: join_opp)
  then have "whole ?h2 s root (plug ((opp d2, g, c2, join d1 ?t p False b) # fs) (join d3 ul ux False ur))"
    using d [of False c2 c3] by (intro paint_ok [of _ _ _ _ _ _ _ c3]) (simp_all add: join_opp)
  then have "whole ?h2 s root (plug fs (join d2 (join d1 ?t p False b) g c2 (join d3 ul ux False ur)))" by (simp add: join_opp)
  then have "whole ?h3 s root (plug fs (join d2 (join d1 ?t p False b) g True (join d3 ul ux False ur)))"
    using d [of False c2 False] by (intro paint_ok [of _ _ _ _ _ _ _ c2]) simp_all
  moreover have c: "touches (nodes ?T) h ?h1" "touches (nodes ?T) ?h1 ?h2" "touches (nodes ?T) ?h2 ?h3"
    by (rule paint_touches, simp add: nodes_plug)+
  have "touches (nodes ?T) h ?h3" by (rule touches_trans [OF touches_trans [OF c(1,2)] c(3)])
  moreover have "recolor n ux (root, h) = Inr (g, root, ?h3)" using f(1,3,4) \<open>ux \<noteq> 0\<close> by (simp add: recolor_def)
  ultimately show ?thesis by blast
qed

lemma is_red_sub:
  assumes "shape h s g q u" "\<not> red u" "rb_color (h s) = 0" "s \<noteq> 0"
  shows "rbtree_is_red h q = Inr False"
  using assms by (cases u) (auto simp: rbtree_is_red_def rd_def color_def)

lemma inorder_swap: "inorder (join d a x c b) = (case d of Lft \<Rightarrow> inorder a @ x # inorder b | Rgt \<Rightarrow> inorder b @ x # inorder a)"
  by (cases d) auto

text \<open>What the last steps of the repair need of the tree that they change, and what they make of it.\<close>

definition mended :: "tree \<Rightarrow> tree \<Rightarrow> bool" where
  "mended v w \<longleftrightarrow> alternates w \<and> \<not> red w \<and> balanced w \<and> black_height w = black_height v \<and> inorder w = inorder v"

lemma outer_ok:
  assumes "whole h s root (plug fs (join d (join d t p True b) g False u))"
    and "distinct (inorder (plug fs (join d (join d t p True b) g False u)))" (is "distinct (inorder (plug fs ?v))")
    and "rb_color (h s) = 0" "s \<noteq> 0" "alternates t" "alternates b" "\<not> red b" "alternates u" "\<not> red u"
      "balanced (join d (join d t p True b) g False u)"
    and t: "t = join d l n True r"
  shows "\<exists>root' h' w z. step_on d s n p g (root, h) = Inr (n, root', h') \<and> touches (nodes (plug fs ?v)) h h' \<and>
    whole h' s root' (plug fs w) \<and> mended ?v w \<and> w = join d t p False z"
proof -
  note f = grand [OF assms(1,2) [unfolded t]]
  obtain root' h' where r: "turn d s n (root, h) = Inr (n, root', h')" "touches (nodes (plug fs ?v)) h h'"
    "whole h' s root' (plug fs (join d t p False (join d b g True u)))"
    using turn_ok [OF assms(1,2) [unfolded t]] unfolding t by metis
  have "step_on d s n p g (root, h) = Inr (n, root', h')"
    using is_red_sub [OF f(9) assms(9,3,4)] f(8) r(1) by (simp add: step_on_def Let_def)
  moreover have "mended ?v (join d t p False (join d b g True u))"
    using assms(5-10) by (cases d) (auto simp: mended_def)
  ultimately show ?thesis using r(2,3) by blast
qed

lemma inner_ok:
  assumes "whole h s root (plug fs (join d (join (opp d) t p True b) g False u))"
    and "distinct (inorder (plug fs (join d (join (opp d) t p True b) g False u)))" (is "distinct (inorder (plug fs ?v))")
    and "rb_color (h s) = 0" "s \<noteq> 0" "alternates t" "alternates b" "\<not> red b" "alternates u" "\<not> red u"
      "balanced (join d (join (opp d) t p True b) g False u)"
    and t: "t = join (opp d) l n True r"
  shows "\<exists>root' h' w z. step_on d s n p g (root, h) = Inr (p, root', h') \<and> touches (nodes (plug fs ?v)) h h' \<and>
    whole h' s root' (plug fs w) \<and> mended ?v w \<and> w = join d (join (opp d) r p True b) n False z"
proof -
  let ?fs = "(d, g, False, u) # fs" and ?p = "join (opp d) r p True b"
  note f = grand [OF assms(1,2) [unfolded t]]
  have e: "plug fs ?v = plug ?fs (join (opp d) (join (opp d) l n True r) p True b)" by (simp add: t)
  obtain root1 h1 where r: "rotate (opp d) s p (root, h) = Inr (root1, h1)" "same_keys h h1"
    "whole h1 s root1 (plug ?fs (join (opp d) l n True ?p))" "\<forall>z. z \<notin> nodes (plug fs ?v) \<longrightarrow> h1 z = h z"
    using rotate_ok [OF assms(1,2) [unfolded e]] unfolding e by metis
  have e1: "plug ?fs (join (opp d) l n True ?p) = plug fs (join d (join d ?p n True l) g False u)" by (simp add: join_opp)
  have d1: "distinct (inorder (plug fs (join d (join d ?p n True l) g False u)))"
    using assms(2) by (auto simp: t distinct_plug distinct_join)
  have nd: "nodes (plug fs (join d (join d ?p n True l) g False u)) = nodes (plug fs ?v)"
    by (auto simp: nodes_plug t)
  obtain root' h' where r1: "turn d s p (root1, h1) = Inr (p, root', h')" "touches (nodes (plug fs ?v)) h1 h'"
    "whole h' s root' (plug fs (join d ?p n False (join d l g True u)))"
    using turn_ok [OF r(3) [unfolded e1] d1] unfolding nd by metis
  have "touches (nodes (plug fs ?v)) h h1" using r(2,4) by (simp add: touches_def)
  then have "touches (nodes (plug fs ?v)) h h'" using r1(2) by (rule touches_trans)
  moreover have "step_on d s n p g (root, h) = Inr (p, root', h')"
    using is_red_sub [OF f(9) assms(9,3,4)] f(7) r(1) r1(1) by (simp add: step_on_def Let_def)
  moreover have "mended ?v (join d ?p n False (join d l g True u))"
    using assms(5-10) unfolding t by (cases d) (auto simp: mended_def)
  ultimately show ?thesis using r1(3) by blast
qed

lemma plug_mended:
  assumes "mended v w" "path_alternates fs" "balanced (plug fs v)"
  shows "alternates (plug fs w) \<and> balanced (plug fs w) \<and> inorder (plug fs w) = inorder (plug fs v) \<and>
    black_height (plug fs w) = black_height (plug fs v)"
proof (cases "fs = []")
  case False
  then show ?thesis using assms alternates_plug [OF False, of w] balanced_plug [OF assms(3), of w]
    by (simp add: mended_def inorder_plug)
qed (use assms in \<open>simp add: mended_def\<close>)

lemma insert_fixup_stops:
  assumes "whole h s root (plug fs (join d (join d0 l n c r) y False z))"
    and "distinct (inorder (plug fs (join d (join d0 l n c r) y False z)))"
  shows "insert_fixup (Suc fuel) s n (root, h) = Inr (Some (root, h))"
proof -
  obtain p q where hl: "hole h s root fs p q" "shape h s p q (join d (join d0 l n c r) y False z)"
    using assms(1) by (auto simp: shape_plug)
  have "n \<noteq> 0" "rb_parent (h n) = y" "y \<noteq> 0" "rb_color (h y) = 0" using hl(2) by (simp_all add: color_def)
  then show ?thesis by (simp add: rd_def rbtree_is_red_def)
qed

lemma insert_fixup_ok:
  assumes "whole h s root (plug fs (join d0 l n True r))" "distinct (inorder (plug fs (join d0 l n True r)))"
    and "alternates (join d0 l n True r)" "path_alternates fs" "balanced (plug fs (join d0 l n True r))"
    and "s \<noteq> 0" "rb_color (h s) = 0" "length fs < fuel"
  shows "\<exists>root' h' t'. insert_fixup fuel s n (root, h) = Inr (Some (root', h')) \<and>
    touches (nodes (plug fs (join d0 l n True r))) h h' \<and> whole h' s root' t' \<and>
    inorder t' = inorder (plug fs (join d0 l n True r)) \<and> balanced t' \<and> alternates t'"
  using assms
proof (induction fuel arbitrary: fs h root d0 l n r)
  case (Suc fuel)
  let ?t = "join d0 l n True r"
  have stop: "touches N h h" for N by (simp add: touches_def)
  show ?case
  proof (cases fs)
    case Nil
    then have "root = n" using Suc.prems(1) by simp
    then have "insert_fixup (Suc fuel) s n (root, h) = Inr (Some (root, h))" by simp
    then show ?thesis using Suc.prems Nil stop by (intro exI [of _ root] exI [of _ h] exI [of _ ?t]) simp
  next
    case (Cons f fs1)
    obtain d1 p c1 b where f: "f = (d1, p, c1, b)" by (cases f) auto
    have T: "plug fs ?t = plug fs1 (join d1 ?t p c1 b)" using Cons f by simp
    show ?thesis
    proof (cases c1)
      case False
      have "insert_fixup (Suc fuel) s n (root, h) = Inr (Some (root, h))"
        using insert_fixup_stops [of h s root fs1 d1 d0 l n True r p b] Suc.prems(1,2) T False by simp
      moreover have "alternates (plug fs ?t)" using alternates_plug [of fs ?t] Suc.prems(3,4) Cons f False by simp
      ultimately show ?thesis using Suc.prems stop by blast
    next
      case True
      then obtain d2 g u fs2 where fs1: "fs1 = (d2, g, False, u) # fs2" using Suc.prems(4) Cons f by (cases fs1) auto
      let ?v = "join d2 (join d1 ?t p True b) g False u"
      have T2: "plug fs ?t = plug fs2 ?v" using T fs1 True by simp
      have al: "alternates b" "\<not> red b" "alternates u" "path_alternates fs2" using Suc.prems(4) Cons f fs1 True by auto
      have bv: "balanced ?v" using Suc.prems(5) T2 balanced_focus by metis
      note g = grand [OF Suc.prems(1,2) [unfolded T2]]
      have go: "insert_fixup (Suc fuel) s n (root, h) =
          bindE (step_on d2 s n p g (root, h)) (\<lambda>(node, s'). insert_fixup fuel s node s')"
        using g insert_step_eq [OF g(1,3,4,5,6), of s root]
        by (simp add: rd_def rbtree_is_red_def color_def split_def)
      show ?thesis
      proof (cases "red u")
        case True
        then obtain ul ux ur where u: "u = join Lft ul ux True ur" by (cases u) auto
        let ?w = "join d2 (join d1 ?t p False b) g True (join Lft ul ux False ur)"
        have ux: "child (opp d2) (h g) = ux" "ux \<noteq> 0" "rb_color (h ux) = 1" using g(9) u by (auto simp: color_def)
        obtain h' where r: "recolor n ux (root, h) = Inr (g, root, h')" "touches (nodes (plug fs2 ?v)) h h'"
          "whole h' s root (plug fs2 ?w)"
          using recolor_ok [OF Suc.prems(1,2) [unfolded T2 u]] unfolding u by metis
        have so: "step_on d2 s n p g (root, h) = Inr (g, root, h')"
          using ux r(1) by (simp add: step_on_def rbtree_is_red_def rd_def Let_def)
        have nd: "nodes (plug fs2 ?w) = nodes (plug fs2 ?v)" unfolding u by (simp add: nodes_plug)
        have io: "inorder (plug fs2 ?w) = inorder (plug fs2 ?v)"
          unfolding u by (cases d1; cases d2) (simp_all add: inorder_plug)
        have "balanced ?w" "black_height ?w = black_height ?v" using bv unfolding u by (cases d0; cases d1; cases d2; auto)+
        then have bw: "balanced (plug fs2 ?w)" using balanced_plug Suc.prems(5) unfolding T2 by blast
        have aw: "alternates ?w" using Suc.prems(3) al u by simp
        have "s \<notin> nodes (plug fs2 ?v)" using whole_avoids [OF Suc.prems(1)] T2 by simp
        then have hs: "rb_color (h' s) = 0" using r(2) Suc.prems(7) by (simp add: touches_def)
        have dw: "distinct (inorder (plug fs2 ?w))" using Suc.prems(2) unfolding T2 io .
        have "length fs2 < fuel" using Suc.prems(8) Cons fs1 by simp
        from Suc.IH [OF r(3) dw aw al(4) bw Suc.prems(6) hs this]
        obtain root' h'' t' where i: "insert_fixup fuel s g (root, h') = Inr (Some (root', h''))"
          "touches (nodes (plug fs2 ?v)) h' h''" "whole h'' s root' t'" "inorder t' = inorder (plug fs2 ?v)"
          "balanced t'" "alternates t'"
          unfolding nd io by blast
        have "insert_fixup (Suc fuel) s n (root, h) = Inr (Some (root', h''))" unfolding go so using i(1) by simp
        then show ?thesis using i(3-6) touches_trans [OF r(2) i(2)] unfolding T2 by blast
      next
        case False
        obtain f where fuel: "fuel = Suc f" using Suc.prems(8) Cons fs1 by (cases fuel) auto
        note pre = Suc.prems(1,2) [unfolded T2]
        have "\<exists>node' root' h' w z d' l' r'. step_on d2 s n p g (root, h) = Inr (node', root', h') \<and>
          touches (nodes (plug fs2 ?v)) h h' \<and> whole h' s root' (plug fs2 w) \<and> mended ?v w \<and>
          (\<exists>y. w = join d2 (join d' l' node' True r') y False z)"
        proof (cases "d1 = d2")
          case True
          obtain l' r' where t: "?t = join d2 l' n True r'" by (metis (full_types) join_opp opp.cases opp_simps(2) side.exhaust opp.simps)
          show ?thesis
            using outer_ok [OF pre [unfolded True] Suc.prems(7,6,3) al(1,2,3) False bv [unfolded True] t]
            unfolding True t by blast
        next
          case ne: False
          then have o: "d1 = opp d2" by (cases d1; cases d2) auto
          obtain l' r' where t: "?t = join (opp d2) l' n True r'" by (metis (full_types) join_opp opp.cases opp_simps(2) side.exhaust opp.simps)
          show ?thesis
            using inner_ok [OF pre [unfolded o] Suc.prems(7,6,3) al(1,2,3) False bv [unfolded o] t]
            unfolding o by blast
        qed
        then obtain node' root' h' w z d' l' r' y where r: "step_on d2 s n p g (root, h) = Inr (node', root', h')"
          "touches (nodes (plug fs2 ?v)) h h'" "whole h' s root' (plug fs2 w)" "mended ?v w"
          "w = join d2 (join d' l' node' True r') y False z" by blast
        note m = plug_mended [OF r(4) al(4) Suc.prems(5) [unfolded T2]]
        have "distinct (inorder (plug fs2 w))" using m pre(2) by simp
        then have "insert_fixup fuel s node' (root', h') = Inr (Some (root', h'))"
          using insert_fixup_stops r(3) unfolding fuel r(5) by blast
        then have "insert_fixup (Suc fuel) s n (root, h) = Inr (Some (root', h'))" unfolding go r(1) by simp
        then show ?thesis using r(2,3) m unfolding T2 by blast
      qed
    qed
  qed
qed simp

section \<open>Insertion\<close>

lemma split_sorted:
  assumes "\<forall>k \<in> set (keys h xs). k \<le> a" "\<forall>k \<in> set (keys h ys). a < k"
  shows "takeWhile (\<lambda>x. rb_key (h x) \<le> a) (xs @ ys) = xs" "dropWhile (\<lambda>x. rb_key (h x) \<le> a) (xs @ ys) = ys"
proof -
  have x: "\<forall>x \<in> set xs. rb_key (h x) \<le> a" using assms(1) by (simp add: set_keys)
  have y: "ys = [] \<or> \<not> rb_key (h (hd ys)) \<le> a" using assms(2) by (cases ys) auto
  show "takeWhile (\<lambda>x. rb_key (h x) \<le> a) (xs @ ys) = xs" using x y by (cases ys) (simp_all add: takeWhile_append2)
  show "dropWhile (\<lambda>x. rb_key (h x) \<le> a) (xs @ ys) = ys" using x y by (cases ys) (simp_all add: dropWhile_append2)
qed

lemma insert_below:
  assumes "rb_tree tr h t" "t \<noteq> Tip" "n \<notin> nodes t" "n \<noteq> 0" "n \<noteq> rb_sentinel tr" "height t < fuel"
  shows "\<exists>root' h' t' xs ys. rbtree_insert fuel tr n h = Inr (Some (tr\<lparr>rb_root := root'\<rparr>, h')) \<and>
    touches (insert n (nodes t)) h h' \<and> whole h' (rb_sentinel tr) root' t' \<and> balanced t' \<and> alternates t' \<and> \<not> red t' \<and>
    inorder t = xs @ ys \<and> inorder t' = xs @ n # ys \<and>
    (\<forall>k \<in> set (keys h xs). k \<le> rb_key (h n)) \<and> (\<forall>k \<in> set (keys h ys). rb_key (h n) < k)"
proof -
  let ?s = "rb_sentinel tr" and ?root = "rb_root tr"
  have t: "whole h ?s ?root t" "distinct (inorder t)" "balanced t" "alternates t" "\<not> red t" "sorted (keys h (inorder t))"
    "?s \<noteq> 0" "rb_color (h ?s) = 0"
    using assms(1) by (simp_all add: rb_tree_def)
  have rt: "?root \<noteq> 0" "?root \<noteq> ?s" using whole_pointer [OF t(1)] assms(2) by auto
  obtain p0 where p0: "shape h ?s p0 ?root t" using t(1) by (auto simp: whole_def)
  obtain h1 fs where c: "rbtree_insert_core fuel ?root ?s n h = Inr (Some h1)" "plug fs Tip = t" "same_keys h h1"
    "whole h1 ?s ?root (plug fs (join Lft Tip n True Tip))" "length fs \<le> height t"
    "\<forall>k \<in> set (keys h (before fs)). k \<le> rb_key (h n)" "\<forall>k \<in> set (keys h (behind fs)). rb_key (h n) < k"
    "\<forall>z. z \<notin> insert n (nodes t) \<longrightarrow> h1 z = h z"
    using insert_core_ok [of h ?s ?root "[]" t p0 ?root n fuel] t p0 assms(2-6) by auto
  have fs: "fs \<noteq> []" using c(2) assms(2) by auto
  let ?l = "join Lft Tip n True Tip"
  have io: "inorder (plug fs ?l) = before fs @ n # behind fs" "inorder t = before fs @ behind fs"
    using c(2) by (auto simp: inorder_plug)
  have nd: "nodes (plug fs ?l) = insert n (nodes t)" using c(2) by (auto simp: nodes_plug)
  have "n \<notin> set (before fs @ behind fs)" using assms(3) io(2) by (metis set_inorder)
  then have d: "distinct (inorder (plug fs ?l))" using t(2) unfolding io by auto
  have al: "path_alternates fs" using alternates_plug [OF fs, of Tip] t(4,5) c(2) by auto
  have bl: "balanced (plug fs ?l)" using balanced_plug [of fs Tip ?l] t(3) c(2) by simp
  have s1: "rb_color (h1 ?s) = 0" using c(8) whole_avoids [OF t(1)] assms(5) t(8) by simp
  obtain root' h2 t2 where f: "insert_fixup fuel ?s n (?root, h1) = Inr (Some (root', h2))"
    "touches (insert n (nodes t)) h1 h2" "whole h2 ?s root' t2" "inorder t2 = before fs @ n # behind fs" "balanced t2" "alternates t2"
    using insert_fixup_ok [OF c(4) d _ al bl t(7) s1, of fuel] c(5) assms(6) unfolding io nd by auto
  have "t2 \<noteq> Tip" using f(4) by auto
  then obtain l x c2 r where t2: "t2 = join Lft l x c2 r" by (cases t2) auto
  have x: "root' = x" "x \<noteq> 0" using f(3) t2 by auto
  have d2: "distinct (inorder t2)" using d f(4) io(1) by simp
  have "whole (paint x False h2) ?s root' (join Lft l x False r)"
    using paint_ok [of h2 ?s root' "[]" Lft l x c2 r False] f(3) d2 t2 by simp
  moreover have "touches (insert n (nodes t)) h (paint x False h2)"
  proof -
    have "x \<in> nodes t2" using t2 by simp
    then have "x \<in> insert n (nodes t)" using f(4) io(2) by (metis Un_iff insert_iff list.set(2) set_append set_inorder)
    then have "touches (insert n (nodes t)) h2 (paint x False h2)" by (rule paint_touches)
    moreover have "touches (insert n (nodes t)) h h1" using c(3,8) by (simp add: touches_def)
    ultimately show ?thesis using f(2) by (metis touches_trans)
  qed
  moreover have "rbtree_insert fuel tr n h = Inr (Some (tr\<lparr>rb_root := root'\<rparr>, paint x False h2))"
    using rt assms(4) c(1) f(1) x by (simp add: rbtree_insert_def Let_def)
  moreover have "balanced (join Lft l x False r)" "alternates (join Lft l x False r)" "inorder (join Lft l x False r) = inorder t2"
    using f(5,6) t2 by simp_all
  ultimately show ?thesis using c(6,7) f(4) io(2) by (metis join_simps(1))
qed

text \<open>
  C38. Inserting a node into the tree of the timers returns after at most two steps per doubling of the
  size, without an invalid access, and keeps it a red-black tree: both sides of every node have as many
  black nodes, no red node has a red child, and all pointers agree. The new node stands behind the nodes
  whose keys are smaller or equal and before the others; the others stay in order, and no other memory
  changes.
\<close>

theorem rbtree_insert_ok:
  assumes "rb_tree tr h t" "n \<notin> nodes t" "n \<noteq> 0" "n \<noteq> rb_sentinel tr"
    and "length (inorder t) + 1 < 2 ^ Suc k" "2 * k < fuel"
  shows "\<exists>tr' h' t'. rbtree_insert fuel tr n h = Inr (Some (tr', h')) \<and> rb_tree tr' h' t' \<and>
    inorder t' = takeWhile (\<lambda>x. rb_key (h x) \<le> rb_key (h n)) (inorder t) @
      n # dropWhile (\<lambda>x. rb_key (h x) \<le> rb_key (h n)) (inorder t) \<and>
    touches (insert n (nodes t)) h h'"
proof (cases "t = Tip")
  case True
  let ?s = "rb_sentinel tr" and ?h = "h(n := (h n)\<lparr>rb_left := rb_sentinel tr, rb_right := rb_sentinel tr, rb_parent := 0, rb_color := 0\<rparr>)"
  have r: "rb_root tr = ?s" "?s \<noteq> 0" "rb_color (h ?s) = 0" using assms(1) True by (simp_all add: rb_tree_def)
  have "rbtree_insert fuel tr n h = Inr (Some (tr\<lparr>rb_root := n\<rparr>, ?h))"
    using r assms(3) by (simp add: rbtree_insert_def wr_def Let_def)
  moreover have "rb_tree (tr\<lparr>rb_root := n\<rparr>) ?h (Bin Tip n False Tip)"
    using r assms(3,4) by (simp add: rb_tree_def color_def)
  moreover have "touches (insert n (nodes t)) h ?h" by (simp add: touches_def same_keys_def)
  ultimately show ?thesis using True by (intro exI [of _ "tr\<lparr>rb_root := n\<rparr>"] exI [of _ ?h] exI [of _ "Bin Tip n False Tip"]) simp
next
  case False
  have b: "balanced t" "alternates t" "\<not> red t" "sorted (keys h (inorder t))" using assms(1) by (simp_all add: rb_tree_def)
  have "height t < fuel" using height_logarithmic [OF b(1-3) assms(5)] assms(6) by simp
  then obtain root' h' t' xs ys where r: "rbtree_insert fuel tr n h = Inr (Some (tr\<lparr>rb_root := root'\<rparr>, h'))"
    "touches (insert n (nodes t)) h h'" "whole h' (rb_sentinel tr) root' t'" "balanced t'" "alternates t'" "\<not> red t'"
    "inorder t = xs @ ys" "inorder t' = xs @ n # ys" "\<forall>k \<in> set (keys h xs). k \<le> rb_key (h n)"
    "\<forall>k \<in> set (keys h ys). rb_key (h n) < k"
    using insert_below [OF assms(1) False assms(2-4), of fuel] by blast
  have "keys h' = keys h" using r(2) by (auto simp: touches_def keys_same)
  then have "sorted (keys h' (inorder t'))" using b(4) r(7-10) by (auto simp: sorted_append less_imp_le)
  moreover have "distinct (inorder t')" using assms(1,2) r(7,8) by (auto simp: rb_tree_def nodes_def)
  moreover have "h' (rb_sentinel tr) = h (rb_sentinel tr)"
    using r(2) whole_avoids [of h "rb_sentinel tr"] assms(1,4) by (auto simp: touches_def rb_tree_def)
  ultimately have "rb_tree (tr\<lparr>rb_root := root'\<rparr>) h' t'" using r(3-6) assms(1) by (simp add: rb_tree_def)
  moreover have "inorder t' = takeWhile (\<lambda>x. rb_key (h x) \<le> rb_key (h n)) (inorder t) @
      n # dropWhile (\<lambda>x. rb_key (h x) \<le> rb_key (h n)) (inorder t)"
    using split_sorted [OF r(9,10)] r(7,8) by simp
  ultimately show ?thesis using r(1,2) by blast
qed

definition sample_memory :: rb_memory where
  "sample_memory = (\<lambda>_. \<lparr>rb_key = 0, rb_left = 0, rb_right = 0, rb_parent = 0, rb_color = 0\<rparr>)
     (2 := \<lparr>rb_key = 5, rb_left = 1, rb_right = 1, rb_parent = 0, rb_color = 0\<rparr>,
      3 := \<lparr>rb_key = 4, rb_left = 0, rb_right = 0, rb_parent = 0, rb_color = 0\<rparr>)"

lemma sample_rb_tree: "rb_tree \<lparr>rb_root = 2, rb_sentinel = 1\<rparr> sample_memory (Bin Tip 2 False Tip)"
  by (simp add: rb_tree_def sample_memory_def color_def)

theorem rbtree_insert_ok_witness:
  "\<exists>tr' h' t'. rbtree_insert 3 \<lparr>rb_root = 2, rb_sentinel = 1\<rparr> 3 sample_memory = Inr (Some (tr', h')) \<and>
    rb_tree tr' h' t' \<and> inorder t' = [3, 2]"
proof -
  have k: "rb_key (sample_memory 2) = 5" "rb_key (sample_memory 3) = 4" by (simp_all add: sample_memory_def)
  show ?thesis using rbtree_insert_ok [OF sample_rb_tree, of 3 1 3] by (simp add: k) blast
qed

section \<open>Walking through the tree\<close>

lemma rbtree_min_ok:
  "shape h s p q t \<Longrightarrow> t \<noteq> Tip \<Longrightarrow> height t \<le> fuel \<Longrightarrow> rbtree_min fuel s h q = Inr (Some (hd (inorder t)))"
proof (induction t arbitrary: p q fuel)
  case (Bin l x c r)
  obtain f where f: "fuel = Suc f" "height l \<le> f" using Bin.prems(3) by (cases fuel) auto
  show ?case
  proof (cases "l = Tip")
    case False
    moreover have "rb_left (h x) \<noteq> s" using Bin.prems(1) False shape_pointer by fastforce
    moreover have "hd (inorder (Bin l x c r)) = hd (inorder l)" using False by (cases l) (auto simp: hd_append)
    ultimately show ?thesis using Bin.IH(1) [of x "rb_left (h x)" f] Bin.prems(1) f by (simp add: rd_def)
  qed (use Bin.prems(1) f in \<open>auto simp: rd_def\<close>)
qed simp

lemma climb_ok:
  assumes "hole h s root fs p x" "x \<notin> outside fs" "spread fs" "rb_parent (h x) = p" "x \<noteq> 0" "x \<noteq> s" "length fs < fuel"
  shows "climb fuel root h x = Inr (Some (if behind fs = [] then 0 else hd (behind fs)))"
  using assms
proof (induction fs arbitrary: x p fuel)
  case Nil
  then show ?case by (cases fuel) (auto simp: rd_def)
next
  case (Cons f fs)
  obtain d y c b where f: "f = (d, y, c, b)" by (cases f) auto
  obtain fu where fuel: "fuel = Suc fu" "length fs < fu" using Cons.prems(7) by (cases fuel) auto
  have ne: "x \<noteq> root" using hole_root [OF Cons.prems(1)] Cons.prems(2) by auto
  have y: "p = y" "y \<noteq> 0" "y \<noteq> s" "child d (h y) = x" "shape h s y (child (opp d) (h y)) b" "hole h s root fs (rb_parent (h y)) y"
    "y \<notin> outside fs" "spread fs"
    using Cons.prems(1,3) f by auto
  show ?case
  proof (cases d)
    case Lft
    then show ?thesis using y ne Cons.prems(4,5) f fuel(1) by (simp add: rd_def)
  next
    case Rgt
    have "rb_left (h y) \<noteq> x" using shape_pointer [OF y(5)] Cons.prems(2,6) f Rgt by auto
    then show ?thesis using Cons.IH [OF y(6,7,8) refl y(2,3) fuel(2)] y(1,2) ne Cons.prems(4,5) f fuel(1) Rgt
      by (simp add: rd_def)
  qed
qed

lemma plug_locate: "x \<in> nodes t \<Longrightarrow> \<exists>fs l c r. t = plug fs (Bin l x c r)"
proof (induction t)
  case (Bin l y c r)
  have app: "plug (fs @ gs) t = plug gs (plug fs t)" for fs gs t by (induction fs t rule: plug.induct) auto
  consider "x = y" | "x \<in> nodes l" | "x \<in> nodes r" using Bin.prems by auto
  then show ?case
  proof cases
    case 1
    then have "Bin l y c r = plug [] (Bin l x c r)" by simp
    then show ?thesis by blast
  next
    case 2
    then obtain fs a k b where "l = plug fs (Bin a x k b)" using Bin.IH(1) by blast
    then have "Bin l y c r = plug (fs @ [(Lft, y, c, r)]) (Bin a x k b)" by (simp add: app)
    then show ?thesis by blast
  next
    case 3
    then obtain fs a k b where "r = plug fs (Bin a x k b)" using Bin.IH(2) by blast
    then have "Bin l y c r = plug (fs @ [(Rgt, y, c, l)]) (Bin a x k b)" by (simp add: app)
    then show ?thesis by blast
  qed
qed simp

lemma height_plug: "length fs + height t \<le> height (plug fs t)"
proof (induction fs t rule: plug.induct)
  case (2 d x c b fs t)
  have "Suc (height t) \<le> height (join d t x c b)" by (cases d) auto
  then show ?case using 2 by simp
qed simp

text \<open>
  The walk through the tree returns after at most two steps per doubling of its size: the minimum is
  the first node in the order of the keys, and the successor of a node is the next one in that order, or
  null for the last.
\<close>

theorem rbtree_walk_ok:
  assumes "rb_tree tr h t" "length (inorder t) + 1 < 2 ^ Suc k" "2 * k < fuel" "inorder t = xs @ x # ys"
  shows "rbtree_min fuel (rb_sentinel tr) h (rb_root tr) = Inr (Some (hd (xs @ [x]))) \<and>
    rbtree_next fuel tr h x = Inr (Some (if ys = [] then 0 else hd ys))"
proof
  let ?s = "rb_sentinel tr"
  have b: "balanced t" "alternates t" "\<not> red t" "whole h ?s (rb_root tr) t" "distinct (inorder t)"
    using assms(1) by (simp_all add: rb_tree_def)
  have ht: "height t < fuel" using height_logarithmic [OF b(1-3) assms(2)] assms(3) by simp
  have "t \<noteq> Tip" using assms(4) by auto
  moreover have "hd (inorder t) = hd (xs @ [x])" unfolding assms(4) by (cases xs) auto
  ultimately show "rbtree_min fuel ?s h (rb_root tr) = Inr (Some (hd (xs @ [x])))"
    using rbtree_min_ok [of h ?s _ "rb_root tr" t fuel] b(4) ht by (auto simp: whole_def)
  have "x \<in> nodes t" unfolding nodes_def assms(4) by simp
  then obtain fs l c r where t: "t = plug fs (Bin l x c r)" using plug_locate by blast
  have "xs @ x # ys = (before fs @ inorder l) @ x # (inorder r @ behind fs)"
    using assms(4) by (simp add: t inorder_plug)
  moreover have "x \<notin> set xs" "x \<notin> set ys" using b(5) assms(4) by auto
  ultimately have ys: "ys = inorder r @ behind fs" using append_Cons_eq_iff [of x xs ys] by blast
  obtain p q where hl: "hole h ?s (rb_root tr) fs p q" "shape h ?s p q (Bin l x c r)" using b(4) by (auto simp: t shape_plug)
  have x: "q = x" "x \<noteq> 0" "x \<noteq> ?s" "rb_parent (h x) = p" "shape h ?s x (rb_right (h x)) r" using hl(2) by simp_all
  have sp: "spread fs" "x \<notin> outside fs" using b(5) unfolding t distinct_plug by auto
  have le: "length fs + height (Bin l x c r) < fuel" using ht height_plug [of fs "Bin l x c r"] unfolding t by simp
  show "rbtree_next fuel tr h x = Inr (Some (if ys = [] then 0 else hd ys))"
  proof (cases "r = Tip")
    case True
    then have "rb_right (h x) = ?s" using x(5) by simp
    then show ?thesis using climb_ok [of h ?s "rb_root tr" fs p x fuel] sp x(2-4) hl(1) x(1) le True ys
      by (simp add: rbtree_next_def rd_def)
  next
    case False
    then have "rb_right (h x) \<noteq> ?s" using x(5) shape_pointer by fastforce
    moreover have "rbtree_min fuel ?s h (rb_right (h x)) = Inr (Some (hd (inorder r)))"
      using rbtree_min_ok [OF x(5) False] le by simp
    moreover have "inorder r \<noteq> []" using False by (cases r) auto
    ultimately show ?thesis using x(2) ys by (simp add: rbtree_next_def rd_def hd_append)
  qed
qed

end
