(* ===== verification/Spec2Isabelle.thy ===== *)
theory Spec2Isabelle
  imports Sending Handshake Events Kstr Sts Totp Tls_Messages Tls_Stream Handler_Layout Inventory_Session Login_Progress Rb_Tree
begin

text \<open>
  Headquarter is a client of the game Guild Wars without graphics: it logs in through a portal,
  connects to an authentication server and to game servers over an encrypted stream of packed
  messages, keeps the state of the game and offers it to plugins. This development models the
  code under \<^verbatim>\<open>src/code\<close> as functions on explicit state and proves what makes its parts
  correct, and where they are not, what goes wrong.

  How the parts fit. A message is a C structure. \<^verbatim>\<open>SendPacket\<close> packs it by the field list of its
  format into the output buffer, \<^verbatim>\<open>NetConn_Send\<close> encrypts the buffer and sends it;
  \<^verbatim>\<open>NetConn_Recv\<close> decrypts what arrives behind the input buffer and
  \<^verbatim>\<open>NetConn_DispatchPackets\<close> unpacks message after message and calls the handler of its
  header. Handlers change the state of the game and broadcast events to the plugins.

  Conventions of the model. A result is \<open>fault + 'a\<close>: \<open>Inl\<close> is an access outside of a block, a
  null dereference or a failed assertion (theory Prelude), so a theorem that gives an \<open>Inr\<close> also says
  that none of them happens. A pointer into a block is the list of what follows it. Machine integers are
  words where they wrap or are stored; a \<^verbatim>\<open>size_t\<close> is a natural number with explicit wrap-around
  (\<open>sz_add\<close>, \<open>sz_sub\<close>, \<open>sz_mul\<close>, theory Dyn_Array). Allocation, the system calls, the clock and the
  functions of other libraries are arguments of the definitions.

  Theories and the code they model (paths under \<^verbatim>\<open>src/code\<close>):
  \<^item> Prelude: faults, their monad, blocks of memory, bounds-checked reads and writes.
  \<^item> Endian: \<^verbatim>\<open>common/endian.h\<close>; decoders invert encoders.
  \<^item> Dyn_Array: \<^verbatim>\<open>common/array.c\<close>, \<^verbatim>\<open>array.h\<close>; invariant \<open>arr_ok\<close>, abstraction \<open>contents\<close>; every
    operation against it, failing allocators included, and the faults of ordered removal. The locale
    \<open>growable\<close> is what append-only users rely on.
  \<^item> Linked_List, Events: \<^verbatim>\<open>common/list.h\<close> on a heap of links, refined to lists by \<open>ring\<close>; the event manager
    (\<^verbatim>\<open>client/event.c\<close>) and the registration functions (\<^verbatim>\<open>client/api.c\<close>) over it. The loop of
    \<open>broadcast_event\<close> has fuel because a callback may change the list; the number of entries is enough
    when each callback at most unregisters itself.
  \<^item> Arc4, Hashing: \<^verbatim>\<open>client/arc4.c\<close>, the key hash of \<^verbatim>\<open>client/network.c\<close>, \<^verbatim>\<open>common/hash.h\<close>. The table
    stays a permutation; the locale \<open>stream_cipher\<close> gives the round trip of streams.
  \<^item> Kstr, Uuid: \<^verbatim>\<open>client/kstr.c\<close>, \<^verbatim>\<open>common/uuid.h\<close>.
  \<^item> Msg_Format, Packets_Auth, Packets_Game_Client, Packets_Game_Server: \<^verbatim>\<open>client/packets.h\<close> and the 774
    formats of \<^verbatim>\<open>client/packets.c\<close>, checked for consistency by evaluation.
  \<^item> Msg_Codec: \<^verbatim>\<open>pack\<close> and \<^verbatim>\<open>unpack\<close> of \<^verbatim>\<open>client/network.c\<close>. Codec_Safety bounds what they access for
    arbitrary bytes, Codec_Spec relates them to the wire form and the memory image of a message,
    Codec_Stream treats incomplete messages and full buffers.
  \<^item> Connection: the connection of \<^verbatim>\<open>client/network.c\<close> and its operations. Dispatch refines receiving to the
    delivery of a list of messages, Sending does the same for the other direction.
  \<^item> Handshake: the key exchange and both connect functions of \<^verbatim>\<open>client/network.c\<close>; agreement of the
    keys, and the two outcomes of connecting.
  \<^item> Portal_Stream, Sts: the portal client below TLS, \<^verbatim>\<open>portal/stream.c\<close>, \<^verbatim>\<open>portal/socket.c\<close> and
    \<^verbatim>\<open>portal/sts.c\<close>: bounded readers and writers over the growable array, complete sending, and the
    text protocol with its parser of replies; what the writers write, what the parser reads, and
    where the wait for a reply goes wrong.
  \<^item> Totp: one-time passwords of \<^verbatim>\<open>portal/totp.c\<close>; the code computed is the one of RFC 6238.
  \<^item> Prf: \<^verbatim>\<open>portal/prf.c\<close>, equal to the pseudo random function of RFC 5246.
  \<^item> Tls_Base, Tls_Record, Tls_Messages, Tls_Stream: the TLS-SRP client \<^verbatim>\<open>portal/ssl.c\<close>. Its
    operations are functions from the connection to an error or a result and the new connection; an
    operation that waits for bytes that never come is a value of its own. The functions of mbedtls are
    the fields of a record \<^verbatim>\<open>library\<close>. Tls_Base holds the state, the passwords and the triples
    \<^verbatim>\<open>runs\<close> of the proofs; Tls_Record the record layer; Tls_Messages the handshake; Tls_Stream the
    delivery of data by the record layer and the numbers of the records.
  \<^item> Handler_Structs, Handler_Layout: the structures through which handlers and senders read and
    build messages, the checks at the entry of the handlers and the two registration tables; each
    structure against the format of its message.
  \<^item> World: the objects of the game in heaps and arrays as \<^verbatim>\<open>client/world.h\<close> has them, their
    creation and release. Items, Bag_Table, Inventory, Inventory_Session: \<^verbatim>\<open>client/item.c\<close>; the table
    of the bags probes with a hash and refines a finite map, and sessions of messages keep items,
    slots and bags consistent.
  The root theory joins them: the formats with the codec, both directions of a connection into the
  end-to-end theorem, and the properties that span components.

  Not modelled: the operating system layer (files, threads, clocks, logging), loading of plugins and
  the plugins themselves, command line and start-up, the programming interface in \<^verbatim>\<open>client/api.c\<close>
  except for the registration of events, vendored libraries, scripts and tests. Planned: the
  red-black tree and the timers, the login of the portal, and the rest of the handlers that keep the state of the game.
\<close>

section \<open>The messages of the program\<close>

definition all_formats :: "msg_format list" where
  "all_formats = AUTH_CLIENT_FORMATS @ AUTH_SERVER_FORMATS @ GAME_CLIENT_FORMATS @ GAME_SERVER_FORMATS"

lemma table_ok_member: "table_ok i ms \<Longrightarrow> m \<in> set ms \<Longrightarrow> \<exists>j. format_ok j m"
  by (metis in_set_conv_nth table_ok_nth)

lemma all_formats_ok:
  assumes "m \<in> set all_formats"
  shows "mf_count m = length (mf_fields m)" "fields_ok (mf_fields m)"
    "struct_size (mf_fields m) = mf_unpack_size m"
proof -
  obtain j where "format_ok j m"
    using assms table_ok_member table_ok_AUTH_CLIENT_FORMATS table_ok_AUTH_SERVER_FORMATS
      table_ok_GAME_CLIENT_FORMATS table_ok_GAME_SERVER_FORMATS
    unfolding all_formats_def set_append Un_iff by metis
  then show "mf_count m = length (mf_fields m)" "fields_ok (mf_fields m)"
    "struct_size (mf_fields m) = mf_unpack_size m"
    by (auto simp: format_ok_def split: list.splits)
qed

text \<open>
  C3. The format tables of the program are consistent: in each of the four tables the header of
  a format is its index, the first field is that header, the field count is the length of the
  field array, the fields are well formed and the unpack size is the size of the structure.
\<close>

theorem format_tables_consistent:
  "table_ok 0 AUTH_CLIENT_FORMATS \<and> table_ok 0 AUTH_SERVER_FORMATS \<and>
   table_ok 0 GAME_CLIENT_FORMATS \<and> table_ok 0 GAME_SERVER_FORMATS \<and>
   length AUTH_CLIENT_FORMATS = 57 \<and> length AUTH_SERVER_FORMATS = 39 \<and>
   length GAME_CLIENT_FORMATS = 193 \<and> length GAME_SERVER_FORMATS = 485"
  by (simp add: table_ok_AUTH_CLIENT_FORMATS table_ok_AUTH_SERVER_FORMATS
      table_ok_GAME_CLIENT_FORMATS table_ok_GAME_SERVER_FORMATS)


abbreviation sample_msg :: "mval list" where
  "sample_msg \<equiv> [VFix [1, 0], VStr [104, 105], VStr []]"

lemma sample_message:
  "fmt 1 3 AUTH_CLIENT_0001 130 \<in> set all_formats"
  "msg_ok AUTH_CLIENT_0001 sample_msg" "rows_step_ok AUTH_CLIENT_0001 sample_msg"
  "wire sample_msg = [1, 0, 2, 0, 104, 0, 105, 0, 0, 0]"
  by (simp_all add: all_formats_def AUTH_CLIENT_FORMATS_def AUTH_CLIENT_FORMATS_0_def
      AUTH_CLIENT_0001_def get_element_size.simps le16enc_def)


section \<open>Connections\<close>

text \<open>A connection with empty buffers, for the concrete instances: the same table both ways.\<close>

abbreviation sample_cipher :: arc4_context where
  "sample_cipher \<equiv> \<lparr>arc4_x = 0, arc4_y = 0, arc4_m = map of_nat [0..<256]\<rparr>"

abbreviation sample_buffer :: "u8 carray" where
  "sample_buffer \<equiv> \<lparr>arr_capacity = 5840, arr_size = 0, arr_data = replicate 5840 0\<rparr>"

definition sample_conn :: "msg_format list \<Rightarrow> connection" where
  "sample_conn ms = \<lparr>conn_flags = 0, conn_proto = ConnectionType_Auth, conn_t0 = 0,
     conn_host = (2, []), conn_fd = 3, conn_ping = 0, conn_pong = 0, conn_latency = 0,
     conn_last_tick_time = 0, conn_mutex = 0, conn_in = sample_buffer, conn_out = sample_buffer,
     conn_secured = True, conn_decrypt = sample_cipher, conn_encrypt = sample_cipher,
     conn_server_msg_format = ms, conn_client_msg_format = ms,
     conn_handlers = \<lparr>arr_capacity = 57, arr_size = 57, arr_data = replicate 57 (Some 0)\<rparr>\<rparr>"

definition record_packet :: "(nat \<times> bytes) list runner" where
  "record_packet h n p s = Inr (fst s @ [(h, p)], snd s)"

lemma sample_conn_ok:
  "receiving (sample_conn ms)" "arc4_ok (conn_encrypt (sample_conn ms))" "arr_ok (conn_out (sample_conn ms))"
  "conn_secured (sample_conn ms)" "conn_flags (sample_conn ms) AND NETCONN_REMOVE = 0"
  "contents (conn_out (sample_conn ms)) = []" "contents (conn_in (sample_conn ms)) = []"
  "conn_decrypt (sample_conn ms) = conn_encrypt (sample_conn ms)"
  "arr_capacity (conn_out (sample_conn ms)) = 5840" "arr_capacity (conn_in (sample_conn ms)) = 5840"
  using byte_table
  by (simp_all add: sample_conn_def receiving_def arr_ok_def SZ_def arc4_ok_def contents_def)

lemma record_packet_ok: "quiet record_packet" "blind record_packet" "no_memory_fault (record_packet h n p s)"
  by (auto simp: quiet_def blind_def record_packet_def with_recv_def)

lemma sample_message_ok:
  "sendable (sample_conn AUTH_CLIENT_FORMATS) (fmt 1 3 AUTH_CLIENT_0001 130, sample_msg)"
  "known (sample_conn AUTH_CLIENT_FORMATS) (fmt 1 3 AUTH_CLIENT_0001 130, sample_msg)"
proof -
  have "AUTH_CLIENT_FORMATS ! 1 = fmt 1 3 AUTH_CLIENT_0001 130"
    by (simp add: AUTH_CLIENT_FORMATS_def AUTH_CLIENT_FORMATS_0_def)
  moreover have "format_ok 1 (AUTH_CLIENT_FORMATS ! 1)"
    using table_ok_nth [OF table_ok_AUTH_CLIENT_FORMATS, of 1] by simp
  ultimately show "sendable (sample_conn AUTH_CLIENT_FORMATS) (fmt 1 3 AUTH_CLIENT_0001 130, sample_msg)"
    "known (sample_conn AUTH_CLIENT_FORMATS) (fmt 1 3 AUTH_CLIENT_0001 130, sample_msg)"
    using sample_message(2,3)
    by (auto simp: sendable_def known_def sample_conn_def le16enc_def intro!: exI [of _ "1 :: u16"])
qed





text \<open>
  C5. Two formats of the authentication server unpack to 4102 bytes, more than the packet buffer
  holds: the two bytes of header 4 or 23 make NetConn_DispatchPackets clear memory past the end
  of the buffer on its stack, before the rest of the message has arrived.
\<close>

theorem auth_dispatch_overflows:
  assumes "conn_server_msg_format c = AUTH_SERVER_FORMATS" "arr_ok (conn_in c)" "2 \<le> arr_size (conn_in c)"
    and "take 2 (contents (conn_in c)) \<in> {[4, 0], [23, 0]}" "length buffer = 4096"
  shows "NetConn_DispatchPackets run buffer (w, c) = Inl OutOfBounds"
proof -
  obtain h :: nat where h: "h \<in> {4, 23}" "take 2 (arr_data (conn_in c)) = [of_nat h, 0]"
    using assms(3,4) that [of 4] that [of 23] by (auto simp: contents_def min_def)
  then have "arr_data (conn_in c) = of_nat h # 0 # drop 2 (arr_data (conn_in c))"
    by (metis append.left_neutral append_Cons append_take_drop_id)
  then have "le16dec (arr_data (conn_in c)) = le16dec (of_nat h # 0 # drop 2 (arr_data (conn_in c)))"
    by (rule arg_cong)
  moreover have "le16dec (of_nat h # 0 # drop 2 (arr_data (conn_in c))) = Inr (of_nat h)"
    using h(1) by auto
  ultimately have "le16dec (arr_data (conn_in c)) = Inr (of_nat h)" by (rule trans)
  moreover have "mf_header (AUTH_SERVER_FORMATS ! h) = h" "mf_unpack_size (AUTH_SERVER_FORMATS ! h) = 4102"
    using h(1) by (auto simp: AUTH_SERVER_FORMATS_def AUTH_SERVER_FORMATS_0_def)
  ultimately show ?thesis
    using assms(1,3,5) h(1)
    by (auto simp: NetConn_DispatchPackets_def dispatch_loop.simps mem_write_def)
qed

theorem auth_dispatch_overflows_witness:
  "NetConn_DispatchPackets record_packet (replicate 4096 0) ([], (sample_conn AUTH_SERVER_FORMATS)
     \<lparr>conn_in := \<lparr>arr_capacity = 5840, arr_size = 2, arr_data = [23, 0] @ replicate 5838 0\<rparr>\<rparr>) = Inl OutOfBounds"
  by (rule auth_dispatch_overflows) (simp_all add: sample_conn_def arr_ok_def SZ_def contents_def)

text \<open>
  C14. When the system accepts only a part of the bytes, NetConn_Send leaves the rest in the
  output buffer encrypted, and the next NetConn_Send encrypts these bytes a second time, with
  later bytes of the key stream. What it then sends is not the encryption of the messages.
\<close>

theorem partial_send_encrypts_twice:
  assumes "conn_secured c" "conn_flags c AND NETCONN_REMOVE = 0" "arr_ok (conn_out c)" "arc4_ok (conn_encrypt c)"
    and "arc4_crypt (conn_encrypt c) (contents (conn_out c)) = Inr (ctx, enc)"
    and "send1 enc = int n" "n < length enc" "\<And>bs. send2 bs = int (length bs)"
  shows "\<exists>c1 c2 ctx2 enc2. NetConn_Send send1 c = Inr (c1, take n enc) \<and>
    contents (conn_out c1) = drop n enc \<and> NetConn_Send send2 c1 = Inr (c2, enc2) \<and>
    arc4_crypt ctx (drop n enc) = Inr (ctx2, enc2)"
proof -
  have len: "length enc = length (contents (conn_out c))" and ok: "arc4_ok ctx"
    using arc4_crypt_ok [OF assms(4), of "contents (conn_out c)"] assms(5) by auto
  obtain a where a: "arr_ok a" "contents a = drop n enc"
    "NetConn_Send send1 c = Inr (c\<lparr>conn_encrypt := ctx, conn_out := a\<rparr>, take n enc)"
    using NetConn_Send_bytes [OF assms(1-3,5) len, of send1 n] assms(6,7) by auto
  obtain ctx2 enc2 where e: "arc4_crypt ctx (drop n enc) = Inr (ctx2, enc2)" "length enc2 = length (drop n enc)"
    using arc4_crypt_ok [OF ok, of "drop n enc"] by blast
  let ?c1 = "c\<lparr>conn_encrypt := ctx, conn_out := a\<rparr>"
  have "\<exists>a. arr_ok a \<and> contents a = drop (length enc2) enc2 \<and> arr_capacity a = arr_capacity (conn_out ?c1) \<and>
      NetConn_Send send2 ?c1 = Inr (?c1\<lparr>conn_encrypt := ctx2, conn_out := a\<rparr>, take (length enc2) enc2)"
    using assms(1,2,8) a e by (intro NetConn_Send_bytes) simp_all
  then show ?thesis using a e by auto
qed

theorem partial_send_encrypts_twice_witness:
  "\<exists>c ctx enc c1 c2 ctx2 enc2. contents (conn_out c) = [7, 9] \<and>
    arc4_crypt (conn_encrypt c) [7, 9] = Inr (ctx, enc) \<and>
    NetConn_Send (\<lambda>_. 1) c = Inr (c1, take 1 enc) \<and> contents (conn_out c1) = drop 1 enc \<and>
    NetConn_Send (\<lambda>bs. int (length bs)) c1 = Inr (c2, enc2) \<and> arc4_crypt ctx (drop 1 enc) = Inr (ctx2, enc2)"
proof -
  let ?c = "(sample_conn [])\<lparr>conn_out := \<lparr>arr_capacity = 5840, arr_size = 2, arr_data = [7, 9] @ replicate 5838 0\<rparr>\<rparr>"
  have c: "contents (conn_out ?c) = [7, 9]" by (simp add: contents_def)
  have ok: "arc4_ok (conn_encrypt ?c)" using sample_conn_ok(2) [of "[]"] by (simp add: sample_conn_def)
  obtain ctx enc where e: "arc4_crypt (conn_encrypt ?c) [7, 9] = Inr (ctx, enc)" "length enc = 2"
    using arc4_crypt_ok [OF ok, of "[7, 9]"] by auto
  have "\<exists>c1 c2 ctx2 enc2. NetConn_Send (\<lambda>_. 1) ?c = Inr (c1, take 1 enc) \<and>
      contents (conn_out c1) = drop 1 enc \<and> NetConn_Send (\<lambda>bs. int (length bs)) c1 = Inr (c2, enc2) \<and>
      arc4_crypt ctx (drop 1 enc) = Inr (ctx2, enc2)"
    by (rule partial_send_encrypts_twice)
      (use e c ok in \<open>simp_all add: arr_ok_def SZ_def sample_conn_def\<close>)
  with c e(1) show ?thesis by blast
qed



text \<open>
  C6. A message of which only a part has arrived is left alone: unpacking reports that nothing was
  read, for every format of the program and every proper prefix of the wire form.
\<close>

theorem incomplete_message_waits:
  assumes "m \<in> set all_formats" "msg_ok (mf_fields m) vs" "n < length (wire vs)" "mf_unpack_size m \<le> k"
  shows "\<exists>b. NetMsg_Unpack (take n (wire vs)) n (replicate k 0) pack_size m = Inr (0, b)"
proof -
  note ok = all_formats_ok [OF assms(1)]
  have "length (take n (wire vs)) = n" using assms(3) by simp
  then show ?thesis
    using NetMsg_Unpack_part [OF ok(1,2) assms(2), of "take n (wire vs)" "drop n (wire vs)" "take n (wire vs)" k
        "replicate k 0" pack_size] assms(3,4) ok(3) by simp
qed

theorem incomplete_message_waits_witness:
  "\<exists>b. NetMsg_Unpack [1, 0, 2, 0, 104] 5 (replicate 130 0) 130 (fmt 1 3 AUTH_CLIENT_0001 130) = Inr (0, b)"
proof -
  have w: "length (wire sample_msg) = 10" "take 5 (wire sample_msg) = [1, 0, 2, 0, 104]"
    by (simp_all only: sample_message(4)) simp_all
  show ?thesis
    using incomplete_message_waits [OF sample_message(1), unfolded fmt_sel, OF sample_message(2), of 5 130 130]
    unfolding w by simp
qed

text \<open>
  C16. Packing a nested array repeats its first row: between the rows the code moves on by the
  member size of the field, which is 0 in the tables, so the other rows are never read.
\<close>

theorem nested_rows_repeat_first:
  assumes "fd_type f = TYPE_NESTED_STRUCT" "fd_size f = 0" "list_all fixed_field fs" "fs \<noteq> []"
    and "length r = struct_size fs" "0 < n" "n \<le> fd_param f" "fd_param f \<le> 255"
    and "1 + n * length r \<le> k"
  shows "pack_fields (le32enc (of_nat n) @ r @ rows) data_size (replicate k 0) k 0 0 (f # fs) =
    Inr (Some (1 + n * length r), of_nat n # concat (replicate n r) @ replicate (k - (1 + n * length r)) 0)"
proof -
  let ?data = "le32enc (of_nat n) @ r @ rows"
  let ?buf = "overlay (replicate k (0 :: u8)) 0 [of_nat n]"
  have p: "get_prefix_size (fd_type f) = 1" using assms(1) by (simp add: get_prefix_size.simps)
  have u: "unat (of_nat n :: u32) = n" using assms(7,8) by (simp add: le32_word_exact)
  have pre: "pack_prefix f ?data (replicate k 0) k 0 0 = Inr (Some (n, fd_param f, 4, 1, ?buf))"
    using assms(1,6-9) p u by (simp add: pack_prefix_def Let_def)
  have rows: "pack_rows ?data data_size ?buf k 4 1 n 0 fs =
      Inr (Some (1 + n * length r), overlay ?buf 1 (concat (replicate n r)))"
    using assms(3,5,9) by (intro pack_rows_repeat [of _ _ _ _ rows]) simp_all
  have l: "length (concat (replicate n r)) = n * length r" by (induction n) auto
  have "overlay ?buf 1 (concat (replicate n r)) =
      of_nat n # concat (replicate n r) @ replicate (k - (1 + n * length r)) 0"
    using l assms(9) by (simp add: overlay_def)
  then show ?thesis using pre rows assms(1,2,4) by simp
qed

theorem nested_rows_repeat_first_witness:
  "pack_fields [2, 0, 0, 0, 7, 1, 0, 0, 0, 8, 2, 0, 0, 0] 37 (replicate 11 0) 11 0 0 (drop 2 GAME_CLIENT_0112) =
    Inr (Some 11, [2, 7, 1, 0, 0, 0, 7, 1, 0, 0, 0])"
proof -
  let ?f = "fld TYPE_NESTED_STRUCT 6" and ?fs = "[fld TYPE_BYTE 0, fld TYPE_DWORD 0]" and ?r = "[7, 1, 0, 0, 0] :: bytes"
  have pre: "fd_type ?f = TYPE_NESTED_STRUCT" "fd_size ?f = 0" "list_all fixed_field ?fs" "?fs \<noteq> []"
    "length ?r = struct_size ?fs" "0 < (2 :: nat)" "2 \<le> fd_param ?f" "fd_param ?f \<le> 255"
    "1 + 2 * length ?r \<le> 11"
    by (simp_all add: flat_size_def static_count_def get_element_size.simps)
  have two: "replicate 2 ?r = [?r, ?r]" by (simp add: numeral_2_eq_2)
  have eqs: "drop 2 GAME_CLIENT_0112 = ?f # ?fs" "1 + 2 * length ?r = 11"
    "le32enc (of_nat 2) @ ?r @ [8, 2, 0, 0, 0] = [2, 0, 0, 0, 7, 1, 0, 0, 0, 8, 2, 0, 0, 0]"
    unfolding two by (simp_all add: GAME_CLIENT_0112_def le32enc_def)
  from nested_rows_repeat_first [OF pre, of "[8, 2, 0, 0, 0]" 37, unfolded eqs(2,3) two] show ?thesis
    unfolding eqs(1) by simp
qed

end
